(* ===== verification/Prelude.thy ===== *)
theory Prelude
  imports Complex_Main "HOL-Library.AList" "HOL-Library.Char_ord" "HOL-Library.List_Lexorder"
    "HOL-Library.Log_Nat" "HOL-Library.Word"
begin

text \<open>
  What the components share: the C++ floating-point numbers (\<open>fp\<close>, with the binary32 and
  binary64 roundings written out), the standard containers as association lists, byte strings,
  and five interfaces: a system whose steps keep an invariant (\<open>invariant_machine\<close>), a
  system that settles a key at most once (\<open>once_ledger\<close>), one that settles several at a step
  (\<open>batch_ledger\<close>), a client that mirrors a
  view of a server's state from its replies (\<open>mirror_machine\<close>), and a reader that is fed a
  stream piece by piece (\<open>chunk_reader\<close>).
\<close>

named_theorems frame \<open>fields an operation leaves alone\<close>
named_theorems um_simps \<open>lookup laws of the association-list containers\<close>
named_theorems fp_simps \<open>sign and order of rounded arithmetic\<close>

section \<open>Floating point\<close>

text \<open>
  A \<open>float\<close> or \<open>double\<close> is not-a-number, an infinity (the flag is its sign, true for
  negative), or a rational. Signed zeros are one value: no modelled operation distinguishes them.
\<close>

datatype fp = NaN | Infinity bool | Fin rat

instantiation fp :: ord
begin

fun less_fp :: "fp \<Rightarrow> fp \<Rightarrow> bool" where
  "less_fp NaN y = False"
| "less_fp x NaN = False"
| "less_fp (Fin a) (Fin b) = (a < b)"
| "less_fp (Infinity s) (Fin b) = s"
| "less_fp (Fin a) (Infinity t) = (\<not> t)"
| "less_fp (Infinity s) (Infinity t) = (s \<and> \<not> t)"

definition less_eq_fp :: "fp \<Rightarrow> fp \<Rightarrow> bool" where
  "less_eq_fp x y = (x < y \<or> (x = y \<and> x \<noteq> NaN))"

instance ..

end

lemma fp_le_Fin [simp]: "(Fin a \<le> Fin b) = (a \<le> b)"
  by (auto simp: less_eq_fp_def)

lemma fp_less_irrefl [simp]: "\<not> (x :: fp) < x"
  by (cases x) auto

lemma fp_less_trans: "(x :: fp) < y \<Longrightarrow> y < z \<Longrightarrow> x < z"
  by (cases x; cases y; cases z) auto

text \<open>\<open>operator==\<close> and \<open>operator!=\<close>: NaN differs from everything.\<close>

definition feq :: "fp \<Rightarrow> fp \<Rightarrow> bool" where
  "feq x y = (x = y \<and> x \<noteq> NaN)"

text \<open>\<open>std::isfinite\<close>, \<open>std::max\<close>, \<open>std::clamp\<close>, with the comparisons the library makes.\<close>

fun fp_finite :: "fp \<Rightarrow> bool" where
  "fp_finite (Fin q) = True"
| "fp_finite x = False"

definition fmax :: "fp \<Rightarrow> fp \<Rightarrow> fp" where
  "fmax a b = (if a < b then b else a)"

definition fclamp :: "fp \<Rightarrow> fp \<Rightarrow> fp \<Rightarrow> fp" where
  "fclamp v lo hi = (if v < lo then lo else if hi < v then hi else v)"

fun fp_neg :: "fp \<Rightarrow> fp" where
  "fp_neg NaN = NaN"
| "fp_neg (Infinity s) = Infinity (\<not> s)"
| "fp_neg (Fin q) = Fin (- q)"

subsection \<open>Rounding to binary32 and binary64\<close>

text \<open>The exponent of the leading bit of a positive rational.\<close>

definition ilog2 :: "rat \<Rightarrow> int" where
  "ilog2 x = (let (a, b) = quotient_of x; k = bitlen a - bitlen b
     in if x < 2 powi k then k - 1 else k)"

definition half_even :: "rat \<Rightarrow> int" where
  "half_even x = (let n = \<lfloor>x\<rfloor>; r = x - of_int n in
     if r < 1 / 2 then n else if 1 / 2 < r then n + 1 else if even n then n else n + 1)"

text \<open>
  Round to nearest, ties to even, with \<open>p\<close> significand bits, least quantum \<open>2 ^ emin\<close> and
  overflow to infinity at \<open>2 ^ emax\<close>.
\<close>

definition fp_round :: "int \<Rightarrow> int \<Rightarrow> int \<Rightarrow> rat \<Rightarrow> fp" where
  "fp_round p emin emax x =
     (if x = 0 then Fin 0
      else let e = max emin (ilog2 \<bar>x\<bar> - (p - 1));
               y = of_int (half_even (x / 2 powi e)) * 2 powi e
           in if 2 powi emax \<le> \<bar>y\<bar> then Infinity (x < 0) else Fin y)"

definition f32 :: "rat \<Rightarrow> fp" where
  "f32 = fp_round 24 (-149) 128"

definition f64 :: "rat \<Rightarrow> fp" where
  "f64 = fp_round 53 (-1074) 1024"

text \<open>Casts: \<open>static_cast<float>\<close> of a double and of an integer.\<close>

fun f32_of_f64 :: "fp \<Rightarrow> fp" where
  "f32_of_f64 (Fin q) = f32 q"
| "f32_of_f64 x = x"

definition f32_of_int :: "int \<Rightarrow> fp" where
  "f32_of_int i = f32 (of_int i)"

definition f64_of_int :: "int \<Rightarrow> fp" where
  "f64_of_int i = f64 (of_int i)"

text \<open>Arithmetic: the exact result, rounded by \<open>r\<close>.\<close>

fun fp_add :: "(rat \<Rightarrow> fp) \<Rightarrow> fp \<Rightarrow> fp \<Rightarrow> fp" where
  "fp_add r NaN y = NaN"
| "fp_add r x NaN = NaN"
| "fp_add r (Fin a) (Fin b) = r (a + b)"
| "fp_add r (Infinity s) (Fin b) = Infinity s"
| "fp_add r (Fin a) (Infinity t) = Infinity t"
| "fp_add r (Infinity s) (Infinity t) = (if s = t then Infinity s else NaN)"

definition fp_sub :: "(rat \<Rightarrow> fp) \<Rightarrow> fp \<Rightarrow> fp \<Rightarrow> fp" where
  "fp_sub r x y = fp_add r x (fp_neg y)"

fun fp_mul :: "(rat \<Rightarrow> fp) \<Rightarrow> fp \<Rightarrow> fp \<Rightarrow> fp" where
  "fp_mul r NaN y = NaN"
| "fp_mul r x NaN = NaN"
| "fp_mul r (Fin a) (Fin b) = r (a * b)"
| "fp_mul r (Infinity s) (Fin b) = (if b = 0 then NaN else Infinity (s \<noteq> (b < 0)))"
| "fp_mul r (Fin a) (Infinity t) = (if a = 0 then NaN else Infinity (t \<noteq> (a < 0)))"
| "fp_mul r (Infinity s) (Infinity t) = Infinity (s \<noteq> t)"

text \<open>Division; every division of the code has a divisor that is a non-zero finite number.\<close>

fun fp_div :: "(rat \<Rightarrow> fp) \<Rightarrow> fp \<Rightarrow> fp \<Rightarrow> fp" where
  "fp_div r NaN y = NaN"
| "fp_div r x NaN = NaN"
| "fp_div r (Fin a) (Fin b) =
     (if b = 0 then (if a = 0 then NaN else Infinity (a < 0)) else r (a / b))"
| "fp_div r (Infinity s) (Fin b) = Infinity (s \<noteq> (b < 0))"
| "fp_div r (Fin a) (Infinity t) = Fin 0"
| "fp_div r (Infinity s) (Infinity t) = NaN"

abbreviation "fadd32 \<equiv> fp_add f32"
abbreviation "fsub32 \<equiv> fp_sub f32"
abbreviation "fmul32 \<equiv> fp_mul f32"
abbreviation "fdiv32 \<equiv> fp_div f32"
abbreviation "fsub64 \<equiv> fp_sub f64"

text \<open>\<open>fp_nonneg\<close> is "not NaN and not below zero".\<close>

definition fp_nonneg :: "fp \<Rightarrow> bool" where
  "fp_nonneg x = (Fin 0 \<le> x)"

lemma fp_nonneg_cases [simp]:
  "fp_nonneg (Fin q) = (0 \<le> q)" "fp_nonneg NaN = False" "fp_nonneg (Infinity s) = (\<not> s)"
  by (auto simp: fp_nonneg_def less_eq_fp_def)

lemma half_even_nonneg: "0 \<le> x \<Longrightarrow> 0 \<le> half_even x"
  by (simp add: half_even_def Let_def)

lemma fp_round_nonneg [fp_simps]: "0 \<le> x \<Longrightarrow> fp_nonneg (fp_round p emin emax x)"
  by (auto simp: fp_round_def Let_def not_less zero_le_power_int intro!: half_even_nonneg mult_nonneg_nonneg)

lemma f32_nonneg [fp_simps]: "0 \<le> x \<Longrightarrow> fp_nonneg (f32 x)"
  by (simp add: f32_def fp_simps)

lemma f64_nonneg [fp_simps]: "0 \<le> x \<Longrightarrow> fp_nonneg (f64 x)"
  by (simp add: f64_def fp_simps)

lemma f32_zero [simp]: "f32 0 = Fin 0"
  by (simp add: f32_def fp_round_def)

lemma fp_add32_nonneg [fp_simps]:
  "fp_nonneg x \<Longrightarrow> fp_nonneg y \<Longrightarrow> fp_nonneg (fp_add f32 x y)"
  by (cases x; cases y) (auto simp: fp_simps)

lemma fp_nonneg_less: "Fin 0 < x \<Longrightarrow> fp_nonneg x"
  by (cases x) auto

lemma fmax_nonneg [fp_simps]: "fp_nonneg a \<Longrightarrow> fp_nonneg (fmax a b)"
  by (cases a; cases b) (auto simp: fmax_def)

lemma fmax_zero_nonneg [fp_simps]: "fp_nonneg (fmax (Fin 0) b)"
  by (simp add: fmax_nonneg)

lemma fmax_ge: "a \<noteq> NaN \<Longrightarrow> a \<le> fmax a b"
  by (auto simp: fmax_def less_eq_fp_def)

text \<open>
  \<open>std::lround\<close>: to the nearest integer, halves away from zero. Its value outside the range of
  \<open>long\<close> is unspecified; every use checks the range or rounds a rating.
\<close>

fun lround :: "fp \<Rightarrow> int" where
  "lround (Fin q) = (if 0 \<le> q then \<lfloor>q + 1 / 2\<rfloor> else - \<lfloor>1 / 2 - q\<rfloor>)"
| "lround x = 0"

section \<open>Containers\<close>

text \<open>
  \<open>std::map\<close>, \<open>std::unordered_map\<close>: an association list with distinct keys, looked up by
  \<open>map_of\<close>. An iteration visits the entries in list order, one of the orders the standard
  allows for an unordered container; \<open>operator[]\<close> assignment is \<open>um_put\<close> (it keeps an
  existing entry's place), \<open>emplace\<close> and \<open>insert\<close> leave an existing key alone.
\<close>

type_synonym ('k, 'v) umap = "('k \<times> 'v) list"

abbreviation um_put :: "'k \<Rightarrow> 'v \<Rightarrow> ('k, 'v) umap \<Rightarrow> ('k, 'v) umap" where
  "um_put \<equiv> AList.update"

abbreviation um_erase :: "'k \<Rightarrow> ('k, 'v) umap \<Rightarrow> ('k, 'v) umap" where
  "um_erase \<equiv> AList.delete"

definition um_emplace :: "'k \<Rightarrow> 'v \<Rightarrow> ('k, 'v) umap \<Rightarrow> ('k, 'v) umap" where
  "um_emplace k v m = (if map_of m k = None then m @ [(k, v)] else m)"

definition um_has :: "('k, 'v) umap \<Rightarrow> 'k \<Rightarrow> bool" where
  "um_has m k = (map_of m k \<noteq> None)"

definition um_inv :: "('k, 'v) umap \<Rightarrow> bool" where
  "um_inv m = distinct (map fst m)"

lemma map_of_um_put [um_simps]: "map_of (um_put k v m) = (map_of m)(k \<mapsto> v)"
  by (rule update_conv')

lemma map_of_um_erase [um_simps]: "map_of (um_erase k m) = (map_of m)(k := None)"
  by (rule delete_conv')

lemma map_of_um_emplace [um_simps]:
  "map_of (um_emplace k v m) k' = (if k' = k \<and> map_of m k = None then Some v else map_of m k')"
  by (auto simp: um_emplace_def map_add_def split: option.splits)

lemma um_has_put [um_simps]: "um_has (um_put k v m) k' = (k' = k \<or> um_has m k')"
  by (simp add: um_has_def um_simps)

lemma um_has_erase [um_simps]: "um_has (um_erase k m) k' = (k' \<noteq> k \<and> um_has m k')"
  by (simp add: um_has_def um_simps)

lemma um_has_emplace [um_simps]: "um_has (um_emplace k v m) k' = (k' = k \<or> um_has m k')"
  by (auto simp: um_has_def um_simps)

lemma um_has_Nil [simp]: "\<not> um_has [] k"
  by (simp add: um_has_def)

lemma um_has_keys: "um_has m k = (k \<in> fst ` set m)"
  by (simp add: um_has_def map_of_eq_None_iff)

lemma um_inv_Nil [simp]: "um_inv []"
  by (simp add: um_inv_def)

lemma um_inv_put [um_simps]: "um_inv m \<Longrightarrow> um_inv (um_put k v m)"
  by (simp add: um_inv_def distinct_update)

lemma um_inv_erase [um_simps]: "um_inv m \<Longrightarrow> um_inv (um_erase k m)"
  by (simp add: um_inv_def distinct_delete)

lemma um_inv_emplace [um_simps]: "um_inv m \<Longrightarrow> um_inv (um_emplace k v m)"
  by (auto simp: um_inv_def um_emplace_def map_of_eq_None_iff)

text \<open>
  A pair of per-team values, \<open>std::array<T, 2>\<close>: reading and writing at a team index that the
  code has checked to be 0 or 1; and the last element of a vector, updated in place.
\<close>

definition team_at :: "'a \<times> 'a \<Rightarrow> int \<Rightarrow> 'a" where
  "team_at p t = (if t = 0 then fst p else snd p)"

definition team_set :: "int \<Rightarrow> 'a \<Rightarrow> 'a \<times> 'a \<Rightarrow> 'a \<times> 'a" where
  "team_set t x p = (if t = 0 then (x, snd p) else (fst p, x))"

definition is_team :: "int \<Rightarrow> bool" where
  "is_team t = (t = 0 \<or> t = 1)"

definition upd_last :: "('a \<Rightarrow> 'a) \<Rightarrow> 'a list \<Rightarrow> 'a list" where
  "upd_last f xs = (if xs = [] then [] else butlast xs @ [f (last xs)])"

lemma length_upd_last [simp]: "length (upd_last f xs) = length xs"
  by (simp add: upd_last_def)

lemma upd_last_Nil_iff [simp]: "upd_last f xs = [] \<longleftrightarrow> xs = []"
  by (simp add: upd_last_def)

section \<open>Byte strings\<close>

text \<open>\<open>std::string\<close> is a list of bytes. \<open>s.rfind(p, 0) == 0\<close>, \<open>s.find(p) != npos\<close>.\<close>

definition starts_with :: "string \<Rightarrow> string \<Rightarrow> bool" where
  "starts_with s p = (take (length p) s = p)"

fun str_contains :: "string \<Rightarrow> string \<Rightarrow> bool" where
  "str_contains [] p = (p = [])"
| "str_contains (c # cs) p = (starts_with (c # cs) p \<or> str_contains cs p)"

text \<open>\<open>std::tolower\<close>, \<open>std::toupper\<close>, \<open>std::isalnum\<close>, \<open>std::isspace\<close> in the "C" locale.\<close>

definition to_lower :: "char \<Rightarrow> char" where
  "to_lower c = (if CHR ''A'' \<le> c \<and> c \<le> CHR ''Z'' then char_of (of_char c + 32 :: nat) else c)"

definition to_upper :: "char \<Rightarrow> char" where
  "to_upper c = (if CHR ''a'' \<le> c \<and> c \<le> CHR ''z'' then char_of (of_char c - 32 :: nat) else c)"

definition is_digit :: "char \<Rightarrow> bool" where
  "is_digit c = (CHR ''0'' \<le> c \<and> c \<le> CHR ''9'')"

definition is_alnum :: "char \<Rightarrow> bool" where
  "is_alnum c = (is_digit c \<or> (CHR ''A'' \<le> c \<and> c \<le> CHR ''Z'') \<or> (CHR ''a'' \<le> c \<and> c \<le> CHR ''z''))"

definition is_space :: "char \<Rightarrow> bool" where
  "is_space c = (c = CHR '' '' \<or> (CHR 0x09 \<le> c \<and> c \<le> CHR 0x0D))"

section \<open>Machine integers\<close>

text \<open>
  Casts between the integer types: to \<open>int32_t\<close>, \<open>int64_t\<close> they keep the low bits and read them
  as a signed number.
\<close>

definition to_int32 :: "int \<Rightarrow> int" where
  "to_int32 i = signed_take_bit 31 i"

definition in_int32 :: "int \<Rightarrow> bool" where
  "in_int32 i = (-2147483648 \<le> i \<and> i \<le> 2147483647)"

lemma to_int32_range [simp]: "in_int32 (to_int32 i)"
  using signed_take_bit_int_greater_eq_minus_exp[of 31 i] signed_take_bit_int_less_exp[of 31 i]
  by (simp add: to_int32_def in_int32_def)

lemma to_int32_id: "in_int32 i \<Longrightarrow> to_int32 i = i"
  by (simp add: to_int32_def in_int32_def signed_take_bit_int_eq_self)

text \<open>
  \<open>std::stoi\<close> in base 10: blanks, a sign, then the longest run of digits; \<open>None\<close> where it throws,
  with no digit or with a value outside \<open>int\<close>.
\<close>

definition digit_value :: "char \<Rightarrow> int" where
  "digit_value c = of_char c - 48"

definition digits_value :: "string \<Rightarrow> int" where
  "digits_value ds = foldl (\<lambda>n c. 10 * n + digit_value c) 0 ds"

definition stoi :: "string \<Rightarrow> int option" where
  "stoi s =
     (let s1 = dropWhile is_space s;
          neg = (s1 \<noteq> [] \<and> hd s1 = CHR ''-'');
          s2 = (if s1 \<noteq> [] \<and> (hd s1 = CHR ''-'' \<or> hd s1 = CHR ''+'') then tl s1 else s1);
          ds = takeWhile is_digit s2;
          v = (if neg then - digits_value ds else digits_value ds)
      in if ds = [] \<or> \<not> in_int32 v then None else Some v)"

lemma stoi_range: "stoi s = Some v \<Longrightarrow> in_int32 v"
  by (auto simp: stoi_def Let_def split: if_splits)

section \<open>Interfaces\<close>

text \<open>A machine whose steps keep an invariant keeps it along every run.\<close>

locale invariant_machine =
  fixes step :: "'i \<Rightarrow> 's \<Rightarrow> 's" and inv :: "'s \<Rightarrow> bool"
  assumes step_inv: "inv s \<Longrightarrow> inv (step i s)"
begin

lemma run_inv: "inv s \<Longrightarrow> inv (fold step is s)"
  by (induction "is" arbitrary: s) (auto intro: step_inv)

end

text \<open>A machine with replies, run over a list of inputs.\<close>

fun run_out :: "('i \<Rightarrow> 's \<Rightarrow> 's \<times> 'o) \<Rightarrow> 'i list \<Rightarrow> 's \<Rightarrow> 's \<times> 'o list" where
  "run_out step [] s = (s, [])"
| "run_out step (i # is) s =
     (let (s', x) = step i s; (s'', xs) = run_out step is s' in (s'', x # xs))"

declare run_out.simps(2) [simp del]

lemma run_out_Cons [simp]:
  "fst (run_out step (i # is) s) = fst (run_out step is (fst (step i s)))"
  "snd (run_out step (i # is) s) = snd (step i s) # snd (run_out step is (fst (step i s)))"
  by (simp_all add: run_out.simps(2) case_prod_unfold Let_def)

lemma run_out_fold: "fst (run_out step is s) = fold (\<lambda>i s. fst (step i s)) is s"
  by (induction "is" arbitrary: s) simp_all

lemma run_out_append:
  "fst (run_out step (is @ js) s) = fst (run_out step js (fst (run_out step is s)))"
  "snd (run_out step (is @ js) s) =
     snd (run_out step is s) @ snd (run_out step js (fst (run_out step is s)))"
  by (induction "is" arbitrary: s) simp_all

text \<open>
  A ledger of settled keys: no step removes a key, and a reply that settles one settles a key
  that was open before the step and is closed after it. Then no key is settled twice.
\<close>

locale once_ledger =
  fixes step :: "'i \<Rightarrow> 's \<Rightarrow> 's \<times> 'o"
    and closed :: "'s \<Rightarrow> 'k set"
    and settles :: "'o \<Rightarrow> 'k option"
  assumes closed_mono: "closed s \<subseteq> closed (fst (step i s))"
    and settles_open: "settles (snd (step i s)) = Some k \<Longrightarrow> k \<notin> closed s"
    and settles_closes: "settles (snd (step i s)) = Some k \<Longrightarrow> k \<in> closed (fst (step i s))"
begin

lemma run_closed_mono: "closed s \<subseteq> closed (fst (run_out step is s))"
proof (induction "is" arbitrary: s)
  case (Cons i "is")
  have "closed s \<subseteq> closed (fst (step i s))" by (rule closed_mono)
  also have "\<dots> \<subseteq> closed (fst (run_out step is (fst (step i s))))" by (rule Cons)
  finally show ?case by simp
qed simp

lemma run_settles_open:
  "k \<in> closed s \<Longrightarrow> k \<notin> set (List.map_filter settles (snd (run_out step is s)))"
proof (induction "is" arbitrary: s)
  case (Cons i "is")
  have "k \<in> closed (fst (step i s))" using Cons.prems closed_mono by blast
  then have "k \<notin> set (List.map_filter settles (snd (run_out step is (fst (step i s)))))"
    by (rule Cons.IH)
  moreover have "settles (snd (step i s)) \<noteq> Some k" using Cons.prems settles_open by blast
  ultimately show ?case
    by (auto simp: List.map_filter_simps split: option.splits)
qed (simp add: List.map_filter_simps)

lemma run_settles_once: "distinct (List.map_filter settles (snd (run_out step is s)))"
proof (induction "is" arbitrary: s)
  case (Cons i "is")
  show ?case
  proof (cases "settles (snd (step i s))")
    case None
    then show ?thesis using Cons[of "fst (step i s)"]
      by (simp add: List.map_filter_simps)
  next
    case (Some k)
    then have "k \<notin> set (List.map_filter settles (snd (run_out step is (fst (step i s)))))"
      by (rule run_settles_open[OF settles_closes])
    then show ?thesis using Some Cons[of "fst (step i s)"]
      by (simp add: List.map_filter_simps)
  qed
qed (simp add: List.map_filter_simps)

end

text \<open>
  A ledger that settles several keys at a step, in the states its invariant allows: every key a
  reply settles was open before the step and is closed after it, and no closed key opens again.
\<close>

locale batch_ledger =
  fixes step :: "'i \<Rightarrow> 's \<Rightarrow> 's \<times> 'o"
    and inv :: "'s \<Rightarrow> bool"
    and closed :: "'s \<Rightarrow> 'k set"
    and settles :: "'o \<Rightarrow> 'k list"
  assumes step_inv: "inv s \<Longrightarrow> inv (fst (step i s))"
    and closed_mono: "inv s \<Longrightarrow> closed s \<subseteq> closed (fst (step i s))"
    and settles_open: "inv s \<Longrightarrow> set (settles (snd (step i s))) \<inter> closed s = {}"
    and settles_closes: "inv s \<Longrightarrow> set (settles (snd (step i s))) \<subseteq> closed (fst (step i s))"
    and settles_distinct: "inv s \<Longrightarrow> distinct (settles (snd (step i s)))"
begin

lemma run_inv: "inv s \<Longrightarrow> inv (fst (run_out step is s))"
  by (induction "is" arbitrary: s) (auto intro: step_inv)

lemma run_settles_open:
  "inv s \<Longrightarrow> set (concat (map settles (snd (run_out step is s)))) \<inter> closed s = {}"
proof (induction "is" arbitrary: s)
  case (Cons i "is")
  have "set (concat (map settles (snd (run_out step is (fst (step i s)))))) \<inter> closed (fst (step i s)) = {}"
    using Cons.prems by (intro Cons.IH step_inv)
  then show ?case using settles_open[OF Cons.prems, of i] closed_mono[OF Cons.prems, of i] by auto
qed simp

lemma run_settles_once: "inv s \<Longrightarrow> distinct (concat (map settles (snd (run_out step is s))))"
proof (induction "is" arbitrary: s)
  case (Cons i "is")
  have next': "inv (fst (step i s))" by (rule step_inv[OF Cons.prems])
  have "distinct (concat (map settles (snd (run_out step is (fst (step i s))))))" by (rule Cons.IH[OF next'])
  moreover have "set (settles (snd (step i s))) \<inter>
      set (concat (map settles (snd (run_out step is (fst (step i s)))))) = {}"
    using run_settles_open[OF next', of "is"] settles_closes[OF Cons.prems, of i] by blast
  ultimately show ?case using settles_distinct[OF Cons.prems, of i] by simp
qed simp

end

text \<open>
  A mirror: a client applies every reply to its own copy. If one reply carries the whole view,
  the copy equals the server's view after every non-empty run, wherever it started.
\<close>

locale mirror_machine =
  fixes step :: "'i \<Rightarrow> 's \<Rightarrow> 's \<times> 'o"
    and view :: "'s \<Rightarrow> 'v"
    and apply_reply :: "'o \<Rightarrow> 'c \<Rightarrow> 'c"
    and copy :: "'c \<Rightarrow> 'v"
  assumes reply_view: "copy (apply_reply (snd (step i s)) c) = view (fst (step i s))"
begin

lemma run_mirror:
  assumes "is \<noteq> []"
  shows "copy (fold apply_reply (snd (run_out step is s)) c) = view (fst (run_out step is s))"
  using assms
proof (induction "is" arbitrary: s c)
  case (Cons i "is")
  show ?case
  proof (cases "is = []")
    case True
    then show ?thesis using reply_view[of i s c] by simp
  next
    case False
    then show ?thesis using Cons.IH[of "fst (step i s)" "apply_reply (snd (step i s)) c"]
      by simp
  qed
qed simp

end

text \<open>
  A reader that is fed a stream piece by piece: feeding two pieces one after the other is feeding
  their concatenation. Then how the stream was cut does not matter.
\<close>

fun feed_all :: "('p \<Rightarrow> 'r \<Rightarrow> 'm list \<times> 'r) \<Rightarrow> 'p list \<Rightarrow> 'r \<Rightarrow> 'm list \<times> 'r" where
  "feed_all feed [] r = ([], r)"
| "feed_all feed (p # ps) r =
     (fst (feed p r) @ fst (feed_all feed ps (snd (feed p r))),
      snd (feed_all feed ps (snd (feed p r))))"

locale chunk_reader =
  fixes feed :: "'b list \<Rightarrow> 'r \<Rightarrow> 'm list \<times> 'r" and ready :: "'r \<Rightarrow> bool"
  assumes feed_Nil: "ready r \<Longrightarrow> feed [] r = ([], r)"
    and feed_append: "ready r \<Longrightarrow> feed (xs @ ys) r =
          (fst (feed xs r) @ fst (feed ys (snd (feed xs r))), snd (feed ys (snd (feed xs r))))"
    and feed_ready: "ready r \<Longrightarrow> ready (snd (feed xs r))"
begin

lemma feed_all_concat: "ready r \<Longrightarrow> feed_all feed pieces r = feed (concat pieces) r"
  by (induction pieces arbitrary: r) (simp_all add: feed_Nil feed_append feed_ready)

lemma feed_all_cut:
  "ready r \<Longrightarrow> concat pieces = concat pieces' \<Longrightarrow> feed_all feed pieces r = feed_all feed pieces' r"
  by (simp add: feed_all_concat)

end

end
