(* ===== verification/Game_Modes.thy ===== *)
theory Game_Modes
  imports Prelude
begin

text \<open>
  Playlists, game modes, rating categories and arenas: \<open>PlaylistMetadata\<close>,
  \<open>GamemodeUtils\<close>, \<open>ArenaNames\<close>, the category conversions of \<open>SessionState.cpp\<close> and the
  mode helpers of \<open>TelemetryReducerDetail.cpp\<close>. Everything here is pure; the tables are the
  code's tables, entry by entry.
\<close>

section \<open>Rating categories\<close>

datatype MmrCategory = Best | OneVOne | TwoVTwo | ThreeVThree | Casual | Tourny
  | Hoops | Rumble | Dropshot | SnowDay | Heatseeker

definition MmrCategoryToString :: "MmrCategory \<Rightarrow> string" where
  "MmrCategoryToString cat = (case cat of
     OneVOne \<Rightarrow> ''1v1'' | TwoVTwo \<Rightarrow> ''2v2'' | ThreeVThree \<Rightarrow> ''3v3''
   | Casual \<Rightarrow> ''casual'' | Tourny \<Rightarrow> ''t'' | Hoops \<Rightarrow> ''hoops'' | Rumble \<Rightarrow> ''rumble''
   | Dropshot \<Rightarrow> ''dropshot'' | SnowDay \<Rightarrow> ''snowday'' | Heatseeker \<Rightarrow> ''heatseeker''
   | Best \<Rightarrow> ''best'')"

definition StringToMmrCategory :: "string \<Rightarrow> MmrCategory" where
  "StringToMmrCategory str =
     (if str = ''1v1'' then OneVOne
      else if str = ''2v2'' then TwoVTwo
      else if str = ''3v3'' then ThreeVThree
      else if str = ''casual'' then Casual
      else if str = ''t'' then Tourny
      else if str = ''hoops'' then Hoops
      else if str = ''rumble'' then Rumble
      else if str = ''dropshot'' then Dropshot
      else if str = ''snowday'' then SnowDay
      else if str = ''heatseeker'' then Heatseeker
      else Best)"

definition IsExtraMmrCategory :: "MmrCategory \<Rightarrow> bool" where
  "IsExtraMmrCategory cat = (cat = Hoops \<or> cat = Rumble \<or> cat = Dropshot \<or> cat = SnowDay \<or> cat = Heatseeker)"

section \<open>Playlists\<close>

datatype PlaylistClass = CasualClass | RankedClass | TournamentClass | NonRecordableClass | OtherClass

record Info =
  info_id :: int
  info_canonicalMode :: string
  info_storageMode :: string
  info_mmrKey :: string
  info_displayName :: string
  info_playlistClass :: PlaylistClass
  info_mmrCategory :: MmrCategory
  info_trackerKey :: string
  info_nonRecordableReason :: "string option"

definition playlist_info :: "int \<Rightarrow> string \<Rightarrow> string \<Rightarrow> string \<Rightarrow> string \<Rightarrow> PlaylistClass \<Rightarrow>
    MmrCategory \<Rightarrow> string \<Rightarrow> string option \<Rightarrow> Info" where
  "playlist_info i canonical storage key display cls cat tracker reason =
     \<lparr>info_id = i, info_canonicalMode = canonical, info_storageMode = storage, info_mmrKey = key,
      info_displayName = display, info_playlistClass = cls, info_mmrCategory = cat,
      info_trackerKey = tracker, info_nonRecordableReason = reason\<rparr>"

definition kPlaylists :: "Info list" where
  "kPlaylists =
    [playlist_info (-2) ''intermission'' ''intermission'' ''''
       ''Intermission'' NonRecordableClass Best '''' (Some ''intermission_playlist''),
     playlist_info (0) ''casual'' ''casual'' ''casual''
       ''Casual'' CasualClass Casual ''casual'' None,
     playlist_info (1) ''casual'' ''casual'' ''casual''
       ''Duel'' CasualClass Casual '''' None,
     playlist_info (2) ''casual'' ''casual'' ''casual''
       ''Doubles'' CasualClass Casual '''' None,
     playlist_info (3) ''casual'' ''casual'' ''casual''
       ''Standard'' CasualClass Casual '''' None,
     playlist_info (4) ''casual'' ''casual'' ''casual''
       ''Chaos'' CasualClass Casual '''' None,
     playlist_info (6) ''private'' ''private'' ''''
       ''Private Match'' NonRecordableClass Best '''' (Some ''private_match_playlist''),
     playlist_info (7) ''season'' ''season'' ''''
       ''Season'' NonRecordableClass Best '''' (Some ''season_playlist''),
     playlist_info (8) ''exhibition'' ''exhibition'' ''''
       ''Exhibition'' NonRecordableClass Best '''' (Some ''exhibition_playlist''),
     playlist_info (9) ''training'' ''training'' ''''
       ''Training'' NonRecordableClass Best '''' (Some ''training_playlist''),
     playlist_info (10) ''1v1'' ''1v1'' ''1v1''
       ''Duel'' RankedClass OneVOne ''1v1'' None,
     playlist_info (11) ''2v2'' ''2v2'' ''2v2''
       ''Doubles'' RankedClass TwoVTwo ''2v2'' None,
     playlist_info (12) ''3v3'' ''3v3'' ''3v3''
       ''Standard'' RankedClass ThreeVThree '''' None,
     playlist_info (13) ''3v3'' ''3v3'' ''3v3''
       ''Standard'' RankedClass ThreeVThree ''3v3'' None,
     playlist_info (15) ''casual'' ''casual'' ''casual''
       ''Snow Day'' CasualClass Casual '''' None,
     playlist_info (16) ''casual'' ''casual'' ''casual''
       ''Rocket Labs'' CasualClass Casual '''' None,
     playlist_info (17) ''casual'' ''casual'' ''casual''
       ''Hoops'' CasualClass Casual '''' None,
     playlist_info (18) ''casual'' ''casual'' ''casual''
       ''Rumble'' CasualClass Casual '''' None,
     playlist_info (19) ''workshop'' ''workshop'' ''''
       ''Workshop'' NonRecordableClass Best '''' (Some ''workshop_playlist''),
     playlist_info (20) ''training'' ''training'' ''''
       ''Custom Training Editor'' NonRecordableClass Best '''' (Some ''custom_training_editor_playlist''),
     playlist_info (21) ''training'' ''training'' ''''
       ''Custom Training'' NonRecordableClass Best '''' (Some ''custom_training_playlist''),
     playlist_info (22) ''t'' ''t'' ''t''
       ''Tournament Match (Custom)'' TournamentClass Tourny '''' None,
     playlist_info (23) ''casual'' ''casual'' ''casual''
       ''Dropshot'' CasualClass Casual '''' None,
     playlist_info (24) ''local'' ''local'' ''''
       ''Local Match'' NonRecordableClass Best '''' (Some ''local_match_playlist''),
     playlist_info (26) ''external'' ''external'' ''''
       ''External Match'' OtherClass Best '''' None,
     playlist_info (27) ''hoops'' ''hoops'' ''hoops''
       ''Hoops'' RankedClass Hoops ''hoops'' None,
     playlist_info (28) ''rumble'' ''rumble'' ''rumble''
       ''Rumble'' RankedClass Rumble ''rumble'' None,
     playlist_info (29) ''dropshot'' ''dropshot'' ''dropshot''
       ''Dropshot'' RankedClass Dropshot ''dropshot'' None,
     playlist_info (30) ''snowday'' ''snowday'' ''snowday''
       ''Snow Day'' RankedClass SnowDay ''snowday'' None,
     playlist_info (31) ''casual'' ''casual'' ''casual''
       ''Ghost Hunt'' CasualClass Casual '''' None,
     playlist_info (32) ''casual'' ''casual'' ''casual''
       ''Beach Ball'' CasualClass Casual '''' None,
     playlist_info (33) ''casual'' ''casual'' ''casual''
       ''Spike Rush'' CasualClass Casual '''' None,
     playlist_info (34) ''t'' ''t'' ''t''
       ''Tournament Match'' TournamentClass Tourny ''t'' None,
     playlist_info (35) ''casual'' ''casual'' ''casual''
       ''Rocket Labs'' CasualClass Casual '''' None,
     playlist_info (37) ''casual'' ''casual'' ''casual''
       ''Dropshot Rumble'' CasualClass Casual '''' None,
     playlist_info (38) ''casual'' ''casual'' ''casual''
       ''Heatseeker'' CasualClass Casual '''' None,
     playlist_info (41) ''casual'' ''casual'' ''casual''
       ''Boomer Ball'' CasualClass Casual '''' None,
     playlist_info (43) ''heatseeker'' ''heatseeker'' ''heatseeker''
       ''Heatseeker'' RankedClass Heatseeker ''heatseeker'' None,
     playlist_info (44) ''casual'' ''casual'' ''casual''
       ''Winter Breakaway'' CasualClass Casual '''' None,
     playlist_info (46) ''casual'' ''casual'' ''casual''
       ''Gridiron'' CasualClass Casual '''' None,
     playlist_info (47) ''casual'' ''casual'' ''casual''
       ''Super Cube'' CasualClass Casual '''' None,
     playlist_info (48) ''casual'' ''casual'' ''casual''
       ''Tactical Rumble'' CasualClass Casual '''' None,
     playlist_info (49) ''casual'' ''casual'' ''casual''
       ''Spring Loaded'' CasualClass Casual '''' None,
     playlist_info (50) ''casual'' ''casual'' ''casual''
       ''Speed Demon'' CasualClass Casual '''' None,
     playlist_info (52) ''casual'' ''casual'' ''casual''
       ''Gotham City Rumble'' CasualClass Casual '''' None,
     playlist_info (54) ''casual'' ''casual'' ''casual''
       ''Knockout'' CasualClass Casual '''' None,
     playlist_info (55) ''casual'' ''casual'' ''casual''
       ''Confidential Thirdwheel Test'' CasualClass Casual '''' None,
     playlist_info (61) ''casual'' ''casual'' ''casual''
       ''Quads'' CasualClass Casual '''' None,
     playlist_info (62) ''casual'' ''casual'' ''casual''
       ''Magnus Futball'' CasualClass Casual '''' None,
     playlist_info (63) ''heatseeker'' ''heatseeker'' ''heatseeker''
       ''Heatseeker'' RankedClass Heatseeker ''heatseeker'' None,
     playlist_info (64) ''casual'' ''casual'' ''casual''
       ''God Ball Spooky'' CasualClass Casual '''' None,
     playlist_info (65) ''casual'' ''casual'' ''casual''
       ''God Ball Haunted'' CasualClass Casual '''' None,
     playlist_info (66) ''casual'' ''casual'' ''casual''
       ''God Ball Ricochet'' CasualClass Casual '''' None,
     playlist_info (67) ''casual'' ''casual'' ''casual''
       ''Cubic Spooky'' CasualClass Casual '''' None,
     playlist_info (68) ''casual'' ''casual'' ''casual''
       ''G-Force Frenzy'' CasualClass Casual '''' None,
     playlist_info (70) ''casual'' ''casual'' ''casual''
       ''RumShot Doubles'' CasualClass Casual '''' None,
     playlist_info (72) ''casual'' ''casual'' ''casual''
       ''Territory'' CasualClass Casual '''' None,
     playlist_info (73) ''training'' ''training'' ''''
       ''Online Freeplay'' NonRecordableClass Best '''' (Some ''online_freeplay_playlist''),
     playlist_info (74) ''casual'' ''casual'' ''casual''
       ''Territory Doubles'' CasualClass Casual '''' None,
     playlist_info (75) ''casual'' ''casual'' ''casual''
       ''Godball Territory'' CasualClass Casual '''' None,
     playlist_info (76) ''casual'' ''casual'' ''casual''
       ''Godball Territory Doubles'' CasualClass Casual '''' None,
     playlist_info (77) ''casual'' ''casual'' ''casual''
       ''Non-Standard Soccar'' CasualClass Casual '''' None,
     playlist_info (79) ''casual'' ''casual'' ''casual''
       ''Snowday Territory'' CasualClass Casual '''' None,
     playlist_info (80) ''casual'' ''casual'' ''casual''
       ''Run It Back'' CasualClass Casual '''' None,
     playlist_info (81) ''casual'' ''casual'' ''casual''
       ''Car Wars'' CasualClass Casual '''' None,
     playlist_info (82) ''casual'' ''casual'' ''casual''
       ''Pizza Party'' CasualClass Casual '''' None,
     playlist_info (83) ''casual'' ''casual'' ''casual''
       ''Push The Puck'' CasualClass Casual '''' None,
     playlist_info (84) ''casual'' ''casual'' ''casual''
       ''Possession'' CasualClass Casual '''' None,
     playlist_info (86) ''casual'' ''casual'' ''casual''
       ''FC Showdown'' CasualClass Casual '''' None,
     playlist_info (87) ''casual'' ''casual'' ''casual''
       ''Sacrifice'' CasualClass Casual '''' None,
     playlist_info (88) ''casual'' ''casual'' ''casual''
       ''Jump Jam'' CasualClass Casual '''' None]"

definition HasAuthoritativeId :: "int \<Rightarrow> bool" where
  "HasAuthoritativeId playlistId = (playlistId \<noteq> -1)"

definition Find :: "int \<Rightarrow> Info option" where
  "Find playlistId = find (\<lambda>p. info_id p = playlistId) kPlaylists"

definition IsKnown :: "int \<Rightarrow> bool" where
  "IsKnown playlistId = (Find playlistId \<noteq> None)"

definition has_class :: "PlaylistClass \<Rightarrow> int \<Rightarrow> bool" where
  "has_class c playlistId = (case Find playlistId of None \<Rightarrow> False | Some i \<Rightarrow> info_playlistClass i = c)"

definition IsCasual :: "int \<Rightarrow> bool" where
  "IsCasual = has_class CasualClass"

definition IsNonRecordable :: "int \<Rightarrow> bool" where
  "IsNonRecordable = has_class NonRecordableClass"

definition IsRanked :: "int \<Rightarrow> bool" where
  "IsRanked = has_class RankedClass"

definition NonRecordableReason :: "int \<Rightarrow> string option" where
  "NonRecordableReason playlistId = Option.bind (Find playlistId) info_nonRecordableReason"

definition CanonicalMode :: "int \<Rightarrow> string" where
  "CanonicalMode playlistId = (case Find playlistId of Some i \<Rightarrow> info_canonicalMode i | None \<Rightarrow> [])"

definition StorageMode :: "int \<Rightarrow> string" where
  "StorageMode playlistId = (case Find playlistId of Some i \<Rightarrow> info_storageMode i | None \<Rightarrow> [])"

definition MmrKey :: "int \<Rightarrow> string" where
  "MmrKey playlistId = (case Find playlistId of Some i \<Rightarrow> info_mmrKey i | None \<Rightarrow> [])"

definition PlaylistDisplayName :: "int \<Rightarrow> string" where
  "PlaylistDisplayName playlistId =
     (case Find playlistId of Some i \<Rightarrow> info_displayName i | None \<Rightarrow> ''Unknown'')"

definition Category :: "int \<Rightarrow> MmrCategory" where
  "Category playlistId = (case Find playlistId of Some i \<Rightarrow> info_mmrCategory i | None \<Rightarrow> Best)"

definition TrackerKey :: "int \<Rightarrow> string" where
  "TrackerKey playlistId = (case Find playlistId of Some i \<Rightarrow> info_trackerKey i | None \<Rightarrow> [])"

section \<open>Game modes\<close>

definition NormalizeArenaKey :: "string \<Rightarrow> string" where
  "NormalizeArenaKey value = map to_lower (filter is_alnum value)"

definition InferFromPlayerCount :: "int \<Rightarrow> string" where
  "InferFromPlayerCount playerCount =
     (if playerCount \<le> 0 then ''Unknown''
      else if playerCount \<le> 2 then ''1v1''
      else if playerCount \<le> 4 then ''2v2''
      else if playerCount \<le> 6 then ''3v3''
      else ''Unknown'')"

definition arenaModes :: "(string, string) umap" where
  "arenaModes =
    [(''hoopsdunkhouse'', ''hoops''),
     (''dunkhouse'', ''hoops''),
     (''hoopstheblock'', ''hoops''),
     (''theblock'', ''hoops''),
     (''shattershot'', ''dropshot''),
     (''dropshot'', ''dropshot''),
     (''core707'', ''dropshot''),
     (''championsfieldsnowday'', ''snowday''),
     (''snowday'', ''snowday'')]"

definition InferFromArenaName :: "string \<Rightarrow> string" where
  "InferFromArenaName arenaName =
     (let key = NormalizeArenaKey arenaName in
      if key = [] then ''Unknown''
      else (case map_of arenaModes key of
          Some m \<Rightarrow> m
        | None \<Rightarrow>
           if str_contains key ''hoops'' \<or> str_contains key ''dunkhouse'' then ''hoops''
           else if str_contains key ''dropshot'' \<or> str_contains key ''shattershot'' \<or>
                   str_contains key ''core707'' then ''dropshot''
           else if str_contains key ''snow'' \<or> str_contains key ''hockey'' then ''snowday''
           else ''Unknown''))"

definition InferFromSnapshot :: "int \<Rightarrow> int \<Rightarrow> MmrCategory \<Rightarrow> string \<Rightarrow> string" where
  "InferFromSnapshot legacyMaxPlayersSeen rosterSize rosterCat arenaName =
     (let arenaMode = InferFromArenaName arenaName in
      if arenaMode \<noteq> ''Unknown'' then arenaMode
      else if rosterCat = Casual then ''casual''
      else if rosterCat = Tourny then ''t''
      else if rosterCat = Rumble then ''rumble''
      else if rosterCat = Heatseeker then ''heatseeker''
      else InferFromPlayerCount (if legacyMaxPlayersSeen > 0 then legacyMaxPlayersSeen else rosterSize))"

definition IsTrackedCompetitiveMode :: "string \<Rightarrow> bool" where
  "IsTrackedCompetitiveMode mode =
     (mode = ''1v1'' \<or> mode = ''2v2'' \<or> mode = ''3v3'' \<or> mode = ''t'' \<or> mode = ''hoops'' \<or>
      mode = ''rumble'' \<or> mode = ''dropshot'' \<or> mode = ''snowday'' \<or> mode = ''heatseeker'')"

text \<open>A pair of per-team values: \<open>std::array<T, 2>\<close>, component 0 first.\<close>

definition CategoryFromTeamCounts :: "int \<times> int \<Rightarrow> bool \<Rightarrow> MmrCategory" where
  "CategoryFromTeamCounts teamCounts roundStarted =
     (let teamSize = min (fst teamCounts) (snd teamCounts) in
      if 3 \<le> teamSize then ThreeVThree
      else if 2 \<le> teamSize then TwoVTwo
      else if roundStarted \<and> fst teamCounts = 1 \<and> snd teamCounts = 1 then OneVOne
      else Best)"

definition CategoryFromMode :: "string \<Rightarrow> MmrCategory" where
  "CategoryFromMode mode =
     (if mode = ''1v1'' then OneVOne
      else if mode = ''2v2'' then TwoVTwo
      else if mode = ''3v3'' then ThreeVThree
      else if mode = ''hoops'' then Hoops
      else if mode = ''rumble'' then Rumble
      else if mode = ''dropshot'' then Dropshot
      else if mode = ''snowday'' then SnowDay
      else if mode = ''heatseeker'' then Heatseeker
      else Best)"

definition IsSupportedMmrCategory :: "MmrCategory \<Rightarrow> bool" where
  "IsSupportedMmrCategory category =
     (category = OneVOne \<or> category = TwoVTwo \<or> category = ThreeVThree \<or>
      category = Casual \<or> category = Tourny \<or> IsExtraMmrCategory category)"

definition IsTrackedRankedEarlyExitMode :: "string \<Rightarrow> bool" where
  "IsTrackedRankedEarlyExitMode mode =
     (mode = ''1v1'' \<or> mode = ''2v2'' \<or> mode = ''3v3'' \<or> mode = ''hoops'' \<or> mode = ''rumble'' \<or>
      mode = ''dropshot'' \<or> mode = ''snowday'' \<or> mode = ''heatseeker'')"

definition FormatPendingMatchHistoryMode :: "string \<Rightarrow> string" where
  "FormatPendingMatchHistoryMode mode =
     (if mode = ''1v1'' then ''Duel''
      else if mode = ''2v2'' then ''Doubles''
      else if mode = ''3v3'' then ''Standard''
      else if mode = ''hoops'' then ''Hoops''
      else if mode = ''rumble'' then ''Rumble''
      else if mode = ''dropshot'' then ''Dropshot''
      else if mode = ''snowday'' then ''Snow Day''
      else if mode = ''heatseeker'' then ''Heatseeker''
      else if mode = [] then ''Unknown'' else mode)"

definition LegacyExpectedTeamSizeForMode :: "string \<Rightarrow> int" where
  "LegacyExpectedTeamSizeForMode mode =
     (if mode = ''1v1'' then 1
      else if mode = ''2v2'' \<or> mode = ''hoops'' \<or> mode = ''heatseeker'' then 2
      else if mode = ''3v3'' \<or> mode = ''rumble'' \<or> mode = ''dropshot'' \<or> mode = ''snowday'' then 3
      else if mode = ''4v4'' then 4
      else 0)"

section \<open>Arenas\<close>

definition Lower :: "string \<Rightarrow> string" where
  "Lower value = map to_lower value"

definition IsPackageName :: "string \<Rightarrow> bool" where
  "IsPackageName value =
     (if length value < 3 \<or> CHR '' '' \<in> set value then False
      else let p = value ! (length value - 1)
           in value ! (length value - 2) = CHR ''_'' \<and> (p = CHR ''p'' \<or> p = CHR ''P''))"

definition Maps :: "(string, string) umap" where
  "Maps =
    [(''underwater'', ''AquaDome''),
     (''underwater_grs'', ''AquaDome (Salty Shallows)''),
     (''park'', ''Beckwith Park''),
     (''park_night'', ''Beckwith Park (Midnight)''),
     (''park_snowy'', ''Beckwith Park (Snowy)''),
     (''park_rainy'', ''Beckwith Park (Stormy)''),
     (''park_bman'', ''Beckwith Park (Gotham Night)''),
     (''mall_day'', ''Boostfield Mall''),
     (''cs'', ''Champions Field''),
     (''cs_day'', ''Champions Field (Day)''),
     (''swoosh'', ''Champions Field (Nike FC)''),
     (''bb'', ''Champions Field (NFL)''),
     (''outlaw'', ''Deadeye Canyon''),
     (''outlaw_oasis'', ''Deadeye Canyon (Oasis)''),
     (''stadium'', ''DFH Stadium''),
     (''stadium_10a'', ''DFH Stadium (10th Anniversary)''),
     (''stadium_race_day'', ''DFH Stadium (Circuit)''),
     (''stadium_day'', ''DFH Stadium (Day)''),
     (''stadium_winter'', ''DFH Stadium (Snowy)''),
     (''stadium_foggy'', ''DFH Stadium (Stormy)''),
     (''woods'', ''Drift Woods''),
     (''woods_night'', ''Drift Woods (Night)''),
     (''ff_dusk'', ''Estadio Vida''),
     (''farm'', ''Farmstead''),
     (''farm_night'', ''Farmstead (Night)''),
     (''farm_grs'', ''Farmstead (Pitched)''),
     (''farm_hw'', ''Farmstead (Spooky)''),
     (''farm_upsidedown'', ''Farmstead (The Upside Down)''),
     (''chn_stadium'', ''Forbidden Temple''),
     (''chn_stadium_day'', ''Forbidden Temple (Day)''),
     (''fni_stadium'', ''Forbidden Temple (Fire & Ice)''),
     (''uf_day'', ''Futura Garden''),
     (''uf_night'', ''Futura Garden (Night)''),
     (''eurostadium'', ''Mannfield''),
     (''eurostadium_dusk'', ''Mannfield (Dusk)''),
     (''eurostadium_night'', ''Mannfield (Night)''),
     (''eurostadium_snownight'', ''Mannfield (Snowy)''),
     (''eurostadium_rainy'', ''Mannfield (Stormy)''),
     (''neotokyo_standard'', ''Neo Tokyo''),
     (''neotokyo_arcade'', ''Neo Tokyo (Arcade)''),
     (''neotokyo_toon'', ''Neo Tokyo (Comic)''),
     (''neotokyo_hax'', ''Neo Tokyo (Hacked)''),
     (''music'', ''Neon Fields''),
     (''paname_dusk'', ''Parc de Paris''),
     (''cs_hw'', ''Rivals Arena''),
     (''beach'', ''Salty Shores''),
     (''beach_night'', ''Salty Shores (Night)''),
     (''beach_night_grs'', ''Salty Shores (Salty Fest)''),
     (''street'', ''Sovereign Heights''),
     (''arc_standard'', ''Starbase ARC''),
     (''arc_darc'', ''Starbase ARC (Aftermath)''),
     (''trainstation'', ''Urban Central''),
     (''trainstation_dawn'', ''Urban Central (Dawn)''),
     (''trainstation_night'', ''Urban Central (Night)''),
     (''trainstation_spooky'', ''Urban Central (Haunted)''),
     (''haunted_trainstation'', ''Urban Central (Haunted)''),
     (''utopiastadium'', ''Utopia Coliseum''),
     (''utopiastadium_dusk'', ''Utopia Coliseum (Dusk)''),
     (''utopiastadium_lux'', ''Utopia Coliseum (Gilded)''),
     (''utopiastadium_snow'', ''Utopia Coliseum (Snowy)''),
     (''wasteland_s'', ''Wasteland''),
     (''wasteland_night_s'', ''Wasteland (Night)''),
     (''wasteland_grs'', ''Wasteland (Pitched)''),
     (''arc'', ''Arctagon''),
     (''wasteland'', ''Badlands''),
     (''wasteland_night'', ''Badlands (Night)''),
     (''labs_pillarheat'', ''Barricade''),
     (''labs_basin'', ''Basin''),
     (''ko_calavera'', ''Calavera''),
     (''ko_carbon'', ''Carbon''),
     (''labs_pillarwings'', ''Colossus''),
     (''shattershot'', ''Core 707''),
     (''labs_corridor'', ''Corridor''),
     (''labs_cosmic'', ''Cosmic''),
     (''labs_cosmic_v4'', ''Cosmic''),
     (''labs_doublegoal'', ''Double Goal''),
     (''labs_doublegoal_v2'', ''Double Goal''),
     (''hoopsstadium'', ''Dunk House''),
     (''hoops_dunkhouse'', ''Dunk House''),
     (''labs_holyfield_space'', ''Force Field''),
     (''labs_galleon'', ''Galleon''),
     (''labs_galleon_mast'', ''Galleon Retro''),
     (''labs_pillarglass'', ''Hourglass''),
     (''labs_holyfield'', ''Loophole''),
     (''labs_4v4_arena15_eurostadium_night'', ''Mannfield (Quads)''),
     (''labs_4v4_arena15_blackout'', ''Midnight Metro''),
     (''labs_4v4_arena15_retro'', ''Sunset Dunes''),
     (''labs_octagon'', ''Octagon''),
     (''labs_octagon_02'', ''Octagon''),
     (''labs_circlepillars'', ''Pillars''),
     (''ko_quadron'', ''Quadron''),
     (''labs_octagon_b2b_02'', ''Roadblock''),
     (''hoopsstreet'', ''The Block''),
     (''throwbackstadium'', ''Throwback Stadium''),
     (''throwbackhockey'', ''Throwback Stadium (Snowy)''),
     (''neotokyo'', ''Tokyo Underpass''),
     (''labs_underpass'', ''Underpass''),
     (''labs_underpass_v0'', ''Underpass''),
     (''labs_utopia'', ''Utopia Retro''),
     (''labs_octagon_vent'', ''Vent'')]"

definition LegacyRenames :: "(string, string) umap" where
  "LegacyRenames =
    [(''AquaDome (Grs)'', ''AquaDome (Salty Shallows)''),
     (''Beckwith Park (Bman)'', ''Beckwith Park (Gotham Night)''),
     (''Beckwith Park (Night)'', ''Beckwith Park (Midnight)''),
     (''Champions Field'', ''Mannfield''),
     (''Champions Field (Dusk)'', ''Mannfield (Dusk)''),
     (''Champions Field (Night)'', ''Mannfield (Night)''),
     (''Champions Field (Snownight)'', ''Mannfield (Snowy)''),
     (''Champions Field (Stormy)'', ''Mannfield (Stormy)''),
     (''Cosmic (V4)'', ''Cosmic''),
     (''DFH Stadium (10a)'', ''DFH Stadium (10th Anniversary)''),
     (''DFH Stadium (Foggy)'', ''DFH Stadium (Stormy)''),
     (''DFH Stadium (Winter)'', ''DFH Stadium (Snowy)''),
     (''Deadeye Canyon'', ''Deadeye Canyon (Oasis)''),
     (''DunkHouse'', ''Dunk House''),
     (''Estadio Vida'', ''Neon Fields''),
     (''Farmstead (Grs)'', ''Farmstead (Pitched)''),
     (''Farmstead (Hw)'', ''Farmstead (Spooky)''),
     (''Farmstead (Upsidedown)'', ''Farmstead (The Upside Down)''),
     (''Neo Tokyo (Hax)'', ''Neo Tokyo (Hacked)''),
     (''Neo Tokyo (Toon)'', ''Neo Tokyo (Comic)''),
     (''Octagon (02)'', ''Octagon''),
     (''Octagon (Vent)'', ''Vent''),
     (''Underpass (V0)'', ''Underpass''),
     (''Urban Central (Spooky)'', ''Urban Central (Haunted)''),
     (''Wasteland'', ''Badlands''),
     (''Wasteland (Grs)'', ''Wasteland (Pitched)''),
     (''Wasteland (Night)'', ''Badlands (Night)''),
     (''Wasteland (S)'', ''Wasteland'')]"

text \<open>The loop that makes a package name readable: the text so far and \<open>startWord\<close>.\<close>

fun readable_step :: "char \<Rightarrow> string \<times> bool \<Rightarrow> string \<times> bool" where
  "readable_step c (readable, startWord) =
     (if c = CHR ''_''
      then (if readable \<noteq> [] \<and> last readable \<noteq> CHR '' '' then readable @ '' '' else readable, True)
      else (readable @ [if startWord then to_upper c else c], False))"

definition pop_back_spaces :: "string \<Rightarrow> string" where
  "pop_back_spaces readable = rev (dropWhile (\<lambda>c. c = CHR '' '') (rev readable))"

definition ArenaDisplayName :: "string \<Rightarrow> string" where
  "ArenaDisplayName asset =
     (if asset = [] then []
      else let lowered = Lower asset;
               key = (if IsPackageName lowered then take (length lowered - 2) lowered else lowered)
           in case map_of Maps key of
                Some name \<Rightarrow> name
              | None \<Rightarrow>
                 (let readable = pop_back_spaces (fst (fold readable_step key ([], True)))
                  in if readable = [] then asset else readable))"

definition RepairStoredName :: "string \<Rightarrow> string" where
  "RepairStoredName stored =
     (if IsPackageName stored then ArenaDisplayName stored
      else case map_of LegacyRenames stored of Some name \<Rightarrow> name | None \<Rightarrow> stored)"

section \<open>The tables\<close>

text \<open>
  A row is coherent when its class, its reason, its keys and its category agree; every row is.
\<close>

definition coherent_row :: "Info \<Rightarrow> bool" where
  "coherent_row i =
     (((info_playlistClass i = NonRecordableClass) = (info_nonRecordableReason i \<noteq> None)) \<and>
      (info_playlistClass i \<in> {CasualClass, RankedClass, TournamentClass} \<longrightarrow>
         info_mmrKey i = MmrCategoryToString (info_mmrCategory i) \<and>
         info_canonicalMode i = info_mmrKey i \<and> IsSupportedMmrCategory (info_mmrCategory i)) \<and>
      (info_playlistClass i \<in> {NonRecordableClass, OtherClass} \<longrightarrow>
         info_mmrKey i = [] \<and> info_mmrCategory i = Best) \<and>
      (info_playlistClass i = RankedClass \<longrightarrow> IsTrackedRankedEarlyExitMode (info_canonicalMode i)) \<and>
      (IsTrackedRankedEarlyExitMode (info_canonicalMode i) \<longrightarrow>
         info_playlistClass i = RankedClass \<and>
         CategoryFromMode (info_canonicalMode i) = info_mmrCategory i) \<and>
      info_canonicalMode i \<noteq> [] \<and> info_id i \<noteq> -1 \<and> info_nonRecordableReason i \<noteq> Some [])"

lemma kPlaylists_coherent: "list_all coherent_row kPlaylists"
  by code_simp

lemma kPlaylists_distinct: "distinct (map info_id kPlaylists)"
  by code_simp

lemma Find_Some: "Find p = Some i \<Longrightarrow> i \<in> set kPlaylists \<and> info_id i = p"
  by (auto simp: Find_def find_Some_iff set_conv_nth)

lemma Find_coherent: "Find p = Some i \<Longrightarrow> coherent_row i"
  using kPlaylists_coherent by (auto simp: list_all_iff dest: Find_Some)

lemma Find_no_id [simp]: "Find (-1) = None"
  using Find_coherent[of "-1"] Find_Some[of "-1"] by (cases "Find (-1)") (auto simp: coherent_row_def)

lemmas class_defs = IsCasual_def IsNonRecordable_def IsRanked_def has_class_def

lemma unknown_classes [simp]:
  "\<not> IsKnown p \<Longrightarrow> \<not> IsCasual p \<and> \<not> IsNonRecordable p \<and> \<not> IsRanked p \<and> NonRecordableReason p = None"
  by (simp add: IsKnown_def class_defs NonRecordableReason_def)

lemma NonRecordableReason_iff: "NonRecordableReason p \<noteq> None \<longleftrightarrow> IsNonRecordable p"
  by (cases "Find p")
    (auto simp: NonRecordableReason_def class_defs coherent_row_def dest!: Find_coherent)

lemma NonRecordableReason_nonempty: "NonRecordableReason p \<noteq> Some []"
  by (cases "Find p") (auto simp: NonRecordableReason_def coherent_row_def dest!: Find_coherent)

end
