(* ===== verification/Telemetry_Events.thy ===== *)
theory Telemetry_Events
  imports Prelude
begin

text \<open>
  The typed events of \<open>TelemetryEvents.hpp\<close>, field by field, and
  \<open>HasExplicitLocalForfeitSignal\<close> of \<open>TelemetryEvents.cpp\<close>. C++ \<open>int\<close> is \<open>int\<close> (signed
  overflow is undefined behaviour, so every defined run agrees), \<open>float\<close> and \<open>double\<close> are
  \<open>fp\<close>, \<open>std::optional\<close> is \<open>option\<close>, a two-element array is a pair.
\<close>

record FieldPoint =
  fpt_x :: fp
  fpt_y :: fp
  fpt_z :: fp

record ForfeitScope =
  fs_localFlag :: bool
  fs_forfeit :: bool
  fs_forfeitTeam :: "int option"
  fs_winnerTeam :: "int option"

record PlayerRef =
  pr_name :: string
  pr_primaryId :: string
  pr_team :: int
  pr_shortcut :: "int option"

definition PlayerRef0 :: PlayerRef where
  "PlayerRef0 = \<lparr>pr_name = [], pr_primaryId = [], pr_team = -1, pr_shortcut = None\<rparr>"

record PlayerLeftEvent =
  pl_primaryId :: string
  pl_name :: string
  pl_matchGuid :: string

record CrossbarHitEvent =
  cb_matchGuid :: string
  cb_lastTouch :: PlayerRef
  cb_impactForce :: "fp option"
  cb_eventId :: string
  cb_secondsRemaining :: "fp option"

record MatchEndedEvent =
  me_matchGuid :: string
  me_winnerTeam :: int
  me_teamScores :: "int \<times> int"
  me_hasTeamScores :: bool
  me_forfeitScopes :: "ForfeitScope list"

record MatchDestroyedEvent =
  md_matchGuid :: string
  md_teamScores :: "int \<times> int"
  md_hasTeamScores :: bool
  md_forfeitScopes :: "ForfeitScope list"
  md_winnerTeam :: "int option"

record StatfeedEvent =
  sf_eventName :: string
  sf_mainTarget :: PlayerRef
  sf_secondaryTarget :: "PlayerRef option"
  sf_eventId :: string
  sf_matchGuid :: string
  sf_secondsRemaining :: "fp option"

record GoalScoredEvent =
  gs_matchGuid :: string
  gs_scorer :: PlayerRef
  gs_hasScorer :: bool
  gs_assister :: "PlayerRef option"
  gs_goalSpeed :: "fp option"
  gs_lastTouchSpeed :: "fp option"
  gs_roundSeconds :: "fp option"
  gs_impactLocation :: "FieldPoint option"
  gs_isEcho :: bool
  gs_eventId :: string
  gs_secondsRemaining :: "fp option"

record BallHitEvent =
  bh_hitters :: "PlayerRef list"
  bh_postHitSpeed :: fp
  bh_location :: "FieldPoint option"
  bh_matchGuid :: string

record BoostPickupEvent =
  bp_player :: PlayerRef
  bp_boostType :: string
  bp_location :: "FieldPoint option"
  bp_bReplay :: bool
  bp_matchGuid :: string

record UpdatePlayerState =
  up_primaryId :: string
  up_name :: string
  up_team :: int
  up_score :: "int option"
  up_goals :: "int option"
  up_assists :: "int option"
  up_saves :: "int option"
  up_shots :: "int option"
  up_demos :: "int option"
  up_touches :: "int option"
  up_carTouches :: "int option"
  up_shortcut :: "int option"
  up_bHasCar :: bool
  up_hasCarField :: bool
  up_bDemolished :: bool
  up_bSupersonic :: "bool option"
  up_bOnWall :: bool
  up_bOnGround :: bool
  up_bPowersliding :: bool
  up_bBoosting :: bool
  up_speed :: fp
  up_boost :: "int option"

record UpdateStateEvent =
  us_arena :: string
  us_arenaAsset :: string
  us_matchGuid :: string
  us_playlistId :: "int option"
  us_bReplay :: bool
  us_bOvertime :: bool
  us_bSpectator :: bool
  us_timeSeconds :: "fp option"
  us_teamScores :: "int \<times> int"
  us_hasTeamScores :: bool
  us_teamScorePresent :: "bool \<times> bool"
  us_hasBall :: bool
  us_ballTeam :: int
  us_ballSpeed :: fp
  us_hasBallSpeed :: bool
  us_ballLocation :: "FieldPoint option"
  us_cameraTargetPlayerId :: string
  us_forfeitScopes :: "ForfeitScope list"
  us_explicitNonRecordable :: bool
  us_fallbackNonRecordableReason :: string
  us_explicitCasual :: bool
  us_players :: "UpdatePlayerState list"

text \<open>The variant of all events; a constructor with only a guid takes that guid.\<close>

datatype TelemetryEvent =
    EvMatchCreated string
  | EvMatchInitialized string
  | EvCountdownBegin string
  | EvRoundStarted string
  | EvMatchPaused string
  | EvMatchUnpaused string
  | EvGoalReplayStart string
  | EvGoalReplayWillEnd
  | EvGoalReplayEnd string
  | EvPodiumStart string
  | EvReplayCreated
  | EvPlayerLeft PlayerLeftEvent
  | EvCrossbarHit CrossbarHitEvent
  | EvMatchEnded MatchEndedEvent
  | EvMatchDestroyed MatchDestroyedEvent
  | EvStatfeed StatfeedEvent
  | EvGoalScored GoalScoredEvent
  | EvBallHit BallHitEvent
  | EvBoostPickup BoostPickupEvent
  | EvUpdateState UpdateStateEvent
  | EvClockUpdatedSeconds fp

text \<open>The default-initialised player entry and update event.\<close>

definition UpdatePlayerState0 :: UpdatePlayerState where
  "UpdatePlayerState0 =
     \<lparr>up_primaryId = [], up_name = [], up_team = -1, up_score = None, up_goals = None,
      up_assists = None, up_saves = None, up_shots = None, up_demos = None, up_touches = None,
      up_carTouches = None, up_shortcut = None, up_bHasCar = False, up_hasCarField = False,
      up_bDemolished = False, up_bSupersonic = None, up_bOnWall = False, up_bOnGround = False,
      up_bPowersliding = False, up_bBoosting = False, up_speed = Fin 0, up_boost = None\<rparr>"

definition UpdateStateEvent0 :: UpdateStateEvent where
  "UpdateStateEvent0 =
     \<lparr>us_arena = [], us_arenaAsset = [], us_matchGuid = [], us_playlistId = None,
      us_bReplay = False, us_bOvertime = False, us_bSpectator = False, us_timeSeconds = None,
      us_teamScores = (0, 0), us_hasTeamScores = False, us_teamScorePresent = (False, False),
      us_hasBall = False, us_ballTeam = -1, us_ballSpeed = Fin 0, us_hasBallSpeed = False,
      us_ballLocation = None, us_cameraTargetPlayerId = [], us_forfeitScopes = [],
      us_explicitNonRecordable = False, us_fallbackNonRecordableReason = [],
      us_explicitCasual = False, us_players = []\<rparr>"

text \<open>
  \<open>HasExplicitLocalForfeitSignal\<close>: the scopes are tried in order; a scope whose forfeiting team
  is known decides only by that team.
\<close>

fun HasExplicitLocalForfeitSignal :: "ForfeitScope list \<Rightarrow> int \<Rightarrow> bool" where
  "HasExplicitLocalForfeitSignal [] localTeam = False"
| "HasExplicitLocalForfeitSignal (scope # scopes) localTeam =
     (if fs_localFlag scope then True
      else if \<not> fs_forfeit scope then HasExplicitLocalForfeitSignal scopes localTeam
      else if fs_forfeitTeam scope = Some 0 \<or> fs_forfeitTeam scope = Some 1
        then (if fs_forfeitTeam scope = Some localTeam then True
              else HasExplicitLocalForfeitSignal scopes localTeam)
      else if (fs_winnerTeam scope = Some 0 \<or> fs_winnerTeam scope = Some 1) \<and>
              (localTeam = 0 \<or> localTeam = 1) \<and> fs_winnerTeam scope \<noteq> Some localTeam
        then True
      else HasExplicitLocalForfeitSignal scopes localTeam)"

text \<open>What one scope says about the local team, whatever the other scopes say.\<close>

definition scope_signals :: "int \<Rightarrow> ForfeitScope \<Rightarrow> bool" where
  "scope_signals localTeam scope =
     (fs_localFlag scope \<or>
      (fs_forfeit scope \<and>
       (case fs_forfeitTeam scope of
          Some t \<Rightarrow> (if t = 0 \<or> t = 1 then t = localTeam
                     else localTeam \<in> {0, 1} \<and> fs_winnerTeam scope \<in> {Some 0, Some 1} - {Some localTeam})
        | None \<Rightarrow> localTeam \<in> {0, 1} \<and> fs_winnerTeam scope \<in> {Some 0, Some 1} - {Some localTeam})))"

lemma forfeit_signal_exists:
  "HasExplicitLocalForfeitSignal scopes localTeam \<longleftrightarrow> (\<exists>s \<in> set scopes. scope_signals localTeam s)"
  by (induction scopes) (auto simp: scope_signals_def split: option.splits)

end
