(* ===== verification/Analytics_Tracker.thy ===== *)
theory Analytics_Tracker
  imports Telemetry_Events
begin

text \<open>
  \<open>MatchAnalyticsTracker\<close>: the per-match analytics that the reducer drives beside the match
  state. The data it publishes (\<open>MatchAnalytics.hpp\<close>), its private state (\<open>Tracker\<close>), one
  function per handler, and \<open>Snapshot\<close>. Times are the doubles and floats of the code, with
  every addition rounded to the type it is stored in. The invariant says that the index into the
  player vector is exact, so that no handler reads outside it, and bounds the counters.
\<close>

section \<open>Published data\<close>

record CarTelemetry =
  ct_sampledSeconds :: fp
  ct_distance :: fp
  ct_maxSpeed :: fp
  ct_slowSeconds :: fp
  ct_boostSpeedSeconds :: fp
  ct_supersonicSeconds :: fp
  ct_groundSeconds :: fp
  ct_airSeconds :: fp
  ct_wallSeconds :: fp
  ct_powerslideSeconds :: fp
  ct_powerslideCount :: int
  ct_boostingSeconds :: fp
  ct_boostIntegral :: fp
  ct_zeroBoostSeconds :: fp
  ct_fullBoostSeconds :: fp
  ct_boostBandSeconds :: "fp list"
  ct_boostUsed :: int
  ct_boostCollected :: int
  ct_bigPads :: int
  ct_smallPads :: int
  ct_stolenBigPads :: int
  ct_stolenSmallPads :: int
  ct_padsFromPickupEvents :: bool
  ct_demolishedSeconds :: fp

definition CarTelemetry0 :: CarTelemetry where
  "CarTelemetry0 =
     \<lparr>ct_sampledSeconds = Fin 0, ct_distance = Fin 0, ct_maxSpeed = Fin 0, ct_slowSeconds = Fin 0,
      ct_boostSpeedSeconds = Fin 0, ct_supersonicSeconds = Fin 0, ct_groundSeconds = Fin 0,
      ct_airSeconds = Fin 0, ct_wallSeconds = Fin 0, ct_powerslideSeconds = Fin 0,
      ct_powerslideCount = 0, ct_boostingSeconds = Fin 0, ct_boostIntegral = Fin 0,
      ct_zeroBoostSeconds = Fin 0, ct_fullBoostSeconds = Fin 0,
      ct_boostBandSeconds = [Fin 0, Fin 0, Fin 0, Fin 0], ct_boostUsed = 0, ct_boostCollected = 0,
      ct_bigPads = 0, ct_smallPads = 0, ct_stolenBigPads = 0, ct_stolenSmallPads = 0,
      ct_padsFromPickupEvents = False, ct_demolishedSeconds = Fin 0\<rparr>"

record PlayerAnalytics =
  pa_primaryId :: string
  pa_name :: string
  pa_team :: int
  pa_hits :: int
  pa_aerialHits :: int
  pa_highAerialHits :: int
  pa_hardHits :: int
  pa_firstTouches :: int
  pa_hitsByThird :: "int list"
  pa_hitSpeedSum :: fp
  pa_maxHitSpeed :: fp
  pa_demosInflicted :: int
  pa_demosTaken :: int
  pa_statEvents :: "(string, int) umap"
  pa_car :: "CarTelemetry option"

definition PlayerAnalytics0 :: PlayerAnalytics where
  "PlayerAnalytics0 =
     \<lparr>pa_primaryId = [], pa_name = [], pa_team = -1, pa_hits = 0, pa_aerialHits = 0,
      pa_highAerialHits = 0, pa_hardHits = 0, pa_firstTouches = 0, pa_hitsByThird = [0, 0, 0],
      pa_hitSpeedSum = Fin 0, pa_maxHitSpeed = Fin 0, pa_demosInflicted = 0, pa_demosTaken = 0,
      pa_statEvents = [], pa_car = None\<rparr>"

record GoalRecord =
  gr_playSeconds :: fp
  gr_clockSeconds :: "fp option"
  gr_overtime :: bool
  gr_team :: int
  gr_scorerId :: string
  gr_scorerName :: string
  gr_assisterId :: string
  gr_assisterName :: string
  gr_goalSpeed :: "fp option"
  gr_lastTouchSpeed :: "fp option"
  gr_location :: "FieldPoint option"
  gr_roundSeconds :: "fp option"
  gr_scoreAfter :: "int \<times> int"

record HitRecord =
  hr_playSeconds :: fp
  hr_playerId :: string
  hr_team :: int
  hr_location :: FieldPoint
  hr_speed :: fp

record KickoffRecord =
  kr_playSeconds :: fp
  kr_firstTouchId :: string
  kr_firstTouchTeam :: int
  kr_possessionTeam :: int
  kr_goalTeam :: int

record PossessionWindow =
  pw_endPlaySeconds :: fp
  pw_seconds :: "fp \<times> fp"

record PlayerDeparture =
  dp_primaryId :: string
  dp_name :: string
  dp_team :: int
  dp_playSeconds :: fp
  dp_clockSeconds :: "fp option"

record MatchAnalytics =
  ma_formatVersion :: int
  ma_playSeconds :: fp
  ma_possessionSeconds :: "fp \<times> fp"
  ma_ballSpeedIntegral :: fp
  ma_maxBallSpeed :: fp
  ma_pauses :: int
  ma_pausedSeconds :: fp
  ma_endClockSeconds :: "fp option"
  ma_endedInOvertime :: bool
  ma_players :: "PlayerAnalytics list"
  ma_goals :: "GoalRecord list"
  ma_hits :: "HitRecord list"
  ma_kickoffs :: "KickoffRecord list"
  ma_possessionTimeline :: "PossessionWindow list"
  ma_departures :: "PlayerDeparture list"

definition MatchAnalytics0 :: MatchAnalytics where
  "MatchAnalytics0 =
     \<lparr>ma_formatVersion = 1, ma_playSeconds = Fin 0, ma_possessionSeconds = (Fin 0, Fin 0),
      ma_ballSpeedIntegral = Fin 0, ma_maxBallSpeed = Fin 0, ma_pauses = 0,
      ma_pausedSeconds = Fin 0, ma_endClockSeconds = None, ma_endedInOvertime = False,
      ma_players = [], ma_goals = [], ma_hits = [], ma_kickoffs = [], ma_possessionTimeline = [],
      ma_departures = []\<rparr>"

definition kMaxHits :: nat where
  "kMaxHits = 2500"

definition kPossessionWindowSeconds :: fp where
  "kPossessionWindowSeconds = Fin 15"

definition MatchAnalytics_Empty :: "MatchAnalytics \<Rightarrow> bool" where
  "MatchAnalytics_Empty a =
     (ma_playSeconds a \<le> Fin 0 \<and> ma_players a = [] \<and> ma_goals a = [] \<and> ma_hits a = [])"

definition FindPlayer :: "MatchAnalytics \<Rightarrow> string \<Rightarrow> PlayerAnalytics option" where
  "FindPlayer a primaryId = find (\<lambda>p. pa_primaryId p = primaryId) (ma_players a)"

section \<open>The tracker's state\<close>

record SpeedSample =
  ss_raw :: fp
  ss_seconds :: fp
  ss_supersonic :: int

record RawCarState =
  rc_speedSamples :: "SpeedSample list"
  rc_lastBoost :: "int option"
  rc_respawning :: bool
  rc_wasPowersliding :: bool

definition RawCarState0 :: RawCarState where
  "RawCarState0 = \<lparr>rc_speedSamples = [], rc_lastBoost = None, rc_respawning = False,
     rc_wasPowersliding = False\<rparr>"

record LastHit =
  lh_at :: fp
  lh_speed :: fp
  lh_counted :: bool

definition LastHit0 :: LastHit where
  "LastHit0 = \<lparr>lh_at = Fin 0, lh_speed = Fin 0, lh_counted = False\<rparr>"

record Tracker =
  m_data :: MatchAnalytics
  m_playerIndex :: "(string, nat) umap"
  m_shortcutToId :: "(int, string) umap"
  m_rawCar :: "(string, RawCarState) umap"
  m_ballSpeedSamples :: "(fp \<times> fp) list"
  m_possessionTeam :: int
  m_lastSampleAt :: "fp option"
  m_lastHit :: "(string, LastHit) umap"
  m_pausedAt :: "fp option"
  m_lastClock :: "fp option"
  m_lastOvertime :: bool
  m_roundActive :: bool
  m_paused :: bool
  m_awaitingFirstTouch :: bool
  m_kickoffPossessionPending :: bool
  m_score :: "int \<times> int"
  m_scoreboard :: "int \<times> int"
  m_window :: PossessionWindow

definition Tracker0 :: Tracker where
  "Tracker0 =
     \<lparr>m_data = MatchAnalytics0, m_playerIndex = [], m_shortcutToId = [], m_rawCar = [],
      m_ballSpeedSamples = [], m_possessionTeam = -1, m_lastSampleAt = None, m_lastHit = [],
      m_pausedAt = None, m_lastClock = None, m_lastOvertime = False, m_roundActive = False,
      m_paused = False, m_awaitingFirstTouch = False, m_kickoffPossessionPending = False,
      m_score = (0, 0), m_scoreboard = (0, 0),
      m_window = \<lparr>pw_endPlaySeconds = Fin 0, pw_seconds = (Fin 0, Fin 0)\<rparr>\<rparr>"

section \<open>Constants\<close>

definition kFieldThirdY :: fp where "kFieldThirdY = fdiv32 (Fin 5120) (Fin 3)"
definition kAerialHitZ :: fp where "kAerialHitZ = Fin 300"
definition kCrossbarZ :: fp where "kCrossbarZ = f32 (642775 / 1000)"
definition kHardHitKph :: fp where "kHardHitKph = Fin 100"
definition kTouchMergeSeconds :: fp where "kTouchMergeSeconds = f64 (3 / 100)"
definition kGoalLineY :: fp where "kGoalLineY = Fin 5000"
definition kUuToKph :: fp where "kUuToKph = f32 (36 / 1000)"
definition kBoostSpeedKph :: fp where "kBoostSpeedKph = fmul32 (Fin 1400) kUuToKph"
definition kSupersonicKph :: fp where "kSupersonicKph = fmul32 (Fin 2200) kUuToKph"
definition kCarRawUuThreshold :: fp where "kCarRawUuThreshold = Fin 150"
definition kBallRawUuThreshold :: fp where "kBallRawUuThreshold = Fin 400"
definition kMaxSampleSeconds :: fp where "kMaxSampleSeconds = Fin (1 / 2)"
definition kKickoffPossessionSeconds :: fp where "kKickoffPossessionSeconds = Fin 3"
definition kKickoffGoalSeconds :: fp where "kKickoffGoalSeconds = Fin 10"
definition kSmallPadBoost :: int where "kSmallPadBoost = 12"
definition kMidfieldPadY :: fp where "kMidfieldPadY = Fin 100"

definition SpeedKph :: "fp \<Rightarrow> bool \<Rightarrow> fp" where
  "SpeedKph raw rawIsUu = (if rawIsUu then fmul32 raw kUuToKph else raw)"

definition Positive :: "fp option \<Rightarrow> fp option" where
  "Positive value = (case value of Some v \<Rightarrow> (if Fin 0 < v then Some v else None) | None \<Rightarrow> None)"

section \<open>Players\<close>

text \<open>\<open>PlayerFor\<close> returns a reference: here the index of the player, who is added if new.\<close>

definition PlayerFor :: "string \<Rightarrow> Tracker \<Rightarrow> Tracker \<times> nat" where
  "PlayerFor primaryId t =
     (case map_of (m_playerIndex t) primaryId of
        Some i \<Rightarrow> (t, i)
      | None \<Rightarrow>
         (let n = length (ma_players (m_data t)) in
          (t\<lparr>m_playerIndex := um_emplace primaryId n (m_playerIndex t),
             m_data := (m_data t)\<lparr>ma_players :=
               ma_players (m_data t) @ [PlayerAnalytics0\<lparr>pa_primaryId := primaryId\<rparr>]\<rparr>\<rparr>, n)))"

definition player_at :: "nat \<Rightarrow> Tracker \<Rightarrow> PlayerAnalytics" where
  "player_at i t = ma_players (m_data t) ! i"

definition set_player :: "nat \<Rightarrow> PlayerAnalytics \<Rightarrow> Tracker \<Rightarrow> Tracker" where
  "set_player i p t =
     t\<lparr>m_data := (m_data t)\<lparr>ma_players := (ma_players (m_data t))[i := p]\<rparr>\<rparr>"

text \<open>The loop that looks for the one player of a name: the last match and whether it is unique.\<close>

definition resolve_name :: "PlayerAnalytics list \<Rightarrow> PlayerRef \<Rightarrow> string \<times> bool" where
  "resolve_name players ref =
     fold (\<lambda>p (match, ambiguous).
        if pa_name p \<noteq> pr_name ref \<or> (pr_team ref \<noteq> -1 \<and> pa_team p \<noteq> pr_team ref)
        then (match, ambiguous)
        else (pa_primaryId p, match \<noteq> [])) players ([], False)"

definition ResolvePlayer :: "Tracker \<Rightarrow> PlayerRef \<Rightarrow> string" where
  "ResolvePlayer t ref =
     (if pr_primaryId ref \<noteq> [] then pr_primaryId ref
      else let (match, ambiguous) =
                 (if pr_name ref \<noteq> [] then resolve_name (ma_players (m_data t)) ref else ([], False))
           in if match \<noteq> [] \<and> \<not> ambiguous then match
              else case pr_shortcut ref of
                     Some s \<Rightarrow> (case map_of (m_shortcutToId t) s of Some i \<Rightarrow> i | None \<Rightarrow> [])
                   | None \<Rightarrow> [])"

section \<open>Play time and possession\<close>

definition CloseKickoffWindows :: "Tracker \<Rightarrow> Tracker" where
  "CloseKickoffWindows t =
     (if \<not> m_kickoffPossessionPending t \<or> ma_kickoffs (m_data t) = [] then t
      else if fsub32 (ma_playSeconds (m_data t)) (kr_playSeconds (last (ma_kickoffs (m_data t))))
                < kKickoffPossessionSeconds then t
      else t\<lparr>m_data := (m_data t)\<lparr>ma_kickoffs :=
               upd_last (kr_possessionTeam_update (\<lambda>_. m_possessionTeam t)) (ma_kickoffs (m_data t))\<rparr>,
             m_kickoffPossessionPending := False\<rparr>)"

definition add_possession :: "fp \<Rightarrow> Tracker \<Rightarrow> Tracker" where
  "add_possession seconds t =
     (let team = m_possessionTeam t in
      if is_team team then
        t\<lparr>m_data := (m_data t)\<lparr>ma_possessionSeconds :=
            team_set team (fadd32 (team_at (ma_possessionSeconds (m_data t)) team) seconds)
              (ma_possessionSeconds (m_data t))\<rparr>,
          m_window := (m_window t)\<lparr>pw_seconds :=
            team_set team (fadd32 (team_at (pw_seconds (m_window t)) team) seconds)
              (pw_seconds (m_window t))\<rparr>\<rparr>
      else t)"

definition roll_window :: "Tracker \<Rightarrow> Tracker" where
  "roll_window t =
     (let play = ma_playSeconds (m_data t) in
      if fadd32 (pw_endPlaySeconds (m_window t)) kPossessionWindowSeconds \<le> play then
        t\<lparr>m_data := (m_data t)\<lparr>ma_possessionTimeline :=
            ma_possessionTimeline (m_data t) @ [(m_window t)\<lparr>pw_endPlaySeconds := play\<rparr>]\<rparr>,
          m_window := \<lparr>pw_endPlaySeconds = play, pw_seconds = (Fin 0, Fin 0)\<rparr>\<rparr>
      else t)"

definition AddPlayTime :: "fp \<Rightarrow> Tracker \<Rightarrow> Tracker" where
  "AddPlayTime seconds t =
     CloseKickoffWindows (roll_window (add_possession seconds
       (t\<lparr>m_data := (m_data t)\<lparr>ma_playSeconds := fadd32 (ma_playSeconds (m_data t)) seconds\<rparr>\<rparr>)))"

section \<open>OnUpdateState\<close>

text \<open>Names, teams and shortcuts of the players listed.\<close>

definition note_player :: "UpdatePlayerState \<Rightarrow> Tracker \<Rightarrow> Tracker" where
  "note_player pj t =
     (if up_primaryId pj = [] then t
      else let (t1, i) = PlayerFor (up_primaryId pj) t;
               p = player_at i t1;
               p1 = (if up_name pj \<noteq> [] then p\<lparr>pa_name := up_name pj\<rparr> else p);
               p2 = (if up_team pj \<noteq> -1 then p1\<lparr>pa_team := up_team pj\<rparr> else p1);
               t2 = set_player i p2 t1
           in case up_shortcut pj of
                Some s \<Rightarrow> t2\<lparr>m_shortcutToId := um_put s (up_primaryId pj) (m_shortcutToId t2)\<rparr>
              | None \<Rightarrow> t2)"

definition note_scoreboard :: "UpdateStateEvent \<Rightarrow> Tracker \<Rightarrow> Tracker" where
  "note_scoreboard ev t =
     t\<lparr>m_scoreboard :=
        (if fst (us_teamScorePresent ev) then fst (us_teamScores ev) else fst (m_scoreboard t),
         if snd (us_teamScorePresent ev) then snd (us_teamScores ev) else snd (m_scoreboard t))\<rparr>"

text \<open>The clock: a clock that moved outside replays and pauses means the round is live.\<close>

definition note_clock :: "UpdateStateEvent \<Rightarrow> Tracker \<Rightarrow> Tracker" where
  "note_clock ev t =
     (let clock = us_timeSeconds ev;
          moved = (case (clock, m_lastClock t) of (Some c, Some l) \<Rightarrow> \<not> feq c l | _ \<Rightarrow> False);
          t1 = (if moved \<and> \<not> us_bReplay ev \<and> \<not> m_paused t then t\<lparr>m_roundActive := True\<rparr> else t);
          t2 = (if clock \<noteq> None then t1\<lparr>m_lastClock := clock\<rparr> else t1)
      in t2\<lparr>m_lastOvertime := us_bOvertime ev\<rparr>)"

text \<open>The sample's duration, and the tracker with the sample's time noted.\<close>

definition sample_dt :: "fp \<Rightarrow> Tracker \<Rightarrow> fp" where
  "sample_dt nowSeconds t =
     fclamp (f32_of_f64 (fsub64 nowSeconds
       (case m_lastSampleAt t of Some p \<Rightarrow> p | None \<Rightarrow> nowSeconds))) (Fin 0) kMaxSampleSeconds"

definition note_ball :: "UpdateStateEvent \<Rightarrow> fp \<Rightarrow> Tracker \<Rightarrow> Tracker" where
  "note_ball ev dt t =
     (if us_hasBall ev then
        let t1 = (if is_team (us_ballTeam ev) then t\<lparr>m_possessionTeam := us_ballTeam ev\<rparr> else t)
        in if us_hasBallSpeed ev
           then t1\<lparr>m_ballSpeedSamples := m_ballSpeedSamples t1 @ [(us_ballSpeed ev, dt)]\<rparr>
           else t1
      else t)"

text \<open>One car sample: motion first, then boost.\<close>

definition car_motion :: "UpdatePlayerState \<Rightarrow> fp \<Rightarrow> bool \<Rightarrow> CarTelemetry \<Rightarrow> CarTelemetry" where
  "car_motion pj dt wasPowersliding car =
     (let car1 = car\<lparr>ct_sampledSeconds := fadd32 (ct_sampledSeconds car) dt\<rparr>;
          car2 = (if up_bOnWall pj then car1\<lparr>ct_wallSeconds := fadd32 (ct_wallSeconds car1) dt\<rparr>
                  else if up_bOnGround pj then car1\<lparr>ct_groundSeconds := fadd32 (ct_groundSeconds car1) dt\<rparr>
                  else car1\<lparr>ct_airSeconds := fadd32 (ct_airSeconds car1) dt\<rparr>);
          car3 = (if up_bPowersliding pj
                  then car2\<lparr>ct_powerslideSeconds := fadd32 (ct_powerslideSeconds car2) dt,
                            ct_powerslideCount := ct_powerslideCount car2 + (if wasPowersliding then 0 else 1)\<rparr>
                  else car2)
      in if up_bBoosting pj then car3\<lparr>ct_boostingSeconds := fadd32 (ct_boostingSeconds car3) dt\<rparr> else car3)"

definition boost_time :: "int \<Rightarrow> fp \<Rightarrow> CarTelemetry \<Rightarrow> CarTelemetry" where
  "boost_time amount dt car =
     (let car1 = car\<lparr>ct_boostIntegral := fadd32 (ct_boostIntegral car) (fmul32 (f32_of_int amount) dt)\<rparr>;
          car2 = (if amount \<le> 0 then car1\<lparr>ct_zeroBoostSeconds := fadd32 (ct_zeroBoostSeconds car1) dt\<rparr> else car1);
          car3 = (if 100 \<le> amount then car2\<lparr>ct_fullBoostSeconds := fadd32 (ct_fullBoostSeconds car2) dt\<rparr> else car2);
          band = nat (min 3 (amount div 25))
      in car3\<lparr>ct_boostBandSeconds := (ct_boostBandSeconds car3)[band := fadd32 (ct_boostBandSeconds car3 ! band) dt]\<rparr>)"

definition boost_delta :: "int \<Rightarrow> RawCarState \<Rightarrow> CarTelemetry \<Rightarrow> RawCarState \<times> CarTelemetry" where
  "boost_delta amount raw car =
     (case rc_lastBoost raw of
        None \<Rightarrow> (raw, car)
      | Some lastBoost \<Rightarrow>
         (let delta = amount - lastBoost in
          if rc_respawning raw then (if delta \<noteq> 0 then raw\<lparr>rc_respawning := False\<rparr> else raw, car)
          else if 0 < delta then
            (let car1 = car\<lparr>ct_boostCollected := ct_boostCollected car + delta\<rparr> in
             (raw, if \<not> ct_padsFromPickupEvents car1 then
                     (if kSmallPadBoost < delta then car1\<lparr>ct_bigPads := ct_bigPads car1 + 1\<rparr>
                      else car1\<lparr>ct_smallPads := ct_smallPads car1 + 1\<rparr>)
                   else car1))
          else if delta < 0 then (raw, car\<lparr>ct_boostUsed := ct_boostUsed car - delta\<rparr>)
          else (raw, car)))"

definition clamp_int :: "int \<Rightarrow> int \<Rightarrow> int \<Rightarrow> int" where
  "clamp_int v lo hi = (if v < lo then lo else if hi < v then hi else v)"

definition sample_car :: "UpdatePlayerState \<Rightarrow> fp \<Rightarrow> RawCarState \<Rightarrow> CarTelemetry \<Rightarrow> RawCarState \<times> CarTelemetry" where
  "sample_car pj dt raw car =
     (if up_bDemolished pj \<or> \<not> up_bHasCar pj
      then (raw\<lparr>rc_respawning := True, rc_wasPowersliding := False\<rparr>,
            car\<lparr>ct_demolishedSeconds := fadd32 (ct_demolishedSeconds car) dt\<rparr>)
      else let raw1 = raw\<lparr>rc_speedSamples := rc_speedSamples raw @
                 [\<lparr>ss_raw = up_speed pj, ss_seconds = dt,
                   ss_supersonic = (if up_bSupersonic pj = Some True then 1 else 0)\<rparr>]\<rparr>;
               car1 = car_motion pj dt (rc_wasPowersliding raw1) car;
               raw2 = raw1\<lparr>rc_wasPowersliding := up_bPowersliding pj\<rparr>;
               amount = clamp_int (case up_boost pj of Some b \<Rightarrow> b | None \<Rightarrow> 0) 0 100;
               (raw3, car2) = boost_delta amount raw2 (boost_time amount dt car1)
           in (raw3\<lparr>rc_lastBoost := Some amount\<rparr>, car2))"

definition sample_player :: "fp \<Rightarrow> UpdatePlayerState \<Rightarrow> Tracker \<Rightarrow> Tracker" where
  "sample_player dt pj t =
     (if \<not> up_hasCarField pj \<and> \<not> up_bDemolished pj then t
      else if up_primaryId pj = [] then t
      else let (t1, i) = PlayerFor (up_primaryId pj) t;
               p = player_at i t1;
               car = (case pa_car p of Some c \<Rightarrow> c | None \<Rightarrow> CarTelemetry0);
               raw = (case map_of (m_rawCar t1) (up_primaryId pj) of Some r \<Rightarrow> r | None \<Rightarrow> RawCarState0);
               (raw', car') = sample_car pj dt raw car
           in (set_player i (p\<lparr>pa_car := Some car'\<rparr>) t1)
                \<lparr>m_rawCar := um_put (up_primaryId pj) raw' (m_rawCar t1)\<rparr>)"

definition Tracker_OnUpdateState :: "UpdateStateEvent \<Rightarrow> fp \<Rightarrow> Tracker \<Rightarrow> Tracker" where
  "Tracker_OnUpdateState ev nowSeconds t =
     (let t1 = note_clock ev (note_scoreboard ev (fold note_player (us_players ev) t));
          dt = sample_dt nowSeconds t1;
          t2 = t1\<lparr>m_lastSampleAt := Some nowSeconds\<rparr>
      in if us_bReplay ev \<or> \<not> m_roundActive t2 \<or> m_paused t2 \<or> dt \<le> Fin 0 then t2
         else fold (sample_player dt) (us_players ev) (AddPlayTime dt (note_ball ev dt t2)))"

section \<open>The other handlers\<close>

definition Tracker_OnCountdownBegin :: "Tracker \<Rightarrow> Tracker" where
  "Tracker_OnCountdownBegin t =
     t\<lparr>m_roundActive := False, m_awaitingFirstTouch := False,
       m_rawCar := map (\<lambda>(i, raw). (i, raw\<lparr>rc_lastBoost := None, rc_respawning := False,
                                         rc_wasPowersliding := False\<rparr>)) (m_rawCar t)\<rparr>"

definition Tracker_OnRoundStarted :: "fp \<Rightarrow> Tracker \<Rightarrow> Tracker" where
  "Tracker_OnRoundStarted nowSeconds t =
     t\<lparr>m_roundActive := \<not> m_paused t, m_lastSampleAt := Some nowSeconds, m_possessionTeam := -1,
       m_score := (max (fst (m_score t)) (fst (m_scoreboard t)), max (snd (m_score t)) (snd (m_scoreboard t))),
       m_awaitingFirstTouch := True, m_kickoffPossessionPending := True,
       m_data := (m_data t)\<lparr>ma_kickoffs := ma_kickoffs (m_data t) @
         [\<lparr>kr_playSeconds = ma_playSeconds (m_data t), kr_firstTouchId = [], kr_firstTouchTeam = -1,
           kr_possessionTeam = -1, kr_goalTeam = -1\<rparr>]\<rparr>\<rparr>"

text \<open>A hit that continues a contact, and a hit that starts one.\<close>

definition merge_hit :: "fp \<Rightarrow> LastHit \<Rightarrow> PlayerAnalytics \<Rightarrow> PlayerAnalytics \<times> fp" where
  "merge_hit speed lastHit p =
     (let (p1, s1) = (if lh_speed lastHit < speed then
              (p\<lparr>pa_hitSpeedSum := fadd32 (pa_hitSpeedSum p) (fsub32 speed (lh_speed lastHit)),
                 pa_hardHits := pa_hardHits p +
                   (if lh_speed lastHit < kHardHitKph \<and> kHardHitKph \<le> speed then 1 else 0)\<rparr>, speed)
            else (p, lh_speed lastHit))
      in (p1\<lparr>pa_maxHitSpeed := fmax (pa_maxHitSpeed p1) speed\<rparr>, s1))"

definition third_of :: "int \<Rightarrow> FieldPoint \<Rightarrow> nat" where
  "third_of team location =
     (let forward = (if team = 0 then fpt_y location else fp_neg (fpt_y location)) in
      if forward < fp_neg kFieldThirdY then 0 else if kFieldThirdY < forward then 2 else 1)"

definition place_hit :: "int \<Rightarrow> FieldPoint option \<Rightarrow> PlayerAnalytics \<Rightarrow> PlayerAnalytics" where
  "place_hit team location p =
     (case location of None \<Rightarrow> p
      | Some l \<Rightarrow>
         (let p1 = (if kAerialHitZ \<le> fpt_z l then p\<lparr>pa_aerialHits := pa_aerialHits p + 1\<rparr> else p);
              p2 = (if kCrossbarZ \<le> fpt_z l then p1\<lparr>pa_highAerialHits := pa_highAerialHits p1 + 1\<rparr> else p1)
          in if is_team team
             then p2\<lparr>pa_hitsByThird := (pa_hitsByThird p2)[third_of team l := pa_hitsByThird p2 ! third_of team l + 1]\<rparr>
             else p2))"

definition count_hit :: "fp \<Rightarrow> PlayerAnalytics \<Rightarrow> PlayerAnalytics" where
  "count_hit speed p =
     p\<lparr>pa_hits := pa_hits p + 1,
       pa_hitSpeedSum := fadd32 (pa_hitSpeedSum p) speed,
       pa_maxHitSpeed := fmax (pa_maxHitSpeed p) speed,
       pa_hardHits := pa_hardHits p + (if kHardHitKph \<le> speed then 1 else 0)\<rparr>"

definition log_hit :: "string \<Rightarrow> int \<Rightarrow> fp \<Rightarrow> FieldPoint option \<Rightarrow> Tracker \<Rightarrow> Tracker" where
  "log_hit i team speed location t =
     (case location of None \<Rightarrow> t
      | Some l \<Rightarrow>
         (if length (ma_hits (m_data t)) < kMaxHits
          then t\<lparr>m_data := (m_data t)\<lparr>ma_hits := ma_hits (m_data t) @
                 [\<lparr>hr_playSeconds = ma_playSeconds (m_data t), hr_playerId = i, hr_team = team,
                   hr_location = l, hr_speed = speed\<rparr>]\<rparr>\<rparr>
          else t))"

definition kickoff_touch :: "string \<Rightarrow> int \<Rightarrow> Tracker \<Rightarrow> Tracker" where
  "kickoff_touch i team t =
     (let ks = ma_kickoffs (m_data t) in
      if ks \<noteq> [] \<and> kr_firstTouchId (last ks) = []
      then t\<lparr>m_data := (m_data t)\<lparr>ma_kickoffs :=
             upd_last (\<lambda>k. k\<lparr>kr_firstTouchId := i, kr_firstTouchTeam := team\<rparr>) ks\<rparr>\<rparr>
      else t)"

definition last_hit :: "Tracker \<Rightarrow> string \<Rightarrow> LastHit" where
  "last_hit t i = (case map_of (m_lastHit t) i of Some l \<Rightarrow> l | None \<Rightarrow> LastHit0)"

definition hit_contact ::
    "BallHitEvent \<Rightarrow> fp \<Rightarrow> bool \<Rightarrow> string \<Rightarrow> int \<Rightarrow> nat \<Rightarrow> PlayerAnalytics \<Rightarrow> Tracker \<Rightarrow> Tracker" where
  "hit_contact ev nowSeconds first i team n p t =
     (let speed = bh_postHitSpeed ev;
          lastHit = last_hit t i in
      if lh_counted lastHit \<and> fsub64 nowSeconds (lh_at lastHit) \<le> kTouchMergeSeconds
      then (let (p1, s) = merge_hit speed lastHit p
            in (set_player n p1 t)\<lparr>m_lastHit :=
                 um_put i (lastHit\<lparr>lh_at := nowSeconds, lh_speed := s\<rparr>) (m_lastHit t)\<rparr>)
      else let p1 = place_hit team (bh_location ev) (count_hit speed p);
               p2 = (if first then p1\<lparr>pa_firstTouches := pa_firstTouches p1 + 1\<rparr> else p1);
               t1 = (set_player n p2 t)\<lparr>m_lastHit :=
                 um_put i \<lparr>lh_at = nowSeconds, lh_speed = speed, lh_counted = True\<rparr> (m_lastHit t)\<rparr>;
               t2 = log_hit i team speed (bh_location ev) t1
           in if first then kickoff_touch i team t2 else t2)"

text \<open>The hitter's name and team are filled in; the team is the event's, or else the player's.\<close>

definition hitter_team :: "PlayerRef \<Rightarrow> PlayerAnalytics \<Rightarrow> int" where
  "hitter_team h p = (if pr_team h \<noteq> -1 then pr_team h else pa_team p)"

definition name_hitter :: "PlayerRef \<Rightarrow> PlayerAnalytics \<Rightarrow> PlayerAnalytics" where
  "name_hitter h p =
     (let p1 = (if pa_name p = [] then p\<lparr>pa_name := pr_name h\<rparr> else p)
      in if pa_team p1 = -1 then p1\<lparr>pa_team := hitter_team h p1\<rparr> else p1)"

definition hit_by :: "BallHitEvent \<Rightarrow> fp \<Rightarrow> bool \<Rightarrow> PlayerRef \<Rightarrow> Tracker \<Rightarrow> Tracker" where
  "hit_by ev nowSeconds first h t =
     (let i = ResolvePlayer t h in
      if i = [] then t
      else let (t1, n) = PlayerFor i t;
               team = hitter_team h (player_at n t1);
               t2 = (if is_team team then t1\<lparr>m_possessionTeam := team\<rparr> else t1)
           in hit_contact ev nowSeconds first i team n (name_hitter h (player_at n t1)) t2)"

definition Tracker_OnBallHit :: "BallHitEvent \<Rightarrow> fp \<Rightarrow> Tracker \<Rightarrow> Tracker" where
  "Tracker_OnBallHit ev nowSeconds t =
     (if bh_hitters ev = [] then t
      else let t1 = (if \<not> m_paused t then t\<lparr>m_roundActive := True\<rparr> else t);
               first = m_awaitingFirstTouch t1;
               t2 = fold (hit_by ev nowSeconds first) (bh_hitters ev) (t1\<lparr>m_awaitingFirstTouch := False\<rparr>)
           in t2\<lparr>m_data := (m_data t2)\<lparr>ma_maxBallSpeed := fmax (ma_maxBallSpeed (m_data t2)) (bh_postHitSpeed ev)\<rparr>\<rparr>)"

definition count_pad :: "bool \<Rightarrow> CarTelemetry \<Rightarrow> CarTelemetry" where
  "count_pad big car =
     (let car1 = (if \<not> ct_padsFromPickupEvents car
                  then car\<lparr>ct_padsFromPickupEvents := True, ct_bigPads := 0, ct_smallPads := 0\<rparr> else car)
      in if big then car1\<lparr>ct_bigPads := ct_bigPads car1 + 1\<rparr>
         else car1\<lparr>ct_smallPads := ct_smallPads car1 + 1\<rparr>)"

definition count_stolen :: "bool \<Rightarrow> CarTelemetry \<Rightarrow> CarTelemetry" where
  "count_stolen big car =
     (if big then car\<lparr>ct_stolenBigPads := ct_stolenBigPads car + 1\<rparr>
      else car\<lparr>ct_stolenSmallPads := ct_stolenSmallPads car + 1\<rparr>)"

definition Tracker_OnBoostPickup :: "BoostPickupEvent \<Rightarrow> Tracker \<Rightarrow> Tracker" where
  "Tracker_OnBoostPickup ev t =
     (let i = ResolvePlayer t (bp_player ev) in
      if bp_bReplay ev \<or> i = [] then t
      else let (t1, n) = PlayerFor i t;
               p = player_at n t1;
               big = (bp_boostType ev = ''BoostType_Pill'');
               car = count_pad big (case pa_car p of Some c \<Rightarrow> c | None \<Rightarrow> CarTelemetry0);
               team = (if pr_team (bp_player ev) \<noteq> -1 then pr_team (bp_player ev) else pa_team p);
               car' = (case bp_location ev of
                   Some l \<Rightarrow>
                     if is_team team \<and> kMidfieldPadY < (if team = 0 then fpt_y l else fp_neg (fpt_y l))
                     then count_stolen big car else car
                 | None \<Rightarrow> car)
           in set_player n (p\<lparr>pa_car := Some car'\<rparr>) t1)"

text \<open>The replay-end repeat of a goal only supplies the location of the goal before it.\<close>

definition goal_echo :: "GoalScoredEvent \<Rightarrow> Tracker \<Rightarrow> Tracker" where
  "goal_echo ev t =
     (let goals = ma_goals (m_data t) in
      case gs_impactLocation ev of
        None \<Rightarrow> t
      | Some l \<Rightarrow>
         (if goals = [] \<or> gr_location (last goals) \<noteq> None then t
          else let attackY = (if gr_team (last goals) = 0 then fpt_y l
                              else if gr_team (last goals) = 1 then fp_neg (fpt_y l) else Fin 0)
               in if kGoalLineY \<le> attackY
                  then t\<lparr>m_data := (m_data t)\<lparr>ma_goals := upd_last (gr_location_update (\<lambda>_. Some l)) goals\<rparr>\<rparr>
                  else t))"

definition goal_team :: "GoalScoredEvent \<Rightarrow> Tracker \<Rightarrow> int" where
  "goal_team ev t =
     (if \<not> gs_hasScorer ev then -1
      else if pr_team (gs_scorer ev) \<noteq> -1 then pr_team (gs_scorer ev)
      else case FindPlayer (m_data t) (ResolvePlayer t (gs_scorer ev)) of
             Some p \<Rightarrow> pa_team p | None \<Rightarrow> -1)"

definition kickoff_goal :: "int \<Rightarrow> Tracker \<Rightarrow> Tracker" where
  "kickoff_goal team t =
     (let ks = ma_kickoffs (m_data t) in
      if ks \<noteq> [] \<and> kr_goalTeam (last ks) = -1 \<and>
         fsub32 (ma_playSeconds (m_data t)) (kr_playSeconds (last ks)) \<le> kKickoffGoalSeconds
      then t\<lparr>m_data := (m_data t)\<lparr>ma_kickoffs := upd_last (kr_goalTeam_update (\<lambda>_. team)) ks\<rparr>\<rparr>
      else t)"

definition Tracker_OnGoalScored :: "GoalScoredEvent \<Rightarrow> Tracker \<Rightarrow> Tracker" where
  "Tracker_OnGoalScored ev t =
     (if gs_isEcho ev then goal_echo ev t
      else let t1 = t\<lparr>m_roundActive := False, m_awaitingFirstTouch := False\<rparr>;
               team = goal_team ev t1;
               t2 = (if is_team team
                     then kickoff_goal team
                            (t1\<lparr>m_score := team_set team (team_at (m_score t1) team + 1) (m_score t1)\<rparr>)
                     else t1);
               g = \<lparr>gr_playSeconds = ma_playSeconds (m_data t1), gr_clockSeconds = m_lastClock t1,
                    gr_overtime = m_lastOvertime t1, gr_team = team,
                    gr_scorerId = (if gs_hasScorer ev then ResolvePlayer t1 (gs_scorer ev) else []),
                    gr_scorerName = (if gs_hasScorer ev then pr_name (gs_scorer ev) else []),
                    gr_assisterId = (case gs_assister ev of Some a \<Rightarrow> ResolvePlayer t1 a | None \<Rightarrow> []),
                    gr_assisterName = (case gs_assister ev of Some a \<Rightarrow> pr_name a | None \<Rightarrow> []),
                    gr_goalSpeed = Positive (map_option f32_of_f64 (gs_goalSpeed ev)),
                    gr_lastTouchSpeed = Positive (gs_lastTouchSpeed ev),
                    gr_location = None,
                    gr_roundSeconds = Positive (gs_roundSeconds ev),
                    gr_scoreAfter = m_score t2\<rparr>
           in t2\<lparr>m_data := (m_data t2)\<lparr>ma_goals := ma_goals (m_data t2) @ [g]\<rparr>\<rparr>)"

definition count_stat :: "string \<Rightarrow> PlayerAnalytics \<Rightarrow> PlayerAnalytics" where
  "count_stat name p =
     (let count = (case map_of (pa_statEvents p) name of Some c \<Rightarrow> c | None \<Rightarrow> 0)
      in p\<lparr>pa_statEvents := um_put name (count + 1) (pa_statEvents p)\<rparr>)"

definition demo_inflicted :: "PlayerAnalytics \<Rightarrow> PlayerAnalytics" where
  "demo_inflicted p = p\<lparr>pa_demosInflicted := pa_demosInflicted p + 1\<rparr>"

definition demo_taken :: "PlayerAnalytics \<Rightarrow> PlayerAnalytics" where
  "demo_taken p = p\<lparr>pa_demosTaken := pa_demosTaken p + 1\<rparr>"

definition Tracker_OnStatfeed :: "StatfeedEvent \<Rightarrow> Tracker \<Rightarrow> Tracker" where
  "Tracker_OnStatfeed ev t =
     (let mainId = ResolvePlayer t (sf_mainTarget ev) in
      if sf_eventName ev = [] \<or> mainId = [] then t
      else let (t1, n) = PlayerFor mainId t;
               p = count_stat (sf_eventName ev) (player_at n t1)
           in if sf_eventName ev = ''Demolish'' then
                let t2 = set_player n (demo_inflicted p) t1
                in case sf_secondaryTarget ev of
                     None \<Rightarrow> t2
                   | Some target \<Rightarrow>
                      (let victimId = ResolvePlayer t2 target in
                       if victimId = [] then t2
                       else let (t3, k) = PlayerFor victimId t2
                            in set_player k (demo_taken (player_at k t3)) t3)
              else set_player n p t1)"

definition Tracker_OnPlayerLeft :: "PlayerLeftEvent \<Rightarrow> Tracker \<Rightarrow> Tracker" where
  "Tracker_OnPlayerLeft ev t =
     (if pl_primaryId ev = [] \<and> pl_name ev = [] then t
      else let found = FindPlayer (m_data t) (pl_primaryId ev);
               d = \<lparr>dp_primaryId = pl_primaryId ev,
                    dp_name = (case found of
                        Some p \<Rightarrow> (if pl_name ev = [] then pa_name p else pl_name ev) | None \<Rightarrow> pl_name ev),
                    dp_team = (case found of Some p \<Rightarrow> pa_team p | None \<Rightarrow> -1),
                    dp_playSeconds = ma_playSeconds (m_data t), dp_clockSeconds = m_lastClock t\<rparr>
           in t\<lparr>m_data := (m_data t)\<lparr>ma_departures := ma_departures (m_data t) @ [d]\<rparr>\<rparr>)"

definition Tracker_OnPaused :: "fp \<Rightarrow> Tracker \<Rightarrow> Tracker" where
  "Tracker_OnPaused nowSeconds t =
     (if m_paused t then t
      else t\<lparr>m_paused := True, m_pausedAt := Some nowSeconds,
             m_data := (m_data t)\<lparr>ma_pauses := ma_pauses (m_data t) + 1\<rparr>\<rparr>)"

definition Tracker_OnUnpaused :: "fp \<Rightarrow> Tracker \<Rightarrow> Tracker" where
  "Tracker_OnUnpaused nowSeconds t =
     (if \<not> m_paused t then t
      else t\<lparr>m_paused := False,
             m_data := (case m_pausedAt t of
                 Some since \<Rightarrow> (m_data t)\<lparr>ma_pausedSeconds := fadd32 (ma_pausedSeconds (m_data t))
                                 (f32_of_f64 (fmax (Fin 0) (fsub64 nowSeconds since)))\<rparr>
               | None \<Rightarrow> m_data t),
             m_pausedAt := None, m_lastSampleAt := Some nowSeconds\<rparr>)"

definition Tracker_OnMatchEnded :: "Tracker \<Rightarrow> Tracker" where
  "Tracker_OnMatchEnded t =
     t\<lparr>m_roundActive := False,
       m_data := (m_data t)\<lparr>ma_endClockSeconds := m_lastClock t, ma_endedInOvertime := m_lastOvertime t\<rparr>\<rparr>"

section \<open>Snapshot\<close>

definition close_window :: "Tracker \<Rightarrow> MatchAnalytics \<Rightarrow> MatchAnalytics" where
  "close_window t out =
     (if Fin 0 < fst (pw_seconds (m_window t)) \<or> Fin 0 < snd (pw_seconds (m_window t))
      then out\<lparr>ma_possessionTimeline := ma_possessionTimeline out @
             [(m_window t)\<lparr>pw_endPlaySeconds := ma_playSeconds out\<rparr>]\<rparr>
      else out)"

definition ball_integral :: "(fp \<times> fp) list \<Rightarrow> fp" where
  "ball_integral samples =
     (let ballRawMax = fold (\<lambda>(speed, seconds) m. fmax m speed) samples (Fin 0);
          ballUu = (kBallRawUuThreshold < ballRawMax)
      in fold (\<lambda>(speed, seconds) s. fadd32 s (fmul32 (SpeedKph speed ballUu) seconds)) samples (Fin 0))"

definition speed_sample :: "bool \<Rightarrow> SpeedSample \<Rightarrow> CarTelemetry \<Rightarrow> CarTelemetry" where
  "speed_sample uu s car =
     (let kph = SpeedKph (ss_raw s) uu;
          car1 = car\<lparr>ct_distance := fadd32 (ct_distance car) (fmul32 (fdiv32 kph kUuToKph) (ss_seconds s)),
                    ct_maxSpeed := fmax (ct_maxSpeed car) kph\<rparr>;
          supersonic = (if ss_supersonic s = -1 then kSupersonicKph \<le> kph else ss_supersonic s = 1)
      in if supersonic then car1\<lparr>ct_supersonicSeconds := fadd32 (ct_supersonicSeconds car1) (ss_seconds s)\<rparr>
         else if kBoostSpeedKph \<le> kph
           then car1\<lparr>ct_boostSpeedSeconds := fadd32 (ct_boostSpeedSeconds car1) (ss_seconds s)\<rparr>
         else car1\<lparr>ct_slowSeconds := fadd32 (ct_slowSeconds car1) (ss_seconds s)\<rparr>)"

definition settle_car :: "SpeedSample list \<Rightarrow> CarTelemetry \<Rightarrow> CarTelemetry" where
  "settle_car samples car =
     (let rawMax = fold (\<lambda>s m. fmax m (ss_raw s)) samples (Fin 0);
          uu = (kCarRawUuThreshold < rawMax)
      in fold (speed_sample uu) samples car)"

definition settle_player :: "Tracker \<Rightarrow> PlayerAnalytics \<Rightarrow> PlayerAnalytics" where
  "settle_player t p =
     (case (pa_car p, map_of (m_rawCar t) (pa_primaryId p)) of
        (Some car, Some raw) \<Rightarrow> p\<lparr>pa_car := Some (settle_car (rc_speedSamples raw) car)\<rparr>
      | _ \<Rightarrow> p)"

definition Tracker_Snapshot :: "Tracker \<Rightarrow> MatchAnalytics" where
  "Tracker_Snapshot t =
     (let out = close_window t (m_data t)
      in out\<lparr>ma_ballSpeedIntegral := ball_integral (m_ballSpeedSamples t),
             ma_players := map (settle_player t) (ma_players out)\<rparr>)"

section \<open>The tracker's invariant\<close>

text \<open>
  A player's counters: one third per placed hit, aerial hits among the hits, the hits counted as
  hard among the contacts. \<open>pend\<close> is 1 while the player's last contact can still become hard.
\<close>

definition car_ok :: "CarTelemetry \<Rightarrow> bool" where
  "car_ok c = (length (ct_boostBandSeconds c) = 4 \<and> 0 \<le> ct_boostUsed c \<and> 0 \<le> ct_boostCollected c \<and>
     0 \<le> ct_stolenBigPads c \<and> 0 \<le> ct_stolenSmallPads c \<and>
     ct_stolenBigPads c \<le> ct_bigPads c \<and> ct_stolenSmallPads c \<le> ct_smallPads c \<and>
     (ct_padsFromPickupEvents c \<or> ct_stolenBigPads c = 0 \<and> ct_stolenSmallPads c = 0))"

definition player_ok :: "int \<Rightarrow> PlayerAnalytics \<Rightarrow> bool" where
  "player_ok pend p = (length (pa_hitsByThird p) = 3 \<and> sum_list (pa_hitsByThird p) \<le> pa_hits p \<and>
     pa_highAerialHits p \<le> pa_aerialHits p \<and> pa_aerialHits p \<le> pa_hits p \<and>
     pa_firstTouches p \<le> pa_hits p \<and> pa_hardHits p + pend \<le> pa_hits p \<and>
     (case pa_car p of Some c \<Rightarrow> car_ok c | None \<Rightarrow> True))"

definition contact_pending :: "LastHit \<Rightarrow> int" where
  "contact_pending l = (if lh_counted l \<and> lh_speed l < kHardHitKph then 1 else 0)"

definition pending_for :: "Tracker \<Rightarrow> string \<Rightarrow> int" where
  "pending_for t i = (case map_of (m_lastHit t) i of Some l \<Rightarrow> contact_pending l | None \<Rightarrow> 0)"

definition player_ids :: "Tracker \<Rightarrow> string list" where
  "player_ids t = map pa_primaryId (ma_players (m_data t))"

definition index_ok :: "Tracker \<Rightarrow> bool" where
  "index_ok t = (m_playerIndex t = zip (player_ids t) [0..<length (player_ids t)] \<and>
     distinct (player_ids t) \<and> [] \<notin> set (player_ids t))"

definition samples_ok :: "RawCarState \<Rightarrow> bool" where
  "samples_ok raw = (\<forall>s \<in> set (rc_speedSamples raw). ss_supersonic s \<in> {0, 1})"

definition cars_ok :: "(string, RawCarState) umap \<Rightarrow> bool" where
  "cars_ok m = (\<forall>e \<in> set m. samples_ok (snd e))"

definition tracker_inv :: "Tracker \<Rightarrow> bool" where
  "tracker_inv t = (index_ok t \<and>
     (\<forall>p \<in> set (ma_players (m_data t)). player_ok (pending_for t (pa_primaryId p)) p) \<and>
     (\<forall>e \<in> set (m_lastHit t). fst e \<in> set (player_ids t)) \<and>
     cars_ok (m_rawCar t) \<and>
     length (ma_hits (m_data t)) \<le> kMaxHits)"

lemmas tracker_inv_defs = tracker_inv_def index_ok_def player_ids_def pending_for_def

lemma tracker_inv_frame [simp]:
  "tracker_inv (t\<lparr>m_shortcutToId := a1\<rparr>) = tracker_inv t"
  "tracker_inv (t\<lparr>m_ballSpeedSamples := a2\<rparr>) = tracker_inv t"
  "tracker_inv (t\<lparr>m_possessionTeam := a3\<rparr>) = tracker_inv t"
  "tracker_inv (t\<lparr>m_lastSampleAt := a4\<rparr>) = tracker_inv t"
  "tracker_inv (t\<lparr>m_pausedAt := a4\<rparr>) = tracker_inv t"
  "tracker_inv (t\<lparr>m_lastClock := a4\<rparr>) = tracker_inv t"
  "tracker_inv (t\<lparr>m_lastOvertime := b\<rparr>) = tracker_inv t"
  "tracker_inv (t\<lparr>m_roundActive := b\<rparr>) = tracker_inv t"
  "tracker_inv (t\<lparr>m_paused := b\<rparr>) = tracker_inv t"
  "tracker_inv (t\<lparr>m_awaitingFirstTouch := b\<rparr>) = tracker_inv t"
  "tracker_inv (t\<lparr>m_kickoffPossessionPending := b\<rparr>) = tracker_inv t"
  "tracker_inv (t\<lparr>m_score := s\<rparr>) = tracker_inv t"
  "tracker_inv (t\<lparr>m_scoreboard := s\<rparr>) = tracker_inv t"
  "tracker_inv (t\<lparr>m_window := w\<rparr>) = tracker_inv t"
  by (simp_all add: tracker_inv_defs)

text \<open>Replacing the published data by data with the same players and no more hits.\<close>

lemma tracker_inv_data [simp]:
  "ma_players d = ma_players (m_data t) \<Longrightarrow> ma_hits d = ma_hits (m_data t) \<Longrightarrow>
   tracker_inv (t\<lparr>m_data := d\<rparr>) = tracker_inv t"
  by (simp add: tracker_inv_defs)

lemma tracker_inv_init [simp]: "tracker_inv Tracker0"
  by (simp add: tracker_inv_defs cars_ok_def Tracker0_def MatchAnalytics0_def)

subsection \<open>Finding and updating a player\<close>

lemma map_of_zip_index:
  "distinct xs \<Longrightarrow> map_of (zip xs [0..<length xs]) x = Some i \<longleftrightarrow> i < length xs \<and> xs ! i = x"
  by (auto simp: map_of_zip_nth map_of_eq_Some_iff in_set_zip)

lemma zip_index_keys [simp]: "fst ` set (zip xs [0..<length xs]) = set xs"
  by (metis diff_zero length_upt list.set_map map_fst_zip)

lemma player_ok_new [simp]: "player_ok 0 (PlayerAnalytics0\<lparr>pa_primaryId := i\<rparr>)"
  by (simp add: player_ok_def PlayerAnalytics0_def)

lemma zip_index_snoc:
  "zip (xs @ [x]) [0..<Suc (length xs)] = zip xs [0..<length xs] @ [(x, length xs)]"
  by simp

lemma PlayerFor_new:
  assumes "tracker_inv t" and "i \<noteq> []" and new: "i \<notin> set (player_ids t)"
  shows "tracker_inv (t\<lparr>m_playerIndex := m_playerIndex t @ [(i, length (ma_players (m_data t)))],
     m_data := (m_data t)\<lparr>ma_players := ma_players (m_data t) @ [PlayerAnalytics0\<lparr>pa_primaryId := i\<rparr>]\<rparr>\<rparr>)"
    (is "tracker_inv ?t")
proof -
  have ids: "player_ids ?t = player_ids t @ [i]" by (simp add: player_ids_def)
  have "map_of (m_lastHit t) i = None"
    using assms by (force simp: tracker_inv_def map_of_eq_None_iff)
  then have "pending_for ?t i = 0" by (simp add: pending_for_def)
  moreover have "index_ok ?t"
    using assms ids zip_index_snoc[of "player_ids t" i]
    by (simp add: tracker_inv_def index_ok_def) (simp add: player_ids_def)
  ultimately show ?thesis
    using assms ids by (auto simp: tracker_inv_def pending_for_def)
qed

lemma PlayerFor_inv:
  assumes "tracker_inv t" and "i \<noteq> []"
  shows "tracker_inv (fst (PlayerFor i t)) \<and> snd (PlayerFor i t) < length (ma_players (m_data (fst (PlayerFor i t)))) \<and>
     pa_primaryId (player_at (snd (PlayerFor i t)) (fst (PlayerFor i t))) = i"
proof (cases "map_of (m_playerIndex t) i")
  case None
  then have "i \<notin> set (player_ids t)"
    using assms by (simp add: tracker_inv_def index_ok_def map_of_eq_None_iff)
  then show ?thesis
    using PlayerFor_new[OF assms] None by (simp add: PlayerFor_def um_emplace_def player_at_def Let_def)
next
  case (Some k)
  then have "k < length (player_ids t) \<and> player_ids t ! k = i"
    using assms map_of_zip_index[of "player_ids t" i k] by (simp add: tracker_inv_def index_ok_def)
  then have "k < length (ma_players (m_data t)) \<and> pa_primaryId (player_at k t) = i"
    by (auto simp: player_ids_def player_at_def)
  then show ?thesis using Some assms by (simp add: PlayerFor_def)
qed

lemma PlayerFor_frame [simp]:
  "m_lastHit (fst (PlayerFor i t)) = m_lastHit t" "m_rawCar (fst (PlayerFor i t)) = m_rawCar t"
  by (simp_all add: PlayerFor_def Let_def split: option.splits)

lemma player_at_ok:
  "tracker_inv t \<Longrightarrow> i < length (ma_players (m_data t)) \<Longrightarrow>
     player_ok (pending_for t (pa_primaryId (player_at i t))) (player_at i t)"
  by (simp add: tracker_inv_def player_at_def)

lemma player_ids_set_player [simp]:
  "i < length (ma_players (m_data t)) \<Longrightarrow> pa_primaryId p = pa_primaryId (player_at i t) \<Longrightarrow>
   player_ids (set_player i p t) = player_ids t"
  by (simp add: player_ids_def set_player_def player_at_def map_update list_update_same_conv)

lemma set_player_inv:
  assumes "tracker_inv t" and "i < length (ma_players (m_data t))"
    and "pa_primaryId p = pa_primaryId (player_at i t)"
    and "player_ok (pending_for t (pa_primaryId p)) p"
  shows "tracker_inv (set_player i p t)"
proof -
  have ids: "player_ids (set_player i p t) = player_ids t" using assms by simp
  have "\<forall>q \<in> set (ma_players (m_data (set_player i p t))). player_ok (pending_for t (pa_primaryId q)) q"
    using assms set_update_subset_insert[of "ma_players (m_data t)" i p]
    by (auto simp: set_player_def tracker_inv_def)
  then show ?thesis using assms ids
    by (simp add: tracker_inv_def index_ok_def pending_for_def) (simp add: set_player_def)
qed

text \<open>What a handler may rely on after \<open>PlayerFor\<close>.\<close>

lemma PlayerForE:
  assumes "tracker_inv t" and "i \<noteq> []"
  obtains t1 n where "PlayerFor i t = (t1, n)" "tracker_inv t1" "n < length (ma_players (m_data t1))"
    "pa_primaryId (player_at n t1) = i" "player_ok (pending_for t1 i) (player_at n t1)"
    "m_lastHit t1 = m_lastHit t" "m_rawCar t1 = m_rawCar t"
proof -
  have "player_ok (pending_for (fst (PlayerFor i t)) i) (player_at (snd (PlayerFor i t)) (fst (PlayerFor i t)))"
    using PlayerFor_inv[OF assms] player_at_ok by metis
  then show thesis
    using PlayerFor_inv[OF assms] that[of "fst (PlayerFor i t)" "snd (PlayerFor i t)"] by simp
qed

text \<open>The update of a player together with the player's last hit.\<close>

lemma set_player_hit_inv:
  assumes "tracker_inv t" and "i < length (ma_players (m_data t))"
    and "pa_primaryId p = pa_primaryId (player_at i t)"
    and "player_ok (contact_pending l) p"
  shows "tracker_inv ((set_player i p t)\<lparr>m_lastHit := um_put (pa_primaryId p) l (m_lastHit t)\<rparr>)"
proof -
  let ?t = "(set_player i p t)\<lparr>m_lastHit := um_put (pa_primaryId p) l (m_lastHit t)\<rparr>"
  let ?ps = "ma_players (m_data t)"
  have ids: "player_ids ?t = player_ids t" using assms by (simp add: player_ids_def set_player_def player_at_def map_update list_update_same_conv)
  have mem: "pa_primaryId p \<in> set (player_ids t)"
    using assms(2,3) by (auto simp: player_ids_def player_at_def)
  have dist: "distinct (map pa_primaryId ?ps)"
    using assms(1) by (simp add: tracker_inv_def index_ok_def player_ids_def)
  have ok: "player_ok (pending_for ?t (pa_primaryId (?ps[i := p] ! k))) (?ps[i := p] ! k)"
    if k: "k < length ?ps" for k
  proof (cases "k = i")
    case True
    then show ?thesis using assms k by (simp add: pending_for_def um_simps)
  next
    case False
    then have "pa_primaryId (?ps ! k) \<noteq> pa_primaryId p"
      using nth_eq_iff_index_eq[OF dist, of k i] k assms(2,3) by (simp add: player_at_def)
    then show ?thesis using False assms(1) k
      by (simp add: tracker_inv_def pending_for_def um_simps)
  qed
  have "\<forall>q \<in> set (?ps[i := p]). player_ok (pending_for ?t (pa_primaryId q)) q"
    using ok by (metis in_set_conv_nth length_list_update)
  moreover have "fst ` set (um_put (pa_primaryId p) l (m_lastHit t)) = insert (pa_primaryId p) (fst ` set (m_lastHit t))"
    by (simp add: dom_update)
  then have "\<forall>e \<in> set (um_put (pa_primaryId p) l (m_lastHit t)). fst e \<in> set (player_ids t)"
    using assms(1) mem unfolding tracker_inv_def by (metis (no_types, lifting) image_eqI imageE insertE)
  ultimately show ?thesis using assms(1) ids
    by (simp add: tracker_inv_def index_ok_def) (simp add: set_player_def)
qed

subsection \<open>Every handler keeps the invariant\<close>

lemma fold_inv: "(\<And>x s. P s \<Longrightarrow> P (f x s)) \<Longrightarrow> P s \<Longrightarrow> P (fold f xs s)"
  by (induction xs arbitrary: s) auto

lemma player_ok_frame [simp]:
  "player_ok c (p\<lparr>pa_name := x\<rparr>) = player_ok c p"
  "player_ok c (p\<lparr>pa_team := n\<rparr>) = player_ok c p"
  "player_ok c (p\<lparr>pa_statEvents := e\<rparr>) = player_ok c p"
  "player_ok c (p\<lparr>pa_demosInflicted := n\<rparr>) = player_ok c p"
  "player_ok c (p\<lparr>pa_demosTaken := n\<rparr>) = player_ok c p"
  by (simp_all add: player_ok_def)

lemma player_ok_car: "player_ok c p \<Longrightarrow> car_ok car \<Longrightarrow> player_ok c (p\<lparr>pa_car := Some car\<rparr>)"
  by (simp add: player_ok_def)

lemma player_ok_getcar:
  "player_ok c p \<Longrightarrow> car_ok (case pa_car p of Some car \<Rightarrow> car | None \<Rightarrow> CarTelemetry0)"
  by (auto simp: player_ok_def car_ok_def CarTelemetry0_def split: option.splits)

lemma note_player_inv:
  assumes "tracker_inv t" shows "tracker_inv (note_player pj t)"
proof (cases "up_primaryId pj = []")
  case False
  with assms obtain t1 n where 1: "PlayerFor (up_primaryId pj) t = (t1, n)" "tracker_inv t1"
    "n < length (ma_players (m_data t1))" "pa_primaryId (player_at n t1) = up_primaryId pj"
    "player_ok (pending_for t1 (up_primaryId pj)) (player_at n t1)" by (rule PlayerForE)
  then show ?thesis using False
    by (simp add: note_player_def Let_def set_player_inv split: option.split)
qed (simp add: note_player_def assms)

lemma AddPlayTime_inv [simp]: "tracker_inv (AddPlayTime dt t) = tracker_inv t"
  by (simp add: AddPlayTime_def CloseKickoffWindows_def roll_window_def add_possession_def Let_def)

lemma car_motion_ok: "car_ok car \<Longrightarrow> car_ok (car_motion pj dt b car)"
  by (simp add: car_motion_def car_ok_def Let_def)

lemma boost_time_ok: "car_ok car \<Longrightarrow> car_ok (boost_time amount dt car)"
  by (simp add: boost_time_def car_ok_def Let_def)

lemma boost_delta_ok: "car_ok car \<Longrightarrow> car_ok (snd (boost_delta amount raw car))"
  by (auto simp: boost_delta_def car_ok_def Let_def split: option.splits)

lemma boost_delta_samples [simp]:
  "rc_speedSamples (fst (boost_delta amount raw car)) = rc_speedSamples raw"
  by (auto simp: boost_delta_def Let_def split: option.splits)

lemma sample_car_ok:
  "car_ok car \<Longrightarrow> car_ok (snd (sample_car pj dt raw car))"
  using boost_delta_ok[OF boost_time_ok[OF car_motion_ok]]
  by (simp add: sample_car_def Let_def case_prod_unfold) (simp add: car_ok_def)

lemma sample_car_samples:
  "samples_ok raw \<Longrightarrow> samples_ok (fst (sample_car pj dt raw car))"
  by (auto simp: sample_car_def samples_ok_def Let_def case_prod_unfold)

lemma tracker_inv_rawCar: "tracker_inv t \<Longrightarrow> cars_ok m \<Longrightarrow> tracker_inv (t\<lparr>m_rawCar := m\<rparr>)"
  by (simp add: tracker_inv_defs)

lemma cars_ok_put: "cars_ok m \<Longrightarrow> samples_ok r \<Longrightarrow> cars_ok (um_put k r m)"
  by (induction m) (auto simp: cars_ok_def)

lemma cars_ok_lookup:
  "cars_ok m \<Longrightarrow> samples_ok (case map_of m i of Some r \<Rightarrow> r | None \<Rightarrow> RawCarState0)"
  by (cases "map_of m i") (fastforce simp: cars_ok_def samples_ok_def RawCarState0_def dest: map_of_SomeD)+

lemma tracker_inv_cars: "tracker_inv t \<Longrightarrow> cars_ok (m_rawCar t)"
  by (simp add: tracker_inv_def)

lemma sample_player_inv:
  assumes "tracker_inv t" shows "tracker_inv (sample_player dt pj t)"
proof (cases "up_primaryId pj = [] \<or> \<not> up_hasCarField pj \<and> \<not> up_bDemolished pj")
  case False
  then have "up_primaryId pj \<noteq> []" by simp
  with assms obtain t1 n where 1: "PlayerFor (up_primaryId pj) t = (t1, n)" "tracker_inv t1"
    "n < length (ma_players (m_data t1))" "pa_primaryId (player_at n t1) = up_primaryId pj"
    "player_ok (pending_for t1 (up_primaryId pj)) (player_at n t1)" by (rule PlayerForE)
  show ?thesis using False 1 player_ok_getcar[OF 1(5)] tracker_inv_cars[OF 1(2)]
    by (auto simp: sample_player_def Let_def case_prod_unfold intro!: tracker_inv_rawCar cars_ok_put
        cars_ok_lookup set_player_inv player_ok_car sample_car_ok sample_car_samples)
qed (auto simp: sample_player_def assms)

lemma Tracker_OnUpdateState_inv: "tracker_inv t \<Longrightarrow> tracker_inv (Tracker_OnUpdateState ev now t)"
  by (auto simp: Tracker_OnUpdateState_def note_clock_def note_scoreboard_def note_ball_def Let_def
      intro!: fold_inv[where P = tracker_inv] note_player_inv sample_player_inv split: option.splits)

lemma cars_ok_map:
  "(\<And>r. rc_speedSamples (f r) = rc_speedSamples r) \<Longrightarrow> cars_ok (map (\<lambda>(i, r). (i, f r)) m) = cars_ok m"
  by (induction m) (auto simp: cars_ok_def samples_ok_def)

lemma Tracker_OnCountdownBegin_inv: "tracker_inv t \<Longrightarrow> tracker_inv (Tracker_OnCountdownBegin t)"
  by (simp add: Tracker_OnCountdownBegin_def cars_ok_map tracker_inv_rawCar tracker_inv_cars)

lemma Tracker_OnRoundStarted_inv: "tracker_inv t \<Longrightarrow> tracker_inv (Tracker_OnRoundStarted now t)"
  by (simp add: Tracker_OnRoundStarted_def)

lemma crossbar_above_aerial: "kCrossbarZ \<le> z \<Longrightarrow> kAerialHitZ \<le> z"
proof -
  have "kAerialHitZ \<le> kCrossbarZ" "kCrossbarZ \<noteq> NaN" by code_simp+
  then show "kCrossbarZ \<le> z \<Longrightarrow> kAerialHitZ \<le> z" 
    by (auto simp: less_eq_fp_def dest: fp_less_trans)
qed

lemma sum_list_incr:
  fixes xs :: "int list"
  shows "i < length xs \<Longrightarrow> sum_list (xs[i := xs ! i + 1]) = sum_list xs + 1"
  by (induction xs arbitrary: i) (auto split: nat.splits)

lemma third_of_bound: "third_of team l < 3"
  by (simp add: third_of_def Let_def)

lemma place_count_ok:
  assumes "player_ok pend p" "0 \<le> pend" "lh_counted l" "lh_speed l = speed"
  shows "player_ok (contact_pending l) (place_hit team location (count_hit speed p))"
  using assms third_of_bound crossbar_above_aerial
  by (auto simp: place_hit_def count_hit_def player_ok_def contact_pending_def sum_list_incr Let_def
      less_eq_fp_def split: option.splits dest: fp_less_trans)
lemma merge_hit_ok:
  assumes "player_ok (contact_pending l) p" "lh_counted l"
  shows "player_ok (contact_pending (l\<lparr>lh_at := now, lh_speed := snd (merge_hit speed l p)\<rparr>)) (fst (merge_hit speed l p))"
proof -
  have "\<not> kHardHitKph \<le> speed \<or> \<not> speed < kHardHitKph"
    by (auto simp: less_eq_fp_def dest: fp_less_trans)
  moreover have "lh_speed l < speed \<Longrightarrow> speed < kHardHitKph \<Longrightarrow> lh_speed l < kHardHitKph"
    by (rule fp_less_trans)
  ultimately show ?thesis
    using assms by (auto simp: merge_hit_def player_ok_def contact_pending_def Let_def split: if_splits)
qed

lemma merge_hit_id [simp]: "pa_primaryId (fst (merge_hit speed l p)) = pa_primaryId p"
  by (simp add: merge_hit_def Let_def)

lemma place_hit_id [simp]: "pa_primaryId (place_hit team location (count_hit speed p)) = pa_primaryId p"
  by (simp add: place_hit_def count_hit_def Let_def split: option.splits)

lemma log_hit_inv: "tracker_inv t \<Longrightarrow> tracker_inv (log_hit i team speed location t)"
  by (auto simp: log_hit_def tracker_inv_defs kMaxHits_def split: option.splits)

lemma kickoff_touch_inv [simp]: "tracker_inv (kickoff_touch i team t) = tracker_inv t"
  by (simp add: kickoff_touch_def Let_def)

lemma first_touch_ok:
  "player_ok c p \<Longrightarrow> pa_firstTouches p < pa_hits p \<Longrightarrow> player_ok c (p\<lparr>pa_firstTouches := pa_firstTouches p + 1\<rparr>)"
  by (simp add: player_ok_def)

lemma place_count_touches:
  "player_ok c p \<Longrightarrow> pa_firstTouches (place_hit team location (count_hit speed p)) < pa_hits (place_hit team location (count_hit speed p))"
  by (simp add: player_ok_def place_hit_def count_hit_def Let_def split: option.splits)

lemma pending_nonneg: "0 \<le> pending_for t i"
  by (simp add: pending_for_def contact_pending_def split: option.splits)

text \<open>A contact that continues and a contact that starts, on a player already found.\<close>

lemma hit_contact_inv:
  assumes "tracker_inv t" "n < length (ma_players (m_data t))" "pa_primaryId p = pa_primaryId (player_at n t)"
    "player_ok (pending_for t (pa_primaryId p)) p"
  shows "tracker_inv (hit_contact ev now first (pa_primaryId p) team n p t)"
proof -
  let ?speed = "bh_postHitSpeed ev"
  let ?i = "pa_primaryId p"
  define l where "l = last_hit t ?i"
  show ?thesis
  proof (cases "lh_counted l \<and> fsub64 now (lh_at l) \<le> kTouchMergeSeconds")
    case True
    then have "map_of (m_lastHit t) ?i = Some l"
      by (auto simp: l_def last_hit_def LastHit0_def split: option.splits)
    then have "player_ok (contact_pending l) p" using assms(4) by (simp add: pending_for_def)
    then have "player_ok (contact_pending (l\<lparr>lh_at := now, lh_speed := snd (merge_hit ?speed l p)\<rparr>)) (fst (merge_hit ?speed l p))"
      using True by (simp add: merge_hit_ok)
    from set_player_hit_inv[of t n "fst (merge_hit ?speed l p)", OF assms(1,2) _ this] assms(3)
    have "tracker_inv ((set_player n (fst (merge_hit ?speed l p)) t)\<lparr>m_lastHit :=
        um_put ?i (l\<lparr>lh_at := now, lh_speed := snd (merge_hit ?speed l p)\<rparr>) (m_lastHit t)\<rparr>)" by simp
    then show ?thesis using True
      by (simp add: hit_contact_def Let_def case_prod_unfold flip: l_def)
  next
    case False
    let ?l = "\<lparr>lh_at = now, lh_speed = ?speed, lh_counted = True\<rparr>"
    let ?p1 = "place_hit team (bh_location ev) (count_hit ?speed p)"
    have 1: "player_ok (contact_pending ?l) ?p1"
      using place_count_ok[OF assms(4) pending_nonneg] by simp
    then have 2: "player_ok (contact_pending ?l) (?p1\<lparr>pa_firstTouches := pa_firstTouches ?p1 + 1\<rparr>)"
      using place_count_touches[OF assms(4)] by (rule first_touch_ok)
    have "tracker_inv ((set_player n ?p1 t)\<lparr>m_lastHit := um_put ?i ?l (m_lastHit t)\<rparr>)"
      using set_player_hit_inv[of t n ?p1, OF assms(1,2) _ 1] assms(3) by simp
    moreover have "tracker_inv ((set_player n (?p1\<lparr>pa_firstTouches := pa_firstTouches ?p1 + 1\<rparr>) t)\<lparr>m_lastHit := um_put ?i ?l (m_lastHit t)\<rparr>)"
      using set_player_hit_inv[of t n "?p1\<lparr>pa_firstTouches := pa_firstTouches ?p1 + 1\<rparr>", OF assms(1,2) _ 2] assms(3) by simp
    ultimately show ?thesis using False
      by (auto simp: hit_contact_def Let_def log_hit_inv simp flip: l_def)
  qed
qed

lemma pending_for_possession [simp]: "pending_for (t\<lparr>m_possessionTeam := x\<rparr>) i = pending_for t i"
  by (simp add: pending_for_def)

lemma player_at_possession [simp]: "player_at n (t\<lparr>m_possessionTeam := x\<rparr>) = player_at n t"
  by (simp add: player_at_def)

lemma set_player_lastHit [simp]: "m_lastHit (set_player n p t) = m_lastHit t"
  by (simp add: set_player_def)

lemma name_hitter_id [simp]: "pa_primaryId (name_hitter h p) = pa_primaryId p"
  by (simp add: name_hitter_def Let_def)

lemma name_hitter_ok [simp]: "player_ok c (name_hitter h p) = player_ok c p"
  by (simp add: name_hitter_def Let_def)

lemma hit_by_inv:
  assumes "tracker_inv t" shows "tracker_inv (hit_by ev now first h t)"
proof (cases "ResolvePlayer t h = []")
  case False
  let ?i = "ResolvePlayer t h"
  from assms False obtain t1 n where 1: "PlayerFor ?i t = (t1, n)" "tracker_inv t1"
    "n < length (ma_players (m_data t1))" "pa_primaryId (player_at n t1) = ?i"
    "player_ok (pending_for t1 ?i) (player_at n t1)" by (rule PlayerForE)
  have "tracker_inv (hit_contact ev now first ?i team n (name_hitter h (player_at n t1)) t2)"
    if "t2 = t1 \<or> (\<exists>x. t2 = t1\<lparr>m_possessionTeam := x\<rparr>)" for t2 team
    using hit_contact_inv[of t2 n "name_hitter h (player_at n t1)"] 1 that by auto
  then show ?thesis using False 1(1) by (auto simp: hit_by_def Let_def)
qed (simp add: hit_by_def assms)

lemma Tracker_OnBallHit_inv: "tracker_inv t \<Longrightarrow> tracker_inv (Tracker_OnBallHit ev now t)"
  by (auto simp: Tracker_OnBallHit_def Let_def intro!: fold_inv[where P = tracker_inv] hit_by_inv)

lemma count_pad_ok: "car_ok car \<Longrightarrow> car_ok (count_pad big car)"
  by (auto simp: count_pad_def car_ok_def Let_def)

lemma count_stolen_pad_ok: "car_ok car \<Longrightarrow> car_ok (count_stolen big (count_pad big car))"
  by (auto simp: count_pad_def count_stolen_def car_ok_def Let_def)

lemma Tracker_OnBoostPickup_inv:
  assumes "tracker_inv t" shows "tracker_inv (Tracker_OnBoostPickup ev t)"
proof (cases "bp_bReplay ev \<or> ResolvePlayer t (bp_player ev) = []")
  case False
  let ?i = "ResolvePlayer t (bp_player ev)"
  from False have "?i \<noteq> []" by simp
  with assms obtain t1 n where 1: "PlayerFor ?i t = (t1, n)" "tracker_inv t1"
    "n < length (ma_players (m_data t1))" "pa_primaryId (player_at n t1) = ?i"
    "player_ok (pending_for t1 ?i) (player_at n t1)" by (rule PlayerForE)
  show ?thesis using False 1 player_ok_getcar[OF 1(5)]
    by (auto simp: Tracker_OnBoostPickup_def Let_def intro!: set_player_inv player_ok_car
        count_pad_ok count_stolen_pad_ok split: option.split)
qed (auto simp: Tracker_OnBoostPickup_def assms)

lemma Tracker_OnGoalScored_inv: "tracker_inv t \<Longrightarrow> tracker_inv (Tracker_OnGoalScored ev t)"
  by (simp add: Tracker_OnGoalScored_def goal_echo_def kickoff_goal_def Let_def split: option.split)

lemma bump_player_inv:
  fixes f :: "PlayerAnalytics \<Rightarrow> PlayerAnalytics"
  assumes "tracker_inv t" "i \<noteq> []" "PlayerFor i t = (t1, n)"
    and "\<And>p c. player_ok c (f p) = player_ok c p" "\<And>p. pa_primaryId (f p) = pa_primaryId p"
  shows "tracker_inv (set_player n (f (player_at n t1)) t1)"
  using assms(1,2) by (rule PlayerForE) (use assms(3-5) in \<open>simp add: set_player_inv\<close>)

lemma Tracker_OnStatfeed_inv:
  assumes "tracker_inv t" shows "tracker_inv (Tracker_OnStatfeed ev t)"
proof (cases "sf_eventName ev = [] \<or> ResolvePlayer t (sf_mainTarget ev) = []")
  case False
  let ?i = "ResolvePlayer t (sf_mainTarget ev)"
  let ?c = "count_stat (sf_eventName ev)"
  obtain t1 n where 1: "PlayerFor ?i t = (t1, n)" by fastforce
  have "tracker_inv (set_player n (?c (player_at n t1)) t1)"
    using False by (intro bump_player_inv[OF assms _ 1]) (auto simp: count_stat_def Let_def)
  moreover have 2: "tracker_inv (set_player n (demo_inflicted (?c (player_at n t1))) t1)" (is "tracker_inv ?t2")
    using False by (intro bump_player_inv[OF assms _ 1]) (auto simp: count_stat_def demo_inflicted_def Let_def)
  moreover have "tracker_inv (set_player k (demo_taken (player_at k t3)) t3)"
    if "v \<noteq> []" "PlayerFor v ?t2 = (t3, k)" for v t3 k
    by (rule bump_player_inv[OF 2 that]) (auto simp: demo_taken_def)
  ultimately show ?thesis using False
    by (auto simp: Tracker_OnStatfeed_def 1 Let_def split: option.split prod.split)
qed (auto simp: Tracker_OnStatfeed_def assms)

lemma Tracker_OnPlayerLeft_inv: "tracker_inv t \<Longrightarrow> tracker_inv (Tracker_OnPlayerLeft ev t)"
  by (simp add: Tracker_OnPlayerLeft_def Let_def)

lemma Tracker_OnPaused_inv: "tracker_inv t \<Longrightarrow> tracker_inv (Tracker_OnPaused now t)"
  by (simp add: Tracker_OnPaused_def)

lemma Tracker_OnUnpaused_inv: "tracker_inv t \<Longrightarrow> tracker_inv (Tracker_OnUnpaused now t)"
  by (simp add: Tracker_OnUnpaused_def split: option.split)

lemma Tracker_OnMatchEnded_inv: "tracker_inv t \<Longrightarrow> tracker_inv (Tracker_OnMatchEnded t)"
  by (simp add: Tracker_OnMatchEnded_def)

lemmas tracker_handlers_inv = Tracker_OnUpdateState_inv Tracker_OnCountdownBegin_inv
  Tracker_OnRoundStarted_inv Tracker_OnBallHit_inv Tracker_OnBoostPickup_inv Tracker_OnGoalScored_inv
  Tracker_OnStatfeed_inv Tracker_OnPlayerLeft_inv Tracker_OnPaused_inv Tracker_OnUnpaused_inv
  Tracker_OnMatchEnded_inv

subsection \<open>Any sequence of calls\<close>

text \<open>The calls a client can make, in any order and with any arguments.\<close>

datatype TrackerCall =
    CallUpdateState UpdateStateEvent fp
  | CallCountdownBegin
  | CallRoundStarted fp
  | CallBallHit BallHitEvent fp
  | CallBoostPickup BoostPickupEvent
  | CallGoalScored GoalScoredEvent
  | CallStatfeed StatfeedEvent
  | CallPlayerLeft PlayerLeftEvent
  | CallPaused fp
  | CallUnpaused fp
  | CallMatchEnded

fun tracker_call :: "TrackerCall \<Rightarrow> Tracker \<Rightarrow> Tracker" where
  "tracker_call (CallUpdateState ev now) = Tracker_OnUpdateState ev now"
| "tracker_call CallCountdownBegin = Tracker_OnCountdownBegin"
| "tracker_call (CallRoundStarted now) = Tracker_OnRoundStarted now"
| "tracker_call (CallBallHit ev now) = Tracker_OnBallHit ev now"
| "tracker_call (CallBoostPickup ev) = Tracker_OnBoostPickup ev"
| "tracker_call (CallGoalScored ev) = Tracker_OnGoalScored ev"
| "tracker_call (CallStatfeed ev) = Tracker_OnStatfeed ev"
| "tracker_call (CallPlayerLeft ev) = Tracker_OnPlayerLeft ev"
| "tracker_call (CallPaused now) = Tracker_OnPaused now"
| "tracker_call (CallUnpaused now) = Tracker_OnUnpaused now"
| "tracker_call CallMatchEnded = Tracker_OnMatchEnded"

interpretation trk: invariant_machine tracker_call tracker_inv
  by unfold_locales (case_tac i, auto intro: tracker_handlers_inv)

lemma tracker_reachable_inv: "tracker_inv (fold tracker_call calls Tracker0)"
  by (rule trk.run_inv) simp

subsection \<open>The snapshot\<close>

text \<open>
  A car's samples carry 0 or 1 for the supersonic flag, so the branch that would classify a sample
  by its speed is never taken: a sample without the flag counts as not supersonic.
\<close>

lemma speed_sample_supersonic:
  "ct_supersonicSeconds (speed_sample uu s car) =
     (if ss_supersonic s = 1 \<or> (ss_supersonic s = -1 \<and> kSupersonicKph \<le> SpeedKph (ss_raw s) uu)
      then fadd32 (ct_supersonicSeconds car) (ss_seconds s) else ct_supersonicSeconds car)"
  by (auto simp: speed_sample_def Let_def)

lemma settle_car_no_flag:
  "\<forall>s \<in> set samples. ss_supersonic s = 0 \<Longrightarrow>
   ct_supersonicSeconds (settle_car samples car) = ct_supersonicSeconds car"
proof -
  have "\<forall>s \<in> set samples. ss_supersonic s = 0 \<Longrightarrow>
    ct_supersonicSeconds (fold (speed_sample uu) samples car) = ct_supersonicSeconds car" for uu
    by (induction samples arbitrary: car) (simp_all add: speed_sample_supersonic)
  then show "\<forall>s \<in> set samples. ss_supersonic s = 0 \<Longrightarrow> ?thesis" by (simp add: settle_car_def)
qed

lemma settle_player_counts [simp]:
  "pa_primaryId (settle_player t p) = pa_primaryId p"
  "pa_hits (settle_player t p) = pa_hits p" "pa_aerialHits (settle_player t p) = pa_aerialHits p"
  "pa_highAerialHits (settle_player t p) = pa_highAerialHits p"
  "pa_hardHits (settle_player t p) = pa_hardHits p"
  "pa_firstTouches (settle_player t p) = pa_firstTouches p"
  "pa_hitsByThird (settle_player t p) = pa_hitsByThird p"
  by (simp_all add: settle_player_def split: option.splits)

lemma Tracker_Snapshot_players [simp]:
  "ma_players (Tracker_Snapshot t) = map (settle_player t) (ma_players (m_data t))"
  "ma_hits (Tracker_Snapshot t) = ma_hits (m_data t)"
  by (simp_all add: Tracker_Snapshot_def close_window_def Let_def)

lemma FindPlayer_reachable:
  "tracker_inv t \<Longrightarrow> FindPlayer (m_data t) i = map_option (\<lambda>n. player_at n t) (map_of (m_playerIndex t) i)"
proof -
  assume "tracker_inv t"
  then have ix: "m_playerIndex t = zip (player_ids t) [0..<length (player_ids t)]" "distinct (player_ids t)"
    by (auto simp: tracker_inv_def index_ok_def)
  show ?thesis
  proof (cases "map_of (m_playerIndex t) i")
    case None
    then have "i \<notin> set (player_ids t)" by (simp add: ix(1) map_of_eq_None_iff)
    then show ?thesis using None by (auto simp: FindPlayer_def find_None_iff player_ids_def)
  next
    case (Some k)
    then have k: "k < length (player_ids t)" "player_ids t ! k = i"
      using map_of_zip_index[OF ix(2)] ix(1) by auto
    have "\<not> (\<exists>j < k. pa_primaryId (ma_players (m_data t) ! j) = i)"
      using nth_eq_iff_index_eq[OF ix(2)] k by (auto simp: player_ids_def)
    then have "find (\<lambda>p. pa_primaryId p = i) (ma_players (m_data t)) = Some (ma_players (m_data t) ! k)"
      using k by (auto simp: find_Some_iff player_ids_def intro!: exI[of _ k])
    then show ?thesis using Some by (simp add: FindPlayer_def player_at_def)
  qed
qed

end
