(* ===== verification/Match_Types.thy ===== *)
theory Match_Types
  imports Game_Modes Analytics_Tracker
begin

text \<open>
  The data of the live match pipeline, field by field: players and match counters, the session
  and its recap, the rating history, the match journal, the snapshot that is saved, a captured
  match, the match state, and the side effects and context of the reducer. Each record is
  followed by the value its default member initialisers give. A set of strings that the code
  only tests and extends is a HOL set; one that it iterates is a list without duplicates.
\<close>

section \<open>Players and match counters\<close>

record PlayerData =
  pd_primaryId :: string
  pd_name :: string
  pd_team :: int
  pd_mmr :: int
  pd_rankTier :: string
  pd_lifetimeWinsWith :: int
  pd_lifetimeLossesWith :: int
  pd_lifetimeWinsAgainst :: int
  pd_lifetimeLossesAgainst :: int
  pd_hasLifetimeData :: bool
  pd_fetched :: bool
  pd_fetchFailed :: bool
  pd_enqueued :: bool
  pd_rankVerificationSource :: string
  pd_playlists :: "(string, int) umap"
  pd_playlistTiers :: "(string, string) umap"
  pd_playlistMatches :: "(string, int) umap"
  pd_goals :: int
  pd_saves :: int
  pd_shots :: int
  pd_demos :: int
  pd_assists :: int
  pd_totalWins :: int
  pd_maxGoalSpeed :: fp
  pd_fastestGoalTime :: fp
  pd_score :: int
  pd_touches :: "int option"
  pd_carTouches :: "int option"

definition PlayerData0 :: PlayerData where
  "PlayerData0 =
     \<lparr>pd_primaryId = [], pd_name = [], pd_team = -1, pd_mmr = 0, pd_rankTier = ''Unranked'',
      pd_lifetimeWinsWith = 0, pd_lifetimeLossesWith = 0, pd_lifetimeWinsAgainst = 0,
      pd_lifetimeLossesAgainst = 0, pd_hasLifetimeData = False, pd_fetched = False,
      pd_fetchFailed = False, pd_enqueued = False, pd_rankVerificationSource = [],
      pd_playlists = [], pd_playlistTiers = [], pd_playlistMatches = [], pd_goals = 0,
      pd_saves = 0, pd_shots = 0, pd_demos = 0, pd_assists = 0, pd_totalWins = -1,
      pd_maxGoalSpeed = Fin 0, pd_fastestGoalTime = Fin 0, pd_score = -1, pd_touches = None,
      pd_carTouches = None\<rparr>"

record MatchStats =
  ms_goals :: int
  ms_goalsSelf :: int
  ms_saves :: int
  ms_savesSelf :: int
  ms_shots :: int
  ms_shotsSelf :: int
  ms_demos :: int
  ms_demosSelf :: int
  ms_assists :: int
  ms_assistsSelf :: int
  ms_demoedSelf :: int
  ms_crossbars :: int
  ms_crossbarsSelf :: int
  ms_maxGoalSpeed :: fp
  ms_maxGoalSpeedSelf :: fp
  ms_maxBallSpeed :: fp
  ms_maxBallSpeedSelf :: fp
  ms_maxImpactForce :: fp
  ms_maxImpactForceSelf :: fp
  ms_fastestGoalTime :: fp
  ms_fastestGoalTimeSelf :: fp
  ms_ownGoals :: int
  ms_ownGoalsSelf :: int
  ms_boostPickedUp :: int
  ms_boostPickedUpSelf :: int

definition MatchStats0 :: MatchStats where
  "MatchStats0 =
     \<lparr>ms_goals = 0, ms_goalsSelf = 0, ms_saves = 0, ms_savesSelf = 0, ms_shots = 0,
      ms_shotsSelf = 0, ms_demos = 0, ms_demosSelf = 0, ms_assists = 0, ms_assistsSelf = 0,
      ms_demoedSelf = 0, ms_crossbars = 0, ms_crossbarsSelf = 0, ms_maxGoalSpeed = Fin 0,
      ms_maxGoalSpeedSelf = Fin 0, ms_maxBallSpeed = Fin 0, ms_maxBallSpeedSelf = Fin 0,
      ms_maxImpactForce = Fin 0, ms_maxImpactForceSelf = Fin 0, ms_fastestGoalTime = Fin 0,
      ms_fastestGoalTimeSelf = Fin 0, ms_ownGoals = 0, ms_ownGoalsSelf = 0, ms_boostPickedUp = 0,
      ms_boostPickedUpSelf = 0\<rparr>"

section \<open>The session\<close>

record SessionTotals =
  st_wins :: int
  st_losses :: int
  st_goals :: int
  st_saves :: int
  st_savesTotal :: int
  st_shots :: int
  st_shotsTotal :: int
  st_demos :: int
  st_demosTotal :: int
  st_demoed :: int
  st_assists :: int
  st_assistsTotal :: int
  st_crossbars :: int
  st_crossbarsTotal :: int
  st_maxGoalSpeed :: fp
  st_maxGoalSpeedSelf :: fp
  st_maxBallSpeed :: fp
  st_maxBallSpeedSelf :: fp
  st_maxImpactForce :: fp
  st_maxImpactForceSelf :: fp
  st_fastestGoalTime :: fp
  st_fastestGoalTimeSelf :: fp
  st_ownGoals :: int
  st_ownGoalsSelf :: int
  st_boostPickedUp :: int
  st_totalMmrChange :: fp
  st_mmrChangeByPlaylist :: "(string, int) umap"
  st_teamGoals :: int
  st_goalParticipations :: int

definition SessionTotals0 :: SessionTotals where
  "SessionTotals0 =
     \<lparr>st_wins = 0, st_losses = 0, st_goals = 0, st_saves = 0, st_savesTotal = 0, st_shots = 0,
      st_shotsTotal = 0, st_demos = 0, st_demosTotal = 0, st_demoed = 0, st_assists = 0,
      st_assistsTotal = 0, st_crossbars = 0, st_crossbarsTotal = 0, st_maxGoalSpeed = Fin 0,
      st_maxGoalSpeedSelf = Fin 0, st_maxBallSpeed = Fin 0, st_maxBallSpeedSelf = Fin 0,
      st_maxImpactForce = Fin 0, st_maxImpactForceSelf = Fin 0, st_fastestGoalTime = Fin 0,
      st_fastestGoalTimeSelf = Fin 0, st_ownGoals = 0, st_ownGoalsSelf = 0, st_boostPickedUp = 0,
      st_totalMmrChange = Fin 0, st_mmrChangeByPlaylist = [], st_teamGoals = 0,
      st_goalParticipations = 0\<rparr>"

record GamemodeStat =
  gm_wins :: int
  gm_losses :: int
  gm_total :: int

definition GamemodeStat0 :: GamemodeStat where
  "GamemodeStat0 =
     \<lparr>gm_wins = 0, gm_losses = 0, gm_total = 0\<rparr>"

record LocalPreMatchMmrSnapshot =
  pm_playlistMmrs :: "(string, int) umap"
  pm_playlistMatches :: "(string, int) umap"

definition LocalPreMatchMmrSnapshot0 :: LocalPreMatchMmrSnapshot where
  "LocalPreMatchMmrSnapshot0 =
     \<lparr>pm_playlistMmrs = [], pm_playlistMatches = []\<rparr>"

record SessionMatchSummary =
  sms_matchId :: int
  sms_ranked :: bool
  sms_mode :: string
  sms_matchGuid :: string
  sms_ourScore :: int
  sms_theirScore :: int
  sms_mmr :: int
  sms_mmrEstimated :: bool
  sms_win :: bool
  sms_pendingTrackerConfirmation :: bool
  sms_endedAtUnix :: int

definition SessionMatchSummary0 :: SessionMatchSummary where
  "SessionMatchSummary0 =
     \<lparr>sms_matchId = 0, sms_ranked = True, sms_mode = [], sms_matchGuid = [], sms_ourScore = 0,
      sms_theirScore = 0, sms_mmr = 0, sms_mmrEstimated = False, sms_win = False,
      sms_pendingTrackerConfirmation = False, sms_endedAtUnix = 0\<rparr>"

record SessionRecap =
  rcp_valid :: bool
  rcp_endedAtUnix :: int
  rcp_totals :: SessionTotals
  rcp_gamemodes :: "(string, GamemodeStat) umap"
  rcp_sessionGeneration :: "64 word"
  rcp_mmrOwnerPrimaryId :: string
  rcp_playlistInitialMmr :: "(string, int) umap"
  rcp_id :: int
  rcp_account :: string
  rcp_startedAtUnix :: int
  rcp_source :: string
  rcp_matchGuids :: "string list"

definition SessionRecap0 :: SessionRecap where
  "SessionRecap0 =
     \<lparr>rcp_valid = False, rcp_endedAtUnix = 0, rcp_totals = SessionTotals0, rcp_gamemodes = [],
      rcp_sessionGeneration = 0, rcp_mmrOwnerPrimaryId = [], rcp_playlistInitialMmr = [],
      rcp_id = 0, rcp_account = [], rcp_startedAtUnix = 0, rcp_source = ''live'',
      rcp_matchGuids = []\<rparr>"

definition Games :: "SessionRecap \<Rightarrow> int" where
  "Games r = st_wins (rcp_totals r) + st_losses (rcp_totals r)"

definition CalculateTrackedSessionMmrChange :: "(string, int) umap \<Rightarrow> int" where
  "CalculateTrackedSessionMmrChange changes =
     fold (\<lambda>(playlist, change) total.
        if playlist = ''1v1'' \<or> playlist = ''2v2'' \<or> playlist = ''3v3'' \<or> playlist = ''hoops'' \<or>
           playlist = ''rumble'' \<or> playlist = ''dropshot'' \<or> playlist = ''snowday'' \<or>
           playlist = ''heatseeker'' then total + change else total) changes 0"

definition CalculateSessionDemolitionCounts :: "SessionTotals \<Rightarrow> MatchStats \<Rightarrow> bool \<Rightarrow> int \<times> int" where
  "CalculateSessionDemolitionCounts totals current finalized =
     (st_demos totals + (if finalized then 0 else ms_demosSelf current),
      st_demoed totals + (if finalized then 0 else ms_demoedSelf current))"

definition CalculateSessionBoostPickedUp :: "SessionTotals \<Rightarrow> MatchStats \<Rightarrow> bool \<Rightarrow> int" where
  "CalculateSessionBoostPickedUp totals current finalized =
     st_boostPickedUp totals + (if finalized then 0 else ms_boostPickedUpSelf current)"

section \<open>The rating history\<close>

record SessionMmrPoint =
  mp_matchGuid :: string
  mp_historyIndex :: nat
  mp_mmr :: int
  mp_trackerMatchesPlayed :: int
  mp_trackerCovered :: bool
  mp_valueEstimated :: bool

definition SessionMmrPoint0 :: SessionMmrPoint where
  "SessionMmrPoint0 =
     \<lparr>mp_matchGuid = [], mp_historyIndex = 0, mp_mmr = 0, mp_trackerMatchesPlayed = -1,
      mp_trackerCovered = False, mp_valueEstimated = True\<rparr>"

record AccountMmrHistory =
  ah_mmrHistoryY :: "fp list"
  ah_mmrHistoryX :: "fp list"
  ah_playlistHistoryY :: "(string, fp list) umap"
  ah_playlistMatchPoints :: "(string, SessionMmrPoint list) umap"
  ah_playlistInitialMmr :: "(string, int) umap"
  ah_initialMmr :: int

definition AccountMmrHistory0 :: AccountMmrHistory where
  "AccountMmrHistory0 =
     \<lparr>ah_mmrHistoryY = [], ah_mmrHistoryX = [], ah_playlistHistoryY = [],
      ah_playlistMatchPoints = [], ah_playlistInitialMmr = [], ah_initialMmr = -1\<rparr>"

record HistoryData =
  hd_mmrHistoryY :: "fp list"
  hd_mmrHistoryX :: "fp list"
  hd_playlistHistoryY :: "(string, fp list) umap"
  hd_playlistMatchPoints :: "(string, SessionMmrPoint list) umap"
  hd_playlistInitialMmr :: "(string, int) umap"
  hd_mmrOwnerPrimaryId :: string
  hd_inactiveMmrHistories :: "(string, AccountMmrHistory) umap"
  hd_lifetimeMmrY :: "fp list"
  hd_lifetimeMmrX :: "int list"
  hd_showLifetimeGraph :: bool
  hd_recentSavedMatches :: "SessionMatchSummary list"
  hd_pendingRecentMatches :: "SessionMatchSummary list"
  hd_recentSavedMatchesLoaded :: bool
  hd_initialMmr :: int
  hd_version :: "64 word"

definition HistoryData0 :: HistoryData where
  "HistoryData0 =
     \<lparr>hd_mmrHistoryY = [], hd_mmrHistoryX = [], hd_playlistHistoryY = [],
      hd_playlistMatchPoints = [], hd_playlistInitialMmr = [], hd_mmrOwnerPrimaryId = [],
      hd_inactiveMmrHistories = [], hd_lifetimeMmrY = [], hd_lifetimeMmrX = [],
      hd_showLifetimeGraph = False, hd_recentSavedMatches = [], hd_pendingRecentMatches = [],
      hd_recentSavedMatchesLoaded = False, hd_initialMmr = -1, hd_version = 0\<rparr>"

section \<open>The journal and the saved match\<close>

record MatchJournalEvent =
  je_type :: string
  je_observedAtUnixMs :: int
  je_matchClockSeconds :: "fp option"
  je_actorId :: string
  je_actorName :: string
  je_secondaryId :: string
  je_secondaryName :: string
  je_team :: "int option"
  je_value :: "fp option"
  je_ballSpeed :: "fp option"
  je_source :: string
  je_eventKey :: string

definition MatchJournalEvent0 :: MatchJournalEvent where
  "MatchJournalEvent0 =
     \<lparr>je_type = [], je_observedAtUnixMs = 0, je_matchClockSeconds = None, je_actorId = [],
      je_actorName = [], je_secondaryId = [], je_secondaryName = [], je_team = None,
      je_value = None, je_ballSpeed = None, je_source = [], je_eventKey = []\<rparr>"

record MatchSaveSnapshot =
  sv_arenaName :: string
  sv_arenaAsset :: string
  sv_matchGuid :: string
  sv_playlistId :: int
  sv_gamemode :: string
  sv_myTeam :: int
  sv_winnerTeam :: int
  sv_validResult :: bool
  sv_voidReason :: string
  sv_score :: "int \<times> int"
  sv_legacyPlayerCount :: int
  sv_roster :: "(string, PlayerData) umap"
  sv_rosterMmrCategory :: MmrCategory
  sv_myPrimaryId :: string
  sv_localMmrNeedsReconciliation :: bool
  sv_endedAtUnixMs :: int
  sv_resultPending :: bool
  sv_localStats :: MatchStats
  sv_durationSeconds :: fp
  sv_overtimeSeconds :: fp
  sv_events :: "MatchJournalEvent list"
  sv_analytics :: "MatchAnalytics option"

definition MatchSaveSnapshot0 :: MatchSaveSnapshot where
  "MatchSaveSnapshot0 =
     \<lparr>sv_arenaName = [], sv_arenaAsset = [], sv_matchGuid = [], sv_playlistId = -1,
      sv_gamemode = [], sv_myTeam = -1, sv_winnerTeam = -1, sv_validResult = False,
      sv_voidReason = [], sv_score = (0, 0), sv_legacyPlayerCount = 0, sv_roster = [],
      sv_rosterMmrCategory = Best, sv_myPrimaryId = [], sv_localMmrNeedsReconciliation = False,
      sv_endedAtUnixMs = 0, sv_resultPending = False, sv_localStats = MatchStats0,
      sv_durationSeconds = Fin 0, sv_overtimeSeconds = Fin 0, sv_events = [],
      sv_analytics = None\<rparr>"

section \<open>The match state\<close>

record CapturedMatch =
  cm_arenaName :: string
  cm_arenaAsset :: string
  cm_matchGuid :: string
  cm_playlistId :: int
  cm_matchGeneration :: "64 word"
  cm_sessionGeneration :: "64 word"
  cm_myPrimaryId :: string
  cm_myTeam :: int
  cm_score :: "int \<times> int"
  cm_legacyMaxPlayersSeen :: int
  cm_legacyMaxTeamPlayersSeen :: "int \<times> int"
  cm_roundEverStarted :: bool
  cm_localPlayerWasActive :: bool
  cm_localPlayerWasSpectator :: bool
  cm_legacyLobbyWasEverFull :: bool
  cm_localPlayerDisappeared :: bool
  cm_explicitLocalForfeit :: bool
  cm_fallbackCasualContext :: bool
  cm_fallbackNonRecordableContext :: bool
  cm_fallbackNonRecordableReason :: string
  cm_nonLiveReplay :: bool
  cm_stats :: MatchStats
  cm_roster :: "(string, PlayerData) umap"
  cm_rosterMmrCategory :: MmrCategory
  cm_mode :: string
  cm_preMatchMmr :: LocalPreMatchMmrSnapshot
  cm_hasPreMatchMmr :: bool
  cm_endedAtUnixMs :: int
  cm_durationSeconds :: fp
  cm_overtimeSeconds :: fp
  cm_events :: "MatchJournalEvent list"
  cm_analytics :: "MatchAnalytics option"

definition CapturedMatch0 :: CapturedMatch where
  "CapturedMatch0 =
     \<lparr>cm_arenaName = [], cm_arenaAsset = [], cm_matchGuid = [], cm_playlistId = -1,
      cm_matchGeneration = 0, cm_sessionGeneration = 0, cm_myPrimaryId = [], cm_myTeam = -1,
      cm_score = (0, 0), cm_legacyMaxPlayersSeen = 0, cm_legacyMaxTeamPlayersSeen = (0, 0),
      cm_roundEverStarted = False, cm_localPlayerWasActive = False,
      cm_localPlayerWasSpectator = False, cm_legacyLobbyWasEverFull = False,
      cm_localPlayerDisappeared = False, cm_explicitLocalForfeit = False,
      cm_fallbackCasualContext = False, cm_fallbackNonRecordableContext = False,
      cm_fallbackNonRecordableReason = [], cm_nonLiveReplay = False, cm_stats = MatchStats0,
      cm_roster = [], cm_rosterMmrCategory = Best, cm_mode = [],
      cm_preMatchMmr = LocalPreMatchMmrSnapshot0, cm_hasPreMatchMmr = False,
      cm_endedAtUnixMs = 0, cm_durationSeconds = Fin 0, cm_overtimeSeconds = Fin 0,
      cm_events = [], cm_analytics = None\<rparr>"

record PauseInterval =
  pi_startMs :: int
  pi_endMs :: int

definition PauseInterval0 :: PauseInterval where
  "PauseInterval0 =
     \<lparr>pi_startMs = 0, pi_endMs = 0\<rparr>"

record MatchState =
  version :: "64 word"
  inMatch :: bool
  inReplay :: bool
  myTeam :: int
  myPrimaryId :: string
  arenaName :: string
  arenaAsset :: string
  matchGuid :: string
  playlistId :: int
  activeMatchGeneration :: "64 word"
  score :: "int \<times> int"
  legacyMaxPlayersSeen :: int
  roundEverStarted :: bool
  localPlayerWasActive :: bool
  localPlayerWasSpectator :: bool
  localPlayerPresenceObserved :: bool
  localPlayerPresentInLatestUpdate :: bool
  explicitLocalForfeit :: bool
  excludedEarlyExitContext :: bool
  earlyExitExclusionReason :: string
  fallbackCasualContext :: bool
  fallbackNonRecordableContext :: bool
  fallbackNonRecordableReason :: string
  legacyLobbyWasEverFull :: bool
  legacyCurrentTeamPlayersSeen :: "int \<times> int"
  legacyMaxTeamPlayersSeen :: "int \<times> int"
  lastMatchWasVoid :: bool
  lastMatchVoidReason :: string
  matchSummaryScore :: "int \<times> int"
  matchSummaryMyTeam :: int
  matchSummaryWinnerTeam :: int
  matchSummaryOvertimeSeconds :: fp
  timeSeconds :: fp
  bOvertime :: bool
  currentMatch :: MatchStats
  sessionTotals :: SessionTotals
  lastGoalSpeed :: fp
  lastGoalSpeedSelf :: fp
  roster :: "(string, PlayerData) umap"
  matchRoster :: "(string, PlayerData) umap"
  sessionGamemodes :: "(string, GamemodeStat) umap"
  preMatchMmrByGuid :: "(string, LocalPreMatchMmrSnapshot) umap"
  matchFinalized :: bool
  sessionStartedAtUnix :: int
  lastMatchEndedAtUnix :: int
  sessionMatchGuids :: "string list"
  lastSessionRecap :: SessionRecap
  sessionGeneration :: "64 word"
  lastSavedMatchGuid :: string
  matchEvents :: "MatchJournalEvent list"
  eventNativeKeys :: "string set"
  hasObservedMatchClock :: bool
  lastMatchClockSampleAtMs :: int
  lastEventSignature :: string
  lastEventAtMs :: int
  lastPlayerBoost :: "(string, int) umap"
  boostRespawnPending :: "string set"
  pendingDestroyedMatches :: "(string, CapturedMatch) umap"
  finalizedMatchGuids :: "string set"
  nextMatchGeneration :: "64 word"
  missingGuidAssociationBlockedByReconnect :: bool
  nonLiveReplayActive :: bool
  lastPlayerSeenMs :: "(string, int) umap"
  roundActive :: bool
  uiMatchGuid :: string
  countdownSeenThisRound :: bool
  identityCandidates :: "string list"
  missedMyIdCount :: int
  lastKnownMyId :: string
  lastConfirmedLocalAccount :: string
  autoSwitchedPlaylistCategory :: MmrCategory
  followedGraphPlaylistCategory :: MmrCategory
  regulationClockStart :: "fp option"
  regulationClockLatest :: fp
  overtimeStartedAtMs :: "int option"
  currentPauseStartMs :: "int option"
  currentReducerNowMs :: int
  pauseIntervals :: "PauseInterval list"
  lastMatchStartMs :: int
  firstCountdownOfMatchMs :: int
  lastCountdownMs :: int
  lastGoalMs :: int
  lastMatchEndMs :: int
  lastPodiumMs :: int
  inGoalReplay :: bool
  showMatchSummary :: bool
  matchSummaryStartMs :: int
  hideOverlayRequested :: bool
  analytics :: Tracker

definition MatchState0 :: MatchState where
  "MatchState0 =
     \<lparr>version = 1, inMatch = False, inReplay = False, myTeam = -1, myPrimaryId = [],
      arenaName = [], arenaAsset = [], matchGuid = [], playlistId = -1,
      activeMatchGeneration = 0, score = (0, 0), legacyMaxPlayersSeen = 0,
      roundEverStarted = False, localPlayerWasActive = False, localPlayerWasSpectator = False,
      localPlayerPresenceObserved = False, localPlayerPresentInLatestUpdate = False,
      explicitLocalForfeit = False, excludedEarlyExitContext = False,
      earlyExitExclusionReason = [], fallbackCasualContext = False,
      fallbackNonRecordableContext = False, fallbackNonRecordableReason = [],
      legacyLobbyWasEverFull = False, legacyCurrentTeamPlayersSeen = (0, 0),
      legacyMaxTeamPlayersSeen = (0, 0), lastMatchWasVoid = False, lastMatchVoidReason = [],
      matchSummaryScore = (0, 0), matchSummaryMyTeam = -1, matchSummaryWinnerTeam = -1,
      matchSummaryOvertimeSeconds = Fin 0, timeSeconds = Fin 0, bOvertime = False,
      currentMatch = MatchStats0, sessionTotals = SessionTotals0, lastGoalSpeed = Fin 0,
      lastGoalSpeedSelf = Fin 0, roster = [], matchRoster = [], sessionGamemodes = [],
      preMatchMmrByGuid = [], matchFinalized = False, sessionStartedAtUnix = 0,
      lastMatchEndedAtUnix = 0, sessionMatchGuids = [], lastSessionRecap = SessionRecap0,
      sessionGeneration = 0, lastSavedMatchGuid = [], matchEvents = [], eventNativeKeys = {},
      hasObservedMatchClock = False, lastMatchClockSampleAtMs = 0, lastEventSignature = [],
      lastEventAtMs = 0, lastPlayerBoost = [], boostRespawnPending = {},
      pendingDestroyedMatches = [], finalizedMatchGuids = {}, nextMatchGeneration = 0,
      missingGuidAssociationBlockedByReconnect = False, nonLiveReplayActive = False,
      lastPlayerSeenMs = [], roundActive = True, uiMatchGuid = [],
      countdownSeenThisRound = False, identityCandidates = [], missedMyIdCount = 0,
      lastKnownMyId = [], lastConfirmedLocalAccount = [], autoSwitchedPlaylistCategory = Best,
      followedGraphPlaylistCategory = Best, regulationClockStart = None,
      regulationClockLatest = Fin 0, overtimeStartedAtMs = None, currentPauseStartMs = None,
      currentReducerNowMs = 0, pauseIntervals = [], lastMatchStartMs = 0,
      firstCountdownOfMatchMs = 0, lastCountdownMs = 0, lastGoalMs = 0, lastMatchEndMs = 0,
      lastPodiumMs = 0, inGoalReplay = False, showMatchSummary = False, matchSummaryStartMs = 0,
      hideOverlayRequested = False, analytics = Tracker0\<rparr>"

section \<open>Side effects\<close>

record DiscordPresenceSnapshot =
  dps_showPresence :: bool
  dps_inMatch :: bool
  dps_matchGuid :: string
  dps_arenaName :: string
  dps_score :: "int \<times> int"
  dps_myTeam :: int
  dps_sessionWins :: int
  dps_sessionLosses :: int

definition DiscordPresenceSnapshot0 :: DiscordPresenceSnapshot where
  "DiscordPresenceSnapshot0 =
     \<lparr>dps_showPresence = False, dps_inMatch = False, dps_matchGuid = [], dps_arenaName = [],
      dps_score = (0, 0), dps_myTeam = -1, dps_sessionWins = 0, dps_sessionLosses = 0\<rparr>"

record PostMatchMmrRefresh =
  rf_primaryId :: string
  rf_name :: string
  rf_matchGuid :: string
  rf_playlist :: string
  rf_previousMmr :: int
  rf_previousMatches :: int
  rf_previousMmrIsPlaylistSpecific :: bool
  rf_won :: bool
  rf_provisionalImmediately :: bool

definition PostMatchMmrRefresh0 :: PostMatchMmrRefresh where
  "PostMatchMmrRefresh0 =
     \<lparr>rf_primaryId = [], rf_name = [], rf_matchGuid = [], rf_playlist = [], rf_previousMmr = 0,
      rf_previousMatches = -1, rf_previousMmrIsPlaylistSpecific = False, rf_won = False,
      rf_provisionalImmediately = False\<rparr>"

record PendingDestroyedMatchMmrRefresh =
  pdr_primaryId :: string
  pdr_name :: string
  pdr_matchGuid :: string
  pdr_playlist :: string
  pdr_localTeam :: int
  pdr_score :: "int \<times> int"
  pdr_previousMmr :: int
  pdr_previousMatches :: int
  pdr_previousMmrIsPlaylistSpecific :: bool
  pdr_localPlayerDisappeared :: bool
  pdr_explicitLocalForfeit :: bool
  pdr_destroyedAtUnixMs :: int
  pdr_validCompetitiveMatch :: bool

definition PendingDestroyedMatchMmrRefresh0 :: PendingDestroyedMatchMmrRefresh where
  "PendingDestroyedMatchMmrRefresh0 =
     \<lparr>pdr_primaryId = [], pdr_name = [], pdr_matchGuid = [], pdr_playlist = [],
      pdr_localTeam = -1, pdr_score = (0, 0), pdr_previousMmr = 0, pdr_previousMatches = -1,
      pdr_previousMmrIsPlaylistSpecific = False, pdr_localPlayerDisappeared = False,
      pdr_explicitLocalForfeit = False, pdr_destroyedAtUnixMs = 0,
      pdr_validCompetitiveMatch = False\<rparr>"

record ResolvedDestroyedMatch =
  rd_matchGuid :: string
  rd_won :: bool

definition ResolvedDestroyedMatch0 :: ResolvedDestroyedMatch where
  "ResolvedDestroyedMatch0 =
     \<lparr>rd_matchGuid = [], rd_won = False\<rparr>"

record ConfirmedLocalAccount =
  cla_primaryId :: string
  cla_name :: string

definition ConfirmedLocalAccount0 :: ConfirmedLocalAccount where
  "ConfirmedLocalAccount0 =
     \<lparr>cla_primaryId = [], cla_name = []\<rparr>"

record UiStateUpdate =
  uu_lastMatchStartMs :: "int option"
  uu_firstCountdownOfMatchMs :: "int option"
  uu_lastCountdownMs :: "int option"
  uu_lastGoalMs :: "int option"
  uu_lastMatchEndMs :: "int option"
  uu_lastPodiumMs :: "int option"
  uu_inGoalReplay :: "bool option"
  uu_showMatchSummary :: "bool option"
  uu_matchSummaryStartMs :: "int option"
  uu_rosterMmrCategory :: "MmrCategory option"
  uu_graphMmrCategory :: "MmrCategory option"
  uu_rankProgressMmrCategory :: "MmrCategory option"
  uu_resetTimestamps :: bool
  uu_resetMatchStartMs :: int
  uu_matchReset :: bool

definition UiStateUpdate0 :: UiStateUpdate where
  "UiStateUpdate0 =
     \<lparr>uu_lastMatchStartMs = None, uu_firstCountdownOfMatchMs = None, uu_lastCountdownMs = None,
      uu_lastGoalMs = None, uu_lastMatchEndMs = None, uu_lastPodiumMs = None,
      uu_inGoalReplay = None, uu_showMatchSummary = None, uu_matchSummaryStartMs = None,
      uu_rosterMmrCategory = None, uu_graphMmrCategory = None, uu_rankProgressMmrCategory = None,
      uu_resetTimestamps = False, uu_resetMatchStartMs = 0, uu_matchReset = False\<rparr>"

record SideEffects =
  fx_pushDiscord :: bool
  fx_discordSnapshot :: DiscordPresenceSnapshot
  fx_fetchLifetimeHistory :: bool
  fx_lifetimePrimaryId :: string
  fx_lifetimeCategory :: string
  fx_refreshDbStats :: bool
  fx_refreshStatsPrimaryId :: string
  fx_fetchMmrQueue :: "(string \<times> string) list"
  fx_postMatchMmrRefresh :: "PostMatchMmrRefresh option"
  fx_pendingDestroyedMatch :: "PendingDestroyedMatchMmrRefresh option"
  fx_pendingMatchHistory :: "SessionMatchSummary option"
  fx_resolvedDestroyedMatch :: "ResolvedDestroyedMatch option"
  fx_fetchEncounterQueue :: "string list"
  fx_saveMatch :: bool
  fx_saveSnapshot :: MatchSaveSnapshot
  fx_provisionalSaveSnapshot :: "MatchSaveSnapshot option"
  fx_persistSession :: "SessionRecap option"
  fx_closeSessionIfInactiveAtUnix :: "int option"
  fx_updateSession :: "SessionRecap option"
  fx_confirmedLocalAccount :: "ConfirmedLocalAccount option"
  fx_persistLocalPrimaryId :: "string option"
  fx_selectMmrOwner :: "string option"
  fx_uiUpdate :: "UiStateUpdate option"

definition SideEffects0 :: SideEffects where
  "SideEffects0 =
     \<lparr>fx_pushDiscord = False, fx_discordSnapshot = DiscordPresenceSnapshot0,
      fx_fetchLifetimeHistory = False, fx_lifetimePrimaryId = [], fx_lifetimeCategory = [],
      fx_refreshDbStats = False, fx_refreshStatsPrimaryId = [], fx_fetchMmrQueue = [],
      fx_postMatchMmrRefresh = None, fx_pendingDestroyedMatch = None,
      fx_pendingMatchHistory = None, fx_resolvedDestroyedMatch = None,
      fx_fetchEncounterQueue = [], fx_saveMatch = False, fx_saveSnapshot = MatchSaveSnapshot0,
      fx_provisionalSaveSnapshot = None, fx_persistSession = None,
      fx_closeSessionIfInactiveAtUnix = None, fx_updateSession = None,
      fx_confirmedLocalAccount = None, fx_persistLocalPrimaryId = None, fx_selectMmrOwner = None,
      fx_uiUpdate = None\<rparr>"

section \<open>The reducer's context\<close>

text \<open>
  The part of \<open>ConfigData\<close> that the reducer reads, and the context. The last two fields are the
  clocks that the code reads itself: the steady clock, where the context brings no time of its
  own, and the system clock, in milliseconds. All readings of a clock during one event are one
  instant.
\<close>

record Config =
  cf_reset_session_on_close :: bool
  cf_show_extra_playlists :: bool
  cf_auto_switch_mmr_category :: bool
  cf_graph_follow_current_playlist :: bool
  cf_graph_mmr_category :: string
  cf_rank_progress_follow_current_playlist :: bool
  cf_rank_progress_mmr_category :: string
  cf_enable_mmr_tracking :: bool
  cf_custom_api_enabled :: bool
  cf_account_refresh_token :: string
  cf_last_primary_id :: string
  cf_previous_games_limit :: int

record ReducerContext =
  rc_nowMs :: int
  rc_nowSeconds :: fp
  rc_nowUnix :: int
  rc_config :: Config
  rc_rosterMmrCategory :: MmrCategory
  rc_rankProgressMmrCategory :: MmrCategory
  rc_graphMmrCategory :: MmrCategory
  rc_steadyMs :: int
  rc_systemMs :: int

definition SteadyNowMs :: "ReducerContext \<Rightarrow> int" where
  "SteadyNowMs ctx = (if 0 < rc_steadyMs ctx then rc_steadyMs ctx else 1)"

definition now_ms :: "ReducerContext \<Rightarrow> int" where
  "now_ms ctx = (if 0 < rc_nowMs ctx then rc_nowMs ctx else SteadyNowMs ctx)"

lemma now_ms_pos: "0 < now_ms ctx"
  by (simp add: now_ms_def SteadyNowMs_def)

section \<open>The decision on a match end\<close>

datatype MatchFinalizeSource = MatchEnded | MatchDestroyed | LocalForfeit | TrackerConfirmedDestroyed

record MatchEndDecision =
  ed_shouldCount :: bool
  ed_shouldPersist :: bool
  ed_iWon :: bool
  ed_resultText :: string
  ed_voidReason :: string

definition MatchEndDecision0 :: MatchEndDecision where
  "MatchEndDecision0 =
     \<lparr>ed_shouldCount = False, ed_shouldPersist = False, ed_iWon = False,
      ed_resultText = ''Void'', ed_voidReason = []\<rparr>"

end
