(* ===== verification/Match_State.thy ===== *)
theory Match_State
  imports Match_Types
begin

text \<open>
  \<open>MatchState.cpp\<close> and the rating history it closes (\<open>HistoryData\<close> in \<open>HistoryStore.cpp\<close>):
  the reset at the start of a match, the teardown on a disconnect, the end of a session with its
  recap, the match clocks and the time paused inside a window.
\<close>

section \<open>The rating history of the shown account\<close>

definition ResetSessionMmr :: "HistoryData \<Rightarrow> HistoryData" where
  "ResetSessionMmr h = h\<lparr>hd_mmrHistoryY := [], hd_mmrHistoryX := [], hd_playlistHistoryY := [],
     hd_playlistMatchPoints := [], hd_playlistInitialMmr := [], hd_initialMmr := -1,
     hd_inactiveMmrHistories := []\<rparr>"

text \<open>The history of the account that is shown, as it is kept while another account is shown.\<close>

definition active_history :: "HistoryData \<Rightarrow> AccountMmrHistory" where
  "active_history h =
     \<lparr>ah_mmrHistoryY = hd_mmrHistoryY h, ah_mmrHistoryX = hd_mmrHistoryX h,
      ah_playlistHistoryY = hd_playlistHistoryY h, ah_playlistMatchPoints = hd_playlistMatchPoints h,
      ah_playlistInitialMmr = hd_playlistInitialMmr h, ah_initialMmr = hd_initialMmr h\<rparr>"

definition load_history :: "AccountMmrHistory \<Rightarrow> HistoryData \<Rightarrow> HistoryData" where
  "load_history a h =
     h\<lparr>hd_mmrHistoryY := ah_mmrHistoryY a, hd_mmrHistoryX := ah_mmrHistoryX a,
       hd_playlistHistoryY := ah_playlistHistoryY a, hd_playlistMatchPoints := ah_playlistMatchPoints a,
       hd_playlistInitialMmr := ah_playlistInitialMmr a, hd_initialMmr := ah_initialMmr a\<rparr>"

definition HistoryData_SelectMmrOwner :: "string \<Rightarrow> HistoryData \<Rightarrow> HistoryData" where
  "HistoryData_SelectMmrOwner primaryId h =
     (if hd_mmrOwnerPrimaryId h = primaryId then h
      else let h1 = (if hd_mmrOwnerPrimaryId h \<noteq> []
                     then h\<lparr>hd_inactiveMmrHistories :=
                            um_put (hd_mmrOwnerPrimaryId h) (active_history h) (hd_inactiveMmrHistories h)\<rparr>
                     else h);
               h2 = h1\<lparr>hd_mmrOwnerPrimaryId := primaryId\<rparr>
           in case map_of (hd_inactiveMmrHistories h2) primaryId of
                Some previous \<Rightarrow>
                  (load_history previous h2)
                    \<lparr>hd_inactiveMmrHistories := um_erase primaryId (hd_inactiveMmrHistories h2)\<rparr>
              | None \<Rightarrow> load_history AccountMmrHistory0 h2)"

text \<open>What the history holds for an account, shown or not.\<close>

definition history_of :: "HistoryData \<Rightarrow> string \<Rightarrow> AccountMmrHistory" where
  "history_of h a =
     (if a = hd_mmrOwnerPrimaryId h then active_history h
      else case map_of (hd_inactiveMmrHistories h) a of Some x \<Rightarrow> x | None \<Rightarrow> AccountMmrHistory0)"

lemma active_load [simp]: "active_history (load_history a h) = a"
  by (simp add: active_history_def load_history_def)

lemma active_frame [simp]:
  "active_history (h\<lparr>hd_mmrOwnerPrimaryId := x\<rparr>) = active_history h"
  "active_history (h\<lparr>hd_inactiveMmrHistories := m\<rparr>) = active_history h"
  by (simp_all add: active_history_def)

lemma load_frame [simp]:
  "hd_mmrOwnerPrimaryId (load_history a h) = hd_mmrOwnerPrimaryId h"
  "hd_inactiveMmrHistories (load_history a h) = hd_inactiveMmrHistories h"
  by (simp_all add: load_history_def)

text \<open>Selecting an account shows it and loses no other account's history.\<close>

lemma SelectMmrOwner_owner: "hd_mmrOwnerPrimaryId (HistoryData_SelectMmrOwner a h) = a"
  by (auto simp: HistoryData_SelectMmrOwner_def Let_def split: option.split)

lemma SelectMmrOwner_history:
  "hd_mmrOwnerPrimaryId h \<noteq> [] \<Longrightarrow> history_of (HistoryData_SelectMmrOwner a h) b = history_of h b"
  by (auto simp: HistoryData_SelectMmrOwner_def history_of_def Let_def um_simps split: option.split)

section \<open>Resetting a match\<close>

definition ResetMatch :: "string \<Rightarrow> string \<Rightarrow> MatchState \<Rightarrow> MatchState" where
  "ResetMatch newArena newArenaAsset st =
     st\<lparr>inMatch := True, inReplay := False, myTeam := -1, arenaName := newArena,
        arenaAsset := newArenaAsset, playlistId := -1, score := (0, 0), legacyMaxPlayersSeen := 0,
        roundEverStarted := False, localPlayerWasActive := False, localPlayerWasSpectator := False,
        localPlayerPresenceObserved := False, localPlayerPresentInLatestUpdate := False,
        explicitLocalForfeit := False, excludedEarlyExitContext := False,
        earlyExitExclusionReason := [], fallbackCasualContext := False,
        fallbackNonRecordableContext := False, fallbackNonRecordableReason := [],
        legacyLobbyWasEverFull := False, legacyCurrentTeamPlayersSeen := (0, 0),
        legacyMaxTeamPlayersSeen := (0, 0), lastMatchWasVoid := False, lastMatchVoidReason := [],
        matchSummaryScore := (0, 0), matchSummaryMyTeam := -1, matchSummaryWinnerTeam := -1,
        matchSummaryOvertimeSeconds := Fin 0, timeSeconds := Fin 0, bOvertime := False,
        currentMatch := MatchStats0, roster := [], matchRoster := [], preMatchMmrByGuid := [],
        matchFinalized := False, showMatchSummary := False, lastMatchStartMs := 0,
        firstCountdownOfMatchMs := 0, lastCountdownMs := 0, lastGoalMs := 0, lastMatchEndMs := 0,
        lastPodiumMs := 0, inGoalReplay := False, hideOverlayRequested := True\<rparr>"

definition ResetTiming :: "MatchState \<Rightarrow> MatchState" where
  "ResetTiming st =
     st\<lparr>regulationClockStart := None, regulationClockLatest := Fin 0, overtimeStartedAtMs := None,
        currentPauseStartMs := None, pauseIntervals := [], hasObservedMatchClock := False,
        lastMatchClockSampleAtMs := 0\<rparr>"

definition ClearActiveMatchOnDisconnect :: "MatchState \<Rightarrow> MatchState" where
  "ClearActiveMatchOnDisconnect st =
     ResetTiming (st\<lparr>inMatch := False, inReplay := False, myTeam := -1, arenaName := [],
        arenaAsset := [], matchGuid := [], playlistId := -1, score := (0, 0),
        legacyMaxPlayersSeen := 0, roundEverStarted := False, localPlayerWasActive := False,
        localPlayerWasSpectator := False, localPlayerPresenceObserved := False,
        localPlayerPresentInLatestUpdate := False, explicitLocalForfeit := False,
        excludedEarlyExitContext := False, earlyExitExclusionReason := [],
        fallbackCasualContext := False, fallbackNonRecordableContext := False,
        fallbackNonRecordableReason := [], legacyLobbyWasEverFull := False,
        legacyCurrentTeamPlayersSeen := (0, 0), legacyMaxTeamPlayersSeen := (0, 0),
        timeSeconds := Fin 0, bOvertime := False, matchSummaryOvertimeSeconds := Fin 0,
        currentMatch := MatchStats0, roster := [], matchRoster := [], preMatchMmrByGuid := [],
        matchFinalized := False, inGoalReplay := False, showMatchSummary := False,
        matchEvents := []\<rparr>)"

section \<open>Ending a session\<close>

text \<open>
  The matches of the session: those noted live, then those of the rating history that are not
  among them yet. The points are visited playlist by playlist in key order, as a \<open>std::map\<close> is.
\<close>

definition add_guid :: "string \<Rightarrow> string list \<Rightarrow> string list" where
  "add_guid g gs = (if g \<noteq> [] \<and> g \<notin> set gs then gs @ [g] else gs)"

definition recap_guids :: "string list \<Rightarrow> HistoryData option \<Rightarrow> string list" where
  "recap_guids gs history =
     (case history of
        None \<Rightarrow> gs
      | Some h \<Rightarrow>
          fold (\<lambda>(playlist, points). fold (\<lambda>p. add_guid (mp_matchGuid p)) points)
            (sort_key fst (hd_playlistMatchPoints h)) gs)"

definition session_recap :: "int \<Rightarrow> HistoryData option \<Rightarrow> MatchState \<Rightarrow> SessionRecap" where
  "session_recap endedAtUnix history st =
     (let owner = (case history of Some h \<Rightarrow> hd_mmrOwnerPrimaryId h | None \<Rightarrow> []);
          account = (if myPrimaryId st \<noteq> [] then myPrimaryId st else owner)
      in \<lparr>rcp_valid = True, rcp_endedAtUnix = endedAtUnix, rcp_totals = sessionTotals st,
          rcp_gamemodes = sessionGamemodes st, rcp_sessionGeneration = sessionGeneration st,
          rcp_mmrOwnerPrimaryId = (if owner \<noteq> [] then owner else account),
          rcp_playlistInitialMmr = (case history of Some h \<Rightarrow> hd_playlistInitialMmr h | None \<Rightarrow> []),
          rcp_id = 0, rcp_account = account,
          rcp_startedAtUnix =
            (if 0 < sessionStartedAtUnix st then min (sessionStartedAtUnix st) endedAtUnix else 0),
          rcp_source = ''live'', rcp_matchGuids = recap_guids (sessionMatchGuids st) history\<rparr>)"

definition MatchState_StartNewSession ::
    "int \<Rightarrow> HistoryData option \<Rightarrow> MatchState \<Rightarrow> MatchState \<times> HistoryData option \<times> bool" where
  "MatchState_StartNewSession endedAtUnix history st =
     (let captureRecap = (0 < st_wins (sessionTotals st) + st_losses (sessionTotals st));
          st1 = (if captureRecap then st\<lparr>lastSessionRecap := session_recap endedAtUnix history st\<rparr> else st)
      in (st1\<lparr>sessionTotals := SessionTotals0, lastGoalSpeed := Fin 0, lastGoalSpeedSelf := Fin 0,
              sessionGamemodes := [], sessionStartedAtUnix := 0, lastMatchEndedAtUnix := 0,
              sessionMatchGuids := [], sessionGeneration := sessionGeneration st1 + 1\<rparr>,
          map_option ResetSessionMmr history, captureRecap))"

lemma add_guid_set [simp]: "set (add_guid g gs) = set gs \<union> ({g} - {[]})"
  by (auto simp: add_guid_def)

lemma add_guid_distinct: "distinct gs \<Longrightarrow> distinct (add_guid g gs)"
  by (simp add: add_guid_def)

lemma fold_add_guid:
  "set (fold (\<lambda>p. add_guid (mp_matchGuid p)) ps gs) = set gs \<union> (mp_matchGuid ` set ps - {[]})"
  "distinct gs \<Longrightarrow> distinct (fold (\<lambda>p. add_guid (mp_matchGuid p)) ps gs)"
  by (induction ps arbitrary: gs) (auto simp: add_guid_distinct)

lemma fold_fold_guid:
  "set (fold (\<lambda>(playlist, points). fold (\<lambda>p. add_guid (mp_matchGuid p)) points) es gs) =
     set gs \<union> ((\<Union>e \<in> set es. mp_matchGuid ` set (snd e)) - {[]})"
  "distinct gs \<Longrightarrow> distinct (fold (\<lambda>(playlist, points). fold (\<lambda>p. add_guid (mp_matchGuid p)) points) es gs)"
  by (induction es arbitrary: gs) (auto simp: fold_add_guid)

lemma recap_guids_set:
  "set (recap_guids gs (Some h)) =
     set gs \<union> ((\<Union>e \<in> set (hd_playlistMatchPoints h). mp_matchGuid ` set (snd e)) - {[]})"
  by (simp add: recap_guids_def fold_fold_guid)

lemma recap_guids_distinct: "distinct gs \<Longrightarrow> distinct (recap_guids gs history)"
  by (auto simp: recap_guids_def fold_fold_guid split: option.split)

section \<open>Time paused inside a window\<close>

definition overlap_ms :: "int \<Rightarrow> int \<Rightarrow> PauseInterval \<Rightarrow> int" where
  "overlap_ms windowStartMs windowEndMs interval =
     (let overlapStart = max windowStartMs (pi_startMs interval);
          overlapEnd = min windowEndMs (pi_endMs interval)
      in if overlapStart < overlapEnd then overlapEnd - overlapStart else 0)"

definition paused_ms :: "int \<Rightarrow> int \<Rightarrow> MatchState \<Rightarrow> int" where
  "paused_ms windowStartMs windowEndMs st =
     fold (\<lambda>interval n. n + overlap_ms windowStartMs windowEndMs interval) (pauseIntervals st) 0 +
     (case currentPauseStartMs st of
        None \<Rightarrow> 0
      | Some s \<Rightarrow> (let overlapStart = max windowStartMs s
                  in if overlapStart < windowEndMs then windowEndMs - overlapStart else 0))"

definition PausedSecondsWithin :: "int \<Rightarrow> int \<Rightarrow> MatchState \<Rightarrow> fp" where
  "PausedSecondsWithin windowStartMs windowEndMs st =
     (if windowEndMs \<le> windowStartMs then Fin 0
      else fdiv32 (f32_of_int (paused_ms windowStartMs windowEndMs st)) (Fin 1000))"

text \<open>
  The pauses noted so far are disjoint, in order and over before the current one: then the time
  paused inside a window is at most the window.
\<close>

fun pauses_ordered :: "int \<Rightarrow> PauseInterval list \<Rightarrow> bool" where
  "pauses_ordered t [] = True"
| "pauses_ordered t (p # ps) = (t \<le> pi_startMs p \<and> pi_startMs p \<le> pi_endMs p \<and> pauses_ordered (pi_endMs p) ps)"

fun pauses_end :: "int \<Rightarrow> PauseInterval list \<Rightarrow> int" where
  "pauses_end t [] = t"
| "pauses_end t (p # ps) = pauses_end (pi_endMs p) ps"

lemma fold_overlap_bound:
  "pauses_ordered t ps \<Longrightarrow> a \<le> c \<Longrightarrow> c \<le> b \<Longrightarrow> c \<le> max a (min b t) \<Longrightarrow> n \<le> max a (min b t) - a \<Longrightarrow>
   fold (\<lambda>i n. n + overlap_ms a b i) ps n \<le> max a (min b (pauses_end t ps)) - a"
proof (induction ps arbitrary: t n c)
  case (Cons p ps)
  show ?case
    using Cons.prems Cons.IH[of "pi_endMs p" a "n + overlap_ms a b p"]
    by (auto simp: overlap_ms_def Let_def)
qed auto

lemma fold_overlap_nonneg:
  "0 \<le> n \<Longrightarrow> 0 \<le> fold (\<lambda>i n. n + overlap_ms a b i) ps n"
  by (induction ps arbitrary: n) (auto simp: overlap_ms_def Let_def)

lemma paused_ms_nonneg: "0 \<le> paused_ms a b st"
  by (auto simp: paused_ms_def Let_def fold_overlap_nonneg split: option.split)

lemma paused_ms_bound:
  assumes "a \<le> b" "pauses_ordered t (pauseIntervals st)"
    and "\<And>s. currentPauseStartMs st = Some s \<Longrightarrow> pauses_end t (pauseIntervals st) \<le> s"
  shows "paused_ms a b st \<le> b - a"
  using fold_overlap_bound[of t "pauseIntervals st" a a b 0] assms
  by (cases "currentPauseStartMs st") (auto simp: paused_ms_def Let_def)

end
