(* ===== verification/Reducer_Detail.thy ===== *)
theory Reducer_Detail
  imports Match_State
begin

text \<open>
  The guards and helpers of \<open>TelemetryReducerDetail\<close> and the helpers of \<open>TelemetryReducer.cpp\<close>
  and \<open>TelemetryReducerMatchValidation.cpp\<close> that every handler of the reducer uses: which events
  concern the current match, the mode and category a match has, the Discord snapshot, the rating
  captured before a match, and the rewriting of the interface's timestamps after every event.
\<close>

section \<open>The mode of a match\<close>

definition InferModeFromMatchState :: "MatchState \<Rightarrow> MmrCategory \<Rightarrow> string" where
  "InferModeFromMatchState st rosterCategory =
     (if HasAuthoritativeId (playlistId st) then
        (let playlistMode = CanonicalMode (playlistId st)
         in if playlistMode = [] then ''unknown'' else playlistMode)
      else if fallbackCasualContext st then ''casual''
      else if fallbackNonRecordableContext st then ''unknown''
      else let arenaKey = (if arenaAsset st \<noteq> [] then arenaAsset st else arenaName st)
           in InferFromSnapshot (legacyMaxPlayersSeen st) (int (length (roster st))) rosterCategory arenaKey)"

definition CategoryFromMatchContext :: "MatchState \<Rightarrow> MmrCategory" where
  "CategoryFromMatchContext st =
     (if HasAuthoritativeId (playlistId st) then Category (playlistId st)
      else if fallbackNonRecordableContext st then Best
      else if fallbackCasualContext st then Casual
      else let arenaKey = (if arenaAsset st \<noteq> [] then arenaAsset st else arenaName st);
               arenaCategory = CategoryFromMode (InferFromArenaName arenaKey)
           in if arenaCategory \<noteq> Best then arenaCategory
              else CategoryFromTeamCounts (legacyMaxTeamPlayersSeen st) (roundEverStarted st))"

section \<open>Events that concern the current match\<close>

definition AcceptsAnalyticsEvent :: "MatchState \<Rightarrow> string \<Rightarrow> bool \<Rightarrow> bool" where
  "AcceptsAnalyticsEvent st eventMatchGuid duringReplay =
     (if \<not> inMatch st \<or> matchFinalized st \<or> (inReplay st \<and> \<not> duringReplay) \<or> nonLiveReplayActive st \<or>
         fallbackNonRecordableContext st \<or> IsNonRecordable (playlistId st) then False
      else if eventMatchGuid = []
        then \<not> (missingGuidAssociationBlockedByReconnect st \<and> matchGuid st = [])
      else if matchGuid st \<noteq> [] \<and> eventMatchGuid \<noteq> matchGuid st then False
      else eventMatchGuid \<notin> finalizedMatchGuids st \<and>
           \<not> um_has (pendingDestroyedMatches st) eventMatchGuid)"

text \<open>The interface's timestamps at the start of a match: all zero but the start.\<close>

definition reset_timestamps :: "int \<Rightarrow> MatchState \<Rightarrow> MatchState" where
  "reset_timestamps nowMs st =
     st\<lparr>lastMatchStartMs := nowMs, firstCountdownOfMatchMs := 0, lastCountdownMs := 0,
        lastGoalMs := 0, lastMatchEndMs := 0, lastPodiumMs := 0, inGoalReplay := False\<rparr>"

definition ui_reset :: "int \<Rightarrow> UiStateUpdate" where
  "ui_reset nowMs = UiStateUpdate0\<lparr>uu_resetTimestamps := True, uu_resetMatchStartMs := nowMs\<rparr>"

definition AcceptsUiMatchEvent ::
    "string \<Rightarrow> int \<Rightarrow> MatchState \<Rightarrow> SideEffects \<Rightarrow> MatchState \<times> SideEffects \<times> bool" where
  "AcceptsUiMatchEvent incomingGuid nowMs st fx =
     (if nonLiveReplayActive st then (st, fx, False)
      else if incomingGuid \<noteq> [] then
        (if incomingGuid \<in> finalizedMatchGuids st \<or> um_has (pendingDestroyedMatches st) incomingGuid
         then (st, fx, False)
         else if matchGuid st \<noteq> [] \<and> inMatch st \<and> \<not> matchFinalized st \<and> incomingGuid \<noteq> matchGuid st
         then (st, fx, False)
         else let resets = ((uiMatchGuid st \<noteq> [] \<and> incomingGuid \<noteq> uiMatchGuid st) \<or> matchFinalized st);
                  st1 = (if resets then (reset_timestamps nowMs st)\<lparr>countdownSeenThisRound := False\<rparr> else st);
                  fx1 = (if resets then fx\<lparr>fx_uiUpdate := Some (ui_reset nowMs)\<rparr> else fx)
              in (st1\<lparr>uiMatchGuid := incomingGuid\<rparr>, fx1, True))
      else (st, fx, \<not> matchFinalized st))"

definition TargetsCurrentActiveMatchUi :: "string \<Rightarrow> MatchState \<Rightarrow> MatchState \<times> bool" where
  "TargetsCurrentActiveMatchUi incomingGuid st =
     (if \<not> inMatch st \<or> nonLiveReplayActive st then (st, False)
      else if incomingGuid \<noteq> [] then
        (if (matchGuid st \<noteq> [] \<and> incomingGuid \<noteq> matchGuid st) \<or>
            (uiMatchGuid st \<noteq> [] \<and> incomingGuid \<noteq> uiMatchGuid st) \<or>
            um_has (pendingDestroyedMatches st) incomingGuid then (st, False)
         else if matchGuid st = [] \<and> uiMatchGuid st = [] \<and> incomingGuid \<in> finalizedMatchGuids st
         then (st, False)
         else (if uiMatchGuid st = [] then st\<lparr>uiMatchGuid := incomingGuid\<rparr> else st, True))
      else (st, pendingDestroyedMatches st = [] \<and> \<not> missingGuidAssociationBlockedByReconnect st))"

definition OnTelemetryDisconnected :: "MatchState \<Rightarrow> MatchState" where
  "OnTelemetryDisconnected st =
     (if inMatch st \<and> \<not> matchFinalized st
      then st\<lparr>missingGuidAssociationBlockedByReconnect := True\<rparr> else st)"

section \<open>Effects\<close>

definition BuildDiscordSnapshot :: "MatchState \<Rightarrow> DiscordPresenceSnapshot" where
  "BuildDiscordSnapshot st =
     \<lparr>dps_showPresence = True, dps_inMatch = inMatch st, dps_matchGuid = matchGuid st,
      dps_arenaName = arenaName st, dps_score = score st, dps_myTeam = myTeam st,
      dps_sessionWins = st_wins (sessionTotals st), dps_sessionLosses = st_losses (sessionTotals st)\<rparr>"

definition push_discord :: "MatchState \<Rightarrow> SideEffects \<Rightarrow> SideEffects" where
  "push_discord st fx = fx\<lparr>fx_pushDiscord := True, fx_discordSnapshot := BuildDiscordSnapshot st\<rparr>"

text \<open>Identifiers that start with \<open>Unknown|\<close> are bots: nothing is fetched for them.\<close>

definition is_bot_id :: "string \<Rightarrow> bool" where
  "is_bot_id pid = starts_with pid ''Unknown|''"

definition clear_lifetime :: "PlayerData \<Rightarrow> PlayerData" where
  "clear_lifetime p = p\<lparr>pd_lifetimeWinsWith := 0, pd_lifetimeLossesWith := 0,
     pd_lifetimeWinsAgainst := 0, pd_lifetimeLossesAgainst := 0, pd_hasLifetimeData := False\<rparr>"

definition RequeueEncounterRecords :: "MatchState \<Rightarrow> SideEffects \<Rightarrow> MatchState \<times> SideEffects" where
  "RequeueEncounterRecords st fx =
     (st\<lparr>roster := map (\<lambda>(pid, p). (pid, clear_lifetime p)) (roster st)\<rparr>,
      fx\<lparr>fx_fetchEncounterQueue := fx_fetchEncounterQueue fx @
          filter (\<lambda>pid. \<not> is_bot_id pid) (map fst (roster st))\<rparr>)"

text \<open>
  After every event the timestamps are copied into the update for the interface; a pending
  request to hide the overlay is passed on once.
\<close>

definition PublishUiTimestamps :: "MatchState \<Rightarrow> SideEffects \<Rightarrow> MatchState \<times> SideEffects" where
  "PublishUiTimestamps st fx =
     (let ui = (case fx_uiUpdate fx of Some u \<Rightarrow> u | None \<Rightarrow> UiStateUpdate0);
          ui1 = ui\<lparr>uu_resetTimestamps := False,
                  uu_matchReset := (if hideOverlayRequested st then True else uu_matchReset ui),
                  uu_lastMatchStartMs := Some (lastMatchStartMs st),
                  uu_firstCountdownOfMatchMs := Some (firstCountdownOfMatchMs st),
                  uu_lastCountdownMs := Some (lastCountdownMs st),
                  uu_lastGoalMs := Some (lastGoalMs st),
                  uu_lastMatchEndMs := Some (lastMatchEndMs st),
                  uu_lastPodiumMs := Some (lastPodiumMs st),
                  uu_inGoalReplay := Some (inGoalReplay st),
                  uu_matchSummaryStartMs := Some (matchSummaryStartMs st)\<rparr>
      in (st\<lparr>hideOverlayRequested := False\<rparr>, fx\<lparr>fx_uiUpdate := Some ui1\<rparr>))"

section \<open>The rating before the match\<close>

definition CapturePreMatchMmr :: "MatchState \<Rightarrow> MatchState" where
  "CapturePreMatchMmr st =
     (if matchGuid st = [] \<or> um_has (preMatchMmrByGuid st) (matchGuid st) \<or> myPrimaryId st = [] then st
      else case map_of (roster st) (myPrimaryId st) of
             None \<Rightarrow> st
           | Some p \<Rightarrow>
              (if list_ex (\<lambda>(playlist, mmr). 0 < mmr) (pd_playlists p)
               then st\<lparr>preMatchMmrByGuid := um_emplace (matchGuid st)
                      \<lparr>pm_playlistMmrs = pd_playlists p, pm_playlistMatches = pd_playlistMatches p\<rparr>
                      (preMatchMmrByGuid st)\<rparr>
               else st))"

text \<open>The entry filed under no identifier moves to the match's identifier, unless it has one.\<close>

definition rekey_guidless ::
    "string \<Rightarrow> (string, LocalPreMatchMmrSnapshot) umap \<Rightarrow> (string, LocalPreMatchMmrSnapshot) umap" where
  "rekey_guidless guid m =
     (case map_of m [] of None \<Rightarrow> m | Some s \<Rightarrow> um_emplace guid s (um_erase [] m))"

definition attach_guid :: "string \<Rightarrow> MatchState \<Rightarrow> MatchState" where
  "attach_guid guid st =
     CapturePreMatchMmr (st\<lparr>preMatchMmrByGuid := rekey_guidless guid (preMatchMmrByGuid st),
                            matchGuid := guid\<rparr>)"

definition AttachTerminalGuidToCurrent :: "string \<Rightarrow> MatchState \<Rightarrow> MatchState" where
  "AttachTerminalGuidToCurrent eventMatchGuid st =
     (if eventMatchGuid = [] \<or> \<not> inMatch st \<or> matchFinalized st \<or> matchGuid st \<noteq> [] \<or>
         missingGuidAssociationBlockedByReconnect st \<or> eventMatchGuid \<in> finalizedMatchGuids st \<or>
         um_has (pendingDestroyedMatches st) eventMatchGuid then st
      else attach_guid eventMatchGuid st)"

section \<open>Facts about the guards\<close>

text \<open>An event of a match that is closed, or of another match than the live one, changes nothing.\<close>

lemma AcceptsUiMatchEvent_closed:
  "g \<noteq> [] \<Longrightarrow> g \<in> finalizedMatchGuids st \<or> um_has (pendingDestroyedMatches st) g \<Longrightarrow>
   AcceptsUiMatchEvent g nowMs st fx = (st, fx, False)"
  by (simp add: AcceptsUiMatchEvent_def)

lemma AcceptsUiMatchEvent_other:
  "g \<noteq> [] \<Longrightarrow> matchGuid st \<noteq> [] \<Longrightarrow> inMatch st \<Longrightarrow> \<not> matchFinalized st \<Longrightarrow> g \<noteq> matchGuid st \<Longrightarrow>
   AcceptsUiMatchEvent g nowMs st fx = (st, fx, False)"
  by (simp add: AcceptsUiMatchEvent_def)

lemma AcceptsAnalyticsEvent_current:
  "AcceptsAnalyticsEvent st g duringReplay \<Longrightarrow>
   inMatch st \<and> \<not> matchFinalized st \<and> \<not> nonLiveReplayActive st \<and> (inReplay st \<longrightarrow> duringReplay) \<and>
   (g \<noteq> [] \<longrightarrow> g \<notin> finalizedMatchGuids st \<and> (matchGuid st \<noteq> [] \<longrightarrow> g = matchGuid st))"
  by (auto simp: AcceptsAnalyticsEvent_def split: if_splits)

end
