(* ===== verification/Reducer_Stats.thy ===== *)
theory Reducer_Stats
  imports Reducer_Detail
begin

text \<open>
  \<open>TelemetryReducerStats.cpp\<close>: whether a named player is the local one, the resolution of a
  player reference against the roster, the match journal, and the handlers of stat-feed events,
  goals, ball hits and crossbar hits.
\<close>

section \<open>Players of the roster\<close>

definition IsSelf :: "MatchState \<Rightarrow> string \<Rightarrow> bool" where
  "IsSelf st name =
     (if name = [] \<or> myPrimaryId st = [] then False
      else case find (\<lambda>(pid, player). pd_name player = name) (roster st) of
             Some (pid, player) \<Rightarrow> pid = myPrimaryId st
           | None \<Rightarrow> False)"

definition IsSelfById :: "MatchState \<Rightarrow> string \<Rightarrow> bool" where
  "IsSelfById st pid = (pid \<noteq> [] \<and> pid = myPrimaryId st)"

definition self_ref :: "MatchState \<Rightarrow> string \<Rightarrow> string \<Rightarrow> bool" where
  "self_ref st pid name = (if pid \<noteq> [] then IsSelfById st pid else IsSelf st name)"

text \<open>The identifiers of the players a reference fits; a second non-empty match returns at once.\<close>

fun resolve_match :: "PlayerRef \<Rightarrow> (string \<times> PlayerData) list \<Rightarrow> string \<Rightarrow> string" where
  "resolve_match target [] found = found"
| "resolve_match target ((pid, player) # rest) found =
     (if pd_name player \<noteq> pr_name target \<or> (pr_team target \<noteq> -1 \<and> pd_team player \<noteq> pr_team target)
      then resolve_match target rest found
      else if found \<noteq> [] then []
      else resolve_match target rest pid)"

definition ResolveRosterPlayerId :: "MatchState \<Rightarrow> PlayerRef \<Rightarrow> string" where
  "ResolveRosterPlayerId st target =
     (if pr_primaryId target \<noteq> [] then pr_primaryId target
      else if pr_name target = [] then []
      else resolve_match target (roster st) [])"

text \<open>The players a reference fits, and the resolution in their terms: unique or nothing.\<close>

definition fits_ref :: "PlayerRef \<Rightarrow> string \<times> PlayerData \<Rightarrow> bool" where
  "fits_ref target e =
     (pd_name (snd e) = pr_name target \<and> (pr_team target = -1 \<or> pd_team (snd e) = pr_team target))"

lemma resolve_match_filter:
  "[] \<notin> set (map fst r) \<Longrightarrow>
   resolve_match target r found =
     (case filter (fits_ref target) r of
        [] \<Rightarrow> found
      | [e] \<Rightarrow> (if found = [] then fst e else [])
      | _ \<Rightarrow> [])"
proof (induction target r found rule: resolve_match.induct)
  case (2 target pid player rest found)
  then show ?case
    by (auto simp: fits_ref_def split: list.splits)
qed simp

lemma ResolveRosterPlayerId_unique:
  assumes "[] \<notin> set (map fst (roster st))" "pr_primaryId target = []" "pr_name target \<noteq> []"
  shows "ResolveRosterPlayerId st target =
     (case filter (fits_ref target) (roster st) of [e] \<Rightarrow> fst e | _ \<Rightarrow> [])"
  using assms by (simp add: ResolveRosterPlayerId_def resolve_match_filter split: list.split)

definition upd_player :: "string \<Rightarrow> (PlayerData \<Rightarrow> PlayerData) \<Rightarrow> MatchState \<Rightarrow> MatchState" where
  "upd_player pid f st =
     (if pid = [] then st
      else case map_of (roster st) pid of
             Some p \<Rightarrow> st\<lparr>roster := um_put pid (f p) (roster st)\<rparr>
           | None \<Rightarrow> st)"

section \<open>The journal\<close>

definition journal_blocked :: "MatchState \<Rightarrow> string \<Rightarrow> bool" where
  "journal_blocked st guid =
     (\<not> inMatch st \<or> matchFinalized st \<or> inReplay st \<or> nonLiveReplayActive st \<or>
      fallbackNonRecordableContext st \<or> IsNonRecordable (playlistId st) \<or>
      512 \<le> length (matchEvents st) \<or>
      (missingGuidAssociationBlockedByReconnect st \<and> guid = [] \<and> matchGuid st = []) \<or>
      (guid \<noteq> [] \<and> matchGuid st \<noteq> [] \<and> guid \<noteq> matchGuid st) \<or>
      (guid \<noteq> [] \<and> (guid \<in> finalizedMatchGuids st \<or> um_has (pendingDestroyedMatches st) guid)))"

definition journal_clock :: "MatchState \<Rightarrow> int \<Rightarrow> fp option \<Rightarrow> fp option" where
  "journal_clock st nowMs secondsRemaining =
     (let sampled = (if hasObservedMatchClock st \<and> lastMatchClockSampleAtMs st \<le> nowMs \<and>
                        nowMs - lastMatchClockSampleAtMs st \<le> 5000
                     then Some (timeSeconds st) else None)
      in case secondsRemaining of
           Some s \<Rightarrow> (if Fin 0 \<le> s \<and> s \<le> Fin 3600 then Some s else sampled)
         | None \<Rightarrow> sampled)"

definition journal_key :: "string \<Rightarrow> string \<Rightarrow> string \<Rightarrow> string" where
  "journal_key source type eventId = source @ '':'' @ type @ '':'' @ eventId"

definition RecordJournalEvent ::
    "ReducerContext \<Rightarrow> string \<Rightarrow> string \<Rightarrow> string \<Rightarrow> string \<Rightarrow> string \<Rightarrow> string \<Rightarrow> string \<Rightarrow> int \<Rightarrow>
     fp option \<Rightarrow> fp option \<Rightarrow> fp option \<Rightarrow> string \<Rightarrow> MatchState \<Rightarrow> MatchState" where
  "RecordJournalEvent ctx type guid actorId actorName secondaryId secondaryName source nowMs
       secondsRemaining speed val eventId st =
     (if journal_blocked st guid then st
      else let key = (if eventId \<noteq> [] then journal_key source type eventId else []);
               event = \<lparr>je_type = type, je_observedAtUnixMs = rc_systemMs ctx,
                  je_matchClockSeconds = journal_clock st nowMs secondsRemaining,
                  je_actorId = actorId, je_actorName = actorName, je_secondaryId = secondaryId,
                  je_secondaryName = secondaryName,
                  je_team = (case map_of (roster st) actorId of
                      Some p \<Rightarrow> (if is_team (pd_team p) then Some (pd_team p) else None) | None \<Rightarrow> None),
                  je_value = val, je_ballSpeed = speed, je_source = source, je_eventKey = key\<rparr>
           in if eventId \<noteq> [] \<and> key \<in> eventNativeKeys st then st
              else st\<lparr>eventNativeKeys :=
                       (if eventId \<noteq> [] then insert key (eventNativeKeys st) else eventNativeKeys st),
                     matchEvents := matchEvents st @ [event]\<rparr>)"

section \<open>Stat-feed events\<close>

definition is_save :: "string \<Rightarrow> bool" where
  "is_save e = (e = ''Save'' \<or> e = ''EpicSave'' \<or> e = ''Epic Save'')"

definition statfeed_journal_type :: "string \<Rightarrow> string" where
  "statfeed_journal_type feedEvent =
     (if feedEvent = ''EpicSave'' \<or> feedEvent = ''Epic Save'' then ''epic_save''
      else if feedEvent = ''Save'' then ''save''
      else if feedEvent = ''Shot'' then ''shot''
      else if feedEvent = ''Assist'' then ''assist''
      else if feedEvent = ''OwnGoal'' then ''own_goal''
      else if feedEvent = ''Demolish'' then ''demolition''
      else [])"

definition bump :: "bool \<Rightarrow> int \<Rightarrow> int" where
  "bump b n = (if b then n + 1 else n)"

definition count_statfeed ::
    "string \<Rightarrow> string \<Rightarrow> string \<Rightarrow> bool \<Rightarrow> bool \<Rightarrow> MatchState \<Rightarrow> MatchState" where
  "count_statfeed feedEvent mainId secId isMainSelf isSecSelf st =
     (let cur = currentMatch st in
      if is_save feedEvent then
        upd_player mainId (\<lambda>p. p\<lparr>pd_saves := pd_saves p + 1\<rparr>)
          (st\<lparr>currentMatch := cur\<lparr>ms_saves := ms_saves cur + 1,
                                 ms_savesSelf := bump isMainSelf (ms_savesSelf cur)\<rparr>\<rparr>)
      else if feedEvent = ''Shot'' then
        upd_player mainId (\<lambda>p. p\<lparr>pd_shots := pd_shots p + 1\<rparr>)
          (st\<lparr>currentMatch := cur\<lparr>ms_shots := ms_shots cur + 1,
                                 ms_shotsSelf := bump isMainSelf (ms_shotsSelf cur)\<rparr>\<rparr>)
      else if feedEvent = ''Demolish'' then
        (let st1 = upd_player mainId (\<lambda>p. p\<lparr>pd_demos := pd_demos p + 1\<rparr>)
               (st\<lparr>currentMatch := cur\<lparr>ms_demos := ms_demos cur + 1,
                                      ms_demosSelf := bump isMainSelf (ms_demosSelf cur),
                                      ms_demoedSelf := bump isSecSelf (ms_demoedSelf cur)\<rparr>\<rparr>)
         in if secId \<noteq> [] then st1\<lparr>boostRespawnPending := insert secId (boostRespawnPending st1)\<rparr> else st1)
      else if feedEvent = ''OwnGoal'' then
        st\<lparr>currentMatch := cur\<lparr>ms_ownGoals := ms_ownGoals cur + 1,
                              ms_ownGoalsSelf := bump isMainSelf (ms_ownGoalsSelf cur)\<rparr>\<rparr>
      else if feedEvent = ''Assist'' then
        upd_player mainId (\<lambda>p. p\<lparr>pd_assists := pd_assists p + 1\<rparr>)
          (st\<lparr>currentMatch := cur\<lparr>ms_assists := ms_assists cur + 1,
                                 ms_assistsSelf := bump isMainSelf (ms_assistsSelf cur)\<rparr>\<rparr>)
      else st)"

definition HandleStatfeed :: "StatfeedEvent \<Rightarrow> ReducerContext \<Rightarrow> MatchState \<Rightarrow> MatchState" where
  "HandleStatfeed ev ctx st =
     (if inReplay st \<or> sf_eventName ev = [] then st
      else let feedEvent = sf_eventName ev;
               mainName = pr_name (sf_mainTarget ev);
               mainId = ResolveRosterPlayerId st (sf_mainTarget ev);
               secName = (case sf_secondaryTarget ev of Some r \<Rightarrow> pr_name r | None \<Rightarrow> []);
               secId = (case sf_secondaryTarget ev of Some r \<Rightarrow> ResolveRosterPlayerId st r | None \<Rightarrow> []);
               isMainSelf = self_ref st mainId mainName;
               isSecSelf = self_ref st secId secName;
               journalType = statfeed_journal_type feedEvent;
               st1 = (if journalType \<noteq> [] then
                        RecordJournalEvent ctx journalType (sf_matchGuid ev) mainId mainName secId secName
                          ''statfeed'' (now_ms ctx) (sf_secondsRemaining ev) None None (sf_eventId ev) st
                      else st)
           in count_statfeed feedEvent mainId secId isMainSelf isSecSelf st1)"

section \<open>Goals\<close>

definition stale_goal :: "MatchState \<Rightarrow> string \<Rightarrow> bool" where
  "stale_goal st goalGuid =
     (nonLiveReplayActive st \<or>
      (goalGuid \<noteq> [] \<and>
       (goalGuid \<in> finalizedMatchGuids st \<or> um_has (pendingDestroyedMatches st) goalGuid \<or>
        (inMatch st \<and> \<not> matchFinalized st \<and> matchGuid st \<noteq> [] \<and> goalGuid \<noteq> matchGuid st))))"

definition goal_ui :: "GoalScoredEvent \<Rightarrow> int \<Rightarrow> MatchState \<Rightarrow> SideEffects \<Rightarrow> MatchState \<times> SideEffects" where
  "goal_ui ev nowMs st fx =
     (let (st1, fx1, ok) = AcceptsUiMatchEvent (gs_matchGuid ev) nowMs st fx
      in if ok then (st1\<lparr>lastGoalMs := nowMs, countdownSeenThisRound := False\<rparr>,
                     fx1\<lparr>fx_uiUpdate := Some (UiStateUpdate0\<lparr>uu_lastGoalMs := Some nowMs\<rparr>)\<rparr>)
         else (st1, fx1))"

definition goal_speed :: "GoalScoredEvent \<Rightarrow> bool \<Rightarrow> string \<Rightarrow> MatchState \<Rightarrow> MatchState" where
  "goal_speed ev isScorerSelf scorerId st =
     (case gs_goalSpeed ev of
        None \<Rightarrow> st
      | Some s \<Rightarrow>
         (let v = f32_of_f64 s; cur = currentMatch st in
          if fp_finite v \<and> Fin 0 < v then
            (let st1 = upd_player scorerId (\<lambda>p. p\<lparr>pd_maxGoalSpeed := fmax (pd_maxGoalSpeed p) v\<rparr>)
                   (st\<lparr>currentMatch := cur\<lparr>ms_maxGoalSpeed := fmax (ms_maxGoalSpeed cur) v,
                       ms_maxGoalSpeedSelf := (if isScorerSelf then fmax (ms_maxGoalSpeedSelf cur) v
                                               else ms_maxGoalSpeedSelf cur)\<rparr>\<rparr>)
             in st1\<lparr>lastGoalSpeed := v,
                    lastGoalSpeedSelf := (if isScorerSelf then v else lastGoalSpeedSelf st1)\<rparr>)
          else st))"

definition faster :: "fp \<Rightarrow> fp \<Rightarrow> fp" where
  "faster best time = (if feq best (Fin 0) \<or> time < best then time else best)"

definition goal_time :: "GoalScoredEvent \<Rightarrow> bool \<Rightarrow> string \<Rightarrow> MatchState \<Rightarrow> MatchState" where
  "goal_time ev isScorerSelf scorerId st =
     (case gs_roundSeconds ev of
        None \<Rightarrow> st
      | Some time \<Rightarrow>
         (let cur = currentMatch st in
          if Fin 0 < time then
            upd_player scorerId (\<lambda>p. p\<lparr>pd_fastestGoalTime := faster (pd_fastestGoalTime p) time\<rparr>)
              (st\<lparr>currentMatch := cur\<lparr>ms_fastestGoalTime := faster (ms_fastestGoalTime cur) time,
                  ms_fastestGoalTimeSelf := (if isScorerSelf then faster (ms_fastestGoalTimeSelf cur) time
                                             else ms_fastestGoalTimeSelf cur)\<rparr>\<rparr>)
          else st))"

definition count_goal :: "GoalScoredEvent \<Rightarrow> ReducerContext \<Rightarrow> MatchState \<Rightarrow> MatchState" where
  "count_goal ev ctx st =
     (let st1 = st\<lparr>roundActive := False,
                  currentMatch := (currentMatch st)\<lparr>ms_goals := ms_goals (currentMatch st) + 1\<rparr>\<rparr>;
          scorerName = pr_name (gs_scorer ev);
          scorerId = ResolveRosterPlayerId st1 (gs_scorer ev);
          isScorerSelf = self_ref st1 scorerId scorerName;
          st2 = RecordJournalEvent ctx ''goal'' (gs_matchGuid ev) scorerId scorerName
                  (case gs_assister ev of Some a \<Rightarrow> ResolveRosterPlayerId st1 a | None \<Rightarrow> [])
                  (case gs_assister ev of Some a \<Rightarrow> pr_name a | None \<Rightarrow> [])
                  ''goal'' (now_ms ctx) (gs_secondsRemaining ev)
                  (case gs_goalSpeed ev of Some s \<Rightarrow> (if Fin 0 < s then Some s else None) | None \<Rightarrow> None)
                  None (gs_eventId ev) st1;
          st3 = st2\<lparr>currentMatch := (currentMatch st2)\<lparr>ms_goalsSelf :=
                      bump isScorerSelf (ms_goalsSelf (currentMatch st2))\<rparr>\<rparr>;
          st4 = upd_player scorerId (\<lambda>p. p\<lparr>pd_goals := pd_goals p + 1\<rparr>) st3
      in goal_time ev isScorerSelf scorerId (goal_speed ev isScorerSelf scorerId st4))"

definition HandleGoalScored ::
    "GoalScoredEvent \<Rightarrow> ReducerContext \<Rightarrow> MatchState \<Rightarrow> SideEffects \<Rightarrow> MatchState \<times> SideEffects" where
  "HandleGoalScored ev ctx st fx =
     (if gs_isEcho ev \<or> inReplay st then (st, fx)
      else let (st1, fx1) = goal_ui ev (now_ms ctx) st fx
           in if stale_goal st1 (gs_matchGuid ev) then (st1, fx1)
              else let st2 = count_goal ev ctx st1 in (st2, push_discord st2 fx1))"

section \<open>Hits\<close>

definition HandleBallHit :: "BallHitEvent \<Rightarrow> MatchState \<Rightarrow> MatchState" where
  "HandleBallHit ev st =
     (let speed = bh_postHitSpeed ev; cur = currentMatch st;
          selfHit = list_ex (\<lambda>h. self_ref st (ResolveRosterPlayerId st h) (pr_name h)) (bh_hitters ev)
      in st\<lparr>currentMatch := cur\<lparr>ms_maxBallSpeed := fmax (ms_maxBallSpeed cur) speed,
            ms_maxBallSpeedSelf := (if selfHit then fmax (ms_maxBallSpeedSelf cur) speed
                                    else ms_maxBallSpeedSelf cur)\<rparr>\<rparr>)"

definition HandleCrossbarHit :: "CrossbarHitEvent \<Rightarrow> ReducerContext \<Rightarrow> MatchState \<Rightarrow> MatchState" where
  "HandleCrossbarHit ev ctx st =
     (let toucherName = pr_name (cb_lastTouch ev);
          toucherId = ResolveRosterPlayerId st (cb_lastTouch ev);
          isToucherSelf = self_ref st toucherId toucherName;
          cur = currentMatch st;
          cur1 = cur\<lparr>ms_crossbars := ms_crossbars cur + 1,
                     ms_crossbarsSelf := bump isToucherSelf (ms_crossbarsSelf cur)\<rparr>;
          cur2 = (case cb_impactForce ev of
                    None \<Rightarrow> cur1
                  | Some f \<Rightarrow>
                     (let v = f32_of_f64 f in
                      cur1\<lparr>ms_maxImpactForce := fmax (ms_maxImpactForce cur1) v,
                           ms_maxImpactForceSelf := (if isToucherSelf then fmax (ms_maxImpactForceSelf cur1) v
                                                     else ms_maxImpactForceSelf cur1)\<rparr>))
      in RecordJournalEvent ctx ''crossbar'' (cb_matchGuid ev) toucherId toucherName [] [] ''crossbar''
           (now_ms ctx) (cb_secondsRemaining ev) None (cb_impactForce ev) (cb_eventId ev)
           (st\<lparr>currentMatch := cur2\<rparr>))"

end
