(* ===== verification/Reducer_Finalize.thy ===== *)
theory Reducer_Finalize
  imports Reducer_Detail
begin

text \<open>
  The end of a match: \<open>TelemetryReducerMatchValidation.cpp\<close> (what is captured, whether it counts,
  whether an early exit is a competitive loss in waiting) and \<open>TelemetryReducerFinalize.cpp\<close> (the
  session totals, the save, and the handlers of the two events that end a match).
\<close>

section \<open>Capturing a match\<close>

definition overtime_seconds :: "int \<Rightarrow> MatchState \<Rightarrow> fp" where
  "overtime_seconds nowMs st =
     (case overtimeStartedAtMs st of
        Some s \<Rightarrow>
          (let rawOt = fdiv32 (f32_of_int (nowMs - s)) (Fin 1000);
               pausedOt = PausedSecondsWithin s nowMs st
           in fmax (Fin 0) (fsub32 rawOt pausedOt))
      | None \<Rightarrow> Fin 0)"

definition regulation_seconds :: "MatchState \<Rightarrow> fp" where
  "regulation_seconds st =
     (case regulationClockStart st of
        Some s \<Rightarrow> fmax (Fin 0) (fsub32 s (regulationClockLatest st))
      | None \<Rightarrow> Fin 0)"

definition captured_roster :: "MatchState \<Rightarrow> (string, PlayerData) umap" where
  "captured_roster st = fold (\<lambda>(primaryId, player). um_put primaryId player) (roster st) (matchRoster st)"

definition CaptureMatch :: "ReducerContext \<Rightarrow> MatchState \<Rightarrow> CapturedMatch" where
  "CaptureMatch ctx st =
     (let snapshot = Tracker_Snapshot (analytics st);
          pre = map_of (preMatchMmrByGuid st) (matchGuid st);
          nowMs = (if 0 < currentReducerNowMs st then currentReducerNowMs st else SteadyNowMs ctx);
          overtime = overtime_seconds nowMs st;
          regulation = regulation_seconds st
      in \<lparr>cm_arenaName = arenaName st, cm_arenaAsset = arenaAsset st, cm_matchGuid = matchGuid st,
          cm_playlistId = playlistId st, cm_matchGeneration = activeMatchGeneration st,
          cm_sessionGeneration = sessionGeneration st, cm_myPrimaryId = myPrimaryId st,
          cm_myTeam = myTeam st, cm_score = score st,
          cm_legacyMaxPlayersSeen = legacyMaxPlayersSeen st,
          cm_legacyMaxTeamPlayersSeen = legacyMaxTeamPlayersSeen st,
          cm_roundEverStarted = roundEverStarted st, cm_localPlayerWasActive = localPlayerWasActive st,
          cm_localPlayerWasSpectator = localPlayerWasSpectator st,
          cm_legacyLobbyWasEverFull = legacyLobbyWasEverFull st,
          cm_localPlayerDisappeared =
            (localPlayerPresenceObserved st \<and> \<not> localPlayerPresentInLatestUpdate st),
          cm_explicitLocalForfeit = explicitLocalForfeit st,
          cm_fallbackCasualContext = fallbackCasualContext st,
          cm_fallbackNonRecordableContext = fallbackNonRecordableContext st,
          cm_fallbackNonRecordableReason = fallbackNonRecordableReason st,
          cm_nonLiveReplay = nonLiveReplayActive st, cm_stats = currentMatch st,
          cm_roster = captured_roster st, cm_rosterMmrCategory = autoSwitchedPlaylistCategory st,
          cm_mode = InferModeFromMatchState st (autoSwitchedPlaylistCategory st),
          cm_preMatchMmr = (case pre of Some s \<Rightarrow> s | None \<Rightarrow> LocalPreMatchMmrSnapshot0),
          cm_hasPreMatchMmr = (pre \<noteq> None), cm_endedAtUnixMs = rc_systemMs ctx,
          cm_durationSeconds = (if Fin 0 < regulation then fadd32 regulation overtime else Fin 0),
          cm_overtimeSeconds = overtime, cm_events = matchEvents st,
          cm_analytics = (if MatchAnalytics_Empty snapshot then None else Some snapshot)\<rparr>)"

section \<open>Whether a match counts\<close>

definition void_decision :: "string \<Rightarrow> MatchEndDecision" where
  "void_decision reason = MatchEndDecision0\<lparr>ed_voidReason := reason\<rparr>"

definition legacy_teams_full :: "int \<Rightarrow> bool \<Rightarrow> int \<times> int \<Rightarrow> bool" where
  "legacy_teams_full expectedTeamSize wasFull maxSeen =
     (wasFull \<or> (expectedTeamSize \<le> fst maxSeen \<and> expectedTeamSize \<le> snd maxSeen))"

definition ClassifyMatchEnd :: "CapturedMatch \<Rightarrow> int \<Rightarrow> MatchEndDecision" where
  "ClassifyMatchEnd match winnerTeam =
     (let hasId = HasAuthoritativeId (cm_playlistId match);
          expectedTeamSize = LegacyExpectedTeamSizeForMode (cm_mode match) in
      if cm_nonLiveReplay match then void_decision ''non_live_replay''
      else if hasId \<and> \<not> IsKnown (cm_playlistId match) then void_decision ''unknown_playlist_id''
      else case NonRecordableReason (cm_playlistId match) of
        Some reason \<Rightarrow> void_decision reason
      | None \<Rightarrow>
          if \<not> hasId \<and> cm_fallbackNonRecordableContext match
          then void_decision (if cm_fallbackNonRecordableReason match = []
                              then ''explicit_non_competitive_context''
                              else cm_fallbackNonRecordableReason match)
          else if \<not> is_team winnerTeam then void_decision ''invalid_winner''
          else if \<not> is_team (cm_myTeam match)
          then void_decision (if cm_localPlayerWasSpectator match then ''local_player_spectator_bug''
                              else ''local_player_team_unknown'')
          else if \<not> cm_roundEverStarted match then void_decision ''round_never_started''
          else if \<not> cm_localPlayerWasActive match
          then void_decision (if cm_localPlayerWasSpectator match then ''local_player_spectator_bug''
                              else ''local_player_never_active'')
          else if \<not> hasId \<and> 0 < expectedTeamSize \<and>
                  \<not> legacy_teams_full expectedTeamSize (cm_legacyLobbyWasEverFull match)
                      (cm_legacyMaxTeamPlayersSeen match)
          then void_decision ''lobby_never_full''
          else let won = (winnerTeam = cm_myTeam match)
               in \<lparr>ed_shouldCount = True, ed_shouldPersist = True, ed_iWon = won,
                   ed_resultText = (if won then ''Win'' else ''Loss''), ed_voidReason = []\<rparr>)"

text \<open>An early exit: \<open>Inr\<close> the mode, or \<open>Inl\<close> the reason why the match is void.\<close>

definition IsValidEarlyCompetitiveExit :: "MatchState \<Rightarrow> string + string" where
  "IsValidEarlyCompetitiveExit st =
     (if \<not> inMatch st then Inl ''match_not_active''
      else if matchFinalized st then Inl ''match_already_finalized''
      else if nonLiveReplayActive st then Inl ''non_live_replay''
      else if localPlayerWasSpectator st then Inl ''local_player_spectator_bug''
      else if \<not> roundEverStarted st then Inl ''round_never_started''
      else if \<not> localPlayerWasActive st then Inl ''local_player_never_active''
      else if \<not> is_team (myTeam st) then Inl ''local_player_team_unknown''
      else if matchGuid st = [] then Inl ''missing_match_guid''
      else if excludedEarlyExitContext st
        then Inl (if earlyExitExclusionReason st = [] then ''explicit_non_competitive_context''
                  else earlyExitExclusionReason st)
      else let mode = InferModeFromMatchState st (autoSwitchedPlaylistCategory st);
               expectedTeamSize = LegacyExpectedTeamSizeForMode mode
           in if \<not> IsTrackedRankedEarlyExitMode mode
              then Inl ''untracked_or_non_competitive_playlist''
              else if \<not> HasAuthoritativeId (playlistId st) \<and> expectedTeamSize \<le> 0
              then Inl ''unknown_competitive_team_size''
              else if \<not> HasAuthoritativeId (playlistId st) \<and>
                      \<not> legacy_teams_full expectedTeamSize (legacyLobbyWasEverFull st)
                          (legacyMaxTeamPlayersSeen st)
              then Inl ''lobby_never_full''
              else Inr mode)"

section \<open>The rating refresh after a match\<close>

definition previous_mmr :: "CapturedMatch \<Rightarrow> PlayerData \<Rightarrow> string \<Rightarrow> int \<times> int \<times> bool" where
  "previous_mmr match player mmrKey =
     (let captured = (if cm_hasPreMatchMmr match
                      then map_of (pm_playlistMmrs (cm_preMatchMmr match)) mmrKey else None)
      in case captured of
           Some m \<Rightarrow>
             if 0 < m then
               (m, case map_of (pm_playlistMatches (cm_preMatchMmr match)) mmrKey of
                     Some n \<Rightarrow> n | None \<Rightarrow> -1, True)
             else
               (case map_of (pd_playlists player) mmrKey of
                  Some p \<Rightarrow> (if 0 < p then p else pd_mmr player) | None \<Rightarrow> pd_mmr player,
                case map_of (pd_playlistMatches player) mmrKey of Some n \<Rightarrow> n | None \<Rightarrow> -1,
                case map_of (pd_playlists player) mmrKey of Some p \<Rightarrow> 0 < p | None \<Rightarrow> False)
         | None \<Rightarrow>
             (case map_of (pd_playlists player) mmrKey of
                Some p \<Rightarrow> (if 0 < p then p else pd_mmr player) | None \<Rightarrow> pd_mmr player,
              case map_of (pd_playlistMatches player) mmrKey of Some n \<Rightarrow> n | None \<Rightarrow> -1,
              case map_of (pd_playlists player) mmrKey of Some p \<Rightarrow> 0 < p | None \<Rightarrow> False))"

definition BuildPostMatchMmrRefresh :: "CapturedMatch \<Rightarrow> bool \<Rightarrow> PostMatchMmrRefresh option" where
  "BuildPostMatchMmrRefresh match won =
     (let hasPlaylistId = HasAuthoritativeId (cm_playlistId match);
          authoritativeCasual = (hasPlaylistId \<and> IsCasual (cm_playlistId match));
          mmrKey = (if hasPlaylistId then MmrKey (cm_playlistId match) else cm_mode match)
      in if (\<not> hasPlaylistId \<and> (cm_fallbackCasualContext match \<or> cm_fallbackNonRecordableContext match)) \<or>
            (hasPlaylistId \<and> \<not> IsKnown (cm_playlistId match)) \<or>
            cm_matchGuid match = [] \<or> cm_myPrimaryId match = [] \<or>
            (\<not> authoritativeCasual \<and> \<not> IsTrackedCompetitiveMode (cm_mode match)) then None
         else if mmrKey = [] then None
         else case map_of (cm_roster match) (cm_myPrimaryId match) of
                None \<Rightarrow> None
              | Some player \<Rightarrow>
                 (let (previousMmr, previousMatches, specific) = previous_mmr match player mmrKey
                  in Some \<lparr>rf_primaryId = cm_myPrimaryId match, rf_name = pd_name player,
                           rf_matchGuid = cm_matchGuid match, rf_playlist = mmrKey,
                           rf_previousMmr = previousMmr, rf_previousMatches = previousMatches,
                           rf_previousMmrIsPlaylistSpecific = specific, rf_won = won,
                           rf_provisionalImmediately = False\<rparr>))"

section \<open>Session totals\<close>

definition add_counters :: "MatchStats \<Rightarrow> SessionTotals \<Rightarrow> SessionTotals" where
  "add_counters cur t =
     t\<lparr>st_goals := st_goals t + ms_goalsSelf cur, st_saves := st_saves t + ms_savesSelf cur,
       st_savesTotal := st_savesTotal t + ms_saves cur, st_shots := st_shots t + ms_shotsSelf cur,
       st_shotsTotal := st_shotsTotal t + ms_shots cur, st_demos := st_demos t + ms_demosSelf cur,
       st_demosTotal := st_demosTotal t + ms_demos cur, st_demoed := st_demoed t + ms_demoedSelf cur,
       st_crossbars := st_crossbars t + ms_crossbarsSelf cur,
       st_crossbarsTotal := st_crossbarsTotal t + ms_crossbars cur,
       st_assists := st_assists t + ms_assistsSelf cur,
       st_assistsTotal := st_assistsTotal t + ms_assists cur,
       st_boostPickedUp := st_boostPickedUp t + ms_boostPickedUpSelf cur,
       st_ownGoals := st_ownGoals t + ms_ownGoals cur,
       st_ownGoalsSelf := st_ownGoalsSelf t + ms_ownGoalsSelf cur\<rparr>"

definition fastest_of :: "fp \<Rightarrow> fp \<Rightarrow> fp" where
  "fastest_of best time =
     (if Fin 0 < time \<and> (feq best (Fin 0) \<or> time < best) then time else best)"

definition add_records :: "MatchStats \<Rightarrow> SessionTotals \<Rightarrow> SessionTotals" where
  "add_records cur t =
     t\<lparr>st_maxGoalSpeed := fmax (st_maxGoalSpeed t) (ms_maxGoalSpeed cur),
       st_maxGoalSpeedSelf := fmax (st_maxGoalSpeedSelf t) (ms_maxGoalSpeedSelf cur),
       st_maxBallSpeed := fmax (st_maxBallSpeed t) (ms_maxBallSpeed cur),
       st_maxBallSpeedSelf := fmax (st_maxBallSpeedSelf t) (ms_maxBallSpeedSelf cur),
       st_maxImpactForce := fmax (st_maxImpactForce t) (ms_maxImpactForce cur),
       st_maxImpactForceSelf := fmax (st_maxImpactForceSelf t) (ms_maxImpactForceSelf cur),
       st_fastestGoalTime := fastest_of (st_fastestGoalTime t) (ms_fastestGoalTime cur),
       st_fastestGoalTimeSelf := fastest_of (st_fastestGoalTimeSelf t) (ms_fastestGoalTimeSelf cur)\<rparr>"

definition team_goals :: "CapturedMatch \<Rightarrow> int" where
  "team_goals match =
     (let scored = (if is_team (cm_myTeam match) then team_at (cm_score match) (cm_myTeam match) else 0)
      in if scored \<le> 0
         then fold (\<lambda>(primaryId, player) n. if pd_team player = cm_myTeam match then n + pd_goals player else n)
                (cm_roster match) scored
         else scored)"

definition add_participation :: "CapturedMatch \<Rightarrow> SessionTotals \<Rightarrow> SessionTotals" where
  "add_participation match t =
     (if cm_mode match = ''1v1'' then t
      else let goals = team_goals match; cur = cm_stats match
           in t\<lparr>st_teamGoals := st_teamGoals t + max 0 goals,
                st_goalParticipations := st_goalParticipations t +
                  clamp_int (ms_goalsSelf cur + ms_assistsSelf cur) 0 (max 0 goals)\<rparr>)"

definition add_result :: "bool \<Rightarrow> SessionTotals \<Rightarrow> SessionTotals" where
  "add_result iWon t =
     (if iWon then t\<lparr>st_wins := st_wins t + 1\<rparr> else t\<lparr>st_losses := st_losses t + 1\<rparr>)"

definition tracks_gamemode :: "CapturedMatch \<Rightarrow> bool" where
  "tracks_gamemode match =
     (\<not> IsCasual (cm_playlistId match) \<and>
      \<not> (\<not> HasAuthoritativeId (cm_playlistId match) \<and>
          (cm_fallbackCasualContext match \<or> cm_fallbackNonRecordableContext match)) \<and>
      IsTrackedCompetitiveMode (cm_mode match))"

definition add_gamemode ::
    "CapturedMatch \<Rightarrow> bool \<Rightarrow> (string, GamemodeStat) umap \<Rightarrow> (string, GamemodeStat) umap" where
  "add_gamemode match iWon modes =
     (if tracks_gamemode match then
        let g = (case map_of modes (cm_mode match) of Some g \<Rightarrow> g | None \<Rightarrow> GamemodeStat0)
        in um_put (cm_mode match)
             (g\<lparr>gm_wins := gm_wins g + (if iWon then 1 else 0),
                gm_losses := gm_losses g + (if iWon then 0 else 1), gm_total := gm_total g + 1\<rparr>) modes
      else modes)"

definition AddMatchToSessionTotals ::
    "CapturedMatch \<Rightarrow> bool \<Rightarrow> SessionTotals \<times> (string, GamemodeStat) umap \<Rightarrow>
     SessionTotals \<times> (string, GamemodeStat) umap" where
  "AddMatchToSessionTotals match iWon tg =
     (add_participation match (add_records (cm_stats match) (add_counters (cm_stats match)
        (add_result iWon (fst tg)))),
      add_gamemode match iWon (snd tg))"

section \<open>Saving a match\<close>

definition RecordTerminalMatchGuid :: "string \<Rightarrow> MatchState \<Rightarrow> MatchState" where
  "RecordTerminalMatchGuid guid st =
     (if guid \<noteq> [] then st\<lparr>finalizedMatchGuids := insert guid (finalizedMatchGuids st)\<rparr> else st)"

definition MarkDestroyedMatchVoid :: "string \<Rightarrow> MatchState \<Rightarrow> SideEffects \<Rightarrow> MatchState \<times> SideEffects" where
  "MarkDestroyedMatchVoid reason st fx =
     (let st1 = (RecordTerminalMatchGuid (matchGuid st) st)
            \<lparr>lastMatchWasVoid := True, lastMatchVoidReason := reason, matchSummaryScore := score st,
             matchSummaryMyTeam := myTeam st, matchSummaryWinnerTeam := -1,
             matchSummaryOvertimeSeconds := Fin 0, matchFinalized := True\<rparr>
      in (st1, push_discord st1 fx))"

definition BuildMatchSaveSnapshot :: "CapturedMatch \<Rightarrow> int \<Rightarrow> MatchEndDecision \<Rightarrow> MatchSaveSnapshot" where
  "BuildMatchSaveSnapshot match winnerTeam decision =
     MatchSaveSnapshot0
       \<lparr>sv_arenaName := cm_arenaName match, sv_arenaAsset := cm_arenaAsset match,
        sv_matchGuid := cm_matchGuid match, sv_playlistId := cm_playlistId match,
        sv_gamemode := cm_mode match, sv_myTeam := cm_myTeam match, sv_winnerTeam := winnerTeam,
        sv_validResult := ed_shouldPersist decision, sv_voidReason := ed_voidReason decision,
        sv_score := cm_score match,
        sv_legacyPlayerCount :=
          (if HasAuthoritativeId (cm_playlistId match) then 0
           else if 0 < cm_legacyMaxPlayersSeen match then cm_legacyMaxPlayersSeen match
           else fst (cm_legacyMaxTeamPlayersSeen match) + snd (cm_legacyMaxTeamPlayersSeen match)),
        sv_rosterMmrCategory := cm_rosterMmrCategory match, sv_myPrimaryId := cm_myPrimaryId match,
        sv_endedAtUnixMs := cm_endedAtUnixMs match, sv_events := cm_events match,
        sv_analytics := cm_analytics match, sv_localStats := cm_stats match,
        sv_durationSeconds := cm_durationSeconds match,
        sv_overtimeSeconds := cm_overtimeSeconds match\<rparr>"

text \<open>The steps of \<open>FinalizeCapturedMatch\<close>: the summary shown for the current match,\<close>

definition is_current :: "CapturedMatch \<Rightarrow> MatchState \<Rightarrow> bool" where
  "is_current match st =
     (cm_matchGeneration match = activeMatchGeneration st \<and> cm_matchGuid match = matchGuid st)"

definition summarise ::
    "CapturedMatch \<Rightarrow> int \<Rightarrow> MatchEndDecision \<Rightarrow> ReducerContext \<Rightarrow> MatchState \<Rightarrow> SideEffects \<Rightarrow>
     MatchState \<times> SideEffects" where
  "summarise match winnerTeam decision ctx st fx =
     (let nowMs = now_ms ctx;
          endMs = (if lastMatchEndMs st \<le> 0 then nowMs else lastMatchEndMs st);
          summaryStartMs = (if 0 < lastPodiumMs st \<and> (lastMatchStartMs st \<le> 0 \<or> lastMatchStartMs st \<le> lastPodiumMs st)
                            then lastPodiumMs st else nowMs)
      in (st\<lparr>matchFinalized := True, lastMatchWasVoid := \<not> ed_shouldCount decision,
             lastMatchVoidReason := ed_voidReason decision, matchSummaryScore := cm_score match,
             matchSummaryMyTeam := cm_myTeam match, matchSummaryWinnerTeam := winnerTeam,
             matchSummaryOvertimeSeconds := cm_overtimeSeconds match, lastMatchEndMs := endMs,
             inGoalReplay := False, showMatchSummary := True, matchSummaryStartMs := summaryStartMs\<rparr>,
          fx\<lparr>fx_uiUpdate := Some (UiStateUpdate0\<lparr>uu_lastMatchEndMs := Some endMs,
             uu_inGoalReplay := Some False, uu_showMatchSummary := Some True,
             uu_matchSummaryStartMs := Some summaryStartMs\<rparr>)\<rparr>))"

text \<open>the session, or the recap of the session the match belongs to,\<close>

definition book_session :: "CapturedMatch \<Rightarrow> bool \<Rightarrow> MatchState \<Rightarrow> MatchState" where
  "book_session match iWon st =
     (let (totals, modes) = AddMatchToSessionTotals match iWon (sessionTotals st, sessionGamemodes st);
          ended = (if 0 < cm_endedAtUnixMs match then cm_endedAtUnixMs match div 1000 else 0)
      in st\<lparr>sessionTotals := totals, sessionGamemodes := modes,
            sessionStartedAtUnix :=
              (if 0 < ended \<and> (sessionStartedAtUnix st \<le> 0 \<or> ended < sessionStartedAtUnix st)
               then ended else sessionStartedAtUnix st),
            lastMatchEndedAtUnix :=
              (if 0 < ended then max (lastMatchEndedAtUnix st) ended else lastMatchEndedAtUnix st),
            sessionMatchGuids := add_guid (cm_matchGuid match) (sessionMatchGuids st)\<rparr>)"

definition book_recap :: "CapturedMatch \<Rightarrow> bool \<Rightarrow> SessionRecap \<Rightarrow> SessionRecap" where
  "book_recap match iWon recap =
     (let (totals, modes) = AddMatchToSessionTotals match iWon (rcp_totals recap, rcp_gamemodes recap)
      in recap\<lparr>rcp_totals := totals, rcp_gamemodes := modes,
               rcp_matchGuids := add_guid (cm_matchGuid match) (rcp_matchGuids recap),
               rcp_account := (if rcp_account recap = [] \<and> cm_myPrimaryId match \<noteq> []
                               then cm_myPrimaryId match else rcp_account recap)\<rparr>)"

definition book_match :: "CapturedMatch \<Rightarrow> bool \<Rightarrow> MatchState \<Rightarrow> SideEffects \<Rightarrow> MatchState \<times> SideEffects" where
  "book_match match iWon st fx =
     (let recap = lastSessionRecap st in
      if cm_sessionGeneration match = sessionGeneration st then (book_session match iWon st, fx)
      else if rcp_valid recap \<and> rcp_sessionGeneration recap = cm_sessionGeneration match
      then (st\<lparr>lastSessionRecap := book_recap match iWon recap\<rparr>,
            fx\<lparr>fx_updateSession := Some (book_recap match iWon recap)\<rparr>)
      else (st, fx))"

text \<open>the lookups that follow a match,\<close>

definition queue_refreshes ::
    "CapturedMatch \<Rightarrow> bool \<Rightarrow> MatchFinalizeSource \<Rightarrow> bool \<Rightarrow> SideEffects \<Rightarrow> SideEffects \<times> bool" where
  "queue_refreshes match iWon source enqueueMmrRefresh fx =
     (let me = cm_myPrimaryId match;
          fx1 = fx\<lparr>fx_fetchEncounterQueue := fx_fetchEncounterQueue fx @
                     filter (\<lambda>pid. \<not> (pid = me \<or> is_bot_id pid)) (map fst (cm_roster match))\<rparr>
      in if enqueueMmrRefresh then
           let refresh = BuildPostMatchMmrRefresh match iWon;
               hasLocalRefresh = (refresh \<noteq> None);
               fx2 = (case refresh of
                        Some r \<Rightarrow> fx1\<lparr>fx_postMatchMmrRefresh :=
                          Some (r\<lparr>rf_provisionalImmediately := (source = LocalForfeit)\<rparr>)\<rparr>
                      | None \<Rightarrow> fx1);
               team = filter (\<lambda>(pid, p). pd_team p = cm_myTeam match \<and> \<not> (hasLocalRefresh \<and> pid = me))
                        (cm_roster match)
           in (fx2\<lparr>fx_fetchMmrQueue := fx_fetchMmrQueue fx2 @ map (\<lambda>(pid, p). (pid, pd_name p)) team\<rparr>,
               hasLocalRefresh)
         else (fx1, False))"

text \<open>and the save itself.\<close>

definition tracks_mmr :: "Config \<Rightarrow> bool" where
  "tracks_mmr cfg = (cf_enable_mmr_tracking cfg \<or> (cf_custom_api_enabled cfg \<and> cf_account_refresh_token cfg \<noteq> []))"

definition save_match ::
    "CapturedMatch \<Rightarrow> int \<Rightarrow> MatchEndDecision \<Rightarrow> bool \<Rightarrow> ReducerContext \<Rightarrow> SideEffects \<Rightarrow> SideEffects" where
  "save_match match winnerTeam decision hasLocalRefresh ctx fx =
     fx\<lparr>fx_saveMatch := True,
        fx_saveSnapshot := (BuildMatchSaveSnapshot match winnerTeam decision)
          \<lparr>sv_roster := cm_roster match,
           sv_localMmrNeedsReconciliation := (hasLocalRefresh \<and> tracks_mmr (rc_config ctx))\<rparr>\<rparr>"

definition FinalizeCapturedMatch ::
    "CapturedMatch \<Rightarrow> int \<Rightarrow> MatchFinalizeSource \<Rightarrow> bool \<Rightarrow> ReducerContext \<Rightarrow> MatchState \<Rightarrow> SideEffects \<Rightarrow>
     MatchState \<times> SideEffects" where
  "FinalizeCapturedMatch match winnerTeam source enqueueMmrRefresh ctx st fx =
     (if cm_matchGuid match \<noteq> [] \<and> cm_matchGuid match \<in> finalizedMatchGuids st then (st, fx)
      else let st1 = RecordTerminalMatchGuid (cm_matchGuid match) st;
               decision = ClassifyMatchEnd match winnerTeam;
               current = is_current match st1;
               (st2, fx2) = (if current then summarise match winnerTeam decision ctx st1 fx else (st1, fx))
           in if \<not> ed_shouldPersist decision
              then (ResetTiming st2, if current then push_discord st2 fx2 else fx2)
              else let (st3, fx3) = book_match match (ed_iWon decision) st2 fx2;
                       (fx4, hasLocalRefresh) =
                         queue_refreshes match (ed_iWon decision) source enqueueMmrRefresh fx3;
                       fx5 = save_match match winnerTeam decision hasLocalRefresh ctx fx4
                   in (ResetTiming st3, if current then push_discord st3 fx5 else fx5))"

definition FinalizeMatch ::
    "int \<Rightarrow> MatchFinalizeSource \<Rightarrow> ReducerContext \<Rightarrow> MatchState \<Rightarrow> SideEffects \<Rightarrow> MatchState \<times> SideEffects" where
  "FinalizeMatch winnerTeam source ctx st fx =
     (if matchFinalized st \<or> (matchGuid st \<noteq> [] \<and> matchGuid st \<in> finalizedMatchGuids st) then (st, fx)
      else FinalizeCapturedMatch (CaptureMatch ctx st) winnerTeam source True ctx st fx)"

section \<open>The end of a match\<close>

definition forfeit_source :: "bool \<Rightarrow> MatchFinalizeSource \<Rightarrow> MatchFinalizeSource" where
  "forfeit_source localForfeit source = (if localForfeit then LocalForfeit else source)"

text \<open>The end of a match that was left before: its captured state decides.\<close>

definition end_pending ::
    "CapturedMatch \<Rightarrow> MatchEndedEvent \<Rightarrow> ReducerContext \<Rightarrow> MatchState \<Rightarrow> SideEffects \<Rightarrow> MatchState \<times> SideEffects" where
  "end_pending pending ev ctx st fx =
     (let winner = me_winnerTeam ev in
      if \<not> is_team winner then (st, fx)
      else let st1 = st\<lparr>pendingDestroyedMatches := um_erase (me_matchGuid ev) (pendingDestroyedMatches st)\<rparr>;
               match = (if me_hasTeamScores ev then pending\<lparr>cm_score := me_teamScores ev\<rparr> else pending);
               localForfeit = (HasExplicitLocalForfeitSignal (me_forfeitScopes ev) (cm_myTeam match) \<and>
                               winner \<noteq> cm_myTeam match);
               (st2, fx2) = FinalizeCapturedMatch match winner (forfeit_source localForfeit MatchEnded)
                              False ctx st1 fx
           in (st2, fx2\<lparr>fx_resolvedDestroyedMatch :=
                 Some \<lparr>rd_matchGuid = cm_matchGuid match, rd_won = (winner = cm_myTeam match)\<rparr>\<rparr>))"

definition end_current ::
    "MatchEndedEvent \<Rightarrow> ReducerContext \<Rightarrow> MatchState \<Rightarrow> SideEffects \<Rightarrow> MatchState \<times> SideEffects" where
  "end_current ev ctx st fx =
     (let winner = me_winnerTeam ev;
          st1 = st\<lparr>inGoalReplay := False, lastMatchEndMs := now_ms ctx, countdownSeenThisRound := False,
                   roundActive := False\<rparr>;
          st2 = (if me_hasTeamScores ev then st1\<lparr>score := me_teamScores ev\<rparr> else st1);
          localForfeit = (HasExplicitLocalForfeitSignal (me_forfeitScopes ev) (myTeam st2) \<and>
                          winner \<noteq> myTeam st2)
      in FinalizeMatch winner (forfeit_source localForfeit MatchEnded) ctx st2 fx)"

definition HandleMatchEnded ::
    "MatchEndedEvent \<Rightarrow> ReducerContext \<Rightarrow> MatchState \<Rightarrow> SideEffects \<Rightarrow> MatchState \<times> SideEffects" where
  "HandleMatchEnded ev ctx st fx =
     (let guid = me_matchGuid ev;
          hasGuid = (guid \<noteq> []);
          pending = (if hasGuid then map_of (pendingDestroyedMatches st) guid else None)
      in case pending of
           Some match \<Rightarrow> end_pending match ev ctx st fx
         | None \<Rightarrow>
            (let st1 = (if hasGuid then AttachTerminalGuidToCurrent guid st else st) in
             if \<not> hasGuid \<and>
                (\<not> inMatch st1 \<or> matchFinalized st1 \<or> pendingDestroyedMatches st1 \<noteq> [] \<or>
                 matchGuid st1 \<noteq> [] \<or> missingGuidAssociationBlockedByReconnect st1) then (st1, fx)
             else if (hasGuid \<and> guid \<noteq> matchGuid st1) \<or> \<not> inMatch st1 \<or> matchFinalized st1 then (st1, fx)
             else end_current ev ctx st1 fx))"

section \<open>The destruction of a match\<close>

definition pending_refresh ::
    "CapturedMatch \<Rightarrow> PostMatchMmrRefresh \<Rightarrow> PendingDestroyedMatchMmrRefresh" where
  "pending_refresh match refresh =
     \<lparr>pdr_primaryId = rf_primaryId refresh, pdr_name = rf_name refresh,
      pdr_matchGuid = rf_matchGuid refresh, pdr_playlist = rf_playlist refresh,
      pdr_localTeam = cm_myTeam match, pdr_score = cm_score match,
      pdr_previousMmr = rf_previousMmr refresh, pdr_previousMatches = rf_previousMatches refresh,
      pdr_previousMmrIsPlaylistSpecific = rf_previousMmrIsPlaylistSpecific refresh,
      pdr_localPlayerDisappeared = cm_localPlayerDisappeared match,
      pdr_explicitLocalForfeit = cm_explicitLocalForfeit match,
      pdr_destroyedAtUnixMs = cm_endedAtUnixMs match, pdr_validCompetitiveMatch = True\<rparr>"

definition pending_summary :: "CapturedMatch \<Rightarrow> SessionMatchSummary" where
  "pending_summary match =
     (let ours = (if cm_myTeam match = 1 then snd (cm_score match) else fst (cm_score match));
          theirs = (if cm_myTeam match = 1 then fst (cm_score match) else snd (cm_score match))
      in SessionMatchSummary0\<lparr>sms_ranked := True, sms_mode := FormatPendingMatchHistoryMode (cm_mode match),
           sms_matchGuid := cm_matchGuid match, sms_ourScore := ours, sms_theirScore := theirs,
           sms_mmr := 0, sms_win := (theirs < ours), sms_pendingTrackerConfirmation := True,
           sms_endedAtUnix := cm_endedAtUnixMs match div 1000\<rparr>)"

definition provisional_save :: "CapturedMatch \<Rightarrow> ReducerContext \<Rightarrow> SideEffects \<Rightarrow> SideEffects" where
  "provisional_save match ctx fx =
     (let team = cm_myTeam match; sc = cm_score match; gone = cm_localPlayerDisappeared match in
      if is_team team \<and> (gone \<or> fst sc \<noteq> snd sc) then
        (let win = (\<not> gone \<and> team_at sc (1 - team) < team_at sc team);
             winner = (if win then team else 1 - team);
             decision = ClassifyMatchEnd match winner
         in if ed_shouldPersist decision
            then fx\<lparr>fx_provisionalSaveSnapshot := Some ((BuildMatchSaveSnapshot match winner decision)
                     \<lparr>sv_roster := cm_roster match,
                      sv_localMmrNeedsReconciliation := tracks_mmr (rc_config ctx),
                      sv_resultPending := True\<rparr>)\<rparr>
            else fx)
      else fx)"

definition await_confirmation ::
    "CapturedMatch \<Rightarrow> PostMatchMmrRefresh \<Rightarrow> ReducerContext \<Rightarrow> MatchState \<Rightarrow> SideEffects \<Rightarrow> MatchState \<times> SideEffects" where
  "await_confirmation match refresh ctx st fx =
     (st\<lparr>pendingDestroyedMatches := um_emplace (cm_matchGuid match) match (pendingDestroyedMatches st),
         lastMatchWasVoid := True, lastMatchVoidReason := ''destroyed_pending_tracker_confirmation'',
         matchSummaryScore := score st, matchSummaryMyTeam := myTeam st, matchSummaryWinnerTeam := -1\<rparr>,
      (provisional_save match ctx (fx\<lparr>fx_pendingMatchHistory := Some (pending_summary match)\<rparr>))
        \<lparr>fx_pendingDestroyedMatch := Some (pending_refresh match refresh)\<rparr>)"

text \<open>The exit before the end: void, a forfeit, or a match whose result is confirmed later.\<close>

definition early_exit :: "ReducerContext \<Rightarrow> MatchState \<Rightarrow> SideEffects \<Rightarrow> MatchState \<times> SideEffects" where
  "early_exit ctx st fx =
     (case IsValidEarlyCompetitiveExit st of
        Inl reason \<Rightarrow> MarkDestroyedMatchVoid reason st fx
      | Inr mode \<Rightarrow>
         (if explicitLocalForfeit st then FinalizeMatch (1 - myTeam st) LocalForfeit ctx st fx
          else let match = (CaptureMatch ctx st)\<lparr>cm_mode := mode\<rparr>
               in case BuildPostMatchMmrRefresh match False of
                    None \<Rightarrow> MarkDestroyedMatchVoid ''missing_local_tracker_identity'' st fx
                  | Some refresh \<Rightarrow> await_confirmation match refresh ctx st fx))"

definition destroy_outcome ::
    "MatchDestroyedEvent \<Rightarrow> ReducerContext \<Rightarrow> MatchState \<Rightarrow> SideEffects \<Rightarrow> MatchState \<times> SideEffects" where
  "destroy_outcome ev ctx st fx =
     (let winner = (case md_winnerTeam ev of Some w \<Rightarrow> w | None \<Rightarrow> -1) in
      if matchFinalized st then (st, fx)
      else if is_team winner then
        FinalizeMatch winner (forfeit_source (explicitLocalForfeit st \<and> winner \<noteq> myTeam st) MatchDestroyed)
          ctx st fx
      else early_exit ctx st fx)"

definition leave_match :: "MatchState \<Rightarrow> MatchState" where
  "leave_match st =
     st\<lparr>inMatch := False, arenaName := [], arenaAsset := [], myTeam := -1, inReplay := False,
        nonLiveReplayActive := False\<rparr>"

definition HandleMatchDestroyed ::
    "MatchDestroyedEvent \<Rightarrow> ReducerContext \<Rightarrow> MatchState \<Rightarrow> SideEffects \<Rightarrow> MatchState \<times> SideEffects" where
  "HandleMatchDestroyed ev ctx st fx =
     (let guid = md_matchGuid ev;
          hasGuid = (guid \<noteq> []);
          st0 = (if hasGuid then AttachTerminalGuidToCurrent guid st else st)
      in if inMatch st0 \<and>
            ((hasGuid \<and> guid \<noteq> matchGuid st0) \<or>
             (\<not> hasGuid \<and> (pendingDestroyedMatches st0 \<noteq> [] \<or> matchGuid st0 \<noteq> [] \<or>
                            missingGuidAssociationBlockedByReconnect st0))) then (st0, fx)
         else let st1 = st0\<lparr>roundActive := False\<rparr>;
                  st2 = (if HasExplicitLocalForfeitSignal (md_forfeitScopes ev) (myTeam st1)
                         then st1\<lparr>explicitLocalForfeit := True\<rparr> else st1);
                  st3 = (if md_hasTeamScores ev then st2\<lparr>score := md_teamScores ev\<rparr> else st2)
              in if \<not> inMatch st3 then (st3, fx)
                 else let st4 = ResetTiming (st3\<lparr>inGoalReplay := False, firstCountdownOfMatchMs := 0,
                            lastCountdownMs := 0, lastGoalMs := 0, lastMatchStartMs := 0,
                            uiMatchGuid := [], countdownSeenThisRound := False\<rparr>);
                          (st5, fx5) = destroy_outcome ev ctx st4 fx;
                          st6 = leave_match st5
                      in (st6, push_discord st6 fx5))"

section \<open>The confirmation of a match that was left\<close>

definition ConfirmPendingDestroyedMatch ::
    "string \<Rightarrow> bool \<Rightarrow> ReducerContext \<Rightarrow> MatchState \<Rightarrow> MatchState \<times> SideEffects" where
  "ConfirmPendingDestroyedMatch guid won ctx st =
     (case map_of (pendingDestroyedMatches st) guid of
        None \<Rightarrow> (st, SideEffects0)
      | Some match \<Rightarrow>
         (if guid \<in> finalizedMatchGuids st then (st, SideEffects0)
          else let st1 = st\<lparr>pendingDestroyedMatches := um_erase guid (pendingDestroyedMatches st)\<rparr>;
                   winner = (if is_team (cm_myTeam match)
                             then (if won then cm_myTeam match else 1 - cm_myTeam match) else -1);
                   (st2, fx2) = FinalizeCapturedMatch match winner TrackerConfirmedDestroyed False ctx st1
                                  SideEffects0
               in PublishUiTimestamps st2 fx2))"

end
