(* ===== verification/Reducer_Update.thy ===== *)
theory Reducer_Update
  imports Reducer_Detail
begin

text \<open>
  \<open>HandleUpdateState\<close> (\<open>TelemetryReducerUpdateState.cpp\<close>), the handler of the periodic state
  update, cut into the stages of the source in their order: clock, arena, playlist, lifecycle
  signals, team counts, players, identity of the local player, followed categories, pruning of
  the roster and presence of the local player. An event of a goal replay ends after the
  lifecycle signals.
\<close>

section \<open>Lifecycle signals\<close>

definition exclude :: "string \<Rightarrow> MatchState \<Rightarrow> MatchState" where
  "exclude reason st = st\<lparr>excludedEarlyExitContext := True, earlyExitExclusionReason := reason\<rparr>"

definition playlist_signals :: "MatchState \<Rightarrow> MatchState" where
  "playlist_signals st =
     (let st1 = st\<lparr>excludedEarlyExitContext := False, earlyExitExclusionReason := []\<rparr>;
          st2 = (if \<not> IsKnown (playlistId st) then exclude ''unknown_playlist_id'' st1
                 else case NonRecordableReason (playlistId st) of
                        Some reason \<Rightarrow> exclude reason st1
                      | None \<Rightarrow> if IsCasual (playlistId st) then exclude ''casual_playlist'' st1 else st1)
      in st2\<lparr>fallbackCasualContext := False, fallbackNonRecordableContext := False,
             fallbackNonRecordableReason := []\<rparr>)"

definition fallback_signals :: "UpdateStateEvent \<Rightarrow> MatchState \<Rightarrow> MatchState" where
  "fallback_signals ev st =
     (let st1 = (if us_explicitNonRecordable ev then
                   st\<lparr>fallbackNonRecordableContext := True,
                      fallbackNonRecordableReason :=
                        (if us_fallbackNonRecordableReason ev = [] then ''explicit_non_competitive_context''
                         else us_fallbackNonRecordableReason ev)\<rparr>
                 else if us_explicitCasual ev then st\<lparr>fallbackCasualContext := True\<rparr>
                 else st)
      in if fallbackNonRecordableContext st1 then exclude (fallbackNonRecordableReason st1) st1
         else if fallbackCasualContext st1 then exclude ''casual_context'' st1
         else st1)"

definition UpdateLifecycleSignals :: "UpdateStateEvent \<Rightarrow> MatchState \<Rightarrow> MatchState" where
  "UpdateLifecycleSignals ev st =
     (let st1 = (if HasExplicitLocalForfeitSignal (us_forfeitScopes ev) (myTeam st)
                 then st\<lparr>explicitLocalForfeit := True\<rparr> else st)
      in if HasAuthoritativeId (playlistId st1) then playlist_signals st1
         else fallback_signals ev st1)"

section \<open>Clock\<close>

definition stage_begin :: "UpdateStateEvent \<Rightarrow> int \<Rightarrow> MatchState \<Rightarrow> SideEffects \<Rightarrow> MatchState \<times> SideEffects" where
  "stage_begin ev nowMs st fx =
     (let (st1, fx1) = (if \<not> nonLiveReplayActive st
                        then (let (s, f, accepted) = AcceptsUiMatchEvent (us_matchGuid ev) nowMs st fx in (s, f))
                        else (st, fx))
      in (st1\<lparr>inReplay := us_bReplay ev\<rparr>, fx1))"

definition stage_overtime :: "UpdateStateEvent \<Rightarrow> int \<Rightarrow> MatchState \<Rightarrow> MatchState" where
  "stage_overtime ev nowMs st =
     (if us_bOvertime ev
      then st\<lparr>bOvertime := True,
              overtimeStartedAtMs := (case overtimeStartedAtMs st of Some t \<Rightarrow> Some t | None \<Rightarrow> Some nowMs)\<rparr>
      else st)"

definition stage_clock :: "UpdateStateEvent \<Rightarrow> int \<Rightarrow> MatchState \<Rightarrow> MatchState" where
  "stage_clock ev nowMs st =
     (let st1 = (case us_timeSeconds ev of
                   None \<Rightarrow> st
                 | Some clock \<Rightarrow>
                    (let seen = (fp_finite clock \<and> Fin 0 \<le> clock \<and> clock \<le> Fin 3600);
                         s = st\<lparr>timeSeconds := clock, hasObservedMatchClock := seen,
                                lastMatchClockSampleAtMs :=
                                  (if seen then nowMs else lastMatchClockSampleAtMs st)\<rparr>
                     in if \<not> bOvertime s then
                          s\<lparr>regulationClockStart :=
                              Some (fmax (case regulationClockStart s of Some r \<Rightarrow> r | None \<Rightarrow> clock) clock),
                            regulationClockLatest := clock\<rparr>
                        else s))
      in if bOvertime st1 then st1\<lparr>regulationClockLatest := Fin 0\<rparr> else st1)"

section \<open>Arena\<close>

text \<open>A fresh lifecycle: a new generation without journal, analytics or match clocks.\<close>

definition fresh_lifecycle :: "MatchState \<Rightarrow> MatchState" where
  "fresh_lifecycle st =
     st\<lparr>matchEvents := [], analytics := Tracker0, eventNativeKeys := {}, lastEventSignature := [],
        nextMatchGeneration := nextMatchGeneration st + 1,
        activeMatchGeneration := nextMatchGeneration st + 1,
        missingGuidAssociationBlockedByReconnect := False\<rparr>"

definition arena_new_lifecycle :: "int \<Rightarrow> MatchState \<Rightarrow> MatchState" where
  "arena_new_lifecycle nowMs st =
     ResetTiming ((reset_timestamps nowMs (fresh_lifecycle st))
       \<lparr>uiMatchGuid := [], countdownSeenThisRound := False, matchGuid := []\<rparr>)"

definition arena_same_lifecycle :: "UpdateStateEvent \<Rightarrow> int \<Rightarrow> MatchState \<Rightarrow> MatchState \<Rightarrow> MatchState" where
  "arena_same_lifecycle ev nowMs old st =
     st\<lparr>lastMatchStartMs := (if 0 < lastMatchStartMs old then lastMatchStartMs old else nowMs),
        firstCountdownOfMatchMs := firstCountdownOfMatchMs old, lastCountdownMs := lastCountdownMs old,
        lastGoalMs := lastGoalMs old, lastMatchEndMs := lastMatchEndMs old,
        lastPodiumMs := lastPodiumMs old, inGoalReplay := inGoalReplay old,
        preMatchMmrByGuid :=
          (case map_of (preMatchMmrByGuid old) (matchGuid old) of
             Some s \<Rightarrow> um_emplace (matchGuid old) s (preMatchMmrByGuid st) | None \<Rightarrow> preMatchMmrByGuid st),
        playlistId :=
          (if us_playlistId ev = None \<and> HasAuthoritativeId (playlistId old)
           then playlistId old else playlistId st)\<rparr>"

definition arena_change ::
    "UpdateStateEvent \<Rightarrow> int \<Rightarrow> string \<Rightarrow> string \<Rightarrow> bool \<Rightarrow> MatchState \<Rightarrow> SideEffects \<Rightarrow> MatchState \<times> SideEffects" where
  "arena_change ev nowMs arena asset previousIsNonRecordable st fx =
     (let startsNew = (\<not> inMatch st \<or> previousIsNonRecordable);
          st1 = ResetMatch arena asset st;
          st2 = (if startsNew then arena_new_lifecycle nowMs st1 else arena_same_lifecycle ev nowMs st st1);
          fx1 = (if startsNew then fx\<lparr>fx_uiUpdate := Some (ui_reset nowMs)\<rparr> else fx);
          st3 = st2\<lparr>roundActive := False, autoSwitchedPlaylistCategory := Best,
                    followedGraphPlaylistCategory := Best, lastPlayerBoost := [], lastPlayerSeenMs := []\<rparr>
      in (st3, push_discord st3 fx1))"

definition stage_arena :: "UpdateStateEvent \<Rightarrow> int \<Rightarrow> MatchState \<Rightarrow> SideEffects \<Rightarrow> MatchState \<times> SideEffects" where
  "stage_arena ev nowMs st fx =
     (let asset = (if us_arenaAsset ev = [] then us_arena ev else us_arenaAsset ev);
          arena = ArenaDisplayName asset;
          previousIsNonRecordable = (fallbackNonRecordableContext st \<or> IsNonRecordable (playlistId st))
      in if us_arena ev = [] \<or> arena = [] \<or> (arena = arenaName st \<and> asset = arenaAsset st) then (st, fx)
         else if inMatch st \<and> roundEverStarted st \<and> \<not> previousIsNonRecordable then
           (let st1 = st\<lparr>arenaName := arena, arenaAsset := asset\<rparr> in (st1, push_discord st1 fx))
         else arena_change ev nowMs arena asset previousIsNonRecordable st fx)"

section \<open>Playlist\<close>

text \<open>The local player's ratings, carried over when a new lifecycle starts.\<close>

definition initial_mmr :: "MatchState \<Rightarrow> LocalPreMatchMmrSnapshot option" where
  "initial_mmr st =
     (if myPrimaryId st = [] then None
      else case map_of (roster st) (myPrimaryId st) of
             Some p \<Rightarrow> (if pd_playlists p \<noteq> []
                        then Some \<lparr>pm_playlistMmrs = pd_playlists p, pm_playlistMatches = pd_playlistMatches p\<rparr>
                        else None)
           | None \<Rightarrow> None)"

definition store_initial_mmr :: "string \<Rightarrow> LocalPreMatchMmrSnapshot option \<Rightarrow> MatchState \<Rightarrow> MatchState" where
  "store_initial_mmr guid snapshot st =
     (case snapshot of
        Some s \<Rightarrow> st\<lparr>preMatchMmrByGuid := um_emplace guid s (preMatchMmrByGuid st)\<rparr>
      | None \<Rightarrow> st)"

definition playlist_transition :: "int \<Rightarrow> MatchState \<Rightarrow> MatchState" where
  "playlist_transition nowMs st =
     (let guid = matchGuid st;
          st1 = fresh_lifecycle (ResetMatch (arenaName st) (arenaAsset st) st);
          st2 = store_initial_mmr guid (initial_mmr st)
                  (st1\<lparr>lastMatchStartMs := nowMs, matchGuid := guid, uiMatchGuid := guid\<rparr>)
      in (ResetTiming st2)\<lparr>roundActive := False, countdownSeenThisRound := False,
            autoSwitchedPlaylistCategory := Best, followedGraphPlaylistCategory := Best,
            lastPlayerBoost := [], lastPlayerSeenMs := []\<rparr>)"

definition stage_playlist :: "UpdateStateEvent \<Rightarrow> int \<Rightarrow> MatchState \<Rightarrow> MatchState" where
  "stage_playlist ev nowMs st =
     (case us_playlistId ev of
        None \<Rightarrow> st
      | Some new \<Rightarrow>
         (let cur = playlistId st;
              latched = (inMatch st \<and> roundEverStarted st \<and> \<not> matchFinalized st \<and> IsKnown cur \<and>
                         \<not> IsNonRecordable cur \<and> new \<noteq> cur);
              transition = (inMatch st \<and> (fallbackNonRecordableContext st \<or> IsNonRecordable cur) \<and> new \<noteq> cur)
          in if latched then st
             else (if transition then playlist_transition nowMs st else st)\<lparr>playlistId := new\<rparr>))"

section \<open>Players\<close>

definition team_counts :: "UpdatePlayerState list \<Rightarrow> int \<times> int" where
  "team_counts ps =
     (int (length (filter (\<lambda>p. up_team p = 0) ps)), int (length (filter (\<lambda>p. up_team p = 1) ps)))"

definition stage_team_counts :: "UpdateStateEvent \<Rightarrow> MatchState \<Rightarrow> MatchState" where
  "stage_team_counts ev st =
     (let c = team_counts (us_players ev) in
      if \<not> HasAuthoritativeId (playlistId st) then
        st\<lparr>legacyCurrentTeamPlayersSeen := c,
           legacyMaxTeamPlayersSeen :=
             (max (fst (legacyMaxTeamPlayersSeen st)) (fst c), max (snd (legacyMaxTeamPlayersSeen st)) (snd c)),
           legacyMaxPlayersSeen := max (legacyMaxPlayersSeen st) (fst c + snd c)\<rparr>
      else st)"

definition boost_change :: "string \<Rightarrow> int \<Rightarrow> MatchState \<Rightarrow> MatchState" where
  "boost_change pid cur st =
     (case map_of (lastPlayerBoost st) pid of
        None \<Rightarrow> st
      | Some old \<Rightarrow>
         (let respawning = (pid \<in> boostRespawnPending st); m = currentMatch st in
          if respawning \<and> 0 < cur \<and> cur \<noteq> old
          then st\<lparr>boostRespawnPending := boostRespawnPending st - {pid}\<rparr>
          else if \<not> respawning \<and> old < cur
          then st\<lparr>currentMatch := m\<lparr>ms_boostPickedUp := ms_boostPickedUp m + (cur - old),
                 ms_boostPickedUpSelf := ms_boostPickedUpSelf m +
                   (if pid = myPrimaryId st then cur - old else 0)\<rparr>\<rparr>
          else st))"

definition stage_boost :: "UpdatePlayerState \<Rightarrow> MatchState \<Rightarrow> MatchState" where
  "stage_boost p st =
     (case up_boost p of
        None \<Rightarrow> st
      | Some cur \<Rightarrow>
         (let st1 = (if roundActive st then boost_change (up_primaryId p) cur st else st)
          in st1\<lparr>lastPlayerBoost := um_put (up_primaryId p) cur (lastPlayerBoost st1)\<rparr>))"

definition set_opt :: "'a option \<Rightarrow> 'a \<Rightarrow> 'a" where
  "set_opt new old = (case new of Some x \<Rightarrow> x | None \<Rightarrow> old)"

definition scoreboard_of :: "UpdatePlayerState \<Rightarrow> PlayerData \<Rightarrow> PlayerData" where
  "scoreboard_of p d =
     d\<lparr>pd_score := set_opt (up_score p) (pd_score d), pd_goals := set_opt (up_goals p) (pd_goals d),
       pd_shots := set_opt (up_shots p) (pd_shots d), pd_assists := set_opt (up_assists p) (pd_assists d),
       pd_saves := set_opt (up_saves p) (pd_saves d), pd_demos := set_opt (up_demos p) (pd_demos d),
       pd_touches := (case up_touches p of Some n \<Rightarrow> Some n | None \<Rightarrow> pd_touches d),
       pd_carTouches := (case up_carTouches p of Some n \<Rightarrow> Some n | None \<Rightarrow> pd_carTouches d)\<rparr>"

definition stage_roster :: "UpdatePlayerState \<Rightarrow> MatchState \<Rightarrow> SideEffects \<Rightarrow> MatchState \<times> SideEffects" where
  "stage_roster p st fx =
     (let pid = up_primaryId p; bot = is_bot_id pid;
          (d, fx1) = (case map_of (roster st) pid of
              None \<Rightarrow> (PlayerData0\<lparr>pd_primaryId := pid, pd_name := up_name p, pd_team := up_team p,
                                  pd_fetched := bot, pd_enqueued := True\<rparr>,
                       fx\<lparr>fx_fetchMmrQueue := fx_fetchMmrQueue fx @ [(pid, up_name p)],
                          fx_fetchEncounterQueue := fx_fetchEncounterQueue fx @ (if bot then [] else [pid])\<rparr>)
            | Some d \<Rightarrow> (d\<lparr>pd_name := up_name p, pd_team := up_team p\<rparr>, fx));
          d1 = scoreboard_of p d
      in (st\<lparr>roster := um_put pid d1 (roster st), matchRoster := um_put pid d1 (matchRoster st)\<rparr>, fx1))"

definition stage_player :: "UpdatePlayerState \<Rightarrow> MatchState \<times> SideEffects \<Rightarrow> MatchState \<times> SideEffects" where
  "stage_player p sf =
     (if up_primaryId p = [] then sf
      else let st1 = stage_boost p (fst sf)
           in if is_team (up_team p) then stage_roster p st1 (snd sf) else (st1, snd sf))"

section \<open>Identity of the local player\<close>

definition note_saved_id :: "MatchState \<Rightarrow> MatchState" where
  "note_saved_id st =
     (if myPrimaryId st \<noteq> lastKnownMyId st
      then st\<lparr>lastKnownMyId := myPrimaryId st, identityCandidates := [], missedMyIdCount := 0\<rparr> else st)"

definition request_account_refresh :: "ReducerContext \<Rightarrow> string \<Rightarrow> SideEffects \<Rightarrow> SideEffects" where
  "request_account_refresh ctx primaryId fx =
     fx\<lparr>fx_fetchLifetimeHistory := True, fx_lifetimePrimaryId := primaryId,
        fx_lifetimeCategory := MmrCategoryToString (rc_graphMmrCategory ctx),
        fx_refreshDbStats := True, fx_refreshStatsPrimaryId := primaryId\<rparr>"

definition adopt_identity ::
    "ReducerContext \<Rightarrow> UpdatePlayerState list \<Rightarrow> string \<Rightarrow> MatchState \<Rightarrow> SideEffects \<Rightarrow> MatchState \<times> SideEffects" where
  "adopt_identity ctx ps pid st fx =
     (let st1 = st\<lparr>myPrimaryId := pid,
            myTeam := (case find (\<lambda>p. up_primaryId p = pid) ps of
                Some p \<Rightarrow> (if up_team p \<noteq> -1 then up_team p else myTeam st) | None \<Rightarrow> myTeam st),
            identityCandidates := []\<rparr>;
          fx1 = fx\<lparr>fx_selectMmrOwner := Some pid, fx_persistLocalPrimaryId := Some pid\<rparr>;
          (st2, fx2) = (case map_of (roster st1) pid of
              Some self \<Rightarrow>
                (if \<not> pd_enqueued self \<and> pd_mmr self = 0
                 then (st1\<lparr>roster := um_put pid (self\<lparr>pd_enqueued := True\<rparr>) (roster st1)\<rparr>,
                       fx1\<lparr>fx_fetchMmrQueue := fx_fetchMmrQueue fx1 @ [(pid, pd_name self)]\<rparr>)
                 else (st1, fx1))
            | None \<Rightarrow> (st1, fx1))
      in RequeueEncounterRecords st2 (request_account_refresh ctx pid fx2))"

definition is_pc_id :: "string \<Rightarrow> bool" where
  "is_pc_id pid =
     (CHR ''|'' \<in> set pid \<and>
      map to_lower (takeWhile (\<lambda>c. c \<noteq> CHR ''|'') pid) \<in> {''steam'', ''epic'', ''epicgames''})"

definition insert_end :: "'a \<Rightarrow> 'a list \<Rightarrow> 'a list" where
  "insert_end x xs = (if x \<in> set xs then xs else xs @ [x])"

text \<open>One player of the scan: the state, the effects, whether the saved player was seen, candidates.\<close>

definition scan_player ::
    "ReducerContext \<Rightarrow> string \<Rightarrow> string \<Rightarrow> UpdatePlayerState \<Rightarrow>
     MatchState \<times> SideEffects \<times> bool \<times> string list \<Rightarrow> MatchState \<times> SideEffects \<times> bool \<times> string list" where
  "scan_player ctx camera saved p acc =
     (let (st, fx, seen, cands) = acc; pid = up_primaryId p in
      if pid = [] \<or> up_team p = -1 then acc
      else let cands1 = (if is_pc_id pid \<and> camera \<noteq> [] \<and> pid = camera then insert_end pid cands else cands)
           in if saved \<noteq> [] \<and> pid = saved then
                (if myTeam st = -1
                 then (st\<lparr>myTeam := up_team p\<rparr>, request_account_refresh ctx saved fx, True, cands1)
                 else (st, fx, True, cands1))
              else (st, fx, seen, cands1))"

definition identity_switch ::
    "ReducerContext \<Rightarrow> UpdatePlayerState list \<Rightarrow> string \<Rightarrow> bool \<Rightarrow> string list \<Rightarrow>
     MatchState \<Rightarrow> SideEffects \<Rightarrow> MatchState \<times> SideEffects" where
  "identity_switch ctx ps saved seen cands st fx =
     (if saved \<noteq> [] \<and> \<not> seen \<and> cands \<noteq> [] then
        (let newId = fold min (tl cands) (hd cands) in
         if newId \<noteq> saved
         then (let (st1, fx1) = adopt_identity ctx ps newId st fx in (st1\<lparr>missedMyIdCount := 0\<rparr>, fx1))
         else (st, fx))
      else (st, fx))"

definition identity_missed ::
    "string \<Rightarrow> bool \<Rightarrow> MatchState \<Rightarrow> SideEffects \<Rightarrow> MatchState \<times> SideEffects \<times> string" where
  "identity_missed saved seen st fx =
     (if saved = [] then (st, fx, saved)
      else if seen then (st\<lparr>missedMyIdCount := 0\<rparr>, fx, saved)
      else let missed = missedMyIdCount st + 1
           in if 2 \<le> missed
              then (st\<lparr>myPrimaryId := [], myTeam := -1, missedMyIdCount := 0, identityCandidates := []\<rparr>,
                    fx\<lparr>fx_persistLocalPrimaryId := Some []\<rparr>, [])
              else (st\<lparr>missedMyIdCount := missed\<rparr>, fx, saved))"

definition identity_eliminate ::
    "ReducerContext \<Rightarrow> UpdatePlayerState list \<Rightarrow> string \<Rightarrow> string list \<Rightarrow>
     MatchState \<Rightarrow> SideEffects \<Rightarrow> MatchState \<times> SideEffects" where
  "identity_eliminate ctx ps saved cands st fx =
     (if saved = [] \<and> cands \<noteq> [] then
        (let ids = (if identityCandidates st = [] then cands
                    else filter (\<lambda>c. c \<in> set cands) (identityCandidates st));
             st1 = st\<lparr>identityCandidates := ids\<rparr>
         in if length ids = 1 then adopt_identity ctx ps (hd ids) st1 fx
            else if ids = [] then (st1\<lparr>identityCandidates := cands\<rparr>, fx)
            else (st1, fx))
      else (st, fx))"

definition identity_confirm :: "string list \<Rightarrow> MatchState \<Rightarrow> SideEffects \<Rightarrow> MatchState \<times> SideEffects" where
  "identity_confirm cands st fx =
     (let confirmed = myPrimaryId st in
      if confirmed \<noteq> [] \<and> confirmed \<in> set cands then
        (let name = (case map_of (roster st) confirmed of Some p \<Rightarrow> pd_name p | None \<Rightarrow> []);
             key = confirmed @ [CHR 0x1F] @ name
         in if key \<noteq> lastConfirmedLocalAccount st
            then (st\<lparr>lastConfirmedLocalAccount := key\<rparr>,
                  fx\<lparr>fx_confirmedLocalAccount := Some \<lparr>cla_primaryId = confirmed, cla_name = name\<rparr>\<rparr>)
            else (st, fx))
      else (st, fx))"

definition stage_identity ::
    "UpdateStateEvent \<Rightarrow> ReducerContext \<Rightarrow> MatchState \<Rightarrow> SideEffects \<Rightarrow> MatchState \<times> SideEffects" where
  "stage_identity ev ctx st fx =
     (let saved = myPrimaryId st; ps = us_players ev;
          (st1, fx1, seen, cands) =
            fold (scan_player ctx (us_cameraTargetPlayerId ev) saved) ps (note_saved_id st, fx, False, [])
      in if cands = [] then (st1, fx1)
         else let (st2, fx2) = identity_switch ctx ps saved seen cands st1 fx1;
                  (st3, fx3, saved') = identity_missed saved seen st2 fx2;
                  (st4, fx4) = identity_eliminate ctx ps saved' cands st3 fx3
              in identity_confirm cands st4 fx4)"

section \<open>Followed categories\<close>

definition upd_ui :: "(UiStateUpdate \<Rightarrow> UiStateUpdate) \<Rightarrow> SideEffects \<Rightarrow> SideEffects" where
  "upd_ui f fx = fx\<lparr>fx_uiUpdate := Some (f (case fx_uiUpdate fx of Some u \<Rightarrow> u | None \<Rightarrow> UiStateUpdate0))\<rparr>"

definition hidden_extra :: "Config \<Rightarrow> MmrCategory \<Rightarrow> bool" where
  "hidden_extra cfg c = (IsExtraMmrCategory c \<and> \<not> cf_show_extra_playlists cfg)"

definition follow_roster :: "ReducerContext \<Rightarrow> MmrCategory \<Rightarrow> MatchState \<Rightarrow> SideEffects \<Rightarrow> MatchState \<times> SideEffects" where
  "follow_roster ctx c st fx =
     (let auto = autoSwitchedPlaylistCategory st;
          overridden = (auto \<noteq> Best \<and> rc_rosterMmrCategory ctx \<noteq> auto)
      in if cf_auto_switch_mmr_category (rc_config ctx) \<and> \<not> hidden_extra (rc_config ctx) c \<and>
            \<not> overridden \<and> IsSupportedMmrCategory c \<and> c \<noteq> auto
         then (st\<lparr>autoSwitchedPlaylistCategory := c\<rparr>, upd_ui (\<lambda>u. u\<lparr>uu_rosterMmrCategory := Some c\<rparr>) fx)
         else (st, fx))"

definition follow_graph :: "ReducerContext \<Rightarrow> MmrCategory \<Rightarrow> MatchState \<Rightarrow> SideEffects \<Rightarrow> MatchState \<times> SideEffects" where
  "follow_graph ctx c st fx =
     (if cf_graph_follow_current_playlist (rc_config ctx) then
        (if \<not> nonLiveReplayActive st \<and> \<not> hidden_extra (rc_config ctx) c \<and> IsSupportedMmrCategory c \<and>
            c \<noteq> followedGraphPlaylistCategory st
         then (st\<lparr>followedGraphPlaylistCategory := c\<rparr>, upd_ui (\<lambda>u. u\<lparr>uu_graphMmrCategory := Some c\<rparr>) fx)
         else (st, fx))
      else let f = StringToMmrCategory (cf_graph_mmr_category (rc_config ctx));
               f1 = (if f = Best \<or> hidden_extra (rc_config ctx) f then TwoVTwo else f)
           in (st\<lparr>followedGraphPlaylistCategory := Best\<rparr>, upd_ui (\<lambda>u. u\<lparr>uu_graphMmrCategory := Some f1\<rparr>) fx))"

definition follow_rank :: "ReducerContext \<Rightarrow> MmrCategory \<Rightarrow> MatchState \<Rightarrow> SideEffects \<Rightarrow> SideEffects" where
  "follow_rank ctx c st fx =
     (let cfg = rc_config ctx;
          shown =
            (if cf_rank_progress_follow_current_playlist cfg then
               (if \<not> nonLiveReplayActive st \<and> \<not> hidden_extra cfg c \<and> IsSupportedMmrCategory c then c
                else if hidden_extra cfg (rc_rankProgressMmrCategory ctx) then TwoVTwo
                else rc_rankProgressMmrCategory ctx)
             else let f = StringToMmrCategory (cf_rank_progress_mmr_category cfg)
                  in if hidden_extra cfg f then TwoVTwo else f)
      in if shown \<noteq> rc_rankProgressMmrCategory ctx
         then upd_ui (\<lambda>u. u\<lparr>uu_rankProgressMmrCategory := Some shown\<rparr>) fx else fx)"

definition stage_categories :: "ReducerContext \<Rightarrow> MatchState \<Rightarrow> SideEffects \<Rightarrow> MatchState \<times> SideEffects" where
  "stage_categories ctx st fx =
     (let c = CategoryFromMatchContext st;
          (st1, fx1) = follow_roster ctx c st fx;
          (st2, fx2) = follow_graph ctx c st1 fx1
      in (st2, follow_rank ctx c st2 fx2))"

section \<open>Roster upkeep and the local player\<close>

definition stage_last_seen :: "UpdateStateEvent \<Rightarrow> int \<Rightarrow> MatchState \<Rightarrow> MatchState" where
  "stage_last_seen ev nowMs st =
     st\<lparr>lastPlayerSeenMs := fold (\<lambda>p m. if up_primaryId p \<noteq> [] then um_put (up_primaryId p) nowMs m else m)
          (us_players ev) (lastPlayerSeenMs st)\<rparr>"

definition prune_entry :: "int \<Rightarrow> string \<times> PlayerData \<Rightarrow> MatchState \<Rightarrow> MatchState" where
  "prune_entry nowMs e st =
     (let (pid, player) = e in
      case map_of (lastPlayerSeenMs st) pid of
        None \<Rightarrow> st\<lparr>lastPlayerSeenMs := um_put pid nowMs (lastPlayerSeenMs st)\<rparr>
      | Some t \<Rightarrow>
         (if 5000 \<le> nowMs - t then
            (if pid \<noteq> myPrimaryId st then
               st\<lparr>matchRoster := um_put pid player (matchRoster st),
                  lastPlayerBoost := um_erase pid (lastPlayerBoost st),
                  boostRespawnPending := boostRespawnPending st - {pid},
                  lastPlayerSeenMs := um_erase pid (lastPlayerSeenMs st),
                  roster := um_erase pid (roster st)\<rparr>
             else st\<lparr>lastPlayerSeenMs := um_put pid nowMs (lastPlayerSeenMs st)\<rparr>)
          else st))"

definition stage_prune :: "int \<Rightarrow> MatchState \<Rightarrow> MatchState" where
  "stage_prune nowMs st = fold (prune_entry nowMs) (roster st) st"

definition stage_lobby_full :: "ReducerContext \<Rightarrow> MatchState \<Rightarrow> MatchState" where
  "stage_lobby_full ctx st =
     (let expected = LegacyExpectedTeamSizeForMode (InferModeFromMatchState st (rc_rosterMmrCategory ctx)) in
      if \<not> HasAuthoritativeId (playlistId st) \<and> 0 < expected \<and>
         expected \<le> fst (legacyCurrentTeamPlayersSeen st) \<and> expected \<le> snd (legacyCurrentTeamPlayersSeen st)
      then st\<lparr>legacyLobbyWasEverFull := True\<rparr> else st)"

definition stage_self_active :: "UpdateStateEvent \<Rightarrow> MatchState \<Rightarrow> MatchState" where
  "stage_self_active ev st =
     (if us_bSpectator ev \<or> myPrimaryId st = [] then st
      else case map_of (roster st) (myPrimaryId st) of
             Some self \<Rightarrow> (if is_team (pd_team self)
                           then st\<lparr>localPlayerWasActive := True, myTeam := pd_team self\<rparr> else st)
           | None \<Rightarrow> st)"

definition self_stats :: "UpdatePlayerState \<Rightarrow> MatchStats \<Rightarrow> MatchStats" where
  "self_stats p m =
     m\<lparr>ms_goalsSelf := set_opt (up_goals p) (ms_goalsSelf m), ms_shotsSelf := set_opt (up_shots p) (ms_shotsSelf m),
       ms_assistsSelf := set_opt (up_assists p) (ms_assistsSelf m),
       ms_savesSelf := set_opt (up_saves p) (ms_savesSelf m), ms_demosSelf := set_opt (up_demos p) (ms_demosSelf m)\<rparr>"

definition stage_presence :: "UpdateStateEvent \<Rightarrow> MatchState \<Rightarrow> MatchState" where
  "stage_presence ev st =
     (if myPrimaryId st = [] then st
      else case find (\<lambda>p. up_primaryId p = myPrimaryId st) (us_players ev) of
             Some p \<Rightarrow> st\<lparr>currentMatch := self_stats p (currentMatch st),
                          localPlayerPresenceObserved := True, localPlayerPresentInLatestUpdate := True\<rparr>
           | None \<Rightarrow> st\<lparr>localPlayerPresenceObserved := True, localPlayerPresentInLatestUpdate := False\<rparr>)"

section \<open>The handler\<close>

text \<open>The stages every event goes through, and those of an event of live play.\<close>

definition stage_common ::
    "UpdateStateEvent \<Rightarrow> ReducerContext \<Rightarrow> MatchState \<Rightarrow> SideEffects \<Rightarrow> MatchState \<times> SideEffects" where
  "stage_common ev ctx st fx =
     (let nowMs = now_ms ctx;
          (st1, fx1) = stage_begin ev nowMs st fx;
          st2 = stage_clock ev nowMs (stage_overtime ev nowMs st1);
          (st3, fx3) = stage_arena ev nowMs st2 fx1;
          st4 = stage_playlist ev nowMs st3;
          st5 = (if us_hasTeamScores ev then st4\<lparr>score := us_teamScores ev\<rparr> else st4);
          st6 = UpdateLifecycleSignals ev st5
      in (if us_bSpectator ev \<and> \<not> us_bReplay ev then st6\<lparr>localPlayerWasSpectator := True\<rparr> else st6, fx3))"

definition stage_live ::
    "UpdateStateEvent \<Rightarrow> ReducerContext \<Rightarrow> MatchState \<Rightarrow> SideEffects \<Rightarrow> MatchState \<times> SideEffects" where
  "stage_live ev ctx st fx =
     (let nowMs = now_ms ctx;
          (st1, fx1) = fold stage_player (us_players ev) (stage_team_counts ev st, fx);
          (st2, fx2) = (if us_bSpectator ev then (st1, fx1)
                        else let (s, f) = stage_identity ev ctx st1 fx1 in stage_categories ctx s f);
          st3 = stage_prune nowMs (stage_last_seen ev nowMs st2);
          st4 = stage_self_active ev (stage_lobby_full ctx st3)
      in (CapturePreMatchMmr (stage_presence ev st4), fx2))"

definition HandleUpdateState ::
    "UpdateStateEvent \<Rightarrow> ReducerContext \<Rightarrow> MatchState \<Rightarrow> SideEffects \<Rightarrow> MatchState \<times> SideEffects" where
  "HandleUpdateState ev ctx st fx =
     (let (st1, fx1) = stage_common ev ctx st fx
      in if us_bReplay ev then (st1, fx1) else stage_live ev ctx st1 fx1)"

end
