(* ===== verification/Reducer.thy ===== *)
theory Reducer
  imports Reducer_Stats Reducer_Finalize Reducer_Update
begin

text \<open>
  \<open>TelemetryReducer::ReduceInPlace\<close>: one function per event, the dispatch, and the step of the
  live match, which is an event, the confirmation of a match that was left, or the loss of the
  connection.
\<close>

section \<open>MatchCreated\<close>

text \<open>A match that must not be recorded: a new identifier replaces it instead of naming it.\<close>

definition current_non_recordable :: "MatchState \<Rightarrow> bool" where
  "current_non_recordable st =
     (inMatch st \<and> (fallbackNonRecordableContext st \<or> IsNonRecordable (playlistId st)))"

definition created_starts :: "string \<Rightarrow> MatchState \<Rightarrow> bool" where
  "created_starts guid st =
     (\<not> inMatch st \<or> (guid \<noteq> [] \<and> current_non_recordable st) \<or>
      (guid \<noteq> [] \<and> matchGuid st \<noteq> [] \<and> guid \<noteq> matchGuid st))"

definition created_attaches :: "string \<Rightarrow> MatchState \<Rightarrow> bool" where
  "created_attaches guid st =
     (inMatch st \<and> guid \<noteq> [] \<and> matchGuid st = [] \<and> \<not> current_non_recordable st)"

definition created_new :: "string \<Rightarrow> MatchState \<Rightarrow> MatchState" where
  "created_new guid st =
     (let st1 = ResetMatch (arenaName st) [] st;
          st2 = store_initial_mmr guid (initial_mmr st)
                  (st1\<lparr>nextMatchGeneration := nextMatchGeneration st1 + 1,
                       activeMatchGeneration := nextMatchGeneration st1 + 1, matchGuid := guid,
                       missingGuidAssociationBlockedByReconnect := False\<rparr>)
      in ResetTiming (st2\<lparr>roundActive := False, autoSwitchedPlaylistCategory := Best,
            followedGraphPlaylistCategory := Best, matchEvents := [], analytics := Tracker0,
            eventNativeKeys := {}, lastEventSignature := [], lastPlayerBoost := [],
            boostRespawnPending := {}, lastPlayerSeenMs := []\<rparr>))"

definition created_lifecycle :: "string \<Rightarrow> MatchState \<Rightarrow> MatchState" where
  "created_lifecycle guid st =
     (if created_starts guid st then created_new guid st
      else if created_attaches guid st then attach_guid guid st
      else st)"

text \<open>The interface: \<open>old\<close> is the state before the event, \<open>st\<close> the state after the lifecycle.\<close>

definition created_ui ::
    "string \<Rightarrow> int \<Rightarrow> MatchState \<Rightarrow> MatchState \<Rightarrow> SideEffects \<Rightarrow> MatchState \<times> SideEffects" where
  "created_ui guid nowMs old st fx =
     (let same = (guid \<noteq> [] \<and> guid = uiMatchGuid old \<and> inMatch old \<and> \<not> matchFinalized old);
          hadCountdown = (0 < firstCountdownOfMatchMs old \<or> 0 < lastMatchEndMs old);
          goal_off = UiStateUpdate0\<lparr>uu_inGoalReplay := Some False\<rparr>;
          start = goal_off\<lparr>uu_lastMatchStartMs := Some nowMs\<rparr>
      in if \<not> same then
           (if created_starts guid old \<or> matchFinalized old \<or> hadCountdown \<or>
               (guid \<noteq> [] \<and> uiMatchGuid st \<noteq> [] \<and> guid \<noteq> uiMatchGuid st)
            then ((reset_timestamps nowMs st)\<lparr>countdownSeenThisRound := False, uiMatchGuid := guid\<rparr>,
                  fx\<lparr>fx_uiUpdate := Some (ui_reset nowMs)\<rparr>)
            else (st\<lparr>lastMatchStartMs := nowMs, inGoalReplay := False, uiMatchGuid := guid\<rparr>,
                  fx\<lparr>fx_uiUpdate := Some start\<rparr>))
         else if lastMatchStartMs st \<le> 0
         then (st\<lparr>lastMatchStartMs := nowMs, inGoalReplay := False\<rparr>, fx\<lparr>fx_uiUpdate := Some start\<rparr>)
         else (st\<lparr>inGoalReplay := False\<rparr>, fx\<lparr>fx_uiUpdate := Some goal_off\<rparr>))"

definition OnMatchCreated ::
    "string \<Rightarrow> ReducerContext \<Rightarrow> MatchState \<Rightarrow> SideEffects \<Rightarrow> MatchState \<times> SideEffects" where
  "OnMatchCreated guid ctx st fx =
     (let fx1 = (if created_starts guid st \<and> \<not> cf_reset_session_on_close (rc_config ctx)
                 then fx\<lparr>fx_closeSessionIfInactiveAtUnix := Some (rc_nowUnix ctx)\<rparr> else fx);
          (st2, fx2) = created_ui guid (now_ms ctx) st (created_lifecycle guid st) fx1
      in (st2, if created_starts guid st \<or> created_attaches guid st then push_discord st2 fx2 else fx2))"

section \<open>The other lifecycle events\<close>

definition OnReplayCreated :: "MatchState \<Rightarrow> SideEffects \<Rightarrow> MatchState \<times> SideEffects" where
  "OnReplayCreated st fx =
     (st\<lparr>nonLiveReplayActive := True, inReplay := True, inGoalReplay := False\<rparr>,
      fx\<lparr>fx_uiUpdate := Some (UiStateUpdate0\<lparr>uu_inGoalReplay := Some False\<rparr>)\<rparr>)"

definition OnMatchInitialized ::
    "string \<Rightarrow> ReducerContext \<Rightarrow> MatchState \<Rightarrow> SideEffects \<Rightarrow> MatchState \<times> SideEffects" where
  "OnMatchInitialized guid ctx st fx =
     (let nowMs = now_ms ctx; (st1, fx1, ok) = AcceptsUiMatchEvent guid nowMs st fx in
      if ok then
        (st1\<lparr>lastMatchStartMs := (if lastMatchStartMs st1 \<le> 0 then nowMs else lastMatchStartMs st1),
             firstCountdownOfMatchMs :=
               (if firstCountdownOfMatchMs st1 \<le> 0 then nowMs else firstCountdownOfMatchMs st1),
             lastCountdownMs := (if lastCountdownMs st1 \<le> 0 then nowMs else lastCountdownMs st1),
             inGoalReplay := False, countdownSeenThisRound := True\<rparr>,
         fx1\<lparr>fx_uiUpdate := Some (UiStateUpdate0
             \<lparr>uu_lastMatchStartMs := (if lastMatchStartMs st1 \<le> 0 then Some nowMs else None),
              uu_firstCountdownOfMatchMs := (if firstCountdownOfMatchMs st1 \<le> 0 then Some nowMs else None),
              uu_lastCountdownMs := (if lastCountdownMs st1 \<le> 0 then Some nowMs else None),
              uu_inGoalReplay := Some False\<rparr>)\<rparr>)
      else (st1, fx1))"

definition track :: "string \<Rightarrow> bool \<Rightarrow> (Tracker \<Rightarrow> Tracker) \<Rightarrow> MatchState \<Rightarrow> MatchState" where
  "track guid duringReplay f st =
     (if AcceptsAnalyticsEvent st guid duringReplay then st\<lparr>analytics := f (analytics st)\<rparr> else st)"

definition OnCountdownBegin ::
    "string \<Rightarrow> ReducerContext \<Rightarrow> MatchState \<Rightarrow> SideEffects \<Rightarrow> MatchState \<times> SideEffects" where
  "OnCountdownBegin guid ctx st fx =
     (let nowMs = now_ms ctx; (st1, fx1, ok) = AcceptsUiMatchEvent guid nowMs st fx;
          st2 = (if ok then
            st1\<lparr>lastMatchStartMs := (if lastMatchStartMs st1 \<le> 0 then nowMs else lastMatchStartMs st1),
                firstCountdownOfMatchMs :=
                  (if firstCountdownOfMatchMs st1 \<le> 0 then nowMs else firstCountdownOfMatchMs st1),
                lastCountdownMs := nowMs, inGoalReplay := False, countdownSeenThisRound := True,
                roundActive := False, lastPlayerBoost := []\<rparr> else st1)
      in (track guid False Tracker_OnCountdownBegin st2, fx1))"

definition OnRoundStarted ::
    "string \<Rightarrow> ReducerContext \<Rightarrow> MatchState \<Rightarrow> SideEffects \<Rightarrow> MatchState \<times> SideEffects" where
  "OnRoundStarted guid ctx st fx =
     (let nowMs = now_ms ctx; (st1, fx1, ok) = AcceptsUiMatchEvent guid nowMs st fx;
          st2 = (if ok then
            st1\<lparr>lastMatchStartMs := (if lastMatchStartMs st1 \<le> 0 then nowMs else lastMatchStartMs st1),
                firstCountdownOfMatchMs :=
                  (if firstCountdownOfMatchMs st1 \<le> 0 then nowMs else firstCountdownOfMatchMs st1),
                lastCountdownMs := (if \<not> countdownSeenThisRound st1 then nowMs else lastCountdownMs st1),
                inGoalReplay := False, countdownSeenThisRound := False\<rparr> else st1);
          st3 = (if \<not> roundActive st2 then st2\<lparr>lastPlayerBoost := [], boostRespawnPending := {}\<rparr> else st2);
          st4 = st3\<lparr>roundActive := True, roundEverStarted := True\<rparr>
      in (track guid False (Tracker_OnRoundStarted (rc_nowSeconds ctx)) st4, fx1))"

definition OnMatchPaused :: "string \<Rightarrow> ReducerContext \<Rightarrow> MatchState \<Rightarrow> MatchState" where
  "OnMatchPaused guid ctx st =
     track guid False (Tracker_OnPaused (rc_nowSeconds ctx))
       (if currentPauseStartMs st = None then st\<lparr>currentPauseStartMs := Some (now_ms ctx)\<rparr> else st)"

definition OnMatchUnpaused :: "string \<Rightarrow> ReducerContext \<Rightarrow> MatchState \<Rightarrow> MatchState" where
  "OnMatchUnpaused guid ctx st =
     track guid False (Tracker_OnUnpaused (rc_nowSeconds ctx))
       (case currentPauseStartMs st of
          Some s \<Rightarrow> st\<lparr>pauseIntervals := pauseIntervals st @ [\<lparr>pi_startMs = s, pi_endMs = now_ms ctx\<rparr>],
                      currentPauseStartMs := None\<rparr>
        | None \<Rightarrow> st)"

definition OnGoalReplayStart :: "string \<Rightarrow> MatchState \<Rightarrow> MatchState" where
  "OnGoalReplayStart guid st =
     (let (st1, ok) = TargetsCurrentActiveMatchUi guid st in if ok then st1\<lparr>inGoalReplay := True\<rparr> else st1)"

definition OnGoalReplayEnd :: "string \<Rightarrow> MatchState \<Rightarrow> MatchState" where
  "OnGoalReplayEnd guid st =
     (if guid \<noteq> [] \<and>
         ((matchGuid st \<noteq> [] \<and> guid \<noteq> matchGuid st) \<or> (uiMatchGuid st \<noteq> [] \<and> guid \<noteq> uiMatchGuid st) \<or>
          um_has (pendingDestroyedMatches st) guid)
      then st else st\<lparr>inGoalReplay := False\<rparr>)"

definition OnPodiumStart :: "string \<Rightarrow> ReducerContext \<Rightarrow> MatchState \<Rightarrow> MatchState" where
  "OnPodiumStart guid ctx st =
     (let (st1, ok) = TargetsCurrentActiveMatchUi guid st; nowMs = now_ms ctx in
      if \<not> ok then st1
      else if lastPodiumMs st1 \<le> 0
      then st1\<lparr>inGoalReplay := False, lastPodiumMs := nowMs,
               matchSummaryStartMs :=
                 (if showMatchSummary st1 \<or> matchFinalized st1 then nowMs else matchSummaryStartMs st1)\<rparr>
      else st1\<lparr>inGoalReplay := False\<rparr>)"

definition OnUpdateState ::
    "UpdateStateEvent \<Rightarrow> ReducerContext \<Rightarrow> MatchState \<Rightarrow> SideEffects \<Rightarrow> MatchState \<times> SideEffects" where
  "OnUpdateState ev ctx st fx =
     (let (st1, fx1) = HandleUpdateState ev ctx st fx;
          st2 = track (us_matchGuid ev) False (Tracker_OnUpdateState ev (rc_nowSeconds ctx)) st1
      in (st2, if \<not> fx_pushDiscord fx1 \<and>
                  (arenaName st2 \<noteq> arenaName st \<or> score st2 \<noteq> score st \<or> inMatch st2 \<noteq> inMatch st)
               then push_discord st2 fx1 else fx1))"

section \<open>The reducer\<close>

fun dispatch :: "TelemetryEvent \<Rightarrow> ReducerContext \<Rightarrow> MatchState \<Rightarrow> SideEffects \<Rightarrow> MatchState \<times> SideEffects" where
  "dispatch EvReplayCreated ctx st fx = OnReplayCreated st fx"
| "dispatch (EvMatchCreated guid) ctx st fx = OnMatchCreated guid ctx st fx"
| "dispatch (EvMatchInitialized guid) ctx st fx = OnMatchInitialized guid ctx st fx"
| "dispatch (EvCountdownBegin guid) ctx st fx = OnCountdownBegin guid ctx st fx"
| "dispatch (EvRoundStarted guid) ctx st fx = OnRoundStarted guid ctx st fx"
| "dispatch (EvMatchPaused guid) ctx st fx = (OnMatchPaused guid ctx st, fx)"
| "dispatch (EvMatchUnpaused guid) ctx st fx = (OnMatchUnpaused guid ctx st, fx)"
| "dispatch (EvGoalReplayStart guid) ctx st fx = (OnGoalReplayStart guid st, fx)"
| "dispatch EvGoalReplayWillEnd ctx st fx = (st, fx)"
| "dispatch (EvGoalReplayEnd guid) ctx st fx = (OnGoalReplayEnd guid st, fx)"
| "dispatch (EvPodiumStart guid) ctx st fx = (OnPodiumStart guid ctx st, fx)"
| "dispatch (EvUpdateState ev) ctx st fx = OnUpdateState ev ctx st fx"
| "dispatch (EvStatfeed ev) ctx st fx =
     (HandleStatfeed ev ctx (track (sf_matchGuid ev) False (Tracker_OnStatfeed ev) st), fx)"
| "dispatch (EvGoalScored ev) ctx st fx =
     HandleGoalScored ev ctx (track (gs_matchGuid ev) True (Tracker_OnGoalScored ev) st) fx"
| "dispatch (EvBallHit ev) ctx st fx =
     (HandleBallHit ev (track (bh_matchGuid ev) False (Tracker_OnBallHit ev (rc_nowSeconds ctx)) st), fx)"
| "dispatch (EvBoostPickup ev) ctx st fx =
     (track (bp_matchGuid ev) False (Tracker_OnBoostPickup ev) st, fx)"
| "dispatch (EvPlayerLeft ev) ctx st fx = (track (pl_matchGuid ev) False (Tracker_OnPlayerLeft ev) st, fx)"
| "dispatch (EvCrossbarHit ev) ctx st fx = (HandleCrossbarHit ev ctx st, fx)"
| "dispatch (EvMatchEnded ev) ctx st fx =
     HandleMatchEnded ev ctx (track (me_matchGuid ev) False Tracker_OnMatchEnded st) fx"
| "dispatch (EvMatchDestroyed ev) ctx st fx =
     HandleMatchDestroyed ev ctx (track (md_matchGuid ev) False Tracker_OnMatchEnded st) fx"
| "dispatch (EvClockUpdatedSeconds s) ctx st fx = (st, fx)"

definition ReduceInPlace :: "TelemetryEvent \<Rightarrow> ReducerContext \<Rightarrow> MatchState \<Rightarrow> MatchState \<times> SideEffects" where
  "ReduceInPlace ev ctx st =
     (let (st1, fx1) = dispatch ev ctx (st\<lparr>currentReducerNowMs := now_ms ctx\<rparr>) SideEffects0
      in PublishUiTimestamps st1 fx1)"

text \<open>What can happen to the live match.\<close>

datatype ReducerInput =
    Event TelemetryEvent ReducerContext
  | Confirm string bool ReducerContext
  | Disconnected

fun reduce :: "ReducerInput \<Rightarrow> MatchState \<Rightarrow> MatchState \<times> SideEffects" where
  "reduce (Event ev ctx) st = ReduceInPlace ev ctx st"
| "reduce (Confirm guid won ctx) st = ConfirmPendingDestroyedMatch guid won ctx st"
| "reduce Disconnected st = (OnTelemetryDisconnected st, SideEffects0)"

end
