(* ===== verification/Live_Store.thy ===== *)
theory Live_Store
  imports Reducer
begin

text \<open>
  What surrounds the reducer: \<open>LiveMatchStore\<close> (every mutation publishes, counted by
  \<open>version\<close>), \<open>HistoryStore\<close>, the session operations of \<open>SessionState.cpp\<close>, \<open>EffectRouter\<close>,
  and the part of \<open>StatsClient\<close> that feeds events, confirmations and connection errors into them.
  Each operation runs under the store's lock and is one step. The database, Discord, rating and
  account services are not modelled: the calls made to them are the step's output.
\<close>

section \<open>LiveMatchStore\<close>

definition publish :: "MatchState \<Rightarrow> MatchState" where
  "publish st = st\<lparr>version := version st + 1\<rparr>"

definition ApplyEvent :: "TelemetryEvent \<Rightarrow> ReducerContext \<Rightarrow> MatchState \<Rightarrow> MatchState \<times> SideEffects" where
  "ApplyEvent ev ctx st = (let (st1, fx) = ReduceInPlace ev ctx st in (publish st1, fx))"

definition ConfirmDestroyedMatch ::
    "string \<Rightarrow> bool \<Rightarrow> ReducerContext \<Rightarrow> MatchState \<Rightarrow> MatchState \<times> SideEffects" where
  "ConfirmDestroyedMatch guid won ctx st =
     (let (st1, fx) = ConfirmPendingDestroyedMatch guid won ctx st in (publish st1, fx))"

definition Store_OnTelemetryDisconnected :: "MatchState \<Rightarrow> MatchState" where
  "Store_OnTelemetryDisconnected st = publish (OnTelemetryDisconnected st)"

definition team_of :: "MatchState \<Rightarrow> string \<Rightarrow> int" where
  "team_of st pid = (if pid = [] then -1 else case map_of (roster st) pid of Some p \<Rightarrow> pd_team p | None \<Rightarrow> -1)"

definition SetLocalPrimaryId :: "string \<Rightarrow> MatchState \<Rightarrow> MatchState" where
  "SetLocalPrimaryId pid st = publish (st\<lparr>myPrimaryId := pid, myTeam := team_of st pid\<rparr>)"

definition roster_entry :: "string \<Rightarrow> (PlayerData \<Rightarrow> PlayerData) \<Rightarrow> MatchState \<Rightarrow> MatchState" where
  "roster_entry pid f st =
     (case map_of (roster st) pid of
        Some p \<Rightarrow> st\<lparr>roster := um_put pid (f p) (roster st)\<rparr> | None \<Rightarrow> st)"

definition UpdateRosterMmr ::
    "string \<Rightarrow> (string, int) umap \<Rightarrow> (string, int) umap \<Rightarrow> MatchState \<Rightarrow> MatchState" where
  "UpdateRosterMmr pid playlists matches st =
     (let st1 = roster_entry pid (\<lambda>p. p\<lparr>pd_playlists := playlists, pd_playlistMatches := matches,
                                       pd_fetched := True, pd_fetchFailed := False\<rparr>) st
      in publish
        (if inMatch st1 \<and> matchGuid st1 \<noteq> [] \<and> \<not> um_has (preMatchMmrByGuid st1) (matchGuid st1) \<and>
            myPrimaryId st1 = pid \<and> list_ex (\<lambda>(pl, mmr). pl \<noteq> ''best'' \<and> 0 < mmr) playlists
         then st1\<lparr>preMatchMmrByGuid := um_emplace (matchGuid st1)
                \<lparr>pm_playlistMmrs = playlists, pm_playlistMatches = matches\<rparr> (preMatchMmrByGuid st1)\<rparr>
         else st1))"

definition SetRosterFetchFailed :: "string \<Rightarrow> MatchState \<Rightarrow> MatchState" where
  "SetRosterFetchFailed pid st =
     publish (roster_entry pid (\<lambda>p. p\<lparr>pd_fetched := True, pd_fetchFailed := True\<rparr>) st)"

definition UpdatePlayerLifetimeData ::
    "string \<Rightarrow> string \<Rightarrow> int \<Rightarrow> int \<Rightarrow> int \<Rightarrow> int \<Rightarrow> MatchState \<Rightarrow> MatchState" where
  "UpdatePlayerLifetimeData account pid winsWith lossesWith winsAgainst lossesAgainst st =
     publish (if myPrimaryId st \<noteq> account then st
       else roster_entry pid (\<lambda>p. p\<lparr>pd_lifetimeWinsWith := winsWith, pd_lifetimeLossesWith := lossesWith,
              pd_lifetimeWinsAgainst := winsAgainst, pd_lifetimeLossesAgainst := lossesAgainst,
              pd_hasLifetimeData := True\<rparr>) st)"

definition SyncSessionMmrChange :: "(string, int) umap \<Rightarrow> fp \<Rightarrow> MatchState \<Rightarrow> MatchState" where
  "SyncSessionMmrChange changes totalChange st =
     publish (st\<lparr>sessionTotals := (sessionTotals st)\<lparr>st_mmrChangeByPlaylist := changes,
                                                    st_totalMmrChange := totalChange\<rparr>\<rparr>)"

definition UpdateLastSessionRecapMmr :: "(string, int) umap \<Rightarrow> fp \<Rightarrow> MatchState \<Rightarrow> MatchState" where
  "UpdateLastSessionRecapMmr changes totalChange st =
     publish (if rcp_valid (lastSessionRecap st)
       then st\<lparr>lastSessionRecap := (lastSessionRecap st)\<lparr>rcp_totals :=
              (rcp_totals (lastSessionRecap st))\<lparr>st_mmrChangeByPlaylist := changes,
                                                st_totalMmrChange := totalChange\<rparr>\<rparr>\<rparr>
       else st)"

definition Store_StartNewSession :: "int \<Rightarrow> HistoryData \<Rightarrow> MatchState \<Rightarrow> MatchState \<times> HistoryData \<times> bool" where
  "Store_StartNewSession endedAtUnix history st =
     (let (st1, h, captured) = MatchState_StartNewSession endedAtUnix (Some history) st
      in (publish st1, (case h of Some h' \<Rightarrow> h' | None \<Rightarrow> history), captured))"

definition kSessionGapSeconds :: int where
  "kSessionGapSeconds = 2 * 60 * 60"

definition StartsNewSession :: "int \<Rightarrow> int \<Rightarrow> bool \<Rightarrow> bool" where
  "StartsNewSession previousEndedAtUnix endedAtUnix hasPrevious =
     (\<not> hasPrevious \<or> kSessionGapSeconds < endedAtUnix - previousEndedAtUnix)"

definition CloseSessionIfInactive :: "int \<Rightarrow> HistoryData \<Rightarrow> MatchState \<Rightarrow> MatchState \<times> HistoryData \<times> bool" where
  "CloseSessionIfInactive nowUnix history st =
     (if inMatch st \<or> st_wins (sessionTotals st) + st_losses (sessionTotals st) \<le> 0 \<or>
         lastMatchEndedAtUnix st \<le> 0 \<or> \<not> StartsNewSession (lastMatchEndedAtUnix st) nowUnix True
      then (publish st, history, False)
      else Store_StartNewSession (lastMatchEndedAtUnix st) history st)"

definition Store_ClearActiveMatchOnDisconnect :: "MatchState \<Rightarrow> MatchState" where
  "Store_ClearActiveMatchOnDisconnect st = publish (ClearActiveMatchOnDisconnect st)"

section \<open>HistoryStore\<close>

text \<open>\<open>Mutate\<close> counts every mutation.\<close>

definition Mutate :: "(HistoryData \<Rightarrow> HistoryData) \<Rightarrow> HistoryData \<Rightarrow> HistoryData" where
  "Mutate f h = (f h)\<lparr>hd_version := hd_version (f h) + 1\<rparr>"

definition SetLifetimeMmr :: "int list \<Rightarrow> fp list \<Rightarrow> HistoryData \<Rightarrow> HistoryData" where
  "SetLifetimeMmr x y = Mutate (\<lambda>h. h\<lparr>hd_lifetimeMmrX := x, hd_lifetimeMmrY := y\<rparr>)"

definition SetRecentSavedMatches :: "SessionMatchSummary list \<Rightarrow> HistoryData \<Rightarrow> HistoryData" where
  "SetRecentSavedMatches saved = Mutate (\<lambda>h.
     h\<lparr>hd_pendingRecentMatches :=
         filter (\<lambda>p. \<not> (sms_matchGuid p \<noteq> [] \<and> sms_matchGuid p \<in> sms_matchGuid ` set saved))
           (hd_pendingRecentMatches h),
       hd_recentSavedMatches := saved, hd_recentSavedMatchesLoaded := True\<rparr>)"

definition AddPendingRecentMatch :: "SessionMatchSummary \<Rightarrow> HistoryData \<Rightarrow> HistoryData" where
  "AddPendingRecentMatch m = Mutate (\<lambda>h. h\<lparr>hd_pendingRecentMatches := hd_pendingRecentMatches h @ [m]\<rparr>)"

definition ResolvePendingRecentMatch :: "string \<Rightarrow> HistoryData \<Rightarrow> HistoryData" where
  "ResolvePendingRecentMatch guid = Mutate (\<lambda>h.
     h\<lparr>hd_pendingRecentMatches := filter (\<lambda>m. sms_matchGuid m \<noteq> guid) (hd_pendingRecentMatches h)\<rparr>)"

definition SetShowLifetimeGraph :: "bool \<Rightarrow> HistoryData \<Rightarrow> HistoryData" where
  "SetShowLifetimeGraph b = Mutate (\<lambda>h. h\<lparr>hd_showLifetimeGraph := b\<rparr>)"

definition SetPlaylistInitialMmr :: "string \<Rightarrow> int \<Rightarrow> HistoryData \<Rightarrow> HistoryData" where
  "SetPlaylistInitialMmr playlist mmr = Mutate (\<lambda>h.
     h\<lparr>hd_playlistInitialMmr := um_put playlist mmr (hd_playlistInitialMmr h)\<rparr>)"

text \<open>\<open>operator[]\<close> of a map of vectors: a missing entry is the empty vector.\<close>

definition um_list :: "('k, 'v list) umap \<Rightarrow> 'k \<Rightarrow> 'v list" where
  "um_list m k = (case map_of m k of Some xs \<Rightarrow> xs | None \<Rightarrow> [])"

definition UpdatePlaylistMmrPoint :: "string \<Rightarrow> nat \<Rightarrow> int \<Rightarrow> bool \<Rightarrow> HistoryData \<Rightarrow> HistoryData" where
  "UpdatePlaylistMmrPoint playlist i mmr estimated = Mutate (\<lambda>h.
     let points = um_list (hd_playlistMatchPoints h) playlist;
         proj = um_list (hd_playlistHistoryY h) playlist
     in h\<lparr>hd_playlistMatchPoints := um_put playlist
            (if i < length points
             then points[i := (points ! i)\<lparr>mp_mmr := mmr, mp_valueEstimated := estimated\<rparr>] else points)
            (hd_playlistMatchPoints h),
          hd_playlistHistoryY := um_put playlist
            (if i < length proj then proj[i := f32_of_int mmr] else proj) (hd_playlistHistoryY h)\<rparr>)"

definition AppendPlaylistMmrPoint :: "string \<Rightarrow> SessionMmrPoint \<Rightarrow> fp \<Rightarrow> HistoryData \<Rightarrow> HistoryData" where
  "AppendPlaylistMmrPoint playlist point mmr = Mutate (\<lambda>h.
     h\<lparr>hd_playlistMatchPoints :=
         um_put playlist (um_list (hd_playlistMatchPoints h) playlist @ [point]) (hd_playlistMatchPoints h),
       hd_playlistHistoryY :=
         um_put playlist (um_list (hd_playlistHistoryY h) playlist @ [mmr]) (hd_playlistHistoryY h)\<rparr>)"

section \<open>The interface's state\<close>

record UIState =
  ui_showOverlay :: bool
  ui_rosterMmrCategory :: MmrCategory
  ui_graphMmrCategory :: MmrCategory
  ui_rankProgressMmrCategory :: MmrCategory
  ui_graphOffset :: int
  ui_showMatchSummary :: bool
  ui_matchSummaryStartMs :: int
  ui_showSessionRecap :: bool
  ui_lastMatchStartMs :: int
  ui_firstCountdownOfMatchMs :: int
  ui_lastCountdownMs :: int
  ui_lastGoalMs :: int
  ui_lastMatchEndMs :: int
  ui_lastPodiumMs :: int
  ui_inGoalReplay :: bool

definition UIState0 :: UIState where
  "UIState0 =
     \<lparr>ui_showOverlay = False, ui_rosterMmrCategory = Best, ui_graphMmrCategory = TwoVTwo,
      ui_rankProgressMmrCategory = TwoVTwo, ui_graphOffset = 0, ui_showMatchSummary = False,
      ui_matchSummaryStartMs = 0, ui_showSessionRecap = False, ui_lastMatchStartMs = 0,
      ui_firstCountdownOfMatchMs = 0, ui_lastCountdownMs = 0, ui_lastGoalMs = 0,
      ui_lastMatchEndMs = 0, ui_lastPodiumMs = 0, ui_inGoalReplay = False\<rparr>"

definition ResetMatchTimestamps :: "int \<Rightarrow> UIState \<Rightarrow> UIState" where
  "ResetMatchTimestamps matchStartMs ui =
     ui\<lparr>ui_lastMatchStartMs := matchStartMs, ui_firstCountdownOfMatchMs := 0, ui_lastCountdownMs := 0,
        ui_lastGoalMs := 0, ui_lastMatchEndMs := 0, ui_lastPodiumMs := 0, ui_inGoalReplay := False\<rparr>"

definition ApplyRankProgressConfig :: "Config \<Rightarrow> bool \<Rightarrow> UIState \<Rightarrow> UIState" where
  "ApplyRankProgressConfig cfg initial ui =
     (let ui1 = (if hidden_extra cfg (ui_rankProgressMmrCategory ui)
                 then ui\<lparr>ui_rankProgressMmrCategory := TwoVTwo\<rparr> else ui);
          pinned = StringToMmrCategory (cf_rank_progress_mmr_category cfg)
      in if initial \<and> \<not> cf_rank_progress_follow_current_playlist cfg
         then ui1\<lparr>ui_rankProgressMmrCategory := (if hidden_extra cfg pinned then TwoVTwo else pinned)\<rparr>
         else ui1)"

definition apply_ui :: "UiStateUpdate \<Rightarrow> UIState \<Rightarrow> UIState" where
  "apply_ui u ui =
     (let ui1 = (if uu_matchReset u then ui\<lparr>ui_showOverlay := False, ui_showMatchSummary := False\<rparr> else ui);
          ui2 = (if uu_resetTimestamps u then ResetMatchTimestamps (uu_resetMatchStartMs u) ui1 else ui1)
      in ui2\<lparr>ui_lastMatchStartMs := set_opt (uu_lastMatchStartMs u) (ui_lastMatchStartMs ui2),
             ui_firstCountdownOfMatchMs := set_opt (uu_firstCountdownOfMatchMs u) (ui_firstCountdownOfMatchMs ui2),
             ui_lastCountdownMs := set_opt (uu_lastCountdownMs u) (ui_lastCountdownMs ui2),
             ui_lastGoalMs := set_opt (uu_lastGoalMs u) (ui_lastGoalMs ui2),
             ui_lastMatchEndMs := set_opt (uu_lastMatchEndMs u) (ui_lastMatchEndMs ui2),
             ui_lastPodiumMs := set_opt (uu_lastPodiumMs u) (ui_lastPodiumMs ui2),
             ui_inGoalReplay := set_opt (uu_inGoalReplay u) (ui_inGoalReplay ui2),
             ui_showMatchSummary := set_opt (uu_showMatchSummary u) (ui_showMatchSummary ui2),
             ui_matchSummaryStartMs := set_opt (uu_matchSummaryStartMs u) (ui_matchSummaryStartMs ui2),
             ui_rosterMmrCategory := set_opt (uu_rosterMmrCategory u) (ui_rosterMmrCategory ui2),
             ui_graphMmrCategory := set_opt (uu_graphMmrCategory u) (ui_graphMmrCategory ui2),
             ui_rankProgressMmrCategory :=
               set_opt (uu_rankProgressMmrCategory u) (ui_rankProgressMmrCategory ui2)\<rparr>)"

section \<open>The session\<close>

definition session_mmr_changes :: "HistoryData \<Rightarrow> (string, int) umap" where
  "session_mmr_changes h =
     fold (\<lambda>(playlist, projection) changes.
        case map_of (hd_playlistInitialMmr h) playlist of
          Some initial \<Rightarrow>
            (if projection \<noteq> [] \<and> 0 < initial
             then um_put playlist (lround (last projection) - initial) changes else changes)
        | None \<Rightarrow> changes) (hd_playlistHistoryY h) []"

text \<open>The session: the live match, the rating history and the interface.\<close>

record Session =
  se_live :: MatchState
  se_history :: HistoryData
  se_ui :: UIState

definition clearActiveMatchOnDisconnect :: "Session \<Rightarrow> Session" where
  "clearActiveMatchOnDisconnect s =
     s\<lparr>se_live := Store_ClearActiveMatchOnDisconnect (se_live s),
       se_ui := (se_ui s)\<lparr>ui_inGoalReplay := False, ui_firstCountdownOfMatchMs := 0,
         ui_lastCountdownMs := 0, ui_lastGoalMs := 0, ui_lastMatchStartMs := 0\<rparr>\<rparr>"

definition startNewSessionLocked :: "int \<Rightarrow> Session \<Rightarrow> Session \<times> bool" where
  "startNewSessionLocked endedAtUnix s =
     (let (live, h, captured) = Store_StartNewSession endedAtUnix (se_history s) (se_live s)
      in (s\<lparr>se_live := live, se_history := h, se_ui := (se_ui s)\<lparr>ui_graphOffset := 0\<rparr>\<rparr>, captured))"

definition closeSessionIfInactiveLocked :: "int \<Rightarrow> Session \<Rightarrow> Session \<times> bool" where
  "closeSessionIfInactiveLocked nowUnix s =
     (let (live, h, closed) = CloseSessionIfInactive nowUnix (se_history s) (se_live s)
      in (s\<lparr>se_live := live, se_history := h\<rparr>, closed))"

definition syncSessionMmrChangeLocked :: "Session \<Rightarrow> Session" where
  "syncSessionMmrChangeLocked s =
     (let changes = session_mmr_changes (se_history s)
      in s\<lparr>se_live := SyncSessionMmrChange changes
             (f32_of_int (CalculateTrackedSessionMmrChange changes)) (se_live s)\<rparr>)"

definition selectMmrOwnerLocked :: "string \<Rightarrow> Session \<Rightarrow> Session" where
  "selectMmrOwnerLocked pid s =
     (let h = HistoryData_SelectMmrOwner pid (se_history s);
          changes = session_mmr_changes h;
          st = se_live s
      in s\<lparr>se_history := h,
           se_live := publish (st\<lparr>myPrimaryId := pid, myTeam := team_of st pid,
             sessionTotals := (sessionTotals st)\<lparr>st_mmrChangeByPlaylist := changes,
               st_totalMmrChange := f32_of_int (CalculateTrackedSessionMmrChange changes)\<rparr>\<rparr>)\<rparr>)"

text \<open>A mutation of the history that the callers above run inside.\<close>

definition count_mutation :: "Session \<Rightarrow> Session" where
  "count_mutation s = s\<lparr>se_history := Mutate (\<lambda>h. h) (se_history s)\<rparr>"

section \<open>EffectRouter\<close>

text \<open>The calls to the services, in the order they are made, and which services are there.\<close>

datatype ServiceCall =
    SaveLocalPrimaryId string
  | ObserveLocalAccount string string
  | PushPresenceUpdate DiscordPresenceSnapshot
  | AsyncGetLifetimeMmrHistory string string
  | AsyncRefreshDbStats string
  | AsyncGetRecentMatchHistory string int
  | Enqueue string string
  | AsyncSaveSession SessionRecap
  | AsyncSaveMatch MatchSaveSnapshot
  | AsyncUpdateSession SessionRecap
  | ResolvePendingDestroyedMatch string bool
  | EnqueuePendingDestroyedMatch PendingDestroyedMatchMmrRefresh
  | EnqueuePostMatch PostMatchMmrRefresh
  | AsyncGetPlayerEncounterRecord string

record Services =
  svc_db :: bool
  svc_discord :: bool
  svc_mmr :: bool
  svc_accounts :: bool

definition kPreviousGamesMaxLimit :: nat where
  "kPreviousGamesMaxLimit = 50"

definition route_pending_history :: "SessionMatchSummary \<Rightarrow> HistoryData \<Rightarrow> HistoryData" where
  "route_pending_history m = Mutate (\<lambda>h.
     if list_ex (\<lambda>p. sms_matchGuid p = sms_matchGuid m) (hd_pendingRecentMatches h) then h
     else h\<lparr>hd_pendingRecentMatches := take kPreviousGamesMaxLimit (m # hd_pendingRecentMatches h)\<rparr>)"

text \<open>The stages of \<open>Route\<close> that change the session; the second may capture a recap to save.\<close>

definition route_owner :: "SideEffects \<Rightarrow> Session \<Rightarrow> Session" where
  "route_owner fx s =
     (case fx_selectMmrOwner fx of
        Some pid \<Rightarrow> count_mutation (selectMmrOwnerLocked pid s) | None \<Rightarrow> s)"

definition route_close :: "SideEffects \<Rightarrow> Session \<Rightarrow> Session \<times> SideEffects" where
  "route_close fx s =
     (case fx_closeSessionIfInactiveAtUnix fx of
        Some t \<Rightarrow>
          (let (s1, closed) = closeSessionIfInactiveLocked t s
           in (count_mutation s1,
               if closed then fx\<lparr>fx_persistSession := Some (lastSessionRecap (se_live s1))\<rparr> else fx))
      | None \<Rightarrow> (s, fx))"

definition route_ui :: "SideEffects \<Rightarrow> Session \<Rightarrow> Session" where
  "route_ui fx s =
     (case fx_uiUpdate fx of Some u \<Rightarrow> s\<lparr>se_ui := apply_ui u (se_ui s)\<rparr> | None \<Rightarrow> s)"

definition route_history :: "SideEffects \<Rightarrow> Session \<Rightarrow> Session" where
  "route_history fx s =
     (case fx_pendingMatchHistory fx of
        Some m \<Rightarrow> s\<lparr>se_history := route_pending_history m (se_history s)\<rparr> | None \<Rightarrow> s)"

definition call_if :: "bool \<Rightarrow> 'a option \<Rightarrow> ('a \<Rightarrow> ServiceCall) \<Rightarrow> ServiceCall list" where
  "call_if b x f = (if b then (case x of Some y \<Rightarrow> [f y] | None \<Rightarrow> []) else [])"

definition route_calls :: "Services \<Rightarrow> SideEffects \<Rightarrow> ServiceCall list" where
  "route_calls svc fx =
     call_if True (fx_persistLocalPrimaryId fx) SaveLocalPrimaryId @
     call_if (svc_accounts svc) (fx_confirmedLocalAccount fx)
       (\<lambda>a. ObserveLocalAccount (cla_primaryId a) (cla_name a)) @
     (if fx_pushDiscord fx \<and> svc_discord svc then [PushPresenceUpdate (fx_discordSnapshot fx)] else []) @
     (if fx_fetchLifetimeHistory fx \<and> svc_db svc
      then [AsyncGetLifetimeMmrHistory (fx_lifetimePrimaryId fx) (fx_lifetimeCategory fx)] else []) @
     (if fx_refreshDbStats fx \<and> svc_db svc then [AsyncRefreshDbStats (fx_refreshStatsPrimaryId fx)] else []) @
     (if svc_mmr svc then map (\<lambda>(pid, name). Enqueue pid name) (fx_fetchMmrQueue fx) else []) @
     call_if (svc_db svc) (fx_persistSession fx) AsyncSaveSession @
     (if fx_saveMatch fx \<and> svc_db svc then [AsyncSaveMatch (fx_saveSnapshot fx)] else []) @
     call_if (svc_db svc) (fx_provisionalSaveSnapshot fx) AsyncSaveMatch @
     call_if (svc_db svc) (fx_updateSession fx) AsyncUpdateSession @
     call_if (svc_mmr svc) (fx_resolvedDestroyedMatch fx)
       (\<lambda>r. ResolvePendingDestroyedMatch (rd_matchGuid r) (rd_won r)) @
     call_if (svc_mmr svc) (fx_pendingDestroyedMatch fx) EnqueuePendingDestroyedMatch @
     call_if (svc_mmr svc) (fx_postMatchMmrRefresh fx) EnqueuePostMatch @
     (if svc_db svc then map AsyncGetPlayerEncounterRecord (fx_fetchEncounterQueue fx) else [])"

definition Route :: "Services \<Rightarrow> SideEffects \<Rightarrow> Session \<Rightarrow> Session \<times> ServiceCall list" where
  "Route svc fx s =
     (let (s1, fx1) = route_close fx (route_owner fx s)
      in (route_history fx1 (route_ui fx1 s1), route_calls svc fx1))"

section \<open>StatsClient\<close>

record Client =
  cl_session :: Session
  cl_disconnectCount :: int
  cl_resetAfterDisconnect :: bool
  cl_configRevision :: "64 word"

text \<open>What a step reads of its surroundings: the clocks, the configuration and its revision.\<close>

record Reading =
  rd_nowMs :: int
  rd_nowSeconds :: fp
  rd_nowUnix :: int
  rd_systemMs :: int
  rd_config :: Config
  rd_configRevision :: "64 word"
  rd_gameRunning :: bool

definition MakeReducerContext :: "Reading \<Rightarrow> UIState \<Rightarrow> ReducerContext" where
  "MakeReducerContext r ui =
     \<lparr>rc_nowMs = (if 0 < rd_nowMs r then rd_nowMs r else 1), rc_nowSeconds = rd_nowSeconds r,
      rc_nowUnix = rd_nowUnix r, rc_config = rd_config r,
      rc_rosterMmrCategory = ui_rosterMmrCategory ui,
      rc_rankProgressMmrCategory = ui_rankProgressMmrCategory ui,
      rc_graphMmrCategory = ui_graphMmrCategory ui,
      rc_steadyMs = rd_nowMs r, rc_systemMs = rd_systemMs r\<rparr>"

definition OnEvent :: "Services \<Rightarrow> TelemetryEvent \<Rightarrow> Reading \<Rightarrow> Client \<Rightarrow> Client \<times> ServiceCall list" where
  "OnEvent svc ev r c =
     (let s = cl_session c;
          s1 = (if rd_configRevision r \<noteq> cl_configRevision c
                then s\<lparr>se_ui := ApplyRankProgressConfig (rd_config r) False (se_ui s)\<rparr> else s);
          (live, fx) = ApplyEvent ev (MakeReducerContext r (se_ui s1)) (se_live s1);
          (s2, calls) = Route svc fx (s1\<lparr>se_live := live\<rparr>)
      in (c\<lparr>cl_session := s2, cl_disconnectCount := 0, cl_resetAfterDisconnect := False,
            cl_configRevision := rd_configRevision r\<rparr>, calls))"

definition HandleDestroyedMatchConfirmation ::
    "Services \<Rightarrow> string \<Rightarrow> bool \<Rightarrow> Reading \<Rightarrow> Client \<Rightarrow> Client \<times> ServiceCall list" where
  "HandleDestroyedMatchConfirmation svc guid won r c =
     (let s = cl_session c;
          (live, fx) = ConfirmDestroyedMatch guid won (MakeReducerContext r (se_ui s)) (se_live s);
          (s1, calls) = Route svc fx (s\<lparr>se_live := live\<rparr>)
      in (c\<lparr>cl_session := s1\<rparr>, calls))"

text \<open>The handler of a connection error in \<open>RunLoop\<close>.\<close>

definition error_session :: "bool \<Rightarrow> Config \<Rightarrow> bool \<Rightarrow> int \<Rightarrow> Session \<Rightarrow> Session \<times> SessionRecap option" where
  "error_session resetSession cfg showRecap nowUnix s =
     (if resetSession then
        (let (live, h, captured) = Store_StartNewSession nowUnix (se_history s) (se_live s)
         in (count_mutation (s\<lparr>se_live := live, se_history := h,
               se_ui := (if captured \<and> showRecap then (se_ui s)\<lparr>ui_showSessionRecap := True\<rparr> else se_ui s)\<rparr>),
             if captured then Some (lastSessionRecap live) else None))
      else if \<not> cf_reset_session_on_close cfg then
        (let (s1, closed) = closeSessionIfInactiveLocked nowUnix s
         in (count_mutation s1, if closed then Some (lastSessionRecap (se_live s1)) else None))
      else (s, None))"

definition OnConnectionError :: "Services \<Rightarrow> bool \<Rightarrow> Reading \<Rightarrow> Client \<Rightarrow> Client \<times> ServiceCall list" where
  "OnConnectionError svc showRecap r c =
     (let n = cl_disconnectCount c + 1;
          cfg = rd_config r;
          resetSession = (cf_reset_session_on_close cfg \<and> \<not> cl_resetAfterDisconnect c \<and>
                          (5 \<le> n \<or> \<not> rd_gameRunning r));
          s = cl_session c;
          s1 = s\<lparr>se_live := Store_OnTelemetryDisconnected (se_live s)\<rparr>;
          (s2, recap) = error_session resetSession cfg showRecap (rd_nowUnix r) s1;
          s3 = clearActiveMatchOnDisconnect s2;
          (s4, calls) = (case recap of
              Some p \<Rightarrow> Route svc (SideEffects0\<lparr>fx_persistSession := Some p\<rparr>) s3 | None \<Rightarrow> (s3, []))
      in (c\<lparr>cl_session := s4, cl_disconnectCount := n,
            cl_resetAfterDisconnect := (cl_resetAfterDisconnect c \<or> resetSession)\<rparr>,
          calls @ (if svc_discord svc then [PushPresenceUpdate DiscordPresenceSnapshot0] else [])))"

text \<open>The start: the saved identity is restored and what the database knows of it is requested.\<close>

definition ConfigureFromSavedIdentity :: "Services \<Rightarrow> Config \<Rightarrow> Session \<Rightarrow> Session \<times> ServiceCall list" where
  "ConfigureFromSavedIdentity svc cfg s =
     (let pid = cf_last_primary_id cfg in
      (if pid \<noteq> [] then s\<lparr>se_live := SetLocalPrimaryId pid (se_live s)\<rparr> else s,
       (if pid \<noteq> [] \<and> svc_db svc
        then [AsyncGetLifetimeMmrHistory pid (MmrCategoryToString (ui_graphMmrCategory (se_ui s))),
              AsyncRefreshDbStats pid] else []) @
       (if svc_db svc then [AsyncGetRecentMatchHistory pid (cf_previous_games_limit cfg)] else [])))"

definition Session0 :: Session where
  "Session0 = \<lparr>se_live = MatchState0, se_history = HistoryData0, se_ui = UIState0\<rparr>"

definition StatsClient_new :: "Services \<Rightarrow> Reading \<Rightarrow> Session \<Rightarrow> Client \<times> ServiceCall list" where
  "StatsClient_new svc r s =
     (let (s1, calls) = ConfigureFromSavedIdentity svc (rd_config r) s in
      (\<lparr>cl_session = s1\<lparr>se_ui := ApplyRankProgressConfig (rd_config r) True (se_ui s1)\<rparr>,
        cl_disconnectCount = 0, cl_resetAfterDisconnect = False,
        cl_configRevision = rd_configRevision r\<rparr>, calls))"

datatype ClientInput =
    TelemetryArrives TelemetryEvent Reading
  | ResultConfirmed string bool Reading
  | ConnectionLost bool Reading

fun client_step :: "Services \<Rightarrow> ClientInput \<Rightarrow> Client \<Rightarrow> Client \<times> ServiceCall list" where
  "client_step svc (TelemetryArrives ev r) c = OnEvent svc ev r c"
| "client_step svc (ResultConfirmed guid won r) c = HandleDestroyedMatchConfirmation svc guid won r c"
| "client_step svc (ConnectionLost showRecap r) c = OnConnectionError svc showRecap r c"

end
