(* ===== verification/Match_Invariant.thy ===== *)
theory Match_Invariant
  imports Live_Store
begin

text \<open>
  The invariants of the live match and their preservation by every function of the reducer and of
  \<open>LiveMatchStore\<close>: generations, the journal, the boost counters, the rosters, the analytics
  tracker, the matches waiting for confirmation and the session totals.
\<close>

section \<open>The invariants\<close>

text \<open>The generation of the live match is the last one handed out.\<close>

definition gens_ok :: "MatchState \<Rightarrow> bool" where
  "gens_ok st = (activeMatchGeneration st = nextMatchGeneration st)"

text \<open>The journal is bounded, and no event with a key of its own is in it twice.\<close>

definition event_keys :: "MatchJournalEvent list \<Rightarrow> string list" where
  "event_keys es = filter (\<lambda>k. k \<noteq> []) (map je_eventKey es)"

definition journal_ok :: "MatchState \<Rightarrow> bool" where
  "journal_ok st = (length (matchEvents st) \<le> 512 \<and> distinct (event_keys (matchEvents st)) \<and>
     set (event_keys (matchEvents st)) \<subseteq> eventNativeKeys st)"

text \<open>The boost the local player collected is part of the boost all players collected.\<close>

definition stats_ok :: "MatchStats \<Rightarrow> bool" where
  "stats_ok m = (0 \<le> ms_boostPickedUpSelf m \<and> ms_boostPickedUpSelf m \<le> ms_boostPickedUp m)"

text \<open>Whoever is in the roster is in the match's roster, and both have distinct non-empty keys.\<close>

definition rosters_ok :: "MatchState \<Rightarrow> bool" where
  "rosters_ok st = (um_inv (roster st) \<and> um_inv (matchRoster st) \<and> \<not> um_has (matchRoster st) [] \<and>
     (\<forall>pid. um_has (roster st) pid \<longrightarrow> um_has (matchRoster st) pid))"

text \<open>A match waiting for confirmation is filed under its own identifier.\<close>

definition pending_ok :: "(string, CapturedMatch) umap \<Rightarrow> bool" where
  "pending_ok m = (um_inv m \<and> (\<forall>g c. map_of m g = Some c \<longrightarrow> g \<noteq> [] \<and> cm_matchGuid c = g))"

text \<open>Goals the local player took part in are goals of the local team.\<close>

definition totals_ok :: "SessionTotals \<Rightarrow> bool" where
  "totals_ok t = (0 \<le> st_goalParticipations t \<and> st_goalParticipations t \<le> st_teamGoals t \<and>
     0 \<le> st_wins t \<and> 0 \<le> st_losses t)"

definition match_inv :: "MatchState \<Rightarrow> bool" where
  "match_inv st = (gens_ok st \<and> journal_ok st \<and> stats_ok (currentMatch st) \<and> rosters_ok st \<and>
     tracker_inv (analytics st) \<and> pending_ok (pendingDestroyedMatches st) \<and>
     totals_ok (sessionTotals st) \<and> totals_ok (rcp_totals (lastSessionRecap st)) \<and>
     distinct (sessionMatchGuids st))"

lemmas match_inv_defs = match_inv_def gens_ok_def journal_ok_def rosters_ok_def

text \<open>What a save settles.\<close>

definition saved_guid :: "SideEffects \<Rightarrow> string option" where
  "saved_guid fx =
     (if fx_saveMatch fx \<and> sv_matchGuid (fx_saveSnapshot fx) \<noteq> []
      then Some (sv_matchGuid (fx_saveSnapshot fx)) else None)"

text \<open>The effects that only the handlers named below set: the saves and the inactivity check.\<close>

definition fx_frame ::
    "SideEffects \<Rightarrow> bool \<times> MatchSaveSnapshot \<times> MatchSaveSnapshot option \<times> int option" where
  "fx_frame fx = (fx_saveMatch fx, fx_saveSnapshot fx, fx_provisionalSaveSnapshot fx,
     fx_closeSessionIfInactiveAtUnix fx)"

text \<open>The session: its totals, its matches and the recap of the session before.\<close>

definition session_part ::
    "MatchState \<Rightarrow> SessionTotals \<times> (string, GamemodeStat) umap \<times> string list \<times> int \<times> int \<times> 64 word \<times> SessionRecap" where
  "session_part st = (sessionTotals st, sessionGamemodes st, sessionMatchGuids st,
     sessionStartedAtUnix st, lastMatchEndedAtUnix st, sessionGeneration st, lastSessionRecap st)"

lemma match_inv_init: "match_inv MatchState0"
  by (simp add: match_inv_defs MatchState0_def event_keys_def stats_ok_def MatchStats0_def pending_ok_def
      totals_ok_def SessionTotals0_def SessionRecap0_def)

lemma stats_ok_init [simp]: "stats_ok MatchStats0"
  by (simp add: stats_ok_def MatchStats0_def)

lemma totals_ok_init [simp]: "totals_ok SessionTotals0"
  by (simp add: totals_ok_def SessionTotals0_def)

section \<open>Helpers that keep everything the invariants speak of\<close>

named_theorems keeps \<open>the invariant and the closed matches are as they were\<close>
named_theorems fx_keeps \<open>the saves and the inactivity check are as they were\<close>

text \<open>The fields the invariant does not speak of.\<close>

lemma match_inv_free [keeps]:
  "match_inv (st\<lparr>version := x0\<rparr>) = match_inv st"
  "match_inv (st\<lparr>inMatch := x1\<rparr>) = match_inv st"
  "match_inv (st\<lparr>inReplay := x2\<rparr>) = match_inv st"
  "match_inv (st\<lparr>myTeam := x3\<rparr>) = match_inv st"
  "match_inv (st\<lparr>myPrimaryId := x4\<rparr>) = match_inv st"
  "match_inv (st\<lparr>arenaName := x5\<rparr>) = match_inv st"
  "match_inv (st\<lparr>arenaAsset := x6\<rparr>) = match_inv st"
  "match_inv (st\<lparr>matchGuid := x7\<rparr>) = match_inv st"
  "match_inv (st\<lparr>playlistId := x8\<rparr>) = match_inv st"
  "match_inv (st\<lparr>score := x9\<rparr>) = match_inv st"
  "match_inv (st\<lparr>legacyMaxPlayersSeen := x10\<rparr>) = match_inv st"
  "match_inv (st\<lparr>roundEverStarted := x11\<rparr>) = match_inv st"
  "match_inv (st\<lparr>localPlayerWasActive := x12\<rparr>) = match_inv st"
  "match_inv (st\<lparr>localPlayerWasSpectator := x13\<rparr>) = match_inv st"
  "match_inv (st\<lparr>localPlayerPresenceObserved := x14\<rparr>) = match_inv st"
  "match_inv (st\<lparr>localPlayerPresentInLatestUpdate := x15\<rparr>) = match_inv st"
  "match_inv (st\<lparr>explicitLocalForfeit := x16\<rparr>) = match_inv st"
  "match_inv (st\<lparr>excludedEarlyExitContext := x17\<rparr>) = match_inv st"
  "match_inv (st\<lparr>earlyExitExclusionReason := x18\<rparr>) = match_inv st"
  "match_inv (st\<lparr>fallbackCasualContext := x19\<rparr>) = match_inv st"
  "match_inv (st\<lparr>fallbackNonRecordableContext := x20\<rparr>) = match_inv st"
  "match_inv (st\<lparr>fallbackNonRecordableReason := x21\<rparr>) = match_inv st"
  "match_inv (st\<lparr>legacyLobbyWasEverFull := x22\<rparr>) = match_inv st"
  "match_inv (st\<lparr>legacyCurrentTeamPlayersSeen := x23\<rparr>) = match_inv st"
  "match_inv (st\<lparr>legacyMaxTeamPlayersSeen := x24\<rparr>) = match_inv st"
  "match_inv (st\<lparr>lastMatchWasVoid := x25\<rparr>) = match_inv st"
  "match_inv (st\<lparr>lastMatchVoidReason := x26\<rparr>) = match_inv st"
  "match_inv (st\<lparr>matchSummaryScore := x27\<rparr>) = match_inv st"
  "match_inv (st\<lparr>matchSummaryMyTeam := x28\<rparr>) = match_inv st"
  "match_inv (st\<lparr>matchSummaryWinnerTeam := x29\<rparr>) = match_inv st"
  "match_inv (st\<lparr>matchSummaryOvertimeSeconds := x30\<rparr>) = match_inv st"
  "match_inv (st\<lparr>timeSeconds := x31\<rparr>) = match_inv st"
  "match_inv (st\<lparr>bOvertime := x32\<rparr>) = match_inv st"
  "match_inv (st\<lparr>lastGoalSpeed := x33\<rparr>) = match_inv st"
  "match_inv (st\<lparr>lastGoalSpeedSelf := x34\<rparr>) = match_inv st"
  "match_inv (st\<lparr>sessionGamemodes := x35\<rparr>) = match_inv st"
  "match_inv (st\<lparr>preMatchMmrByGuid := x36\<rparr>) = match_inv st"
  "match_inv (st\<lparr>matchFinalized := x37\<rparr>) = match_inv st"
  "match_inv (st\<lparr>sessionStartedAtUnix := x38\<rparr>) = match_inv st"
  "match_inv (st\<lparr>lastMatchEndedAtUnix := x39\<rparr>) = match_inv st"
  "match_inv (st\<lparr>sessionGeneration := x40\<rparr>) = match_inv st"
  "match_inv (st\<lparr>lastSavedMatchGuid := x41\<rparr>) = match_inv st"
  "match_inv (st\<lparr>hasObservedMatchClock := x42\<rparr>) = match_inv st"
  "match_inv (st\<lparr>lastMatchClockSampleAtMs := x43\<rparr>) = match_inv st"
  "match_inv (st\<lparr>lastEventSignature := x44\<rparr>) = match_inv st"
  "match_inv (st\<lparr>lastEventAtMs := x45\<rparr>) = match_inv st"
  "match_inv (st\<lparr>lastPlayerBoost := x46\<rparr>) = match_inv st"
  "match_inv (st\<lparr>boostRespawnPending := x47\<rparr>) = match_inv st"
  "match_inv (st\<lparr>finalizedMatchGuids := x48\<rparr>) = match_inv st"
  "match_inv (st\<lparr>missingGuidAssociationBlockedByReconnect := x49\<rparr>) = match_inv st"
  "match_inv (st\<lparr>nonLiveReplayActive := x50\<rparr>) = match_inv st"
  "match_inv (st\<lparr>lastPlayerSeenMs := x51\<rparr>) = match_inv st"
  "match_inv (st\<lparr>roundActive := x52\<rparr>) = match_inv st"
  "match_inv (st\<lparr>uiMatchGuid := x53\<rparr>) = match_inv st"
  "match_inv (st\<lparr>countdownSeenThisRound := x54\<rparr>) = match_inv st"
  "match_inv (st\<lparr>identityCandidates := x55\<rparr>) = match_inv st"
  "match_inv (st\<lparr>missedMyIdCount := x56\<rparr>) = match_inv st"
  "match_inv (st\<lparr>lastKnownMyId := x57\<rparr>) = match_inv st"
  "match_inv (st\<lparr>lastConfirmedLocalAccount := x58\<rparr>) = match_inv st"
  "match_inv (st\<lparr>autoSwitchedPlaylistCategory := x59\<rparr>) = match_inv st"
  "match_inv (st\<lparr>followedGraphPlaylistCategory := x60\<rparr>) = match_inv st"
  "match_inv (st\<lparr>regulationClockStart := x61\<rparr>) = match_inv st"
  "match_inv (st\<lparr>regulationClockLatest := x62\<rparr>) = match_inv st"
  "match_inv (st\<lparr>overtimeStartedAtMs := x63\<rparr>) = match_inv st"
  "match_inv (st\<lparr>currentPauseStartMs := x64\<rparr>) = match_inv st"
  "match_inv (st\<lparr>currentReducerNowMs := x65\<rparr>) = match_inv st"
  "match_inv (st\<lparr>pauseIntervals := x66\<rparr>) = match_inv st"
  "match_inv (st\<lparr>lastMatchStartMs := x67\<rparr>) = match_inv st"
  "match_inv (st\<lparr>firstCountdownOfMatchMs := x68\<rparr>) = match_inv st"
  "match_inv (st\<lparr>lastCountdownMs := x69\<rparr>) = match_inv st"
  "match_inv (st\<lparr>lastGoalMs := x70\<rparr>) = match_inv st"
  "match_inv (st\<lparr>lastMatchEndMs := x71\<rparr>) = match_inv st"
  "match_inv (st\<lparr>lastPodiumMs := x72\<rparr>) = match_inv st"
  "match_inv (st\<lparr>inGoalReplay := x73\<rparr>) = match_inv st"
  "match_inv (st\<lparr>showMatchSummary := x74\<rparr>) = match_inv st"
  "match_inv (st\<lparr>matchSummaryStartMs := x75\<rparr>) = match_inv st"
  "match_inv (st\<lparr>hideOverlayRequested := x76\<rparr>) = match_inv st"
  by (simp_all add: match_inv_defs)

lemma session_part_free [keeps]:
  "session_part (st\<lparr>version := x0\<rparr>) = session_part st"
  "session_part (st\<lparr>inMatch := x1\<rparr>) = session_part st"
  "session_part (st\<lparr>inReplay := x2\<rparr>) = session_part st"
  "session_part (st\<lparr>myTeam := x3\<rparr>) = session_part st"
  "session_part (st\<lparr>myPrimaryId := x4\<rparr>) = session_part st"
  "session_part (st\<lparr>arenaName := x5\<rparr>) = session_part st"
  "session_part (st\<lparr>arenaAsset := x6\<rparr>) = session_part st"
  "session_part (st\<lparr>matchGuid := x7\<rparr>) = session_part st"
  "session_part (st\<lparr>playlistId := x8\<rparr>) = session_part st"
  "session_part (st\<lparr>activeMatchGeneration := x9\<rparr>) = session_part st"
  "session_part (st\<lparr>score := x10\<rparr>) = session_part st"
  "session_part (st\<lparr>legacyMaxPlayersSeen := x11\<rparr>) = session_part st"
  "session_part (st\<lparr>roundEverStarted := x12\<rparr>) = session_part st"
  "session_part (st\<lparr>localPlayerWasActive := x13\<rparr>) = session_part st"
  "session_part (st\<lparr>localPlayerWasSpectator := x14\<rparr>) = session_part st"
  "session_part (st\<lparr>localPlayerPresenceObserved := x15\<rparr>) = session_part st"
  "session_part (st\<lparr>localPlayerPresentInLatestUpdate := x16\<rparr>) = session_part st"
  "session_part (st\<lparr>explicitLocalForfeit := x17\<rparr>) = session_part st"
  "session_part (st\<lparr>excludedEarlyExitContext := x18\<rparr>) = session_part st"
  "session_part (st\<lparr>earlyExitExclusionReason := x19\<rparr>) = session_part st"
  "session_part (st\<lparr>fallbackCasualContext := x20\<rparr>) = session_part st"
  "session_part (st\<lparr>fallbackNonRecordableContext := x21\<rparr>) = session_part st"
  "session_part (st\<lparr>fallbackNonRecordableReason := x22\<rparr>) = session_part st"
  "session_part (st\<lparr>legacyLobbyWasEverFull := x23\<rparr>) = session_part st"
  "session_part (st\<lparr>legacyCurrentTeamPlayersSeen := x24\<rparr>) = session_part st"
  "session_part (st\<lparr>legacyMaxTeamPlayersSeen := x25\<rparr>) = session_part st"
  "session_part (st\<lparr>lastMatchWasVoid := x26\<rparr>) = session_part st"
  "session_part (st\<lparr>lastMatchVoidReason := x27\<rparr>) = session_part st"
  "session_part (st\<lparr>matchSummaryScore := x28\<rparr>) = session_part st"
  "session_part (st\<lparr>matchSummaryMyTeam := x29\<rparr>) = session_part st"
  "session_part (st\<lparr>matchSummaryWinnerTeam := x30\<rparr>) = session_part st"
  "session_part (st\<lparr>matchSummaryOvertimeSeconds := x31\<rparr>) = session_part st"
  "session_part (st\<lparr>timeSeconds := x32\<rparr>) = session_part st"
  "session_part (st\<lparr>bOvertime := x33\<rparr>) = session_part st"
  "session_part (st\<lparr>currentMatch := x34\<rparr>) = session_part st"
  "session_part (st\<lparr>lastGoalSpeed := x35\<rparr>) = session_part st"
  "session_part (st\<lparr>lastGoalSpeedSelf := x36\<rparr>) = session_part st"
  "session_part (st\<lparr>roster := x37\<rparr>) = session_part st"
  "session_part (st\<lparr>matchRoster := x38\<rparr>) = session_part st"
  "session_part (st\<lparr>preMatchMmrByGuid := x39\<rparr>) = session_part st"
  "session_part (st\<lparr>matchFinalized := x40\<rparr>) = session_part st"
  "session_part (st\<lparr>lastSavedMatchGuid := x41\<rparr>) = session_part st"
  "session_part (st\<lparr>matchEvents := x42\<rparr>) = session_part st"
  "session_part (st\<lparr>eventNativeKeys := x43\<rparr>) = session_part st"
  "session_part (st\<lparr>hasObservedMatchClock := x44\<rparr>) = session_part st"
  "session_part (st\<lparr>lastMatchClockSampleAtMs := x45\<rparr>) = session_part st"
  "session_part (st\<lparr>lastEventSignature := x46\<rparr>) = session_part st"
  "session_part (st\<lparr>lastEventAtMs := x47\<rparr>) = session_part st"
  "session_part (st\<lparr>lastPlayerBoost := x48\<rparr>) = session_part st"
  "session_part (st\<lparr>boostRespawnPending := x49\<rparr>) = session_part st"
  "session_part (st\<lparr>pendingDestroyedMatches := x50\<rparr>) = session_part st"
  "session_part (st\<lparr>finalizedMatchGuids := x51\<rparr>) = session_part st"
  "session_part (st\<lparr>nextMatchGeneration := x52\<rparr>) = session_part st"
  "session_part (st\<lparr>missingGuidAssociationBlockedByReconnect := x53\<rparr>) = session_part st"
  "session_part (st\<lparr>nonLiveReplayActive := x54\<rparr>) = session_part st"
  "session_part (st\<lparr>lastPlayerSeenMs := x55\<rparr>) = session_part st"
  "session_part (st\<lparr>roundActive := x56\<rparr>) = session_part st"
  "session_part (st\<lparr>uiMatchGuid := x57\<rparr>) = session_part st"
  "session_part (st\<lparr>countdownSeenThisRound := x58\<rparr>) = session_part st"
  "session_part (st\<lparr>identityCandidates := x59\<rparr>) = session_part st"
  "session_part (st\<lparr>missedMyIdCount := x60\<rparr>) = session_part st"
  "session_part (st\<lparr>lastKnownMyId := x61\<rparr>) = session_part st"
  "session_part (st\<lparr>lastConfirmedLocalAccount := x62\<rparr>) = session_part st"
  "session_part (st\<lparr>autoSwitchedPlaylistCategory := x63\<rparr>) = session_part st"
  "session_part (st\<lparr>followedGraphPlaylistCategory := x64\<rparr>) = session_part st"
  "session_part (st\<lparr>regulationClockStart := x65\<rparr>) = session_part st"
  "session_part (st\<lparr>regulationClockLatest := x66\<rparr>) = session_part st"
  "session_part (st\<lparr>overtimeStartedAtMs := x67\<rparr>) = session_part st"
  "session_part (st\<lparr>currentPauseStartMs := x68\<rparr>) = session_part st"
  "session_part (st\<lparr>currentReducerNowMs := x69\<rparr>) = session_part st"
  "session_part (st\<lparr>pauseIntervals := x70\<rparr>) = session_part st"
  "session_part (st\<lparr>lastMatchStartMs := x71\<rparr>) = session_part st"
  "session_part (st\<lparr>firstCountdownOfMatchMs := x72\<rparr>) = session_part st"
  "session_part (st\<lparr>lastCountdownMs := x73\<rparr>) = session_part st"
  "session_part (st\<lparr>lastGoalMs := x74\<rparr>) = session_part st"
  "session_part (st\<lparr>lastMatchEndMs := x75\<rparr>) = session_part st"
  "session_part (st\<lparr>lastPodiumMs := x76\<rparr>) = session_part st"
  "session_part (st\<lparr>inGoalReplay := x77\<rparr>) = session_part st"
  "session_part (st\<lparr>showMatchSummary := x78\<rparr>) = session_part st"
  "session_part (st\<lparr>matchSummaryStartMs := x79\<rparr>) = session_part st"
  "session_part (st\<lparr>hideOverlayRequested := x80\<rparr>) = session_part st"
  "session_part (st\<lparr>analytics := x81\<rparr>) = session_part st"
  by (simp_all add: session_part_def)

lemma reset_timestamps_keeps [keeps]:
  "match_inv (reset_timestamps n st) = match_inv st"
  "finalizedMatchGuids (reset_timestamps n st) = finalizedMatchGuids st"
  "session_part (reset_timestamps n st) = session_part st"
  by (simp_all add: reset_timestamps_def match_inv_defs session_part_def)

lemma ResetTiming_keeps [keeps]:
  "match_inv (ResetTiming st) = match_inv st"
  "finalizedMatchGuids (ResetTiming st) = finalizedMatchGuids st"
  "session_part (ResetTiming st) = session_part st"
  by (simp_all add: ResetTiming_def match_inv_defs session_part_def)

lemma ResetMatch_keeps [keeps]:
  "match_inv st \<Longrightarrow> match_inv (ResetMatch a b st)"
  "finalizedMatchGuids (ResetMatch a b st) = finalizedMatchGuids st"
  "session_part (ResetMatch a b st) = session_part st"
  by (simp_all add: ResetMatch_def match_inv_defs session_part_def)

lemma AcceptsUiMatchEvent_keeps [keeps]:
  "match_inv (fst (AcceptsUiMatchEvent g n st fx)) = match_inv st"
  "finalizedMatchGuids (fst (AcceptsUiMatchEvent g n st fx)) = finalizedMatchGuids st"
  "session_part (fst (AcceptsUiMatchEvent g n st fx)) = session_part st"
  by (simp_all add: AcceptsUiMatchEvent_def reset_timestamps_def match_inv_defs session_part_def Let_def)

lemma TargetsCurrentActiveMatchUi_keeps [keeps]:
  "match_inv (fst (TargetsCurrentActiveMatchUi g st)) = match_inv st"
  "finalizedMatchGuids (fst (TargetsCurrentActiveMatchUi g st)) = finalizedMatchGuids st"
  "session_part (fst (TargetsCurrentActiveMatchUi g st)) = session_part st"
  by (simp_all add: TargetsCurrentActiveMatchUi_def match_inv_defs session_part_def)

lemma OnTelemetryDisconnected_keeps [keeps]:
  "match_inv (OnTelemetryDisconnected st) = match_inv st"
  "finalizedMatchGuids (OnTelemetryDisconnected st) = finalizedMatchGuids st"
  "session_part (OnTelemetryDisconnected st) = session_part st"
  by (simp_all add: OnTelemetryDisconnected_def match_inv_defs session_part_def)

lemma PublishUiTimestamps_keeps [keeps]:
  "match_inv (fst (PublishUiTimestamps st fx)) = match_inv st"
  "finalizedMatchGuids (fst (PublishUiTimestamps st fx)) = finalizedMatchGuids st"
  "session_part (fst (PublishUiTimestamps st fx)) = session_part st"
  by (simp_all add: PublishUiTimestamps_def match_inv_defs session_part_def Let_def)

lemma CapturePreMatchMmr_keeps [keeps]:
  "match_inv (CapturePreMatchMmr st) = match_inv st"
  "finalizedMatchGuids (CapturePreMatchMmr st) = finalizedMatchGuids st"
  "session_part (CapturePreMatchMmr st) = session_part st"
  by (simp_all add: CapturePreMatchMmr_def match_inv_defs session_part_def split: option.split)

lemma attach_guid_keeps [keeps]:
  "match_inv (attach_guid g st) = match_inv st"
  "finalizedMatchGuids (attach_guid g st) = finalizedMatchGuids st"
  "session_part (attach_guid g st) = session_part st"
  by (simp_all add: attach_guid_def keeps)

lemma AttachTerminalGuidToCurrent_keeps [keeps]:
  "match_inv (AttachTerminalGuidToCurrent g st) = match_inv st"
  "finalizedMatchGuids (AttachTerminalGuidToCurrent g st) = finalizedMatchGuids st"
  "session_part (AttachTerminalGuidToCurrent g st) = session_part st"
  by (simp_all add: AttachTerminalGuidToCurrent_def keeps)

lemma um_has_map [simp]: "um_has (map (\<lambda>(k, v). (k, f v)) m) k = um_has m k"
  by (simp add: um_has_def map_of_map[of f] comp_def)

lemma um_inv_map [simp]: "um_inv (map (\<lambda>(k, v). (k, f v)) m) = um_inv m"
  by (simp add: um_inv_def comp_def case_prod_unfold)

lemma RequeueEncounterRecords_keeps [keeps]:
  "match_inv (fst (RequeueEncounterRecords st fx)) = match_inv st"
  "finalizedMatchGuids (fst (RequeueEncounterRecords st fx)) = finalizedMatchGuids st"
  "session_part (fst (RequeueEncounterRecords st fx)) = session_part st"
  by (simp_all add: RequeueEncounterRecords_def match_inv_defs session_part_def)

lemma um_put_same_keys:
  "um_has m k \<Longrightarrow> um_has (um_put k v m) k' = um_has m k'"
  by (auto simp: um_simps)

lemma roster_put_keeps:
  "um_has (roster st) pid \<Longrightarrow> match_inv st \<Longrightarrow> match_inv (st\<lparr>roster := um_put pid p (roster st)\<rparr>)"
  by (simp add: match_inv_defs session_part_def um_put_same_keys um_inv_put)

lemma upd_player_keeps [keeps]:
  "match_inv st \<Longrightarrow> match_inv (upd_player pid f st)"
  "finalizedMatchGuids (upd_player pid f st) = finalizedMatchGuids st"
  "session_part (upd_player pid f st) = session_part st"
  by (auto simp: upd_player_def um_has_def session_part_def intro: roster_put_keeps split: option.split)


lemma fx_frame_free [fx_keeps]:
  "fx_frame (fx\<lparr>fx_pushDiscord := x0\<rparr>) = fx_frame fx"
  "fx_frame (fx\<lparr>fx_discordSnapshot := x1\<rparr>) = fx_frame fx"
  "fx_frame (fx\<lparr>fx_fetchLifetimeHistory := x2\<rparr>) = fx_frame fx"
  "fx_frame (fx\<lparr>fx_lifetimePrimaryId := x3\<rparr>) = fx_frame fx"
  "fx_frame (fx\<lparr>fx_lifetimeCategory := x4\<rparr>) = fx_frame fx"
  "fx_frame (fx\<lparr>fx_refreshDbStats := x5\<rparr>) = fx_frame fx"
  "fx_frame (fx\<lparr>fx_refreshStatsPrimaryId := x6\<rparr>) = fx_frame fx"
  "fx_frame (fx\<lparr>fx_fetchMmrQueue := x7\<rparr>) = fx_frame fx"
  "fx_frame (fx\<lparr>fx_postMatchMmrRefresh := x8\<rparr>) = fx_frame fx"
  "fx_frame (fx\<lparr>fx_pendingDestroyedMatch := x9\<rparr>) = fx_frame fx"
  "fx_frame (fx\<lparr>fx_pendingMatchHistory := x10\<rparr>) = fx_frame fx"
  "fx_frame (fx\<lparr>fx_resolvedDestroyedMatch := x11\<rparr>) = fx_frame fx"
  "fx_frame (fx\<lparr>fx_fetchEncounterQueue := x12\<rparr>) = fx_frame fx"
  "fx_frame (fx\<lparr>fx_persistSession := x13\<rparr>) = fx_frame fx"
  "fx_frame (fx\<lparr>fx_updateSession := x14\<rparr>) = fx_frame fx"
  "fx_frame (fx\<lparr>fx_confirmedLocalAccount := x15\<rparr>) = fx_frame fx"
  "fx_frame (fx\<lparr>fx_persistLocalPrimaryId := x16\<rparr>) = fx_frame fx"
  "fx_frame (fx\<lparr>fx_selectMmrOwner := x17\<rparr>) = fx_frame fx"
  "fx_frame (fx\<lparr>fx_uiUpdate := x18\<rparr>) = fx_frame fx"
  by (simp_all add: fx_frame_def)

lemma push_discord_frame [fx_keeps]: "fx_frame (push_discord st fx) = fx_frame fx"
  by (simp add: push_discord_def fx_frame_def)

lemma helpers_frame [fx_keeps]:
  "fx_frame (fst (snd (AcceptsUiMatchEvent g n st fx))) = fx_frame fx"
  "fx_frame (snd (PublishUiTimestamps st fx)) = fx_frame fx"
  "fx_frame (snd (RequeueEncounterRecords st fx)) = fx_frame fx"
  by (simp_all add: AcceptsUiMatchEvent_def PublishUiTimestamps_def RequeueEncounterRecords_def
      fx_frame_def Let_def)

section \<open>Statistics\<close>

lemma event_keys_simps [simp]:
  "event_keys [] = []"
  "event_keys (xs @ ys) = event_keys xs @ event_keys ys"
  "event_keys (e # es) = (if je_eventKey e = [] then event_keys es else je_eventKey e # event_keys es)"
  by (simp_all add: event_keys_def)

lemma journal_key_nonempty [simp]: "journal_key s ty e \<noteq> []"
  by (simp add: journal_key_def)

lemma RecordJournalEvent_keeps [keeps]:
  "match_inv st \<Longrightarrow> match_inv (RecordJournalEvent ctx ty g a an b bn src n s v w e st)"
  "finalizedMatchGuids (RecordJournalEvent ctx ty g a an b bn src n s v w e st) = finalizedMatchGuids st"
  "session_part (RecordJournalEvent ctx ty g a an b bn src n s v w e st) = session_part st"
  by (auto simp: RecordJournalEvent_def journal_blocked_def Let_def match_inv_defs session_part_def)

lemma currentMatch_keeps:
  "match_inv st \<Longrightarrow> ms_boostPickedUp m = ms_boostPickedUp (currentMatch st) \<Longrightarrow>
   ms_boostPickedUpSelf m = ms_boostPickedUpSelf (currentMatch st) \<Longrightarrow>
   match_inv (st\<lparr>currentMatch := m\<rparr>)"
  by (simp add: match_inv_defs session_part_def stats_ok_def)

lemma count_statfeed_keeps [keeps]:
  "match_inv st \<Longrightarrow> match_inv (count_statfeed e a b c d st)"
  "finalizedMatchGuids (count_statfeed e a b c d st) = finalizedMatchGuids st"
  "session_part (count_statfeed e a b c d st) = session_part st"
  by (simp_all add: count_statfeed_def Let_def keeps currentMatch_keeps)

lemma HandleStatfeed_keeps [keeps]:
  "match_inv st \<Longrightarrow> match_inv (HandleStatfeed ev ctx st)"
  "finalizedMatchGuids (HandleStatfeed ev ctx st) = finalizedMatchGuids st"
  "session_part (HandleStatfeed ev ctx st) = session_part st"
  by (simp_all add: HandleStatfeed_def Let_def keeps)

lemma goal_ui_keeps [keeps]:
  "match_inv (fst (goal_ui ev n st fx)) = match_inv st"
  "finalizedMatchGuids (fst (goal_ui ev n st fx)) = finalizedMatchGuids st"
  "session_part (fst (goal_ui ev n st fx)) = session_part st"
  using AcceptsUiMatchEvent_keeps[of "gs_matchGuid ev" n st fx]
  by (simp_all add: goal_ui_def Let_def case_prod_unfold keeps)

lemma goal_speed_keeps [keeps]:
  "match_inv st \<Longrightarrow> match_inv (goal_speed ev b pid st)"
  "finalizedMatchGuids (goal_speed ev b pid st) = finalizedMatchGuids st"
  "session_part (goal_speed ev b pid st) = session_part st"
  by (simp_all add: goal_speed_def Let_def keeps currentMatch_keeps split: option.split)

lemma goal_time_keeps [keeps]:
  "match_inv st \<Longrightarrow> match_inv (goal_time ev b pid st)"
  "finalizedMatchGuids (goal_time ev b pid st) = finalizedMatchGuids st"
  "session_part (goal_time ev b pid st) = session_part st"
  by (simp_all add: goal_time_def Let_def keeps currentMatch_keeps split: option.split)

lemma count_goal_keeps [keeps]:
  "match_inv st \<Longrightarrow> match_inv (count_goal ev ctx st)"
  "finalizedMatchGuids (count_goal ev ctx st) = finalizedMatchGuids st"
  "session_part (count_goal ev ctx st) = session_part st"
  by (simp_all add: count_goal_def Let_def keeps currentMatch_keeps)

lemma HandleGoalScored_keeps [keeps]:
  "match_inv st \<Longrightarrow> match_inv (fst (HandleGoalScored ev ctx st fx))"
  "finalizedMatchGuids (fst (HandleGoalScored ev ctx st fx)) = finalizedMatchGuids st"
  "session_part (fst (HandleGoalScored ev ctx st fx)) = session_part st"
  using goal_ui_keeps[of ev "now_ms ctx" st fx]
  by (simp_all add: HandleGoalScored_def Let_def keeps case_prod_unfold)

lemma HandleGoalScored_frame [fx_keeps]: "fx_frame (snd (HandleGoalScored ev ctx st fx)) = fx_frame fx"
proof -
  have "fx_frame (snd (goal_ui ev (now_ms ctx) st fx)) = fx_frame fx"
    using helpers_frame(1)[of "gs_matchGuid ev" "now_ms ctx" st fx]
    by (auto simp: goal_ui_def fx_frame_def split: prod.split)
  then show ?thesis by (simp add: HandleGoalScored_def Let_def fx_keeps case_prod_unfold)
qed

lemma HandleBallHit_keeps [keeps]:
  "match_inv st \<Longrightarrow> match_inv (HandleBallHit ev st)"
  "finalizedMatchGuids (HandleBallHit ev st) = finalizedMatchGuids st"
  "session_part (HandleBallHit ev st) = session_part st"
  by (simp_all add: HandleBallHit_def Let_def currentMatch_keeps session_part_def)

lemma HandleCrossbarHit_keeps [keeps]:
  "match_inv st \<Longrightarrow> match_inv (HandleCrossbarHit ev ctx st)"
  "finalizedMatchGuids (HandleCrossbarHit ev ctx st) = finalizedMatchGuids st"
  "session_part (HandleCrossbarHit ev ctx st) = session_part st"
  by (simp_all add: HandleCrossbarHit_def Let_def keeps currentMatch_keeps split: option.split)

section \<open>The state update\<close>

lemma UpdateLifecycleSignals_keeps [keeps]:
  "match_inv (UpdateLifecycleSignals ev st) = match_inv st"
  "finalizedMatchGuids (UpdateLifecycleSignals ev st) = finalizedMatchGuids st"
  "session_part (UpdateLifecycleSignals ev st) = session_part st"
  by (simp_all add: UpdateLifecycleSignals_def playlist_signals_def fallback_signals_def exclude_def
      keeps Let_def split: option.split)

lemma stage_begin_keeps [keeps]:
  "match_inv (fst (stage_begin ev n st fx)) = match_inv st"
  "finalizedMatchGuids (fst (stage_begin ev n st fx)) = finalizedMatchGuids st"
  "session_part (fst (stage_begin ev n st fx)) = session_part st"
  using AcceptsUiMatchEvent_keeps[of "us_matchGuid ev" n st fx]
  by (simp_all add: stage_begin_def Let_def case_prod_unfold match_inv_defs session_part_def)

lemma stage_begin_frame [fx_keeps]: "fx_frame (snd (stage_begin ev n st fx)) = fx_frame fx"
  by (simp add: stage_begin_def Let_def case_prod_unfold fx_keeps)

lemma stage_overtime_keeps [keeps]:
  "match_inv (stage_overtime ev n st) = match_inv st"
  "finalizedMatchGuids (stage_overtime ev n st) = finalizedMatchGuids st"
  "session_part (stage_overtime ev n st) = session_part st"
  by (simp_all add: stage_overtime_def match_inv_defs session_part_def)

lemma stage_clock_keeps [keeps]:
  "match_inv (stage_clock ev n st) = match_inv st"
  "finalizedMatchGuids (stage_clock ev n st) = finalizedMatchGuids st"
  "session_part (stage_clock ev n st) = session_part st"
  by (simp_all add: stage_clock_def match_inv_defs session_part_def Let_def split: option.split)

lemma fresh_lifecycle_keeps [keeps]:
  "match_inv st \<Longrightarrow> match_inv (fresh_lifecycle st)"
  "finalizedMatchGuids (fresh_lifecycle st) = finalizedMatchGuids st"
  "session_part (fresh_lifecycle st) = session_part st"
  by (simp_all add: fresh_lifecycle_def match_inv_defs session_part_def)

lemma arena_lifecycle_keeps [keeps]:
  "match_inv st \<Longrightarrow> match_inv (arena_new_lifecycle n st)"
  "finalizedMatchGuids (arena_new_lifecycle n st) = finalizedMatchGuids st"
  "session_part (arena_new_lifecycle n st) = session_part st"
  "match_inv (arena_same_lifecycle ev n old st) = match_inv st"
  "finalizedMatchGuids (arena_same_lifecycle ev n old st) = finalizedMatchGuids st"
  "session_part (arena_same_lifecycle ev n old st) = session_part st"
  by (simp_all add: arena_new_lifecycle_def fresh_lifecycle_def reset_timestamps_def keeps)
    (simp_all add: arena_same_lifecycle_def match_inv_defs session_part_def)

lemma arena_change_keeps [keeps]:
  "match_inv st \<Longrightarrow> match_inv (fst (arena_change ev n a b c st fx))"
  "finalizedMatchGuids (fst (arena_change ev n a b c st fx)) = finalizedMatchGuids st"
  "session_part (fst (arena_change ev n a b c st fx)) = session_part st"
  by (simp_all add: arena_change_def Let_def keeps)

lemma arena_change_frame [fx_keeps]: "fx_frame (snd (arena_change ev n a b c st fx)) = fx_frame fx"
  by (simp add: arena_change_def Let_def fx_keeps)

lemma stage_arena_keeps [keeps]:
  "match_inv st \<Longrightarrow> match_inv (fst (stage_arena ev n st fx))"
  "finalizedMatchGuids (fst (stage_arena ev n st fx)) = finalizedMatchGuids st"
  "session_part (fst (stage_arena ev n st fx)) = session_part st"
  by (simp_all add: stage_arena_def Let_def keeps)

lemma stage_arena_frame [fx_keeps]: "fx_frame (snd (stage_arena ev n st fx)) = fx_frame fx"
  by (simp add: stage_arena_def Let_def fx_keeps)

lemma store_initial_mmr_keeps [keeps]:
  "match_inv (store_initial_mmr g s st) = match_inv st"
  "finalizedMatchGuids (store_initial_mmr g s st) = finalizedMatchGuids st"
  "session_part (store_initial_mmr g s st) = session_part st"
  by (simp_all add: store_initial_mmr_def match_inv_defs session_part_def split: option.split)

lemma playlist_transition_keeps [keeps]:
  "match_inv st \<Longrightarrow> match_inv (playlist_transition n st)"
  "finalizedMatchGuids (playlist_transition n st) = finalizedMatchGuids st"
  "session_part (playlist_transition n st) = session_part st"
  by (simp_all add: playlist_transition_def Let_def keeps)

lemma stage_playlist_keeps [keeps]:
  "match_inv st \<Longrightarrow> match_inv (stage_playlist ev n st)"
  "finalizedMatchGuids (stage_playlist ev n st) = finalizedMatchGuids st"
  "session_part (stage_playlist ev n st) = session_part st"
  by (simp_all add: stage_playlist_def Let_def keeps split: option.split)

lemma stage_team_counts_keeps [keeps]:
  "match_inv (stage_team_counts ev st) = match_inv st"
  "finalizedMatchGuids (stage_team_counts ev st) = finalizedMatchGuids st"
  "session_part (stage_team_counts ev st) = session_part st"
  by (simp_all add: stage_team_counts_def match_inv_defs session_part_def Let_def)

lemma stage_boost_keeps [keeps]:
  "match_inv st \<Longrightarrow> match_inv (stage_boost p st)"
  "finalizedMatchGuids (stage_boost p st) = finalizedMatchGuids st"
  "session_part (stage_boost p st) = session_part st"
  by (auto simp: stage_boost_def boost_change_def match_inv_defs session_part_def stats_ok_def Let_def split: option.split)

lemma stage_roster_keeps [keeps]:
  "match_inv st \<Longrightarrow> up_primaryId p \<noteq> [] \<Longrightarrow> match_inv (fst (stage_roster p st fx))"
  "finalizedMatchGuids (fst (stage_roster p st fx)) = finalizedMatchGuids st"
  "session_part (fst (stage_roster p st fx)) = session_part st"
  by (simp_all add: stage_roster_def match_inv_defs session_part_def Let_def case_prod_unfold um_simps)

lemma stage_roster_frame [fx_keeps]: "fx_frame (snd (stage_roster p st fx)) = fx_frame fx"
  by (simp add: stage_roster_def fx_frame_def Let_def split: option.split)

lemma stage_player_keeps [keeps]:
  "match_inv (fst sf) \<Longrightarrow> match_inv (fst (stage_player p sf))"
  "finalizedMatchGuids (fst (stage_player p sf)) = finalizedMatchGuids (fst sf)"
  "session_part (fst (stage_player p sf)) = session_part (fst sf)"
  "fx_frame (snd (stage_player p sf)) = fx_frame (snd sf)"
  by (simp_all add: stage_player_def Let_def keeps fx_keeps)

lemma stage_players_keeps [keeps]:
  "match_inv (fst sf) \<Longrightarrow> match_inv (fst (fold stage_player ps sf))"
  "finalizedMatchGuids (fst (fold stage_player ps sf)) = finalizedMatchGuids (fst sf)"
  "session_part (fst (fold stage_player ps sf)) = session_part (fst sf)"
  by (induction ps arbitrary: sf) (simp_all add: keeps)

lemma stage_players_frame [fx_keeps]: "fx_frame (snd (fold stage_player ps sf)) = fx_frame (snd sf)"
  by (induction ps arbitrary: sf) (simp_all add: keeps)

lemma request_account_refresh_frame [fx_keeps]:
  "fx_frame (request_account_refresh ctx pid fx) = fx_frame fx"
  by (simp add: request_account_refresh_def fx_frame_def)

lemma roster_put_keeps':
  "match_inv st \<Longrightarrow> r = roster st \<Longrightarrow> map_of r pid = Some q \<Longrightarrow>
   match_inv (st\<lparr>roster := um_put pid p r\<rparr>)"
  by (simp add: roster_put_keeps um_has_def)

lemma adopt_identity_keeps [keeps]:
  "match_inv st \<Longrightarrow> match_inv (fst (adopt_identity ctx ps pid st fx))"
  "finalizedMatchGuids (fst (adopt_identity ctx ps pid st fx)) = finalizedMatchGuids st"
  "session_part (fst (adopt_identity ctx ps pid st fx)) = session_part st"
  by (auto simp: adopt_identity_def Let_def case_prod_unfold keeps intro!: roster_put_keeps' split: option.split)

lemma adopt_identity_frame [fx_keeps]: "fx_frame (snd (adopt_identity ctx ps pid st fx)) = fx_frame fx"
  by (simp add: adopt_identity_def Let_def case_prod_unfold fx_keeps split: option.split)

lemma scan_player_keeps [keeps]:
  "match_inv (fst (scan_player ctx cam saved p acc)) = match_inv (fst acc)"
  "finalizedMatchGuids (fst (scan_player ctx cam saved p acc)) = finalizedMatchGuids (fst acc)"
  "session_part (fst (scan_player ctx cam saved p acc)) = session_part (fst acc)"
  "fx_frame (fst (snd (scan_player ctx cam saved p acc))) = fx_frame (fst (snd acc))"
  by (simp_all add: scan_player_def Let_def case_prod_unfold keeps fx_keeps)

lemma scan_players_keeps [keeps]:
  "match_inv (fst (fold (scan_player ctx cam saved) ps acc)) = match_inv (fst acc)"
  "finalizedMatchGuids (fst (fold (scan_player ctx cam saved) ps acc)) = finalizedMatchGuids (fst acc)"
  "session_part (fst (fold (scan_player ctx cam saved) ps acc)) = session_part (fst acc)"
  "fx_frame (fst (snd (fold (scan_player ctx cam saved) ps acc))) = fx_frame (fst (snd acc))"
  by (induction ps arbitrary: acc) (simp_all add: keeps)

lemma identity_switch_keeps [keeps]:
  "match_inv st \<Longrightarrow> match_inv (fst (identity_switch ctx ps saved seen cands st fx))"
  "finalizedMatchGuids (fst (identity_switch ctx ps saved seen cands st fx)) = finalizedMatchGuids st"
  "session_part (fst (identity_switch ctx ps saved seen cands st fx)) = session_part st"
  "fx_frame (snd (identity_switch ctx ps saved seen cands st fx)) = fx_frame fx"
  by (simp_all add: identity_switch_def Let_def case_prod_unfold keeps fx_keeps)

lemma identity_missed_keeps [keeps]:
  "match_inv (fst (identity_missed saved seen st fx)) = match_inv st"
  "finalizedMatchGuids (fst (identity_missed saved seen st fx)) = finalizedMatchGuids st"
  "session_part (fst (identity_missed saved seen st fx)) = session_part st"
  "fx_frame (fst (snd (identity_missed saved seen st fx))) = fx_frame fx"
  by (simp_all add: identity_missed_def Let_def keeps fx_keeps)

lemma identity_eliminate_keeps [keeps]:
  "match_inv st \<Longrightarrow> match_inv (fst (identity_eliminate ctx ps saved cands st fx))"
  "finalizedMatchGuids (fst (identity_eliminate ctx ps saved cands st fx)) = finalizedMatchGuids st"
  "session_part (fst (identity_eliminate ctx ps saved cands st fx)) = session_part st"
  "fx_frame (snd (identity_eliminate ctx ps saved cands st fx)) = fx_frame fx"
  by (simp_all add: identity_eliminate_def Let_def keeps fx_keeps)

lemma identity_confirm_keeps [keeps]:
  "match_inv (fst (identity_confirm cands st fx)) = match_inv st"
  "finalizedMatchGuids (fst (identity_confirm cands st fx)) = finalizedMatchGuids st"
  "session_part (fst (identity_confirm cands st fx)) = session_part st"
  "fx_frame (snd (identity_confirm cands st fx)) = fx_frame fx"
  by (simp_all add: identity_confirm_def Let_def keeps fx_keeps)

lemma note_saved_id_keeps [keeps]:
  "match_inv (note_saved_id st) = match_inv st"
  "finalizedMatchGuids (note_saved_id st) = finalizedMatchGuids st"
  "session_part (note_saved_id st) = session_part st"
  by (simp_all add: note_saved_id_def keeps)

lemma stage_identity_keeps [keeps]:
  "match_inv st \<Longrightarrow> match_inv (fst (stage_identity ev ctx st fx))"
  "finalizedMatchGuids (fst (stage_identity ev ctx st fx)) = finalizedMatchGuids st"
  "session_part (fst (stage_identity ev ctx st fx)) = session_part st"
  "fx_frame (snd (stage_identity ev ctx st fx)) = fx_frame fx"
proof -
  obtain s1 f1 seen cands where scan: "fold (scan_player ctx (us_cameraTargetPlayerId ev) (myPrimaryId st))
      (us_players ev) (note_saved_id st, fx, False, []) = (s1, f1, seen, cands)" by (rule prod_cases4)
  note s1 = scan_players_keeps[of ctx "us_cameraTargetPlayerId ev" "myPrimaryId st" "us_players ev"
      "(note_saved_id st, fx, False, [])", unfolded scan fst_conv snd_conv keeps]
  show "match_inv st \<Longrightarrow> match_inv (fst (stage_identity ev ctx st fx))"
    "finalizedMatchGuids (fst (stage_identity ev ctx st fx)) = finalizedMatchGuids st"
    "session_part (fst (stage_identity ev ctx st fx)) = session_part st"
    "fx_frame (snd (stage_identity ev ctx st fx)) = fx_frame fx"
    by (simp_all add: stage_identity_def scan s1 Let_def case_prod_unfold keeps)
qed

lemma upd_ui_frame [fx_keeps]: "fx_frame (upd_ui f fx) = fx_frame fx"
  by (simp add: upd_ui_def fx_frame_def)

lemma follow_keeps [keeps]:
  "match_inv (fst (follow_roster ctx c st fx)) = match_inv st"
  "finalizedMatchGuids (fst (follow_roster ctx c st fx)) = finalizedMatchGuids st"
  "session_part (fst (follow_roster ctx c st fx)) = session_part st"
  "fx_frame (snd (follow_roster ctx c st fx)) = fx_frame fx"
  "match_inv (fst (follow_graph ctx c st fx)) = match_inv st"
  "finalizedMatchGuids (fst (follow_graph ctx c st fx)) = finalizedMatchGuids st"
  "session_part (fst (follow_graph ctx c st fx)) = session_part st"
  "fx_frame (snd (follow_graph ctx c st fx)) = fx_frame fx"
  by (simp_all add: follow_roster_def follow_graph_def Let_def keeps fx_keeps)

lemma follow_rank_frame [fx_keeps]: "fx_frame (follow_rank ctx c st fx) = fx_frame fx"
  by (simp add: follow_rank_def Let_def fx_keeps)

lemma stage_categories_keeps [keeps]:
  "match_inv (fst (stage_categories ctx st fx)) = match_inv st"
  "finalizedMatchGuids (fst (stage_categories ctx st fx)) = finalizedMatchGuids st"
  "session_part (fst (stage_categories ctx st fx)) = session_part st"
  "fx_frame (snd (stage_categories ctx st fx)) = fx_frame fx"
  by (simp_all add: stage_categories_def Let_def case_prod_unfold keeps fx_keeps)

lemma prune_entry_keeps:
  "match_inv st \<Longrightarrow> fst e \<noteq> [] \<Longrightarrow> match_inv (prune_entry n e st)"
  "finalizedMatchGuids (prune_entry n e st) = finalizedMatchGuids st"
  "session_part (prune_entry n e st) = session_part st"
  by (auto simp: prune_entry_def match_inv_defs session_part_def case_prod_unfold um_simps split: option.split)

lemma fold_prune_keeps:
  "match_inv st \<Longrightarrow> [] \<notin> fst ` set es \<Longrightarrow> match_inv (fold (prune_entry n) es st)"
  "finalizedMatchGuids (fold (prune_entry n) es st) = finalizedMatchGuids st"
  "session_part (fold (prune_entry n) es st) = session_part st"
  by (induction es arbitrary: st) (auto simp: prune_entry_keeps)

lemma roster_keys_nonempty: "match_inv st \<Longrightarrow> [] \<notin> fst ` set (roster st)"
  by (auto simp: match_inv_def rosters_ok_def um_has_keys)

lemma stage_prune_keeps [keeps]:
  "match_inv st \<Longrightarrow> match_inv (stage_prune n st)"
  "finalizedMatchGuids (stage_prune n st) = finalizedMatchGuids st"
  "session_part (stage_prune n st) = session_part st"
  by (simp_all add: stage_prune_def fold_prune_keeps roster_keys_nonempty)

lemma stage_upkeep_keeps [keeps]:
  "match_inv (stage_last_seen ev n st) = match_inv st"
  "finalizedMatchGuids (stage_last_seen ev n st) = finalizedMatchGuids st"
  "session_part (stage_last_seen ev n st) = session_part st"
  "match_inv (stage_lobby_full ctx st) = match_inv st"
  "finalizedMatchGuids (stage_lobby_full ctx st) = finalizedMatchGuids st"
  "session_part (stage_lobby_full ctx st) = session_part st"
  "match_inv (stage_self_active ev st) = match_inv st"
  "finalizedMatchGuids (stage_self_active ev st) = finalizedMatchGuids st"
  "session_part (stage_self_active ev st) = session_part st"
  "match_inv (stage_presence ev st) = match_inv st"
  "finalizedMatchGuids (stage_presence ev st) = finalizedMatchGuids st"
  "session_part (stage_presence ev st) = session_part st"
  by (simp_all add: stage_last_seen_def stage_lobby_full_def stage_self_active_def stage_presence_def
      self_stats_def match_inv_defs session_part_def stats_ok_def Let_def split: option.split)

lemma stage_common_keeps [keeps]:
  "match_inv st \<Longrightarrow> match_inv (fst (stage_common ev ctx st fx))"
  "finalizedMatchGuids (fst (stage_common ev ctx st fx)) = finalizedMatchGuids st"
  "session_part (fst (stage_common ev ctx st fx)) = session_part st"
  "fx_frame (snd (stage_common ev ctx st fx)) = fx_frame fx"
  by (simp_all add: stage_common_def Let_def case_prod_unfold keeps fx_keeps)

lemma stage_live_keeps [keeps]:
  "match_inv st \<Longrightarrow> match_inv (fst (stage_live ev ctx st fx))"
  "finalizedMatchGuids (fst (stage_live ev ctx st fx)) = finalizedMatchGuids st"
  "session_part (fst (stage_live ev ctx st fx)) = session_part st"
  "fx_frame (snd (stage_live ev ctx st fx)) = fx_frame fx"
  by (simp_all add: stage_live_def Let_def case_prod_unfold keeps fx_keeps)

lemma HandleUpdateState_keeps [keeps]:
  "match_inv st \<Longrightarrow> match_inv (fst (HandleUpdateState ev ctx st fx))"
  "finalizedMatchGuids (fst (HandleUpdateState ev ctx st fx)) = finalizedMatchGuids st"
  "session_part (fst (HandleUpdateState ev ctx st fx)) = session_part st"
  "fx_frame (snd (HandleUpdateState ev ctx st fx)) = fx_frame fx"
  by (simp_all add: HandleUpdateState_def Let_def case_prod_unfold keeps)

end
