(* ===== verification/Match_Ledger.thy ===== *)
theory Match_Ledger
  imports Match_Invariant
begin

text \<open>
  The invariants and the ledger of saved matches across whole steps: every event, confirmation and
  disconnect of the reducer, every operation of the store, and every step of the client keep
  \<open>match_inv\<close>, and a match identifier is saved with a final result at most once.
\<close>

section \<open>What a step may settle\<close>

text \<open>
  Between the closed identifiers before (\<open>F\<close>) and after (\<open>F'\<close>) a step: no identifier is
  reopened, a final save closes an identifier that was open, and a provisional save is marked so.
\<close>

definition settled ::
    "string set \<Rightarrow> string set \<Rightarrow> bool \<times> MatchSaveSnapshot \<times> MatchSaveSnapshot option \<times> int option \<Rightarrow> bool" where
  "settled F F' fr =
     (let (save, final, provisional, closing) = fr in
      F \<subseteq> F' \<and>
      (save \<longrightarrow> \<not> sv_resultPending final \<and>
        (sv_matchGuid final \<noteq> [] \<longrightarrow> sv_matchGuid final \<notin> F \<and> sv_matchGuid final \<in> F')) \<and>
      (\<forall>s. provisional = Some s \<longrightarrow> sv_resultPending s))"

text \<open>Between the sessions before and after: it is the same session, and only a save counts a game.\<close>

definition played :: "SessionTotals \<Rightarrow> int" where
  "played t = st_wins t + st_losses t"

definition booked ::
    "SessionTotals \<times> (string, GamemodeStat) umap \<times> string list \<times> int \<times> int \<times> 64 word \<times> SessionRecap \<Rightarrow>
     SessionTotals \<times> (string, GamemodeStat) umap \<times> string list \<times> int \<times> int \<times> 64 word \<times> SessionRecap \<Rightarrow>
     bool \<Rightarrow> bool" where
  "booked P P' save =
     (let (t, m, gs, a, b, gen, recap) = P; (t', m', gs', a', b', gen', recap') = P' in
      gen' = gen \<and> (\<not> save \<longrightarrow> P' = P) \<and> (played t' = played t \<or> played t' = played t + 1))"

lemma booked_same [simp]: "booked P P save"
  by (simp add: booked_def split: prod.split)

definition quiet :: "SideEffects \<Rightarrow> bool" where
  "quiet fx = (\<not> fx_saveMatch fx \<and> fx_provisionalSaveSnapshot fx = None)"

lemma quiet_settled: "quiet fx \<Longrightarrow> settled F F (fx_frame fx)"
  by (simp add: settled_def quiet_def fx_frame_def)

lemma quiet_init [simp]: "quiet SideEffects0"
  by (simp add: quiet_def SideEffects0_def)

lemma quiet_frame: "fx_frame fx = fx_frame fx' \<Longrightarrow> quiet fx = quiet fx'"
  by (simp add: quiet_def fx_frame_def)

section \<open>Totals\<close>

lemma add_counters_ok [simp]: "totals_ok (add_counters c t) = totals_ok t"
  by (simp add: add_counters_def totals_ok_def)

lemma add_records_ok [simp]: "totals_ok (add_records c t) = totals_ok t"
  by (simp add: add_records_def totals_ok_def)

lemma add_participation_ok: "totals_ok t \<Longrightarrow> totals_ok (add_participation m t)"
  by (auto simp: add_participation_def totals_ok_def clamp_int_def Let_def)

lemma add_result_ok: "totals_ok t \<Longrightarrow> totals_ok (add_result w t)"
  by (simp add: add_result_def totals_ok_def)

lemma AddMatchToSessionTotals_ok:
  "totals_ok (fst tg) \<Longrightarrow> totals_ok (fst (AddMatchToSessionTotals m w tg))"
  by (simp add: AddMatchToSessionTotals_def add_participation_ok add_result_ok)

section \<open>The end of a match\<close>

lemma RecordTerminalMatchGuid_inv [keeps]:
  "match_inv (RecordTerminalMatchGuid g st) = match_inv st"
  "session_part (RecordTerminalMatchGuid g st) = session_part st"
  by (simp_all add: RecordTerminalMatchGuid_def keeps)

lemma RecordTerminalMatchGuid_closed:
  "finalizedMatchGuids (RecordTerminalMatchGuid g st) = finalizedMatchGuids st \<union> ({g} - {[]})"
  by (auto simp: RecordTerminalMatchGuid_def)

lemma MarkDestroyedMatchVoid_keeps [keeps]:
  "match_inv (fst (MarkDestroyedMatchVoid r st fx)) = match_inv st"
  "finalizedMatchGuids (fst (MarkDestroyedMatchVoid r st fx)) =
     finalizedMatchGuids st \<union> ({matchGuid st} - {[]})"
  "session_part (fst (MarkDestroyedMatchVoid r st fx)) = session_part st"
  "fx_frame (snd (MarkDestroyedMatchVoid r st fx)) = fx_frame fx"
  by (simp_all add: MarkDestroyedMatchVoid_def Let_def keeps fx_keeps RecordTerminalMatchGuid_closed)

lemma summarise_keeps [keeps]:
  "match_inv (fst (summarise m w d ctx st fx)) = match_inv st"
  "finalizedMatchGuids (fst (summarise m w d ctx st fx)) = finalizedMatchGuids st"
  "session_part (fst (summarise m w d ctx st fx)) = session_part st"
  "fx_frame (snd (summarise m w d ctx st fx)) = fx_frame fx"
  by (simp_all add: summarise_def Let_def keeps fx_keeps)

lemma book_session_keeps [keeps]:
  "match_inv st \<Longrightarrow> match_inv (book_session m w st)"
  "finalizedMatchGuids (book_session m w st) = finalizedMatchGuids st"
  using AddMatchToSessionTotals_ok[of "(sessionTotals st, sessionGamemodes st)" m w]
  by (simp_all add: book_session_def Let_def case_prod_unfold match_inv_defs add_guid_distinct)

lemma book_match_keeps [keeps]:
  "match_inv st \<Longrightarrow> match_inv (fst (book_match m w st fx))"
  "finalizedMatchGuids (fst (book_match m w st fx)) = finalizedMatchGuids st"
  "fx_frame (snd (book_match m w st fx)) = fx_frame fx"
  using AddMatchToSessionTotals_ok[of "(rcp_totals (lastSessionRecap st), rcp_gamemodes (lastSessionRecap st))" m w]
  by (simp_all add: book_match_def book_recap_def Let_def case_prod_unfold keeps fx_keeps)
    (simp add: match_inv_defs)

lemma queue_refreshes_frame [fx_keeps]: "fx_frame (fst (queue_refreshes m w s e fx)) = fx_frame fx"
  by (simp add: queue_refreshes_def Let_def fx_keeps split: option.split)

lemma fx_frame_save_match:
  "fx_frame (save_match m w d h ctx fx) =
     (True, (BuildMatchSaveSnapshot m w d)\<lparr>sv_roster := cm_roster m,
        sv_localMmrNeedsReconciliation := (h \<and> tracks_mmr (rc_config ctx))\<rparr>,
      fx_provisionalSaveSnapshot fx, fx_closeSessionIfInactiveAtUnix fx)"
  by (simp add: save_match_def fx_frame_def)

lemma BuildMatchSaveSnapshot_guid [simp]:
  "sv_matchGuid (BuildMatchSaveSnapshot m w d) = cm_matchGuid m"
  "sv_resultPending (BuildMatchSaveSnapshot m w d) = False"
  by (simp_all add: BuildMatchSaveSnapshot_def MatchSaveSnapshot0_def)

lemma provisional_of_frame:
  "fx_frame a = fx_frame b \<Longrightarrow> fx_provisionalSaveSnapshot a = fx_provisionalSaveSnapshot b"
  by (simp add: fx_frame_def)

lemma FinalizeCapturedMatch_inv [keeps]:
  "match_inv st \<Longrightarrow> match_inv (fst (FinalizeCapturedMatch m w s e ctx st fx))"
  by (simp add: FinalizeCapturedMatch_def Let_def case_prod_unfold keeps)

text \<open>What finalizing closes, and what it saves.\<close>

lemma FinalizeCapturedMatch_closed [keeps]:
  "finalizedMatchGuids (fst (FinalizeCapturedMatch m w s e ctx st fx)) =
     finalizedMatchGuids st \<union> ({cm_matchGuid m} - {[]})"
  by (auto simp: FinalizeCapturedMatch_def Let_def case_prod_unfold keeps RecordTerminalMatchGuid_closed)

lemma save_match_cong:
  "fx_frame fx' = fx_frame fx \<Longrightarrow>
   fx_frame (save_match m w d h ctx fx') = fx_frame (save_match m w d h ctx fx)"
  by (simp add: fx_frame_save_match) (simp add: fx_frame_def)

definition saves_now :: "CapturedMatch \<Rightarrow> int \<Rightarrow> MatchState \<Rightarrow> bool" where
  "saves_now m w st = ((cm_matchGuid m = [] \<or> cm_matchGuid m \<notin> finalizedMatchGuids st) \<and>
     ed_shouldPersist (ClassifyMatchEnd m w))"

lemma FinalizeCapturedMatch_frame:
  "\<exists>h. fx_frame (snd (FinalizeCapturedMatch m w s e ctx st fx)) =
     (if saves_now m w st then fx_frame (save_match m w (ClassifyMatchEnd m w) h ctx fx) else fx_frame fx)"
proof (cases "saves_now m w st")
  case True
  define d where "d = ClassifyMatchEnd m w"
  define c where "c = is_current m (RecordTerminalMatchGuid (cm_matchGuid m) st)"
  define r where "r = (if c then summarise m w d ctx (RecordTerminalMatchGuid (cm_matchGuid m) st) fx
     else (RecordTerminalMatchGuid (cm_matchGuid m) st, fx))"
  define b where "b = book_match m (ed_iWon d) (fst r) (snd r)"
  define q where "q = queue_refreshes m (ed_iWon d) s e (snd b)"
  have "fx_frame (fst q) = fx_frame fx" by (simp add: q_def b_def r_def keeps fx_keeps)
  then have "fx_frame (save_match m w d (snd q) ctx (fst q)) = fx_frame (save_match m w d (snd q) ctx fx)"
    by (rule save_match_cong)
  moreover have "fx_frame (snd (FinalizeCapturedMatch m w s e ctx st fx)) =
      fx_frame (save_match m w d (snd q) ctx (fst q))"
    using True
    by (auto simp: FinalizeCapturedMatch_def saves_now_def case_prod_unfold fx_keeps
        d_def c_def r_def b_def q_def Let_def)
  ultimately show ?thesis using True d_def by auto
next
  case False
  then show ?thesis
    by (auto simp: FinalizeCapturedMatch_def saves_now_def Let_def case_prod_unfold keeps fx_keeps)
qed

text \<open>What finalizing books in the session.\<close>

lemma book_match_cong:
  "session_part st' = session_part st \<Longrightarrow>
   session_part (fst (book_match m w st' fx')) = session_part (fst (book_match m w st fx))"
  by (simp add: book_match_def book_session_def session_part_def Let_def case_prod_unfold)

lemma FinalizeCapturedMatch_session:
  "session_part (fst (FinalizeCapturedMatch m w s e ctx st fx)) =
     (if saves_now m w st then session_part (fst (book_match m (ed_iWon (ClassifyMatchEnd m w)) st fx))
      else session_part st)"
proof -
  let ?s = "RecordTerminalMatchGuid (cm_matchGuid m) st"
  have "session_part (fst (book_match m b (fst (summarise m w d ctx ?s fx)) fx')) =
      session_part (fst (book_match m b st fx))" for b d fx'
    by (rule book_match_cong) (simp add: keeps)
  moreover have "session_part (fst (book_match m b ?s fx')) = session_part (fst (book_match m b st fx))" for b fx'
    by (rule book_match_cong) (simp add: keeps)
  ultimately show ?thesis
    by (auto simp: FinalizeCapturedMatch_def saves_now_def Let_def case_prod_unfold keeps)
qed

lemma AddMatchToSessionTotals_results:
  "st_wins (fst (AddMatchToSessionTotals m b tg)) = st_wins (fst tg) + (if b then 1 else 0)"
  "st_losses (fst (AddMatchToSessionTotals m b tg)) = st_losses (fst tg) + (if b then 0 else 1)"
  by (simp_all add: AddMatchToSessionTotals_def add_participation_def add_records_def add_counters_def
      add_result_def Let_def)

lemma book_match_booked: "booked (session_part st) (session_part (fst (book_match m b st fx))) True"
  by (simp add: booked_def book_match_def book_session_def session_part_def played_def Let_def case_prod_unfold
      AddMatchToSessionTotals_results)

lemma FinalizeCapturedMatch_booked:
  "quiet fx \<Longrightarrow> booked (session_part st) (session_part (fst (FinalizeCapturedMatch m w s e ctx st fx)))
     (fx_saveMatch (snd (FinalizeCapturedMatch m w s e ctx st fx)))"
  using FinalizeCapturedMatch_frame[of m w s e ctx st fx]
  by (auto simp: FinalizeCapturedMatch_session book_match_booked fx_frame_save_match)
    (simp_all add: fx_frame_def book_match_booked)

text \<open>A final save closes what was open.\<close>

lemma save_settled:
  assumes "quiet fx" "cm_matchGuid m \<noteq> [] \<longrightarrow> cm_matchGuid m \<notin> F"
  shows "settled F (F \<union> ({cm_matchGuid m} - {[]})) (fx_frame (save_match m w d h ctx fx))"
  using assms by (auto simp: fx_frame_save_match settled_def quiet_def)

lemma quiet_settled_more: "quiet fx \<Longrightarrow> F \<subseteq> F' \<Longrightarrow> settled F F' (fx_frame fx)"
  by (simp add: settled_def quiet_def fx_frame_def)

lemma FinalizeCapturedMatch_settled:
  assumes "quiet fx"
  shows "settled (finalizedMatchGuids st) (finalizedMatchGuids st \<union> ({cm_matchGuid m} - {[]}))
           (fx_frame (snd (FinalizeCapturedMatch m w s e ctx st fx)))"
proof -
  obtain h where h: "fx_frame (snd (FinalizeCapturedMatch m w s e ctx st fx)) =
      (if saves_now m w st then fx_frame (save_match m w (ClassifyMatchEnd m w) h ctx fx) else fx_frame fx)"
    using FinalizeCapturedMatch_frame by blast
  show ?thesis
    unfolding h using assms
    by (cases "saves_now m w st") (auto simp: saves_now_def intro: save_settled quiet_settled_more)
qed

lemma CaptureMatch_guid [simp]: "cm_matchGuid (CaptureMatch ctx st) = matchGuid st"
  by (simp add: CaptureMatch_def Let_def)

text \<open>A step of the reducer keeps the invariant and settles.\<close>

definition step_ok :: "MatchState \<Rightarrow> MatchState \<times> SideEffects \<Rightarrow> bool" where
  "step_ok st r = ((match_inv st \<longrightarrow> match_inv (fst r)) \<and>
     settled (finalizedMatchGuids st) (finalizedMatchGuids (fst r)) (fx_frame (snd r)) \<and>
     booked (session_part st) (session_part (fst r)) (fst (fx_frame (snd r))))"

lemma step_okI:
  "(match_inv st \<Longrightarrow> match_inv (fst r)) \<Longrightarrow> finalizedMatchGuids (fst r) = finalizedMatchGuids st \<Longrightarrow>
   session_part (fst r) = session_part st \<Longrightarrow> fx_frame (snd r) = fx_frame fx \<Longrightarrow> quiet fx \<Longrightarrow> step_ok st r"
  by (simp add: step_ok_def quiet_settled)

text \<open>A step after changes that the invariant and the ledger do not see, and before such changes.\<close>

lemma step_ok_after:
  "step_ok st0 r \<Longrightarrow> (match_inv st \<Longrightarrow> match_inv st0) \<Longrightarrow> finalizedMatchGuids st0 = finalizedMatchGuids st \<Longrightarrow>
   session_part st0 = session_part st \<Longrightarrow> step_ok st r"
  by (simp add: step_ok_def)

lemma step_ok_before:
  "step_ok st r \<Longrightarrow> (match_inv (fst r) \<Longrightarrow> match_inv s') \<Longrightarrow>
   finalizedMatchGuids s' = finalizedMatchGuids (fst r) \<Longrightarrow> session_part s' = session_part (fst r) \<Longrightarrow>
   fx_frame fx' = fx_frame (snd r) \<Longrightarrow> step_ok st (s', fx')"
  by (simp add: step_ok_def)

lemma step_ok_effects: "step_ok st r \<Longrightarrow> fx_frame fx' = fx_frame (snd r) \<Longrightarrow> step_ok st (fst r, fx')"
  by (simp add: step_ok_def)

lemma fst_frame: "fst (fx_frame fx) = fx_saveMatch fx"
  by (simp add: fx_frame_def)

lemma FinalizeCapturedMatch_ok: "quiet fx \<Longrightarrow> step_ok st (FinalizeCapturedMatch m w s e ctx st fx)"
  by (simp add: step_ok_def keeps FinalizeCapturedMatch_settled FinalizeCapturedMatch_booked fst_frame)

lemma unchanged_ok: "quiet fx \<Longrightarrow> step_ok st (st, fx)"
  by (simp add: step_ok_def quiet_settled)

lemma FinalizeMatch_ok: "quiet fx \<Longrightarrow> step_ok st (FinalizeMatch w s ctx st fx)"
  by (simp add: FinalizeMatch_def FinalizeCapturedMatch_ok unchanged_ok)

lemma pending_erase_keeps:
  "match_inv st \<Longrightarrow> match_inv (st\<lparr>pendingDestroyedMatches := um_erase g (pendingDestroyedMatches st)\<rparr>)"
  by (auto simp: match_inv_defs pending_ok_def um_simps)

lemma end_pending_ok: "quiet fx \<Longrightarrow> step_ok st (end_pending m ev ctx st fx)"
proof (cases "is_team (me_winnerTeam ev)")
  case True
  assume q: "quiet fx"
  show ?thesis
    using True by (simp add: end_pending_def Let_def case_prod_unfold)
      (intro conjI impI; rule step_ok_after[OF step_ok_effects[OF FinalizeCapturedMatch_ok[OF q]]];
       simp add: pending_erase_keeps keeps fx_keeps)
qed (simp add: end_pending_def unchanged_ok)

lemma end_current_ok: "quiet fx \<Longrightarrow> step_ok st (end_current ev ctx st fx)"
  unfolding end_current_def Let_def
  by (rule step_ok_after[OF FinalizeMatch_ok]) (simp_all add: keeps)

lemma HandleMatchEnded_ok: "quiet fx \<Longrightarrow> step_ok st (HandleMatchEnded ev ctx st fx)"
  unfolding HandleMatchEnded_def Let_def
  by (auto split: option.split simp: keeps
      intro: end_pending_ok step_ok_after[OF end_current_ok] step_ok_after[OF unchanged_ok])

text \<open>Leaving a match.\<close>

lemma leave_match_keeps [keeps]:
  "match_inv (leave_match st) = match_inv st"
  "finalizedMatchGuids (leave_match st) = finalizedMatchGuids st"
  "session_part (leave_match st) = session_part st"
  by (simp_all add: leave_match_def keeps)

lemma MarkDestroyedMatchVoid_ok: "quiet fx \<Longrightarrow> step_ok st (MarkDestroyedMatchVoid r st fx)"
  by (auto simp: step_ok_def keeps intro: quiet_settled_more quiet_frame[THEN iffD2])

lemma early_exit_mode:
  "IsValidEarlyCompetitiveExit st = Inr mode \<Longrightarrow>
   inMatch st \<and> \<not> matchFinalized st \<and> matchGuid st \<noteq> [] \<and> is_team (myTeam st) \<and> roundEverStarted st \<and>
   localPlayerWasActive st \<and> mode = InferModeFromMatchState st (autoSwitchedPlaylistCategory st) \<and>
   IsTrackedRankedEarlyExitMode mode"
  by (auto simp: IsValidEarlyCompetitiveExit_def Let_def split: if_splits)

lemma provisional_save_settled:
  "quiet fx \<Longrightarrow> settled F F (fx_frame (provisional_save m ctx fx))"
  by (auto simp: provisional_save_def settled_def quiet_def fx_frame_def Let_def)

lemma await_confirmation_ok:
  assumes "quiet fx" "cm_matchGuid m \<noteq> []"
  shows "step_ok st (await_confirmation m r ctx st fx)"
proof -
  have "match_inv st \<Longrightarrow>
      match_inv (st\<lparr>pendingDestroyedMatches := um_emplace (cm_matchGuid m) m (pendingDestroyedMatches st)\<rparr>)"
    using assms(2) by (auto simp: match_inv_defs pending_ok_def um_simps split: if_splits)
  moreover have "quiet (fx\<lparr>fx_pendingMatchHistory := x\<rparr>)" for x
    using assms(1) by (simp add: quiet_def)
  ultimately show ?thesis
    by (simp add: step_ok_def await_confirmation_def keeps fx_keeps provisional_save_settled)
qed

lemma early_exit_ok: "quiet fx \<Longrightarrow> step_ok st (early_exit ctx st fx)"
  by (auto simp: early_exit_def Let_def MarkDestroyedMatchVoid_ok FinalizeMatch_ok early_exit_mode
      intro!: await_confirmation_ok split: sum.split option.split)

lemma destroy_outcome_ok: "quiet fx \<Longrightarrow> step_ok st (destroy_outcome ev ctx st fx)"
  by (simp add: destroy_outcome_def Let_def unchanged_ok FinalizeMatch_ok early_exit_ok)

lemma leave_ok:
  "step_ok st r \<Longrightarrow> step_ok st (leave_match (fst r), push_discord (leave_match (fst r)) (snd r))"
  by (simp add: step_ok_def keeps fx_keeps)

lemma HandleMatchDestroyed_ok:
  assumes "quiet fx"
  shows "step_ok st (HandleMatchDestroyed ev ctx st fx)"
proof -
  define s0 where "s0 = (if md_matchGuid ev \<noteq> [] then AttachTerminalGuidToCurrent (md_matchGuid ev) st else st)"
  define s2 where "s2 = (if HasExplicitLocalForfeitSignal (md_forfeitScopes ev) (myTeam (s0\<lparr>roundActive := False\<rparr>))
    then s0\<lparr>roundActive := False, explicitLocalForfeit := True\<rparr> else s0\<lparr>roundActive := False\<rparr>)"
  define s3 where "s3 = (if md_hasTeamScores ev then s2\<lparr>score := md_teamScores ev\<rparr> else s2)"
  define s4 where "s4 = ResetTiming (s3\<lparr>inGoalReplay := False, firstCountdownOfMatchMs := 0,
      lastCountdownMs := 0, lastGoalMs := 0, lastMatchStartMs := 0, uiMatchGuid := [],
      countdownSeenThisRound := False\<rparr>)"
  note defs = s0_def s2_def s3_def s4_def
  have inv: "match_inv s0 = match_inv st" "match_inv s3 = match_inv st" "match_inv s4 = match_inv st"
    by (simp_all add: defs keeps)
  have closed: "finalizedMatchGuids s0 = finalizedMatchGuids st" "finalizedMatchGuids s3 = finalizedMatchGuids st"
    "finalizedMatchGuids s4 = finalizedMatchGuids st"
    by (simp_all add: defs keeps)
  have sess: "session_part s0 = session_part st" "session_part s3 = session_part st"
    "session_part s4 = session_part st"
    by (simp_all add: defs keeps)
  have "step_ok st (s0, fx)" "step_ok st (s3, fx)" "step_ok st (destroy_outcome ev ctx s4 fx)"
    using step_ok_after[OF unchanged_ok[OF assms, of s0], of st] inv closed sess
      step_ok_after[OF unchanged_ok[OF assms, of s3], of st]
      step_ok_after[OF destroy_outcome_ok[OF assms, of s4], of st] by auto
  moreover from this(3) have "step_ok st (leave_match (fst (destroy_outcome ev ctx s4 fx)),
      push_discord (leave_match (fst (destroy_outcome ev ctx s4 fx))) (snd (destroy_outcome ev ctx s4 fx)))"
    by (rule leave_ok)
  ultimately show ?thesis
    by (simp only: HandleMatchDestroyed_def Let_def case_prod_unfold flip: defs) (simp split: if_split)
qed

section \<open>The other events\<close>

lemma track_keeps:
  "(\<And>t. tracker_inv t \<Longrightarrow> tracker_inv (f t)) \<Longrightarrow> match_inv st \<Longrightarrow> match_inv (track g b f st)"
  by (simp add: track_def match_inv_defs)

lemma track_closed [keeps]:
  "finalizedMatchGuids (track g b f st) = finalizedMatchGuids st"
  "session_part (track g b f st) = session_part st"
  by (simp_all add: track_def keeps)

lemma track_ok:
  "(\<And>t. tracker_inv t \<Longrightarrow> tracker_inv (f t)) \<Longrightarrow> step_ok (track g b f st) r \<Longrightarrow> step_ok st r"
  by (erule step_ok_after) (simp_all add: track_keeps track_closed)

lemma created_new_keeps [keeps]:
  "match_inv st \<Longrightarrow> match_inv (created_new g st)"
  "finalizedMatchGuids (created_new g st) = finalizedMatchGuids st"
  "session_part (created_new g st) = session_part st"
  by (simp_all add: created_new_def ResetMatch_def ResetTiming_def store_initial_mmr_def match_inv_defs
      session_part_def Let_def split: option.split)

lemma created_lifecycle_keeps [keeps]:
  "match_inv st \<Longrightarrow> match_inv (created_lifecycle g st)"
  "finalizedMatchGuids (created_lifecycle g st) = finalizedMatchGuids st"
  "session_part (created_lifecycle g st) = session_part st"
  by (simp_all add: created_lifecycle_def keeps)

lemma created_ui_keeps [keeps]:
  "match_inv (fst (created_ui g n old st fx)) = match_inv st"
  "finalizedMatchGuids (fst (created_ui g n old st fx)) = finalizedMatchGuids st"
  "session_part (fst (created_ui g n old st fx)) = session_part st"
  "fx_frame (snd (created_ui g n old st fx)) = fx_frame fx"
  by (simp_all add: created_ui_def Let_def keeps fx_keeps)

lemma OnMatchCreated_ok: "quiet fx \<Longrightarrow> step_ok st (OnMatchCreated g ctx st fx)"
  by (rule step_okI[where fx = "if created_starts g st \<and> \<not> cf_reset_session_on_close (rc_config ctx)
        then fx\<lparr>fx_closeSessionIfInactiveAtUnix := Some (rc_nowUnix ctx)\<rparr> else fx"])
    (simp_all add: OnMatchCreated_def Let_def case_prod_unfold keeps fx_keeps quiet_def)

lemma OnReplayCreated_ok: "quiet fx \<Longrightarrow> step_ok st (OnReplayCreated st fx)"
  by (rule step_okI) (simp_all add: OnReplayCreated_def keeps fx_keeps)

lemma OnMatchInitialized_ok: "quiet fx \<Longrightarrow> step_ok st (OnMatchInitialized g ctx st fx)"
  by (rule step_okI) (simp_all add: OnMatchInitialized_def Let_def case_prod_unfold keeps fx_keeps)

lemma OnCountdownBegin_ok: "quiet fx \<Longrightarrow> step_ok st (OnCountdownBegin g ctx st fx)"
  by (rule step_okI)
    (auto simp: OnCountdownBegin_def Let_def case_prod_unfold keeps fx_keeps tracker_handlers_inv
      intro!: track_keeps)

lemma OnRoundStarted_ok: "quiet fx \<Longrightarrow> step_ok st (OnRoundStarted g ctx st fx)"
  by (rule step_okI)
    (auto simp: OnRoundStarted_def Let_def case_prod_unfold keeps fx_keeps tracker_handlers_inv
      intro!: track_keeps)

lemma pauses_ok:
  "quiet fx \<Longrightarrow> step_ok st (OnMatchPaused g ctx st, fx)"
  "quiet fx \<Longrightarrow> step_ok st (OnMatchUnpaused g ctx st, fx)"
  by (rule step_okI; auto simp: OnMatchPaused_def OnMatchUnpaused_def Let_def keeps tracker_handlers_inv
      intro!: track_keeps split: option.split)+

lemma replays_ok:
  "quiet fx \<Longrightarrow> step_ok st (OnGoalReplayStart g st, fx)"
  "quiet fx \<Longrightarrow> step_ok st (OnGoalReplayEnd g st, fx)"
  "quiet fx \<Longrightarrow> step_ok st (OnPodiumStart g ctx st, fx)"
  by (rule step_okI; simp add: OnGoalReplayStart_def OnGoalReplayEnd_def OnPodiumStart_def Let_def
      case_prod_unfold keeps)+

lemma OnUpdateState_ok: "quiet fx \<Longrightarrow> step_ok st (OnUpdateState ev ctx st fx)"
  by (rule step_okI) (auto simp: OnUpdateState_def Let_def case_prod_unfold keeps fx_keeps
      tracker_handlers_inv intro!: track_keeps)

lemma keeps_ok: "(match_inv st \<Longrightarrow> match_inv s') \<Longrightarrow> finalizedMatchGuids s' = finalizedMatchGuids st \<Longrightarrow>
   session_part s' = session_part st \<Longrightarrow> quiet fx \<Longrightarrow> step_ok st (s', fx)"
  by (rule step_okI) simp_all

lemma goal_ok: "quiet fx \<Longrightarrow> step_ok st (HandleGoalScored ev ctx st fx)"
  by (rule step_okI) (simp_all add: keeps fx_keeps)

text \<open>A handler behind a call of the tracker.\<close>

lemma tracked_ok:
  "(\<And>t. tracker_inv t \<Longrightarrow> tracker_inv (f t)) \<Longrightarrow> (\<And>s. step_ok s (h s)) \<Longrightarrow>
   step_ok st (h (track g b f st))"
  by (rule track_ok[of f g b]) simp_all

lemma tracked_handlers_ok:
  assumes "quiet fx"
  shows "step_ok st (HandleStatfeed e1 ctx (track g b (Tracker_OnStatfeed e1) st), fx)"
    "step_ok st (HandleGoalScored e2 ctx (track g b (Tracker_OnGoalScored e2) st) fx)"
    "step_ok st (HandleBallHit e3 (track g b (Tracker_OnBallHit e3 now) st), fx)"
    "step_ok st (track g b (Tracker_OnBoostPickup e4) st, fx)"
    "step_ok st (track g b (Tracker_OnPlayerLeft e5) st, fx)"
    "step_ok st (HandleMatchEnded e6 ctx (track g b Tracker_OnMatchEnded st) fx)"
    "step_ok st (HandleMatchDestroyed e7 ctx (track g b Tracker_OnMatchEnded st) fx)"
proof -
  show "step_ok st (HandleStatfeed e1 ctx (track g b (Tracker_OnStatfeed e1) st), fx)"
    by (rule tracked_ok[where h = "\<lambda>s. (HandleStatfeed e1 ctx s, fx)"])
      (simp_all add: tracker_handlers_inv keeps_ok keeps assms)
  show "step_ok st (HandleGoalScored e2 ctx (track g b (Tracker_OnGoalScored e2) st) fx)"
    by (rule tracked_ok[where h = "\<lambda>s. HandleGoalScored e2 ctx s fx"])
      (simp_all add: tracker_handlers_inv goal_ok assms)
  show "step_ok st (HandleBallHit e3 (track g b (Tracker_OnBallHit e3 now) st), fx)"
    by (rule tracked_ok[where h = "\<lambda>s. (HandleBallHit e3 s, fx)"])
      (simp_all add: tracker_handlers_inv keeps_ok keeps assms)
  show "step_ok st (track g b (Tracker_OnBoostPickup e4) st, fx)"
    by (rule tracked_ok[where h = "\<lambda>s. (s, fx)"]) (simp_all add: tracker_handlers_inv unchanged_ok assms)
  show "step_ok st (track g b (Tracker_OnPlayerLeft e5) st, fx)"
    by (rule tracked_ok[where h = "\<lambda>s. (s, fx)"]) (simp_all add: tracker_handlers_inv unchanged_ok assms)
  show "step_ok st (HandleMatchEnded e6 ctx (track g b Tracker_OnMatchEnded st) fx)"
    by (rule tracked_ok[where h = "\<lambda>s. HandleMatchEnded e6 ctx s fx"])
      (simp_all add: tracker_handlers_inv HandleMatchEnded_ok assms)
  show "step_ok st (HandleMatchDestroyed e7 ctx (track g b Tracker_OnMatchEnded st) fx)"
    by (rule tracked_ok[where h = "\<lambda>s. HandleMatchDestroyed e7 ctx s fx"])
      (simp_all add: tracker_handlers_inv HandleMatchDestroyed_ok assms)
qed

lemma crossbar_ok: "quiet fx \<Longrightarrow> step_ok st (HandleCrossbarHit ev ctx st, fx)"
  by (rule keeps_ok) (simp_all add: keeps)

theorem dispatch_ok: "quiet fx \<Longrightarrow> step_ok st (dispatch ev ctx st fx)"
  by (cases ev) (simp_all add: OnMatchCreated_ok OnReplayCreated_ok OnMatchInitialized_ok
      OnCountdownBegin_ok OnRoundStarted_ok pauses_ok replays_ok OnUpdateState_ok
      tracked_handlers_ok crossbar_ok unchanged_ok)

section \<open>The reducer\<close>

theorem ReduceInPlace_ok: "step_ok st (ReduceInPlace ev ctx st)"
proof -
  have "step_ok st (dispatch ev ctx (st\<lparr>currentReducerNowMs := now_ms ctx\<rparr>) SideEffects0)"
    by (rule step_ok_after[OF dispatch_ok]) (simp_all add: keeps)
  then show ?thesis
    by (simp add: ReduceInPlace_def case_prod_unfold Let_def step_ok_def keeps fx_keeps)
qed

theorem Confirm_ok: "step_ok st (ConfirmPendingDestroyedMatch g w ctx st)"
proof (cases "map_of (pendingDestroyedMatches st) g")
  case (Some m)
  have "step_ok st (FinalizeCapturedMatch m x TrackerConfirmedDestroyed False ctx
      (st\<lparr>pendingDestroyedMatches := um_erase g (pendingDestroyedMatches st)\<rparr>) SideEffects0)" for x
    by (rule step_ok_after[OF FinalizeCapturedMatch_ok]) (simp_all add: pending_erase_keeps keeps)
  then show ?thesis using Some
    by (simp add: ConfirmPendingDestroyedMatch_def case_prod_unfold Let_def unchanged_ok)
      (simp add: step_ok_def keeps fx_keeps)
qed (simp add: ConfirmPendingDestroyedMatch_def unchanged_ok)

theorem reduce_ok: "step_ok st (reduce i st)"
proof (cases i)
  case Disconnected
  then show ?thesis by (simp, intro keeps_ok) (simp_all add: keeps)
qed (simp_all add: ReduceInPlace_ok Confirm_ok)

text \<open>The reducer is a ledger of saved matches.\<close>

lemma settled_guid:
  "settled F F' (fx_frame fx) \<Longrightarrow> saved_guid fx = Some k \<Longrightarrow> k \<notin> F \<and> k \<in> F'"
  by (auto simp: settled_def fx_frame_def saved_guid_def split: if_splits)

interpretation led: once_ledger reduce finalizedMatchGuids saved_guid
proof
  fix i st k
  have ok: "settled (finalizedMatchGuids st) (finalizedMatchGuids (fst (reduce i st)))
      (fx_frame (snd (reduce i st)))"
    using reduce_ok[of st i] by (simp add: step_ok_def)
  show "finalizedMatchGuids st \<subseteq> finalizedMatchGuids (fst (reduce i st))"
    using ok by (simp add: settled_def case_prod_unfold Let_def)
  show "saved_guid (snd (reduce i st)) = Some k \<Longrightarrow> k \<notin> finalizedMatchGuids st"
    and "saved_guid (snd (reduce i st)) = Some k \<Longrightarrow> k \<in> finalizedMatchGuids (fst (reduce i st))"
    using settled_guid[OF ok] by auto
qed

section \<open>The inactivity check\<close>

text \<open>Only the start of a match asks for it, and then the match is already running.\<close>

named_theorems closing \<open>handlers that do not ask for the inactivity check\<close>

lemma closing_of_frame:
  "fx_frame fx' = fx_frame fx \<Longrightarrow> fx_closeSessionIfInactiveAtUnix fx' = fx_closeSessionIfInactiveAtUnix fx"
  by (simp add: fx_frame_def)

lemma FinalizeCapturedMatch_closing [closing]:
  "fx_closeSessionIfInactiveAtUnix (snd (FinalizeCapturedMatch m w s e ctx st fx)) =
   fx_closeSessionIfInactiveAtUnix fx"
  using FinalizeCapturedMatch_frame[of m w s e ctx st fx]
  by (auto simp: save_match_def fx_frame_def split: if_splits)

lemma end_closing [closing]:
  "fx_closeSessionIfInactiveAtUnix (snd (FinalizeMatch w s ctx st fx)) = fx_closeSessionIfInactiveAtUnix fx"
  "fx_closeSessionIfInactiveAtUnix (snd (HandleMatchEnded ev ctx st fx)) = fx_closeSessionIfInactiveAtUnix fx"
  by (simp_all add: FinalizeMatch_def HandleMatchEnded_def end_pending_def end_current_def Let_def
      case_prod_unfold closing split: option.split)

lemma destroy_closing [closing]:
  "fx_closeSessionIfInactiveAtUnix (snd (destroy_outcome ev ctx st fx)) = fx_closeSessionIfInactiveAtUnix fx"
  by (simp add: destroy_outcome_def early_exit_def MarkDestroyedMatchVoid_def await_confirmation_def
      provisional_save_def push_discord_def Let_def closing split: option.split sum.split)

lemma HandleMatchDestroyed_closing [closing]:
  "fx_closeSessionIfInactiveAtUnix (snd (HandleMatchDestroyed ev ctx st fx)) = fx_closeSessionIfInactiveAtUnix fx"
  by (simp add: HandleMatchDestroyed_def Let_def case_prod_unfold push_discord_def closing)

lemma quiet_handlers_closing [closing]:
  "fx_closeSessionIfInactiveAtUnix (snd (OnReplayCreated st fx)) = fx_closeSessionIfInactiveAtUnix fx"
  "fx_closeSessionIfInactiveAtUnix (snd (OnMatchInitialized g ctx st fx)) = fx_closeSessionIfInactiveAtUnix fx"
  "fx_closeSessionIfInactiveAtUnix (snd (OnCountdownBegin g ctx st fx)) = fx_closeSessionIfInactiveAtUnix fx"
  "fx_closeSessionIfInactiveAtUnix (snd (OnRoundStarted g ctx st fx)) = fx_closeSessionIfInactiveAtUnix fx"
  "fx_closeSessionIfInactiveAtUnix (snd (OnUpdateState ev ctx st fx)) = fx_closeSessionIfInactiveAtUnix fx"
  "fx_closeSessionIfInactiveAtUnix (snd (HandleGoalScored ge ctx st fx)) = fx_closeSessionIfInactiveAtUnix fx"
  by (rule closing_of_frame; simp add: OnReplayCreated_def OnMatchInitialized_def OnCountdownBegin_def
      OnRoundStarted_def OnUpdateState_def Let_def case_prod_unfold keeps fx_keeps)+

lemma created_new_inMatch: "inMatch (created_new g st)"
  by (simp add: created_new_def ResetMatch_def ResetTiming_def store_initial_mmr_def Let_def split: option.split)

lemma OnMatchCreated_closing:
  "fx_closeSessionIfInactiveAtUnix (snd (OnMatchCreated g ctx st SideEffects0)) = Some t \<Longrightarrow>
   inMatch (fst (OnMatchCreated g ctx st SideEffects0))"
proof -
  assume t: "fx_closeSessionIfInactiveAtUnix (snd (OnMatchCreated g ctx st SideEffects0)) = Some t"
  have ui: "fx_closeSessionIfInactiveAtUnix (snd (created_ui g n o' s fx)) = fx_closeSessionIfInactiveAtUnix fx"
    "inMatch (fst (created_ui g n o' s fx)) = inMatch s" for n o' s fx
    by (rule closing_of_frame, rule keeps)
      (simp add: created_ui_def Let_def reset_timestamps_def)
  have "created_starts g st"
    using t by (auto simp: OnMatchCreated_def Let_def case_prod_unfold push_discord_def ui SideEffects0_def
        split: if_splits)
  then show ?thesis
    by (simp add: OnMatchCreated_def Let_def case_prod_unfold ui created_lifecycle_def created_new_inMatch)
qed

lemma dispatch_closing:
  "fx_closeSessionIfInactiveAtUnix (snd (dispatch ev ctx st SideEffects0)) = Some t \<Longrightarrow>
   inMatch (fst (dispatch ev ctx st SideEffects0))"
  by (cases ev) (simp_all add: closing OnMatchCreated_closing, simp_all add: SideEffects0_def)

lemma ReduceInPlace_closing:
  "fx_closeSessionIfInactiveAtUnix (snd (ReduceInPlace ev ctx st)) = Some t \<Longrightarrow> inMatch (fst (ReduceInPlace ev ctx st))"
  using dispatch_closing[of ev ctx "st\<lparr>currentReducerNowMs := now_ms ctx\<rparr>" t]
  by (simp add: ReduceInPlace_def PublishUiTimestamps_def Let_def case_prod_unfold)

end
