(* ===== verification/Client_Invariant.thy ===== *)
theory Client_Invariant
  imports Match_Ledger
begin

text \<open>
  The store, the effect router and the client keep the invariants of the live match, and of all
  saves handed to the database the final ones are of distinct matches.
\<close>

section \<open>The operations of the store\<close>

named_theorems live_keeps \<open>the invariant and the closed matches across the store's operations\<close>

lemma publish_keeps [live_keeps]:
  "match_inv (publish st) = match_inv st"
  "finalizedMatchGuids (publish st) = finalizedMatchGuids st"
  by (simp_all add: publish_def keeps)

lemma publish_session: "session_part (publish st) = session_part st"
  by (simp add: publish_def keeps)

lemma roster_entry_keeps [live_keeps]:
  "match_inv st \<Longrightarrow> match_inv (roster_entry pid f st)"
  "finalizedMatchGuids (roster_entry pid f st) = finalizedMatchGuids st"
  by (auto simp: roster_entry_def intro: roster_put_keeps' split: option.split)

lemma mmr_totals_keep [live_keeps]:
  "match_inv (st\<lparr>sessionTotals := (sessionTotals st)\<lparr>st_mmrChangeByPlaylist := a, st_totalMmrChange := b\<rparr>\<rparr>) =
     match_inv st"
  by (simp add: match_inv_defs totals_ok_def)

lemma StartNewSession_keeps [live_keeps]:
  "match_inv st \<Longrightarrow> match_inv (fst (MatchState_StartNewSession t h st))"
  "finalizedMatchGuids (fst (MatchState_StartNewSession t h st)) = finalizedMatchGuids st"
  by (simp_all add: MatchState_StartNewSession_def session_recap_def match_inv_defs Let_def)

lemma Store_StartNewSession_keeps [live_keeps]:
  "match_inv st \<Longrightarrow> match_inv (fst (Store_StartNewSession t h st))"
  "finalizedMatchGuids (fst (Store_StartNewSession t h st)) = finalizedMatchGuids st"
  by (simp_all add: Store_StartNewSession_def Let_def case_prod_unfold live_keeps)

lemma CloseSessionIfInactive_keeps [live_keeps]:
  "match_inv st \<Longrightarrow> match_inv (fst (CloseSessionIfInactive t h st))"
  "finalizedMatchGuids (fst (CloseSessionIfInactive t h st)) = finalizedMatchGuids st"
  by (simp_all add: CloseSessionIfInactive_def live_keeps)

lemma ClearActiveMatchOnDisconnect_keeps [live_keeps]:
  "match_inv st \<Longrightarrow> match_inv (Store_ClearActiveMatchOnDisconnect st)"
  "finalizedMatchGuids (Store_ClearActiveMatchOnDisconnect st) = finalizedMatchGuids st"
  by (simp_all add: Store_ClearActiveMatchOnDisconnect_def ClearActiveMatchOnDisconnect_def live_keeps keeps)
    (simp add: match_inv_defs)

lemma Store_OnTelemetryDisconnected_keeps [live_keeps]:
  "match_inv (Store_OnTelemetryDisconnected st) = match_inv st"
  "finalizedMatchGuids (Store_OnTelemetryDisconnected st) = finalizedMatchGuids st"
  by (simp_all add: Store_OnTelemetryDisconnected_def live_keeps keeps)

text \<open>What the rating and encounter services write back.\<close>

lemma service_updates_keep [live_keeps]:
  "match_inv st \<Longrightarrow> match_inv (UpdateRosterMmr pid pl ms st)"
  "match_inv st \<Longrightarrow> match_inv (SetRosterFetchFailed pid st)"
  "match_inv st \<Longrightarrow> match_inv (UpdatePlayerLifetimeData acc pid ww lw wa la st)"
  "match_inv st \<Longrightarrow> match_inv (SyncSessionMmrChange ch tot st)"
  "match_inv st \<Longrightarrow> match_inv (UpdateLastSessionRecapMmr ch tot st)"
  "match_inv st \<Longrightarrow> match_inv (SetLocalPrimaryId pid st)"
  by (simp_all add: UpdateRosterMmr_def SetRosterFetchFailed_def UpdatePlayerLifetimeData_def
      SyncSessionMmrChange_def UpdateLastSessionRecapMmr_def SetLocalPrimaryId_def live_keeps keeps Let_def)
    (simp add: match_inv_defs totals_ok_def)

section \<open>The router\<close>

lemma route_owner_keeps [live_keeps]:
  "match_inv (se_live (route_owner fx s)) = match_inv (se_live s)"
  "finalizedMatchGuids (se_live (route_owner fx s)) = finalizedMatchGuids (se_live s)"
  by (simp_all add: route_owner_def count_mutation_def selectMmrOwnerLocked_def Let_def live_keeps keeps
      split: option.split) (simp add: match_inv_defs totals_ok_def)

lemma route_close_keeps [live_keeps]:
  "match_inv (se_live s) \<Longrightarrow> match_inv (se_live (fst (route_close fx s)))"
  "finalizedMatchGuids (se_live (fst (route_close fx s))) = finalizedMatchGuids (se_live s)"
  "fx_frame (snd (route_close fx s)) = fx_frame fx"
  by (simp_all add: route_close_def closeSessionIfInactiveLocked_def count_mutation_def Let_def
      case_prod_unfold live_keeps fx_keeps split: option.split)

lemma route_rest_keeps [live_keeps]:
  "se_live (route_ui fx s) = se_live s" "se_live (route_history fx s) = se_live s"
  by (simp_all add: route_ui_def route_history_def split: option.split)

lemma Route_keeps [live_keeps]:
  "match_inv (se_live s) \<Longrightarrow> match_inv (se_live (fst (Route svc fx s)))"
  "finalizedMatchGuids (se_live (fst (Route svc fx s))) = finalizedMatchGuids (se_live s)"
  by (simp_all add: Route_def Let_def case_prod_unfold live_keeps)

text \<open>The identifiers saved with a final result, among the calls to the services.\<close>

fun final_saves :: "ServiceCall list \<Rightarrow> string list" where
  "final_saves [] = []"
| "final_saves (AsyncSaveMatch sv # cs) =
     (if sv_resultPending sv \<or> sv_matchGuid sv = [] then final_saves cs
      else sv_matchGuid sv # final_saves cs)"
| "final_saves (c # cs) = final_saves cs"

lemma final_saves_append [simp]: "final_saves (xs @ ys) = final_saves xs @ final_saves ys"
  by (induction xs rule: final_saves.induct) simp_all

lemma final_saves_maps [simp]:
  "final_saves (map (\<lambda>(pid, name). Enqueue pid name) xs) = []"
  "final_saves (map AsyncGetPlayerEncounterRecord ys) = []"
  by (induction xs, simp, auto) (induction ys, simp_all)

lemma final_saves_call_if [simp]:
  "(\<And>y. final_saves [f y] = []) \<Longrightarrow> final_saves (call_if b x f) = []"
  by (simp add: call_if_def split: option.split)

lemma final_saves_provisional:
  "(\<And>s. x = Some s \<Longrightarrow> sv_resultPending s) \<Longrightarrow> final_saves (call_if b x AsyncSaveMatch) = []"
  by (auto simp: call_if_def split: option.split)

lemma final_saves_route:
  assumes "settled F F' (fx_frame fx)"
  shows "final_saves (route_calls svc fx) =
     (if svc_db svc then (case saved_guid fx of Some g \<Rightarrow> [g] | None \<Rightarrow> []) else [])"
  using assms
  by (auto simp: route_calls_def settled_def fx_frame_def saved_guid_def final_saves_provisional)

lemma saved_guid_frame: "fx_frame fx = fx_frame fx' \<Longrightarrow> saved_guid fx = saved_guid fx'"
  by (simp add: saved_guid_def fx_frame_def)

lemma final_saves_Route:
  assumes "settled F F' (fx_frame fx)"
  shows "final_saves (snd (Route svc fx s)) =
     (if svc_db svc then (case saved_guid fx of Some g \<Rightarrow> [g] | None \<Rightarrow> []) else [])"
proof -
  let ?fx = "snd (route_close fx (route_owner fx s))"
  have "fx_frame ?fx = fx_frame fx" by (rule live_keeps)
  then show ?thesis
    using final_saves_route[of F F' ?fx svc] assms saved_guid_frame[of ?fx fx]
    by (simp add: Route_def Let_def case_prod_unfold)
qed

section \<open>The client\<close>

abbreviation client_live :: "Client \<Rightarrow> MatchState" where
  "client_live c \<equiv> se_live (cl_session c)"

abbreviation client_closed :: "Client \<Rightarrow> string set" where
  "client_closed c \<equiv> finalizedMatchGuids (client_live c)"

text \<open>A step of the client: the invariant is kept, and at most one open match is closed by a save.\<close>

definition client_ok :: "Client \<Rightarrow> Client \<times> ServiceCall list \<Rightarrow> bool" where
  "client_ok c r =
     ((match_inv (client_live c) \<longrightarrow> match_inv (client_live (fst r))) \<and>
      client_closed c \<subseteq> client_closed (fst r) \<and>
      (final_saves (snd r) = [] \<or>
       (\<exists>g. final_saves (snd r) = [g] \<and> g \<notin> client_closed c \<and> g \<in> client_closed (fst r))))"

lemma route_step_ok:
  assumes "step_ok st r" "se_live s = fst r"
  shows "match_inv st \<Longrightarrow> match_inv (se_live (fst (Route svc (snd r) s)))"
    and "finalizedMatchGuids st \<subseteq> finalizedMatchGuids (se_live (fst (Route svc (snd r) s)))"
    and "final_saves (snd (Route svc (snd r) s)) = [] \<or>
      (\<exists>g. final_saves (snd (Route svc (snd r) s)) = [g] \<and> g \<notin> finalizedMatchGuids st \<and>
           g \<in> finalizedMatchGuids (se_live (fst (Route svc (snd r) s))))"
proof -
  have ok: "settled (finalizedMatchGuids st) (finalizedMatchGuids (fst r)) (fx_frame (snd r))"
    using assms(1) by (simp add: step_ok_def)
  show "match_inv st \<Longrightarrow> match_inv (se_live (fst (Route svc (snd r) s)))"
    using assms by (simp add: step_ok_def live_keeps)
  show "finalizedMatchGuids st \<subseteq> finalizedMatchGuids (se_live (fst (Route svc (snd r) s)))"
    using ok assms(2) by (simp add: live_keeps settled_def case_prod_unfold Let_def)
  show "final_saves (snd (Route svc (snd r) s)) = [] \<or>
      (\<exists>g. final_saves (snd (Route svc (snd r) s)) = [g] \<and> g \<notin> finalizedMatchGuids st \<and>
           g \<in> finalizedMatchGuids (se_live (fst (Route svc (snd r) s))))"
    using settled_guid[OF ok] assms(2)
    by (auto simp: final_saves_Route[OF ok] live_keeps split: option.split)
qed

lemma published_ok: "step_ok st r \<Longrightarrow> step_ok st (publish (fst r), snd r)"
  by (simp add: step_ok_def live_keeps publish_session)

lemma OnEvent_ok: "client_ok c (OnEvent svc ev r c)"
proof -
  define s1 where "s1 = (if rd_configRevision r \<noteq> cl_configRevision c
    then (cl_session c)\<lparr>se_ui := ApplyRankProgressConfig (rd_config r) False (se_ui (cl_session c))\<rparr>
    else cl_session c)"
  define a where "a = ApplyEvent ev (MakeReducerContext r (se_ui s1)) (se_live s1)"
  have "se_live s1 = client_live c" by (simp add: s1_def)
  then have "step_ok (client_live c) a"
    using published_ok[OF ReduceInPlace_ok[of "client_live c" ev "MakeReducerContext r (se_ui s1)"]]
    by (simp add: a_def ApplyEvent_def case_prod_unfold Let_def)
  note ok = route_step_ok[OF this, of "s1\<lparr>se_live := fst a\<rparr>" svc]
  then show ?thesis
    by (auto simp: client_ok_def OnEvent_def Let_def case_prod_unfold simp flip: s1_def a_def)
qed

lemma Confirmation_ok: "client_ok c (HandleDestroyedMatchConfirmation svc g w r c)"
proof -
  define a where "a = ConfirmDestroyedMatch g w (MakeReducerContext r (se_ui (cl_session c))) (client_live c)"
  have "step_ok (client_live c) a"
    using published_ok[OF Confirm_ok] by (simp add: a_def ConfirmDestroyedMatch_def case_prod_unfold Let_def)
  note ok = route_step_ok[OF this, of "(cl_session c)\<lparr>se_live := fst a\<rparr>" svc]
  then show ?thesis
    by (auto simp: client_ok_def HandleDestroyedMatchConfirmation_def Let_def case_prod_unfold simp flip: a_def)
qed

lemma error_session_keeps [live_keeps]:
  "match_inv (se_live s) \<Longrightarrow> match_inv (se_live (fst (error_session b cfg x n s)))"
  "finalizedMatchGuids (se_live (fst (error_session b cfg x n s))) = finalizedMatchGuids (se_live s)"
  by (simp_all add: error_session_def count_mutation_def closeSessionIfInactiveLocked_def Let_def
      case_prod_unfold live_keeps)

lemma clearActiveMatchOnDisconnect_live [live_keeps]:
  "se_live (clearActiveMatchOnDisconnect s) = Store_ClearActiveMatchOnDisconnect (se_live s)"
  by (simp add: clearActiveMatchOnDisconnect_def)

lemma final_saves_persist [simp]:
  "final_saves (snd (Route svc (SideEffects0\<lparr>fx_persistSession := p\<rparr>) s)) = []"
  by (subst final_saves_Route[OF quiet_settled])
    (simp_all add: quiet_def saved_guid_def SideEffects0_def)

lemma OnConnectionError_ok: "client_ok c (OnConnectionError svc x r c)"
  by (simp add: client_ok_def OnConnectionError_def Let_def case_prod_unfold live_keeps split: option.split)

theorem client_step_ok: "client_ok c (client_step svc i c)"
  by (cases i) (simp_all add: OnEvent_ok Confirmation_ok OnConnectionError_ok)

interpretation cli: invariant_machine "\<lambda>i c. fst (client_step svc i c)" "\<lambda>c. match_inv (client_live c)" for svc
  using client_step_ok by unfold_locales (auto simp: client_ok_def)

definition saved_call :: "ServiceCall list \<Rightarrow> string option" where
  "saved_call cs = (case final_saves cs of [] \<Rightarrow> None | g # _ \<Rightarrow> Some g)"

lemma saved_call_iff:
  "client_ok c r \<Longrightarrow> saved_call (snd r) = Some g \<longleftrightarrow> final_saves (snd r) = [g]"
  by (auto simp: client_ok_def saved_call_def)

interpretation cliled: once_ledger "client_step svc" client_closed saved_call for svc
proof
  fix i c k
  note ok = client_step_ok[of c svc i]
  show "client_closed c \<subseteq> client_closed (fst (client_step svc i c))"
    using ok by (simp add: client_ok_def)
  show "saved_call (snd (client_step svc i c)) = Some k \<Longrightarrow> k \<notin> client_closed c"
    and "saved_call (snd (client_step svc i c)) = Some k \<Longrightarrow> k \<in> client_closed (fst (client_step svc i c))"
    using ok saved_call_iff[OF ok, of k] by (auto simp: client_ok_def)
qed

lemma final_saves_run:
  "concat (map final_saves (snd (run_out (client_step svc) is c))) =
   List.map_filter saved_call (snd (run_out (client_step svc) is c))"
proof (induction "is" arbitrary: c)
  case (Cons i "is")
  then show ?case
    using client_step_ok[of c svc i]
    by (auto simp: client_ok_def saved_call_def List.map_filter_simps)
qed (simp add: List.map_filter_simps)

lemma client_run_inv:
  "match_inv (client_live c) \<Longrightarrow> match_inv (client_live (fst (run_out (client_step svc) is c)))"
  unfolding run_out_fold by (rule cli.run_inv)

section \<open>Events do not end a session\<close>

lemma event_close_noop:
  "fx_closeSessionIfInactiveAtUnix (snd (ApplyEvent ev ctx st)) = Some t \<Longrightarrow>
   CloseSessionIfInactive u h (fst (ApplyEvent ev ctx st)) = (publish (fst (ApplyEvent ev ctx st)), h, False)"
  using ReduceInPlace_closing[of ev ctx st t]
  by (simp add: ApplyEvent_def case_prod_unfold Let_def CloseSessionIfInactive_def publish_def)

lemma ApplyEvent_generation: "sessionGeneration (fst (ApplyEvent ev ctx st)) = sessionGeneration st"
  using ReduceInPlace_ok[of st ev ctx]
  by (auto simp: ApplyEvent_def case_prod_unfold Let_def step_ok_def booked_def session_part_def publish_def)

lemma selectMmrOwner_live:
  "inMatch (se_live (route_owner fx s)) = inMatch (se_live s)"
  "sessionGeneration (se_live (route_owner fx s)) = sessionGeneration (se_live s)"
  by (simp_all add: route_owner_def count_mutation_def selectMmrOwnerLocked_def publish_def Let_def
      split: option.split)

lemma Route_session:
  "se_live (fst (Route svc fx s)) = se_live (fst (route_close fx (route_owner fx s)))"
  by (simp add: Route_def Let_def case_prod_unfold live_keeps)

lemma event_generation:
  "sessionGeneration (client_live (fst (OnEvent svc ev r c))) = sessionGeneration (client_live c)"
proof -
  have "sessionGeneration (se_live (fst (route_close fx s))) = sessionGeneration (se_live s)"
    if "fx_closeSessionIfInactiveAtUnix fx \<noteq> None \<longrightarrow> inMatch (se_live s)" for fx s
    using that by (auto simp: route_close_def closeSessionIfInactiveLocked_def CloseSessionIfInactive_def
        count_mutation_def publish_def case_prod_unfold Let_def split: option.split)
  moreover have "fx_closeSessionIfInactiveAtUnix (snd (ApplyEvent ev ctx st)) \<noteq> None \<longrightarrow>
      inMatch (fst (ApplyEvent ev ctx st))" for ctx st
    using ReduceInPlace_closing[of ev ctx st] by (auto simp: ApplyEvent_def case_prod_unfold Let_def publish_def)
  ultimately show ?thesis
    by (simp add: OnEvent_def Let_def case_prod_unfold Route_session selectMmrOwner_live ApplyEvent_generation)
qed

end
