(* ===== verification/Ui_Mirror.thy ===== *)
theory Ui_Mirror
  imports Live_Store
begin

text \<open>
  The interface's copy of the match's timestamps: after every event it equals the match's own, and
  a lost connection clears the copy alone, so that the next event brings the old values back.
\<close>

section \<open>The timestamps\<close>

type_synonym clocks = "int \<times> int \<times> int \<times> int \<times> int \<times> int \<times> bool \<times> int"

definition match_clocks :: "MatchState \<Rightarrow> clocks" where
  "match_clocks st = (lastMatchStartMs st, firstCountdownOfMatchMs st, lastCountdownMs st, lastGoalMs st,
     lastMatchEndMs st, lastPodiumMs st, inGoalReplay st, matchSummaryStartMs st)"

definition ui_clocks :: "UIState \<Rightarrow> clocks" where
  "ui_clocks ui = (ui_lastMatchStartMs ui, ui_firstCountdownOfMatchMs ui, ui_lastCountdownMs ui,
     ui_lastGoalMs ui, ui_lastMatchEndMs ui, ui_lastPodiumMs ui, ui_inGoalReplay ui,
     ui_matchSummaryStartMs ui)"

definition show_effects :: "SideEffects \<Rightarrow> UIState \<Rightarrow> UIState" where
  "show_effects fx ui = (case fx_uiUpdate fx of Some u \<Rightarrow> apply_ui u ui | None \<Rightarrow> ui)"

lemma PublishUiTimestamps_clocks:
  "ui_clocks (show_effects (snd (PublishUiTimestamps st fx)) ui) = match_clocks (fst (PublishUiTimestamps st fx))"
  by (simp add: PublishUiTimestamps_def show_effects_def apply_ui_def set_opt_def ui_clocks_def
      match_clocks_def Let_def)

lemma ReduceInPlace_clocks:
  "ui_clocks (show_effects (snd (ReduceInPlace ev ctx st)) ui) = match_clocks (fst (ReduceInPlace ev ctx st))"
  by (simp add: ReduceInPlace_def case_prod_unfold Let_def PublishUiTimestamps_clocks)

text \<open>The reducer as a server of its clocks, the interface as a client that applies its effects.\<close>

definition reduce_event :: "TelemetryEvent \<times> ReducerContext \<Rightarrow> MatchState \<Rightarrow> MatchState \<times> SideEffects" where
  "reduce_event i = ReduceInPlace (fst i) (snd i)"

interpretation mir: mirror_machine reduce_event match_clocks show_effects ui_clocks
  by unfold_locales (simp add: reduce_event_def ReduceInPlace_clocks)

section \<open>The client\<close>

text \<open>Nothing in the router changes the clocks of the match.\<close>

lemma clocks_frame [frame]:
  "match_clocks (publish st) = match_clocks st"
  "match_clocks (st\<lparr>myPrimaryId := a, myTeam := b, sessionTotals := c\<rparr>) = match_clocks st"
  "match_clocks (fst (MatchState_StartNewSession t h st)) = match_clocks st"
  by (simp_all add: publish_def match_clocks_def MatchState_StartNewSession_def Let_def)

lemma CloseSessionIfInactive_clocks [frame]:
  "match_clocks (fst (CloseSessionIfInactive t h st)) = match_clocks st"
  by (simp add: CloseSessionIfInactive_def Store_StartNewSession_def case_prod_unfold Let_def frame)

lemma route_owner_clocks [frame]:
  "match_clocks (se_live (route_owner fx s)) = match_clocks (se_live s)"
  by (simp add: route_owner_def count_mutation_def selectMmrOwnerLocked_def Let_def frame split: option.split)

lemma route_close_clocks [frame]:
  "match_clocks (se_live (fst (route_close fx s))) = match_clocks (se_live s)"
  "fx_uiUpdate (snd (route_close fx s)) = fx_uiUpdate fx"
  by (simp_all add: route_close_def closeSessionIfInactiveLocked_def count_mutation_def Let_def
      case_prod_unfold frame split: option.split)

lemma Route_live: "se_live (fst (Route svc fx s)) = se_live (fst (route_close fx (route_owner fx s)))"
  by (simp add: Route_def route_history_def route_ui_def Let_def case_prod_unfold split: option.split)

lemma Route_match_clocks: "match_clocks (se_live (fst (Route svc fx s))) = match_clocks (se_live s)"
  by (simp add: Route_live frame)

lemma route_session_ui [frame]:
  "se_ui (route_owner fx s) = se_ui s" "se_ui (fst (route_close fx s)) = se_ui s"
  by (simp_all add: route_owner_def route_close_def selectMmrOwnerLocked_def closeSessionIfInactiveLocked_def
      count_mutation_def Let_def case_prod_unfold split: option.split)

lemma Route_ui: "se_ui (fst (Route svc fx s)) = show_effects fx (se_ui s)"
  by (simp add: Route_def route_history_def route_ui_def show_effects_def Let_def case_prod_unfold frame
      split: option.split)

lemma ApplyEvent_clocks:
  "ui_clocks (show_effects (snd (ApplyEvent ev ctx st)) ui) = match_clocks (fst (ApplyEvent ev ctx st))"
  by (simp add: ApplyEvent_def case_prod_unfold Let_def frame ReduceInPlace_clocks)

lemma OnEvent_clocks:
  "ui_clocks (se_ui (cl_session (fst (OnEvent svc ev r c)))) =
   match_clocks (se_live (cl_session (fst (OnEvent svc ev r c))))"
  by (simp add: OnEvent_def Let_def case_prod_unfold Route_ui Route_match_clocks ApplyEvent_clocks)

text \<open>After a lost connection the match keeps its clocks.\<close>

lemma disconnect_clocks [frame]:
  "match_clocks (Store_OnTelemetryDisconnected st) = match_clocks st"
  "lastMatchStartMs (Store_ClearActiveMatchOnDisconnect st) = lastMatchStartMs st"
  "firstCountdownOfMatchMs (Store_ClearActiveMatchOnDisconnect st) = firstCountdownOfMatchMs st"
  "lastCountdownMs (Store_ClearActiveMatchOnDisconnect st) = lastCountdownMs st"
  "lastGoalMs (Store_ClearActiveMatchOnDisconnect st) = lastGoalMs st"
  by (simp_all add: Store_OnTelemetryDisconnected_def OnTelemetryDisconnected_def
      Store_ClearActiveMatchOnDisconnect_def ClearActiveMatchOnDisconnect_def ResetTiming_def publish_def
      match_clocks_def)

lemma error_session_clocks [frame]:
  "match_clocks (se_live (fst (error_session b cfg x n s))) = match_clocks (se_live s)"
  by (simp add: error_session_def count_mutation_def closeSessionIfInactiveLocked_def Store_StartNewSession_def
      Let_def case_prod_unfold frame)

lemma OnConnectionError_live:
  "match_clocks (se_live (cl_session (fst (OnConnectionError svc x r c)))) =
   match_clocks (Store_ClearActiveMatchOnDisconnect (se_live
     (fst (error_session (cf_reset_session_on_close (rd_config r) \<and> \<not> cl_resetAfterDisconnect c \<and>
            (5 \<le> cl_disconnectCount c + 1 \<or> \<not> rd_gameRunning r)) (rd_config r) x (rd_nowUnix r)
        ((cl_session c)\<lparr>se_live := Store_OnTelemetryDisconnected (se_live (cl_session c))\<rparr>)))))"
  by (simp add: OnConnectionError_def Let_def case_prod_unfold clearActiveMatchOnDisconnect_def
      Route_match_clocks split: option.split)

lemma OnConnectionError_ui:
  "ui_lastMatchStartMs (se_ui (cl_session (fst (OnConnectionError svc x r c)))) = 0"
  "ui_firstCountdownOfMatchMs (se_ui (cl_session (fst (OnConnectionError svc x r c)))) = 0"
  "ui_lastCountdownMs (se_ui (cl_session (fst (OnConnectionError svc x r c)))) = 0"
  "ui_lastGoalMs (se_ui (cl_session (fst (OnConnectionError svc x r c)))) = 0"
  by (simp_all add: OnConnectionError_def Let_def case_prod_unfold clearActiveMatchOnDisconnect_def
      Route_ui show_effects_def SideEffects0_def split: option.split)

text \<open>An event that changes nothing publishes the clocks of the match.\<close>

lemma no_event_clocks:
  "match_clocks (se_live (cl_session (fst (OnEvent svc EvGoalReplayWillEnd r c)))) = match_clocks (se_live (cl_session c))"
  by (simp add: OnEvent_def ApplyEvent_def ReduceInPlace_def PublishUiTimestamps_def Let_def case_prod_unfold
      Route_match_clocks frame) (simp add: match_clocks_def)

lemma no_event_ui:
  "ui_lastMatchStartMs (se_ui (cl_session (fst (OnEvent svc EvGoalReplayWillEnd r c)))) = lastMatchStartMs (se_live (cl_session c))"
  "ui_lastGoalMs (se_ui (cl_session (fst (OnEvent svc EvGoalReplayWillEnd r c)))) = lastGoalMs (se_live (cl_session c))"
  using OnEvent_clocks[of svc EvGoalReplayWillEnd r c] no_event_clocks[of svc r c]
  by (simp_all add: ui_clocks_def match_clocks_def)

lemma lost_clocks:
  "lastMatchStartMs (se_live (cl_session (fst (OnConnectionError svc x r c)))) = lastMatchStartMs (se_live (cl_session c))"
  "lastGoalMs (se_live (cl_session (fst (OnConnectionError svc x r c)))) = lastGoalMs (se_live (cl_session c))"
proof -
  have clocks: "lastMatchStartMs s = lastMatchStartMs s' \<and> lastGoalMs s = lastGoalMs s'"
    if "match_clocks s = match_clocks s'" for s s'
    using that by (simp add: match_clocks_def)
  note live = clocks[OF OnConnectionError_live[of svc x r c]] clocks[OF error_session_clocks]
    clocks[OF disconnect_clocks(1)]
  show "lastMatchStartMs (se_live (cl_session (fst (OnConnectionError svc x r c)))) = lastMatchStartMs (se_live (cl_session c))"
    "lastGoalMs (se_live (cl_session (fst (OnConnectionError svc x r c)))) = lastGoalMs (se_live (cl_session c))"
    using live by (simp_all add: frame)
qed

end
