(* ===== verification/Match_Facts.thy ===== *)
theory Match_Facts
  imports Client_Invariant Ui_Mirror
begin

text \<open>
  What the operations do, one by one: the decision on a finished match, what finalizing saves and
  books, the life of a match that was left, the identity of the local player, the rosters, the
  recap and the pending history.
\<close>

section \<open>The decision\<close>

text \<open>The conditions under which a finished match counts.\<close>

definition countable :: "CapturedMatch \<Rightarrow> bool" where
  "countable m =
     (let hasId = HasAuthoritativeId (cm_playlistId m);
          size = LegacyExpectedTeamSizeForMode (cm_mode m) in
      \<not> cm_nonLiveReplay m \<and> (hasId \<longrightarrow> IsKnown (cm_playlistId m)) \<and>
      \<not> IsNonRecordable (cm_playlistId m) \<and> (\<not> hasId \<longrightarrow> \<not> cm_fallbackNonRecordableContext m) \<and>
      is_team (cm_myTeam m) \<and> cm_roundEverStarted m \<and> cm_localPlayerWasActive m \<and>
      (hasId \<or> size \<le> 0 \<or>
       legacy_teams_full size (cm_legacyLobbyWasEverFull m) (cm_legacyMaxTeamPlayersSeen m)))"

lemma reason_none: "\<not> IsNonRecordable p \<Longrightarrow> NonRecordableReason p = None"
  using NonRecordableReason_iff by blast

lemma reason_some: "IsNonRecordable p \<Longrightarrow> \<exists>r. NonRecordableReason p = Some r \<and> r \<noteq> []"
  using NonRecordableReason_iff[of p] NonRecordableReason_nonempty[of p] by auto

lemma ClassifyMatchEnd_counts:
  "countable m \<Longrightarrow> is_team w \<Longrightarrow>
   ClassifyMatchEnd m w = \<lparr>ed_shouldCount = True, ed_shouldPersist = True, ed_iWon = (w = cm_myTeam m),
     ed_resultText = (if w = cm_myTeam m then ''Win'' else ''Loss''), ed_voidReason = []\<rparr>"
  by (auto simp: countable_def ClassifyMatchEnd_def Let_def reason_none)

lemma void_decision_simps [simp]:
  "ed_shouldPersist (void_decision r) = False" "ed_shouldCount (void_decision r) = False"
  "ed_voidReason (void_decision r) = r" "ed_iWon (void_decision r) = False"
  by (simp_all add: void_decision_def MatchEndDecision0_def)

definition is_void :: "MatchEndDecision \<Rightarrow> bool" where
  "is_void d = (d = void_decision (ed_voidReason d) \<and> ed_voidReason d \<noteq> [])"

lemma is_void_decision [simp]: "is_void (void_decision r) \<longleftrightarrow> r \<noteq> []"
  by (simp add: is_void_def)

lemma is_void_if: "(c \<Longrightarrow> is_void a) \<Longrightarrow> (\<not> c \<Longrightarrow> is_void b) \<Longrightarrow> is_void (if c then a else b)"
  by simp

lemma ClassifyMatchEnd_void: "\<not> (countable m \<and> is_team w) \<Longrightarrow> is_void (ClassifyMatchEnd m w)"
proof (cases "IsNonRecordable (cm_playlistId m)")
  case True
  then obtain r where "NonRecordableReason (cm_playlistId m) = Some r" "r \<noteq> []"
    using reason_some by blast
  then show ?thesis by (simp add: ClassifyMatchEnd_def Let_def)
next
  case False
  assume "\<not> (countable m \<and> is_team w)"
  with False show ?thesis
    unfolding countable_def ClassifyMatchEnd_def Let_def reason_none[OF False] option.case
    by (intro is_void_if) auto
qed

lemma persist_iff: "ed_shouldPersist (ClassifyMatchEnd m w) \<longleftrightarrow> countable m \<and> is_team w"
  using ClassifyMatchEnd_counts[of m w] ClassifyMatchEnd_void[of m w]
  by (cases "countable m \<and> is_team w") (auto simp: is_void_def dest: arg_cong[where f = ed_shouldPersist])

lemma iWon_iff: "ed_iWon (ClassifyMatchEnd m w) \<longleftrightarrow> countable m \<and> is_team w \<and> w = cm_myTeam m"
  using ClassifyMatchEnd_counts[of m w] ClassifyMatchEnd_void[of m w]
  by (cases "countable m \<and> is_team w") (auto simp: is_void_def dest: arg_cong[where f = ed_iWon])

text \<open>The two validators agree: a match that may be left early counts, whoever wins.\<close>

lemma tracked_mode_playlist:
  "IsTrackedRankedEarlyExitMode (CanonicalMode p) \<Longrightarrow> IsKnown p \<and> IsRanked p \<and> \<not> IsNonRecordable p"
  by (cases "Find p") (auto simp: CanonicalMode_def IsKnown_def class_defs coherent_row_def
      IsTrackedRankedEarlyExitMode_def dest!: Find_coherent)

lemma untracked_modes [simp]:
  "\<not> IsTrackedRankedEarlyExitMode ''unknown''" "\<not> IsTrackedRankedEarlyExitMode ''casual''"
  by (simp_all add: IsTrackedRankedEarlyExitMode_def)

lemma early_exit_countable:
  assumes "IsValidEarlyCompetitiveExit st = Inr mode"
  shows "countable (CaptureMatch ctx st)"
proof (cases "HasAuthoritativeId (playlistId st)")
  case True
  then have "IsTrackedRankedEarlyExitMode (CanonicalMode (playlistId st))"
    using early_exit_mode[OF assms] by (auto simp: InferModeFromMatchState_def Let_def split: if_splits)
  with True assms tracked_mode_playlist show ?thesis
    by (auto simp: IsValidEarlyCompetitiveExit_def countable_def CaptureMatch_def Let_def split: if_splits)
next
  case False
  then have "\<not> fallbackNonRecordableContext st"
    using early_exit_mode[OF assms] by (auto simp: InferModeFromMatchState_def Let_def split: if_splits)
  moreover have "playlistId st = -1" using False by (simp add: HasAuthoritativeId_def)
  then have "\<not> IsNonRecordable (playlistId st)" by (simp add: class_defs)
  ultimately show ?thesis using False assms
    by (auto simp: IsValidEarlyCompetitiveExit_def countable_def CaptureMatch_def Let_def split: if_splits)
qed

section \<open>What finalizing books\<close>

lemma FinalizeCapturedMatch_results:
  "st_wins (sessionTotals (fst (FinalizeCapturedMatch m w s e ctx st fx))) = st_wins (sessionTotals st) +
     (if saves_now m w st \<and> cm_sessionGeneration m = sessionGeneration st \<and> w = cm_myTeam m then 1 else 0)"
  "st_losses (sessionTotals (fst (FinalizeCapturedMatch m w s e ctx st fx))) = st_losses (sessionTotals st) +
     (if saves_now m w st \<and> cm_sessionGeneration m = sessionGeneration st \<and> w \<noteq> cm_myTeam m then 1 else 0)"
proof -
  have "sessionTotals (fst (FinalizeCapturedMatch m w s e ctx st fx)) =
      fst (session_part (fst (FinalizeCapturedMatch m w s e ctx st fx)))" by (simp add: session_part_def)
  also have "\<dots> = (if saves_now m w st \<and> cm_sessionGeneration m = sessionGeneration st
      then fst (AddMatchToSessionTotals m (w = cm_myTeam m) (sessionTotals st, sessionGamemodes st))
      else sessionTotals st)"
    unfolding FinalizeCapturedMatch_session
    by (auto simp: session_part_def book_match_def book_session_def Let_def case_prod_unfold
        saves_now_def iWon_iff persist_iff)
  finally have eq: "sessionTotals (fst (FinalizeCapturedMatch m w s e ctx st fx)) = \<dots>" .
  show "st_wins (sessionTotals (fst (FinalizeCapturedMatch m w s e ctx st fx))) = st_wins (sessionTotals st) +
     (if saves_now m w st \<and> cm_sessionGeneration m = sessionGeneration st \<and> w = cm_myTeam m then 1 else 0)"
    "st_losses (sessionTotals (fst (FinalizeCapturedMatch m w s e ctx st fx))) = st_losses (sessionTotals st) +
     (if saves_now m w st \<and> cm_sessionGeneration m = sessionGeneration st \<and> w \<noteq> cm_myTeam m then 1 else 0)"
    by (auto simp: eq AddMatchToSessionTotals_results)
qed

section \<open>A match that was left\<close>

lemma saves_now_countable: "saves_now m w st \<longleftrightarrow>
   (cm_matchGuid m = [] \<or> cm_matchGuid m \<notin> finalizedMatchGuids st) \<and> countable m \<and> is_team w"
  by (simp add: saves_now_def persist_iff)

lemma FinalizeCapturedMatch_save:
  assumes "saves_now m w st"
  shows "fx_saveMatch (snd (FinalizeCapturedMatch m w s e ctx st fx))"
    "sv_matchGuid (fx_saveSnapshot (snd (FinalizeCapturedMatch m w s e ctx st fx))) = cm_matchGuid m"
    "sv_winnerTeam (fx_saveSnapshot (snd (FinalizeCapturedMatch m w s e ctx st fx))) = w"
    "sv_myTeam (fx_saveSnapshot (snd (FinalizeCapturedMatch m w s e ctx st fx))) = cm_myTeam m"
    "sv_durationSeconds (fx_saveSnapshot (snd (FinalizeCapturedMatch m w s e ctx st fx))) = cm_durationSeconds m"
    "sv_overtimeSeconds (fx_saveSnapshot (snd (FinalizeCapturedMatch m w s e ctx st fx))) = cm_overtimeSeconds m"
  using FinalizeCapturedMatch_frame[of m w s e ctx st fx] assms
  by (auto simp: fx_frame_save_match) (auto simp: fx_frame_def BuildMatchSaveSnapshot_def MatchSaveSnapshot0_def)

lemma FinalizeCapturedMatch_nosave:
  "\<not> saves_now m w st \<Longrightarrow> fx_frame (snd (FinalizeCapturedMatch m w s e ctx st fx)) = fx_frame fx"
  using FinalizeCapturedMatch_frame[of m w s e ctx st fx] by auto

text \<open>The confirmation of a match that was left: it is saved with the confirmed result.\<close>

definition confirmed_winner :: "CapturedMatch \<Rightarrow> bool \<Rightarrow> int" where
  "confirmed_winner m won = (if won then cm_myTeam m else 1 - cm_myTeam m)"

lemma PublishUiTimestamps_effects [simp]:
  "fx_saveMatch (snd (PublishUiTimestamps st fx)) = fx_saveMatch fx"
  "fx_saveSnapshot (snd (PublishUiTimestamps st fx)) = fx_saveSnapshot fx"
  "fx_provisionalSaveSnapshot (snd (PublishUiTimestamps st fx)) = fx_provisionalSaveSnapshot fx"
  "saved_guid (snd (PublishUiTimestamps st fx)) = saved_guid fx"
  by (simp_all add: PublishUiTimestamps_def saved_guid_def Let_def)

lemma pending_frame:
  "pendingDestroyedMatches (fst (FinalizeCapturedMatch m w s e ctx st fx)) = pendingDestroyedMatches st"
  "pendingDestroyedMatches (fst (PublishUiTimestamps st fx)) = pendingDestroyedMatches st"
  by (simp_all add: FinalizeCapturedMatch_def summarise_def book_match_def book_session_def ResetTiming_def
      RecordTerminalMatchGuid_def PublishUiTimestamps_def Let_def case_prod_unfold)

lemma Confirm_saves:
  fixes won :: bool and ctx :: ReducerContext
  assumes "map_of (pendingDestroyedMatches st) g = Some m" "cm_matchGuid m = g" "g \<noteq> []"
    "g \<notin> finalizedMatchGuids st" "countable m"
  defines "r \<equiv> ConfirmPendingDestroyedMatch g won ctx st"
  shows "saved_guid (snd r) = Some g" "sv_winnerTeam (fx_saveSnapshot (snd r)) = confirmed_winner m won"
    "g \<in> finalizedMatchGuids (fst r)" "map_of (pendingDestroyedMatches (fst r)) g = None"
proof -
  let ?st = "st\<lparr>pendingDestroyedMatches := um_erase g (pendingDestroyedMatches st)\<rparr>"
  have team: "is_team (cm_myTeam m)" using assms(5) by (simp add: countable_def Let_def)
  have r: "r = (let (s, f) = FinalizeCapturedMatch m (confirmed_winner m won) TrackerConfirmedDestroyed False ctx
      ?st SideEffects0 in PublishUiTimestamps s f)"
    using assms(1,4) team by (simp add: r_def ConfirmPendingDestroyedMatch_def confirmed_winner_def Let_def)
  have now: "saves_now m (confirmed_winner m won) ?st"
    using assms(2-5) team by (auto simp: saves_now_countable confirmed_winner_def is_team_def)
  note save = FinalizeCapturedMatch_save[OF now, of TrackerConfirmedDestroyed False ctx SideEffects0]
  show "saved_guid (snd r) = Some g" using save assms(2,3)
    by (simp add: r case_prod_unfold Let_def) (simp add: saved_guid_def)
  show "sv_winnerTeam (fx_saveSnapshot (snd r)) = confirmed_winner m won" using save
    by (simp add: r case_prod_unfold Let_def)
  show "g \<in> finalizedMatchGuids (fst r)" using assms(2,3) by (simp add: r case_prod_unfold Let_def keeps)
  show "map_of (pendingDestroyedMatches (fst r)) g = None"
    by (simp add: r case_prod_unfold Let_def pending_frame um_simps)
qed

lemma Confirm_again:
  "ConfirmPendingDestroyedMatch g w2 ctx2 (fst (ConfirmPendingDestroyedMatch g w1 ctx1 st)) =
   (fst (ConfirmPendingDestroyedMatch g w1 ctx1 st), SideEffects0)"
proof (cases "map_of (pendingDestroyedMatches st) g")
  case (Some m)
  show ?thesis
  proof (cases "g \<in> finalizedMatchGuids st")
    case False
    then have "map_of (pendingDestroyedMatches (fst (ConfirmPendingDestroyedMatch g w1 ctx1 st))) g = None"
      using Some by (simp add: ConfirmPendingDestroyedMatch_def Let_def case_prod_unfold pending_frame um_simps)
    then show ?thesis by (simp add: ConfirmPendingDestroyedMatch_def[of g w2])
  qed (simp add: ConfirmPendingDestroyedMatch_def Some)
qed (simp add: ConfirmPendingDestroyedMatch_def)

text \<open>A match that was left with a provisional save is waiting for its confirmation.\<close>

definition awaits :: "MatchState \<Rightarrow> MatchState \<Rightarrow> MatchSaveSnapshot \<Rightarrow> bool" where
  "awaits st st' sv =
     (\<exists>m. countable m \<and> cm_matchGuid m = sv_matchGuid sv \<and> sv_matchGuid sv \<noteq> [] \<and> sv_resultPending sv \<and>
          sv_durationSeconds sv = cm_durationSeconds m \<and> sv_overtimeSeconds sv = cm_overtimeSeconds m \<and>
          pendingDestroyedMatches st' = um_emplace (sv_matchGuid sv) m (pendingDestroyedMatches st) \<and>
          finalizedMatchGuids st' = finalizedMatchGuids st)"

lemma no_provisional:
  "fx_provisionalSaveSnapshot (snd (MarkDestroyedMatchVoid r st fx)) = fx_provisionalSaveSnapshot fx"
  "fx_provisionalSaveSnapshot (snd (FinalizeMatch w s ctx st fx)) = fx_provisionalSaveSnapshot fx"
proof -
  show "fx_provisionalSaveSnapshot (snd (MarkDestroyedMatchVoid r st fx)) = fx_provisionalSaveSnapshot fx"
    by (rule provisional_of_frame) (simp add: keeps)
  have "fx_provisionalSaveSnapshot (snd (FinalizeCapturedMatch m w s e ctx st fx)) =
      fx_provisionalSaveSnapshot fx" for m e
    using FinalizeCapturedMatch_frame[of m w s e ctx st fx]
    by (auto simp: save_match_def fx_frame_def split: if_splits)
  then show "fx_provisionalSaveSnapshot (snd (FinalizeMatch w s ctx st fx)) = fx_provisionalSaveSnapshot fx"
    by (simp add: FinalizeMatch_def)
qed

lemma provisional_save_Some:
  "fx_provisionalSaveSnapshot (provisional_save m ctx fx) = Some sv \<Longrightarrow> fx_provisionalSaveSnapshot fx = None \<Longrightarrow>
   countable m \<and> sv_matchGuid sv = cm_matchGuid m \<and> sv_resultPending sv \<and>
   sv_durationSeconds sv = cm_durationSeconds m \<and> sv_overtimeSeconds sv = cm_overtimeSeconds m"
  by (auto simp: provisional_save_def BuildMatchSaveSnapshot_def MatchSaveSnapshot0_def persist_iff Let_def
      split: if_splits)

lemma early_exit_awaits:
  assumes "fx_provisionalSaveSnapshot (snd (early_exit ctx st fx)) = Some sv"
    "fx_provisionalSaveSnapshot fx = None"
  shows "awaits st (fst (early_exit ctx st fx)) sv"
proof -
  obtain mode where mode: "IsValidEarlyCompetitiveExit st = Inr mode"
    using assms by (cases "IsValidEarlyCompetitiveExit st") (auto simp: early_exit_def no_provisional)
  let ?m = "(CaptureMatch ctx st)\<lparr>cm_mode := mode\<rparr>"
  obtain refresh where refresh: "early_exit ctx st fx = await_confirmation ?m refresh ctx st fx"
    using assms mode
    by (auto simp: early_exit_def no_provisional Let_def split: if_splits option.splits)
  have "countable ?m \<and> sv_matchGuid sv = cm_matchGuid ?m \<and> sv_resultPending sv \<and>
      sv_durationSeconds sv = cm_durationSeconds ?m \<and> sv_overtimeSeconds sv = cm_overtimeSeconds ?m"
    by (rule provisional_save_Some[of _ ctx "fx\<lparr>fx_pendingMatchHistory := Some (pending_summary ?m)\<rparr>"])
      (use assms refresh in \<open>simp_all add: await_confirmation_def\<close>)
  then show ?thesis
    using early_exit_mode[OF mode]
    by (auto simp: awaits_def refresh await_confirmation_def intro!: exI[of _ ?m])
qed

lemma destroy_outcome_awaits:
  "fx_provisionalSaveSnapshot (snd (destroy_outcome ev ctx st fx)) = Some sv \<Longrightarrow>
   fx_provisionalSaveSnapshot fx = None \<Longrightarrow> awaits st (fst (destroy_outcome ev ctx st fx)) sv"
  using early_exit_awaits[of ctx st fx sv]
  by (auto simp: destroy_outcome_def no_provisional Let_def split: if_splits option.splits)

lemma pending_helpers [frame]:
  "pendingDestroyedMatches (track g b f st) = pendingDestroyedMatches st"
  "pendingDestroyedMatches (ResetTiming st) = pendingDestroyedMatches st"
  "pendingDestroyedMatches (leave_match st) = pendingDestroyedMatches st"
  "pendingDestroyedMatches (AttachTerminalGuidToCurrent g st) = pendingDestroyedMatches st"
  by (simp_all add: track_def ResetTiming_def leave_match_def AttachTerminalGuidToCurrent_def attach_guid_def
      CapturePreMatchMmr_def split: option.split)

text \<open>The state a destroyed match is judged in.\<close>

lemma HandleMatchDestroyed_cases:
  obtains (ignored) s where "HandleMatchDestroyed ev ctx st fx = (s, fx)"
      "match_inv s = match_inv st" "finalizedMatchGuids s = finalizedMatchGuids st"
      "pendingDestroyedMatches s = pendingDestroyedMatches st"
  | (left) s where "HandleMatchDestroyed ev ctx st fx =
        (leave_match (fst (destroy_outcome ev ctx (ResetTiming s) fx)),
         push_discord (leave_match (fst (destroy_outcome ev ctx (ResetTiming s) fx)))
           (snd (destroy_outcome ev ctx (ResetTiming s) fx)))"
      "finalizedMatchGuids s = finalizedMatchGuids st" "pendingDestroyedMatches s = pendingDestroyedMatches st"
proof -
  define s0 where "s0 = (if md_matchGuid ev \<noteq> [] then AttachTerminalGuidToCurrent (md_matchGuid ev) st else st)"
  define s2 where "s2 = (if HasExplicitLocalForfeitSignal (md_forfeitScopes ev) (myTeam (s0\<lparr>roundActive := False\<rparr>))
    then s0\<lparr>roundActive := False, explicitLocalForfeit := True\<rparr> else s0\<lparr>roundActive := False\<rparr>)"
  define s3 where "s3 = (if md_hasTeamScores ev then s2\<lparr>score := md_teamScores ev\<rparr> else s2)"
  define s4 where "s4 = s3\<lparr>inGoalReplay := False, firstCountdownOfMatchMs := 0,
      lastCountdownMs := 0, lastGoalMs := 0, lastMatchStartMs := 0, uiMatchGuid := [],
      countdownSeenThisRound := False\<rparr>"
  note defs = s0_def s2_def s3_def s4_def
  have keep: "match_inv s0 = match_inv st" "finalizedMatchGuids s0 = finalizedMatchGuids st"
    "pendingDestroyedMatches s0 = pendingDestroyedMatches st"
    "match_inv s3 = match_inv st" "finalizedMatchGuids s3 = finalizedMatchGuids st"
    "pendingDestroyedMatches s3 = pendingDestroyedMatches st"
    "finalizedMatchGuids s4 = finalizedMatchGuids st"
    "pendingDestroyedMatches s4 = pendingDestroyedMatches st"
    by (simp_all add: defs keeps frame)
  have "HandleMatchDestroyed ev ctx st fx = (s0, fx) \<or> HandleMatchDestroyed ev ctx st fx = (s3, fx) \<or>
      HandleMatchDestroyed ev ctx st fx = (leave_match (fst (destroy_outcome ev ctx (ResetTiming s4) fx)),
         push_discord (leave_match (fst (destroy_outcome ev ctx (ResetTiming s4) fx)))
           (snd (destroy_outcome ev ctx (ResetTiming s4) fx)))"
    by (simp only: HandleMatchDestroyed_def Let_def case_prod_unfold flip: defs) (simp split: if_split)
  then show ?thesis using keep ignored left by metis
qed

lemma HandleMatchDestroyed_awaits:
  assumes "fx_provisionalSaveSnapshot (snd (HandleMatchDestroyed ev ctx st SideEffects0)) = Some sv"
  shows "awaits st (fst (HandleMatchDestroyed ev ctx st SideEffects0)) sv"
proof (cases rule: HandleMatchDestroyed_cases[of ev ctx st SideEffects0])
  case (ignored s)
  then show ?thesis using assms by (simp add: SideEffects0_def)
next
  case (left s)
  then show ?thesis
    using assms destroy_outcome_awaits[of ev ctx "ResetTiming s" SideEffects0 sv]
    by (simp add: awaits_def push_discord_def frame keeps SideEffects0_def)
qed

lemma awaits_confirmed:
  assumes "awaits st st' sv" "\<not> um_has (pendingDestroyedMatches st) (sv_matchGuid sv)"
    "sv_matchGuid sv \<notin> finalizedMatchGuids st"
  shows "saved_guid (snd (ConfirmPendingDestroyedMatch (sv_matchGuid sv) won ctx st')) = Some (sv_matchGuid sv)"
proof -
  obtain m where m: "countable m" "cm_matchGuid m = sv_matchGuid sv" "sv_matchGuid sv \<noteq> []"
    "pendingDestroyedMatches st' = um_emplace (sv_matchGuid sv) m (pendingDestroyedMatches st)"
    "finalizedMatchGuids st' = finalizedMatchGuids st"
    using assms(1) by (auto simp: awaits_def)
  have "map_of (pendingDestroyedMatches st') (sv_matchGuid sv) = Some m"
    using assms(2) by (simp add: m(4) um_simps um_has_def)
  then show ?thesis using Confirm_saves(1)[of st' _ m won ctx] m assms(3) by simp
qed

lemma reduce_destroyed_awaits:
  assumes "fx_provisionalSaveSnapshot (snd (reduce (Event (EvMatchDestroyed ev) ctx) st)) = Some sv"
  shows "awaits st (fst (reduce (Event (EvMatchDestroyed ev) ctx) st)) sv"
  using HandleMatchDestroyed_awaits[of ev ctx "track (md_matchGuid ev) False Tracker_OnMatchEnded
      (st\<lparr>currentReducerNowMs := now_ms ctx\<rparr>)" sv] assms
  by (simp add: ReduceInPlace_def Let_def case_prod_unfold awaits_def frame keeps)
    (simp add: PublishUiTimestamps_def Let_def)

section \<open>The clocks at the end of a match\<close>

lemma ResetTiming_clocks [simp]:
  "overtime_seconds n (ResetTiming st) = Fin 0" "regulation_seconds (ResetTiming st) = Fin 0"
  by (simp_all add: overtime_seconds_def regulation_seconds_def ResetTiming_def)

lemma CaptureMatch_reset:
  "cm_durationSeconds (CaptureMatch ctx (ResetTiming st)) = Fin 0"
  "cm_overtimeSeconds (CaptureMatch ctx (ResetTiming st)) = Fin 0"
  by (simp_all add: CaptureMatch_def Let_def)

lemma FinalizeMatch_save_clocks:
  assumes "fx_saveMatch (snd (FinalizeMatch w s ctx st fx))" "\<not> fx_saveMatch fx"
  shows "sv_durationSeconds (fx_saveSnapshot (snd (FinalizeMatch w s ctx st fx))) = cm_durationSeconds (CaptureMatch ctx st)"
    "sv_overtimeSeconds (fx_saveSnapshot (snd (FinalizeMatch w s ctx st fx))) = cm_overtimeSeconds (CaptureMatch ctx st)"
  using assms FinalizeCapturedMatch_nosave[of "CaptureMatch ctx st" w st s True ctx fx]
    FinalizeCapturedMatch_save(5,6)[of "CaptureMatch ctx st" w st s True ctx fx]
  by (auto simp: FinalizeMatch_def fx_frame_def split: if_splits)

text \<open>A destroyed match is captured after its clocks were reset.\<close>

definition clocks_zero :: "SideEffects \<Rightarrow> bool" where
  "clocks_zero fx =
     ((fx_saveMatch fx \<longrightarrow> sv_durationSeconds (fx_saveSnapshot fx) = Fin 0 \<and>
        sv_overtimeSeconds (fx_saveSnapshot fx) = Fin 0) \<and>
      (\<forall>sv. fx_provisionalSaveSnapshot fx = Some sv \<longrightarrow>
        sv_durationSeconds sv = Fin 0 \<and> sv_overtimeSeconds sv = Fin 0))"

lemma clocks_zero_frame: "fx_frame fx = fx_frame fx' \<Longrightarrow> clocks_zero fx = clocks_zero fx'"
  by (simp add: clocks_zero_def fx_frame_def)

lemma quiet_clocks_zero: "quiet fx \<Longrightarrow> clocks_zero fx"
  by (simp add: clocks_zero_def quiet_def)

lemma FinalizeMatch_clocks_zero:
  "quiet fx \<Longrightarrow> clocks_zero (snd (FinalizeMatch w s ctx (ResetTiming st) fx))"
  using FinalizeMatch_save_clocks[of w s ctx "ResetTiming st" fx] no_provisional(2)[of w s ctx "ResetTiming st" fx]
  by (auto simp: clocks_zero_def quiet_def CaptureMatch_reset)

lemma void_clocks_zero: "clocks_zero (snd (MarkDestroyedMatchVoid r st fx)) = clocks_zero fx"
  by (rule clocks_zero_frame) (rule keeps)

lemma await_clocks_zero:
  assumes "quiet fx" "cm_durationSeconds m = Fin 0" "cm_overtimeSeconds m = Fin 0"
  shows "clocks_zero (snd (await_confirmation m r ctx st fx))"
proof -
  let ?fx = "fx\<lparr>fx_pendingMatchHistory := Some (pending_summary m)\<rparr>"
  have "\<not> fx_saveMatch (provisional_save m ctx ?fx)"
    using assms(1) by (simp add: provisional_save_def quiet_def Let_def)
  moreover have "sv_durationSeconds sv = Fin 0 \<and> sv_overtimeSeconds sv = Fin 0"
    if "fx_provisionalSaveSnapshot (provisional_save m ctx ?fx) = Some sv" for sv
    using provisional_save_Some[OF that] assms by (simp add: quiet_def)
  ultimately show ?thesis by (simp add: await_confirmation_def clocks_zero_def)
qed

lemma early_exit_clocks_zero: "quiet fx \<Longrightarrow> clocks_zero (snd (early_exit ctx (ResetTiming st) fx))"
proof (cases "IsValidEarlyCompetitiveExit (ResetTiming st)")
  case (Inl r)
  assume q: "quiet fx"
  then show ?thesis using Inl by (simp add: early_exit_def void_clocks_zero quiet_clocks_zero)
next
  case (Inr mode)
  assume q: "quiet fx"
  let ?m = "(CaptureMatch ctx (ResetTiming st))\<lparr>cm_mode := mode\<rparr>"
  have "clocks_zero (snd (await_confirmation ?m r ctx (ResetTiming st) fx))" for r
    by (rule await_clocks_zero) (simp_all add: q CaptureMatch_reset)
  moreover have "clocks_zero (snd (MarkDestroyedMatchVoid r (ResetTiming st) fx))" for r
    using q by (simp add: void_clocks_zero quiet_clocks_zero)
  ultimately show ?thesis
    using Inr FinalizeMatch_clocks_zero[OF q] by (simp add: early_exit_def Let_def split: option.split)
qed

lemma destroy_outcome_clocks_zero: "quiet fx \<Longrightarrow> clocks_zero (snd (destroy_outcome ev ctx (ResetTiming st) fx))"
  using early_exit_clocks_zero[of fx ctx st] FinalizeMatch_clocks_zero[of fx _ _ ctx st]
  by (simp add: destroy_outcome_def quiet_clocks_zero Let_def)

lemma HandleMatchDestroyed_clocks_zero: "clocks_zero (snd (HandleMatchDestroyed ev ctx st SideEffects0))"
proof (cases rule: HandleMatchDestroyed_cases[of ev ctx st SideEffects0])
  case (left s)
  then show ?thesis
    using destroy_outcome_clocks_zero[of SideEffects0 ev ctx s] clocks_zero_frame[OF push_discord_frame]
    by (simp add: left(1))
qed (simp add: quiet_clocks_zero)

lemma reduce_destroyed_clocks_zero: "clocks_zero (snd (reduce (Event (EvMatchDestroyed ev) ctx) st))"
  using HandleMatchDestroyed_clocks_zero[of ev ctx] clocks_zero_frame[OF helpers_frame(2)]
  by (simp add: ReduceInPlace_def Let_def case_prod_unfold)

text \<open>Finalizing any match resets the clocks of the live one.\<close>

lemma FinalizeCapturedMatch_resets:
  assumes "cm_matchGuid m = [] \<or> cm_matchGuid m \<notin> finalizedMatchGuids st"
  shows "\<exists>s'. fst (FinalizeCapturedMatch m w s e ctx st fx) = ResetTiming s'"
  using assms by (auto simp: FinalizeCapturedMatch_def Let_def case_prod_unfold)

text \<open>Leaving by a forfeit that was announced is a loss at once.\<close>

lemma early_forfeit_loss:
  assumes "IsValidEarlyCompetitiveExit st = Inr mode" "explicitLocalForfeit st"
    "matchGuid st \<notin> finalizedMatchGuids st"
  shows "saves_now (CaptureMatch ctx st) (1 - myTeam st) st"
    "early_exit ctx st fx = FinalizeCapturedMatch (CaptureMatch ctx st) (1 - myTeam st) LocalForfeit True ctx st fx"
  using early_exit_mode[OF assms(1)] early_exit_countable[OF assms(1), of ctx] assms
  by (auto simp: saves_now_countable is_team_def early_exit_def FinalizeMatch_def)

lemma CaptureMatch_fields [simp]:
  "cm_sessionGeneration (CaptureMatch ctx st) = sessionGeneration st"
  "cm_myTeam (CaptureMatch ctx st) = myTeam st"
  "cm_matchGeneration (CaptureMatch ctx st) = activeMatchGeneration st"
  by (simp_all add: CaptureMatch_def Let_def)

lemma early_forfeit_books:
  assumes "IsValidEarlyCompetitiveExit st = Inr mode" "explicitLocalForfeit st"
    "matchGuid st \<notin> finalizedMatchGuids st"
  shows "st_losses (sessionTotals (fst (early_exit ctx st fx))) = st_losses (sessionTotals st) + 1"
    "st_wins (sessionTotals (fst (early_exit ctx st fx))) = st_wins (sessionTotals st)"
    "fx_saveMatch (snd (early_exit ctx st fx))"
  using early_forfeit_loss(1)[OF assms, of ctx] early_forfeit_loss(2)[OF assms, of ctx fx]
    FinalizeCapturedMatch_results[of "CaptureMatch ctx st" "1 - myTeam st" LocalForfeit True ctx st fx]
    FinalizeCapturedMatch_save(1)[OF early_forfeit_loss(1)[OF assms, of ctx], of LocalForfeit True ctx fx]
    early_exit_mode[OF assms(1)]
  by (auto simp: is_team_def)

section \<open>The clocks captured\<close>

lemma captured_clocks_nonneg:
  "fp_nonneg (cm_overtimeSeconds (CaptureMatch ctx st))" "fp_nonneg (cm_durationSeconds (CaptureMatch ctx st))"
proof -
  have ot: "fp_nonneg (overtime_seconds n st)" for n
    by (simp add: overtime_seconds_def Let_def fp_simps split: option.split)
  then show "fp_nonneg (cm_overtimeSeconds (CaptureMatch ctx st))" by (simp add: CaptureMatch_def Let_def)
  have "fp_nonneg (regulation_seconds st)"
    by (simp add: regulation_seconds_def fp_simps split: option.split)
  then show "fp_nonneg (cm_durationSeconds (CaptureMatch ctx st))"
    using ot by (simp add: CaptureMatch_def Let_def fp_simps)
qed

end
