(* ===== verification/Session_Facts.thy ===== *)
theory Session_Facts
  imports Match_Facts
begin

text \<open>
  The identity of the local player, the upkeep of the roster, the journal, the rating before a
  match, the pending history and the end of a session.
\<close>

section \<open>The identity of the local player\<close>

text \<open>
  The scan names only players of the update, and a candidate that is the saved player was seen.
\<close>

definition scan_ok :: "string \<Rightarrow> string \<Rightarrow> MatchState \<times> SideEffects \<times> bool \<times> string list \<Rightarrow> bool" where
  "scan_ok me saved acc =
     (let (st, fx, seen, cands) = acc in
      myPrimaryId st = me \<and> [] \<notin> set cands \<and> (saved \<noteq> [] \<and> saved \<in> set cands \<longrightarrow> seen))"

lemma scan_player_ok: "scan_ok me saved acc \<Longrightarrow> scan_ok me saved (scan_player ctx cam saved p acc)"
  by (auto simp: scan_ok_def scan_player_def insert_end_def Let_def split: prod.splits)

lemma scan_ok: "scan_ok me saved acc \<Longrightarrow> scan_ok me saved (fold (scan_player ctx cam saved) ps acc)"
  by (rule fold_inv) (rule scan_player_ok)

lemma adopt_identity_id: "myPrimaryId (fst (adopt_identity ctx ps pid st fx)) = pid"
  "missedMyIdCount (fst (adopt_identity ctx ps pid st fx)) = missedMyIdCount st"
  by (simp_all add: adopt_identity_def RequeueEncounterRecords_def Let_def case_prod_unfold split: option.split)

lemma fold_min_in: "fold min xs (x :: 'a :: linorder) \<in> set (x # xs)"
proof -
  have "Min (set (x # xs)) \<in> set (x # xs)" by (rule Min_in) simp_all
  then show ?thesis by (simp only: Min.set_eq_fold)
qed

lemma identity_confirm_id: "myPrimaryId (fst (identity_confirm cands st fx)) = myPrimaryId st"
  by (simp add: identity_confirm_def Let_def)

text \<open>The switch takes the place of the reset: a candidate other than the saved player is adopted.\<close>

lemma identity_switch_adopts:
  assumes "saved \<noteq> []" "\<not> seen" "cands \<noteq> []" "saved \<in> set cands \<longrightarrow> seen" "[] \<notin> set cands"
  shows "missedMyIdCount (fst (identity_switch ctx ps saved seen cands st fx)) = 0"
    "myPrimaryId (fst (identity_switch ctx ps saved seen cands st fx)) \<noteq> []"
proof -
  let ?new = "fold min (tl cands) (hd cands)"
  have "?new \<in> set cands" using fold_min_in[of "tl cands" "hd cands"] assms(3) by simp
  then have "?new \<noteq> saved" "?new \<noteq> []" using assms by auto
  then show "missedMyIdCount (fst (identity_switch ctx ps saved seen cands st fx)) = 0"
    "myPrimaryId (fst (identity_switch ctx ps saved seen cands st fx)) \<noteq> []"
    using assms(1-3) by (simp_all add: identity_switch_def Let_def case_prod_unfold adopt_identity_id)
qed

lemma identity_missed_kept:
  assumes "saved \<noteq> []" "seen \<or> missedMyIdCount st = 0"
  shows "myPrimaryId (fst (identity_missed saved seen st fx)) = myPrimaryId st"
    "snd (snd (identity_missed saved seen st fx)) = saved"
  using assms by (auto simp: identity_missed_def Let_def)

lemma stage_identity_kept:
  assumes "myPrimaryId st \<noteq> []"
  shows "myPrimaryId (fst (stage_identity ev ctx st fx)) \<noteq> []"
proof -
  let ?saved = "myPrimaryId st"
  obtain s1 f1 seen cands where scan: "fold (scan_player ctx (us_cameraTargetPlayerId ev) ?saved)
      (us_players ev) (note_saved_id st, fx, False, []) = (s1, f1, seen, cands)" by (rule prod_cases4)
  have "scan_ok ?saved ?saved (s1, f1, seen, cands)"
    unfolding scan[symmetric] by (rule scan_ok) (simp add: scan_ok_def note_saved_id_def)
  then have s1: "myPrimaryId s1 = ?saved" "[] \<notin> set cands" "?saved \<in> set cands \<longrightarrow> seen"
    using assms by (auto simp: scan_ok_def)
  define s2 where "s2 = identity_switch ctx (us_players ev) ?saved seen cands s1 f1"
  define s3 where "s3 = identity_missed ?saved seen (fst s2) (snd s2)"
  have kept: "myPrimaryId (fst s2) \<noteq> []" "seen \<or> missedMyIdCount (fst s2) = 0" if "cands \<noteq> []"
    using identity_switch_adopts[OF assms _ that s1(3,2)] that assms s1(1)
    by (cases seen; simp add: s2_def identity_switch_def)+
  have "myPrimaryId (fst s3) \<noteq> []" "snd (snd s3) = ?saved" if "cands \<noteq> []"
    using identity_missed_kept[OF assms kept(2)[OF that]] kept(1)[OF that] by (simp_all add: s3_def)
  then show ?thesis
    using assms s1(1)
    by (simp add: stage_identity_def scan Let_def case_prod_unfold identity_confirm_id identity_eliminate_def
        flip: s2_def s3_def)
qed

section \<open>The upkeep of the roster\<close>

text \<open>A player is dropped from the roster after five seconds out of sight, except the local one.\<close>

definition out_of_sight :: "int \<Rightarrow> MatchState \<Rightarrow> string \<Rightarrow> bool" where
  "out_of_sight nowMs st pid =
     (pid \<noteq> myPrimaryId st \<and> (\<exists>t. map_of (lastPlayerSeenMs st) pid = Some t \<and> 5000 \<le> nowMs - t))"

lemma prune_entry_other:
  assumes "pid \<noteq> fst e"
  shows "map_of (roster (prune_entry n e st)) pid = map_of (roster st) pid"
    "map_of (matchRoster (prune_entry n e st)) pid = map_of (matchRoster st) pid"
    "out_of_sight n (prune_entry n e st) pid = out_of_sight n st pid"
    "myPrimaryId (prune_entry n e st) = myPrimaryId st"
  using assms by (auto simp: prune_entry_def out_of_sight_def case_prod_unfold um_simps split: option.split)

lemma prune_entry_self:
  "map_of (roster (prune_entry n (pid, p) st)) pid = (if out_of_sight n st pid then None else map_of (roster st) pid)"
  "map_of (matchRoster (prune_entry n (pid, p) st)) pid =
     (if out_of_sight n st pid then Some p else map_of (matchRoster st) pid)"
  by (auto simp: prune_entry_def out_of_sight_def um_simps split: option.split)

lemma fold_prune_absent:
  "pid \<notin> fst ` set es \<Longrightarrow> map_of (roster (fold (prune_entry n) es st)) pid = map_of (roster st) pid"
  "pid \<notin> fst ` set es \<Longrightarrow> map_of (matchRoster (fold (prune_entry n) es st)) pid = map_of (matchRoster st) pid"
  by (induction es arbitrary: st) (simp_all add: prune_entry_other)

lemma fold_prune:
  "um_inv es \<Longrightarrow> map_of es pid = Some p \<Longrightarrow>
   map_of (roster (fold (prune_entry n) es st)) pid =
     (if out_of_sight n st pid then None else map_of (roster st) pid) \<and>
   map_of (matchRoster (fold (prune_entry n) es st)) pid =
     (if out_of_sight n st pid then Some p else map_of (matchRoster st) pid)"
proof (induction es arbitrary: st)
  case (Cons e es)
  show ?case
  proof (cases "fst e = pid")
    case True
    then have "e = (pid, p)" "pid \<notin> fst ` set es"
      using Cons.prems by (cases e; auto simp: um_inv_def)+
    then show ?thesis by (simp add: fold_prune_absent prune_entry_self)
  next
    case False
    then have "um_inv es" "map_of es pid = Some p"
      using Cons.prems by (cases e; auto simp: um_inv_def)+
    then show ?thesis using Cons.IH[of "prune_entry n e st"] False by (auto simp: prune_entry_other)
  qed
qed simp

lemma stage_prune_lookup:
  assumes "um_inv (roster st)"
  shows "map_of (roster (stage_prune n st)) pid =
      (if out_of_sight n st pid then None else map_of (roster st) pid)"
    and "map_of (roster st) pid = Some p \<Longrightarrow> out_of_sight n st pid \<Longrightarrow>
      map_of (matchRoster (stage_prune n st)) pid = Some p"
proof -
  show "map_of (roster (stage_prune n st)) pid = (if out_of_sight n st pid then None else map_of (roster st) pid)"
  proof (cases "map_of (roster st) pid")
    case None
    then show ?thesis by (simp add: stage_prune_def fold_prune_absent(1) map_of_eq_None_iff)
  qed (simp add: stage_prune_def fold_prune[OF assms])
  show "map_of (roster st) pid = Some p \<Longrightarrow> out_of_sight n st pid \<Longrightarrow>
      map_of (matchRoster (stage_prune n st)) pid = Some p"
    by (simp add: stage_prune_def fold_prune[OF assms])
qed

section \<open>The journal\<close>

text \<open>An event with an identifier of its own is recorded once.\<close>

lemma RecordJournalEvent_known:
  "eventId \<noteq> [] \<Longrightarrow> journal_key src ty eventId \<in> eventNativeKeys st \<Longrightarrow>
   RecordJournalEvent ctx ty g a an b bn src n s v w eventId st = st"
  by (simp add: RecordJournalEvent_def Let_def)

lemma RecordJournalEvent_records:
  "\<not> journal_blocked st g \<Longrightarrow> eventId \<noteq> [] \<Longrightarrow>
   journal_key src ty eventId \<in> eventNativeKeys (RecordJournalEvent ctx ty g a an b bn src n s v w eventId st)"
  by (simp add: RecordJournalEvent_def Let_def)

section \<open>The rating before a match\<close>

lemma CapturePreMatchMmr_once:
  "map_of (preMatchMmrByGuid st) g = Some s \<Longrightarrow> map_of (preMatchMmrByGuid (CapturePreMatchMmr st)) g = Some s"
  by (auto simp: CapturePreMatchMmr_def um_has_def um_simps split: option.split)

lemma UpdateRosterMmr_once:
  "map_of (preMatchMmrByGuid st) g = Some s \<Longrightarrow>
   map_of (preMatchMmrByGuid (UpdateRosterMmr pid pl ms st)) g = Some s"
  by (auto simp: UpdateRosterMmr_def roster_entry_def publish_def um_has_def um_simps Let_def split: option.split)

section \<open>The pending history\<close>

text \<open>At most fifty summaries, one per match, newest first.\<close>

definition pending_history_ok :: "HistoryData \<Rightarrow> bool" where
  "pending_history_ok h =
     (length (hd_pendingRecentMatches h) \<le> kPreviousGamesMaxLimit \<and>
      distinct (map sms_matchGuid (hd_pendingRecentMatches h)))"

lemma route_pending_history_ok:
  assumes "pending_history_ok h"
  shows "pending_history_ok (route_pending_history m h)"
proof (cases "list_ex (\<lambda>p. sms_matchGuid p = sms_matchGuid m) (hd_pendingRecentMatches h)")
  case False
  then have "distinct (map sms_matchGuid (m # hd_pendingRecentMatches h))"
    using assms by (auto simp: pending_history_ok_def list_ex_iff)
  then have "distinct (take k (map sms_matchGuid (m # hd_pendingRecentMatches h)))" for k
    by (rule distinct_take)
  then show ?thesis using False
    by (simp add: pending_history_ok_def route_pending_history_def Mutate_def take_map del: list.map)
qed (use assms in \<open>simp add: pending_history_ok_def route_pending_history_def Mutate_def\<close>)

lemma saved_matches_ok: "pending_history_ok h \<Longrightarrow> pending_history_ok (SetRecentSavedMatches saved h)"
  by (auto simp: pending_history_ok_def SetRecentSavedMatches_def Mutate_def distinct_map_filter
      intro: order_trans[OF length_filter_le])

lemma resolve_ok: "pending_history_ok h \<Longrightarrow> pending_history_ok (ResolvePendingRecentMatch g h)"
  by (auto simp: pending_history_ok_def ResolvePendingRecentMatch_def Mutate_def distinct_map_filter
      intro: order_trans[OF length_filter_le])

section \<open>The end of a session\<close>

definition session_over :: "int \<Rightarrow> MatchState \<Rightarrow> bool" where
  "session_over nowUnix st =
     (\<not> inMatch st \<and> 0 < played (sessionTotals st) \<and> 0 < lastMatchEndedAtUnix st \<and>
      kSessionGapSeconds < nowUnix - lastMatchEndedAtUnix st)"

lemma CloseSessionIfInactive_cases:
  "CloseSessionIfInactive nowUnix h st =
     (if session_over nowUnix st then Store_StartNewSession (lastMatchEndedAtUnix st) h st
      else (publish st, h, False))"
  by (auto simp: CloseSessionIfInactive_def session_over_def played_def StartsNewSession_def)

lemma StartNewSession_result:
  assumes "0 < played (sessionTotals st)"
  shows "snd (snd (Store_StartNewSession t h st))"
    "sessionTotals (fst (Store_StartNewSession t h st)) = SessionTotals0"
    "sessionGeneration (fst (Store_StartNewSession t h st)) = sessionGeneration st + 1"
    "rcp_totals (lastSessionRecap (fst (Store_StartNewSession t h st))) = sessionTotals st"
    "rcp_sessionGeneration (lastSessionRecap (fst (Store_StartNewSession t h st))) = sessionGeneration st"
    "rcp_matchGuids (lastSessionRecap (fst (Store_StartNewSession t h st))) = recap_guids (sessionMatchGuids st) (Some h)"
  using assms
  by (simp_all add: Store_StartNewSession_def MatchState_StartNewSession_def session_recap_def publish_def
      played_def Let_def)

text \<open>Any sequence of what the router and the database do to the pending history keeps it so.\<close>

datatype HistoryOp =
    QueuePending SessionMatchSummary
  | LoadSaved "SessionMatchSummary list"
  | ResolvePending string
  | ShowAccount string

fun history_op :: "HistoryOp \<Rightarrow> HistoryData \<Rightarrow> HistoryData" where
  "history_op (QueuePending m) h = route_pending_history m h"
| "history_op (LoadSaved saved) h = SetRecentSavedMatches saved h"
| "history_op (ResolvePending g) h = ResolvePendingRecentMatch g h"
| "history_op (ShowAccount a) h = HistoryData_SelectMmrOwner a h"

lemma SelectMmrOwner_pending [simp]:
  "hd_pendingRecentMatches (HistoryData_SelectMmrOwner a h) = hd_pendingRecentMatches h"
  by (simp add: HistoryData_SelectMmrOwner_def load_history_def Let_def split: option.split)

interpretation hist: invariant_machine history_op pending_history_ok
proof
  fix h i
  assume "pending_history_ok h"
  then show "pending_history_ok (history_op i h)"
    by (cases i) (simp_all add: route_pending_history_ok saved_matches_ok resolve_ok,
        simp add: pending_history_ok_def)
qed

section \<open>The start of a match, and events of a match that is closed\<close>

lemma created_new_fields:
  "inMatch (created_new g st)" "matchGuid (created_new g st) = g" "matchEvents (created_new g st) = []"
  "currentMatch (created_new g st) = MatchStats0" "roster (created_new g st) = []"
  "matchRoster (created_new g st) = []" "analytics (created_new g st) = Tracker0"
  "score (created_new g st) = (0, 0)" "playlistId (created_new g st) = -1"
  "matchFinalized (created_new g st) = False" "pauseIntervals (created_new g st) = []"
  "regulationClockStart (created_new g st) = None"
  "activeMatchGeneration (created_new g st) = nextMatchGeneration st + 1"
  by (simp_all add: created_new_def ResetMatch_def ResetTiming_def store_initial_mmr_def Let_def split: option.split)

lemma created_ui_fields:
  "inMatch (fst (created_ui g n old st fx)) = inMatch st"
  "matchGuid (fst (created_ui g n old st fx)) = matchGuid st"
  "matchEvents (fst (created_ui g n old st fx)) = matchEvents st"
  "currentMatch (fst (created_ui g n old st fx)) = currentMatch st"
  "roster (fst (created_ui g n old st fx)) = roster st"
  "analytics (fst (created_ui g n old st fx)) = analytics st"
  "score (fst (created_ui g n old st fx)) = score st"
  "regulationClockStart (fst (created_ui g n old st fx)) = regulationClockStart st"
  "pauseIntervals (fst (created_ui g n old st fx)) = pauseIntervals st"
  "activeMatchGeneration (fst (created_ui g n old st fx)) = activeMatchGeneration st"
  by (simp_all add: created_ui_def reset_timestamps_def Let_def)

lemma track_clocks [frame]: "match_clocks (track g b f st) = match_clocks st"
  by (simp add: track_def match_clocks_def)

lemma closed_events_clocks:
  assumes "g \<noteq> []" "g \<in> finalizedMatchGuids st \<or> um_has (pendingDestroyedMatches st) g"
  shows "match_clocks (fst (OnMatchInitialized g ctx st fx)) = match_clocks st"
    "match_clocks (fst (OnCountdownBegin g ctx st fx)) = match_clocks st"
    "match_clocks (fst (OnRoundStarted g ctx st fx)) = match_clocks st"
    "roundEverStarted (fst (OnRoundStarted g ctx st fx))"
  using AcceptsUiMatchEvent_closed[OF assms, of "now_ms ctx" fx]
  by (simp_all add: OnMatchInitialized_def OnCountdownBegin_def OnRoundStarted_def Let_def frame)
    (simp_all add: match_clocks_def track_def)

lemma closed_goal:
  assumes "gs_matchGuid ev \<noteq> []"
    "gs_matchGuid ev \<in> finalizedMatchGuids st \<or> um_has (pendingDestroyedMatches st) (gs_matchGuid ev)"
  shows "HandleGoalScored ev ctx st fx = (st, fx)"
  using AcceptsUiMatchEvent_closed[OF assms, of "now_ms ctx" fx] assms
  by (auto simp: HandleGoalScored_def goal_ui_def stale_goal_def)

section \<open>Events outside live play\<close>

lemma journal_analytics [frame]: "analytics (RecordJournalEvent ctx ty g a an b bn src n s v w e st) = analytics st"
  by (simp add: RecordJournalEvent_def Let_def)

lemma upd_player_analytics [frame]: "analytics (upd_player pid f st) = analytics st"
  by (simp add: upd_player_def split: option.split)

lemma count_statfeed_analytics: "analytics (count_statfeed ty a b c d st) = analytics st"
  by (simp add: count_statfeed_def Let_def upd_player_analytics)

lemma HandleStatfeed_analytics [frame]: "analytics (HandleStatfeed ev ctx st) = analytics st"
  by (simp add: HandleStatfeed_def count_statfeed_analytics journal_analytics Let_def)

lemma HandleBallHit_analytics [frame]: "analytics (HandleBallHit ev st) = analytics st"
  by (simp add: HandleBallHit_def Let_def)

lemma track_rejected: "\<not> AcceptsAnalyticsEvent st g b \<Longrightarrow> track g b f st = st"
  by (simp add: track_def)

text \<open>The events of the ball, the boost, the stat feed, the players and the pauses.\<close>

definition live_play_event :: "TelemetryEvent \<Rightarrow> bool" where
  "live_play_event ev = (case ev of
     EvStatfeed e \<Rightarrow> True | EvBallHit e \<Rightarrow> True | EvBoostPickup e \<Rightarrow> True | EvPlayerLeft e \<Rightarrow> True
   | EvMatchPaused g \<Rightarrow> True | EvMatchUnpaused g \<Rightarrow> True | _ \<Rightarrow> False)"

lemma not_live_not_analysed:
  assumes "live_play_event ev"
    "\<not> inMatch st \<or> matchFinalized st \<or> inReplay st \<or> nonLiveReplayActive st"
  shows "analytics (fst (dispatch ev ctx st fx)) = analytics st"
proof -
  have "\<not> AcceptsAnalyticsEvent (st\<lparr>currentPauseStartMs := p\<rparr>) g False" 
    "\<not> AcceptsAnalyticsEvent (st\<lparr>pauseIntervals := q, currentPauseStartMs := p\<rparr>) g False"
    "\<not> AcceptsAnalyticsEvent st g False" for p q g
    using assms(2) by (auto simp: AcceptsAnalyticsEvent_def)
  with assms(1) show ?thesis
    by (cases ev) (simp_all add: live_play_event_def track_rejected frame OnMatchPaused_def OnMatchUnpaused_def
        split: option.split)
qed

section \<open>Boost\<close>

text \<open>The refill after a demolition is not a pickup.\<close>

lemma stage_boost_respawn:
  "up_primaryId p \<in> boostRespawnPending st \<Longrightarrow> currentMatch (stage_boost p st) = currentMatch st"
  by (simp add: stage_boost_def boost_change_def Let_def split: option.split)

end
