(* ===== verification/Samples.thy ===== *)
theory Samples
  imports Reducer
begin

text \<open>Concrete configurations, contexts, states and matches the properties are applied at.\<close>

definition sample_config :: Config where
  "sample_config =
     \<lparr>cf_reset_session_on_close = False, cf_show_extra_playlists = True,
      cf_auto_switch_mmr_category = True, cf_graph_follow_current_playlist = True,
      cf_graph_mmr_category = ''2v2'', cf_rank_progress_follow_current_playlist = True,
      cf_rank_progress_mmr_category = ''2v2'', cf_enable_mmr_tracking = True,
      cf_custom_api_enabled = False, cf_account_refresh_token = [],
      cf_last_primary_id = ''Steam|1'', cf_previous_games_limit = 20\<rparr>"

definition sample_context :: ReducerContext where
  "sample_context =
     \<lparr>rc_nowMs = 90000, rc_nowSeconds = Fin 90, rc_nowUnix = 1700000000, rc_config = sample_config,
      rc_rosterMmrCategory = Best, rc_rankProgressMmrCategory = TwoVTwo,
      rc_graphMmrCategory = TwoVTwo, rc_steadyMs = 90000, rc_systemMs = 1700000000000\<rparr>"

text \<open>A ranked doubles match, one goal ahead, in which the local player takes part.\<close>

definition sample_player :: PlayerData where
  "sample_player = PlayerData0\<lparr>pd_primaryId := ''Steam|1'', pd_name := ''me'', pd_team := 0\<rparr>"

definition sample_live :: MatchState where
  "sample_live = MatchState0
     \<lparr>inMatch := True, matchGuid := ''m1'', playlistId := 11, myTeam := 0, score := (2, 1),
      roundEverStarted := True, localPlayerWasActive := True, myPrimaryId := ''Steam|1'',
      roster := [(''Steam|1'', sample_player)], matchRoster := [(''Steam|1'', sample_player)],
      activeMatchGeneration := 1, nextMatchGeneration := 1\<rparr>"

definition sample_left :: CapturedMatch where
  "sample_left = CapturedMatch0
     \<lparr>cm_matchGuid := ''m1'', cm_playlistId := 11, cm_myTeam := 0, cm_score := (2, 1),
      cm_roundEverStarted := True, cm_localPlayerWasActive := True, cm_mode := ''2v2'',
      cm_myPrimaryId := ''Steam|1'', cm_matchGeneration := 1\<rparr>"

text \<open>The next match is running while that one waits for its result.\<close>

definition sample_waiting :: MatchState where
  "sample_waiting = MatchState0
     \<lparr>inMatch := True, matchGuid := ''m2'', pendingDestroyedMatches := [(''m1'', sample_left)],
      regulationClockStart := Some (Fin 300), activeMatchGeneration := 2, nextMatchGeneration := 2\<rparr>"

definition sample_leaving :: MatchDestroyedEvent where
  "sample_leaving = \<lparr>md_matchGuid = ''m1'', md_teamScores = (0, 0), md_hasTeamScores = False,
     md_forfeitScopes = [], md_winnerTeam = None\<rparr>"

definition sample_goal :: GoalScoredEvent where
  "sample_goal = \<lparr>gs_matchGuid = ''m1'', gs_scorer = PlayerRef0\<lparr>pr_name := ''me''\<rparr>, gs_hasScorer = True,
     gs_assister = None, gs_goalSpeed = None, gs_lastTouchSpeed = None, gs_roundSeconds = None,
     gs_impactLocation = None, gs_isEcho = False, gs_eventId = [], gs_secondsRemaining = None\<rparr>"

lemmas sample_simps = sample_config_def sample_context_def sample_player_def sample_live_def sample_left_def
  sample_waiting_def sample_leaving_def MatchState0_def CapturedMatch0_def

lemma sample_playlist: "Find 11 \<noteq> None" "IsKnown 11" "\<not> IsNonRecordable 11" "HasAuthoritativeId 11"
  "CanonicalMode 11 = ''2v2''"
  by code_simp+

end
