(* ===== verification/Frame_Scanner.thy ===== *)
theory Frame_Scanner
  imports Prelude
begin

text \<open>
  \<open>network/telemetry/TelemetryParser.cpp\<close>: the connection to the game and the loop that cuts its
  byte stream into JSON messages. The socket library is outside the model: what its calls return
  is an input (\<open>Network\<close>, \<open>ReadResult\<close>). The scanner works on positions in the buffer, as the
  code does; \<open>frames\<close> is the same cut stated on the bytes alone, and everything is proved of it.
\<close>

section \<open>The scanner\<close>

record Scan =
  sn_braceCount :: int
  sn_inString :: bool
  sn_isEscaped :: bool

definition Scan0 :: Scan where
  "Scan0 = \<lparr>sn_braceCount = 0, sn_inString = False, sn_isEscaped = False\<rparr>"

text \<open>One turn of the inner loop: the new state, and whether this byte closes the message.\<close>

definition scan_char :: "char \<Rightarrow> Scan \<Rightarrow> Scan \<times> bool" where
  "scan_char c s =
     (if sn_isEscaped s then (s\<lparr>sn_isEscaped := False\<rparr>, False)
      else if c = CHR 0x5C then (s\<lparr>sn_isEscaped := True\<rparr>, False)
      else if c = CHR 0x22 then (s\<lparr>sn_inString := \<not> sn_inString s\<rparr>, False)
      else if \<not> sn_inString s then
        (if c = CHR ''{'' then (s\<lparr>sn_braceCount := sn_braceCount s + 1\<rparr>, False)
         else if c = CHR ''}'' then
           (s\<lparr>sn_braceCount := sn_braceCount s - 1\<rparr>, sn_braceCount s - 1 = 0)
         else (s, False))
      else (s, False))"

function find_end :: "string \<Rightarrow> nat \<Rightarrow> Scan \<Rightarrow> nat option" where
  "find_end buf i s =
     (if i < length buf then
        (let (s', closed) = scan_char (buf ! i) s
         in if closed then Some i else find_end buf (i + 1) s')
      else None)"
  by pat_completeness auto
termination by (relation "measure (\<lambda>(buf, i, s). length buf - i)") auto

declare find_end.simps [simp del]

lemma find_end_unfold:
  "find_end buf i s =
     (if i < length buf then
        (if snd (scan_char (buf ! i) s) then Some i else find_end buf (i + 1) (fst (scan_char (buf ! i) s)))
      else None)"
  by (simp add: find_end.simps[of buf i s] case_prod_unfold Let_def)

lemma find_end_bounds: "find_end buf i s = Some e \<Longrightarrow> i \<le> e \<and> e < length buf"
proof (induction "length buf - i" arbitrary: i s)
  case (Suc n)
  then have "find_end buf (i + 1) s' = Some e \<Longrightarrow> i + 1 \<le> e \<and> e < length buf" for s'
    using Suc.hyps(1)[of "i + 1" s'] by linarith
  then show ?case using Suc.prems Suc.hyps(2) find_end_unfold[of buf i s]
    by (fastforce split: if_splits)
qed (simp add: find_end_unfold)

text \<open>The outer loop: the messages found from \<open>searchPos\<close> on and the position it stops at.\<close>

function deliver :: "string \<Rightarrow> nat \<Rightarrow> string list \<times> nat" where
  "deliver buf searchPos =
     (if searchPos < length buf then
        (if is_space (buf ! searchPos) then deliver buf (searchPos + 1)
         else if buf ! searchPos \<noteq> CHR ''{'' then deliver buf (searchPos + 1)
         else (case find_end buf searchPos Scan0 of
                 Some endIdx \<Rightarrow>
                   (let (ms, p) = deliver buf (endIdx + 1)
                    in (take (endIdx - searchPos + 1) (drop searchPos buf) # ms, p))
               | None \<Rightarrow> ([], searchPos)))
      else ([], searchPos))"
  by pat_completeness auto
termination
  by (relation "measure (\<lambda>(buf, p). length buf - p)") (auto dest!: find_end_bounds)

declare deliver.simps [simp del]

section \<open>The read loop\<close>

datatype ReaderError =
    BufferLimitExceeded
  | SystemError
  | NoSafeSourcePort
  | ConnectFailed
  | SelfConnection

text \<open>What one turn of the read loop meets: bytes, nothing yet, an error, or a stop request.\<close>

datatype ReadResult = Received string | WouldBlock | ReadFailed | StopRequested

datatype ReadEnd = StillReading string | Stopped | Thrown ReaderError

definition kBufferLimit :: nat where
  "kBufferLimit = 1024 * 1024"

definition kReadSize :: nat where
  "kReadSize = 4096"

text \<open>New bytes: the buffer limit, the scan, and the part of the buffer that is kept.\<close>

definition take_bytes :: "string \<Rightarrow> string \<Rightarrow> ReaderError + string list \<times> string" where
  "take_bytes dataBuffer readBuf =
     (let buf = dataBuffer @ readBuf
      in if kBufferLimit < length buf then Inl BufferLimitExceeded
         else let (ms, searchPos) = deliver buf 0
              in Inr (ms, if 0 < searchPos
                          then (if length buf \<le> searchPos then [] else drop searchPos buf)
                          else buf))"

fun ReadLoop :: "ReadResult list \<Rightarrow> string \<Rightarrow> string list \<times> ReadEnd" where
  "ReadLoop [] buf = ([], StillReading buf)"
| "ReadLoop (StopRequested # rs) buf = ([], Stopped)"
| "ReadLoop (WouldBlock # rs) buf = ReadLoop rs buf"
| "ReadLoop (ReadFailed # rs) buf = ([], Thrown SystemError)"
| "ReadLoop (Received bytes # rs) buf =
     (case take_bytes buf bytes of
        Inl e \<Rightarrow> ([], Thrown e)
      | Inr (ms, buf') \<Rightarrow> (let (ms', end) = ReadLoop rs buf' in (ms @ ms', end)))"

section \<open>The connection\<close>

text \<open>
  One attempt to bind a source port: whether \<open>open\<close> and \<open>bind\<close> succeed, and the local port that
  \<open>local_endpoint\<close> reports, if it reports one. An endpoint is an address and a port.
\<close>

record SocketTry =
  st_opened :: bool
  st_bound :: bool
  st_localPort :: "nat option"

record Network =
  nw_endpoint :: "string \<times> nat"
  nw_tries :: "nat \<Rightarrow> SocketTry"
  nw_stoppedWhileConnecting :: bool
  nw_connected :: bool
  nw_local :: "(string \<times> nat) option"
  nw_remote :: "(string \<times> nat) option"

definition maxBindAttempts :: nat where
  "maxBindAttempts = 4"

text \<open>The loop over the attempts, \<open>n\<close> of them left; \<open>Inr\<close> says whether a safe port was bound.\<close>

fun bind_source :: "nat \<Rightarrow> (nat \<Rightarrow> SocketTry) \<Rightarrow> nat \<Rightarrow> ReaderError + bool" where
  "bind_source port tries 0 = Inr False"
| "bind_source port tries (Suc n) =
     (let t = tries (maxBindAttempts - Suc n)
      in if \<not> st_opened t then Inl SystemError
         else if \<not> st_bound t then Inl SystemError
         else (case st_localPort t of
                 None \<Rightarrow> Inl SystemError
               | Some p \<Rightarrow> if p \<noteq> port then Inr True else bind_source port tries n))"

definition connect_socket :: "Network \<Rightarrow> ReaderError + bool" where
  "connect_socket nw =
     (case bind_source (snd (nw_endpoint nw)) (nw_tries nw) maxBindAttempts of
        Inl e \<Rightarrow> Inl e
      | Inr False \<Rightarrow> Inl NoSafeSourcePort
      | Inr True \<Rightarrow>
          (if nw_stoppedWhileConnecting nw then Inr False
           else if \<not> nw_connected nw then Inl ConnectFailed
           else (case nw_local nw of
                   None \<Rightarrow> Inl SystemError
                 | Some l \<Rightarrow>
                     (case nw_remote nw of
                        None \<Rightarrow> Inl SystemError
                      | Some r \<Rightarrow> if l = r then Inl SelfConnection else Inr True))))"

definition ConnectAndRead :: "bool \<Rightarrow> Network \<Rightarrow> ReadResult list \<Rightarrow> string list \<times> ReadEnd" where
  "ConnectAndRead stopping nw rs =
     (if stopping then ([], Stopped)
      else (case connect_socket nw of
              Inl e \<Rightarrow> ([], Thrown e)
            | Inr False \<Rightarrow> ([], Stopped)
            | Inr True \<Rightarrow> ReadLoop rs []))"

section \<open>The cut of a byte string\<close>

text \<open>The last byte of the message that the string starts with, and all messages with the rest.\<close>

fun close_at :: "string \<Rightarrow> Scan \<Rightarrow> nat option" where
  "close_at [] s = None"
| "close_at (c # cs) s =
     (let (s', closed) = scan_char c s
      in if closed then Some 0 else map_option Suc (close_at cs s'))"

declare close_at.simps(2) [simp del]

lemma close_at_less: "close_at cs s = Some n \<Longrightarrow> n < length cs"
  by (induction cs s arbitrary: n rule: close_at.induct)
    (auto simp: close_at.simps(2) Let_def split: prod.splits if_splits)

lemma find_end_close_at: "find_end buf i s = map_option ((+) i) (close_at (drop i buf) s)"
proof (induction buf i s rule: find_end.induct)
  case (1 buf i s)
  show ?case
  proof (cases "i < length buf")
    case True
    then have "drop i buf = buf ! i # drop (i + 1) buf" by (simp add: Cons_nth_drop_Suc)
    then show ?thesis using True 1
      by (subst find_end.simps) (auto simp: close_at.simps(2) option.map_comp comp_def split: prod.splits)
  qed (simp add: find_end.simps)
qed

function frames :: "string \<Rightarrow> string list \<times> string" where
  "frames [] = ([], [])"
| "frames (c # cs) =
     (if c \<noteq> CHR ''{'' then frames cs
      else (case close_at (c # cs) Scan0 of
              None \<Rightarrow> ([], c # cs)
            | Some n \<Rightarrow> (let (ms, r) = frames (drop (n + 1) (c # cs))
                        in (take (n + 1) (c # cs) # ms, r))))"
  by pat_completeness auto
termination by (relation "measure length") (auto dest: close_at_less)

declare frames.simps(2) [simp del]

lemma space_no_brace: "is_space c \<Longrightarrow> c \<noteq> CHR ''{''"
  by (auto simp: is_space_def less_eq_char_def)

lemma deliver_frames: "frames (drop p buf) = (fst (deliver buf p), drop (snd (deliver buf p)) buf)"
proof (induction buf p rule: deliver.induct)
  case (1 buf p)
  show ?case
  proof (cases "p < length buf")
    case True
    then have d: "drop p buf = buf ! p # drop (p + 1) buf" by (simp add: Cons_nth_drop_Suc)
    show ?thesis
    proof (cases "buf ! p = CHR ''{''")
      case False
      then have "deliver buf p = deliver buf (p + 1)"
        using True by (simp add: deliver.simps[of buf p])
      then show ?thesis using True False 1(1,2)
        by (cases "is_space (buf ! p)") (simp_all add: d frames.simps(2))
    next
      case True
      then have ns: "\<not> is_space (buf ! p)" using space_no_brace by blast
      show ?thesis
      proof (cases "find_end buf p Scan0")
        case None
        then have "close_at (drop p buf) Scan0 = None" by (simp add: find_end_close_at)
        moreover have "deliver buf p = ([], p)"
          using \<open>p < length buf\<close> True ns None by (simp add: deliver.simps[of buf p])
        ultimately show ?thesis using True by (simp add: d frames.simps(2))
      next
        case (Some e)
        then obtain n where n: "close_at (drop p buf) Scan0 = Some n" "e = p + n"
          by (auto simp: find_end_close_at)
        have "frames (drop (e + 1) buf) = (fst (deliver buf (e + 1)), drop (snd (deliver buf (e + 1))) buf)"
          using 1(3) \<open>p < length buf\<close> True ns Some by simp
        moreover have "drop (n + 1) (drop p buf) = drop (e + 1) buf" using n by (simp add: add.commute)
        moreover have "frames (drop p buf) =
            (take (n + 1) (drop p buf) # fst (frames (drop (n + 1) (drop p buf))),
             snd (frames (drop (n + 1) (drop p buf))))"
          using n True by (simp add: d frames.simps(2) case_prod_unfold Let_def)
        moreover have "deliver buf p =
            (take (n + 1) (drop p buf) # fst (deliver buf (e + 1)), snd (deliver buf (e + 1)))"
          using \<open>p < length buf\<close> True ns Some n
          by (subst deliver.simps) (simp add: case_prod_unfold Let_def)
        ultimately show ?thesis by simp
      qed
    qed
  qed (simp add: deliver.simps)
qed

lemma deliver_unclosed: "close_at (CHR ''{'' # cs) Scan0 = None \<Longrightarrow> deliver (CHR ''{'' # cs) 0 = ([], 0)"
  using space_no_brace[of "CHR ''{''"] by (subst deliver.simps) (auto simp: find_end_close_at)

lemma take_bytes_frames:
  "take_bytes buf bytes =
     (if kBufferLimit < length (buf @ bytes) then Inl BufferLimitExceeded else Inr (frames (buf @ bytes)))"
  using deliver_frames[of 0 "buf @ bytes"]
  by (auto simp: take_bytes_def Let_def case_prod_unfold)

section \<open>Messages and what is left of them\<close>

lemma close_at_append: "close_at xs s = Some n \<Longrightarrow> close_at (xs @ ys) s = Some n"
  by (induction xs s arbitrary: n rule: close_at.induct)
    (auto simp: close_at.simps(2) Let_def split: prod.splits if_splits)

lemma close_at_take: "close_at xs s = Some n \<Longrightarrow> close_at (take (n + 1) xs) s = Some n"
  by (induction xs s arbitrary: n rule: close_at.induct)
    (auto simp: close_at.simps(2) Let_def split: prod.splits if_splits)

lemma close_at_prefix:
  "close_at (xs @ ys) s = Some n \<Longrightarrow> length xs \<le> n \<Longrightarrow> close_at xs s = None"
proof (rule ccontr)
  assume a: "close_at (xs @ ys) s = Some n" "length xs \<le> n" and "close_at xs s \<noteq> None"
  then obtain k where "close_at xs s = Some k" by blast
  with close_at_append[of xs s k ys] close_at_less[of xs s k] a show False by simp
qed

text \<open>A message: it opens with a brace and its last byte, and no earlier one, closes it.\<close>

definition is_frame :: "string \<Rightarrow> bool" where
  "is_frame m = (m \<noteq> [] \<and> hd m = CHR ''{'' \<and> close_at m Scan0 = Some (length m - 1))"

text \<open>What may stay in the buffer: nothing, or a message that is not closed yet.\<close>

definition is_pending :: "string \<Rightarrow> bool" where
  "is_pending r = (r = [] \<or> (hd r = CHR ''{'' \<and> close_at r Scan0 = None))"

lemma deliver_pending: "is_pending r \<Longrightarrow> deliver r 0 = ([], 0)"
  by (cases r) (auto simp: is_pending_def deliver.simps[of "[]"] deliver_unclosed)

lemma frames_pending: "is_pending (snd (frames cs))"
  by (induction cs rule: frames.induct)
    (auto simp: is_pending_def frames.simps(2) case_prod_unfold Let_def split: option.splits)

lemma frames_are_frames: "m \<in> set (fst (frames cs)) \<Longrightarrow> is_frame m"
proof (induction cs rule: frames.induct)
  case (2 c cs)
  then show ?case
    using close_at_take[of "c # cs" Scan0] close_at_less[of "c # cs" Scan0]
    by (auto simp: is_frame_def frames.simps(2) case_prod_unfold Let_def min_def
        split: option.splits if_splits)
qed simp

lemma frames_of_pending: "is_pending r \<Longrightarrow> frames r = ([], r)"
  by (cases r) (auto simp: is_pending_def frames.simps(2))

lemma frames_gap: "CHR ''{'' \<notin> set g \<Longrightarrow> frames (g @ cs) = frames cs"
  by (induction g) (auto simp: frames.simps(2))

lemma frames_message:
  assumes "is_frame m"
  shows "frames (m @ cs) = (m # fst (frames cs), snd (frames cs))"
proof -
  from assms obtain m' where m: "m = CHR ''{'' # m'" by (cases m) (auto simp: is_frame_def)
  have "close_at (m @ cs) Scan0 = Some (length m - 1)"
    using assms close_at_append by (auto simp: is_frame_def)
  then show ?thesis
    by (simp add: m frames.simps(2) case_prod_unfold Let_def)
qed

lemma frames_append:
  "frames (xs @ ys) = (fst (frames xs) @ fst (frames (snd (frames xs) @ ys)),
                       snd (frames (snd (frames xs) @ ys)))"
proof (induction xs rule: frames.induct)
  case (2 c cs)
  show ?case
  proof (cases "c = CHR ''{''")
    case False
    then show ?thesis using 2(1) by (simp add: frames.simps(2))
  next
    case True
    show ?thesis
    proof (cases "close_at (c # cs) Scan0")
      case None
      then show ?thesis using True by (simp add: frames_of_pending is_pending_def)
    next
      case (Some n)
      then have l: "n < length (c # cs)" by (rule close_at_less)
      have a: "close_at (c # cs @ ys) Scan0 = Some n" using close_at_append[OF Some, of ys] by simp
      show ?thesis using 2(2)[OF _ Some] True Some a l
        by (simp add: frames.simps(2) case_prod_unfold Let_def)
    qed
  qed
qed simp

text \<open>The rest is never longer than the bytes, and the messages and the rest fit into them.\<close>

lemma frames_length: "length (concat (fst (frames cs))) + length (snd (frames cs)) \<le> length cs"
proof (induction cs rule: frames.induct)
  case (2 c cs)
  then show ?case
    using close_at_less[of "c # cs" Scan0]
    by (fastforce simp: frames.simps(2) case_prod_unfold Let_def split: option.splits)
qed simp

section \<open>Runs of the read loop\<close>

text \<open>The scanner is a reader: how the network cut the stream does not matter.\<close>

interpretation scan: chunk_reader "\<lambda>bytes r. frames (r @ bytes)" is_pending
proof
  fix r xs ys assume r: "is_pending r"
  show "frames (r @ []) = ([], r)" using r by (simp add: frames_of_pending)
  show "frames (r @ xs @ ys) =
      (fst (frames (r @ xs)) @ fst (frames (snd (frames (r @ xs)) @ ys)),
       snd (frames (snd (frames (r @ xs)) @ ys)))"
    using frames_append[of "r @ xs" ys] by simp
  show "is_pending (snd (frames (r @ xs)))" by (rule frames_pending)
qed

text \<open>The bytes that a list of results brought, in their pieces.\<close>

fun pieces :: "ReadResult list \<Rightarrow> string list" where
  "pieces [] = []"
| "pieces (Received bytes # rs) = bytes # pieces rs"
| "pieces (_ # rs) = pieces rs"

abbreviation "received rs \<equiv> concat (pieces rs)"

lemma ReadLoop_pieces:
  "snd (ReadLoop rs buf) = StillReading r \<Longrightarrow>
   feed_all (\<lambda>bytes r. frames (r @ bytes)) (pieces rs) buf = (fst (ReadLoop rs buf), r)"
proof (induction rs buf rule: ReadLoop.induct)
  case (5 bytes rs buf)
  show ?case
  proof (cases "kBufferLimit < length (buf @ bytes)")
    case True
    then show ?thesis using 5(2) by (simp add: take_bytes_frames)
  next
    case False
    have t: "take_bytes buf bytes = Inr (fst (frames (buf @ bytes)), snd (frames (buf @ bytes)))"
      using False by (simp add: take_bytes_frames)
    then show ?thesis using 5(1)[OF t refl] 5(2) by (simp add: case_prod_unfold Let_def)
  qed
qed simp_all

lemma ReadLoop_frames:
  assumes "is_pending buf" "snd (ReadLoop rs buf) = StillReading r"
  shows "frames (buf @ received rs) = (fst (ReadLoop rs buf), r)"
  using ReadLoop_pieces[OF assms(2)] scan.feed_all_concat[OF assms(1)] by simp

lemma ReadLoop_messages: "m \<in> set (fst (ReadLoop rs buf)) \<Longrightarrow> is_frame m"
proof (induction rs buf rule: ReadLoop.induct)
  case (5 bytes rs buf)
  show ?case
  proof (cases "kBufferLimit < length (buf @ bytes)")
    case False
    let ?b = "snd (frames (buf @ bytes))"
    have t: "take_bytes buf bytes = Inr (fst (frames (buf @ bytes)), ?b)"
      using False by (simp add: take_bytes_frames)
    then show ?thesis
      using 5(1)[OF t refl] 5(2) frames_are_frames[of m "buf @ bytes"]
      by (auto simp: case_prod_unfold Let_def)
  qed (use 5 in \<open>simp add: take_bytes_frames\<close>)
qed simp_all

text \<open>The limit is met by an unfinished message only.\<close>

lemma ReadLoop_overflow:
  assumes "is_pending buf" "snd (ReadLoop rs buf) = Thrown BufferLimitExceeded"
  shows "\<exists>r bytes. is_pending r \<and> Received bytes \<in> set rs \<and> kBufferLimit < length r + length bytes"
  using assms
proof (induction rs buf rule: ReadLoop.induct)
  case (5 bytes rs buf)
  show ?case
  proof (cases "kBufferLimit < length buf + length bytes")
    case False
    let ?b = "snd (frames (buf @ bytes))"
    have t: "take_bytes buf bytes = Inr (fst (frames (buf @ bytes)), ?b)"
      using False by (simp add: take_bytes_frames)
    have "snd (ReadLoop rs ?b) = Thrown BufferLimitExceeded"
      using 5(3) t by (simp add: case_prod_unfold Let_def)
    then show ?thesis using 5(1)[OF t refl frames_pending] by auto
  qed (use 5(2) in auto)
qed auto

text \<open>A loop that only receives small pieces of a stream with small rests goes on reading.\<close>

definition healthy :: "ReadResult list \<Rightarrow> bool" where
  "healthy rs = (\<forall>x \<in> set rs. x = WouldBlock \<or> (\<exists>b. x = Received b \<and> length b \<le> kReadSize))"

lemma ReadLoop_keeps_reading:
  assumes "\<And>p q. p @ q = w \<Longrightarrow> length (snd (frames p)) + kReadSize \<le> kBufferLimit"
    and "healthy rs" "pre @ received rs = w"
  shows "\<exists>r. snd (ReadLoop rs (snd (frames pre))) = StillReading r"
  using assms(2,3)
proof (induction rs arbitrary: pre)
  case (Cons x rs)
  show ?case
  proof (cases x)
    case (Received b)
    then have "length (snd (frames pre) @ b) \<le> kBufferLimit"
      using Cons.prems assms(1)[of pre "b @ received rs"] by (auto simp: healthy_def)
    moreover have "snd (frames (snd (frames pre) @ b)) = snd (frames (pre @ b))"
      by (subst (2) frames_append) simp
    moreover have "\<exists>r. snd (ReadLoop rs (snd (frames (pre @ b)))) = StillReading r"
      using Cons Received by (intro Cons.IH) (auto simp: healthy_def)
    ultimately show ?thesis using Received
      by (simp add: take_bytes_frames case_prod_unfold Let_def)
  qed (use Cons in \<open>auto simp: healthy_def\<close>)
qed simp

text \<open>A stream: messages, each after a gap without an opening brace, and a last gap.\<close>

definition wire :: "(string \<times> string) list \<Rightarrow> string \<Rightarrow> string" where
  "wire xs tail = concat (map (\<lambda>(g, m). g @ m) xs) @ tail"

definition wire_ok :: "(string \<times> string) list \<Rightarrow> string \<Rightarrow> bool" where
  "wire_ok xs tail =
     (CHR ''{'' \<notin> set tail \<and>
      (\<forall>(g, m) \<in> set xs. CHR ''{'' \<notin> set g \<and> is_frame m \<and> length m + kReadSize \<le> kBufferLimit))"

lemma frames_wire: "wire_ok xs tail \<Longrightarrow> frames (wire xs tail) = (map snd xs, [])"
proof (induction xs)
  case Nil
  then show ?case using frames_gap[of tail "[]"] by (simp add: wire_def wire_ok_def)
next
  case (Cons x xs)
  then have "frames (wire xs tail) = (map snd xs, [])" by (simp add: wire_ok_def)
  then show ?case using Cons.prems
    by (auto simp: wire_def wire_ok_def frames_gap frames_message case_prod_unfold)
qed

lemma frames_part_of_message:
  assumes "is_frame (p @ q)" "q \<noteq> []"
  shows "frames p = ([], p)"
proof (rule frames_of_pending)
  from assms have "length p \<le> length (p @ q) - 1" by (cases q) auto
  with assms have "close_at p Scan0 = None"
    by (intro close_at_prefix[of p q]) (auto simp: is_frame_def)
  then show "is_pending p" using assms by (cases p) (auto simp: is_pending_def is_frame_def)
qed

lemma wire_rests_small:
  "wire_ok xs tail \<Longrightarrow> p @ q = wire xs tail \<Longrightarrow> length (snd (frames p)) + kReadSize \<le> kBufferLimit"
proof (induction xs arbitrary: p)
  case Nil
  then have "CHR ''{'' \<notin> set p" by (metis wire_def wire_ok_def Un_iff append_Nil concat.simps(1) list.map(1) set_append)
  then show ?case using frames_gap[of p "[]"] by (simp add: kBufferLimit_def kReadSize_def)
next
  case (Cons x xs)
  obtain g m where x: "x = (g, m)" by fastforce
  have ok: "CHR ''{'' \<notin> set g" "is_frame m" "length m + kReadSize \<le> kBufferLimit" "wire_ok xs tail"
    using Cons.prems(1) by (auto simp: wire_ok_def x)
  have w: "p @ q = g @ m @ wire xs tail" using Cons.prems(2) by (simp add: wire_def x)
  consider (gap) u where "p @ u = g" | (rest) p' where "p = g @ p'" "p' @ q = m @ wire xs tail"
    using w by (auto simp: append_eq_append_conv2)
  then show ?case
  proof cases
    case gap
    then have "CHR ''{'' \<notin> set p" using ok(1) by auto
    then show ?thesis using frames_gap[of p "[]"] by (simp add: kBufferLimit_def kReadSize_def)
  next
    case rest
    then have f: "frames p = frames p'" using ok(1) by (simp add: frames_gap)
    consider (inside) u where "p' @ u = m" "u \<noteq> []" | (after) p'' where "p' = m @ p''" "p'' @ q = wire xs tail"
      using rest(2) by (metis append_eq_append_conv2 append_Nil2 append_Nil)
    then show ?thesis
    proof cases
      case inside
      then have "snd (frames p') = p'" using ok(2) frames_part_of_message[of p' u] by simp
      then show ?thesis using inside ok(3) f by auto
    next
      case after
      then show ?thesis using Cons.IH[OF ok(4) after(2)] f by (simp add: frames_message[OF ok(2)])
    qed
  qed
qed

lemma ReadLoop_wire:
  assumes "wire_ok xs tail" "healthy rs" "received rs = wire xs tail"
  shows "ReadLoop rs [] = (map snd xs, StillReading [])"
proof -
  have small: "length (snd (frames p)) + kReadSize \<le> kBufferLimit" if "p @ q = wire xs tail" for p q
    using that by (rule wire_rests_small[OF assms(1)])
  have "\<exists>r. snd (ReadLoop rs (snd (frames []))) = StillReading r"
    by (rule ReadLoop_keeps_reading[OF small assms(2)]) (simp_all add: assms(3))
  then obtain r where r: "snd (ReadLoop rs []) = StillReading r" by auto
  from ReadLoop_frames[OF _ r] have "frames (wire xs tail) = (fst (ReadLoop rs []), r)"
    by (simp add: is_pending_def assms(3))
  then show ?thesis using r frames_wire[OF assms(1)] by (metis fst_conv prod.collapse snd_conv)
qed

section \<open>The bind loop\<close>

lemma bind_source_safe:
  assumes "bind_source port tries n = Inr True" "n \<le> maxBindAttempts"
  shows "\<exists>i < maxBindAttempts. \<exists>p. st_localPort (tries i) = Some p \<and> p \<noteq> port"
  using assms
proof (induction n)
  case (Suc n)
  let ?t = "tries (maxBindAttempts - Suc n)"
  have i: "maxBindAttempts - Suc n < maxBindAttempts" by (simp add: maxBindAttempts_def)
  show ?case
  proof (cases "st_localPort ?t = Some port")
    case True
    then show ?thesis using Suc by (auto simp: Let_def split: if_splits)
  next
    case False
    then show ?thesis using Suc.prems(1) i by (auto simp: Let_def split: if_splits option.splits)
  qed
qed simp

section \<open>Properties\<close>

text \<open>
  C3: a stream of messages, with anything but an opening brace between them, is delivered message by
  message and completely, however the network cuts it into pieces of at most one read: the reader
  neither fails nor keeps anything back. The messages may be as long as the buffer allows.
\<close>

theorem messages_recovered:
  assumes "wire_ok xs tail" "healthy rs" "received rs = wire xs tail"
  shows "ReadLoop rs [] = (map snd xs, StillReading [])"
  using assms by (rule ReadLoop_wire)

theorem messages_recovered_witness:
  "ReadLoop [Received ''ok {'', WouldBlock, Received ''\"}{\":'', Received ''{}}  {}''] [] =
     ([''{\"}{\":{}}'', ''{}''], StillReading [])"
  using messages_recovered
    [of "[(''ok '', ''{\"}{\":{}}''), (''  '', ''{}'')]" "[]"
        "[Received ''ok {'', WouldBlock, Received ''\"}{\":'', Received ''{}}  {}'']"]
  by (simp add: wire_ok_def wire_def healthy_def is_frame_def close_at.simps scan_char_def Scan0_def
      kBufferLimit_def kReadSize_def)

text \<open>
  C4: a connection that brings only bytes, at most one read at a time, fails for no other reason than
  the limit, and meets the limit only when an unfinished message fills the buffer: while the part
  that no message closes leaves room for one more read, the reader goes on, and what it has
  delivered and what it keeps are the cut of the bytes received.
\<close>

theorem reader_fails_on_oversized_only:
  assumes "healthy rs"
    and "\<And>p q. p @ q = received rs \<Longrightarrow> length (snd (frames p)) + kReadSize \<le> kBufferLimit"
  shows "\<exists>r. ReadLoop rs [] = (fst (frames (received rs)), StillReading r) \<and> r = snd (frames (received rs))"
proof -
  have "\<exists>r. snd (ReadLoop rs (snd (frames []))) = StillReading r"
    by (rule ReadLoop_keeps_reading[OF assms(2,1)]) simp_all
  then obtain r where "snd (ReadLoop rs []) = StillReading r" by auto
  moreover from this have "frames (received rs) = (fst (ReadLoop rs []), r)"
    using ReadLoop_frames[of "[]" rs r] by (simp add: is_pending_def)
  ultimately show ?thesis by (metis fst_conv prod.collapse snd_conv)
qed

theorem reader_fails_on_oversized_only_witness:
  "\<exists>r. ReadLoop [Received ''{''] [] = ([], StillReading r) \<and> r = ''{''"
proof -
  have "p = [] \<or> p = ''{''" if "p @ q = ''{''" for p q :: string using that by (cases p) auto
  then have "length (snd (frames p)) + kReadSize \<le> kBufferLimit" if "p @ q = received [Received ''{'']" for p q
    using that by (fastforce simp: frames_of_pending is_pending_def close_at.simps scan_char_def Scan0_def
        kReadSize_def kBufferLimit_def)
  then show ?thesis
    using reader_fails_on_oversized_only[of "[Received ''{'']"]
    by (simp add: healthy_def kReadSize_def frames_of_pending is_pending_def close_at.simps scan_char_def Scan0_def)
qed

text \<open>
  The scan of a buffer ends inside it, every message it delivers opens with a brace and is closed
  by its last byte and by no earlier one, the messages take no more room than was scanned, and a
  second scan of what is kept delivers nothing.
\<close>

theorem scan_ends_at_unfinished:
  "list_all is_frame (fst (deliver buf 0)) \<and>
   length (concat (fst (deliver buf 0))) \<le> min (snd (deliver buf 0)) (length buf) \<and>
   deliver (drop (snd (deliver buf 0)) buf) 0 = ([], 0)"
proof -
  let ?ms = "fst (deliver buf 0)" and ?r = "drop (snd (deliver buf 0)) buf"
  have f: "frames buf = (?ms, ?r)" using deliver_frames[of 0 buf] by simp
  then have "list_all is_frame ?ms" using frames_are_frames[of _ buf] by (simp add: list_all_iff)
  moreover have "length (concat ?ms) \<le> min (snd (deliver buf 0)) (length buf)"
    using frames_length[of buf] f by simp
  moreover have "deliver ?r 0 = ([], 0)"
    using frames_pending[of buf] f by (intro deliver_pending) simp
  ultimately show ?thesis by blast
qed

text \<open>
  Bytes are read only from a socket whose own port differs from the game's port, so the program
  cannot have connected to itself: with no safe port after four attempts, or with equal endpoints,
  the connection fails before the first message.
\<close>

theorem no_self_connection:
  assumes "ConnectAndRead stopping nw rs = (ms, end)" "ms \<noteq> []"
  shows "nw_local nw \<noteq> nw_remote nw \<and>
         (\<exists>i < maxBindAttempts. \<exists>p. st_localPort (nw_tries nw i) = Some p \<and> p \<noteq> snd (nw_endpoint nw))"
proof -
  have "connect_socket nw = Inr True"
    using assms by (auto simp: ConnectAndRead_def split: if_splits sum.splits bool.splits)
  then have "bind_source (snd (nw_endpoint nw)) (nw_tries nw) maxBindAttempts = Inr True"
    and "nw_local nw \<noteq> nw_remote nw"
    by (auto simp: connect_socket_def split: sum.splits bool.splits if_splits option.splits)
  then show ?thesis using bind_source_safe by blast
qed

definition sample_network :: Network where
  "sample_network = \<lparr>nw_endpoint = (''127.0.0.1'', 49123),
     nw_tries = \<lambda>i. \<lparr>st_opened = True, st_bound = True, st_localPort = Some 50000\<rparr>,
     nw_stoppedWhileConnecting = False, nw_connected = True,
     nw_local = Some (''127.0.0.1'', 50000), nw_remote = Some (''127.0.0.1'', 49123)\<rparr>"

lemma sample_network_connects: "connect_socket sample_network = Inr True"
proof -
  have "bind_source 49123 (nw_tries sample_network) (Suc 3) = Inr True"
    unfolding bind_source.simps by (simp add: sample_network_def)
  moreover have "maxBindAttempts = Suc 3" by (simp add: maxBindAttempts_def)
  ultimately have "bind_source 49123 (nw_tries sample_network) maxBindAttempts = Inr True"
    by (simp only:)
  then show ?thesis by (simp add: connect_socket_def) (simp add: sample_network_def)
qed

theorem no_self_connection_witness: "nw_local sample_network \<noteq> nw_remote sample_network"
  using no_self_connection[of False sample_network "[Received ''{}'']" "[''{}'']" "StillReading []"]
  by (simp add: ConnectAndRead_def sample_network_connects take_bytes_frames kBufferLimit_def frames.simps
      close_at.simps scan_char_def Scan0_def)

end
