(* ===== verification/Json_Events.thy ===== *)
theory Json_Events
  imports Telemetry_Events
begin

text \<open>
  The decoder of \<open>network/telemetry/TelemetryEvents.cpp\<close>: from the JSON text of an event's data to
  the typed event. The JSON library is outside the repository; its parser is the parameter
  \<open>parse\<close> (\<open>None\<close> where it throws), its printer the parameter \<open>dump\<close>. A value it returns is a
  \<open>json\<close>: integers are what it keeps as 64-bit signed or unsigned numbers, other numbers are
  doubles, an object has one entry per key.
\<close>

datatype json =
    JNull
  | JBool bool
  | JInt int
  | JFloat fp
  | JString string
  | JArray "json list"
  | JObject "(string, json) umap"

fun is_number :: "json \<Rightarrow> bool" where
  "is_number (JInt i) = True"
| "is_number (JFloat x) = True"
| "is_number _ = False"

fun is_object :: "json \<Rightarrow> bool" where
  "is_object (JObject fs) = True"
| "is_object _ = False"

text \<open>\<open>get<float>\<close> and \<open>get<double>\<close> of a number: the cast of the stored value.\<close>

fun get_float :: "json \<Rightarrow> fp" where
  "get_float (JInt i) = f32_of_int i"
| "get_float (JFloat x) = f32_of_f64 x"
| "get_float _ = NaN"

fun get_double :: "json \<Rightarrow> fp" where
  "get_double (JInt i) = f64_of_int i"
| "get_double (JFloat x) = x"
| "get_double _ = NaN"

section \<open>Fields\<close>

fun Child :: "json \<Rightarrow> string \<Rightarrow> json option" where
  "Child (JObject fs) key = map_of fs key"
| "Child _ key = None"

definition Number :: "json \<Rightarrow> string \<Rightarrow> fp option" where
  "Number j key =
     (case Child j key of
        None \<Rightarrow> None
      | Some v \<Rightarrow> if \<not> is_number v then None
                  else let f = get_float v in if fp_finite f then Some f else None)"

definition DoubleField :: "json \<Rightarrow> string \<Rightarrow> fp option" where
  "DoubleField j key =
     (case Child j key of
        None \<Rightarrow> None
      | Some v \<Rightarrow> if \<not> is_number v then None
                  else let d = get_double v in if fp_finite d then Some d else None)"

fun first_number :: "json \<Rightarrow> string list \<Rightarrow> fp option" where
  "first_number j [] = None"
| "first_number j (key # keys) =
     (case Child j key of
        Some v \<Rightarrow> if is_number v then Number j key else first_number j keys
      | None \<Rightarrow> first_number j keys)"

definition SecondsRemaining :: "json \<Rightarrow> fp option" where
  "SecondsRemaining j = first_number j [''SecondsRemaining'', ''TimeRemaining'']"

definition IntegerField :: "json \<Rightarrow> string \<Rightarrow> int option" where
  "IntegerField j key =
     (case Child j key of
        None \<Rightarrow> None
      | Some v \<Rightarrow>
          if \<not> is_number v then None
          else let value = get_double v
               in if \<not> fp_finite value \<or> value < Fin (-2147483648) \<or> Fin 2147483647 < value then None
                  else Some (lround value))"

definition BoolField :: "json \<Rightarrow> string \<Rightarrow> bool option" where
  "BoolField j key = (case Child j key of Some (JBool b) \<Rightarrow> Some b | _ \<Rightarrow> None)"

definition StringField :: "json \<Rightarrow> string \<Rightarrow> string" where
  "StringField j key = (case Child j key of Some (JString s) \<Rightarrow> s | _ \<Rightarrow> [])"

definition Point :: "json \<Rightarrow> string \<Rightarrow> FieldPoint option" where
  "Point j key =
     (case Child j key of
        Some (JObject fs) \<Rightarrow>
          (case (Number (JObject fs) ''X'', Number (JObject fs) ''Y'', Number (JObject fs) ''Z'') of
             (Some x, Some y, Some z) \<Rightarrow> Some \<lparr>fpt_x = x, fpt_y = y, fpt_z = z\<rparr>
           | _ \<Rightarrow> None)
      | _ \<Rightarrow> None)"

definition NormalizeId :: "string \<Rightarrow> string \<Rightarrow> string" where
  "NormalizeId ident name =
     (if ident = ''Unknown'' \<or> starts_with ident ''Unknown|'' then ''Unknown|'' @ name else ident)"

definition TeamOf :: "json \<Rightarrow> int" where
  "TeamOf j = (case IntegerField j ''TeamNum'' of
                 Some team \<Rightarrow> if team = 0 \<or> team = 1 then team else -1
               | None \<Rightarrow> -1)"

fun first_guid :: "json \<Rightarrow> string list \<Rightarrow> string" where
  "first_guid j [] = []"
| "first_guid j (key # keys) =
     (case Child j key of
        Some (JString guid) \<Rightarrow> if guid \<noteq> [] then guid else first_guid j keys
      | _ \<Rightarrow> first_guid j keys)"

definition ExtractGuid :: "json \<Rightarrow> string" where
  "ExtractGuid data =
     (if \<not> is_object data then []
      else let guid = first_guid data [''MatchGuid'', ''match_guid'']
           in if guid \<noteq> [] then guid
              else (case Child data ''Game'' of
                      Some (JObject fs) \<Rightarrow> first_guid (JObject fs) [''MatchGuid'', ''match_guid'']
                    | _ \<Rightarrow> []))"

fun first_event_id :: "(json \<Rightarrow> string) \<Rightarrow> json \<Rightarrow> string list \<Rightarrow> string" where
  "first_event_id dump data [] = []"
| "first_event_id dump data (key # keys) =
     (case Child data key of
        Some (JString s) \<Rightarrow> s
      | Some (JInt i) \<Rightarrow> dump (JInt i)
      | _ \<Rightarrow> first_event_id dump data keys)"

definition EventId :: "(json \<Rightarrow> string) \<Rightarrow> json \<Rightarrow> string" where
  "EventId dump data = first_event_id dump data [''EventId'', ''EventID'', ''EventGuid'']"

definition read_team_score :: "json \<Rightarrow> bool \<times> int \<times> int \<Rightarrow> bool \<times> int \<times> int" where
  "read_team_score team acc =
     (let teamNumber = TeamOf team
      in case IntegerField team ''Score'' of
           Some score \<Rightarrow> if teamNumber = 0 \<or> teamNumber = 1
                         then (True, team_set teamNumber score (snd acc)) else acc
         | None \<Rightarrow> acc)"

definition ReadTeamScores :: "json \<Rightarrow> int \<times> int \<Rightarrow> bool \<times> int \<times> int" where
  "ReadTeamScores data scores =
     (case Child data ''Teams'' of
        Some (JArray teams) \<Rightarrow> fold read_team_score teams (False, scores)
      | _ \<Rightarrow> (False, scores))"

text \<open>One entry read as a flag; a 64-bit integer is not zero exactly when its cast is not.\<close>

fun is_true :: "json \<Rightarrow> bool" where
  "is_true (JBool b) = b"
| "is_true (JInt i) = (i \<noteq> 0)"
| "is_true (JString s) = (map to_lower s \<in> {''1'', ''true'', ''yes''})"
| "is_true _ = False"

fun ReadTrueBoolean :: "json \<Rightarrow> string list \<Rightarrow> bool" where
  "ReadTrueBoolean j [] = False"
| "ReadTrueBoolean j (key # keys) =
     (case Child j key of
        Some v \<Rightarrow> if is_true v then True else ReadTrueBoolean j keys
      | None \<Rightarrow> ReadTrueBoolean j keys)"

text \<open>\<open>static_cast<int>(get<int64_t>())\<close> keeps the low 32 bits of the stored number.\<close>

fun ReadInteger :: "json \<Rightarrow> string list \<Rightarrow> int option" where
  "ReadInteger j [] = None"
| "ReadInteger j (key # keys) =
     (case Child j key of
        Some (JInt i) \<Rightarrow> Some (to_int32 i)
      | Some (JString s) \<Rightarrow> (case stoi s of Some n \<Rightarrow> Some n | None \<Rightarrow> ReadInteger j keys)
      | _ \<Rightarrow> ReadInteger j keys)"

fun match_type_keys :: "json \<Rightarrow> string list \<Rightarrow> string list \<Rightarrow> bool" where
  "match_type_keys game keywords [] = False"
| "match_type_keys game keywords (key # keys) =
     (case Child game key of
        Some (JString val) \<Rightarrow>
          if list_ex (str_contains (map to_lower val)) keywords then True
          else match_type_keys game keywords keys
      | _ \<Rightarrow> match_type_keys game keywords keys)"

definition MatchTypeContains :: "json \<Rightarrow> string list \<Rightarrow> bool" where
  "MatchTypeContains game keywords =
     match_type_keys game keywords [''MatchType'', ''match_type'', ''Type'', ''type'', ''Mode'', ''mode'']"

definition ParsePlayerRef :: "json \<Rightarrow> PlayerRef" where
  "ParsePlayerRef ref =
     (if \<not> is_object ref then PlayerRef0
      else let name = StringField ref ''Name''
           in \<lparr>pr_name = name, pr_primaryId = NormalizeId (StringField ref ''PrimaryId'') name,
               pr_team = TeamOf ref, pr_shortcut = IntegerField ref ''Shortcut''\<rparr>)"

text \<open>
  The player the camera follows: the one player entry with the target's name (and team, when the
  target has one). The loop keeps the match so far and gives up at a second one.
\<close>

definition int_field :: "json \<Rightarrow> string \<Rightarrow> int option" where
  "int_field j key = (case Child j key of Some (JInt i) \<Rightarrow> Some (to_int32 i) | _ \<Rightarrow> None)"

definition camera_candidate :: "string \<Rightarrow> int \<Rightarrow> json \<Rightarrow> string option" where
  "camera_candidate name team p =
     (case (Child p ''PrimaryId'', Child p ''Name'') of
        (Some (JString ident), Some (JString n)) \<Rightarrow>
          if n \<noteq> name then None
          else if team \<noteq> -1 \<and> int_field p ''TeamNum'' \<noteq> Some team then None
          else Some (if ident = ''Unknown'' \<or> starts_with ident ''Unknown|''
                     then ''Unknown|'' @ name else ident)
      | _ \<Rightarrow> None)"

fun scan_targets :: "string \<Rightarrow> int \<Rightarrow> json list \<Rightarrow> string \<Rightarrow> string" where
  "scan_targets name team [] found = found"
| "scan_targets name team (p # ps) found =
     (case camera_candidate name team p of
        None \<Rightarrow> scan_targets name team ps found
      | Some ident \<Rightarrow> if found \<noteq> [] then [] else scan_targets name team ps ident)"

definition ExtractCameraTarget :: "json \<Rightarrow> string" where
  "ExtractCameraTarget data =
     (case Child data ''Game'' of
        Some (JObject g) \<Rightarrow>
          (case (Child (JObject g) ''bHasTarget'', Child (JObject g) ''Target'') of
             (Some (JBool True), Some (JObject t)) \<Rightarrow>
               (case Child (JObject t) ''Name'' of
                  Some (JString name) \<Rightarrow>
                    let team = (case int_field (JObject t) ''TeamNum'' of Some i \<Rightarrow> i | None \<Rightarrow> -1)
                    in if name = [] then []
                       else (case Child data ''Players'' of
                               Some (JArray ps) \<Rightarrow> scan_targets name team ps []
                             | _ \<Rightarrow> [])
                | _ \<Rightarrow> [])
           | _ \<Rightarrow> [])
      | _ \<Rightarrow> [])"

definition ReadForfeitScope :: "json \<Rightarrow> ForfeitScope" where
  "ReadForfeitScope scope =
     \<lparr>fs_localFlag = ReadTrueBoolean scope
        [''bLocalPlayerForfeit'', ''bLocalForfeit'', ''LocalPlayerForfeit'',
         ''bLocalPlayerAbandoned'', ''bLocalPlayerAbandon'', ''LocalPlayerAbandoned''],
      fs_forfeit = ReadTrueBoolean scope [''bForfeit'', ''Forfeit''],
      fs_forfeitTeam = ReadInteger scope [''ForfeitTeamNum'', ''ForfeitingTeamNum'', ''AbandoningTeamNum''],
      fs_winnerTeam = ReadInteger scope [''WinnerTeamNum'', ''winner_team_num'']\<rparr>"

definition ReadForfeitScopes :: "json \<Rightarrow> ForfeitScope list" where
  "ReadForfeitScopes data =
     (case Child data ''Game'' of
        Some (JObject g) \<Rightarrow> [ReadForfeitScope data, ReadForfeitScope (JObject g)]
      | _ \<Rightarrow> [ReadForfeitScope data])"

section \<open>Events\<close>

definition PlayerRefField :: "json \<Rightarrow> string \<Rightarrow> PlayerRef option" where
  "PlayerRefField j key = map_option ParsePlayerRef (Child j key)"

definition parse_player_left :: "json \<Rightarrow> TelemetryEvent" where
  "parse_player_left data =
     (let name = StringField data ''PlayerName''
      in EvPlayerLeft \<lparr>pl_primaryId = NormalizeId (StringField data ''PrimaryId'') name,
                       pl_name = name, pl_matchGuid = ExtractGuid data\<rparr>)"

definition parse_crossbar_hit :: "(json \<Rightarrow> string) \<Rightarrow> json \<Rightarrow> TelemetryEvent" where
  "parse_crossbar_hit dump data =
     EvCrossbarHit
       \<lparr>cb_matchGuid = ExtractGuid data,
        cb_lastTouch =
          (case Child data ''BallLastTouch'' of
             Some (JObject touch) \<Rightarrow>
               (case Child (JObject touch) ''Player'' of Some player \<Rightarrow> ParsePlayerRef player | None \<Rightarrow> PlayerRef0)
           | _ \<Rightarrow> PlayerRef0),
        cb_impactForce = DoubleField data ''ImpactForce'',
        cb_eventId = EventId dump data,
        cb_secondsRemaining = SecondsRemaining data\<rparr>"

definition parse_match_ended :: "json \<Rightarrow> TelemetryEvent" where
  "parse_match_ended data =
     (let (found, scores) = ReadTeamScores data (0, 0)
      in EvMatchEnded
           \<lparr>me_matchGuid = ExtractGuid data,
            me_winnerTeam = (case ReadInteger data [''WinnerTeamNum'', ''winner_team_num''] of
                               Some t \<Rightarrow> t | None \<Rightarrow> -1),
            me_teamScores = scores,
            me_hasTeamScores = found,
            me_forfeitScopes = ReadForfeitScopes data\<rparr>)"

definition parse_match_destroyed :: "json \<Rightarrow> TelemetryEvent" where
  "parse_match_destroyed data =
     (let (found, scores) = ReadTeamScores data (0, 0)
      in EvMatchDestroyed
           \<lparr>md_matchGuid = ExtractGuid data,
            md_teamScores = scores,
            md_hasTeamScores = found,
            md_forfeitScopes = ReadForfeitScopes data,
            md_winnerTeam = ReadInteger data [''WinnerTeamNum'', ''winner_team_num'']\<rparr>)"

definition parse_statfeed :: "(json \<Rightarrow> string) \<Rightarrow> json \<Rightarrow> TelemetryEvent" where
  "parse_statfeed dump data =
     EvStatfeed
       \<lparr>sf_eventName = StringField data ''EventName'',
        sf_mainTarget =
          (case Child data ''MainTarget'' of
             Some main \<Rightarrow> ParsePlayerRef main
           | None \<Rightarrow> (case Child data ''Player'' of Some p \<Rightarrow> ParsePlayerRef p | None \<Rightarrow> PlayerRef0)),
        sf_secondaryTarget = PlayerRefField data ''SecondaryTarget'',
        sf_eventId = EventId dump data,
        sf_matchGuid = ExtractGuid data,
        sf_secondsRemaining = SecondsRemaining data\<rparr>"

text \<open>The repeat of a goal at the end of its replay carries a scorer with an empty name.\<close>

definition parse_goal_scored :: "(json \<Rightarrow> string) \<Rightarrow> json \<Rightarrow> TelemetryEvent" where
  "parse_goal_scored dump data =
     (let scorer = (case Child data ''Scorer'' of
                      Some (JObject fs) \<Rightarrow> Some (ParsePlayerRef (JObject fs)) | _ \<Rightarrow> None)
      in EvGoalScored
           \<lparr>gs_matchGuid = ExtractGuid data,
            gs_scorer = (case scorer of Some p \<Rightarrow> p | None \<Rightarrow> PlayerRef0),
            gs_hasScorer = (scorer \<noteq> None),
            gs_assister = PlayerRefField data ''Assister'',
            gs_goalSpeed = DoubleField data ''GoalSpeed'',
            gs_lastTouchSpeed =
              (case Child data ''BallLastTouch'' of Some touch \<Rightarrow> Number touch ''Speed'' | None \<Rightarrow> None),
            gs_roundSeconds = Number data ''GoalTime'',
            gs_impactLocation = Point data ''ImpactLocation'',
            gs_isEcho = (case scorer of Some p \<Rightarrow> pr_name p = [] | None \<Rightarrow> False),
            gs_eventId = EventId dump data,
            gs_secondsRemaining = SecondsRemaining data\<rparr>)"

definition number_or_zero :: "json \<Rightarrow> string \<Rightarrow> fp" where
  "number_or_zero j key = (case Number j key of Some x \<Rightarrow> x | None \<Rightarrow> Fin 0)"

definition bool_or_false :: "json \<Rightarrow> string \<Rightarrow> bool" where
  "bool_or_false j key = (case BoolField j key of Some b \<Rightarrow> b | None \<Rightarrow> False)"

definition parse_ball_hit :: "json \<Rightarrow> TelemetryEvent" where
  "parse_ball_hit data =
     EvBallHit
       \<lparr>bh_hitters = (case Child data ''Players'' of
                        Some (JArray ps) \<Rightarrow> map ParsePlayerRef ps | _ \<Rightarrow> []),
        bh_postHitSpeed = (case Child data ''Ball'' of
                             Some ball \<Rightarrow> number_or_zero ball ''PostHitSpeed'' | None \<Rightarrow> Fin 0),
        bh_location = (case Child data ''Ball'' of Some ball \<Rightarrow> Point ball ''Location'' | None \<Rightarrow> None),
        bh_matchGuid = ExtractGuid data\<rparr>"

definition parse_boost_pickup :: "json \<Rightarrow> TelemetryEvent" where
  "parse_boost_pickup data =
     EvBoostPickup
       \<lparr>bp_player = (case Child data ''Player'' of Some p \<Rightarrow> ParsePlayerRef p | None \<Rightarrow> PlayerRef0),
        bp_boostType = StringField data ''BoostType'',
        bp_location = Point data ''Location'',
        bp_bReplay = bool_or_false data ''bReplay'',
        bp_matchGuid = ExtractGuid data\<rparr>"

definition parse_update_player :: "json \<Rightarrow> UpdatePlayerState" where
  "parse_update_player pj =
     (let name = StringField pj ''Name'' in
      \<lparr>up_primaryId = NormalizeId (StringField pj ''PrimaryId'') name,
       up_name = name,
       up_team = TeamOf pj,
       up_score = IntegerField pj ''Score'',
       up_goals = IntegerField pj ''Goals'',
       up_assists = IntegerField pj ''Assists'',
       up_saves = IntegerField pj ''Saves'',
       up_shots = IntegerField pj ''Shots'',
       up_demos = (case IntegerField pj ''Demos'' of Some n \<Rightarrow> Some n | None \<Rightarrow> IntegerField pj ''Demolishes''),
       up_touches = IntegerField pj ''Touches'',
       up_carTouches = IntegerField pj ''CarTouches'',
       up_shortcut = IntegerField pj ''Shortcut'',
       up_bHasCar = bool_or_false pj ''bHasCar'',
       up_hasCarField = (Child pj ''bHasCar'' \<noteq> None),
       up_bDemolished = bool_or_false pj ''bDemolished'',
       up_bSupersonic = BoolField pj ''bSupersonic'',
       up_bOnWall = bool_or_false pj ''bOnWall'',
       up_bOnGround = bool_or_false pj ''bOnGround'',
       up_bPowersliding = bool_or_false pj ''bPowersliding'',
       up_bBoosting = bool_or_false pj ''bBoosting'',
       up_speed = number_or_zero pj ''Speed'',
       up_boost = IntegerField pj ''Boost''\<rparr>)"

text \<open>The \<open>Game\<close> object of an update: its own fields, the team scores, the ball, the match type.\<close>

definition update_scalars :: "json \<Rightarrow> UpdateStateEvent \<Rightarrow> UpdateStateEvent" where
  "update_scalars game ev =
     ev\<lparr>us_arena := StringField game ''Arena'',
        us_arenaAsset := StringField game ''ArenaAsset'',
        us_playlistId := (case ReadInteger game [''PlaylistId'', ''playlist_id''] of
                            Some p \<Rightarrow> Some p | None \<Rightarrow> us_playlistId ev),
        us_bReplay := bool_or_false game ''bReplay'',
        us_bOvertime := bool_or_false game ''bOvertime'',
        us_bSpectator := bool_or_false game ''bSpectator'',
        us_timeSeconds := Number game ''TimeSeconds''\<rparr>"

definition update_team :: "json \<Rightarrow> UpdateStateEvent \<Rightarrow> UpdateStateEvent" where
  "update_team t ev =
     (let team = TeamOf t
      in if team = 0 \<or> team = 1
         then (case IntegerField t ''Score'' of
                 Some score \<Rightarrow> ev\<lparr>us_teamScores := team_set team score (us_teamScores ev),
                                us_teamScorePresent := team_set team True (us_teamScorePresent ev),
                                us_hasTeamScores := True\<rparr>
               | None \<Rightarrow> ev)
         else ev)"

definition update_teams :: "json \<Rightarrow> UpdateStateEvent \<Rightarrow> UpdateStateEvent" where
  "update_teams game ev =
     (case Child game ''Teams'' of Some (JArray ts) \<Rightarrow> fold update_team ts ev | _ \<Rightarrow> ev)"

definition update_ball :: "json \<Rightarrow> UpdateStateEvent \<Rightarrow> UpdateStateEvent" where
  "update_ball game ev =
     (case Child game ''Ball'' of
        None \<Rightarrow> ev
      | Some ball \<Rightarrow>
          ev\<lparr>us_hasBall := True,
             us_ballTeam := (case IntegerField ball ''TeamNum'' of Some t \<Rightarrow> t | None \<Rightarrow> us_ballTeam ev),
             us_ballSpeed := (case Number ball ''Speed'' of Some s \<Rightarrow> s | None \<Rightarrow> us_ballSpeed ev),
             us_hasBallSpeed := (Number ball ''Speed'' \<noteq> None \<or> us_hasBallSpeed ev),
             us_ballLocation := Point ball ''Location''\<rparr>)"

definition update_match_type :: "json \<Rightarrow> UpdateStateEvent \<Rightarrow> UpdateStateEvent" where
  "update_match_type game ev =
     (let nonRecordable =
            ReadTrueBoolean game [''bPrivateMatch'', ''bTraining'', ''bExhibition'', ''bTournamentSpectator''] \<or>
            MatchTypeContains game [''private'', ''training'', ''exhibition'', ''freeplay'']
      in ev\<lparr>us_explicitNonRecordable := nonRecordable,
            us_fallbackNonRecordableReason :=
              (if nonRecordable then ''explicit_non_competitive_context'' else us_fallbackNonRecordableReason ev),
            us_explicitCasual := ReadTrueBoolean game [''bCasualMatch''] \<or> MatchTypeContains game [''casual'']\<rparr>)"

definition parse_update_state :: "json \<Rightarrow> TelemetryEvent" where
  "parse_update_state data =
     (let ev0 = UpdateStateEvent0\<lparr>us_matchGuid := ExtractGuid data,
                                  us_cameraTargetPlayerId := ExtractCameraTarget data,
                                  us_forfeitScopes := ReadForfeitScopes data\<rparr>;
          ev1 = (case Child data ''Game'' of
                   Some game \<Rightarrow>
                     update_match_type game (update_ball game (update_teams game (update_scalars game ev0)))
                 | None \<Rightarrow> ev0)
      in EvUpdateState
           (case Child data ''Players'' of
              Some (JArray ps) \<Rightarrow> ev1\<lparr>us_players := map parse_update_player ps\<rparr>
            | _ \<Rightarrow> ev1))"

text \<open>The event of a name, tried in the order of the code.\<close>

definition event_of :: "(json \<Rightarrow> string) \<Rightarrow> string \<Rightarrow> json \<Rightarrow> TelemetryEvent option" where
  "event_of dump eventName data =
     (if eventName = ''MatchCreated'' then Some (EvMatchCreated (ExtractGuid data))
      else if eventName = ''MatchInitialized'' then Some (EvMatchInitialized (ExtractGuid data))
      else if eventName = ''CountdownBegin'' then Some (EvCountdownBegin (ExtractGuid data))
      else if eventName = ''RoundStarted'' then Some (EvRoundStarted (ExtractGuid data))
      else if eventName = ''MatchPaused'' then Some (EvMatchPaused (ExtractGuid data))
      else if eventName = ''MatchUnpaused'' then Some (EvMatchUnpaused (ExtractGuid data))
      else if eventName = ''GoalReplayStart'' then Some (EvGoalReplayStart (ExtractGuid data))
      else if eventName = ''GoalReplayWillEnd'' then Some EvGoalReplayWillEnd
      else if eventName = ''GoalReplayEnd'' then Some (EvGoalReplayEnd (ExtractGuid data))
      else if eventName = ''PodiumStart'' then Some (EvPodiumStart (ExtractGuid data))
      else if eventName = ''ReplayCreated'' then Some EvReplayCreated
      else if eventName = ''PlayerLeft'' then Some (parse_player_left data)
      else if eventName = ''CrossbarHit'' then Some (parse_crossbar_hit dump data)
      else if eventName = ''MatchEnded'' then Some (parse_match_ended data)
      else if eventName = ''MatchDestroyed'' then Some (parse_match_destroyed data)
      else if eventName = ''StatfeedEvent'' then Some (parse_statfeed dump data)
      else if eventName = ''GoalScored'' then Some (parse_goal_scored dump data)
      else if eventName = ''BallHit'' then Some (parse_ball_hit data)
      else if eventName = ''BoostPickup'' then Some (parse_boost_pickup data)
      else if eventName = ''UpdateState'' then Some (parse_update_state data)
      else None)"

definition ParseEventFromJson ::
    "(string \<Rightarrow> json option) \<Rightarrow> (json \<Rightarrow> string) \<Rightarrow> string \<Rightarrow> string \<Rightarrow> TelemetryEvent option" where
  "ParseEventFromJson parse dump eventName jsonStr =
     (case parse jsonStr of None \<Rightarrow> None | Some data \<Rightarrow> event_of dump eventName data)"

section \<open>StatsClient: the line handler\<close>

text \<open>
  \<open>StatsClient::HandleLine\<close> up to the call of \<open>OnEvent\<close>: the event of a line. Every exception is
  caught and the line dropped. The data is text already or is printed again.
\<close>

definition line_event ::
    "(string \<Rightarrow> json option) \<Rightarrow> (json \<Rightarrow> string) \<Rightarrow> string \<Rightarrow> TelemetryEvent option" where
  "line_event parse dump line =
     (case parse line of
        None \<Rightarrow> None
      | Some msg \<Rightarrow>
          (case (Child msg ''Event'', Child msg ''Data'') of
             (Some (JString eventName), Some (JString dataStr)) \<Rightarrow>
               ParseEventFromJson parse dump eventName dataStr
           | (Some (JString eventName), Some data) \<Rightarrow>
               ParseEventFromJson parse dump eventName (dump data)
           | _ \<Rightarrow> None))"

declare first_number.simps(2) [simp del] first_guid.simps(2) [simp del] first_event_id.simps(2) [simp del]
  ReadTrueBoolean.simps(2) [simp del] ReadInteger.simps(2) [simp del] match_type_keys.simps(2) [simp del]

section \<open>What the decoder promises\<close>

text \<open>
  A well-typed event: teams are 0, 1 or -1, integers fit into \<open>int\<close>, floating-point numbers are
  finite, and the identifier of a player without a platform account carries the player's name.
\<close>

definition id_ok :: "string \<Rightarrow> string \<Rightarrow> bool" where
  "id_ok ident name = (NormalizeId ident name = ident)"

definition team_ok :: "int \<Rightarrow> bool" where
  "team_ok t = (t \<in> {-1, 0, 1})"

definition point_ok :: "FieldPoint \<Rightarrow> bool" where
  "point_ok p = (fp_finite (fpt_x p) \<and> fp_finite (fpt_y p) \<and> fp_finite (fpt_z p))"

definition ref_ok :: "PlayerRef \<Rightarrow> bool" where
  "ref_ok p = (id_ok (pr_primaryId p) (pr_name p) \<and> team_ok (pr_team p) \<and> pred_option in_int32 (pr_shortcut p))"

definition scope_ok :: "ForfeitScope \<Rightarrow> bool" where
  "scope_ok s = (pred_option in_int32 (fs_forfeitTeam s) \<and> pred_option in_int32 (fs_winnerTeam s))"

definition scores_ok :: "int \<times> int \<Rightarrow> bool" where
  "scores_ok s = (in_int32 (fst s) \<and> in_int32 (snd s))"

definition update_player_ok :: "UpdatePlayerState \<Rightarrow> bool" where
  "update_player_ok p =
     (id_ok (up_primaryId p) (up_name p) \<and> team_ok (up_team p) \<and>
      list_all (pred_option in_int32)
        [up_score p, up_goals p, up_assists p, up_saves p, up_shots p, up_demos p, up_touches p,
         up_carTouches p, up_shortcut p, up_boost p] \<and>
      (up_bHasCar p \<longrightarrow> up_hasCarField p) \<and> fp_finite (up_speed p))"

fun event_ok :: "TelemetryEvent \<Rightarrow> bool" where
  "event_ok (EvPlayerLeft e) = id_ok (pl_primaryId e) (pl_name e)"
| "event_ok (EvCrossbarHit e) =
     (ref_ok (cb_lastTouch e) \<and> pred_option fp_finite (cb_impactForce e) \<and>
      pred_option fp_finite (cb_secondsRemaining e))"
| "event_ok (EvMatchEnded e) =
     (in_int32 (me_winnerTeam e) \<and> scores_ok (me_teamScores e) \<and>
      (me_hasTeamScores e \<or> me_teamScores e = (0, 0)) \<and>
      me_forfeitScopes e \<noteq> [] \<and> list_all scope_ok (me_forfeitScopes e))"
| "event_ok (EvMatchDestroyed e) =
     (pred_option in_int32 (md_winnerTeam e) \<and> scores_ok (md_teamScores e) \<and>
      (md_hasTeamScores e \<or> md_teamScores e = (0, 0)) \<and>
      md_forfeitScopes e \<noteq> [] \<and> list_all scope_ok (md_forfeitScopes e))"
| "event_ok (EvStatfeed e) =
     (ref_ok (sf_mainTarget e) \<and> pred_option ref_ok (sf_secondaryTarget e) \<and>
      pred_option fp_finite (sf_secondsRemaining e))"
| "event_ok (EvGoalScored e) =
     (ref_ok (gs_scorer e) \<and> pred_option ref_ok (gs_assister e) \<and>
      list_all (pred_option fp_finite)
        [gs_goalSpeed e, gs_lastTouchSpeed e, gs_roundSeconds e, gs_secondsRemaining e] \<and>
      pred_option point_ok (gs_impactLocation e) \<and>
      gs_isEcho e = (gs_hasScorer e \<and> pr_name (gs_scorer e) = []))"
| "event_ok (EvBallHit e) =
     (list_all ref_ok (bh_hitters e) \<and> fp_finite (bh_postHitSpeed e) \<and> pred_option point_ok (bh_location e))"
| "event_ok (EvBoostPickup e) = (ref_ok (bp_player e) \<and> pred_option point_ok (bp_location e))"
| "event_ok (EvUpdateState e) =
     (pred_option in_int32 (us_playlistId e) \<and> pred_option fp_finite (us_timeSeconds e) \<and>
      scores_ok (us_teamScores e) \<and>
      us_hasTeamScores e = (fst (us_teamScorePresent e) \<or> snd (us_teamScorePresent e)) \<and>
      in_int32 (us_ballTeam e) \<and> fp_finite (us_ballSpeed e) \<and> pred_option point_ok (us_ballLocation e) \<and>
      us_forfeitScopes e \<noteq> [] \<and> list_all scope_ok (us_forfeitScopes e) \<and>
      (us_explicitNonRecordable e \<longleftrightarrow> us_fallbackNonRecordableReason e \<noteq> []) \<and>
      list_all update_player_ok (us_players e))"
| "event_ok (EvClockUpdatedSeconds x) = False"
| "event_ok _ = True"

named_theorems typed \<open>what the readers of the decoder return\<close>

lemma TeamOf_range [typed]: "team_ok (TeamOf j)"
  by (auto simp: TeamOf_def team_ok_def split: option.splits)

lemma lround_bounds:
  "\<not> Fin q < Fin (of_int a) \<Longrightarrow> \<not> Fin (of_int b) < Fin q \<Longrightarrow> a \<le> lround (Fin q) \<and> lround (Fin q) \<le> b"
  by (auto simp: not_less) linarith+

lemma IntegerField_range: "IntegerField j key = Some n \<Longrightarrow> in_int32 n"
proof -
  assume "IntegerField j key = Some n"
  then obtain q where "n = lround (Fin q)" "\<not> Fin q < Fin (-2147483648)" "\<not> Fin 2147483647 < Fin q"
    by (auto simp: IntegerField_def Let_def split: option.splits if_splits elim!: fp_finite.elims(2))
  then show ?thesis
    using lround_bounds[of q "-2147483648" 2147483647] by (simp add: in_int32_def)
qed

lemma IntegerField_typed [typed]: "pred_option in_int32 (IntegerField j key)"
  using IntegerField_range by (auto simp: pred_option_def)

lemma ReadInteger_range: "ReadInteger j keys = Some n \<Longrightarrow> in_int32 n"
  by (induction j keys rule: ReadInteger.induct)
    (auto simp: ReadInteger.simps(2) stoi_range split: option.splits json.splits)

lemma ReadInteger_typed [typed]: "pred_option in_int32 (ReadInteger j keys)"
  using ReadInteger_range by (auto simp: pred_option_def)

lemma Number_typed [typed]: "pred_option fp_finite (Number j key)"
  by (auto simp: Number_def Let_def split: option.splits)

lemma DoubleField_typed [typed]: "pred_option fp_finite (DoubleField j key)"
  by (auto simp: DoubleField_def Let_def split: option.splits)

lemma SecondsRemaining_typed [typed]: "pred_option fp_finite (SecondsRemaining j)"
proof -
  have "pred_option fp_finite (first_number j keys)" for keys
    by (induction j keys rule: first_number.induct) (auto simp: first_number.simps(2) typed split: option.splits)
  then show ?thesis by (simp add: SecondsRemaining_def)
qed

lemma Point_typed [typed]: "pred_option point_ok (Point j key)"
  using Number_typed
  by (fastforce simp: Point_def point_ok_def pred_option_def split: option.splits json.splits)

lemma number_or_zero_typed [typed]: "fp_finite (number_or_zero j key)"
  using Number_typed[of j key] by (auto simp: number_or_zero_def split: option.splits)

lemma NormalizeId_typed [typed]: "id_ok (NormalizeId i n) n"
  by (auto simp: NormalizeId_def id_ok_def starts_with_def)

lemma ParsePlayerRef_typed [typed]: "ref_ok (ParsePlayerRef j)"
  by (simp add: ParsePlayerRef_def ref_ok_def PlayerRef0_def typed Let_def)
    (simp add: id_ok_def NormalizeId_def starts_with_def team_ok_def)

lemma PlayerRef0_typed [typed]: "ref_ok PlayerRef0"
  using ParsePlayerRef_typed[of JNull] by (simp add: ParsePlayerRef_def)

lemma PlayerRefField_typed [typed]: "pred_option ref_ok (PlayerRefField j key)"
  by (cases "Child j key") (simp_all add: PlayerRefField_def typed)

lemma ReadForfeitScope_typed [typed]: "scope_ok (ReadForfeitScope j)"
  by (simp add: ReadForfeitScope_def scope_ok_def typed)

lemma ReadForfeitScopes_typed [typed]:
  "ReadForfeitScopes j \<noteq> []" "list_all scope_ok (ReadForfeitScopes j)"
  by (auto simp: ReadForfeitScopes_def typed split: option.splits json.splits)

lemma ReadTeamScores_typed [typed]:
  "scores_ok (snd (ReadTeamScores j (0, 0)))"
  "fst (ReadTeamScores j (0, 0)) \<or> snd (ReadTeamScores j (0, 0)) = (0, 0)"
proof -
  let ?ok = "\<lambda>acc. scores_ok (snd acc) \<and> (fst acc \<or> snd acc = (0, 0))"
  have "?ok acc \<Longrightarrow> ?ok (read_team_score t acc)" for t acc
    using IntegerField_range[of t "''Score''"]
    by (auto simp: read_team_score_def Let_def team_set_def scores_ok_def split: option.splits)
  then have "?ok acc \<Longrightarrow> ?ok (fold read_team_score ts acc)" for ts acc
    by (induction ts arbitrary: acc) simp_all
  moreover have "?ok (False, 0, 0)" by (simp add: scores_ok_def in_int32_def)
  ultimately have "?ok (ReadTeamScores j (0, 0))"
    by (auto simp: ReadTeamScores_def split: option.splits json.splits)
  then show "scores_ok (snd (ReadTeamScores j (0, 0)))"
    "fst (ReadTeamScores j (0, 0)) \<or> snd (ReadTeamScores j (0, 0)) = (0, 0)" by simp_all
qed

lemma parse_update_player_typed [typed]: "update_player_ok (parse_update_player j)"
proof -
  have demos: "pred_option in_int32
      (case IntegerField j ''Demos'' of Some n \<Rightarrow> Some n | None \<Rightarrow> IntegerField j ''Demolishes'')"
    using IntegerField_typed[of j] by (metis (no_types, lifting) option.case_eq_if option.collapse)
  have car: "bool_or_false j ''bHasCar'' \<Longrightarrow> Child j ''bHasCar'' \<noteq> None"
    by (auto simp: bool_or_false_def BoolField_def split: option.splits)
  show ?thesis
    using car by (simp add: parse_update_player_def update_player_ok_def typed Let_def demos)
qed

text \<open>An update is well typed after every stage of its decoding.\<close>

abbreviation "update_ok ev \<equiv> event_ok (EvUpdateState ev)"

lemma update_scalars_typed [typed]: "update_ok ev \<Longrightarrow> update_ok (update_scalars g ev)"
  by (simp add: update_scalars_def typed) (simp add: pred_option_def split: option.split, metis ReadInteger_range)

lemma update_team_typed [typed]: "update_ok ev \<Longrightarrow> update_ok (update_team t ev)"
  using IntegerField_range[of t "''Score''"]
  by (auto simp: update_team_def Let_def team_set_def scores_ok_def split: option.splits)

lemma update_teams_typed [typed]: "update_ok ev \<Longrightarrow> update_ok (update_teams g ev)"
proof -
  have "update_ok ev \<Longrightarrow> update_ok (fold update_team ts ev)" for ts ev
    by (induction ts arbitrary: ev) (simp_all only: fold_Nil fold_Cons id_apply comp_apply typed)
  then show "update_ok ev \<Longrightarrow> update_ok (update_teams g ev)"
    by (auto simp: update_teams_def simp del: event_ok.simps split: option.splits json.splits)
qed

lemma update_ball_typed [typed]: "update_ok ev \<Longrightarrow> update_ok (update_ball g ev)"
proof (cases "Child g ''Ball''")
  case (Some ball)
  assume ok: "update_ok ev"
  have "in_int32 (case IntegerField ball ''TeamNum'' of Some t \<Rightarrow> t | None \<Rightarrow> us_ballTeam ev)"
    "fp_finite (case Number ball ''Speed'' of Some s \<Rightarrow> s | None \<Rightarrow> us_ballSpeed ev)"
    using ok IntegerField_range[of ball "''TeamNum''"] Number_typed[of ball "''Speed''"]
    by (auto split: option.split)
  then show ?thesis using ok Some by (simp add: update_ball_def typed)
qed (simp add: update_ball_def)

lemma update_match_type_typed [typed]:
  "update_ok ev \<Longrightarrow> \<not> us_explicitNonRecordable ev \<Longrightarrow> update_ok (update_match_type g ev)"
  by (auto simp: update_match_type_def Let_def)

lemma update_keeps_recordable:
  "us_explicitNonRecordable (update_ball g ev) = us_explicitNonRecordable ev"
  "us_explicitNonRecordable (update_teams g ev) = us_explicitNonRecordable ev"
  "us_explicitNonRecordable (update_scalars g ev) = us_explicitNonRecordable ev"
proof -
  have "us_explicitNonRecordable (fold update_team ts ev) = us_explicitNonRecordable ev" for ts
    by (induction ts arbitrary: ev) (simp_all add: update_team_def Let_def split: option.split)
  then show "us_explicitNonRecordable (update_teams g ev) = us_explicitNonRecordable ev"
    by (simp add: update_teams_def split: option.split json.split)
qed (simp_all add: update_ball_def update_scalars_def split: option.split)

lemma parse_update_state_typed [typed]: "event_ok (parse_update_state data)"
proof -
  define ev0 where "ev0 = UpdateStateEvent0\<lparr>us_matchGuid := ExtractGuid data,
    us_cameraTargetPlayerId := ExtractCameraTarget data, us_forfeitScopes := ReadForfeitScopes data\<rparr>"
  define ev1 where "ev1 = (case Child data ''Game'' of
      Some game \<Rightarrow> update_match_type game (update_ball game (update_teams game (update_scalars game ev0)))
    | None \<Rightarrow> ev0)"
  have ev0: "update_ok ev0" "\<not> us_explicitNonRecordable ev0"
    by (simp_all add: ev0_def UpdateStateEvent0_def scores_ok_def in_int32_def typed)
  have ev1: "update_ok ev1"
    unfolding ev1_def
    by (cases "Child data ''Game''") (simp_all only: option.case ev0 typed update_keeps_recordable not_False_eq_True)
  have "update_ok (ev1\<lparr>us_players := map parse_update_player ps\<rparr>)" for ps
    using ev1 by (simp add: list_all_iff typed)
  moreover have "parse_update_state data = EvUpdateState
      (case Child data ''Players'' of
         Some (JArray ps) \<Rightarrow> ev1\<lparr>us_players := map parse_update_player ps\<rparr> | _ \<Rightarrow> ev1)"
    unfolding parse_update_state_def ev1_def ev0_def Let_def by (rule refl)
  ultimately show ?thesis
    using ev1 by (simp only: split: option.split json.split) blast
qed

lemma parse_event_typed [typed]:
  "event_ok (parse_player_left data)"
  "event_ok (parse_crossbar_hit dump data)"
  "event_ok (parse_match_ended data)"
  "event_ok (parse_match_destroyed data)"
  "event_ok (parse_statfeed dump data)"
  "event_ok (parse_ball_hit data)"
  "event_ok (parse_boost_pickup data)"
proof -
  show "event_ok (parse_player_left data)" by (simp add: parse_player_left_def Let_def typed)
  show "event_ok (parse_crossbar_hit dump data)"
    by (simp add: parse_crossbar_hit_def typed split: option.split json.split)
  have "in_int32 (-1)" by (simp add: in_int32_def)
  then show "event_ok (parse_match_ended data)"
    using ReadTeamScores_typed[of data] ReadInteger_range
    by (auto simp: parse_match_ended_def case_prod_unfold Let_def typed split: option.split)
  show "event_ok (parse_match_destroyed data)"
    using ReadTeamScores_typed[of data]
    by (simp add: parse_match_destroyed_def case_prod_unfold Let_def typed)
  show "event_ok (parse_statfeed dump data)" by (simp add: parse_statfeed_def typed split: option.split)
  show "event_ok (parse_ball_hit data)"
    by (auto simp: parse_ball_hit_def typed list_all_iff split: option.splits json.splits)
  show "event_ok (parse_boost_pickup data)" by (simp add: parse_boost_pickup_def typed split: option.split)
qed

lemma parse_goal_scored_typed [typed]: "event_ok (parse_goal_scored dump data)"
  by (simp add: parse_goal_scored_def Let_def typed split: option.split json.split)

lemma event_of_typed: "event_of dump eventName data = Some ev \<Longrightarrow> event_ok ev"
  unfolding event_of_def by (auto simp: typed split: if_split_asm)

lemma line_event_typed: "line_event parse dump line = Some ev \<Longrightarrow> event_ok ev"
  using event_of_typed
  by (fastforce simp: line_event_def ParseEventFromJson_def split: option.splits json.splits)

section \<open>The followed player\<close>

text \<open>The identifiers of the player entries that fit the camera's target.\<close>

definition camera_candidates :: "string \<Rightarrow> int \<Rightarrow> json list \<Rightarrow> string list" where
  "camera_candidates name team ps = List.map_filter (camera_candidate name team) ps"

lemma scan_targets_candidates:
  "scan_targets name team ps found =
     (let cs = camera_candidates name team ps
      in if cs = [] then found
         else if found = [] \<and> list_all (\<lambda>c. c = []) (butlast cs) then last cs else [])"
proof (induction name team ps found rule: scan_targets.induct)
  case (2 name team p ps found)
  then show ?case
    by (cases "camera_candidate name team p")
      (auto simp: camera_candidates_def List.map_filter_simps Let_def)
qed (simp add: camera_candidates_def List.map_filter_simps)

section \<open>Properties\<close>

definition telemetry_event_names :: "string list" where
  "telemetry_event_names =
     [''MatchCreated'', ''MatchInitialized'', ''CountdownBegin'', ''RoundStarted'', ''MatchPaused'',
      ''MatchUnpaused'', ''GoalReplayStart'', ''GoalReplayWillEnd'', ''GoalReplayEnd'', ''PodiumStart'',
      ''ReplayCreated'', ''PlayerLeft'', ''CrossbarHit'', ''MatchEnded'', ''MatchDestroyed'',
      ''StatfeedEvent'', ''GoalScored'', ''BallHit'', ''BoostPickup'', ''UpdateState'']"

text \<open>
  C5: whatever JSON arrives, a decoded event is well typed: teams are 0, 1 or -1, integers fit the
  32-bit type, numbers are finite, points are complete, the identifier of a player without an account
  carries the player's name, a goal is an echo exactly when it has a scorer without a name, an
  update has scores exactly when a team's score is present, and a reason not to record it exactly
  when it must not be recorded.
\<close>

theorem decoded_events_well_typed:
  "pred_option event_ok (ParseEventFromJson parse dump eventName jsonStr)"
  using event_of_typed by (auto simp: ParseEventFromJson_def pred_option_def split: option.split)

text \<open>
  Decoding fails exactly on text that is not JSON and on unknown event names; JSON of any other
  shape, with fields missing or of the wrong type, gives an event with defaults in their place.
\<close>

theorem decoding_fails_only_on_bad_json:
  "(ParseEventFromJson parse dump eventName jsonStr \<noteq> None) =
     (parse jsonStr \<noteq> None \<and> eventName \<in> set telemetry_event_names)"
  by (simp add: ParseEventFromJson_def event_of_def telemetry_event_names_def split: option.split)

text \<open>
  The followed player is set exactly when a single player entry with an identifier fits the
  target's name and team, and no entry that fits comes after it; it is that entry's identifier.
\<close>

theorem camera_target_is_unique:
  assumes "Child data ''Game'' = Some (JObject g)" "map_of g ''bHasTarget'' = Some (JBool True)"
    and "map_of g ''Target'' = Some (JObject t)" "map_of t ''Name'' = Some (JString name)" "name \<noteq> []"
    and "Child data ''Players'' = Some (JArray ps)"
    and "team = (case int_field (JObject t) ''TeamNum'' of Some i \<Rightarrow> i | None \<Rightarrow> -1)" "ident \<noteq> []"
  shows "ExtractCameraTarget data = ident \<longleftrightarrow>
     (\<exists>cs. camera_candidates name team ps = cs @ [ident] \<and> set cs \<subseteq> {[]})"
proof -
  have "ExtractCameraTarget data = scan_targets name team ps []"
    using assms by (simp add: ExtractCameraTarget_def)
  also have "\<dots> = ident \<longleftrightarrow> (\<exists>cs. camera_candidates name team ps = cs @ [ident] \<and> set cs \<subseteq> {[]})"
    using assms(8)
    by (cases "camera_candidates name team ps" rule: rev_cases)
      (auto simp: scan_targets_candidates Let_def list_all_iff)
  finally show ?thesis .
qed

definition sample_target_update :: json where
  "sample_target_update = JObject
     [(''Game'', JObject [(''bHasTarget'', JBool True),
        (''Target'', JObject [(''Name'', JString ''Ann''), (''TeamNum'', JInt 1)])]),
      (''Players'', JArray
        [JObject [(''Name'', JString ''Ann''), (''PrimaryId'', JString ''Steam|1''), (''TeamNum'', JInt 0)],
         JObject [(''Name'', JString ''Ann''), (''PrimaryId'', JString ''Unknown''), (''TeamNum'', JInt 1)]])]"

theorem camera_target_is_unique_witness:
  "ExtractCameraTarget sample_target_update = ''Unknown|Ann''"
  using camera_target_is_unique
    [of sample_target_update "[(''bHasTarget'', JBool True),
        (''Target'', JObject [(''Name'', JString ''Ann''), (''TeamNum'', JInt 1)])]"
      "[(''Name'', JString ''Ann''), (''TeamNum'', JInt 1)]" "''Ann''"
      "[JObject [(''Name'', JString ''Ann''), (''PrimaryId'', JString ''Steam|1''), (''TeamNum'', JInt 0)],
         JObject [(''Name'', JString ''Ann''), (''PrimaryId'', JString ''Unknown''), (''TeamNum'', JInt 1)]]"
      1 "''Unknown|Ann''"]
  by (simp add: sample_target_update_def camera_candidates_def List.map_filter_simps camera_candidate_def
      int_field_def to_int32_def signed_take_bit_int_eq_self)

end
