(* ===== verification/Wire_Client.thy ===== *)
theory Wire_Client
  imports Frame_Scanner Json_Events Client_Invariant
begin

text \<open>
  The program from the bytes of the socket to the calls of the services: \<open>StatsClient::HandleLine\<close>
  and one round of \<open>StatsClient::RunLoop\<close> over the scanner, the decoder and the client. Then what
  each of them promises, put together.
\<close>

section \<open>The line handler and the run loop\<close>

definition HandleLine ::
    "Services \<Rightarrow> (string \<Rightarrow> json option) \<Rightarrow> (json \<Rightarrow> string) \<Rightarrow> string \<Rightarrow> Reading \<Rightarrow> Client
     \<Rightarrow> Client \<times> ServiceCall list" where
  "HandleLine svc parse dump line r c =
     (case line_event parse dump line of None \<Rightarrow> (c, []) | Some ev \<Rightarrow> OnEvent svc ev r c)"

text \<open>The messages of a connection are handled in their order; message \<open>n\<close> meets reading \<open>rd n\<close>.\<close>

fun handle_lines ::
    "Services \<Rightarrow> (string \<Rightarrow> json option) \<Rightarrow> (json \<Rightarrow> string) \<Rightarrow> (nat \<Rightarrow> Reading) \<Rightarrow> nat \<Rightarrow> string list
     \<Rightarrow> Client \<Rightarrow> Client \<times> ServiceCall list" where
  "handle_lines svc parse dump rd n [] c = (c, [])"
| "handle_lines svc parse dump rd n (line # lines) c =
     (let (c1, calls1) = HandleLine svc parse dump line (rd n) c;
          (c2, calls2) = handle_lines svc parse dump rd (n + 1) lines c1
      in (c2, calls1 @ calls2))"

definition RunConnection ::
    "Services \<Rightarrow> (string \<Rightarrow> json option) \<Rightarrow> (json \<Rightarrow> string) \<Rightarrow> (nat \<Rightarrow> Reading) \<Rightarrow> bool \<Rightarrow> bool \<Rightarrow> Network
     \<Rightarrow> ReadResult list \<Rightarrow> Client \<Rightarrow> Client \<times> ServiceCall list" where
  "RunConnection svc parse dump rd showRecap stopping nw rs c =
     (let (lines, end) = ConnectAndRead stopping nw rs;
          (c1, calls1) = handle_lines svc parse dump rd 0 lines c
      in case end of
           Thrown e \<Rightarrow>
             (let (c2, calls2) = OnConnectionError svc showRecap (rd (length lines)) c1
              in (c2, calls1 @ calls2))
         | _ \<Rightarrow> (c1, calls1))"

text \<open>One round of the run loop for every connection.\<close>

record Connection =
  cn_readings :: "nat \<Rightarrow> Reading"
  cn_showRecap :: bool
  cn_stopping :: bool
  cn_network :: Network
  cn_reads :: "ReadResult list"

definition RunLoop ::
    "Services \<Rightarrow> (string \<Rightarrow> json option) \<Rightarrow> (json \<Rightarrow> string) \<Rightarrow> Connection \<Rightarrow> Client \<Rightarrow> Client \<times> ServiceCall list" where
  "RunLoop svc parse dump cn =
     RunConnection svc parse dump (cn_readings cn) (cn_showRecap cn) (cn_stopping cn) (cn_network cn) (cn_reads cn)"

section \<open>The same as inputs of the client\<close>

fun line_inputs ::
    "(string \<Rightarrow> json option) \<Rightarrow> (json \<Rightarrow> string) \<Rightarrow> (nat \<Rightarrow> Reading) \<Rightarrow> nat \<Rightarrow> string list \<Rightarrow> ClientInput list" where
  "line_inputs parse dump rd n [] = []"
| "line_inputs parse dump rd n (line # lines) =
     (case line_event parse dump line of None \<Rightarrow> [] | Some ev \<Rightarrow> [TelemetryArrives ev (rd n)]) @
     line_inputs parse dump rd (n + 1) lines"

definition connection_inputs ::
    "(string \<Rightarrow> json option) \<Rightarrow> (json \<Rightarrow> string) \<Rightarrow> Connection \<Rightarrow> ClientInput list" where
  "connection_inputs parse dump cn =
     (let (lines, end) = ConnectAndRead (cn_stopping cn) (cn_network cn) (cn_reads cn)
      in line_inputs parse dump (cn_readings cn) 0 lines @
         (case end of Thrown e \<Rightarrow> [ConnectionLost (cn_showRecap cn) (cn_readings cn (length lines))] | _ \<Rightarrow> []))"

text \<open>A run of the client with its calls in one list.\<close>

definition client_run :: "Services \<Rightarrow> ClientInput list \<Rightarrow> Client \<Rightarrow> Client \<times> ServiceCall list" where
  "client_run svc is c =
     (fst (run_out (client_step svc) is c), concat (snd (run_out (client_step svc) is c)))"

lemma client_run_simps [simp]:
  "client_run svc [] c = (c, [])"
  "client_run svc (i # is) c =
     (fst (client_run svc is (fst (client_step svc i c))),
      snd (client_step svc i c) @ snd (client_run svc is (fst (client_step svc i c))))"
  by (simp_all add: client_run_def)

lemma client_run_append:
  "client_run svc (is @ js) c =
     (fst (client_run svc js (fst (client_run svc is c))),
      snd (client_run svc is c) @ snd (client_run svc js (fst (client_run svc is c))))"
  by (simp add: client_run_def run_out_append)

lemma handle_lines_run:
  "handle_lines svc parse dump rd n lines c = client_run svc (line_inputs parse dump rd n lines) c"
  by (induction lines arbitrary: n c)
    (auto simp: HandleLine_def case_prod_unfold Let_def split: option.split)

lemma RunLoop_run: "RunLoop svc parse dump cn c = client_run svc (connection_inputs parse dump cn) c"
  by (auto simp: RunLoop_def RunConnection_def connection_inputs_def handle_lines_run client_run_append
      case_prod_unfold Let_def split: ReadEnd.split)

text \<open>Rounds of the run loop between other inputs of the client.\<close>

datatype WireInput = ConnectionRound Connection | OtherInput ClientInput

fun wire_step ::
    "Services \<Rightarrow> (string \<Rightarrow> json option) \<Rightarrow> (json \<Rightarrow> string) \<Rightarrow> WireInput \<Rightarrow> Client \<Rightarrow> Client \<times> ServiceCall list" where
  "wire_step svc parse dump (ConnectionRound cn) c = RunLoop svc parse dump cn c"
| "wire_step svc parse dump (OtherInput i) c = client_step svc i c"

fun wire_inputs :: "(string \<Rightarrow> json option) \<Rightarrow> (json \<Rightarrow> string) \<Rightarrow> WireInput \<Rightarrow> ClientInput list" where
  "wire_inputs parse dump (ConnectionRound cn) = connection_inputs parse dump cn"
| "wire_inputs parse dump (OtherInput i) = [i]"

lemma wire_step_run: "wire_step svc parse dump w c = client_run svc (wire_inputs parse dump w) c"
  by (cases w) (simp_all add: RunLoop_run)

lemma wire_run:
  "(fst (run_out (wire_step svc parse dump) ws c), concat (snd (run_out (wire_step svc parse dump) ws c))) =
   client_run svc (concat (map (wire_inputs parse dump) ws)) c"
proof (induction ws arbitrary: c)
  case (Cons w ws)
  let ?c = "fst (wire_step svc parse dump w c)"
  have "(fst (run_out (wire_step svc parse dump) (w # ws) c),
         concat (snd (run_out (wire_step svc parse dump) (w # ws) c))) =
        (fst (run_out (wire_step svc parse dump) ws ?c),
         snd (wire_step svc parse dump w c) @ concat (snd (run_out (wire_step svc parse dump) ws ?c)))"
    by simp
  then show ?case
    using Cons.IH[of ?c] by (simp add: client_run_append wire_step_run prod_eq_iff)
qed simp

lemma final_saves_concat: "final_saves (concat css) = concat (map final_saves css)"
  by (induction css) simp_all

lemma wire_saves_once:
  "distinct (final_saves (concat (snd (run_out (wire_step svc parse dump) ws c))))"
proof -
  have "final_saves (concat (snd (run_out (wire_step svc parse dump) ws c))) =
      concat (map final_saves (snd (run_out (client_step svc) (concat (map (wire_inputs parse dump) ws)) c)))"
    using wire_run[of svc parse dump ws c] by (simp add: client_run_def final_saves_concat)
  then show ?thesis by (simp add: final_saves_run cliled.run_settles_once)
qed

lemma wire_keeps_inv:
  assumes "match_inv (client_live c)"
  shows "match_inv (client_live (fst (run_out (wire_step svc parse dump) ws c)))"
  using wire_run[of svc parse dump ws c] client_run_inv[OF assms] by (simp add: client_run_def)

section \<open>Bytes to events\<close>

lemma bad_line_ignored:
  "parse line = None \<Longrightarrow> HandleLine svc parse dump line r c = (c, [])"
  by (simp add: HandleLine_def line_event_def)

text \<open>What a connection does depends on the bytes alone, not on how they arrived.\<close>

lemma RunConnection_cut:
  assumes "snd (ReadLoop rs []) = StillReading r" "snd (ReadLoop rs' []) = StillReading r'"
    and "received rs = received rs'"
  shows "RunConnection svc parse dump rd showRecap stopping nw rs c =
         RunConnection svc parse dump rd showRecap stopping nw rs' c"
proof -
  have "frames (received rs) = (fst (ReadLoop rs []), r)" "frames (received rs') = (fst (ReadLoop rs' []), r')"
    using ReadLoop_frames[of "[]" rs r] ReadLoop_frames[of "[]" rs' r'] assms(1,2)
    by (simp_all add: is_pending_def)
  then have "ReadLoop rs [] = ReadLoop rs' []"
    using assms by (simp add: prod_eq_iff)
  then have "ConnectAndRead stopping nw rs = ConnectAndRead stopping nw rs'"
    by (simp add: ConnectAndRead_def split: sum.split bool.split)
  then show ?thesis by (simp add: RunConnection_def)
qed

section \<open>Properties\<close>

text \<open>
  C1: whatever bytes arrive over whatever connections, in whatever pieces, and whatever else the
  client receives between them, no match identifier is handed to the database twice with a final
  result.
\<close>

theorem bytes_save_once:
  "distinct (final_saves (concat (snd (run_out (wire_step svc parse dump) ws c))))"
  by (rule wire_saves_once)

text \<open>
  C2: a healthy connection over which a stream of messages arrives does exactly what handling these
  messages one by one, in their order, does: the client runs through the events they decode to,
  and lines that decode to none leave it and the services alone.
\<close>

theorem connection_handles_messages:
  assumes "wire_ok xs tail" "healthy rs" "received rs = wire xs tail" "connect_socket nw = Inr True"
  shows "RunConnection svc parse dump rd showRecap False nw rs c =
         client_run svc (line_inputs parse dump rd 0 (map snd xs)) c"
  using ReadLoop_wire[OF assms(1-3)] assms(4)
  by (simp add: RunConnection_def ConnectAndRead_def handle_lines_run case_prod_unfold Let_def)

theorem connection_handles_messages_witness:
  "\<forall>svc rd b c. RunConnection svc (\<lambda>s. if s = ''{}'' then Some (JObject []) else None) (\<lambda>j. []) rd b False sample_network
     [Received ''{'', Received ''} {x}''] c = (c, [])"
proof (intro allI)
  fix svc rd b c
  show "RunConnection svc (\<lambda>s. if s = ''{}'' then Some (JObject []) else None) (\<lambda>j. []) rd b False sample_network
      [Received ''{'', Received ''} {x}''] c = (c, [])"
    using connection_handles_messages
      [of "[([], ''{}''), ('' '', ''{x}'')]" "[]" "[Received ''{'', Received ''} {x}'']" sample_network svc
        "\<lambda>s. if s = ''{}'' then Some (JObject []) else None" "\<lambda>j. []" rd b c]
    by (simp add: wire_ok_def wire_def healthy_def is_frame_def close_at.simps scan_char_def Scan0_def
        kBufferLimit_def kReadSize_def sample_network_connects line_event_def)
qed

end
