(* ===== verification/Float_Rounding.thy ===== *)
theory Float_Rounding
  imports Prelude
begin

text \<open>
  Facts on the rounding of \<open>Prelude\<close> that the stored figures need: a rounded number is rounded to
  itself, and rounding keeps the order of non-negative numbers. Both hold for every precision, so
  for binary32 and binary64.
\<close>

section \<open>Round half to even\<close>

lemma half_even_of_int [simp]: "half_even (of_int n) = n"
  by (simp add: half_even_def)

lemma half_even_ge_floor: "\<lfloor>x\<rfloor> \<le> half_even x" and half_even_le_floor: "half_even x \<le> \<lfloor>x\<rfloor> + 1"
  by (simp_all add: half_even_def Let_def)

lemma half_even_mono:
  assumes "x \<le> y"
  shows "half_even x \<le> half_even y"
proof (cases "\<lfloor>x\<rfloor> = \<lfloor>y\<rfloor>")
  case True
  then show ?thesis using assms by (auto simp: half_even_def Let_def)
next
  case False
  then have "\<lfloor>x\<rfloor> + 1 \<le> \<lfloor>y\<rfloor>" using floor_mono[OF assms] by simp
  then show ?thesis using half_even_le_floor[of x] half_even_ge_floor[of y] by linarith
qed

section \<open>The leading bit\<close>

lemma powi_bitlen:
  fixes a :: int
  assumes "0 < a"
  shows "2 powi (bitlen a - 1) \<le> (of_int a :: rat)" "(of_int a :: rat) < 2 powi bitlen a"
proof -
  have l: "1 \<le> bitlen a" using assms bitlen_nonneg[of a] bitlen_eq_zero_iff[of a] by linarith
  have "2 ^ nat (bitlen a - 1) \<le> a" "a < 2 ^ nat (bitlen a)" using bitlen_bounds[OF assms] by auto
  then have "(of_int (2 ^ nat (bitlen a - 1)) :: rat) \<le> of_int a" "(of_int a :: rat) < of_int (2 ^ nat (bitlen a))"
    by (simp_all only: of_int_le_iff of_int_less_iff)
  then show "2 powi (bitlen a - 1) \<le> (of_int a :: rat)" "(of_int a :: rat) < 2 powi bitlen a"
    using l by (simp_all add: power_int_def)
qed

lemma ilog2_bounds:
  assumes "0 < x"
  shows "2 powi ilog2 x \<le> x" "x < 2 powi (ilog2 x + 1)"
proof -
  obtain a b where ab: "quotient_of x = (a, b)" by fastforce
  have b: "0 < b" and x: "x = of_int a / of_int b"
    using ab quotient_of_denom_pos quotient_of_div by auto
  with assms have a: "0 < a" by (simp add: zero_less_divide_iff)
  let ?k = "bitlen a - bitlen b"
  note A = powi_bitlen[OF a] and B = powi_bitlen[OF b]
  have "x < 2 powi bitlen a / 2 powi (bitlen b - 1)"
    unfolding x using A(2) B(1) a by (intro frac_less) auto
  then have up: "x < 2 powi (?k + 1)"
    by (simp add: power_int_diff power_int_add)
  have "2 powi (bitlen a - 1) / 2 powi bitlen b \<le> x"
    unfolding x using A(1) B(2) a b by (intro frac_le) auto
  then have "2 powi (?k - 1) \<le> x"
    by (simp add: power_int_diff power_int_add field_simps)
  with up show "2 powi ilog2 x \<le> x" "x < 2 powi (ilog2 x + 1)"
    by (auto simp: ilog2_def ab Let_def not_less)
qed

section \<open>Representable numbers\<close>

definition representable :: "int \<Rightarrow> int \<Rightarrow> rat \<Rightarrow> bool" where
  "representable p emin y = (\<exists>n e. emin \<le> e \<and> \<bar>n\<bar> \<le> 2 ^ nat p \<and> y = of_int n * 2 powi e)"

definition quantum :: "int \<Rightarrow> int \<Rightarrow> rat \<Rightarrow> int" where
  "quantum p emin x = max emin (ilog2 \<bar>x\<bar> - (p - 1))"

definition nearest :: "int \<Rightarrow> int \<Rightarrow> rat \<Rightarrow> rat" where
  "nearest p emin x = of_int (half_even (x / 2 powi quantum p emin x)) * 2 powi quantum p emin x"

lemma fp_round_nearest:
  "x \<noteq> 0 \<Longrightarrow> fp_round p emin emax x =
     (if 2 powi emax \<le> \<bar>nearest p emin x\<bar> then Infinity (x < 0) else Fin (nearest p emin x))"
  by (simp add: fp_round_def nearest_def quantum_def Let_def)

lemma nearest_representable:
  assumes "x \<noteq> 0" "1 \<le> p"
  shows "representable p emin (nearest p emin x)"
proof -
  let ?e = "quantum p emin x" and ?n = "half_even (x / 2 powi quantum p emin x)"
  have "\<bar>x\<bar> < 2 powi (ilog2 \<bar>x\<bar> + 1)" using assms by (intro ilog2_bounds) simp
  also have "\<dots> \<le> 2 powi (p + ?e)" by (intro power_int_increasing) (auto simp: quantum_def)
  finally have "\<bar>x / 2 powi ?e\<bar> < 2 powi p" by (simp add: power_int_add field_simps)
  also have "2 powi p = (of_int (2 ^ nat p) :: rat)" using assms by (simp add: power_int_def)
  finally have b: "\<bar>x / 2 powi ?e\<bar> < of_int (2 ^ nat p)" .
  have "half_even (x / 2 powi ?e) \<le> half_even (of_int (2 ^ nat p))"
    using b unfolding abs_less_iff by (intro half_even_mono) linarith
  moreover have "half_even (of_int (- (2 ^ nat p))) \<le> half_even (x / 2 powi ?e)"
    using b unfolding abs_less_iff of_int_minus by (intro half_even_mono) linarith
  ultimately have "\<bar>?n\<bar> \<le> 2 ^ nat p" unfolding half_even_of_int by linarith
  then show ?thesis unfolding representable_def nearest_def
    by (intro exI[of _ ?n] exI[of _ ?e]) (auto simp: quantum_def)
qed

lemma nearest_id:
  assumes "representable p emin y" "y \<noteq> 0" "1 \<le> p"
  shows "nearest p emin y = y"
proof -
  obtain n e where ne: "emin \<le> e" "\<bar>n\<bar> \<le> 2 ^ nat p" "y = of_int n * 2 powi e"
    using assms(1) by (auto simp: representable_def)
  let ?q = "quantum p emin y"
  have "\<exists>m. y / 2 powi ?q = of_int m"
  proof (cases "?q \<le> e")
    case True
    then have "of_int (n * 2 ^ nat (e - ?q)) = of_int n * (2 powi (e - ?q) :: rat)"
      by (simp add: power_int_def)
    also have "\<dots> = y / 2 powi ?q" by (simp add: power_int_diff flip: ne(3))
    finally show ?thesis by metis
  next
    case False
    then have q: "?q = ilog2 \<bar>y\<bar> - (p - 1)" using ne(1) by (simp add: quantum_def)
    have "2 powi ilog2 \<bar>y\<bar> \<le> \<bar>y\<bar>" using assms by (intro ilog2_bounds) simp
    also have "\<bar>y\<bar> = of_int \<bar>n\<bar> * 2 powi e" by (simp add: ne(3) abs_mult)
    finally have low: "2 powi ilog2 \<bar>y\<bar> \<le> of_int \<bar>n\<bar> * (2 powi e :: rat)" .
    have P: "(of_int (2 ^ nat p) :: rat) = 2 powi p" using assms(3) by (simp add: power_int_def)
    have "(of_int \<bar>n\<bar> :: rat) \<le> 2 powi p" using ne(2) unfolding P[symmetric] by (simp only: of_int_le_iff)
    then have "of_int \<bar>n\<bar> * (2 powi e :: rat) \<le> 2 powi p * 2 powi e"
      by (rule mult_right_mono) simp
    with low have "2 powi ilog2 \<bar>y\<bar> \<le> (2 powi p * 2 powi e :: rat)" by (rule order_trans)
    then have "2 powi ilog2 \<bar>y\<bar> \<le> (2 powi (p + e) :: rat)" by (simp add: power_int_add)
    then have "ilog2 \<bar>y\<bar> \<le> p + e"
      using power_int_strict_increasing[of "p + e" "ilog2 \<bar>y\<bar>" "2 :: rat"] by (meson leD leI one_less_numeral_iff semiring_norm(76))
    with False q have l: "ilog2 \<bar>y\<bar> = p + e" "?q = e + 1" by auto
    with low have "2 powi p \<le> (of_int \<bar>n\<bar> :: rat)" by (simp add: power_int_add)
    then have "2 ^ nat p \<le> \<bar>n\<bar>" unfolding P[symmetric] by (simp only: of_int_le_iff)
    with ne(2) have n: "n = 2 ^ nat p \<or> n = - (2 ^ nat p)" by linarith
    obtain k where k: "nat p = Suc k" using assms(3) by (cases "nat p") auto
    have "y / 2 powi ?q = y / 2 powi (e + 1)" by (simp only: l(2))
    also have "\<dots> = of_int n / 2" by (simp add: ne(3) power_int_add)
    also have "(of_int n / 2 :: rat) = of_int (if 0 \<le> n then 2 ^ k else - (2 ^ k))"
      using n k by auto
    finally show ?thesis by blast
  qed
  then obtain m where m: "y / 2 powi ?q = of_int m" by blast
  then have "nearest p emin y = of_int m * 2 powi ?q" by (simp add: nearest_def)
  also have "\<dots> = y" unfolding m[symmetric] by simp
  finally show ?thesis .
qed

lemma fp_round_idem:
  assumes "fp_round p emin emax x = Fin y" "1 \<le> p"
  shows "fp_round p emin emax y = Fin y"
proof (cases "x = 0 \<or> y = 0")
  case True
  then show ?thesis using assms by (auto simp: fp_round_def)
next
  case False
  then have y: "y = nearest p emin x" "\<not> 2 powi emax \<le> \<bar>y\<bar>"
    using assms(1) by (auto simp: fp_round_nearest split: if_splits)
  then have "nearest p emin y = y"
    using False assms(2) nearest_representable[of x p emin] nearest_id[of p emin y] by simp
  then show ?thesis using False y(2) by (simp add: fp_round_nearest)
qed

lemma f32_idem: "f32 x = Fin y \<Longrightarrow> f32 y = Fin y"
  by (simp add: f32_def fp_round_idem)

lemma f64_idem: "f64 x = Fin y \<Longrightarrow> f64 y = Fin y"
  by (simp add: f64_def fp_round_idem)

text \<open>Integers of at most 24 bits are exact as floats.\<close>

lemma f32_of_int_exact:
  assumes "\<bar>i\<bar> \<le> 2 ^ 24"
  shows "f32_of_int i = Fin (of_int i)"
proof (cases "i = 0")
  case False
  have "representable 24 (-149) (of_int i)"
    unfolding representable_def using assms by (intro exI[of _ i] exI[of _ 0]) simp
  then have "nearest 24 (-149) (of_int i) = of_int i" using False by (intro nearest_id) auto
  moreover have "\<bar>of_int i :: rat\<bar> \<le> of_int (2 ^ 24)" using assms by (metis of_int_abs of_int_le_iff)
  moreover have "(2 :: rat) powi 128 = of_int (2 ^ 128)" by simp
  ultimately show ?thesis
    using False by (simp add: f32_of_int_def f32_def fp_round_nearest)
qed (simp add: f32_of_int_def)

text \<open>Integers of at most 53 bits are exact as doubles.\<close>

lemma f64_int_exact:
  assumes "\<bar>i\<bar> \<le> 2 ^ 53"
  shows "f64 (of_int i) = Fin (of_int i)"
proof (cases "i = 0")
  case False
  have "representable 53 (-1074) (of_int i)"
    unfolding representable_def using assms by (intro exI[of _ i] exI[of _ 0]) simp
  then have "nearest 53 (-1074) (of_int i) = of_int i" using False by (intro nearest_id) auto
  moreover have "\<bar>of_int i :: rat\<bar> \<le> of_int (2 ^ 53)" using assms by (metis of_int_abs of_int_le_iff)
  moreover have "(2 :: rat) ^ 53 < 2 ^ 1024" by (rule power_strict_increasing) simp_all
  ultimately show ?thesis using False by (simp add: f64_def fp_round_nearest)
qed (simp add: f64_def fp_round_def)

lemma f64_numeral:
  "f64 0 = Fin 0" "f64 1 = Fin 1" "numeral k \<le> (2 ^ 53 :: int) \<Longrightarrow> f64 (numeral k) = Fin (numeral k)"
  using f64_int_exact[of 0] f64_int_exact[of 1] f64_int_exact[of "numeral k"] by simp_all

end
