(* ===== verification/Analytics_Json.thy ===== *)
theory Analytics_Json
  imports Json_Events Analytics_Tracker Float_Rounding
begin

text \<open>
  \<open>core/game/MatchAnalytics.cpp\<close>: the figures derived from a match's analytics, the shape of its
  scoreline, and the JSON document a saved match keeps. The document is the \<open>json\<close> value that the
  code builds and reads; its text is the library's. Reading back what was written gives the
  analytics with every time and speed rounded to a tenth, as the writer rounds them.
\<close>

section \<open>Derived figures\<close>

definition CarTelemetry_AverageSpeed :: "CarTelemetry \<Rightarrow> fp" where
  "CarTelemetry_AverageSpeed c =
     (if Fin 0 < ct_sampledSeconds c
      then fdiv32 (fmul32 (ct_distance c) kUuToKph) (ct_sampledSeconds c) else Fin 0)"

definition CarTelemetry_AverageBoost :: "CarTelemetry \<Rightarrow> fp" where
  "CarTelemetry_AverageBoost c =
     (if Fin 0 < ct_sampledSeconds c then fdiv32 (ct_boostIntegral c) (ct_sampledSeconds c) else Fin 0)"

definition CarTelemetry_BoostPerMinute :: "CarTelemetry \<Rightarrow> fp" where
  "CarTelemetry_BoostPerMinute c =
     (if Fin 0 < ct_sampledSeconds c
      then fdiv32 (fmul32 (f32_of_int (ct_boostUsed c)) (Fin 60)) (ct_sampledSeconds c) else Fin 0)"

definition CarTelemetry_Share :: "CarTelemetry \<Rightarrow> fp \<Rightarrow> fp" where
  "CarTelemetry_Share c seconds =
     (if Fin 0 < ct_sampledSeconds c then fdiv32 seconds (ct_sampledSeconds c) else Fin 0)"

definition AverageHitSpeed :: "PlayerAnalytics \<Rightarrow> fp" where
  "AverageHitSpeed p =
     (if 0 < pa_hits p then fdiv32 (pa_hitSpeedSum p) (f32_of_int (pa_hits p)) else Fin 0)"

definition StatEvent :: "PlayerAnalytics \<Rightarrow> string \<Rightarrow> int" where
  "StatEvent p eventName = (case map_of (pa_statEvents p) eventName of None \<Rightarrow> 0 | Some n \<Rightarrow> n)"

definition EndedEarly :: "MatchAnalytics \<Rightarrow> bool" where
  "EndedEarly a =
     (case ma_endClockSeconds a of
        None \<Rightarrow> False | Some s \<Rightarrow> Fin 1 \<le> s \<and> \<not> ma_endedInOvertime a)"

definition AverageBallSpeed :: "MatchAnalytics \<Rightarrow> fp" where
  "AverageBallSpeed a =
     (if Fin 0 < ma_playSeconds a then fdiv32 (ma_ballSpeedIntegral a) (ma_playSeconds a) else Fin 0)"

definition PossessionShare :: "MatchAnalytics \<Rightarrow> int \<Rightarrow> fp" where
  "PossessionShare a team =
     (if team \<noteq> 0 \<and> team \<noteq> 1 then Fin 0
      else let total = fadd32 (fst (ma_possessionSeconds a)) (snd (ma_possessionSeconds a))
           in if Fin 0 < total then fdiv32 (team_at (ma_possessionSeconds a) team) total else Fin 0)"

definition IsGoalReplayEcho :: "json \<Rightarrow> bool" where
  "IsGoalReplayEcho goalScored =
     (case Child goalScored ''Scorer'' of
        Some (JObject fs) \<Rightarrow> StringField (JObject fs) ''Name'' = []
      | _ \<Rightarrow> False)"

section \<open>Writing\<close>

text \<open>\<open>std::round\<close> of a float is a float again: large floats are integers already.\<close>

fun fround :: "fp \<Rightarrow> fp" where
  "fround (Fin q) = Fin (of_int (lround (Fin q)))"
| "fround x = x"

definition Round1 :: "fp \<Rightarrow> fp" where
  "Round1 v = fdiv32 (fround (fmul32 v (Fin 10))) (Fin 10)"

definition num1 :: "fp \<Rightarrow> json" where
  "num1 v = JFloat (Round1 v)"

definition PointJson :: "FieldPoint \<Rightarrow> json" where
  "PointJson p = JArray [num1 (fpt_x p), num1 (fpt_y p), num1 (fpt_z p)]"

definition car_json :: "CarTelemetry \<Rightarrow> json" where
  "car_json c = JObject
     [(''sampledSeconds'', num1 (ct_sampledSeconds c)),
      (''distance'', JFloat (fround (ct_distance c))),
      (''maxSpeed'', num1 (ct_maxSpeed c)),
      (''slowSeconds'', num1 (ct_slowSeconds c)),
      (''boostSpeedSeconds'', num1 (ct_boostSpeedSeconds c)),
      (''supersonicSeconds'', num1 (ct_supersonicSeconds c)),
      (''groundSeconds'', num1 (ct_groundSeconds c)),
      (''airSeconds'', num1 (ct_airSeconds c)),
      (''wallSeconds'', num1 (ct_wallSeconds c)),
      (''powerslideSeconds'', num1 (ct_powerslideSeconds c)),
      (''powerslideCount'', JInt (ct_powerslideCount c)),
      (''boostingSeconds'', num1 (ct_boostingSeconds c)),
      (''boostIntegral'', num1 (ct_boostIntegral c)),
      (''zeroBoostSeconds'', num1 (ct_zeroBoostSeconds c)),
      (''fullBoostSeconds'', num1 (ct_fullBoostSeconds c)),
      (''boostBandSeconds'', JArray (map num1 (ct_boostBandSeconds c))),
      (''boostUsed'', JInt (ct_boostUsed c)),
      (''boostCollected'', JInt (ct_boostCollected c)),
      (''bigPads'', JInt (ct_bigPads c)),
      (''smallPads'', JInt (ct_smallPads c)),
      (''stolenBigPads'', JInt (ct_stolenBigPads c)),
      (''stolenSmallPads'', JInt (ct_stolenSmallPads c)),
      (''padsFromPickupEvents'', JBool (ct_padsFromPickupEvents c)),
      (''demolishedSeconds'', num1 (ct_demolishedSeconds c))]"

definition opt_entry :: "string \<Rightarrow> 'a option \<Rightarrow> ('a \<Rightarrow> json) \<Rightarrow> (string \<times> json) list" where
  "opt_entry key x f = (case x of None \<Rightarrow> [] | Some v \<Rightarrow> [(key, f v)])"

definition player_json :: "PlayerAnalytics \<Rightarrow> json" where
  "player_json p = JObject
     ([(''id'', JString (pa_primaryId p)),
       (''name'', JString (pa_name p)),
       (''team'', JInt (pa_team p)),
       (''hits'', JInt (pa_hits p)),
       (''aerialHits'', JInt (pa_aerialHits p)),
       (''highAerialHits'', JInt (pa_highAerialHits p)),
       (''hardHits'', JInt (pa_hardHits p)),
       (''firstTouches'', JInt (pa_firstTouches p)),
       (''hitsByThird'', JArray (map JInt (pa_hitsByThird p))),
       (''hitSpeedSum'', num1 (pa_hitSpeedSum p)),
       (''maxHitSpeed'', num1 (pa_maxHitSpeed p)),
       (''demosInflicted'', JInt (pa_demosInflicted p)),
       (''demosTaken'', JInt (pa_demosTaken p)),
       (''statEvents'', JObject (map (\<lambda>(k, n). (k, JInt n)) (pa_statEvents p)))]
      @ opt_entry ''car'' (pa_car p) car_json)"

definition goal_json :: "GoalRecord \<Rightarrow> json" where
  "goal_json g = JObject
     ([(''t'', num1 (gr_playSeconds g)),
       (''ot'', JBool (gr_overtime g)),
       (''team'', JInt (gr_team g)),
       (''scorerId'', JString (gr_scorerId g)),
       (''scorerName'', JString (gr_scorerName g)),
       (''score'', JArray [JInt (fst (gr_scoreAfter g)), JInt (snd (gr_scoreAfter g))])]
      @ opt_entry ''clock'' (gr_clockSeconds g) num1
      @ (if gr_assisterId g \<noteq> [] \<or> gr_assisterName g \<noteq> []
         then [(''assisterId'', JString (gr_assisterId g)), (''assisterName'', JString (gr_assisterName g))]
         else [])
      @ opt_entry ''speed'' (gr_goalSpeed g) num1
      @ opt_entry ''touchSpeed'' (gr_lastTouchSpeed g) num1
      @ opt_entry ''loc'' (gr_location g) PointJson
      @ opt_entry ''round'' (gr_roundSeconds g) num1)"

text \<open>A hit is a row whose second number is the player's place in a table that grows with the hits.\<close>

definition index_of :: "'a \<Rightarrow> 'a list \<Rightarrow> nat" where
  "index_of x xs = length (takeWhile (\<lambda>y. y \<noteq> x) xs)"

definition hit_json :: "nat \<Rightarrow> HitRecord \<Rightarrow> json" where
  "hit_json index h = JArray
     [num1 (hr_playSeconds h), JInt (int index), JInt (hr_team h),
      JFloat (fround (fpt_x (hr_location h))), JFloat (fround (fpt_y (hr_location h))),
      JFloat (fround (fpt_z (hr_location h))), num1 (hr_speed h)]"

fun hit_rows :: "HitRecord list \<Rightarrow> string list \<Rightarrow> json list \<times> string list" where
  "hit_rows [] hitPlayers = ([], hitPlayers)"
| "hit_rows (h # hs) hitPlayers =
     (let index = index_of (hr_playerId h) hitPlayers;
          hitPlayers' = (if index = length hitPlayers then hitPlayers @ [hr_playerId h] else hitPlayers);
          (rows, final) = hit_rows hs hitPlayers'
      in (hit_json index h # rows, final))"

definition kickoff_json :: "KickoffRecord \<Rightarrow> json" where
  "kickoff_json k = JObject
     [(''t'', num1 (kr_playSeconds k)),
      (''firstTouchId'', JString (kr_firstTouchId k)),
      (''firstTouchTeam'', JInt (kr_firstTouchTeam k)),
      (''possessionTeam'', JInt (kr_possessionTeam k)),
      (''goalTeam'', JInt (kr_goalTeam k))]"

definition window_json :: "PossessionWindow \<Rightarrow> json" where
  "window_json w = JArray
     [num1 (pw_endPlaySeconds w), num1 (fst (pw_seconds w)), num1 (snd (pw_seconds w))]"

definition departure_json :: "PlayerDeparture \<Rightarrow> json" where
  "departure_json d = JObject
     ([(''id'', JString (dp_primaryId d)), (''name'', JString (dp_name d)),
       (''team'', JInt (dp_team d)), (''t'', num1 (dp_playSeconds d))]
      @ opt_entry ''clock'' (dp_clockSeconds d) num1)"

definition MatchAnalyticsToJson :: "MatchAnalytics \<Rightarrow> json" where
  "MatchAnalyticsToJson a =
     (let (rows, hitPlayers) = hit_rows (ma_hits a) []
      in JObject
        ([(''v'', JInt (ma_formatVersion a)),
          (''playSeconds'', num1 (ma_playSeconds a)),
          (''possession'', JArray [num1 (fst (ma_possessionSeconds a)), num1 (snd (ma_possessionSeconds a))]),
          (''ballSpeedIntegral'', num1 (ma_ballSpeedIntegral a)),
          (''maxBallSpeed'', num1 (ma_maxBallSpeed a)),
          (''pauses'', JInt (ma_pauses a)),
          (''pausedSeconds'', num1 (ma_pausedSeconds a))]
         @ opt_entry ''endClock'' (ma_endClockSeconds a) num1
         @ [(''endedInOvertime'', JBool (ma_endedInOvertime a)),
            (''players'', JArray (map player_json (ma_players a))),
            (''goals'', JArray (map goal_json (ma_goals a))),
            (''hits'', JArray rows),
            (''hitPlayers'', JArray (map JString hitPlayers)),
            (''kickoffs'', JArray (map kickoff_json (ma_kickoffs a))),
            (''possessionTimeline'', JArray (map window_json (ma_possessionTimeline a))),
            (''departures'', JArray (map departure_json (ma_departures a)))]))"

section \<open>Reading\<close>

text \<open>
  \<open>get<int>\<close> and \<open>get<size_t>\<close> of a number. A stored double is truncated (its cast outside the
  target type is undefined; the writer stores no double where an integer is read).
\<close>

definition trunc :: "rat \<Rightarrow> int" where
  "trunc q = (if 0 \<le> q then \<lfloor>q\<rfloor> else - \<lfloor>- q\<rfloor>)"

fun get_int :: "json \<Rightarrow> int" where
  "get_int (JInt i) = to_int32 i"
| "get_int (JFloat (Fin q)) = to_int32 (trunc q)"
| "get_int _ = 0"

fun get_size :: "json \<Rightarrow> nat" where
  "get_size (JInt i) = nat (i mod 2 ^ 64)"
| "get_size (JFloat (Fin q)) = nat (trunc q mod 2 ^ 64)"
| "get_size _ = 0"

definition read_number :: "(json \<Rightarrow> 'a) \<Rightarrow> json \<Rightarrow> string \<Rightarrow> 'a \<Rightarrow> 'a" where
  "read_number get j key out =
     (case Child j key of None \<Rightarrow> out | Some v \<Rightarrow> if is_number v then get v else out)"

definition read_bool :: "json \<Rightarrow> string \<Rightarrow> bool \<Rightarrow> bool" where
  "read_bool j key out = (case Child j key of Some (JBool b) \<Rightarrow> b | _ \<Rightarrow> out)"

definition read_string :: "json \<Rightarrow> string \<Rightarrow> string \<Rightarrow> string" where
  "read_string j key out = (case Child j key of Some (JString s) \<Rightarrow> s | _ \<Rightarrow> out)"

definition ReadOpt :: "json \<Rightarrow> string \<Rightarrow> fp option" where
  "ReadOpt j key =
     (case Child j key of None \<Rightarrow> None | Some v \<Rightarrow> if is_number v then Some (get_float v) else None)"

definition ReadArray :: "(json \<Rightarrow> 'a) \<Rightarrow> json \<Rightarrow> string \<Rightarrow> 'a list \<Rightarrow> 'a list" where
  "ReadArray get j key out =
     (case Child j key of
        Some (JArray vs) \<Rightarrow>
          if length vs = length out
          then map2 (\<lambda>v old. if is_number v then get v else old) vs out else out
      | _ \<Rightarrow> out)"

definition ReadPair :: "(json \<Rightarrow> 'a) \<Rightarrow> json \<Rightarrow> string \<Rightarrow> 'a \<times> 'a \<Rightarrow> 'a \<times> 'a" where
  "ReadPair get j key out = (let xs = ReadArray get j key [fst out, snd out] in (xs ! 0, xs ! 1))"

abbreviation "rd_float j key \<equiv> read_number get_float j key (Fin 0)"
abbreviation "rd_int j key out \<equiv> read_number get_int j key out"

fun PointFromJson :: "json option \<Rightarrow> FieldPoint option" where
  "PointFromJson (Some (JArray [x, y, z])) =
     (if is_number x \<and> is_number y \<and> is_number z
      then Some \<lparr>fpt_x = get_float x, fpt_y = get_float y, fpt_z = get_float z\<rparr> else None)"
| "PointFromJson _ = None"

definition read_car :: "json \<Rightarrow> CarTelemetry" where
  "read_car cj =
     \<lparr>ct_sampledSeconds = rd_float cj ''sampledSeconds'',
      ct_distance = rd_float cj ''distance'',
      ct_maxSpeed = rd_float cj ''maxSpeed'',
      ct_slowSeconds = rd_float cj ''slowSeconds'',
      ct_boostSpeedSeconds = rd_float cj ''boostSpeedSeconds'',
      ct_supersonicSeconds = rd_float cj ''supersonicSeconds'',
      ct_groundSeconds = rd_float cj ''groundSeconds'',
      ct_airSeconds = rd_float cj ''airSeconds'',
      ct_wallSeconds = rd_float cj ''wallSeconds'',
      ct_powerslideSeconds = rd_float cj ''powerslideSeconds'',
      ct_powerslideCount = rd_int cj ''powerslideCount'' 0,
      ct_boostingSeconds = rd_float cj ''boostingSeconds'',
      ct_boostIntegral = rd_float cj ''boostIntegral'',
      ct_zeroBoostSeconds = rd_float cj ''zeroBoostSeconds'',
      ct_fullBoostSeconds = rd_float cj ''fullBoostSeconds'',
      ct_boostBandSeconds = ReadArray get_float cj ''boostBandSeconds'' [Fin 0, Fin 0, Fin 0, Fin 0],
      ct_boostUsed = rd_int cj ''boostUsed'' 0,
      ct_boostCollected = rd_int cj ''boostCollected'' 0,
      ct_bigPads = rd_int cj ''bigPads'' 0,
      ct_smallPads = rd_int cj ''smallPads'' 0,
      ct_stolenBigPads = rd_int cj ''stolenBigPads'' 0,
      ct_stolenSmallPads = rd_int cj ''stolenSmallPads'' 0,
      ct_padsFromPickupEvents = read_bool cj ''padsFromPickupEvents'' False,
      ct_demolishedSeconds = rd_float cj ''demolishedSeconds''\<rparr>"

fun stat_entries :: "(string \<times> json) list \<Rightarrow> (string, int) umap" where
  "stat_entries [] = []"
| "stat_entries ((name, JInt n) # es) = (name, to_int32 n) # stat_entries es"
| "stat_entries ((name, _) # es) = stat_entries es"

definition read_player :: "json \<Rightarrow> PlayerAnalytics" where
  "read_player pj =
     \<lparr>pa_primaryId = read_string pj ''id'' [],
      pa_name = read_string pj ''name'' [],
      pa_team = rd_int pj ''team'' (-1),
      pa_hits = rd_int pj ''hits'' 0,
      pa_aerialHits = rd_int pj ''aerialHits'' 0,
      pa_highAerialHits = rd_int pj ''highAerialHits'' 0,
      pa_hardHits = rd_int pj ''hardHits'' 0,
      pa_firstTouches = rd_int pj ''firstTouches'' 0,
      pa_hitsByThird = ReadArray get_int pj ''hitsByThird'' [0, 0, 0],
      pa_hitSpeedSum = rd_float pj ''hitSpeedSum'',
      pa_maxHitSpeed = rd_float pj ''maxHitSpeed'',
      pa_demosInflicted = rd_int pj ''demosInflicted'' 0,
      pa_demosTaken = rd_int pj ''demosTaken'' 0,
      pa_statEvents = (case Child pj ''statEvents'' of Some (JObject es) \<Rightarrow> stat_entries es | _ \<Rightarrow> []),
      pa_car = (case Child pj ''car'' of Some (JObject cs) \<Rightarrow> Some (read_car (JObject cs)) | _ \<Rightarrow> None)\<rparr>"

definition read_goal :: "json \<Rightarrow> GoalRecord" where
  "read_goal gj =
     \<lparr>gr_playSeconds = rd_float gj ''t'',
      gr_clockSeconds = ReadOpt gj ''clock'',
      gr_overtime = read_bool gj ''ot'' False,
      gr_team = rd_int gj ''team'' (-1),
      gr_scorerId = read_string gj ''scorerId'' [],
      gr_scorerName = read_string gj ''scorerName'' [],
      gr_assisterId = read_string gj ''assisterId'' [],
      gr_assisterName = read_string gj ''assisterName'' [],
      gr_goalSpeed = ReadOpt gj ''speed'',
      gr_lastTouchSpeed = ReadOpt gj ''touchSpeed'',
      gr_location = PointFromJson (Child gj ''loc''),
      gr_roundSeconds = ReadOpt gj ''round'',
      gr_scoreAfter = ReadPair get_int gj ''score'' (0, 0)\<rparr>"

fun read_hit :: "string list \<Rightarrow> json \<Rightarrow> HitRecord option" where
  "read_hit hitPlayers (JArray [a, b, c, d, e, f, g]) =
     (if \<not> (is_number a \<and> is_number b \<and> is_number c \<and> is_number d \<and> is_number e \<and> is_number f \<and> is_number g)
      then None
      else if length hitPlayers \<le> get_size b then None
      else Some \<lparr>hr_playSeconds = get_float a, hr_playerId = hitPlayers ! get_size b, hr_team = get_int c,
                 hr_location = \<lparr>fpt_x = get_float d, fpt_y = get_float e, fpt_z = get_float f\<rparr>,
                 hr_speed = get_float g\<rparr>)"
| "read_hit hitPlayers _ = None"

definition read_kickoff :: "json \<Rightarrow> KickoffRecord" where
  "read_kickoff kj =
     \<lparr>kr_playSeconds = rd_float kj ''t'',
      kr_firstTouchId = read_string kj ''firstTouchId'' [],
      kr_firstTouchTeam = rd_int kj ''firstTouchTeam'' (-1),
      kr_possessionTeam = rd_int kj ''possessionTeam'' (-1),
      kr_goalTeam = rd_int kj ''goalTeam'' (-1)\<rparr>"

fun read_window :: "json \<Rightarrow> PossessionWindow option" where
  "read_window (JArray [a, b, c]) =
     (if is_number a \<and> is_number b \<and> is_number c
      then Some \<lparr>pw_endPlaySeconds = get_float a, pw_seconds = (get_float b, get_float c)\<rparr> else None)"
| "read_window _ = None"

definition read_departure :: "json \<Rightarrow> PlayerDeparture" where
  "read_departure dj =
     \<lparr>dp_primaryId = read_string dj ''id'' [], dp_name = read_string dj ''name'' [],
      dp_team = rd_int dj ''team'' (-1), dp_playSeconds = rd_float dj ''t'',
      dp_clockSeconds = ReadOpt dj ''clock''\<rparr>"

definition array_of :: "json \<Rightarrow> string \<Rightarrow> json list" where
  "array_of j key = (case Child j key of Some (JArray vs) \<Rightarrow> vs | _ \<Rightarrow> [])"

definition string_or_empty :: "json \<Rightarrow> string" where
  "string_or_empty v = (case v of JString s \<Rightarrow> s | _ \<Rightarrow> [])"

definition MatchAnalyticsFromJson :: "json \<Rightarrow> MatchAnalytics option" where
  "MatchAnalyticsFromJson j =
     (if \<not> is_object j then None
      else let v = rd_int j ''v'' 1
           in if v < 1 \<or> 1 < v then None
              else Some
                \<lparr>ma_formatVersion = v,
                 ma_playSeconds = rd_float j ''playSeconds'',
                 ma_possessionSeconds = ReadPair get_float j ''possession'' (Fin 0, Fin 0),
                 ma_ballSpeedIntegral = rd_float j ''ballSpeedIntegral'',
                 ma_maxBallSpeed = rd_float j ''maxBallSpeed'',
                 ma_pauses = rd_int j ''pauses'' 0,
                 ma_pausedSeconds = rd_float j ''pausedSeconds'',
                 ma_endClockSeconds = ReadOpt j ''endClock'',
                 ma_endedInOvertime = read_bool j ''endedInOvertime'' False,
                 ma_players = map read_player (filter is_object (array_of j ''players'')),
                 ma_goals = map read_goal (filter is_object (array_of j ''goals'')),
                 ma_hits = List.map_filter (read_hit (map string_or_empty (array_of j ''hitPlayers'')))
                             (array_of j ''hits''),
                 ma_kickoffs = map read_kickoff (filter is_object (array_of j ''kickoffs'')),
                 ma_possessionTimeline = List.map_filter read_window (array_of j ''possessionTimeline''),
                 ma_departures = map read_departure (filter is_object (array_of j ''departures''))\<rparr>)"

section \<open>Reading back what was written\<close>

text \<open>What the document keeps of a number: a tenth, or a whole number for distances and places of hits.\<close>

definition whole :: "fp \<Rightarrow> fp" where
  "whole v = f32_of_f64 (fround v)"

definition kept_point :: "FieldPoint \<Rightarrow> FieldPoint" where
  "kept_point p = \<lparr>fpt_x = Round1 (fpt_x p), fpt_y = Round1 (fpt_y p), fpt_z = Round1 (fpt_z p)\<rparr>"

definition kept_car :: "CarTelemetry \<Rightarrow> CarTelemetry" where
  "kept_car c = c
     \<lparr>ct_sampledSeconds := Round1 (ct_sampledSeconds c),
      ct_distance := whole (ct_distance c),
      ct_maxSpeed := Round1 (ct_maxSpeed c),
      ct_slowSeconds := Round1 (ct_slowSeconds c),
      ct_boostSpeedSeconds := Round1 (ct_boostSpeedSeconds c),
      ct_supersonicSeconds := Round1 (ct_supersonicSeconds c),
      ct_groundSeconds := Round1 (ct_groundSeconds c),
      ct_airSeconds := Round1 (ct_airSeconds c),
      ct_wallSeconds := Round1 (ct_wallSeconds c),
      ct_powerslideSeconds := Round1 (ct_powerslideSeconds c),
      ct_boostingSeconds := Round1 (ct_boostingSeconds c),
      ct_boostIntegral := Round1 (ct_boostIntegral c),
      ct_zeroBoostSeconds := Round1 (ct_zeroBoostSeconds c),
      ct_fullBoostSeconds := Round1 (ct_fullBoostSeconds c),
      ct_boostBandSeconds := map Round1 (ct_boostBandSeconds c),
      ct_demolishedSeconds := Round1 (ct_demolishedSeconds c)\<rparr>"

definition kept_player :: "PlayerAnalytics \<Rightarrow> PlayerAnalytics" where
  "kept_player p = p
     \<lparr>pa_hitSpeedSum := Round1 (pa_hitSpeedSum p),
      pa_maxHitSpeed := Round1 (pa_maxHitSpeed p),
      pa_car := map_option kept_car (pa_car p)\<rparr>"

definition kept_goal :: "GoalRecord \<Rightarrow> GoalRecord" where
  "kept_goal g = g
     \<lparr>gr_playSeconds := Round1 (gr_playSeconds g),
      gr_clockSeconds := map_option Round1 (gr_clockSeconds g),
      gr_goalSpeed := map_option Round1 (gr_goalSpeed g),
      gr_lastTouchSpeed := map_option Round1 (gr_lastTouchSpeed g),
      gr_location := map_option kept_point (gr_location g),
      gr_roundSeconds := map_option Round1 (gr_roundSeconds g)\<rparr>"

definition kept_hit :: "HitRecord \<Rightarrow> HitRecord" where
  "kept_hit h = h
     \<lparr>hr_playSeconds := Round1 (hr_playSeconds h),
      hr_location := \<lparr>fpt_x = whole (fpt_x (hr_location h)), fpt_y = whole (fpt_y (hr_location h)),
                     fpt_z = whole (fpt_z (hr_location h))\<rparr>,
      hr_speed := Round1 (hr_speed h)\<rparr>"

definition kept_kickoff :: "KickoffRecord \<Rightarrow> KickoffRecord" where
  "kept_kickoff k = k\<lparr>kr_playSeconds := Round1 (kr_playSeconds k)\<rparr>"

definition kept_window :: "PossessionWindow \<Rightarrow> PossessionWindow" where
  "kept_window w = \<lparr>pw_endPlaySeconds = Round1 (pw_endPlaySeconds w),
     pw_seconds = (Round1 (fst (pw_seconds w)), Round1 (snd (pw_seconds w)))\<rparr>"

definition kept_departure :: "PlayerDeparture \<Rightarrow> PlayerDeparture" where
  "kept_departure d = d\<lparr>dp_playSeconds := Round1 (dp_playSeconds d),
     dp_clockSeconds := map_option Round1 (dp_clockSeconds d)\<rparr>"

definition kept :: "MatchAnalytics \<Rightarrow> MatchAnalytics" where
  "kept a = a
     \<lparr>ma_playSeconds := Round1 (ma_playSeconds a),
      ma_possessionSeconds := (Round1 (fst (ma_possessionSeconds a)), Round1 (snd (ma_possessionSeconds a))),
      ma_ballSpeedIntegral := Round1 (ma_ballSpeedIntegral a),
      ma_maxBallSpeed := Round1 (ma_maxBallSpeed a),
      ma_pausedSeconds := Round1 (ma_pausedSeconds a),
      ma_endClockSeconds := map_option Round1 (ma_endClockSeconds a),
      ma_players := map kept_player (ma_players a),
      ma_goals := map kept_goal (ma_goals a),
      ma_hits := map kept_hit (ma_hits a),
      ma_kickoffs := map kept_kickoff (ma_kickoffs a),
      ma_possessionTimeline := map kept_window (ma_possessionTimeline a),
      ma_departures := map kept_departure (ma_departures a)\<rparr>"

text \<open>What the C++ types say of the analytics: integers in range, arrays of their length.\<close>

definition car_typed :: "CarTelemetry \<Rightarrow> bool" where
  "car_typed c =
     (list_all in_int32 [ct_powerslideCount c, ct_boostUsed c, ct_boostCollected c, ct_bigPads c,
        ct_smallPads c, ct_stolenBigPads c, ct_stolenSmallPads c] \<and> length (ct_boostBandSeconds c) = 4)"

definition player_typed :: "PlayerAnalytics \<Rightarrow> bool" where
  "player_typed p =
     (list_all in_int32 [pa_team p, pa_hits p, pa_aerialHits p, pa_highAerialHits p, pa_hardHits p,
        pa_firstTouches p, pa_demosInflicted p, pa_demosTaken p] \<and>
      list_all in_int32 (pa_hitsByThird p) \<and> length (pa_hitsByThird p) = 3 \<and>
      list_all (in_int32 \<circ> snd) (pa_statEvents p) \<and> pred_option car_typed (pa_car p))"

definition analytics_typed :: "MatchAnalytics \<Rightarrow> bool" where
  "analytics_typed a =
     (in_int32 (ma_pauses a) \<and> list_all player_typed (ma_players a) \<and>
      list_all (\<lambda>g. in_int32 (gr_team g) \<and> in_int32 (fst (gr_scoreAfter g)) \<and>
                    in_int32 (snd (gr_scoreAfter g))) (ma_goals a) \<and>
      list_all (\<lambda>h. in_int32 (hr_team h)) (ma_hits a) \<and>
      list_all (\<lambda>k. in_int32 (kr_firstTouchTeam k) \<and> in_int32 (kr_possessionTeam k) \<and>
                    in_int32 (kr_goalTeam k)) (ma_kickoffs a) \<and>
      list_all (\<lambda>d. in_int32 (dp_team d)) (ma_departures a))"

named_theorems entries \<open>looking up an entry of a written object\<close>

fun first_some :: "'a option \<Rightarrow> 'a option \<Rightarrow> 'a option" where
  "first_some None y = y"
| "first_some (Some v) y = Some v"

lemma first_some_None [simp]: "first_some x None = x"
  by (cases x) simp_all

lemma map_add_entry [entries]: "(m ++ m') k = first_some (m' k) (m k)"
  by (cases "m' k") (simp_all add: map_add_def)

lemma map_of_opt_entry [entries]:
  "map_of (opt_entry key x f) k = (if k = key then map_option f x else None)"
  by (simp add: opt_entry_def split: option.split)

lemma f32_of_f64_div [simp]: "f32_of_f64 (fdiv32 x y) = fdiv32 x y"
proof (cases "fdiv32 x y")
  case (Fin q)
  then have "f32 q = Fin q"
    by (cases x; cases y) (auto simp: f32_idem split: if_splits)
  with Fin show ?thesis by simp
qed simp_all

lemma stored_numbers [simp]: "f32_of_f64 (Round1 v) = Round1 v" "f32_of_f64 (fround v) = whole v"
  by (simp_all add: Round1_def whole_def)

lemma get_num1 [entries]: "get_float (num1 v) = Round1 v" "is_number (num1 v)"
  by (simp_all add: num1_def)

lemma map2_read_floats: "map2 (\<lambda>v old. if is_number v then get_float v else old) (map num1 xs) ys =
    map Round1 (take (length ys) xs)"
  by (induction xs arbitrary: ys) (auto simp: entries take_Cons' neq_Nil_conv split: list.split)

text \<open>Lookup in the written objects, reduced to lookup in their lists of entries.\<close>

lemma read_written [entries]:
  "map_of es k = Some (num1 v) \<Longrightarrow> read_number get_float (JObject es) k out = Round1 v"
  "map_of es k = Some (JFloat (fround v)) \<Longrightarrow> read_number get_float (JObject es) k out = whole v"
  "map_of es k = Some (JInt i) \<Longrightarrow> in_int32 i \<Longrightarrow> read_number get_int (JObject es) k old = i"
  "map_of es k = Some (JBool b) \<Longrightarrow> read_bool (JObject es) k d = b"
  "map_of es k = Some (JString s) \<Longrightarrow> read_string (JObject es) k s' = s"
  "map_of es k = Some (JArray vs) \<Longrightarrow> array_of (JObject es) k = vs"
  by (simp_all add: read_number_def read_bool_def read_string_def array_of_def num1_def to_int32_id)

lemma read_missing [entries]:
  "map_of es k = None \<Longrightarrow> read_string (JObject es) k s' = s'"
  "map_of es k = None \<Longrightarrow> ReadOpt (JObject es) k = None"
  by (simp_all add: read_string_def ReadOpt_def)

lemma ReadOpt_written [entries]:
  "map_of es k = map_option num1 x \<Longrightarrow> ReadOpt (JObject es) k = map_option Round1 x"
  by (cases x) (simp_all add: ReadOpt_def entries)

lemma ReadArray_floats [entries]:
  "map_of es k = Some (JArray (map num1 xs)) \<Longrightarrow> length xs = length out \<Longrightarrow>
   ReadArray get_float (JObject es) k out = map Round1 xs"
  by (simp add: ReadArray_def map2_read_floats)

lemma map2_read_ints:
  "list_all in_int32 xs \<Longrightarrow> length xs = length ys \<Longrightarrow>
   map2 (\<lambda>v old. if is_number v then get_int v else old) (map JInt xs) ys = xs"
proof (induction xs arbitrary: ys)
  case (Cons x xs)
  then show ?case by (cases ys) (simp_all add: to_int32_id)
qed simp

lemma ReadArray_ints [entries]:
  "map_of es k = Some (JArray (map JInt xs)) \<Longrightarrow> list_all in_int32 xs \<Longrightarrow> length xs = length out \<Longrightarrow>
   ReadArray get_int (JObject es) k out = xs"
  by (simp add: ReadArray_def map2_read_ints)

lemma ReadPair_written [entries]:
  "map_of es k = Some (JArray [num1 a, num1 b]) \<Longrightarrow> ReadPair get_float (JObject es) k out = (Round1 a, Round1 b)"
  "map_of es k = Some (JArray [JInt i, JInt j]) \<Longrightarrow> in_int32 i \<Longrightarrow> in_int32 j \<Longrightarrow>
   ReadPair get_int (JObject es) k out' = (i, j)"
  by (simp_all add: ReadPair_def ReadArray_def entries to_int32_id)

lemma read_car_json:
  assumes "car_typed c"
  shows "read_car (car_json c) = kept_car c"
proof -
  have ints: "list_all in_int32 [ct_powerslideCount c, ct_boostUsed c, ct_boostCollected c, ct_bigPads c,
        ct_smallPads c, ct_stolenBigPads c, ct_stolenSmallPads c]" and l: "length (ct_boostBandSeconds c) = 4"
    using assms by (simp_all add: car_typed_def)
  show ?thesis
    using ints l by (cases c) (simp add: read_car_def car_json_def kept_car_def entries)
qed

lemma stat_entries_written:
  "list_all (in_int32 \<circ> snd) es \<Longrightarrow> stat_entries (map (\<lambda>(k, n). (k, JInt n)) es) = es"
  by (induction es) (auto simp: to_int32_id)

lemma car_json_object: "\<exists>es. car_json c = JObject es"
  by (simp add: car_json_def)

lemma read_player_json:
  assumes "player_typed p"
  shows "read_player (player_json p) = kept_player p"
proof -
  have ints: "list_all in_int32 [pa_team p, pa_hits p, pa_aerialHits p, pa_highAerialHits p, pa_hardHits p,
        pa_firstTouches p, pa_demosInflicted p, pa_demosTaken p]"
    and thirds: "list_all in_int32 (pa_hitsByThird p)" "length (pa_hitsByThird p) = 3"
    and stats: "list_all (in_int32 \<circ> snd) (pa_statEvents p)" and car: "pred_option car_typed (pa_car p)"
    using assms by (simp_all add: player_typed_def)
  have car_read: "(case map_option car_json (pa_car p) of
        Some (JObject cs) \<Rightarrow> Some (read_car (JObject cs)) | _ \<Rightarrow> None) = map_option kept_car (pa_car p)"
    using car by (cases "pa_car p") (simp_all add: car_json_def flip: read_car_json)
  show ?thesis
    using ints thirds car_read stats
    by (cases p) (simp add: read_player_def player_json_def kept_player_def entries stat_entries_written)
qed

lemma PointFromJson_written [simp]: "PointFromJson (map_option PointJson x) = map_option kept_point x"
  by (cases x) (simp_all add: PointJson_def kept_point_def entries)

lemma read_goal_json:
  assumes "in_int32 (gr_team g)" "in_int32 (fst (gr_scoreAfter g))" "in_int32 (snd (gr_scoreAfter g))"
  shows "read_goal (goal_json g) = kept_goal g"
  using assms by (cases g) (simp add: read_goal_def goal_json_def kept_goal_def entries)

lemma read_kickoff_json:
  assumes "in_int32 (kr_firstTouchTeam k)" "in_int32 (kr_possessionTeam k)" "in_int32 (kr_goalTeam k)"
  shows "read_kickoff (kickoff_json k) = kept_kickoff k"
  using assms by (cases k) (simp add: read_kickoff_def kickoff_json_def kept_kickoff_def entries)

lemma read_window_json: "read_window (window_json w) = Some (kept_window w)"
  by (simp add: window_json_def kept_window_def entries)

lemma read_departure_json:
  assumes "in_int32 (dp_team d)"
  shows "read_departure (departure_json d) = kept_departure d"
  using assms by (cases d) (simp add: read_departure_def departure_json_def kept_departure_def entries)

section \<open>The table of the hits\<close>

lemma index_of_le: "index_of x xs \<le> length xs"
  by (simp add: index_of_def length_takeWhile_le)

lemma index_of_nth: "index_of x xs < length xs \<Longrightarrow> xs ! index_of x xs = x"
  using nth_length_takeWhile[of "\<lambda>y. y \<noteq> x" xs] by (simp add: index_of_def)

lemma hit_rows_table:
  "\<exists>ext. snd (hit_rows hs table) = table @ ext \<and> length ext \<le> length hs"
proof (induction hs arbitrary: table)
  case (Cons h hs)
  let ?t = "if index_of (hr_playerId h) table = length table then table @ [hr_playerId h] else table"
  obtain ext where "snd (hit_rows hs ?t) = ?t @ ext" "length ext \<le> length hs" using Cons by blast
  then show ?case by (auto simp: Let_def case_prod_unfold split: if_splits)
qed simp

lemma read_hit_json:
  assumes "index < length table" "length table < 2 ^ 64" "in_int32 (hr_team h)" "table ! index = hr_playerId h"
  shows "read_hit table (hit_json index h) = Some (kept_hit h)"
proof -
  have "index < 2 ^ 64" using assms(1,2) by (rule less_trans)
  then have "int index < 2 ^ 64" by (metis of_nat_less_iff of_nat_numeral of_nat_power)
  then have "get_size (JInt (int index)) = index" by simp
  then show ?thesis using assms
    by (cases h) (simp add: hit_json_def kept_hit_def entries to_int32_id del: get_size.simps)
qed

lemma read_hit_rows:
  assumes "list_all (\<lambda>h. in_int32 (hr_team h)) hs" "length table + length hs < 2 ^ 64"
    and "final = snd (hit_rows hs table)"
  shows "List.map_filter (read_hit final) (fst (hit_rows hs table)) = map kept_hit hs"
  using assms
proof (induction hs arbitrary: table)
  case Nil
  then show ?case by (simp add: List.map_filter_simps)
next
  case (Cons h hs)
  let ?i = "index_of (hr_playerId h) table"
  let ?t = "if ?i = length table then table @ [hr_playerId h] else table"
  have fin: "final = snd (hit_rows hs ?t)" using Cons.prems by (simp add: Let_def case_prod_unfold)
  obtain ext where ext: "final = ?t @ ext" "length ext \<le> length hs" using hit_rows_table[of hs ?t] fin by auto
  have i: "?i < length ?t" "?t ! ?i = hr_playerId h"
    using index_of_le[of "hr_playerId h" table] index_of_nth[of "hr_playerId h" table] by (auto simp: nth_append)
  then have "?i < length final" "final ! ?i = hr_playerId h" using ext by (auto simp: nth_append)
  moreover have "length final < 2 ^ 64"
    using ext Cons.prems(2) by (simp split: if_splits)
  ultimately have "read_hit final (hit_json ?i h) = Some (kept_hit h)"
    using Cons.prems(1) by (intro read_hit_json) simp_all
  moreover have "List.map_filter (read_hit final) (fst (hit_rows hs ?t)) = map kept_hit hs"
    using Cons.prems fin by (intro Cons.IH) auto
  ultimately show ?case by (simp add: Let_def case_prod_unfold List.map_filter_simps)
qed

section \<open>The document\<close>

lemma map_filter_written:
  "(\<And>x. x \<in> set xs \<Longrightarrow> f (g x) = Some (h x)) \<Longrightarrow> List.map_filter f (map g xs) = map h xs"
  by (induction xs) (simp_all add: List.map_filter_simps)

lemma map_read_written:
  "(\<And>x. x \<in> set xs \<Longrightarrow> is_object (g x)) \<Longrightarrow> (\<And>x. x \<in> set xs \<Longrightarrow> f (g x) = h x) \<Longrightarrow>
   map f (filter is_object (map g xs)) = map h xs"
  by (induction xs) simp_all

lemma written_objects [simp]:
  "is_object (player_json p)" "is_object (goal_json g)" "is_object (kickoff_json k)" "is_object (departure_json d)"
  by (simp_all add: player_json_def goal_json_def kickoff_json_def departure_json_def)

lemma strings_written [simp]: "map (string_or_empty \<circ> JString) xs = xs"
  by (induction xs) (simp_all add: string_or_empty_def)

lemma FromJson_ToJson:
  assumes "analytics_typed a" "ma_formatVersion a = 1" "length (ma_hits a) \<le> kMaxHits"
  shows "MatchAnalyticsFromJson (MatchAnalyticsToJson a) = Some (kept a)"
proof -
  obtain rows table where rt: "hit_rows (ma_hits a) [] = (rows, table)" by fastforce
  define es where "es = (case MatchAnalyticsToJson a of JObject es \<Rightarrow> es | _ \<Rightarrow> [])"
  have obj: "MatchAnalyticsToJson a = JObject es"
    by (simp add: es_def MatchAnalyticsToJson_def rt)
  note look = es_def MatchAnalyticsToJson_def rt entries
  have t: "in_int32 (ma_pauses a)" "list_all player_typed (ma_players a)"
    "list_all (\<lambda>h. in_int32 (hr_team h)) (ma_hits a)"
    using assms(1) by (simp_all add: analytics_typed_def)
  have arr: "array_of (JObject es) ''hits'' = rows"
    "array_of (JObject es) ''hitPlayers'' = map JString table"
    "array_of (JObject es) ''players'' = map player_json (ma_players a)"
    "array_of (JObject es) ''goals'' = map goal_json (ma_goals a)"
    "array_of (JObject es) ''kickoffs'' = map kickoff_json (ma_kickoffs a)"
    "array_of (JObject es) ''possessionTimeline'' = map window_json (ma_possessionTimeline a)"
    "array_of (JObject es) ''departures'' = map departure_json (ma_departures a)"
    by (simp_all add: array_of_def look)
  have hits: "List.map_filter (read_hit (map string_or_empty (array_of (JObject es) ''hitPlayers'')))
      (array_of (JObject es) ''hits'') = map kept_hit (ma_hits a)"
    using read_hit_rows[OF t(3), of "[]" table] assms(3) rt by (simp add: arr kMaxHits_def)
  have players: "map read_player (filter is_object (array_of (JObject es) ''players'')) = map kept_player (ma_players a)"
    using t(2) by (simp add: arr map_read_written read_player_json list_all_iff)
  have goals: "map read_goal (filter is_object (array_of (JObject es) ''goals'')) = map kept_goal (ma_goals a)"
    using assms(1) by (simp add: arr map_read_written read_goal_json list_all_iff analytics_typed_def)
  have kicks: "map read_kickoff (filter is_object (array_of (JObject es) ''kickoffs'')) = map kept_kickoff (ma_kickoffs a)"
    using assms(1) by (simp add: arr map_read_written read_kickoff_json list_all_iff analytics_typed_def)
  have windows: "List.map_filter read_window (array_of (JObject es) ''possessionTimeline'') =
      map kept_window (ma_possessionTimeline a)"
    by (simp add: arr map_filter_written read_window_json)
  have departures: "map read_departure (filter is_object (array_of (JObject es) ''departures'')) =
      map kept_departure (ma_departures a)"
    using assms(1) by (simp add: arr map_read_written read_departure_json list_all_iff analytics_typed_def)
  have v: "read_number get_int (JObject es) ''v'' 1 = 1"
    using assms(2) by (simp add: look in_int32_def)
  have "MatchAnalyticsFromJson (JObject es) = Some (kept a)"
    unfolding MatchAnalyticsFromJson_def v Let_def hits players goals kicks windows departures
    using t(1) assms(2) by (simp add: kept_def look)
  then show ?thesis by (simp add: obj)
qed

section \<open>Properties\<close>

text \<open>
  C6: reading back the document of a match gives its analytics again: every player, goal, hit,
  kickoff, possession window and departure in its place, all texts, counters and flags unchanged,
  every optional value present exactly where it was, each hit with its player found through the
  table of identifiers, and every time and speed rounded to a tenth (distances and places of hits
  to whole units).
\<close>

theorem analytics_document_roundtrip:
  assumes "analytics_typed a" "ma_formatVersion a = 1" "length (ma_hits a) \<le> kMaxHits"
  shows "MatchAnalyticsFromJson (MatchAnalyticsToJson a) = Some (kept a)"
  using assms by (rule FromJson_ToJson)

definition sample_analytics :: MatchAnalytics where
  "sample_analytics = MatchAnalytics0
     \<lparr>ma_players := [PlayerAnalytics0\<lparr>pa_primaryId := ''a'', pa_statEvents := [(''Save'', 2)],
                                     pa_car := Some CarTelemetry0\<rparr>],
      ma_hits := [\<lparr>hr_playSeconds = Fin 2, hr_playerId = ''a'', hr_team = 0,
                   hr_location = \<lparr>fpt_x = Fin 1, fpt_y = Fin 2, fpt_z = Fin 3\<rparr>, hr_speed = Fin 50\<rparr>]\<rparr>"

theorem analytics_document_roundtrip_witness:
  "MatchAnalyticsFromJson (MatchAnalyticsToJson sample_analytics) = Some (kept sample_analytics)"
  by (rule analytics_document_roundtrip)
    (simp_all add: sample_analytics_def MatchAnalytics0_def PlayerAnalytics0_def CarTelemetry0_def
      analytics_typed_def player_typed_def car_typed_def in_int32_def kMaxHits_def)

end
