(* ===== verification/Scoreline.thy ===== *)
theory Scoreline
  imports Analytics_Tracker
begin

text \<open>
  \<open>AnalyzeScoreline\<close> of \<open>core/game/MatchAnalytics.cpp\<close>: the shape of a match as one team saw it,
  from its goals in their order. Its leads are the extreme goal differences of the course of the
  match, and the two teams see mirror images.
\<close>

record ScorelineSummary =
  sl_maxLead :: int
  sl_maxDeficit :: int
  sl_comeback :: bool
  sl_blownLead :: bool
  sl_overtime :: bool
  sl_lateWinner :: bool
  sl_goalsAfterKickoffFor :: int
  sl_goalsAfterKickoffAgainst :: int
  sl_lastMinuteGoalsFor :: int
  sl_lastMinuteGoalsAgainst :: int

definition ScorelineSummary0 :: ScorelineSummary where
  "ScorelineSummary0 =
     \<lparr>sl_maxLead = 0, sl_maxDeficit = 0, sl_comeback = False, sl_blownLead = False,
      sl_overtime = False, sl_lateWinner = False, sl_goalsAfterKickoffFor = 0,
      sl_goalsAfterKickoffAgainst = 0, sl_lastMinuteGoalsFor = 0, sl_lastMinuteGoalsAgainst = 0\<rparr>"

text \<open>The locals of the loop over the goals.\<close>

record ScoreWalk =
  sw_score :: "int \<times> int"
  sw_decisive :: "GoalRecord option"
  sw_summary :: ScorelineSummary

definition ScoreWalk0 :: ScoreWalk where
  "ScoreWalk0 = \<lparr>sw_score = (0, 0), sw_decisive = None, sw_summary = ScorelineSummary0\<rparr>"

definition late_goal :: "fp \<Rightarrow> GoalRecord \<Rightarrow> bool" where
  "late_goal limit g =
     (\<not> gr_overtime g \<and> (case gr_clockSeconds g of None \<Rightarrow> False | Some s \<Rightarrow> s \<le> limit))"

definition walk_goal :: "int \<Rightarrow> int \<Rightarrow> GoalRecord \<Rightarrow> ScoreWalk \<Rightarrow> ScoreWalk" where
  "walk_goal myTeam winner g w =
     (if gr_team g \<noteq> 0 \<and> gr_team g \<noteq> 1 then w
      else
        let before = team_at (sw_score w) winner - team_at (sw_score w) (1 - winner);
            score = team_set (gr_team g) (team_at (sw_score w) (gr_team g) + 1) (sw_score w);
            diff = team_at score myTeam - team_at score (1 - myTeam);
            s = sw_summary w
        in \<lparr>sw_score = score,
            sw_decisive = (if gr_team g = winner \<and> before = 0 then Some g else sw_decisive w),
            sw_summary = s
              \<lparr>sl_maxLead := max (sl_maxLead s) diff,
               sl_maxDeficit := max (sl_maxDeficit s) (- diff),
               sl_overtime := (sl_overtime s \<or> gr_overtime g),
               sl_lastMinuteGoalsFor := sl_lastMinuteGoalsFor s +
                 (if late_goal (Fin 60) g \<and> gr_team g = myTeam then 1 else 0),
               sl_lastMinuteGoalsAgainst := sl_lastMinuteGoalsAgainst s +
                 (if late_goal (Fin 60) g \<and> gr_team g \<noteq> myTeam then 1 else 0)\<rparr>\<rparr>)"

definition walk_kickoff :: "int \<Rightarrow> KickoffRecord \<Rightarrow> ScorelineSummary \<Rightarrow> ScorelineSummary" where
  "walk_kickoff myTeam k s =
     s\<lparr>sl_goalsAfterKickoffFor := sl_goalsAfterKickoffFor s + (if kr_goalTeam k = myTeam then 1 else 0),
       sl_goalsAfterKickoffAgainst := sl_goalsAfterKickoffAgainst s + (if kr_goalTeam k = 1 - myTeam then 1 else 0)\<rparr>"

definition AnalyzeScoreline :: "MatchAnalytics \<Rightarrow> int \<Rightarrow> bool \<Rightarrow> ScorelineSummary" where
  "AnalyzeScoreline a myTeam won =
     (if myTeam \<noteq> 0 \<and> myTeam \<noteq> 1 then ScorelineSummary0
      else
        let winner = (if won then myTeam else 1 - myTeam);
            w = fold (walk_goal myTeam winner) (ma_goals a) ScoreWalk0;
            s = sw_summary w
        in fold (walk_kickoff myTeam) (ma_kickoffs a)
             (s\<lparr>sl_overtime := (sl_overtime s \<or> ma_endedInOvertime a),
                sl_comeback := (won \<and> 0 < sl_maxDeficit s),
                sl_blownLead := (\<not> won \<and> 0 < sl_maxLead s),
                sl_lateWinner := (case sw_decisive w of None \<Rightarrow> False | Some g \<Rightarrow> late_goal (Fin 30) g)\<rparr>))"

section \<open>The course of the score\<close>

definition goals_of :: "int \<Rightarrow> GoalRecord list \<Rightarrow> int" where
  "goals_of t gs = int (length (filter (\<lambda>g. gr_team g = t) gs))"

definition goal_difference :: "int \<Rightarrow> GoalRecord list \<Rightarrow> int" where
  "goal_difference t gs = goals_of t gs - goals_of (1 - t) gs"

lemma goals_of_Nil [simp]: "goals_of t [] = 0"
  by (simp add: goals_of_def)

lemma goals_of_snoc [simp]: "goals_of t (gs @ [g]) = goals_of t gs + (if gr_team g = t then 1 else 0)"
  by (simp add: goals_of_def)

lemma goal_difference_snoc:
  "is_team t \<Longrightarrow> goal_difference t (gs @ [g]) = goal_difference t gs +
     (if gr_team g = t then 1 else if gr_team g = 1 - t then -1 else 0)"
  by (auto simp: goal_difference_def is_team_def)

lemma walk_score: "is_team t \<Longrightarrow> team_at (sw_score (fold (walk_goal m w) gs ScoreWalk0)) t = goals_of t gs"
proof (induction gs rule: rev_induct)
  case (snoc g gs)
  then show ?case
    by (auto simp: walk_goal_def Let_def team_at_def team_set_def is_team_def)
qed (auto simp: ScoreWalk0_def team_at_def)

text \<open>The differences that the match went through, the start included.\<close>

definition course :: "int \<Rightarrow> GoalRecord list \<Rightarrow> int set" where
  "course t gs = (\<lambda>n. goal_difference t (take n gs)) ` {0..length gs}"

lemma course_Nil [simp]: "course t [] = {0}"
  by (simp add: course_def goal_difference_def)

lemma course_snoc: "course t (gs @ [g]) = insert (goal_difference t (gs @ [g])) (course t gs)"
proof -
  have "{0..length (gs @ [g])} = insert (length (gs @ [g])) {0..length gs}" by auto
  then have "course t (gs @ [g]) = insert (goal_difference t (gs @ [g]))
      ((\<lambda>n. goal_difference t (take n (gs @ [g]))) ` {0..length gs})"
    by (simp add: course_def)
  also have "(\<lambda>n. goal_difference t (take n (gs @ [g]))) ` {0..length gs} = course t gs"
    unfolding course_def by (intro image_cong) auto
  finally show ?thesis .
qed

lemma course_finite [simp]: "finite (course t gs)" "course t gs \<noteq> {}" "0 \<in> course t gs"
  by (auto simp: course_def goal_difference_def image_iff intro!: bexI[of _ 0])

lemma walk_goal_leads:
  assumes "is_team (gr_team g)"
  shows "sl_maxLead (sw_summary (walk_goal t win g w)) = max (sl_maxLead (sw_summary w))
      (team_at (sw_score (walk_goal t win g w)) t - team_at (sw_score (walk_goal t win g w)) (1 - t))"
    and "sl_maxDeficit (sw_summary (walk_goal t win g w)) = max (sl_maxDeficit (sw_summary w))
      (- (team_at (sw_score (walk_goal t win g w)) t - team_at (sw_score (walk_goal t win g w)) (1 - t)))"
  using assms by (auto simp: walk_goal_def Let_def is_team_def)

lemma walk_leads:
  assumes "is_team t"
  shows "sl_maxLead (sw_summary (fold (walk_goal t w) gs ScoreWalk0)) = Max (course t gs) \<and>
         sl_maxDeficit (sw_summary (fold (walk_goal t w) gs ScoreWalk0)) = - Min (course t gs)"
proof (induction gs rule: rev_induct)
  case Nil
  then show ?case by (simp add: ScoreWalk0_def ScorelineSummary0_def)
next
  case (snoc g gs)
  let ?w = "fold (walk_goal t w) gs ScoreWalk0" and ?d = "goal_difference t (gs @ [g])"
  have t': "is_team (1 - t)" using assms by (auto simp: is_team_def)
  have step: "fold (walk_goal t w) (gs @ [g]) ScoreWalk0 = walk_goal t w g ?w" by simp
  show ?case
  proof (cases "is_team (gr_team g)")
    case False
    then have "?d = goal_difference t gs"
      using assms by (auto simp: goal_difference_snoc is_team_def)
    moreover have "goal_difference t gs \<in> course t gs"
      by (auto simp: course_def image_iff intro!: bexI[of _ "length gs"])
    ultimately have "course t (gs @ [g]) = course t gs" by (simp add: course_snoc insert_absorb)
    moreover have "walk_goal t w g ?w = ?w" using False by (simp add: walk_goal_def is_team_def)
    ultimately show ?thesis using snoc unfolding step by simp
  next
    case True
    have "team_at (sw_score (walk_goal t w g ?w)) t - team_at (sw_score (walk_goal t w g ?w)) (1 - t) = ?d"
      using walk_score[OF assms, of t w "gs @ [g]"] walk_score[OF t', of t w "gs @ [g]"]
      by (simp add: goal_difference_def del: goals_of_snoc)
    then have "sl_maxLead (sw_summary (walk_goal t w g ?w)) = max (Max (course t gs)) ?d"
      "sl_maxDeficit (sw_summary (walk_goal t w g ?w)) = max (- Min (course t gs)) (- ?d)"
      using walk_goal_leads[OF True, of t w ?w] snoc by simp_all
    then show ?thesis
      unfolding step course_snoc by (simp add: Max_insert Min_insert minus_min_eq_max max.commute del: minus_Min_eq_Max)
  qed
qed

lemma kickoff_leads [simp]:
  "sl_maxLead (fold (walk_kickoff t) ks s) = sl_maxLead s"
  "sl_maxDeficit (fold (walk_kickoff t) ks s) = sl_maxDeficit s"
  "sl_comeback (fold (walk_kickoff t) ks s) = sl_comeback s"
  "sl_blownLead (fold (walk_kickoff t) ks s) = sl_blownLead s"
  "sl_lateWinner (fold (walk_kickoff t) ks s) = sl_lateWinner s"
  "sl_overtime (fold (walk_kickoff t) ks s) = sl_overtime s"
  by (induction ks arbitrary: s) (simp_all add: walk_kickoff_def)

lemma AnalyzeScoreline_leads:
  assumes "is_team t"
  shows "sl_maxLead (AnalyzeScoreline a t won) = Max (course t (ma_goals a))"
    and "sl_maxDeficit (AnalyzeScoreline a t won) = - Min (course t (ma_goals a))"
    and "sl_comeback (AnalyzeScoreline a t won) = (won \<and> Min (course t (ma_goals a)) < 0)"
    and "sl_blownLead (AnalyzeScoreline a t won) = (\<not> won \<and> 0 < Max (course t (ma_goals a)))"
  using assms walk_leads[OF assms]
  by (auto simp: AnalyzeScoreline_def Let_def is_team_def simp del: minus_Min_eq_Max)

section \<open>The other team's view\<close>

definition mirrored :: "ScorelineSummary \<Rightarrow> ScorelineSummary" where
  "mirrored s =
     \<lparr>sl_maxLead = sl_maxDeficit s, sl_maxDeficit = sl_maxLead s,
      sl_comeback = sl_blownLead s, sl_blownLead = sl_comeback s,
      sl_overtime = sl_overtime s, sl_lateWinner = sl_lateWinner s,
      sl_goalsAfterKickoffFor = sl_goalsAfterKickoffAgainst s,
      sl_goalsAfterKickoffAgainst = sl_goalsAfterKickoffFor s,
      sl_lastMinuteGoalsFor = sl_lastMinuteGoalsAgainst s,
      sl_lastMinuteGoalsAgainst = sl_lastMinuteGoalsFor s\<rparr>"

definition mirrored_walk :: "ScoreWalk \<Rightarrow> ScoreWalk" where
  "mirrored_walk w = w\<lparr>sw_summary := mirrored (sw_summary w)\<rparr>"

lemma walk_goal_mirrored:
  "is_team t \<Longrightarrow> walk_goal (1 - t) win g (mirrored_walk w) = mirrored_walk (walk_goal t win g w)"
  by (cases w) (auto simp: walk_goal_def mirrored_walk_def mirrored_def Let_def is_team_def)

lemma walk_goals_mirrored:
  "is_team t \<Longrightarrow> fold (walk_goal (1 - t) win) gs (mirrored_walk w) = mirrored_walk (fold (walk_goal t win) gs w)"
  by (induction gs arbitrary: w) (simp_all add: walk_goal_mirrored)

lemma walk_kickoffs_mirrored:
  "is_team t \<Longrightarrow> fold (walk_kickoff (1 - t)) ks (mirrored s) = mirrored (fold (walk_kickoff t) ks s)"
proof (induction ks arbitrary: s)
  case (Cons k ks)
  have "walk_kickoff (1 - t) k (mirrored s) = mirrored (walk_kickoff t k s)"
    using Cons.prems by (auto simp: walk_kickoff_def mirrored_def is_team_def)
  then show ?case using Cons by simp
qed simp

lemma AnalyzeScoreline_mirrored:
  assumes "is_team t"
  shows "AnalyzeScoreline a (1 - t) (\<not> won) = mirrored (AnalyzeScoreline a t won)"
proof -
  define win where "win = (if won then t else 1 - t)"
  define w where "w = fold (walk_goal t win) (ma_goals a) ScoreWalk0"
  define s where "s = (sw_summary w)
      \<lparr>sl_overtime := (sl_overtime (sw_summary w) \<or> ma_endedInOvertime a),
       sl_comeback := (won \<and> 0 < sl_maxDeficit (sw_summary w)),
       sl_blownLead := (\<not> won \<and> 0 < sl_maxLead (sw_summary w)),
       sl_lateWinner := (case sw_decisive w of None \<Rightarrow> False | Some g \<Rightarrow> late_goal (Fin 30) g)\<rparr>"
  have t: "t = 0 \<or> t = 1" using assms by (simp add: is_team_def)
  have w': "fold (walk_goal (1 - t) win) (ma_goals a) ScoreWalk0 = mirrored_walk w"
    using walk_goals_mirrored[OF assms, of win "ma_goals a" ScoreWalk0]
    by (simp add: w_def mirrored_walk_def mirrored_def ScoreWalk0_def ScorelineSummary0_def)
  have win': "(if \<not> won then 1 - t else 1 - (1 - t)) = win" by (simp add: win_def)
  have me: "AnalyzeScoreline a t won = fold (walk_kickoff t) (ma_kickoffs a) s"
    using t by (auto simp: AnalyzeScoreline_def Let_def s_def w_def win_def)
  have "AnalyzeScoreline a (1 - t) (\<not> won) = fold (walk_kickoff (1 - t)) (ma_kickoffs a) (mirrored s)"
    using t unfolding AnalyzeScoreline_def Let_def win' w'
    by (auto simp: s_def mirrored_walk_def mirrored_def)
  then show ?thesis using walk_kickoffs_mirrored[OF assms] me by simp
qed

section \<open>Properties\<close>

text \<open>
  The largest lead and deficit of a team are the extreme goal differences that the match went
  through, from the start to the last goal; a comeback is a win after some deficit, a blown lead a
  loss after some lead.
\<close>

theorem scoreline_leads_are_extremes:
  assumes "is_team t"
  shows "sl_maxLead (AnalyzeScoreline a t won) = Max (course t (ma_goals a)) \<and>
         sl_maxDeficit (AnalyzeScoreline a t won) = - Min (course t (ma_goals a)) \<and>
         sl_comeback (AnalyzeScoreline a t won) = (won \<and> Min (course t (ma_goals a)) < 0) \<and>
         sl_blownLead (AnalyzeScoreline a t won) = (\<not> won \<and> 0 < Max (course t (ma_goals a)))"
  by (intro conjI AnalyzeScoreline_leads[OF assms])

theorem scoreline_leads_are_extremes_witness:
  "sl_maxLead (AnalyzeScoreline MatchAnalytics0 0 True) = 0 \<and>
   \<not> sl_comeback (AnalyzeScoreline MatchAnalytics0 0 True)"
  using scoreline_leads_are_extremes[of 0 MatchAnalytics0 True] by (simp add: is_team_def MatchAnalytics0_def)

text \<open>
  The two teams see mirror images of one match: one team's lead is the other's deficit, its
  comeback the other's blown lead, its late goals and kickoff goals the other's conceded ones;
  overtime and a late winner are the same for both.
\<close>

theorem scoreline_mirrors_opponent:
  assumes "is_team t"
  shows "AnalyzeScoreline a (1 - t) (\<not> won) = mirrored (AnalyzeScoreline a t won)"
  using assms by (rule AnalyzeScoreline_mirrored)

theorem scoreline_mirrors_opponent_witness:
  "AnalyzeScoreline MatchAnalytics0 1 False = mirrored (AnalyzeScoreline MatchAnalytics0 0 True)"
  using scoreline_mirrors_opponent[of 0 MatchAnalytics0 True] by (simp add: is_team_def)

end
