(* ===== verification/Civil_Time.thy ===== *)
theory Civil_Time
  imports Prelude "HOL-Library.Signed_Division"
begin

text \<open>
  The dates and timestamps of \<open>network/api/RemoteConfig.cpp\<close>: calendar arithmetic and the reader of
  RFC 3339 timestamps, with a reference calendar that counts the days from the 1st of January 1970
  one by one.
\<close>

section \<open>Digits\<close>

definition ParseFixedDigits :: "string \<Rightarrow> nat \<Rightarrow> nat \<Rightarrow> int option" where
  "ParseFixedDigits sv pos count =
     (if length sv < pos + count then None
      else let ds = take count (drop pos sv)
           in if list_all is_digit ds then Some (digits_value ds) else None)"

section \<open>Calendar arithmetic\<close>

text \<open>The casts to \<open>unsigned\<close> of \<open>DaysFromCivil\<close>.\<close>

definition to_uint32 :: "int \<Rightarrow> int" where
  "to_uint32 i = i mod 2 ^ 32"

definition IsLeapYear :: "int \<Rightarrow> bool" where
  "IsLeapYear y = (y smod 4 = 0 \<and> (y smod 100 \<noteq> 0 \<or> y smod 400 = 0))"

definition DaysInMonth :: "int \<Rightarrow> int \<Rightarrow> int" where
  "DaysInMonth y m =
     (if m < 1 \<or> 12 < m then 0
      else if m = 2 \<and> IsLeapYear y then 29
      else [31, 28, 31, 30, 31, 30, 31, 31, 30, 31, 30, 31] ! nat (m - 1))"

definition DaysFromCivil :: "int \<Rightarrow> int \<Rightarrow> int \<Rightarrow> int" where
  "DaysFromCivil year m d =
     (let y = (if m \<le> 2 then year - 1 else year);
          era = (if 0 \<le> y then y else y - 399) sdiv 400;
          yoe = to_uint32 (y - era * 400);
          doy = to_uint32 (to_uint32 (153 * to_uint32 (if 2 < m then m - 3 else m + 9) + 2) div 5
                           + to_uint32 d - 1);
          doe = to_uint32 (yoe * 365 + yoe div 4 - yoe div 100 + doy)
      in era * 146097 + doe - 719468)"

section \<open>Timestamps\<close>

text \<open>The offset of the local time zone at the end of a timestamp, in seconds.\<close>

definition parse_zone :: "string \<Rightarrow> nat \<Rightarrow> int option" where
  "parse_zone text pos =
     (if length text \<le> pos then None
      else let tzChar = text ! pos
           in if tzChar = CHR ''Z'' \<or> tzChar = CHR ''z''
              then (if pos + 1 \<noteq> length text then None else Some 0)
              else if tzChar = CHR ''+'' \<or> tzChar = CHR ''-''
              then (if pos + 6 \<noteq> length text then None
                    else case ParseFixedDigits text (pos + 1) 2 of
                           None \<Rightarrow> None
                         | Some tzHour \<Rightarrow>
                             if text ! (pos + 3) \<noteq> CHR '':'' then None
                             else case ParseFixedDigits text (pos + 4) 2 of
                                    None \<Rightarrow> None
                                  | Some tzMin \<Rightarrow>
                                      if 23 < tzHour \<or> 59 < tzMin then None
                                      else Some ((tzHour * 3600 + tzMin * 60) *
                                                 (if tzChar = CHR ''-'' then -1 else 1)))
              else None)"

text \<open>The position after the fraction of a second, if there is one.\<close>

definition skip_fraction :: "string \<Rightarrow> nat \<Rightarrow> nat option" where
  "skip_fraction text pos =
     (if pos < length text \<and> text ! pos = CHR ''.''
      then let fracDigits = length (takeWhile is_digit (drop (pos + 1) text))
           in if fracDigits = 0 \<or> 9 < fracDigits then None else Some (pos + 1 + fracDigits)
      else Some pos)"

definition ParseRfc3339Unix :: "string \<Rightarrow> int option" where
  "ParseRfc3339Unix text =
     (if length text < 20 \<or> 64 < length text then None
      else case (ParseFixedDigits text 0 4, ParseFixedDigits text 5 2, ParseFixedDigits text 8 2,
                 ParseFixedDigits text 11 2, ParseFixedDigits text 14 2, ParseFixedDigits text 17 2) of
             (Some year, Some month, Some day, Some hour, Some minute, Some second) \<Rightarrow>
               if text ! 4 \<noteq> CHR ''-'' \<or> text ! 7 \<noteq> CHR ''-'' \<or>
                  (text ! 10 \<noteq> CHR ''T'' \<and> text ! 10 \<noteq> CHR ''t'') \<or>
                  text ! 13 \<noteq> CHR '':'' \<or> text ! 16 \<noteq> CHR '':'' then None
               else if year < 1970 \<or> 2200 < year then None
               else if DaysInMonth year month = 0 \<or> day < 1 \<or> DaysInMonth year month < day then None
               else if hour < 0 \<or> 23 < hour \<or> minute < 0 \<or> 59 < minute \<or> second < 0 \<or> 60 < second
               then None
               else (case skip_fraction text 19 of
                       None \<Rightarrow> None
                     | Some pos \<Rightarrow>
                         (case parse_zone text pos of
                            None \<Rightarrow> None
                          | Some offsetSeconds \<Rightarrow>
                              Some (DaysFromCivil year month day * 86400 + hour * 3600 + minute * 60
                                    + second - offsetSeconds)))
           | _ \<Rightarrow> None)"

section \<open>The reference calendar\<close>

fun next_day :: "int \<times> int \<times> int \<Rightarrow> int \<times> int \<times> int" where
  "next_day (y, m, d) =
     (if d < DaysInMonth y m then (y, m, d + 1)
      else if m < 12 then (y, m + 1, 1)
      else (y + 1, 1, 1))"

text \<open>The date \<open>n\<close> days after the 1st of January 1970.\<close>

definition calendar_day :: "nat \<Rightarrow> int \<times> int \<times> int" where
  "calendar_day n = (next_day ^^ n) (1970, 1, 1)"

definition valid_date :: "int \<times> int \<times> int \<Rightarrow> bool" where
  "valid_date date = (case date of (y, m, d) \<Rightarrow>
     1970 \<le> y \<and> 1 \<le> m \<and> m \<le> 12 \<and> 1 \<le> d \<and> d \<le> DaysInMonth y m)"

lemma smod_nonneg: "0 \<le> a \<Longrightarrow> 0 < b \<Longrightarrow> (a :: int) smod b = a mod b"
  by (cases "a = 0") (simp_all add: signed_modulo_int_def)

lemma sdiv_nonneg: "0 \<le> a \<Longrightarrow> 0 < b \<Longrightarrow> (a :: int) sdiv b = a div b"
  by (cases "a = 0") (simp_all add: signed_divide_int_def)

lemma IsLeapYear_iff:
  "0 \<le> y \<Longrightarrow> IsLeapYear y = (y mod 4 = 0 \<and> (y mod 100 \<noteq> 0 \<or> y mod 400 = 0))"
  by (simp add: IsLeapYear_def smod_nonneg)

text \<open>The days before a year.\<close>

definition year_days :: "int \<Rightarrow> int" where
  "year_days y = 365 * y + y div 4 - y div 100 + y div 400"

text \<open>The days before the months of a year that starts in March.\<close>

definition month_start :: "int \<Rightarrow> int" where
  "month_start m = (153 * (if 2 < m then m - 3 else m + 9) + 2) div 5"

lemma months:
  assumes "1 \<le> m" "m \<le> (12 :: int)"
  shows "m \<in> {1, 2, 3, 4, 5, 6, 7, 8, 9, 10, 11, 12}"
  using assms by simp presburger

lemma DaysFromCivil_closed:
  assumes "1 \<le> y" "1 \<le> m" "m \<le> 12" "1 \<le> d" "d \<le> 31"
  shows "DaysFromCivil y m d =
    year_days (if m \<le> 2 then y - 1 else y) + month_start m + d - 719469"
proof -
  define y' where "y' = (if m \<le> 2 then y - 1 else y)"
  define q r where "q = y' div 400" and "r = y' mod 400"
  have y': "y' = 400 * q + r" "0 \<le> r" "r < 400" "0 \<le> y'"
    using assms by (auto simp: q_def r_def y'_def)
  have ms: "0 \<le> month_start m" "month_start m \<le> 337"
    using months[OF assms(2,3)] by (auto simp: month_start_def)
  have doy: "to_uint32 (to_uint32 (153 * to_uint32 (if 2 < m then m - 3 else m + 9) + 2) div 5
               + to_uint32 d - 1) = month_start m + d - 1"
    using assms ms months[OF assms(2,3)] by (auto simp: to_uint32_def month_start_def)
  have yoe: "to_uint32 (y' - q * 400) = r"
    using y' by (simp add: to_uint32_def)
  have doe: "to_uint32 (r * 365 + r div 4 - r div 100 + (month_start m + d - 1)) =
    r * 365 + r div 4 - r div 100 + (month_start m + d - 1)"
  proof -
    have "0 \<le> r * 365 + r div 4 - r div 100" "r * 365 + r div 4 - r div 100 \<le> 400 * 366"
      using y' by linarith+
    then show ?thesis using ms assms by (simp add: to_uint32_def)
  qed
  have "y' div 4 = 100 * q + r div 4" "y' div 100 = 4 * q + r div 100"
    using y'(1) by auto
  then show ?thesis
    using y' doy yoe doe
    by (simp add: DaysFromCivil_def year_days_def Let_def sdiv_nonneg flip: y'_def q_def)
qed

lemma DaysInMonth_bounds:
  "1 \<le> m \<Longrightarrow> m \<le> 12 \<Longrightarrow> 28 \<le> DaysInMonth y m \<and> DaysInMonth y m \<le> 31"
  by (drule (1) months) (auto simp: DaysInMonth_def)

lemma div_pred:
  assumes "0 < (k :: int)"
  shows "(y - 1) div k = y div k - (if y mod k = 0 then 1 else 0)"
proof -
  have y: "y = k * (y div k) + y mod k" by simp
  have r: "0 \<le> y mod k" "y mod k < k" using assms by auto
  show ?thesis
  proof (cases "y mod k = 0")
    case True
    have "y - 1 = k * (y div k - 1) + (k - 1)" using y True by (simp add: algebra_simps)
    from int_div_pos_eq[OF this] True assms show ?thesis by simp
  next
    case False
    have "y - 1 = k * (y div k) + (y mod k - 1)" using y by simp
    from int_div_pos_eq[OF this] False r show ?thesis by simp
  qed
qed

lemma leap_days:
  "year_days y - year_days (y - 1) =
   365 + (if y mod 4 = 0 \<and> (y mod 100 \<noteq> 0 \<or> y mod 400 = 0) then 1 else 0)"
proof -
  define a b c where "a = y div 4" and "b = y div 100" and "c = y div 400"
  define p q r where "p = (y mod 4 = 0)" and "q = (y mod 100 = 0)" and "r = (y mod 400 = 0)"
  note folds = a_def[symmetric] b_def[symmetric] c_def[symmetric]
    p_def[symmetric] q_def[symmetric] r_def[symmetric]
  have pred: "(y - 1) div 4 = a - (if p then 1 else 0)" "(y - 1) div 100 = b - (if q then 1 else 0)"
    "(y - 1) div 400 = c - (if r then 1 else 0)"
    unfolding a_def b_def c_def p_def q_def r_def by (rule div_pred; simp)+
  have "q \<Longrightarrow> p" "r \<Longrightarrow> q"
    unfolding p_def q_def r_def mod_eq_0_iff_dvd by (erule dvd_trans[rotated]; simp)+
  then show ?thesis
    unfolding year_days_def pred folds by (cases p; cases q; cases r; simp)
qed

text \<open>The months of a year follow each other; the year itself has 365 or 366 days.\<close>

lemma month_step:
  assumes "1 \<le> m" "m < 12" "m \<noteq> 2"
  shows "month_start (m + 1) = month_start m + DaysInMonth y m"
proof -
  have "m \<in> {1, 3, 4, 5, 6, 7, 8, 9, 10, 11}" using assms by simp presburger
  then show ?thesis by (elim insertE emptyE) (simp_all add: month_start_def DaysInMonth_def)
qed

lemma month_follows:
  assumes "1 \<le> y" "1 \<le> m" "m < 12"
  shows "DaysFromCivil y (m + 1) 1 = DaysFromCivil y m (DaysInMonth y m) + 1"
proof -
  have b: "1 \<le> DaysInMonth y m" "DaysInMonth y m \<le> 31"
    using DaysInMonth_bounds[of m y] assms by auto
  have iff: "IsLeapYear y = (y mod 4 = 0 \<and> (y mod 100 \<noteq> 0 \<or> y mod 400 = 0))"
    using assms by (intro IsLeapYear_iff) simp
  have "year_days y - year_days (y - 1) = 365 + (if IsLeapYear y then 1 else 0)"
    unfolding iff by (rule leap_days)
  then have leap: "year_days y = year_days (y - 1) + (if IsLeapYear y then 366 else 365)"
    by (simp split: if_splits)
  consider "m = 2" | "m \<noteq> 2" by blast
  then show ?thesis
  proof cases
    case 1
    have "month_start 3 = 0" "month_start 2 = 337" by (simp_all add: month_start_def)
    moreover have "DaysInMonth y 2 = (if IsLeapYear y then 29 else 28)"
      by (simp add: DaysInMonth_def)
    ultimately show ?thesis
      using assms leap b 1 by (simp add: DaysFromCivil_closed)
  next
    case 2
    then have "(m + 1 \<le> 2) = (m \<le> 2)" using assms by auto
    with 2 show ?thesis
      using assms month_step[of m y] by (simp add: DaysFromCivil_closed b)
  qed
qed

lemma year_follows:
  assumes "1 \<le> y"
  shows "DaysFromCivil (y + 1) 1 1 = DaysFromCivil y 12 31 + 1"
  using assms by (simp add: DaysFromCivil_closed month_start_def)

lemma next_day_count:
  assumes "valid_date (y, m, d)"
  shows "valid_date (next_day (y, m, d)) \<and>
    (case next_day (y, m, d) of (y', m', d') \<Rightarrow> DaysFromCivil y' m' d') = DaysFromCivil y m d + 1"
proof -
  have v: "1 \<le> y" "1970 \<le> y" "1 \<le> m" "m \<le> 12" "1 \<le> d" "d \<le> DaysInMonth y m" "d \<le> 31"
    using assms DaysInMonth_bounds[of m y] by (auto simp: valid_date_def)
  show ?thesis
  proof (cases "d < DaysInMonth y m")
    case True
    then have "d + 1 \<le> 31" using DaysInMonth_bounds[OF v(3,4), of y] by linarith
    with True v show ?thesis by (simp add: valid_date_def DaysFromCivil_closed)
  next
    case False
    then have d: "d = DaysInMonth y m" using v by simp
    show ?thesis
    proof (cases "m < 12")
      case True
      with d v show ?thesis
        using DaysInMonth_bounds[of "m + 1" y] by (simp add: valid_date_def month_follows)
    next
      case False
      then have "m = 12" using v by simp
      with d v show ?thesis
        by (simp add: valid_date_def year_follows DaysInMonth_def)
    qed
  qed
qed

lemma calendar_day_count:
  "valid_date (calendar_day n) \<and>
   (case calendar_day n of (y, m, d) \<Rightarrow> DaysFromCivil y m d) = int n"
proof (induction n)
  case 0
  show ?case
    by (simp add: calendar_day_def valid_date_def DaysFromCivil_closed DaysInMonth_def
        month_start_def year_days_def)
next
  case (Suc n)
  obtain y m d where "calendar_day n = (y, m, d)" by (cases "calendar_day n")
  with Suc next_day_count[of y m d] show ?case
    by (auto simp: calendar_day_def split: prod.splits)
qed

section \<open>Written timestamps\<close>

text \<open>The reference writer: fixed-width decimal fields and a time zone, which is UTC or a sign with hours and minutes.\<close>

definition digit_char :: "nat \<Rightarrow> char" where
  "digit_char n = char_of (48 + n mod 10)"

primrec fixed_digits :: "nat \<Rightarrow> nat \<Rightarrow> string" where
  "fixed_digits 0 n = []"
| "fixed_digits (Suc k) n = fixed_digits k (n div 10) @ [digit_char n]"

type_synonym zone = "(bool \<times> nat \<times> nat) option"

definition zone_text :: "zone \<Rightarrow> string" where
  "zone_text z =
     (case z of
        None \<Rightarrow> ''Z''
      | Some (west, h, m) \<Rightarrow> (if west then ''-'' else ''+'') @ fixed_digits 2 h @ '':'' @ fixed_digits 2 m)"

definition zone_offset :: "zone \<Rightarrow> int" where
  "zone_offset z =
     (case z of
        None \<Rightarrow> 0
      | Some (west, h, m) \<Rightarrow> (if west then -1 else 1) * (int h * 3600 + int m * 60))"

definition zone_ok :: "zone \<Rightarrow> bool" where
  "zone_ok z = (case z of None \<Rightarrow> True | Some (west, h, m) \<Rightarrow> h \<le> 23 \<and> m \<le> 59)"

definition rfc3339_text :: "int \<times> int \<times> int \<Rightarrow> nat \<Rightarrow> nat \<Rightarrow> nat \<Rightarrow> zone \<Rightarrow> string" where
  "rfc3339_text date hour minute second zone =
     (case date of (y, m, d) \<Rightarrow>
        fixed_digits 4 (nat y) @ ''-'' @ fixed_digits 2 (nat m) @ ''-'' @ fixed_digits 2 (nat d) @ ''T'' @
        fixed_digits 2 hour @ '':'' @ fixed_digits 2 minute @ '':'' @ fixed_digits 2 second @
        zone_text zone)"

lemma length_fixed_digits [simp]: "length (fixed_digits k n) = k"
  by (induction k arbitrary: n) auto

lemma digit_char_value: "is_digit (digit_char n)" "digit_value (digit_char n) = int (n mod 10)"
proof -
  have "n mod 10 \<in> {0, 1, 2, 3, 4, 5, 6, 7, 8, 9}" by simp presburger
  then show "is_digit (digit_char n)" "digit_value (digit_char n) = int (n mod 10)"
    by (auto simp: digit_char_def is_digit_def digit_value_def less_eq_char_def
        of_nat_of_char[where 'a = int, symmetric] simp del: of_nat_of_char)
qed

lemma fixed_digits_value:
  "list_all is_digit (fixed_digits k n) \<and> (n < 10 ^ k \<longrightarrow> digits_value (fixed_digits k n) = int n)"
proof (induction k arbitrary: n)
  case 0
  show ?case by (simp add: digits_value_def)
next
  case (Suc k)
  have "n < 10 ^ Suc k \<Longrightarrow> n div 10 < 10 ^ k" by (simp add: less_mult_imp_div_less)
  moreover have "10 * int (n div 10) + int (n mod 10) = int n" by (simp add: zdiv_int zmod_int)
  ultimately show ?case
    using Suc.IH[of "n div 10"] by (auto simp: digits_value_def digit_char_value)
qed

lemma read_field:
  assumes "take k (drop pos text) = fixed_digits k n" "pos + k \<le> length text" "n < 10 ^ k"
  shows "ParseFixedDigits text pos k = Some (int n)"
  using assms fixed_digits_value[of k n] by (simp add: ParseFixedDigits_def)

text \<open>A text cut into consecutive fields.\<close>

lemma read_at:
  assumes "pos = length before" "n < 10 ^ k"
  shows "ParseFixedDigits (before @ fixed_digits k n @ rest) pos k = Some (int n)"
  using assms by (simp add: read_field)

lemma parse_zone_text:
  assumes "zone_ok z" "pos = length before"
  shows "parse_zone (before @ zone_text z) pos = Some (zone_offset z)"
proof (cases z)
  case None
  then show ?thesis using assms by (simp add: parse_zone_def zone_text_def zone_offset_def)
next
  case (Some a)
  obtain west h m where a: "a = (west, h, m)" by (cases a)
  define sign where "sign = (if west then CHR ''-'' else CHR ''+'')"
  have z: "zone_text z = sign # fixed_digits 2 h @ CHR '':'' # fixed_digits 2 m"
    by (simp add: Some a zone_text_def sign_def)
  have hm: "h < 100" "m < 100" "h \<le> 23" "m \<le> 59" using assms by (auto simp: Some a zone_ok_def)
  define t where "t = before @ zone_text z"
  have "ParseFixedDigits t (pos + 1) 2 = Some (int h)"
    using read_at[of "pos + 1" "before @ [sign]" h 2 "CHR '':'' # fixed_digits 2 m"] assms hm
    by (simp add: t_def z)
  moreover have "ParseFixedDigits t (pos + 4) 2 = Some (int m)"
    using read_at[of "pos + 4" "before @ sign # fixed_digits 2 h @ [CHR '':'']" m 2 "[]"] assms hm
    by (simp add: t_def z)
  moreover have "t ! pos = sign" "t ! (pos + 3) = CHR '':''" "length t = pos + 6"
    using assms by (simp_all add: t_def z nth_append)
  ultimately have "parse_zone t pos = Some (zone_offset z)"
    using hm by (simp add: parse_zone_def sign_def zone_offset_def Some a)
  then show ?thesis by (simp add: t_def)
qed

lemma zone_mark: "zone_text z \<noteq> [] \<and> zone_text z ! 0 \<noteq> CHR ''.''"
  by (auto simp: zone_text_def split: option.splits)

section \<open>Properties\<close>

text \<open>
  C24: A timestamp names the second it says: the date n days after the 1st of January 1970, in
  whichever month or leap year it falls, with a time of day and a time zone, is read as the count of
  seconds since that day in UTC, for every year the reader accepts.
\<close>

theorem timestamps_name_instants:
  assumes "fst (calendar_day n) \<le> 2200" "hour \<le> 23" "minute \<le> 59" "second \<le> 60" "zone_ok zone"
  shows "ParseRfc3339Unix (rfc3339_text (calendar_day n) hour minute second zone) =
    Some (int n * 86400 + int hour * 3600 + int minute * 60 + int second - zone_offset zone)"
proof -
  obtain y m d where date: "calendar_day n = (y, m, d)" by (cases "calendar_day n")
  have v: "valid_date (y, m, d)" "DaysFromCivil y m d = int n"
    using calendar_day_count[of n] by (auto simp: date)
  have r: "1970 \<le> y" "y \<le> 2200" "1 \<le> m" "m \<le> 12" "1 \<le> d" "d \<le> DaysInMonth y m" "d \<le> 31"
    using v(1) DaysInMonth_bounds[of m y] assms(1) by (auto simp: valid_date_def date)
  define t where "t = rfc3339_text (calendar_day n) hour minute second zone"
  have t: "t = fixed_digits 4 (nat y) @ ''-'' @ fixed_digits 2 (nat m) @ ''-'' @ fixed_digits 2 (nat d)
    @ ''T'' @ fixed_digits 2 hour @ '':'' @ fixed_digits 2 minute @ '':'' @ fixed_digits 2 second @
    zone_text zone"
    by (simp add: t_def rfc3339_text_def date)
  have len: "20 \<le> length t" "length t \<le> 64"
    by (auto simp: t zone_text_def split: option.splits)
  have fields: "ParseFixedDigits t 0 4 = Some y" "ParseFixedDigits t 5 2 = Some m"
    "ParseFixedDigits t 8 2 = Some d" "ParseFixedDigits t 11 2 = Some (int hour)"
    "ParseFixedDigits t 14 2 = Some (int minute)" "ParseFixedDigits t 17 2 = Some (int second)"
    using read_field[of 4 0 t "nat y"] read_field[of 2 5 t "nat m"] read_field[of 2 8 t "nat d"]
      read_field[of 2 11 t hour] read_field[of 2 14 t minute] read_field[of 2 17 t second] r assms
    by (simp_all add: t)
  have marks: "t ! 4 = CHR ''-''" "t ! 7 = CHR ''-''" "t ! 10 = CHR ''T''" "t ! 13 = CHR '':''"
    "t ! 16 = CHR '':''"
    by (simp_all add: t nth_append)
  have zone: "skip_fraction t 19 = Some 19" "parse_zone t 19 = Some (zone_offset zone)"
    using parse_zone_text[of zone 19 "take 19 t"] assms(5) zone_mark[of zone]
    by (simp_all add: t skip_fraction_def nth_append)
  show ?thesis
    using fields marks zone r v assms len
    by (simp add: ParseRfc3339Unix_def flip: t_def)
qed

theorem timestamps_name_instants_witness:
  "ParseRfc3339Unix (rfc3339_text (calendar_day 59) 12 30 0 (Some (True, 5, 0))) =
     Some (59 * 86400 + 12 * 3600 + 30 * 60 + 5 * 3600) \<and>
   rfc3339_text (calendar_day 59) 12 30 0 (Some (True, 5, 0)) = ''1970-03-01T12:30:00-05:00''"
proof -
  have date: "calendar_day 59 = (1970, 3, 1)" by code_simp
  show ?thesis
    using timestamps_name_instants[of 59 12 30 0 "Some (True, 5, 0)"]
    by (simp add: date zone_ok_def zone_offset_def) code_simp
qed

end
