(* ===== verification/Remote_Config.thy ===== *)
theory Remote_Config
  imports Civil_Time Json_Events "HOL-Library.List_Lexorder"
begin

text \<open>
  The remote configuration of \<open>network/api/RemoteConfig.cpp\<close>: versions, links, the reader that
  checks every field of a configuration before it accepts one, the writer of the cached copy, and
  the announcements on display. The JSON library is outside the repository: \<open>parse\<close> and \<open>dump\<close> are
  its parser and printer, as in \<open>Json_Events\<close>.
\<close>

record RemoteAnnouncement =
  an_id :: string
  an_severity :: string
  an_title :: string
  an_body :: string
  an_link_url :: string
  an_dismissible :: bool
  an_ends_at :: string

record RemoteSeasonEntry =
  se_season :: int
  se_starts_at :: string
  se_ends_at :: string
  se_source :: string

record RemoteSeasonConfig =
  sc_current :: int
  sc_seasons :: "RemoteSeasonEntry list"
  sc_next :: "RemoteSeasonEntry option"

record RemoteConfigData =
  rc_schema :: int
  rc_ttl_seconds :: int
  rc_announcements :: "RemoteAnnouncement list"
  rc_min_supported_version :: string
  rc_min_version_message :: string
  rc_season :: "RemoteSeasonConfig option"

definition kMaxDismissedIds :: nat where "kMaxDismissedIds = 256"
definition kMinTtlSeconds :: int where "kMinTtlSeconds = 300"
definition kMaxTtlSeconds :: int where "kMaxTtlSeconds = 3600"
definition kDefaultTtlSeconds :: int where "kDefaultTtlSeconds = 900"
definition kMaxCacheAgeSeconds :: int where "kMaxCacheAgeSeconds = 24 * 3600"
definition kMaxConfigPayloadBytes :: nat where "kMaxConfigPayloadBytes = 65536"
definition kMaxAnnouncements :: nat where "kMaxAnnouncements = 5"
definition kMaxAnnouncementsInPayload :: nat where "kMaxAnnouncementsInPayload = 25"

lemmas config_limits = kMaxDismissedIds_def kMinTtlSeconds_def kMaxTtlSeconds_def
  kDefaultTtlSeconds_def kMaxCacheAgeSeconds_def kMaxConfigPayloadBytes_def kMaxAnnouncements_def
  kMaxAnnouncementsInPayload_def

definition RemoteConfigData0 :: RemoteConfigData where
  "RemoteConfigData0 =
     \<lparr>rc_schema = 1, rc_ttl_seconds = 900, rc_announcements = [], rc_min_supported_version = [],
      rc_min_version_message = [], rc_season = None\<rparr>"

section \<open>Versions and links\<close>

definition ClampTtlSeconds :: "int \<Rightarrow> int" where
  "ClampTtlSeconds ttl = max kMinTtlSeconds (min kMaxTtlSeconds ttl)"

definition IsAllowedAnnouncementLinkUrl :: "string \<Rightarrow> bool" where
  "IsAllowedAnnouncementLinkUrl url =
     (url \<noteq> [] \<and> length url \<le> 512 \<and>
      list_all (\<lambda>c. \<not> (c \<le> CHR 0x20 \<or> c = CHR 0x7F \<or> c = CHR 0x22 \<or> c = CHR 0x27 \<or>
                          c = CHR ''<'' \<or> c = CHR ''>'')) url \<and>
      (url = ''https://omnistats.org'' \<or> starts_with url ''https://omnistats.org/'' \<or>
       (starts_with url ''https://discord.gg/'' \<and>
        length ''https://discord.gg/'' < length url)))"

text \<open>The loop of \<open>IsValidVersionString\<close>: the rest, the dots seen and the digits since the last dot.\<close>

fun valid_version :: "string \<Rightarrow> nat \<Rightarrow> nat \<Rightarrow> bool" where
  "valid_version [] dots partLen = (0 < partLen \<and> 1 \<le> dots \<and> dots \<le> 3)"
| "valid_version (c # cs) dots partLen =
     (if c = CHR ''.'' then (if partLen = 0 then False else valid_version cs (Suc dots) 0)
      else if is_digit c
      then (if 6 < Suc partLen then False else valid_version cs dots (Suc partLen))
      else False)"

definition IsValidVersionString :: "string \<Rightarrow> bool" where
  "IsValidVersionString version =
     (version \<noteq> [] \<and> length version \<le> 32 \<and> valid_version version 0 0)"

text \<open>The loop of \<open>parseParts\<close>: \<open>parts\<close>, \<open>idx\<close>, \<open>current\<close> and \<open>hasDigit\<close>.\<close>

fun parse_parts :: "string \<Rightarrow> int list \<Rightarrow> nat \<Rightarrow> int \<Rightarrow> bool \<Rightarrow> int list" where
  "parse_parts [] parts idx current hasDigit =
     (if hasDigit \<and> idx < 4 then parts[idx := current] else parts)"
| "parse_parts (c # cs) parts idx current hasDigit =
     (if c = CHR ''.''
      then (if idx < 4 then parse_parts cs (parts[idx := current]) (Suc idx) 0 False
            else parse_parts cs parts idx 0 False)
      else if is_digit c
      then parse_parts cs parts idx
             (if current \<le> 999999 then current * 10 + digit_value c else current) True
      else (if hasDigit \<and> idx < 4 then parts[idx := current] else parts))"

definition parseParts :: "string \<Rightarrow> int list" where
  "parseParts v =
     parse_parts (if v \<noteq> [] \<and> (hd v = CHR ''v'' \<or> hd v = CHR ''V'') then tl v else v)
       [0, 0, 0, 0] 0 0 False"

fun compare_parts :: "(int \<times> int) list \<Rightarrow> int" where
  "compare_parts [] = 0"
| "compare_parts ((a, b) # rest) = (if a < b then -1 else if b < a then 1 else compare_parts rest)"

definition CompareVersions :: "string \<Rightarrow> string \<Rightarrow> int" where
  "CompareVersions a b = compare_parts (zip (parseParts a) (parseParts b))"

definition IsVersionBelowMinimum :: "string \<Rightarrow> string \<Rightarrow> bool" where
  "IsVersionBelowMinimum currentVersion minSupportedVersion =
     (if minSupportedVersion = [] \<or> \<not> IsValidVersionString minSupportedVersion then False
      else if currentVersion = [] then False
      else CompareVersions currentVersion minSupportedVersion < 0)"

section \<open>Reading a configuration\<close>

definition string_field :: "json \<Rightarrow> string \<Rightarrow> string option" where
  "string_field j key = (case Child j key of Some (JString s) \<Rightarrow> Some s | _ \<Rightarrow> None)"

definition int_field :: "json \<Rightarrow> string \<Rightarrow> int option" where
  "int_field j key = (case Child j key of Some (JInt i) \<Rightarrow> Some i | _ \<Rightarrow> None)"

text \<open>\<open>get<int>\<close> of an integer keeps its low 32 bits.\<close>

definition ParseSeasonNumber :: "json option \<Rightarrow> int option" where
  "ParseSeasonNumber value =
     (case value of
        Some (JInt i) \<Rightarrow> if i < 1 \<or> 1000 < i then None else Some (to_int32 i)
      | _ \<Rightarrow> None)"

definition ParseSeasonEntry :: "json \<Rightarrow> bool \<Rightarrow> RemoteSeasonEntry option" where
  "ParseSeasonEntry value requireSource =
     (if \<not> is_object value then None
      else case (ParseSeasonNumber (Child value ''season''), string_field value ''starts_at'',
                 string_field value ''ends_at'') of
             (Some season, Some starts_at, Some ends_at) \<Rightarrow>
               if (requireSource \<or> Child value ''source'' \<noteq> None) \<and> string_field value ''source'' = None
               then None
               else let source = (case string_field value ''source'' of
                                    Some s \<Rightarrow> s | None \<Rightarrow> ''rocket_league'')
                    in if source \<noteq> ''rocket_league'' \<and> source \<noteq> ''admin'' then None
                       else (case (ParseRfc3339Unix starts_at, ParseRfc3339Unix ends_at) of
                               (Some start, Some end') \<Rightarrow>
                                 if start < end'
                                 then Some \<lparr>se_season = season, se_starts_at = starts_at,
                                            se_ends_at = ends_at, se_source = source\<rparr>
                                 else None
                             | _ \<Rightarrow> None)
           | _ \<Rightarrow> None)"

text \<open>The loop over the seasons; \<open>seen\<close> holds the season numbers met.\<close>

fun parse_seasons :: "json list \<Rightarrow> int set \<Rightarrow> RemoteSeasonEntry list option" where
  "parse_seasons [] seen = Some []"
| "parse_seasons (item # items) seen =
     (case ParseSeasonEntry item True of
        None \<Rightarrow> None
      | Some entry \<Rightarrow>
          if se_season entry \<in> seen then None
          else map_option ((#) entry) (parse_seasons items (insert (se_season entry) seen)))"

definition ParseSeasonConfig :: "json \<Rightarrow> RemoteSeasonConfig option" where
  "ParseSeasonConfig value =
     (case Child value ''seasons'' of
        Some (JArray items) \<Rightarrow>
          if 8 < length items then None
          else (case (ParseSeasonNumber (Child value ''current''), parse_seasons items {}) of
                  (Some current, Some seasons) \<Rightarrow>
                    (case Child value ''next'' of
                       None \<Rightarrow> Some \<lparr>sc_current = current, sc_seasons = seasons, sc_next = None\<rparr>
                     | Some item \<Rightarrow>
                         (case ParseSeasonEntry item False of
                            None \<Rightarrow> None
                          | Some entry \<Rightarrow>
                              if se_season entry \<in> se_season ` set seasons then None
                              else Some \<lparr>sc_current = current, sc_seasons = seasons,
                                         sc_next = Some entry\<rparr>))
                | _ \<Rightarrow> None)
      | _ \<Rightarrow> None)"

text \<open>\<open>fail\<close> ends the reader with a message; \<open>andThen\<close> goes on with what was read.\<close>

fun andThen :: "'e + 'a \<Rightarrow> ('a \<Rightarrow> 'e + 'b) \<Rightarrow> 'e + 'b" where
  "andThen (Inl e) k = Inl e"
| "andThen (Inr x) k = k x"

text \<open>The field \<open>key\<close>: \<open>absent\<close> without it, else what \<open>read\<close> makes of it.\<close>

definition optional :: "json \<Rightarrow> string \<Rightarrow> 'a \<Rightarrow> (json \<Rightarrow> string + 'a) \<Rightarrow> string + 'a" where
  "optional j key absent read = (case Child j key of None \<Rightarrow> Inr absent | Some v \<Rightarrow> read v)"

definition read_link_url :: "json \<Rightarrow> string + string" where
  "read_link_url v =
     (case v of
        JString s \<Rightarrow>
          if 512 < length s then Inl ''announcement link_url too long''
          else if s \<noteq> [] \<and> \<not> IsAllowedAnnouncementLinkUrl s
          then Inl ''announcement link_url not in allowlist''
          else Inr s
      | _ \<Rightarrow> Inl ''announcement link_url must be string'')"

definition read_dismissible :: "json \<Rightarrow> string + bool" where
  "read_dismissible v =
     (case v of JBool b \<Rightarrow> Inr b | _ \<Rightarrow> Inl ''announcement dismissible must be boolean'')"

definition read_ends_at :: "json \<Rightarrow> string + string" where
  "read_ends_at v =
     (case v of
        JString s \<Rightarrow>
          if 64 < length s then Inl ''announcement ends_at too long''
          else if s \<noteq> [] \<and> ParseRfc3339Unix s = None
          then Inl ''announcement ends_at invalid RFC3339''
          else Inr s
      | _ \<Rightarrow> Inl ''announcement ends_at must be string'')"

definition required :: "json \<Rightarrow> string \<Rightarrow> string \<Rightarrow> string + string" where
  "required j key msg = (case string_field j key of Some s \<Rightarrow> Inr s | None \<Rightarrow> Inl msg)"

definition check_text :: "bool \<Rightarrow> string \<Rightarrow> string + unit" where
  "check_text bad msg = (if bad then Inl msg else Inr ())"

definition parse_announcement :: "json \<Rightarrow> string + RemoteAnnouncement" where
  "parse_announcement item =
     (if \<not> is_object item then Inl ''announcement must be an object''
      else
        andThen (required item ''id'' ''announcement id must be string'') (\<lambda>ident.
        andThen (required item ''severity'' ''announcement severity must be string'') (\<lambda>severity.
        andThen (required item ''title'' ''announcement title must be string'') (\<lambda>title.
        andThen (required item ''body'' ''announcement body must be string'') (\<lambda>body.
        andThen (check_text (ident = [] \<or> 64 < length ident) ''announcement id out of bounds'') (\<lambda>_.
        andThen (check_text (severity \<notin> {''info'', ''warning'', ''critical''})
                   ''invalid announcement severity'') (\<lambda>_.
        andThen (check_text (title = [] \<or> 80 < length title) ''announcement title out of bounds'') (\<lambda>_.
        andThen (check_text (500 < length body) ''announcement body out of bounds'') (\<lambda>_.
        andThen (optional item ''link_url'' [] read_link_url) (\<lambda>link_url.
        andThen (optional item ''dismissible'' True read_dismissible) (\<lambda>dismissible.
        andThen (optional item ''ends_at'' [] read_ends_at) (\<lambda>ends_at.
          Inr \<lparr>an_id = ident, an_severity = severity, an_title = title, an_body = body,
               an_link_url = link_url, an_dismissible = dismissible, an_ends_at = ends_at\<rparr>))))))))))))"

text \<open>Every announcement is checked; only the first \<open>kMaxAnnouncements\<close> are kept.\<close>

fun parse_announcements :: "json list \<Rightarrow> RemoteAnnouncement list \<Rightarrow> string + RemoteAnnouncement list" where
  "parse_announcements [] kept = Inr kept"
| "parse_announcements (item # items) kept =
     andThen (parse_announcement item) (\<lambda>ann.
       parse_announcements items (if length kept < kMaxAnnouncements then kept @ [ann] else kept))"

definition read_ttl_seconds :: "json \<Rightarrow> string + int" where
  "read_ttl_seconds v =
     (case v of JInt i \<Rightarrow> Inr (ClampTtlSeconds (to_int32 i))
              | _ \<Rightarrow> Inl ''ttl_seconds must be an integer'')"

definition read_announcements :: "json \<Rightarrow> string + RemoteAnnouncement list" where
  "read_announcements v =
     (case v of
        JArray items \<Rightarrow>
          if kMaxAnnouncementsInPayload < length items then Inl ''too many announcements''
          else parse_announcements items []
      | _ \<Rightarrow> Inl ''announcements must be an array'')"

definition read_min_supported_version :: "json \<Rightarrow> string + string" where
  "read_min_supported_version v =
     (case v of
        JString s \<Rightarrow>
          if 32 < length s then Inl ''min_supported_version too long''
          else if s \<noteq> [] \<and> \<not> IsValidVersionString s
          then Inl ''min_supported_version invalid format''
          else Inr s
      | _ \<Rightarrow> Inl ''min_supported_version must be string'')"

definition read_min_version_message :: "json \<Rightarrow> string + string" where
  "read_min_version_message v =
     (case v of
        JString s \<Rightarrow> if 300 < length s then Inl ''min_version_message too long'' else Inr s
      | _ \<Rightarrow> Inl ''min_version_message must be string'')"

definition config_of_json :: "json \<Rightarrow> string + RemoteConfigData" where
  "config_of_json j =
     (if \<not> is_object j then Inl ''root is not an object''
      else if map_option to_int32 (int_field j ''schema'') \<noteq> Some 1
      then Inl ''unsupported or missing schema''
      else
        andThen (optional j ''ttl_seconds'' kDefaultTtlSeconds read_ttl_seconds) (\<lambda>ttl.
        andThen (optional j ''announcements'' [] read_announcements) (\<lambda>announcements.
        andThen (optional j ''min_supported_version'' [] read_min_supported_version) (\<lambda>version.
        andThen (optional j ''min_version_message'' [] read_min_version_message) (\<lambda>message.
          Inr \<lparr>rc_schema = 1, rc_ttl_seconds = ttl, rc_announcements = announcements,
               rc_min_supported_version = version, rc_min_version_message = message,
               rc_season = Option.bind (Child j ''season'') ParseSeasonConfig\<rparr>)))))"

definition ParseConfigJson :: "(string \<Rightarrow> json option) \<Rightarrow> string \<Rightarrow> string + RemoteConfigData" where
  "ParseConfigJson parse jsonText =
     (if jsonText = [] then Inl ''empty payload''
      else if kMaxConfigPayloadBytes < length jsonText then Inl ''payload exceeds size limit''
      else case parse jsonText of
             None \<Rightarrow> Inl ''invalid json''
           | Some j \<Rightarrow> config_of_json j)"

section \<open>Writing a configuration\<close>

definition season_fields :: "RemoteSeasonEntry \<Rightarrow> (string, json) umap" where
  "season_fields entry =
     [(''season'', JInt (se_season entry)), (''starts_at'', JString (se_starts_at entry)),
      (''ends_at'', JString (se_ends_at entry)), (''source'', JString (se_source entry))]"

definition SerializeSeasonEntry :: "RemoteSeasonEntry \<Rightarrow> json" where
  "SerializeSeasonEntry entry = JObject (season_fields entry)"

definition announcement_json :: "RemoteAnnouncement \<Rightarrow> json" where
  "announcement_json ann =
     JObject
       [(''id'', JString (an_id ann)), (''severity'', JString (an_severity ann)),
        (''title'', JString (an_title ann)), (''body'', JString (an_body ann)),
        (''link_url'', JString (an_link_url ann)), (''dismissible'', JBool (an_dismissible ann)),
        (''ends_at'', JString (an_ends_at ann))]"

definition season_json :: "RemoteSeasonConfig \<Rightarrow> json" where
  "season_json s =
     JObject
       ([(''current'', JInt (sc_current s)),
         (''seasons'', JArray (map SerializeSeasonEntry (sc_seasons s)))] @
        (case sc_next s of
           None \<Rightarrow> []
         | Some entry \<Rightarrow> [(''next'', JObject (um_erase ''source'' (season_fields entry)))]))"

definition SerializeConfigJson :: "RemoteConfigData \<Rightarrow> json" where
  "SerializeConfigJson config =
     JObject
       ([(''schema'', JInt (rc_schema config)),
         (''ttl_seconds'', JInt (ClampTtlSeconds (rc_ttl_seconds config))),
         (''announcements'', JArray (map announcement_json (rc_announcements config))),
         (''min_supported_version'', JString (rc_min_supported_version config)),
         (''min_version_message'', JString (rc_min_version_message config))] @
        (case rc_season config of None \<Rightarrow> [] | Some s \<Rightarrow> [(''season'', season_json s)]))"

section \<open>Announcements on display\<close>

definition announcement_expired :: "int \<Rightarrow> RemoteAnnouncement \<Rightarrow> bool" where
  "announcement_expired nowUnix ann =
     (an_ends_at ann \<noteq> [] \<and> 0 < nowUnix \<and>
      (case ParseRfc3339Unix (an_ends_at ann) of
         Some endsUnix \<Rightarrow> endsUnix \<le> nowUnix
       | None \<Rightarrow> False))"

fun filter_announcements ::
  "RemoteAnnouncement list \<Rightarrow> string set \<Rightarrow> int \<Rightarrow> RemoteAnnouncement list \<Rightarrow> RemoteAnnouncement list" where
  "filter_announcements [] dismissedIds nowUnix result = result"
| "filter_announcements (ann # anns) dismissedIds nowUnix result =
     (if an_id ann = [] \<or> an_title ann = [] \<or>
         (an_dismissible ann \<and> an_id ann \<in> dismissedIds) \<or> announcement_expired nowUnix ann
      then filter_announcements anns dismissedIds nowUnix result
      else
        let copy = (if an_link_url ann \<noteq> [] \<and> \<not> IsAllowedAnnouncementLinkUrl (an_link_url ann)
                    then ann\<lparr>an_link_url := []\<rparr> else ann);
            result = result @ [copy]
        in if kMaxAnnouncements \<le> length result then result
           else filter_announcements anns dismissedIds nowUnix result)"

definition FilterActiveAnnouncements ::
  "RemoteAnnouncement list \<Rightarrow> string set \<Rightarrow> int \<Rightarrow> RemoteAnnouncement list" where
  "FilterActiveAnnouncements announcements dismissedIds nowUnix =
     filter_announcements announcements dismissedIds nowUnix []"

section \<open>Accepted configurations\<close>

definition announcement_ok :: "RemoteAnnouncement \<Rightarrow> bool" where
  "announcement_ok a =
     (an_id a \<noteq> [] \<and> length (an_id a) \<le> 64 \<and>
      an_severity a \<in> {''info'', ''warning'', ''critical''} \<and>
      an_title a \<noteq> [] \<and> length (an_title a) \<le> 80 \<and> length (an_body a) \<le> 500 \<and>
      (an_link_url a = [] \<or> IsAllowedAnnouncementLinkUrl (an_link_url a)) \<and>
      (an_ends_at a = [] \<or> (length (an_ends_at a) \<le> 64 \<and> ParseRfc3339Unix (an_ends_at a) \<noteq> None)))"

definition season_entry_ok :: "RemoteSeasonEntry \<Rightarrow> bool" where
  "season_entry_ok e =
     (1 \<le> se_season e \<and> se_season e \<le> 1000 \<and> se_source e \<in> {''rocket_league'', ''admin''} \<and>
      (case (ParseRfc3339Unix (se_starts_at e), ParseRfc3339Unix (se_ends_at e)) of
         (Some start, Some end') \<Rightarrow> start < end'
       | _ \<Rightarrow> False))"

definition season_config_ok :: "RemoteSeasonConfig \<Rightarrow> bool" where
  "season_config_ok s =
     (1 \<le> sc_current s \<and> sc_current s \<le> 1000 \<and> length (sc_seasons s) \<le> 8 \<and>
      list_all season_entry_ok (sc_seasons s) \<and> distinct (map se_season (sc_seasons s)) \<and>
      (case sc_next s of
         None \<Rightarrow> True
       | Some e \<Rightarrow> season_entry_ok e \<and> se_season e \<notin> se_season ` set (sc_seasons s)))"

definition config_ok :: "RemoteConfigData \<Rightarrow> bool" where
  "config_ok c =
     (rc_schema c = 1 \<and> kMinTtlSeconds \<le> rc_ttl_seconds c \<and> rc_ttl_seconds c \<le> kMaxTtlSeconds \<and>
      length (rc_announcements c) \<le> kMaxAnnouncements \<and>
      list_all announcement_ok (rc_announcements c) \<and>
      (rc_min_supported_version c = [] \<or> IsValidVersionString (rc_min_supported_version c)) \<and>
      length (rc_min_version_message c) \<le> 300 \<and>
      (case rc_season c of None \<Rightarrow> True | Some s \<Rightarrow> season_config_ok s))"

text \<open>What the cached copy keeps: the source of the next season is not written.\<close>

definition unsourced :: "RemoteSeasonEntry \<Rightarrow> RemoteSeasonEntry" where
  "unsourced e = e\<lparr>se_source := ''rocket_league''\<rparr>"

definition cached :: "RemoteConfigData \<Rightarrow> RemoteConfigData" where
  "cached c =
     c\<lparr>rc_season := map_option (\<lambda>s. s\<lparr>sc_next := map_option unsourced (sc_next s)\<rparr>) (rc_season c)\<rparr>"

lemma andThen_Inr: "andThen r k = Inr y \<longleftrightarrow> (\<exists>x. r = Inr x \<and> k x = Inr y)"
  by (cases r) auto

lemma check_text_Inr: "check_text bad msg = Inr u \<longleftrightarrow> \<not> bad"
  by (cases u) (simp add: check_text_def)

lemma optional_Inr:
  "optional j key absent read = Inr x \<longleftrightarrow>
     (Child j key = None \<and> x = absent) \<or> (\<exists>v. Child j key = Some v \<and> read v = Inr x)"
  by (auto simp: optional_def split: option.splits)

lemma ClampTtlSeconds_range:
  "kMinTtlSeconds \<le> ClampTtlSeconds t \<and> ClampTtlSeconds t \<le> kMaxTtlSeconds"
  by (simp add: ClampTtlSeconds_def config_limits)

lemma ClampTtlSeconds_id:
  "kMinTtlSeconds \<le> t \<Longrightarrow> t \<le> kMaxTtlSeconds \<Longrightarrow> ClampTtlSeconds t = t"
  by (simp add: ClampTtlSeconds_def)

lemma small_int32: "-1000000 \<le> i \<Longrightarrow> i \<le> 1000000 \<Longrightarrow> to_int32 i = i"
  by (rule to_int32_id) (simp add: in_int32_def)

lemma read_link_url_ok: "read_link_url v = Inr s \<Longrightarrow> s = [] \<or> IsAllowedAnnouncementLinkUrl s"
  by (auto simp: read_link_url_def split: json.splits if_splits)

lemma read_ends_at_ok:
  "read_ends_at v = Inr s \<Longrightarrow> s = [] \<or> (length s \<le> 64 \<and> ParseRfc3339Unix s \<noteq> None)"
  by (auto simp: read_ends_at_def split: json.splits if_splits)

lemma read_ttl_seconds_ok:
  "read_ttl_seconds v = Inr t \<Longrightarrow> kMinTtlSeconds \<le> t \<and> t \<le> kMaxTtlSeconds"
  by (cases v) (auto simp: read_ttl_seconds_def ClampTtlSeconds_range)

lemma parse_announcement_ok:
  assumes "parse_announcement item = Inr a"
  shows "announcement_ok a"
proof -
  have link: "optional item ''link_url'' [] read_link_url = Inr s \<Longrightarrow>
      s = [] \<or> IsAllowedAnnouncementLinkUrl s" for s
    by (auto simp: optional_Inr dest: read_link_url_ok)
  have ends: "optional item ''ends_at'' [] read_ends_at = Inr s \<Longrightarrow>
      s = [] \<or> (length s \<le> 64 \<and> ParseRfc3339Unix s \<noteq> None)" for s
    by (auto simp only: optional_Inr dest: read_ends_at_ok)
  show ?thesis
    using assms link ends unfolding parse_announcement_def
    by (clarsimp simp: andThen_Inr check_text_Inr announcement_ok_def split: if_splits)
qed

lemma parse_announcements_ok:
  assumes "parse_announcements items kept = Inr anns" "list_all announcement_ok kept"
    "length kept \<le> kMaxAnnouncements"
  shows "list_all announcement_ok anns \<and> length anns \<le> kMaxAnnouncements"
  using assms
proof (induction items arbitrary: kept)
  case (Cons item items)
  then obtain ann where ann: "parse_announcement item = Inr ann"
    "parse_announcements items (if length kept < kMaxAnnouncements then kept @ [ann] else kept) = Inr anns"
    by (auto simp: andThen_Inr)
  then show ?case
    using Cons.IH[OF ann(2)] Cons.prems parse_announcement_ok[OF ann(1)] by (simp split: if_splits)
qed simp

lemma ParseSeasonNumber_ok:
  "ParseSeasonNumber v = Some n \<Longrightarrow> 1 \<le> n \<and> n \<le> 1000"
  by (auto simp: ParseSeasonNumber_def small_int32 split: option.splits json.splits if_splits)

lemma ParseSeasonEntry_ok: "ParseSeasonEntry v r = Some e \<Longrightarrow> season_entry_ok e"
  using ParseSeasonNumber_ok
  by (auto simp: ParseSeasonEntry_def season_entry_ok_def Let_def split: option.splits if_splits)

lemma parse_seasons_ok:
  "parse_seasons items seen = Some es \<Longrightarrow>
     list_all season_entry_ok es \<and> distinct (map se_season es) \<and> se_season ` set es \<inter> seen = {} \<and>
     length es = length items"
  by (induction items seen arbitrary: es rule: parse_seasons.induct)
    (fastforce dest: ParseSeasonEntry_ok split: option.splits if_splits)+

lemma ParseSeasonConfig_ok: "ParseSeasonConfig v = Some s \<Longrightarrow> season_config_ok s"
  by (auto simp: ParseSeasonConfig_def season_config_ok_def
      dest!: ParseSeasonNumber_ok ParseSeasonEntry_ok parse_seasons_ok
      split: option.splits json.splits if_splits)

lemma read_announcements_ok:
  "read_announcements v = Inr anns \<Longrightarrow>
     list_all announcement_ok anns \<and> length anns \<le> kMaxAnnouncements"
  by (cases v) (auto simp: read_announcements_def dest: parse_announcements_ok split: if_splits)

lemma read_min_supported_version_ok:
  "read_min_supported_version v = Inr s \<Longrightarrow> s = [] \<or> IsValidVersionString s"
  by (cases v) (auto simp: read_min_supported_version_def split: if_splits)

lemma read_min_version_message_ok: "read_min_version_message v = Inr s \<Longrightarrow> length s \<le> 300"
  by (cases v) (auto simp: read_min_version_message_def split: if_splits)

lemma config_of_json_ok: "config_of_json j = Inr c \<Longrightarrow> config_ok c"
proof -
  assume "config_of_json j = Inr c"
  then obtain ttl anns version message where r:
    "optional j ''ttl_seconds'' kDefaultTtlSeconds read_ttl_seconds = Inr ttl"
    "optional j ''announcements'' [] read_announcements = Inr anns"
    "optional j ''min_supported_version'' [] read_min_supported_version = Inr version"
    "optional j ''min_version_message'' [] read_min_version_message = Inr message"
    and c: "c = \<lparr>rc_schema = 1, rc_ttl_seconds = ttl, rc_announcements = anns,
      rc_min_supported_version = version, rc_min_version_message = message,
      rc_season = Option.bind (Child j ''season'') ParseSeasonConfig\<rparr>"
    by (auto simp: config_of_json_def andThen_Inr split: if_splits)
  have "kMinTtlSeconds \<le> ttl \<and> ttl \<le> kMaxTtlSeconds"
    using r(1) read_ttl_seconds_ok by (auto simp: optional_Inr config_limits)
  moreover have "list_all announcement_ok anns \<and> length anns \<le> kMaxAnnouncements"
    using r(2) read_announcements_ok by (auto simp: optional_Inr)
  moreover have "version = [] \<or> IsValidVersionString version"
    using r(3) read_min_supported_version_ok by (auto simp: optional_Inr)
  moreover have "length message \<le> 300"
    using r(4) read_min_version_message_ok by (auto simp: optional_Inr)
  moreover have "season_config_ok s" if "rc_season c = Some s" for s
    using that by (auto simp: c bind_eq_Some_conv dest: ParseSeasonConfig_ok)
  ultimately show ?thesis by (auto simp: config_ok_def c split: option.splits)
qed

section \<open>Reading back a written configuration\<close>

lemma read_announcement_json:
  assumes "announcement_ok a"
  shows "parse_announcement (announcement_json a) = Inr a"
proof -
  have "length (an_link_url a) \<le> 512" if "IsAllowedAnnouncementLinkUrl (an_link_url a)"
    using that by (simp add: IsAllowedAnnouncementLinkUrl_def)
  then show ?thesis
    using assms
    by (cases a) (auto simp: announcement_ok_def parse_announcement_def announcement_json_def
        required_def string_field_def optional_def check_text_def read_link_url_def
        read_dismissible_def read_ends_at_def)
qed

lemma read_announcements_json:
  "list_all announcement_ok as \<Longrightarrow> length kept + length as \<le> kMaxAnnouncements \<Longrightarrow>
   parse_announcements (map announcement_json as) kept = Inr (kept @ as)"
  by (induction as arbitrary: kept) (simp_all add: read_announcement_json)

lemma read_season_entry:
  assumes "season_entry_ok e"
  shows "ParseSeasonEntry (SerializeSeasonEntry e) True = Some e"
    and "ParseSeasonEntry (JObject (um_erase ''source'' (season_fields e))) False = Some (unsourced e)"
  using assms
  by (cases e; auto simp: season_entry_ok_def ParseSeasonEntry_def SerializeSeasonEntry_def
      season_fields_def ParseSeasonNumber_def string_field_def small_int32 um_simps unsourced_def
      Let_def split: option.splits)+

lemma read_seasons:
  "list_all season_entry_ok es \<Longrightarrow> distinct (map se_season es) \<Longrightarrow> se_season ` set es \<inter> seen = {} \<Longrightarrow>
   parse_seasons (map SerializeSeasonEntry es) seen = Some es"
  by (induction es arbitrary: seen) (auto simp: read_season_entry)

lemma read_season_json:
  assumes "season_config_ok s"
  shows "ParseSeasonConfig (season_json s) = Some (s\<lparr>sc_next := map_option unsourced (sc_next s)\<rparr>)"
proof -
  have "parse_seasons (map SerializeSeasonEntry (sc_seasons s)) {} = Some (sc_seasons s)"
    using assms by (simp add: season_config_ok_def read_seasons)
  moreover have "ParseSeasonNumber (Some (JInt (sc_current s))) = Some (sc_current s)"
    using assms by (simp add: season_config_ok_def ParseSeasonNumber_def small_int32)
  ultimately show ?thesis
    using assms
    by (cases s; cases "sc_next s")
      (auto simp: season_config_ok_def ParseSeasonConfig_def season_json_def read_season_entry
        unsourced_def)
qed

lemma read_config_json:
  assumes "config_ok c"
  shows "config_of_json (SerializeConfigJson c) = Inr (cached c)"
proof -
  have ok: "rc_schema c = 1" "ClampTtlSeconds (rc_ttl_seconds c) = rc_ttl_seconds c"
    "to_int32 (rc_ttl_seconds c) = rc_ttl_seconds c"
    "parse_announcements (map announcement_json (rc_announcements c)) [] = Inr (rc_announcements c)"
    "\<not> kMaxAnnouncementsInPayload < length (rc_announcements c)"
    "rc_min_supported_version c = [] \<or> IsValidVersionString (rc_min_supported_version c)"
    "length (rc_min_version_message c) \<le> 300"
    using assms
    by (auto simp: config_ok_def ClampTtlSeconds_id read_announcements_json small_int32 config_limits)
  have version: "read_min_supported_version (JString (rc_min_supported_version c)) =
    Inr (rc_min_supported_version c)"
    using ok(6) by (auto simp: read_min_supported_version_def IsValidVersionString_def)
  have season: "Option.bind (map_option season_json (rc_season c)) ParseSeasonConfig =
    rc_season (cached c)"
    using assms by (auto simp: config_ok_def cached_def read_season_json split: option.splits)
  have fields: "Child (SerializeConfigJson c) ''season'' = map_option season_json (rc_season c)"
    by (simp add: SerializeConfigJson_def split: option.splits)
  show ?thesis
    using ok version season fields
    by (cases c) (simp add: config_of_json_def SerializeConfigJson_def int_field_def optional_def
        read_ttl_seconds_def read_announcements_def read_min_version_message_def small_int32
        cached_def)
qed

section \<open>The order of versions\<close>

text \<open>The reference: the numbers between the dots, filled up with zeros to four.\<close>

fun version_numbers :: "string \<Rightarrow> int \<Rightarrow> int list" where
  "version_numbers [] n = [n]"
| "version_numbers (c # cs) n =
     (if c = CHR ''.'' then n # version_numbers cs 0 else version_numbers cs (10 * n + digit_value c))"

definition version_of :: "string \<Rightarrow> int list" where
  "version_of v = take 4 (version_numbers v 0 @ replicate 4 0)"

text \<open>The sign of a lexicographic comparison.\<close>

definition lex_sign :: "int list \<Rightarrow> int list \<Rightarrow> int" where
  "lex_sign xs ys = (if xs < ys then -1 else if ys < xs then 1 else 0)"

lemma compare_parts_lex:
  "length xs = length ys \<Longrightarrow> compare_parts (zip xs ys) = lex_sign xs ys"
  by (induction xs ys rule: list_induct2) (auto simp: lex_sign_def)

lemma digit_value_range: "is_digit c \<Longrightarrow> 0 \<le> digit_value c \<and> digit_value c \<le> 9"
proof -
  assume "is_digit c"
  then have "48 \<le> (of_char c :: nat)" "(of_char c :: nat) \<le> 57"
    by (auto simp: is_digit_def less_eq_char_def)
  then show ?thesis 
    by (auto simp: digit_value_def of_nat_of_char[where 'a = int, symmetric] simp del: of_nat_of_char)
qed

lemma valid_version_dots: "valid_version cs dots len \<Longrightarrow> dots \<le> 3"
  by (induction cs dots len rule: valid_version.induct) (auto split: if_splits)

lemma fill_part:
  "length ns < 4 \<Longrightarrow>
     (ns @ replicate (4 - length ns) 0)[length ns := n] = (ns @ [n]) @ replicate (3 - length ns) 0"
proof -
  assume "length ns < 4"
  then obtain k where "4 - length ns = Suc k" "3 - length ns = k" by (cases "4 - length ns") auto
  then show ?thesis by (simp add: list_update_append)
qed

text \<open>
  Reading the rest of a valid version after the numbers \<open>ns\<close>: with at most six digits to a number,
  none is cut off.
\<close>

lemma parse_parts_version:
  assumes "valid_version cs (length ns) len" "0 \<le> n" "n < 10 ^ len"
  shows "parse_parts cs (ns @ replicate (4 - length ns) 0) (length ns) n (0 < len) =
    take 4 (ns @ version_numbers cs n @ replicate 4 0)"
  using assms
proof (induction cs arbitrary: ns n len)
  case Nil
  then have "length ns < 4" by auto
  then obtain k where k: "4 - length ns = Suc k" "3 - length ns = k" "k \<le> 4" "length ns \<le> 4"
    by (cases "4 - length ns") auto
  then have "take 4 (ns @ version_numbers [] n @ replicate 4 0) = ns @ n # replicate k 0"
    by (simp add: min_def)
  then show ?case
    using Nil \<open>length ns < 4\<close> k by (simp add: list_update_append)
next
  case (Cons c cs)
  have dots: "length ns < 4" using valid_version_dots[OF Cons.prems(1)] by simp
  show ?case
  proof (cases "c = CHR ''.''")
    case True
    then have "valid_version cs (length (ns @ [n])) 0" "0 < len"
      using Cons.prems by (auto split: if_splits)
    then show ?thesis
      using Cons.IH[of "ns @ [n]" 0 0] True dots by (simp add: fill_part)
  next
    case False
    then have c: "is_digit c" "len < 6" "valid_version cs (length ns) (Suc len)"
      using Cons.prems by (auto split: if_splits)
    then have d: "0 \<le> digit_value c" "digit_value c \<le> 9" using digit_value_range by auto
    have "(10 :: int) ^ len \<le> 10 ^ 5" using c by (intro power_increasing) auto
    then have "n \<le> 999999" using Cons.prems by simp
    then show ?thesis
      using Cons.IH[OF c(3), of "10 * n + digit_value c"] Cons.prems False c d
      by (simp add: algebra_simps)
  qed
qed

lemma parseParts_version:
  assumes "IsValidVersionString v"
  shows "parseParts v = version_of v"
proof -
  have "v \<noteq> [] \<Longrightarrow> hd v \<noteq> CHR ''v'' \<and> hd v \<noteq> CHR ''V''"
    using assms by (cases v) (auto simp: IsValidVersionString_def is_digit_def less_eq_char_def
        split: if_splits)
  then show ?thesis
    using assms parse_parts_version[of v "[]" 0 0]
    by (auto simp: parseParts_def version_of_def IsValidVersionString_def numeral_eq_Suc)
qed

section \<open>What is displayed\<close>

definition displayed :: "string set \<Rightarrow> int \<Rightarrow> RemoteAnnouncement \<Rightarrow> bool" where
  "displayed dismissedIds nowUnix a =
     (an_id a \<noteq> [] \<and> an_title a \<noteq> [] \<and> \<not> (an_dismissible a \<and> an_id a \<in> dismissedIds) \<and>
      \<not> announcement_expired nowUnix a)"

definition with_safe_link :: "RemoteAnnouncement \<Rightarrow> RemoteAnnouncement" where
  "with_safe_link a =
     (if an_link_url a = [] \<or> IsAllowedAnnouncementLinkUrl (an_link_url a) then a
      else a\<lparr>an_link_url := []\<rparr>)"

lemma filter_announcements_take:
  "length result < kMaxAnnouncements \<Longrightarrow>
   filter_announcements anns dismissedIds nowUnix result =
     take kMaxAnnouncements (result @ map with_safe_link (filter (displayed dismissedIds nowUnix) anns))"
  by (induction anns dismissedIds nowUnix result rule: filter_announcements.induct)
    (auto simp: displayed_def with_safe_link_def Let_def take_Cons')

section \<open>Properties\<close>

text \<open>
  C22: A configuration the reader accepts has every field within its bounds (the refresh interval, the
  announcements, their links, the version, the seasons), and the copy written to the cache is read
  back as the same configuration, except that the source of the next season is not kept.
\<close>

theorem accepted_config_survives_cache:
  assumes "ParseConfigJson parse text = Inr c"
    "parse (dump (SerializeConfigJson c)) = Some (SerializeConfigJson c)"
    "dump (SerializeConfigJson c) \<noteq> []"
    "length (dump (SerializeConfigJson c)) \<le> kMaxConfigPayloadBytes"
  shows "config_ok c \<and> ParseConfigJson parse (dump (SerializeConfigJson c)) = Inr (cached c)"
proof -
  have "config_ok c"
    using assms(1) config_of_json_ok by (auto simp: ParseConfigJson_def split: if_splits option.splits)
  then show ?thesis using assms(2-) by (simp add: ParseConfigJson_def read_config_json)
qed

definition sample_config :: RemoteConfigData where
  "sample_config = RemoteConfigData0
     \<lparr>rc_announcements :=
        [\<lparr>an_id = ''a1'', an_severity = ''info'', an_title = ''Cup'', an_body = [],
          an_link_url = ''https://discord.gg/x'', an_dismissible = True, an_ends_at = []\<rparr>],
      rc_min_supported_version := ''1.2'',
      rc_season := Some \<lparr>sc_current = 3, sc_seasons = [],
        sc_next = Some \<lparr>se_season = 4, se_starts_at = ''1970-01-01T00:00:00Z'',
          se_ends_at = ''1970-01-02T00:00:00Z'', se_source = ''admin''\<rparr>\<rparr>\<rparr>"

definition sample_payload :: json where
  "sample_payload =
     JObject
       [(''schema'', JInt 1),
        (''announcements'', JArray (map announcement_json (rc_announcements sample_config))),
        (''min_supported_version'', JString ''1.2''),
        (''season'',
         JObject
           [(''current'', JInt 3), (''seasons'', JArray []),
            (''next'',
             JObject
               [(''season'', JInt 4), (''starts_at'', JString ''1970-01-01T00:00:00Z''),
                (''ends_at'', JString ''1970-01-02T00:00:00Z''), (''source'', JString ''admin'')])])]"

theorem accepted_config_survives_cache_witness:
  "\<exists>parse dump c. ParseConfigJson parse ''payload'' = Inr c \<and> rc_season c \<noteq> None \<and>
     ParseConfigJson parse (dump (SerializeConfigJson c)) = Inr (cached c) \<and> cached c \<noteq> c"
proof -
  define parse where "parse = (\<lambda>t. if t = ''payload'' then Some sample_payload
    else Some (SerializeConfigJson sample_config))"
  define dump where "dump = (\<lambda>j :: json. ''cache'')"
  have "config_of_json sample_payload = Inr sample_config" by code_simp
  then have accepted: "ParseConfigJson parse ''payload'' = Inr sample_config"
    by (simp add: ParseConfigJson_def parse_def kMaxConfigPayloadBytes_def)
  have "cached sample_config \<noteq> sample_config" "rc_season sample_config \<noteq> None"
    by (simp_all add: cached_def sample_config_def unsourced_def RemoteConfigData0_def)
  moreover have "ParseConfigJson parse (dump (SerializeConfigJson sample_config)) = Inr (cached sample_config)"
    using accepted_config_survives_cache[OF accepted, of dump]
    by (simp add: parse_def dump_def kMaxConfigPayloadBytes_def)
  ultimately show ?thesis using accepted by blast
qed

text \<open>
  Two valid versions are compared as the sequences of their numbers, lexicographically, with
  missing numbers read as zero; no number is cut off.
\<close>

theorem versions_compare_numerically:
  assumes "IsValidVersionString a" "IsValidVersionString b"
  shows "CompareVersions a b = lex_sign (version_of a) (version_of b)"
  using assms by (simp add: CompareVersions_def parseParts_version compare_parts_lex version_of_def)

theorem versions_compare_numerically_witness:
  "CompareVersions ''1.10'' ''1.9.7'' = 1 \<and> version_of ''1.10'' = [1, 10, 0, 0] \<and>
   CompareVersions ''1.10'' ''1.9.7'' = lex_sign (version_of ''1.10'') (version_of ''1.9.7'')"
proof -
  have "IsValidVersionString ''1.10''" "IsValidVersionString ''1.9.7''" by code_simp+
  from versions_compare_numerically[OF this] show ?thesis by simp code_simp
qed

text \<open>
  The announcements on display are the first five that are complete, not dismissed (unless they
  cannot be) and not over, in their order; a link outside the allowed sites is taken away.
\<close>

theorem displayed_announcements:
  "FilterActiveAnnouncements anns dismissedIds nowUnix =
     take kMaxAnnouncements (map with_safe_link (filter (displayed dismissedIds nowUnix) anns))"
  by (simp add: FilterActiveAnnouncements_def filter_announcements_take kMaxAnnouncements_def)

end
