(* ===== verification/Config_Service.thy ===== *)
theory Config_Service
  imports Remote_Config
begin

text \<open>
  The service around the remote configuration (class \<open>RemoteConfig\<close> of
  \<open>network/api/RemoteConfig.cpp\<close>): its snapshot with a version number the interface watches, the
  copy on disk that is served for at most a day, the announcements the user dismissed, and the
  fetches of the worker. One call is one step: every method holds the lock of the object. Files are
  their contents (\<open>None\<close> without a file); the network, the clock and a disk that refuses writes are
  the input of a step. The JSON library's parser and printers are the fields of \<open>json_lib\<close>.
\<close>

record json_lib =
  jl_parse :: "string \<Rightarrow> json option"
  jl_read :: "string \<Rightarrow> json option"
  jl_dump :: "json \<Rightarrow> string"
  jl_dump2 :: "json \<Rightarrow> string"

text \<open>
  The members of the class and its two files. The dismissed ids are an \<open>unordered_set\<close>: \<open>order\<close>
  below, an argument of the operations that iterate over it, is the order of that iteration.
\<close>

record RemoteConfig =
  m_snapshot :: RemoteConfigData
  m_lastFetchedAt :: int
  m_hasCachedSnapshot :: bool
  m_dismissedIds :: "string set"
  m_dismissedLoaded :: bool
  m_version :: "64 word"
  m_running :: bool
  m_stopRequested :: bool
  cache_file :: "string option"
  dismissed_file :: "string option"

definition RemoteConfig0 :: "string option \<Rightarrow> string option \<Rightarrow> RemoteConfig" where
  "RemoteConfig0 cache dismissed =
     \<lparr>m_snapshot = RemoteConfigData0, m_lastFetchedAt = 0, m_hasCachedSnapshot = False,
      m_dismissedIds = {}, m_dismissedLoaded = False, m_version = 1, m_running = False,
      m_stopRequested = False, cache_file = cache, dismissed_file = dismissed\<rparr>"

text \<open>The outcome of \<open>OmniNet::Send\<close>.\<close>

record Response =
  resp_transportError :: int
  resp_status :: int
  resp_body :: string

section \<open>The cached copy\<close>

text \<open>\<open>get<int64_t>\<close> of an integer of the library keeps its low 64 bits.\<close>

definition to_int64 :: "int \<Rightarrow> int" where
  "to_int64 i = signed_take_bit 63 i"

definition LoadCachedConfigLocked :: "json_lib \<Rightarrow> RemoteConfig \<Rightarrow> (RemoteConfigData \<times> int) option" where
  "LoadCachedConfigLocked lib rc =
     (case cache_file rc of
        None \<Rightarrow> None
      | Some text \<Rightarrow>
          if length text = 0 \<or> kMaxConfigPayloadBytes * 2 < length text then None
          else case jl_read lib text of
                 None \<Rightarrow> None
               | Some wrapper \<Rightarrow>
                   (case (int_field wrapper ''fetched_at'', Child wrapper ''config'') of
                      (Some stamp, Some (JObject fs)) \<Rightarrow>
                        if to_int64 stamp \<le> 0 then None
                        else (case ParseConfigJson (jl_parse lib) (jl_dump lib (JObject fs)) of
                                Inl msg \<Rightarrow> None
                              | Inr parsed \<Rightarrow> Some (parsed, to_int64 stamp))
                    | _ \<Rightarrow> None))"

definition SaveCachedConfigLocked ::
  "json_lib \<Rightarrow> bool \<Rightarrow> RemoteConfigData \<Rightarrow> int \<Rightarrow> RemoteConfig \<Rightarrow> RemoteConfig" where
  "SaveCachedConfigLocked lib writable config fetchedAt rc =
     (if writable
      then rc\<lparr>cache_file := Some (jl_dump2 lib (JObject
             [(''fetched_at'', JInt fetchedAt), (''config'', SerializeConfigJson config)]))\<rparr>
      else rc)"

text \<open>The age check, the same at start and after a failed fetch.\<close>

definition fresh_at :: "int \<Rightarrow> int \<Rightarrow> bool" where
  "fresh_at now fetchedAt =
     (0 < fetchedAt \<and> fetchedAt \<le> now \<and> now - fetchedAt < kMaxCacheAgeSeconds)"

definition fresh_cache :: "json_lib \<Rightarrow> int \<Rightarrow> RemoteConfig \<Rightarrow> (RemoteConfigData \<times> int) option" where
  "fresh_cache lib now rc =
     (case LoadCachedConfigLocked lib rc of
        Some (config, fetchedAt) \<Rightarrow> if fresh_at now fetchedAt then Some (config, fetchedAt) else None
      | None \<Rightarrow> None)"

section \<open>Dismissed announcements\<close>

fun load_ids :: "json list \<Rightarrow> string set \<Rightarrow> string set" where
  "load_ids [] ids = ids"
| "load_ids (item # items) ids =
     (case item of
        JString i \<Rightarrow>
          load_ids items (if i \<noteq> [] \<and> length i \<le> 64 \<and> card ids < kMaxDismissedIds
                          then insert i ids else ids)
      | _ \<Rightarrow> load_ids items ids)"

definition LoadDismissedLocked :: "json_lib \<Rightarrow> RemoteConfig \<Rightarrow> RemoteConfig" where
  "LoadDismissedLocked lib rc =
     (let rc = rc\<lparr>m_dismissedLoaded := True, m_dismissedIds := {}\<rparr>
      in case dismissed_file rc of
           None \<Rightarrow> rc
         | Some text \<Rightarrow>
             if length text = 0 \<or> 32768 < length text then rc
             else case jl_read lib text of
                    None \<Rightarrow> rc
                  | Some j \<Rightarrow>
                      (case Child j ''dismissed'' of
                         Some (JArray items) \<Rightarrow> rc\<lparr>m_dismissedIds := load_ids items {}\<rparr>
                       | _ \<Rightarrow> rc))"

definition load_if_needed :: "json_lib \<Rightarrow> RemoteConfig \<Rightarrow> RemoteConfig" where
  "load_if_needed lib rc = (if m_dismissedLoaded rc then rc else LoadDismissedLocked lib rc)"

definition SaveDismissedLocked ::
  "json_lib \<Rightarrow> (string set \<Rightarrow> string list) \<Rightarrow> bool \<Rightarrow> RemoteConfig \<Rightarrow> RemoteConfig" where
  "SaveDismissedLocked lib order writable rc =
     (if writable
      then rc\<lparr>dismissed_file := Some (jl_dump lib (JObject
             [(''dismissed'', JArray (map JString (order (m_dismissedIds rc))))]))\<rparr>
      else rc)"

definition DismissAnnouncement ::
  "json_lib \<Rightarrow> (string set \<Rightarrow> string list) \<Rightarrow> bool \<Rightarrow> string \<Rightarrow> RemoteConfig \<Rightarrow> RemoteConfig" where
  "DismissAnnouncement lib order writable ident rc =
     (if ident = [] \<or> 64 < length ident then rc
      else
        let rc = load_if_needed lib rc;
            ids = (if kMaxDismissedIds \<le> card (m_dismissedIds rc) \<and> ident \<notin> m_dismissedIds rc
                   then m_dismissedIds rc - {hd (order (m_dismissedIds rc))}
                   else m_dismissedIds rc)
        in if ident \<in> ids then rc
           else let rc = SaveDismissedLocked lib order writable (rc\<lparr>m_dismissedIds := insert ident ids\<rparr>)
                in rc\<lparr>m_version := m_version rc + 1\<rparr>)"

definition ClearDismissedAnnouncements ::
  "json_lib \<Rightarrow> (string set \<Rightarrow> string list) \<Rightarrow> bool \<Rightarrow> RemoteConfig \<Rightarrow> RemoteConfig" where
  "ClearDismissedAnnouncements lib order writable rc =
     (let rc = SaveDismissedLocked lib order writable
                 (rc\<lparr>m_dismissedIds := {}, m_dismissedLoaded := True\<rparr>)
      in rc\<lparr>m_version := m_version rc + 1\<rparr>)"

definition IsAnnouncementDismissed :: "json_lib \<Rightarrow> string \<Rightarrow> RemoteConfig \<Rightarrow> bool \<times> RemoteConfig" where
  "IsAnnouncementDismissed lib ident rc =
     (let rc = load_if_needed lib rc in (ident \<in> m_dismissedIds rc, rc))"

definition ActiveAnnouncements ::
  "json_lib \<Rightarrow> int \<Rightarrow> int \<Rightarrow> RemoteConfig \<Rightarrow> RemoteAnnouncement list \<times> RemoteConfig" where
  "ActiveAnnouncements lib clock nowUnix rc =
     (let effectiveNow = (if 0 < nowUnix then nowUnix else clock);
          rc = load_if_needed lib rc
      in (FilterActiveAnnouncements (rc_announcements (m_snapshot rc)) (m_dismissedIds rc) effectiveNow,
          rc))"

text \<open>\<open>AppVersion::Current\<close> is the argument \<open>own\<close>.\<close>

definition IsBelowMinSupportedVersion :: "string \<Rightarrow> string \<Rightarrow> RemoteConfig \<Rightarrow> bool" where
  "IsBelowMinSupportedVersion own currentVersion rc =
     IsVersionBelowMinimum (if currentVersion = [] then own else currentVersion)
       (rc_min_supported_version (m_snapshot rc))"

section \<open>The worker\<close>

text \<open>A new snapshot; the second component of a step is what the snapshot callback is given.\<close>

definition Start ::
  "json_lib \<Rightarrow> bool \<Rightarrow> int \<Rightarrow> RemoteConfig \<Rightarrow> RemoteConfig \<times> RemoteConfigData list" where
  "Start lib enableWorker now rc =
     (let rc = LoadDismissedLocked lib rc;
          (rc, calls) =
            (case fresh_cache lib now rc of
               None \<Rightarrow> (rc, [])
             | Some (config, fetchedAt) \<Rightarrow>
                 (rc\<lparr>m_snapshot := config, m_lastFetchedAt := fetchedAt, m_hasCachedSnapshot := True,
                     m_version := m_version rc + 1\<rparr>, [config]))
      in if \<not> enableWorker \<or> m_running rc then (rc, calls)
         else (rc\<lparr>m_stopRequested := False, m_running := True\<rparr>, calls))"

definition Shutdown :: "RemoteConfig \<Rightarrow> RemoteConfig" where
  "Shutdown rc = rc\<lparr>m_stopRequested := True, m_running := False\<rparr>"

definition adopt :: "RemoteConfigData \<Rightarrow> int \<Rightarrow> bool \<Rightarrow> RemoteConfig \<Rightarrow> RemoteConfig" where
  "adopt config fetchedAt hasCached rc =
     rc\<lparr>m_snapshot := config, m_lastFetchedAt := fetchedAt, m_hasCachedSnapshot := hasCached,
        m_version := (if m_snapshot rc = config then m_version rc else m_version rc + 1)\<rparr>"

text \<open>\<open>network\<close> is \<open>None\<close> where \<open>OmniNet\<close> is not available.\<close>

definition FetchOnce ::
  "json_lib \<Rightarrow> Response option \<Rightarrow> bool \<Rightarrow> int \<Rightarrow> RemoteConfig
     \<Rightarrow> bool \<times> RemoteConfig \<times> RemoteConfigData list" where
  "FetchOnce lib network writable now rc =
     (case network of
        None \<Rightarrow> (False, rc, [])
      | Some resp \<Rightarrow>
          (case (if resp_transportError resp = 0 \<and> resp_status resp = 200
                 then ParseConfigJson (jl_parse lib) (resp_body resp) else Inl []) of
             Inr parsed \<Rightarrow>
               (True, SaveCachedConfigLocked lib writable parsed now (adopt parsed now True rc), [parsed])
           | Inl msg \<Rightarrow>
               if m_hasCachedSnapshot rc \<and> fresh_at now (m_lastFetchedAt rc) then (False, rc, [])
               else (case fresh_cache lib now rc of
                       Some (config, fetchedAt) \<Rightarrow> (False, adopt config fetchedAt True rc, [])
                     | None \<Rightarrow> (False, adopt RemoteConfigData0 0 False rc, []))))"

text \<open>The seconds the worker sleeps between two fetches.\<close>

definition worker_pause :: "RemoteConfig \<Rightarrow> int" where
  "worker_pause rc = ClampTtlSeconds (rc_ttl_seconds (m_snapshot rc))"

section \<open>Runs\<close>

datatype config_call =
    CStart bool int
  | CFetch "Response option" bool int
  | CShutdown
  | CDismiss bool string
  | CClear bool
  | CActive int int
  | CIsDismissed string

fun config_step :: "json_lib \<Rightarrow> (string set \<Rightarrow> string list) \<Rightarrow> config_call \<Rightarrow> RemoteConfig \<Rightarrow> RemoteConfig" where
  "config_step lib order (CStart worker now) rc = fst (Start lib worker now rc)"
| "config_step lib order (CFetch network writable now) rc = fst (snd (FetchOnce lib network writable now rc))"
| "config_step lib order CShutdown rc = Shutdown rc"
| "config_step lib order (CDismiss writable ident) rc = DismissAnnouncement lib order writable ident rc"
| "config_step lib order (CClear writable) rc = ClearDismissedAnnouncements lib order writable rc"
| "config_step lib order (CActive clock now) rc = snd (ActiveAnnouncements lib clock now rc)"
| "config_step lib order (CIsDismissed ident) rc = snd (IsAnnouncementDismissed lib ident rc)"

text \<open>
  What every step keeps: the snapshot is one the reader accepted or the default, and there are at
  most 256 dismissed ids, each of 1 to 64 bytes.
\<close>

definition ids_ok :: "string set \<Rightarrow> bool" where
  "ids_ok ids =
     (finite ids \<and> card ids \<le> kMaxDismissedIds \<and> (\<forall>i \<in> ids. i \<noteq> [] \<and> length i \<le> 64))"

definition service_ok :: "RemoteConfig \<Rightarrow> bool" where
  "service_ok rc =
     (config_ok (m_snapshot rc) \<and>
      (m_hasCachedSnapshot rc \<or> m_snapshot rc = RemoteConfigData0) \<and>
      ids_ok (m_dismissedIds rc))"

text \<open>\<open>order\<close> lists the elements of a set.\<close>

definition lists_ids :: "(string set \<Rightarrow> string list) \<Rightarrow> bool" where
  "lists_ids order = (\<forall>S. finite S \<longrightarrow> set (order S) = S)"

lemma config_ok_default: "config_ok RemoteConfigData0"
  by (simp add: config_ok_def RemoteConfigData0_def config_limits)

lemma ParseConfigJson_ok: "ParseConfigJson parse text = Inr c \<Longrightarrow> config_ok c"
  by (auto simp: ParseConfigJson_def dest: config_of_json_ok split: if_splits option.splits)

lemma ids_ok_empty [simp]: "ids_ok {}"
  by (simp add: ids_ok_def)

lemma ids_ok_insert:
  "ids_ok ids \<Longrightarrow> i \<noteq> [] \<Longrightarrow> length i \<le> 64 \<Longrightarrow> card ids < kMaxDismissedIds \<Longrightarrow> ids_ok (insert i ids)"
  by (simp add: ids_ok_def card_insert_if)

lemma load_ids_ok: "ids_ok ids \<Longrightarrow> ids_ok (load_ids items ids)"
  by (induction items arbitrary: ids) (simp_all add: ids_ok_insert split: json.split)

lemma LoadDismissedLocked_ids:
  obtains items where
    "LoadDismissedLocked lib rc = rc\<lparr>m_dismissedLoaded := True, m_dismissedIds := load_ids items {}\<rparr>"
proof -
  have "\<exists>items. (case v of Some (JArray items) \<Rightarrow> rc'\<lparr>m_dismissedIds := load_ids items {}\<rparr> | _ \<Rightarrow> rc') =
      rc'\<lparr>m_dismissedIds := load_ids items {}\<rparr>" if "m_dismissedIds rc' = {}" for v and rc' :: RemoteConfig
  proof (cases "\<exists>items. v = Some (JArray items)")
    case False
    then have "(case v of Some (JArray items) \<Rightarrow> rc'\<lparr>m_dismissedIds := load_ids items {}\<rparr> | _ \<Rightarrow> rc') = rc'"
      by (simp split: option.split json.split)
    with that show ?thesis by (intro exI[of _ "[]"]) simp
  qed auto
  note array = this[of "rc\<lparr>m_dismissedLoaded := True, m_dismissedIds := {}\<rparr>"]
  have none: "\<exists>items. rc\<lparr>m_dismissedLoaded := True, m_dismissedIds := {}\<rparr> =
      rc\<lparr>m_dismissedLoaded := True, m_dismissedIds := load_ids items {}\<rparr>"
    by (intro exI[of _ "[]"]) simp
  have "\<exists>items. LoadDismissedLocked lib rc =
      rc\<lparr>m_dismissedLoaded := True, m_dismissedIds := load_ids items {}\<rparr>"
  proof (cases "dismissed_file rc")
    case (Some body)
    show ?thesis
    proof (cases "body = [] \<or> 32768 < length body \<or> jl_read lib body = None")
      case True
      then show ?thesis using none by (auto simp: LoadDismissedLocked_def Let_def Some)
    next
      case False
      then show ?thesis using array by (auto simp: LoadDismissedLocked_def Let_def Some)
    qed
  qed (use none in \<open>simp add: LoadDismissedLocked_def Let_def\<close>)
  then show ?thesis using that by blast
qed

lemma LoadDismissedLocked_ok: "service_ok rc \<Longrightarrow> service_ok (LoadDismissedLocked lib rc)"
  using load_ids_ok[of "{}"]
  by (cases rule: LoadDismissedLocked_ids[of lib rc]) (simp add: service_ok_def)

lemma LoadDismissedLocked_frame [simp]:
  "m_snapshot (LoadDismissedLocked lib rc) = m_snapshot rc"
  "m_version (LoadDismissedLocked lib rc) = m_version rc"
  "m_hasCachedSnapshot (LoadDismissedLocked lib rc) = m_hasCachedSnapshot rc"
  "m_lastFetchedAt (LoadDismissedLocked lib rc) = m_lastFetchedAt rc"
  "cache_file (LoadDismissedLocked lib rc) = cache_file rc"
  "m_running (LoadDismissedLocked lib rc) = m_running rc"
  "m_dismissedLoaded (LoadDismissedLocked lib rc)"
  by (cases rule: LoadDismissedLocked_ids[of lib rc], simp)+

lemma fresh_cache_ok:
  "fresh_cache lib now rc = Some (config, stamp) \<Longrightarrow> config_ok config \<and> fresh_at now stamp"
  by (auto simp: fresh_cache_def LoadCachedConfigLocked_def dest: ParseConfigJson_ok
      split: option.splits if_splits json.splits sum.splits)

lemma adopt_ok:
  "service_ok rc \<Longrightarrow> config_ok config \<Longrightarrow> hasCached \<or> config = RemoteConfigData0 \<Longrightarrow>
     service_ok (adopt config t hasCached rc)"
  by (auto simp: service_ok_def adopt_def)

lemma saves_ok:
  "service_ok (SaveCachedConfigLocked lib w c t rc) = service_ok rc"
  "service_ok (SaveDismissedLocked lib order w rc) = service_ok rc"
  by (simp_all add: service_ok_def SaveCachedConfigLocked_def SaveDismissedLocked_def)

lemma saves_frame [simp]:
  "m_snapshot (SaveCachedConfigLocked lib w c t rc) = m_snapshot rc"
  "m_version (SaveCachedConfigLocked lib w c t rc) = m_version rc"
  "m_lastFetchedAt (SaveCachedConfigLocked lib w c t rc) = m_lastFetchedAt rc"
  "m_snapshot (SaveDismissedLocked lib order w rc) = m_snapshot rc"
  "m_version (SaveDismissedLocked lib order w rc) = m_version rc"
  by (simp_all add: SaveCachedConfigLocked_def SaveDismissedLocked_def)

lemma version_ok: "service_ok (rc\<lparr>m_version := v\<rparr>) = service_ok rc"
  by (simp add: service_ok_def)

lemma load_if_needed_ok: "service_ok rc \<Longrightarrow> service_ok (load_if_needed lib rc)"
  by (simp add: load_if_needed_def LoadDismissedLocked_ok)

lemma load_if_needed_frame [simp]:
  "m_snapshot (load_if_needed lib rc) = m_snapshot rc"
  "m_version (load_if_needed lib rc) = m_version rc"
  by (simp_all add: load_if_needed_def)

text \<open>A new id takes the place of an old one when the list is full.\<close>

lemma make_room:
  assumes "service_ok rc" "lists_ids order" "ident \<notin> m_dismissedIds rc"
  shows "card (insert ident (if kMaxDismissedIds \<le> card (m_dismissedIds rc)
      then m_dismissedIds rc - {hd (order (m_dismissedIds rc))} else m_dismissedIds rc)) \<le> kMaxDismissedIds"
proof (cases "kMaxDismissedIds \<le> card (m_dismissedIds rc)")
  case True
  have fin: "finite (m_dismissedIds rc)" "card (m_dismissedIds rc) \<le> kMaxDismissedIds"
    using assms by (auto simp: service_ok_def ids_ok_def)
  then have "m_dismissedIds rc \<noteq> {}" using True by (auto simp: kMaxDismissedIds_def)
  then have "hd (order (m_dismissedIds rc)) \<in> m_dismissedIds rc"
    using assms(2) fin by (metis lists_ids_def hd_in_set set_empty)
  then show ?thesis using True fin assms(3) by (simp add: card_insert_if kMaxDismissedIds_def)
next
  case False
  then show ?thesis using assms by (simp add: service_ok_def ids_ok_def card_insert_if)
qed

lemma DismissAnnouncement_ok:
  assumes "service_ok rc" "lists_ids order"
  shows "service_ok (DismissAnnouncement lib order writable ident rc)"
proof -
  define rc' where "rc' = load_if_needed lib rc"
  define ids where "ids = (if kMaxDismissedIds \<le> card (m_dismissedIds rc') \<and> ident \<notin> m_dismissedIds rc'
    then m_dismissedIds rc' - {hd (order (m_dismissedIds rc'))} else m_dismissedIds rc')"
  have ok: "service_ok rc'" using assms by (simp add: rc'_def load_if_needed_ok)
  show ?thesis
  proof (cases "ident = [] \<or> 64 < length ident \<or> ident \<in> ids")
    case True
    then show ?thesis
      using assms ok by (auto simp: DismissAnnouncement_def Let_def simp flip: rc'_def ids_def)
  next
    case False
    then have new: "ident \<notin> m_dismissedIds rc' \<or> ident \<in> m_dismissedIds rc' \<and> ident \<notin> ids" by auto
    then have "ident \<notin> m_dismissedIds rc'" by (auto simp: ids_def)
    then have "card (insert ident ids) \<le> kMaxDismissedIds"
      using make_room[OF ok assms(2), of ident] by (simp add: ids_def split: if_splits)
    moreover have "finite ids" "ids \<subseteq> m_dismissedIds rc'"
      using ok by (auto simp: ids_def service_ok_def ids_ok_def)
    ultimately have "service_ok (rc'\<lparr>m_dismissedIds := insert ident ids\<rparr>)"
      using ok False by (auto simp: service_ok_def ids_ok_def)
    then show ?thesis
      using False by (simp add: DismissAnnouncement_def Let_def version_ok saves_ok flip: rc'_def ids_def)
  qed
qed

lemma Start_ok: "service_ok rc \<Longrightarrow> service_ok (fst (Start lib worker now rc))"
  using LoadDismissedLocked_ok[of rc lib]
  by (auto simp: Start_def Let_def service_ok_def dest!: fresh_cache_ok split: option.splits)

lemma FetchOnce_ok: "service_ok rc \<Longrightarrow> service_ok (fst (snd (FetchOnce lib network writable now rc)))"
  by (auto simp: FetchOnce_def saves_ok intro!: adopt_ok config_ok_default
      dest!: fresh_cache_ok dest: ParseConfigJson_ok split: option.splits sum.splits if_splits)

lemma config_step_ok:
  assumes "lists_ids order \<and> service_ok rc"
  shows "lists_ids order \<and> service_ok (config_step lib order step rc)"
  using assms
  by (cases step)
    (auto simp: Start_ok FetchOnce_ok DismissAnnouncement_ok load_if_needed_ok Shutdown_def
      ClearDismissedAnnouncements_def ActiveAnnouncements_def IsAnnouncementDismissed_def Let_def
      version_ok saves_ok, auto simp: service_ok_def)

interpretation cfg: invariant_machine "config_step lib order" "\<lambda>rc. lists_ids order \<and> service_ok rc"
  for lib order
  by unfold_locales (rule config_step_ok)

lemma adopt_frame [simp]:
  "m_snapshot (adopt config t h rc) = config" "m_lastFetchedAt (adopt config t h rc) = t"
  by (simp_all add: adopt_def)

lemma next_version: "(v :: 64 word) + 1 \<noteq> v"
  by simp

lemma adopt_version: "config \<noteq> m_snapshot rc \<Longrightarrow> m_version (adopt config t h rc) \<noteq> m_version rc"
  by (simp add: adopt_def)

lemma FetchOnce_version:
  "m_snapshot (fst (snd (FetchOnce lib network w now rc))) \<noteq> m_snapshot rc \<Longrightarrow>
   m_version (fst (snd (FetchOnce lib network w now rc))) \<noteq> m_version rc"
  by (auto simp: FetchOnce_def adopt_version split: option.splits sum.splits if_splits)

text \<open>The cached copy read back.\<close>

definition cache_wrapper :: "RemoteConfigData \<Rightarrow> int \<Rightarrow> json" where
  "cache_wrapper config t = JObject [(''fetched_at'', JInt t), (''config'', SerializeConfigJson config)]"

lemma load_saved:
  assumes "config_ok config" "0 < t" "t < 2 ^ 63"
    and saved: "cache_file rc = Some (jl_dump2 lib (cache_wrapper config t))"
      "jl_dump2 lib (cache_wrapper config t) \<noteq> []"
      "length (jl_dump2 lib (cache_wrapper config t)) \<le> kMaxConfigPayloadBytes * 2"
    and outer: "jl_read lib (jl_dump2 lib (cache_wrapper config t)) = Some (cache_wrapper config t)"
    and inner: "jl_dump lib (SerializeConfigJson config) \<noteq> []"
      "length (jl_dump lib (SerializeConfigJson config)) \<le> kMaxConfigPayloadBytes"
      "jl_parse lib (jl_dump lib (SerializeConfigJson config)) = Some (SerializeConfigJson config)"
  shows "LoadCachedConfigLocked lib rc = Some (cached config, t)"
proof -
  have "to_int64 t = t" using assms(2,3) by (simp add: to_int64_def signed_take_bit_int_eq_self)
  moreover obtain fs where fs: "SerializeConfigJson config = JObject fs"
    by (simp add: SerializeConfigJson_def)
  moreover have "ParseConfigJson (jl_parse lib) (jl_dump lib (SerializeConfigJson config)) =
    Inr (cached config)"
    using inner read_config_json[OF assms(1)] by (simp add: ParseConfigJson_def)
  ultimately show ?thesis
    using assms(2) saved outer
    by (simp add: LoadCachedConfigLocked_def cache_wrapper_def int_field_def)
qed

section \<open>Properties\<close>

text \<open>
  C23: Whatever the server, the clock, the disk and the user do, the configuration in use is the
  default one or one the reader accepted, with every field within its bounds, and at most 256
  announcements are remembered as dismissed.
\<close>

theorem config_service_invariant:
  assumes "lists_ids order"
  shows "service_ok (fold (config_step lib order) steps (RemoteConfig0 cache dismissed))"
proof -
  have "lists_ids order \<and> service_ok (RemoteConfig0 cache dismissed)"
    using assms config_ok_default by (simp add: service_ok_def RemoteConfig0_def)
  then show ?thesis using cfg.run_inv by blast
qed

definition sample_lib :: json_lib where
  "sample_lib =
     \<lparr>jl_parse = (\<lambda>t. Some (SerializeConfigJson RemoteConfigData0)),
      jl_read = (\<lambda>t. Some (cache_wrapper RemoteConfigData0 100)),
      jl_dump = (\<lambda>j. ''config''), jl_dump2 = (\<lambda>j. ''wrapper'')\<rparr>"

theorem config_service_invariant_witness:
  "service_ok (fold (config_step sample_lib (\<lambda>S. sorted_list_of_set S))
     [CStart True 200, CDismiss True ''a'', CFetch (Some \<lparr>resp_transportError = 0, resp_status = 200,
        resp_body = ''b''\<rparr>) True 300] (RemoteConfig0 None None))"
  by (rule config_service_invariant) (simp add: lists_ids_def)

text \<open>
  After a fetch that reached the network, whatever it brought, the configuration in use is the
  default one or was fetched within the last 24 hours: a copy from a longer time ago, or from a time
  the clock has not reached, is not kept.
\<close>

theorem stale_config_dropped:
  assumes "0 < now" "FetchOnce lib (Some resp) writable now rc = (ok, rc', calls)"
  shows "m_snapshot rc' = RemoteConfigData0 \<or>
    (0 < m_lastFetchedAt rc' \<and> m_lastFetchedAt rc' \<le> now \<and> now - m_lastFetchedAt rc' < 24 * 3600)"
  using assms
  by (auto simp: FetchOnce_def fresh_at_def kMaxCacheAgeSeconds_def dest: fresh_cache_ok
      split: option.splits sum.splits if_splits)

theorem stale_config_dropped_witness:
  "\<exists>rc'. FetchOnce sample_lib (Some \<lparr>resp_transportError = 0, resp_status = 500, resp_body = []\<rparr>) True
      200000 ((RemoteConfig0 None None)\<lparr>m_snapshot := sample_config, m_hasCachedSnapshot := True,
        m_lastFetchedAt := 100\<rparr>) = (False, rc', []) \<and>
    m_snapshot rc' = RemoteConfigData0"
proof -
  define rc where "rc = (RemoteConfig0 None None)\<lparr>m_snapshot := sample_config,
    m_hasCachedSnapshot := True, m_lastFetchedAt := 100\<rparr>"
  have step: "FetchOnce sample_lib (Some \<lparr>resp_transportError = 0, resp_status = 500, resp_body = []\<rparr>)
      True 200000 rc = (False, adopt RemoteConfigData0 0 False rc, [])"
    by (simp add: FetchOnce_def rc_def fresh_at_def kMaxCacheAgeSeconds_def fresh_cache_def
        LoadCachedConfigLocked_def RemoteConfig0_def)
  show ?thesis using stale_config_dropped[OF _ step] step by (auto simp: rc_def)
qed

text \<open>
  The interface, which watches the version number, misses no change: a step after which the
  configuration in use is another one has changed the version.
\<close>

theorem config_changes_are_versioned:
  assumes "m_snapshot (config_step lib order call rc) \<noteq> m_snapshot rc"
  shows "m_version (config_step lib order call rc) \<noteq> m_version rc"
  using assms
  by (cases call)
    (auto simp: FetchOnce_version Start_def Shutdown_def DismissAnnouncement_def
      ClearDismissedAnnouncements_def ActiveAnnouncements_def IsAnnouncementDismissed_def Let_def
      split: option.splits)

theorem config_changes_are_versioned_witness:
  "m_version (config_step sample_lib sorted_list_of_set
      (CFetch (Some \<lparr>resp_transportError = 0, resp_status = 500, resp_body = []\<rparr>) True 200000)
      ((RemoteConfig0 None None)\<lparr>m_snapshot := sample_config\<rparr>)) \<noteq> 1"
proof -
  define rc where "rc = (RemoteConfig0 None None)\<lparr>m_snapshot := sample_config\<rparr>"
  define call where "call = CFetch (Some \<lparr>resp_transportError = 0, resp_status = 500,
    resp_body = []\<rparr>) True 200000"
  have "m_snapshot (config_step sample_lib sorted_list_of_set call rc) \<noteq> m_snapshot rc"
    by (simp add: FetchOnce_def rc_def call_def fresh_cache_def LoadCachedConfigLocked_def
        RemoteConfig0_def sample_config_def RemoteConfigData0_def)
  from config_changes_are_versioned[OF this] show ?thesis
    by (simp add: rc_def call_def RemoteConfig0_def)
qed

text \<open>
  A configuration fetched while the disk takes writes is in use again after a restart within a
  day: the next process starts with it (less the source of the next season) and hands it to the
  snapshot callback, provided the JSON library reads back what it printed and the files stay within
  the size limits.
\<close>

theorem restart_restores_config:
  assumes fetched: "FetchOnce lib (Some resp) True t rc = (True, rc1, calls)"
    and times: "0 < t" "t \<le> now" "now - t < kMaxCacheAgeSeconds" "t < 2 ^ 63"
    and outer: "jl_read lib (jl_dump2 lib (cache_wrapper (m_snapshot rc1) t)) =
        Some (cache_wrapper (m_snapshot rc1) t)"
      "jl_dump2 lib (cache_wrapper (m_snapshot rc1) t) \<noteq> []"
      "length (jl_dump2 lib (cache_wrapper (m_snapshot rc1) t)) \<le> kMaxConfigPayloadBytes * 2"
    and inner: "jl_parse lib (jl_dump lib (SerializeConfigJson (m_snapshot rc1))) =
        Some (SerializeConfigJson (m_snapshot rc1))"
      "jl_dump lib (SerializeConfigJson (m_snapshot rc1)) \<noteq> []"
      "length (jl_dump lib (SerializeConfigJson (m_snapshot rc1))) \<le> kMaxConfigPayloadBytes"
  shows "\<exists>rc2. Start lib worker now (RemoteConfig0 (cache_file rc1) (dismissed_file rc1)) =
      (rc2, [cached (m_snapshot rc1)]) \<and>
    m_snapshot rc2 = cached (m_snapshot rc1) \<and> m_lastFetchedAt rc2 = t"
proof -
  obtain parsed where p: "ParseConfigJson (jl_parse lib) (resp_body resp) = Inr parsed"
    "rc1 = SaveCachedConfigLocked lib True parsed t (adopt parsed t True rc)"
    using fetched by (auto simp: FetchOnce_def split: sum.splits if_splits option.splits)
  then have rc1: "m_snapshot rc1 = parsed" "config_ok (m_snapshot rc1)"
    "cache_file rc1 = Some (jl_dump2 lib (cache_wrapper (m_snapshot rc1) t))"
    by (simp_all add: ParseConfigJson_ok SaveCachedConfigLocked_def cache_wrapper_def)
  define rc0 where "rc0 = LoadDismissedLocked lib (RemoteConfig0 (cache_file rc1) (dismissed_file rc1))"
  have "cache_file rc0 = cache_file rc1" by (simp add: rc0_def RemoteConfig0_def)
  then have "LoadCachedConfigLocked lib rc0 = Some (cached (m_snapshot rc1), t)"
    using load_saved[OF rc1(2), of t rc0 lib] times outer inner rc1(3) by simp
  then have "fresh_cache lib now rc0 = Some (cached (m_snapshot rc1), t)"
    using times by (simp add: fresh_cache_def fresh_at_def)
  then show ?thesis by (simp add: Start_def Let_def flip: rc0_def)
qed

theorem restart_restores_config_witness:
  "\<exists>rc1 rc2. FetchOnce sample_lib (Some \<lparr>resp_transportError = 0, resp_status = 200, resp_body = ''b''\<rparr>)
      True 100 ((RemoteConfig0 None None)\<lparr>m_snapshot := sample_config\<rparr>) =
      (True, rc1, [RemoteConfigData0]) \<and>
    Start sample_lib False 500 (RemoteConfig0 (cache_file rc1) (dismissed_file rc1)) =
      (rc2, [RemoteConfigData0]) \<and> m_snapshot rc2 = RemoteConfigData0"
proof -
  define resp where "resp = \<lparr>resp_transportError = 0, resp_status = 200, resp_body = ''b''\<rparr>"
  define rc where "rc = (RemoteConfig0 None None)\<lparr>m_snapshot := sample_config\<rparr>"
  define rc1 where "rc1 = SaveCachedConfigLocked sample_lib True RemoteConfigData0 100
    (adopt RemoteConfigData0 100 True rc)"
  have same: "cached RemoteConfigData0 = RemoteConfigData0"
    by (simp add: cached_def RemoteConfigData0_def)
  have "ParseConfigJson (jl_parse sample_lib) ''b'' = Inr RemoteConfigData0"
    using read_config_json[OF config_ok_default]
    by (simp add: ParseConfigJson_def sample_lib_def kMaxConfigPayloadBytes_def same)
  then have fetch: "FetchOnce sample_lib (Some resp) True 100 rc = (True, rc1, [RemoteConfigData0])"
    by (simp add: FetchOnce_def resp_def rc1_def)
  moreover have "m_snapshot rc1 = RemoteConfigData0" by (simp add: rc1_def)
  ultimately show ?thesis
    using restart_restores_config[OF fetch, of 500 False]
    by (auto simp: config_limits sample_lib_def same resp_def rc_def)
qed

end
