(* ===== verification/Season_Calendar.thy ===== *)
theory Season_Calendar
  imports Remote_Config
begin

text \<open>
  The calendar of ranked seasons (\<open>core/game/SeasonCalendar.cpp\<close>): the seasons stored, updated from
  the remote configuration, and the season a match or the present moment falls into. Seasons are
  kept with the latest start first; \<open>std::sort\<close> leaves the order of equal starts open, where the
  model keeps their order.
\<close>

record SeasonRecord =
  sn_season :: int
  sn_startsAt :: int
  sn_endsAt :: int
  sn_source :: string

datatype SeasonState = Active | EndingSoon | EndedAwaitingNext

record SeasonStatus =
  st_season :: SeasonRecord
  st_state :: SeasonState
  st_daysLeft :: int
  st_hoursLeft :: int

definition SeasonCalendar :: "SeasonRecord list \<Rightarrow> SeasonRecord list" where
  "SeasonCalendar seasons = sort_key (\<lambda>s. - sn_startsAt s) seasons"

text \<open>The first stored season with the number of \<open>record\<close> is replaced, else \<open>record\<close> is appended.\<close>

fun replace_season :: "SeasonRecord \<Rightarrow> SeasonRecord list \<Rightarrow> SeasonRecord list" where
  "replace_season r [] = [r]"
| "replace_season r (s # ss) = (if sn_season s = sn_season r then r # ss else s # replace_season r ss)"

definition merge_season :: "RemoteSeasonEntry \<Rightarrow> SeasonRecord list \<Rightarrow> SeasonRecord list" where
  "merge_season entry stored =
     (case (ParseRfc3339Unix (se_starts_at entry), ParseRfc3339Unix (se_ends_at entry)) of
        (Some startsAt, Some endsAt) \<Rightarrow>
          if endsAt \<le> startsAt then stored
          else replace_season \<lparr>sn_season = se_season entry, sn_startsAt = startsAt,
                               sn_endsAt = endsAt, sn_source = se_source entry\<rparr> stored
      | _ \<Rightarrow> stored)"

definition remote_entries :: "RemoteSeasonConfig \<Rightarrow> RemoteSeasonEntry list" where
  "remote_entries remote = sc_seasons remote @ (case sc_next remote of None \<Rightarrow> [] | Some e \<Rightarrow> [e])"

definition Merge :: "SeasonRecord list \<Rightarrow> RemoteSeasonConfig \<Rightarrow> SeasonRecord list" where
  "Merge stored remote =
     sort_key (\<lambda>s. - sn_startsAt s) (fold merge_season (remote_entries remote) stored)"

text \<open>The loop of \<open>SeasonForTimestamp\<close>; \<open>newer\<close> is the season before in the list.\<close>

fun season_for :: "SeasonRecord option \<Rightarrow> SeasonRecord list \<Rightarrow> int \<Rightarrow> SeasonRecord option" where
  "season_for newer [] timestamp = None"
| "season_for newer (season # rest) timestamp =
     (if timestamp < sn_startsAt season then season_for (Some season) rest timestamp
      else if (case newer of
                 None \<Rightarrow> timestamp \<le> sn_endsAt season
               | Some n \<Rightarrow> timestamp < sn_startsAt n)
      then Some season else None)"

definition SeasonForTimestamp :: "SeasonRecord list \<Rightarrow> int \<Rightarrow> SeasonRecord option" where
  "SeasonForTimestamp calendar timestamp = season_for None calendar timestamp"

fun Current :: "SeasonRecord list \<Rightarrow> int \<Rightarrow> SeasonStatus option" where
  "Current [] now = None"
| "Current (season # rest) now =
     (if now < sn_startsAt season then Current rest now
      else if sn_endsAt season \<le> now
      then Some \<lparr>st_season = season, st_state = EndedAwaitingNext, st_daysLeft = 0, st_hoursLeft = 0\<rparr>
      else let remaining = sn_endsAt season - now
           in Some \<lparr>st_season = season,
                    st_state = (if remaining \<le> 7 * 86400 then EndingSoon else Active),
                    st_daysLeft = remaining div 86400,
                    st_hoursLeft = (remaining mod 86400) div 3600\<rparr>)"

section \<open>Seasons in order\<close>

definition latest_first :: "SeasonRecord list \<Rightarrow> bool" where
  "latest_first ss = sorted_wrt (\<lambda>a b. sn_startsAt b \<le> sn_startsAt a) ss"

lemma latest_first_Nil [simp]: "latest_first []"
  and latest_first_Cons [simp]:
    "latest_first (s # ss) = ((\<forall>s' \<in> set ss. sn_startsAt s' \<le> sn_startsAt s) \<and> latest_first ss)"
  by (simp_all add: latest_first_def)

lemma sorted_latest_first: "latest_first (sort_key (\<lambda>s. - sn_startsAt s) ss)"
  using sorted_sort_key[of "\<lambda>s. - sn_startsAt s" ss] by (simp add: latest_first_def sorted_map)

lemma SeasonCalendar_set [simp]: "set (SeasonCalendar ss) = set ss"
  by (simp add: SeasonCalendar_def)

lemma SeasonCalendar_latest_first: "latest_first (SeasonCalendar ss)"
  by (simp add: SeasonCalendar_def sorted_latest_first)

lemma season_for_Some:
  assumes "latest_first ss" "season_for newer ss t = Some s" "\<forall>n. newer = Some n \<longrightarrow> t < sn_startsAt n"
  shows "s \<in> set ss \<and> sn_startsAt s \<le> t \<and>
    (\<forall>s' \<in> set ss. sn_startsAt s' \<le> t \<longrightarrow> sn_startsAt s' \<le> sn_startsAt s) \<and>
    (newer \<noteq> None \<or> (\<exists>s' \<in> set ss. t < sn_startsAt s') \<or> t \<le> sn_endsAt s)"
  using assms by (induction newer ss t rule: season_for.induct) (auto split: if_splits option.splits)

lemma season_for_newer:
  "latest_first ss \<Longrightarrow> t < sn_startsAt n \<Longrightarrow> season_for (Some n) ss t = None \<Longrightarrow>
     \<forall>s \<in> set ss. t < sn_startsAt s"
  by (induction ss arbitrary: n) (auto split: if_splits)

lemma Current_season:
  assumes "latest_first ss" "Current ss now = Some st"
  shows "st_season st \<in> set ss \<and> sn_startsAt (st_season st) \<le> now \<and>
    (\<forall>s' \<in> set ss. sn_startsAt s' \<le> now \<longrightarrow> sn_startsAt s' \<le> sn_startsAt (st_season st))"
  using assms by (induction ss now rule: Current.induct) (auto simp: Let_def split: if_splits)

lemma Current_running:
  assumes "Current ss now = Some st" "st_state st \<noteq> EndedAwaitingNext"
    "\<forall>n. newer = Some n \<longrightarrow> now < sn_startsAt n"
  shows "season_for newer ss now = Some (st_season st)"
  using assms
  by (induction ss now arbitrary: newer rule: Current.induct)
    (auto simp: Let_def split: if_splits option.splits)

lemma whole_hours:
  assumes "0 \<le> (r :: int)"
  shows "r div 86400 * 24 + r mod 86400 div 3600 = r div 3600 \<and> 0 \<le> r div 86400 \<and>
    0 \<le> r mod 86400 div 3600 \<and> r mod 86400 div 3600 < 24"
proof -
  define q where "q = r div 3600"
  have "r div 86400 = q div 24" using zdiv_zmult2_eq[of 24 r 3600] by (simp add: q_def)
  moreover have "r mod 86400 div 3600 = q mod 24"
    using zmod_zmult2_eq[of 24 r 3600] by (simp add: q_def)
  moreover have "0 \<le> q" using assms by (simp add: q_def pos_imp_zdiv_nonneg_iff)
  ultimately show ?thesis by (simp add: q_def[symmetric] pos_imp_zdiv_nonneg_iff)
qed

lemma Current_remaining:
  assumes "Current ss now = Some st" "st_state st \<noteq> EndedAwaitingNext"
  shows "0 \<le> sn_endsAt (st_season st) - now \<and>
    st_daysLeft st = (sn_endsAt (st_season st) - now) div 86400 \<and>
    st_hoursLeft st = (sn_endsAt (st_season st) - now) mod 86400 div 3600"
  using assms by (induction ss now rule: Current.induct) (auto simp: Let_def split: if_splits)

lemma Current_time:
  assumes "Current ss now = Some st" "st_state st \<noteq> EndedAwaitingNext"
  shows "st_daysLeft st * 24 + st_hoursLeft st = (sn_endsAt (st_season st) - now) div 3600 \<and>
    0 \<le> st_daysLeft st \<and> 0 \<le> st_hoursLeft st \<and> st_hoursLeft st < 24"
  using Current_remaining[OF assms] whole_hours by metis

section \<open>Updated seasons\<close>

definition season_entry_record :: "RemoteSeasonEntry \<Rightarrow> SeasonRecord" where
  "season_entry_record e =
     \<lparr>sn_season = se_season e, sn_startsAt = the (ParseRfc3339Unix (se_starts_at e)),
      sn_endsAt = the (ParseRfc3339Unix (se_ends_at e)), sn_source = se_source e\<rparr>"

lemma merge_accepted:
  "season_entry_ok e \<Longrightarrow> merge_season e stored = replace_season (season_entry_record e) stored"
  by (auto simp: season_entry_ok_def merge_season_def season_entry_record_def split: option.splits)

lemma replace_season_numbers:
  "sn_season ` set (replace_season r ss) = insert (sn_season r) (sn_season ` set ss)"
  by (induction ss) auto

lemma replace_season_distinct:
  "distinct (map sn_season ss) \<Longrightarrow> distinct (map sn_season (replace_season r ss))"
  using replace_season_numbers[of r] by (induction ss) (auto simp flip: set_map)

lemma replace_season_set:
  "distinct (map sn_season ss) \<Longrightarrow>
     set (replace_season r ss) = insert r {s \<in> set ss. sn_season s \<noteq> sn_season r}"
  by (induction ss) (auto, metis image_eqI)

lemma merge_seasons_set:
  assumes "list_all season_entry_ok es" "distinct (map se_season es)" "distinct (map sn_season stored)"
  shows "distinct (map sn_season (fold merge_season es stored)) \<and>
    set (fold merge_season es stored) =
      season_entry_record ` set es \<union> {s \<in> set stored. sn_season s \<notin> se_season ` set es}"
  using assms
proof (induction es arbitrary: stored)
  case (Cons e es)
  define r stored' where "r = season_entry_record e" and "stored' = replace_season r stored"
  have r: "sn_season r = se_season e" by (simp add: r_def season_entry_record_def)
  have kept: "{s \<in> insert r {s \<in> A. sn_season s \<noteq> sn_season r}. sn_season s \<notin> N} =
      insert r {s \<in> A. sn_season s \<notin> insert (sn_season r) N}" if "sn_season r \<notin> N" for A N
    using that by auto
  have step: "fold merge_season (e # es) stored = fold merge_season es stored'"
    using Cons.prems by (simp add: merge_accepted r_def stored'_def)
  have "set stored' = insert r {s \<in> set stored. sn_season s \<noteq> sn_season r}"
    "distinct (map sn_season stored')"
    using Cons.prems by (simp_all add: stored'_def replace_season_set replace_season_distinct)
  then show ?case
    using Cons.IH[of stored'] Cons.prems kept[of "se_season ` set es" "set stored"] r
    unfolding step by (simp add: r_def)
qed simp

section \<open>Properties\<close>

text \<open>
  A match belongs to the season that started last before it. Only the newest season ends: after
  its end a match has no season, while the break between two seasons counts for the earlier one; and
  a match before every season has none.
\<close>

theorem season_of_match:
  "case SeasonForTimestamp (SeasonCalendar seasons) t of
     Some s \<Rightarrow>
       s \<in> set seasons \<and> sn_startsAt s \<le> t \<and>
       (\<forall>s' \<in> set seasons. sn_startsAt s' \<le> t \<longrightarrow> sn_startsAt s' \<le> sn_startsAt s) \<and>
       ((\<exists>s' \<in> set seasons. t < sn_startsAt s') \<or> t \<le> sn_endsAt s)
   | None \<Rightarrow>
       (\<forall>s \<in> set seasons. t < sn_startsAt s) \<or>
       (\<exists>s \<in> set seasons. sn_startsAt s \<le> t \<and> sn_endsAt s < t \<and>
          (\<forall>s' \<in> set seasons. sn_startsAt s' \<le> sn_startsAt s))"
proof (cases "SeasonForTimestamp (SeasonCalendar seasons) t")
  case (Some s)
  then show ?thesis
    using season_for_Some[OF SeasonCalendar_latest_first, of None seasons t s]
    by (simp add: SeasonForTimestamp_def)
next
  case None
  show ?thesis
  proof (cases "SeasonCalendar seasons")
    case Nil
    then have "set seasons = {}" using SeasonCalendar_set[of seasons] by simp
    then show ?thesis using None by simp
  next
    case (Cons s ss)
    have order: "latest_first (s # ss)" "set seasons = set (s # ss)"
      using SeasonCalendar_latest_first[of seasons] SeasonCalendar_set[of seasons] by (simp_all add: Cons)
    show ?thesis
      using None order season_for_newer[of ss t s]
      by (auto simp: SeasonForTimestamp_def Cons split: if_splits)
  qed
qed

definition sample_seasons :: "SeasonRecord list" where
  "sample_seasons =
     [\<lparr>sn_season = 1, sn_startsAt = 100, sn_endsAt = 200, sn_source = ''admin''\<rparr>,
      \<lparr>sn_season = 2, sn_startsAt = 300, sn_endsAt = 400, sn_source = ''admin''\<rparr>]"

theorem season_of_match_witness:
  "SeasonForTimestamp (SeasonCalendar sample_seasons) 250 = Some (sample_seasons ! 0) \<and>
   list_all (\<lambda>s'. sn_startsAt s' \<le> 250 \<longrightarrow> sn_startsAt s' \<le> 100) sample_seasons \<and>
   SeasonForTimestamp (SeasonCalendar sample_seasons) 401 = None"
proof -
  have found: "SeasonForTimestamp (SeasonCalendar sample_seasons) 250 = Some (sample_seasons ! 0)"
    "SeasonForTimestamp (SeasonCalendar sample_seasons) 401 = None"
    by code_simp+
  then show ?thesis using season_of_match[of sample_seasons 250] by (simp add: list_all_iff sample_seasons_def)
qed

text \<open>
  The status of the present season is consistent: it is about the season that started last;
  while it runs, the matches played now are in it, and the days and hours left are the time to its
  end, in whole hours.
\<close>

theorem season_countdown:
  assumes "Current (SeasonCalendar seasons) now = Some st"
  shows "(\<forall>s' \<in> set seasons. sn_startsAt s' \<le> now \<longrightarrow> sn_startsAt s' \<le> sn_startsAt (st_season st)) \<and>
    (st_state st \<noteq> EndedAwaitingNext \<longrightarrow>
       SeasonForTimestamp (SeasonCalendar seasons) now = Some (st_season st) \<and>
       st_daysLeft st * 24 + st_hoursLeft st = (sn_endsAt (st_season st) - now) div 3600 \<and>
       0 \<le> st_daysLeft st \<and> 0 \<le> st_hoursLeft st \<and> st_hoursLeft st < 24)"
proof -
  show ?thesis
    using Current_time[OF assms] Current_season[OF SeasonCalendar_latest_first assms]
      Current_running[OF assms, of None]
    by (auto simp: SeasonForTimestamp_def)
qed

theorem season_countdown_witness:
  "\<exists>st. Current (SeasonCalendar sample_seasons) 310 = Some st \<and> st_state st = EndingSoon \<and>
     SeasonForTimestamp (SeasonCalendar sample_seasons) 310 = Some (st_season st)"
proof -
  define st where "st = \<lparr>st_season = sample_seasons ! 1, st_state = EndingSoon, st_daysLeft = 0,
    st_hoursLeft = 0\<rparr>"
  have "Current (SeasonCalendar sample_seasons) 310 = Some st" unfolding st_def by code_simp
  from season_countdown[OF this] this show ?thesis by (auto simp: st_def)
qed

text \<open>
  The seasons of an accepted configuration replace the stored seasons of the same number and
  leave the others alone; no season number occurs twice, and the latest start is first.
\<close>

theorem merge_updates_seasons:
  assumes "season_config_ok remote" "distinct (map sn_season stored)"
  shows "set (Merge stored remote) =
      season_entry_record ` set (remote_entries remote) \<union>
      {s \<in> set stored. sn_season s \<notin> se_season ` set (remote_entries remote)} \<and>
    distinct (map sn_season (Merge stored remote)) \<and> latest_first (Merge stored remote)"
proof -
  have "list_all season_entry_ok (remote_entries remote)" "distinct (map se_season (remote_entries remote))"
    using assms(1) by (auto simp: season_config_ok_def remote_entries_def list_all_iff split: option.splits)
  note merged = merge_seasons_set[OF this assms(2)]
  have "distinct (map f (sort_key g xs)) = distinct (map f xs)"
    for f g :: "SeasonRecord \<Rightarrow> int" and xs
    by (simp add: distinct_map)
  then show ?thesis using merged by (simp add: Merge_def sorted_latest_first)
qed

definition sample_remote :: RemoteSeasonConfig where
  "sample_remote =
     \<lparr>sc_current = 2, sc_seasons =
        [\<lparr>se_season = 2, se_starts_at = ''1970-01-01T00:00:00Z'', se_ends_at = ''1970-01-02T00:00:00Z'',
          se_source = ''admin''\<rparr>], sc_next = None\<rparr>"

theorem merge_updates_seasons_witness:
  "\<lparr>sn_season = 2, sn_startsAt = 0, sn_endsAt = 86400, sn_source = ''admin''\<rparr>
       \<in> set (Merge sample_seasons sample_remote) \<and>
   sample_seasons ! 0 \<in> set (Merge sample_seasons sample_remote) \<and>
   sample_seasons ! 1 \<notin> set (Merge sample_seasons sample_remote)"
proof -
  have time: "ParseRfc3339Unix ''1970-01-01T00:00:00Z'' = Some 0"
    "ParseRfc3339Unix ''1970-01-02T00:00:00Z'' = Some 86400"
    by code_simp+
  then have "season_config_ok sample_remote"
    by (simp add: season_config_ok_def sample_remote_def season_entry_ok_def)
  from merge_updates_seasons[OF this, of sample_seasons] time show ?thesis
    by (simp add: sample_seasons_def sample_remote_def remote_entries_def season_entry_record_def)
qed

end
