(* ===== verification/Text_Format.thy ===== *)
theory Text_Format
  imports Prelude
begin

text \<open>
  Standard library functions that the statistics use: \<open>std::to_string\<close> of an integer,
  \<open>std::sqrt\<close> of a double, and \<open>std::fabs\<close>.
\<close>

fun nat_text :: "nat \<Rightarrow> string" where
  "nat_text n =
     (if n < 10 then [char_of (48 + n)] else nat_text (n div 10) @ [char_of (48 + n mod 10)])"

declare nat_text.simps [simp del]

definition to_string :: "int \<Rightarrow> string" where
  "to_string i = (if i < 0 then ''-'' @ nat_text (nat (- i)) else nat_text (nat i))"

text \<open>The integer square root, two bits at a time.\<close>

fun isqrt :: "nat \<Rightarrow> nat" where
  "isqrt n =
     (if n = 0 then 0
      else let r = 2 * isqrt (n div 4) in if (r + 1) * (r + 1) \<le> n then r + 1 else r)"

declare isqrt.simps [simp del]

lemma isqrt_bounds: "isqrt n * isqrt n \<le> n \<and> n < (isqrt n + 1) * (isqrt n + 1)"
proof (induction n rule: isqrt.induct)
  case (1 n)
  show ?case
  proof (cases "n = 0")
    case False
    define s where "s = isqrt (n div 4)"
    have s: "s * s \<le> n div 4" "n div 4 < (s + 1) * (s + 1)" using 1[OF False] by (simp_all add: s_def)
    then have "4 * (s * s) \<le> n" "n < 4 * ((s + 1) * (s + 1))" by linarith+
    then have "(2 * s) * (2 * s) \<le> n" "n < (2 * s + 2) * (2 * s + 2)"
      by (simp_all add: algebra_simps)
    then show ?thesis using False by (simp add: isqrt.simps[of n] s_def[symmetric] Let_def)
  qed (simp add: isqrt.simps)
qed

text \<open>
  The square root is computed to more than 60 bits; half a unit stands for what is cut off, which
  rounds the same way.
\<close>

fun fsqrt64 :: "fp \<Rightarrow> fp" where
  "fsqrt64 (Fin q) =
     (if q = 0 then Fin 0
      else if q < 0 then NaN
      else let e = ilog2 q div 2 - 60;
               m = q / 2 powi (2 * e);
               s = of_nat (isqrt (nat \<lfloor>m\<rfloor>)) :: rat
           in f64 ((if s * s = m then s else s + 1 / 2) * 2 powi e))"
| "fsqrt64 (Infinity s) = (if s then NaN else Infinity False)"
| "fsqrt64 NaN = NaN"

fun fp_abs :: "fp \<Rightarrow> fp" where
  "fp_abs NaN = NaN"
| "fp_abs (Infinity s) = Infinity False"
| "fp_abs (Fin q) = Fin \<bar>q\<bar>"

abbreviation "fadd64 \<equiv> fp_add f64"
abbreviation "fmul64 \<equiv> fp_mul f64"
abbreviation "fdiv64 \<equiv> fp_div f64"

definition fmin :: "fp \<Rightarrow> fp \<Rightarrow> fp" where
  "fmin a b = (if b < a then b else a)"

section \<open>Sorting\<close>

text \<open>\<open>std::stable_sort\<close> with a comparison \<open>lt\<close>: elements that compare equal keep their order.\<close>

fun insert_by :: "('a \<Rightarrow> 'a \<Rightarrow> bool) \<Rightarrow> 'a \<Rightarrow> 'a list \<Rightarrow> 'a list" where
  "insert_by lt x [] = [x]"
| "insert_by lt x (y # ys) = (if lt y x then y # insert_by lt x ys else x # y # ys)"

definition stable_sort :: "('a \<Rightarrow> 'a \<Rightarrow> bool) \<Rightarrow> 'a list \<Rightarrow> 'a list" where
  "stable_sort lt xs = foldr (insert_by lt) xs []"

lemma set_insert_by [simp]: "set (insert_by lt x ys) = insert x (set ys)"
  by (induction ys) auto

lemma distinct_insert_by [simp]: "distinct (insert_by lt x ys) = (x \<notin> set ys \<and> distinct ys)"
  by (induction ys) auto

lemma length_insert_by [simp]: "length (insert_by lt x ys) = Suc (length ys)"
  by (induction ys) auto

lemma set_stable_sort [simp]: "set (stable_sort lt xs) = set xs"
  by (induction xs) (simp_all add: stable_sort_def)

lemma length_stable_sort [simp]: "length (stable_sort lt xs) = length xs"
  by (induction xs) (simp_all add: stable_sort_def)

lemma distinct_stable_sort [simp]: "distinct (stable_sort lt xs) = distinct xs"
  using set_stable_sort[of lt] by (induction xs) (simp_all add: stable_sort_def)

section \<open>Numbers read back\<close>

lemma digits_value_append: "digits_value (xs @ [c]) = 10 * digits_value xs + digit_value c"
  by (simp add: digits_value_def)

lemma digit_of_char: "n < 10 \<Longrightarrow> is_digit (char_of (48 + n :: nat)) \<and> digit_value (char_of (48 + n)) = int n"
proof -
  assume "n < 10"
  then have "n \<in> {0, 1, 2, 3, 4, 5, 6, 7, 8, 9}" by auto
  then show ?thesis
    by (auto simp: is_digit_def digit_value_def less_eq_char_def of_nat_of_char[where 'a = int, symmetric]
        simp del: of_nat_of_char)
qed

lemma nat_text_value:
  "digits_value (nat_text n) = int n \<and> (\<forall>c \<in> set (nat_text n). is_digit c) \<and> nat_text n \<noteq> []"
proof (induction n rule: nat_text.induct)
  case (1 n)
  show ?case
  proof (cases "n < 10")
    case True
    then show ?thesis using digit_of_char[of n] by (simp add: nat_text.simps[of n] digits_value_def)
  next
    case False
    note IH = 1[OF False]
    have "digits_value (nat_text n) = 10 * int (n div 10) + int (n mod 10)"
      using IH False digit_of_char[of "n mod 10"] by (simp add: nat_text.simps[of n] digits_value_append)
    also have "\<dots> = int n" using mult_div_mod_eq[of 10 "int n"] by (simp add: zdiv_int zmod_int)
    finally show ?thesis using IH False digit_of_char[of "n mod 10"] by (simp add: nat_text.simps[of n])
  qed
qed

lemma digit_no_sign: "is_digit c \<Longrightarrow> \<not> is_space c \<and> c \<noteq> CHR ''-'' \<and> c \<noteq> CHR ''+''"
  by (auto simp: is_digit_def is_space_def less_eq_char_def)

lemma stoi_to_string: "in_int32 i \<Longrightarrow> stoi (to_string i) = Some i"
proof -
  assume i: "in_int32 i"
  define ds where "ds = nat_text (nat \<bar>i\<bar>)"
  have ds: "digits_value ds = \<bar>i\<bar>" "\<forall>c \<in> set ds. is_digit c" "ds \<noteq> []"
    using nat_text_value[of "nat \<bar>i\<bar>"] by (simp_all add: ds_def)
  have hd: "is_digit (hd ds)" using ds by simp
  have run: "takeWhile is_digit ds = ds" using ds(2) by simp
  have nospace: "dropWhile is_space ds = ds" using ds(3) digit_no_sign[OF hd] by (cases ds) simp_all
  show ?thesis
  proof (cases "i < 0")
    case True
    then have "to_string i = CHR ''-'' # ds" by (simp add: to_string_def ds_def)
    then show ?thesis using True ds run i by (simp add: stoi_def is_space_def less_eq_char_def Let_def del: takeWhile_eq_all_conv)
  next
    case False
    then have "to_string i = ds" by (simp add: to_string_def ds_def)
    then show ?thesis using False ds run i nospace digit_no_sign[OF hd] by (simp add: stoi_def Let_def del: takeWhile_eq_all_conv)
  qed
qed

lemma to_string_chars: "c \<in> set (to_string i) \<Longrightarrow> is_digit c \<or> c = CHR ''-''"
  using nat_text_value by (auto simp: to_string_def split: if_splits)

lemma to_string_nonempty [simp]: "to_string i \<noteq> []"
  using nat_text_value by (auto simp: to_string_def)

end
