(* ===== verification/Rank_Progress.thy ===== *)
theory Rank_Progress
  imports Text_Format Float_Rounding
begin

text \<open>
  Ranks (\<open>core/game/RankProgress.cpp\<close>): the division a rating lies in, the distance to its
  neighbours, and the division boundaries, labels and bands on the graph of ratings.
\<close>

record Threshold =
  th_minMmr :: int
  th_tier :: "string option"
  th_division :: "string option"

record Boundary =
  bd_mmr :: int
  bd_label :: string
  bd_tierStart :: bool
  bd_index :: nat

datatype RankStatus = Unavailable | Placement | Ranked

record Progress =
  pg_status :: RankStatus
  pg_mmr :: int
  pg_rank :: string
  pg_floor :: "Boundary option"
  pg_next :: "Boundary option"
  pg_previous :: "Boundary option"
  pg_toNext :: int
  pg_aboveFloor :: int

record GraphLayoutOptions =
  go_plotTopPct :: fp
  go_plotBottomPct :: fp
  go_labelHeightPct :: fp
  go_maxLines :: nat
  go_maxLabels :: nat
  go_reserved :: "(fp \<times> fp) list"

record GraphBoundary =
  gb_boundary :: Boundary
  gb_topPct :: fp
  gb_labeled :: bool
  gb_labelTopPct :: fp

record GraphBand =
  bn_label :: string
  bn_index :: nat
  bn_topPct :: fp
  bn_bottomPct :: fp

section \<open>The rank of a rating\<close>

definition no_division :: "Threshold \<Rightarrow> bool" where
  "no_division t = (case th_division t of None \<Rightarrow> True | Some d \<Rightarrow> d = [])"

definition Label :: "Threshold \<Rightarrow> string" where
  "Label t =
     (case th_tier t of None \<Rightarrow> [] | Some s \<Rightarrow> s) @
     (if no_division t then [] else '' '' @ the (th_division t))"

definition MakeBoundary :: "Threshold list \<Rightarrow> nat \<Rightarrow> Boundary" where
  "MakeBoundary table index =
     (let t = table ! index
      in \<lparr>bd_mmr = th_minMmr t, bd_label = Label t,
          bd_tierStart = (no_division t \<or> th_division t = Some ''Div I''), bd_index = index\<rparr>)"

text \<open>The loop of \<open>TableIndex\<close> from position \<open>i\<close> on.\<close>

fun table_index :: "Threshold list \<Rightarrow> nat \<Rightarrow> nat \<Rightarrow> fp \<Rightarrow> nat" where
  "table_index [] i index mmr = index"
| "table_index (t # ts) i index mmr =
     (if mmr < f32_of_int (th_minMmr t) then index else table_index ts (Suc i) i mmr)"

definition TableIndex :: "Threshold list \<Rightarrow> fp \<Rightarrow> nat" where
  "TableIndex table mmr = table_index table 0 0 mmr"

definition Trim :: "string \<Rightarrow> string" where
  "Trim t = rev (dropWhile is_space (rev (dropWhile is_space t)))"

definition Overlaps :: "fp \<Rightarrow> fp \<Rightarrow> fp \<times> fp \<Rightarrow> bool" where
  "Overlaps upper lower s = (upper < snd s \<and> fst s < lower)"

fun find_label :: "Threshold list \<Rightarrow> nat \<Rightarrow> string \<Rightarrow> nat option" where
  "find_label [] i l = None"
| "find_label (t # ts) i l = (if Label t = l then Some i else find_label ts (Suc i) l)"

definition Progress0 :: "int \<Rightarrow> Progress" where
  "Progress0 mmr =
     \<lparr>pg_status = Unavailable, pg_mmr = mmr, pg_rank = [], pg_floor = None, pg_next = None,
      pg_previous = None, pg_toNext = 0, pg_aboveFloor = 0\<rparr>"

text \<open>The progress inside the division at \<open>index\<close>.\<close>

definition progress_at :: "Threshold list \<Rightarrow> int \<Rightarrow> nat \<Rightarrow> Progress" where
  "progress_at table mmr index =
     (let p = (Progress0 mmr)\<lparr>pg_status := Ranked, pg_rank := Label (table ! index)\<rparr>;
          p = (if 0 < index
               then p\<lparr>pg_floor := Some (MakeBoundary table index),
                      pg_previous := Some (MakeBoundary table (index - 1)),
                      pg_aboveFloor := mmr - bd_mmr (MakeBoundary table index)\<rparr>
               else p)
      in if index + 1 < length table
         then p\<lparr>pg_next := Some (MakeBoundary table (index + 1)),
                pg_toNext := bd_mmr (MakeBoundary table (index + 1)) - mmr\<rparr>
         else p)"

definition Compute :: "Threshold list \<Rightarrow> int \<Rightarrow> string \<Rightarrow> Progress" where
  "Compute table mmr reportedTier =
     (if table = [] \<or> mmr \<le> 0 then Progress0 mmr
      else
        let reportedTier = Trim reportedTier
        in if starts_with reportedTier ''Unranked''
           then (Progress0 mmr)\<lparr>pg_status := Placement, pg_rank := ''Unranked''\<rparr>
           else
             let reported = (if reportedTier = [] then None else find_label table 0 reportedTier)
             in progress_at table mmr
                  (case reported of Some i \<Rightarrow> i | None \<Rightarrow> TableIndex table (f32_of_int mmr)))"

section \<open>The graph\<close>

definition ExpandRangeForBoundaries :: "Threshold list \<Rightarrow> fp \<Rightarrow> fp \<Rightarrow> fp \<times> fp \<Rightarrow> fp \<times> fp" where
  "ExpandRangeForBoundaries table current maxExtension extent =
     (case extent of (minV, maxV) \<Rightarrow>
        if table = [] \<or> \<not> fp_finite current \<or> \<not> minV < maxV then (minV, maxV)
        else
          let index = TableIndex table current;
              below = f32_of_int (th_minMmr (table ! index));
              minV' = (if 0 < index \<and> below < minV \<and> fsub32 minV below \<le> maxExtension
                       then fsub32 below (Fin 3) else minV);
              above = f32_of_int (th_minMmr (table ! (index + 1)));
              maxV' = (if index + 1 < length table \<and> maxV < above \<and> fsub32 above maxV \<le> maxExtension
                       then fadd32 above (Fin 3) else maxV)
          in (minV', maxV'))"

definition boundary_distance :: "fp \<Rightarrow> Boundary \<Rightarrow> fp" where
  "boundary_distance current b = fp_abs (fsub32 (f32_of_int (bd_mmr b)) current)"

definition nearer :: "fp \<Rightarrow> Boundary \<Rightarrow> Boundary \<Rightarrow> bool" where
  "nearer current a b = (boundary_distance current a < boundary_distance current b)"

text \<open>The boundaries drawn, the highest first; \<open>std::sort\<close> leaves the order of equal ratings open.\<close>

definition visible_boundaries :: "Threshold list \<Rightarrow> fp \<Rightarrow> fp \<Rightarrow> fp \<Rightarrow> GraphLayoutOptions \<Rightarrow> Boundary list" where
  "visible_boundaries table minV maxV current options =
     (let visible = map (MakeBoundary table)
            (filter (\<lambda>i. minV \<le> f32_of_int (th_minMmr (table ! i)) \<and> f32_of_int (th_minMmr (table ! i)) \<le> maxV)
               [1..<length table]);
          currentIndex = TableIndex table current;
          visible =
            (if go_maxLines options < length visible
             then let kept = filter (\<lambda>b. bd_tierStart b \<or> bd_index b = currentIndex \<or>
                                          bd_index b = currentIndex + 1) visible
                  in if go_maxLines options < length kept
                     then take (go_maxLines options) (stable_sort (nearer current) kept) else kept
             else visible)
      in sort_key (\<lambda>b. - bd_mmr b) visible)"

definition plot_pct :: "fp \<Rightarrow> fp \<Rightarrow> fp \<Rightarrow> fp \<Rightarrow> fp \<Rightarrow> fp" where
  "plot_pct upper lower minV maxV value =
     fsub32 lower (fmul32 (fdiv32 (fsub32 value minV) (fsub32 maxV minV)) (fsub32 lower upper))"

definition fits_label :: "fp \<Rightarrow> (fp \<times> fp) list \<Rightarrow> fp \<Rightarrow> bool" where
  "fits_label height taken upper =
     (let lower = fadd32 upper height
      in \<not> upper < Fin 0 \<and> \<not> Fin 100 < lower \<and> \<not> list_ex (Overlaps upper lower) taken)"

definition label_spot :: "GraphLayoutOptions \<Rightarrow> (fp \<times> fp) list \<Rightarrow> fp \<Rightarrow> fp option" where
  "label_spot options taken topPct =
     find (fits_label (go_labelHeightPct options) taken)
       [fsub32 (fsub32 topPct (go_labelHeightPct options)) (Fin (1 / 2)), fadd32 topPct (Fin (1 / 2))]"

fun place_labels ::
  "GraphLayoutOptions \<Rightarrow> nat list \<Rightarrow> GraphBoundary list \<Rightarrow> (fp \<times> fp) list \<Rightarrow> nat \<Rightarrow> GraphBoundary list" where
  "place_labels options [] out taken labels = out"
| "place_labels options (i # order) out taken labels =
     (if go_maxLabels options \<le> labels then out
      else case label_spot options taken (gb_topPct (out ! i)) of
             None \<Rightarrow> place_labels options order out taken labels
           | Some upper \<Rightarrow>
               place_labels options order (out[i := (out ! i)\<lparr>gb_labeled := True, gb_labelTopPct := upper\<rparr>])
                 (taken @ [(upper, fadd32 upper (go_labelHeightPct options))]) (Suc labels))"

definition LayoutGraphBoundaries ::
  "Threshold list \<Rightarrow> fp \<Rightarrow> fp \<Rightarrow> fp \<Rightarrow> GraphLayoutOptions \<Rightarrow> GraphBoundary list" where
  "LayoutGraphBoundaries table minV maxV current options =
     (if length table < 2 \<or> \<not> minV < maxV \<or> \<not> fp_finite minV \<or> \<not> fp_finite maxV then []
      else
        let visible = visible_boundaries table minV maxV current options;
            out = map (\<lambda>b. \<lparr>gb_boundary = b,
                            gb_topPct = plot_pct (go_plotTopPct options) (go_plotBottomPct options)
                                          minV maxV (f32_of_int (bd_mmr b)),
                            gb_labeled = False, gb_labelTopPct = Fin 0\<rparr>) visible;
            order = stable_sort (\<lambda>a b. nearer current (visible ! a) (visible ! b)) [0..<length out]
        in place_labels options order out (go_reserved options) 0)"

definition graph_band :: "Threshold list \<Rightarrow> fp \<Rightarrow> fp \<Rightarrow> fp \<Rightarrow> fp \<Rightarrow> nat \<Rightarrow> GraphBand option" where
  "graph_band table minV maxV plotTopPct plotBottomPct i =
     (let low = (if i = 0 then minV else fmax (f32_of_int (th_minMmr (table ! i))) minV);
          high = (if i + 1 < length table then fmin (f32_of_int (th_minMmr (table ! (i + 1)))) maxV else maxV)
      in if \<not> low < high then None
         else Some \<lparr>bn_label = Label (table ! i), bn_index = i,
                    bn_topPct = plot_pct plotTopPct plotBottomPct minV maxV high,
                    bn_bottomPct = plot_pct plotTopPct plotBottomPct minV maxV low\<rparr>)"

definition LayoutGraphBands :: "Threshold list \<Rightarrow> fp \<Rightarrow> fp \<Rightarrow> fp \<Rightarrow> fp \<Rightarrow> GraphBand list" where
  "LayoutGraphBands table minV maxV plotTopPct plotBottomPct =
     (if table = [] \<or> \<not> minV < maxV \<or> \<not> fp_finite minV \<or> \<not> fp_finite maxV then []
      else List.map_filter (graph_band table minV maxV plotTopPct plotBottomPct) (rev [0..<length table]))"

section \<open>Labels\<close>

definition label_span :: "GraphLayoutOptions \<Rightarrow> GraphBoundary \<Rightarrow> fp \<times> fp" where
  "label_span options g = (gb_labelTopPct g, fadd32 (gb_labelTopPct g) (go_labelHeightPct options))"

definition apart :: "fp \<times> fp \<Rightarrow> fp \<times> fp \<Rightarrow> bool" where
  "apart s s' = (\<not> Overlaps (fst s) (snd s) s')"

text \<open>The labels set so far lie on the plot, beside the spans taken before and beside each other.\<close>

definition labels_ok :: "GraphLayoutOptions \<Rightarrow> GraphBoundary list \<Rightarrow> bool" where
  "labels_ok options out =
     (\<forall>i < length out. gb_labeled (out ! i) \<longrightarrow>
        \<not> gb_labelTopPct (out ! i) < Fin 0 \<and> \<not> Fin 100 < snd (label_span options (out ! i)) \<and>
        (\<forall>s \<in> set (go_reserved options). apart (label_span options (out ! i)) s) \<and>
        (\<forall>j < length out. j \<noteq> i \<longrightarrow> gb_labeled (out ! j) \<longrightarrow>
           apart (label_span options (out ! i)) (label_span options (out ! j))))"

definition labels_taken :: "GraphLayoutOptions \<Rightarrow> GraphBoundary list \<Rightarrow> (fp \<times> fp) list \<Rightarrow> bool" where
  "labels_taken options out taken =
     (set (go_reserved options) \<subseteq> set taken \<and>
      (\<forall>i < length out. gb_labeled (out ! i) \<longrightarrow> label_span options (out ! i) \<in> set taken))"

definition labeled_at :: "GraphBoundary list \<Rightarrow> nat set" where
  "labeled_at out = {i. i < length out \<and> gb_labeled (out ! i)}"

lemma apart_sym: "apart s s' = apart s' s"
  by (auto simp: apart_def Overlaps_def)

lemma label_spot_fits:
  "label_spot options taken p = Some upper \<Longrightarrow> fits_label (go_labelHeightPct options) taken upper"
  by (auto simp: label_spot_def split: if_splits)

lemma label_step:
  assumes "labels_ok options out" "labels_taken options out taken" "i < length out" "\<not> gb_labeled (out ! i)"
    "fits_label (go_labelHeightPct options) taken upper"
    "out' = out[i := (out ! i)\<lparr>gb_labeled := True, gb_labelTopPct := upper\<rparr>]"
  shows "labels_ok options out'"
    "labels_taken options out' (taken @ [(upper, fadd32 upper (go_labelHeightPct options))])"
proof -
  let ?s = "(upper, fadd32 upper (go_labelHeightPct options))"
  have free: "\<not> upper < Fin 0" "\<not> Fin 100 < snd ?s" "\<And>s. s \<in> set taken \<Longrightarrow> apart ?s s"
    using assms(5) by (auto simp: fits_label_def Let_def list_ex_iff apart_def)
  have spans: "label_span options (out' ! j) = (if j = i then ?s else label_span options (out ! j))"
    "gb_labelTopPct (out' ! j) = (if j = i then upper else gb_labelTopPct (out ! j))"
    "gb_labeled (out' ! j) = (j = i \<or> gb_labeled (out ! j))" for j
    using assms(3,6) by (auto simp: label_span_def nth_list_update)
  have len: "length out' = length out" using assms(6) by simp
  have others: "apart ?s (label_span options (out ! j))" if "j < length out" "gb_labeled (out ! j)" for j
    using that assms(2) free(3) by (auto simp: labels_taken_def)
  have reserved: "apart ?s s" if "s \<in> set (go_reserved options)" for s
    using that assms(2) free(3)[of s] unfolding labels_taken_def by blast
  show "labels_taken options out' (taken @ [?s])"
    using assms(2) by (auto simp: labels_taken_def spans len)
  show "labels_ok options out'"
    unfolding labels_ok_def
  proof (intro allI impI conjI ballI)
    fix j assume j: "j < length out'" "gb_labeled (out' ! j)"
    then have j': "j < length out" using assms(6) by simp
    show "\<not> gb_labelTopPct (out' ! j) < Fin 0" "\<not> Fin 100 < snd (label_span options (out' ! j))"
      using j j' free assms(1) by (auto simp: spans labels_ok_def)
    show "apart (label_span options (out' ! j)) s" if "s \<in> set (go_reserved options)" for s
      using reserved[OF that] that j j' assms(1) by (cases "j = i") (simp_all add: spans labels_ok_def)
    show "apart (label_span options (out' ! j)) (label_span options (out' ! k))"
      if "k < length out'" "k \<noteq> j" "gb_labeled (out' ! k)" for k
    proof -
      note hyps = that
      have k: "k < length out" using hyps(1) len by simp
      consider "j = i" "k \<noteq> i" | "j \<noteq> i" "k = i" | "j \<noteq> i" "k \<noteq> i" using hyps(2) by blast
      then show ?thesis
      proof cases
        case 1
        then show ?thesis using others[OF k] hyps(3) by (simp add: spans)
      next
        case 2
        then show ?thesis
          using others[OF j'] j(2) apart_sym[of ?s "label_span options (out ! j)"] by (simp add: spans)
      next
        case 3
        then show ?thesis using assms(1) j(2) j' k hyps(2,3) by (simp add: spans labels_ok_def)
      qed
    qed
  qed
qed

lemma place_labels_ok:
  assumes "labels_ok options out" "labels_taken options out taken" "distinct order"
    "\<forall>i \<in> set order. i < length out \<and> \<not> gb_labeled (out ! i)"
    "card (labeled_at out) = labels" "labels \<le> go_maxLabels options"
  shows "labels_ok options (place_labels options order out taken labels) \<and>
    card (labeled_at (place_labels options order out taken labels)) \<le> go_maxLabels options"
  using assms
proof (induction options order out taken labels rule: place_labels.induct)
  case (2 options i order out taken labels)
  show ?case
  proof (cases "go_maxLabels options \<le> labels")
    case False
    show ?thesis
    proof (cases "label_spot options taken (gb_topPct (out ! i))")
      case None
      then show ?thesis using 2(1)[OF False None] 2(3-) False by simp
    next
      case (Some upper)
      define out' where "out' = out[i := (out ! i)\<lparr>gb_labeled := True, gb_labelTopPct := upper\<rparr>]"
      have i: "i < length out" "\<not> gb_labeled (out ! i)" using 2(6) by auto
      note step = label_step[OF 2(3,4) i label_spot_fits[OF Some] out'_def]
      have "labeled_at out' = insert i (labeled_at out)"
        using i by (auto simp: labeled_at_def out'_def nth_list_update split: if_splits)
      then have "card (labeled_at out') = Suc labels"
        using i 2(7) by (simp add: labeled_at_def)
      moreover have "\<forall>j \<in> set order. j < length out' \<and> \<not> gb_labeled (out' ! j)"
        using 2(5,6) by (auto simp: out'_def nth_list_update)
      ultimately show ?thesis
        using 2(2)[OF False Some] step 2(5) False Some by (simp add: out'_def)
    qed
  qed (use 2 in simp)
qed simp

section \<open>Divisions\<close>

text \<open>A table of divisions: ratings that floats hold exactly, from the lowest up.\<close>

definition table_ok :: "Threshold list \<Rightarrow> bool" where
  "table_ok table =
     (table \<noteq> [] \<and> sorted_wrt (<) (map th_minMmr table) \<and>
      (\<forall>t \<in> set table. - (2 ^ 24) \<le> th_minMmr t \<and> th_minMmr t \<le> 2 ^ 24))"

lemma table_index_correct:
  assumes "\<forall>t \<in> set ts. - (2 ^ 24) \<le> th_minMmr t \<and> th_minMmr t \<le> 2 ^ 24" "0 \<le> mmr" "mmr \<le> 2 ^ 24"
    "k = table_index ts i j (f32_of_int mmr)"
  shows "(k = j \<and> (ts = [] \<or> mmr < th_minMmr (hd ts))) \<or>
    (i \<le> k \<and> k < i + length ts \<and> th_minMmr (ts ! (k - i)) \<le> mmr \<and>
     (k + 1 < i + length ts \<longrightarrow> mmr < th_minMmr (ts ! (k + 1 - i))))"
  using assms
proof (induction ts arbitrary: i j)
  case (Cons t ts)
  have exact: "(f32_of_int mmr < f32_of_int (th_minMmr t)) = (mmr < th_minMmr t)"
    using Cons.prems by (auto simp: f32_of_int_exact abs_le_iff)
  show ?case
  proof (cases "mmr < th_minMmr t")
    case True
    then show ?thesis using Cons.prems exact by simp
  next
    case False
    then have k: "k = table_index ts (Suc i) i (f32_of_int mmr)" using Cons.prems exact by simp
    from Cons.IH[OF _ Cons.prems(2,3) k] Cons.prems(1)
    consider "k = i" "ts = [] \<or> mmr < th_minMmr (hd ts)"
      | "Suc i \<le> k" "k < Suc i + length ts" "th_minMmr (ts ! (k - Suc i)) \<le> mmr"
        "k + 1 < Suc i + length ts \<longrightarrow> mmr < th_minMmr (ts ! (k + 1 - Suc i))"
      by auto
    then show ?thesis
    proof cases
      case 1
      then show ?thesis using False by (cases ts) auto
    next
      case 2
      then have "k - i = Suc (k - Suc i)" "k + 1 - i = Suc (k + 1 - Suc i)" by auto
      with 2 show ?thesis by auto
    qed
  qed
qed simp

lemma TableIndex_correct:
  assumes "table_ok table" "0 \<le> mmr" "mmr \<le> 2 ^ 24"
  shows "TableIndex table (f32_of_int mmr) < length table \<and>
    (0 < TableIndex table (f32_of_int mmr) \<longrightarrow>
       th_minMmr (table ! TableIndex table (f32_of_int mmr)) \<le> mmr) \<and>
    (TableIndex table (f32_of_int mmr) + 1 < length table \<longrightarrow>
       mmr < th_minMmr (table ! (TableIndex table (f32_of_int mmr) + 1)))"
proof -
  define k where "k = TableIndex table (f32_of_int mmr)"
  have t: "table \<noteq> []" "\<forall>t \<in> set table. - (2 ^ 24) \<le> th_minMmr t \<and> th_minMmr t \<le> 2 ^ 24"
    using assms(1) by (auto simp: table_ok_def)
  have low: "th_minMmr (hd table) < th_minMmr (table ! 1)" if "1 < length table"
    using assms(1) that
    by (auto simp: table_ok_def sorted_wrt_iff_nth_less hd_conv_nth)
  from table_index_correct[OF t(2) assms(2,3), of k 0 0] have
    "(k = 0 \<and> mmr < th_minMmr (hd table)) \<or>
     (k < length table \<and> th_minMmr (table ! k) \<le> mmr \<and>
      (k + 1 < length table \<longrightarrow> mmr < th_minMmr (table ! (k + 1))))"
    using t(1) by (simp add: k_def TableIndex_def)
  then show ?thesis using t(1) low unfolding k_def[symmetric] by auto
qed

lemma find_label_index:
  "find_label ts i l = Some k \<Longrightarrow> i \<le> k \<and> k < i + length ts \<and> Label (ts ! (k - i)) = l"
proof (induction ts arbitrary: i)
  case (Cons t ts)
  show ?case
  proof (cases "Label t = l")
    case False
    then have "Suc i \<le> k \<and> k < Suc i + length ts \<and> Label (ts ! (k - Suc i)) = l"
      using Cons.IH[of "Suc i"] Cons.prems by simp
    then show ?thesis by (auto simp: nth_Cons')
  qed (use Cons in auto)
qed simp

lemma progress_at_fields:
  "pg_status (progress_at table mmr i) = Ranked" "pg_rank (progress_at table mmr i) = Label (table ! i)"
  "pg_floor (progress_at table mmr i) = (if 0 < i then Some (MakeBoundary table i) else None)"
  "pg_aboveFloor (progress_at table mmr i) = (if 0 < i then mmr - th_minMmr (table ! i) else 0)"
  "pg_next (progress_at table mmr i) =
     (if i + 1 < length table then Some (MakeBoundary table (i + 1)) else None)"
  "pg_toNext (progress_at table mmr i) =
     (if i + 1 < length table then th_minMmr (table ! (i + 1)) - mmr else 0)"
  by (simp_all add: progress_at_def Progress0_def MakeBoundary_def Let_def)

section \<open>Bands\<close>

lemma fmax_below: "fmax x (Fin a) < Fin c \<Longrightarrow> a < c"
  by (cases x) (auto simp: fmax_def split: if_splits)

lemma fmin_above: "Fin c < fmin x (Fin b) \<Longrightarrow> c < b"
  by (cases x) (auto simp: fmin_def split: if_splits)

lemma fmax_Fin: "fmax (Fin a) (Fin b) = Fin (max a b)" and fmin_Fin: "fmin (Fin a) (Fin b) = Fin (min a b)"
  by (simp_all add: fmax_def fmin_def max_def min_def)

lemma plot_band:
  assumes "minV < maxV" "fp_finite minV" "fp_finite maxV"
    "graph_band table minV maxV t b (Suc i) = Some upper" "graph_band table minV maxV t b i = Some lower"
    "Suc i < length table" "fp_finite (f32_of_int (th_minMmr (table ! Suc i)))"
  shows "bn_bottomPct upper = bn_topPct lower"
proof -
  obtain lo hi m where v: "minV = Fin lo" "maxV = Fin hi" "f32_of_int (th_minMmr (table ! Suc i)) = Fin m"
    using assms by (auto elim!: fp_finite.elims)
  have "lo < hi" using assms(1) v by simp
  have "Fin (max m lo) < (if Suc (Suc i) < length table
      then fmin (f32_of_int (th_minMmr (table ! Suc (Suc i)))) (Fin hi) else Fin hi)"
    using assms(4) v by (auto simp: graph_band_def Let_def fmax_Fin split: if_splits)
  then have "m < hi" by (auto dest: fmin_above split: if_splits)
  moreover have "(if i = 0 then Fin lo else fmax (f32_of_int (th_minMmr (table ! i))) (Fin lo)) <
      Fin (min m hi)"
    using assms(5,6) v by (auto simp: graph_band_def Let_def fmin_Fin split: if_splits)
  then have "lo < m" by (auto dest: fmax_below split: if_splits)
  ultimately have "fmax (Fin m) (Fin lo) = fmin (Fin m) (Fin hi)"
    by (simp add: fmax_Fin fmin_Fin max_def min_def)
  then show ?thesis
    using assms(4-6) v by (auto simp: graph_band_def Let_def split: if_splits)
qed

section \<open>Properties\<close>

text \<open>
  A player's rank is the division the source reports, if the table knows it; without a report it
  is the division whose range holds the rating, so the distance to the next division is positive and
  the distance to the floor is not negative. Only a reported division can leave the rating outside.
\<close>

theorem rank_follows_report_or_table:
  assumes "table_ok table" "0 < mmr" "mmr \<le> 2 ^ 24" "\<not> starts_with (Trim tier) ''Unranked''"
  shows "let p = Compute table mmr tier in pg_status p = Ranked \<and>
    (if Trim tier \<noteq> [] \<and> (\<exists>t \<in> set table. Label t = Trim tier) then pg_rank p = Trim tier
     else (\<exists>i < length table. pg_rank p = Label (table ! i) \<and>
             (pg_floor p = None \<longleftrightarrow> i = 0) \<and> (pg_next p = None \<longleftrightarrow> i + 1 = length table)) \<and>
          0 \<le> pg_aboveFloor p \<and> (pg_next p \<noteq> None \<longrightarrow> 0 < pg_toNext p))"
proof -
  have found: "find_label ts i l \<noteq> None \<longleftrightarrow> (\<exists>t \<in> set ts. Label t = l)" for ts i l
    by (induction ts arbitrary: i) auto
  define reported where "reported = (if Trim tier = [] then None else find_label table 0 (Trim tier))"
  have compute: "Compute table mmr tier = progress_at table mmr
      (case reported of Some i \<Rightarrow> i | None \<Rightarrow> TableIndex table (f32_of_int mmr))"
    using assms by (simp add: Compute_def reported_def Let_def table_ok_def)
  show ?thesis
  proof (cases reported)
    case None
    then have no: "\<not> (Trim tier \<noteq> [] \<and> (\<exists>t \<in> set table. Label t = Trim tier))"
      using found[of table 0 "Trim tier"] by (auto simp: reported_def split: if_splits)
    define k where "k = TableIndex table (f32_of_int mmr)"
    have k: "k < length table" "0 < k \<longrightarrow> th_minMmr (table ! k) \<le> mmr"
      "k + 1 < length table \<longrightarrow> mmr < th_minMmr (table ! (k + 1))"
      using TableIndex_correct[of table mmr] assms by (simp_all add: k_def)
    then show ?thesis
      using no None by (auto simp: compute progress_at_fields Let_def intro!: exI[of _ k]
          simp flip: k_def)
  next
    case (Some i)
    then have "Trim tier \<noteq> []" "find_label table 0 (Trim tier) = Some i"
      by (auto simp: reported_def split: if_splits)
    then show ?thesis
      using found[of table 0 "Trim tier"] find_label_index[of table 0 "Trim tier" i] Some
      by (simp add: compute progress_at_fields Let_def)
  qed
qed

definition sample_table :: "Threshold list" where
  "sample_table =
     [\<lparr>th_minMmr = 0, th_tier = Some ''Bronze I'', th_division = Some ''Div I''\<rparr>,
      \<lparr>th_minMmr = 100, th_tier = Some ''Bronze I'', th_division = Some ''Div II''\<rparr>,
      \<lparr>th_minMmr = 200, th_tier = Some ''Legend'', th_division = None\<rparr>]"

theorem rank_follows_report_or_table_witness:
  "pg_rank (Compute sample_table 150 []) = ''Bronze I Div II'' \<and>
   0 \<le> pg_aboveFloor (Compute sample_table 150 []) \<and>
   pg_rank (Compute sample_table 150 '' Legend '') = ''Legend'' \<and>
   pg_aboveFloor (Compute sample_table 150 '' Legend '') = -50"
proof -
  have ok: "table_ok sample_table" by (simp add: table_ok_def sample_table_def)
  have parts: "Trim [] = []" "Trim '' Legend '' = ''Legend''" "\<not> starts_with ''Legend'' ''Unranked''"
    "\<exists>t \<in> set sample_table. Label t = ''Legend''"
    "pg_rank (Compute sample_table 150 []) = ''Bronze I Div II''"
    "pg_aboveFloor (Compute sample_table 150 '' Legend '') = -50"
    by code_simp+
  then show ?thesis
    using rank_follows_report_or_table[OF ok, of 150 "[]"]
      rank_follows_report_or_table[OF ok, of 150 "'' Legend ''"]
    by (simp add: Let_def starts_with_def)
qed

text \<open>
  The labels on the graph never cover each other nor a reserved span, lie on the plot, and are at
  most as many as asked for.
\<close>

theorem graph_labels_do_not_overlap:
  "labels_ok options (LayoutGraphBoundaries table minV maxV current options) \<and>
   card (labeled_at (LayoutGraphBoundaries table minV maxV current options)) \<le> go_maxLabels options"
proof (cases "length table < 2 \<or> \<not> minV < maxV \<or> \<not> fp_finite minV \<or> \<not> fp_finite maxV")
  case True
  then show ?thesis
    by (auto simp: LayoutGraphBoundaries_def labels_ok_def labeled_at_def)
next
  case False
  define visible where "visible = visible_boundaries table minV maxV current options"
  define out where "out = map (\<lambda>b. \<lparr>gb_boundary = b,
      gb_topPct = plot_pct (go_plotTopPct options) (go_plotBottomPct options) minV maxV
        (f32_of_int (bd_mmr b)), gb_labeled = False, gb_labelTopPct = Fin 0\<rparr>) visible"
  define order where
    "order = stable_sort (\<lambda>a b. nearer current (visible ! a) (visible ! b)) [0..<length out]"
  have layout: "LayoutGraphBoundaries table minV maxV current options =
      place_labels options order out (go_reserved options) 0"
    using False by (auto simp: LayoutGraphBoundaries_def visible_def out_def order_def Let_def)
  have fresh: "\<not> gb_labeled (out ! i)" if "i < length out" for i
    using that by (simp add: out_def)
  have "labels_ok options out" "labels_taken options out (go_reserved options)" "labeled_at out = {}"
    using fresh by (auto simp: labels_ok_def labels_taken_def labeled_at_def)
  then show ?thesis
    using place_labels_ok[of options out "go_reserved options" order 0] fresh
    by (simp add: layout order_def)
qed

text \<open>
  The bands of the divisions leave no gap on the graph: where two neighbouring divisions are both
  drawn, the upper band ends exactly where the lower one begins.
\<close>

theorem graph_bands_touch:
  assumes "upper \<in> set (LayoutGraphBands table minV maxV plotTop plotBottom)"
    "lower \<in> set (LayoutGraphBands table minV maxV plotTop plotBottom)"
    "bn_index upper = Suc (bn_index lower)" "table_ok table"
  shows "bn_bottomPct upper = bn_topPct lower"
proof -
  have range: "minV < maxV" "fp_finite minV" "fp_finite maxV"
    using assms(1) by (auto simp: LayoutGraphBands_def split: if_splits)
  have band: "i < length table \<and> graph_band table minV maxV plotTop plotBottom i = Some b \<and> bn_index b = i"
    if "b \<in> set (LayoutGraphBands table minV maxV plotTop plotBottom)" "i = bn_index b" for b i
  proof -
    note hyps = that
    obtain j where j: "j < length table" "graph_band table minV maxV plotTop plotBottom j = Some b"
      using hyps(1) by (auto simp: LayoutGraphBands_def List.map_filter_def split: if_splits)
    then have "bn_index b = j" by (auto simp: graph_band_def Let_def split: if_splits)
    then show ?thesis using j hyps(2) by simp
  qed
  note u = band[OF assms(1) refl] and l = band[OF assms(2) refl]
  have "table ! Suc (bn_index lower) \<in> set table" using u assms(3) by simp
  then have "fp_finite (f32_of_int (th_minMmr (table ! Suc (bn_index lower))))"
    using assms(4) by (auto simp: table_ok_def f32_of_int_exact abs_le_iff)
  then show ?thesis using plot_band[OF range] u l assms(3) by auto
qed

theorem graph_bands_touch_witness:
  "\<exists>upper lower. set (LayoutGraphBands sample_table (Fin 50) (Fin 150) (Fin 10) (Fin 90)) = {upper, lower} \<and>
     bn_index upper = 1 \<and> bn_index lower = 0 \<and> bn_bottomPct upper = bn_topPct lower"
proof -
  have ok: "table_ok sample_table" by (simp add: table_ok_def sample_table_def)
  obtain upper lower where bands: "LayoutGraphBands sample_table (Fin 50) (Fin 150) (Fin 10) (Fin 90) =
      [upper, lower]" "bn_index upper = 1" "bn_index lower = 0"
  proof -
    have "map bn_index (LayoutGraphBands sample_table (Fin 50) (Fin 150) (Fin 10) (Fin 90)) = [1, 0]"
      by code_simp
    then show ?thesis using that by (auto simp: map_eq_Cons_conv)
  qed
  then have "bn_bottomPct upper = bn_topPct lower"
    using graph_bands_touch[of upper sample_table "Fin 50" "Fin 150" "Fin 10" "Fin 90" lower] ok by simp
  then show ?thesis using bands by (intro exI[of _ upper] exI[of _ lower]) simp
qed

end
