(* ===== verification/Insights.thy ===== *)
theory Insights
  imports Live_Store Text_Format "HOL-Library.List_Lexorder"
begin

text \<open>
  The aggregates behind the insights page (\<open>core/game/Insights.hpp\<close>, \<open>core/game/Insights.cpp\<close>):
  win rates by playlist, hour, length of the sitting and streak, win rates by the gap in rating, the
  people met, and the sittings of a list of matches.
\<close>

record PersonRecord =
  per_primaryId :: string
  per_name :: string
  per_winsWith :: int
  per_lossesWith :: int
  per_winsAgainst :: int
  per_lossesAgainst :: int
  per_lastSeenUnix :: int

definition GamesWith :: "PersonRecord \<Rightarrow> int" where
  "GamesWith p = per_winsWith p + per_lossesWith p"

definition GamesAgainst :: "PersonRecord \<Rightarrow> int" where
  "GamesAgainst p = per_winsAgainst p + per_lossesAgainst p"

record MatchOutcome =
  mo_endedAtUnix :: int
  mo_localHour :: int
  mo_playlist :: string
  mo_win :: bool

record TrendBucket =
  tb_label :: string
  tb_games :: int
  tb_wins :: int

type_synonym GapBucket = TrendBucket

definition win_rate :: "int \<Rightarrow> int \<Rightarrow> fp" where
  "win_rate games wins = (if 0 < games then fdiv32 (f32_of_int wins) (f32_of_int games) else Fin 0)"

definition TrendBucket_WinRate :: "TrendBucket \<Rightarrow> fp" where
  "TrendBucket_WinRate b = win_rate (tb_games b) (tb_wins b)"

record MatchMmrContext =
  mc_endedAtUnix :: int
  mc_playlist :: string
  mc_win :: bool
  mc_myMmr :: int
  mc_mmrEstimated :: bool
  mc_teamAvg :: fp
  mc_oppAvg :: fp
  mc_teamCount :: int
  mc_oppCount :: int

record ConfidenceInterval =
  ci_low :: fp
  ci_high :: fp

definition Excludes :: "ConfidenceInterval \<Rightarrow> fp \<Rightarrow> bool" where
  "Excludes ci v = (v < ci_low ci \<or> ci_high ci < v)"

record GapReport =
  gp_playlistFilter :: string
  gp_games :: int
  gp_wins :: int
  gp_buckets :: "GapBucket list"
  gp_carryHigher :: TrendBucket
  gp_carryGames :: int
  gp_callout :: string
  gp_statusMessage :: string

record TrendsReport =
  tr_games :: int
  tr_wins :: int
  tr_sessions :: int
  tr_byPlaylist :: "TrendBucket list"
  tr_byTimeOfDay :: "TrendBucket list"
  tr_bySessionGame :: "TrendBucket list"
  tr_afterStreak :: "TrendBucket list"
  tr_afterTwoPlusLosses :: TrendBucket
  tr_tiltWarning :: string

record SessionSlice =
  ss_beginIndex :: nat
  ss_endIndex :: nat
  ss_startedAtUnix :: int
  ss_endedAtUnix :: int

definition kTiltMinimumGames :: int where "kTiltMinimumGames = 10"
definition kTiltMargin :: fp where "kTiltMargin = f32 (8 / 100)"
definition kGapEvenLimit :: fp where "kGapEvenLimit = Fin 25"
definition kGapStrongLimit :: fp where "kGapStrongLimit = Fin 75"
definition kGapCalloutMinimumGames :: int where "kGapCalloutMinimumGames = 30"
definition kWilsonZ95 :: fp where "kWilsonZ95 = f64 (196 / 100)"

definition AddGame :: "bool \<Rightarrow> TrendBucket \<Rightarrow> TrendBucket" where
  "AddGame win b = b\<lparr>tb_games := tb_games b + 1, tb_wins := tb_wins b + (if win then 1 else 0)\<rparr>"

definition Buckets :: "string list \<Rightarrow> TrendBucket list" where
  "Buckets labels = map (\<lambda>l. \<lparr>tb_label = l, tb_games = 0, tb_wins = 0\<rparr>) labels"

definition Percent :: "fp \<Rightarrow> int" where
  "Percent rate = to_int32 (lround (fmul32 rate (Fin 100)))"

section \<open>Trends\<close>

text \<open>The locals of the loop of \<open>ComputeTrends\<close>; \<open>playlists\<close> is a \<open>std::map\<close>.\<close>

record TrendWalk =
  tw_report :: TrendsReport
  tw_playlists :: "(string, TrendBucket) umap"
  tw_previousEnd :: int
  tw_gameInSession :: int
  tw_lossStreak :: int
  tw_previousWon :: bool

definition TrendWalk0 :: TrendWalk where
  "TrendWalk0 =
     \<lparr>tw_report =
        \<lparr>tr_games = 0, tr_wins = 0, tr_sessions = 0, tr_byPlaylist = [],
         tr_byTimeOfDay = Buckets [''Night (00-06)'', ''Morning (06-12)'', ''Afternoon (12-18)'', ''Evening (18-24)''],
         tr_bySessionGame = Buckets [''Games 1-3'', ''Games 4-6'', ''Games 7-9'', ''Game 10+''],
         tr_afterStreak = Buckets [''After a win'', ''After 1 loss'', ''After 2 losses'', ''After 3+ losses''],
         tr_afterTwoPlusLosses = \<lparr>tb_label = ''After 2+ losses'', tb_games = 0, tb_wins = 0\<rparr>,
         tr_tiltWarning = []\<rparr>,
      tw_playlists = [], tw_previousEnd = 0, tw_gameInSession = 0, tw_lossStreak = 0,
      tw_previousWon = False\<rparr>"

definition add_at :: "nat \<Rightarrow> bool \<Rightarrow> TrendBucket list \<Rightarrow> TrendBucket list" where
  "add_at i win bs = bs[i := AddGame win (bs ! i)]"

definition playlist_of :: "MatchOutcome \<Rightarrow> string" where
  "playlist_of m = (if mo_playlist m = [] then ''Unknown'' else mo_playlist m)"

definition add_playlist :: "MatchOutcome \<Rightarrow> (string, TrendBucket) umap \<Rightarrow> (string, TrendBucket) umap" where
  "add_playlist m ps =
     (let b = (case map_of ps (playlist_of m) of
                 Some b \<Rightarrow> b | None \<Rightarrow> \<lparr>tb_label = [], tb_games = 0, tb_wins = 0\<rparr>)
      in um_put (playlist_of m) (AddGame (mo_win m) (b\<lparr>tb_label := playlist_of m\<rparr>)) ps)"

text \<open>The counts of the streak, of a match that goes on with a sitting.\<close>

definition count_streak :: "TrendWalk \<Rightarrow> bool \<Rightarrow> TrendsReport \<Rightarrow> TrendsReport" where
  "count_streak w win r =
     (if tw_previousWon w then r\<lparr>tr_afterStreak := add_at 0 win (tr_afterStreak r)\<rparr>
      else
        let r = r\<lparr>tr_afterStreak := add_at (nat (min (tw_lossStreak w) 3)) win (tr_afterStreak r)\<rparr>
        in if 2 \<le> tw_lossStreak w
           then r\<lparr>tr_afterTwoPlusLosses := AddGame win (tr_afterTwoPlusLosses r)\<rparr> else r)"

definition trend_match :: "MatchOutcome \<Rightarrow> TrendWalk \<Rightarrow> TrendWalk" where
  "trend_match m w =
     (let newSession = StartsNewSession (tw_previousEnd w) (mo_endedAtUnix m) (0 < tw_gameInSession w);
          win = mo_win m;
          r = tw_report w;
          r = (if newSession then r\<lparr>tr_sessions := tr_sessions r + 1\<rparr> else count_streak w win r);
          gameInSession = (if newSession then 0 else tw_gameInSession w) + 1;
          lossStreak = (if newSession then 0 else tw_lossStreak w);
          r = r\<lparr>tr_bySessionGame :=
                  add_at (nat (min ((gameInSession - 1) div 3) 3)) win (tr_bySessionGame r)\<rparr>;
          r = r\<lparr>tr_byTimeOfDay :=
                  add_at (nat (max 0 (min 23 (mo_localHour m)) div 6)) win (tr_byTimeOfDay r)\<rparr>;
          r = r\<lparr>tr_games := tr_games r + 1, tr_wins := tr_wins r + (if win then 1 else 0)\<rparr>
      in \<lparr>tw_report = r, tw_playlists = add_playlist m (tw_playlists w),
          tw_previousEnd = mo_endedAtUnix m, tw_gameInSession = gameInSession,
          tw_lossStreak = (if win then 0 else lossStreak + 1), tw_previousWon = win\<rparr>)"

definition tilt_warning :: "TrendsReport \<Rightarrow> string" where
  "tilt_warning r =
     (let tilt = tr_afterTwoPlusLosses r;
          overall = win_rate (tr_games r) (tr_wins r)
      in if kTiltMinimumGames \<le> tb_games tilt \<and> TrendBucket_WinRate tilt \<le> fsub32 overall kTiltMargin
         then ''You win '' @ to_string (Percent (TrendBucket_WinRate tilt)) @
              ''% of games after two straight losses, compared with '' @
              to_string (Percent overall) @
              ''% overall. Taking a break after two losses in a row may help.''
         else tr_tiltWarning r)"

definition ComputeTrends :: "MatchOutcome list \<Rightarrow> TrendsReport" where
  "ComputeTrends matches =
     (let w = fold trend_match matches TrendWalk0;
          byPlaylist = map snd (sort_key fst (tw_playlists w));
          r = (tw_report w)\<lparr>tr_byPlaylist := sort_key (\<lambda>b. - tb_games b) byPlaylist\<rparr>
      in r\<lparr>tr_tiltWarning := tilt_warning r\<rparr>)"

section \<open>Rating gaps\<close>

definition WilsonInterval :: "int \<Rightarrow> int \<Rightarrow> fp \<Rightarrow> ConfidenceInterval" where
  "WilsonInterval wins games z =
     (if games \<le> 0 then \<lparr>ci_low = Fin 0, ci_high = Fin 0\<rparr>
      else
        let n = f64_of_int games;
            w = f64_of_int (max 0 (min games wins));
            p = fdiv64 w n;
            z2 = fmul64 z z;
            denom = fadd64 (Fin 1) (fdiv64 z2 n);
            center = fdiv64 (fadd64 p (fdiv64 z2 (fmul64 (Fin 2) n))) denom;
            halfWidth =
              fdiv64 (fmul64 z (fsqrt64 (fadd64 (fdiv64 (fmul64 p (fsub64 (Fin 1) p)) n)
                                            (fdiv64 z2 (fmul64 (fmul64 (Fin 4) n) n))))) denom
        in \<lparr>ci_low = fclamp (fsub64 center halfWidth) (Fin 0) (Fin 1),
            ci_high = fclamp (fadd64 center halfWidth) (Fin 0) (Fin 1)\<rparr>)"

text \<open>The plus-minus sign is two bytes in UTF-8.\<close>

definition GapBuckets :: "GapBucket list" where
  "GapBuckets = Buckets
     [''Much stronger (+75 or more)'', ''Stronger (+25 to +75)'',
      ''Even ('' @ [CHR 0xC2, CHR 0xB1] @ ''25)'', ''Weaker (-25 to -75)'',
      ''Much weaker (-75 or less)'']"

definition GapBucketIndex :: "fp \<Rightarrow> nat" where
  "GapBucketIndex gap =
     (if kGapStrongLimit \<le> gap then 0
      else if kGapEvenLimit < gap then 1
      else if fp_neg kGapEvenLimit \<le> gap then 2
      else if fp_neg kGapStrongLimit < gap then 3
      else 4)"

text \<open>The key, the name and the team size of a playlist; size 0 for any other.\<close>

definition NormalizePlaylist :: "string \<Rightarrow> string \<times> string \<times> int" where
  "NormalizePlaylist raw =
     (if raw \<in> {''1v1'', ''Duel'', ''duel''} then (''1v1'', ''1v1'', 1)
      else if raw \<in> {''2v2'', ''Doubles'', ''doubles''} then (''2v2'', ''2v2'', 2)
      else if raw \<in> {''3v3'', ''Standard'', ''standard''} then (''3v3'', ''3v3'', 3)
      else if raw \<in> {''hoops'', ''Hoops''} then (''hoops'', ''Hoops'', 2)
      else if raw \<in> {''rumble'', ''Rumble''} then (''rumble'', ''Rumble'', 3)
      else if raw \<in> {''dropshot'', ''Dropshot''} then (''dropshot'', ''Dropshot'', 3)
      else if raw \<in> {''snowday'', ''Snow Day'', ''Snowday''} then (''snowday'', ''Snow Day'', 3)
      else if raw \<in> {''heatseeker'', ''Heatseeker''} then (''heatseeker'', ''Heatseeker'', 2)
      else ([], [], 0))"

definition formatBucketCallout :: "string \<Rightarrow> nat \<Rightarrow> TrendBucket \<Rightarrow> ConfidenceInterval \<Rightarrow> string" where
  "formatBucketCallout inPlaylist idx bucket ci =
     (let pct = to_string (Percent (TrendBucket_WinRate bucket)) @ ''%''
      in if idx \<le> 1
         then (if Fin (1 / 2) < ci_low ci
               then ''You win '' @ pct @ '' against stronger teams'' @ inPlaylist @ ''. You're climbing on merit.''
               else if ci_high ci < Fin (1 / 2)
               then ''You win '' @ pct @ '' against stronger teams'' @ inPlaylist @
                    ''. Tougher lobbies are costing you games.''
               else [])
         else if idx = 2
         then (if ci_high ci < Fin (1 / 2)
               then ''Against even lobbies you win '' @ pct @ inPlaylist @
                    ''. Your losses aren't mostly mismatches.''
               else if Fin (1 / 2) < ci_low ci
               then ''Against even lobbies you win '' @ pct @ inPlaylist @
                    ''. You're outplaying peers at your rank.''
               else [])
         else (if Fin (1 / 2) < ci_low ci
               then ''You win '' @ pct @ '' against weaker teams'' @ inPlaylist @
                    ''. You close out favorable lobbies.''
               else if ci_high ci < Fin (1 / 2)
               then ''You win '' @ pct @ '' against weaker teams'' @ inPlaylist @
                    ''. You're dropping games to lower-rated lobbies.''
               else []))"

definition bucket_interval :: "TrendBucket \<Rightarrow> ConfidenceInterval" where
  "bucket_interval b = WilsonInterval (tb_wins b) (tb_games b) kWilsonZ95"

text \<open>The last loop: the bucket with the most games whose interval leaves out one half.\<close>

fun best_bucket :: "(nat \<times> TrendBucket) list \<Rightarrow> (nat \<times> TrendBucket) option \<Rightarrow> (nat \<times> TrendBucket) option" where
  "best_bucket [] best = best"
| "best_bucket ((idx, b) # rest) best =
     (if tb_games b < kGapCalloutMinimumGames then best_bucket rest best
      else if Excludes (bucket_interval b) (Fin (1 / 2)) \<and>
              (case best of None \<Rightarrow> 0 | Some (_, c) \<Rightarrow> tb_games c) < tb_games b
      then best_bucket rest (Some (idx, b))
      else best_bucket rest best)"

definition stands_out :: "TrendBucket list \<Rightarrow> nat \<Rightarrow> bool" where
  "stands_out buckets idx =
     (idx < length buckets \<and> kGapCalloutMinimumGames \<le> tb_games (buckets ! idx) \<and>
      Fin (1 / 2) < ci_low (bucket_interval (buckets ! idx)))"

definition BuildGapCallout :: "TrendBucket list \<Rightarrow> string \<Rightarrow> string" where
  "BuildGapCallout buckets playlistLabel =
     (let inPlaylist = (if playlistLabel = [] then [] else '' in '' @ playlistLabel);
          callout = (\<lambda>idx b. formatBucketCallout inPlaylist idx b (bucket_interval b))
      in if stands_out buckets 1 then callout 1 (buckets ! 1)
         else if stands_out buckets 0 then callout 0 (buckets ! 0)
         else if 2 < length buckets \<and> kGapCalloutMinimumGames \<le> tb_games (buckets ! 2) \<and>
                 Excludes (bucket_interval (buckets ! 2)) (Fin (1 / 2))
         then callout 2 (buckets ! 2)
         else case best_bucket (zip [0..<length buckets] buckets) None of
                Some (idx, b) \<Rightarrow> callout idx b
              | None \<Rightarrow> [])"

text \<open>The guards of the loop of \<open>ComputeGapTrends\<close>; \<open>target\<close> is \<open>None\<close> for all playlists.\<close>

definition gap_match_counts :: "string option \<Rightarrow> MatchMmrContext \<Rightarrow> bool" where
  "gap_match_counts target m =
     (case NormalizePlaylist (mc_playlist m) of (key, display, teamSize) \<Rightarrow>
        0 < teamSize \<and> (case target of None \<Rightarrow> True | Some k \<Rightarrow> key = k) \<and>
        mc_teamCount m = teamSize \<and> mc_oppCount m = teamSize \<and>
        \<not> mc_teamAvg m \<le> Fin 0 \<and> \<not> mc_oppAvg m \<le> Fin 0 \<and> \<not> mc_myMmr m \<le> 0)"

definition teammates_avg :: "MatchMmrContext \<Rightarrow> fp" where
  "teammates_avg m =
     fdiv64 (fsub64 (fmul64 (mc_teamAvg m) (f64_of_int (mc_teamCount m))) (f64_of_int (mc_myMmr m)))
       (f64_of_int (mc_teamCount m - 1))"

definition count_carry :: "MatchMmrContext \<Rightarrow> GapReport \<Rightarrow> GapReport" where
  "count_carry m r =
     (if 1 < snd (snd (NormalizePlaylist (mc_playlist m)))
      then r\<lparr>gp_carryGames := gp_carryGames r + 1,
             gp_carryHigher :=
               (if teammates_avg m < f64_of_int (mc_myMmr m)
                then AddGame (mc_win m) (gp_carryHigher r) else gp_carryHigher r)\<rparr>
      else r)"

definition gap_match :: "string option \<Rightarrow> MatchMmrContext \<Rightarrow> GapReport \<Rightarrow> GapReport" where
  "gap_match target m r =
     (if \<not> gap_match_counts target m then r
      else count_carry m
        (r\<lparr>gp_buckets := add_at (GapBucketIndex (fsub64 (mc_oppAvg m) (mc_teamAvg m))) (mc_win m) (gp_buckets r),
           gp_games := gp_games r + 1,
           gp_wins := gp_wins r + (if mc_win m then 1 else 0)\<rparr>))"

definition GapReport0 :: "string \<Rightarrow> GapReport" where
  "GapReport0 playlistFilter =
     \<lparr>gp_playlistFilter = (if playlistFilter = [] then ''All'' else playlistFilter), gp_games = 0,
      gp_wins = 0, gp_buckets = GapBuckets,
      gp_carryHigher = \<lparr>tb_label = ''Carry factor (above teammates)'', tb_games = 0, tb_wins = 0\<rparr>,
      gp_carryGames = 0, gp_callout = [], gp_statusMessage = []\<rparr>"

definition ComputeGapTrends :: "MatchMmrContext list \<Rightarrow> string \<Rightarrow> GapReport" where
  "ComputeGapTrends matches playlistFilter =
     (let report = GapReport0 playlistFilter;
          matchAll = (playlistFilter \<in> {[], ''All'', ''all''})
      in case NormalizePlaylist playlistFilter of (key, display, teamSize) \<Rightarrow>
           if \<not> matchAll \<and> teamSize = 0
           then report\<lparr>gp_statusMessage := ''Not enough ranked data''\<rparr>
           else
             let report = fold (gap_match (if matchAll then None else Some key)) matches report
             in if gp_games report = 0
                then report\<lparr>gp_statusMessage := ''Not enough ranked data''\<rparr>
                else report\<lparr>gp_callout :=
                       BuildGapCallout (gp_buckets report) (if matchAll then [] else display)\<rparr>)"

section \<open>People and sittings\<close>

datatype PeopleFilter = Teammates | Rivals

definition people_games :: "PeopleFilter \<Rightarrow> PersonRecord \<Rightarrow> int" where
  "people_games filter' p = (if filter' = Teammates then GamesWith p else GamesAgainst p)"

text \<open>The comparison of the stable sort: more games first, then seen last first.\<close>

definition people_key :: "PeopleFilter \<Rightarrow> PersonRecord \<Rightarrow> int list" where
  "people_key filter' p = [- people_games filter' p, - per_lastSeenUnix p]"

definition RankPeople :: "PersonRecord list \<Rightarrow> PeopleFilter \<Rightarrow> nat \<Rightarrow> PersonRecord list" where
  "RankPeople people filter' limit =
     take limit (sort_key (people_key filter') (filter (\<lambda>p. people_games filter' p \<noteq> 0) people))"

fun group_sessions :: "nat \<Rightarrow> int list \<Rightarrow> SessionSlice list \<Rightarrow> SessionSlice list" where
  "group_sessions i [] slices = slices"
| "group_sessions i (ts # rest) slices =
     group_sessions (Suc i) rest
       (if StartsNewSession (if slices = [] then 0 else ss_endedAtUnix (last slices)) ts (slices \<noteq> [])
        then slices @ [\<lparr>ss_beginIndex = i, ss_endIndex = i + 1, ss_startedAtUnix = ts, ss_endedAtUnix = ts\<rparr>]
        else upd_last (\<lambda>s. s\<lparr>ss_endIndex := i + 1, ss_endedAtUnix := max (ss_endedAtUnix s) ts\<rparr>) slices)"

definition GroupSessionTimestamps :: "int list \<Rightarrow> SessionSlice list" where
  "GroupSessionTimestamps endedAtUnix = group_sessions 0 endedAtUnix []"

section \<open>Counts\<close>

definition bucket_games :: "TrendBucket list \<Rightarrow> int" where
  "bucket_games bs = sum_list (map tb_games bs)"

definition bucket_wins :: "TrendBucket list \<Rightarrow> int" where
  "bucket_wins bs = sum_list (map tb_wins bs)"

definition won :: "bool \<Rightarrow> int" where
  "won w = (if w then 1 else 0)"

lemma AddGame_counts [simp]:
  "tb_games (AddGame w b) = tb_games b + 1" "tb_wins (AddGame w b) = tb_wins b + won w"
  by (simp_all add: AddGame_def won_def)

lemma length_add_at [simp]: "length (add_at i w bs) = length bs"
  by (simp add: add_at_def)

lemma add_at_counts [simp]:
  assumes "i < length bs"
  shows "bucket_games (add_at i w bs) = bucket_games bs + 1"
    "bucket_wins (add_at i w bs) = bucket_wins bs + won w"
proof -
  have *: "map f (bs[i := b]) = take i (map f bs) @ f b # drop (Suc i) (map f bs)"
    "map f bs = take i (map f bs) @ f (bs ! i) # drop (Suc i) (map f bs)" for f :: "TrendBucket \<Rightarrow> int" and b
    using assms by (simp_all add: upd_conv_take_nth_drop take_map drop_map id_take_nth_drop[symmetric]
        flip: list.map(2) map_append)
  have "sum_list (map f (bs[i := b])) = sum_list (map f bs) - f (bs ! i) + f b"
    for f :: "TrendBucket \<Rightarrow> int" and b
    using arg_cong[OF *(1)[of f b], of sum_list] arg_cong[OF *(2)[of f], of sum_list] by simp
  then show "bucket_games (add_at i w bs) = bucket_games bs + 1"
    "bucket_wins (add_at i w bs) = bucket_wins bs + won w"
    by (simp_all add: bucket_games_def bucket_wins_def add_at_def)
qed

lemma bucket_index: "nat (min x 3) < 4" "nat (max 0 (min 23 h) div 6) < 4"
  by auto

text \<open>The values of a map.\<close>

lemma um_put_sum:
  fixes f :: "'v \<Rightarrow> int"
  assumes "um_inv m"
  shows "sum_list (map (f \<circ> snd) (um_put k v m)) =
    sum_list (map (f \<circ> snd) m) - (case map_of m k of None \<Rightarrow> 0 | Some b \<Rightarrow> f b) + f v"
  using assms
proof (induction m)
  case (Cons a m)
  then show ?case by (cases a) (auto simp: um_inv_def dest: weak_map_of_SomeI split: option.splits)
qed simp

text \<open>The report after the matches \<open>ms\<close>.\<close>

definition trends_ok :: "MatchOutcome list \<Rightarrow> TrendWalk \<Rightarrow> bool" where
  "trends_ok ms w =
     (let r = tw_report w; n = int (length ms); wins = sum_list (map (won \<circ> mo_win) ms) in
      tr_games r = n \<and> tr_wins r = wins \<and>
      length (tr_byTimeOfDay r) = 4 \<and> bucket_games (tr_byTimeOfDay r) = n \<and> bucket_wins (tr_byTimeOfDay r) = wins \<and>
      length (tr_bySessionGame r) = 4 \<and> bucket_games (tr_bySessionGame r) = n \<and> bucket_wins (tr_bySessionGame r) = wins \<and>
      length (tr_afterStreak r) = 4 \<and> bucket_games (tr_afterStreak r) + tr_sessions r = n \<and>
      um_inv (tw_playlists w) \<and>
      sum_list (map (tb_games \<circ> snd) (tw_playlists w)) = n \<and>
      sum_list (map (tb_wins \<circ> snd) (tw_playlists w)) = wins)"

lemma trends_ok_init: "trends_ok [] TrendWalk0"
  by (simp add: trends_ok_def TrendWalk0_def Buckets_def bucket_games_def bucket_wins_def)

lemma count_streak_frame [simp]:
  "tr_games (count_streak w win r) = tr_games r" "tr_wins (count_streak w win r) = tr_wins r"
  "tr_sessions (count_streak w win r) = tr_sessions r"
  "tr_byTimeOfDay (count_streak w win r) = tr_byTimeOfDay r"
  "tr_bySessionGame (count_streak w win r) = tr_bySessionGame r"
  by (simp_all add: count_streak_def Let_def)

lemma count_streak_counts:
  "length (tr_afterStreak r) = 4 \<Longrightarrow> length (tr_afterStreak (count_streak w win r)) = 4 \<and>
     bucket_games (tr_afterStreak (count_streak w win r)) = bucket_games (tr_afterStreak r) + 1"
  by (simp add: count_streak_def Let_def)

lemma add_playlist_counts:
  assumes "um_inv ps"
  shows "um_inv (add_playlist m ps)"
    "sum_list (map (tb_games \<circ> snd) (add_playlist m ps)) = sum_list (map (tb_games \<circ> snd) ps) + 1"
    "sum_list (map (tb_wins \<circ> snd) (add_playlist m ps)) = sum_list (map (tb_wins \<circ> snd) ps) + won (mo_win m)"
  using assms
  by (simp_all add: add_playlist_def Let_def um_put_sum um_simps del: map_map split: option.split)

lemma trend_match_ok:
  assumes "trends_ok ms w"
  shows "trends_ok (ms @ [m]) (trend_match m w)"
proof -
  note counts = count_streak_counts[of "tw_report w" w "mo_win m"]
  show ?thesis
    using assms counts add_playlist_counts[of "tw_playlists w" m]
    by (simp add: trends_ok_def trend_match_def Let_def bucket_index won_def)
qed

lemma trends_ok_fold: "trends_ok ms (fold trend_match ms TrendWalk0)"
  by (induction ms rule: rev_induct) (simp_all add: trends_ok_init trend_match_ok)

section \<open>Sittings\<close>

definition slice_step :: "nat \<Rightarrow> int \<Rightarrow> SessionSlice list \<Rightarrow> SessionSlice list" where
  "slice_step i ts slices =
     (if StartsNewSession (if slices = [] then 0 else ss_endedAtUnix (last slices)) ts (slices \<noteq> [])
      then slices @ [\<lparr>ss_beginIndex = i, ss_endIndex = i + 1, ss_startedAtUnix = ts, ss_endedAtUnix = ts\<rparr>]
      else upd_last (\<lambda>s. s\<lparr>ss_endIndex := i + 1, ss_endedAtUnix := max (ss_endedAtUnix s) ts\<rparr>) slices)"

lemma group_sessions_snoc:
  "group_sessions i (xs @ [t]) slices = slice_step (i + length xs) t (group_sessions i xs slices)"
  by (induction xs arbitrary: i slices) (simp_all add: slice_step_def)

text \<open>The reference: a sitting begins at a match that ended more than two hours after the one before.\<close>

definition sitting_starts :: "int list \<Rightarrow> nat list" where
  "sitting_starts xs = filter (\<lambda>i. i = 0 \<or> 2 * 60 * 60 < xs ! i - xs ! (i - 1)) [0..<length xs]"

definition sitting :: "int list \<Rightarrow> nat \<Rightarrow> nat \<Rightarrow> SessionSlice" where
  "sitting xs b e =
     \<lparr>ss_beginIndex = b, ss_endIndex = e, ss_startedAtUnix = xs ! b, ss_endedAtUnix = xs ! (e - 1)\<rparr>"

fun sittings :: "int list \<Rightarrow> nat list \<Rightarrow> SessionSlice list" where
  "sittings xs [] = []"
| "sittings xs [b] = [sitting xs b (length xs)]"
| "sittings xs (b # b' # bs) = sitting xs b b' # sittings xs (b' # bs)"

lemma sitting_starts_snoc:
  "sitting_starts (xs @ [t]) =
     sitting_starts xs @ (if xs = [] \<or> 2 * 60 * 60 < t - last xs then [length xs] else [])"
proof -
  have "filter (\<lambda>i. i = 0 \<or> 2 * 60 * 60 < (xs @ [t]) ! i - (xs @ [t]) ! (i - 1)) [0..<length xs] =
      sitting_starts xs"
    unfolding sitting_starts_def by (rule filter_cong) (auto simp: nth_append)
  then show ?thesis
    by (cases "xs = []") (simp_all add: sitting_starts_def nth_append last_conv_nth)
qed

lemma sitting_starts_less: "set (sitting_starts xs) \<subseteq> {..<length xs}"
  by (auto simp: sitting_starts_def)

lemma sitting_starts_Nil: "sitting_starts xs = [] \<longleftrightarrow> xs = []"
  by (induction xs rule: rev_induct) (auto simp: sitting_starts_snoc, simp add: sitting_starts_def)

lemma length_sittings [simp]: "length (sittings xs bs) = length bs"
  by (induction xs bs rule: sittings.induct) auto

lemma sittings_Nil [simp]: "sittings xs bs = [] \<longleftrightarrow> bs = []"
  using length_sittings[of xs bs] by (metis length_0_conv)

lemma sittings_last:
  "bs \<noteq> [] \<Longrightarrow> sittings xs bs = butlast (sittings xs bs) @ [sitting xs (last bs) (length xs)]"
  by (induction xs bs rule: sittings.induct) auto

lemma sittings_extend:
  assumes "set bs \<subseteq> {..<length xs}" "bs \<noteq> []"
  shows "sittings (xs @ [t]) bs = butlast (sittings xs bs) @ [sitting (xs @ [t]) (last bs) (Suc (length xs))]"
  using assms
  by (induction xs bs rule: sittings.induct) (auto simp: sitting_def nth_append)

lemma sittings_snoc:
  assumes "set bs \<subseteq> {..<length xs}"
  shows "sittings (xs @ [t]) (bs @ [length xs]) =
    sittings xs bs @ [sitting (xs @ [t]) (length xs) (Suc (length xs))]"
  using assms
  by (induction xs bs rule: sittings.induct) (auto simp: sitting_def nth_append)

lemma GroupSessionTimestamps_sittings:
  "sorted xs \<Longrightarrow> GroupSessionTimestamps xs = sittings xs (sitting_starts xs)"
proof (induction xs rule: rev_induct)
  case Nil
  show ?case by (simp add: GroupSessionTimestamps_def sitting_starts_def)
next
  case (snoc t xs)
  then have IH: "group_sessions 0 xs [] = sittings xs (sitting_starts xs)"
    by (simp add: GroupSessionTimestamps_def sorted_append)
  have step: "GroupSessionTimestamps (xs @ [t]) = slice_step (length xs) t (sittings xs (sitting_starts xs))"
    by (simp add: GroupSessionTimestamps_def group_sessions_snoc IH)
  show ?case
  proof (cases "xs = []")
    case True
    then show ?thesis
      by (simp add: GroupSessionTimestamps_def StartsNewSession_def sitting_def sitting_starts_def)
  next
    case False
    define bs where "bs = sitting_starts xs"
    have bs: "bs \<noteq> []" "set bs \<subseteq> {..<length xs}"
      using False sitting_starts_Nil sitting_starts_less by (auto simp: bs_def)
    have lst: "sittings xs bs = butlast (sittings xs bs) @ [sitting xs (last bs) (length xs)]"
      using sittings_last[OF bs(1)] .
    have ended: "ss_endedAtUnix (last (sittings xs bs)) = last xs"
      using False by (subst lst) (simp add: sitting_def last_conv_nth)
    have le: "last xs \<le> t" using snoc.prems False by (simp add: sorted_append)
    show ?thesis
    proof (cases "2 * 60 * 60 < t - last xs")
      case True
      then show ?thesis
        using bs ended
        by (simp add: step slice_step_def StartsNewSession_def kSessionGapSeconds_def
            sitting_starts_snoc sittings_snoc sitting_def flip: bs_def)
    next
      case gap: False
      have "slice_step (length xs) t (sittings xs bs) = butlast (sittings xs bs) @
          [sitting (xs @ [t]) (last bs) (Suc (length xs))]"
      proof -
        have "last bs < length xs" using bs by (metis last_in_set lessThan_iff subsetD)
        moreover have "last (sittings xs bs) = sitting xs (last bs) (length xs)"
          by (subst lst) simp
        moreover have "xs ! (length xs - 1) = last xs" using False by (simp add: last_conv_nth)
        ultimately show ?thesis
          using gap bs le by (simp add: slice_step_def StartsNewSession_def kSessionGapSeconds_def
              upd_last_def sitting_def nth_append)
      qed
      then show ?thesis
        using gap False sittings_extend[OF bs(2,1), of t]
        by (simp add: step sitting_starts_snoc flip: bs_def)
    qed
  qed
qed

lemma trend_match_frame [simp]:
  "tw_previousEnd (trend_match m w) = mo_endedAtUnix m"
  "0 \<le> tw_gameInSession w \<Longrightarrow> 0 < tw_gameInSession (trend_match m w)"
  "tr_sessions (tw_report (trend_match m w)) = tr_sessions (tw_report w) +
     (if StartsNewSession (tw_previousEnd w) (mo_endedAtUnix m) (0 < tw_gameInSession w) then 1 else 0)"
  by (simp_all add: trend_match_def Let_def)

lemma count_sessions:
  "(if ms = [] then tw_gameInSession (fold trend_match ms TrendWalk0) = 0
    else 0 < tw_gameInSession (fold trend_match ms TrendWalk0) \<and>
      tw_previousEnd (fold trend_match ms TrendWalk0) = mo_endedAtUnix (last ms)) \<and>
   tr_sessions (tw_report (fold trend_match ms TrendWalk0)) =
     int (length (sitting_starts (map mo_endedAtUnix ms)))"
proof (induction ms rule: rev_induct)
  case Nil
  show ?case by (simp add: TrendWalk0_def sitting_starts_def)
next
  case (snoc m ms)
  then show ?case
    using sitting_starts_snoc[of "map mo_endedAtUnix ms" "mo_endedAtUnix m"]
    by (cases "ms = []")
      (simp_all add: last_map StartsNewSession_def kSessionGapSeconds_def)
qed

lemma sum_sort_key: "sum_list (map f (sort_key k xs)) = (sum_list (map f xs) :: int)"
proof -
  have "sum_list (map f (insort_key k x xs)) = f x + sum_list (map f xs)" for x xs
    by (induction xs) auto
  then show ?thesis by (induction xs) simp_all
qed

section \<open>Rating gaps\<close>

definition gap_ok :: "GapReport \<Rightarrow> bool" where
  "gap_ok r =
     (length (gp_buckets r) = 5 \<and> bucket_games (gp_buckets r) = gp_games r \<and>
      bucket_wins (gp_buckets r) = gp_wins r)"

lemma gap_match_ok: "gap_ok r \<Longrightarrow> gap_ok (gap_match target m r)"
  by (simp add: gap_match_def gap_ok_def count_carry_def GapBucketIndex_def won_def)

lemma gap_fold:
  "gap_ok r \<Longrightarrow> gap_ok (fold (gap_match target) ms r) \<and>
     gp_games (fold (gap_match target) ms r) =
       gp_games r + int (length (filter (gap_match_counts target) ms)) \<and>
     gp_wins (fold (gap_match target) ms r) =
       gp_wins r + int (length (filter (\<lambda>m. gap_match_counts target m \<and> mc_win m) ms))"
proof (induction ms arbitrary: r)
  case (Cons m ms)
  then show ?case
    using gap_match_ok[of r target m] by (simp add: gap_match_def count_carry_def)
qed simp

section \<open>Properties\<close>

text \<open>
  Every match is counted once in each breakdown of the trends: by playlist, by time of day, by
  its place in the sitting, with its win; and once after a win or a loss unless it opens a sitting.
\<close>

theorem trends_count_every_match:
  "let r = ComputeTrends matches; n = int (length matches);
       wins = int (length (filter mo_win matches)) in
   tr_games r = n \<and> tr_wins r = wins \<and>
   bucket_games (tr_byPlaylist r) = n \<and> bucket_wins (tr_byPlaylist r) = wins \<and>
   bucket_games (tr_byTimeOfDay r) = n \<and> bucket_wins (tr_byTimeOfDay r) = wins \<and>
   bucket_games (tr_bySessionGame r) = n \<and> bucket_wins (tr_bySessionGame r) = wins \<and>
   bucket_games (tr_afterStreak r) = n - tr_sessions r"
proof -
  have wins: "sum_list (map (won \<circ> mo_win) matches) = int (length (filter mo_win matches))"
    by (induction matches) (auto simp: won_def)
  show ?thesis
    using trends_ok_fold[of matches] wins
    by (simp add: ComputeTrends_def trends_ok_def bucket_games_def bucket_wins_def sum_sort_key
        Let_def comp_def)
qed

text \<open>
  A list of matches in the order they ended is cut into sittings exactly where more than two
  hours lie between the ends of two matches; each sitting has the indices and the times of its first
  and last match, and the trends count as many sittings.
\<close>

theorem sittings_are_cut_at_breaks:
  assumes "sorted (map mo_endedAtUnix matches)"
  shows "GroupSessionTimestamps (map mo_endedAtUnix matches) =
      sittings (map mo_endedAtUnix matches) (sitting_starts (map mo_endedAtUnix matches)) \<and>
    tr_sessions (ComputeTrends matches) =
      int (length (GroupSessionTimestamps (map mo_endedAtUnix matches)))"
  using assms
  by (simp add: GroupSessionTimestamps_sittings ComputeTrends_def count_sessions Let_def)

theorem sittings_are_cut_at_breaks_witness:
  "tr_sessions (ComputeTrends
     [\<lparr>mo_endedAtUnix = 100, mo_localHour = 3, mo_playlist = [], mo_win = True\<rparr>,
      \<lparr>mo_endedAtUnix = 7300, mo_localHour = 5, mo_playlist = [], mo_win = False\<rparr>,
      \<lparr>mo_endedAtUnix = 14501, mo_localHour = 7, mo_playlist = [], mo_win = False\<rparr>]) = 2"
proof -
  define ms where "ms =
    [\<lparr>mo_endedAtUnix = 100, mo_localHour = 3, mo_playlist = [], mo_win = True\<rparr>,
     \<lparr>mo_endedAtUnix = 7300, mo_localHour = 5, mo_playlist = [], mo_win = False\<rparr>,
     \<lparr>mo_endedAtUnix = 14501, mo_localHour = 7, mo_playlist = [], mo_win = False\<rparr>]"
  have "length (GroupSessionTimestamps (map mo_endedAtUnix ms)) = 2" unfolding ms_def by code_simp
  then show ?thesis
    using sittings_are_cut_at_breaks[of ms] by (simp add: ms_def)
qed

text \<open>
  The report on rating gaps counts exactly the matches of the playlist asked for that have full
  teams and known ratings, each in one bucket.
\<close>

theorem gap_buckets_partition:
  assumes "NormalizePlaylist playlist = (key, display, teamSize)" "0 < teamSize"
  shows "let r = ComputeGapTrends matches playlist in
    bucket_games (gp_buckets r) = int (length (filter (gap_match_counts (Some key)) matches)) \<and>
    bucket_wins (gp_buckets r) =
      int (length (filter (\<lambda>m. gap_match_counts (Some key) m \<and> mc_win m) matches)) \<and>
    length (gp_buckets r) = 5"
proof -
  have "gap_ok (GapReport0 playlist)"
    by (simp add: gap_ok_def GapReport0_def GapBuckets_def Buckets_def bucket_games_def bucket_wins_def)
  note run = gap_fold[OF this, of "Some key" matches]
  have "playlist \<notin> {[], ''All'', ''all''}" using assms by (auto simp: NormalizePlaylist_def)
  then show ?thesis
    using assms run by (simp add: ComputeGapTrends_def Let_def gap_ok_def) (simp add: GapReport0_def)
qed

theorem gap_buckets_partition_witness:
  "bucket_games (gp_buckets (ComputeGapTrends
     [\<lparr>mc_endedAtUnix = 0, mc_playlist = ''Duel'', mc_win = True, mc_myMmr = 900, mc_mmrEstimated = False,
       mc_teamAvg = Fin 900, mc_oppAvg = Fin 925, mc_teamCount = 1, mc_oppCount = 1\<rparr>] ''1v1'')) = 1"
proof -
  have "NormalizePlaylist ''1v1'' = (''1v1'', ''1v1'', 1)" "NormalizePlaylist ''Duel'' = (''1v1'', ''1v1'', 1)"
    by (simp_all add: NormalizePlaylist_def)
  then show ?thesis
    using gap_buckets_partition[of "''1v1''" "''1v1''" "''1v1''" 1
        "[\<lparr>mc_endedAtUnix = 0, mc_playlist = ''Duel'', mc_win = True, mc_myMmr = 900,
           mc_mmrEstimated = False, mc_teamAvg = Fin 900, mc_oppAvg = Fin 925, mc_teamCount = 1,
           mc_oppCount = 1\<rparr>]"]
    by (simp add: gap_match_counts_def Let_def)
qed

end
