(* ===== verification/Match_Card.thy ===== *)
theory Match_Card
  imports Insights Analytics_Json
begin

text \<open>
  The link that shares a match (\<open>core/state/MatchCardUrl.cpp\<close>): the card of a saved match as a JSON
  object, packed in Base64 for URLs behind a fragment mark, and the reader of such links. The JSON
  library's parser and printer are the parameters \<open>parse\<close> and \<open>dump\<close>. The records are those of
  \<open>core/state/SessionTypes.hpp\<close>.
\<close>

unbundle bit_operations_syntax

section \<open>Base64\<close>

definition kBase64UrlTable :: string where
  "kBase64UrlTable = ''ABCDEFGHIJKLMNOPQRSTUVWXYZabcdefghijklmnopqrstuvwxyz0123456789-_''"

definition byte_word :: "char \<Rightarrow> 32 word" where
  "byte_word c = of_nat (of_char c)"

definition table_char :: "32 word \<Rightarrow> char" where
  "table_char n = kBase64UrlTable ! unat (n AND 0x3F)"

fun Base64UrlEncode :: "string \<Rightarrow> string" where
  "Base64UrlEncode (a # b # c # rest) =
     (let n = push_bit 16 (byte_word a) OR push_bit 8 (byte_word b) OR byte_word c
      in table_char (drop_bit 18 n) # table_char (drop_bit 12 n) # table_char (drop_bit 6 n)
         # table_char n # Base64UrlEncode rest)"
| "Base64UrlEncode [a, b] =
     (let n = push_bit 16 (byte_word a) OR push_bit 8 (byte_word b)
      in [table_char (drop_bit 18 n), table_char (drop_bit 12 n), table_char (drop_bit 6 n)])"
| "Base64UrlEncode [a] =
     (let n = push_bit 16 (byte_word a)
      in [table_char (drop_bit 18 n), table_char (drop_bit 12 n)])"
| "Base64UrlEncode [] = []"

definition decodeChar :: "char \<Rightarrow> int" where
  "decodeChar c =
     (if CHR ''A'' \<le> c \<and> c \<le> CHR ''Z'' then of_char c - of_char CHR ''A''
      else if CHR ''a'' \<le> c \<and> c \<le> CHR ''z'' then of_char c - of_char CHR ''a'' + 26
      else if CHR ''0'' \<le> c \<and> c \<le> CHR ''9'' then of_char c - of_char CHR ''0'' + 52
      else if c = CHR ''-'' \<or> c = CHR ''+'' then 62
      else if c = CHR ''_'' \<or> c = CHR ''/'' then 63
      else -1)"

text \<open>The loop of \<open>Base64UrlDecode\<close>: \<open>buf\<close> holds the bits read, of which \<open>bits\<close> are not written yet.\<close>

fun decode_from :: "string \<Rightarrow> 32 word \<Rightarrow> nat \<Rightarrow> string" where
  "decode_from [] buf bits = []"
| "decode_from (c # cs) buf bits =
     (if c = CHR ''='' then []
      else let val = decodeChar c
           in if val < 0 then decode_from cs buf bits
              else let buf = push_bit 6 buf OR of_int val; bits = bits + 6
                   in if 8 \<le> bits
                      then char_of (unat (drop_bit (bits - 8) buf AND 0xFF)) # decode_from cs buf (bits - 8)
                      else decode_from cs buf bits)"

definition Base64UrlDecode :: "string \<Rightarrow> string" where
  "Base64UrlDecode s = decode_from s 0 0"

section \<open>The match\<close>

record MatchDetailPlayer =
  dp_primaryId :: string
  dp_name :: string
  dp_platform :: string
  dp_team :: int
  dp_isOpponent :: bool
  dp_isMe :: bool
  dp_mmr :: int
  dp_mmrEstimated :: bool
  dp_tier :: string
  dp_hasStats :: bool
  dp_score :: "int option"
  dp_goals :: "int option"
  dp_assists :: "int option"
  dp_saves :: "int option"
  dp_shots :: "int option"
  dp_demos :: "int option"
  dp_touches :: "int option"
  dp_carTouches :: "int option"
  dp_maxGoalSpeed :: "fp option"
  dp_fastestGoalTime :: "fp option"
  dp_encounter :: "PersonRecord option"

record MatchLocalStatsRow =
  ls_boostCollected :: int
  ls_demoed :: int
  ls_crossbars :: int
  ls_hardestCrossbar :: "fp option"
  ls_maxBallSpeed :: "fp option"
  ls_ownGoals :: int

record MatchDetail =
  md_found :: bool
  md_matchId :: int
  md_matchGuid :: string
  md_timestampUnix :: int
  md_arena :: string
  md_playlist :: string
  md_gamemode :: string
  md_playlistId :: int
  md_ranked :: bool
  md_win :: bool
  md_ourScore :: int
  md_theirScore :: int
  md_accountPrimaryId :: string
  md_mmrBefore :: "int option"
  md_mmrAfter :: "int option"
  md_mmrDelta :: "int option"
  md_mmrEstimated :: bool
  md_hasPlayerStats :: bool
  md_hasLocalStats :: bool
  md_durationSeconds :: "fp option"
  md_overtimeSeconds :: "fp option"
  md_localStats :: "MatchLocalStatsRow option"
  md_ballchasingId :: string
  md_ballchasingUrl :: string
  md_ourTeam :: "MatchDetailPlayer list"
  md_theirTeam :: "MatchDetailPlayer list"
  md_events :: "MatchJournalEvent list"
  md_analytics :: "MatchAnalytics option"

section \<open>The card\<close>

definition entry_if :: "bool \<Rightarrow> string \<Rightarrow> json \<Rightarrow> (string \<times> json) list" where
  "entry_if b key v = (if b then [(key, v)] else [])"

definition object_entry :: "string \<Rightarrow> (string \<times> json) list \<Rightarrow> (string \<times> json) list" where
  "object_entry key fs = (if fs = [] then [] else [(key, JObject fs)])"

definition card_result :: "MatchDetail \<Rightarrow> string" where
  "card_result d =
     (if md_theirScore d < md_ourScore d then ''W''
      else if md_ourScore d < md_theirScore d then ''L''
      else if md_win d then ''W'' else ''D'')"

definition positive :: "fp option \<Rightarrow> bool" where
  "positive x = (case x of None \<Rightarrow> False | Some s \<Rightarrow> Fin 0 < s)"

definition card_duration :: "MatchDetail \<Rightarrow> (string \<times> json) list" where
  "card_duration d =
     (if positive (md_durationSeconds d)
      then [(''dur'', JInt (to_int32 (lround (the (md_durationSeconds d)))))]
      else case md_analytics d of
             Some a \<Rightarrow>
               entry_if (Fin 0 < ma_playSeconds a) ''dur'' (JInt (to_int32 (lround (ma_playSeconds a))))
           | None \<Rightarrow> [])"

definition card_overtime :: "MatchDetail \<Rightarrow> bool" where
  "card_overtime d =
     (positive (md_overtimeSeconds d) \<or>
      (case md_analytics d of None \<Rightarrow> False | Some a \<Rightarrow> ma_endedInOvertime a))"

definition card_player :: "MatchDetail \<Rightarrow> MatchDetailPlayer option" where
  "card_player d =
     (case find dp_isMe (md_ourTeam d) of
        Some p \<Rightarrow> Some p
      | None \<Rightarrow>
          (case (if md_accountPrimaryId d \<noteq> []
                 then find (\<lambda>p. dp_primaryId p = md_accountPrimaryId d) (md_ourTeam d) else None) of
             Some p \<Rightarrow> Some p
           | None \<Rightarrow> (case md_ourTeam d of [] \<Rightarrow> None | p # _ \<Rightarrow> Some p)))"

definition card_stats :: "MatchDetailPlayer option \<Rightarrow> (string \<times> json) list" where
  "card_stats me =
     (case me of
        None \<Rightarrow> []
      | Some p \<Rightarrow>
          if dp_hasStats p
          then object_entry ''st''
                 (opt_entry ''g'' (dp_goals p) JInt @ opt_entry ''a'' (dp_assists p) JInt @
                  opt_entry ''sv'' (dp_saves p) JInt @ opt_entry ''sh'' (dp_shots p) JInt @
                  opt_entry ''sc'' (dp_score p) JInt @ opt_entry ''dm'' (dp_demos p) JInt)
          else [])"

definition card_rating :: "MatchDetail \<Rightarrow> MatchDetailPlayer option \<Rightarrow> (string \<times> json) list" where
  "card_rating d me =
     object_entry ''mmr''
       (opt_entry ''b'' (md_mmrBefore d) JInt @ opt_entry ''a'' (md_mmrAfter d) JInt @
        (case me of
           None \<Rightarrow> []
         | Some p \<Rightarrow> entry_if (dp_tier p \<noteq> [] \<and> dp_tier p \<noteq> ''Unranked'') ''rank'' (JString (dp_tier p))))"

definition card_analytics_player :: "MatchDetail \<Rightarrow> MatchAnalytics \<Rightarrow> MatchDetailPlayer option \<Rightarrow> PlayerAnalytics option" where
  "card_analytics_player d a me =
     (case (case me of
              Some p \<Rightarrow> if dp_primaryId p \<noteq> [] then FindPlayer a (dp_primaryId p) else None
            | None \<Rightarrow> None) of
        Some pa \<Rightarrow> Some pa
      | None \<Rightarrow> if md_accountPrimaryId d \<noteq> [] then FindPlayer a (md_accountPrimaryId d) else None)"

definition card_percent :: "CarTelemetry \<Rightarrow> fp \<Rightarrow> int" where
  "card_percent c seconds =
     max 0 (min 100 (to_int32 (lround (fmul32 (CarTelemetry_Share c seconds) (Fin 100)))))"

definition card_car :: "CarTelemetry \<Rightarrow> (string \<times> json) list" where
  "card_car c =
     (if Fin 0 < ct_sampledSeconds c
      then [(''bpm'', JInt (to_int32 (lround (CarTelemetry_BoostPerMinute c)))),
            (''ss'', JInt (card_percent c (ct_supersonicSeconds c))),
            (''air'', JInt (card_percent c (ct_airSeconds c)))]
      else [])"

definition card_analytics :: "MatchDetail \<Rightarrow> MatchDetailPlayer option \<Rightarrow> (string \<times> json) list" where
  "card_analytics d me =
     (case md_analytics d of
        None \<Rightarrow> []
      | Some a \<Rightarrow>
          (case card_analytics_player d a me of
             None \<Rightarrow> []
           | Some pa \<Rightarrow> (case pa_car pa of None \<Rightarrow> [] | Some c \<Rightarrow> card_car c)))"

definition BuildMatchCardJson :: "MatchDetail \<Rightarrow> json" where
  "BuildMatchCardJson d =
     (let me = card_player d
      in JObject
           ([(''v'', JInt 1), (''res'', JString (card_result d)),
             (''sc'', JArray [JInt (md_ourScore d), JInt (md_theirScore d)])] @
            entry_if (md_playlist d \<noteq> []) ''pl'' (JString (md_playlist d)) @
            card_duration d @
            entry_if (card_overtime d) ''ot'' (JBool True) @
            entry_if (0 < md_timestampUnix d) ''ts'' (JInt (md_timestampUnix d)) @
            (case me of
               None \<Rightarrow> []
             | Some p \<Rightarrow> entry_if (dp_name p \<noteq> []) ''name'' (JString (dp_name p))) @
            card_stats me @ card_rating d me @ card_analytics d me))"

section \<open>The link\<close>

definition BuildMatchCardUrl :: "(json \<Rightarrow> string) \<Rightarrow> MatchDetail \<Rightarrow> string" where
  "BuildMatchCardUrl dump d = ''https://omnistats.org/card#1.'' @ Base64UrlEncode (dump (BuildMatchCardJson d))"

text \<open>\<open>j["v"] != 1\<close> compares numbers; the last checks of \<open>ParseMatchCardUrl\<close>.\<close>

definition is_one :: "json option \<Rightarrow> bool" where
  "is_one v = (case v of Some (JInt i) \<Rightarrow> i = 1 | Some (JFloat x) \<Rightarrow> x = Fin 1 | _ \<Rightarrow> False)"

definition card_valid :: "json \<Rightarrow> bool" where
  "card_valid j =
     (is_object j \<and> is_one (Child j ''v'') \<and>
      (case Child j ''res'' of Some (JString res) \<Rightarrow> res \<in> {''W'', ''L'', ''D''} | _ \<Rightarrow> False) \<and>
      (case Child j ''sc'' of Some (JArray xs) \<Rightarrow> length xs = 2 | _ \<Rightarrow> False))"

definition ParseMatchCardUrl :: "(string \<Rightarrow> json option) \<Rightarrow> string \<Rightarrow> json option" where
  "ParseMatchCardUrl parse urlOrFragment =
     (let fragment =
            (if CHR ''#'' \<in> set urlOrFragment
             then tl (dropWhile (\<lambda>c. c \<noteq> CHR ''#'') urlOrFragment) else urlOrFragment)
      in if \<not> starts_with fragment ''1.'' then None
         else
           let b64 = drop 2 fragment
           in if b64 = [] then None
              else
                let decoded = Base64UrlDecode b64
                in if decoded = [] then None
                   else case parse decoded of
                          None \<Rightarrow> None
                        | Some j \<Rightarrow> if card_valid j then Some j else None)"

section \<open>Decoding what was encoded\<close>

lemma table_chars:
  "i < 64 \<Longrightarrow> decodeChar (kBase64UrlTable ! i) = int i \<and> kBase64UrlTable ! i \<noteq> CHR ''=''"
proof -
  have "\<forall>i \<in> set [0..<64]. decodeChar (kBase64UrlTable ! i) = int i \<and> kBase64UrlTable ! i \<noteq> CHR ''=''"
    by code_simp
  then show "i < 64 \<Longrightarrow> ?thesis" by simp
qed

lemma sixty_three: "n AND 0x3F = take_bit 6 (n :: 32 word)" and ff: "n AND 0xFF = take_bit 8 (n :: 32 word)"
  by (simp_all add: take_bit_eq_mask mask_eq_exp_minus_1)

lemma unat_take_6: "unat (take_bit 6 (n :: 32 word)) < 64"
proof -
  have "unat (take_bit 6 n) = take_bit 6 (unat n)" by transfer (simp add: take_bit_nat_eq min_def)
  also have "\<dots> < 64" by (simp add: take_bit_eq_mod)
  finally show ?thesis .
qed

lemma decode_table_char:
  "decode_from (table_char n # cs) buf bits =
     (let buf = push_bit 6 buf OR take_bit 6 n; bits = bits + 6
      in if 8 \<le> bits
         then char_of (unat (take_bit 8 (drop_bit (bits - 8) buf))) # decode_from cs buf (bits - 8)
         else decode_from cs buf bits)"
proof -
  have "(of_int (int (unat (take_bit 6 n))) :: 32 word) = take_bit 6 n" by simp
  then show ?thesis
    using table_chars[of "unat (take_bit 6 n)"] unat_take_6[of n]
    by (simp add: table_char_def sixty_three ff Let_def)
qed

lemma byte_small: "take_bit 8 (byte_word c) = byte_word c"
  unfolding byte_word_def take_bit_of_nat by (simp add: take_bit_eq_mod)

lemma byte_bit: "bit (byte_word c) n \<Longrightarrow> n < 8"
  using byte_small[of c] by (metis bit_take_bit_iff)

lemma byte_back: "char_of (unat (byte_word c)) = c"
proof -
  have "unat (byte_word c) = of_char c"
    using nat_of_char_less_256[of c] order.strict_trans2[of "of_char c" 256 "4294967296 :: nat"]
    by (simp add: byte_word_def unat_of_nat)
  then show ?thesis by simp
qed

text \<open>The eight bits of a byte.\<close>

lemma byte_eqI:
  assumes "\<And>i. i < 8 \<Longrightarrow> bit w i = bit (byte_word c) i"
  shows "char_of (unat (take_bit 8 (w :: 32 word))) = c"
proof -
  have "take_bit 8 w = byte_word c"
    by (rule bit_eqI) (use assms byte_bit in \<open>auto simp: bit_take_bit_iff\<close>)
  then show ?thesis by (simp add: byte_back)
qed

lemma less_8: "i < 8 \<longleftrightarrow> i = 0 \<or> i = 1 \<or> i = 2 \<or> i = 3 \<or> i = 4 \<or> i = 5 \<or> i = 6 \<or> i = (7 :: nat)"
  by auto

lemma byte_bit_high [simp]: "8 \<le> n \<Longrightarrow> \<not> bit (byte_word c) n"
  using byte_bit by fastforce

lemma triple_bytes:
  fixes buf :: "32 word" and a b c :: char
  defines "n \<equiv> push_bit 16 (byte_word a) OR push_bit 8 (byte_word b) OR byte_word c"
  defines "b2 \<equiv> push_bit 6 (push_bit 6 buf OR take_bit 6 (drop_bit 18 n)) OR take_bit 6 (drop_bit 12 n)"
  defines "b3 \<equiv> push_bit 6 b2 OR take_bit 6 (drop_bit 6 n)"
  shows "char_of (unat (take_bit 8 (drop_bit 4 b2))) = a"
    "char_of (unat (take_bit 8 (drop_bit 2 b3))) = b"
    "char_of (unat (take_bit 8 (push_bit 6 b3 OR take_bit 6 n))) = c"
proof -
  show "char_of (unat (take_bit 8 (drop_bit 4 b2))) = a"
    unfolding b2_def n_def by (rule byte_eqI) (unfold less_8, elim disjE, simp_all add: bit_simps)
  show "char_of (unat (take_bit 8 (drop_bit 2 b3))) = b"
    unfolding b3_def b2_def n_def by (rule byte_eqI) (unfold less_8, elim disjE, simp_all add: bit_simps)
  show "char_of (unat (take_bit 8 (push_bit 6 b3 OR take_bit 6 n))) = c"
    unfolding b3_def b2_def n_def by (rule byte_eqI) (unfold less_8, elim disjE, simp_all add: bit_simps)
qed

lemma byte_zero: "byte_word (CHR 0x00) = 0"
  by (simp add: byte_word_def)

lemma decode_encoded: "decode_from (Base64UrlEncode x) buf 0 = x"
proof (induction x arbitrary: buf rule: Base64UrlEncode.induct)
  case (1 a b c rest)
  then show ?case
    using triple_bytes(1)[of buf a b c] triple_bytes(2)[of buf a b c] triple_bytes(3)[of buf a b c]
    by (simp add: decode_table_char Let_def del: decode_from.simps(2))
next
  case (2 a b)
  show ?case
    using triple_bytes(1)[of buf a b "CHR 0x00"] triple_bytes(2)[of buf a b "CHR 0x00"]
    by (simp add: decode_table_char Let_def byte_zero del: decode_from.simps(2))
next
  case (3 a)
  show ?case
    using triple_bytes(1)[of buf a "CHR 0x00" "CHR 0x00"]
    by (simp add: decode_table_char Let_def byte_zero del: decode_from.simps(2))
qed simp

lemma Base64UrlEncode_Nil: "Base64UrlEncode x = [] \<longleftrightarrow> x = []"
  by (cases x rule: Base64UrlEncode.cases) (simp_all add: Let_def)

lemma card_json_valid: "card_valid (BuildMatchCardJson d)"
  by (simp add: card_valid_def BuildMatchCardJson_def Let_def is_one_def card_result_def)

section \<open>Properties\<close>

text \<open>
  Every byte string, of any length, is decoded from its Base64 form unchanged.
\<close>

theorem base64_roundtrip: "Base64UrlDecode (Base64UrlEncode bytes) = bytes"
  by (simp add: Base64UrlDecode_def decode_encoded)

text \<open>
  C40: The link that is shared for a match opens as the card of that match, whatever the match holds,
  provided the JSON library reads back the text it printed and that text is not empty.
\<close>

theorem shared_link_opens_card:
  assumes "parse (dump (BuildMatchCardJson d)) = Some (BuildMatchCardJson d)"
    "dump (BuildMatchCardJson d) \<noteq> []"
  shows "ParseMatchCardUrl parse (BuildMatchCardUrl dump d) = Some (BuildMatchCardJson d)"
  using assms card_json_valid[of d]
  by (simp add: ParseMatchCardUrl_def BuildMatchCardUrl_def Let_def starts_with_def Base64UrlDecode_def
      decode_encoded Base64UrlEncode_Nil)

definition sample_detail :: MatchDetail where
  "sample_detail =
     \<lparr>md_found = True, md_matchId = 1, md_matchGuid = ''G'', md_timestampUnix = 1700000000, md_arena = [],
      md_playlist = ''2v2'', md_gamemode = [], md_playlistId = 11, md_ranked = True, md_win = True,
      md_ourScore = 3, md_theirScore = 1, md_accountPrimaryId = [], md_mmrBefore = Some 900,
      md_mmrAfter = None, md_mmrDelta = None, md_mmrEstimated = False, md_hasPlayerStats = False,
      md_hasLocalStats = False, md_durationSeconds = Some (Fin 300), md_overtimeSeconds = None,
      md_localStats = None, md_ballchasingId = [], md_ballchasingUrl = [], md_ourTeam = [],
      md_theirTeam = [], md_events = [], md_analytics = None\<rparr>"

theorem shared_link_opens_card_witness:
  "\<exists>parse dump. ParseMatchCardUrl parse (BuildMatchCardUrl dump sample_detail) =
       Some (BuildMatchCardJson sample_detail) \<and>
     Child (BuildMatchCardJson sample_detail) ''res'' = Some (JString ''W'') \<and>
     BuildMatchCardUrl dump sample_detail = ''https://omnistats.org/card#1.e30''"
proof -
  define parse where "parse = (\<lambda>t :: string. Some (BuildMatchCardJson sample_detail))"
  define dump where "dump = (\<lambda>j :: json. ''{}'')"
  have "Base64UrlEncode ''{}'' = ''e30''" by code_simp
  then have "BuildMatchCardUrl dump sample_detail = ''https://omnistats.org/card#1.e30''"
    by (simp add: BuildMatchCardUrl_def dump_def)
  moreover have "Child (BuildMatchCardJson sample_detail) ''res'' = Some (JString ''W'')"
    by (simp add: BuildMatchCardJson_def Let_def card_result_def sample_detail_def)
  moreover have "ParseMatchCardUrl parse (BuildMatchCardUrl dump sample_detail) =
      Some (BuildMatchCardJson sample_detail)"
    by (rule shared_link_opens_card) (simp_all add: parse_def dump_def)
  ultimately show ?thesis by blast
qed

end
