(* ===== verification/Rating_Types.thy ===== *)
theory Rating_Types
  imports Prelude
begin

text \<open>
  The data of the rating service (\<open>network/mmr/MmrTypes.hpp\<close>, \<open>network/mmr/MmrTimings.hpp\<close>). Points
  in time and durations of the steady clock are integers in its ticks; the counter of tracked
  accounts' generations is a natural number, as 64 bits are not used up.
\<close>

datatype MMRRequestReason = Roster | PostMatch | TrackedAccount

record MMRRequest =
  rq_primaryId :: string
  rq_name :: string
  rq_reason :: MMRRequestReason
  rq_matchGuid :: string
  rq_playlist :: string
  rq_previousMmr :: int
  rq_previousMatches :: int
  rq_previousMmrIsPlaylistSpecific :: bool
  rq_won :: bool
  rq_resultKnown :: bool
  rq_retriesRemaining :: int
  rq_notBefore :: int
  rq_sessionGeneration :: "64 word"
  rq_trackedGeneration :: nat

definition MMRRequest0 :: MMRRequest where
  "MMRRequest0 =
     \<lparr>rq_primaryId = [], rq_name = [], rq_reason = Roster, rq_matchGuid = [], rq_playlist = [],
      rq_previousMmr = 0, rq_previousMatches = -1, rq_previousMmrIsPlaylistSpecific = False,
      rq_won = False, rq_resultKnown = True, rq_retriesRemaining = 2, rq_notBefore = 0,
      rq_sessionGeneration = 0, rq_trackedGeneration = 0\<rparr>"

record SeasonRewards =
  sr_level :: int
  sr_wins :: int

record NormalizedProfileResult =
  np_bestMmr :: int
  np_bestTier :: string
  np_bestPlaylistName :: string
  np_playlistMMRs :: "(string, int) umap"
  np_playlistTiers :: "(string, string) umap"
  np_playlistMatches :: "(string, int) umap"
  np_totalWins :: int
  np_rankVerificationSource :: string
  np_displayName :: string
  np_seasonRewards :: "SeasonRewards option"

definition NormalizedProfileResult0 :: NormalizedProfileResult where
  "NormalizedProfileResult0 =
     \<lparr>np_bestMmr = 0, np_bestTier = ''Unranked'', np_bestPlaylistName = ''best'', np_playlistMMRs = [],
      np_playlistTiers = [], np_playlistMatches = [], np_totalWins = -1,
      np_rankVerificationSource = ''Tracker'', np_displayName = [], np_seasonRewards = None\<rparr>"

datatype TrackedEnqueueResult = Queued | AlreadyQueued | ProviderUnavailable | InvalidIdentity

datatype PostMatchReconciliationState = AwaitingTracker | Provisional | Confirmed

record PendingPostMatchRecord =
  pm_matchGuid :: string
  pm_primaryId :: string
  pm_playlist :: string
  pm_preMatchMmr :: int
  pm_preMatchMatchesPlayed :: int
  pm_preMatchMmrIsPlaylistSpecific :: bool
  pm_firstObservedMmr :: int
  pm_firstObservedMatchesPlayed :: int
  pm_won :: bool
  pm_resultKnown :: bool
  pm_destroyedMatch :: bool
  pm_localPlayerDisappeared :: bool
  pm_explicitLocalForfeit :: bool
  pm_localTeam :: int
  pm_score :: "int \<times> int"
  pm_destroyedAtUnixMs :: int
  pm_validCompetitiveMatch :: bool
  pm_databaseMatchFinalized :: bool
  pm_provisionalMmr :: int
  pm_graphPointAppended :: bool
  pm_databaseRowUpdated :: bool
  pm_trackerCovered :: bool
  pm_valueEstimated :: bool
  pm_reconciliationState :: PostMatchReconciliationState
  pm_sessionGeneration :: "64 word"
  pm_followsPreviousSessionMatch :: bool

definition PendingPostMatchRecord0 :: PendingPostMatchRecord where
  "PendingPostMatchRecord0 =
     \<lparr>pm_matchGuid = [], pm_primaryId = [], pm_playlist = [], pm_preMatchMmr = 0,
      pm_preMatchMatchesPlayed = -1, pm_preMatchMmrIsPlaylistSpecific = False, pm_firstObservedMmr = 0,
      pm_firstObservedMatchesPlayed = -1, pm_won = False, pm_resultKnown = True,
      pm_destroyedMatch = False, pm_localPlayerDisappeared = False, pm_explicitLocalForfeit = False,
      pm_localTeam = -1, pm_score = (0, 0), pm_destroyedAtUnixMs = 0, pm_validCompetitiveMatch = False,
      pm_databaseMatchFinalized = False, pm_provisionalMmr = 0, pm_graphPointAppended = False,
      pm_databaseRowUpdated = False, pm_trackerCovered = False, pm_valueEstimated = True,
      pm_reconciliationState = AwaitingTracker, pm_sessionGeneration = 0,
      pm_followsPreviousSessionMatch = False\<rparr>"

record MmrTimings =
  mt_postMatchInitialDelay :: int
  mt_stalePostMatchRetryDelay :: int
  mt_transientRetryDelay :: int
  mt_queueSpacing :: int
  mt_rateLimitLockoutMinimum :: int
  mt_forbiddenLockoutFirst :: int
  mt_forbiddenLockoutSecond :: int
  mt_forbiddenLockoutMaximum :: int
  mt_forbiddenAttemptDelay :: int
  mt_batchCoalesceWindow :: int

end
