(* ===== verification/Rating_Queue.thy ===== *)
theory Rating_Queue
  imports Rating_Types "HOL-Library.Multiset"
begin

text \<open>
  The queue of rating requests (\<open>network/mmr/MmrRequestQueue.cpp\<close>). Each method is one step under the
  queue's lock; \<open>now\<close> is the steady clock it reads. The last section puts the queue beside the
  requests its users hold and shows that nothing is requested twice at a time.
\<close>

record MmrRequestQueue =
  q_timings :: MmrTimings
  q_queue :: "MMRRequest list"
  q_roster :: "string set"
  q_tracked :: "(string, nat) umap"
  q_nextTracked :: nat
  q_postMatch :: "string set"
  q_strikes :: nat
  q_rateLimitedUntil :: int

definition MmrRequestQueue0 :: "MmrTimings \<Rightarrow> MmrRequestQueue" where
  "MmrRequestQueue0 timings =
     \<lparr>q_timings = timings, q_queue = [], q_roster = {}, q_tracked = [], q_nextTracked = 0,
      q_postMatch = {}, q_strikes = 0, q_rateLimitedUntil = 0\<rparr>"

record AssembledBatch =
  ab_requests :: "MMRRequest list"
  ab_playlist :: string
  ab_playlistId :: int

section \<open>Enqueueing\<close>

definition EnqueueRoster :: "int \<Rightarrow> string \<Rightarrow> string \<Rightarrow> 64 word \<Rightarrow> MmrRequestQueue \<Rightarrow> bool \<times> MmrRequestQueue" where
  "EnqueueRoster now primaryId name sessionGen q =
     (if primaryId = [] \<or> primaryId \<in> q_roster q then (False, q)
      else (True, q\<lparr>q_roster := insert primaryId (q_roster q),
                    q_queue := q_queue q @
                      [MMRRequest0\<lparr>rq_primaryId := primaryId, rq_name := name, rq_reason := Roster,
                         rq_sessionGeneration := sessionGen, rq_notBefore := now\<rparr>]\<rparr>))"

definition Queue_EnqueuePostMatch :: "MMRRequest \<Rightarrow> MmrRequestQueue \<Rightarrow> bool \<times> MmrRequestQueue" where
  "Queue_EnqueuePostMatch req q =
     (if rq_matchGuid req = [] \<or> rq_matchGuid req \<in> q_postMatch q then (False, q)
      else (True, q\<lparr>q_postMatch := insert (rq_matchGuid req) (q_postMatch q),
                    q_queue := q_queue q @ [req\<lparr>rq_reason := PostMatch\<rparr>]\<rparr>))"

text \<open>The generation given out is returned beside the result.\<close>

definition EnqueueTrackedAccount ::
  "int \<Rightarrow> string \<Rightarrow> string \<Rightarrow> MmrRequestQueue \<Rightarrow> TrackedEnqueueResult \<times> nat option \<times> MmrRequestQueue" where
  "EnqueueTrackedAccount now primaryId name q =
     (if primaryId = [] then (InvalidIdentity, None, q)
      else if um_has (q_tracked q) primaryId then (AlreadyQueued, None, q)
      else
        let generation = q_nextTracked q + 1
        in (Queued, Some generation,
            q\<lparr>q_nextTracked := generation,
              q_tracked := um_emplace primaryId generation (q_tracked q),
              q_queue := q_queue q @
                [MMRRequest0\<lparr>rq_primaryId := primaryId, rq_name := name, rq_reason := TrackedAccount,
                   rq_trackedGeneration := generation, rq_notBefore := now\<rparr>]\<rparr>))"

definition CancelTrackedAccount :: "string \<Rightarrow> MmrRequestQueue \<Rightarrow> MmrRequestQueue" where
  "CancelTrackedAccount primaryId q =
     q\<lparr>q_queue := filter (\<lambda>r. \<not> (rq_reason r = TrackedAccount \<and> rq_primaryId r = primaryId)) (q_queue q),
       q_tracked := um_erase primaryId (q_tracked q)\<rparr>"

section \<open>Looking and taking\<close>

definition IsTrackedCurrent :: "string \<Rightarrow> nat \<Rightarrow> MmrRequestQueue \<Rightarrow> bool" where
  "IsTrackedCurrent primaryId generation q = (map_of (q_tracked q) primaryId = Some generation)"

definition IsCurrent :: "MMRRequest \<Rightarrow> MmrRequestQueue \<Rightarrow> bool" where
  "IsCurrent req q =
     (rq_reason req \<noteq> TrackedAccount \<or> IsTrackedCurrent (rq_primaryId req) (rq_trackedGeneration req) q)"

text \<open>\<open>std::find_if\<close> and the removal of what it found.\<close>

fun take_first :: "('a \<Rightarrow> bool) \<Rightarrow> 'a list \<Rightarrow> ('a \<times> 'a list) option" where
  "take_first P [] = None"
| "take_first P (x # xs) = (if P x then Some (x, xs) else map_option (apsnd ((#) x)) (take_first P xs))"

definition taken :: "(MMRRequest \<times> MMRRequest list) option \<Rightarrow> MmrRequestQueue \<Rightarrow> MMRRequest option \<times> MmrRequestQueue" where
  "taken found q = (case found of None \<Rightarrow> (None, q) | Some (req, rest) \<Rightarrow> (Some req, q\<lparr>q_queue := rest\<rparr>))"

definition TakeTrackedAccount :: "string \<Rightarrow> nat \<Rightarrow> MmrRequestQueue \<Rightarrow> MMRRequest option \<times> MmrRequestQueue" where
  "TakeTrackedAccount primaryId generation q =
     taken (take_first (\<lambda>r. rq_reason r = TrackedAccount \<and> rq_primaryId r = primaryId \<and>
                            rq_trackedGeneration r = generation) (q_queue q)) q"

definition SetRateLimitedUntil :: "int \<Rightarrow> MmrRequestQueue \<Rightarrow> MmrRequestQueue" where
  "SetRateLimitedUntil until' q = q\<lparr>q_rateLimitedUntil := until'\<rparr>"

definition IsRateLimited :: "int \<Rightarrow> MmrRequestQueue \<Rightarrow> bool" where
  "IsRateLimited now q = (now < q_rateLimitedUntil q)"

definition PendingCount :: "MmrRequestQueue \<Rightarrow> nat" where
  "PendingCount q = length (q_queue q)"

definition HasPendingPostMatch :: "string \<Rightarrow> MmrRequestQueue \<Rightarrow> bool" where
  "HasPendingPostMatch matchGuid q = (matchGuid \<in> q_postMatch q)"

definition ready :: "MMRRequestReason \<Rightarrow> int \<Rightarrow> MMRRequest \<Rightarrow> bool" where
  "ready reason now r = (rq_reason r = reason \<and> rq_notBefore r \<le> now)"

definition PopNextPostMatch :: "int \<Rightarrow> MmrRequestQueue \<Rightarrow> MMRRequest option \<times> MmrRequestQueue" where
  "PopNextPostMatch now q =
     (if IsRateLimited now q then (None, q)
      else taken (take_first (ready PostMatch now) (q_queue q)) q)"

text \<open>The ready request of a reason with the earliest time, the first of them in the queue.\<close>

fun take_earliest :: "MMRRequestReason \<Rightarrow> int \<Rightarrow> MMRRequest list \<Rightarrow> (MMRRequest \<times> MMRRequest list) option" where
  "take_earliest reason now [] = None"
| "take_earliest reason now (r # rs) =
     (case take_earliest reason now rs of
        None \<Rightarrow> if ready reason now r then Some (r, rs) else None
      | Some (b, rest) \<Rightarrow>
          if ready reason now r \<and> rq_notBefore r \<le> rq_notBefore b then Some (r, rs)
          else Some (b, r # rest))"

definition PopNext :: "int \<Rightarrow> MmrRequestQueue \<Rightarrow> MMRRequest option \<times> MmrRequestQueue" where
  "PopNext now q =
     (if IsRateLimited now q then (None, q)
      else case take_earliest Roster now (q_queue q) of
             Some found \<Rightarrow> taken (Some found) q
           | None \<Rightarrow> taken (take_earliest TrackedAccount now (q_queue q)) q)"

definition CustomApiPlaylistIdForName :: "string \<Rightarrow> int" where
  "CustomApiPlaylistIdForName playlist =
     (if playlist = ''1v1'' then 10
      else if playlist = ''2v2'' then 11
      else if playlist = ''3v3'' then 13
      else if playlist = ''hoops'' then 27
      else if playlist = ''rumble'' then 28
      else if playlist = ''dropshot'' then 29
      else if playlist = ''snowday'' then 30
      else if playlist = ''t'' then 34
      else if playlist = ''heatseeker'' then 63
      else 0)"

text \<open>The loop that fills a batch: the requests taken and the queue that is left.\<close>

fun drain :: "(MMRRequest \<Rightarrow> bool) \<Rightarrow> 64 word \<Rightarrow> nat \<Rightarrow> MMRRequest list \<Rightarrow> MMRRequest list \<times> MMRRequest list" where
  "drain P sessionGen 0 rs = ([], rs)"
| "drain P sessionGen (Suc n) [] = ([], [])"
| "drain P sessionGen (Suc n) (r # rs) =
     (if P r
      then (case drain P sessionGen n rs of
              (batch, rest) \<Rightarrow> (r\<lparr>rq_sessionGeneration := sessionGen\<rparr> # batch, rest))
      else (case drain P sessionGen (Suc n) rs of (batch, rest) \<Rightarrow> (batch, r # rest)))"

definition DrainBatch ::
  "MMRRequestReason \<Rightarrow> string \<Rightarrow> int \<Rightarrow> 64 word \<Rightarrow> nat \<Rightarrow> MmrRequestQueue \<Rightarrow> AssembledBatch \<times> MmrRequestQueue" where
  "DrainBatch reason playlist now sessionGen maxBatch q =
     (case drain (\<lambda>r. ready reason now r \<and> rq_playlist r = playlist) sessionGen maxBatch (q_queue q) of
        (batch, rest) \<Rightarrow>
          (\<lparr>ab_requests = batch, ab_playlist = playlist,
            ab_playlistId = CustomApiPlaylistIdForName playlist\<rparr>, q\<lparr>q_queue := rest\<rparr>))"

definition FirstReadyPlaylist :: "MMRRequestReason \<Rightarrow> int \<Rightarrow> MmrRequestQueue \<Rightarrow> string option" where
  "FirstReadyPlaylist reason now q = map_option rq_playlist (find (ready reason now) (q_queue q))"

definition DrainBatchForReason ::
  "MMRRequestReason \<Rightarrow> int \<Rightarrow> 64 word \<Rightarrow> nat \<Rightarrow> MmrRequestQueue \<Rightarrow> AssembledBatch \<times> MmrRequestQueue" where
  "DrainBatchForReason reason now sessionGen maxBatch q =
     (case FirstReadyPlaylist reason now q of
        None \<Rightarrow> (\<lparr>ab_requests = [], ab_playlist = [], ab_playlistId = 0\<rparr>, q)
      | Some playlist \<Rightarrow> DrainBatch reason playlist now sessionGen maxBatch q)"

definition HasReady :: "MMRRequestReason \<Rightarrow> int \<Rightarrow> MmrRequestQueue \<Rightarrow> bool" where
  "HasReady reason now q = list_ex (ready reason now) (q_queue q)"

definition NextBatchReason :: "int \<Rightarrow> MmrRequestQueue \<Rightarrow> MMRRequestReason option" where
  "NextBatchReason now q =
     (if HasReady Roster now q then Some Roster
      else if HasReady TrackedAccount now q then Some TrackedAccount else None)"

definition ReadyCount :: "MMRRequestReason \<Rightarrow> string \<Rightarrow> int \<Rightarrow> MmrRequestQueue \<Rightarrow> nat" where
  "ReadyCount reason playlist now q =
     length (filter (\<lambda>r. ready reason now r \<and> rq_playlist r = playlist) (q_queue q))"

section \<open>Retries\<close>

text \<open>
  \<open>ScheduleRetry\<close> looks at the queue, calls the callback without the lock, and looks again before it
  puts the request back: \<open>between\<close> is what others do to the queue meanwhile. The callback gets the
  request, the delay and whether the queue is rate limited.
\<close>

definition ScheduleRetry ::
  "bool \<Rightarrow> int \<Rightarrow> MMRRequest \<Rightarrow> int \<Rightarrow> (MmrRequestQueue \<Rightarrow> MmrRequestQueue) \<Rightarrow> MmrRequestQueue
     \<Rightarrow> bool \<times> (MMRRequest \<times> int \<times> bool) list \<times> MmrRequestQueue" where
  "ScheduleRetry running now req delay between q =
     (if \<not> running \<or> rq_retriesRemaining req \<le> 0 then (False, [], q)
      else
        let req = req\<lparr>rq_retriesRemaining := rq_retriesRemaining req - 1, rq_notBefore := now + delay\<rparr>
        in if \<not> IsCurrent req q then (False, [], q)
           else
             let calls = (if rq_reason req = TrackedAccount then [(req, delay, IsRateLimited now q)] else []);
                 q = between q
             in if \<not> IsCurrent req q then (False, calls, q)
                else (True, calls, q\<lparr>q_queue := q_queue q @ [req]\<rparr>))"

definition ForbiddenLockoutForStrike :: "nat \<Rightarrow> MmrTimings \<Rightarrow> int" where
  "ForbiddenLockoutForStrike strike timings =
     (if strike \<le> 1 then mt_forbiddenLockoutFirst timings
      else if strike = 2 then mt_forbiddenLockoutSecond timings
      else mt_forbiddenLockoutMaximum timings)"

text \<open>One more strike, and the lockout that comes with it.\<close>

definition strike_out :: "int \<Rightarrow> MmrRequestQueue \<Rightarrow> MmrRequestQueue" where
  "strike_out now q =
     q\<lparr>q_strikes := q_strikes q + 1,
       q_rateLimitedUntil := now + ForbiddenLockoutForStrike (q_strikes q + 1) (q_timings q)\<rparr>"

definition RequeueForbidden ::
  "bool \<Rightarrow> int \<Rightarrow> MMRRequest \<Rightarrow> MmrRequestQueue
     \<Rightarrow> (nat \<times> int) option \<times> (MMRRequest \<times> int \<times> bool) list \<times> MmrRequestQueue" where
  "RequeueForbidden running now req q =
     (if \<not> running then (None, [], q)
      else
        let q = strike_out now q;
            lockout = ForbiddenLockoutForStrike (q_strikes q) (q_timings q)
        in if \<not> IsCurrent req q then (None, [], q)
           else
             let req = req\<lparr>rq_notBefore := q_rateLimitedUntil q\<rparr>
             in (Some (q_strikes q, lockout),
                 (if rq_reason req = TrackedAccount then [(req, lockout, True)] else []),
                 q\<lparr>q_queue := req # q_queue q\<rparr>))"

definition ResetForbidden :: "MmrRequestQueue \<Rightarrow> bool \<times> MmrRequestQueue" where
  "ResetForbidden q = (0 < q_strikes q, q\<lparr>q_strikes := 0, q_rateLimitedUntil := 0\<rparr>)"

definition Finish :: "MMRRequest \<Rightarrow> MmrRequestQueue \<Rightarrow> MmrRequestQueue" where
  "Finish req q =
     (case rq_reason req of
        PostMatch \<Rightarrow> q\<lparr>q_postMatch := q_postMatch q - {rq_matchGuid req}\<rparr>
      | TrackedAccount \<Rightarrow>
          (if IsTrackedCurrent (rq_primaryId req) (rq_trackedGeneration req) q
           then q\<lparr>q_tracked := um_erase (rq_primaryId req) (q_tracked q)\<rparr> else q)
      | Roster \<Rightarrow> q\<lparr>q_roster := q_roster q - {rq_primaryId req}\<rparr>)"

definition ClearQueue :: "MmrRequestQueue \<Rightarrow> MmrRequestQueue" where
  "ClearQueue q = q\<lparr>q_queue := [], q_roster := {}, q_tracked := [], q_postMatch := {}\<rparr>"


section \<open>Taking from lists\<close>

lemma take_first_Some:
  "take_first P xs = Some (x, rest) \<Longrightarrow>
     \<exists>ys zs. xs = ys @ x # zs \<and> rest = ys @ zs \<and> P x \<and> (\<forall>y\<in>set ys. \<not> P y)"
proof (induction xs arbitrary: x rest)
  case Nil
  then show ?case by simp
next
  case (Cons a xs)
  show ?case
  proof (cases "P a")
    case True
    then show ?thesis using Cons.prems by (intro exI [of _ "[]"] exI [of _ xs]) auto
  next
    case False
    then obtain rest' where "take_first P xs = Some (x, rest')" and "rest = a # rest'"
      using Cons.prems by auto
    with Cons.IH obtain ys zs where "xs = ys @ x # zs" "rest' = ys @ zs" "P x" "\<forall>y\<in>set ys. \<not> P y"
      by blast
    with False \<open>rest = a # rest'\<close> show ?thesis by (intro exI [of _ "a # ys"] exI [of _ zs]) auto
  qed
qed

lemma take_first_mset: "take_first P xs = Some (x, rest) \<Longrightarrow> mset xs = add_mset x (mset rest)"
  using take_first_Some [of P xs x rest] by auto

lemma take_earliest_None: "(take_earliest reason now rs = None) = (\<not> list_ex (ready reason now) rs)"
  by (induction rs) (auto split: option.splits)

lemma take_earliest_Some:
  "take_earliest reason now rs = Some (r, rest) \<Longrightarrow>
     \<exists>ys zs. rs = ys @ r # zs \<and> rest = ys @ zs \<and> ready reason now r \<and>
       (\<forall>y\<in>set ys. ready reason now y \<longrightarrow> rq_notBefore r < rq_notBefore y) \<and>
       (\<forall>y\<in>set zs. ready reason now y \<longrightarrow> rq_notBefore r \<le> rq_notBefore y)"
proof (induction rs arbitrary: r rest)
  case Nil
  then show ?case by simp
next
  case (Cons a rs)
  show ?case
  proof (cases "take_earliest reason now rs")
    case None
    then show ?thesis using Cons.prems take_earliest_None [of reason now rs]
      by (intro exI [of _ "[]"] exI [of _ rs]) (auto simp: list_ex_iff split: if_splits)
  next
    case (Some found)
    obtain b rest' where found: "found = (b, rest')" by force
    with Cons.IH Some obtain ys zs where split:
      "rs = ys @ b # zs" "rest' = ys @ zs" "ready reason now b"
      "\<forall>y\<in>set ys. ready reason now y \<longrightarrow> rq_notBefore b < rq_notBefore y"
      "\<forall>y\<in>set zs. ready reason now y \<longrightarrow> rq_notBefore b \<le> rq_notBefore y"
      by blast
    show ?thesis
    proof (cases "ready reason now a \<and> rq_notBefore a \<le> rq_notBefore b")
      case True
      then have r: "r = a" "rest = rs" using Cons.prems Some found by auto
      have "rq_notBefore a \<le> rq_notBefore y" if "y \<in> set rs" "ready reason now y" for y
        using that True split by force
      then show ?thesis using True r by (intro exI [of _ "[]"] exI [of _ rs]) simp
    next
      case False
      then have "r = b" "rest = a # rest'" using Cons.prems Some found by auto
      with False split show ?thesis by (intro exI [of _ "a # ys"] exI [of _ zs]) auto
    qed
  qed
qed

lemma take_earliest_mset:
  "take_earliest reason now rs = Some (r, rest) \<Longrightarrow> mset rs = add_mset r (mset rest)"
  using take_earliest_Some [of reason now rs r rest] by auto

lemma drain_spec:
  "drain P gen n rs = (batch, rest) \<Longrightarrow>
     batch = map (\<lambda>r. r\<lparr>rq_sessionGeneration := gen\<rparr>) (take n (filter P rs)) \<and>
     filter P rest = drop n (filter P rs) \<and> filter (\<lambda>r. \<not> P r) rest = filter (\<lambda>r. \<not> P r) rs"
  by (induction P gen n rs arbitrary: batch rest rule: drain.induct)
    (auto split: if_splits prod.splits)

section \<open>Requests in flight\<close>

text \<open>
  The queue's users hold the requests they have taken until they put them back or finish them
  (\<open>MmrService::ProcessCustomApiBatch\<close>, \<open>FetchProfile\<close>). The ledger is the queue with the requests held;
  a request's key is what the queue keeps of it in its sets.
\<close>

datatype request_key = RosterKey string | MatchKey string | TrackedKey string nat

definition request_key :: "MMRRequest \<Rightarrow> request_key" where
  "request_key r =
     (case rq_reason r of
        Roster \<Rightarrow> RosterKey (rq_primaryId r)
      | PostMatch \<Rightarrow> MatchKey (rq_matchGuid r)
      | TrackedAccount \<Rightarrow> TrackedKey (rq_primaryId r) (rq_trackedGeneration r))"

fun wanted :: "MmrRequestQueue \<Rightarrow> request_key \<Rightarrow> bool" where
  "wanted q (RosterKey p) = (p \<in> q_roster q)"
| "wanted q (MatchKey g) = (g \<in> q_postMatch q)"
| "wanted q (TrackedKey p g) = IsTrackedCurrent p g q"

datatype request_op =
    AskRoster int string string "64 word" | AskPostMatch MMRRequest | AskTracked int string string
  | CancelTracked string

fun ask :: "request_op \<Rightarrow> MmrRequestQueue \<Rightarrow> MmrRequestQueue" where
  "ask (AskRoster now p n gen) q = snd (EnqueueRoster now p n gen q)"
| "ask (AskPostMatch req) q = snd (Queue_EnqueuePostMatch req q)"
| "ask (AskTracked now p n) q = snd (snd (EnqueueTrackedAccount now p n q))"
| "ask (CancelTracked p) q = CancelTrackedAccount p q"

datatype queue_event =
    Ask request_op
  | TakePostMatch int | TakeNext int | TakeBatch MMRRequestReason int "64 word" nat | TakeTracked string nat
  | Retry nat bool int int "request_op list" | Blocked nat bool int | Finished nat
  | Unblock | Limit int

type_synonym ledger = "MmrRequestQueue \<times> MMRRequest list"

text \<open>A request taken is held; the held request number \<open>i\<close> leaves the hand when the queue has it again.\<close>

definition hold :: "MMRRequest list \<Rightarrow> MMRRequest option \<times> MmrRequestQueue \<Rightarrow> ledger" where
  "hold held r = (case r of (req, q) \<Rightarrow> (q, (case req of None \<Rightarrow> held | Some req \<Rightarrow> held @ [req])))"

definition drop_nth :: "nat \<Rightarrow> 'a list \<Rightarrow> 'a list" where
  "drop_nth i xs = take i xs @ drop (Suc i) xs"

fun queue_step :: "queue_event \<Rightarrow> ledger \<Rightarrow> ledger" where
  "queue_step (Ask op) (q, held) = (ask op q, held)"
| "queue_step (TakePostMatch now) (q, held) = hold held (PopNextPostMatch now q)"
| "queue_step (TakeNext now) (q, held) = hold held (PopNext now q)"
| "queue_step (TakeBatch reason now gen n) (q, held) =
     (case DrainBatchForReason reason now gen n q of (batch, q) \<Rightarrow> (q, held @ ab_requests batch))"
| "queue_step (TakeTracked p g) (q, held) = hold held (TakeTrackedAccount p g q)"
| "queue_step (Retry i running now delay meanwhile) (q, held) =
     (if i < length held
      then (case ScheduleRetry running now (held ! i) delay (fold ask meanwhile) q of
              (again, _, q) \<Rightarrow> (q, if again then drop_nth i held else held))
      else (q, held))"
| "queue_step (Blocked i running now) (q, held) =
     (if i < length held
      then (case RequeueForbidden running now (held ! i) q of
              (again, _, q) \<Rightarrow> (q, if again = None then held else drop_nth i held))
      else (q, held))"
| "queue_step (Finished i) (q, held) =
     (if i < length held then (Finish (held ! i) q, drop_nth i held) else (q, held))"
| "queue_step Unblock (q, held) = (snd (ResetForbidden q), held)"
| "queue_step (Limit t) (q, held) = (SetRateLimitedUntil t q, held)"

definition open_keys :: "ledger \<Rightarrow> request_key list" where
  "open_keys s = map request_key (q_queue (fst s) @ snd s)"

definition requested_once :: "ledger \<Rightarrow> bool" where
  "requested_once s =
     (distinct (open_keys s) \<and>
      (\<forall>k. wanted (fst s) k \<longrightarrow> k \<in> set (open_keys s)) \<and>
      (\<forall>r \<in> set (q_queue (fst s)). wanted (fst s) (request_key r)) \<and>
      (\<forall>r \<in> set (snd s). rq_reason r \<noteq> TrackedAccount \<longrightarrow> wanted (fst s) (request_key r)) \<and>
      (\<forall>p g. TrackedKey p g \<in> set (open_keys s) \<longrightarrow> g \<le> q_nextTracked (fst s)))"

text \<open>What the invariant needs to know of a queue.\<close>

definition same_sets :: "MmrRequestQueue \<Rightarrow> MmrRequestQueue \<Rightarrow> bool" where
  "same_sets q q' =
     (q_roster q' = q_roster q \<and> q_postMatch q' = q_postMatch q \<and> q_tracked q' = q_tracked q \<and>
      q_nextTracked q' = q_nextTracked q)"

lemma same_sets_wanted: "same_sets q q' \<Longrightarrow> wanted q' k = wanted q k"
  by (cases k) (simp_all add: same_sets_def IsTrackedCurrent_def)

lemma requested_once_move:
  assumes "requested_once (q, held)" "same_sets q q'"
    and perm: "mset (map request_key (q_queue q' @ held')) = mset (map request_key (q_queue q @ held))"
    and queue: "\<forall>r \<in> set (q_queue q'). wanted q (request_key r)"
    and held: "\<forall>r \<in> set held'. rq_reason r \<noteq> TrackedAccount \<longrightarrow> wanted q (request_key r)"
  shows "requested_once (q', held')"
proof -
  have perm': "mset (open_keys (q', held')) = mset (open_keys (q, held))"
    using perm by (simp only: open_keys_def fst_conv snd_conv)
  have keys: "set (open_keys (q', held')) = set (open_keys (q, held))" by (rule mset_eq_setD[OF perm'])
  have "distinct (open_keys (q, held))" using assms(1) unfolding requested_once_def by blast
  then have once: "distinct (open_keys (q', held'))"
    unfolding mset_eq_imp_distinct_iff[OF perm'] .
  have wanted: "wanted q' k = wanted q k" for k using assms(2) by (rule same_sets_wanted)
  have tracked: "q_nextTracked q' = q_nextTracked q" using assms(2) by (simp add: same_sets_def)
  then show ?thesis
    using assms(1) queue held once unfolding requested_once_def keys fst_conv snd_conv wanted tracked by blast
qed

lemma requested_once_wanted:
  "requested_once (q, held) \<Longrightarrow> r \<in> set (q_queue q) \<Longrightarrow> wanted q (request_key r)"
  "requested_once (q, held) \<Longrightarrow> r \<in> set held \<Longrightarrow> rq_reason r \<noteq> TrackedAccount \<Longrightarrow>
     wanted q (request_key r)"
  by (simp_all add: requested_once_def)

lemma IsCurrent_wanted: "requested_once (q, held) \<Longrightarrow> r \<in> set held \<Longrightarrow> IsCurrent r q \<Longrightarrow> wanted q (request_key r)"
  by (cases "rq_reason r") (auto simp: requested_once_def IsCurrent_def request_key_def)

lemma requested_once_fresh:
  assumes "requested_once (q, held)" "\<not> wanted q k" "\<And>p g. k = TrackedKey p g \<Longrightarrow> q_nextTracked q < g"
  shows "k \<notin> set (open_keys (q, held))"
proof
  assume "k \<in> set (open_keys (q, held))"
  then consider r where "r \<in> set (q_queue q)" "k = request_key r"
    | r where "r \<in> set held" "k = request_key r"
    by (auto simp: open_keys_def)
  then show False
  proof cases
    case 1
    then show False using assms(1,2) requested_once_wanted(1) by blast
  next
    case 2
    then have tracked: "rq_reason r = TrackedAccount" using assms(1,2) requested_once_wanted(2) by blast
    then have "k = TrackedKey (rq_primaryId r) (rq_trackedGeneration r)" using 2 by (simp add: request_key_def)
    moreover from this have "rq_trackedGeneration r \<le> q_nextTracked q"
      using \<open>k \<in> set (open_keys (q, held))\<close> assms(1) by (simp add: requested_once_def)
    ultimately show False using assms(3) by fastforce
  qed
qed

text \<open>A request enqueued under a fresh key that is wanted from now on.\<close>

lemma requested_once_enqueue:
  assumes inv: "requested_once (q, held)"
    and queue: "q_queue q' = q_queue q @ [r]"
    and new: "\<not> wanted q (request_key r)" "\<And>k. wanted q' k = (k = request_key r \<or> wanted q k)"
    and tracked: "q_nextTracked q \<le> q_nextTracked q'"
      "\<And>p g. request_key r = TrackedKey p g \<Longrightarrow> q_nextTracked q < g \<and> g \<le> q_nextTracked q'"
  shows "requested_once (q', held)"
proof -
  have fresh: "request_key r \<notin> set (open_keys (q, held))"
    using requested_once_fresh[OF inv new(1)] tracked(2) by blast
  have keys: "set (open_keys (q', held)) = insert (request_key r) (set (open_keys (q, held)))"
    by (auto simp: open_keys_def queue)
  have once: "distinct (open_keys (q', held))"
    using fresh inv by (auto simp: open_keys_def queue requested_once_def)
  have below: "g \<le> q_nextTracked q'" if "TrackedKey p g \<in> set (open_keys (q', held))" for p g
  proof (cases "TrackedKey p g = request_key r")
    case True
    then show ?thesis using tracked(2)[of p g] by simp
  next
    case False
    then have "TrackedKey p g \<in> set (open_keys (q, held))" using that keys by auto
    then have "g \<le> q_nextTracked q" using inv by (simp add: requested_once_def)
    then show ?thesis using tracked(1) by simp
  qed
  have all: "\<forall>r' \<in> set (q_queue q'). wanted q' (request_key r')"
    using inv by (auto simp: queue new(2) requested_once_def)
  show ?thesis
    using inv once below all unfolding requested_once_def fst_conv snd_conv keys new(2) by blast
qed

text \<open>Keys that go.\<close>

lemma requested_once_shrink:
  assumes inv: "requested_once (q, held)" and next': "q_nextTracked q' = q_nextTracked q"
    and "distinct (open_keys (q', held'))"
    and sub: "set (open_keys (q', held')) \<subseteq> set (open_keys (q, held))"
    and wanted: "\<And>k. wanted q' k \<Longrightarrow> wanted q k \<and> k \<in> set (open_keys (q', held'))"
    and kept: "\<forall>r \<in> set (q_queue q'). wanted q' (request_key r)"
      "\<forall>r \<in> set held'. rq_reason r \<noteq> TrackedAccount \<longrightarrow> wanted q' (request_key r)"
  shows "requested_once (q', held')"
proof -
  have "g \<le> q_nextTracked q'" if "TrackedKey p g \<in> set (open_keys (q', held'))" for p g
  proof -
    have "TrackedKey p g \<in> set (open_keys (q, held))" using that sub by (rule rev_subsetD)
    then show ?thesis using inv by (simp add: requested_once_def next')
  qed
  then show ?thesis using assms unfolding requested_once_def fst_conv snd_conv by blast
qed

lemma cancel_once:
  assumes inv: "requested_once (q, held)"
  shows "requested_once (CancelTrackedAccount p q, held)"
proof (rule requested_once_shrink[OF inv])
  let ?other = "\<lambda>r. \<not> (rq_reason r = TrackedAccount \<and> rq_primaryId r = p)"
  have queue: "q_queue (CancelTrackedAccount p q) = filter ?other (q_queue q)"
    by (simp add: CancelTrackedAccount_def)
  have wanted: "wanted (CancelTrackedAccount p q) k = (wanted q k \<and> (\<forall>g. k \<noteq> TrackedKey p g))" for k
    by (cases k) (auto simp: CancelTrackedAccount_def IsTrackedCurrent_def um_simps)
  have other: "?other r = (\<forall>g. request_key r \<noteq> TrackedKey p g)" for r
    by (auto simp: request_key_def split: MMRRequestReason.splits)
  have queue': "q_queue (CancelTrackedAccount p q) =
      filter (\<lambda>r. \<forall>g. request_key r \<noteq> TrackedKey p g) (q_queue q)"
    unfolding queue other ..
  show "q_nextTracked (CancelTrackedAccount p q) = q_nextTracked q"
    by (simp add: CancelTrackedAccount_def)
  show "distinct (open_keys (CancelTrackedAccount p q, held))"
    using inv by (auto simp: open_keys_def queue requested_once_def intro: distinct_map_filter)
  show "set (open_keys (CancelTrackedAccount p q, held)) \<subseteq> set (open_keys (q, held))"
    by (auto simp: open_keys_def queue)
  show "wanted q k \<and> k \<in> set (open_keys (CancelTrackedAccount p q, held))"
    if "wanted (CancelTrackedAccount p q) k" for k
  proof -
    have "wanted q k" "\<forall>g. k \<noteq> TrackedKey p g" using that by (simp_all add: wanted)
    then have "k \<in> set (open_keys (q, held))" using inv by (simp add: requested_once_def)
    then show ?thesis
      using \<open>wanted q k\<close> \<open>\<forall>g. k \<noteq> TrackedKey p g\<close>
      by (auto simp: open_keys_def queue')
  qed
  show "\<forall>r \<in> set (q_queue (CancelTrackedAccount p q)). wanted (CancelTrackedAccount p q) (request_key r)"
    using requested_once_wanted(1)[OF inv] by (simp add: queue' wanted)
  show "\<forall>r \<in> set held. rq_reason r \<noteq> TrackedAccount \<longrightarrow> wanted (CancelTrackedAccount p q) (request_key r)"
    using requested_once_wanted(2)[OF inv] by (auto simp: wanted other[symmetric])
qed

lemma ask_once: "requested_once (q, held) \<Longrightarrow> requested_once (ask op q, held)"
proof (cases op)
  case (AskRoster now p n gen)
  assume inv: "requested_once (q, held)"
  show ?thesis
  proof (cases "p = [] \<or> p \<in> q_roster q")
    case False
    then show ?thesis
      unfolding AskRoster
      by (intro requested_once_enqueue[OF inv])
        (auto simp: EnqueueRoster_def MMRRequest0_def request_key_def IsTrackedCurrent_def elim!: wanted.elims)
  qed (use inv AskRoster in \<open>auto simp: EnqueueRoster_def\<close>)
next
  case (AskPostMatch req)
  assume inv: "requested_once (q, held)"
  show ?thesis
  proof (cases "rq_matchGuid req = [] \<or> rq_matchGuid req \<in> q_postMatch q")
    case False
    then show ?thesis
      unfolding AskPostMatch
      by (intro requested_once_enqueue[OF inv])
        (auto simp: Queue_EnqueuePostMatch_def request_key_def IsTrackedCurrent_def elim!: wanted.elims)
  qed (use inv AskPostMatch in \<open>auto simp: Queue_EnqueuePostMatch_def\<close>)
next
  case (AskTracked now p n)
  assume inv: "requested_once (q, held)"
  show ?thesis
  proof (cases "p = [] \<or> um_has (q_tracked q) p")
    case False
    then show ?thesis
      unfolding AskTracked
      by (intro requested_once_enqueue[OF inv])
        (auto simp: EnqueueTrackedAccount_def MMRRequest0_def request_key_def IsTrackedCurrent_def Let_def
          um_simps um_has_def split: if_splits elim!: wanted.elims)
  qed (use inv AskTracked in \<open>auto simp: EnqueueTrackedAccount_def\<close>)
next
  case (CancelTracked p)
  assume inv: "requested_once (q, held)"
  then show ?thesis using CancelTracked cancel_once by simp
qed

lemma asks_once: "requested_once (q, held) \<Longrightarrow> requested_once (fold ask ops q, held)"
  by (induction ops arbitrary: q) (simp_all add: ask_once)

section \<open>Taking and giving back\<close>

lemma hold_once:
  assumes inv: "requested_once (q, held)"
    and taken: "\<And>r rest. found = Some (r, rest) \<Longrightarrow> mset (q_queue q) = add_mset r (mset rest)"
  shows "requested_once (hold held (taken found q))"
proof (cases found)
  case None
  then show ?thesis using inv by (simp add: taken_def hold_def)
next
  case (Some a)
  obtain r rest where a: "a = (r, rest)" by force
  have m: "mset (q_queue q) = add_mset r (mset rest)" using taken Some a by simp
  then have sub: "r \<in> set (q_queue q)" "set rest \<subseteq> set (q_queue q)"
    by (metis union_single_eq_member set_mset_mset, metis set_mset_mset set_mset_add_mset_insert subset_insertI)
  have perm: "mset (map request_key (rest @ held @ [r])) = mset (map request_key (q_queue q @ held))"
    using m by simp
  have "requested_once (q\<lparr>q_queue := rest\<rparr>, held @ [r])"
    using sub requested_once_wanted[OF inv] perm
    by (intro requested_once_move[OF inv]) (auto simp: same_sets_def)
  then show ?thesis by (simp add: Some a taken_def hold_def)
qed

lemma requested_once_clock:
  "requested_once (q\<lparr>q_strikes := n, q_rateLimitedUntil := t\<rparr>, held) = requested_once (q, held)"
  "requested_once (q\<lparr>q_rateLimitedUntil := t\<rparr>, held) = requested_once (q, held)"
proof -
  have "wanted (q\<lparr>q_strikes := n, q_rateLimitedUntil := t\<rparr>) k = wanted q k"
    "wanted (q\<lparr>q_rateLimitedUntil := t\<rparr>) k = wanted q k" for k
    by (cases k; simp add: IsTrackedCurrent_def)+
  then show "requested_once (q\<lparr>q_strikes := n, q_rateLimitedUntil := t\<rparr>, held) = requested_once (q, held)"
    "requested_once (q\<lparr>q_rateLimitedUntil := t\<rparr>, held) = requested_once (q, held)"
    by (simp_all add: requested_once_def open_keys_def)
qed

lemma drain_mset:
  "drain P gen n rs = (batch, rest) \<Longrightarrow>
     mset (map request_key batch) + mset (map request_key rest) = mset (map request_key rs) \<and>
     set rest \<subseteq> set rs \<and> (\<forall>r \<in> set batch. \<exists>r' \<in> set rs. request_key r' = request_key r \<and>
       rq_reason r' = rq_reason r)"
proof (induction P gen n rs arbitrary: batch rest rule: drain.induct)
  case (3 P gen n r rs)
  show ?case
  proof (cases "P r")
    case True
    then obtain batch' where d: "drain P gen n rs = (batch', rest)"
      "batch = r\<lparr>rq_sessionGeneration := gen\<rparr> # batch'"
      using 3(3) by (auto split: prod.splits)
    have "request_key (r\<lparr>rq_sessionGeneration := gen\<rparr>) = request_key r"
      by (cases "rq_reason r") (simp_all add: request_key_def)
    then show ?thesis using 3(1)[OF True d(1)] d(2) by auto
  next
    case False
    then obtain rest' where "drain P gen (Suc n) rs = (batch, rest')" "rest = r # rest'"
      using 3(3) by (auto split: prod.splits)
    then show ?thesis using 3(2)[OF False] by auto
  qed
qed simp_all

lemma batch_once:
  assumes inv: "requested_once (q, held)" and batch: "DrainBatchForReason reason now gen n q = (batch, q')"
  shows "requested_once (q', held @ ab_requests batch)"
proof (cases "FirstReadyPlaylist reason now q")
  case None
  then have "q' = q" "ab_requests batch = []" using batch by (auto simp: DrainBatchForReason_def)
  then show ?thesis using inv by simp
next
  case (Some playlist)
  obtain b rest where d:
    "drain (\<lambda>r. ready reason now r \<and> rq_playlist r = playlist) gen n (q_queue q) = (b, rest)" by force
  then have q': "q' = q\<lparr>q_queue := rest\<rparr>" "ab_requests batch = b"
    using batch Some by (auto simp: DrainBatchForReason_def DrainBatch_def)
  have perm: "mset (map request_key (rest @ held @ b)) = mset (map request_key (q_queue q @ held))"
    using drain_mset[OF d] by (simp add: add.commute add.left_commute)
  have "\<forall>r \<in> set b. wanted q (request_key r)"
    using drain_mset[OF d] requested_once_wanted(1)[OF inv] by metis
  then show ?thesis
    unfolding q'
    using drain_mset[OF d] requested_once_wanted[OF inv] perm
    by (intro requested_once_move[OF inv]) (auto simp: same_sets_def)
qed

lemma drop_nth_mset: "i < length xs \<Longrightarrow> mset xs = add_mset (xs ! i) (mset (drop_nth i xs))"
  by (metis add_mset_add_single drop_nth_def id_take_nth_drop mset.simps(2) mset_append union_mset_add_mset_right)

lemma drop_nth_subset: "set (drop_nth i xs) \<subseteq> set xs"
  by (auto simp: drop_nth_def dest: in_set_takeD in_set_dropD)

text \<open>A held request goes back to the queue, changed but under its key.\<close>

lemma give_back_once:
  assumes inv: "requested_once (q, held)" and i: "i < length held" and current: "IsCurrent r q"
    and same: "request_key r = request_key (held ! i)" "rq_reason r = rq_reason (held ! i)"
    and queue: "mset queue = add_mset r (mset (q_queue q))"
  shows "requested_once (q\<lparr>q_queue := queue\<rparr>, drop_nth i held)"
proof (rule requested_once_move[OF inv])
  have "set queue = insert r (set (q_queue q))" using arg_cong[OF queue, of set_mset] by simp
  moreover have "IsCurrent (held ! i) q"
    using current same by (auto simp: IsCurrent_def request_key_def split: MMRRequestReason.splits)
  then have "wanted q (request_key r)"
    using IsCurrent_wanted[OF inv nth_mem[OF i]] same by simp
  ultimately show "\<forall>r \<in> set (q_queue (q\<lparr>q_queue := queue\<rparr>)). wanted q (request_key r)"
    using requested_once_wanted(1)[OF inv] by simp
  show "\<forall>r \<in> set (drop_nth i held). rq_reason r \<noteq> TrackedAccount \<longrightarrow> wanted q (request_key r)"
    using requested_once_wanted(2)[OF inv] drop_nth_subset[of i held] by blast
  have "mset (map request_key held) = add_mset (request_key r) (mset (map request_key (drop_nth i held)))"
    using arg_cong[OF drop_nth_mset[OF i], of "image_mset request_key"] same by simp
  then show "mset (map request_key (q_queue (q\<lparr>q_queue := queue\<rparr>) @ drop_nth i held)) =
      mset (map request_key (q_queue q @ held))"
    using arg_cong[OF queue, of "image_mset request_key"] by simp
qed (simp add: same_sets_def)

lemma ScheduleRetry_cases:
  assumes "ScheduleRetry running now req delay between q = (again, calls, q')"
    and "req' = req\<lparr>rq_retriesRemaining := rq_retriesRemaining req - 1, rq_notBefore := now + delay\<rparr>"
  obtains "\<not> again" "q' = q" | "\<not> again" "q' = between q"
    | "again" "IsCurrent req' (between q)" "q' = (between q)\<lparr>q_queue := q_queue (between q) @ [req']\<rparr>"
  using assms
  by (cases "IsCurrent req' q"; cases "IsCurrent req' (between q)"; cases again)
    (simp_all add: ScheduleRetry_def Let_def split: if_splits)

lemma retry_once:
  assumes inv: "requested_once (q, held)" and i: "i < length held"
    and r: "ScheduleRetry running now (held ! i) delay (fold ask meanwhile) q = (again, calls, q')"
  shows "requested_once (q', if again then drop_nth i held else held)"
proof -
  let ?r = "(held ! i)\<lparr>rq_retriesRemaining := rq_retriesRemaining (held ! i) - 1, rq_notBefore := now + delay\<rparr>"
  let ?q = "fold ask meanwhile q"
  have asked: "requested_once (?q, held)" by (rule asks_once[OF inv])
  have key: "request_key ?r = request_key (held ! i)" "rq_reason ?r = rq_reason (held ! i)"
    by (cases "rq_reason (held ! i)"; simp add: request_key_def)+
  from ScheduleRetry_cases[OF r refl] show ?thesis
  proof cases
    case 3
    then show ?thesis using give_back_once[OF asked i 3(2) key] by simp
  qed (use inv asked in auto)
qed

lemma strike_out_once: "requested_once (strike_out now q, held) = requested_once (q, held)"
  by (simp only: strike_out_def requested_once_clock(1))

lemma blocked_once:
  assumes inv: "requested_once (q, held)" and i: "i < length held"
    and r: "RequeueForbidden running now (held ! i) q = (again, calls, q')"
  shows "requested_once (q', if again = None then held else drop_nth i held)"
proof (cases "running \<and> IsCurrent (held ! i) (strike_out now q)")
  case True
  let ?q = "strike_out now q"
  let ?r = "(held ! i)\<lparr>rq_notBefore := q_rateLimitedUntil ?q\<rparr>"
  have key: "request_key ?r = request_key (held ! i)" "rq_reason ?r = rq_reason (held ! i)"
    "IsCurrent ?r ?q"
    using True by (cases "rq_reason (held ! i)"; simp add: request_key_def IsCurrent_def)+
  have locked: "requested_once (?q, held)" using inv by (simp only: strike_out_once)
  have "again \<noteq> None" "q' = ?q\<lparr>q_queue := ?r # q_queue ?q\<rparr>"
    using r True by (auto simp: RequeueForbidden_def Let_def)
  then show ?thesis using give_back_once[OF locked i key(3,1,2), of "?r # q_queue ?q"] by auto
next
  case False
  then have "again = None" "q' = q \<or> q' = strike_out now q"
    using r by (auto simp: RequeueForbidden_def Let_def split: if_splits)
  then show ?thesis using inv by (auto simp: strike_out_once)
qed

lemma finish_once:
  assumes inv: "requested_once (q, held)" and i: "i < length held"
  shows "requested_once (Finish (held ! i) q, drop_nth i held)"
proof (rule requested_once_shrink[OF inv])
  let ?r = "held ! i" and ?q = "Finish (held ! i) q"
  have queue: "q_queue ?q = q_queue q" and next': "q_nextTracked ?q = q_nextTracked q"
    by (simp_all add: Finish_def split: MMRRequestReason.splits)
  show "q_nextTracked ?q = q_nextTracked q" by (rule next')
  have wanted: "wanted ?q k = (wanted q k \<and> k \<noteq> request_key ?r)" for k
    by (cases k; cases "rq_reason ?r") (auto simp: Finish_def request_key_def IsTrackedCurrent_def um_simps)
  have keys: "mset (open_keys (q, held)) = add_mset (request_key ?r) (mset (open_keys (?q, drop_nth i held)))"
    using arg_cong[OF drop_nth_mset[OF i], of "image_mset request_key"] by (simp add: open_keys_def queue)
  have once: "distinct (open_keys (q, held))" using inv by (simp add: requested_once_def)
  have split: "distinct (request_key ?r # open_keys (?q, drop_nth i held))"
    using mset_eq_imp_distinct_iff[of "request_key ?r # open_keys (?q, drop_nth i held)" "open_keys (q, held)"]
      keys once by simp
  have set: "set (open_keys (q, held)) = insert (request_key ?r) (set (open_keys (?q, drop_nth i held)))"
    using arg_cong[OF keys, of set_mset] by simp
  show "distinct (open_keys (?q, drop_nth i held))" using split by simp
  show "set (open_keys (?q, drop_nth i held)) \<subseteq> set (open_keys (q, held))" using set by blast
  show "wanted q k \<and> k \<in> set (open_keys (?q, drop_nth i held))" if "wanted ?q k" for k
    using that inv set by (auto simp: wanted requested_once_def)
  have gone: "request_key r \<noteq> request_key ?r" if "r \<in> set (q_queue ?q) \<union> set (drop_nth i held)" for r
  proof -
    have "request_key r \<in> set (open_keys (?q, drop_nth i held))" using that by (auto simp: open_keys_def)
    then show ?thesis using split by auto
  qed
  show "\<forall>r \<in> set (q_queue ?q). wanted ?q (request_key r)"
    using requested_once_wanted(1)[OF inv] gone by (simp add: wanted queue)
  show "\<forall>r \<in> set (drop_nth i held). rq_reason r \<noteq> TrackedAccount \<longrightarrow> wanted ?q (request_key r)"
    using requested_once_wanted(2)[OF inv] drop_nth_subset[of i held] gone by (auto simp: wanted)
qed

lemma take_once:
  assumes "requested_once (q, held)"
  shows "requested_once (hold held (PopNextPostMatch now q))" "requested_once (hold held (PopNext now q))"
    "requested_once (hold held (TakeTrackedAccount p g q))"
proof -
  have none: "hold held (None, q) = (q, held)" by (simp add: hold_def)
  show "requested_once (hold held (PopNextPostMatch now q))"
    by (simp add: PopNextPostMatch_def none assms) (blast intro: hold_once[OF assms] take_first_mset)
  show "requested_once (hold held (TakeTrackedAccount p g q))"
    unfolding TakeTrackedAccount_def by (blast intro: hold_once[OF assms] take_first_mset)
  show "requested_once (hold held (PopNext now q))"
  proof (cases "IsRateLimited now q")
    case True
    then show ?thesis by (simp add: PopNext_def none assms)
  next
    case False
    have "PopNext now q = taken (case take_earliest Roster now (q_queue q) of
        Some found \<Rightarrow> Some found | None \<Rightarrow> take_earliest TrackedAccount now (q_queue q)) q"
      using False by (simp add: PopNext_def split: option.splits)
    then show ?thesis
      by (auto intro!: hold_once[OF assms] dest: take_earliest_mset split: option.splits)
  qed
qed

lemma queue_step_once: "requested_once s \<Longrightarrow> requested_once (queue_step e s)"
proof -
  assume s: "requested_once s"
  obtain q held where q: "s = (q, held)" by force
  note inv = s[unfolded q]
  show ?thesis
  proof (cases e)
    case (TakeBatch reason now gen n)
    then show ?thesis using batch_once[OF inv] by (auto simp: q split: prod.splits)
  next
    case (Retry i running now delay meanwhile)
    then show ?thesis using retry_once[OF inv] inv by (auto simp: q split: prod.splits if_splits)
  next
    case (Blocked i running now)
    then show ?thesis using blocked_once[OF inv] inv by (auto simp: q split: prod.splits if_splits)
  next
    case Unblock
    show ?thesis unfolding Unblock q queue_step.simps ResetForbidden_def snd_conv requested_once_clock(1) by (rule inv)
  qed (simp_all add: q ask_once[OF inv] take_once[OF inv] finish_once[OF inv] inv
      SetRateLimitedUntil_def requested_once_clock)
qed

interpretation rq: invariant_machine queue_step requested_once
  by unfold_locales (rule queue_step_once)

section \<open>Properties\<close>


text \<open>
  The next request is one of the kind that goes first (players of the lobby before tracked
  accounts), it is due, none of its kind has an earlier time, and of equal times the one enqueued
  first is taken; the others stay in order. No request is taken while the service is rate limited,
  and otherwise none is withheld that is due.
\<close>

theorem next_request_order:
  assumes "PopNext now q = (req, q')"
  shows "case req of
      None \<Rightarrow> q' = q \<and> (IsRateLimited now q \<or> NextBatchReason now q = None)
    | Some r \<Rightarrow> \<not> IsRateLimited now q \<and> NextBatchReason now q = Some (rq_reason r) \<and>
        (\<exists>before after. q_queue q = before @ r # after \<and> q' = q\<lparr>q_queue := before @ after\<rparr> \<and>
           ready (rq_reason r) now r \<and>
           (\<forall>y \<in> set before. ready (rq_reason r) now y \<longrightarrow> rq_notBefore r < rq_notBefore y) \<and>
           (\<forall>y \<in> set after. ready (rq_reason r) now y \<longrightarrow> rq_notBefore r \<le> rq_notBefore y))"
proof (cases "IsRateLimited now q")
  case True
  then show ?thesis using assms by (auto simp: PopNext_def)
next
  case False
  show ?thesis
  proof (cases req)
    case None
    then show ?thesis
      using assms False take_earliest_None[of Roster now "q_queue q"]
        take_earliest_None[of TrackedAccount now "q_queue q"]
      by (auto simp: PopNext_def taken_def NextBatchReason_def HasReady_def split: option.splits)
  next
    case (Some r)
    then obtain rest reason where found: "take_earliest reason now (q_queue q) = Some (r, rest)"
      "NextBatchReason now q = Some reason" "q' = q\<lparr>q_queue := rest\<rparr>"
      using assms False take_earliest_None[of Roster now "q_queue q"]
        take_earliest_None[of TrackedAccount now "q_queue q"]
      by (auto simp: PopNext_def taken_def NextBatchReason_def HasReady_def split: option.splits)
    from take_earliest_Some[OF found(1)] obtain before after where
      "q_queue q = before @ r # after" "rest = before @ after" "ready reason now r"
      "\<forall>y \<in> set before. ready reason now y \<longrightarrow> rq_notBefore r < rq_notBefore y"
      "\<forall>y \<in> set after. ready reason now y \<longrightarrow> rq_notBefore r \<le> rq_notBefore y"
      by blast
    moreover from this have "rq_reason r = reason" by (simp add: ready_def)
    ultimately show ?thesis using found False Some by auto
  qed
qed

definition sample_timings :: MmrTimings where
  "sample_timings =
     \<lparr>mt_postMatchInitialDelay = 30, mt_stalePostMatchRetryDelay = 60, mt_transientRetryDelay = 5,
      mt_queueSpacing = 2, mt_rateLimitLockoutMinimum = 60, mt_forbiddenLockoutFirst = 60,
      mt_forbiddenLockoutSecond = 300, mt_forbiddenLockoutMaximum = 900, mt_forbiddenAttemptDelay = 1,
      mt_batchCoalesceWindow = 3\<rparr>"

definition sample_queue :: MmrRequestQueue where
  "sample_queue =
     fold ask [AskTracked 1 ''steam|9'' ''friend'', AskRoster 4 ''epic|2'' ''b'' 1, AskRoster 2 ''epic|1'' ''a'' 1]
       (MmrRequestQueue0 sample_timings)"

theorem next_request_order_witness:
  "map_option rq_primaryId (fst (PopNext 5 sample_queue)) = Some ''epic|1'' \<and>
   NextBatchReason 5 sample_queue = Some Roster \<and> \<not> IsRateLimited 5 sample_queue"
proof -
  have run: "map_option rq_primaryId (fst (PopNext 5 sample_queue)) = Some ''epic|1''"
    "map_option rq_reason (fst (PopNext 5 sample_queue)) = Some Roster"
    by code_simp+
  obtain req q' where pop: "PopNext 5 sample_queue = (req, q')" by force
  show ?thesis using next_request_order[OF pop] run by (auto simp: pop split: option.splits)
qed

text \<open>
  A batch holds, in their order, the first requests of one kind and one playlist that are due, as
  many as fit; the rest of them and every other request stay in the queue in order. A batch with
  room is empty only if nothing of its kind is due.
\<close>

theorem batches_take_due_requests:
  "case DrainBatchForReason reason now gen n q of (batch, q') \<Rightarrow>
     let due = (\<lambda>r. ready reason now r \<and> rq_playlist r = ab_playlist batch)
     in ab_requests batch = map (\<lambda>r. r\<lparr>rq_sessionGeneration := gen\<rparr>) (take n (filter due (q_queue q))) \<and>
        filter due (q_queue q') = drop n (filter due (q_queue q)) \<and>
        filter (\<lambda>r. \<not> due r) (q_queue q') = filter (\<lambda>r. \<not> due r) (q_queue q) \<and>
        (ab_requests batch \<noteq> [] \<longleftrightarrow> 0 < n \<and> HasReady reason now q)"
proof (cases "FirstReadyPlaylist reason now q")
  case None
  then have "\<not> HasReady reason now q" "\<forall>r \<in> set (q_queue q). \<not> ready reason now r"
    by (auto simp: FirstReadyPlaylist_def HasReady_def find_None_iff list_ex_iff)
  then show ?thesis using None by (auto simp: DrainBatchForReason_def Let_def filter_empty_conv)
next
  case (Some playlist)
  let ?due = "\<lambda>r. ready reason now r \<and> rq_playlist r = playlist"
  obtain b rest where d: "drain ?due gen n (q_queue q) = (b, rest)" by force
  obtain r where "find (ready reason now) (q_queue q) = Some r" "rq_playlist r = playlist"
    using Some by (auto simp: FirstReadyPlaylist_def)
  then have r: "r \<in> set (q_queue q)" "?due r" by (auto simp: find_Some_iff)
  then have "filter ?due (q_queue q) \<noteq> []" "HasReady reason now q"
    by (auto simp: filter_empty_conv HasReady_def list_ex_iff)
  then show ?thesis
    using drain_spec[OF d] Some d by (simp add: DrainBatchForReason_def DrainBatch_def Let_def)
qed

end
