(* ===== verification/Rank_Tables.thy ===== *)
theory Rank_Tables
  imports Rank_Progress
begin

text \<open>
  The divisions of every playlist (\<open>network/mmr/PlaylistRankThresholds.inl\<close>) and the lookups in them
  (\<open>network/mmr/MmrService.cpp\<close>): the table of a playlist, the rank of a rating, and the rank named by
  a tier and a division number. The tables are the source's, entry by entry.
\<close>

definition entry :: "int \<Rightarrow> string \<Rightarrow> string \<Rightarrow> Threshold" where
  "entry mmr tier division = \<lparr>th_minMmr = mmr, th_tier = Some tier, th_division = Some division\<rparr>"

section \<open>The tables\<close>

definition TournamentRankThresholds :: "Threshold list" where
  "TournamentRankThresholds =
     [entry (-4) ''Bronze I'' ''Div I'', entry 119 ''Bronze I'' ''Div II'',
      entry 138 ''Bronze I'' ''Div III'', entry 157 ''Bronze I'' ''Div IV'',
      entry 162 ''Bronze II'' ''Div I'', entry 179 ''Bronze II'' ''Div II'',
      entry 198 ''Bronze II'' ''Div III'', entry 217 ''Bronze II'' ''Div IV'',
      entry 221 ''Bronze III'' ''Div I'', entry 239 ''Bronze III'' ''Div II'',
      entry 258 ''Bronze III'' ''Div III'', entry 277 ''Bronze III'' ''Div IV'',
      entry 283 ''Silver I'' ''Div I'', entry 299 ''Silver I'' ''Div II'',
      entry 318 ''Silver I'' ''Div III'', entry 337 ''Silver I'' ''Div IV'',
      entry 342 ''Silver II'' ''Div I'', entry 359 ''Silver II'' ''Div II'',
      entry 378 ''Silver II'' ''Div III'', entry 397 ''Silver II'' ''Div IV'',
      entry 403 ''Silver III'' ''Div I'', entry 419 ''Silver III'' ''Div II'',
      entry 438 ''Silver III'' ''Div III'', entry 457 ''Silver III'' ''Div IV'',
      entry 461 ''Gold I'' ''Div I'', entry 478 ''Gold I'' ''Div II'',
      entry 498 ''Gold I'' ''Div III'', entry 517 ''Gold I'' ''Div IV'',
      entry 521 ''Gold II'' ''Div I'', entry 539 ''Gold II'' ''Div II'',
      entry 558 ''Gold II'' ''Div III'', entry 577 ''Gold II'' ''Div IV'',
      entry 581 ''Gold III'' ''Div I'', entry 598 ''Gold III'' ''Div II'',
      entry 618 ''Gold III'' ''Div III'', entry 637 ''Gold III'' ''Div IV'',
      entry 641 ''Platinum I'' ''Div I'', entry 659 ''Platinum I'' ''Div II'',
      entry 678 ''Platinum I'' ''Div III'', entry 697 ''Platinum I'' ''Div IV'',
      entry 701 ''Platinum II'' ''Div I'', entry 719 ''Platinum II'' ''Div II'',
      entry 738 ''Platinum II'' ''Div III'', entry 757 ''Platinum II'' ''Div IV'',
      entry 761 ''Platinum III'' ''Div I'', entry 779 ''Platinum III'' ''Div II'',
      entry 798 ''Platinum III'' ''Div III'', entry 817 ''Platinum III'' ''Div IV'',
      entry 824 ''Diamond I'' ''Div I'', entry 844 ''Diamond I'' ''Div II'',
      entry 868 ''Diamond I'' ''Div III'', entry 892 ''Diamond I'' ''Div IV'',
      entry 901 ''Diamond II'' ''Div I'', entry 924 ''Diamond II'' ''Div II'',
      entry 948 ''Diamond II'' ''Div III'', entry 972 ''Diamond II'' ''Div IV'',
      entry 981 ''Diamond III'' ''Div I'', entry 1004 ''Diamond III'' ''Div II'',
      entry 1028 ''Diamond III'' ''Div III'', entry 1052 ''Diamond III'' ''Div IV'',
      entry 1061 ''Champion I'' ''Div I'', entry 1096 ''Champion I'' ''Div II'',
      entry 1128 ''Champion I'' ''Div III'', entry 1162 ''Champion I'' ''Div IV'',
      entry 1181 ''Champion II'' ''Div I'', entry 1215 ''Champion II'' ''Div II'',
      entry 1254 ''Champion II'' ''Div III'', entry 1282 ''Champion II'' ''Div IV'',
      entry 1301 ''Champion III'' ''Div I'', entry 1337 ''Champion III'' ''Div II'',
      entry 1368 ''Champion III'' ''Div III'', entry 1402 ''Champion III'' ''Div IV'',
      entry 1421 ''Grand Champion I'' ''Div I'', entry 1460 ''Grand Champion I'' ''Div II'',
      entry 1498 ''Grand Champion I'' ''Div III'', entry 1537 ''Grand Champion I'' ''Div IV'',
      entry 1561 ''Grand Champion II'' ''Div I'', entry 1600 ''Grand Champion II'' ''Div II'',
      entry 1638 ''Grand Champion II'' ''Div III'', entry 1677 ''Grand Champion II'' ''Div IV'',
      entry 1701 ''Grand Champion III'' ''Div I'', entry 1745 ''Grand Champion III'' ''Div II'',
      entry 1788 ''Grand Champion III'' ''Div III'', entry 1832 ''Grand Champion III'' ''Div IV'',
      entry 1861 ''Supersonic Legend'' '''']"

definition SoloDuelRankThresholds :: "Threshold list" where
  "SoloDuelRankThresholds =
     [entry (-100) ''Bronze I'' ''Div I'', entry 114 ''Bronze I'' ''Div II'',
      entry 128 ''Bronze I'' ''Div III'', entry 143 ''Bronze I'' ''Div IV'',
      entry 145 ''Bronze II'' ''Div I'', entry 159 ''Bronze II'' ''Div II'',
      entry 178 ''Bronze II'' ''Div III'', entry 197 ''Bronze II'' ''Div IV'',
      entry 215 ''Bronze III'' ''Div I'', entry 219 ''Bronze III'' ''Div II'',
      entry 238 ''Bronze III'' ''Div III'', entry 257 ''Bronze III'' ''Div IV'',
      entry 275 ''Silver I'' ''Div I'', entry 279 ''Silver I'' ''Div II'',
      entry 298 ''Silver I'' ''Div III'', entry 317 ''Silver I'' ''Div IV'',
      entry 335 ''Silver II'' ''Div I'', entry 339 ''Silver II'' ''Div II'',
      entry 358 ''Silver II'' ''Div III'', entry 377 ''Silver II'' ''Div IV'',
      entry 395 ''Silver III'' ''Div I'', entry 399 ''Silver III'' ''Div II'',
      entry 418 ''Silver III'' ''Div III'', entry 437 ''Silver III'' ''Div IV'',
      entry 455 ''Gold I'' ''Div I'', entry 459 ''Gold I'' ''Div II'',
      entry 478 ''Gold I'' ''Div III'', entry 497 ''Gold I'' ''Div IV'',
      entry 515 ''Gold II'' ''Div I'', entry 519 ''Gold II'' ''Div II'',
      entry 538 ''Gold II'' ''Div III'', entry 557 ''Gold II'' ''Div IV'',
      entry 575 ''Gold III'' ''Div I'', entry 579 ''Gold III'' ''Div II'',
      entry 598 ''Gold III'' ''Div III'', entry 617 ''Gold III'' ''Div IV'',
      entry 635 ''Platinum I'' ''Div I'', entry 639 ''Platinum I'' ''Div II'',
      entry 658 ''Platinum I'' ''Div III'', entry 677 ''Platinum I'' ''Div IV'',
      entry 695 ''Platinum II'' ''Div I'', entry 699 ''Platinum II'' ''Div II'',
      entry 718 ''Platinum II'' ''Div III'', entry 737 ''Platinum II'' ''Div IV'',
      entry 755 ''Platinum III'' ''Div I'', entry 759 ''Platinum III'' ''Div II'',
      entry 778 ''Platinum III'' ''Div III'', entry 797 ''Platinum III'' ''Div IV'',
      entry 815 ''Diamond I'' ''Div I'', entry 819 ''Diamond I'' ''Div II'',
      entry 838 ''Diamond I'' ''Div III'', entry 857 ''Diamond I'' ''Div IV'',
      entry 875 ''Diamond II'' ''Div I'', entry 879 ''Diamond II'' ''Div II'',
      entry 898 ''Diamond II'' ''Div III'', entry 917 ''Diamond II'' ''Div IV'',
      entry 934 ''Diamond III'' ''Div I'', entry 939 ''Diamond III'' ''Div II'',
      entry 958 ''Diamond III'' ''Div III'', entry 977 ''Diamond III'' ''Div IV'',
      entry 994 ''Champion I'' ''Div I'', entry 999 ''Champion I'' ''Div II'',
      entry 1018 ''Champion I'' ''Div III'', entry 1037 ''Champion I'' ''Div IV'',
      entry 1048 ''Champion II'' ''Div I'', entry 1059 ''Champion II'' ''Div II'',
      entry 1078 ''Champion II'' ''Div III'', entry 1097 ''Champion II'' ''Div IV'',
      entry 1107 ''Champion III'' ''Div I'', entry 1119 ''Champion III'' ''Div II'',
      entry 1138 ''Champion III'' ''Div III'', entry 1157 ''Champion III'' ''Div IV'',
      entry 1166 ''Grand Champion I'' ''Div I'', entry 1180 ''Grand Champion I'' ''Div II'',
      entry 1198 ''Grand Champion I'' ''Div III'', entry 1217 ''Grand Champion I'' ''Div IV'',
      entry 1226 ''Grand Champion II'' ''Div I'', entry 1240 ''Grand Champion II'' ''Div II'',
      entry 1258 ''Grand Champion II'' ''Div III'', entry 1277 ''Grand Champion II'' ''Div IV'',
      entry 1288 ''Grand Champion III'' ''Div I'', entry 1300 ''Grand Champion III'' ''Div II'',
      entry 1319 ''Grand Champion III'' ''Div III'', entry 1336 ''Grand Champion III'' ''Div IV'',
      entry 1341 ''Supersonic Legend'' '''']"

definition DoublesRankThresholds :: "Threshold list" where
  "DoublesRankThresholds =
     [entry (-100) ''Bronze I'' ''Div I'', entry 119 ''Bronze I'' ''Div II'',
      entry 138 ''Bronze I'' ''Div III'', entry 157 ''Bronze I'' ''Div IV'',
      entry 169 ''Bronze II'' ''Div I'', entry 179 ''Bronze II'' ''Div II'',
      entry 198 ''Bronze II'' ''Div III'', entry 217 ''Bronze II'' ''Div IV'',
      entry 232 ''Bronze III'' ''Div I'', entry 239 ''Bronze III'' ''Div II'',
      entry 258 ''Bronze III'' ''Div III'', entry 277 ''Bronze III'' ''Div IV'',
      entry 291 ''Silver I'' ''Div I'', entry 299 ''Silver I'' ''Div II'',
      entry 318 ''Silver I'' ''Div III'', entry 337 ''Silver I'' ''Div IV'',
      entry 352 ''Silver II'' ''Div I'', entry 359 ''Silver II'' ''Div II'',
      entry 378 ''Silver II'' ''Div III'', entry 397 ''Silver II'' ''Div IV'',
      entry 411 ''Silver III'' ''Div I'', entry 419 ''Silver III'' ''Div II'',
      entry 438 ''Silver III'' ''Div III'', entry 457 ''Silver III'' ''Div IV'',
      entry 472 ''Gold I'' ''Div I'', entry 479 ''Gold I'' ''Div II'',
      entry 498 ''Gold I'' ''Div III'', entry 517 ''Gold I'' ''Div IV'',
      entry 533 ''Gold II'' ''Div I'', entry 539 ''Gold II'' ''Div II'',
      entry 558 ''Gold II'' ''Div III'', entry 577 ''Gold II'' ''Div IV'',
      entry 593 ''Gold III'' ''Div I'', entry 599 ''Gold III'' ''Div II'',
      entry 618 ''Gold III'' ''Div III'', entry 637 ''Gold III'' ''Div IV'',
      entry 653 ''Platinum I'' ''Div I'', entry 659 ''Platinum I'' ''Div II'',
      entry 678 ''Platinum I'' ''Div III'', entry 697 ''Platinum I'' ''Div IV'',
      entry 712 ''Platinum II'' ''Div I'', entry 719 ''Platinum II'' ''Div II'',
      entry 738 ''Platinum II'' ''Div III'', entry 757 ''Platinum II'' ''Div IV'',
      entry 772 ''Platinum III'' ''Div I'', entry 779 ''Platinum III'' ''Div II'',
      entry 798 ''Platinum III'' ''Div III'', entry 817 ''Platinum III'' ''Div IV'',
      entry 835 ''Diamond I'' ''Div I'', entry 844 ''Diamond I'' ''Div II'',
      entry 868 ''Diamond I'' ''Div III'', entry 892 ''Diamond I'' ''Div IV'',
      entry 914 ''Diamond II'' ''Div I'', entry 924 ''Diamond II'' ''Div II'',
      entry 948 ''Diamond II'' ''Div III'', entry 972 ''Diamond II'' ''Div IV'',
      entry 994 ''Diamond III'' ''Div I'', entry 1004 ''Diamond III'' ''Div II'',
      entry 1028 ''Diamond III'' ''Div III'', entry 1052 ''Diamond III'' ''Div IV'',
      entry 1075 ''Champion I'' ''Div I'', entry 1095 ''Champion I'' ''Div II'',
      entry 1128 ''Champion I'' ''Div III'', entry 1162 ''Champion I'' ''Div IV'',
      entry 1195 ''Champion II'' ''Div I'', entry 1214 ''Champion II'' ''Div II'',
      entry 1248 ''Champion II'' ''Div III'', entry 1282 ''Champion II'' ''Div IV'',
      entry 1314 ''Champion III'' ''Div I'', entry 1335 ''Champion III'' ''Div II'',
      entry 1368 ''Champion III'' ''Div III'', entry 1402 ''Champion III'' ''Div IV'',
      entry 1435 ''Grand Champion I'' ''Div I'', entry 1462 ''Grand Champion I'' ''Div II'',
      entry 1498 ''Grand Champion I'' ''Div III'', entry 1537 ''Grand Champion I'' ''Div IV'',
      entry 1575 ''Grand Champion II'' ''Div I'', entry 1601 ''Grand Champion II'' ''Div II'',
      entry 1638 ''Grand Champion II'' ''Div III'', entry 1677 ''Grand Champion II'' ''Div IV'',
      entry 1715 ''Grand Champion III'' ''Div I'', entry 1744 ''Grand Champion III'' ''Div II'',
      entry 1788 ''Grand Champion III'' ''Div III'', entry 1832 ''Grand Champion III'' ''Div IV'',
      entry 1860 ''Supersonic Legend'' '''']"

definition StandardRankThresholds :: "Threshold list" where
  "StandardRankThresholds =
     [entry (-100) ''Bronze I'' ''Div I'', entry 119 ''Bronze I'' ''Div II'',
      entry 138 ''Bronze I'' ''Div III'', entry 157 ''Bronze I'' ''Div IV'',
      entry 175 ''Bronze II'' ''Div I'', entry 179 ''Bronze II'' ''Div II'',
      entry 198 ''Bronze II'' ''Div III'', entry 217 ''Bronze II'' ''Div IV'',
      entry 235 ''Bronze III'' ''Div I'', entry 239 ''Bronze III'' ''Div II'',
      entry 258 ''Bronze III'' ''Div III'', entry 277 ''Bronze III'' ''Div IV'',
      entry 295 ''Silver I'' ''Div I'', entry 299 ''Silver I'' ''Div II'',
      entry 318 ''Silver I'' ''Div III'', entry 337 ''Silver I'' ''Div IV'',
      entry 355 ''Silver II'' ''Div I'', entry 359 ''Silver II'' ''Div II'',
      entry 378 ''Silver II'' ''Div III'', entry 397 ''Silver II'' ''Div IV'',
      entry 415 ''Silver III'' ''Div I'', entry 419 ''Silver III'' ''Div II'',
      entry 438 ''Silver III'' ''Div III'', entry 457 ''Silver III'' ''Div IV'',
      entry 475 ''Gold I'' ''Div I'', entry 479 ''Gold I'' ''Div II'',
      entry 498 ''Gold I'' ''Div III'', entry 517 ''Gold I'' ''Div IV'',
      entry 535 ''Gold II'' ''Div I'', entry 539 ''Gold II'' ''Div II'',
      entry 558 ''Gold II'' ''Div III'', entry 577 ''Gold II'' ''Div IV'',
      entry 595 ''Gold III'' ''Div I'', entry 599 ''Gold III'' ''Div II'',
      entry 618 ''Gold III'' ''Div III'', entry 637 ''Gold III'' ''Div IV'',
      entry 655 ''Platinum I'' ''Div I'', entry 659 ''Platinum I'' ''Div II'',
      entry 678 ''Platinum I'' ''Div III'', entry 697 ''Platinum I'' ''Div IV'',
      entry 715 ''Platinum II'' ''Div I'', entry 719 ''Platinum II'' ''Div II'',
      entry 738 ''Platinum II'' ''Div III'', entry 757 ''Platinum II'' ''Div IV'',
      entry 775 ''Platinum III'' ''Div I'', entry 779 ''Platinum III'' ''Div II'',
      entry 798 ''Platinum III'' ''Div III'', entry 817 ''Platinum III'' ''Div IV'',
      entry 835 ''Diamond I'' ''Div I'', entry 844 ''Diamond I'' ''Div II'',
      entry 868 ''Diamond I'' ''Div III'', entry 892 ''Diamond I'' ''Div IV'',
      entry 915 ''Diamond II'' ''Div I'', entry 924 ''Diamond II'' ''Div II'',
      entry 948 ''Diamond II'' ''Div III'', entry 972 ''Diamond II'' ''Div IV'',
      entry 995 ''Diamond III'' ''Div I'', entry 1004 ''Diamond III'' ''Div II'',
      entry 1028 ''Diamond III'' ''Div III'', entry 1052 ''Diamond III'' ''Div IV'',
      entry 1075 ''Champion I'' ''Div I'', entry 1094 ''Champion I'' ''Div II'',
      entry 1128 ''Champion I'' ''Div III'', entry 1162 ''Champion I'' ''Div IV'',
      entry 1195 ''Champion II'' ''Div I'', entry 1214 ''Champion II'' ''Div II'',
      entry 1248 ''Champion II'' ''Div III'', entry 1282 ''Champion II'' ''Div IV'',
      entry 1315 ''Champion III'' ''Div I'', entry 1335 ''Champion III'' ''Div II'',
      entry 1368 ''Champion III'' ''Div III'', entry 1402 ''Champion III'' ''Div IV'',
      entry 1435 ''Grand Champion I'' ''Div I'', entry 1460 ''Grand Champion I'' ''Div II'',
      entry 1500 ''Grand Champion I'' ''Div III'', entry 1537 ''Grand Champion I'' ''Div IV'',
      entry 1575 ''Grand Champion II'' ''Div I'', entry 1600 ''Grand Champion II'' ''Div II'',
      entry 1638 ''Grand Champion II'' ''Div III'', entry 1677 ''Grand Champion II'' ''Div IV'',
      entry 1712 ''Grand Champion III'' ''Div I'', entry 1745 ''Grand Champion III'' ''Div II'',
      entry 1788 ''Grand Champion III'' ''Div III'', entry 1832 ''Grand Champion III'' ''Div IV'',
      entry 1862 ''Supersonic Legend'' '''']"

definition HoopsRankThresholds :: "Threshold list" where
  "HoopsRankThresholds =
     [entry (-116) ''Bronze I'' ''Div I'', entry 132 ''Bronze I'' ''Div II'',
      entry 168 ''Bronze I'' ''Div III'', entry 189 ''Bronze I'' ''Div IV'',
      entry 204 ''Bronze II'' ''Div I'', entry 220 ''Bronze II'' ''Div II'',
      entry 238 ''Bronze II'' ''Div III'', entry 257 ''Bronze II'' ''Div IV'',
      entry 276 ''Bronze III'' ''Div I'', entry 279 ''Bronze III'' ''Div II'',
      entry 298 ''Bronze III'' ''Div III'', entry 317 ''Bronze III'' ''Div IV'',
      entry 322 ''Silver I'' ''Div I'', entry 335 ''Silver I'' ''Div II'',
      entry 348 ''Silver I'' ''Div III'', entry 365 ''Silver I'' ''Div IV'',
      entry 375 ''Silver II'' ''Div I'', entry 379 ''Silver II'' ''Div II'',
      entry 398 ''Silver II'' ''Div III'', entry 418 ''Silver II'' ''Div IV'',
      entry 424 ''Silver III'' ''Div I'', entry 435 ''Silver III'' ''Div II'',
      entry 448 ''Silver III'' ''Div III'', entry 462 ''Silver III'' ''Div IV'',
      entry 475 ''Gold I'' ''Div I'', entry 479 ''Gold I'' ''Div II'',
      entry 498 ''Gold I'' ''Div III'', entry 518 ''Gold I'' ''Div IV'',
      entry 521 ''Gold II'' ''Div I'', entry 535 ''Gold II'' ''Div II'',
      entry 548 ''Gold II'' ''Div III'', entry 562 ''Gold II'' ''Div IV'',
      entry 575 ''Gold III'' ''Div I'', entry 579 ''Gold III'' ''Div II'',
      entry 598 ''Gold III'' ''Div III'', entry 617 ''Gold III'' ''Div IV'',
      entry 621 ''Platinum I'' ''Div I'', entry 635 ''Platinum I'' ''Div II'',
      entry 648 ''Platinum I'' ''Div III'', entry 662 ''Platinum I'' ''Div IV'',
      entry 675 ''Platinum II'' ''Div I'', entry 679 ''Platinum II'' ''Div II'',
      entry 698 ''Platinum II'' ''Div III'', entry 717 ''Platinum II'' ''Div IV'',
      entry 721 ''Platinum III'' ''Div I'', entry 735 ''Platinum III'' ''Div II'',
      entry 748 ''Platinum III'' ''Div III'', entry 762 ''Platinum III'' ''Div IV'',
      entry 775 ''Diamond I'' ''Div I'', entry 779 ''Diamond I'' ''Div II'',
      entry 798 ''Diamond I'' ''Div III'', entry 817 ''Diamond I'' ''Div IV'',
      entry 821 ''Diamond II'' ''Div I'', entry 835 ''Diamond II'' ''Div II'',
      entry 848 ''Diamond II'' ''Div III'', entry 862 ''Diamond II'' ''Div IV'',
      entry 875 ''Diamond III'' ''Div I'', entry 879 ''Diamond III'' ''Div II'',
      entry 898 ''Diamond III'' ''Div III'', entry 917 ''Diamond III'' ''Div IV'',
      entry 921 ''Champion I'' ''Div I'', entry 935 ''Champion I'' ''Div II'',
      entry 948 ''Champion I'' ''Div III'', entry 962 ''Champion I'' ''Div IV'',
      entry 975 ''Champion II'' ''Div I'', entry 979 ''Champion II'' ''Div II'',
      entry 998 ''Champion II'' ''Div III'', entry 1017 ''Champion II'' ''Div IV'',
      entry 1035 ''Champion III'' ''Div I'', entry 1039 ''Champion III'' ''Div II'',
      entry 1058 ''Champion III'' ''Div III'', entry 1077 ''Champion III'' ''Div IV'',
      entry 1095 ''Grand Champion I'' ''Div I'', entry 1099 ''Grand Champion I'' ''Div II'',
      entry 1118 ''Grand Champion I'' ''Div III'', entry 1137 ''Grand Champion I'' ''Div IV'',
      entry 1147 ''Grand Champion II'' ''Div I'', entry 1160 ''Grand Champion II'' ''Div II'',
      entry 1178 ''Grand Champion II'' ''Div III'', entry 1197 ''Grand Champion II'' ''Div IV'',
      entry 1204 ''Grand Champion III'' ''Div I'', entry 1219 ''Grand Champion III'' ''Div II'',
      entry 1238 ''Grand Champion III'' ''Div III'', entry 1258 ''Grand Champion III'' ''Div IV'',
      entry 1267 ''Supersonic Legend'' '''']"

definition RumbleRankThresholds :: "Threshold list" where
  "RumbleRankThresholds =
     [entry (-100) ''Bronze I'' ''Div I'', entry 108 ''Bronze I'' ''Div II'',
      entry 129 ''Bronze I'' ''Div III'', entry 142 ''Bronze I'' ''Div IV'',
      entry 147 ''Bronze II'' ''Div I'', entry 161 ''Bronze II'' ''Div II'',
      entry 179 ''Bronze II'' ''Div III'', entry 197 ''Bronze II'' ''Div IV'',
      entry 207 ''Bronze III'' ''Div I'', entry 221 ''Bronze III'' ''Div II'',
      entry 238 ''Bronze III'' ''Div III'', entry 257 ''Bronze III'' ''Div IV'',
      entry 275 ''Silver I'' ''Div I'', entry 279 ''Silver I'' ''Div II'',
      entry 298 ''Silver I'' ''Div III'', entry 317 ''Silver I'' ''Div IV'',
      entry 335 ''Silver II'' ''Div I'', entry 339 ''Silver II'' ''Div II'',
      entry 358 ''Silver II'' ''Div III'', entry 377 ''Silver II'' ''Div IV'',
      entry 395 ''Silver III'' ''Div I'', entry 399 ''Silver III'' ''Div II'',
      entry 418 ''Silver III'' ''Div III'', entry 437 ''Silver III'' ''Div IV'',
      entry 455 ''Gold I'' ''Div I'', entry 459 ''Gold I'' ''Div II'',
      entry 478 ''Gold I'' ''Div III'', entry 497 ''Gold I'' ''Div IV'',
      entry 515 ''Gold II'' ''Div I'', entry 519 ''Gold II'' ''Div II'',
      entry 538 ''Gold II'' ''Div III'', entry 557 ''Gold II'' ''Div IV'',
      entry 575 ''Gold III'' ''Div I'', entry 579 ''Gold III'' ''Div II'',
      entry 598 ''Gold III'' ''Div III'', entry 618 ''Gold III'' ''Div IV'',
      entry 635 ''Platinum I'' ''Div I'', entry 639 ''Platinum I'' ''Div II'',
      entry 658 ''Platinum I'' ''Div III'', entry 678 ''Platinum I'' ''Div IV'',
      entry 695 ''Platinum II'' ''Div I'', entry 699 ''Platinum II'' ''Div II'',
      entry 718 ''Platinum II'' ''Div III'', entry 737 ''Platinum II'' ''Div IV'',
      entry 755 ''Platinum III'' ''Div I'', entry 759 ''Platinum III'' ''Div II'',
      entry 778 ''Platinum III'' ''Div III'', entry 797 ''Platinum III'' ''Div IV'',
      entry 815 ''Diamond I'' ''Div I'', entry 819 ''Diamond I'' ''Div II'',
      entry 838 ''Diamond I'' ''Div III'', entry 857 ''Diamond I'' ''Div IV'',
      entry 875 ''Diamond II'' ''Div I'', entry 879 ''Diamond II'' ''Div II'',
      entry 898 ''Diamond II'' ''Div III'', entry 917 ''Diamond II'' ''Div IV'',
      entry 935 ''Diamond III'' ''Div I'', entry 939 ''Diamond III'' ''Div II'',
      entry 958 ''Diamond III'' ''Div III'', entry 977 ''Diamond III'' ''Div IV'',
      entry 995 ''Champion I'' ''Div I'', entry 999 ''Champion I'' ''Div II'',
      entry 1018 ''Champion I'' ''Div III'', entry 1037 ''Champion I'' ''Div IV'',
      entry 1055 ''Champion II'' ''Div I'', entry 1059 ''Champion II'' ''Div II'',
      entry 1078 ''Champion II'' ''Div III'', entry 1097 ''Champion II'' ''Div IV'',
      entry 1115 ''Champion III'' ''Div I'', entry 1124 ''Champion III'' ''Div II'',
      entry 1148 ''Champion III'' ''Div III'', entry 1172 ''Champion III'' ''Div IV'',
      entry 1195 ''Grand Champion I'' ''Div I'', entry 1204 ''Grand Champion I'' ''Div II'',
      entry 1228 ''Grand Champion I'' ''Div III'', entry 1252 ''Grand Champion I'' ''Div IV'',
      entry 1274 ''Grand Champion II'' ''Div I'', entry 1287 ''Grand Champion II'' ''Div II'',
      entry 1308 ''Grand Champion II'' ''Div III'', entry 1332 ''Grand Champion II'' ''Div IV'',
      entry 1346 ''Grand Champion III'' ''Div I'', entry 1371 ''Grand Champion III'' ''Div II'',
      entry 1399 ''Grand Champion III'' ''Div III'', entry 1427 ''Grand Champion III'' ''Div IV'',
      entry 1446 ''Supersonic Legend'' '''']"

definition DropshotRankThresholds :: "Threshold list" where
  "DropshotRankThresholds =
     [entry (-100) ''Bronze I'' ''Div I'', entry 120 ''Bronze I'' ''Div II'',
      entry 138 ''Bronze I'' ''Div III'', entry 159 ''Bronze I'' ''Div IV'',
      entry 175 ''Bronze II'' ''Div I'', entry 180 ''Bronze II'' ''Div II'',
      entry 198 ''Bronze II'' ''Div III'', entry 219 ''Bronze II'' ''Div IV'',
      entry 235 ''Bronze III'' ''Div I'', entry 239 ''Bronze III'' ''Div II'',
      entry 258 ''Bronze III'' ''Div III'', entry 277 ''Bronze III'' ''Div IV'',
      entry 295 ''Silver I'' ''Div I'', entry 299 ''Silver I'' ''Div II'',
      entry 318 ''Silver I'' ''Div III'', entry 337 ''Silver I'' ''Div IV'',
      entry 341 ''Silver II'' ''Div I'', entry 355 ''Silver II'' ''Div II'',
      entry 368 ''Silver II'' ''Div III'', entry 382 ''Silver II'' ''Div IV'',
      entry 395 ''Silver III'' ''Div I'', entry 399 ''Silver III'' ''Div II'',
      entry 418 ''Silver III'' ''Div III'', entry 437 ''Silver III'' ''Div IV'',
      entry 442 ''Gold I'' ''Div I'', entry 455 ''Gold I'' ''Div II'',
      entry 468 ''Gold I'' ''Div III'', entry 482 ''Gold I'' ''Div IV'',
      entry 495 ''Gold II'' ''Div I'', entry 499 ''Gold II'' ''Div II'',
      entry 518 ''Gold II'' ''Div III'', entry 537 ''Gold II'' ''Div IV'',
      entry 542 ''Gold III'' ''Div I'', entry 555 ''Gold III'' ''Div II'',
      entry 568 ''Gold III'' ''Div III'', entry 582 ''Gold III'' ''Div IV'',
      entry 595 ''Platinum I'' ''Div I'', entry 599 ''Platinum I'' ''Div II'',
      entry 618 ''Platinum I'' ''Div III'', entry 637 ''Platinum I'' ''Div IV'',
      entry 642 ''Platinum II'' ''Div I'', entry 655 ''Platinum II'' ''Div II'',
      entry 668 ''Platinum II'' ''Div III'', entry 682 ''Platinum II'' ''Div IV'',
      entry 695 ''Platinum III'' ''Div I'', entry 699 ''Platinum III'' ''Div II'',
      entry 718 ''Platinum III'' ''Div III'', entry 737 ''Platinum III'' ''Div IV'',
      entry 742 ''Diamond I'' ''Div I'', entry 755 ''Diamond I'' ''Div II'',
      entry 768 ''Diamond I'' ''Div III'', entry 782 ''Diamond I'' ''Div IV'',
      entry 795 ''Diamond II'' ''Div I'', entry 799 ''Diamond II'' ''Div II'',
      entry 818 ''Diamond II'' ''Div III'', entry 837 ''Diamond II'' ''Div IV'',
      entry 841 ''Diamond III'' ''Div I'', entry 855 ''Diamond III'' ''Div II'',
      entry 868 ''Diamond III'' ''Div III'', entry 882 ''Diamond III'' ''Div IV'',
      entry 895 ''Champion I'' ''Div I'', entry 899 ''Champion I'' ''Div II'',
      entry 918 ''Champion I'' ''Div III'', entry 937 ''Champion I'' ''Div IV'',
      entry 942 ''Champion II'' ''Div I'', entry 955 ''Champion II'' ''Div II'',
      entry 968 ''Champion II'' ''Div III'', entry 982 ''Champion II'' ''Div IV'',
      entry 995 ''Champion III'' ''Div I'', entry 999 ''Champion III'' ''Div II'',
      entry 1018 ''Champion III'' ''Div III'', entry 1037 ''Champion III'' ''Div IV'',
      entry 1055 ''Grand Champion I'' ''Div I'', entry 1059 ''Grand Champion I'' ''Div II'',
      entry 1078 ''Grand Champion I'' ''Div III'', entry 1097 ''Grand Champion I'' ''Div IV'',
      entry 1106 ''Grand Champion II'' ''Div I'', entry 1120 ''Grand Champion II'' ''Div II'',
      entry 1138 ''Grand Champion II'' ''Div III'', entry 1157 ''Grand Champion II'' ''Div IV'',
      entry 1168 ''Grand Champion III'' ''Div I'', entry 1180 ''Grand Champion III'' ''Div II'',
      entry 1198 ''Grand Champion III'' ''Div III'', entry 1217 ''Grand Champion III'' ''Div IV'',
      entry 1227 ''Supersonic Legend'' '''']"

definition SnowdayRankThresholds :: "Threshold list" where
  "SnowdayRankThresholds =
     [entry (-100) ''Bronze I'' ''Div I'', entry 135 ''Bronze I'' ''Div II'',
      entry 158 ''Bronze I'' ''Div III'', entry 198 ''Bronze I'' ''Div IV'',
      entry 211 ''Bronze II'' ''Div I'', entry 224 ''Bronze II'' ''Div II'',
      entry 243 ''Bronze II'' ''Div III'', entry 260 ''Bronze II'' ''Div IV'',
      entry 275 ''Bronze III'' ''Div I'', entry 280 ''Bronze III'' ''Div II'',
      entry 298 ''Bronze III'' ''Div III'', entry 317 ''Bronze III'' ''Div IV'',
      entry 321 ''Silver I'' ''Div I'', entry 336 ''Silver I'' ''Div II'',
      entry 348 ''Silver I'' ''Div III'', entry 362 ''Silver I'' ''Div IV'',
      entry 375 ''Silver II'' ''Div I'', entry 379 ''Silver II'' ''Div II'',
      entry 398 ''Silver II'' ''Div III'', entry 418 ''Silver II'' ''Div IV'',
      entry 421 ''Silver III'' ''Div I'', entry 435 ''Silver III'' ''Div II'',
      entry 448 ''Silver III'' ''Div III'', entry 462 ''Silver III'' ''Div IV'',
      entry 475 ''Gold I'' ''Div I'', entry 479 ''Gold I'' ''Div II'',
      entry 498 ''Gold I'' ''Div III'', entry 517 ''Gold I'' ''Div IV'',
      entry 521 ''Gold II'' ''Div I'', entry 536 ''Gold II'' ''Div II'',
      entry 548 ''Gold II'' ''Div III'', entry 563 ''Gold II'' ''Div IV'',
      entry 575 ''Gold III'' ''Div I'', entry 579 ''Gold III'' ''Div II'',
      entry 598 ''Gold III'' ''Div III'', entry 618 ''Gold III'' ''Div IV'',
      entry 621 ''Platinum I'' ''Div I'', entry 635 ''Platinum I'' ''Div II'',
      entry 648 ''Platinum I'' ''Div III'', entry 662 ''Platinum I'' ''Div IV'',
      entry 675 ''Platinum II'' ''Div I'', entry 679 ''Platinum II'' ''Div II'',
      entry 698 ''Platinum II'' ''Div III'', entry 717 ''Platinum II'' ''Div IV'',
      entry 721 ''Platinum III'' ''Div I'', entry 735 ''Platinum III'' ''Div II'',
      entry 748 ''Platinum III'' ''Div III'', entry 763 ''Platinum III'' ''Div IV'',
      entry 775 ''Diamond I'' ''Div I'', entry 779 ''Diamond I'' ''Div II'',
      entry 798 ''Diamond I'' ''Div III'', entry 817 ''Diamond I'' ''Div IV'',
      entry 822 ''Diamond II'' ''Div I'', entry 835 ''Diamond II'' ''Div II'',
      entry 848 ''Diamond II'' ''Div III'', entry 862 ''Diamond II'' ''Div IV'',
      entry 875 ''Diamond III'' ''Div I'', entry 879 ''Diamond III'' ''Div II'',
      entry 898 ''Diamond III'' ''Div III'', entry 917 ''Diamond III'' ''Div IV'',
      entry 921 ''Champion I'' ''Div I'', entry 935 ''Champion I'' ''Div II'',
      entry 948 ''Champion I'' ''Div III'', entry 962 ''Champion I'' ''Div IV'',
      entry 975 ''Champion II'' ''Div I'', entry 979 ''Champion II'' ''Div II'',
      entry 998 ''Champion II'' ''Div III'', entry 1017 ''Champion II'' ''Div IV'',
      entry 1035 ''Champion III'' ''Div I'', entry 1039 ''Champion III'' ''Div II'',
      entry 1058 ''Champion III'' ''Div III'', entry 1077 ''Champion III'' ''Div IV'',
      entry 1095 ''Grand Champion I'' ''Div I'', entry 1099 ''Grand Champion I'' ''Div II'',
      entry 1118 ''Grand Champion I'' ''Div III'', entry 1137 ''Grand Champion I'' ''Div IV'',
      entry 1147 ''Grand Champion II'' ''Div I'', entry 1160 ''Grand Champion II'' ''Div II'',
      entry 1178 ''Grand Champion II'' ''Div III'', entry 1197 ''Grand Champion II'' ''Div IV'',
      entry 1200 ''Grand Champion III'' ''Div I'', entry 1219 ''Grand Champion III'' ''Div II'',
      entry 1238 ''Grand Champion III'' ''Div III'', entry 1257 ''Grand Champion III'' ''Div IV'',
      entry 1263 ''Supersonic Legend'' '''']"

definition HeatseekerRankThresholds :: "Threshold list" where
  "HeatseekerRankThresholds =
     [entry (-100) ''Bronze I'' ''Div I'', entry 119 ''Bronze I'' ''Div II'',
      entry 138 ''Bronze I'' ''Div III'', entry 157 ''Bronze I'' ''Div IV'',
      entry 175 ''Bronze II'' ''Div I'', entry 179 ''Bronze II'' ''Div II'',
      entry 198 ''Bronze II'' ''Div III'', entry 217 ''Bronze II'' ''Div IV'',
      entry 235 ''Bronze III'' ''Div I'', entry 239 ''Bronze III'' ''Div II'',
      entry 258 ''Bronze III'' ''Div III'', entry 277 ''Bronze III'' ''Div IV'',
      entry 295 ''Silver I'' ''Div I'', entry 299 ''Silver I'' ''Div II'',
      entry 318 ''Silver I'' ''Div III'', entry 337 ''Silver I'' ''Div IV'',
      entry 355 ''Silver II'' ''Div I'', entry 359 ''Silver II'' ''Div II'',
      entry 378 ''Silver II'' ''Div III'', entry 397 ''Silver II'' ''Div IV'',
      entry 401 ''Silver III'' ''Div I'', entry 415 ''Silver III'' ''Div II'',
      entry 428 ''Silver III'' ''Div III'', entry 442 ''Silver III'' ''Div IV'',
      entry 455 ''Gold I'' ''Div I'', entry 459 ''Gold I'' ''Div II'',
      entry 478 ''Gold I'' ''Div III'', entry 497 ''Gold I'' ''Div IV'',
      entry 515 ''Gold II'' ''Div I'', entry 519 ''Gold II'' ''Div II'',
      entry 538 ''Gold II'' ''Div III'', entry 557 ''Gold II'' ''Div IV'',
      entry 575 ''Gold III'' ''Div I'', entry 579 ''Gold III'' ''Div II'',
      entry 598 ''Gold III'' ''Div III'', entry 617 ''Gold III'' ''Div IV'',
      entry 621 ''Platinum I'' ''Div I'', entry 635 ''Platinum I'' ''Div II'',
      entry 648 ''Platinum I'' ''Div III'', entry 662 ''Platinum I'' ''Div IV'',
      entry 675 ''Platinum II'' ''Div I'', entry 679 ''Platinum II'' ''Div II'',
      entry 698 ''Platinum II'' ''Div III'', entry 717 ''Platinum II'' ''Div IV'',
      entry 735 ''Platinum III'' ''Div I'', entry 739 ''Platinum III'' ''Div II'',
      entry 758 ''Platinum III'' ''Div III'', entry 777 ''Platinum III'' ''Div IV'',
      entry 795 ''Diamond I'' ''Div I'', entry 799 ''Diamond I'' ''Div II'',
      entry 818 ''Diamond I'' ''Div III'', entry 837 ''Diamond I'' ''Div IV'',
      entry 855 ''Diamond II'' ''Div I'', entry 859 ''Diamond II'' ''Div II'',
      entry 878 ''Diamond II'' ''Div III'', entry 897 ''Diamond II'' ''Div IV'',
      entry 901 ''Diamond III'' ''Div I'', entry 915 ''Diamond III'' ''Div II'',
      entry 928 ''Diamond III'' ''Div III'', entry 942 ''Diamond III'' ''Div IV'',
      entry 955 ''Champion I'' ''Div I'', entry 959 ''Champion I'' ''Div II'',
      entry 978 ''Champion I'' ''Div III'', entry 997 ''Champion I'' ''Div IV'',
      entry 1012 ''Champion II'' ''Div I'', entry 1019 ''Champion II'' ''Div II'',
      entry 1038 ''Champion II'' ''Div III'', entry 1057 ''Champion II'' ''Div IV'',
      entry 1068 ''Champion III'' ''Div I'', entry 1079 ''Champion III'' ''Div II'',
      entry 1098 ''Champion III'' ''Div III'', entry 1117 ''Champion III'' ''Div IV'',
      entry 1133 ''Grand Champion I'' ''Div I'', entry 1139 ''Grand Champion I'' ''Div II'',
      entry 1160 ''Grand Champion I'' ''Div III'', entry 1177 ''Grand Champion I'' ''Div IV'',
      entry 1185 ''Grand Champion II'' ''Div I'', entry 1199 ''Grand Champion II'' ''Div II'',
      entry 1218 ''Grand Champion II'' ''Div III'', entry 1237 ''Grand Champion II'' ''Div IV'',
      entry 1246 ''Grand Champion III'' ''Div I'', entry 1260 ''Grand Champion III'' ''Div II'',
      entry 1278 ''Grand Champion III'' ''Div III'', entry 1296 ''Grand Champion III'' ''Div IV'',
      entry 1303 ''Supersonic Legend'' '''']"

lemmas rank_tables =
  TournamentRankThresholds_def SoloDuelRankThresholds_def DoublesRankThresholds_def StandardRankThresholds_def HoopsRankThresholds_def
  RumbleRankThresholds_def DropshotRankThresholds_def SnowdayRankThresholds_def HeatseekerRankThresholds_def

section \<open>Lookups\<close>

definition RankThresholdsForPlaylist :: "string \<Rightarrow> Threshold list" where
  "RankThresholdsForPlaylist playlist =
     (if playlist = ''1v1'' then SoloDuelRankThresholds
      else if playlist = ''2v2'' then DoublesRankThresholds
      else if playlist = ''3v3'' then StandardRankThresholds
      else if playlist = ''hoops'' then HoopsRankThresholds
      else if playlist = ''rumble'' then RumbleRankThresholds
      else if playlist = ''dropshot'' then DropshotRankThresholds
      else if playlist = ''snowday'' then SnowdayRankThresholds
      else if playlist = ''heatseeker'' then HeatseekerRankThresholds
      else if playlist = ''t'' then TournamentRankThresholds
      else [])"

text \<open>The loop over the entries, with the entry it has passed last.\<close>

fun last_reached :: "int \<Rightarrow> Threshold list \<Rightarrow> Threshold option \<Rightarrow> Threshold option" where
  "last_reached mmr [] threshold = threshold"
| "last_reached mmr (t # ts) threshold =
     (if mmr < th_minMmr t then threshold else last_reached mmr ts (Some t))"

definition LookupTierFromThresholds :: "Threshold list \<Rightarrow> int \<Rightarrow> string" where
  "LookupTierFromThresholds table mmr =
     (if mmr \<le> 0 then ''Unranked''
      else case last_reached mmr table None of
             None \<Rightarrow> ''Unranked''
           | Some t \<Rightarrow>
               if the (th_division t) = [] then the (th_tier t)
               else the (th_tier t) @ '' '' @ the (th_division t))"

definition GetTournamentTierForMmr :: "int \<Rightarrow> string" where
  "GetTournamentTierForMmr mmr =
     (if mmr \<le> 0 then ''Unranked'' else LookupTierFromThresholds TournamentRankThresholds mmr)"

definition GetRankTierForPlaylistMmr :: "string \<Rightarrow> int \<Rightarrow> string" where
  "GetRankTierForPlaylistMmr playlist mmr =
     (if mmr \<le> 0 \<or> playlist = ''casual'' then ''Unranked''
      else
        let table = RankThresholdsForPlaylist playlist
        in if table = [] then GetTournamentTierForMmr mmr else LookupTierFromThresholds table mmr)"

definition kTiers :: "string list" where
  "kTiers =
     [''Unranked'', ''Bronze I'', ''Bronze II'', ''Bronze III'',
      ''Silver I'', ''Silver II'', ''Silver III'',
      ''Gold I'', ''Gold II'', ''Gold III'',
      ''Platinum I'', ''Platinum II'', ''Platinum III'',
      ''Diamond I'', ''Diamond II'', ''Diamond III'',
      ''Champion I'', ''Champion II'', ''Champion III'',
      ''Grand Champion I'', ''Grand Champion II'', ''Grand Champion III'',
      ''Supersonic Legend'']"

definition kDivisions :: "string list" where
  "kDivisions = [''I'', ''II'', ''III'', ''IV'']"

definition RankTierName :: "int \<Rightarrow> int \<Rightarrow> string" where
  "RankTierName tier division =
     (if tier < 0 \<or> int (length kTiers) \<le> tier then ''Unranked''
      else
        let result = kTiers ! nat tier
        in if 0 < tier \<and> tier < 22 \<and> 0 \<le> division \<and> division < 4
           then result @ '' Div '' @ (kDivisions ! nat division) else result)"

section \<open>The tables are tables\<close>

definition rank_name :: "string \<Rightarrow> string \<Rightarrow> string" where
  "rank_name tier division = (if division = [] then tier else tier @ '' '' @ division)"

definition rank_names :: "string list" where
  "rank_names =
     [rank_name ''Bronze I'' ''Div I'', rank_name ''Bronze I'' ''Div II'',
      rank_name ''Bronze I'' ''Div III'', rank_name ''Bronze I'' ''Div IV'',
      rank_name ''Bronze II'' ''Div I'', rank_name ''Bronze II'' ''Div II'',
      rank_name ''Bronze II'' ''Div III'', rank_name ''Bronze II'' ''Div IV'',
      rank_name ''Bronze III'' ''Div I'', rank_name ''Bronze III'' ''Div II'',
      rank_name ''Bronze III'' ''Div III'', rank_name ''Bronze III'' ''Div IV'',
      rank_name ''Silver I'' ''Div I'', rank_name ''Silver I'' ''Div II'',
      rank_name ''Silver I'' ''Div III'', rank_name ''Silver I'' ''Div IV'',
      rank_name ''Silver II'' ''Div I'', rank_name ''Silver II'' ''Div II'',
      rank_name ''Silver II'' ''Div III'', rank_name ''Silver II'' ''Div IV'',
      rank_name ''Silver III'' ''Div I'', rank_name ''Silver III'' ''Div II'',
      rank_name ''Silver III'' ''Div III'', rank_name ''Silver III'' ''Div IV'',
      rank_name ''Gold I'' ''Div I'', rank_name ''Gold I'' ''Div II'',
      rank_name ''Gold I'' ''Div III'', rank_name ''Gold I'' ''Div IV'',
      rank_name ''Gold II'' ''Div I'', rank_name ''Gold II'' ''Div II'',
      rank_name ''Gold II'' ''Div III'', rank_name ''Gold II'' ''Div IV'',
      rank_name ''Gold III'' ''Div I'', rank_name ''Gold III'' ''Div II'',
      rank_name ''Gold III'' ''Div III'', rank_name ''Gold III'' ''Div IV'',
      rank_name ''Platinum I'' ''Div I'', rank_name ''Platinum I'' ''Div II'',
      rank_name ''Platinum I'' ''Div III'', rank_name ''Platinum I'' ''Div IV'',
      rank_name ''Platinum II'' ''Div I'', rank_name ''Platinum II'' ''Div II'',
      rank_name ''Platinum II'' ''Div III'', rank_name ''Platinum II'' ''Div IV'',
      rank_name ''Platinum III'' ''Div I'', rank_name ''Platinum III'' ''Div II'',
      rank_name ''Platinum III'' ''Div III'', rank_name ''Platinum III'' ''Div IV'',
      rank_name ''Diamond I'' ''Div I'', rank_name ''Diamond I'' ''Div II'',
      rank_name ''Diamond I'' ''Div III'', rank_name ''Diamond I'' ''Div IV'',
      rank_name ''Diamond II'' ''Div I'', rank_name ''Diamond II'' ''Div II'',
      rank_name ''Diamond II'' ''Div III'', rank_name ''Diamond II'' ''Div IV'',
      rank_name ''Diamond III'' ''Div I'', rank_name ''Diamond III'' ''Div II'',
      rank_name ''Diamond III'' ''Div III'', rank_name ''Diamond III'' ''Div IV'',
      rank_name ''Champion I'' ''Div I'', rank_name ''Champion I'' ''Div II'',
      rank_name ''Champion I'' ''Div III'', rank_name ''Champion I'' ''Div IV'',
      rank_name ''Champion II'' ''Div I'', rank_name ''Champion II'' ''Div II'',
      rank_name ''Champion II'' ''Div III'', rank_name ''Champion II'' ''Div IV'',
      rank_name ''Champion III'' ''Div I'', rank_name ''Champion III'' ''Div II'',
      rank_name ''Champion III'' ''Div III'', rank_name ''Champion III'' ''Div IV'',
      rank_name ''Grand Champion I'' ''Div I'', rank_name ''Grand Champion I'' ''Div II'',
      rank_name ''Grand Champion I'' ''Div III'', rank_name ''Grand Champion I'' ''Div IV'',
      rank_name ''Grand Champion II'' ''Div I'', rank_name ''Grand Champion II'' ''Div II'',
      rank_name ''Grand Champion II'' ''Div III'', rank_name ''Grand Champion II'' ''Div IV'',
      rank_name ''Grand Champion III'' ''Div I'', rank_name ''Grand Champion III'' ''Div II'',
      rank_name ''Grand Champion III'' ''Div III'', rank_name ''Grand Champion III'' ''Div IV'',
      rank_name ''Supersonic Legend'' '''']"

definition full :: "Threshold \<Rightarrow> bool" where
  "full t = (th_tier t \<noteq> None \<and> th_division t \<noteq> None)"

text \<open>
  A table of ranks: ratings that increase from one below every player's, every entry with its names,
  and the names the same in every table.
\<close>

definition rank_table :: "Threshold list \<Rightarrow> bool" where
  "rank_table table =
     (table_ok table \<and> th_minMmr (hd table) \<le> 0 \<and> list_all full table \<and> map Label table = rank_names)"

lemma rank_table_successively:
  "rank_table table =
     (table \<noteq> [] \<and> successively (<) (map th_minMmr table) \<and>
      list_all (\<lambda>m. - (2 ^ 24) \<le> m \<and> m \<le> 2 ^ 24) (map th_minMmr table) \<and>
      th_minMmr (hd table) \<le> 0 \<and> list_all full table \<and> map Label table = rank_names)"
  by (simp add: rank_table_def table_ok_def successively_conv_sorted_wrt list_all_iff)

lemma map_entry:
  "map th_minMmr (entry m t d # es) = m # map th_minMmr es"
  "map Label (entry m t d # es) = rank_name t d # map Label es"
  "th_minMmr (entry m t d) = m" "full (entry m t d)"
  by (simp_all add: entry_def Label_def no_division_def rank_name_def full_def)

lemma TournamentRankThresholds_ok: "rank_table TournamentRankThresholds"
  by (simp add: rank_table_successively rank_names_def TournamentRankThresholds_def map_entry del: list.map(2))

lemma SoloDuelRankThresholds_ok: "rank_table SoloDuelRankThresholds"
  by (simp add: rank_table_successively rank_names_def SoloDuelRankThresholds_def map_entry del: list.map(2))

lemma DoublesRankThresholds_ok: "rank_table DoublesRankThresholds"
  by (simp add: rank_table_successively rank_names_def DoublesRankThresholds_def map_entry del: list.map(2))

lemma StandardRankThresholds_ok: "rank_table StandardRankThresholds"
  by (simp add: rank_table_successively rank_names_def StandardRankThresholds_def map_entry del: list.map(2))

lemma HoopsRankThresholds_ok: "rank_table HoopsRankThresholds"
  by (simp add: rank_table_successively rank_names_def HoopsRankThresholds_def map_entry del: list.map(2))

lemma RumbleRankThresholds_ok: "rank_table RumbleRankThresholds"
  by (simp add: rank_table_successively rank_names_def RumbleRankThresholds_def map_entry del: list.map(2))

lemma DropshotRankThresholds_ok: "rank_table DropshotRankThresholds"
  by (simp add: rank_table_successively rank_names_def DropshotRankThresholds_def map_entry del: list.map(2))

lemma SnowdayRankThresholds_ok: "rank_table SnowdayRankThresholds"
  by (simp add: rank_table_successively rank_names_def SnowdayRankThresholds_def map_entry del: list.map(2))

lemma HeatseekerRankThresholds_ok: "rank_table HeatseekerRankThresholds"
  by (simp add: rank_table_successively rank_names_def HeatseekerRankThresholds_def map_entry del: list.map(2))

lemma RankThresholds_ok:
  "RankThresholdsForPlaylist playlist \<noteq> [] \<Longrightarrow> rank_table (RankThresholdsForPlaylist playlist)"
  by (simp add: RankThresholdsForPlaylist_def TournamentRankThresholds_ok SoloDuelRankThresholds_ok
      DoublesRankThresholds_ok StandardRankThresholds_ok HoopsRankThresholds_ok RumbleRankThresholds_ok
      DropshotRankThresholds_ok SnowdayRankThresholds_ok HeatseekerRankThresholds_ok split: if_splits)

lemma last_reached_index:
  assumes "\<forall>t \<in> set ts. - (2 ^ 24) \<le> th_minMmr t \<and> th_minMmr t \<le> 2 ^ 24" "0 \<le> mmr" "mmr \<le> 2 ^ 24"
  shows "last_reached mmr ts threshold =
    (if ts = [] \<or> mmr < th_minMmr (hd ts) then threshold
     else Some (ts ! (table_index ts i j (f32_of_int mmr) - i))) \<and>
    (ts \<noteq> [] \<and> th_minMmr (hd ts) \<le> mmr \<longrightarrow> i \<le> table_index ts i j (f32_of_int mmr))"
  using assms
proof (induction ts arbitrary: i j threshold)
  case (Cons t ts)
  have exact: "(f32_of_int mmr < f32_of_int (th_minMmr t)) = (mmr < th_minMmr t)"
    using Cons.prems by (auto simp: f32_of_int_exact abs_le_iff)
  show ?case
  proof (cases "mmr < th_minMmr t")
    case True
    then show ?thesis by simp
  next
    case False
    show ?thesis
    proof (cases "ts = [] \<or> mmr < th_minMmr (hd ts)")
      case True
      then have "table_index ts (Suc i) i (f32_of_int mmr) = i"
        using Cons.prems by (cases ts) (auto simp: f32_of_int_exact abs_le_iff)
      then show ?thesis using Cons.IH[of "Some t" "Suc i" i] Cons.prems True False exact by simp
    next
      case more: False
      then have "last_reached mmr ts (Some t) = Some (ts ! (table_index ts (Suc i) i (f32_of_int mmr) - Suc i))"
        "Suc i \<le> table_index ts (Suc i) i (f32_of_int mmr)"
        using Cons.IH[of "Some t" "Suc i" i] Cons.prems by auto
      then show ?thesis using exact False by (simp add: nth_Cons' Suc_le_eq)
    qed
  qed
qed simp

lemma lookup_is_Label:
  assumes "rank_table table" "0 < mmr" "mmr \<le> 2 ^ 24"
  shows "LookupTierFromThresholds table mmr = Label (table ! TableIndex table (f32_of_int mmr))"
proof -
  let ?k = "TableIndex table (f32_of_int mmr)"
  have ok: "table_ok table" "table \<noteq> []" "\<not> mmr < th_minMmr (hd table)" "list_all full table"
    using assms by (auto simp: rank_table_def table_ok_def)
  then have "last_reached mmr table None = Some (table ! ?k)"
    using last_reached_index[of table mmr None 0 0] assms(2,3) by (simp add: TableIndex_def table_ok_def)
  moreover have "?k < length table" using TableIndex_correct[OF ok(1)] assms(2,3) by simp
  then have "full (table ! ?k)" using ok(4) by (simp add: list_all_length)
  ultimately show ?thesis
    using assms(2) by (auto simp: LookupTierFromThresholds_def Label_def no_division_def full_def)
qed

lemma rank_names_by_number:
  "rank_names = concat (map (\<lambda>tier. map (RankTierName tier) [0..3]) [1..21]) @ [RankTierName 22 (-1)]"
  by code_simp

section \<open>Properties\<close>

text \<open>
  Every playlist with a table ranks a rating the same way in the two places that do it: the name
  looked up for the lists of players is the rank that the progress view computes without a reported
  division, and the rating lies in that division.
\<close>

theorem rank_lookups_agree:
  assumes "RankThresholdsForPlaylist playlist \<noteq> []" "0 < mmr" "mmr \<le> 2 ^ 24" "playlist \<noteq> ''casual''"
  shows "let p = Compute (RankThresholdsForPlaylist playlist) mmr []
    in GetRankTierForPlaylistMmr playlist mmr = pg_rank p \<and> pg_status p = Ranked \<and>
       0 \<le> pg_aboveFloor p \<and> (pg_next p \<noteq> None \<longrightarrow> 0 < pg_toNext p)"
proof -
  let ?table = "RankThresholdsForPlaylist playlist"
  have ok: "rank_table ?table" by (rule RankThresholds_ok[OF assms(1)])
  have none: "Trim [] = []" "\<not> starts_with [] ''Unranked''" by (simp_all add: Trim_def starts_with_def)
  have compute: "Compute ?table mmr [] = progress_at ?table mmr (TableIndex ?table (f32_of_int mmr))"
    using assms none by (simp add: Compute_def Let_def)
  have index: "0 < TableIndex ?table (f32_of_int mmr) \<longrightarrow>
      th_minMmr (?table ! TableIndex ?table (f32_of_int mmr)) \<le> mmr"
    "TableIndex ?table (f32_of_int mmr) + 1 < length ?table \<longrightarrow>
      mmr < th_minMmr (?table ! (TableIndex ?table (f32_of_int mmr) + 1))"
    using TableIndex_correct[of ?table mmr] ok assms(2,3) by (auto simp: rank_table_def)
  have "GetRankTierForPlaylistMmr playlist mmr = LookupTierFromThresholds ?table mmr"
    using assms by (simp add: GetRankTierForPlaylistMmr_def Let_def)
  then show ?thesis
    using index lookup_is_Label[OF ok assms(2,3)] by (auto simp: compute progress_at_fields Let_def)
qed

theorem rank_lookups_agree_witness:
  "GetRankTierForPlaylistMmr ''2v2'' 1000 = pg_rank (Compute (RankThresholdsForPlaylist ''2v2'') 1000 [])"
  using rank_lookups_agree[of "''2v2''" 1000]
  by (simp add: Let_def RankThresholdsForPlaylist_def DoublesRankThresholds_def)

text \<open>
  The rank names the rating API's tier and division numbers stand for are the names of the
  divisions in every playlist's table, in the order of the ratings, so a rank reported by number is
  found in the table.
\<close>

theorem reported_ranks_are_in_tables:
  assumes "RankThresholdsForPlaylist playlist \<noteq> []"
  shows "sorted_wrt (<) (map th_minMmr (RankThresholdsForPlaylist playlist)) \<and>
    map Label (RankThresholdsForPlaylist playlist) =
      concat (map (\<lambda>tier. map (RankTierName tier) [0..3]) [1..21]) @ [RankTierName 22 (-1)]"
  using RankThresholds_ok[OF assms] by (simp add: rank_table_def table_ok_def rank_names_by_number)

theorem reported_ranks_are_in_tables_witness:
  "Label (last (RankThresholdsForPlaylist ''hoops'')) = RankTierName 22 (-1)"
proof -
  have some: "RankThresholdsForPlaylist ''hoops'' \<noteq> []"
    by (simp add: RankThresholdsForPlaylist_def HoopsRankThresholds_def)
  show ?thesis using arg_cong[OF conjunct2[OF reported_ranks_are_in_tables[OF some]], of last] some
    by (simp add: last_map)
qed

end
