(* ===== verification/Rating_Detail.thy ===== *)
theory Rating_Detail
  imports Rating_Queue Rank_Tables Json_Events Game_Modes
begin

text \<open>
  The rating API's requests and responses (\<open>network/mmr/MmrServiceDetail.cpp\<close>): the accounts asked
  for, the batches, the profiles read from a response, and the estimates that spread a confirmed
  rating over the matches played before it. Ratings stay far from the bounds of \<open>int\<close>.
\<close>

record CustomApiPlayerTarget =
  tg_platform :: string
  tg_accountId :: string

datatype BatchPlayerStatus = Success | NotFound | Error | UnusableData

record BatchPlayerResult =
  br_request :: MMRRequest
  br_status :: BatchPlayerStatus
  br_profile :: NormalizedProfileResult
  br_errorCode :: string
  br_errorMessage :: string

definition CaseInsensitiveEquals :: "string \<Rightarrow> string \<Rightarrow> bool" where
  "CaseInsensitiveEquals a b = (length a = length b \<and> list_all2 (\<lambda>c d. to_lower c = to_lower d) a b)"

definition ShouldReplacePlaylistBucket :: "(string, int) umap \<Rightarrow> string \<Rightarrow> int \<Rightarrow> bool" where
  "ShouldReplacePlaylistBucket playlistMMRs playlistName mmr =
     (case map_of playlistMMRs playlistName of None \<Rightarrow> True | Some old \<Rightarrow> old < mmr)"

section \<open>Paths of ratings\<close>

fun preserves :: "int \<Rightarrow> int list \<Rightarrow> bool list \<Rightarrow> bool" where
  "preserves previous (current # path) (won # results) =
     (0 < current \<and> (if won then previous < current else current < previous) \<and>
      preserves current path results)"
| "preserves previous _ _ = True"

definition MmrPathPreservesResults :: "int \<Rightarrow> int list \<Rightarrow> bool list \<Rightarrow> bool" where
  "MmrPathPreservesResults initialMmr path results =
     (0 < initialMmr \<and> length path = length results \<and> preserves initialMmr path results)"

text \<open>The steps of the path, \<open>None\<close> where it would reach zero.\<close>

fun directional_steps :: "fp \<Rightarrow> fp \<Rightarrow> int \<Rightarrow> fp \<Rightarrow> bool list \<Rightarrow> int list option" where
  "directional_steps winStep lossStep finalMmr current [] = Some []"
| "directional_steps winStep lossStep finalMmr current (won # results) =
     (let current = (if won then fadd64 current winStep else fp_sub f64 current lossStep)
      in if current \<le> Fin 0 then None
         else map_option ((#) (if results = [] then finalMmr else to_int32 (lround current)))
                (directional_steps winStep lossStep finalMmr current results))"

definition BuildDirectionalMmrPath :: "int \<Rightarrow> int \<Rightarrow> bool list \<Rightarrow> int list" where
  "BuildDirectionalMmrPath initialMmr finalMmr results =
     (if results = [] \<or> initialMmr \<le> 0 \<or> finalMmr \<le> 0 then []
      else
        let wins = length (filter (\<lambda>won. won) results);
            losses = length (filter Not results);
            totalDelta = finalMmr - initialMmr
        in if totalDelta > 0 \<and> wins = 0 then []
           else if totalDelta < 0 \<and> losses = 0 then []
           else if totalDelta = 0 \<and> (wins = 0 \<or> losses = 0) \<and> (wins > 0 \<or> losses > 0) then []
           else
             let nine = Fin 9;
                 delta = f64_of_int totalDelta;
                 w = f64_of_int (int wins);
                 l = f64_of_int (int losses);
                 (winStep, lossStep) =
                   (if totalDelta > 0 then (fdiv64 (fadd64 delta (fmul64 nine l)) w, nine)
                    else if totalDelta < 0
                    then (nine, fdiv64 (fp_sub f64 (fmul64 nine w) delta) l)
                    else if wins > 0 \<and> losses > 0 then (nine, fdiv64 (fmul64 nine w) l)
                    else (nine, nine))
             in case directional_steps winStep lossStep finalMmr (f64_of_int initialMmr) results of
                  None \<Rightarrow> []
                | Some path \<Rightarrow> if MmrPathPreservesResults initialMmr path results then path else [])"

text \<open>The error spread evenly: position \<open>i\<close> of \<open>n\<close> gets its rounded share.\<close>

definition correction :: "int \<Rightarrow> nat \<Rightarrow> nat \<Rightarrow> int" where
  "correction error n i =
     to_int32 (lround (fdiv64 (fmul64 (f64_of_int error) (f64_of_int (int i + 1))) (f64_of_int (int n))))"

definition ReconcileEstimatedPath :: "int \<Rightarrow> int \<Rightarrow> int list \<Rightarrow> bool list \<Rightarrow> int list" where
  "ReconcileEstimatedPath initialMmr finalMmr estimatedPath results =
     (if estimatedPath = [] \<or> length estimatedPath \<noteq> length results \<or> initialMmr \<le> 0 \<or> finalMmr \<le> 0
      then []
      else
        let path = butlast estimatedPath @ [finalMmr]
        in if MmrPathPreservesResults initialMmr path results then path
           else
             let error = finalMmr - last estimatedPath;
                 n = length path;
                 moved = map (\<lambda>i. estimatedPath ! i + correction error n i) [0..<n];
                 path = butlast moved @ [finalMmr]
             in if MmrPathPreservesResults initialMmr path results then path
                else BuildDirectionalMmrPath initialMmr finalMmr results)"

section \<open>Requests\<close>

definition blank :: "char \<Rightarrow> bool" where
  "blank c = (c \<in> {CHR '' '', CHR 0x09, CHR 0x0D, CHR 0x0A})"

definition strip :: "string \<Rightarrow> string" where
  "strip s = rev (dropWhile blank (rev (dropWhile blank s)))"

definition platform_of :: "string \<Rightarrow> string option" where
  "platform_of platLower =
     (if platLower \<in> {''epic'', ''epicgames''} then Some ''Epic''
      else if platLower = ''steam'' then Some ''Steam''
      else if platLower \<in> {''ps4'', ''ps5'', ''psn'', ''playstation''} then Some ''PS4''
      else if platLower \<in> {''xbox'', ''xboxone'', ''xbl''} then Some ''Xbox''
      else if platLower \<in> {''switch'', ''nintendo''} then Some ''Switch''
      else None)"

definition not_bar :: "char \<Rightarrow> bool" where
  "not_bar c = (c \<noteq> CHR ''|'')"

definition TryParseCustomApiTarget :: "string \<Rightarrow> CustomApiPlayerTarget option" where
  "TryParseCustomApiTarget primaryId =
     (if CHR ''|'' \<notin> set primaryId then None
      else
        let platLower = map to_lower (strip (takeWhile not_bar primaryId))
        in case platform_of platLower of
             None \<Rightarrow> None
           | Some platform \<Rightarrow>
               let accountId = strip (takeWhile not_bar (tl (dropWhile not_bar primaryId)))
               in if accountId = [] then None
                  else Some \<lparr>tg_platform = platform, tg_accountId = accountId\<rparr>)"

text \<open>The loop over the candidates, with what the batch holds so far.\<close>

fun assemble :: "MMRRequestReason \<Rightarrow> int \<Rightarrow> nat \<Rightarrow> MMRRequest list \<Rightarrow> bool \<Rightarrow> AssembledBatch \<Rightarrow> AssembledBatch" where
  "assemble reason now maxBatchSize [] foundFirst batch = batch"
| "assemble reason now maxBatchSize (req # reqs) foundFirst batch =
     (if rq_reason req \<noteq> reason \<or> now < rq_notBefore req
      then assemble reason now maxBatchSize reqs foundFirst batch
      else
        let batch = (if foundFirst then batch
                     else batch\<lparr>ab_playlist := rq_playlist req,
                                ab_playlistId := CustomApiPlaylistIdForName (rq_playlist req)\<rparr>)
        in if rq_playlist req = ab_playlist batch
           then let batch = batch\<lparr>ab_requests := ab_requests batch @ [req]\<rparr>
                in if maxBatchSize \<le> length (ab_requests batch) then batch
                   else assemble reason now maxBatchSize reqs True batch
           else assemble reason now maxBatchSize reqs True batch)"

definition AssembleCustomApiBatch :: "MMRRequest list \<Rightarrow> int \<Rightarrow> nat \<Rightarrow> AssembledBatch" where
  "AssembleCustomApiBatch candidates now maxBatchSize =
     (let batch = \<lparr>ab_requests = [], ab_playlist = [], ab_playlistId = 0\<rparr>
      in if candidates = [] \<or> maxBatchSize = 0 then batch
         else
           let rosterReady = list_ex (\<lambda>req. rq_reason req = Roster \<and> rq_notBefore req \<le> now) candidates
           in assemble (if rosterReady then Roster else TrackedAccount) now maxBatchSize candidates
                False batch)"

definition BuildCustomApiBatchJson :: "AssembledBatch \<Rightarrow> json" where
  "BuildCustomApiBatchJson batch =
     (let players = List.map_filter (\<lambda>req.
            map_option (\<lambda>target. JObject [(''platform'', JString (tg_platform target)),
                                          (''account_id'', JString (tg_accountId target))])
              (TryParseCustomApiTarget (rq_primaryId req))) (ab_requests batch)
      in JObject ((''players'', JArray players) #
           (if ab_requests batch \<noteq> [] \<and> list_all (\<lambda>req. rq_reason req = TrackedAccount) (ab_requests batch)
            then [(''include_rewards'', JBool True)] else []) @
           (if 0 < ab_playlistId batch then [(''playlist'', JInt (ab_playlistId batch))] else [])))"

section \<open>Responses\<close>

text \<open>
  The library's \<open>value(key, default)\<close> on an object: the default where the key is missing, an
  exception (\<open>None\<close>) where the value has another type.
\<close>

definition value_int :: "json \<Rightarrow> string \<Rightarrow> int \<Rightarrow> int option" where
  "value_int j key dflt =
     (case Child j key of
        None \<Rightarrow> Some dflt
      | Some (JInt i) \<Rightarrow> Some (to_int32 i)
      | Some (JFloat (Fin q)) \<Rightarrow> Some (to_int32 (if 0 \<le> q then \<lfloor>q\<rfloor> else \<lceil>q\<rceil>))
      | Some (JBool b) \<Rightarrow> Some (if b then 1 else 0)
      | _ \<Rightarrow> None)"

definition value_string :: "json \<Rightarrow> string \<Rightarrow> string \<Rightarrow> string option" where
  "value_string j key dflt =
     (case Child j key of None \<Rightarrow> Some dflt | Some (JString s) \<Rightarrow> Some s | _ \<Rightarrow> None)"

text \<open>The rewards; \<open>get<int64_t>\<close> of an unsigned number past its range is negative and refused as well.\<close>

definition read_rewards :: "json \<Rightarrow> SeasonRewards option" where
  "read_rewards playerJson =
     (case Child playerJson ''season_rewards'' of
        Some (JObject fs) \<Rightarrow>
          (case (map_of fs ''level'', map_of fs ''wins'') of
             (Some (JInt level), Some (JInt wins)) \<Rightarrow>
               if 0 \<le> level \<and> level \<le> 8 \<and> 0 \<le> wins \<and> wins \<le> 10
               then Some \<lparr>sr_level = level, sr_wins = wins\<rparr> else None
           | _ \<Rightarrow> None)
      | _ \<Rightarrow> None)"

text \<open>
  One entry of the skills. The locals of the loop are the fields of a profile that start with the
  same values; the result is \<open>None\<close> where the library throws.
\<close>

definition add_matches :: "string \<Rightarrow> int \<Rightarrow> NormalizedProfileResult \<Rightarrow> NormalizedProfileResult" where
  "add_matches plName matches p =
     p\<lparr>np_playlistMatches := um_put plName
         ((case map_of (np_playlistMatches p) plName of None \<Rightarrow> 0 | Some m \<Rightarrow> m) + matches) (np_playlistMatches p)\<rparr>"

definition add_rating :: "string \<Rightarrow> int \<Rightarrow> string \<Rightarrow> NormalizedProfileResult \<Rightarrow> NormalizedProfileResult" where
  "add_rating plName mmrInt tierName p =
     (let p = (if ShouldReplacePlaylistBucket (np_playlistMMRs p) plName mmrInt
               then p\<lparr>np_playlistMMRs := um_put plName mmrInt (np_playlistMMRs p),
                      np_playlistTiers := um_put plName tierName (np_playlistTiers p)\<rparr>
               else p)
      in if plName \<noteq> ''casual'' \<and> plName \<noteq> ''t'' \<and> np_bestMmr p < mmrInt
         then p\<lparr>np_bestMmr := mmrInt, np_bestTier := tierName, np_bestPlaylistName := plName\<rparr>
         else p)"

definition read_rating :: "string \<Rightarrow> json \<Rightarrow> NormalizedProfileResult \<Rightarrow> NormalizedProfileResult option" where
  "read_rating plName skill p =
     (case Child skill ''mmr'' of
        None \<Rightarrow> Some p
      | Some v \<Rightarrow>
          let mmrInt = to_int32 (lround (get_double v))
          in if \<not> is_number v \<or> mmrInt \<le> 0 then Some p
             else (case (value_int skill ''tier'' 0, value_int skill ''division'' 0) of
                 (Some tier, Some division) \<Rightarrow>
                   Some (add_rating plName mmrInt
                     (if plName = ''t'' then GetTournamentTierForMmr mmrInt else RankTierName tier division) p)
               | _ \<Rightarrow> None))"

definition read_skill :: "json \<Rightarrow> NormalizedProfileResult \<Rightarrow> NormalizedProfileResult option" where
  "read_skill skill p =
     (case Child skill ''playlist'' of
        Some (JInt playlist) \<Rightarrow>
          let plName = TrackerKey (to_int32 playlist)
          in if plName = [] then Some p
             else (case value_int skill ''matches_played'' (-1) of
                 None \<Rightarrow> None
               | Some matches \<Rightarrow> read_rating plName skill (if 0 \<le> matches then add_matches plName matches p else p))
      | _ \<Rightarrow> Some p)"

fun read_skills :: "json list \<Rightarrow> NormalizedProfileResult \<Rightarrow> NormalizedProfileResult option" where
  "read_skills [] p = Some p"
| "read_skills (skill # skills) p =
     (case read_skill skill p of None \<Rightarrow> None | Some p \<Rightarrow> read_skills skills p)"

definition read_total_wins :: "json \<Rightarrow> int" where
  "read_total_wins playerJson =
     (case Child playerJson ''wins'' of
        Some (JInt i) \<Rightarrow> to_int32 i
      | _ \<Rightarrow> (case Child playerJson ''total_wins'' of Some (JInt i) \<Rightarrow> to_int32 i | _ \<Rightarrow> -1))"

definition finish_profile ::
  "json \<Rightarrow> NormalizedProfileResult \<Rightarrow> NormalizedProfileResult \<Rightarrow> NormalizedProfileResult option" where
  "finish_profile playerJson out p =
     (let rewards = read_rewards playerJson
      in if np_playlistMMRs p = [] \<and> rewards = None then None
         else Some (out\<lparr>
           np_bestMmr := np_bestMmr p,
           np_bestTier := np_bestTier p,
           np_bestPlaylistName := np_bestPlaylistName p,
           np_playlistMMRs := um_put ''best'' (np_bestMmr p) (np_playlistMMRs p),
           np_playlistTiers := um_put ''best'' (np_bestTier p) (np_playlistTiers p),
           np_playlistMatches :=
             (case map_of (np_playlistMatches p) (np_bestPlaylistName p) of
                None \<Rightarrow> np_playlistMatches p
              | Some m \<Rightarrow> um_put ''best'' m (np_playlistMatches p)),
           np_totalWins := read_total_wins playerJson,
           np_seasonRewards := rewards,
           np_rankVerificationSource := ''ServerA''\<rparr>))"

text \<open>\<open>None\<close>: the library throws; \<open>Some None\<close>: the function returns false.\<close>

definition TryParseCustomApiPlayerProfile ::
  "json \<Rightarrow> NormalizedProfileResult \<Rightarrow> NormalizedProfileResult option option" where
  "TryParseCustomApiPlayerProfile playerJson out =
     (if \<not> is_object playerJson then Some None
      else if Child playerJson ''error'' \<notin> {None, Some JNull} then Some None
      else (case Child playerJson ''skills'' of
          Some (JArray skills) \<Rightarrow>
            map_option (finish_profile playerJson out) (read_skills skills NormalizedProfileResult0)
        | _ \<Rightarrow> Some None))"

text \<open>
  The platform an entry names: \<open>None\<close> without one, the empty string for one that is not known.
\<close>

definition responsePlatform :: "json \<Rightarrow> string option" where
  "responsePlatform player =
     (case Child player ''platform'' of
        Some (JString s) \<Rightarrow>
          Some (case TryParseCustomApiTarget (s @ ''|id'') of None \<Rightarrow> [] | Some parsed \<Rightarrow> tg_platform parsed)
      | _ \<Rightarrow> None)"

definition account_shared :: "MMRRequest list \<Rightarrow> CustomApiPlayerTarget \<Rightarrow> bool" where
  "account_shared batchRequests target =
     list_ex (\<lambda>other. case TryParseCustomApiTarget (rq_primaryId other) of
        None \<Rightarrow> False
      | Some t \<Rightarrow> tg_platform t \<noteq> tg_platform target \<and>
                  CaseInsensitiveEquals (tg_accountId t) (tg_accountId target)) batchRequests"

definition entry_matches :: "bool \<Rightarrow> CustomApiPlayerTarget \<Rightarrow> json \<Rightarrow> bool" where
  "entry_matches shared target p =
     (case Child p ''account_id'' of
        Some (JString account) \<Rightarrow>
          CaseInsensitiveEquals account (tg_accountId target) \<and>
          (case responsePlatform p of None \<Rightarrow> \<not> shared | Some platform \<Rightarrow> platform = tg_platform target)
      | _ \<Rightarrow> False)"

text \<open>The only entry for the only request, if nothing in it speaks against that.\<close>

definition lone_entry :: "MMRRequest list \<Rightarrow> CustomApiPlayerTarget \<Rightarrow> json list \<Rightarrow> json option" where
  "lone_entry batchRequests target players =
     (case (batchRequests, players) of
        ([_], [p]) \<Rightarrow>
          if is_object p \<and> (case responsePlatform p of None \<Rightarrow> True | Some pf \<Rightarrow> pf = tg_platform target) \<and>
             (case Child p ''account_id'' of
                Some (JString account) \<Rightarrow> account = [] \<or> CaseInsensitiveEquals account (tg_accountId target)
              | _ \<Rightarrow> True)
          then Some p else None
      | _ \<Rightarrow> None)"

definition match_entry :: "MMRRequest list \<Rightarrow> CustomApiPlayerTarget \<Rightarrow> json list \<Rightarrow> json option" where
  "match_entry batchRequests target players =
     (case find (entry_matches (account_shared batchRequests target) target) players of
        Some p \<Rightarrow> Some p
      | None \<Rightarrow> lone_entry batchRequests target players)"

definition failed :: "MMRRequest \<Rightarrow> BatchPlayerStatus \<Rightarrow> string \<Rightarrow> string \<Rightarrow> BatchPlayerResult" where
  "failed req status code msg =
     \<lparr>br_request = req, br_status = status, br_profile = NormalizedProfileResult0, br_errorCode = code,
      br_errorMessage = msg\<rparr>"

definition error_status :: "string \<Rightarrow> BatchPlayerStatus" where
  "error_status code = (if code = ''not_found'' then NotFound else Error)"

text \<open>The result of a request whose entry is known.\<close>

definition entry_result :: "MMRRequest \<Rightarrow> json \<Rightarrow> BatchPlayerResult option" where
  "entry_result req p =
     (case Child p ''error'' of
        Some (JObject fs) \<Rightarrow>
          (case (value_string (JObject fs) ''code'' ''player_error'', value_string (JObject fs) ''message'' []) of
             (Some code, Some msg) \<Rightarrow> Some (failed req (error_status code) code msg)
           | _ \<Rightarrow> None)
      | Some (JString msg) \<Rightarrow> Some (failed req Error ''player_error'' msg)
      | e \<Rightarrow>
          if e \<noteq> None \<and> e \<noteq> Some JNull then Some (failed req Error ''player_error'' [])
          else if Child p ''skills'' = Some (JArray []) \<and> Child p ''season_rewards'' = None
          then Some (failed req UnusableData ''no_ranked_skills''
                 ''The rank source has no ranked playlists for this account.'')
          else (case TryParseCustomApiPlayerProfile p NormalizedProfileResult0 of
                  None \<Rightarrow> None
                | Some (Some profile) \<Rightarrow>
                    Some \<lparr>br_request = req, br_status = Success, br_profile = profile,
                          br_errorCode = [], br_errorMessage = []\<rparr>
                | Some None \<Rightarrow>
                    Some (failed req UnusableData ''unusable_skills'' ''Player skills missing or invalid'')))"

definition request_result :: "MMRRequest list \<Rightarrow> json option \<Rightarrow> MMRRequest \<Rightarrow> BatchPlayerResult option" where
  "request_result batchRequests players req =
     (case TryParseCustomApiTarget (rq_primaryId req) of
        None \<Rightarrow> Some (failed req UnusableData ''invalid_primary_id''
                   ''Invalid primaryId format or unsupported platform'')
      | Some target \<Rightarrow>
          (case players of
             Some (JArray ps) \<Rightarrow>
               (case match_entry batchRequests target ps of
                  None \<Rightarrow> Some (failed req NotFound ''not_found'' ''Player missing from response'')
                | Some p \<Rightarrow> entry_result req p)
           | _ \<Rightarrow> Some (failed req UnusableData ''missing_players'' ''Response does not contain players array'')))"

fun all_results :: "('a \<Rightarrow> 'b option) \<Rightarrow> 'a list \<Rightarrow> 'b list option" where
  "all_results f [] = Some []"
| "all_results f (x # xs) =
     (case f x of None \<Rightarrow> None | Some y \<Rightarrow> map_option ((#) y) (all_results f xs))"

definition ParseCustomApiBatchResponse :: "MMRRequest list \<Rightarrow> json \<Rightarrow> BatchPlayerResult list option" where
  "ParseCustomApiBatchResponse batchRequests resp =
     (case Child resp ''error'' of
        Some (JObject fs) \<Rightarrow>
          (case (value_string (JObject fs) ''code'' ''unknown'', value_string (JObject fs) ''message'' []) of
             (Some code, Some msg) \<Rightarrow>
               Some (map (\<lambda>req. failed req (error_status code) code msg) batchRequests)
           | _ \<Rightarrow> None)
      | _ \<Rightarrow> all_results (request_result batchRequests (Child resp ''players'')) batchRequests)"

section \<open>Paths keep the results\<close>

lemma directional_steps_last:
  "directional_steps winStep lossStep finalMmr current results = Some path \<Longrightarrow> results \<noteq> [] \<Longrightarrow>
     path \<noteq> [] \<and> last path = finalMmr"
  by (induction results arbitrary: current path) (auto simp: Let_def split: if_splits)

lemma BuildDirectionalMmrPath_result:
  assumes "BuildDirectionalMmrPath initialMmr finalMmr results = path" "path \<noteq> []"
  shows "MmrPathPreservesResults initialMmr path results \<and> last path = finalMmr"
  using assms directional_steps_last
  by (auto simp: BuildDirectionalMmrPath_def Let_def split: if_splits option.splits prod.splits)

lemma ReconcileEstimatedPath_result:
  assumes "ReconcileEstimatedPath initialMmr finalMmr estimated results = path" "path \<noteq> []"
  shows "MmrPathPreservesResults initialMmr path results \<and> last path = finalMmr"
  using assms BuildDirectionalMmrPath_result
  by (auto simp: ReconcileEstimatedPath_def Let_def split: if_splits)

text \<open>Each rating of a path that preserves the results moves the way its match went.\<close>

lemma preserves_nth:
  "preserves previous path results \<Longrightarrow> length path = length results \<Longrightarrow> i < length path \<Longrightarrow>
     0 < path ! i \<and>
     (if results ! i then (previous # path) ! i < path ! i else path ! i < (previous # path) ! i)"
proof (induction previous path results arbitrary: i rule: preserves.induct)
  case (1 previous current path won results)
  then show ?case by (cases i) auto
qed simp_all

section \<open>Batches\<close>

text \<open>The batch is the queue's: the first due requests of one kind and one playlist.\<close>

lemma assemble_found:
  "length (ab_requests batch) < n \<Longrightarrow>
     assemble reason now n reqs True batch =
       batch\<lparr>ab_requests := ab_requests batch @ take (n - length (ab_requests batch))
         (filter (\<lambda>r. ready reason now r \<and> rq_playlist r = ab_playlist batch) reqs)\<rparr>"
proof (induction reqs arbitrary: batch)
  case (Cons r reqs)
  show ?case
  proof (cases "ready reason now r \<and> rq_playlist r = ab_playlist batch")
    case False
    then show ?thesis using Cons by (auto simp: ready_def Let_def)
  next
    case True
    let ?batch = "batch\<lparr>ab_requests := ab_requests batch @ [r]\<rparr>"
    show ?thesis
    proof (cases "n \<le> length (ab_requests ?batch)")
      case full: True
      then have "n - length (ab_requests batch) = 1" using Cons.prems by simp
      then show ?thesis using True full by (auto simp: ready_def Let_def)
    next
      case False
      then have "n - length (ab_requests batch) = Suc (n - length (ab_requests ?batch))" by simp
      then show ?thesis using True False Cons.IH[of ?batch] by (auto simp: ready_def Let_def)
    qed
  qed
qed simp

lemma assemble_fresh:
  assumes "0 < n"
  shows "assemble reason now n reqs False \<lparr>ab_requests = [], ab_playlist = [], ab_playlistId = 0\<rparr> =
    (case find (ready reason now) reqs of
       None \<Rightarrow> \<lparr>ab_requests = [], ab_playlist = [], ab_playlistId = 0\<rparr>
     | Some first \<Rightarrow>
         \<lparr>ab_requests = take n (filter (\<lambda>r. ready reason now r \<and> rq_playlist r = rq_playlist first) reqs),
          ab_playlist = rq_playlist first,
          ab_playlistId = CustomApiPlaylistIdForName (rq_playlist first)\<rparr>)"
proof (induction reqs)
  case (Cons r reqs)
  show ?case
  proof (cases "ready reason now r")
    case True
    then obtain m where m: "n = Suc m" using assms by (cases n) auto
    show ?thesis
    proof (cases m)
      case 0
      then show ?thesis using True m by (auto simp: ready_def Let_def)
    next
      case (Suc k)
      then show ?thesis using True m by (simp add: ready_def Let_def assemble_found)
    qed
  next
    case False
    then show ?thesis using Cons by (auto simp: ready_def Let_def split: option.splits)
  qed
qed simp

section \<open>Profiles\<close>

lemma TrackerKey_not_best: "TrackerKey i \<noteq> ''best''"
proof -
  have "list_all (\<lambda>p. info_trackerKey p \<noteq> ''best'') kPlaylists" by code_simp
  then show ?thesis by (auto simp: TrackerKey_def list_all_iff split: option.splits dest: Find_Some)
qed

text \<open>What the loop over the skills keeps: the best rating is one of the ranked playlists' ratings.\<close>

definition ranked :: "string \<Rightarrow> bool" where
  "ranked playlist = (playlist \<notin> {''casual'', ''t'', ''best''})"

definition profile_ok :: "NormalizedProfileResult \<Rightarrow> bool" where
  "profile_ok p =
     ((\<forall>k v. map_of (np_playlistMMRs p) k = Some v \<longrightarrow> 0 < v \<and> k \<noteq> ''best'' \<and> (ranked k \<longrightarrow> v \<le> np_bestMmr p)) \<and>
      (if np_bestMmr p = 0 then np_bestTier p = ''Unranked'' \<and> np_bestPlaylistName p = ''best''
       else ranked (np_bestPlaylistName p) \<and> 0 < np_bestMmr p \<and>
         map_of (np_playlistMMRs p) (np_bestPlaylistName p) = Some (np_bestMmr p) \<and>
         map_of (np_playlistTiers p) (np_bestPlaylistName p) = Some (np_bestTier p)))"

lemma add_rating_ok:
  assumes ok: "profile_ok p" and new: "0 < mmr" "plName \<noteq> ''best''"
  shows "profile_ok (add_rating plName mmr tier p)"
proof (cases "ShouldReplacePlaylistBucket (np_playlistMMRs p) plName mmr")
  case False
  then obtain old where old: "map_of (np_playlistMMRs p) plName = Some old" "mmr \<le> old"
    by (auto simp: ShouldReplacePlaylistBucket_def split: option.splits)
  then have "ranked plName \<longrightarrow> mmr \<le> np_bestMmr p" using ok by (fastforce simp: profile_ok_def)
  then have "add_rating plName mmr tier p = p"
    using False new by (auto simp: add_rating_def ranked_def)
  then show ?thesis using ok by simp
next
  case True
  let ?p = "p\<lparr>np_playlistMMRs := um_put plName mmr (np_playlistMMRs p),
      np_playlistTiers := um_put plName tier (np_playlistTiers p)\<rparr>"
  have larger: "old < mmr" if "map_of (np_playlistMMRs p) plName = Some old" for old
    using True that by (simp add: ShouldReplacePlaylistBucket_def)
  have all: "0 < v" "k \<noteq> ''best''" "ranked k \<Longrightarrow> v \<le> max mmr (np_bestMmr p)"
    if "map_of (np_playlistMMRs ?p) k = Some v" for k v
    using that ok new by (fastforce simp: profile_ok_def um_simps split: if_splits)+
  show ?thesis
  proof (cases "ranked plName \<and> np_bestMmr p < mmr")
    case best: True
    then have "add_rating plName mmr tier p =
        ?p\<lparr>np_bestMmr := mmr, np_bestTier := tier, np_bestPlaylistName := plName\<rparr>"
      using True by (simp add: add_rating_def ranked_def)
    then show ?thesis using all best new by (simp add: profile_ok_def um_simps)
  next
    case False
    then have "add_rating plName mmr tier p = ?p" using True new by (auto simp: add_rating_def ranked_def)
    moreover have "ranked k \<Longrightarrow> v \<le> np_bestMmr p" if "map_of (np_playlistMMRs ?p) k = Some v" for k v
      using that ok False by (auto simp: profile_ok_def um_simps split: if_splits)
    moreover have "np_bestMmr p \<noteq> 0 \<Longrightarrow> np_bestPlaylistName p \<noteq> plName"
      using larger ok False by (auto simp: profile_ok_def)
    ultimately show ?thesis using ok all(1,2) by (simp add: profile_ok_def um_simps)
  qed
qed

lemma read_rating_ok:
  assumes "profile_ok p" "read_rating plName skill p = Some p'" "plName \<noteq> ''best''"
  shows "profile_ok p'"
  using assms add_rating_ok[OF assms(1) _ assms(3)]
  by (auto simp: read_rating_def Let_def split: option.splits if_splits)

lemma read_skill_ok:
  assumes "profile_ok p" "read_skill skill p = Some p'"
  shows "profile_ok p'"
proof (cases "\<exists>i. Child skill ''playlist'' = Some (JInt i)")
  case True
  have "profile_ok (add_matches plName m p)" for plName m
    using assms(1) by (simp add: profile_ok_def add_matches_def)
  then show ?thesis
    using True assms read_rating_ok[OF _ _ TrackerKey_not_best]
    by (auto simp: read_skill_def Let_def split: option.splits if_splits) blast+
next
  case False
  then have "read_skill skill p = Some p" by (auto simp: read_skill_def split: option.splits json.splits)
  then show ?thesis using assms by simp
qed

lemma read_skills_ok: "profile_ok p \<Longrightarrow> read_skills skills p = Some p' \<Longrightarrow> profile_ok p'"
  by (induction skills arbitrary: p) (auto split: option.splits intro: read_skill_ok)

section \<open>Answers\<close>

lemma all_results_nth:
  "all_results f xs = Some ys \<Longrightarrow> length ys = length xs \<and> (\<forall>i < length xs. f (xs ! i) = Some (ys ! i))"
proof (induction xs arbitrary: ys)
  case (Cons x xs)
  then show ?case by (auto simp: nth_Cons' split: option.splits)
qed simp

lemma all_results_None: "x \<in> set xs \<Longrightarrow> f x = None \<Longrightarrow> all_results f xs = None"
  by (induction xs) (auto split: option.splits)

lemma failed_fields [simp]:
  "br_request (failed req s c m) = req" "br_status (failed req s c m) = s"
  "error_status c \<noteq> Success"
  by (simp_all add: failed_def error_status_def)

lemma entry_result_request:
  assumes "entry_result req p = Some r"
  shows "br_request r = req \<and>
    (br_status r = Success \<longrightarrow>
       TryParseCustomApiPlayerProfile p NormalizedProfileResult0 = Some (Some (br_profile r)))"
proof (cases "Child p ''error''")
  case None
  then show ?thesis using assms by (auto simp: entry_result_def split: if_splits option.splits)
next
  case (Some e)
  then show ?thesis using assms by (cases e) (auto simp: entry_result_def split: if_splits option.splits)
qed

text \<open>An entry that may be used for a target in a batch.\<close>

definition fits :: "MMRRequest list \<Rightarrow> CustomApiPlayerTarget \<Rightarrow> json \<Rightarrow> bool" where
  "fits reqs target p =
     ((case responsePlatform p of
         None \<Rightarrow> length reqs = 1 \<or> \<not> account_shared reqs target
       | Some platform \<Rightarrow> platform = tg_platform target) \<and>
      (case Child p ''account_id'' of
         Some (JString account) \<Rightarrow> CaseInsensitiveEquals account (tg_accountId target) \<or> (account = [] \<and> length reqs = 1)
       | _ \<Rightarrow> length reqs = 1))"

lemma match_entry_fits:
  assumes "match_entry reqs target ps = Some p"
  shows "p \<in> set ps \<and> fits reqs target p"
proof (cases "find (entry_matches (account_shared reqs target) target) ps")
  case None
  then have lone: "lone_entry reqs target ps = Some p" using assms by (simp add: match_entry_def)
  then obtain req q where [simp]: "reqs = [req]" "ps = [q]"
    by (auto simp: lone_entry_def split: list.splits)
  show ?thesis
    using lone by (auto simp: lone_entry_def fits_def split: if_splits option.splits json.splits)
next
  case (Some q)
  then have "p = q" using assms by (simp add: match_entry_def)
  then have "p \<in> set ps" "entry_matches (account_shared reqs target) target p"
    using Some by (auto simp: find_Some_iff)
  then show ?thesis
    by (auto simp: entry_matches_def fits_def split: option.splits json.splits)
qed

lemma request_result_request:
  assumes "request_result reqs players req = Some r"
  shows "br_request r = req \<and>
    (br_status r = Success \<longrightarrow>
       (\<exists>target ps p. TryParseCustomApiTarget (rq_primaryId req) = Some target \<and>
          players = Some (JArray ps) \<and> p \<in> set ps \<and> fits reqs target p \<and>
          TryParseCustomApiPlayerProfile p NormalizedProfileResult0 = Some (Some (br_profile r))))"
proof (cases "\<exists>target ps p. TryParseCustomApiTarget (rq_primaryId req) = Some target \<and>
    players = Some (JArray ps) \<and> match_entry reqs target ps = Some p")
  case True
  then obtain target ps p where t: "TryParseCustomApiTarget (rq_primaryId req) = Some target"
    "players = Some (JArray ps)" "match_entry reqs target ps = Some p"
    by blast
  then have "entry_result req p = Some r" using assms by (simp add: request_result_def)
  then show ?thesis using t match_entry_fits[OF t(3)] entry_result_request by blast
next
  case False
  then have "br_request r = req \<and> br_status r \<noteq> Success"
    using assms by (auto simp: request_result_def split: option.splits json.splits)
  then show ?thesis by blast
qed

section \<open>Properties\<close>

text \<open>
  Whatever the reconciliation of an estimate with a confirmed rating returns is usable: it is
  empty, or it has one positive rating for every match, goes up at every win and down at every loss,
  and ends at the confirmed rating.
\<close>

theorem reconciled_path_follows_results:
  assumes "ReconcileEstimatedPath initialMmr finalMmr estimated results = path" "path \<noteq> []"
  shows "length path = length results \<and> last path = finalMmr \<and>
    (\<forall>i < length path. 0 < path ! i \<and>
       (if results ! i then (initialMmr # path) ! i < path ! i else path ! i < (initialMmr # path) ! i))"
  using ReconcileEstimatedPath_result[OF assms] preserves_nth
  by (auto simp: MmrPathPreservesResults_def)

theorem reconciled_path_follows_results_witness:
  "ReconcileEstimatedPath 600 605 [609, 618, 609] [True, True, False] = [609, 618, 605] \<and>
   (609::int) < 618 \<and> (605::int) < 618"
proof -
  have run: "ReconcileEstimatedPath 600 605 [609, 618, 609] [True, True, False] = [609, 618, 605]"
    by (simp add: ReconcileEstimatedPath_def MmrPathPreservesResults_def)
  have "[609, 618, 605] \<noteq> ([] :: int list)" by simp
  from reconciled_path_follows_results[OF run this] have step:
    "if [True, True, False] ! i then (600 # [609, 618, 605 :: int]) ! i < [609, 618, 605] ! i
     else [609, 618, 605 :: int] ! i < (600 # [609, 618, 605]) ! i" if "i < 3" for i
    using that by simp
  show ?thesis using run step[of 1] step[of 2] by simp
qed

text \<open>
  C21: The batch put together from a list of candidates is the batch that draining the queue gives:
  the same requests in the same order (up to the session they are stamped with), playlist and
  playlist number.
\<close>

theorem assembled_batch_is_drained_batch:
  "case NextBatchReason now q of
     None \<Rightarrow> ab_requests (AssembleCustomApiBatch (q_queue q) now n) = []
   | Some reason \<Rightarrow>
       n = 0 \<or>
       fst (DrainBatchForReason reason now gen n q) =
         (AssembleCustomApiBatch (q_queue q) now n)
           \<lparr>ab_requests := map (\<lambda>r. r\<lparr>rq_sessionGeneration := gen\<rparr>)
             (ab_requests (AssembleCustomApiBatch (q_queue q) now n))\<rparr>"
proof -
  have found: "find (ready reason now) (q_queue q) = None \<longleftrightarrow> \<not> HasReady reason now q" for reason
    by (auto simp: find_None_iff HasReady_def list_ex_iff)
  have roster: "list_ex (\<lambda>req. rq_reason req = Roster \<and> rq_notBefore req \<le> now) (q_queue q) =
      HasReady Roster now q"
    by (simp add: HasReady_def ready_def[abs_def])
  show ?thesis
  proof (cases "NextBatchReason now q")
    case None
    then have "find (ready Roster now) (q_queue q) = None" "find (ready TrackedAccount now) (q_queue q) = None"
      by (auto simp: NextBatchReason_def found split: if_splits)
    then show ?thesis using None
      by (cases "n = 0") (auto simp: AssembleCustomApiBatch_def Let_def assemble_fresh)
  next
    case (Some reason)
    then have reason: "reason = (if HasReady Roster now q then Roster else TrackedAccount)"
      "HasReady reason now q"
      by (auto simp: NextBatchReason_def split: if_splits)
    then obtain first where first: "find (ready reason now) (q_queue q) = Some first"
      using found[of reason] by (cases "find (ready reason now) (q_queue q)") auto
    then have some: "q_queue q \<noteq> []" by auto
    let ?due = "\<lambda>r. ready reason now r \<and> rq_playlist r = rq_playlist first"
    obtain b rest where d: "drain ?due gen n (q_queue q) = (b, rest)" by force
    show ?thesis
    proof (cases "n = 0")
      case False
      then show ?thesis
        using Some first some drain_spec[OF d] d
        by (simp add: AssembleCustomApiBatch_def Let_def roster assemble_fresh DrainBatchForReason_def
            FirstReadyPlaylist_def DrainBatch_def flip: reason(1))
    qed (simp add: Some)
  qed
qed

text \<open>
  A profile read from the rating API is consistent: its best rating is the largest of the ranked
  playlists (casual and tournament ratings do not count), shown with the tier and under the name of a
  playlist that has it; without one it is zero and unranked. Ratings are positive and rewards lie
  in their range.
\<close>

theorem profile_best_is_best:
  assumes "TryParseCustomApiPlayerProfile playerJson out = Some (Some p)"
  shows "let ratings = map_of (np_playlistMMRs p)
    in ratings ''best'' = Some (np_bestMmr p) \<and> map_of (np_playlistTiers p) ''best'' = Some (np_bestTier p) \<and>
       (\<forall>k v. ratings k = Some v \<and> ranked k \<longrightarrow> 0 < v \<and> v \<le> np_bestMmr p) \<and>
       (if np_bestMmr p = 0 then np_bestTier p = ''Unranked'' \<and> np_bestPlaylistName p = ''best''
        else ranked (np_bestPlaylistName p) \<and> ratings (np_bestPlaylistName p) = Some (np_bestMmr p) \<and>
             map_of (np_playlistTiers p) (np_bestPlaylistName p) = Some (np_bestTier p)) \<and>
       pred_option (\<lambda>r. 0 \<le> sr_level r \<and> sr_level r \<le> 8 \<and> 0 \<le> sr_wins r \<and> sr_wins r \<le> 10)
         (np_seasonRewards p)"
proof -
  obtain skills where "Child playerJson ''skills'' = Some (JArray skills)"
    using assms by (auto simp: TryParseCustomApiPlayerProfile_def split: if_splits option.splits json.splits)
  then obtain acc where run: "read_skills skills NormalizedProfileResult0 = Some acc"
    "finish_profile playerJson out acc = Some p"
    using assms by (auto simp: TryParseCustomApiPlayerProfile_def split: if_splits)
  then have acc: "read_skills skills NormalizedProfileResult0 = Some acc"
    "np_bestMmr p = np_bestMmr acc" "np_bestTier p = np_bestTier acc"
    "np_bestPlaylistName p = np_bestPlaylistName acc"
    "np_playlistMMRs p = um_put ''best'' (np_bestMmr acc) (np_playlistMMRs acc)"
    "np_playlistTiers p = um_put ''best'' (np_bestTier acc) (np_playlistTiers acc)"
    "np_seasonRewards p = read_rewards playerJson"
    by (auto simp: finish_profile_def Let_def split: if_splits)
  have "profile_ok NormalizedProfileResult0" by (simp add: profile_ok_def NormalizedProfileResult0_def)
  then have "profile_ok acc" using acc(1) by (rule read_skills_ok)
  moreover have "pred_option (\<lambda>r. 0 \<le> sr_level r \<and> sr_level r \<le> 8 \<and> 0 \<le> sr_wins r \<and> sr_wins r \<le> 10)
      (read_rewards playerJson)"
    by (auto simp: read_rewards_def split: option.splits json.splits)
  ultimately show ?thesis
    unfolding Let_def acc(2-7) by (auto simp: profile_ok_def ranked_def um_simps split: if_splits)
qed

definition sample_player :: "string \<Rightarrow> json \<Rightarrow> json" where
  "sample_player account tier =
     JObject [(''account_id'', JString account), (''platform'', JString ''epic''),
       (''skills'', JArray
         [JObject [(''playlist'', JInt 11), (''mmr'', JFloat (Fin 900)), (''tier'', tier), (''division'', JInt 1)],
          JObject [(''playlist'', JInt 13), (''mmr'', JFloat (Fin 1010)), (''tier'', JInt 16), (''division'', JInt 0)]])]"

theorem profile_best_is_best_witness:
  "\<exists>p. TryParseCustomApiPlayerProfile (sample_player ''abc'' (JInt 13)) NormalizedProfileResult0 = Some (Some p) \<and>
     map_of (np_playlistMMRs p) ''best'' = Some (np_bestMmr p)"
proof -
  have run: "(case TryParseCustomApiPlayerProfile (sample_player ''abc'' (JInt 13)) NormalizedProfileResult0 of
      Some (Some p) \<Rightarrow> True | _ \<Rightarrow> False)"
    by code_simp
  then obtain p where "TryParseCustomApiPlayerProfile (sample_player ''abc'' (JInt 13)) NormalizedProfileResult0 =
      Some (Some p)"
    by (auto split: option.splits)
  with profile_best_is_best[OF this] show ?thesis by (auto simp: Let_def)
qed

text \<open>
  A response answers the requests of its batch one by one and in order. A request succeeds only
  with the profile of an entry of the response that fits it: the account (case aside) is the one
  asked for or not given, the platform the one asked for or not given, and an entry without a
  platform is not used when the batch asks for the same account on two platforms.
\<close>

theorem answers_fit_requests:
  assumes "ParseCustomApiBatchResponse reqs resp = Some results"
  shows "map br_request results = reqs \<and>
    (\<forall>r \<in> set results. br_status r = Success \<longrightarrow>
       (\<exists>target ps p. TryParseCustomApiTarget (rq_primaryId (br_request r)) = Some target \<and>
          Child resp ''players'' = Some (JArray ps) \<and> p \<in> set ps \<and> fits reqs target p \<and>
          TryParseCustomApiPlayerProfile p NormalizedProfileResult0 = Some (Some (br_profile r))))"
proof (cases "\<exists>fs. Child resp ''error'' = Some (JObject fs)")
  case True
  then obtain code msg where "results = map (\<lambda>req. failed req (error_status code) code msg) reqs"
    using assms by (auto simp: ParseCustomApiBatchResponse_def simp del: map_eq_conv split: option.splits)
  then show ?thesis by (auto simp: comp_def)
next
  case False
  let ?f = "request_result reqs (Child resp ''players'')"
  have all: "all_results ?f reqs = Some results"
    using assms False by (auto simp: ParseCustomApiBatchResponse_def split: option.splits json.splits)
  note nth = all_results_nth[OF all]
  have "br_request (results ! i) = reqs ! i" if "i < length reqs" for i
    using nth that request_result_request by blast
  then have "map br_request results = reqs" using nth by (simp add: list_eq_iff_nth_eq)
  moreover have "\<exists>req. ?f req = Some r" if "r \<in> set results" for r
    using that nth by (metis in_set_conv_nth)
  ultimately show ?thesis using request_result_request by metis
qed

definition sample_asked :: "string \<Rightarrow> MMRRequest" where
  "sample_asked primaryId = MMRRequest0\<lparr>rq_primaryId := primaryId\<rparr>"

definition sample_response :: "json \<Rightarrow> json" where
  "sample_response tier =
     JObject [(''players'', JArray [sample_player ''ABC'' (JInt 13), sample_player ''def'' tier])]"

theorem answers_fit_requests_witness:
  "\<exists>results. ParseCustomApiBatchResponse (map sample_asked [''epic|def'', ''Epic|abc|0''])
       (sample_response (JInt 12)) = Some results \<and>
     map br_request results = map sample_asked [''epic|def'', ''Epic|abc|0''] \<and>
     map br_status results = [Success, Success]"
proof -
  have run: "map_option (map br_status) (ParseCustomApiBatchResponse
      (map sample_asked [''epic|def'', ''Epic|abc|0'']) (sample_response (JInt 12))) = Some [Success, Success]"
    by code_simp
  then obtain results where r: "ParseCustomApiBatchResponse (map sample_asked [''epic|def'', ''Epic|abc|0''])
      (sample_response (JInt 12)) = Some results"
    by blast
  with answers_fit_requests[OF this] run show ?thesis by auto
qed

text \<open>
  A value of an unexpected type in one entry's numbers loses the answers of the whole batch: the
  library throws, and the caller gets no result for any request.
\<close>

theorem bad_entry_loses_batch:
  assumes "req \<in> set reqs" "request_result reqs (Child resp ''players'') req = None"
    "Child resp ''error'' = None"
  shows "ParseCustomApiBatchResponse reqs resp = None"
  using assms by (simp add: ParseCustomApiBatchResponse_def all_results_None)

theorem bad_entry_loses_batch_witness:
  "ParseCustomApiBatchResponse (map sample_asked [''epic|abc'', ''epic|def'']) (sample_response JNull) = None \<and>
   map_option (map br_status) (ParseCustomApiBatchResponse (map sample_asked [''epic|abc'', ''epic|xyz''])
     (sample_response JNull)) = Some [Success, NotFound]"
proof -
  have parts: "request_result (map sample_asked [''epic|abc'', ''epic|def''])
      (Child (sample_response JNull) ''players'') (sample_asked ''epic|def'') = None"
    "Child (sample_response JNull) ''error'' = None"
    "map_option (map br_status) (ParseCustomApiBatchResponse (map sample_asked [''epic|abc'', ''epic|xyz''])
       (sample_response JNull)) = Some [Success, NotFound]"
    by code_simp+
  have "sample_asked ''epic|def'' \<in> set (map sample_asked [''epic|abc'', ''epic|def''])" by simp
  then show ?thesis using bad_entry_loses_batch parts by blast
qed

end
