(* ===== verification/Rating_Reconciler.thy ===== *)
theory Rating_Reconciler
  imports Rating_Detail Match_Types "HOL-Library.Sublist"
begin

text \<open>
  The reconciliation of finished matches with the ratings the services report
  (\<open>network/mmr/MmrReconciler.cpp\<close>): every match waits, in the order of its playlist, until a report
  covers it; then it gets its rating, and a match that was left early its result. Each method is one
  step under the reconciler's lock. Ratings and counts of matches stay far from the bounds of \<open>int\<close>.
\<close>

record MmrReconciler =
  mr_records :: "(string, PendingPostMatchRecord) umap"
  mr_pending :: "(string, string list) umap"
  mr_completed :: "string set"
  mr_baseline :: "(string, int) umap"
  mr_hasCallback :: bool

definition MmrReconciler0 :: MmrReconciler where
  "MmrReconciler0 =
     \<lparr>mr_records = [], mr_pending = [], mr_completed = {}, mr_baseline = [], mr_hasCallback = False\<rparr>"

record DbUpdate =
  db_matchGuid :: string
  db_primaryId :: string
  db_mmr :: int
  db_estimated :: bool

record ReconciledMatchUpdate =
  ru_matchGuid :: string
  ru_mmr :: int
  ru_matchesPlayed :: int
  ru_sessionStartMmr :: int
  ru_won :: bool
  ru_provisional :: bool
  ru_valueEstimated :: bool
  ru_databaseRowUpdated :: bool
  ru_inSession :: bool
  ru_sessionGeneration :: "64 word"

record ReconcilePublication =
  rp_primaryId :: string
  rp_playlist :: string
  rp_sessionGeneration :: "64 word"
  rp_updates :: "ReconciledMatchUpdate list"
  rp_hasRecapUpdate :: bool
  rp_recapLatestMmr :: int
  rp_currentSessionSeedMmr :: int
  rp_shouldUpdatePreMatchSnapshots :: bool
  rp_fetchedMatches :: int
  rp_protectedSnapshotGuids :: "string set"
  rp_pendingSessionGenerations :: "64 word set"

definition ReconcilePublication0 :: ReconcilePublication where
  "ReconcilePublication0 =
     \<lparr>rp_primaryId = [], rp_playlist = [], rp_sessionGeneration = 0, rp_updates = [],
      rp_hasRecapUpdate = False, rp_recapLatestMmr = 0, rp_currentSessionSeedMmr = 0,
      rp_shouldUpdatePreMatchSnapshots = False, rp_fetchedMatches = -1, rp_protectedSnapshotGuids = {},
      rp_pendingSessionGenerations = {}\<rparr>"

record ReconcileResult =
  rr_applied :: bool
  rr_publication :: ReconcilePublication
  rr_dbUpdates :: "DbUpdate list"
  rr_confirmations :: "(string \<times> bool) list"
  rr_callback :: bool
  rr_allPendingCovered :: bool
  rr_requestConfirmed :: bool

definition ReconcileResult0 :: ReconcileResult where
  "ReconcileResult0 =
     \<lparr>rr_applied = False, rr_publication = ReconcilePublication0, rr_dbUpdates = [],
      rr_confirmations = [], rr_callback = False, rr_allPendingCovered = False,
      rr_requestConfirmed = False\<rparr>"

record ProvisionalPublication =
  pp_primaryId :: string
  pp_playlist :: string
  pp_matchGuid :: string
  pp_sessionGeneration :: "64 word"
  pp_provisionalMmr :: int
  pp_sessionStartMmr :: int
  pp_matchesPlayed :: int
  pp_won :: bool
  pp_databaseRowUpdated :: bool
  pp_replaceExisting :: bool

definition ProvisionalPublication0 :: ProvisionalPublication where
  "ProvisionalPublication0 =
     \<lparr>pp_primaryId = [], pp_playlist = [], pp_matchGuid = [], pp_sessionGeneration = 0,
      pp_provisionalMmr = 0, pp_sessionStartMmr = 0, pp_matchesPlayed = -1, pp_won = False,
      pp_databaseRowUpdated = False, pp_replaceExisting = False\<rparr>"

record ProvisionalResult =
  vr_applied :: bool
  vr_publication :: ProvisionalPublication
  vr_dbUpdate :: "DbUpdate option"

definition ProvisionalResult0 :: ProvisionalResult where
  "ProvisionalResult0 = \<lparr>vr_applied = False, vr_publication = ProvisionalPublication0, vr_dbUpdate = None\<rparr>"

section \<open>Estimates\<close>

definition IsPostMatchMmrStale :: "int \<Rightarrow> int \<Rightarrow> int \<Rightarrow> int \<Rightarrow> bool" where
  "IsPostMatchMmrStale previousMmr fetchedMmr previousMatches fetchedMatches =
     (if fetchedMmr \<le> 0 then True
      else if 0 \<le> previousMatches \<and> 0 \<le> fetchedMatches then fetchedMatches \<le> previousMatches
      else if previousMmr \<le> 0 then True
      else fetchedMmr = previousMmr)"

definition CoveredPendingMatchCount :: "int \<Rightarrow> int \<Rightarrow> nat \<Rightarrow> nat" where
  "CoveredPendingMatchCount oldestPreviousMatches fetchedMatches pendingCount =
     (if oldestPreviousMatches < 0 \<or> fetchedMatches \<le> oldestPreviousMatches \<or> pendingCount = 0 then 0
      else min (nat (fetchedMatches - oldestPreviousMatches)) pendingCount)"

definition ResolvePostMatchBaseline :: "int \<Rightarrow> bool \<Rightarrow> fp list \<Rightarrow> int" where
  "ResolvePostMatchBaseline requestedPreviousMmr previousMmrIsPlaylistSpecific recentHistory =
     (if previousMmrIsPlaylistSpecific \<and> 0 < requestedPreviousMmr then requestedPreviousMmr
      else if recentHistory \<noteq> [] \<and> 0 < to_int32 (lround (last recentHistory))
      then to_int32 (lround (last recentHistory))
      else requestedPreviousMmr)"

definition median_delta :: "int list \<Rightarrow> int" where
  "median_delta deltas =
     (if deltas = [] then 9
      else
        let sorted = sort deltas;
            middle = length sorted div 2
        in if even (length sorted) then (sorted ! (middle - 1) + sorted ! middle) div 2 else sorted ! middle)"

definition EstimatePostMatchMmr :: "int \<Rightarrow> bool \<Rightarrow> fp list \<Rightarrow> int" where
  "EstimatePostMatchMmr previousMmr won recentHistory =
     (let baselineMmr = ResolvePostMatchBaseline previousMmr False recentHistory
      in if baselineMmr \<le> 0 then 0
         else
           let n = length recentHistory;
               firstIndex = (if 13 < n then n - 12 else 1);
               delta = (\<lambda>i. \<bar>to_int32 (lround (recentHistory ! i)) - to_int32 (lround (recentHistory ! (i - 1)))\<bar>);
               deltas = filter (\<lambda>d. 3 \<le> d \<and> d \<le> 15) (map delta [firstIndex..<n]);
               estimatedDelta = median_delta deltas
           in max 1 (baselineMmr + (if won then estimatedDelta else - estimatedDelta)))"

section \<open>Enqueueing\<close>

definition PendingPostMatchKey :: "string \<Rightarrow> string \<Rightarrow> string" where
  "PendingPostMatchKey primaryId playlist = primaryId @ ''|'' @ playlist"

definition pending_list :: "MmrReconciler \<Rightarrow> string \<Rightarrow> string list" where
  "pending_list mr key = (case map_of (mr_pending mr) key of None \<Rightarrow> [] | Some guids \<Rightarrow> guids)"

definition ResetPublicationBaselineForCounterRollback ::
  "string \<Rightarrow> string \<Rightarrow> int \<Rightarrow> MmrReconciler \<Rightarrow> MmrReconciler" where
  "ResetPublicationBaselineForCounterRollback primaryId playlist previousMatches mr =
     (if playlist = [] \<or> previousMatches < 0 then mr
      else
        let key = PendingPostMatchKey primaryId playlist
        in if pending_list mr key \<noteq> [] then mr
           else case map_of (mr_baseline mr) key of
                  None \<Rightarrow> mr
                | Some baseline \<Rightarrow>
                    if previousMatches < baseline - 1
                    then mr\<lparr>mr_baseline := um_put key previousMatches (mr_baseline mr)\<rparr> else mr)"

definition follows_previous_session :: "string list \<Rightarrow> 64 word \<Rightarrow> MmrReconciler \<Rightarrow> bool" where
  "follows_previous_session guids generation mr =
     list_ex (\<lambda>guid. case map_of (mr_records mr) guid of
                None \<Rightarrow> False
              | Some r \<Rightarrow> pm_sessionGeneration r \<noteq> generation) guids"

text \<open>What both ways in share: the record goes in and its guid to the end of its playlist's list.\<close>

definition enqueue_record :: "PendingPostMatchRecord \<Rightarrow> MmrReconciler \<Rightarrow> MmrReconciler" where
  "enqueue_record r mr =
     (if um_has (mr_records mr) (pm_matchGuid r) \<or> pm_matchGuid r \<in> mr_completed mr then mr
      else
        let mr = ResetPublicationBaselineForCounterRollback (pm_primaryId r) (pm_playlist r)
                   (pm_preMatchMatchesPlayed r) mr;
            key = PendingPostMatchKey (pm_primaryId r) (pm_playlist r);
            guids = pending_list mr key;
            r = r\<lparr>pm_followsPreviousSessionMatch := follows_previous_session guids (pm_sessionGeneration r) mr\<rparr>
        in mr\<lparr>mr_records := um_emplace (pm_matchGuid r) r (mr_records mr),
              mr_pending := um_put key (guids @ [pm_matchGuid r]) (mr_pending mr)\<rparr>)"

definition Reconciler_EnqueuePostMatch ::
  "string \<Rightarrow> string \<Rightarrow> string \<Rightarrow> int \<Rightarrow> int \<Rightarrow> bool \<Rightarrow> bool \<Rightarrow> 64 word \<Rightarrow> MmrReconciler \<Rightarrow> MmrReconciler" where
  "Reconciler_EnqueuePostMatch primaryId guid playlist previousMmr previousMatches specific won
     generation mr =
     enqueue_record (PendingPostMatchRecord0\<lparr>pm_matchGuid := guid, pm_primaryId := primaryId,
       pm_playlist := playlist, pm_preMatchMmr := previousMmr,
       pm_preMatchMatchesPlayed := previousMatches, pm_preMatchMmrIsPlaylistSpecific := specific,
       pm_won := won, pm_resultKnown := True, pm_sessionGeneration := generation\<rparr>) mr"

definition Reconciler_EnqueuePendingDestroyedMatch ::
  "PendingDestroyedMatchMmrRefresh \<Rightarrow> 64 word \<Rightarrow> MmrReconciler \<Rightarrow> MmrReconciler" where
  "Reconciler_EnqueuePendingDestroyedMatch p generation mr =
     enqueue_record (PendingPostMatchRecord0\<lparr>pm_matchGuid := pdr_matchGuid p,
       pm_primaryId := pdr_primaryId p, pm_playlist := pdr_playlist p,
       pm_preMatchMmr := pdr_previousMmr p, pm_preMatchMatchesPlayed := pdr_previousMatches p,
       pm_preMatchMmrIsPlaylistSpecific := pdr_previousMmrIsPlaylistSpecific p, pm_won := False,
       pm_resultKnown := False, pm_destroyedMatch := True,
       pm_localPlayerDisappeared := pdr_localPlayerDisappeared p,
       pm_explicitLocalForfeit := pdr_explicitLocalForfeit p, pm_localTeam := pdr_localTeam p,
       pm_score := pdr_score p, pm_destroyedAtUnixMs := pdr_destroyedAtUnixMs p,
       pm_validCompetitiveMatch := pdr_validCompetitiveMatch p, pm_databaseMatchFinalized := False,
       pm_sessionGeneration := generation\<rparr>) mr"

text \<open>A change to a record that is there.\<close>

definition update_record ::
  "string \<Rightarrow> (PendingPostMatchRecord \<Rightarrow> PendingPostMatchRecord) \<Rightarrow> (string, PendingPostMatchRecord) umap
     \<Rightarrow> (string, PendingPostMatchRecord) umap" where
  "update_record guid f records =
     (case map_of records guid of None \<Rightarrow> records | Some r \<Rightarrow> um_put guid (f r) records)"

definition ResolvePendingDestroyedMatch :: "string \<Rightarrow> bool \<Rightarrow> MmrReconciler \<Rightarrow> MmrReconciler" where
  "ResolvePendingDestroyedMatch guid won mr =
     mr\<lparr>mr_records := update_record guid
         (\<lambda>r. if pm_destroyedMatch r
              then r\<lparr>pm_won := won, pm_resultKnown := True, pm_databaseMatchFinalized := True\<rparr> else r)
         (mr_records mr)\<rparr>"

section \<open>Looking\<close>

definition HasPendingDestroyedMatch :: "string \<Rightarrow> MmrReconciler \<Rightarrow> bool" where
  "HasPendingDestroyedMatch guid mr =
     (case map_of (mr_records mr) guid of
        None \<Rightarrow> False | Some r \<Rightarrow> pm_destroyedMatch r \<and> \<not> pm_databaseMatchFinalized r)"

definition PendingPlaylistCount :: "string \<Rightarrow> string \<Rightarrow> MmrReconciler \<Rightarrow> nat" where
  "PendingPlaylistCount primaryId playlist mr =
     length (pending_list mr (PendingPostMatchKey primaryId playlist))"

definition GetRecord :: "string \<Rightarrow> MmrReconciler \<Rightarrow> PendingPostMatchRecord option" where
  "GetRecord guid mr = map_of (mr_records mr) guid"

definition IsCompletedPostMatch :: "string \<Rightarrow> MmrReconciler \<Rightarrow> bool" where
  "IsCompletedPostMatch guid mr = (guid \<in> mr_completed mr)"

definition pending_request ::
  "string \<Rightarrow> 64 word \<Rightarrow> MmrReconciler \<Rightarrow> string list \<Rightarrow> MMRRequest option" where
  "pending_request primaryId generation mr guids =
     (case guids of
        [] \<Rightarrow> None
      | guid # _ \<Rightarrow>
          (case map_of (mr_records mr) guid of
             None \<Rightarrow> None
           | Some r \<Rightarrow>
               if pm_primaryId r \<noteq> primaryId \<or> generation < pm_sessionGeneration r then None
               else Some (MMRRequest0\<lparr>rq_primaryId := pm_primaryId r, rq_matchGuid := pm_matchGuid r,
                 rq_playlist := pm_playlist r, rq_previousMmr := pm_preMatchMmr r,
                 rq_previousMatches := pm_preMatchMatchesPlayed r,
                 rq_previousMmrIsPlaylistSpecific := pm_preMatchMmrIsPlaylistSpecific r,
                 rq_won := pm_won r, rq_resultKnown := pm_resultKnown r,
                 rq_sessionGeneration := generation\<rparr>)))"

definition PendingRequestsForPlayer :: "string \<Rightarrow> 64 word \<Rightarrow> MmrReconciler \<Rightarrow> MMRRequest list" where
  "PendingRequestsForPlayer primaryId generation mr =
     List.map_filter (\<lambda>(key, guids). pending_request primaryId generation mr guids) (mr_pending mr)"

definition PendingGuidsForPlayer :: "string \<Rightarrow> MmrReconciler \<Rightarrow> string list" where
  "PendingGuidsForPlayer primaryId mr =
     map fst (filter (\<lambda>(guid, r). pm_primaryId r = primaryId) (mr_records mr))"

definition AdoptCachedPreMatchBaseline :: "string \<Rightarrow> int \<Rightarrow> int \<Rightarrow> int \<Rightarrow> MmrReconciler \<Rightarrow> MmrReconciler" where
  "AdoptCachedPreMatchBaseline guid cachedMmr cachedMatches fetchedMatches mr =
     (if cachedMmr \<le> 0 \<or> cachedMatches < 0 \<or> fetchedMatches < 0 then mr
      else case map_of (mr_records mr) guid of
        None \<Rightarrow> mr
      | Some request \<Rightarrow>
          let guids = pending_list mr (PendingPostMatchKey (pm_primaryId request) (pm_playlist request))
          in (case guids of
                [] \<Rightarrow> mr
              | guid # _ \<Rightarrow>
                  let advanced = fetchedMatches - cachedMatches
                  in mr\<lparr>mr_records := update_record guid
                       (\<lambda>r. if 0 \<le> pm_preMatchMatchesPlayed r \<or> 0 \<le> pm_firstObservedMatchesPlayed r \<or>
                               (pm_preMatchMmrIsPlaylistSpecific r \<and> 0 < pm_preMatchMmr r) \<or>
                               advanced < 0 \<or> int (length guids) < advanced
                            then r
                            else r\<lparr>pm_preMatchMmr := cachedMmr, pm_preMatchMatchesPlayed := cachedMatches,
                                   pm_preMatchMmrIsPlaylistSpecific := True\<rparr>)
                       (mr_records mr)\<rparr>))"

section \<open>A report\<close>

text \<open>The number of matches known to be counted before the oldest pending match, \<open>-1\<close> if none is known.\<close>

definition publication_baseline :: "string \<Rightarrow> PendingPostMatchRecord \<Rightarrow> MmrReconciler \<Rightarrow> int" where
  "publication_baseline key oldest mr =
     (let b = (if 0 \<le> pm_preMatchMatchesPlayed oldest then pm_preMatchMatchesPlayed oldest else -1);
          b = (if 0 \<le> pm_firstObservedMatchesPlayed oldest
               then max b (pm_firstObservedMatchesPlayed oldest) else b)
      in case map_of (mr_baseline mr) key of None \<Rightarrow> b | Some m \<Rightarrow> max b m)"

definition rating_baseline :: "PendingPostMatchRecord \<Rightarrow> int" where
  "rating_baseline oldest =
     (if 0 < pm_firstObservedMmr oldest then pm_firstObservedMmr oldest
      else if pm_preMatchMmrIsPlaylistSpecific oldest \<and> 0 < pm_preMatchMmr oldest
      then pm_preMatchMmr oldest else 0)"

definition covered_count :: "int \<Rightarrow> int \<Rightarrow> int \<Rightarrow> PendingPostMatchRecord \<Rightarrow> nat \<Rightarrow> nat" where
  "covered_count baseline fetchedMmr fetchedMatches oldest pendingCount =
     (if 0 \<le> baseline \<and> 0 \<le> fetchedMatches
      then CoveredPendingMatchCount baseline fetchedMatches pendingCount
      else if \<not> IsPostMatchMmrStale (rating_baseline oldest) fetchedMmr (-1) (-1) then 1
      else 0)"

definition raise_baseline :: "string \<Rightarrow> int \<Rightarrow> MmrReconciler \<Rightarrow> MmrReconciler" where
  "raise_baseline key matches mr =
     mr\<lparr>mr_baseline := um_put key
         (case map_of (mr_baseline mr) key of None \<Rightarrow> matches | Some m \<Rightarrow> max m matches) (mr_baseline mr)\<rparr>"

text \<open>A report that covers nothing is noted for the next one.\<close>

definition observe :: "string \<Rightarrow> string \<Rightarrow> int \<Rightarrow> int \<Rightarrow> MmrReconciler \<Rightarrow> MmrReconciler" where
  "observe key guid fetchedMmr fetchedMatches mr =
     (let mr = mr\<lparr>mr_records := update_record guid
            (\<lambda>r. let r = (if 0 < fetchedMmr then r\<lparr>pm_firstObservedMmr := fetchedMmr\<rparr> else r)
                 in if 0 \<le> fetchedMatches
                    then r\<lparr>pm_firstObservedMatchesPlayed := max (pm_firstObservedMatchesPlayed r) fetchedMatches\<rparr>
                    else r) (mr_records mr)\<rparr>
      in if 0 \<le> fetchedMatches then raise_baseline key fetchedMatches mr else mr)"

text \<open>The last match covered and the first one not covered started from the same count of matches.\<close>

definition ambiguous_cut :: "(string, PendingPostMatchRecord) umap \<Rightarrow> string list \<Rightarrow> nat \<Rightarrow> bool" where
  "ambiguous_cut records guids covered =
     (covered < length guids \<and>
      (case (map_of records (guids ! (covered - 1)), map_of records (guids ! covered)) of
         (Some lastCovered, Some firstUncovered) \<Rightarrow>
           0 \<le> pm_preMatchMatchesPlayed lastCovered \<and>
           pm_preMatchMatchesPlayed lastCovered = pm_preMatchMatchesPlayed firstUncovered
       | _ \<Rightarrow> False))"

section \<open>Results of matches left early\<close>

definition set_result :: "bool \<Rightarrow> PendingPostMatchRecord \<Rightarrow> PendingPostMatchRecord" where
  "set_result won r = r\<lparr>pm_won := won, pm_resultKnown := True\<rparr>"

definition unknown_result :: "(string, PendingPostMatchRecord) umap \<Rightarrow> string \<Rightarrow> bool" where
  "unknown_result records guid =
     (case map_of records guid of
        None \<Rightarrow> False | Some r \<Rightarrow> pm_destroyedMatch r \<and> \<not> pm_resultKnown r)"

definition settle_forfeit :: "string \<Rightarrow> (string, PendingPostMatchRecord) umap \<Rightarrow> (string, PendingPostMatchRecord) umap" where
  "settle_forfeit guid records =
     (if unknown_result records guid
      then update_record guid (\<lambda>r. if pm_explicitLocalForfeit r then set_result False r else r) records
      else records)"

text \<open>The results a choice of the unknown ones (\<open>assignment\<close>, bit by bit) gives the covered matches.\<close>

fun candidate_results ::
  "(string, PendingPostMatchRecord) umap \<Rightarrow> nat \<Rightarrow> nat \<Rightarrow> string list \<Rightarrow> bool list" where
  "candidate_results records assignment unknownOffset [] = []"
| "candidate_results records assignment unknownOffset (guid # guids) =
     (case map_of records guid of
        None \<Rightarrow> False # candidate_results records assignment unknownOffset guids
      | Some r \<Rightarrow>
          if pm_resultKnown r then pm_won r # candidate_results records assignment unknownOffset guids
          else odd (assignment div 2 ^ unknownOffset) #
            candidate_results records assignment (Suc unknownOffset) guids)"

definition feasible ::
  "int \<Rightarrow> int \<Rightarrow> (string, PendingPostMatchRecord) umap \<Rightarrow> string list \<Rightarrow> nat \<Rightarrow> bool" where
  "feasible preMatchMmr fetchedMmr records guids assignment =
     (length (BuildDirectionalMmrPath preMatchMmr fetchedMmr
        (candidate_results records assignment 0 guids)) = length guids)"

text \<open>\<open>-1\<close>: no choice seen; 0 and 1: all agree; 2: they differ.\<close>

definition tally :: "int \<Rightarrow> int \<Rightarrow> int" where
  "tally seen candidate = (if seen = -1 then candidate else if seen \<noteq> candidate then 2 else seen)"

definition unanimous :: "nat list \<Rightarrow> nat \<Rightarrow> int" where
  "unanimous assignments offset =
     foldl (\<lambda>seen a. tally seen (if odd (a div 2 ^ offset) then 1 else 0)) (-1) assignments"

definition settle_unanimous ::
  "nat list \<Rightarrow> (string \<times> nat) \<Rightarrow> (string, PendingPostMatchRecord) umap \<Rightarrow> (string, PendingPostMatchRecord) umap" where
  "settle_unanimous assignments g records =
     (case g of (guid, offset) \<Rightarrow>
       let verdict = unanimous assignments offset
       in if verdict = 0 \<or> verdict = 1 then update_record guid (set_result (verdict = 1)) records else records)"

definition settle_by_rating ::
  "bool \<Rightarrow> PendingPostMatchRecord \<Rightarrow> int \<Rightarrow> string list \<Rightarrow> string list
     \<Rightarrow> (string, PendingPostMatchRecord) umap \<Rightarrow> (string, PendingPostMatchRecord) umap" where
  "settle_by_rating callback oldest fetchedMmr covered unknown records =
     (if unknown \<noteq> [] \<and> callback \<and> pm_preMatchMmrIsPlaylistSpecific oldest \<and> 0 < pm_preMatchMmr oldest \<and>
         0 < fetchedMmr \<and> length unknown < 16
      then fold (settle_unanimous
             (filter (feasible (pm_preMatchMmr oldest) fetchedMmr records covered) [0..<2 ^ length unknown]))
             (zip unknown [0..<length unknown]) records
      else records)"

definition result_by_score :: "PendingPostMatchRecord \<Rightarrow> PendingPostMatchRecord" where
  "result_by_score r =
     (if pm_resultKnown r then r
      else if pm_localPlayerDisappeared r then set_result False r
      else case pm_score r of (s0, s1) \<Rightarrow>
        if (pm_localTeam r \<noteq> 0 \<and> pm_localTeam r \<noteq> 1) \<or> s0 = s1 then r
        else set_result (if pm_localTeam r = 0 then s1 < s0 else s0 < s1) r)"

definition settle_by_score ::
  "bool \<Rightarrow> string list \<Rightarrow> (string, PendingPostMatchRecord) umap \<Rightarrow> (string, PendingPostMatchRecord) umap" where
  "settle_by_score callback unknown records =
     (if callback then fold (\<lambda>guid. update_record guid result_by_score) unknown records else records)"

definition settle_results ::
  "bool \<Rightarrow> PendingPostMatchRecord \<Rightarrow> int \<Rightarrow> string list
     \<Rightarrow> (string, PendingPostMatchRecord) umap \<Rightarrow> (string, PendingPostMatchRecord) umap" where
  "settle_results callback oldest fetchedMmr covered records =
     (let records = fold settle_forfeit covered records;
          unknown = filter (unknown_result records) covered
      in settle_by_score callback unknown (settle_by_rating callback oldest fetchedMmr covered unknown records))"

definition all_results_known :: "(string, PendingPostMatchRecord) umap \<Rightarrow> string list \<Rightarrow> bool" where
  "all_results_known records covered =
     list_all (\<lambda>guid. case map_of records guid of None \<Rightarrow> False | Some r \<Rightarrow> pm_resultKnown r) covered"

section \<open>The path to the reported rating\<close>

definition path_baseline ::
  "PendingPostMatchRecord \<Rightarrow> 64 word \<Rightarrow> string list \<Rightarrow> fp list \<Rightarrow> SessionMmrPoint list option \<Rightarrow> int \<Rightarrow> int" where
  "path_baseline oldest generation guids historyY points sessionInitialMmr =
     (let b = (if pm_preMatchMmrIsPlaylistSpecific oldest then pm_preMatchMmr oldest else 0)
      in if pm_sessionGeneration oldest \<noteq> generation then b
         else
           let earliest = fold min (map mp_historyIndex (filter (\<lambda>pt. mp_matchGuid pt \<in> set guids)
                            (case points of None \<Rightarrow> [] | Some ps \<Rightarrow> ps))) (length historyY);
               b = (if 0 < earliest \<and> earliest \<le> length historyY
                    then to_int32 (lround (historyY ! (earliest - 1))) else b)
           in if b \<le> 0 then sessionInitialMmr else b)"

definition point_of :: "SessionMmrPoint list option \<Rightarrow> string \<Rightarrow> SessionMmrPoint option" where
  "point_of points guid =
     (case points of None \<Rightarrow> None | Some ps \<Rightarrow> find (\<lambda>pt. mp_matchGuid pt = guid) ps)"

definition covered_result :: "(string, PendingPostMatchRecord) umap \<Rightarrow> bool \<Rightarrow> nat \<Rightarrow> string \<Rightarrow> bool" where
  "covered_result records won index guid =
     (case map_of records guid of Some r \<Rightarrow> pm_won r | None \<Rightarrow> (if index = 0 then won else True))"

fun estimated_path :: "SessionMmrPoint list option \<Rightarrow> int \<Rightarrow> (string \<times> bool) list \<Rightarrow> int list" where
  "estimated_path points lastEstimated [] = []"
| "estimated_path points lastEstimated ((guid, won) # rest) =
     (let synthesized = lastEstimated + (if won then 9 else -9);
          synthesized = (if synthesized \<le> 0 then max 1 lastEstimated else synthesized);
          mmr = (case point_of points guid of
                   Some pt \<Rightarrow> if 0 < mp_mmr pt \<and> mp_valueEstimated pt then mp_mmr pt else synthesized
                 | None \<Rightarrow> synthesized)
      in mmr # estimated_path points mmr rest)"

section \<open>Confirmation\<close>

text \<open>What the confirmation loop reads besides its state.\<close>

record Report =
  rt_request :: MMRRequest
  rt_fetchedMmr :: int
  rt_fetchedMatches :: int
  rt_historyY :: "fp list"
  rt_generation :: "64 word"
  rt_points :: "SessionMmrPoint list option"
  rt_baseline :: int
  rt_covered :: nat
  rt_path :: "int list"

record Confirmation =
  cn_mr :: MmrReconciler
  cn_result :: ReconcileResult
  cn_chainMmr :: int
  cn_recapLatestMmr :: int

definition resolved_mmr :: "Report \<Rightarrow> nat \<Rightarrow> string \<Rightarrow> PendingPostMatchRecord \<Rightarrow> int \<Rightarrow> int" where
  "resolved_mmr rt index guid r chainMmr =
     (let inSession = (pm_sessionGeneration r = rt_generation rt);
          estimate = EstimatePostMatchMmr chainMmr (pm_won r) (rt_historyY rt);
          mmr = (if rt_covered rt \<le> index + 1 then rt_fetchedMmr rt
                 else if length (rt_path rt) = rt_covered rt then rt_path rt ! index
                 else if inSession \<and> rt_points rt \<noteq> None
                 then (case point_of (rt_points rt) guid of
                         Some pt \<Rightarrow> if 0 < mp_mmr pt then mp_mmr pt else estimate
                       | None \<Rightarrow> estimate)
                 else estimate)
      in if mmr \<le> 0 then max 1 chainMmr else mmr)"

definition confirmed_record :: "Report \<Rightarrow> nat \<Rightarrow> int \<Rightarrow> int \<Rightarrow> PendingPostMatchRecord \<Rightarrow> PendingPostMatchRecord" where
  "confirmed_record rt index mmr matchesPlayed r =
     r\<lparr>pm_firstObservedMmr := mmr, pm_firstObservedMatchesPlayed := matchesPlayed, pm_provisionalMmr := mmr,
       pm_graphPointAppended := True, pm_databaseRowUpdated := True, pm_trackerCovered := True,
       pm_valueEstimated := (index + 1 < rt_covered rt), pm_reconciliationState := Confirmed,
       pm_databaseMatchFinalized := (pm_databaseMatchFinalized r \<or> pm_destroyedMatch r)\<rparr>"

definition match_update :: "Report \<Rightarrow> nat \<Rightarrow> string \<Rightarrow> PendingPostMatchRecord \<Rightarrow> int \<Rightarrow> int \<Rightarrow> ReconciledMatchUpdate" where
  "match_update rt index guid r mmr matchesPlayed =
     (let countProvesCurrent = (0 \<le> pm_preMatchMatchesPlayed r \<and> 0 \<le> rt_baseline rt \<and>
            pm_preMatchMatchesPlayed r = rt_baseline rt + int index)
      in \<lparr>ru_matchGuid = guid, ru_mmr = mmr, ru_matchesPlayed = matchesPlayed,
          ru_sessionStartMmr =
            (if pm_preMatchMmrIsPlaylistSpecific r \<and> 0 < pm_preMatchMmr r \<and>
                (\<not> pm_followsPreviousSessionMatch r \<or> countProvesCurrent)
             then pm_preMatchMmr r else 0),
          ru_won = pm_won r, ru_provisional = False, ru_valueEstimated = (index + 1 < rt_covered rt),
          ru_databaseRowUpdated = True, ru_inSession = (pm_sessionGeneration r = rt_generation rt),
          ru_sessionGeneration = pm_sessionGeneration r\<rparr>)"

definition confirm_match :: "Report \<Rightarrow> nat \<times> string \<Rightarrow> Confirmation \<Rightarrow> Confirmation" where
  "confirm_match rt g c =
     (case g of (index, guid) \<Rightarrow>
      (case map_of (mr_records (cn_mr c)) guid of
         None \<Rightarrow> c
       | Some r \<Rightarrow>
           let mmr = resolved_mmr rt index guid r (cn_chainMmr c);
               matchesPlayed = (if 0 \<le> rt_baseline rt then rt_baseline rt + int index + 1
                                else rt_fetchedMatches rt);
               result = cn_result c;
               publication = rr_publication result
           in \<lparr>cn_mr = (cn_mr c)\<lparr>mr_records :=
                   um_put guid (confirmed_record rt index mmr matchesPlayed r) (mr_records (cn_mr c)),
                   mr_completed := insert guid (mr_completed (cn_mr c))\<rparr>,
               cn_result = result\<lparr>
                   rr_publication := publication\<lparr>rp_updates :=
                     rp_updates publication @ [match_update rt index guid r mmr matchesPlayed]\<rparr>,
                   rr_dbUpdates := rr_dbUpdates result @
                     [\<lparr>db_matchGuid = guid, db_primaryId = pm_primaryId r, db_mmr = mmr,
                       db_estimated = (index + 1 < rt_covered rt)\<rparr>],
                   rr_confirmations := rr_confirmations result @
                     (if pm_destroyedMatch r \<and> \<not> pm_databaseMatchFinalized r then [(guid, pm_won r)] else []),
                   rr_requestConfirmed :=
                     (rr_requestConfirmed result \<or> guid = rq_matchGuid (rt_request rt))\<rparr>,
               cn_chainMmr = mmr,
               cn_recapLatestMmr = (if pm_sessionGeneration r = rt_generation rt then cn_recapLatestMmr c
                                    else mmr)\<rparr>))"

definition carry_over :: "int \<Rightarrow> int \<Rightarrow> string \<Rightarrow> (string, PendingPostMatchRecord) umap \<Rightarrow> (string, PendingPostMatchRecord) umap" where
  "carry_over fetchedMmr carried guid records =
     update_record guid
       (\<lambda>r. let r = r\<lparr>pm_firstObservedMmr := fetchedMmr\<rparr>
            in if 0 \<le> carried
               then r\<lparr>pm_firstObservedMatchesPlayed := max (pm_firstObservedMatchesPlayed r) carried\<rparr> else r)
       records"

definition generation_of :: "(string, PendingPostMatchRecord) umap \<Rightarrow> string \<Rightarrow> 64 word option" where
  "generation_of records guid = map_option pm_sessionGeneration (map_of records guid)"

text \<open>
  What follows the loop: the covered matches leave, the others learn what the report said, and the
  publication is completed.
\<close>

definition finish_report ::
  "Report \<Rightarrow> string \<Rightarrow> string list \<Rightarrow> string \<Rightarrow> bool \<Rightarrow> bool \<Rightarrow> Confirmation \<Rightarrow> ReconcileResult \<times> MmrReconciler" where
  "finish_report rt key guids localId playing finalized c =
     (let covered = take (rt_covered rt) guids;
          rest = drop (rt_covered rt) guids;
          records = mr_records (cn_mr c);
          result = cn_result c;
          publication = rr_publication result;
          stillPending = list_ex (\<lambda>g. case generation_of records g of
                             None \<Rightarrow> False | Some gen \<Rightarrow> gen \<noteq> rt_generation rt) rest;
          publication = (if 0 < cn_recapLatestMmr c \<and> \<not> stillPending \<and> rp_updates publication \<noteq> [] \<and>
                            \<not> ru_inSession (last (rp_updates publication))
                         then publication\<lparr>rp_currentSessionSeedMmr := cn_recapLatestMmr c\<rparr>
                         else publication);
          allPendingCovered = (rest = []);
          carried = (if 0 \<le> rt_fetchedMatches rt then rt_fetchedMatches rt
                     else if 0 \<le> rt_baseline rt then rt_baseline rt + int (rt_covered rt) else -1);
          mr = (if 0 \<le> carried then raise_baseline key carried (cn_mr c) else cn_mr c);
          publication = publication\<lparr>rp_pendingSessionGenerations :=
            rp_pendingSessionGenerations publication \<union>
            set (List.map_filter (generation_of records) rest)\<rparr>;
          records = fold (carry_over (rt_fetchedMmr rt) carried) rest records;
          records = fold um_erase covered records;
          mr = mr\<lparr>mr_records := records,
                  mr_pending := (if allPendingCovered then um_erase key (mr_pending mr)
                                 else um_put key rest (mr_pending mr))\<rparr>;
          update = (allPendingCovered \<and> 0 \<le> rt_fetchedMatches rt \<and> playing \<and> \<not> finalized \<and>
                    rq_primaryId (rt_request rt) = localId);
          publication = publication\<lparr>rp_shouldUpdatePreMatchSnapshots := update,
            rp_protectedSnapshotGuids :=
              (if update then mr_completed mr \<union> fst ` set (mr_records mr)
               else rp_protectedSnapshotGuids publication)\<rparr>
      in (result\<lparr>rr_applied := True, rr_publication := publication, rr_callback := mr_hasCallback mr,
                 rr_allPendingCovered := allPendingCovered\<rparr>, mr))"

definition confirm_covered ::
  "Report \<Rightarrow> string \<Rightarrow> string list \<Rightarrow> int \<Rightarrow> MmrReconciler \<Rightarrow> Confirmation" where
  "confirm_covered rt key guids pathBaselineMmr mr =
     fold (confirm_match rt) (zip [0..<rt_covered rt] (take (rt_covered rt) guids))
       \<lparr>cn_mr = mr,
        cn_result = ReconcileResult0\<lparr>rr_publication := ReconcilePublication0\<lparr>
          rp_primaryId := rq_primaryId (rt_request rt), rp_playlist := rq_playlist (rt_request rt),
          rp_sessionGeneration := rt_generation rt, rp_fetchedMatches := rt_fetchedMatches rt\<rparr>\<rparr>,
        cn_chainMmr = pathBaselineMmr, cn_recapLatestMmr = 0\<rparr>"

text \<open>The covered matches have their results: the path is made and they are confirmed.\<close>

definition confirm_report ::
  "MMRRequest \<Rightarrow> int \<Rightarrow> int \<Rightarrow> fp list \<Rightarrow> 64 word \<Rightarrow> string \<Rightarrow> bool \<Rightarrow> bool \<Rightarrow> SessionMmrPoint list option \<Rightarrow> int
     \<Rightarrow> string \<Rightarrow> string list \<Rightarrow> PendingPostMatchRecord \<Rightarrow> int \<Rightarrow> nat \<Rightarrow> MmrReconciler
     \<Rightarrow> ReconcileResult \<times> MmrReconciler" where
  "confirm_report req fetchedMmr fetchedMatches historyY generation localId playing finalized
     points sessionInitialMmr key guids oldest baseline covered mr =
     (let pathBaselineMmr = path_baseline oldest generation guids historyY points sessionInitialMmr;
          coveredGuids = take covered guids;
          results = map (\<lambda>(index, guid). covered_result (mr_records mr) (rq_won req) index guid)
                      (zip [0..<covered] coveredGuids);
          path = ReconcileEstimatedPath pathBaselineMmr fetchedMmr
                   (estimated_path points pathBaselineMmr (zip coveredGuids results)) results;
          rt = \<lparr>rt_request = req, rt_fetchedMmr = fetchedMmr, rt_fetchedMatches = fetchedMatches,
                rt_historyY = historyY, rt_generation = generation, rt_points = points,
                rt_baseline = baseline, rt_covered = covered, rt_path = path\<rparr>
      in finish_report rt key guids localId playing finalized
           (confirm_covered rt key guids pathBaselineMmr mr))"

definition settle_covered :: "PendingPostMatchRecord \<Rightarrow> int \<Rightarrow> string list \<Rightarrow> MmrReconciler \<Rightarrow> MmrReconciler" where
  "settle_covered oldest fetchedMmr covered mr =
     mr\<lparr>mr_records := settle_results (mr_hasCallback mr) oldest fetchedMmr covered (mr_records mr)\<rparr>"

text \<open>A report for a list with an oldest match.\<close>

definition reconcile_oldest ::
  "MMRRequest \<Rightarrow> int \<Rightarrow> int \<Rightarrow> fp list \<Rightarrow> 64 word \<Rightarrow> string \<Rightarrow> bool \<Rightarrow> bool \<Rightarrow> SessionMmrPoint list option \<Rightarrow> int
     \<Rightarrow> string \<Rightarrow> string list \<Rightarrow> PendingPostMatchRecord \<Rightarrow> MmrReconciler \<Rightarrow> ReconcileResult \<times> MmrReconciler" where
  "reconcile_oldest req fetchedMmr fetchedMatches historyY generation localId playing finalized points
     sessionInitialMmr key guids oldest mr =
     (let baseline = publication_baseline key oldest mr;
          covered = covered_count baseline fetchedMmr fetchedMatches oldest (length guids)
      in if covered = 0 then (ReconcileResult0, observe key (hd guids) fetchedMmr fetchedMatches mr)
         else if 0 \<le> baseline \<and> 0 \<le> fetchedMatches \<and> ambiguous_cut (mr_records mr) guids covered
         then (ReconcileResult0, mr)
         else
           let mr = settle_covered oldest fetchedMmr (take covered guids) mr
           in if \<not> all_results_known (mr_records mr) (take covered guids)
              then (ReconcileResult0, mr)
              else confirm_report req fetchedMmr fetchedMatches historyY generation localId
                     playing finalized points sessionInitialMmr key guids oldest baseline covered mr)"

definition ReconcileTrackerResponse ::
  "MMRRequest \<Rightarrow> int \<Rightarrow> int \<Rightarrow> fp list \<Rightarrow> 64 word \<Rightarrow> string \<Rightarrow> bool \<Rightarrow> bool \<Rightarrow> SessionMmrPoint list option \<Rightarrow> int
     \<Rightarrow> MmrReconciler \<Rightarrow> ReconcileResult \<times> MmrReconciler" where
  "ReconcileTrackerResponse req fetchedMmr fetchedMatches historyY generation localId playing
     finalized points sessionInitialMmr mr =
     (if fetchedMmr \<le> 0 \<or> rq_playlist req = [] then (ReconcileResult0, mr)
      else
        let key = PendingPostMatchKey (rq_primaryId req) (rq_playlist req);
            guids = pending_list mr key
        in if guids = []
           then (ReconcileResult0\<lparr>rr_requestConfirmed := (rq_matchGuid req \<in> mr_completed mr)\<rparr>, mr)
           else case map_of (mr_records mr) (hd guids) of
             None \<Rightarrow> (ReconcileResult0, mr)
           | Some oldest \<Rightarrow>
               reconcile_oldest req fetchedMmr fetchedMatches historyY generation localId playing
                 finalized points sessionInitialMmr key guids oldest mr)"

section \<open>Provisional ratings\<close>

definition first_observation :: "int \<Rightarrow> int \<Rightarrow> PendingPostMatchRecord \<Rightarrow> PendingPostMatchRecord" where
  "first_observation fetchedMmr fetchedMatches r =
     (let r = (if pm_firstObservedMmr r \<le> 0 \<and> 0 < fetchedMmr then r\<lparr>pm_firstObservedMmr := fetchedMmr\<rparr> else r)
      in if pm_firstObservedMatchesPlayed r < 0 \<and> pm_preMatchMatchesPlayed r < 0 \<and> 0 \<le> fetchedMatches
         then r\<lparr>pm_firstObservedMatchesPlayed := fetchedMatches\<rparr> else r)"

text \<open>The rating to start from, and whether the result may be counted on top of it.\<close>

definition provisional_baseline ::
  "PendingPostMatchRecord \<Rightarrow> int \<Rightarrow> int \<Rightarrow> fp list \<Rightarrow> int \<Rightarrow> int \<times> bool" where
  "provisional_baseline r baselineMmr fetchedMmr historyY sessionInitialMmr =
     (let specific = (pm_preMatchMmrIsPlaylistSpecific r \<and> 0 < pm_preMatchMmr r);
          b = (if specific then pm_preMatchMmr r else baselineMmr);
          can = (pm_resultKnown r \<and> pm_preMatchMmrIsPlaylistSpecific r \<and> 0 < b);
          (b, can) = (if historyY \<noteq> [] \<and> 0 < to_int32 (lround (last historyY))
                      then (to_int32 (lround (last historyY)), True) else (b, can));
          (b, can) = (if \<not> can \<and> 0 < sessionInitialMmr then (sessionInitialMmr, True) else (b, can))
      in (if \<not> can \<and> 0 < fetchedMmr then fetchedMmr else b, can))"

definition provisional_record ::
  "int \<Rightarrow> int \<Rightarrow> bool \<Rightarrow> PendingPostMatchRecord \<Rightarrow> PendingPostMatchRecord" where
  "provisional_record mmr baselineMmr can r =
     (let r = (if pm_preMatchMmr r \<le> 0 \<and> can
               then r\<lparr>pm_preMatchMmr := baselineMmr, pm_preMatchMmrIsPlaylistSpecific := True\<rparr> else r)
      in r\<lparr>pm_provisionalMmr := mmr, pm_graphPointAppended := True,
           pm_databaseRowUpdated := (\<not> pm_destroyedMatch r \<or> pm_databaseMatchFinalized r),
           pm_trackerCovered := False, pm_valueEstimated := True, pm_reconciliationState := Provisional\<rparr>)"

definition EnsureProvisionalPoint ::
  "MMRRequest \<Rightarrow> int \<Rightarrow> int \<Rightarrow> int \<Rightarrow> fp list \<Rightarrow> int \<Rightarrow> MmrReconciler \<Rightarrow> ProvisionalResult \<times> MmrReconciler" where
  "EnsureProvisionalPoint req baselineMmr fetchedMmr fetchedMatches historyY sessionInitialMmr mr =
     (let guid = rq_matchGuid req
      in if guid = [] \<or> rq_playlist req = [] then (ProvisionalResult0, mr)
         else case map_of (mr_records mr) guid of
           None \<Rightarrow> (ProvisionalResult0, mr)
         | Some r \<Rightarrow>
             if pm_graphPointAppended r \<or> pm_reconciliationState r = Confirmed then (ProvisionalResult0, mr)
             else
               let r = first_observation fetchedMmr fetchedMatches r;
                   sessionStartMmr = (if pm_preMatchMmrIsPlaylistSpecific r \<and> 0 < pm_preMatchMmr r \<and>
                                         \<not> pm_followsPreviousSessionMatch r then pm_preMatchMmr r else 0);
                   (baselineMmr, can) = provisional_baseline r baselineMmr fetchedMmr historyY sessionInitialMmr;
                   mmr = (if can then EstimatePostMatchMmr baselineMmr (pm_won r) historyY else baselineMmr)
               in if mmr \<le> 0
                  then (ProvisionalResult0, mr\<lparr>mr_records := um_put guid r (mr_records mr)\<rparr>)
                  else
                    let r = provisional_record mmr baselineMmr can r
                    in (\<lparr>vr_applied = True,
                         vr_publication =
                           \<lparr>pp_primaryId = rq_primaryId req, pp_playlist = rq_playlist req,
                            pp_matchGuid = guid, pp_sessionGeneration = pm_sessionGeneration r,
                            pp_provisionalMmr = mmr, pp_sessionStartMmr = sessionStartMmr,
                            pp_matchesPlayed = pm_preMatchMatchesPlayed r, pp_won = pm_won r,
                            pp_databaseRowUpdated = pm_databaseRowUpdated r, pp_replaceExisting = False\<rparr>,
                         vr_dbUpdate =
                           (if pm_databaseRowUpdated r
                            then Some \<lparr>db_matchGuid = guid, db_primaryId = rq_primaryId req, db_mmr = mmr,
                                       db_estimated = True\<rparr> else None)\<rparr>,
                        mr\<lparr>mr_records := um_put guid r (mr_records mr),
                           mr_completed := insert guid (mr_completed mr)\<rparr>))"

section \<open>The lists and the records\<close>

definition same_match :: "PendingPostMatchRecord \<Rightarrow> PendingPostMatchRecord \<Rightarrow> bool" where
  "same_match r r' =
     (pm_matchGuid r' = pm_matchGuid r \<and> pm_primaryId r' = pm_primaryId r \<and> pm_playlist r' = pm_playlist r)"

type_synonym records = "(string, PendingPostMatchRecord) umap"

definition same_records :: "records \<Rightarrow> records \<Rightarrow> bool" where
  "same_records m m' = (\<forall>g. rel_option same_match (map_of m g) (map_of m' g))"

lemma same_match_refl [simp]: "same_match r r"
  by (simp add: same_match_def)

lemma same_records_refl [simp]: "same_records m m"
  by (simp add: same_records_def option.rel_refl)

lemma same_records_trans: "same_records a b \<Longrightarrow> same_records b c \<Longrightarrow> same_records a c"
  unfolding same_records_def
proof
  fix g
  assume "\<forall>g. rel_option same_match (map_of a g) (map_of b g)" "\<forall>g. rel_option same_match (map_of b g) (map_of c g)"
  then have "rel_option same_match (map_of a g) (map_of b g)" "rel_option same_match (map_of b g) (map_of c g)"
    by blast+
  then show "rel_option same_match (map_of a g) (map_of c g)"
    by (cases "map_of a g"; cases "map_of b g"; cases "map_of c g") (auto simp: same_match_def)
qed

lemma same_records_put:
  "map_of m g = Some r \<Longrightarrow> same_match r r' \<Longrightarrow> same_records m (um_put g r' m)"
  by (auto simp: same_records_def um_simps option.rel_refl)

lemma same_records_update:
  "(\<And>r. same_match r (f r)) \<Longrightarrow> same_records m (update_record g f m)"
  by (auto simp: update_record_def intro: same_records_put split: option.splits)

lemma same_records_fold:
  "(\<And>x m. same_records m (f x m)) \<Longrightarrow> same_records m (fold f xs m)"
  by (induction xs arbitrary: m) (auto intro: same_records_trans)

lemma same_records_None: "same_records m m' \<Longrightarrow> map_of m' g = None \<longleftrightarrow> map_of m g = None"
  by (metis option.rel_sel same_records_def)

definition key_of :: "PendingPostMatchRecord \<Rightarrow> string" where
  "key_of r = PendingPostMatchKey (pm_primaryId r) (pm_playlist r)"

text \<open>Every list holds the matches of its playlist, each once, and every match is in its list.\<close>

definition listed :: "MmrReconciler \<Rightarrow> bool" where
  "listed mr =
     ((\<forall>key. distinct (pending_list mr key)) \<and>
      (\<forall>key. \<forall>g \<in> set (pending_list mr key). \<exists>r. map_of (mr_records mr) g = Some r \<and> key_of r = key) \<and>
      (\<forall>g r. map_of (mr_records mr) g = Some r \<longrightarrow> pm_matchGuid r = g \<and> g \<in> set (pending_list mr (key_of r))))"

lemma listedD:
  assumes "listed mr"
  shows "distinct (pending_list mr key)"
    "g \<in> set (pending_list mr key) \<Longrightarrow> \<exists>r. map_of (mr_records mr) g = Some r \<and> key_of r = key"
    "map_of (mr_records mr) g = Some r \<Longrightarrow> pm_matchGuid r = g"
    "map_of (mr_records mr) g = Some r \<Longrightarrow> g \<in> set (pending_list mr (key_of r))"
  using assms unfolding listed_def by blast+

lemma listed_same:
  assumes ok: "listed mr" and same: "same_records (mr_records mr) (mr_records mr')"
    and pending: "mr_pending mr' = mr_pending mr"
  shows "listed mr'"
proof -
  have lists: "pending_list mr' key = pending_list mr key" for key by (simp add: pending_list_def pending)
  have rel: "rel_option same_match (map_of (mr_records mr) g) (map_of (mr_records mr') g)" for g
    using same by (simp add: same_records_def)
  have old: "\<exists>r. map_of (mr_records mr) g = Some r \<and> key_of r = key_of r' \<and> pm_matchGuid r = pm_matchGuid r'"
    if "map_of (mr_records mr') g = Some r'" for g r'
    using rel[of g] that by (auto simp: option_rel_Some2 same_match_def key_of_def)
  have new: "\<exists>r'. map_of (mr_records mr') g = Some r' \<and> key_of r' = key_of r"
    if "map_of (mr_records mr) g = Some r" for g r
    using rel[of g] that by (auto simp: option_rel_Some1 same_match_def key_of_def)
  show ?thesis
    unfolding listed_def lists
  proof (intro conjI allI ballI impI)
    show "distinct (pending_list mr key)" for key by (rule listedD(1)[OF ok])
    show "\<exists>r. map_of (mr_records mr') g = Some r \<and> key_of r = key" if "g \<in> set (pending_list mr key)" for g key
      using listedD(2)[OF ok that] new by blast
    show "pm_matchGuid r = g" "g \<in> set (pending_list mr (key_of r))"
      if "map_of (mr_records mr') g = Some r" for g r
      using old[OF that] listedD(3,4)[OF ok] by metis+
  qed
qed

lemma listed_baseline: "listed (mr\<lparr>mr_baseline := b\<rparr>) = listed mr"
  by (simp add: listed_def pending_list_def)

lemma listed_raise: "listed (raise_baseline key n mr) = listed mr"
  by (simp only: raise_baseline_def listed_baseline)

lemma reset_baseline_fields [simp]:
  "mr_records (ResetPublicationBaselineForCounterRollback i p n mr) = mr_records mr"
  "mr_pending (ResetPublicationBaselineForCounterRollback i p n mr) = mr_pending mr"
  "mr_completed (ResetPublicationBaselineForCounterRollback i p n mr) = mr_completed mr"
  by (simp_all add: ResetPublicationBaselineForCounterRollback_def Let_def split: option.splits)

lemma enqueue_listed:
  assumes ok: "listed mr"
  shows "listed (enqueue_record r mr)"
proof (cases "um_has (mr_records mr) (pm_matchGuid r) \<or> pm_matchGuid r \<in> mr_completed mr")
  case True
  then show ?thesis using ok by (auto simp: enqueue_record_def)
next
  case False
  then have none: "map_of (mr_records mr) (pm_matchGuid r) = None" by (simp add: um_has_def)
  let ?mr = "enqueue_record r mr"
  define f where "f = follows_previous_session (pending_list mr (key_of r)) (pm_sessionGeneration r) mr"
  let ?r = "r\<lparr>pm_followsPreviousSessionMatch := f\<rparr>"
  have lists: "pending_list ?mr key =
      (if key = key_of r then pending_list mr key @ [pm_matchGuid r] else pending_list mr key)" for key
    using False by (simp add: enqueue_record_def Let_def pending_list_def um_simps key_of_def)
  have "follows_previous_session guids gen (ResetPublicationBaselineForCounterRollback i p n mr) =
      follows_previous_session guids gen mr" for guids gen i p n
    by (simp add: follows_previous_session_def)
  then have recs: "map_of (mr_records ?mr) = (map_of (mr_records mr))(pm_matchGuid r \<mapsto> ?r)"
    using False by (auto simp: enqueue_record_def Let_def um_simps um_has_def f_def key_of_def pending_list_def)
  have fresh: "pm_matchGuid r \<notin> set (pending_list mr key)" for key
    using listedD(2)[OF ok, of "pm_matchGuid r" key] none by auto
  have key: "key_of ?r = key_of r" "pm_matchGuid ?r = pm_matchGuid r" by (simp_all add: key_of_def)
  show ?thesis
    unfolding listed_def
  proof (intro conjI allI ballI impI)
    show "distinct (pending_list ?mr key)" for key
      using listedD(1)[OF ok] fresh by (simp add: lists)
    show "\<exists>r'. map_of (mr_records ?mr) g = Some r' \<and> key_of r' = key" if "g \<in> set (pending_list ?mr key)" for g key
      using that listedD(2)[OF ok, of g key] fresh[of key] key
      by (auto simp: lists recs split: if_splits)
    show "pm_matchGuid r' = g" "g \<in> set (pending_list ?mr (key_of r'))"
      if "map_of (mr_records ?mr) g = Some r'" for g r'
      using that listedD(3,4)[OF ok, of g r'] key by (auto simp: lists recs split: if_splits)
  qed
qed

section \<open>What confirming does\<close>

lemma set_result_same: "same_match r (set_result w r)"
  by (simp add: same_match_def set_result_def)

lemma settle_results_same: "same_records m (settle_results callback oldest mmr covered m)"
proof -
  have forfeit: "same_records m (settle_forfeit g m)" for g m
    by (auto simp: settle_forfeit_def set_result_same intro!: same_records_update)
  have unanimous': "same_records m (settle_unanimous as g m)" for as g m
    by (auto simp: settle_unanimous_def Let_def set_result_same intro!: same_records_update split: prod.splits)
  have rating: "same_records m (settle_by_rating callback oldest mmr covered unknown m)" for unknown m
    by (simp add: settle_by_rating_def same_records_fold[OF unanimous'])
  have by_score: "same_match r (result_by_score r)" for r
    by (simp add: result_by_score_def set_result_same split: prod.splits)
  have score: "same_records m (settle_by_score callback unknown m)" for unknown m
    by (auto simp: settle_by_score_def intro!: same_records_fold same_records_update by_score)
  show ?thesis
    unfolding settle_results_def Let_def
    by (rule same_records_trans[OF same_records_fold[OF forfeit] same_records_trans[OF rating score]])
qed

lemma resolved_mmr_pos: "0 < resolved_mmr rt i g r chain"
proof -
  have "0 < (if m \<le> 0 then max 1 chain else m)" for m :: int by auto
  then show ?thesis unfolding resolved_mmr_def Let_def .
qed

lemma resolved_mmr_last: "rt_covered rt \<le> i + 1 \<Longrightarrow> 0 < rt_fetchedMmr rt \<Longrightarrow> resolved_mmr rt i g r chain = rt_fetchedMmr rt"
  by (simp add: resolved_mmr_def Let_def)

text \<open>An update fits the match it is for.\<close>

definition update_fits :: "Report \<Rightarrow> nat \<times> string \<Rightarrow> ReconciledMatchUpdate \<Rightarrow> bool" where
  "update_fits rt g u =
     (ru_matchGuid u = snd g \<and> 0 < ru_mmr u \<and> ru_valueEstimated u = (fst g + 1 < rt_covered rt) \<and>
      (\<not> ru_valueEstimated u \<longrightarrow> ru_mmr u = rt_fetchedMmr rt) \<and>
      ru_matchesPlayed u = (if 0 \<le> rt_baseline rt then rt_baseline rt + int (fst g) + 1 else rt_fetchedMatches rt))"

lemma confirm_match_step:
  assumes r: "map_of (mr_records (cn_mr c)) g = Some r" and mmr: "0 < rt_fetchedMmr rt"
  shows "same_records (mr_records (cn_mr c)) (mr_records (cn_mr (confirm_match rt (i, g) c)))"
    "mr_pending (cn_mr (confirm_match rt (i, g) c)) = mr_pending (cn_mr c)"
    "mr_completed (cn_mr (confirm_match rt (i, g) c)) = insert g (mr_completed (cn_mr c))"
    "\<exists>u. update_fits rt (i, g) u \<and>
       rp_updates (rr_publication (cn_result (confirm_match rt (i, g) c))) =
         rp_updates (rr_publication (cn_result c)) @ [u]"
    "\<exists>cs. map fst (rr_confirmations (cn_result (confirm_match rt (i, g) c))) =
       map fst (rr_confirmations (cn_result c)) @ cs \<and> (cs = [] \<or> cs = [g])"
proof -
  show "same_records (mr_records (cn_mr c)) (mr_records (cn_mr (confirm_match rt (i, g) c)))"
    using r by (auto simp: confirm_match_def Let_def same_match_def confirmed_record_def intro!: same_records_put)
  show "\<exists>u. update_fits rt (i, g) u \<and>
       rp_updates (rr_publication (cn_result (confirm_match rt (i, g) c))) =
         rp_updates (rr_publication (cn_result c)) @ [u]"
    using r mmr resolved_mmr_pos resolved_mmr_last
    by (auto simp: confirm_match_def Let_def update_fits_def match_update_def not_less)
qed (use r in \<open>auto simp: confirm_match_def Let_def\<close>)

lemma confirm_fold:
  assumes "\<forall>g \<in> snd ` set gs. map_of (mr_records (cn_mr c)) g \<noteq> None" "0 < rt_fetchedMmr rt"
  shows "let c' = fold (confirm_match rt) gs c in
    same_records (mr_records (cn_mr c)) (mr_records (cn_mr c')) \<and>
    mr_pending (cn_mr c') = mr_pending (cn_mr c) \<and>
    mr_completed (cn_mr c') = mr_completed (cn_mr c) \<union> snd ` set gs \<and>
    (\<exists>us. list_all2 (update_fits rt) gs us \<and>
       rp_updates (rr_publication (cn_result c')) = rp_updates (rr_publication (cn_result c)) @ us) \<and>
    (\<exists>cs. map fst (rr_confirmations (cn_result c')) = map fst (rr_confirmations (cn_result c)) @ cs \<and>
       subseq cs (map snd gs))"
  using assms
proof (induction gs arbitrary: c)
  case (Cons ig gs)
  obtain i g where ig: "ig = (i, g)" by force
  obtain r where r: "map_of (mr_records (cn_mr c)) g = Some r" using Cons.prems ig by auto
  let ?c = "confirm_match rt (i, g) c"
  note step = confirm_match_step[OF r assms(2), where i = i]
  have "\<forall>g \<in> snd ` set gs. map_of (mr_records (cn_mr ?c)) g \<noteq> None"
    using Cons.prems(1) same_records_None[OF step(1)] by auto
  note rest = Cons.IH[OF this assms(2), unfolded Let_def]
  obtain u cs us cs' where parts: "update_fits rt (i, g) u"
    "rp_updates (rr_publication (cn_result ?c)) = rp_updates (rr_publication (cn_result c)) @ [u]"
    "map fst (rr_confirmations (cn_result ?c)) = map fst (rr_confirmations (cn_result c)) @ cs"
    "cs = [] \<or> cs = [g]"
    "list_all2 (update_fits rt) gs us"
    "rp_updates (rr_publication (cn_result (fold (confirm_match rt) gs ?c))) =
       rp_updates (rr_publication (cn_result ?c)) @ us"
    "map fst (rr_confirmations (cn_result (fold (confirm_match rt) gs ?c))) =
       map fst (rr_confirmations (cn_result ?c)) @ cs'" "subseq cs' (map snd gs)"
    using step(4,5) rest by blast
  have "list_all2 (update_fits rt) (ig # gs) (u # us)" "subseq (cs @ cs') (map snd (ig # gs))"
    using parts by (auto simp: ig)
  then show ?case
    using step(1-3) rest parts(2,3,6,7) same_records_trans[OF step(1)]
    by (auto simp: Let_def ig)
qed (auto simp: Let_def)

lemma fold_um_erase: "map_of (fold um_erase gs m) g = (if g \<in> set gs then None else map_of m g)"
  by (induction gs arbitrary: m) (auto simp: um_simps)

lemma carry_over_same: "same_records m (carry_over mmr n g m)"
  unfolding carry_over_def by (rule same_records_update) (simp add: same_match_def Let_def)

text \<open>The covered matches leave their list and the records, and nothing else does.\<close>

lemma leave_listed:
  assumes ok: "listed mr" and same: "same_records (mr_records mr) records"
    and guids: "guids = pending_list mr key" and n: "n \<le> length guids"
    and recs: "mr_records mr' = fold um_erase (take n guids) records"
    and pending: "mr_pending mr' = (if drop n guids = [] then um_erase key (mr_pending mr)
                                     else um_put key (drop n guids) (mr_pending mr))"
  shows "listed mr'" "pending_list mr' key = drop n guids"
    "\<forall>g \<in> set (take n guids). map_of (mr_records mr') g = None"
    "\<And>g. map_of (mr_records mr') g = None \<longleftrightarrow> g \<in> set (take n guids) \<or> map_of (mr_records mr) g = None"
proof -
  define mid where "mid = mr\<lparr>mr_records := records\<rparr>"
  have mid: "listed mid" by (rule listed_same[OF ok]) (simp_all add: mid_def same)
  have lists: "pending_list mr' k = (if k = key then drop n guids else pending_list mid k)" for k
    by (simp add: pending_list_def pending mid_def um_simps)
  have mid_guids: "guids = pending_list mid key" using guids by (simp add: mid_def pending_list_def)
  have find: "map_of (mr_records mr') g = (if g \<in> set (take n guids) then None else map_of (mr_records mid) g)" for g
    by (simp add: recs fold_um_erase mid_def)
  show at_key: "pending_list mr' key = drop n guids" by (simp add: lists)
  show "\<forall>g \<in> set (take n guids). map_of (mr_records mr') g = None" by (simp add: find)
  show "map_of (mr_records mr') g = None \<longleftrightarrow> g \<in> set (take n guids) \<or> map_of (mr_records mr) g = None" for g
    using same_records_None[OF same, of g] by (simp add: find mid_def)
  have split: "distinct (take n guids @ drop n guids)" using listedD(1)[OF mid, of key] mid_guids by simp
  then have disjoint: "set (take n guids) \<inter> set (drop n guids) = {}" by (simp only: distinct_append)
  have own: "key_of r = key" if "g \<in> set (take n guids)" "map_of (mr_records mid) g = Some r" for g r
    using listedD(2)[OF mid, of g key] that mid_guids by (auto dest: in_set_takeD)
  show "listed mr'"
    unfolding listed_def
  proof (intro conjI allI ballI impI)
    show "distinct (pending_list mr' k)" for k using listedD(1)[OF mid, of k] split by (simp add: lists)
    show "\<exists>r. map_of (mr_records mr') g = Some r \<and> key_of r = k" if "g \<in> set (pending_list mr' k)" for g k
    proof -
      have "g \<in> set (pending_list mid k)" using that mid_guids by (auto simp: lists dest: in_set_dropD split: if_splits)
      then obtain r where r: "map_of (mr_records mid) g = Some r" "key_of r = k" using listedD(2)[OF mid] by blast
      moreover have "g \<notin> set (take n guids)" using that own[OF _ r(1)] r(2) disjoint by (auto simp: lists split: if_splits)
      ultimately show ?thesis by (simp add: find)
    qed
    show "pm_matchGuid r = g" if "map_of (mr_records mr') g = Some r" for g r
      using that listedD(3)[OF mid] by (auto simp: find split: if_splits)
    show "g \<in> set (pending_list mr' (key_of r))" if "map_of (mr_records mr') g = Some r" for g r
    proof -
      have r: "map_of (mr_records mid) g = Some r" "g \<notin> set (take n guids)" using that by (auto simp: find split: if_splits)
      then have "g \<in> set (pending_list mid (key_of r))" using listedD(4)[OF mid] by blast
      then have "key_of r = key \<Longrightarrow> g \<in> set (take n guids) \<union> set (drop n guids)"
        using mid_guids by (metis append_take_drop_id set_append)
      then show ?thesis using r(2) \<open>g \<in> set (pending_list mid (key_of r))\<close> by (auto simp: lists)
    qed
  qed
qed

text \<open>What a report that is applied does; \<open>guids\<close> is the list it is about.\<close>

definition report_effect ::
  "string \<Rightarrow> string list \<Rightarrow> nat \<Rightarrow> int \<Rightarrow> MmrReconciler \<Rightarrow> ReconcileResult \<times> MmrReconciler \<Rightarrow> bool" where
  "report_effect key guids n fetchedMmr mr out =
     (case out of (res, mr') \<Rightarrow>
       let updates = rp_updates (rr_publication res)
       in listed mr' \<and> map ru_matchGuid updates = take n guids \<and> pending_list mr' key = drop n guids \<and>
          mr_completed mr' = mr_completed mr \<union> set (take n guids) \<and>
          (\<forall>g. map_of (mr_records mr') g = None \<longleftrightarrow> g \<in> set (take n guids) \<or> map_of (mr_records mr) g = None) \<and>
          subseq (map fst (rr_confirmations res)) (take n guids) \<and>
          (\<forall>u \<in> set updates. 0 < ru_mmr u) \<and>
          (\<forall>i < n. ru_valueEstimated (updates ! i) = (i + 1 < n)) \<and> ru_mmr (last updates) = fetchedMmr \<and>
          rr_allPendingCovered res = (n = length guids))"

lemma confirm_covered_effect:
  assumes ok: "listed mr" and guids: "guids = pending_list mr key"
    and n: "0 < rt_covered rt" "rt_covered rt \<le> length guids" and mmr: "0 < rt_fetchedMmr rt"
  shows "report_effect key guids (rt_covered rt) (rt_fetchedMmr rt) mr
    (finish_report rt key guids localId playing finalized (confirm_covered rt key guids b mr))"
proof -
  define c where "c = confirm_covered rt key guids b mr"
  obtain res mr' where out: "finish_report rt key guids localId playing finalized c = (res, mr')" by force
  let ?n = "rt_covered rt"
  let ?gs = "zip [0..<?n] (take ?n guids)"
  have names: "map snd ?gs = take ?n guids" using n(2) by simp
  have known: "\<forall>g \<in> snd ` set ?gs. map_of (mr_records mr) g \<noteq> None"
  proof
    fix g
    assume "g \<in> snd ` set ?gs"
    then have "g \<in> set (take ?n guids)" using names by (metis set_map)
    then show "map_of (mr_records mr) g \<noteq> None"
      using listedD(2)[OF ok, of g key] guids by (auto dest: in_set_takeD)
  qed
  obtain us cs where c: "same_records (mr_records mr) (mr_records (cn_mr c))"
    "mr_pending (cn_mr c) = mr_pending mr" "mr_completed (cn_mr c) = mr_completed mr \<union> set (take ?n guids)"
    "list_all2 (update_fits rt) ?gs us" "rp_updates (rr_publication (cn_result c)) = us"
    "map fst (rr_confirmations (cn_result c)) = cs" "subseq cs (take ?n guids)"
    using confirm_fold[of ?gs "\<lparr>cn_mr = mr,
        cn_result = ReconcileResult0\<lparr>rr_publication := ReconcilePublication0\<lparr>
          rp_primaryId := rq_primaryId (rt_request rt), rp_playlist := rq_playlist (rt_request rt),
          rp_sessionGeneration := rt_generation rt, rp_fetchedMatches := rt_fetchedMatches rt\<rparr>\<rparr>,
        cn_chainMmr = b, cn_recapLatestMmr = 0\<rparr>" rt] known mmr names
    unfolding c_def confirm_covered_def
    by (auto simp: Let_def ReconcileResult0_def ReconcilePublication0_def simp flip: set_map)
  have res: "rp_updates (rr_publication res) = us" "map fst (rr_confirmations res) = cs"
    "rr_allPendingCovered res = (drop ?n guids = [])"
    using out c(5,6) by (auto simp: finish_report_def Let_def split: if_splits)
  obtain carried where mr': "mr_records mr' = fold um_erase (take ?n guids)
      (fold (carry_over (rt_fetchedMmr rt) carried) (drop ?n guids) (mr_records (cn_mr c)))"
    "mr_pending mr' = (if drop ?n guids = [] then um_erase key (mr_pending mr)
                       else um_put key (drop ?n guids) (mr_pending mr))"
    "mr_completed mr' = mr_completed (cn_mr c)"
    using out c(2) by (auto simp: finish_report_def Let_def raise_baseline_def)
  have same: "same_records (mr_records mr)
      (fold (carry_over (rt_fetchedMmr rt) carried) (drop ?n guids) (mr_records (cn_mr c)))"
    by (rule same_records_trans[OF c(1) same_records_fold[OF carry_over_same]])
  note left = leave_listed[OF ok same guids n(2) mr'(1,2)]
  have len: "length us = ?n" using c(4) n(2) by (auto dest: list_all2_lengthD)
  have fit: "update_fits rt (i, guids ! i) (us ! i)" if "i < ?n" for i
    using list_all2_nthD[OF c(4), of i] that n(2) by simp
  have named: "map ru_matchGuid us = take ?n guids"
    using fit len n(2) by (intro nth_equalityI) (auto simp: update_fits_def)
  have "last us = us ! (?n - 1)" using len n(1) by (metis last_conv_nth length_greater_0_conv)
  then have last: "ru_mmr (last us) = rt_fetchedMmr rt" using fit[of "?n - 1"] n(1) by (simp add: update_fits_def)
  have pos: "\<forall>u \<in> set us. 0 < ru_mmr u" using fit len by (auto simp: in_set_conv_nth update_fits_def)
  show ?thesis
    unfolding report_effect_def c_def[symmetric] out prod.case Let_def res
    using left named last pos fit n c(7) mr'(3) c(3) by (auto simp: update_fits_def)
qed

lemma confirm_report_parts:
  "\<exists>rt b. confirm_report req mmr matches history gen localId playing finalized points initial key guids
       oldest baseline n mr =
     finish_report rt key guids localId playing finalized (confirm_covered rt key guids b mr) \<and>
     rt_covered rt = n \<and> rt_fetchedMmr rt = mmr \<and> rt_baseline rt = baseline \<and> rt_fetchedMatches rt = matches"
  unfolding confirm_report_def Let_def by (intro exI conjI, rule refl) simp_all

lemma finish_report_applied: "rr_applied (fst (finish_report rt key guids localId playing finalized c))"
  by (simp add: finish_report_def Let_def)

lemma confirm_report_effect:
  assumes "listed mr" "guids = pending_list mr key" "0 < n" "n \<le> length guids" "0 < mmr"
    and run: "confirm_report req mmr matches history gen localId playing finalized points initial key guids
      oldest baseline n mr = (res, mr')"
  shows "report_effect key guids n mmr mr (res, mr')" "rr_applied res"
proof -
  obtain rt b where rt: "finish_report rt key guids localId playing finalized (confirm_covered rt key guids b mr) =
      (res, mr')" "rt_covered rt = n" "rt_fetchedMmr rt = mmr"
    using confirm_report_parts[of req mmr matches history gen localId playing finalized points initial key guids
        oldest baseline n mr] run by metis
  show "report_effect key guids n mmr mr (res, mr')"
    using confirm_covered_effect[of mr guids key rt localId playing finalized b] assms rt by simp
  show "rr_applied res" using finish_report_applied[of rt key guids localId playing finalized] rt(1) by (metis fst_conv)
qed

section \<open>The reconciler over time\<close>

datatype reconciler_input =
    Finished_Match string string string int int bool bool "64 word"
  | Left_Match PendingDestroyedMatchMmrRefresh "64 word"
  | Resolved_Match string bool
  | Cached_Baseline string int int int
  | Reported MMRRequest int int "fp list" "64 word" string bool bool "SessionMmrPoint list option" int
  | Provisional_Point MMRRequest int int int "fp list" int
  | Set_Callback bool

fun reconciler_step :: "reconciler_input \<Rightarrow> MmrReconciler \<Rightarrow> MmrReconciler \<times> ReconcileResult" where
  "reconciler_step (Finished_Match p g l m n specific won gen) mr =
     (Reconciler_EnqueuePostMatch p g l m n specific won gen mr, ReconcileResult0)"
| "reconciler_step (Left_Match pending gen) mr =
     (Reconciler_EnqueuePendingDestroyedMatch pending gen mr, ReconcileResult0)"
| "reconciler_step (Resolved_Match g won) mr = (ResolvePendingDestroyedMatch g won mr, ReconcileResult0)"
| "reconciler_step (Cached_Baseline g m c f) mr = (AdoptCachedPreMatchBaseline g m c f mr, ReconcileResult0)"
| "reconciler_step (Reported req mmr matches history gen localId playing finalized points initial) mr =
     (case ReconcileTrackerResponse req mmr matches history gen localId playing finalized points initial mr of
        (res, mr) \<Rightarrow> (mr, res))"
| "reconciler_step (Provisional_Point req b mmr matches history initial) mr =
     (snd (EnsureProvisionalPoint req b mmr matches history initial mr), ReconcileResult0)"
| "reconciler_step (Set_Callback b) mr = (mr\<lparr>mr_hasCallback := b\<rparr>, ReconcileResult0)"

lemma listed_records:
  "listed mr \<Longrightarrow> same_records (mr_records mr) m \<Longrightarrow> listed (mr\<lparr>mr_records := m\<rparr>)"
  by (erule listed_same) simp_all

lemma listed_fields [simp]:
  "listed (mr\<lparr>mr_completed := s\<rparr>) = listed mr" "listed (mr\<lparr>mr_hasCallback := b\<rparr>) = listed mr"
  by (simp_all add: listed_def pending_list_def)

text \<open>A report changes nothing but what it observed, or it is applied.\<close>

lemma ReconcileTrackerResponse_cases:
  assumes run: "ReconcileTrackerResponse req mmr matches history gen localId playing finalized points
      initial mr = (res, mr')"
    and ok: "listed mr"
  obtains "\<not> rr_applied res" "rr_publication res = ReconcilePublication0" "rr_confirmations res = []"
      "same_records (mr_records mr) (mr_records mr')" "mr_pending mr' = mr_pending mr"
      "mr_completed mr' = mr_completed mr"
  | key guids n oldest baseline where "key = PendingPostMatchKey (rq_primaryId req) (rq_playlist req)"
      "guids = pending_list mr key" "0 < n" "n \<le> length guids" "0 < mmr" "rr_applied res"
      "map_of (mr_records mr) (hd guids) = Some oldest" "baseline = publication_baseline key oldest mr"
      "n = covered_count baseline mmr matches oldest (length guids)"
      "report_effect key guids n mmr mr (res, mr')"
proof -
  let ?key = "PendingPostMatchKey (rq_primaryId req) (rq_playlist req)"
  let ?guids = "pending_list mr ?key"
  have same: "same_records (mr_records mr) (mr_records (observe ?key g a b mr))"
    "mr_pending (observe ?key g a b mr) = mr_pending mr" "mr_completed (observe ?key g a b mr) = mr_completed mr" for g a b
    by (auto simp: observe_def Let_def raise_baseline_def same_match_def intro!: same_records_update)
  show thesis
  proof (cases "mmr \<le> 0 \<or> rq_playlist req = [] \<or> ?guids = [] \<or> map_of (mr_records mr) (hd ?guids) = None")
    case True
    then show thesis
      using run by (intro that(1)) (auto simp: ReconcileTrackerResponse_def Let_def ReconcileResult0_def split: if_splits)
  next
    case False
    then obtain oldest where oldest: "map_of (mr_records mr) (hd ?guids) = Some oldest" by auto
    define baseline where "baseline = publication_baseline ?key oldest mr"
    define n where "n = covered_count baseline mmr matches oldest (length ?guids)"
    define settled where "settled = settle_covered oldest mmr (take n ?guids) mr"
    have settled: "same_records (mr_records mr) (mr_records settled)" "mr_pending settled = mr_pending mr"
      "mr_completed settled = mr_completed mr"
      by (simp_all add: settled_def settle_covered_def settle_results_same)
    have oldest_run: "reconcile_oldest req mmr matches history gen localId playing finalized points initial
        ?key ?guids oldest mr = (res, mr')"
      using False oldest run by (simp add: ReconcileTrackerResponse_def Let_def)
    have step: "(res, mr') = (if n = 0 then (ReconcileResult0, observe ?key (hd ?guids) mmr matches mr)
        else if 0 \<le> baseline \<and> 0 \<le> matches \<and> ambiguous_cut (mr_records mr) ?guids n then (ReconcileResult0, mr)
        else if \<not> all_results_known (mr_records settled) (take n ?guids) then (ReconcileResult0, settled)
        else confirm_report req mmr matches history gen localId playing finalized points initial ?key ?guids
               oldest baseline n settled)"
      unfolding settled_def n_def baseline_def
      by (rule oldest_run[symmetric, unfolded reconcile_oldest_def Let_def])
    show thesis
    proof (cases "n = 0 \<or> (0 \<le> baseline \<and> 0 \<le> matches \<and> ambiguous_cut (mr_records mr) ?guids n) \<or>
        \<not> all_results_known (mr_records settled) (take n ?guids)")
      case True
      then show thesis
        using step settled same by (intro that(1)) (auto simp: ReconcileResult0_def split: if_splits)
    next
      case applied: False
      have n: "0 < n" "n \<le> length ?guids"
        using applied False by (auto simp: n_def covered_count_def CoveredPendingMatchCount_def Suc_le_eq split: if_splits)
      have lists: "?guids = pending_list settled ?key" by (simp add: pending_list_def settled(2))
      have mmr: "0 < mmr" using False by simp
      have run': "confirm_report req mmr matches history gen localId playing finalized points initial ?key ?guids
          oldest baseline n settled = (res, mr')"
        using step applied by (simp only: if_False if_True de_Morgan_disj not_not not_True_eq_False)
      note conf = confirm_report_effect[OF listed_same[OF ok settled(1,2)] lists n mmr run']
      have effect: "report_effect ?key ?guids n mmr mr (res, mr')"
        using conf(1) same_records_None[OF settled(1)] by (simp add: report_effect_def settled(3))
      show thesis
        using that(2)[OF refl refl n mmr conf(2) oldest baseline_def n_def effect] .
    qed
  qed
qed

lemma provisional_same:
  "same_records (mr_records mr) (mr_records (snd (EnsureProvisionalPoint req b m n h i mr))) \<and>
   mr_pending (snd (EnsureProvisionalPoint req b m n h i mr)) = mr_pending mr \<and>
   mr_completed mr \<subseteq> mr_completed (snd (EnsureProvisionalPoint req b m n h i mr)) \<and>
   mr_completed (snd (EnsureProvisionalPoint req b m n h i mr)) \<subseteq>
     mr_completed mr \<union> {g. map_of (mr_records mr) g \<noteq> None}"
proof -
  have "same_match r (first_observation m n r)" "same_match r (provisional_record k c w (first_observation m n r))" for r k c w
    by (simp_all add: same_match_def first_observation_def provisional_record_def Let_def)
  then show ?thesis
    by (auto simp: EnsureProvisionalPoint_def Let_def split: option.splits prod.splits intro!: same_records_put)
qed

lemma reconciler_step_listed:
  assumes ok: "listed mr"
  shows "listed (fst (reconciler_step i mr))"
proof (cases i)
  case (Resolved_Match g won)
  then show ?thesis
    using ok by (auto simp: ResolvePendingDestroyedMatch_def same_match_def intro!: listed_records same_records_update)
next
  case (Cached_Baseline g m c f)
  then show ?thesis
    using ok by (auto simp: AdoptCachedPreMatchBaseline_def Let_def same_match_def
        intro!: listed_records same_records_update split: option.splits list.splits)
next
  case (Reported req mmr matches history gen localId playing finalized points initial)
  obtain res mr' where run: "ReconcileTrackerResponse req mmr matches history gen localId playing finalized
      points initial mr = (res, mr')" by force
  have "listed mr'"
    by (rule ReconcileTrackerResponse_cases[OF run ok])
      (auto simp: report_effect_def Let_def intro: listed_same[OF ok])
  then show ?thesis by (simp add: Reported run)
next
  case (Provisional_Point req b m n h i)
  then show ?thesis using listed_same[OF ok] provisional_same[of mr req b m n h i] by simp
qed (simp_all add: ok enqueue_listed Reconciler_EnqueuePostMatch_def Reconciler_EnqueuePendingDestroyedMatch_def)

text \<open>A match is settled once a report has covered it: it is completed and has no record.\<close>

definition settled_matches :: "MmrReconciler \<Rightarrow> string set" where
  "settled_matches mr = {g \<in> mr_completed mr. map_of (mr_records mr) g = None}"

definition confirmed_guids :: "ReconcileResult \<Rightarrow> string list" where
  "confirmed_guids res = map ru_matchGuid (rp_updates (rr_publication res))"

lemma confirmed_guids_none [simp]: "confirmed_guids ReconcileResult0 = []"
  by (simp add: confirmed_guids_def ReconcileResult0_def ReconcilePublication0_def)

lemma enqueue_settled: "settled_matches (enqueue_record r mr) = settled_matches mr"
  by (auto simp: settled_matches_def enqueue_record_def Let_def um_simps um_has_def)

lemma reconciler_step_settles:
  assumes ok: "listed mr"
  shows "settled_matches mr \<subseteq> settled_matches (fst (reconciler_step i mr)) \<and>
    set (confirmed_guids (snd (reconciler_step i mr))) \<inter> settled_matches mr = {} \<and>
    set (confirmed_guids (snd (reconciler_step i mr))) \<subseteq> settled_matches (fst (reconciler_step i mr)) \<and>
    distinct (confirmed_guids (snd (reconciler_step i mr))) \<and>
    subseq (map fst (rr_confirmations (snd (reconciler_step i mr)))) (confirmed_guids (snd (reconciler_step i mr)))"
proof -
  have same: "settled_matches mr \<subseteq> settled_matches mr'"
    if "same_records (mr_records mr) (mr_records mr')" "mr_completed mr \<subseteq> mr_completed mr'" for mr'
    using that same_records_None[OF that(1)] by (auto simp: settled_matches_def)
  have none: "rr_confirmations ReconcileResult0 = []" by (simp add: ReconcileResult0_def)
  show ?thesis
  proof (cases i)
    case (Resolved_Match g won)
    have "settled_matches mr \<subseteq> settled_matches (ResolvePendingDestroyedMatch g won mr)"
      by (rule same) (auto simp: ResolvePendingDestroyedMatch_def same_match_def intro!: same_records_update)
    then show ?thesis by (simp add: Resolved_Match none)
  next
    case (Cached_Baseline g m c f)
    have "settled_matches mr \<subseteq> settled_matches (AdoptCachedPreMatchBaseline g m c f mr)"
      by (rule same) (auto simp: AdoptCachedPreMatchBaseline_def Let_def same_match_def
          intro!: same_records_update split: option.splits list.splits)
    then show ?thesis by (simp add: Cached_Baseline none)
  next
    case (Provisional_Point req b m n h i)
    have "settled_matches mr \<subseteq> settled_matches (snd (EnsureProvisionalPoint req b m n h i mr))"
      by (rule same) (use provisional_same[of mr req b m n h i] in simp_all)
    then show ?thesis by (simp add: Provisional_Point none)
  next
    case (Reported req mmr matches history gen localId playing finalized points initial)
    obtain res mr' where run: "ReconcileTrackerResponse req mmr matches history gen localId playing finalized
        points initial mr = (res, mr')" by force
    have "settled_matches mr \<subseteq> settled_matches mr' \<and> set (confirmed_guids res) \<inter> settled_matches mr = {} \<and>
      set (confirmed_guids res) \<subseteq> settled_matches mr' \<and> distinct (confirmed_guids res) \<and>
      subseq (map fst (rr_confirmations res)) (confirmed_guids res)"
    proof (rule ReconcileTrackerResponse_cases[OF run ok])
      assume "rr_publication res = ReconcilePublication0" "rr_confirmations res = []"
        "same_records (mr_records mr) (mr_records mr')" "mr_completed mr' = mr_completed mr"
      then show ?thesis using same by (simp add: confirmed_guids_def ReconcilePublication0_def)
    next
      fix key guids n
      assume effect: "report_effect key guids n mmr mr (res, mr')" and guids: "guids = pending_list mr key"
      have "\<forall>g \<in> set (take n guids). map_of (mr_records mr) g \<noteq> None"
        using listedD(2)[OF ok, of _ key] guids by (fastforce dest: in_set_takeD)
      moreover have "distinct (take n guids)" using listedD(1)[OF ok] guids by simp
      moreover have "confirmed_guids res = take n guids" "mr_completed mr' = mr_completed mr \<union> set (take n guids)"
        "\<And>g. map_of (mr_records mr') g = None \<longleftrightarrow> g \<in> set (take n guids) \<or> map_of (mr_records mr) g = None"
        "subseq (map fst (rr_confirmations res)) (take n guids)"
        using effect by (simp_all add: report_effect_def Let_def confirmed_guids_def)
      ultimately show ?thesis by (auto simp: settled_matches_def)
    qed
    then show ?thesis by (simp add: Reported run)
  next
    case (Set_Callback b)
    then show ?thesis by (simp add: none settled_matches_def)
  qed (simp_all add: none enqueue_settled Reconciler_EnqueuePostMatch_def
      Reconciler_EnqueuePendingDestroyedMatch_def)
qed

lemma subseq_distinct: "subseq xs ys \<Longrightarrow> distinct ys \<Longrightarrow> distinct xs"
  by (induction rule: list_emb.induct) (auto dest: list_emb_set)

interpretation recon: batch_ledger reconciler_step listed settled_matches confirmed_guids
  by unfold_locales (use reconciler_step_listed reconciler_step_settles in blast)+

lemma initially_listed: "listed (MmrReconciler0)"
  by (simp add: listed_def MmrReconciler0_def pending_list_def)

section \<open>Inferred results\<close>

lemma foldl_tally:
  "c \<in> {0, 1, 2} \<Longrightarrow> foldl (\<lambda>seen a. tally seen (if P a then 1 else 0)) c as =
     (if c = 1 \<and> (\<forall>a \<in> set as. P a) then 1 else if c = 0 \<and> (\<forall>a \<in> set as. \<not> P a) then 0 else 2)"
  by (induction as arbitrary: c) (auto simp: tally_def)

lemma unanimous_iff:
  "unanimous as i = 1 \<longleftrightarrow> as \<noteq> [] \<and> (\<forall>a \<in> set as. odd (a div 2 ^ i))"
  "unanimous as i = 0 \<longleftrightarrow> as \<noteq> [] \<and> (\<forall>a \<in> set as. \<not> odd (a div 2 ^ i))"
proof -
  have first: "tally (-1) c = c" for c by (simp add: tally_def)
  show "unanimous as i = 1 \<longleftrightarrow> as \<noteq> [] \<and> (\<forall>a \<in> set as. odd (a div 2 ^ i))"
    "unanimous as i = 0 \<longleftrightarrow> as \<noteq> [] \<and> (\<forall>a \<in> set as. \<not> odd (a div 2 ^ i))"
    by (cases as; simp add: unanimous_def first foldl_tally)+
qed

lemma settle_unanimous_other:
  "g \<noteq> fst x \<Longrightarrow> map_of (settle_unanimous as x m) g = map_of m g"
  by (auto simp: settle_unanimous_def update_record_def Let_def um_simps split: prod.splits option.splits)

lemma fold_unanimous_other:
  "g \<notin> fst ` set xs \<Longrightarrow> map_of (fold (settle_unanimous as) xs m) g = map_of m g"
  by (induction xs arbitrary: m) (auto simp: settle_unanimous_other)

lemma fold_unanimous_own:
  assumes "distinct (map fst xs)" "(g, i) \<in> set xs"
  shows "map_of (fold (settle_unanimous as) xs m) g = map_of (settle_unanimous as (g, i) m) g"
  using assms
proof (induction xs arbitrary: m)
  case (Cons x xs)
  show ?case
  proof (cases "x = (g, i)")
    case True
    then have "g \<notin> fst ` set xs" using Cons.prems(1) by (metis distinct.simps(2) fst_conv list.simps(9) set_map)
    then show ?thesis by (simp add: True fold_unanimous_other)
  next
    case False
    then have x: "(g, i) \<in> set xs" using Cons.prems(2) by simp
    then have "g \<in> fst ` set xs" by (rule image_eqI[rotated]) simp
    then have "fst x \<noteq> g" using Cons.prems(1) by auto
    then have "map_of (settle_unanimous as (g, i) (settle_unanimous as x m)) g = map_of (settle_unanimous as (g, i) m) g"
      using settle_unanimous_other[of g x as m]
      by (auto simp: settle_unanimous_def[of as "(g, i)"] update_record_def Let_def um_simps split: option.splits)
    then show ?thesis using Cons.IH[OF _ x, of "settle_unanimous as x m"] Cons.prems(1) by simp
  qed
qed simp

section \<open>Properties\<close>

text \<open>
  C15: Whatever is enqueued, resolved and reported, in any order and however often: a finished match
  gets its final rating from at most one report, and a match that was left early gets its result
  confirmed at most once.
\<close>

theorem matches_confirmed_once:
  "distinct (concat (map (\<lambda>res. map ru_matchGuid (rp_updates (rr_publication res)))
     (snd (run_out reconciler_step inputs MmrReconciler0)))) \<and>
   distinct (concat (map (\<lambda>res. map fst (rr_confirmations res))
     (snd (run_out reconciler_step inputs MmrReconciler0))))"
proof -
  let ?out = "snd (run_out reconciler_step inputs MmrReconciler0)"
  have once: "distinct (concat (map confirmed_guids ?out))" by (rule recon.run_settles_once[OF initially_listed])
  have "subseq (concat (map (\<lambda>res. map fst (rr_confirmations res)) (snd (run_out reconciler_step inputs mr))))
      (concat (map confirmed_guids (snd (run_out reconciler_step inputs mr))))" if "listed mr" for mr
    using that
    by (induction inputs arbitrary: mr)
      (auto intro!: list_emb_append_mono reconciler_step_listed dest: reconciler_step_settles)
  then have "distinct (concat (map (\<lambda>res. map fst (rr_confirmations res)) ?out))"
    using once initially_listed subseq_distinct by blast
  then show ?thesis using once by (simp add: confirmed_guids_def[abs_def])
qed

text \<open>
  C16: A report that is applied covers the oldest pending matches of its playlist, in order: they get
  positive ratings, the last of them the reported one (which alone is not an estimate), they leave
  the list and are completed; the others stay. It covers at least one match, and, where the service
  counts matches, no more than it has counted since the last known count.
\<close>

theorem report_covers_oldest_matches:
  assumes "mr = fst (run_out reconciler_step inputs MmrReconciler0)"
    and "ReconcileTrackerResponse req mmr matches history gen localId playing finalized points initial mr =
      (res, mr')"
    and "rr_applied res"
  shows "let key = PendingPostMatchKey (rq_primaryId req) (rq_playlist req);
      guids = pending_list mr key;
      updates = rp_updates (rr_publication res);
      n = length updates
    in 0 < n \<and> n \<le> length guids \<and> map ru_matchGuid updates = take n guids \<and>
       pending_list mr' key = drop n guids \<and> rr_allPendingCovered res = (n = length guids) \<and>
       (\<forall>u \<in> set updates. 0 < ru_mmr u) \<and> ru_mmr (last updates) = mmr \<and>
       (\<forall>i < n. ru_valueEstimated (updates ! i) = (i + 1 < n)) \<and>
       (\<forall>g \<in> set (take n guids). GetRecord g mr' = None \<and> IsCompletedPostMatch g mr') \<and>
       (\<forall>oldest. GetRecord (hd guids) mr = Some oldest \<and> 0 \<le> matches \<and>
          0 \<le> publication_baseline key oldest mr \<longrightarrow> int n \<le> matches - publication_baseline key oldest mr)"
proof -
  have ok: "listed mr" using recon.run_inv[OF initially_listed] assms(1) by simp
  show ?thesis
  proof (rule ReconcileTrackerResponse_cases[OF assms(2) ok])
    fix key guids n oldest baseline
    assume key: "key = PendingPostMatchKey (rq_primaryId req) (rq_playlist req)" "guids = pending_list mr key"
      and n: "0 < n" "n \<le> length guids"
      and oldest: "map_of (mr_records mr) (hd guids) = Some oldest" "baseline = publication_baseline key oldest mr"
        "n = covered_count baseline mmr matches oldest (length guids)"
      and effect: "report_effect key guids n mmr mr (res, mr')"
    have parts: "map ru_matchGuid (rp_updates (rr_publication res)) = take n guids"
      "pending_list mr' key = drop n guids" "mr_completed mr' = mr_completed mr \<union> set (take n guids)"
      "\<And>g. map_of (mr_records mr') g = None \<longleftrightarrow> g \<in> set (take n guids) \<or> map_of (mr_records mr) g = None"
      "\<forall>u \<in> set (rp_updates (rr_publication res)). 0 < ru_mmr u"
      "\<forall>i < n. ru_valueEstimated (rp_updates (rr_publication res) ! i) = (i + 1 < n)"
      "ru_mmr (last (rp_updates (rr_publication res))) = mmr" "rr_allPendingCovered res = (n = length guids)"
      using effect unfolding report_effect_def Let_def by auto
    have len: "length (rp_updates (rr_publication res)) = n"
      using arg_cong[OF parts(1), of length] n(2) by simp
    have counted: "int n \<le> matches - baseline" if "0 \<le> matches" "0 \<le> baseline"
      using that n(1) by (auto simp: oldest(3) covered_count_def CoveredPendingMatchCount_def split: if_splits)
    show ?thesis
      unfolding Let_def key(1)[symmetric] key(2)[symmetric] len GetRecord_def IsCompletedPostMatch_def
      using parts n oldest counted by auto
  qed (use assms(3) in simp)
qed

theorem report_covers_oldest_matches_witness:
  "\<exists>res mr' mr. mr = fst (run_out reconciler_step
       [Finished_Match ''epic|a'' ''g1'' ''2v2'' 600 10 True True 0,
        Finished_Match ''epic|a'' ''g2'' ''2v2'' 600 11 True False 0] MmrReconciler0) \<and>
     ReconcileTrackerResponse (MMRRequest0\<lparr>rq_primaryId := ''epic|a'', rq_playlist := ''2v2''\<rparr>) 610 11 [] 0
       ''epic|a'' False False None 600 mr = (res, mr') \<and>
     map ru_matchGuid (rp_updates (rr_publication res)) = [''g1''] \<and>
     ru_mmr (last (rp_updates (rr_publication res))) = 610 \<and>
     pending_list mr' (PendingPostMatchKey ''epic|a'' ''2v2'') = [''g2'']"
proof -
  define mr where "mr = fst (run_out reconciler_step
    [Finished_Match ''epic|a'' ''g1'' ''2v2'' 600 10 True True 0,
     Finished_Match ''epic|a'' ''g2'' ''2v2'' 600 11 True False 0] MmrReconciler0)"
  let ?req = "MMRRequest0\<lparr>rq_primaryId := ''epic|a'', rq_playlist := ''2v2''\<rparr>"
  obtain res mr' where run: "ReconcileTrackerResponse ?req 610 11 [] 0 ''epic|a'' False False None 600 mr = (res, mr')"
    by force
  have lists: "rr_applied (fst (ReconcileTrackerResponse ?req 610 11 [] 0 ''epic|a'' False False None 600 mr))"
    "length (rp_updates (rr_publication
       (fst (ReconcileTrackerResponse ?req 610 11 [] 0 ''epic|a'' False False None 600 mr)))) = 1"
    "pending_list mr (PendingPostMatchKey ''epic|a'' ''2v2'') = [''g1'', ''g2'']"
    unfolding mr_def by code_simp+
  have request: "rq_primaryId ?req = ''epic|a''" "rq_playlist ?req = ''2v2''" by simp_all
  have n: "length (rp_updates (rr_publication res)) = 1" "rr_applied res" using lists run by simp_all
  note covered = report_covers_oldest_matches[OF mr_def run n(2), unfolded request lists(3) n(1) Let_def]
  show ?thesis using covered run mr_def by (intro exI[of _ res] exI[of _ mr'] exI[of _ mr]) simp
qed

text \<open>
  The result of a match left early is inferred from the reported rating only if the rating forces
  it: some choice of the unknown results leads from the old rating to the new one, and in every
  choice that does, this match went the same way.
\<close>

theorem inferred_results_are_forced:
  assumes "settled = settle_by_rating callback oldest mmr covered unknown records" "distinct unknown"
    and "i < length unknown" "map_of records (unknown ! i) = Some r" "\<not> pm_resultKnown r"
    and "map_of settled (unknown ! i) = Some r'" "pm_resultKnown r'"
  shows "(\<exists>a < 2 ^ length unknown. feasible (pm_preMatchMmr oldest) mmr records covered a) \<and>
    (\<forall>a < 2 ^ length unknown. feasible (pm_preMatchMmr oldest) mmr records covered a \<longrightarrow>
       odd (a div 2 ^ i) = pm_won r')"
proof -
  let ?as = "filter (feasible (pm_preMatchMmr oldest) mmr records covered) [0..<2 ^ length unknown]"
  let ?g = "unknown ! i"
  have used: "settled = fold (settle_unanimous ?as) (zip unknown [0..<length unknown]) records"
    using assms by (auto simp: settle_by_rating_def split: if_splits)
  have "(?g, i) \<in> set (zip unknown [0..<length unknown])"
    using assms(3) by (auto simp: set_zip intro!: exI[of _ i])
  then have "map_of settled ?g = map_of (settle_unanimous ?as (?g, i) records) ?g"
    using assms(2) by (simp add: used fold_unanimous_own)
  then have "unanimous ?as i = (if pm_won r' then 1 else 0)"
    using assms(4-7)
    by (auto simp: settle_unanimous_def update_record_def set_result_def Let_def um_simps split: if_splits)
  then have "?as \<noteq> [] \<and> (\<forall>a \<in> set ?as. odd (a div 2 ^ i) = pm_won r')"
    using unanimous_iff[of ?as i] by (auto split: if_splits)
  then show ?thesis by (auto simp: filter_empty_conv)
qed

theorem inferred_results_are_forced_witness:
  "let r = PendingPostMatchRecord0\<lparr>pm_matchGuid := ''g'', pm_preMatchMmr := 600, pm_resultKnown := False,
         pm_preMatchMmrIsPlaylistSpecific := True, pm_destroyedMatch := True\<rparr>;
       settled = settle_by_rating True r 609 [''g''] [''g''] [(''g'', r)]
   in settled = [(''g'', set_result True r)] \<and>
      (\<forall>a < 2. feasible 600 609 [(''g'', r)] [''g''] a \<longrightarrow> odd (a :: nat))"
proof -
  define r where "r = PendingPostMatchRecord0\<lparr>pm_matchGuid := ''g'', pm_preMatchMmr := 600,
    pm_resultKnown := False, pm_preMatchMmrIsPlaylistSpecific := True, pm_destroyedMatch := True\<rparr>"
  have run: "settle_by_rating True r 609 [''g''] [''g''] [(''g'', r)] = [(''g'', set_result True r)]"
  proof -
    have path: "BuildDirectionalMmrPath 600 609 [False] = []" "BuildDirectionalMmrPath 600 609 [True] = [609]"
      by (simp_all add: BuildDirectionalMmrPath_def f64_of_int_def f64_numeral MmrPathPreservesResults_def)
    then have "filter (feasible (pm_preMatchMmr r) 609 [(''g'', r)] [''g'']) [0..<2] = [1]"
      by (simp add: upt_rec feasible_def r_def)
    then show ?thesis
      by (simp add: settle_by_rating_def settle_unanimous_def unanimous_def tally_def update_record_def)
        (simp add: r_def)
  qed
  have fields: "\<not> pm_resultKnown r" "pm_resultKnown (set_result True r)" "pm_won (set_result True r)"
    "pm_preMatchMmr r = 600"
    by (simp_all add: r_def set_result_def)
  have "\<forall>a < 2 ^ length [''g'']. feasible (pm_preMatchMmr r) 609 [(''g'', r)] [''g''] a \<longrightarrow>
      odd (a div 2 ^ 0) = pm_won (set_result True r)"
    using inferred_results_are_forced[OF run[symmetric], of 0 r "set_result True r"] fields by simp
  then show ?thesis using run fields unfolding r_def[symmetric] Let_def by simp
qed

end
