(* ===== verification/Rating_Publisher.thy ===== *)
theory Rating_Publisher
  imports Rating_Reconciler Live_Store
begin

text \<open>
  Writing ratings into the live match and the rating history: \<open>network/mmr/MmrStatePublisher.cpp\<close>.
  A publication runs under the locks of the history and the live match and is one step; the live match
  may be absent, as the pointer to it may be null. The graph of a playlist is a list of ratings; a
  point of a match names the rating in it that belongs to the match.
\<close>

section \<open>Helpers\<close>

text \<open>What \<open>ScopedMmrHistoryOwner\<close> does on entry and on exit.\<close>

definition enter_owner :: "string \<Rightarrow> HistoryData \<Rightarrow> HistoryData" where
  "enter_owner requestId h = HistoryData_SelectMmrOwner requestId h"

definition leave_owner :: "string \<Rightarrow> string \<Rightarrow> HistoryData \<Rightarrow> HistoryData" where
  "leave_owner requestId currentId h =
     (if requestId = currentId \<or> currentId = [] then h else HistoryData_SelectMmrOwner currentId h)"

definition sync_session :: "HistoryData \<Rightarrow> MatchState \<Rightarrow> MatchState" where
  "sync_session h st =
     (let changes = session_mmr_changes h
      in st\<lparr>sessionTotals := (sessionTotals st)\<lparr>st_mmrChangeByPlaylist := changes,
              st_totalMmrChange := f32_of_int (CalculateTrackedSessionMmrChange changes)\<rparr>\<rparr>)"

definition has_playlist_mmr :: "(string, int) umap \<Rightarrow> bool" where
  "has_playlist_mmr playlists = list_ex (\<lambda>(playlist, mmr). playlist \<noteq> ''best'' \<and> 0 < mmr) playlists"

definition capture_before_match :: "(string, int) umap \<Rightarrow> (string, int) umap \<Rightarrow> MatchState \<Rightarrow> MatchState" where
  "capture_before_match playlists matches st =
     (if inMatch st \<and> matchGuid st \<noteq> [] \<and> \<not> um_has (preMatchMmrByGuid st) (matchGuid st) \<and>
         has_playlist_mmr playlists
      then st\<lparr>preMatchMmrByGuid := um_emplace (matchGuid st)
                \<lparr>pm_playlistMmrs = playlists, pm_playlistMatches = matches\<rparr> (preMatchMmrByGuid st)\<rparr>
      else st)"

section \<open>Roster and profile\<close>

definition PublishRosterFetchFailure :: "string \<Rightarrow> MatchState option \<Rightarrow> MatchState option" where
  "PublishRosterFetchFailure primaryId live = map_option (SetRosterFetchFailed primaryId) live"

definition cached_player ::
  "(string, int) umap \<Rightarrow> (string, string) umap \<Rightarrow> (string, int) umap \<Rightarrow> int \<Rightarrow> string \<Rightarrow> int \<Rightarrow> PlayerData \<Rightarrow> PlayerData" where
  "cached_player playlists tiers matches bestMmr bestTier wins p =
     p\<lparr>pd_playlists := playlists, pd_playlistTiers := tiers, pd_playlistMatches := matches,
       pd_mmr := bestMmr, pd_rankTier := bestTier,
       pd_totalWins := (if 0 \<le> wins then wins else pd_totalWins p),
       pd_fetched := True, pd_fetchFailed := False\<rparr>"

definition PublishCachedLocalRoster ::
  "string \<Rightarrow> 64 word \<Rightarrow> (string, int) umap \<Rightarrow> (string, string) umap \<Rightarrow> (string, int) umap \<Rightarrow> int \<Rightarrow> string \<Rightarrow> int
     \<Rightarrow> MatchState option \<Rightarrow> bool \<times> MatchState option" where
  "PublishCachedLocalRoster primaryId generation playlists tiers matches bestMmr bestTier wins live =
     (case live of
        None \<Rightarrow> (False, None)
      | Some st \<Rightarrow>
          (if myPrimaryId st \<noteq> primaryId \<or> sessionGeneration st \<noteq> generation
           then (False, Some (publish st))
           else case map_of (roster st) primaryId of
                  None \<Rightarrow> (False, Some (publish st))
                | Some p \<Rightarrow>
                    (True, Some (publish (capture_before_match playlists matches
                       (st\<lparr>roster := um_put primaryId
                             (cached_player playlists tiers matches bestMmr bestTier wins p) (roster st)\<rparr>))))))"

definition profile_player :: "MMRRequest \<Rightarrow> NormalizedProfileResult \<Rightarrow> PlayerData \<Rightarrow> PlayerData" where
  "profile_player req profile p =
     p\<lparr>pd_primaryId := rq_primaryId req,
       pd_name := (if pd_name p = [] then rq_name req else pd_name p),
       pd_mmr := np_bestMmr profile, pd_rankTier := np_bestTier profile,
       pd_playlists := np_playlistMMRs profile, pd_playlistTiers := np_playlistTiers profile,
       pd_playlistMatches := np_playlistMatches profile,
       pd_totalWins := (if 0 \<le> np_totalWins profile then np_totalWins profile else pd_totalWins p),
       pd_rankVerificationSource := np_rankVerificationSource profile,
       pd_fetched := True, pd_fetchFailed := False\<rparr>"

definition profile_roster :: "MMRRequest \<Rightarrow> NormalizedProfileResult \<Rightarrow> MatchState \<Rightarrow> MatchState" where
  "profile_roster req profile st =
     (let isLocal = (rq_primaryId req = myPrimaryId st);
          thisSession = (rq_sessionGeneration req = sessionGeneration st)
      in case map_of (roster st) (rq_primaryId req) of
           Some p \<Rightarrow>
             (if isLocal \<or> thisSession
              then st\<lparr>roster := um_put (rq_primaryId req) (profile_player req profile p) (roster st)\<rparr> else st)
         | None \<Rightarrow>
             (if isLocal
              then st\<lparr>roster := um_emplace (rq_primaryId req) (profile_player req profile PlayerData0)
                        (roster st)\<rparr>
              else st))"

text \<open>The overall rating: the first one of a session is kept, and every one of a roster request is drawn.\<close>

definition profile_best :: "MMRRequest \<Rightarrow> NormalizedProfileResult \<Rightarrow> HistoryData \<Rightarrow> HistoryData" where
  "profile_best req profile h =
     (let h = (if hd_initialMmr h = -1 \<and> 0 < np_bestMmr profile
               then h\<lparr>hd_initialMmr := np_bestMmr profile\<rparr> else h)
      in if rq_reason req = Roster \<and> 0 < np_bestMmr profile
         then let y = hd_mmrHistoryY h @ [f32_of_int (np_bestMmr profile)]
              in h\<lparr>hd_mmrHistoryY := y,
                   hd_mmrHistoryX := hd_mmrHistoryX h @ [f32_of_int (int (length y))]\<rparr>
         else h)"

definition played_in :: "MatchState \<Rightarrow> string \<Rightarrow> bool" where
  "played_in st playlist =
     (case map_of (sessionGamemodes st) playlist of None \<Rightarrow> False | Some g \<Rightarrow> 0 < gm_total g)"

definition profile_playlist ::
  "MMRRequest \<Rightarrow> string set \<Rightarrow> MatchState \<Rightarrow> string \<times> int \<Rightarrow> HistoryData \<Rightarrow> HistoryData" where
  "profile_playlist req awaiting st = (\<lambda>(playlist, mmr) h.
     if mmr \<le> 0 \<or> playlist = ''best'' \<or> playlist = ''t'' \<or> playlist = ''casual'' \<or> playlist \<in> awaiting \<or>
        rq_reason req = PostMatch \<and> playlist = rq_playlist req
     then h
     else
       let graph = um_list (hd_playlistHistoryY h) playlist;
           initial = (if graph = [] \<and> \<not> um_has (hd_playlistInitialMmr h) playlist \<and> \<not> played_in st playlist
                      then um_put playlist mmr (hd_playlistInitialMmr h) else hd_playlistInitialMmr h)
       in h\<lparr>hd_playlistInitialMmr := initial,
            hd_playlistHistoryY := um_put playlist
              (if graph = [] \<or> lround (last graph) \<noteq> mmr then graph @ [f32_of_int mmr] else graph)
              (hd_playlistHistoryY h)\<rparr>)"

definition profile_locked ::
  "MMRRequest \<Rightarrow> NormalizedProfileResult \<Rightarrow> string set \<Rightarrow> HistoryData \<Rightarrow> MatchState \<Rightarrow> HistoryData \<times> MatchState" where
  "profile_locked req profile awaiting h st =
     (let isLocal = (rq_primaryId req = myPrimaryId st);
          thisSession = (rq_sessionGeneration req = sessionGeneration st);
          st = (if rq_reason req = Roster \<and> thisSession \<and> isLocal
                then capture_before_match (np_playlistMMRs profile) (np_playlistMatches profile) st else st);
          st = profile_roster req profile st
      in if isLocal \<and> thisSession
         then let h = profile_best req profile (HistoryData_SelectMmrOwner (rq_primaryId req) h);
                  h = fold (profile_playlist req awaiting st) (np_playlistMMRs profile) h
              in (h, sync_session h st)
         else (h, st))"

text \<open>A missing set of playlists is the empty one. The result of the C++ function is always false.\<close>

definition PublishProfileResult ::
  "MMRRequest \<Rightarrow> NormalizedProfileResult \<Rightarrow> string set \<Rightarrow> HistoryData \<times> MatchState option \<Rightarrow> HistoryData \<times> MatchState option" where
  "PublishProfileResult req profile awaiting = (\<lambda>(h, live).
     case live of
       None \<Rightarrow> (h, None)
     | Some st \<Rightarrow>
         (let (h', st') = profile_locked req profile awaiting h st
          in (h'\<lparr>hd_version := hd_version h' + 1\<rparr>, Some (publish st'))))"

section \<open>A report\<close>

definition point_index :: "string \<Rightarrow> SessionMmrPoint list \<Rightarrow> nat option" where
  "point_index guid points = find (\<lambda>i. mp_matchGuid (points ! i) = guid) [0..<length points]"

definition start_playlist :: "string \<Rightarrow> nat \<Rightarrow> int \<Rightarrow> HistoryData \<Rightarrow> HistoryData" where
  "start_playlist playlist historyIndex startMmr h =
     (if historyIndex = 0 \<and> 0 < startMmr \<and> \<not> um_has (hd_playlistInitialMmr h) playlist
      then h\<lparr>hd_playlistInitialMmr := um_put playlist startMmr (hd_playlistInitialMmr h)\<rparr> else h)"

definition set_graph ::
  "string \<Rightarrow> SessionMmrPoint list \<Rightarrow> fp list \<Rightarrow> HistoryData \<Rightarrow> HistoryData" where
  "set_graph playlist points projection h =
     h\<lparr>hd_playlistMatchPoints := um_put playlist points (hd_playlistMatchPoints h),
       hd_playlistHistoryY := um_put playlist projection (hd_playlistHistoryY h)\<rparr>"

text \<open>One match of a report. The rating at the start is noted in two places of the loop; once is enough.\<close>

definition publish_update :: "string \<Rightarrow> 64 word \<Rightarrow> ReconciledMatchUpdate \<Rightarrow> HistoryData \<Rightarrow> HistoryData" where
  "publish_update playlist generation u h =
     (if ru_sessionGeneration u \<noteq> generation then h
      else
        let points = um_list (hd_playlistMatchPoints h) playlist;
            projection = um_list (hd_playlistHistoryY h) playlist
        in case point_index (ru_matchGuid u) points of
             None \<Rightarrow>
               start_playlist playlist (length projection) (ru_sessionStartMmr u)
                 (set_graph playlist
                   (points @ [\<lparr>mp_matchGuid = ru_matchGuid u, mp_historyIndex = length projection,
                      mp_mmr = ru_mmr u, mp_trackerMatchesPlayed = ru_matchesPlayed u,
                      mp_trackerCovered = True, mp_valueEstimated = ru_valueEstimated u\<rparr>])
                   (projection @ [f32_of_int (ru_mmr u)]) h)
           | Some i \<Rightarrow>
               let index = mp_historyIndex (points ! i)
               in start_playlist playlist index (ru_sessionStartMmr u)
                    (set_graph playlist
                      (points[i := (points ! i)\<lparr>mp_mmr := ru_mmr u, mp_trackerMatchesPlayed := ru_matchesPlayed u,
                         mp_trackerCovered := True, mp_valueEstimated := ru_valueEstimated u\<rparr>])
                      (if index < length projection
                       then projection[index := f32_of_int (ru_mmr u)] else projection) h))"

definition seed_mmr :: "ReconcilePublication \<Rightarrow> 64 word \<Rightarrow> int" where
  "seed_mmr pub generation =
     (if rp_sessionGeneration pub = generation then rp_currentSessionSeedMmr pub
      else if rp_pendingSessionGenerations pub \<subseteq> {generation} \<and> rp_updates pub \<noteq> [] \<and>
              ru_sessionGeneration (last (rp_updates pub)) \<noteq> generation
      then ru_mmr (last (rp_updates pub)) else 0)"

definition seed_playlist :: "string \<Rightarrow> int \<Rightarrow> HistoryData \<Rightarrow> HistoryData" where
  "seed_playlist playlist seed h =
     (if 0 < seed \<and> um_list (hd_playlistHistoryY h) playlist = [] \<and>
         \<not> um_has (hd_playlistInitialMmr h) playlist
      then h\<lparr>hd_playlistInitialMmr := um_put playlist seed (hd_playlistInitialMmr h),
             hd_playlistHistoryY := um_put playlist [f32_of_int seed] (hd_playlistHistoryY h)\<rparr>
      else h)"

definition recap_latest :: "ReconcilePublication \<Rightarrow> 64 word \<Rightarrow> int" where
  "recap_latest pub generation =
     fold (\<lambda>u latest. if ru_sessionGeneration u = generation then ru_mmr u else latest) (rp_updates pub) 0"

definition update_recap :: "ReconcilePublication \<Rightarrow> 64 word \<Rightarrow> SessionRecap \<Rightarrow> SessionRecap option" where
  "update_recap pub generation recap =
     (if rcp_valid recap \<and> rcp_sessionGeneration recap \<noteq> generation \<and>
         rcp_mmrOwnerPrimaryId recap = rp_primaryId pub \<and>
         rcp_sessionGeneration recap \<notin> rp_pendingSessionGenerations pub
      then
        let latest = recap_latest pub (rcp_sessionGeneration recap)
        in case map_of (rcp_playlistInitialMmr recap) (rp_playlist pub) of
             None \<Rightarrow> None
           | Some initial \<Rightarrow>
               (if 0 < latest \<and> 0 < initial
                then let changes = um_put (rp_playlist pub) (latest - initial)
                                     (st_mmrChangeByPlaylist (rcp_totals recap))
                     in Some (recap\<lparr>rcp_totals := (rcp_totals recap)
                          \<lparr>st_mmrChangeByPlaylist := changes,
                           st_totalMmrChange := f32_of_int (CalculateTrackedSessionMmrChange changes)\<rparr>\<rparr>)
                else None)
      else None)"

definition move_baseline :: "ReconcilePublication \<Rightarrow> LocalPreMatchMmrSnapshot \<Rightarrow> LocalPreMatchMmrSnapshot" where
  "move_baseline pub baseline =
     (case map_of (pm_playlistMatches baseline) (rp_playlist pub) of
        None \<Rightarrow> baseline
      | Some n \<Rightarrow>
          (if n < 0 \<or> rp_fetchedMatches pub \<le> n then baseline
           else \<lparr>pm_playlistMmrs = um_put (rp_playlist pub)
                   (if rp_updates pub = [] then 0 else ru_mmr (last (rp_updates pub)))
                   (pm_playlistMmrs baseline),
                 pm_playlistMatches = um_put (rp_playlist pub) (rp_fetchedMatches pub)
                   (pm_playlistMatches baseline)\<rparr>))"

definition move_baselines :: "ReconcilePublication \<Rightarrow> MatchState \<Rightarrow> MatchState" where
  "move_baselines pub st =
     (if rp_shouldUpdatePreMatchSnapshots pub \<and> 0 \<le> rp_fetchedMatches pub \<and> inMatch st \<and>
         \<not> matchFinalized st \<and> rp_primaryId pub = myPrimaryId st
      then st\<lparr>preMatchMmrByGuid := map (\<lambda>(guid, baseline).
                (guid, if guid \<in> rp_protectedSnapshotGuids pub then baseline else move_baseline pub baseline))
                (preMatchMmrByGuid st)\<rparr>
      else st)"

definition PublishReconciledPointsLocked ::
  "ReconcilePublication \<Rightarrow> HistoryData \<Rightarrow> MatchState \<Rightarrow> SessionRecap option \<times> HistoryData \<times> MatchState" where
  "PublishReconciledPointsLocked pub h st =
     (let generation = sessionGeneration st;
          h = enter_owner (rp_primaryId pub) h;
          h = set_graph (rp_playlist pub) (um_list (hd_playlistMatchPoints h) (rp_playlist pub))
                (um_list (hd_playlistHistoryY h) (rp_playlist pub)) h;
          h = fold (publish_update (rp_playlist pub) generation) (rp_updates pub) h;
          h = seed_playlist (rp_playlist pub) (seed_mmr pub generation) h;
          recap = update_recap pub generation (lastSessionRecap st);
          st = (case recap of Some r \<Rightarrow> st\<lparr>lastSessionRecap := r\<rparr> | None \<Rightarrow> st);
          st = move_baselines pub st;
          st = (if rp_primaryId pub = myPrimaryId st then sync_session h st else st)
      in (recap, leave_owner (rp_primaryId pub) (myPrimaryId st) h, st))"

text \<open>Without a live match the report is written against an empty one.\<close>

definition PublishReconciledPoints ::
  "ReconcilePublication \<Rightarrow> HistoryData \<times> MatchState option \<Rightarrow> SessionRecap option \<times> HistoryData \<times> MatchState option" where
  "PublishReconciledPoints pub = (\<lambda>(h, live).
     case live of
       Some st \<Rightarrow>
         (let (recap, h', st') = PublishReconciledPointsLocked pub h st
          in (recap, h'\<lparr>hd_version := hd_version h' + 1\<rparr>, Some (publish st')))
     | None \<Rightarrow>
         (let (recap, h', st') = PublishReconciledPointsLocked pub h MatchState0
          in (recap, h'\<lparr>hd_version := hd_version h' + 1\<rparr>, None)))"

section \<open>A provisional point\<close>

definition PublishProvisionalPointLocked ::
  "ProvisionalPublication \<Rightarrow> HistoryData \<Rightarrow> MatchState \<Rightarrow> HistoryData \<times> MatchState" where
  "PublishProvisionalPointLocked pub h st =
     (if pp_sessionGeneration pub \<noteq> sessionGeneration st then (h, st)
      else
        let h = enter_owner (pp_primaryId pub) h;
            points = um_list (hd_playlistMatchPoints h) (pp_playlist pub);
            projection = um_list (hd_playlistHistoryY h) (pp_playlist pub);
            h = set_graph (pp_playlist pub) points projection h
        in case point_index (pp_matchGuid pub) points of
             Some i \<Rightarrow> (leave_owner (pp_primaryId pub) (myPrimaryId st) h, st)
           | None \<Rightarrow>
               (let h = start_playlist (pp_playlist pub) (length projection) (pp_sessionStartMmr pub)
                      (set_graph (pp_playlist pub)
                        (points @ [\<lparr>mp_matchGuid = pp_matchGuid pub, mp_historyIndex = length projection,
                           mp_mmr = pp_provisionalMmr pub, mp_trackerMatchesPlayed = pp_matchesPlayed pub,
                           mp_trackerCovered = False, mp_valueEstimated = True\<rparr>])
                        (projection @ [f32_of_int (pp_provisionalMmr pub)]) h);
                    st = (if pp_primaryId pub = myPrimaryId st then sync_session h st else st)
                in (leave_owner (pp_primaryId pub) (myPrimaryId st) h, st)))"

definition PublishProvisionalPoint ::
  "ProvisionalPublication \<Rightarrow> HistoryData \<times> MatchState option \<Rightarrow> HistoryData \<times> MatchState option" where
  "PublishProvisionalPoint pub = (\<lambda>(h, live).
     case live of
       Some st \<Rightarrow>
         (let (h', st') = PublishProvisionalPointLocked pub h st
          in (h'\<lparr>hd_version := hd_version h' + 1\<rparr>, Some (publish st')))
     | None \<Rightarrow> (h\<lparr>hd_version := hd_version h + 1\<rparr>, None))"

section \<open>The graphs agree with their points\<close>

lemma um_list_put [um_simps]: "um_list (um_put k v m) k' = (if k' = k then v else um_list m k')"
  by (simp add: um_list_def um_simps)

text \<open>
  Each match has one point, each point a place of its own in the graph, and the graph shows the
  point's rating there.
\<close>

definition graph_ok :: "fp list \<Rightarrow> SessionMmrPoint list \<Rightarrow> bool" where
  "graph_ok graph points \<longleftrightarrow>
     distinct (map mp_matchGuid points) \<and> distinct (map mp_historyIndex points) \<and>
     (\<forall>p \<in> set points. mp_historyIndex p < length graph \<and> graph ! mp_historyIndex p = f32_of_int (mp_mmr p))"

definition account_ok :: "AccountMmrHistory \<Rightarrow> bool" where
  "account_ok a \<longleftrightarrow>
     (\<forall>playlist. graph_ok (um_list (ah_playlistHistoryY a) playlist) (um_list (ah_playlistMatchPoints a) playlist))"

definition history_ok :: "HistoryData \<Rightarrow> bool" where
  "history_ok h \<longleftrightarrow>
     account_ok (active_history h) \<and>
     (\<forall>a x. map_of (hd_inactiveMmrHistories h) a = Some x \<longrightarrow> account_ok x)"

lemma account_ok_active:
  "account_ok (active_history h) \<longleftrightarrow>
     (\<forall>playlist. graph_ok (um_list (hd_playlistHistoryY h) playlist) (um_list (hd_playlistMatchPoints h) playlist))"
  by (simp add: account_ok_def active_history_def)

lemma account_ok_empty [simp]: "account_ok AccountMmrHistory0"
  by (simp add: account_ok_def AccountMmrHistory0_def um_list_def graph_ok_def)

lemma graph_ok_append_graph: "graph_ok graph points \<Longrightarrow> graph_ok (graph @ ys) points"
  by (auto simp: graph_ok_def nth_append)

lemma graph_ok_append_point:
  assumes "graph_ok graph points" "mp_matchGuid p \<notin> mp_matchGuid ` set points"
    "mp_historyIndex p = length graph" "y = f32_of_int (mp_mmr p)"
  shows "graph_ok (graph @ [y]) (points @ [p])"
  using assms by (auto simp: graph_ok_def nth_append)

lemma graph_ok_replace:
  assumes ok: "graph_ok graph points" and i: "i < length points"
    and p: "mp_matchGuid p = mp_matchGuid (points ! i)" "mp_historyIndex p = mp_historyIndex (points ! i)"
  shows "graph_ok (graph[mp_historyIndex (points ! i) := f32_of_int (mp_mmr p)]) (points[i := p])"
proof -
  have same: "map mp_matchGuid (points[i := p]) = map mp_matchGuid points"
    "map mp_historyIndex (points[i := p]) = map mp_historyIndex points"
    using i p by (simp_all add: map_update list_update_same_conv)
  have apart: "mp_historyIndex (points ! j) \<noteq> mp_historyIndex (points ! i)" if "j < length points" "j \<noteq> i" for j
    using ok that i by (auto simp: graph_ok_def distinct_conv_nth)
  have "mp_historyIndex q < length graph \<and>
      graph[mp_historyIndex (points ! i) := f32_of_int (mp_mmr p)] ! mp_historyIndex q = f32_of_int (mp_mmr q)"
    if q: "q \<in> set (points[i := p])" for q
  proof -
    obtain j where j: "j < length points" "q = points[i := p] ! j" using q by (auto simp: in_set_conv_nth)
    have good: "mp_historyIndex (points ! j) < length graph \<and>
        graph ! mp_historyIndex (points ! j) = f32_of_int (mp_mmr (points ! j))"
      using ok j(1) by (simp add: graph_ok_def)
    show ?thesis
    proof (cases "j = i")
      case True
      then show ?thesis using j good p i by simp
    next
      case False
      then show ?thesis using j good apart[OF j(1) False] by simp
    qed
  qed
  then show ?thesis using ok same by (simp add: graph_ok_def)
qed

lemma point_index_Some:
  "point_index guid points = Some i \<Longrightarrow> i < length points \<and> mp_matchGuid (points ! i) = guid"
  by (auto simp: point_index_def find_Some_iff)

lemma point_index_None: "point_index guid points = None \<longleftrightarrow> guid \<notin> mp_matchGuid ` set points"
proof -
  have "point_index guid points = None \<longleftrightarrow> (\<forall>i < length points. mp_matchGuid (points ! i) \<noteq> guid)"
    by (auto simp: point_index_def find_None_iff)
  then show ?thesis by (auto simp: in_set_conv_nth) (metis nth_mem imageI)
qed


section \<open>Every publication keeps the graphs\<close>

lemma history_ok_frame:
  assumes "hd_playlistHistoryY h' = hd_playlistHistoryY h" "hd_playlistMatchPoints h' = hd_playlistMatchPoints h"
    "hd_inactiveMmrHistories h' = hd_inactiveMmrHistories h"
  shows "history_ok h' \<longleftrightarrow> history_ok h"
  using assms by (simp add: history_ok_def account_ok_active)

named_theorems graphs \<open>what a publication does to the graphs\<close>

lemma history_ok_select [graphs]: "history_ok h \<Longrightarrow> history_ok (HistoryData_SelectMmrOwner a h)"
  by (auto simp: history_ok_def HistoryData_SelectMmrOwner_def um_simps Let_def split: option.splits if_splits)

lemma history_ok_owner [graphs]:
  "history_ok h \<Longrightarrow> history_ok (enter_owner a h)" "history_ok h \<Longrightarrow> history_ok (leave_owner a b h)"
  by (simp_all add: enter_owner_def leave_owner_def graphs)

lemma history_ok_set_graph [graphs]:
  "history_ok h \<Longrightarrow> graph_ok graph points \<Longrightarrow> history_ok (set_graph playlist points graph h)"
  by (auto simp: history_ok_def account_ok_active set_graph_def um_simps)

lemma history_ok_start [graphs]: "history_ok h \<Longrightarrow> history_ok (start_playlist playlist i mmr h)"
  by (simp add: start_playlist_def history_ok_def account_ok_active)

lemma history_ok_version [graphs]: "history_ok h \<Longrightarrow> history_ok (h\<lparr>hd_version := v\<rparr>)"
  by (simp add: history_ok_def account_ok_active)

lemma history_ok_graph:
  "history_ok h \<Longrightarrow> graph_ok (um_list (hd_playlistHistoryY h) playlist) (um_list (hd_playlistMatchPoints h) playlist)"
  by (simp add: history_ok_def account_ok_active)

lemma history_ok_update [graphs]:
  assumes ok: "history_ok h"
  shows "history_ok (publish_update playlist generation u h)"
proof -
  let ?points = "um_list (hd_playlistMatchPoints h) playlist"
  let ?graph = "um_list (hd_playlistHistoryY h) playlist"
  have g: "graph_ok ?graph ?points" by (rule history_ok_graph[OF ok])
  show ?thesis
  proof (cases "point_index (ru_matchGuid u) ?points")
    case None
    have "graph_ok (?graph @ [f32_of_int (ru_mmr u)])
        (?points @ [\<lparr>mp_matchGuid = ru_matchGuid u, mp_historyIndex = length ?graph, mp_mmr = ru_mmr u,
           mp_trackerMatchesPlayed = ru_matchesPlayed u, mp_trackerCovered = True,
           mp_valueEstimated = ru_valueEstimated u\<rparr>])"
      by (rule graph_ok_append_point[OF g]) (use None in \<open>simp_all add: point_index_None\<close>)
    then show ?thesis using ok None by (simp add: publish_update_def Let_def graphs)
  next
    case (Some i)
    then have i: "i < length ?points" by (simp add: point_index_Some)
    then have "mp_historyIndex (?points ! i) < length ?graph" using g by (auto simp: graph_ok_def)
    moreover have "graph_ok (?graph[mp_historyIndex (?points ! i) := f32_of_int (ru_mmr u)])
        (?points[i := (?points ! i)\<lparr>mp_mmr := ru_mmr u, mp_trackerMatchesPlayed := ru_matchesPlayed u,
           mp_trackerCovered := True, mp_valueEstimated := ru_valueEstimated u\<rparr>])"
      using graph_ok_replace[OF g i, of "(?points ! i)\<lparr>mp_mmr := ru_mmr u,
          mp_trackerMatchesPlayed := ru_matchesPlayed u, mp_trackerCovered := True,
          mp_valueEstimated := ru_valueEstimated u\<rparr>"] by simp
    ultimately show ?thesis using ok Some by (simp add: publish_update_def Let_def graphs)
  qed
qed

lemma history_ok_fold:
  assumes "\<And>x h. history_ok h \<Longrightarrow> history_ok (f x h)"
  shows "history_ok h \<Longrightarrow> history_ok (fold f xs h)"
  using assms by (induction xs arbitrary: h) auto

lemma graph_ok_fresh [simp]: "graph_ok [] points \<longleftrightarrow> points = []" "graph_ok graph []"
  by (cases points) (auto simp: graph_ok_def)

lemma history_ok_no_points:
  "history_ok h \<Longrightarrow> um_list (hd_playlistHistoryY h) playlist = [] \<Longrightarrow> um_list (hd_playlistMatchPoints h) playlist = []"
  using history_ok_graph[of h playlist] by simp

lemma history_ok_seed [graphs]:
  "history_ok h \<Longrightarrow> history_ok (seed_playlist playlist seed h)"
  using history_ok_no_points[of h playlist]
  by (auto simp: seed_playlist_def history_ok_def account_ok_active um_simps)

lemma history_ok_best [graphs]: "history_ok h \<Longrightarrow> history_ok (profile_best req profile h)"
  by (simp add: profile_best_def Let_def history_ok_def account_ok_active)

lemma history_ok_playlist [graphs]:
  assumes "history_ok h"
  shows "history_ok (profile_playlist req awaiting st e h)"
proof -
  obtain playlist mmr where e: "e = (playlist, mmr)" by (cases e)
  show ?thesis
    using assms history_ok_no_points[OF assms, of playlist]
    by (auto simp: e profile_playlist_def Let_def history_ok_def account_ok_active um_simps
        graph_ok_append_graph)
qed

lemma history_ok_report [graphs]:
  assumes "history_ok h" "PublishReconciledPointsLocked pub h st = (recap, h', st')"
  shows "history_ok h'"
  using assms
  by (auto simp: PublishReconciledPointsLocked_def Let_def intro!: graphs history_ok_fold history_ok_graph)

lemma history_ok_estimate [graphs]:
  assumes "history_ok h" "PublishProvisionalPointLocked pub h st = (h', st')"
  shows "history_ok h'"
proof (cases "pp_sessionGeneration pub = sessionGeneration st")
  case False
  then show ?thesis using assms by (simp add: PublishProvisionalPointLocked_def)
next
  case True
  let ?h = "enter_owner (pp_primaryId pub) h"
  let ?graph = "um_list (hd_playlistHistoryY ?h) (pp_playlist pub)"
  let ?points = "um_list (hd_playlistMatchPoints ?h) (pp_playlist pub)"
  have ok: "history_ok ?h" using assms(1) by (rule graphs)
  have g: "graph_ok ?graph ?points" by (rule history_ok_graph[OF ok])
  show ?thesis
  proof (cases "point_index (pp_matchGuid pub) ?points")
    case None
    have "graph_ok (?graph @ [f32_of_int (pp_provisionalMmr pub)])
        (?points @ [\<lparr>mp_matchGuid = pp_matchGuid pub, mp_historyIndex = length ?graph,
           mp_mmr = pp_provisionalMmr pub, mp_trackerMatchesPlayed = pp_matchesPlayed pub,
           mp_trackerCovered = False, mp_valueEstimated = True\<rparr>])"
      by (rule graph_ok_append_point[OF g]) (use None in \<open>simp_all add: point_index_None\<close>)
    then show ?thesis
      using assms(2) ok g True None by (auto simp: PublishProvisionalPointLocked_def Let_def graphs)
  next
    case (Some i)
    then show ?thesis
      using assms(2) ok g True by (auto simp: PublishProvisionalPointLocked_def Let_def graphs)
  qed
qed

lemma history_ok_profile [graphs]:
  assumes "history_ok h" "profile_locked req profile awaiting h st = (h', st')"
  shows "history_ok h'"
  using assms by (auto simp: profile_locked_def Let_def intro!: graphs history_ok_fold split: if_splits)

section \<open>The publications as a machine\<close>

datatype Publication =
    FetchFailed string
  | CachedRoster string "64 word" "(string, int) umap" "(string, string) umap" "(string, int) umap" int string int
  | ProfileArrived MMRRequest NormalizedProfileResult "string set"
  | ReportArrived ReconcilePublication
  | EstimateArrived ProvisionalPublication

fun publish_step :: "Publication \<Rightarrow> HistoryData \<times> MatchState option \<Rightarrow> HistoryData \<times> MatchState option" where
  "publish_step (FetchFailed pid) (h, live) = (h, PublishRosterFetchFailure pid live)"
| "publish_step (CachedRoster pid gen mmrs tiers matches best tier wins) (h, live) =
     (h, snd (PublishCachedLocalRoster pid gen mmrs tiers matches best tier wins live))"
| "publish_step (ProfileArrived req profile awaiting) s = PublishProfileResult req profile awaiting s"
| "publish_step (ReportArrived pub) s = snd (PublishReconciledPoints pub s)"
| "publish_step (EstimateArrived pub) s = PublishProvisionalPoint pub s"

lemma publish_step_ok:
  assumes "history_ok (fst s)"
  shows "history_ok (fst (publish_step p s))"
proof (cases s)
  case (Pair h live)
  with assms show ?thesis
    by (cases p)
      (auto simp: PublishProfileResult_def PublishReconciledPoints_def PublishProvisionalPoint_def
        split: option.split prod.split intro: graphs)
qed

interpretation publications: invariant_machine publish_step "\<lambda>s. history_ok (fst s)"
  by unfold_locales (rule publish_step_ok)


section \<open>What a report draws\<close>

abbreviation graph_of :: "AccountMmrHistory \<Rightarrow> string \<Rightarrow> fp list" where
  "graph_of a \<equiv> um_list (ah_playlistHistoryY a)"

abbreviation points_of :: "AccountMmrHistory \<Rightarrow> string \<Rightarrow> SessionMmrPoint list" where
  "points_of a \<equiv> um_list (ah_playlistMatchPoints a)"

lemma set_graph_fields [simp]:
  "hd_mmrOwnerPrimaryId (set_graph playlist points graph h) = hd_mmrOwnerPrimaryId h"
  "hd_inactiveMmrHistories (set_graph playlist points graph h) = hd_inactiveMmrHistories h"
  "um_list (hd_playlistMatchPoints (set_graph playlist points graph h)) playlist = points"
  by (simp_all add: set_graph_def um_simps)

lemma start_playlist_fields [simp]:
  "hd_mmrOwnerPrimaryId (start_playlist playlist i mmr h) = hd_mmrOwnerPrimaryId h"
  "hd_inactiveMmrHistories (start_playlist playlist i mmr h) = hd_inactiveMmrHistories h"
  "hd_playlistMatchPoints (start_playlist playlist i mmr h) = hd_playlistMatchPoints h"
  by (simp_all add: start_playlist_def)

lemma publish_update_fields [simp]:
  "hd_mmrOwnerPrimaryId (publish_update playlist generation u h) = hd_mmrOwnerPrimaryId h"
  "hd_inactiveMmrHistories (publish_update playlist generation u h) = hd_inactiveMmrHistories h"
  by (auto simp: publish_update_def Let_def split: option.split)

lemma fold_update_fields [simp]:
  "hd_mmrOwnerPrimaryId (fold (publish_update playlist generation) us h) = hd_mmrOwnerPrimaryId h"
  "hd_inactiveMmrHistories (fold (publish_update playlist generation) us h) = hd_inactiveMmrHistories h"
  by (induction us arbitrary: h) simp_all

lemma seed_playlist_fields [simp]:
  "hd_mmrOwnerPrimaryId (seed_playlist playlist seed h) = hd_mmrOwnerPrimaryId h"
  "hd_inactiveMmrHistories (seed_playlist playlist seed h) = hd_inactiveMmrHistories h"
  "hd_playlistMatchPoints (seed_playlist playlist seed h) = hd_playlistMatchPoints h"
  by (simp_all add: seed_playlist_def)

definition drawn_as :: "ReconciledMatchUpdate \<Rightarrow> SessionMmrPoint \<Rightarrow> bool" where
  "drawn_as u p \<longleftrightarrow> mp_matchGuid p = ru_matchGuid u \<and> mp_mmr p = ru_mmr u \<and>
     mp_trackerMatchesPlayed p = ru_matchesPlayed u \<and> mp_trackerCovered p \<and>
     mp_valueEstimated p = ru_valueEstimated u"

lemma publish_update_draws:
  assumes "ru_sessionGeneration u = generation"
  shows "\<exists>p \<in> set (um_list (hd_playlistMatchPoints (publish_update playlist generation u h)) playlist). drawn_as u p"
  using assms
  by (cases "point_index (ru_matchGuid u) (um_list (hd_playlistMatchPoints h) playlist)")
    (auto simp: publish_update_def drawn_as_def Let_def dest!: point_index_Some
      intro!: bexI[OF _ set_update_memI])

lemma publish_update_keeps:
  assumes "p \<in> set (um_list (hd_playlistMatchPoints h) playlist)" "mp_matchGuid p \<noteq> ru_matchGuid u"
  shows "p \<in> set (um_list (hd_playlistMatchPoints (publish_update playlist generation u h)) playlist)"
proof (cases "point_index (ru_matchGuid u) (um_list (hd_playlistMatchPoints h) playlist)")
  case None
  then show ?thesis using assms by (auto simp: publish_update_def Let_def)
next
  case (Some i)
  obtain j where j: "j < length (um_list (hd_playlistMatchPoints h) playlist)"
    "p = um_list (hd_playlistMatchPoints h) playlist ! j"
    using assms(1) by (auto simp: in_set_conv_nth)
  then have "j \<noteq> i" using point_index_Some[OF Some] assms(2) by auto
  have "p \<in> set ((um_list (hd_playlistMatchPoints h) playlist)[i := q])" for q
    unfolding in_set_conv_nth using j \<open>j \<noteq> i\<close> by (intro exI[of _ j]) simp
  then show ?thesis using Some assms(1) by (simp add: publish_update_def Let_def)
qed

lemma fold_update_keeps:
  "p \<in> set (um_list (hd_playlistMatchPoints h) playlist) \<Longrightarrow> mp_matchGuid p \<notin> ru_matchGuid ` set us \<Longrightarrow>
   p \<in> set (um_list (hd_playlistMatchPoints (fold (publish_update playlist generation) us h)) playlist)"
  by (induction us arbitrary: h) (auto intro: publish_update_keeps)

lemma fold_update_draws:
  "distinct (map ru_matchGuid us) \<Longrightarrow> u \<in> set us \<Longrightarrow> ru_sessionGeneration u = generation \<Longrightarrow>
   \<exists>p \<in> set (um_list (hd_playlistMatchPoints (fold (publish_update playlist generation) us h)) playlist). drawn_as u p"
proof (induction us arbitrary: h)
  case (Cons v us)
  show ?case
  proof (cases "u = v")
    case True
    obtain p where p: "p \<in> set (um_list (hd_playlistMatchPoints (publish_update playlist generation u h)) playlist)"
      "drawn_as u p"
      using publish_update_draws[OF Cons.prems(3)] by blast
    have "mp_matchGuid p \<notin> ru_matchGuid ` set us" using p(2) Cons.prems(1) True by (simp add: drawn_as_def)
    from fold_update_keeps[OF p(1) this] p(2) show ?thesis by (auto simp: True)
  next
    case False
    then show ?thesis using Cons by simp
  qed
qed simp

lemma live_fields [simp]:
  "myPrimaryId (sync_session h st) = myPrimaryId st" "myPrimaryId (move_baselines pub st) = myPrimaryId st"
  "sessionTotals (move_baselines pub st) = sessionTotals st"
  "myPrimaryId (case r of None \<Rightarrow> st | Some x \<Rightarrow> st\<lparr>lastSessionRecap := x\<rparr>) = myPrimaryId st"
  "sessionTotals (case r of None \<Rightarrow> st | Some x \<Rightarrow> st\<lparr>lastSessionRecap := x\<rparr>) = sessionTotals st"
  by (simp_all add: sync_session_def move_baselines_def Let_def split: option.split)

text \<open>The history of the account a report is about, and of the others, after the report.\<close>

lemma report_histories:
  assumes "PublishReconciledPointsLocked pub h st = (recap, h', st')" "rp_primaryId pub \<noteq> []"
    "hd_mmrOwnerPrimaryId h \<noteq> []"
  obtains w where "history_of h' (rp_primaryId pub) = active_history w"
    "hd_playlistMatchPoints w = hd_playlistMatchPoints (fold (publish_update (rp_playlist pub) (sessionGeneration st))
       (rp_updates pub) (set_graph (rp_playlist pub)
          (points_of (history_of h (rp_primaryId pub)) (rp_playlist pub))
          (graph_of (history_of h (rp_primaryId pub)) (rp_playlist pub)) (enter_owner (rp_primaryId pub) h)))"
    "\<And>b. b \<noteq> rp_primaryId pub \<Longrightarrow> history_of h' b = history_of h b"
    "hd_mmrOwnerPrimaryId h' = (if myPrimaryId st = [] then rp_primaryId pub else myPrimaryId st)"
proof -
  define e where "e = enter_owner (rp_primaryId pub) h"
  have e: "hd_mmrOwnerPrimaryId e = rp_primaryId pub" "\<And>b. history_of e b = history_of h b"
    using SelectMmrOwner_owner SelectMmrOwner_history[OF assms(3)] by (simp_all add: e_def enter_owner_def)
  define w where "w = seed_playlist (rp_playlist pub) (seed_mmr pub (sessionGeneration st))
     (fold (publish_update (rp_playlist pub) (sessionGeneration st)) (rp_updates pub)
        (set_graph (rp_playlist pub) (um_list (hd_playlistMatchPoints e) (rp_playlist pub))
           (um_list (hd_playlistHistoryY e) (rp_playlist pub)) e))"
  have h': "h' = leave_owner (rp_primaryId pub) (myPrimaryId st) w"
    using assms(1)
    by (simp add: PublishReconciledPointsLocked_def Let_def w_def e_def if_distrib[of myPrimaryId] cong: if_cong)
  have w: "hd_mmrOwnerPrimaryId w = rp_primaryId pub" "hd_inactiveMmrHistories w = hd_inactiveMmrHistories e"
    by (simp_all add: w_def e)
  have left: "history_of h' b = history_of w b" for b
    using SelectMmrOwner_history[of w] assms(2) w(1) by (simp add: h' leave_owner_def)
  have active: "history_of e (rp_primaryId pub) = active_history e" by (simp add: history_of_def e)
  show ?thesis
  proof (rule that[of w])
    show "history_of h' (rp_primaryId pub) = active_history w" unfolding left by (simp add: history_of_def w)
    show "hd_playlistMatchPoints w = hd_playlistMatchPoints (fold (publish_update (rp_playlist pub) (sessionGeneration st))
       (rp_updates pub) (set_graph (rp_playlist pub)
          (points_of (history_of h (rp_primaryId pub)) (rp_playlist pub))
          (graph_of (history_of h (rp_primaryId pub)) (rp_playlist pub)) (enter_owner (rp_primaryId pub) h)))"
      unfolding e(2)[symmetric] active e_def[symmetric] by (simp add: w_def active_history_def)
    show "history_of h' b = history_of h b" if "b \<noteq> rp_primaryId pub" for b
      unfolding left e(2)[symmetric] using that by (simp add: history_of_def w e(1))
    show "hd_mmrOwnerPrimaryId h' = (if myPrimaryId st = [] then rp_primaryId pub else myPrimaryId st)"
      using w(1) SelectMmrOwner_owner by (auto simp: h' leave_owner_def)
  qed
qed


section \<open>Whose report it is\<close>

lemma confirm_match_names:
  "rp_primaryId (rr_publication (cn_result (confirm_match rt g c))) = rp_primaryId (rr_publication (cn_result c))"
  "rp_playlist (rr_publication (cn_result (confirm_match rt g c))) = rp_playlist (rr_publication (cn_result c))"
  by (auto simp: confirm_match_def Let_def split: prod.split option.split)

lemma fold_confirm_names:
  "rp_primaryId (rr_publication (cn_result (fold (confirm_match rt) gs c))) = rp_primaryId (rr_publication (cn_result c))"
  "rp_playlist (rr_publication (cn_result (fold (confirm_match rt) gs c))) = rp_playlist (rr_publication (cn_result c))"
  by (induction gs arbitrary: c) (simp_all add: confirm_match_names)

lemma finish_report_names:
  assumes "finish_report rt key guids localId playing finalized (confirm_covered rt key' guids' b mr) = (res, mr')"
  shows "rp_primaryId (rr_publication res) = rq_primaryId (rt_request rt) \<and>
    rp_playlist (rr_publication res) = rq_playlist (rt_request rt)"
proof -
  define c where "c = confirm_covered rt key' guids' b mr"
  have "rp_primaryId (rr_publication (cn_result c)) = rq_primaryId (rt_request rt)"
    "rp_playlist (rr_publication (cn_result c)) = rq_playlist (rt_request rt)"
    by (simp_all add: c_def confirm_covered_def fold_confirm_names)
  then show ?thesis using assms unfolding c_def[symmetric] by (auto simp: finish_report_def Let_def)
qed

lemma report_names:
  assumes "ReconcileTrackerResponse req mmr matches history gen localId playing finalized points initial mr = (res, mr')"
    and "rr_applied res"
  shows "rp_primaryId (rr_publication res) = rq_primaryId req \<and> rp_playlist (rr_publication res) = rq_playlist req"
proof -
  let ?key = "PendingPostMatchKey (rq_primaryId req) (rq_playlist req)"
  let ?guids = "pending_list mr ?key"
  have unapplied: "\<not> rr_applied ReconcileResult0" by (simp add: ReconcileResult0_def)
  obtain oldest where o: "reconcile_oldest req mmr matches history gen localId playing finalized points initial
      ?key ?guids oldest mr = (res, mr')"
    using assms unapplied by (auto simp: ReconcileTrackerResponse_def Let_def split: if_splits option.splits)
  obtain baseline covered mr1 where c: "confirm_report req mmr matches history gen localId playing finalized points
      initial ?key ?guids oldest baseline covered mr1 = (res, mr')"
    using o assms(2) unapplied by (auto simp: reconcile_oldest_def Let_def split: if_splits)
  show ?thesis using finish_report_names[OF c[unfolded confirm_report_def Let_def]] by simp
qed

lemma report_guids_distinct:
  assumes "listed mr"
    and "ReconcileTrackerResponse req mmr matches history gen localId playing finalized points initial mr = (res, mr')"
  shows "distinct (map ru_matchGuid (rp_updates (rr_publication res)))"
  using recon.settles_distinct[OF assms(1), of "Reported req mmr matches history gen localId playing finalized points initial"]
    assms(2) by (simp add: confirmed_guids_def)

section \<open>Properties\<close>

text \<open>
  C17: Whatever is published, in any order and for whichever accounts: in the rating history of every
  account each match has one point per playlist, no two points share a place in the graph, and the
  graph shows the rating of each point at its place.
\<close>

theorem graphs_show_points:
  "let a = history_of (fst (fold publish_step ps (HistoryData0, live))) account;
       points = points_of a playlist; graph = graph_of a playlist
   in distinct (map mp_matchGuid points) \<and> distinct (map mp_historyIndex points) \<and>
      list_all (\<lambda>p. mp_historyIndex p < length graph \<and>
         graph ! mp_historyIndex p = f32_of_int (mp_mmr p)) points"
proof -
  have "history_ok HistoryData0"
    by (simp add: history_ok_def HistoryData0_def account_ok_active um_list_def)
  then have ok: "history_ok (fst (fold publish_step ps (HistoryData0, live)))"
    using publications.run_inv[of "(HistoryData0, live)" ps] by simp
  then have "account_ok (history_of (fst (fold publish_step ps (HistoryData0, live))) account)"
    by (auto simp: history_of_def history_ok_def split: option.split)
  then show ?thesis by (simp add: account_ok_def graph_ok_def Let_def list_all_iff)
qed

text \<open>
  A confirmed rating is drawn: after a report on a player is applied and published, every match of
  the running session that it covers has a point in the player's graph with the confirmed rating, the
  number of matches and the mark of an estimate, and the graph shows that rating. The histories of all
  other accounts are as before, and the local player's history is shown again.
\<close>

theorem confirmed_ratings_are_drawn:
  assumes mr: "mr = fst (run_out reconciler_step inputs MmrReconciler0)"
    and report: "ReconcileTrackerResponse req mmr matches historyY gen localId playing finalized points initial mr =
      (res, mr')" "rr_applied res"
    and published: "PublishReconciledPointsLocked (rr_publication res) h st = (recap, h', st')" "history_ok h"
    and accounts: "rq_primaryId req \<noteq> []" "hd_mmrOwnerPrimaryId h \<noteq> []"
  shows "(\<forall>u \<in> set (rp_updates (rr_publication res)). ru_sessionGeneration u = sessionGeneration st \<longrightarrow>
      (\<exists>p \<in> set (points_of (history_of h' (rq_primaryId req)) (rq_playlist req)). drawn_as u p \<and>
         graph_of (history_of h' (rq_primaryId req)) (rq_playlist req) ! mp_historyIndex p = f32_of_int (ru_mmr u))) \<and>
    (\<forall>b. b \<noteq> rq_primaryId req \<longrightarrow> history_of h' b = history_of h b) \<and>
    (myPrimaryId st \<noteq> [] \<longrightarrow> hd_mmrOwnerPrimaryId h' = myPrimaryId st)"
proof -
  have ok: "listed mr" using recon.run_inv[OF initially_listed] mr by simp
  note who = report_names[OF report]
  have "rp_primaryId (rr_publication res) \<noteq> []" using who accounts(1) by simp
  from report_histories[OF published(1) this accounts(2), unfolded who[THEN conjunct1] who[THEN conjunct2]]
  obtain w where w: "history_of h' (rq_primaryId req) = active_history w"
    "hd_playlistMatchPoints w = hd_playlistMatchPoints (fold (publish_update (rq_playlist req) (sessionGeneration st))
       (rp_updates (rr_publication res)) (set_graph (rq_playlist req)
          (points_of (history_of h (rq_primaryId req)) (rq_playlist req))
          (graph_of (history_of h (rq_primaryId req)) (rq_playlist req)) (enter_owner (rq_primaryId req) h)))"
    and others: "\<And>b. b \<noteq> rq_primaryId req \<Longrightarrow> history_of h' b = history_of h b"
      "hd_mmrOwnerPrimaryId h' = (if myPrimaryId st = [] then rq_primaryId req else myPrimaryId st)"
    by blast
  have after: "account_ok (history_of h' (rq_primaryId req))"
    using history_ok_report[OF published(2,1)] by (auto simp: history_of_def history_ok_def split: option.split)
  have "\<exists>p \<in> set (points_of (history_of h' (rq_primaryId req)) (rq_playlist req)). drawn_as u p \<and>
      graph_of (history_of h' (rq_primaryId req)) (rq_playlist req) ! mp_historyIndex p = f32_of_int (ru_mmr u)"
    if u: "u \<in> set (rp_updates (rr_publication res))" "ru_sessionGeneration u = sessionGeneration st" for u
  proof -
    from fold_update_draws[OF report_guids_distinct[OF ok report(1)] u]
    obtain p where p: "p \<in> set (points_of (history_of h' (rq_primaryId req)) (rq_playlist req))" "drawn_as u p"
      unfolding w(1) by (auto simp: active_history_def w(2))
    moreover have "graph_of (history_of h' (rq_primaryId req)) (rq_playlist req) ! mp_historyIndex p = f32_of_int (mp_mmr p)"
      using after p(1) by (simp add: account_ok_def graph_ok_def)
    ultimately show ?thesis by (auto simp: drawn_as_def)
  qed
  then show ?thesis using others by auto
qed


theorem confirmed_ratings_are_drawn_witness:
  "\<exists>res mr' recap h' st'.
     ReconcileTrackerResponse (MMRRequest0\<lparr>rq_primaryId := ''epic|a'', rq_playlist := ''2v2''\<rparr>) 610 11 [] 0
       ''epic|a'' False False None 600
       (fst (run_out reconciler_step [Finished_Match ''epic|a'' ''g1'' ''2v2'' 600 10 True True 0] MmrReconciler0)) =
       (res, mr') \<and>
     PublishReconciledPointsLocked (rr_publication res) (HistoryData0\<lparr>hd_mmrOwnerPrimaryId := ''epic|b''\<rparr>)
       (MatchState0\<lparr>sessionGeneration := 0\<rparr>) = (recap, h', st') \<and>
     (\<exists>p \<in> set (points_of (history_of h' ''epic|a'') ''2v2''). mp_matchGuid p = ''g1'' \<and> mp_mmr p = 610)"
proof -
  define mr where "mr = fst (run_out reconciler_step [Finished_Match ''epic|a'' ''g1'' ''2v2'' 600 10 True True 0] MmrReconciler0)"
  let ?req = "MMRRequest0\<lparr>rq_primaryId := ''epic|a'', rq_playlist := ''2v2''\<rparr>"
  let ?h = "HistoryData0\<lparr>hd_mmrOwnerPrimaryId := ''epic|b''\<rparr>" and ?st = "MatchState0\<lparr>sessionGeneration := 0\<rparr>"
  obtain res mr' where run: "ReconcileTrackerResponse ?req 610 11 [] 0 ''epic|a'' False False None 600 mr = (res, mr')"
    by force
  obtain recap h' st' where pub: "PublishReconciledPointsLocked (rr_publication res) ?h ?st = (recap, h', st')"
    by (metis prod_cases3)
  have "rr_applied (fst (ReconcileTrackerResponse ?req 610 11 [] 0 ''epic|a'' False False None 600 mr))"
    "map (\<lambda>u. (ru_matchGuid u, ru_mmr u, ru_sessionGeneration u)) (rp_updates (rr_publication
       (fst (ReconcileTrackerResponse ?req 610 11 [] 0 ''epic|a'' False False None 600 mr)))) = [(''g1'', 610, 0)]"
    unfolding mr_def by code_simp+
  then have res: "rr_applied res" "map (\<lambda>u. (ru_matchGuid u, ru_mmr u, ru_sessionGeneration u))
      (rp_updates (rr_publication res)) = [(''g1'', 610, 0)]" using run by simp_all
  obtain u where u: "u \<in> set (rp_updates (rr_publication res))" "ru_matchGuid u = ''g1''" "ru_mmr u = 610"
    "ru_sessionGeneration u = sessionGeneration ?st"
    using res(2) by auto
  have h: "history_ok ?h" by (simp add: history_ok_def HistoryData0_def account_ok_active um_list_def)
  have "\<exists>p \<in> set (points_of (history_of h' ''epic|a'') ''2v2''). drawn_as u p"
    using confirmed_ratings_are_drawn[OF mr_def run res(1) pub h] u(1,4) by (auto simp: MMRRequest0_def)
  then show ?thesis using run pub u(2,3) unfolding mr_def drawn_as_def by metis
qed

end
