(* ===== verification/Stats_Api.thy ===== *)
theory Stats_Api
  imports Text_Format Float_Rounding
begin

text \<open>
  The game's own configuration file of its telemetry: reading and rewriting it
  (\<open>core/config/StatsApiIni.hpp\<close>), checking it (\<open>VerifyConfig\<close> of \<open>core/config/StatsApiConfig.cpp\<close>) and
  repairing it (\<open>updater/StatsApiRepair.cpp\<close>). A path is a directory with a file name; the disk maps
  paths, as they are spelled, to the contents of regular files. Which file operations fail is an input.
  Looking for the installed game in the registry, the processes and the launchers' files is not
  modelled.
\<close>

section \<open>Numbers in text\<close>

text \<open>
  \<open>std::stof\<close>: blanks, a sign, then \<open>inf\<close>, \<open>nan\<close>, a hexadecimal or a decimal number as long as it goes;
  \<open>None\<close> where it throws: no number, one too large for a float, or one that is not zero but rounds to it.
\<close>

definition hex_digit :: "char \<Rightarrow> int option" where
  "hex_digit c =
     (if is_digit c then Some (digit_value c)
      else if CHR ''a'' \<le> to_lower c \<and> to_lower c \<le> CHR ''f'' then Some (of_char (to_lower c) - 87) else None)"

definition mantissa :: "(char \<Rightarrow> bool) \<Rightarrow> string \<Rightarrow> string \<times> string \<times> string" where
  "mantissa digit s =
     (let whole = takeWhile digit s; rest = dropWhile digit s
      in if rest \<noteq> [] \<and> hd rest = CHR ''.''
         then (whole, takeWhile digit (tl rest), dropWhile digit (tl rest)) else (whole, [], rest))"

definition exponent :: "char \<Rightarrow> string \<Rightarrow> int" where
  "exponent mark s =
     (if s = [] \<or> to_lower (hd s) \<noteq> mark then 0
      else
        let t = tl s;
            neg = (t \<noteq> [] \<and> hd t = CHR ''-'');
            u = (if t \<noteq> [] \<and> (hd t = CHR ''-'' \<or> hd t = CHR ''+'') then tl t else t);
            n = digits_value (takeWhile is_digit u)
        in if neg then - n else n)"

definition decimal_number :: "string \<Rightarrow> rat option" where
  "decimal_number s =
     (let (whole, frac, rest) = mantissa is_digit s
      in if whole = [] \<and> frac = [] then None
         else Some (of_int (digits_value (whole @ frac)) * 10 powi (exponent CHR ''e'' rest - int (length frac))))"

definition hex_number :: "string \<Rightarrow> rat option" where
  "hex_number s =
     (let (whole, frac, rest) = mantissa (\<lambda>c. hex_digit c \<noteq> None) s
      in if whole = [] \<and> frac = [] then None
         else Some (of_int (foldl (\<lambda>n c. 16 * n + (case hex_digit c of Some d \<Rightarrow> d | None \<Rightarrow> 0)) 0 (whole @ frac))
                    * 2 powi (exponent CHR ''p'' rest - 4 * int (length frac))))"

definition stof_value :: "bool \<Rightarrow> rat \<Rightarrow> fp option" where
  "stof_value neg q =
     (case f32 (if neg then - q else q) of
        Fin r \<Rightarrow> if r = 0 \<and> q \<noteq> 0 then None else Some (Fin r)
      | _ \<Rightarrow> None)"

definition stof :: "string \<Rightarrow> fp option" where
  "stof s =
     (let s = dropWhile is_space s;
          neg = (s \<noteq> [] \<and> hd s = CHR ''-'');
          s = (if s \<noteq> [] \<and> (hd s = CHR ''-'' \<or> hd s = CHR ''+'') then tl s else s);
          t = map to_lower s
      in if starts_with t ''inf'' then Some (Infinity neg)
         else if starts_with t ''nan'' then Some NaN
         else if starts_with t ''0x'' \<and> hex_number (drop 2 s) \<noteq> None
         then (case hex_number (drop 2 s) of Some q \<Rightarrow> stof_value neg q | None \<Rightarrow> None)
         else (case decimal_number s of Some q \<Rightarrow> stof_value neg q | None \<Rightarrow> None))"

text \<open>\<open>std::to_string\<close> of a float: six decimals.\<close>

definition float_text :: "fp \<Rightarrow> string" where
  "float_text x =
     (case x of
        NaN \<Rightarrow> ''nan''
      | Infinity neg \<Rightarrow> (if neg then ''-inf'' else ''inf'')
      | Fin q \<Rightarrow>
          (let n = nat (half_even (\<bar>q\<bar> * 1000000)); frac = nat_text (n mod 1000000)
           in (if q < 0 then ''-'' else []) @ nat_text (n div 1000000) @ ''.'' @
              replicate (6 - length frac) CHR ''0'' @ frac))"

section \<open>The file's lines\<close>

definition kExporterSection :: string where
  "kExporterSection = ''TAGame.MatchStatsExporter_TA''"

record ExporterValues =
  ev_packetSendRate :: "fp option"
  ev_port :: "int option"

definition is_blank :: "char \<Rightarrow> bool" where
  "is_blank c = (c = CHR '' '' \<or> c = CHR 0x09 \<or> c = CHR 0x0D \<or> c = CHR 0x0A)"

definition ini_trim :: "string \<Rightarrow> string" where
  "ini_trim t = rev (dropWhile is_blank (rev (dropWhile is_blank t)))"

definition ini_lower :: "string \<Rightarrow> string" where
  "ini_lower t = map to_lower t"

definition SectionName :: "string \<Rightarrow> string option" where
  "SectionName line =
     (if length line < 2 \<or> hd line \<noteq> CHR ''['' \<or> last line \<noteq> CHR '']'' then None
      else Some (ini_trim (butlast (tl line))))"

definition IsExporterSection :: "string \<Rightarrow> bool" where
  "IsExporterSection name = (ini_lower name = ini_lower kExporterSection)"

definition is_comment :: "string \<Rightarrow> bool" where
  "is_comment line = (line = [] \<or> hd line = CHR '';'' \<or> hd line = CHR ''#'')"

text \<open>Key and value of a line, when it has an equals sign.\<close>

definition ini_setting :: "string \<Rightarrow> (string \<times> string) option" where
  "ini_setting line =
     (let key = takeWhile (\<lambda>c. c \<noteq> CHR ''='') line; rest = dropWhile (\<lambda>c. c \<noteq> CHR ''='') line
      in if rest = [] then None else Some (ini_lower (ini_trim key), ini_trim (tl rest)))"

definition read_setting :: "string \<times> string \<Rightarrow> ExporterValues \<Rightarrow> ExporterValues" where
  "read_setting = (\<lambda>(key, val) values.
     if key = ''packetsendrate''
     then (case stof val of Some x \<Rightarrow> values\<lparr>ev_packetSendRate := Some x\<rparr> | None \<Rightarrow> values)
     else if key = ''port''
     then (case stoi val of Some x \<Rightarrow> values\<lparr>ev_port := Some x\<rparr> | None \<Rightarrow> values)
     else values)"

definition read_line :: "string \<Rightarrow> ExporterValues \<times> bool \<Rightarrow> ExporterValues \<times> bool" where
  "read_line raw = (\<lambda>(values, inExporter).
     let line = ini_trim raw
     in if is_comment line then (values, inExporter)
        else case SectionName line of
          Some name \<Rightarrow> (values, IsExporterSection name)
        | None \<Rightarrow>
            (if \<not> inExporter then (values, inExporter)
             else case ini_setting line of
               None \<Rightarrow> (values, inExporter)
             | Some setting \<Rightarrow> (read_setting setting values, inExporter)))"

definition ReadExporterValues :: "string list \<Rightarrow> ExporterValues" where
  "ReadExporterValues lines =
     fst (fold read_line lines (\<lparr>ev_packetSendRate = None, ev_port = None\<rparr>, False))"

section \<open>Rewriting the exporter's section\<close>

record IniRewrite =
  rw_out :: "string list"
  rw_inExporter :: bool
  rw_sawSection :: bool
  rw_wroteRate :: bool
  rw_wrotePort :: bool
  rw_insertAt :: nat

definition rateLine :: string where
  "rateLine = ''PacketSendRate=30''"

definition portLine :: "int \<Rightarrow> string" where
  "portLine port = ''Port='' @ to_string port"

definition closeSection :: "int \<Rightarrow> IniRewrite \<Rightarrow> IniRewrite" where
  "closeSection port w =
     (let missing = (if rw_wroteRate w then [] else [rateLine]) @ (if rw_wrotePort w then [] else [portLine port])
      in w\<lparr>rw_out := take (rw_insertAt w) (rw_out w) @ missing @ drop (rw_insertAt w) (rw_out w),
           rw_wroteRate := True, rw_wrotePort := True\<rparr>)"

text \<open>A line that counts in the exporter's section: the place for new settings moves behind it.\<close>

definition keep_line :: "string list \<Rightarrow> IniRewrite \<Rightarrow> IniRewrite" where
  "keep_line ls w = w\<lparr>rw_out := rw_out w @ ls, rw_insertAt := length (rw_out w @ ls)\<rparr>"

definition setting_key :: "string \<Rightarrow> string" where
  "setting_key line = (case ini_setting line of Some (key, val) \<Rightarrow> key | None \<Rightarrow> [])"

definition rewrite_line :: "int \<Rightarrow> string \<Rightarrow> IniRewrite \<Rightarrow> IniRewrite" where
  "rewrite_line port raw w =
     (let line = ini_trim raw
      in case SectionName line of
           Some name \<Rightarrow>
             (let w = (if rw_inExporter w then closeSection port w else w);
                  w = w\<lparr>rw_inExporter := IsExporterSection name, rw_out := rw_out w @ [raw]\<rparr>
              in if rw_inExporter w then w\<lparr>rw_sawSection := True, rw_insertAt := length (rw_out w)\<rparr> else w)
         | None \<Rightarrow>
             (if rw_inExporter w \<and> \<not> is_comment line
              then
                let key = setting_key line
                in if key = ''packetsendrate''
                   then (keep_line (if rw_wroteRate w then [] else [rateLine]) w)\<lparr>rw_wroteRate := True\<rparr>
                   else if key = ''port''
                   then (keep_line (if rw_wrotePort w then [] else [portLine port]) w)\<lparr>rw_wrotePort := True\<rparr>
                   else keep_line [raw] w
              else w\<lparr>rw_out := rw_out w @ [raw]\<rparr>))"

definition append_section :: "int \<Rightarrow> string list \<Rightarrow> string list" where
  "append_section port out =
     (let out = rev (dropWhile (\<lambda>l. ini_trim l = []) (rev out))
      in out @ (if out = [] then [] else [[]]) @ [''['' @ kExporterSection @ '']'', rateLine, portLine port])"

definition RewriteExporterSection :: "string list \<Rightarrow> int \<Rightarrow> string list" where
  "RewriteExporterSection lines port =
     (let w = fold (rewrite_line port) lines
                \<lparr>rw_out = [], rw_inExporter = False, rw_sawSection = False, rw_wroteRate = False,
                 rw_wrotePort = False, rw_insertAt = 0\<rparr>;
          w = (if rw_inExporter w then closeSection port w else w)
      in if rw_sawSection w then rw_out w else append_section port (rw_out w))"

section \<open>Files\<close>

type_synonym file_path = "string \<times> string"
type_synonym disk = "file_path \<Rightarrow> string option"

definition IsFileName :: "file_path \<Rightarrow> string \<Rightarrow> bool" where
  "IsFileName path lowerName = (ini_lower (snd path) = lowerName)"

definition IsStatsApiFileName :: "file_path \<Rightarrow> bool" where
  "IsStatsApiFileName path = (IsFileName path ''tastatsapi.ini'' \<or> IsFileName path ''defaultstatsapi.ini'')"

definition EffectiveConfigPath :: "disk \<Rightarrow> file_path \<Rightarrow> file_path" where
  "EffectiveConfigPath disk path =
     (if \<not> IsFileName path ''defaultstatsapi.ini'' then path
      else let override = (fst path, ''TAStatsAPI.ini'') in if disk override \<noteq> None then override else path)"

text \<open>The pieces between the line feeds; nothing follows a line feed at the end.\<close>

function text_lines :: "string \<Rightarrow> string list" where
  "text_lines s =
     (if s = [] then []
      else takeWhile (\<lambda>c. c \<noteq> CHR 0x0A) s # text_lines (tl (dropWhile (\<lambda>c. c \<noteq> CHR 0x0A) s)))"
  by auto
termination
proof (relation "measure length", simp)
  fix s :: string
  assume "s \<noteq> []"
  then show "(tl (dropWhile (\<lambda>c. c \<noteq> CHR 0x0A) s), s) \<in> measure length"
    using length_dropWhile_le[of "\<lambda>c. c \<noteq> CHR 0x0A" s] by (cases s) (auto simp: le_less_Suc_eq less_Suc_eq_le)
qed

declare text_lines.simps [simp del]

lemma text_lines_Nil [simp]: "text_lines [] = []"
  by (simp add: text_lines.simps)

definition drop_cr :: "string \<Rightarrow> string" where
  "drop_cr line = (if line \<noteq> [] \<and> last line = CHR 0x0D then butlast line else line)"

definition line_ending :: "string \<Rightarrow> string" where
  "line_ending content = (if str_contains content [CHR 0x0D, CHR 0x0A] then [CHR 0x0D, CHR 0x0A] else [CHR 0x0A])"

fun join_lines :: "string \<Rightarrow> bool \<Rightarrow> string list \<Rightarrow> string" where
  "join_lines ending final [] = []"
| "join_lines ending final [l] = l @ (if final then ending else [])"
| "join_lines ending final (l # m # ls) = l @ ending @ join_lines ending final (m # ls)"

definition repaired_text :: "string \<Rightarrow> int \<Rightarrow> string" where
  "repaired_text content port =
     join_lines (line_ending content) (content \<noteq> [] \<and> last content = CHR 0x0A)
       (RewriteExporterSection (map drop_cr (text_lines content)) port)"

section \<open>Repairing\<close>

text \<open>
  Which operations fail: the copy, opening for reading, opening for writing, and the writing itself,
  after some of the text is in the file.
\<close>

record Faults =
  ft_copy :: bool
  ft_openRead :: bool
  ft_openWrite :: bool
  ft_written :: "nat option"

definition backup_path :: "file_path \<Rightarrow> file_path" where
  "backup_path path = (fst path, snd path @ ''.omnistats.bak'')"

definition FixConfigStrictHeadless :: "Faults \<Rightarrow> file_path \<Rightarrow> int \<Rightarrow> disk \<Rightarrow> int \<times> disk" where
  "FixConfigStrictHeadless faults requested expectedPort disk =
     (if \<not> IsStatsApiFileName requested then (2, disk)
      else
        let target = EffectiveConfigPath disk requested
        in case disk target of
             None \<Rightarrow> (2, disk)
           | Some content \<Rightarrow>
               (if disk (backup_path target) = None \<and> ft_copy faults then (3, disk)
                else
                  let disk = (if disk (backup_path target) = None then disk(backup_path target \<mapsto> content) else disk)
                  in if ft_openRead faults then (4, disk)
                     else if ft_openWrite faults then (5, disk)
                     else case ft_written faults of
                       Some n \<Rightarrow> (5, disk(target \<mapsto> take n (repaired_text content expectedPort)))
                     | None \<Rightarrow> (0, disk(target \<mapsto> repaired_text content expectedPort))))"

section \<open>Checking\<close>

datatype Status = Valid | NotFound | DisabledPacketSendRate | WrongPacketSendRate | MissingPacketSendRate
  | MissingPort | WrongPort | ReadError | WriteError

definition GetStatusMessage :: "Status \<Rightarrow> string" where
  "GetStatusMessage status =
     (case status of
        Valid \<Rightarrow> ''Valid''
      | NotFound \<Rightarrow> ''Config file not found.''
      | DisabledPacketSendRate \<Rightarrow> ''PacketSendRate is 0 or disabled.''
      | WrongPacketSendRate \<Rightarrow> ''PacketSendRate is not set to 30.''
      | MissingPacketSendRate \<Rightarrow> ''PacketSendRate is missing.''
      | MissingPort \<Rightarrow> ''Port is missing.''
      | WrongPort \<Rightarrow> ''Port is misconfigured.''
      | ReadError \<Rightarrow> ''Read error: could not open config file.''
      | WriteError \<Rightarrow> ''Write error: permission denied or file locked.'')"

record CheckResult =
  ck_status :: Status
  ck_path :: file_path
  ck_message :: string
  ck_expectedPort :: int
  ck_actualPort :: int
  ck_packetSendRate :: fp
  ck_rlRunning :: bool

definition check_values :: "ExporterValues \<Rightarrow> CheckResult \<Rightarrow> CheckResult" where
  "check_values values result =
     (let result = (case ev_packetSendRate values of Some r \<Rightarrow> result\<lparr>ck_packetSendRate := r\<rparr> | None \<Rightarrow> result);
          result = (case ev_port values of Some p \<Rightarrow> result\<lparr>ck_actualPort := p\<rparr> | None \<Rightarrow> result)
      in if ev_packetSendRate values = None
         then result\<lparr>ck_status := MissingPacketSendRate,
                     ck_message := ''PacketSendRate setting is missing in configuration.''\<rparr>
         else if ck_packetSendRate result \<le> Fin 0
         then result\<lparr>ck_status := DisabledPacketSendRate, ck_message := ''PacketSendRate is set to 0 (disabled).''\<rparr>
         else if \<not> feq (ck_packetSendRate result) (Fin 30)
         then result\<lparr>ck_status := WrongPacketSendRate,
                     ck_message := ''PacketSendRate is set to '' @ float_text (ck_packetSendRate result) @
                       '' (expected 30).''\<rparr>
         else if ev_port values = None
         then result\<lparr>ck_status := MissingPort, ck_message := ''Port setting is missing in configuration.''\<rparr>
         else if ck_actualPort result \<noteq> ck_expectedPort result
         then result\<lparr>ck_status := WrongPort,
                     ck_message := ''Port is misconfigured (found '' @ to_string (ck_actualPort result) @
                       '', expected '' @ to_string (ck_expectedPort result) @ '').''\<rparr>
         else result\<lparr>ck_status := Valid, ck_message := ''Stats API is correctly configured.''\<rparr>)"

text \<open>
  The file is opened as text: a carriage return before a line feed may be taken away by the library;
  trimming takes it away in any case.
\<close>

definition VerifyConfig :: "bool \<Rightarrow> bool \<Rightarrow> file_path \<Rightarrow> int \<Rightarrow> disk \<Rightarrow> CheckResult" where
  "VerifyConfig running opens requested expectedPort disk =
     (let result = \<lparr>ck_status = NotFound, ck_path = ([], []), ck_message = [], ck_expectedPort = expectedPort,
            ck_actualPort = 0, ck_packetSendRate = Fin 0, ck_rlRunning = running\<rparr>
      in if requested = ([], [])
         then result\<lparr>ck_message := ''Stats API config file path is empty.''\<rparr>
         else
           let path = EffectiveConfigPath disk requested; result = result\<lparr>ck_path := path\<rparr>
           in case disk path of
                None \<Rightarrow> result\<lparr>ck_message := ''Stats API config file not found.''\<rparr>
              | Some content \<Rightarrow>
                  (if \<not> opens
                   then result\<lparr>ck_status := ReadError,
                               ck_message := ''Could not open Stats API config file for reading.''\<rparr>
                   else check_values (ReadExporterValues (text_lines content)) result))"


section \<open>Blanks\<close>

lemma digit_chars: "is_digit c \<Longrightarrow> \<not> is_space c \<and> \<not> is_blank c \<and> c \<noteq> CHR ''-'' \<and> c \<noteq> CHR ''+'' \<and> c \<noteq> CHR 0x0A"
  by (auto simp: is_digit_def is_space_def is_blank_def less_eq_char_def)

lemma dropWhile_blank: "xs = [] \<or> \<not> is_blank (hd xs) \<Longrightarrow> dropWhile is_blank xs = xs"
  by (cases xs) auto

lemma ini_trim_id: "t \<noteq> [] \<Longrightarrow> \<not> is_blank (hd t) \<Longrightarrow> \<not> is_blank (last t) \<Longrightarrow> ini_trim t = t"
  by (simp add: ini_trim_def dropWhile_blank hd_rev)

lemma to_string_trim [simp]: "ini_trim (to_string i) = to_string i"
proof (rule ini_trim_id)
  have "\<not> is_blank c" if "c \<in> set (to_string i)" for c
    using to_string_chars[OF that] digit_chars by (auto simp: is_blank_def)
  then show "\<not> is_blank (hd (to_string i))" "\<not> is_blank (last (to_string i))" by simp_all
qed simp

lemma portLine_setting:
  "ini_trim (portLine port) = portLine port" "SectionName (portLine port) = None"
  "\<not> is_comment (portLine port)" "ini_setting (portLine port) = Some (''port'', to_string port)"
  "CHR 0x0A \<notin> set (portLine port)"
proof -
  have "\<not> is_blank (last (portLine port))"
  proof -
    have "last (portLine port) \<in> set (to_string port)" by (simp add: portLine_def)
    then show ?thesis using to_string_chars digit_chars by (force simp: is_blank_def)
  qed
  then show "ini_trim (portLine port) = portLine port"
    by (intro ini_trim_id) (auto simp: portLine_def is_blank_def)
  show "SectionName (portLine port) = None" "\<not> is_comment (portLine port)"
    by (simp_all add: portLine_def SectionName_def is_comment_def)
  show "ini_setting (portLine port) = Some (''port'', to_string port)"
  proof -
    have "ini_lower (ini_trim ''Port'') = ''port''" by code_simp
    then show ?thesis by (simp add: ini_setting_def portLine_def)
  qed
  show "CHR 0x0A \<notin> set (portLine port)"
    using to_string_chars digit_chars by (force simp: portLine_def)
qed

lemma rateLine_setting:
  "ini_trim rateLine = rateLine" "SectionName rateLine = None" "\<not> is_comment rateLine"
  "ini_setting rateLine = Some (''packetsendrate'', ''30'')" "CHR 0x0A \<notin> set rateLine"
  by code_simp+

lemma headerLine:
  "SectionName (ini_trim (''['' @ kExporterSection @ '']'')) = Some kExporterSection" "IsExporterSection kExporterSection"
  "\<not> is_comment (ini_trim (''['' @ kExporterSection @ '']''))" "CHR 0x0A \<notin> set (''['' @ kExporterSection @ '']'')"
  by code_simp+

lemma stof_30: "stof ''30'' = Some (Fin 30)"
  by code_simp


section \<open>Reading what was rewritten\<close>

abbreviation reads :: "string list \<Rightarrow> ExporterValues \<times> bool" where
  "reads lines \<equiv> fold read_line lines (\<lparr>ev_packetSendRate = None, ev_port = None\<rparr>, False)"

lemma read_comment: "is_comment (ini_trim l) \<Longrightarrow> read_line l s = s"
  by (cases s) (simp add: read_line_def)

lemma read_comments: "\<forall>l \<in> set ls. is_comment (ini_trim l) \<Longrightarrow> fold read_line ls s = s"
  by (induction ls) (simp_all add: read_comment)

lemma section_no_comment: "SectionName line = Some name \<Longrightarrow> \<not> is_comment line"
  by (auto simp: SectionName_def is_comment_def split: if_splits)

lemma read_rate: "read_line rateLine (v, True) = (v\<lparr>ev_packetSendRate := Some (Fin 30)\<rparr>, True)"
  by (simp add: read_line_def rateLine_setting read_setting_def stof_30)

lemma read_port: "in_int32 port \<Longrightarrow> read_line (portLine port) (v, True) = (v\<lparr>ev_port := Some port\<rparr>, True)"
  by (simp add: read_line_def portLine_setting read_setting_def stoi_to_string)

lemma read_section: "SectionName (ini_trim raw) = Some name \<Longrightarrow> read_line raw (v, b) = (v, IsExporterSection name)"
  using section_no_comment[of "ini_trim raw" name] by (simp add: read_line_def)

lemma read_other:
  assumes "SectionName (ini_trim raw) = None" "\<not> b \<or> setting_key (ini_trim raw) \<notin> {''packetsendrate'', ''port''}"
  shows "read_line raw (v, b) = (v, b)"
  using assms by (auto simp: read_line_def setting_key_def read_setting_def Let_def split: option.splits)

text \<open>What holds after every line: the settings written so far are the only ones that are read.\<close>

definition written :: "int \<Rightarrow> IniRewrite \<Rightarrow> ExporterValues" where
  "written port w =
     \<lparr>ev_packetSendRate = (if rw_wroteRate w then Some (Fin 30) else None),
      ev_port = (if rw_wrotePort w then Some port else None)\<rparr>"

definition rewrite_ok :: "int \<Rightarrow> IniRewrite \<Rightarrow> bool" where
  "rewrite_ok port w \<longleftrightarrow>
     reads (rw_out w) = (written port w, rw_inExporter w) \<and>
     (rw_inExporter w \<longrightarrow> rw_sawSection w \<and> rw_insertAt w \<le> length (rw_out w) \<and>
        (\<forall>l \<in> set (drop (rw_insertAt w) (rw_out w)). is_comment (ini_trim l))) \<and>
     (rw_sawSection w \<and> \<not> rw_inExporter w \<longrightarrow> rw_wroteRate w \<and> rw_wrotePort w) \<and>
     (\<not> rw_sawSection w \<longrightarrow> \<not> rw_wroteRate w \<and> \<not> rw_wrotePort w)"

lemma reads_before_insert:
  assumes "rewrite_ok port w" "rw_inExporter w"
  shows "reads (take (rw_insertAt w) (rw_out w)) = (written port w, True)"
proof -
  have "reads (rw_out w) = fold read_line (drop (rw_insertAt w) (rw_out w)) (reads (take (rw_insertAt w) (rw_out w)))"
    by (metis append_take_drop_id comp_apply fold_append)
  then show ?thesis
    using assms read_comments[of "drop (rw_insertAt w) (rw_out w)" "reads (take (rw_insertAt w) (rw_out w))"]
    by (simp add: rewrite_ok_def)
qed

lemma closeSection_reads:
  assumes ok: "rewrite_ok port w" and inside: "rw_inExporter w" and port: "in_int32 port"
  shows "reads (rw_out (closeSection port w)) = (\<lparr>ev_packetSendRate = Some (Fin 30), ev_port = Some port\<rparr>, True)"
proof -
  have rest: "\<forall>l \<in> set (drop (rw_insertAt w) (rw_out w)). is_comment (ini_trim l)"
    using ok inside by (simp add: rewrite_ok_def)
  show ?thesis
    using reads_before_insert[OF ok inside] read_comments[OF rest]
    by (simp add: closeSection_def Let_def written_def read_rate read_port[OF port])
qed

lemma closeSection_fields [simp]:
  "rw_inExporter (closeSection port w) = rw_inExporter w" "rw_sawSection (closeSection port w) = rw_sawSection w"
  "rw_wroteRate (closeSection port w)" "rw_wrotePort (closeSection port w)"
  by (simp_all add: closeSection_def)

lemma rewrite_line_ok:
  assumes ok: "rewrite_ok port w" and port: "in_int32 port"
  shows "rewrite_ok port (rewrite_line port raw w)"
proof (cases "SectionName (ini_trim raw)")
  case (Some name)
  note sec = read_section[OF Some]
  show ?thesis
  proof (cases "rw_inExporter w")
    case True
    then show ?thesis
      using Some sec closeSection_reads[OF ok True port] ok
      by (auto simp: rewrite_line_def rewrite_ok_def Let_def written_def)
  next
    case False
    then show ?thesis using Some sec ok by (auto simp: rewrite_line_def rewrite_ok_def Let_def written_def)
  qed
next
  case None
  show ?thesis
  proof (cases "rw_inExporter w \<and> \<not> is_comment (ini_trim raw)")
    case True
    let ?key = "setting_key (ini_trim raw)"
    consider "?key = ''packetsendrate''" | "?key = ''port''" | "?key \<notin> {''packetsendrate'', ''port''}" by blast
    then show ?thesis
    proof cases
      case 1
      then show ?thesis
        using True None ok by (auto simp: rewrite_line_def rewrite_ok_def keep_line_def Let_def written_def read_rate)
    next
      case 2
      then show ?thesis
        using True None ok
        by (auto simp: rewrite_line_def rewrite_ok_def keep_line_def Let_def written_def read_port[OF port])
    next
      case 3
      then show ?thesis
        using True None ok read_other[OF None, of True]
        by (auto simp: rewrite_line_def rewrite_ok_def keep_line_def Let_def written_def)
    qed
  next
    case False
    then have line: "read_line raw (written port w, rw_inExporter w) = (written port w, rw_inExporter w)"
      using None read_comment read_other[OF None, of False] by (cases "rw_inExporter w") auto
    have step: "rewrite_line port raw w = w\<lparr>rw_out := rw_out w @ [raw]\<rparr>"
      using False None by (auto simp: rewrite_line_def Let_def)
    have same: "written port (w\<lparr>rw_out := rw_out w @ [raw]\<rparr>) = written port w" by (simp add: written_def)
    show ?thesis
      using ok line False unfolding step rewrite_ok_def same by auto
  qed
qed

lemma rewrite_fold_ok:
  "in_int32 port \<Longrightarrow> rewrite_ok port w \<Longrightarrow> rewrite_ok port (fold (rewrite_line port) lines w)"
  by (induction lines arbitrary: w) (auto intro: rewrite_line_ok)

abbreviation "IniRewrite0 \<equiv> \<lparr>rw_out = [], rw_inExporter = False, rw_sawSection = False, rw_wroteRate = False,
                 rw_wrotePort = False, rw_insertAt = 0\<rparr>"

lemma rewrite_ok_start: "rewrite_ok port IniRewrite0"
  by (simp add: rewrite_ok_def written_def)

lemma reads_append: "reads (xs @ ys) = fold read_line ys (reads xs)"
  by simp

lemma reads_stripped: "reads (rev (dropWhile (\<lambda>l. ini_trim l = []) (rev out))) = reads out"
proof -
  have "out = rev (dropWhile (\<lambda>l. ini_trim l = []) (rev out)) @ rev (takeWhile (\<lambda>l. ini_trim l = []) (rev out))"
    by (metis rev_append rev_rev_ident takeWhile_dropWhile_id)
  moreover have "\<forall>l \<in> set (rev (takeWhile (\<lambda>l. ini_trim l = []) (rev out))). is_comment (ini_trim l)"
    by (auto simp: is_comment_def dest: set_takeWhileD)
  ultimately show ?thesis by (metis reads_append read_comments)
qed

lemma rewritten_values:
  assumes "in_int32 port"
  shows "ReadExporterValues (RewriteExporterSection lines port) =
    \<lparr>ev_packetSendRate = Some (Fin 30), ev_port = Some port\<rparr>"
proof -
  define w where "w = fold (rewrite_line port) lines IniRewrite0"
  have ok: "rewrite_ok port w" unfolding w_def by (rule rewrite_fold_ok[OF assms rewrite_ok_start])
  have comment: "is_comment (ini_trim [])" by (simp add: ini_trim_def is_comment_def)
  show ?thesis
  proof (cases "rw_sawSection w")
    case True
    show ?thesis
    proof (cases "rw_inExporter w")
      case True
      then show ?thesis
        using closeSection_reads[OF ok True assms] \<open>rw_sawSection w\<close>
        by (simp add: ReadExporterValues_def RewriteExporterSection_def w_def[symmetric] Let_def)
    next
      case False
      then show ?thesis
        using ok True
        by (simp add: ReadExporterValues_def RewriteExporterSection_def w_def[symmetric] Let_def rewrite_ok_def
            written_def)
    qed
  next
    case False
    then have out: "\<not> rw_inExporter w" "reads (rw_out w) = (\<lparr>ev_packetSendRate = None, ev_port = None\<rparr>, False)"
      using ok by (auto simp: rewrite_ok_def written_def)
    have "reads (append_section port (rw_out w)) = (\<lparr>ev_packetSendRate = Some (Fin 30), ev_port = Some port\<rparr>, True)"
      using out(2) read_comment[OF comment] read_section[OF headerLine(1)] read_rate read_port[OF assms] headerLine(2)
      by (simp add: append_section_def Let_def reads_append reads_stripped)
    then show ?thesis
      using False out(1)
      by (simp add: ReadExporterValues_def RewriteExporterSection_def w_def[symmetric] Let_def)
  qed
qed


section \<open>What the rewriting leaves alone\<close>

text \<open>All lines but the two settings of the exporter's section.\<close>

definition other_line :: "string \<Rightarrow> string list \<times> bool \<Rightarrow> string list \<times> bool" where
  "other_line raw = (\<lambda>(others, inExporter).
     let line = ini_trim raw
     in case SectionName line of
          Some name \<Rightarrow> (others @ [raw], IsExporterSection name)
        | None \<Rightarrow>
            (if inExporter \<and> \<not> is_comment line \<and> setting_key line \<in> {''packetsendrate'', ''port''}
             then (others, inExporter) else (others @ [raw], inExporter)))"

definition other_lines :: "string list \<Rightarrow> string list" where
  "other_lines lines = fst (fold other_line lines ([], False))"

definition has_exporter :: "string list \<Rightarrow> bool" where
  "has_exporter lines =
     list_ex (\<lambda>raw. case SectionName (ini_trim raw) of Some name \<Rightarrow> IsExporterSection name | None \<Rightarrow> False) lines"

lemma other_comment: "is_comment (ini_trim l) \<Longrightarrow> other_line l (xs, b) = (xs @ [l], b)"
  using section_no_comment[of "ini_trim l"] by (auto simp: other_line_def Let_def split: option.split)

lemma other_comments: "\<forall>l \<in> set ls. is_comment (ini_trim l) \<Longrightarrow> fold other_line ls (xs, b) = (xs @ ls, b)"
  by (induction ls arbitrary: xs) (simp_all add: other_comment)

lemma other_settings:
  "other_line rateLine (xs, True) = (xs, True)" "other_line (portLine port) (xs, True) = (xs, True)"
  by (simp_all add: other_line_def rateLine_setting portLine_setting setting_key_def)

definition others_ok :: "string list \<Rightarrow> IniRewrite \<Rightarrow> bool" where
  "others_ok lines w \<longleftrightarrow>
     fold other_line (rw_out w) ([], False) = fold other_line lines ([], False) \<and>
     snd (fold other_line lines ([], False)) = rw_inExporter w \<and>
     (rw_inExporter w \<longrightarrow> rw_insertAt w \<le> length (rw_out w) \<and>
        (\<forall>l \<in> set (drop (rw_insertAt w) (rw_out w)). is_comment (ini_trim l))) \<and>
     rw_sawSection w = has_exporter lines \<and> (\<not> rw_sawSection w \<longrightarrow> \<not> rw_inExporter w \<and> rw_out w = lines)"

lemma closeSection_others:
  assumes ok: "others_ok lines w" and inside: "rw_inExporter w"
  shows "fold other_line (rw_out (closeSection port w)) ([], False) = fold other_line lines ([], False)"
proof -
  let ?before = "take (rw_insertAt w) (rw_out w)" and ?after = "drop (rw_insertAt w) (rw_out w)"
  have after: "\<forall>l \<in> set ?after. is_comment (ini_trim l)" using ok inside by (simp add: others_ok_def)
  obtain xs b where before: "fold other_line ?before ([], False) = (xs, b)" by force
  have "fold other_line (rw_out w) ([], False) = fold other_line ?after (fold other_line ?before ([], False))"
    by (metis append_take_drop_id comp_apply fold_append)
  then have all: "fold other_line (rw_out w) ([], False) = (xs @ ?after, b)"
    by (simp add: before other_comments[OF after])
  then have "b" using ok inside by (simp add: others_ok_def) (metis snd_conv)
  then show ?thesis
    using ok all before other_comments[OF after]
    by (simp add: closeSection_def Let_def other_settings others_ok_def)
qed

lemma other_section:
  "SectionName (ini_trim raw) = Some name \<Longrightarrow> other_line raw s = (fst s @ [raw], IsExporterSection name)"
  by (cases s) (simp add: other_line_def)

lemma other_plain:
  assumes "SectionName (ini_trim raw) = None"
    "\<not> snd s \<or> is_comment (ini_trim raw) \<or> setting_key (ini_trim raw) \<notin> {''packetsendrate'', ''port''}"
  shows "other_line raw s = (fst s @ [raw], snd s)"
  using assms by (cases s) (auto simp: other_line_def)

lemma other_setting:
  assumes "SectionName (ini_trim raw) = None" "snd s" "\<not> is_comment (ini_trim raw)"
    "setting_key (ini_trim raw) \<in> {''packetsendrate'', ''port''}"
  shows "other_line raw s = s"
  using assms by (cases s) (auto simp: other_line_def)

lemma rewrite_line_others:
  assumes ok: "others_ok lines w"
  shows "others_ok (lines @ [raw]) (rewrite_line port raw w)"
proof (cases "SectionName (ini_trim raw)")
  case (Some name)
  note sec = other_section[OF Some]
  show ?thesis
  proof (cases "rw_inExporter w")
    case True
    then show ?thesis
      using Some sec closeSection_others[OF ok True, of port] ok
      by (auto simp: rewrite_line_def others_ok_def Let_def has_exporter_def)
  next
    case False
    then show ?thesis using Some sec ok by (auto simp: rewrite_line_def others_ok_def Let_def has_exporter_def)
  qed
next
  case None
  have saw: "has_exporter (lines @ [raw]) = has_exporter lines" using None by (simp add: has_exporter_def)
  show ?thesis
  proof (cases "rw_inExporter w \<and> \<not> is_comment (ini_trim raw)")
    case True
    then have inside: "snd (fold other_line lines ([], False))" "rw_sawSection w" using ok by (auto simp: others_ok_def)
    obtain xs where xs: "fold other_line lines ([], False) = (xs, True)"
      using inside(1) by (cases "fold other_line lines ([], False)") simp
    show ?thesis
    proof (cases "setting_key (ini_trim raw) \<in> {''packetsendrate'', ''port''}")
      case key: True
      then show ?thesis
        using True None ok inside(2) saw xs other_setting[OF None _ _ key, of "(xs, True)"]
        by (auto simp: rewrite_line_def others_ok_def keep_line_def Let_def other_settings)
    next
      case False
      then show ?thesis
        using True None ok inside(2) saw xs other_plain[OF None, of "(xs, True)"]
        by (auto simp: rewrite_line_def others_ok_def keep_line_def Let_def)
    qed
  next
    case False
    then show ?thesis
      using None ok saw other_plain[OF None, of "fold other_line lines ([], False)"]
      by (auto simp: rewrite_line_def others_ok_def Let_def)
  qed
qed

lemma rewrite_fold_others:
  "others_ok seen w \<Longrightarrow> others_ok (seen @ lines) (fold (rewrite_line port) lines w)"
proof (induction lines arbitrary: seen w)
  case (Cons l ls)
  show ?case using Cons.IH[OF rewrite_line_others[OF Cons.prems, of l port]] by simp
qed simp

lemma rewritten_others:
  "if has_exporter lines then other_lines (RewriteExporterSection lines port) = other_lines lines
   else RewriteExporterSection lines port = append_section port lines"
proof -
  define w where "w = fold (rewrite_line port) lines IniRewrite0"
  have "others_ok [] IniRewrite0" by (simp add: others_ok_def has_exporter_def)
  then have ok: "others_ok lines w" using rewrite_fold_others[of "[]" IniRewrite0 lines port] by (simp add: w_def)
  show ?thesis
  proof (cases "rw_inExporter w")
    case True
    then show ?thesis
      using ok closeSection_others[OF ok True, of port]
      by (auto simp: RewriteExporterSection_def w_def[symmetric] Let_def others_ok_def other_lines_def)
  next
    case False
    then show ?thesis
      using ok by (auto simp: RewriteExporterSection_def w_def[symmetric] Let_def others_ok_def other_lines_def)
  qed
qed


section \<open>The file\<close>

lemma text_lines_no_lf: "l \<in> set (text_lines s) \<Longrightarrow> CHR 0x0A \<notin> set l"
proof (induction s rule: text_lines.induct)
  case (1 s)
  then show ?case by (cases "s = []") (auto simp: text_lines.simps[of s] dest: set_takeWhileD)
qed

lemma text_lines_cons:
  "CHR 0x0A \<notin> set l \<Longrightarrow> text_lines (l @ CHR 0x0A # rest) = l # text_lines rest"
  by (simp add: text_lines.simps[of "l @ CHR 0x0A # rest"] takeWhile_append dropWhile_append)

lemma text_lines_last: "CHR 0x0A \<notin> set l \<Longrightarrow> text_lines l = (if l = [] then [] else [l])"
proof (cases "l = []")
  case False
  assume "CHR 0x0A \<notin> set l"
  then have "takeWhile (\<lambda>c. c \<noteq> CHR 0x0A) l = l" "dropWhile (\<lambda>c. c \<noteq> CHR 0x0A) l = []"
    by (auto simp: takeWhile_eq_all_conv dropWhile_eq_Nil_conv)
  then show ?thesis
    using False by (simp add: text_lines.simps[of l] del: takeWhile_eq_all_conv dropWhile_eq_Nil_conv)
qed simp

lemma trim_cr: "set cr \<subseteq> {CHR 0x0D} \<Longrightarrow> ini_trim (l @ cr) = ini_trim l"
proof -
  assume cr: "set cr \<subseteq> {CHR 0x0D}"
  then have blank: "\<forall>c \<in> set cr. is_blank c" by (auto simp: is_blank_def)
  show ?thesis
  proof (cases "\<forall>c \<in> set l. is_blank c")
    case True
    then show ?thesis using blank by (simp add: ini_trim_def dropWhile_append1 dropWhile_eq_Nil_conv[THEN iffD2] dropWhile_append)
  next
    case False
    then obtain c where "c \<in> set l" "\<not> is_blank c" by blast
    then show ?thesis using blank by (simp add: ini_trim_def dropWhile_append dropWhile_eq_Nil_conv[THEN iffD2])
  qed
qed

lemma read_line_cong: "ini_trim a = ini_trim b \<Longrightarrow> read_line a s = read_line b s"
  by (cases s) (simp add: read_line_def)

lemma read_blank: "read_line [] s = s"
  by (rule read_comment) (simp add: ini_trim_def is_comment_def)

lemma read_joined:
  assumes "ending = cr @ [CHR 0x0A]" "set cr \<subseteq> {CHR 0x0D}" "\<forall>l \<in> set ls. CHR 0x0A \<notin> set l"
  shows "fold read_line (text_lines (join_lines ending final ls)) s = fold read_line ls s"
  using assms(3)
proof (induction ls arbitrary: s rule: induct_list012)
  case 1
  then show ?case by (simp add: text_lines.simps)
next
  case (2 l)
  have nolf: "CHR 0x0A \<notin> set (l @ cr)" using 2 assms(2) by auto
  have line: "read_line (l @ cr) s = read_line l s" by (rule read_line_cong[OF trim_cr[OF assms(2)]])
  show ?case
  proof (cases final)
    case True
    then show ?thesis
      using text_lines_cons[OF nolf, of "[]"] line by (simp add: assms(1))
  next
    case False
    then show ?thesis using text_lines_last[of l] 2 by (simp add: read_blank)
  qed
next
  case (3 l m ls)
  have nolf: "CHR 0x0A \<notin> set (l @ cr)" using 3 assms(2) by auto
  have line: "read_line (l @ cr) s = read_line l s" by (rule read_line_cong[OF trim_cr[OF assms(2)]])
  show ?case
    using text_lines_cons[OF nolf, of "join_lines ending final (m # ls)"] line 3
    by (simp add: assms(1))
qed

lemma drop_cr_no_lf: "CHR 0x0A \<notin> set l \<Longrightarrow> CHR 0x0A \<notin> set (drop_cr l)"
  by (auto simp: drop_cr_def dest: in_set_butlastD)

lemma closeSection_set: "set (rw_out (closeSection port w)) \<subseteq> set (rw_out w) \<union> {rateLine, portLine port}"
  by (auto simp: closeSection_def Let_def dest: in_set_takeD in_set_dropD)

lemma rewrite_line_set:
  "set (rw_out (rewrite_line port raw w)) \<subseteq> set (rw_out w) \<union> {raw, rateLine, portLine port}"
  using closeSection_set[of port w]
  by (auto simp: rewrite_line_def keep_line_def Let_def split: option.splits if_splits)

lemma rewrite_fold_set:
  "set (rw_out (fold (rewrite_line port) lines w)) \<subseteq> set (rw_out w) \<union> set lines \<union> {rateLine, portLine port}"
proof (induction lines arbitrary: w)
  case (Cons l ls)
  then show ?case using rewrite_line_set[of port l w] by fastforce
qed auto

lemma rewritten_no_lf:
  assumes "\<forall>l \<in> set lines. CHR 0x0A \<notin> set l"
  shows "\<forall>l \<in> set (RewriteExporterSection lines port). CHR 0x0A \<notin> set l"
proof -
  define w where "w = fold (rewrite_line port) lines IniRewrite0"
  define v where "v = (if rw_inExporter w then closeSection port w else w)"
  have "set (rw_out v) \<subseteq> set lines \<union> {rateLine, portLine port}"
    using closeSection_set[of port w] rewrite_fold_set[of port lines IniRewrite0] by (auto simp: v_def w_def)
  then have v: "\<forall>l \<in> set (rw_out v). CHR 0x0A \<notin> set l"
    using assms rateLine_setting(5) portLine_setting(5) by blast
  have "set (append_section port (rw_out v)) \<subseteq>
      set (rw_out v) \<union> {[], ''['' @ kExporterSection @ '']'', rateLine, portLine port}"
    by (auto simp: append_section_def Let_def dest: set_dropWhileD)
  then have "\<forall>l \<in> set (append_section port (rw_out v)). CHR 0x0A \<notin> set l"
    using v rateLine_setting(5) portLine_setting(5) headerLine(4) by fastforce
  then show ?thesis
    using v by (simp add: RewriteExporterSection_def w_def[symmetric] Let_def v_def[symmetric])
qed

lemma repaired_values:
  assumes "in_int32 port"
  shows "ReadExporterValues (text_lines (repaired_text content port)) =
    \<lparr>ev_packetSendRate = Some (Fin 30), ev_port = Some port\<rparr>"
proof -
  let ?lines = "RewriteExporterSection (map drop_cr (text_lines content)) port"
  obtain cr where cr: "line_ending content = cr @ [CHR 0x0A]" "set cr \<subseteq> {CHR 0x0D}"
  proof (cases "str_contains content [CHR 0x0D, CHR 0x0A]")
    case True
    then show ?thesis by (intro that[of "[CHR 0x0D]"]) (simp_all add: line_ending_def)
  next
    case False
    then show ?thesis by (intro that[of "[]"]) (simp_all add: line_ending_def)
  qed
  have "\<forall>l \<in> set ?lines. CHR 0x0A \<notin> set l"
    using text_lines_no_lf drop_cr_no_lf by (intro rewritten_no_lf) auto
  from read_joined[OF cr this] show ?thesis
    using rewritten_values[OF assms] by (simp add: repaired_text_def ReadExporterValues_def)
qed

section \<open>Properties\<close>

text \<open>
  C18: A file that was repaired is found valid: whatever it held, after the repair has succeeded the check
  of the same path and port reports it as correctly configured.
\<close>

theorem repaired_file_is_valid:
  assumes "FixConfigStrictHeadless faults requested port disk = (0, disk')" "in_int32 port"
  shows "ck_status (VerifyConfig running True requested port disk') = Valid"
proof -
  let ?target = "EffectiveConfigPath disk requested"
  obtain content where c: "disk ?target = Some content" "IsStatsApiFileName requested"
    "disk' ?target = Some (repaired_text content port)"
    "\<And>p. p \<noteq> ?target \<Longrightarrow> p \<noteq> backup_path ?target \<Longrightarrow> disk' p = disk p"
    using assms(1) by (auto simp: FixConfigStrictHeadless_def Let_def split: if_splits option.splits)
  have name: "snd ?target \<noteq> []" "snd (backup_path ?target) \<noteq> ''TAStatsAPI.ini''"
    using c(2) by (auto simp: IsStatsApiFileName_def IsFileName_def ini_lower_def EffectiveConfigPath_def backup_path_def
        Let_def append_eq_Cons_conv)
  have "EffectiveConfigPath disk' requested = ?target"
  proof -
    let ?override = "(fst requested, ''TAStatsAPI.ini'')"
    have "disk' ?override = None \<longleftrightarrow> disk ?override = None"
      using c(1,3) c(4)[of ?override] name(2) by (cases "?override = ?target") (auto simp: backup_path_def)
    then show ?thesis by (auto simp: EffectiveConfigPath_def Let_def)
  qed
  moreover have "requested \<noteq> ([], [])"
    using c(2) by (auto simp: IsStatsApiFileName_def IsFileName_def ini_lower_def)
  ultimately show ?thesis
    using c(3) repaired_values[OF assms(2), of content]
    by (simp add: VerifyConfig_def Let_def check_values_def feq_def)
qed


definition sample_disk :: disk where
  "sample_disk = (\<lambda>p. if p = (''Config'', ''TAStatsAPI.ini'') then Some ''[IniVersion]'' else None)"

definition no_faults :: Faults where
  "no_faults = \<lparr>ft_copy = False, ft_openRead = False, ft_openWrite = False, ft_written = None\<rparr>"

theorem repaired_file_is_valid_witness:
  "ck_status (VerifyConfig False True (''Config'', ''DefaultStatsAPI.ini'') 49123
     (snd (FixConfigStrictHeadless no_faults (''Config'', ''DefaultStatsAPI.ini'') 49123 sample_disk))) = Valid"
proof (rule repaired_file_is_valid)
  have "IsStatsApiFileName (''Config'', ''DefaultStatsAPI.ini'')" "IsFileName (''Config'', ''DefaultStatsAPI.ini'') ''defaultstatsapi.ini''"
    by code_simp+
  then show "FixConfigStrictHeadless no_faults (''Config'', ''DefaultStatsAPI.ini'') 49123 sample_disk =
      (0, snd (FixConfigStrictHeadless no_faults (''Config'', ''DefaultStatsAPI.ini'') 49123 sample_disk))"
    by (simp add: FixConfigStrictHeadless_def EffectiveConfigPath_def sample_disk_def no_faults_def backup_path_def Let_def)
qed (simp add: in_int32_def)

text \<open>
  The repair changes two settings only: if the file has the exporter's section, every other line,
  comments and the other sections included, stays as it is and in its place; if not, the section is
  added at the end.
\<close>

theorem repair_keeps_other_lines:
  "if has_exporter lines then other_lines (RewriteExporterSection lines port) = other_lines lines
   else RewriteExporterSection lines port = append_section port lines"
  by (rule rewritten_others)



end
