(* ===== verification/Match_Story.thy ===== *)
theory Match_Story
  imports Match_Card Scoreline Text_Format
begin

text \<open>
  The story of a saved match (\<open>core/game/MatchStory.cpp\<close>): up to five sentences about what was notable,
  the most interesting ones first. Each numbered part of \<open>BuildMatchStory\<close> is a definition that gives
  the sentences the part contributes.
\<close>

record StoryCandidate =
  sc_priority :: int
  sc_text :: string

definition FormatClock :: "fp \<Rightarrow> string" where
  "FormatClock seconds =
     (if seconds = NaN \<or> seconds \<le> Fin 0 then ''0:00''
      else
        let totalSec = max 0 (lround seconds); secs = to_string (totalSec mod 60)
        in to_string (totalSec div 60) @ '':'' @ (if length secs < 2 then ''0'' else []) @ secs)"

definition story_percent :: "fp \<Rightarrow> string" where
  "story_percent share = to_string (max 0 (min 100 (lround (fmul32 share (Fin 100)))))"

definition candidate :: "int \<Rightarrow> string \<Rightarrow> StoryCandidate list" where
  "candidate priority text = [\<lparr>sc_priority = priority, sc_text = text\<rparr>]"

section \<open>Whose match it is\<close>

definition valid_team :: "int \<Rightarrow> bool" where
  "valid_team t = (t = 0 \<or> t = 1)"

definition analytics_team :: "MatchDetail \<Rightarrow> MatchAnalytics \<Rightarrow> int" where
  "analytics_team d a =
     (let own = (if md_accountPrimaryId d = [] then 0
                 else case FindPlayer a (md_accountPrimaryId d) of
                   None \<Rightarrow> 0 | Some p \<Rightarrow> if valid_team (pa_team p) then pa_team p else 0)
      in if own \<noteq> 0 then own
         else case find (\<lambda>p. pa_car p \<noteq> None \<and> valid_team (pa_team p)) (ma_players a) of
           None \<Rightarrow> own | Some p \<Rightarrow> pa_team p)"

definition story_team :: "MatchDetail \<Rightarrow> int" where
  "story_team d =
     (case md_ourTeam d of
        p # ps \<Rightarrow> MatchDetailPlayer.dp_team p
      | [] \<Rightarrow> (case md_analytics d of None \<Rightarrow> 0 | Some a \<Rightarrow> analytics_team d a))"

definition story_player :: "MatchDetail \<Rightarrow> MatchAnalytics \<Rightarrow> PlayerAnalytics option" where
  "story_player d a =
     (case (if md_accountPrimaryId d = [] then None else FindPlayer a (md_accountPrimaryId d)) of
        Some p \<Rightarrow> Some p
      | None \<Rightarrow>
          (case find (\<lambda>p. pa_car p \<noteq> None) (ma_players a) of
             Some p \<Rightarrow> Some p
           | None \<Rightarrow>
               (case find dp_isMe (md_ourTeam d) of
                  None \<Rightarrow> None | Some p \<Rightarrow> FindPlayer a (MatchDetailPlayer.dp_primaryId p))))"

section \<open>The parts\<close>

definition comeback_story :: "ScorelineSummary \<Rightarrow> StoryCandidate list" where
  "comeback_story s =
     (if sl_comeback s \<and> 1 \<le> sl_maxDeficit s
      then candidate (100 + sl_maxDeficit s * 5)
        (if sl_maxDeficit s = 1 then ''Came back from a 1-goal deficit to win.''
         else ''Came back from a '' @ to_string (sl_maxDeficit s) @ ''-goal deficit to win.'')
      else if sl_blownLead s \<and> 1 \<le> sl_maxLead s
      then candidate (95 + sl_maxLead s * 5)
        (if sl_maxLead s = 1 then ''Surrendered a 1-goal lead.''
         else ''Surrendered a '' @ to_string (sl_maxLead s) @ ''-goal lead.'')
      else [])"

text \<open>The length of the overtime, when it is known.\<close>

definition overtime_known :: "MatchDetail \<Rightarrow> fp option" where
  "overtime_known d = (case md_overtimeSeconds d of Some s \<Rightarrow> if Fin 0 < s then Some s else None | None \<Rightarrow> None)"

definition overtime_length :: "MatchDetail \<Rightarrow> string" where
  "overtime_length d = (case overtime_known d of Some s \<Rightarrow> '' (+'' @ FormatClock s @ '')'' | None \<Rightarrow> [])"

definition overtime_line :: "MatchDetail \<Rightarrow> string" where
  "overtime_line d =
     (if md_win d then ''Won in overtime'' else ''Lost in overtime'') @ overtime_length d @ ''.''"

definition overtime_story :: "MatchDetail \<Rightarrow> MatchAnalytics \<Rightarrow> ScorelineSummary \<Rightarrow> StoryCandidate list" where
  "overtime_story d a s =
     (if sl_overtime s \<or> ma_endedInOvertime a \<or> overtime_known d \<noteq> None
      then candidate 90 (overtime_line d) else [])"

text \<open>The goal that decided the match: the winner's last one scored from a tie.\<close>

definition decisive_step :: "int \<Rightarrow> GoalRecord \<Rightarrow> (int \<times> int) \<times> GoalRecord option \<Rightarrow> (int \<times> int) \<times> GoalRecord option" where
  "decisive_step winner g = (\<lambda>(score, decisive).
     if \<not> valid_team (gr_team g) then (score, decisive)
     else let before = team_at score winner - team_at score (1 - winner)
          in (team_set (gr_team g) (team_at score (gr_team g) + 1) score,
              if gr_team g = winner \<and> before = 0 then Some g else decisive))"

definition late_story :: "MatchDetail \<Rightarrow> MatchAnalytics \<Rightarrow> ScorelineSummary \<Rightarrow> int \<Rightarrow> int \<Rightarrow> StoryCandidate list" where
  "late_story d a s mine opponent =
     (if \<not> sl_lateWinner s then []
      else
        let winner = (if md_win d then mine else opponent)
        in case snd (fold (decisive_step winner) (ma_goals a) ((0, 0), None)) of
             None \<Rightarrow> []
           | Some g \<Rightarrow>
               (case gr_clockSeconds g of
                  None \<Rightarrow> []
                | Some c \<Rightarrow>
                    candidate 88 ((if gr_team g = mine then ''Scored the match-winning goal with ''
                                   else ''Conceded the match-winning goal with '') @ FormatClock c @ '' remaining.'')))"

definition early_story :: "MatchDetail \<Rightarrow> MatchAnalytics \<Rightarrow> StoryCandidate list" where
  "early_story d a =
     (case ma_endClockSeconds a of
        None \<Rightarrow> []
      | Some c \<Rightarrow>
          (if EndedEarly a
           then candidate 85 ((if md_win d then ''Opponents forfeited with '' else ''Match ended early with '') @
                              FormatClock c @ '' remaining.'')
           else []))"

definition departure_story :: "MatchDetail \<Rightarrow> MatchAnalytics \<Rightarrow> int \<Rightarrow> StoryCandidate list" where
  "departure_story d a mine =
     (case find (\<lambda>p. \<not> (md_accountPrimaryId d \<noteq> [] \<and> PlayerDeparture.dp_primaryId p = md_accountPrimaryId d)) (ma_departures a) of
        None \<Rightarrow> []
      | Some p \<Rightarrow>
          (let name = (if PlayerDeparture.dp_name p = [] then ''A player'' else PlayerDeparture.dp_name p);
               clockInfo = (case dp_clockSeconds p of
                              None \<Rightarrow> [] | Some c \<Rightarrow> '' with '' @ FormatClock c @ '' remaining'')
           in if PlayerDeparture.dp_team p = mine
              then candidate 86 (''Teammate '' @ name @ '' left the match'' @ clockInfo @ ''.'')
              else candidate 70 (''Opponent '' @ name @ '' left the match'' @ clockInfo @ ''.'')))"

definition goal_word :: "int \<Rightarrow> string" where
  "goal_word n = (if n = 1 then '' goal'' else '' goals'')"

definition kickoff_story :: "ScorelineSummary \<Rightarrow> StoryCandidate list" where
  "kickoff_story s =
     (let us = sl_goalsAfterKickoffFor s; them = sl_goalsAfterKickoffAgainst s
      in if 1 \<le> us \<and> 1 \<le> them
         then candidate 76 (''Scored '' @ to_string us @ '' and conceded '' @ to_string them @
                            '' kickoff goals within 10 seconds of play.'')
         else if 1 \<le> us then candidate 75 (''Scored '' @ to_string us @ goal_word us @ '' within 10 seconds of kickoff.'')
         else if 1 \<le> them
         then candidate 75 (''Conceded '' @ to_string them @ goal_word them @ '' within 10 seconds of kickoff.'')
         else [])"

definition last_minute_story :: "ScorelineSummary \<Rightarrow> StoryCandidate list" where
  "last_minute_story s =
     (if 2 \<le> sl_lastMinuteGoalsFor s
      then candidate 74 (''Scored '' @ to_string (sl_lastMinuteGoalsFor s) @ '' goals in the final minute of regulation.'')
      else if 2 \<le> sl_lastMinuteGoalsAgainst s
      then candidate 74 (''Conceded '' @ to_string (sl_lastMinuteGoalsAgainst s) @
                         '' goals in the final minute of regulation.'')
      else [])"

definition possession_story :: "MatchDetail \<Rightarrow> MatchAnalytics \<Rightarrow> int \<Rightarrow> StoryCandidate list" where
  "possession_story d a mine =
     (let p = PossessionShare a mine
      in if f32 (60 / 100) \<le> p \<and> \<not> md_win d
         then candidate 80 (''Held '' @ story_percent p @ ''% possession despite the loss.'')
         else if p \<le> f32 (40 / 100) \<and> Fin 0 < p \<and> md_win d
         then candidate 80 (''Won despite holding only '' @ story_percent p @ ''% possession.'')
         else if f32 (68 / 100) \<le> p \<and> md_win d
         then candidate 65 (''Controlled '' @ story_percent p @ ''% of possession in the win.'')
         else [])"

definition hits_story :: "MatchAnalytics \<Rightarrow> int \<Rightarrow> PlayerAnalytics option \<Rightarrow> StoryCandidate list" where
  "hits_story a mine me =
     (let team = filter (\<lambda>p. pa_team p = mine) (ma_players a);
          teamHits = sum_list (map pa_hits team)
      in case me of
           None \<Rightarrow> []
         | Some p \<Rightarrow>
             (if 2 \<le> length team \<and> 0 < teamHits
              then
                let share = fdiv32 (f32_of_int (pa_hits p)) (f32_of_int teamHits);
                    expected = fdiv32 (Fin 1) (f32_of_int (int (length team)))
                in if fadd32 expected (f32 (15 / 100)) \<le> share
                   then candidate 72 (''Accounted for '' @ story_percent share @ ''% of your team's touches.'')
                   else if share \<le> fsub32 expected (f32 (15 / 100)) \<and> Fin 0 < share
                   then candidate 60 (''Accounted for only '' @ story_percent share @ ''% of your team's touches.'')
                   else []
              else []))"

definition fastest_hit_story :: "MatchAnalytics \<Rightarrow> PlayerAnalytics option \<Rightarrow> StoryCandidate list" where
  "fastest_hit_story a me =
     (case me of
        None \<Rightarrow> []
      | Some p \<Rightarrow>
          (let maxLobbySpeed = fold (\<lambda>q m. fmax m (pa_maxHitSpeed q)) (ma_players a) (Fin 0)
           in if Fin 105 \<le> pa_maxHitSpeed p \<and> fsub32 maxLobbySpeed (f32 (1 / 10)) \<le> pa_maxHitSpeed p
              then candidate 68 ''Recorded the fastest hit in the match.'' else []))"

definition boost_story :: "PlayerAnalytics option \<Rightarrow> StoryCandidate list" where
  "boost_story me =
     (case me of
        None \<Rightarrow> []
      | Some p \<Rightarrow>
          (case pa_car p of
             None \<Rightarrow> []
           | Some car \<Rightarrow>
               (let zeroShare = CarTelemetry_Share car (ct_zeroBoostSeconds car)
                in if f32 (15 / 100) \<le> zeroShare
                   then candidate 66 (''Spent '' @ story_percent zeroShare @ ''% of the match at zero boost.'') else [])))"

definition demo_story :: "MatchAnalytics \<Rightarrow> int \<Rightarrow> int \<Rightarrow> PlayerAnalytics option \<Rightarrow> StoryCandidate list" where
  "demo_story a mine opponent me =
     (let demos = (\<lambda>t. sum_list (map pa_demosInflicted (filter (\<lambda>p. pa_team p = t) (ma_players a))));
          us = demos mine; them = demos opponent
      in if 4 \<le> us - them
         then candidate 62 (''Your team led demolitions '' @ to_string us @ '' to '' @ to_string them @ ''.'')
         else if us - them \<le> -4
         then candidate 62 (''Opponents led demolitions '' @ to_string them @ '' to '' @ to_string us @ ''.'')
         else case me of
           None \<Rightarrow> []
         | Some p \<Rightarrow>
             (if 4 \<le> pa_demosInflicted p
              then candidate 61 (''Inflicted '' @ to_string (pa_demosInflicted p) @ '' demolitions.'') else []))"

text \<open>A match without analytics.\<close>

definition legacy_story :: "MatchDetail \<Rightarrow> StoryCandidate list" where
  "legacy_story d =
     (if overtime_known d \<noteq> None then candidate 90 (overtime_line d) else []) @
     (case md_localStats d of
        None \<Rightarrow> []
      | Some ls \<Rightarrow>
          (if 3 \<le> ls_crossbars ls then candidate 65 (''Hit the crossbar '' @ to_string (ls_crossbars ls) @ '' times.'') else []) @
          (if 4 \<le> ls_demoed ls then candidate 62 (''Demolished '' @ to_string (ls_demoed ls) @ '' times.'') else []))"

definition analytics_story :: "MatchDetail \<Rightarrow> MatchAnalytics \<Rightarrow> StoryCandidate list" where
  "analytics_story d a =
     (let mine = story_team d; s = AnalyzeScoreline a mine (md_win d);
          opponent = (if mine = 0 then 1 else 0); me = story_player d a
      in comeback_story s @ overtime_story d a s @ late_story d a s mine opponent @ early_story d a @
         departure_story d a mine @ kickoff_story s @ last_minute_story s @ possession_story d a mine @
         hits_story a mine me @ fastest_hit_story a me @ boost_story me @ demo_story a mine opponent me)"

definition story_candidates :: "MatchDetail \<Rightarrow> StoryCandidate list" where
  "story_candidates d =
     (case md_analytics d of
        Some a \<Rightarrow> if MatchAnalytics_Empty a then legacy_story d else analytics_story d a
      | None \<Rightarrow> legacy_story d)"

definition BuildMatchStory :: "MatchDetail \<Rightarrow> string list" where
  "BuildMatchStory d =
     map sc_text (take 5 (stable_sort (\<lambda>a b. sc_priority b < sc_priority a) (story_candidates d)))"


section \<open>Ranks of the sentences\<close>

text \<open>The priorities a part may give, and that it gives one sentence at most.\<close>

definition gives :: "int set \<Rightarrow> StoryCandidate list \<Rightarrow> bool" where
  "gives ps cs \<longleftrightarrow> distinct (map sc_priority cs) \<and> sc_priority ` set cs \<subseteq> ps"

lemma gives_Nil [simp]: "gives ps []"
  by (simp add: gives_def)

lemma gives_candidate [simp]: "gives ps (candidate p t) = (p \<in> ps)"
  by (simp add: gives_def candidate_def)

lemma gives_append: "gives ps xs \<Longrightarrow> gives qs ys \<Longrightarrow> ps \<inter> qs = {} \<Longrightarrow> gives (ps \<union> qs) (xs @ ys)"
  by (auto simp: gives_def)

lemma parts_give:
  "gives {100..} (comeback_story s)" "gives {90} (overtime_story d a s)" "gives {88} (late_story d a s t t')"
  "gives {85} (early_story d a)" "gives {86, 70} (departure_story d a t)" "gives {76, 75} (kickoff_story s)"
  "gives {74} (last_minute_story s)" "gives {80, 65} (possession_story d a t)" "gives {72, 60} (hits_story a t me)"
  "gives {68} (fastest_hit_story a me)" "gives {66} (boost_story me)" "gives {62, 61} (demo_story a t t' me)"
  by (auto simp: comeback_story_def overtime_story_def late_story_def early_story_def departure_story_def
      kickoff_story_def last_minute_story_def possession_story_def hits_story_def fastest_hit_story_def
      boost_story_def demo_story_def Let_def split: option.split)

lemma analytics_story_gives: "\<exists>ps. gives ps (analytics_story d a)"
proof -
  define team where "team = story_team d"
  define s where "s = AnalyzeScoreline a team (md_win d)"
  define other where "other = (if team = 0 then 1 else 0 :: int)"
  define me where "me = story_player d a"
  have "gives ({62, 61} :: int set) (demo_story a team other me)" by (rule parts_give)
  note this = gives_append[OF parts_give(11)[of me] this, simplified]
  note this = gives_append[OF parts_give(10)[of a me] this, simplified]
  note this = gives_append[OF parts_give(9)[of a team me] this, simplified]
  note this = gives_append[OF parts_give(8)[of d a team] this, simplified]
  note this = gives_append[OF parts_give(7)[of s] this, simplified]
  note this = gives_append[OF parts_give(6)[of s] this, simplified]
  note this = gives_append[OF parts_give(5)[of d a team] this, simplified]
  note this = gives_append[OF parts_give(4)[of d a] this, simplified]
  note this = gives_append[OF parts_give(3)[of d a s team other] this, simplified]
  note this = gives_append[OF parts_give(2)[of d a s] this, simplified]
  note this = gives_append[OF parts_give(1)[of s] this, simplified]
  then show ?thesis
    unfolding analytics_story_def Let_def team_def[symmetric] s_def[symmetric] other_def[symmetric] me_def[symmetric]
    by blast
qed

lemma legacy_story_gives: "gives {90, 65, 62} (legacy_story d)"
  by (auto simp: legacy_story_def gives_def candidate_def split: option.split)

lemma candidates_distinct: "distinct (map sc_priority (story_candidates d))"
  using analytics_story_gives[of d] legacy_story_gives[of d]
  by (auto simp: story_candidates_def gives_def split: option.split)


section \<open>The order of the sentences\<close>

lemma insert_by_descending:
  assumes "sorted_wrt (\<lambda>a b. sc_priority b < sc_priority a) ys" and "sc_priority x \<notin> sc_priority ` set ys"
  shows "sorted_wrt (\<lambda>a b. sc_priority b < sc_priority a) (insert_by (\<lambda>a b. sc_priority b < sc_priority a) x ys)"
  using assms
proof (induction ys)
  case (Cons y ys)
  have "sc_priority x \<noteq> sc_priority y" using Cons.prems by auto
  then show ?case using Cons by fastforce
qed simp

lemma stable_sort_descending:
  assumes "distinct (map sc_priority cs)"
  shows "sorted_wrt (\<lambda>a b. sc_priority b < sc_priority a) (stable_sort (\<lambda>a b. sc_priority b < sc_priority a) cs)"
  using assms
proof (induction cs)
  case (Cons c cs)
  have "set (foldr (insert_by (\<lambda>a b. sc_priority b < sc_priority a)) cs []) = set cs"
    using set_stable_sort[of "\<lambda>a b. sc_priority b < sc_priority a" cs] by (simp add: stable_sort_def)
  then show ?case
    using Cons insert_by_descending[of "stable_sort (\<lambda>a b. sc_priority b < sc_priority a) cs" c]
    by (simp add: stable_sort_def)
qed (simp add: stable_sort_def)

lemma first_of_descending:
  assumes "sorted_wrt (\<lambda>a b. sc_priority b < sc_priority a) cs" and "c \<in> set cs"
    and "\<And>x. x \<in> set cs \<Longrightarrow> sc_priority x \<le> sc_priority c"
  shows "\<exists>rest. cs = c # rest"
  using assms by (cases cs) fastforce+

lemma highest_sentence_first:
  assumes "c \<in> set (story_candidates d)"
    and "\<And>x. x \<in> set (story_candidates d) \<Longrightarrow> sc_priority x \<le> sc_priority c"
  shows "\<exists>rest. BuildMatchStory d = sc_text c # rest"
proof -
  obtain rest where "stable_sort (\<lambda>a b. sc_priority b < sc_priority a) (story_candidates d) = c # rest"
    using first_of_descending[OF stable_sort_descending[OF candidates_distinct]] assms by (metis set_stable_sort)
  then show ?thesis by (simp add: BuildMatchStory_def)
qed

lemma other_parts_low:
  "x \<in> set (overtime_story d a s @ late_story d a s t t' @ early_story d a @ departure_story d a t @
     kickoff_story s @ last_minute_story s @ possession_story d a t @ hits_story a t me @
     fastest_hit_story a me @ boost_story me @ demo_story a t t' me) \<Longrightarrow> sc_priority x \<le> 90"
  using parts_give by (auto simp: gives_def) (fastforce simp: image_subset_iff)+

lemma leading_sentence:
  assumes "md_analytics d = Some a" and "\<not> MatchAnalytics_Empty a"
    and "comeback_story (AnalyzeScoreline a (story_team d) (md_win d)) = candidate p t"
  shows "\<exists>rest. BuildMatchStory d = t # rest"
proof -
  define s where "s = AnalyzeScoreline a (story_team d) (md_win d)"
  have p: "100 \<le> p" using parts_give(1)[of s] assms(3) by (simp add: s_def)
  have cs: "story_candidates d = analytics_story d a" using assms by (simp add: story_candidates_def)
  let ?c = "\<lparr>sc_priority = p, sc_text = t\<rparr>"
  have "x \<in> set (analytics_story d a) \<Longrightarrow> sc_priority x \<le> p" for x
    using other_parts_low p assms(3) unfolding analytics_story_def Let_def
    by (subst (asm) set_append) (fastforce simp: candidate_def)
  moreover have "?c \<in> set (analytics_story d a)"
    using assms(3) by (simp add: analytics_story_def Let_def candidate_def)
  ultimately show ?thesis using highest_sentence_first[of ?c d] unfolding cs by simp
qed

lemma to_string_one: "to_string 1 = ''1''"
  by code_simp

lemma comeback_story_cases:
  assumes "is_team t"
  shows "win \<Longrightarrow> Min (course t (ma_goals a)) < 0 \<Longrightarrow>
           \<exists>p. comeback_story (AnalyzeScoreline a t win) = candidate p
             (''Came back from a '' @ to_string (- Min (course t (ma_goals a))) @ ''-goal deficit to win.'')"
    and "\<not> win \<Longrightarrow> 0 < Max (course t (ma_goals a)) \<Longrightarrow>
           \<exists>p. comeback_story (AnalyzeScoreline a t win) = candidate p
             (''Surrendered a '' @ to_string (Max (course t (ma_goals a))) @ ''-goal lead.'')"
  using AnalyzeScoreline_leads[OF assms, of a win]
  by (auto simp: comeback_story_def to_string_one simp del: minus_Min_eq_Max)

section \<open>Properties\<close>

text \<open>
  The story is at most five of the sentences that apply, ranked strictly: every sentence shown is
  more important than the ones after it and than every one left out. No two candidates have one
  priority, so the result does not depend on how the (unstable) sort orders equal elements.
\<close>

theorem story_is_ranked:
  "\<exists>shown others. set (shown @ others) = set (story_candidates d) \<and>
     length (shown @ others) = length (story_candidates d) \<and>
     sorted_wrt (\<lambda>a b. sc_priority b < sc_priority a) (shown @ others) \<and>
     BuildMatchStory d = map sc_text shown \<and> length shown = min 5 (length (story_candidates d))"
proof -
  define cs where "cs = stable_sort (\<lambda>a b. sc_priority b < sc_priority a) (story_candidates d)"
  have "set cs = set (story_candidates d)" "length cs = length (story_candidates d)"
    by (simp_all add: cs_def)
  moreover have "sorted_wrt (\<lambda>a b. sc_priority b < sc_priority a) cs"
    unfolding cs_def by (rule stable_sort_descending[OF candidates_distinct])
  ultimately show ?thesis
    by (intro exI[of _ "take 5 cs"] exI[of _ "drop 5 cs"]) (simp add: BuildMatchStory_def cs_def[symmetric] min.commute)
qed

text \<open>
  A match won from behind opens its story with the largest deficit that the team really had, a
  match lost from a lead with the largest lead it had, in goals.
\<close>

theorem turnaround_opens_story:
  assumes "md_analytics d = Some a" and "\<not> MatchAnalytics_Empty a" and "is_team (story_team d)"
  shows "(md_win d \<and> Min (course (story_team d) (ma_goals a)) < 0 \<longrightarrow>
         (\<exists>rest. BuildMatchStory d =
           (''Came back from a '' @ to_string (- Min (course (story_team d) (ma_goals a))) @ ''-goal deficit to win.'') # rest)) \<and>
         (\<not> md_win d \<and> 0 < Max (course (story_team d) (ma_goals a)) \<longrightarrow>
         (\<exists>rest. BuildMatchStory d =
           (''Surrendered a '' @ to_string (Max (course (story_team d) (ma_goals a))) @ ''-goal lead.'') # rest))"
  using comeback_story_cases[OF assms(3), of "md_win d" a] leading_sentence[OF assms(1,2)] by blast

definition story_goal :: "int \<Rightarrow> GoalRecord" where
  "story_goal t =
     \<lparr>gr_playSeconds = Fin 0, gr_clockSeconds = Some (Fin 42), gr_overtime = False, gr_team = t, gr_scorerId = [],
      gr_scorerName = [], gr_assisterId = [], gr_assisterName = [], gr_goalSpeed = None, gr_lastTouchSpeed = None,
      gr_location = None, gr_roundSeconds = None, gr_scoreAfter = (0, 0)\<rparr>"

definition sample_turnaround :: MatchDetail where
  "sample_turnaround =
     sample_detail\<lparr>md_win := True, md_ourTeam := [], md_accountPrimaryId := [],
       md_analytics := Some (MatchAnalytics0\<lparr>ma_goals := map story_goal [1, 1, 0, 0, 0]\<rparr>)\<rparr>"

theorem turnaround_opens_story_witness:
  "\<exists>rest. BuildMatchStory sample_turnaround = ''Came back from a 2-goal deficit to win.'' # rest"
proof -
  let ?a = "MatchAnalytics0\<lparr>ma_goals := map story_goal [1, 1, 0, 0, 0]\<rparr>"
  have t: "story_team sample_turnaround = 0" by code_simp
  have "{0..length (ma_goals ?a)} = {0, 1, 2, 3, 4, 5}" by auto
  then have "course 0 (ma_goals ?a) = {0, -1, -2, 1}"
    unfolding course_def goal_difference_def goals_of_def by (auto simp: story_goal_def eval_nat_numeral)
  then have c: "Min (course (story_team sample_turnaround) (ma_goals ?a)) = -2" unfolding t by simp
  have "md_analytics sample_turnaround = Some ?a" "\<not> MatchAnalytics_Empty ?a" "md_win sample_turnaround"
    by (simp_all add: sample_turnaround_def MatchAnalytics_Empty_def)
  moreover have "to_string 2 = ''2''" by code_simp
  ultimately show ?thesis
    using turnaround_opens_story[of sample_turnaround ?a] c t by (simp add: is_team_def del: minus_Min_eq_Max)
qed

end
