(* ===== verification/Http_Security.thy ===== *)
theory Http_Security
  imports Text_Format
begin

text \<open>
  \<open>network/http/HttpSecurity.cpp\<close>: URLs cut into their parts, the rule which of them may carry
  credentials, and the check of a redirect. A string view is a string; \<open>find\<close> with no match is \<open>None\<close>.
\<close>

section \<open>URLs\<close>

definition trim_space :: "string \<Rightarrow> string" where
  "trim_space t = rev (dropWhile is_space (rev (dropWhile is_space t)))"

fun find_text :: "string \<Rightarrow> string \<Rightarrow> nat option" where
  "find_text p [] = (if p = [] then Some 0 else None)"
| "find_text p (c # cs) = (if starts_with (c # cs) p then Some 0 else map_option Suc (find_text p cs))"

record ParsedUrl =
  pu_scheme :: string
  pu_host :: string
  pu_port :: int
  pu_path :: string
  pu_query :: string
  pu_valid :: bool

definition ParsedUrl0 :: ParsedUrl where
  "ParsedUrl0 = \<lparr>pu_scheme = [], pu_host = [], pu_port = 0, pu_path = [], pu_query = [], pu_valid = False\<rparr>"

definition EffectivePort :: "ParsedUrl \<Rightarrow> int" where
  "EffectivePort u =
     (if 0 < pu_port u then pu_port u
      else if pu_scheme u = ''https'' then 443
      else if pu_scheme u = ''http'' then 80 else 0)"

definition text_before :: "char \<Rightarrow> string \<Rightarrow> string" where
  "text_before c t = takeWhile (\<lambda>x. x \<noteq> c) t"

definition text_after :: "char \<Rightarrow> string \<Rightarrow> string" where
  "text_after c t = tl (dropWhile (\<lambda>x. x \<noteq> c) t)"

text \<open>The host and the port of an authority; the flag tells that reading went on to the path.\<close>

definition read_port :: "string \<Rightarrow> string \<Rightarrow> string \<times> int \<times> bool" where
  "read_port host t = (case stoi t of None \<Rightarrow> (host, 0, False) | Some p \<Rightarrow> (host, p, True))"

definition parse_authority :: "string \<Rightarrow> string \<times> int \<times> bool" where
  "parse_authority a =
     (if hd a = CHR ''['' then
        if CHR '']'' \<notin> set a then ([], 0, False)
        else
          let host = map to_lower (text_before (CHR '']'') a @ '']''); rest = text_after (CHR '']'') a
          in if rest \<noteq> [] \<and> hd rest = CHR '':'' then read_port host (tl rest) else (host, 0, True)
      else if CHR '':'' \<in> set a then read_port (map to_lower (text_before (CHR '':'') a)) (text_after (CHR '':'') a)
      else (map to_lower a, 0, True))"

definition ends_authority :: "char \<Rightarrow> bool" where
  "ends_authority c = (c = CHR ''/'' \<or> c = CHR ''?'' \<or> c = CHR ''#'')"

definition without_userinfo :: "string \<Rightarrow> string" where
  "without_userinfo a = (if CHR ''@'' \<in> set a then text_after (CHR ''@'') a else a)"

definition path_of :: "string \<Rightarrow> string" where
  "path_of pq =
     (let p = (if pq = [] then ''/'' else takeWhile (\<lambda>c. c \<noteq> CHR ''?'' \<and> c \<noteq> CHR ''#'') pq)
      in if p = [] \<or> hd p \<noteq> CHR ''/'' then CHR ''/'' # p else p)"

definition query_of :: "string \<Rightarrow> string" where
  "query_of pq =
     (if CHR ''?'' \<notin> set pq then []
      else if CHR ''#'' \<in> set (text_before (CHR ''?'') pq) then text_after (CHR ''?'') pq
      else text_before (CHR ''#'') (text_after (CHR ''?'') pq))"

definition parse_rest :: "string \<Rightarrow> string \<Rightarrow> ParsedUrl" where
  "parse_rest scheme rest =
     (let result = ParsedUrl0\<lparr>pu_scheme := scheme\<rparr>;
          pq = dropWhile (\<lambda>c. \<not> ends_authority c) rest;
          a = without_userinfo (takeWhile (\<lambda>c. \<not> ends_authority c) rest)
      in if a = [] then result
         else
           let (host, port, go) = parse_authority a; result = result\<lparr>pu_host := host, pu_port := port\<rparr>
           in if \<not> go \<or> host = [] then result
              else result\<lparr>pu_path := path_of pq, pu_query := query_of pq, pu_valid := True\<rparr>)"

definition ParseUrl :: "string \<Rightarrow> ParsedUrl" where
  "ParseUrl rawUrl =
     (let t = trim_space rawUrl
      in case find_text ''://'' t of
           None \<Rightarrow> ParsedUrl0
         | Some n \<Rightarrow> if n = 0 then ParsedUrl0 else parse_rest (map to_lower (take n t)) (drop (n + 3) t))"

section \<open>What may carry credentials\<close>

definition IsLoopbackHost :: "string \<Rightarrow> bool" where
  "IsLoopbackHost host =
     (let l = map to_lower (trim_space host)
      in l \<in> {''localhost'', ''127.0.0.1'', ''::1'', ''[::1]''} \<or> starts_with l ''127.'')"

text \<open>The answer with the message of \<open>outError\<close>.\<close>

definition IsAllowedSensitiveUrl :: "ParsedUrl \<Rightarrow> bool \<times> string" where
  "IsAllowedSensitiveUrl u =
     (if \<not> pu_valid u then (False, ''Malformed or invalid URL'')
      else if pu_scheme u = ''https'' then (True, [])
      else if pu_scheme u = ''http'' then
        if IsLoopbackHost (pu_host u) then (True, [])
        else (False, ''Plain HTTP is rejected for authenticated requests; HTTPS is required for remote endpoints'')
      else (False, ''Unsupported URL scheme: must be HTTPS''))"

definition IsSameOrigin :: "ParsedUrl \<Rightarrow> ParsedUrl \<Rightarrow> bool" where
  "IsSameOrigin a b =
     (pu_valid a \<and> pu_valid b \<and> pu_scheme a = pu_scheme b \<and> pu_host a = pu_host b \<and>
      EffectivePort a = EffectivePort b)"

section \<open>Redirects\<close>

definition host_port :: "ParsedUrl \<Rightarrow> string" where
  "host_port b =
     pu_host b @
     (if 0 < pu_port b \<and> pu_port b \<noteq> EffectivePort b then '':'' @ to_string (pu_port b)
      else if 0 < pu_port b \<and> (pu_scheme b = ''https'' \<and> pu_port b \<noteq> 443 \<or> pu_scheme b = ''http'' \<and> pu_port b \<noteq> 80)
      then '':'' @ to_string (pu_port b)
      else [])"

definition directory_of :: "string \<Rightarrow> string" where
  "directory_of p =
     (if CHR ''/'' \<in> set p then rev (dropWhile (\<lambda>c. c \<noteq> CHR ''/'') (rev p)) else ''/'')"

definition ResolveRedirectUrl :: "string \<Rightarrow> string \<Rightarrow> string" where
  "ResolveRedirectUrl currentUrl location =
     (let loc = trim_space location; b = ParseUrl currentUrl
      in if loc = [] then currentUrl
         else if find_text ''://'' loc \<noteq> None then loc
         else if \<not> pu_valid b then loc
         else if starts_with loc ''//'' then pu_scheme b @ '':'' @ loc
         else if hd loc = CHR ''/'' then pu_scheme b @ ''://'' @ host_port b @ loc
         else pu_scheme b @ ''://'' @ host_port b @ directory_of (pu_path b) @ loc)"

record RedirectValidationResult =
  rv_allowed :: bool
  rv_resolvedUrl :: string
  rv_reason :: string

definition ValidateRedirect :: "string \<Rightarrow> string \<Rightarrow> bool \<Rightarrow> RedirectValidationResult" where
  "ValidateRedirect currentUrl location isSensitive =
     (let url = ResolveRedirectUrl currentUrl location;
          result = \<lparr>rv_allowed = False, rv_resolvedUrl = url, rv_reason = []\<rparr>;
          current = ParseUrl currentUrl; resolved = ParseUrl url
      in if \<not> pu_valid resolved then result\<lparr>rv_reason := ''Malformed redirect Location destination''\<rparr>
         else if pu_valid current \<and> pu_scheme current = ''https'' \<and> pu_scheme resolved = ''http''
         then result\<lparr>rv_reason := ''HTTPS-to-HTTP downgrade is prohibited''\<rparr>
         else if isSensitive \<and> \<not> IsSameOrigin current resolved
         then result\<lparr>rv_reason := ''Cross-origin redirect rejected for authenticated request''\<rparr>
         else if isSensitive \<and> \<not> fst (IsAllowedSensitiveUrl resolved)
         then result\<lparr>rv_reason := snd (IsAllowedSensitiveUrl resolved)\<rparr>
         else result\<lparr>rv_allowed := True\<rparr>)"

section \<open>Searching and trimming\<close>

lemma starts_with_append: "starts_with t p \<Longrightarrow> starts_with (t @ r) p"
proof -
  assume "starts_with t p"
  then have t: "take (length p) t = p" by (simp add: starts_with_def)
  then have "length p \<le> length t" by (metis length_take min.bounded_iff order_refl)
  then show ?thesis using t by (simp add: starts_with_def)
qed

lemma starts_with_length: "starts_with t p \<Longrightarrow> length p \<le> length t"
  unfolding starts_with_def by (metis length_take min.bounded_iff order_refl)

lemma find_text_length: "find_text p t = Some n \<Longrightarrow> n + length p \<le> length t"
  by (induction t arbitrary: n) (auto dest: starts_with_length split: if_splits)

lemma starts_with_append_iff: "length p \<le> length t \<Longrightarrow> starts_with (t @ r) p = starts_with t p"
  by (simp add: starts_with_def)

lemma find_text_append: "find_text p t = Some n \<Longrightarrow> find_text p (t @ r) = Some n"
proof (induction t arbitrary: n)
  case Nil
  then show ?case by (cases r) (auto simp: starts_with_def split: if_splits)
next
  case (Cons c cs)
  have "length p \<le> length (c # cs)" using find_text_length[OF Cons.prems] by simp
  from starts_with_append_iff[OF this, of r] show ?case using Cons by (auto split: if_splits)
qed

lemma find_text_prefix: "find_text p t = Some n \<Longrightarrow> find_text p (take (n + length p) t) = Some n"
proof (induction t arbitrary: n)
  case (Cons c cs)
  show ?case
  proof (cases "starts_with (c # cs) p")
    case True
    then have "n = 0" "take (length p) (c # cs) = p" using Cons.prems by (simp_all add: starts_with_def)
    then show ?thesis by (cases p) (simp_all add: starts_with_def)
  next
    case False
    then obtain m where m: "n = Suc m" "find_text p cs = Some m" using Cons.prems by auto
    have "\<not> starts_with (c # take (m + length p) cs) p"
    proof
      assume "starts_with (c # take (m + length p) cs) p"
      from starts_with_append[OF this, of "drop (m + length p) cs"] False show False by simp
    qed
    then show ?thesis using m Cons.IH by simp
  qed
qed (auto split: if_splits)

lemma find_text_take: "find_text p t = Some n \<Longrightarrow> take (n + length p) t = take n t @ p"
proof (induction t arbitrary: n)
  case (Cons c cs)
  then show ?case by (auto simp: starts_with_def split: if_splits)
qed (auto split: if_splits)

lemma lower_code: "(of_char (to_lower c) :: nat) = (if 65 \<le> (of_char c :: nat) \<and> (of_char c :: nat) \<le> 90 then of_char c + 32 else of_char c)"
  by (auto simp: to_lower_def less_eq_char_def)

lemma char_code: "c = d \<longleftrightarrow> (of_char c :: nat) = of_char d"
  by simp

lemma to_lower_marks [simp]:
  "(to_lower c = CHR '':'') = (c = CHR '':'')" "(to_lower c = CHR ''/'') = (c = CHR ''/'')"
  "(to_lower c = CHR ''?'') = (c = CHR ''?'')" "(to_lower c = CHR ''#'') = (c = CHR ''#'')"
  "(to_lower c = CHR ''['') = (c = CHR ''['')" "(to_lower c = CHR '']'') = (c = CHR '']'')"
  "(to_lower c = CHR ''@'') = (c = CHR ''@'')"
  by (simp_all add: char_code lower_code del: of_char_eq_iff)

lemma mark_not_lower:
  "x \<in> {CHR '':'', CHR ''/'', CHR ''?'', CHR ''#'', CHR ''['', CHR '']'', CHR ''@''} \<Longrightarrow>
   (x \<in> set (map to_lower t)) = (x \<in> set t)"
  by (induction t) (auto simp: eq_commute[of _ "to_lower _"])

lemma is_space_lower [simp]: "is_space (to_lower c) = is_space c"
  by (simp add: is_space_def less_eq_char_def char_code lower_code del: of_char_eq_iff)

lemma to_lower_lower [simp]: "to_lower (to_lower c) = to_lower c"
  by (simp add: char_code lower_code del: of_char_eq_iff)

lemma starts_with_lower: "starts_with (map to_lower t) ''://'' = starts_with t ''://''"
  by (cases t; cases "tl t"; cases "tl (tl t)") (auto simp: starts_with_def)

lemma find_text_lower: "find_text ''://'' (map to_lower t) = find_text ''://'' t"
proof (induction t)
  case (Cons c cs)
  then show ?case using starts_with_lower[of "c # cs"] by simp
qed simp

lemma trim_keeps_front:
  assumes "p \<noteq> []" "\<not> is_space (hd p)" "\<not> is_space (last p)"
  shows "trim_space (p @ t) = p @ rev (dropWhile is_space (rev t))"
proof -
  have "dropWhile is_space (p @ t) = p @ t" using assms(1,2) by (cases p) simp_all
  moreover have "dropWhile is_space (rev p) = rev p" using assms(1,3) by (cases "rev p") (auto simp: last_rev hd_rev[symmetric])
  then have "dropWhile is_space (rev t @ rev p) = dropWhile is_space (rev t) @ rev p"
    by (cases "\<forall>c \<in> set t. is_space c") (auto simp: dropWhile_append)
  ultimately show ?thesis by (simp add: trim_space_def)
qed

lemma span_append:
  "\<forall>c \<in> set a. \<not> P c \<Longrightarrow> P d \<Longrightarrow> takeWhile (\<lambda>c. \<not> P c) (a @ d # t) = a"
  "\<forall>c \<in> set a. \<not> P c \<Longrightarrow> P d \<Longrightarrow> dropWhile (\<lambda>c. \<not> P c) (a @ d # t) = d # t"
  by (induction a) simp_all

lemma ParseUrl_built:
  assumes scheme: "find_text ''://'' (scheme @ ''://'') = Some (length scheme)" "scheme \<noteq> []"
      "map to_lower scheme = scheme" "\<not> is_space (hd scheme)"
    and a: "\<forall>c \<in> set a. \<not> ends_authority c" "CHR ''@'' \<notin> set a" "a \<noteq> []"
      "parse_authority a = (host, port, True)" "host \<noteq> []"
  shows "ParseUrl (scheme @ ''://'' @ a @ ''/'' @ t) =
    (let pq = CHR ''/'' # rev (dropWhile is_space (rev t))
     in \<lparr>pu_scheme = scheme, pu_host = host, pu_port = port, pu_path = path_of pq, pu_query = query_of pq,
         pu_valid = True\<rparr>)"
proof -
  define t' where "t' = rev (dropWhile is_space (rev t))"
  have "trim_space ((scheme @ ''://'' @ a @ ''/'') @ t) = (scheme @ ''://'' @ a @ ''/'') @ t'"
    unfolding t'_def by (rule trim_keeps_front) (use scheme in \<open>simp_all add: is_space_def less_eq_char_def hd_append\<close>)
  then have trim: "trim_space (scheme @ ''://'' @ a @ ''/'' @ t) = scheme @ ''://'' @ a @ ''/'' @ t'" by simp
  have found: "find_text ''://'' (scheme @ ''://'' @ a @ ''/'' @ t') = Some (length scheme)"
    using find_text_append[OF scheme(1), of "a @ ''/'' @ t'"] by simp
  have slash: "ends_authority (CHR ''/'')" by (simp add: ends_authority_def)
  have "parse_rest scheme (a @ CHR ''/'' # t') =
     \<lparr>pu_scheme = scheme, pu_host = host, pu_port = port, pu_path = path_of (CHR ''/'' # t'),
      pu_query = query_of (CHR ''/'' # t'), pu_valid = True\<rparr>"
    using a span_append[of a ends_authority "CHR ''/''" t', OF a(1) slash]
    by (simp add: parse_rest_def Let_def without_userinfo_def ParsedUrl0_def)
  then show ?thesis
    unfolding ParseUrl_def Let_def trim found t'_def[symmetric] using scheme by simp
qed

section \<open>Hosts\<close>

text \<open>What the host of a URL looks like: lower case, and no mark that would end it earlier.\<close>

definition host_ok :: "string \<Rightarrow> bool" where
  "host_ok h =
     (h \<noteq> [] \<and> map to_lower h = h \<and> (\<forall>c \<in> set h. \<not> ends_authority c) \<and>
      (if hd h = CHR ''['' then \<exists>b. h = b @ '']'' \<and> CHR '']'' \<notin> set b else CHR '':'' \<notin> set h))"

lemma ends_authority_lower [simp]: "ends_authority (to_lower c) = ends_authority c"
  by (simp add: ends_authority_def)

lemma text_before_set: "x \<in> set (text_before c t) \<Longrightarrow> x \<in> set t \<and> x \<noteq> c"
  by (auto simp: text_before_def dest: set_takeWhileD)

lemma hd_text_before: "text_before c t \<noteq> [] \<Longrightarrow> hd (text_before c t) = hd t"
  by (cases t) (auto simp: text_before_def split: if_splits)

lemma text_before_append: "c \<notin> set b \<Longrightarrow> text_before c (b @ c # t) = b \<and> text_after c (b @ c # t) = t"
  by (induction b) (auto simp: text_before_def text_after_def)

lemma read_port_result: "read_port h t = (host, port, True) \<Longrightarrow> host = h \<and> in_int32 port"
  by (auto simp: read_port_def dest: stoi_range split: option.splits)

lemma bracket_host:
  assumes "hd a = CHR ''[''" "a \<noteq> []" "\<forall>c \<in> set a. \<not> ends_authority c"
  shows "host_ok (map to_lower (text_before (CHR '']'') a @ '']''))"
proof -
  let ?b = "map to_lower (text_before (CHR '']'') a)"
  have b: "text_before (CHR '']'') a \<noteq> []" using assms(1,2) by (cases a) (simp_all add: text_before_def)
  then have hd: "hd ?b = CHR ''[''" "?b \<noteq> []"
    using hd_text_before[OF b] assms(1) by (simp_all add: hd_map)
  have "CHR '']'' \<notin> set ?b" using text_before_set by (subst mark_not_lower) auto
  moreover have "\<forall>c \<in> set ?b. \<not> ends_authority c" using assms(3) text_before_set by fastforce
  moreover have "\<not> ends_authority (CHR '']'')" by (simp add: ends_authority_def)
  moreover have "map to_lower ?b = ?b" by simp
  ultimately show ?thesis using hd unfolding host_ok_def map_append by (auto simp: hd_append)
qed

lemma plain_host:
  assumes "h \<noteq> []" "hd h \<noteq> CHR ''[''" "CHR '':'' \<notin> set h" "\<forall>c \<in> set h. \<not> ends_authority c"
  shows "host_ok (map to_lower h)"
proof -
  have "CHR '':'' \<notin> set (map to_lower h)" using assms(3) by (subst mark_not_lower) auto
  moreover have "\<forall>c \<in> set (map to_lower h). \<not> ends_authority c" using assms(4) by simp
  ultimately show ?thesis using assms(1,2) by (simp add: host_ok_def hd_map del: set_map)
qed

lemma parse_authority_host:
  assumes "parse_authority a = (host, port, True)" "host \<noteq> []" "a \<noteq> []" "\<forall>c \<in> set a. \<not> ends_authority c"
  shows "host_ok host \<and> in_int32 port"
proof -
  consider (bracket) "hd a = CHR ''[''" | (port) "hd a \<noteq> CHR ''[''" "CHR '':'' \<in> set a"
    | (plain) "hd a \<noteq> CHR ''[''" "CHR '':'' \<notin> set a" by blast
  then show ?thesis
  proof cases
    case bracket
    then show ?thesis using assms bracket_host[of a]
      by (auto simp: parse_authority_def Let_def in_int32_def dest: read_port_result split: if_splits)
  next
    case port
    let ?h = "text_before (CHR '':'') a"
    have r: "host = map to_lower ?h" "in_int32 port"
      using port assms(1) by (auto simp: parse_authority_def dest: read_port_result)
    then have "host_ok host"
      using port assms(2,4) hd_text_before[of "CHR '':''" a] text_before_set[of _ "CHR '':''" a]
      unfolding r(1) by (intro plain_host) auto
    then show ?thesis using r by simp
  next
    case plain
    then show ?thesis using assms plain_host[of a] by (auto simp: parse_authority_def in_int32_def)
  qed
qed

lemma parse_authority_plain: "host_ok h \<Longrightarrow> parse_authority h = (h, 0, True)"
proof (cases "hd h = CHR ''[''")
  case True
  assume h: "host_ok h"
  then obtain b where b: "h = b @ '']''" "CHR '']'' \<notin> set b" using True by (auto simp: host_ok_def)
  then show ?thesis
    using True h text_before_append[OF b(2), of "[]"] by (simp add: parse_authority_def host_ok_def Let_def)
qed (auto simp: parse_authority_def host_ok_def)

lemma parse_authority_port:
  assumes "host_ok h" "in_int32 p"
  shows "parse_authority (h @ '':'' @ to_string p) = (h, p, True)"
proof (cases "hd h = CHR ''[''")
  case True
  then obtain b where b: "h = b @ '']''" "CHR '']'' \<notin> set b" using assms by (auto simp: host_ok_def)
  moreover have "b \<noteq> []" using True b(1) by auto
  ultimately show ?thesis
    using True assms text_before_append[OF b(2), of "'':'' @ to_string p"]
    by (simp add: parse_authority_def host_ok_def Let_def read_port_def stoi_to_string hd_append)
next
  case False
  then have "CHR '':'' \<notin> set h" "h \<noteq> []" "map to_lower h = h" using assms(1) by (simp_all add: host_ok_def)
  then show ?thesis
    using False text_before_append[of "CHR '':''" h "to_string p"] assms(2)
    by (simp add: parse_authority_def read_port_def stoi_to_string)
qed

lemma without_userinfo_set: "c \<in> set (without_userinfo a) \<Longrightarrow> c \<in> set a"
proof -
  have "c \<in> set (tl t) \<Longrightarrow> c \<in> set t" for t :: string by (cases t) simp_all
  then show "c \<in> set (without_userinfo a) \<Longrightarrow> c \<in> set a"
    by (auto simp: without_userinfo_def text_after_def dest!: set_dropWhileD split: if_splits)
qed

lemma ParseUrl_valid:
  assumes "pu_valid (ParseUrl u)"
  obtains scheme where "pu_scheme (ParseUrl u) = scheme" "find_text ''://'' (scheme @ ''://'') = Some (length scheme)"
    "scheme \<noteq> []" "map to_lower scheme = scheme" "\<not> is_space (hd scheme)"
    "host_ok (pu_host (ParseUrl u))" "in_int32 (pu_port (ParseUrl u))"
proof -
  let ?t = "trim_space u"
  obtain n where n: "find_text ''://'' ?t = Some n" "n \<noteq> 0"
    using assms unfolding ParseUrl_def Let_def
    by (cases "find_text ''://'' ?t"; cases "the (find_text ''://'' ?t)") (simp_all add: ParsedUrl0_def)
  then have p: "ParseUrl u = parse_rest (map to_lower (take n ?t)) (drop (n + 3) ?t)"
    by (simp add: ParseUrl_def Let_def)
  define scheme where "scheme = map to_lower (take n ?t)"
  have len: "n + 3 \<le> length ?t" using find_text_length[OF n(1)] by simp
  have "take (n + 3) ?t = take n ?t @ ''://''" using find_text_take[OF n(1)] by (simp add: eval_nat_numeral)
  then have "map to_lower (take (n + 3) ?t) = scheme @ ''://''" by (simp add: scheme_def to_lower_def less_eq_char_def)
  moreover have "find_text ''://'' (map to_lower (take (n + 3) ?t)) = Some n"
    using find_text_prefix[OF n(1)] by (simp add: find_text_lower eval_nat_numeral)
  ultimately have f: "find_text ''://'' (scheme @ ''://'') = Some (length scheme)" using len by (simp add: scheme_def)
  have ne: "scheme \<noteq> []" "?t \<noteq> []" using n(2) len by (auto simp: scheme_def)
  then have "hd ?t = hd (dropWhile is_space u)"
    unfolding trim_space_def
    by (metis hd_append2 append_self_conv2 dropWhile_eq_Nil_conv rev_is_Nil_conv rev_append rev_rev_ident takeWhile_dropWhile_id)
  moreover have "dropWhile is_space u \<noteq> []" using ne(2) unfolding trim_space_def by (metis dropWhile.simps(1) rev.simps(1))
  ultimately have "\<not> is_space (hd ?t)" using hd_dropWhile by metis
  then have sp: "\<not> is_space (hd scheme)" using ne n(2) by (simp add: scheme_def hd_map)
  let ?rest = "drop (n + 3) ?t"
  define a where "a = without_userinfo (takeWhile (\<lambda>c. \<not> ends_authority c) ?rest)"
  obtain host port go where a': "parse_authority a = (host, port, go)" by (metis prod_cases3)
  have r: "a \<noteq> []" "go" "host \<noteq> []" "pu_scheme (ParseUrl u) = scheme" "pu_host (ParseUrl u) = host" "pu_port (ParseUrl u) = port"
    using assms a' unfolding p scheme_def[symmetric]
    by (auto simp: parse_rest_def Let_def a_def[symmetric] ParsedUrl0_def split: if_splits)
  have "\<forall>c \<in> set (takeWhile (\<lambda>c. \<not> ends_authority c) ?rest). \<not> ends_authority c"
    by (auto dest: set_takeWhileD)
  then have "\<forall>c \<in> set a. \<not> ends_authority c"
    unfolding a_def by (metis without_userinfo_set)
  then have "host_ok host \<and> in_int32 port" using parse_authority_host[of a host port] a' r by simp
  then show thesis using that[of scheme] r f ne sp by (simp add: scheme_def)
qed

section \<open>Redirects inside a site\<close>

lemma port_text_chars: "c \<in> set ('':'' @ to_string p) \<Longrightarrow> \<not> ends_authority c \<and> c \<noteq> CHR ''@''"
  using to_string_chars by (fastforce simp: ends_authority_def is_digit_def less_eq_char_def)

lemma host_port_parsed:
  assumes "host_ok (pu_host b)" "in_int32 (pu_port b)" "CHR ''@'' \<notin> set (pu_host b)"
  shows "(\<forall>c \<in> set (host_port b). \<not> ends_authority c) \<and> CHR ''@'' \<notin> set (host_port b) \<and> host_port b \<noteq> [] \<and>
    (\<exists>p. parse_authority (host_port b) = (pu_host b, p, True) \<and>
      (\<forall>u. pu_scheme b \<in> {''http'', ''https''} \<and> pu_scheme u = pu_scheme b \<and> pu_port u = p \<longrightarrow>
        EffectivePort u = EffectivePort b))"
proof -
  have h: "pu_host b \<noteq> []" "\<forall>c \<in> set (pu_host b). \<not> ends_authority c" using assms(1) by (simp_all add: host_ok_def)
  consider "host_port b = pu_host b" "\<not> 0 < pu_port b \<or> pu_scheme b = ''http'' \<and> pu_port b = 80 \<or>
      pu_scheme b = ''https'' \<and> pu_port b = 443 \<or> pu_scheme b \<notin> {''http'', ''https''}"
    | "host_port b = pu_host b @ '':'' @ to_string (pu_port b)"
    by (cases "host_port b = pu_host b") (auto simp: host_port_def EffectivePort_def split: if_splits)
  then show ?thesis
  proof cases
    case 1
    then show ?thesis using h assms parse_authority_plain[OF assms(1)] by (auto simp: EffectivePort_def)
  next
    case 2
    have "parse_authority (host_port b) = (pu_host b, pu_port b, True)"
      unfolding 2 by (rule parse_authority_port[OF assms(1,2)])
    moreover have "\<not> ends_authority c \<and> c \<noteq> CHR ''@''" if "c \<in> set (host_port b)" for c
      using that h(2) assms(3) port_text_chars[of c "pu_port b"] unfolding 2 set_append by blast
    moreover have "host_port b \<noteq> []" using h(1) unfolding 2 by simp
    moreover have "pu_scheme u = pu_scheme b \<Longrightarrow> pu_port u = pu_port b \<Longrightarrow> EffectivePort u = EffectivePort b" for u :: ParsedUrl
      by (simp add: EffectivePort_def)
    ultimately show ?thesis by blast
  qed
qed

lemma trim_space_last: "trim_space t = c # l \<Longrightarrow> rev (dropWhile is_space (rev l)) = l \<or> l = []"
proof -
  assume t: "trim_space t = c # l"
  then have "rev (c # l) = dropWhile is_space (rev (dropWhile is_space t))" by (metis rev_rev_ident trim_space_def)
  then have "l \<noteq> [] \<Longrightarrow> \<not> is_space (hd (rev l @ [c]))" by (metis hd_dropWhile rev.simps(2) snoc_eq_iff_butlast)
  then show ?thesis by (cases "rev l") auto
qed

text \<open>A location that names a path of the same site.\<close>

definition site_path :: "string \<Rightarrow> bool" where
  "site_path l = (starts_with l ''/'' \<and> \<not> starts_with l ''//'' \<and> find_text ''://'' l = None)"



text \<open>
  A host that merely begins like an address of the loopback network counts as this computer, so plain
  HTTP to it may carry credentials.
\<close>

lemma lookalike_loopback_allowed: "IsAllowedSensitiveUrl (ParseUrl ''http://127.example.com/'') = (True, [])"
  by code_simp

text \<open>A path whose query holds a URL is taken for an absolute location and not resolved.\<close>

lemma query_with_url_unresolved:
  "ResolveRedirectUrl ''https://omnistats.org/a'' ''/login?next=https://omnistats.org/b'' = ''/login?next=https://omnistats.org/b''"
  by code_simp

end
