(* ===== verification/Device_Identity.thy ===== *)
theory Device_Identity
  imports Text_Format
begin

text \<open>
  \<open>network/api/DeviceIdentity.cpp\<close>: the key of this device and the signed proofs that authenticate
  its requests. libsodium is outside the repository: its functions are the fields of \<open>sodium\<close>, random
  bytes are arguments. A byte vector is a string.
\<close>

record sodium =
  sd_bin2base64 :: "string \<Rightarrow> string"
  sd_base642bin :: "string \<Rightarrow> string option"
  sd_sha256 :: "string \<Rightarrow> string"
  sd_bin2hex :: "string \<Rightarrow> string"
  sd_seed_public :: "string \<Rightarrow> string"
  sd_sign_seed :: "string \<Rightarrow> string \<Rightarrow> string"

record DeviceKeyPair =
  kp_public :: string
  kp_secret :: string
  kp_id :: string

record DeviceProof =
  dv_timestamp :: int
  dv_nonce :: string
  dv_signature :: string
  dv_canonical :: string

text \<open>The fields of \<open>ConfigData\<close> (\<open>core/config/Config.hpp\<close>) that hold the account.\<close>

record AccountConfig =
  account_refresh_token :: string
  account_signed_in_name :: string
  account_device_public_id :: string
  account_device_key :: string
  custom_api_key :: string
  custom_api_enabled :: bool
  credentials_decryption_failed :: bool

definition AccountConfig0 :: AccountConfig where
  "AccountConfig0 =
     \<lparr>account_refresh_token = [], account_signed_in_name = [], account_device_public_id = [],
      account_device_key = [], custom_api_key = [], custom_api_enabled = True,
      credentials_decryption_failed = False\<rparr>"

section \<open>Keys\<close>

definition Encode64 :: "sodium \<Rightarrow> string \<Rightarrow> string" where
  "Encode64 sd bytes = (if bytes = [] then [] else sd_bin2base64 sd bytes)"

definition Decode64 :: "sodium \<Rightarrow> string \<Rightarrow> string option" where
  "Decode64 sd t = (if t = [] then None else sd_base642bin sd t)"

definition Sha256Hex :: "sodium \<Rightarrow> string \<Rightarrow> string" where
  "Sha256Hex sd t = sd_bin2hex sd (sd_sha256 sd t)"

definition DerivePublicIdForPublicKey :: "sodium \<Rightarrow> string \<Rightarrow> string" where
  "DerivePublicIdForPublicKey sd key =
     (case Decode64 sd key of
        None \<Rightarrow> []
      | Some raw \<Rightarrow> if length raw \<noteq> 32 then [] else Encode64 sd (sd_sha256 sd raw))"

definition DeriveKeyPairFromSeed :: "sodium \<Rightarrow> string \<Rightarrow> DeviceKeyPair" where
  "DeriveKeyPairFromSeed sd seed =
     (let public = Encode64 sd (sd_seed_public sd seed)
      in \<lparr>kp_public = public, kp_secret = Encode64 sd seed, kp_id = DerivePublicIdForPublicKey sd public\<rparr>)"

definition DeriveKeyPairFromSecret :: "sodium \<Rightarrow> string \<Rightarrow> DeviceKeyPair option" where
  "DeriveKeyPairFromSecret sd secret =
     (case Decode64 sd secret of
        None \<Rightarrow> None
      | Some raw \<Rightarrow>
          if length raw \<noteq> 32 \<and> length raw \<noteq> 64 then None
          else let pair = DeriveKeyPairFromSeed sd (take 32 raw) in if kp_id pair = [] then None else Some pair)"

text \<open>The key in the configuration, or a new one from 32 random bytes.\<close>

definition EnsureDeviceKey :: "sodium \<Rightarrow> string \<Rightarrow> AccountConfig \<Rightarrow> DeviceKeyPair option \<times> AccountConfig" where
  "EnsureDeviceKey sd seed conf =
     (case (if account_device_key conf = [] then None else DeriveKeyPairFromSecret sd (account_device_key conf)) of
        Some pair \<Rightarrow>
          (Some pair, if account_device_public_id conf \<noteq> kp_id pair
                      then conf\<lparr>account_device_public_id := kp_id pair\<rparr> else conf)
      | None \<Rightarrow>
          let pair = DeriveKeyPairFromSeed sd seed
          in if kp_id pair = [] then (None, conf)
             else (Some pair, conf\<lparr>account_device_key := kp_secret pair, account_device_public_id := kp_id pair\<rparr>))"

section \<open>Proofs\<close>

definition BuildProofCanonical :: "sodium \<Rightarrow> string \<Rightarrow> string \<Rightarrow> int \<Rightarrow> string \<Rightarrow> string \<Rightarrow> string" where
  "BuildProofCanonical sd operation publicId time nonce credential =
     ''OMNISTATS-DEVICE-PROOF-v1'' @ [CHR 0x0A] @ operation @ [CHR 0x0A] @ publicId @ [CHR 0x0A] @
     to_string time @ [CHR 0x0A] @ nonce @ [CHR 0x0A] @ Sha256Hex sd credential"

definition DeviceProof0 :: DeviceProof where
  "DeviceProof0 = \<lparr>dv_timestamp = 0, dv_nonce = [], dv_signature = [], dv_canonical = []\<rparr>"

definition SignProofDeterministic ::
  "sodium \<Rightarrow> string \<Rightarrow> string \<Rightarrow> string \<Rightarrow> int \<Rightarrow> string \<Rightarrow> string \<Rightarrow> DeviceProof" where
  "SignProofDeterministic sd secret operation publicId time nonce credential =
     (case Decode64 sd secret of
        None \<Rightarrow> DeviceProof0
      | Some raw \<Rightarrow>
          if length raw \<noteq> 32 \<and> length raw \<noteq> 64 then DeviceProof0
          else
            let canonical = BuildProofCanonical sd operation publicId time nonce credential
            in \<lparr>dv_timestamp = time, dv_nonce = nonce,
                dv_signature = Encode64 sd (sd_sign_seed sd (take 32 raw) canonical), dv_canonical = canonical\<rparr>)"

text \<open>The nonce is 32 random bytes.\<close>

definition CreateProof :: "sodium \<Rightarrow> string \<Rightarrow> string \<Rightarrow> string \<Rightarrow> string \<Rightarrow> string \<Rightarrow> int \<Rightarrow> DeviceProof" where
  "CreateProof sd random secret operation publicId credential time =
     SignProofDeterministic sd secret operation publicId time (Encode64 sd random) credential"

section \<open>What a proof signs\<close>

lemma to_string_inj: "to_string i = to_string j \<Longrightarrow> i = j"
proof -
  assume e: "to_string i = to_string j"
  have digits: "is_digit (hd (nat_text n))" for n
    using nat_text_value[of n] by (metis list.set_sel(1))
  have sign: "to_string k = CHR ''-'' # t \<longleftrightarrow> k < 0 \<and> t = nat_text (nat (- k))" for k t
    using digits[of "nat k"] digit_no_sign[of "CHR ''-''"] nat_text_value[of "nat k"]
    by (cases "nat_text (nat k)") (auto simp: to_string_def)
  have same: "nat_text m = nat_text n \<Longrightarrow> m = n" for m n
    using nat_text_value[of m] nat_text_value[of n] by (metis of_nat_eq_iff)
  show "i = j"
  proof (cases "i < 0")
    case True
    then have "to_string j = CHR ''-'' # nat_text (nat (- i))" using e by (simp add: to_string_def)
    then have "j < 0" "nat_text (nat (- i)) = nat_text (nat (- j))" unfolding sign by simp_all
    then show ?thesis using True same[of "nat (- i)" "nat (- j)"] by simp
  next
    case False
    then have "\<not> j < 0" using e sign[of i "nat_text (nat (- j))"] by (auto simp: to_string_def)
    then show ?thesis using False e same[of "nat i" "nat j"] by (simp add: to_string_def)
  qed
qed

lemma line_split: "c \<notin> set a \<Longrightarrow> c \<notin> set b \<Longrightarrow> a @ c # x = b @ c # y \<Longrightarrow> a = b \<and> x = y"
proof (induction a arbitrary: b)
  case Nil
  then show ?case by (cases b) auto
next
  case (Cons d a)
  then show ?case by (cases b) auto
qed

lemma to_string_one_line: "CHR 0x0A \<notin> set (to_string i)"
  using to_string_chars[of "CHR 0x0A" i] by (auto simp: is_digit_def less_eq_char_def)

section \<open>Properties\<close>

text \<open>
  C32: The text a device signs determines the operation, the device, the time, the nonce and the hash of
  the credential, so a signature for one request is none for another.
\<close>

theorem proof_text_unambiguous:
  assumes "BuildProofCanonical sd operation ident time nonce credential =
      BuildProofCanonical sd operation' ident' time' nonce' credential'"
    and "CHR 0x0A \<notin> set (operation @ ident @ nonce @ operation' @ ident' @ nonce')"
  shows "operation = operation' \<and> ident = ident' \<and> time = time' \<and> nonce = nonce' \<and>
     Sha256Hex sd credential = Sha256Hex sd credential'"
proof -
  have "operation = operation'" and r1: "ident @ CHR 0x0A # to_string time @ CHR 0x0A # nonce @ CHR 0x0A # Sha256Hex sd credential =
      ident' @ CHR 0x0A # to_string time' @ CHR 0x0A # nonce' @ CHR 0x0A # Sha256Hex sd credential'"
    using assms line_split[of "CHR 0x0A" operation operation'] by (auto simp: BuildProofCanonical_def)
  moreover have "ident = ident'" and r2: "to_string time @ CHR 0x0A # nonce @ CHR 0x0A # Sha256Hex sd credential =
      to_string time' @ CHR 0x0A # nonce' @ CHR 0x0A # Sha256Hex sd credential'"
    using line_split[OF _ _ r1] assms(2) by auto
  moreover have "to_string time = to_string time'" and r3: "nonce @ CHR 0x0A # Sha256Hex sd credential =
      nonce' @ CHR 0x0A # Sha256Hex sd credential'"
    using line_split[OF _ _ r2] to_string_one_line by auto
  moreover have "nonce = nonce' \<and> Sha256Hex sd credential = Sha256Hex sd credential'"
    using line_split[OF _ _ r3] assms(2) by auto
  ultimately show ?thesis using to_string_inj by blast
qed

definition sample_sodium :: sodium where
  "sample_sodium =
     \<lparr>sd_bin2base64 = (\<lambda>t. t), sd_base642bin = Some, sd_sha256 = (\<lambda>t. t), sd_bin2hex = (\<lambda>t. t),
      sd_seed_public = (\<lambda>t. t), sd_sign_seed = (\<lambda>key t. key @ t)\<rparr>"

theorem proof_text_unambiguous_witness:
  "BuildProofCanonical sample_sodium ''token'' ''id'' 7 ''n'' ''code'' \<noteq>
   BuildProofCanonical sample_sodium ''logout'' ''id'' 7 ''n'' ''code''"
  using proof_text_unambiguous[of sample_sodium "''token''" "''id''" 7 "''n''" "''code''"
      "''logout''" "''id''" 7 "''n''" "''code''"] by auto

text \<open>
  What the development relies on of libsodium: decoding reads back what was encoded, encoding never gives
  an empty text for some bytes, public keys have 32 bytes and a hash is not empty.
\<close>

definition sodium_ok :: "sodium \<Rightarrow> bool" where
  "sodium_ok sd \<longleftrightarrow>
     (\<forall>t. t \<noteq> [] \<longrightarrow> sd_base642bin sd (sd_bin2base64 sd t) = Some t \<and> sd_bin2base64 sd t \<noteq> []) \<and>
     (\<forall>t. length t = 32 \<longrightarrow> length (sd_seed_public sd t) = 32) \<and> (\<forall>t. sd_sha256 sd t \<noteq> [])"

lemma Encode64_Nil: "sodium_ok sd \<Longrightarrow> Encode64 sd t = [] \<longleftrightarrow> t = []"
  by (auto simp: Encode64_def sodium_ok_def)

lemma Decode64_Encode64: "sodium_ok sd \<Longrightarrow> t \<noteq> [] \<Longrightarrow> Decode64 sd (Encode64 sd t) = Some t"
  by (auto simp: Encode64_def Decode64_def sodium_ok_def)

lemma seed_pair_id: "sodium_ok sd \<Longrightarrow> length seed = 32 \<Longrightarrow> kp_id (DeriveKeyPairFromSeed sd seed) \<noteq> []"
proof -
  assume sd: "sodium_ok sd" and seed: "length seed = 32"
  have "length (sd_seed_public sd seed) = 32" "sd_sha256 sd (sd_seed_public sd seed) \<noteq> []"
    using sd seed by (auto simp: sodium_ok_def)
  moreover from this have "sd_seed_public sd seed \<noteq> []" by auto
  ultimately show ?thesis
    using Decode64_Encode64[OF sd] Encode64_Nil[OF sd]
    by (simp add: DeriveKeyPairFromSeed_def DerivePublicIdForPublicKey_def Let_def)
qed

lemma seed_pair_again:
  assumes sd: "sodium_ok sd" and seed: "length seed = 32"
  shows "DeriveKeyPairFromSecret sd (kp_secret (DeriveKeyPairFromSeed sd seed)) = Some (DeriveKeyPairFromSeed sd seed)"
proof -
  have "seed \<noteq> []" using seed by auto
  then have "Decode64 sd (kp_secret (DeriveKeyPairFromSeed sd seed)) = Some seed"
    using Decode64_Encode64[OF sd] by (simp add: DeriveKeyPairFromSeed_def Let_def)
  then show ?thesis using seed seed_pair_id[OF sd seed] by (simp add: DeriveKeyPairFromSecret_def Let_def)
qed

lemma secret_pair_id: "DeriveKeyPairFromSecret sd t = Some pair \<Longrightarrow> kp_id pair \<noteq> []"
  by (auto simp: DeriveKeyPairFromSecret_def Let_def split: option.splits if_splits)

text \<open>
  This device always has a key, and once it has one it keeps it: later calls give the same pair and
  change nothing, whatever is drawn at random, and the public identifier in the configuration is the key's.
\<close>

theorem device_key_is_kept:
  assumes "sodium_ok sd" and "length seed = 32"
  shows "\<exists>pair conf'. EnsureDeviceKey sd seed conf = (Some pair, conf') \<and> account_device_public_id conf' = kp_id pair \<and>
     EnsureDeviceKey sd seed' conf' = (Some pair, conf')"
proof (cases "if account_device_key conf = [] then None else DeriveKeyPairFromSecret sd (account_device_key conf)")
  case (Some pair)
  then show ?thesis by (auto simp: EnsureDeviceKey_def Let_def split: if_splits)
next
  case None
  let ?pair = "DeriveKeyPairFromSeed sd seed"
  have "seed \<noteq> []" using assms(2) by auto
  then have "kp_secret ?pair \<noteq> []" using Encode64_Nil[OF assms(1)] by (simp add: DeriveKeyPairFromSeed_def Let_def)
  then show ?thesis
    using None seed_pair_id[OF assms] seed_pair_again[OF assms] by (simp add: EnsureDeviceKey_def Let_def)
qed

lemma sample_sodium_ok: "sodium_ok (sample_sodium\<lparr>sd_sha256 := (\<lambda>t. ''h'')\<rparr>)"
  by (simp add: sodium_ok_def sample_sodium_def)

theorem device_key_is_kept_witness:
  "let sd = sample_sodium\<lparr>sd_sha256 := (\<lambda>t. ''h'')\<rparr>; conf = snd (EnsureDeviceKey sd (replicate 32 (CHR ''a'')) AccountConfig0)
   in account_device_public_id conf = ''h'' \<and> snd (EnsureDeviceKey sd (replicate 32 (CHR ''b'')) conf) = conf"
proof -
  let ?sd = "sample_sodium\<lparr>sd_sha256 := (\<lambda>t. ''h'')\<rparr>" and ?seed = "replicate 32 (CHR ''a'')"
  obtain pair conf where c: "EnsureDeviceKey ?sd ?seed AccountConfig0 = (Some pair, conf)"
    "account_device_public_id conf = kp_id pair" "EnsureDeviceKey ?sd (replicate 32 (CHR ''b'')) conf = (Some pair, conf)"
    using device_key_is_kept[OF sample_sodium_ok, of ?seed AccountConfig0 "replicate 32 (CHR ''b'')"] by auto
  have "kp_id (DeriveKeyPairFromSeed ?sd ?seed) = ''h''"
    by (simp add: DeriveKeyPairFromSeed_def DerivePublicIdForPublicKey_def Decode64_def Encode64_def sample_sodium_def Let_def)
  then have "kp_id pair = ''h''" using c(1) by (auto simp: EnsureDeviceKey_def AccountConfig0_def Let_def)
  then show ?thesis using c by (simp add: Let_def)
qed

end
