(* ===== verification/Token_Store.thy ===== *)
theory Token_Store
  imports Device_Identity Rating_Detail Http_Security
begin

text \<open>
  \<open>network/api/TokenStore.cpp\<close>: the tokens of the signed-in account, in memory and in the
  configuration, and their refresh. A function that takes the lock once is one definition; one that takes it
  several times, or waits for the network, is cut there, so that other threads can come in between.
  An answer of the network (\<open>network/omninet/OmniNet.cpp\<close>) is an argument.
\<close>

record Response =
  rs_transportError :: int
  rs_status :: int
  rs_body :: string
  rs_retryAfterSeconds :: int
  rs_updateRequired :: bool

text \<open>What \<open>Send\<close> makes of the transport's answer.\<close>

definition Send :: "Response \<Rightarrow> Response" where
  "Send r = (if rs_updateRequired r \<or> rs_status r = 426 then r\<lparr>rs_updateRequired := True\<rparr> else r)"

record Tokens =
  tk_refreshInFlight :: bool
  tk_lastRefreshSucceeded :: bool
  tk_authGeneration :: "64 word"
  tk_accessToken :: string
  tk_accessTokenExpiresAt :: int
  tk_displayName :: string
  tk_devicePublicId :: string

definition Tokens0 :: Tokens where
  "Tokens0 =
     \<lparr>tk_refreshInFlight = False, tk_lastRefreshSucceeded = False, tk_authGeneration = 0, tk_accessToken = [],
      tk_accessTokenExpiresAt = 0, tk_displayName = [], tk_devicePublicId = []\<rparr>"

section \<open>Answers\<close>

text \<open>\<open>value(key, default)\<close> of the JSON library, which throws (\<open>None\<close>) unless it is called on an object.\<close>

definition member_string :: "json \<Rightarrow> string \<Rightarrow> string option" where
  "member_string j key = (if is_object j then value_string j key [] else None)"

definition member_int :: "json \<Rightarrow> string \<Rightarrow> int \<Rightarrow> int option" where
  "member_int j key dflt = (if is_object j then value_int j key dflt else None)"

text \<open>The name of the account: its display name, else its address, else the one known before.\<close>

definition ExtractDisplayName :: "(string \<Rightarrow> string) \<Rightarrow> json \<Rightarrow> string \<Rightarrow> string" where
  "ExtractDisplayName trim j fallback =
     (let known = (if fallback = [] then ''OmniStats User'' else fallback)
      in case Child j ''account'' of
           Some (JObject fs) \<Rightarrow>
             (let field = (\<lambda>key. case map_of fs key of Some (JString s) \<Rightarrow> trim s | _ \<Rightarrow> [])
              in if field ''display_name'' \<noteq> [] then field ''display_name''
                 else if field ''email'' \<noteq> [] then field ''email'' else known)
         | _ \<Rightarrow> known)"

text \<open>The fields of a token answer: both tokens, the seconds they last and the name.\<close>

definition token_answer :: "json \<Rightarrow> string \<Rightarrow> (string \<times> string \<times> int \<times> string) option" where
  "token_answer j fallback =
     (case (member_string j ''access_token'', member_string j ''refresh_token'', member_int j ''expires_in'' 900) of
        (Some access, Some refresh, Some expiresIn) \<Rightarrow>
          if access = [] \<or> refresh = [] then None
          else Some (access, refresh, max 1 expiresIn, ExtractDisplayName trim_space j fallback)
      | _ \<Rightarrow> None)"

section \<open>The store\<close>

definition IsSignedIn :: "AccountConfig \<Rightarrow> bool" where
  "IsSignedIn conf = (account_refresh_token conf \<noteq> [])"

definition TokenStore_AccessToken :: "int \<Rightarrow> int \<Rightarrow> Tokens \<Rightarrow> string" where
  "TokenStore_AccessToken nowUnix clock tk =
     (let now = (if 0 < nowUnix then nowUnix else clock)
      in if tk_accessToken tk = [] then []
         else if 60 < tk_accessTokenExpiresAt tk - now then tk_accessToken tk else [])"

definition BumpAuthGeneration :: "Tokens \<Rightarrow> Tokens" where
  "BumpAuthGeneration tk = tk\<lparr>tk_authGeneration := tk_authGeneration tk + 1\<rparr>"

definition TokenStore_SyncFromConfig :: "AccountConfig \<Rightarrow> Tokens \<Rightarrow> Tokens" where
  "TokenStore_SyncFromConfig conf tk =
     (let tk = tk\<lparr>tk_displayName :=
            (if account_signed_in_name conf = [] then ''OmniStats User'' else account_signed_in_name conf),
            tk_devicePublicId := account_device_public_id conf\<rparr>
      in if account_refresh_token conf = [] then tk\<lparr>tk_accessToken := [], tk_accessTokenExpiresAt := 0\<rparr> else tk)"

definition TokenStore_new :: "AccountConfig \<Rightarrow> Tokens" where
  "TokenStore_new conf = TokenStore_SyncFromConfig conf Tokens0"

definition SetTokens_config :: "string \<Rightarrow> string \<Rightarrow> string \<Rightarrow> AccountConfig \<Rightarrow> AccountConfig" where
  "SetTokens_config refresh name ident conf =
     conf\<lparr>account_refresh_token := refresh, account_signed_in_name := name, account_device_public_id := ident,
          custom_api_key := [], custom_api_enabled := True\<rparr>"

definition SetTokens_memory :: "string \<Rightarrow> int \<Rightarrow> string \<Rightarrow> string \<Rightarrow> Tokens \<Rightarrow> Tokens" where
  "SetTokens_memory access expiresAt name ident tk =
     BumpAuthGeneration (tk\<lparr>tk_accessToken := access, tk_accessTokenExpiresAt := expiresAt, tk_displayName := name,
       tk_devicePublicId := ident\<rparr>)"

definition Clear_config :: "AccountConfig \<Rightarrow> AccountConfig" where
  "Clear_config conf = conf\<lparr>account_refresh_token := [], account_signed_in_name := [], custom_api_key := []\<rparr>"

definition Clear_memory :: "Tokens \<Rightarrow> Tokens" where
  "Clear_memory tk =
     BumpAuthGeneration (tk\<lparr>tk_accessToken := [], tk_accessTokenExpiresAt := 0, tk_displayName := []\<rparr>)"

section \<open>Refresh\<close>

text \<open>The locals of a refresh while its request is under way.\<close>

record RefreshRun =
  rf_generation :: "64 word"
  rf_token :: string
  rf_name :: string
  rf_publicId :: string

definition proof_json :: "DeviceProof \<Rightarrow> json" where
  "proof_json p =
     JObject [(''timestamp'', JInt (dv_timestamp p)), (''nonce'', JString (dv_nonce p)),
              (''signature'', JString (dv_signature p))]"

definition refresh_request :: "sodium \<Rightarrow> string \<Rightarrow> DeviceKeyPair \<Rightarrow> string \<Rightarrow> int \<Rightarrow> json" where
  "refresh_request sd random pair token now =
     JObject [(''refresh_token'', JString token), (''device_public_id'', JString (kp_id pair)),
       (''proof'', proof_json (CreateProof sd random (kp_secret pair) ''refresh'' (kp_id pair) token now))]"

definition refresh_finish :: "bool \<Rightarrow> Tokens \<Rightarrow> Tokens" where
  "refresh_finish ok tk = tk\<lparr>tk_lastRefreshSucceeded := ok, tk_refreshInFlight := False\<rparr>"

text \<open>
  Before the request: a refresh under way is waited for (\<open>Inl None\<close>); otherwise it is this one, which ends at
  once (\<open>Inl (Some False)\<close>) or sends its request.
\<close>

definition refresh_begin ::
  "sodium \<Rightarrow> string \<Rightarrow> string \<Rightarrow> int \<Rightarrow> AccountConfig \<times> Tokens \<Rightarrow>
   (bool option + RefreshRun \<times> json) \<times> AccountConfig \<times> Tokens" where
  "refresh_begin sd seed random now = (\<lambda>(conf, tk).
     if tk_refreshInFlight tk then (Inl None, conf, tk)
     else
       let tk = tk\<lparr>tk_refreshInFlight := True\<rparr>; token = account_refresh_token conf
       in if token = [] then (Inl (Some False), conf, refresh_finish False tk)
          else case EnsureDeviceKey sd seed conf of
            (None, conf') \<Rightarrow> (Inl (Some False), conf', refresh_finish False tk)
          | (Some pair, conf') \<Rightarrow>
              (Inr (\<lparr>rf_generation = tk_authGeneration tk, rf_token = token,
                     rf_name = account_signed_in_name conf, rf_publicId = kp_id pair\<rparr>,
                    refresh_request sd random pair token now), conf', tk))"

datatype RefreshAction = NoAction | OnRejected | RevokeRotated string string | OnSuccess

text \<open>What the answer does to the store, and the callback it ends in.\<close>

definition refresh_answer ::
  "(string \<Rightarrow> json option) \<Rightarrow> Response \<Rightarrow> int \<Rightarrow> RefreshRun \<Rightarrow> AccountConfig \<times> Tokens \<Rightarrow>
   RefreshAction \<times> AccountConfig \<times> Tokens" where
  "refresh_answer parse answer now run = (\<lambda>(conf, tk).
     let r = Send answer
     in if rs_updateRequired r then (NoAction, conf, tk)
        else if rs_transportError r \<noteq> 0 \<or> (500 \<le> rs_status r \<and> rs_status r \<le> 599) \<or> rs_status r = 429
        then (NoAction, conf, tk)
        else if rs_status r = 401 \<or> rs_status r = 403 then (OnRejected, conf, tk)
        else if rs_status r \<noteq> 200 then (NoAction, conf, tk)
        else case Option.bind (parse (rs_body r)) (\<lambda>j. token_answer j (rf_name run)) of
          None \<Rightarrow> (NoAction, conf, tk)
        | Some (access, refresh, expiresIn, name) \<Rightarrow>
            (if rf_generation run \<noteq> tk_authGeneration tk then (RevokeRotated (rf_token run) refresh, conf, tk)
             else (OnSuccess,
               conf\<lparr>account_refresh_token := refresh, account_signed_in_name := name,
                    account_device_public_id := rf_publicId run, custom_api_key := []\<rparr>,
               tk\<lparr>tk_accessToken := access, tk_accessTokenExpiresAt := now + expiresIn, tk_displayName := name\<rparr>)))"

end
