(* ===== verification/Device_Auth.thy ===== *)
theory Device_Auth
  imports Token_Store
begin

text \<open>
  \<open>network/api/DeviceAuthFlow.cpp\<close>: signing this device in. A code is requested, the user approves it in
  the browser, and the tokens are asked for until they come. \<open>StartAuthorization\<close> and \<open>PollTokenOnce\<close> are
  cut where they wait for the network: \<open>start_answer\<close> and \<open>poll_answer\<close> act on the state they find when the
  answer is there. What the clock, the random generator and the network return are arguments.
\<close>

datatype AccountAuthState = SignedOut | Migrating | AwaitingApproval | SignedIn | AuthError

record AuthFlow =
  af_state :: AccountAuthState
  af_deviceCode :: string
  af_userCode :: string
  af_verificationUri :: string
  af_expiresAtUnix :: int
  af_pollIntervalSeconds :: int
  af_errorMessage :: string
  af_pendingSignedOutToast :: string
  af_statusVersion :: "64 word"
  af_cancelRequested :: bool

definition AuthFlow0 :: AuthFlow where
  "AuthFlow0 =
     \<lparr>af_state = SignedOut, af_deviceCode = [], af_userCode = [], af_verificationUri = [],
      af_expiresAtUnix = 0, af_pollIntervalSeconds = 5, af_errorMessage = [],
      af_pendingSignedOutToast = [], af_statusVersion = 1, af_cancelRequested = False\<rparr>"

record AccountStatusSnapshot =
  as_state :: AccountAuthState
  as_displayName :: string
  as_devicePublicId :: string
  as_userCode :: string
  as_verificationUri :: string
  as_expiresAtUnix :: int
  as_pollIntervalSeconds :: int
  as_errorMessage :: string
  as_version :: "64 word"

record StartAuthResult =
  sa_ok :: bool
  sa_deviceCode :: string
  sa_userCode :: string
  sa_verificationUri :: string
  sa_expiresIn :: int
  sa_pollInterval :: int
  sa_errorCode :: string
  sa_errorMessage :: string

definition StartAuthResult0 :: StartAuthResult where
  "StartAuthResult0 =
     \<lparr>sa_ok = False, sa_deviceCode = [], sa_userCode = [], sa_verificationUri = [], sa_expiresIn = 0,
      sa_pollInterval = 5, sa_errorCode = [], sa_errorMessage = []\<rparr>"

datatype PollOutcome =
  PollPending | PollSlowDown | PollApproved | PollDenied | PollExpired | PollError | PollCancelled

record PollResult =
  po_outcome :: PollOutcome
  po_pollIntervalSeconds :: int
  po_displayName :: string
  po_errorCode :: string
  po_errorMessage :: string

definition PollResult0 :: PollResult where
  "PollResult0 =
     \<lparr>po_outcome = PollError, po_pollIntervalSeconds = 5, po_displayName = [], po_errorCode = [], po_errorMessage = []\<rparr>"

section \<open>Error bodies\<close>

record ParsedApiError =
  ae_code :: string
  ae_message :: string
  ae_retryAfterSeconds :: int

definition ParsedApiError0 :: ParsedApiError where
  "ParsedApiError0 = \<lparr>ae_code = [], ae_message = [], ae_retryAfterSeconds = 0\<rparr>"

definition api_error_of :: "json \<Rightarrow> ParsedApiError" where
  "api_error_of j =
     (let out = (case Child j ''error'' of
            Some (JObject fs) \<Rightarrow>
              \<lparr>ae_code = StringField (JObject fs) ''code'', ae_message = StringField (JObject fs) ''message'',
               ae_retryAfterSeconds =
                 (case map_of fs ''retry_after_seconds'' of Some (JInt i) \<Rightarrow> to_int32 i | _ \<Rightarrow> 0)\<rparr>
          | Some (JString s) \<Rightarrow> ParsedApiError0\<lparr>ae_code := s\<rparr>
          | _ \<Rightarrow> ParsedApiError0)
      in if ae_message out = [] then out\<lparr>ae_message := StringField j ''error_description''\<rparr> else out)"

definition ParseApiError :: "(string \<Rightarrow> json option) \<Rightarrow> string \<Rightarrow> ParsedApiError" where
  "ParseApiError parse body =
     (if body = [] then ParsedApiError0
      else case parse body of None \<Rightarrow> ParsedApiError0 | Some j \<Rightarrow> api_error_of j)"

section \<open>Addresses\<close>

definition SiteBaseUrl :: string where
  "SiteBaseUrl = ''https://omnistats.org''"

definition ManageDevicesUrl :: string where
  "ManageDevicesUrl = SiteBaseUrl @ ''/account/devices''"

definition ResolveVerificationUri :: "string \<Rightarrow> string" where
  "ResolveVerificationUri rawUri =
     (let uri = trim_space rawUri
      in if uri = [] then SiteBaseUrl @ ''/device''
         else if starts_with uri ''https://'' \<or> starts_with uri ''http://'' then
           (let parsed = ParseUrl uri
            in if pu_valid parsed \<and> pu_scheme parsed = ''https'' \<and> map to_lower (pu_host parsed) = ''omnistats.org''
               then uri else SiteBaseUrl @ ''/device'')
         else
           let uri = (if starts_with uri ''/device/device?'' then drop 7 uri else uri);
               uri = (if hd uri \<noteq> CHR ''/'' then CHR ''/'' # uri else uri)
           in SiteBaseUrl @ uri)"

text \<open>The URL that is handed to the shell, if any.\<close>

definition OpenUrl :: "string \<Rightarrow> string option" where
  "OpenUrl url =
     (let parsed = ParseUrl url
      in if \<not> pu_valid parsed \<or>
            pu_scheme parsed \<noteq> ''https'' \<and> \<not> (pu_scheme parsed = ''http'' \<and> IsLoopbackHost (pu_host parsed))
         then None else Some url)"

definition OpenVerificationBrowser :: "AuthFlow \<Rightarrow> string option" where
  "OpenVerificationBrowser f =
     OpenUrl (if af_verificationUri f = [] then SiteBaseUrl @ ''/device'' else af_verificationUri f)"

definition OpenManageDevicesBrowser :: "string option" where
  "OpenManageDevicesBrowser = OpenUrl ManageDevicesUrl"

section \<open>The state\<close>

definition SetState :: "AccountAuthState \<Rightarrow> string \<Rightarrow> AuthFlow \<Rightarrow> AuthFlow" where
  "SetState state message f =
     f\<lparr>af_state := state, af_errorMessage := message, af_statusVersion := af_statusVersion f + 1\<rparr>"

definition clear_codes :: "AuthFlow \<Rightarrow> AuthFlow" where
  "clear_codes f = f\<lparr>af_deviceCode := [], af_userCode := [], af_verificationUri := []\<rparr>"

text \<open>The two ways a sign-in fails: with all its codes forgotten, or only the device code.\<close>

definition fail_all :: "string \<Rightarrow> AuthFlow \<Rightarrow> AuthFlow" where
  "fail_all message f = SetState AuthError message (clear_codes f)"

definition fail_code :: "string \<Rightarrow> AuthFlow \<Rightarrow> AuthFlow" where
  "fail_code message f = SetState AuthError message (f\<lparr>af_deviceCode := []\<rparr>)"

definition Flow_CancelAuthorization :: "AuthFlow \<Rightarrow> AuthFlow" where
  "Flow_CancelAuthorization f = SetState SignedOut [] (clear_codes (f\<lparr>af_cancelRequested := True\<rparr>))"

definition Flow_MarkSignedOut :: "string \<Rightarrow> AuthFlow \<Rightarrow> AuthFlow" where
  "Flow_MarkSignedOut reason f =
     (let f = clear_codes (f\<lparr>af_cancelRequested := True\<rparr>)
      in if reason \<noteq> [] then SetState AuthError reason (f\<lparr>af_pendingSignedOutToast := reason\<rparr>)
         else SetState SignedOut [] f)"

definition ConsumeSignedOutNotification :: "AuthFlow \<Rightarrow> string option \<times> AuthFlow" where
  "ConsumeSignedOutNotification f =
     (if af_pendingSignedOutToast f = [] then (None, f)
      else (Some (af_pendingSignedOutToast f), f\<lparr>af_pendingSignedOutToast := []\<rparr>))"

definition Flow_GetStatus :: "AccountConfig \<Rightarrow> Tokens \<Rightarrow> AuthFlow \<Rightarrow> AccountStatusSnapshot" where
  "Flow_GetStatus conf tk f =
     \<lparr>as_state = (if af_state f = SignedOut \<and> IsSignedIn conf then SignedIn else af_state f),
      as_displayName = tk_displayName tk, as_devicePublicId = tk_devicePublicId tk, as_userCode = af_userCode f,
      as_verificationUri = af_verificationUri f, as_expiresAtUnix = af_expiresAtUnix f,
      as_pollIntervalSeconds = af_pollIntervalSeconds f, as_errorMessage = af_errorMessage f,
      as_version = af_statusVersion f\<rparr>"

section \<open>Starting\<close>

definition start_failed :: "string \<Rightarrow> string \<Rightarrow> AuthFlow \<Rightarrow> StartAuthResult \<times> AuthFlow" where
  "start_failed code message f =
     (StartAuthResult0\<lparr>sa_errorCode := code, sa_errorMessage := message\<rparr>, SetState AuthError message f)"

definition start_request :: "string \<Rightarrow> string \<Rightarrow> DeviceKeyPair \<Rightarrow> json" where
  "start_request deviceName appVersion pair =
     JObject [(''device_public_id'', JString (kp_id pair)), (''device_name'', JString deviceName),
       (''platform'', JString ''windows''), (''app_version'', JString appVersion),
       (''public_key'', JString (kp_public pair))]"

definition start_begin ::
  "sodium \<Rightarrow> string \<Rightarrow> string \<Rightarrow> string \<Rightarrow> AccountConfig \<times> AuthFlow \<Rightarrow>
   (StartAuthResult + json) \<times> AccountConfig \<times> AuthFlow" where
  "start_begin sd seed deviceName appVersion = (\<lambda>(conf, f).
     case EnsureDeviceKey sd seed conf of
       (None, conf') \<Rightarrow>
         (case start_failed ''key_error'' ''Unable to initialize the local device key.'' f of
            (result, f') \<Rightarrow> (Inl result, conf', f'))
     | (Some pair, conf') \<Rightarrow> (Inr (start_request deviceName appVersion pair), conf', f))"

text \<open>The fields of an answer in their order; a field of another type ends the reading.\<close>

definition read_start :: "json \<Rightarrow> StartAuthResult \<times> bool" where
  "read_start j =
     (case member_string j ''device_code'' of
        None \<Rightarrow> (StartAuthResult0, False)
      | Some device \<Rightarrow>
     (let r = StartAuthResult0\<lparr>sa_deviceCode := device\<rparr> in case member_string j ''user_code'' of
        None \<Rightarrow> (r, False)
      | Some user \<Rightarrow>
     (let r = r\<lparr>sa_userCode := user\<rparr> in case member_string j ''verification_uri'' of
        None \<Rightarrow> (r, False)
      | Some uri \<Rightarrow>
     (let r = r\<lparr>sa_verificationUri := ResolveVerificationUri uri\<rparr> in case member_int j ''expires_in'' 900 of
        None \<Rightarrow> (r, False)
      | Some expiresIn \<Rightarrow>
     (let r = r\<lparr>sa_expiresIn := max 1 expiresIn\<rparr> in case member_int j ''poll_interval'' 5 of
        None \<Rightarrow> (r, False)
      | Some interval \<Rightarrow> (r\<lparr>sa_pollInterval := max 1 interval\<rparr>, True))))))"

definition begin_awaiting :: "int \<Rightarrow> StartAuthResult \<Rightarrow> AuthFlow \<Rightarrow> AuthFlow" where
  "begin_awaiting now r f =
     SetState AwaitingApproval []
       (f\<lparr>af_cancelRequested := False, af_deviceCode := sa_deviceCode r, af_userCode := sa_userCode r,
          af_verificationUri := sa_verificationUri r, af_expiresAtUnix := now + sa_expiresIn r,
          af_pollIntervalSeconds := sa_pollInterval r\<rparr>)"

definition start_answer ::
  "(string \<Rightarrow> json option) \<Rightarrow> Response \<Rightarrow> int \<Rightarrow> AuthFlow \<Rightarrow> StartAuthResult \<times> AuthFlow" where
  "start_answer parse answer now f =
     (let r = Send answer; status = to_string (rs_status r)
      in if rs_updateRequired r
         then start_failed ''update_required'' ''This version of OmniStats is out of date. Update to sign in.'' f
         else if rs_transportError r \<noteq> 0
         then start_failed ''network_error'' ''Unable to reach OmniStats to start sign-in.'' f
         else if rs_status r \<noteq> 200 then
           (let e = ParseApiError parse (rs_body r)
            in start_failed (if ae_code e = [] then ''http_'' @ status else ae_code e)
                 (if ae_message e = [] then ''Unable to start sign-in (HTTP '' @ status @ '').'' else ae_message e) f)
         else
           let (result, ok) = (case parse (rs_body r) of None \<Rightarrow> (StartAuthResult0, False) | Some j \<Rightarrow> read_start j);
               invalid = (\<lambda>message. (result\<lparr>sa_errorCode := ''invalid_response'', sa_errorMessage := message\<rparr>,
                                     SetState AuthError message f))
           in if \<not> ok then invalid ''Received an invalid sign-in response from OmniStats.''
              else if sa_deviceCode result = [] \<or> sa_userCode result = []
              then invalid ''Received an incomplete sign-in response from OmniStats.''
              else (result\<lparr>sa_ok := True\<rparr>, begin_awaiting now result f))"

section \<open>Asking for the tokens\<close>

text \<open>The locals of a poll while its request is under way.\<close>

record PollRun =
  pr_deviceCode :: string
  pr_pollInterval :: int
  pr_now :: int
  pr_publicId :: string

definition poll_result :: "PollOutcome \<Rightarrow> int \<Rightarrow> string \<Rightarrow> string \<Rightarrow> PollResult" where
  "poll_result outcome interval code message =
     PollResult0\<lparr>po_outcome := outcome, po_pollIntervalSeconds := interval, po_errorCode := code,
       po_errorMessage := message\<rparr>"

definition poll_request :: "sodium \<Rightarrow> string \<Rightarrow> DeviceKeyPair \<Rightarrow> string \<Rightarrow> int \<Rightarrow> json" where
  "poll_request sd random pair code now =
     JObject [(''device_code'', JString code), (''device_public_id'', JString (kp_id pair)),
       (''proof'', proof_json (CreateProof sd random (kp_secret pair) ''token'' (kp_id pair) code now))]"

definition code_expired :: "string" where
  "code_expired = ''The sign-in code expired. Start a new sign-in request.''"

definition poll_begin ::
  "sodium \<Rightarrow> string \<Rightarrow> string \<Rightarrow> int \<Rightarrow> AccountConfig \<times> AuthFlow \<Rightarrow>
   (PollResult + PollRun \<times> json) \<times> AccountConfig \<times> AuthFlow" where
  "poll_begin sd seed random now = (\<lambda>(conf, f).
     let interval = af_pollIntervalSeconds f; code = af_deviceCode f
     in if af_cancelRequested f then (Inl (PollResult0\<lparr>po_outcome := PollCancelled\<rparr>), conf, f)
        else if code = [] then
          (Inl (poll_result PollError interval ''no_pending_authorization'' ''No device sign-in request is active.''), conf, f)
        else if 0 < af_expiresAtUnix f \<and> af_expiresAtUnix f \<le> now then
          (Inl (poll_result PollExpired interval ''expired'' code_expired), conf, fail_all code_expired f)
        else case EnsureDeviceKey sd seed conf of
          (None, conf') \<Rightarrow>
            (Inl (poll_result PollError interval ''key_error'' ''Unable to read the local device key.''), conf',
             fail_code ''Unable to read the local device key.'' f)
        | (Some pair, conf') \<Rightarrow>
            (Inr (\<lparr>pr_deviceCode = code, pr_pollInterval = interval, pr_now = now, pr_publicId = kp_id pair\<rparr>,
                  poll_request sd random pair code now), conf', f))"

text \<open>A grant: the tokens are stored, and the flow is signed in.\<close>

definition poll_approved ::
  "PollRun \<Rightarrow> string \<times> string \<times> int \<times> string \<Rightarrow> AccountConfig \<times> Tokens \<times> AuthFlow \<Rightarrow>
   PollResult \<times> AccountConfig \<times> Tokens \<times> AuthFlow" where
  "poll_approved run = (\<lambda>(access, refresh, expiresIn, name) (conf, tk, f).
     ((poll_result PollApproved (pr_pollInterval run) [] [])\<lparr>po_displayName := name\<rparr>,
      SetTokens_config refresh name (pr_publicId run) conf,
      SetTokens_memory access (pr_now run + expiresIn) name (pr_publicId run) tk,
      SetState SignedIn [] (clear_codes f)))"

text \<open>A refusal: what the error of the answer means.\<close>

definition poll_refused :: "PollRun \<Rightarrow> Response \<Rightarrow> ParsedApiError \<Rightarrow> AuthFlow \<Rightarrow> PollResult \<times> AuthFlow" where
  "poll_refused run r e f =
     (let interval = pr_pollInterval run;
          ended = (\<lambda>outcome message. let m = (if ae_message e = [] then message else ae_message e)
                    in (poll_result outcome interval (ae_code e) m, fail_all m f))
      in if ae_code e = ''authorization_pending'' \<or> rs_status r = 428
         then (poll_result PollPending interval (ae_code e) (ae_message e), f)
         else if ae_code e = ''slow_down'' \<or> rs_status r = 429 \<or> ae_code e = ''rate_limited'' then
           (let n = max (max (interval + 5) (ae_retryAfterSeconds e)) (rs_retryAfterSeconds r)
            in (poll_result PollSlowDown n (ae_code e) (ae_message e), f\<lparr>af_pollIntervalSeconds := n\<rparr>))
         else if ae_code e = ''access_denied'' \<or> ae_code e = ''denied''
         then ended PollDenied ''The device sign-in request was denied.''
         else if ae_code e = ''invalid_device_authorization'' \<or> ae_code e = ''expired'' \<or> ae_code e = ''expired_token''
         then ended PollExpired code_expired
         else ended PollError (''Device sign-in failed (HTTP '' @ to_string (rs_status r) @ '').''))"

definition poll_answer ::
  "(string \<Rightarrow> json option) \<Rightarrow> Response \<Rightarrow> PollRun \<Rightarrow> AccountConfig \<times> Tokens \<times> AuthFlow \<Rightarrow>
   PollResult \<times> AccountConfig \<times> Tokens \<times> AuthFlow" where
  "poll_answer parse answer run = (\<lambda>(conf, tk, f).
     let r = Send answer; interval = pr_pollInterval run;
         outdated = ''This version of OmniStats is out of date. Update to sign in.'';
         invalid = ''Received an invalid token response from OmniStats.''
     in if af_cancelRequested f then (poll_result PollCancelled interval [] [], conf, tk, f)
        else if rs_updateRequired r
        then (poll_result PollError interval ''update_required'' outdated, conf, tk, fail_code outdated f)
        else if rs_transportError r \<noteq> 0 \<or> (500 \<le> rs_status r \<and> rs_status r \<le> 599)
        then (poll_result PollPending interval [] [], conf, tk, f)
        else if rs_status r = 200 then
          (case Option.bind (parse (rs_body r)) (\<lambda>j. token_answer j []) of
             Some grant \<Rightarrow> poll_approved run grant (conf, tk, f)
           | None \<Rightarrow> (poll_result PollError interval ''invalid_response'' invalid, conf, tk, fail_code invalid f))
        else case poll_refused run r (ParseApiError parse (rs_body r)) f of (result, f') \<Rightarrow> (result, conf, tk, f'))"

text \<open>\<open>PollTokenOnce\<close> where no other thread comes in between.\<close>

record PollRound =
  rd_now :: int
  rd_slept :: bool
  rd_later :: int
  rd_seed :: string
  rd_random :: string
  rd_answer :: Response

definition PollTokenOnce ::
  "sodium \<Rightarrow> (string \<Rightarrow> json option) \<Rightarrow> int \<Rightarrow> PollRound \<Rightarrow> AccountConfig \<times> Tokens \<times> AuthFlow \<Rightarrow>
   PollResult \<times> AccountConfig \<times> Tokens \<times> AuthFlow" where
  "PollTokenOnce sd parse now e = (\<lambda>(conf, tk, f).
     case poll_begin sd (rd_seed e) (rd_random e) now (conf, f) of
       (Inl result, conf', f') \<Rightarrow> (result, conf', tk, f')
     | (Inr (run, request), conf', f') \<Rightarrow> poll_answer parse (rd_answer e) run (conf', tk, f'))"

text \<open>
  The loop: round \<open>n\<close> reads the clock (\<open>rd_now\<close>), sleeps unless it is interrupted, and asks with the
  clock read again (\<open>rd_later\<close>). It may ask for ever; then there is no result.
\<close>

definition goes_on :: "PollOutcome \<Rightarrow> bool" where
  "goes_on x = (x = PollPending \<or> x = PollSlowDown)"

partial_function (option) PollToken ::
  "sodium \<Rightarrow> (string \<Rightarrow> json option) \<Rightarrow> (nat \<Rightarrow> PollRound) \<Rightarrow> nat \<Rightarrow> AccountConfig \<times> Tokens \<times> AuthFlow \<Rightarrow>
   (PollResult \<times> AccountConfig \<times> Tokens \<times> AuthFlow) option" where
  "PollToken sd parse env n s =
     (let e = env n; f = snd (snd s)
      in if 0 < af_expiresAtUnix f \<and> af_expiresAtUnix f \<le> rd_now e
         then Some (PollTokenOnce sd parse (rd_later e) e s)
         else if \<not> rd_slept e then Some (PollResult0\<lparr>po_outcome := PollCancelled\<rparr>, s)
         else
           let (result, s') = PollTokenOnce sd parse (rd_later e) e s
           in if goes_on (po_outcome result) then PollToken sd parse env (Suc n) s' else Some (result, s'))"

section \<open>The site\<close>

definition our_site :: "string \<Rightarrow> bool" where
  "our_site u =
     (pu_valid (ParseUrl u) \<and> pu_scheme (ParseUrl u) = ''https'' \<and> map to_lower (pu_host (ParseUrl u)) = ''omnistats.org'')"

lemma site_path_ours: "our_site (SiteBaseUrl @ ''/'' @ t)"
proof -
  have a: "parse_authority ''omnistats.org'' = (''omnistats.org'', 0, True)" by code_simp
  have "find_text ''://'' (''https'' @ ''://'') = Some (length ''https'')" "map to_lower ''https'' = ''https''" by code_simp+
  moreover have "\<not> is_space (hd ''https'')" by (simp add: is_space_def less_eq_char_def)
  moreover have "\<forall>c \<in> set ''omnistats.org''. \<not> ends_authority c" by (simp add: ends_authority_def)
  ultimately have "ParseUrl (''https'' @ ''://'' @ ''omnistats.org'' @ ''/'' @ t) =
      (let pq = CHR ''/'' # rev (dropWhile is_space (rev t))
       in \<lparr>pu_scheme = ''https'', pu_host = ''omnistats.org'', pu_port = 0, pu_path = path_of pq,
           pu_query = query_of pq, pu_valid = True\<rparr>)"
    using a by (intro ParseUrl_built) simp_all
  moreover have "map to_lower ''omnistats.org'' = ''omnistats.org''" by code_simp
  ultimately show ?thesis by (simp add: our_site_def SiteBaseUrl_def Let_def)
qed

lemma device_page_ours: "our_site (SiteBaseUrl @ ''/device'')"
  using site_path_ours[of "''device''"] by simp

lemma ResolveVerificationUri_ours: "our_site (ResolveVerificationUri raw)"
proof -
  define uri where "uri = trim_space raw"
  consider (none) "uri = []" | (absolute) "starts_with uri ''https://'' \<or> starts_with uri ''http://''" "uri \<noteq> []"
    | (path) "\<not> (starts_with uri ''https://'' \<or> starts_with uri ''http://'')" "uri \<noteq> []" by blast
  then show ?thesis
  proof cases
    case none
    then show ?thesis using device_page_ours by (simp add: ResolveVerificationUri_def uri_def[symmetric] Let_def)
  next
    case absolute
    then show ?thesis
      using device_page_ours
      by (auto simp: ResolveVerificationUri_def uri_def[symmetric] Let_def our_site_def)
  next
    case path
    have slash: "our_site (SiteBaseUrl @ (if hd u \<noteq> CHR ''/'' then CHR ''/'' # u else u))" if "u \<noteq> []" for u
      using that site_path_ours[of u] site_path_ours[of "tl u"] by (cases u) auto
    have "length uri > 7" if "starts_with uri ''/device/device?''" using starts_with_length[OF that] by simp
    then have "(if starts_with uri ''/device/device?'' then drop 7 uri else uri) \<noteq> []" using path by auto
    from slash[OF this] show ?thesis
      using path by (simp add: ResolveVerificationUri_def uri_def[symmetric] Let_def)
  qed
qed

lemma our_site_opened: "our_site u \<Longrightarrow> OpenUrl u = Some u"
  by (simp add: our_site_def OpenUrl_def)

section \<open>The invariant of a sign-in\<close>

text \<open>
  While the approval is awaited there are codes, nothing asked to cancel; the interval is positive, and the
  address for the browser is one of the site.
\<close>

definition flow_ok :: "AuthFlow \<Rightarrow> bool" where
  "flow_ok f \<longleftrightarrow>
     (af_state f = AwaitingApproval \<longrightarrow>
        af_deviceCode f \<noteq> [] \<and> af_userCode f \<noteq> [] \<and> \<not> af_cancelRequested f) \<and>
     1 \<le> af_pollIntervalSeconds f \<and> (af_verificationUri f = [] \<or> our_site (af_verificationUri f))"

lemma flow_ok_init: "flow_ok AuthFlow0"
  by (simp add: flow_ok_def AuthFlow0_def)

lemma flow_ok_SetState: "flow_ok f \<Longrightarrow> state \<noteq> AwaitingApproval \<Longrightarrow> flow_ok (SetState state message f)"
  by (simp add: flow_ok_def SetState_def)

lemma flow_ok_ops:
  assumes "flow_ok f"
  shows "flow_ok (fail_all m f)" "flow_ok (fail_code m f)" "flow_ok (Flow_CancelAuthorization f)"
    "flow_ok (Flow_MarkSignedOut m f)" "flow_ok (snd (ConsumeSignedOutNotification f))"
    "flow_ok (SetState SignedIn [] (clear_codes f))"
  using assms
  by (simp_all add: flow_ok_def fail_all_def fail_code_def SetState_def clear_codes_def
      Flow_CancelAuthorization_def Flow_MarkSignedOut_def ConsumeSignedOutNotification_def Let_def)

lemma read_start_fields:
  "read_start j = (r, True) \<Longrightarrow> our_site (sa_verificationUri r) \<and> 1 \<le> sa_pollInterval r \<and> 1 \<le> sa_expiresIn r"
  by (auto simp: read_start_def Let_def StartAuthResult0_def ResolveVerificationUri_ours split: option.splits)

lemma flow_ok_start_begin: "flow_ok f \<Longrightarrow> flow_ok (snd (snd (start_begin sd seed name version (conf, f))))"
  by (simp add: start_begin_def start_failed_def flow_ok_SetState split: prod.splits option.splits)

lemma start_answer_cases:
  obtains (failed) result message where "start_answer parse answer now f = (result, SetState AuthError message f)" "\<not> sa_ok result"
  | (awaiting) j r where "start_answer parse answer now f = (r\<lparr>sa_ok := True\<rparr>, begin_awaiting now r f)"
      "read_start j = (r, True)" "sa_deviceCode r \<noteq> []" "sa_userCode r \<noteq> []"
proof (cases "rs_updateRequired (Send answer) \<or> rs_transportError (Send answer) \<noteq> 0 \<or> rs_status (Send answer) \<noteq> 200")
  case True
  then obtain c m where "start_answer parse answer now f = start_failed c m f"
    unfolding start_answer_def Let_def by (metis (no_types, lifting))
  then show thesis
    by (intro failed[of "fst (start_failed c m f)" m]) (simp_all add: start_failed_def StartAuthResult0_def)
next
  case False
  obtain r good where rj: "(case parse (rs_body (Send answer)) of None \<Rightarrow> (StartAuthResult0, False) | Some j \<Rightarrow> read_start j) = (r, good)"
    by fastforce
  have "\<not> sa_ok r" using rj by (auto simp: StartAuthResult0_def read_start_def Let_def split: option.splits)
  show thesis
  proof (cases "good \<and> sa_deviceCode r \<noteq> [] \<and> sa_userCode r \<noteq> []")
    case True
    then obtain j where "read_start j = (r, True)" using rj by (auto split: option.splits)
    then show thesis using True False rj by (intro awaiting[of r j]) (simp_all add: start_answer_def Let_def)
  next
    case bad: False
    define m where "m = (if good then ''Received an incomplete sign-in response from OmniStats.''
      else ''Received an invalid sign-in response from OmniStats.'')"
    have "start_answer parse answer now f =
        (r\<lparr>sa_errorCode := ''invalid_response'', sa_errorMessage := m\<rparr>, SetState AuthError m f)"
      using bad False rj unfolding start_answer_def Let_def m_def by (cases good) simp_all
    then show thesis by (rule failed) (simp add: \<open>\<not> sa_ok r\<close>)
  qed
qed

lemma flow_ok_start_answer: "flow_ok f \<Longrightarrow> flow_ok (snd (start_answer parse answer now f))"
proof (cases rule: start_answer_cases[of parse answer now f])
  case (awaiting j r)
  then show ?thesis using read_start_fields[OF awaiting(2)] by (simp add: flow_ok_def begin_awaiting_def SetState_def)
qed (simp add: flow_ok_SetState)

lemma flow_ok_poll_begin: "flow_ok f \<Longrightarrow> flow_ok (snd (snd (poll_begin sd seed random now (conf, f))))"
  by (simp add: poll_begin_def Let_def flow_ok_ops split: prod.splits option.splits)

lemma poll_begin_run:
  "flow_ok f \<Longrightarrow> poll_begin sd seed random now (conf, f) = (Inr (run, request), conf', f') \<Longrightarrow> 1 \<le> pr_pollInterval run"
  by (auto simp: poll_begin_def Let_def flow_ok_def split: if_splits prod.splits option.splits)

lemma flow_ok_poll_refused:
  assumes "flow_ok f" and "1 \<le> pr_pollInterval run"
  shows "flow_ok (snd (poll_refused run r e f))"
proof -
  have "flow_ok (f\<lparr>af_pollIntervalSeconds := n\<rparr>)" if "1 \<le> n" for n
    using assms(1) that by (simp add: flow_ok_def)
  then show ?thesis using assms flow_ok_ops(1)[OF assms(1)] by (simp add: poll_refused_def Let_def)
qed

lemma flow_ok_poll_answer:
  assumes "flow_ok f" and "1 \<le> pr_pollInterval run"
  shows "flow_ok (snd (snd (snd (poll_answer parse answer run (conf, tk, f)))))"
proof -
  have "flow_ok (snd (snd (snd (poll_approved run grant (conf, tk, f)))))" for grant
    using flow_ok_ops(6)[OF assms(1)] by (cases grant) (simp add: poll_approved_def)
  then show ?thesis
    using assms flow_ok_ops(1,2)[OF assms(1)] flow_ok_poll_refused[OF assms, of "Send answer"]
    by (simp add: poll_answer_def Let_def case_prod_unfold split: option.split)
qed

section \<open>The end of a sign-in\<close>

lemma poll_refused_goes_on:
  "goes_on (po_outcome (fst (poll_refused run r e f))) \<Longrightarrow>
   af_expiresAtUnix (snd (poll_refused run r e f)) = af_expiresAtUnix f"
  by (auto simp: poll_refused_def Let_def goes_on_def poll_result_def PollResult0_def)

lemma poll_answer_goes_on:
  "goes_on (po_outcome (fst (poll_answer parse answer run (conf, tk, f)))) \<Longrightarrow>
   af_expiresAtUnix (snd (snd (snd (poll_answer parse answer run (conf, tk, f))))) = af_expiresAtUnix f"
  using poll_refused_goes_on[of run "Send answer" _ f]
  by (auto simp: poll_answer_def Let_def case_prod_unfold poll_approved_def goes_on_def poll_result_def PollResult0_def
      split: option.splits if_splits)

lemma poll_begin_ends:
  "poll_begin sd seed random now (conf, f) = (Inl result, conf', f') \<Longrightarrow> \<not> goes_on (po_outcome result)"
  by (auto simp: poll_begin_def Let_def goes_on_def poll_result_def PollResult0_def split: if_splits option.splits prod.splits)

lemma poll_begin_asks:
  "poll_begin sd seed random now (conf, f) = (Inr x, conf', f') \<Longrightarrow>
   f' = f \<and> \<not> (0 < af_expiresAtUnix f \<and> af_expiresAtUnix f \<le> now)"
  by (auto simp: poll_begin_def Let_def split: if_splits option.splits prod.splits)

lemma PollTokenOnce_expired:
  "0 < af_expiresAtUnix f \<Longrightarrow> af_expiresAtUnix f \<le> now \<Longrightarrow>
   \<not> goes_on (po_outcome (fst (PollTokenOnce sd parse now e (conf, tk, f))))"
proof -
  assume e: "0 < af_expiresAtUnix f" "af_expiresAtUnix f \<le> now"
  obtain x conf' f' where b: "poll_begin sd (rd_seed e) (rd_random e) now (conf, f) = (x, conf', f')" by (metis prod_cases3)
  then obtain r where "x = Inl r"
    using e poll_begin_asks[of sd "rd_seed e" "rd_random e" now conf f _ conf' f'] by (metis sumE)
  then show ?thesis using b poll_begin_ends[of sd "rd_seed e" "rd_random e" now conf f r] by (simp add: PollTokenOnce_def)
qed

lemma PollTokenOnce_goes_on:
  assumes "PollTokenOnce sd parse now e (conf, tk, f) = (result, conf', tk', f')" and "goes_on (po_outcome result)"
  shows "af_expiresAtUnix f' = af_expiresAtUnix f"
proof (cases "poll_begin sd (rd_seed e) (rd_random e) now (conf, f)")
  case (fields x conf1 f1)
  show ?thesis
  proof (cases x)
    case (Inl r)
    then show ?thesis using assms fields poll_begin_ends by (auto simp: PollTokenOnce_def)
  next
    case (Inr y)
    then show ?thesis
      using assms fields poll_begin_asks[of sd _ _ now conf f y conf1 f1] poll_answer_goes_on[of parse "rd_answer e" "fst y" conf1 tk f1]
      by (cases y) (auto simp: PollTokenOnce_def)
  qed
qed

lemma PollToken_ends:
  assumes "0 < af_expiresAtUnix f" and "af_expiresAtUnix f \<le> rd_now (env (n + k))"
    and "\<And>i. rd_now (env i) \<le> rd_later (env i)"
  shows "\<exists>result s'. PollToken sd parse env n (conf, tk, f) = Some (result, s') \<and> \<not> goes_on (po_outcome result)"
  using assms(1,2)
proof (induction k arbitrary: n conf tk f)
  case 0
  then have "af_expiresAtUnix f \<le> rd_later (env n)" using assms(3)[of n] by simp
  from PollTokenOnce_expired[OF 0(1) this, of sd parse "env n" conf tk] show ?case
    using 0 by (simp add: PollToken.simps[of sd parse env n] Let_def) (metis prod.collapse)
next
  case (Suc k)
  show ?case
  proof (cases "af_expiresAtUnix f \<le> rd_now (env n)")
    case True
    then have "af_expiresAtUnix f \<le> rd_later (env n)" using assms(3)[of n] by simp
    from PollTokenOnce_expired[OF Suc(2) this, of sd parse "env n" conf tk] show ?thesis
      using True Suc by (simp add: PollToken.simps[of sd parse env n] Let_def) (metis prod.collapse)
  next
    case False
    obtain result conf' tk' f' where r: "PollTokenOnce sd parse (rd_later (env n)) (env n) (conf, tk, f) = (result, conf', tk', f')"
      by (metis prod_cases4)
    show ?thesis
    proof (cases "rd_slept (env n) \<and> goes_on (po_outcome result)")
      case True
      then have "af_expiresAtUnix f' = af_expiresAtUnix f" using PollTokenOnce_goes_on[OF r] by simp
      then have "\<exists>result s'. PollToken sd parse env (Suc n) (conf', tk', f') = Some (result, s') \<and> \<not> goes_on (po_outcome result)"
        using Suc by simp
      then show ?thesis using True False r by (simp add: PollToken.simps[of sd parse env n] Let_def)
    next
      case stop: False
      then show ?thesis using False r
        by (auto simp: PollToken.simps[of sd parse env n] Let_def goes_on_def PollResult0_def)
    qed
  qed
qed

section \<open>Properties\<close>


text \<open>
  C29: Asking for the tokens ends: once the clock has passed the time at which the code expires, the loop has
  returned, with an answer that is neither pending nor a request to slow down.
\<close>

theorem sign_in_ends:
  assumes "0 < af_expiresAtUnix f" and "af_expiresAtUnix f \<le> rd_now (env k)"
    and "\<forall>i. rd_now (env i) \<le> rd_later (env i)"
  shows "\<exists>result s'. PollToken sd parse env 0 (conf, tk, f) = Some (result, s') \<and>
     po_outcome result \<notin> {PollPending, PollSlowDown}"
  using PollToken_ends[of f env 0 k sd parse conf tk] assms by (simp add: goes_on_def)

definition silent_answer :: Response where
  "silent_answer = \<lparr>rs_transportError = 7, rs_status = 0, rs_body = [], rs_retryAfterSeconds = 0, rs_updateRequired = False\<rparr>"

definition silent_round :: "nat \<Rightarrow> PollRound" where
  "silent_round n =
     \<lparr>rd_now = 1000 + 5 * int n, rd_slept = True, rd_later = 1000 + 5 * int n, rd_seed = [], rd_random = [],
      rd_answer = silent_answer\<rparr>"

theorem sign_in_ends_witness:
  "\<exists>result s'. PollToken sample_sodium (\<lambda>t. None) silent_round 0
       (AccountConfig0, Tokens0, AuthFlow0\<lparr>af_state := AwaitingApproval, af_deviceCode := ''d'', af_expiresAtUnix := 1900\<rparr>) =
     Some (result, s') \<and> po_outcome result \<notin> {PollPending, PollSlowDown}"
  by (rule sign_in_ends[of _ silent_round 200]) (simp_all add: silent_round_def)

end
