(* ===== verification/Account_Client.thy ===== *)
theory Account_Client
  imports Device_Auth
begin

text \<open>
  \<open>network/api/AccountClient.cpp\<close>: the account of the user, over the token store and the sign-in. The
  interface calls its operations, one worker thread takes jobs from a queue, and any thread may refresh the
  tokens. \<open>account_step\<close> is one uninterrupted section of a thread: an operation of the interface, or what
  a thread does between two waits for the network, the clock or the queue. The threads' locals that live
  across a wait are part of the state (\<open>WorkerRun\<close>, \<open>RefreshRun\<close>).
\<close>

datatype WorkerCommand = StartSignIn | ExchangeAPIKey | LogoutJob

record WorkerJob =
  wj_command :: WorkerCommand
  wj_openBrowser :: bool
  wj_refreshToken :: string
  wj_authGeneration :: "64 word"

record ExchangeRun =
  xr_generation :: "64 word"
  xr_now :: int
  xr_publicId :: string

text \<open>
  Where the worker is: waiting for a job, for the answer to a start (with the browser to open), asleep between
  two polls, or waiting for the answer to a poll (the last one, or one of the loop), an exchange or a logout.
\<close>

datatype WorkerRun =
  Idle | Starting bool | Sleeping | Polling bool PollRun | Exchanging ExchangeRun | LoggingOut

record Account =
  ac_conf :: AccountConfig
  ac_tokens :: Tokens
  ac_flow :: AuthFlow
  ac_jobs :: "WorkerJob list"
  ac_keyExchangeAttempted :: bool
  ac_workerStarted :: bool
  ac_stopWorker :: bool
  ac_worker :: WorkerRun
  ac_refresh :: "RefreshRun option"

text \<open>What a section reads from outside: random bytes, the clock at its two readings, whether a sleep ended.\<close>

record Env =
  ev_seed :: string
  ev_random :: string
  ev_now :: int
  ev_later :: int
  ev_slept :: bool

text \<open>What the outside sees: requests to the service and pages opened in the browser.\<close>

datatype Op = AuthStart | AuthToken | AuthExchangeKey | AuthRefresh | AuthLogout

datatype AccountEffect = Sent Op json | Opened string

section \<open>Operations of the interface\<close>

definition ac_clear :: "Account \<Rightarrow> Account" where
  "ac_clear a = a\<lparr>ac_conf := Clear_config (ac_conf a), ac_tokens := Clear_memory (ac_tokens a)\<rparr>"

definition on_flow :: "(AuthFlow \<Rightarrow> AuthFlow) \<Rightarrow> Account \<Rightarrow> Account" where
  "on_flow f a = a\<lparr>ac_flow := f (ac_flow a)\<rparr>"

definition EnsureWorkerRunning :: "Account \<Rightarrow> Account" where
  "EnsureWorkerRunning a =
     (if ac_workerStarted a then a
      else a\<lparr>ac_stopWorker := False, ac_workerStarted := True, ac_worker := Idle\<rparr>)"

definition push_job :: "WorkerJob \<Rightarrow> Account \<Rightarrow> Account" where
  "push_job job a = a\<lparr>ac_jobs := ac_jobs a @ [job]\<rparr>"

definition CancelAuthorization :: "Account \<Rightarrow> Account" where
  "CancelAuthorization = on_flow Flow_CancelAuthorization"

definition MarkSignedOut :: "string \<Rightarrow> Account \<Rightarrow> Account" where
  "MarkSignedOut reason a = on_flow (Flow_MarkSignedOut reason) (ac_clear a)"

definition BeginSignInAsync :: "bool \<Rightarrow> Account \<Rightarrow> Account" where
  "BeginSignInAsync openBrowser a =
     (let a = CancelAuthorization a; a = a\<lparr>ac_tokens := BumpAuthGeneration (ac_tokens a)\<rparr>;
          a = (EnsureWorkerRunning a)\<lparr>ac_jobs := []\<rparr>
      in push_job \<lparr>wj_command = StartSignIn, wj_openBrowser = openBrowser, wj_refreshToken = [],
           wj_authGeneration = tk_authGeneration (ac_tokens a)\<rparr> a)"

definition signed_out :: "Account \<Rightarrow> Account" where
  "signed_out a = on_flow (SetState SignedOut []) (ac_clear (CancelAuthorization a))"

definition logout_job :: "string \<Rightarrow> Account \<Rightarrow> WorkerJob" where
  "logout_job token a =
     \<lparr>wj_command = LogoutJob, wj_openBrowser = True, wj_refreshToken = token,
      wj_authGeneration = tk_authGeneration (ac_tokens a)\<rparr>"

definition LogoutAsync :: "Account \<Rightarrow> Account" where
  "LogoutAsync a =
     (let token = account_refresh_token (ac_conf a); a = signed_out a
      in if token = [] then a
         else let a = EnsureWorkerRunning a in push_job (logout_job token a) a)"

definition account_status :: "Account \<Rightarrow> AccountAuthState" where
  "account_status a = as_state (Flow_GetStatus (ac_conf a) (ac_tokens a) (ac_flow a))"

definition Account_IsSignedIn :: "Account \<Rightarrow> bool" where
  "Account_IsSignedIn a = (IsSignedIn (ac_conf a) \<and> account_status a \<noteq> AwaitingApproval)"

text \<open>An API key next to credentials is forgotten, and the token store follows the configuration.\<close>

definition sync_credentials :: "Account \<Rightarrow> Account" where
  "sync_credentials a =
     (let conf = ac_conf a;
          conf = (if account_refresh_token conf \<noteq> [] \<and> custom_api_key conf \<noteq> [] then conf\<lparr>custom_api_key := []\<rparr> else conf)
      in a\<lparr>ac_conf := conf, ac_tokens := TokenStore_SyncFromConfig conf (ac_tokens a)\<rparr>)"

definition sync_decision :: "AccountConfig \<Rightarrow> Account \<Rightarrow> Account" where
  "sync_decision conf a =
     (if account_refresh_token conf = [] \<and> custom_api_key conf \<noteq> [] \<and> \<not> ac_keyExchangeAttempted a \<and>
         account_status a \<noteq> AwaitingApproval
      then
        let generation = tk_authGeneration (ac_tokens a);
            a = EnsureWorkerRunning (on_flow (SetState Migrating []) (a\<lparr>ac_keyExchangeAttempted := True\<rparr>))
        in push_job \<lparr>wj_command = ExchangeAPIKey, wj_openBrowser = True, wj_refreshToken = [],
             wj_authGeneration = generation\<rparr> a
      else if account_refresh_token conf \<noteq> [] then
        if account_status a \<noteq> AwaitingApproval then on_flow (SetState SignedIn []) a else a
      else if credentials_decryption_failed conf \<and> account_device_public_id conf \<noteq> [] then
        ac_clear (on_flow (SetState AuthError ''Saved credentials could not be decrypted on this device. Sign in again in Settings > Accounts & services.'') a)
      else if account_status a = SignedIn then ac_clear (on_flow (SetState SignedOut []) a)
      else a)"

definition SyncFromConfig :: "Account \<Rightarrow> Account" where
  "SyncFromConfig a = sync_decision (ac_conf a) (sync_credentials a)"

definition RetryKeyMigrationAsync :: "Account \<Rightarrow> Account" where
  "RetryKeyMigrationAsync a =
     (if account_status a \<noteq> AuthError then a else SyncFromConfig (a\<lparr>ac_keyExchangeAttempted := False\<rparr>))"

text \<open>
  \<open>Shutdown\<close> tells the worker to stop and waits until it is idle: its second half is taken only then.
\<close>

definition Shutdown_begin :: "Account \<Rightarrow> Account" where
  "Shutdown_begin a = a\<lparr>ac_stopWorker := True, ac_jobs := []\<rparr>"

definition Shutdown_end :: "Account \<Rightarrow> Account" where
  "Shutdown_end a = (if ac_worker a = Idle then a\<lparr>ac_workerStarted := False\<rparr> else a)"

definition Account0 :: "AccountConfig \<Rightarrow> Account" where
  "Account0 conf =
     \<lparr>ac_conf = conf, ac_tokens = TokenStore_new conf, ac_flow = AuthFlow0, ac_jobs = [],
      ac_keyExchangeAttempted = False, ac_workerStarted = False, ac_stopWorker = False, ac_worker = Idle,
      ac_refresh = None\<rparr>"

definition AccountClient_new :: "AccountConfig \<Rightarrow> Account" where
  "AccountClient_new conf = SyncFromConfig (Account0 conf)"

section \<open>Refresh\<close>

definition QueueLogoutForRotatedToken :: "string \<Rightarrow> string \<Rightarrow> Account \<Rightarrow> Account" where
  "QueueLogoutForRotatedToken previous rotated a =
     (let same = (\<lambda>job. wj_command job = LogoutJob \<and> wj_refreshToken job = previous)
      in if list_ex same (ac_jobs a)
         then a\<lparr>ac_jobs := takeWhile (\<lambda>job. \<not> same job) (ac_jobs a) @
                (case dropWhile (\<lambda>job. \<not> same job) (ac_jobs a) of
                   [] \<Rightarrow> [] | job # jobs \<Rightarrow> job\<lparr>wj_refreshToken := rotated\<rparr> # jobs)\<rparr>
         else let a = EnsureWorkerRunning a
              in push_job ((logout_job rotated a)\<lparr>wj_openBrowser := False\<rparr>) a)"

definition session_expired :: string where
  "session_expired = ''Your OmniStats session expired or this device was revoked. Sign in again in Settings > Accounts & services.''"

definition Refresh_begin :: "sodium \<Rightarrow> Env \<Rightarrow> Account \<Rightarrow> Account \<times> AccountEffect list" where
  "Refresh_begin sd e a =
     (case refresh_begin sd (ev_seed e) (ev_random e) (ev_now e) (ac_conf a, ac_tokens a) of
        (Inl ended, conf, tk) \<Rightarrow> (a\<lparr>ac_conf := conf, ac_tokens := tk\<rparr>, [])
      | (Inr (run, request), conf, tk) \<Rightarrow>
          (a\<lparr>ac_conf := conf, ac_tokens := tk, ac_refresh := Some run\<rparr>, [Sent AuthRefresh request]))"

text \<open>The callback, and the end of the refresh.\<close>

fun refresh_callback :: "RefreshAction \<Rightarrow> Account \<Rightarrow> Account" where
  "refresh_callback NoAction a = a"
| "refresh_callback OnRejected a = MarkSignedOut session_expired a"
| "refresh_callback (RevokeRotated previous rotated) a = QueueLogoutForRotatedToken previous rotated a"
| "refresh_callback OnSuccess a = on_flow (SetState SignedIn []) a"

definition Refresh_answer :: "(string \<Rightarrow> json option) \<Rightarrow> Response \<Rightarrow> Env \<Rightarrow> Account \<Rightarrow> Account" where
  "Refresh_answer parse answer e a =
     (case ac_refresh a of
        None \<Rightarrow> a
      | Some run \<Rightarrow>
          (case refresh_answer parse answer (ev_now e) run (ac_conf a, ac_tokens a) of
             (action, conf, tk) \<Rightarrow>
               let a = refresh_callback action (a\<lparr>ac_conf := conf, ac_tokens := tk\<rparr>)
               in a\<lparr>ac_tokens := refresh_finish (action = OnSuccess) (ac_tokens a), ac_refresh := None\<rparr>))"

text \<open>\<open>AccessToken\<close>: the cached token, or whether a refresh is tried.\<close>

definition AccessToken :: "int \<Rightarrow> Account \<Rightarrow> string + bool" where
  "AccessToken now a =
     (let token = TokenStore_AccessToken now now (ac_tokens a)
      in if token \<noteq> [] then Inl token else Inr (IsSignedIn (ac_conf a)))"

definition DevicePublicId :: "sodium \<Rightarrow> Env \<Rightarrow> Account \<Rightarrow> string \<times> Account" where
  "DevicePublicId sd e a =
     (let ident = account_device_public_id (ac_conf a)
      in if ident \<noteq> [] then (ident, a)
         else case EnsureDeviceKey sd (ev_seed e) (ac_conf a) of
           (Some pair, conf) \<Rightarrow> (kp_id pair, a\<lparr>ac_conf := conf\<rparr>)
         | (None, conf) \<Rightarrow> ([], a\<lparr>ac_conf := conf\<rparr>))"

section \<open>The worker's requests\<close>

definition logout_request :: "sodium \<Rightarrow> string \<Rightarrow> DeviceKeyPair \<Rightarrow> string \<Rightarrow> int \<Rightarrow> json" where
  "logout_request sd random pair token now =
     JObject [(''refresh_token'', JString token), (''device_public_id'', JString (kp_id pair)),
       (''proof'', proof_json (CreateProof sd random (kp_secret pair) ''logout'' (kp_id pair) token now))]"

text \<open>\<open>SendLogoutRequest\<close> up to its request; without one it ends at once.\<close>

definition SendLogoutRequest :: "sodium \<Rightarrow> Env \<Rightarrow> string \<Rightarrow> Account \<Rightarrow> Account \<times> AccountEffect list" where
  "SendLogoutRequest sd e token a =
     (if token = [] then (a, [])
      else case EnsureDeviceKey sd (ev_seed e) (ac_conf a) of
        (None, conf) \<Rightarrow> (a\<lparr>ac_conf := conf\<rparr>, [])
      | (Some pair, conf) \<Rightarrow>
          (a\<lparr>ac_conf := conf\<rparr>, [Sent AuthLogout (logout_request sd (ev_random e) pair token (ev_now e))]))"

definition logout_sent :: "Response \<Rightarrow> bool" where
  "logout_sent answer = (rs_transportError (Send answer) = 0 \<and> rs_status (Send answer) = 200)"

text \<open>\<open>Logout\<close>, which asks for the revocation on the caller's thread.\<close>

definition Logout :: "sodium \<Rightarrow> Env \<Rightarrow> Account \<Rightarrow> Account \<times> AccountEffect list" where
  "Logout sd e a = SendLogoutRequest sd e (account_refresh_token (ac_conf a)) (signed_out a)"

definition exchange_failed :: "64 word \<Rightarrow> string \<Rightarrow> Account \<Rightarrow> Account" where
  "exchange_failed generation message a =
     (if generation = tk_authGeneration (ac_tokens a) then on_flow (SetState AuthError message) a else a)"

definition exchange_request :: "sodium \<Rightarrow> Env \<Rightarrow> string \<Rightarrow> string \<Rightarrow> DeviceKeyPair \<Rightarrow> string \<Rightarrow> json" where
  "exchange_request sd e deviceName appVersion pair apiKey =
     JObject [(''api_key'', JString apiKey), (''device_public_id'', JString (kp_id pair)),
       (''device_name'', JString deviceName), (''platform'', JString ''windows''),
       (''app_version'', JString appVersion), (''public_key'', JString (kp_public pair)),
       (''proof'', proof_json (CreateProof sd (ev_random e) (kp_secret pair) ''exchange'' (kp_id pair) apiKey (ev_now e)))]"

definition ExchangeAPIKey_begin ::
  "sodium \<Rightarrow> string \<Rightarrow> string \<Rightarrow> Env \<Rightarrow> 64 word \<Rightarrow> Account \<Rightarrow> Account \<times> AccountEffect list" where
  "ExchangeAPIKey_begin sd deviceName appVersion e generation a =
     (let conf = ac_conf a
      in if generation \<noteq> tk_authGeneration (ac_tokens a) \<or> custom_api_key conf = [] \<or> account_refresh_token conf \<noteq> []
         then (a, [])
         else case EnsureDeviceKey sd (ev_seed e) conf of
           (None, conf') \<Rightarrow>
             (exchange_failed generation ''Unable to read this device's key. Sign in again in Settings > Accounts & services.''
                (a\<lparr>ac_conf := conf'\<rparr>), [])
         | (Some pair, conf') \<Rightarrow>
             (a\<lparr>ac_conf := conf',
                ac_worker := Exchanging \<lparr>xr_generation = generation, xr_now = ev_now e, xr_publicId = kp_id pair\<rparr>\<rparr>,
              [Sent AuthExchangeKey (exchange_request sd e deviceName appVersion pair (custom_api_key conf))]))"

text \<open>The message for a refused exchange.\<close>

definition exchange_refusal :: "(string \<Rightarrow> json option) \<Rightarrow> string \<Rightarrow> string" where
  "exchange_refusal parse body =
     (let code = Option.bind (parse body) (\<lambda>j. case Child j ''error'' of
                   Some (JObject fs) \<Rightarrow> value_string (JObject fs) ''code'' [] | _ \<Rightarrow> None)
      in if code = Some ''device_limit_reached''
         then ''Your account's device limit was reached. Remove an unused device with Manage devices, then restart OmniStats or sign in again.''
         else if code = Some ''email_verification_required''
         then ''Verify your OmniStats email, then sign in in Settings > Accounts & services to link this device.''
         else if code = Some ''device_revoked''
         then ''This device was revoked. Sign in again and approve it in your browser to reconnect.''
         else ''Your saved API key could not link this device. Sign in in Settings > Accounts & services.'')"

text \<open>What an answer without a session says, and the fields of one with a session.\<close>

definition exchange_trouble :: "(string \<Rightarrow> json option) \<Rightarrow> Response \<Rightarrow> string option" where
  "exchange_trouble parse r =
     (if rs_updateRequired r
      then Some ''This version of OmniStats is out of date. Update from omnistats.org to sign in.''
      else if rs_transportError r \<noteq> 0 \<or> 500 \<le> rs_status r \<or> rs_status r = 429
      then Some ''Unable to link your saved API key right now. It is still saved. Restart OmniStats to retry, or sign in in Settings > Accounts & services.''
      else if rs_status r \<noteq> 200 then Some (exchange_refusal parse (rs_body r))
      else None)"

definition exchange_grant :: "json \<Rightarrow> (string \<times> string \<times> int \<times> string) option" where
  "exchange_grant j =
     (case (member_string j ''access_token'', member_string j ''refresh_token'', member_int j ''expires_in'' 0) of
        (Some access, Some refresh, Some expiresIn) \<Rightarrow>
          Some (access, refresh, expiresIn, ExtractDisplayName (\<lambda>t. t) j [])
      | _ \<Rightarrow> None)"

text \<open>The answer to an exchange: the account, and the token that is sent back when it came too late.\<close>

definition exchange_answer ::
  "(string \<Rightarrow> json option) \<Rightarrow> Response \<Rightarrow> ExchangeRun \<Rightarrow> Account \<Rightarrow> string option \<times> Account" where
  "exchange_answer parse answer run a =
     (let fail = (\<lambda>m. (None, exchange_failed (xr_generation run) m a))
      in case exchange_trouble parse (Send answer) of
           Some m \<Rightarrow> fail m
         | None \<Rightarrow>
             (case Option.bind (parse (rs_body (Send answer))) exchange_grant of
                None \<Rightarrow> fail ''OmniStats returned an invalid device session. Restart to retry, or sign in in Settings > Accounts & services.''
              | Some (access, refresh, expiresIn, name) \<Rightarrow>
                  (if access = [] \<or> refresh = [] \<or> expiresIn \<le> 0
                   then fail ''OmniStats returned an incomplete device session. Restart to retry, or sign in in Settings > Accounts & services.''
                   else if xr_generation run \<noteq> tk_authGeneration (ac_tokens a) \<or> ac_stopWorker a
                   then (Some refresh, a)
                   else
                     (None, on_flow (SetState SignedIn [])
                        (a\<lparr>ac_conf := SetTokens_config refresh name (xr_publicId run) (ac_conf a),
                           ac_tokens := SetTokens_memory access (xr_now run + expiresIn) name (xr_publicId run) (ac_tokens a)\<rparr>)))))"

section \<open>The worker\<close>

definition opened :: "AuthFlow \<Rightarrow> AccountEffect list" where
  "opened f = (case OpenVerificationBrowser f of None \<Rightarrow> [] | Some u \<Rightarrow> [Opened u])"

text \<open>The worker takes the first job of the queue and runs to its request.\<close>

definition run_job ::
  "sodium \<Rightarrow> string \<Rightarrow> string \<Rightarrow> Env \<Rightarrow> WorkerJob \<Rightarrow> Account \<Rightarrow> Account \<times> AccountEffect list" where
  "run_job sd deviceName appVersion e job a =
     (case wj_command job of
        StartSignIn \<Rightarrow>
          (case start_begin sd (ev_seed e) deviceName appVersion (ac_conf a, ac_flow a) of
             (Inl result, conf, f) \<Rightarrow> (a\<lparr>ac_conf := conf, ac_flow := f\<rparr>, [])
           | (Inr request, conf, f) \<Rightarrow>
               (a\<lparr>ac_conf := conf, ac_flow := f, ac_worker := Starting (wj_openBrowser job)\<rparr>, [Sent AuthStart request]))
      | ExchangeAPIKey \<Rightarrow> ExchangeAPIKey_begin sd deviceName appVersion e (wj_authGeneration job) a
      | LogoutJob \<Rightarrow>
          (case SendLogoutRequest sd e (wj_refreshToken job) a of
             (a, sent) \<Rightarrow> (if sent = [] then a else a\<lparr>ac_worker := LoggingOut\<rparr>, sent)))"

definition worker_take ::
  "sodium \<Rightarrow> string \<Rightarrow> string \<Rightarrow> Env \<Rightarrow> Account \<Rightarrow> Account \<times> AccountEffect list" where
  "worker_take sd deviceName appVersion e a =
     (if ac_worker a \<noteq> Idle \<or> \<not> ac_workerStarted a \<or> ac_stopWorker a then (a, [])
      else case ac_jobs a of
        [] \<Rightarrow> (a, [])
      | job # jobs \<Rightarrow> run_job sd deviceName appVersion e job (a\<lparr>ac_jobs := jobs\<rparr>))"

text \<open>The worker wakes up in the loop of \<open>PollToken\<close>.\<close>

definition worker_wake :: "sodium \<Rightarrow> Env \<Rightarrow> Account \<Rightarrow> Account \<times> AccountEffect list" where
  "worker_wake sd e a =
     (let f = ac_flow a; expired = (0 < af_expiresAtUnix f \<and> af_expiresAtUnix f \<le> ev_now e)
      in if ac_worker a \<noteq> Sleeping then (a, [])
         else if \<not> expired \<and> \<not> ev_slept e then (a\<lparr>ac_worker := Idle\<rparr>, [])
         else case poll_begin sd (ev_seed e) (ev_random e) (ev_later e) (ac_conf a, f) of
           (Inl result, conf, f) \<Rightarrow> (a\<lparr>ac_conf := conf, ac_flow := f, ac_worker := Idle\<rparr>, [])
         | (Inr (run, request), conf, f) \<Rightarrow>
             (a\<lparr>ac_conf := conf, ac_flow := f, ac_worker := Polling expired run\<rparr>, [Sent AuthToken request]))"

text \<open>The worker gets the answer it waits for.\<close>

definition worker_answer ::
  "sodium \<Rightarrow> (string \<Rightarrow> json option) \<Rightarrow> Response \<Rightarrow> Env \<Rightarrow> Account \<Rightarrow> Account \<times> AccountEffect list" where
  "worker_answer sd parse answer e a =
     (case ac_worker a of
        Starting openBrowser \<Rightarrow>
          (case start_answer parse answer (ev_now e) (ac_flow a) of
             (result, f) \<Rightarrow>
               (a\<lparr>ac_flow := f, ac_worker := (if sa_ok result then Sleeping else Idle)\<rparr>,
                if sa_ok result \<and> openBrowser then opened f else []))
      | Polling final run \<Rightarrow>
          (case poll_answer parse answer run (ac_conf a, ac_tokens a, ac_flow a) of
             (result, conf, tk, f) \<Rightarrow>
               (a\<lparr>ac_conf := conf, ac_tokens := tk, ac_flow := f,
                  ac_worker := (if goes_on (po_outcome result) \<and> \<not> final then Sleeping else Idle)\<rparr>, []))
      | Exchanging run \<Rightarrow>
          (case exchange_answer parse answer run (a\<lparr>ac_worker := Idle\<rparr>) of
             (None, a) \<Rightarrow> (a, [])
           | (Some token, a) \<Rightarrow>
               (case SendLogoutRequest sd e token a of
                  (a, sent) \<Rightarrow> (if sent = [] then a else a\<lparr>ac_worker := LoggingOut\<rparr>, sent)))
      | LoggingOut \<Rightarrow> (a\<lparr>ac_worker := Idle\<rparr>, [])
      | _ \<Rightarrow> (a, []))"

section \<open>Interleavings\<close>

datatype AccountEvent =
  UiBeginSignIn bool | UiCancel | UiLogout | UiMarkSignedOut string | UiSync | UiRetryMigration
  | UiOpenVerification | UiConsumeNotification | UiShutdown | UiShutdownEnd
  | RefreshStarts Env | RefreshAnswered Response Env
  | WorkerTakes Env | WorkerWakes Env | WorkerAnswered Response Env

record AccountParams =
  ap_sodium :: sodium
  ap_parse :: "string \<Rightarrow> json option"
  ap_deviceName :: string
  ap_appVersion :: string

fun account_step :: "AccountParams \<Rightarrow> AccountEvent \<Rightarrow> Account \<Rightarrow> Account \<times> AccountEffect list" where
  "account_step p (UiBeginSignIn browser) a = (BeginSignInAsync browser a, [])"
| "account_step p UiCancel a = (CancelAuthorization a, [])"
| "account_step p UiLogout a = (LogoutAsync a, [])"
| "account_step p (UiMarkSignedOut reason) a = (MarkSignedOut reason a, [])"
| "account_step p UiSync a = (SyncFromConfig a, [])"
| "account_step p UiRetryMigration a = (RetryKeyMigrationAsync a, [])"
| "account_step p UiOpenVerification a = (a, opened (ac_flow a))"
| "account_step p UiConsumeNotification a = (on_flow (\<lambda>f. snd (ConsumeSignedOutNotification f)) a, [])"
| "account_step p UiShutdown a = (Shutdown_begin a, [])"
| "account_step p UiShutdownEnd a = (Shutdown_end a, [])"
| "account_step p (RefreshStarts e) a = Refresh_begin (ap_sodium p) e a"
| "account_step p (RefreshAnswered answer e) a = (Refresh_answer (ap_parse p) answer e a, [])"
| "account_step p (WorkerTakes e) a = worker_take (ap_sodium p) (ap_deviceName p) (ap_appVersion p) e a"
| "account_step p (WorkerWakes e) a = worker_wake (ap_sodium p) e a"
| "account_step p (WorkerAnswered answer e) a = worker_answer (ap_sodium p) (ap_parse p) answer e a"

end
