(* ===== verification/Account_Facts.thy ===== *)
theory Account_Facts
  imports Account_Client
begin

text \<open>
  What holds of the account however its threads interleave: the invariant of its state, that a logout is
  final, and three behaviours that a reader of the code may not expect.
\<close>

section \<open>Frames\<close>

lemma EnsureDeviceKey_frame:
  "account_refresh_token (snd (EnsureDeviceKey sd seed conf)) = account_refresh_token conf"
  "custom_api_key (snd (EnsureDeviceKey sd seed conf)) = custom_api_key conf"
  by (simp_all add: EnsureDeviceKey_def Let_def split: option.split)

lemma EnsureDeviceKey_frame':
  "EnsureDeviceKey sd seed conf = (key, conf') \<Longrightarrow>
   account_refresh_token conf' = account_refresh_token conf \<and> custom_api_key conf' = custom_api_key conf"
  using EnsureDeviceKey_frame[of sd seed conf] by simp

lemma refresh_begin_frame:
  assumes "refresh_begin sd seed random now (conf, tk) = (x, conf', tk')"
  shows "account_refresh_token conf' = account_refresh_token conf \<and> custom_api_key conf' = custom_api_key conf \<and>
     tk_authGeneration tk' = tk_authGeneration tk \<and> tk_accessToken tk' = tk_accessToken tk \<and>
     (\<forall>ended. x = Inl ended \<longrightarrow> tk_refreshInFlight tk' = tk_refreshInFlight tk) \<and>
     (\<forall>run request. x = Inr (run, request) \<longrightarrow> tk_refreshInFlight tk' \<and> \<not> tk_refreshInFlight tk \<and>
        rf_generation run = tk_authGeneration tk \<and> account_refresh_token conf \<noteq> [])"
  using assms EnsureDeviceKey_frame[of sd seed conf]
  by (auto simp: refresh_begin_def Let_def refresh_finish_def split: if_splits option.splits prod.splits)

lemma refresh_answer_cases:
  assumes "refresh_answer parse answer now run (conf, tk) = (action, conf', tk')"
  shows "(action \<noteq> OnSuccess \<and> conf' = conf \<and> tk' = tk) \<or>
    (action = OnSuccess \<and> rf_generation run = tk_authGeneration tk \<and> account_refresh_token conf' \<noteq> [] \<and>
     custom_api_key conf' = [] \<and> tk_authGeneration tk' = tk_authGeneration tk \<and>
     tk_refreshInFlight tk' = tk_refreshInFlight tk)"
proof (cases "Option.bind (parse (rs_body (Send answer))) (\<lambda>j. token_answer j (rf_name run))")
  case None
  then show ?thesis using assms by (auto simp: refresh_answer_def Let_def split: if_splits)
next
  case (Some grant)
  obtain access refresh expiresIn name where g: "grant = (access, refresh, expiresIn, name)" by (metis prod_cases4)
  then have "refresh \<noteq> []"
    using Some by (auto simp: bind_eq_Some_conv token_answer_def split: option.splits if_splits)
  then show ?thesis using assms Some g by (auto simp: refresh_answer_def Let_def split: if_splits)
qed

lemma start_begin_frame:
  assumes "start_begin sd seed name version (conf, f) = (x, conf', f')"
  shows "account_refresh_token conf' = account_refresh_token conf \<and> custom_api_key conf' = custom_api_key conf \<and>
    af_cancelRequested f' = af_cancelRequested f"
  using assms EnsureDeviceKey_frame[of sd seed conf]
  by (auto simp: start_begin_def start_failed_def SetState_def split: option.splits prod.splits)

lemma poll_begin_frame:
  assumes "poll_begin sd seed random now (conf, f) = (x, conf', f')"
  shows "account_refresh_token conf' = account_refresh_token conf \<and> custom_api_key conf' = custom_api_key conf \<and>
    af_cancelRequested f' = af_cancelRequested f"
  using assms EnsureDeviceKey_frame[of sd seed conf]
  by (auto simp: poll_begin_def Let_def fail_all_def fail_code_def SetState_def clear_codes_def
      split: if_splits option.splits prod.splits)

lemma poll_answer_cases:
  assumes "poll_answer parse answer run (conf, tk, f) = (result, conf', tk', f')"
  shows "(conf' = conf \<and> tk' = tk) \<or>
    (\<not> af_cancelRequested f \<and> account_refresh_token conf' \<noteq> [] \<and> custom_api_key conf' = [] \<and>
     tk_authGeneration tk' = tk_authGeneration tk + 1 \<and> tk_refreshInFlight tk' = tk_refreshInFlight tk)"
    and "af_cancelRequested f' = af_cancelRequested f"
proof -
  have frame: "af_cancelRequested (snd (poll_refused run r e f)) = af_cancelRequested f" for r e
    by (simp add: poll_refused_def Let_def fail_all_def SetState_def clear_codes_def)
  have "((conf' = conf \<and> tk' = tk) \<or>
      (\<not> af_cancelRequested f \<and> account_refresh_token conf' \<noteq> [] \<and> custom_api_key conf' = [] \<and>
       tk_authGeneration tk' = tk_authGeneration tk + 1 \<and> tk_refreshInFlight tk' = tk_refreshInFlight tk)) \<and>
      af_cancelRequested f' = af_cancelRequested f"
  proof (cases "Option.bind (parse (rs_body (Send answer))) (\<lambda>j. token_answer j [])")
    case None
    then show ?thesis
      using assms frame[of "Send answer" "ParseApiError parse (rs_body (Send answer))"]
      by (auto simp: poll_answer_def Let_def fail_code_def SetState_def split: if_splits prod.splits)
  next
    case (Some grant)
    obtain access refresh expiresIn name where g: "grant = (access, refresh, expiresIn, name)" by (metis prod_cases4)
    then have "refresh \<noteq> []"
      using Some by (auto simp: bind_eq_Some_conv token_answer_def split: option.splits if_splits)
    then show ?thesis
      using assms Some g frame[of "Send answer" "ParseApiError parse (rs_body (Send answer))"]
      by (auto simp: poll_answer_def Let_def poll_approved_def fail_code_def SetState_def clear_codes_def
          SetTokens_config_def SetTokens_memory_def BumpAuthGeneration_def split: if_splits prod.splits)
  qed
  then show "(conf' = conf \<and> tk' = tk) \<or>
    (\<not> af_cancelRequested f \<and> account_refresh_token conf' \<noteq> [] \<and> custom_api_key conf' = [] \<and>
     tk_authGeneration tk' = tk_authGeneration tk + 1 \<and> tk_refreshInFlight tk' = tk_refreshInFlight tk)"
    and "af_cancelRequested f' = af_cancelRequested f" by blast+
qed

lemma exchange_answer_cases:
  assumes "exchange_answer parse answer run a = (token, a')"
  shows "(ac_conf a' = ac_conf a \<and> ac_tokens a' = ac_tokens a \<or>
     xr_generation run = tk_authGeneration (ac_tokens a) \<and> account_refresh_token (ac_conf a') \<noteq> [] \<and>
     custom_api_key (ac_conf a') = [] \<and> tk_authGeneration (ac_tokens a') = tk_authGeneration (ac_tokens a) + 1 \<and>
     tk_refreshInFlight (ac_tokens a') = tk_refreshInFlight (ac_tokens a)) \<and>
     ac_jobs a' = ac_jobs a \<and> ac_worker a' = ac_worker a \<and> ac_refresh a' = ac_refresh a \<and>
     ac_workerStarted a' = ac_workerStarted a \<and> ac_stopWorker a' = ac_stopWorker a \<and>
     (ac_flow a' = ac_flow a \<or> (\<exists>state m. state \<noteq> AwaitingApproval \<and> ac_flow a' = SetState state m (ac_flow a)))"
proof -
  have failed_frame: "ac_conf (exchange_failed g m a) = ac_conf a \<and> ac_tokens (exchange_failed g m a) = ac_tokens a \<and>
      ac_jobs (exchange_failed g m a) = ac_jobs a \<and> ac_worker (exchange_failed g m a) = ac_worker a \<and>
      ac_refresh (exchange_failed g m a) = ac_refresh a \<and> ac_workerStarted (exchange_failed g m a) = ac_workerStarted a \<and>
      ac_stopWorker (exchange_failed g m a) = ac_stopWorker a \<and>
      (ac_flow (exchange_failed g m a) = ac_flow a \<or>
       (\<exists>state m'. state \<noteq> AwaitingApproval \<and> ac_flow (exchange_failed g m a) = SetState state m' (ac_flow a)))" for g m
    by (auto simp: exchange_failed_def on_flow_def)
  consider (fail) g m where "a' = exchange_failed g m a" | (late) "a' = a"
    | (grant) access refresh expiresIn name where "refresh \<noteq> []" "xr_generation run = tk_authGeneration (ac_tokens a)"
      "a' = on_flow (SetState SignedIn [])
         (a\<lparr>ac_conf := SetTokens_config refresh name (xr_publicId run) (ac_conf a),
            ac_tokens := SetTokens_memory access (xr_now run + expiresIn) name (xr_publicId run) (ac_tokens a)\<rparr>)"
  proof (cases "exchange_trouble parse (Send answer)")
    case (Some m)
    then have "\<exists>g m. a' = exchange_failed g m a" using assms by (auto simp: exchange_answer_def)
    then show thesis using that(1) by blast
  next
    case None
    show thesis
    proof (cases "Option.bind (parse (rs_body (Send answer))) exchange_grant")
      case bad: None
      then have "\<exists>g m. a' = exchange_failed g m a" using assms None by (auto simp: exchange_answer_def)
      then show thesis using that(1) by blast
    next
      case (Some grant)
      obtain access refresh expiresIn name where "grant = (access, refresh, expiresIn, name)" by (metis prod_cases4)
      then have "(\<exists>g m. a' = exchange_failed g m a) \<or> a' = a \<or>
          refresh \<noteq> [] \<and> xr_generation run = tk_authGeneration (ac_tokens a) \<and>
          a' = on_flow (SetState SignedIn [])
            (a\<lparr>ac_conf := SetTokens_config refresh name (xr_publicId run) (ac_conf a),
               ac_tokens := SetTokens_memory access (xr_now run + expiresIn) name (xr_publicId run) (ac_tokens a)\<rparr>)"
        using assms None Some by (simp add: exchange_answer_def split: if_split_asm) blast+
      then show thesis using that by blast
    qed
  qed
  then show ?thesis
  proof cases
    case fail
    then show ?thesis using failed_frame by auto
  next
    case grant
    have "\<exists>state m. state \<noteq> AwaitingApproval \<and> ac_flow a' = SetState state m (ac_flow a)"
      unfolding grant(3) by (intro exI[of _ SignedIn] exI[of _ "[]"]) (simp add: on_flow_def)
    then show ?thesis
      using grant(1,2) unfolding grant(3)
      by (simp add: on_flow_def SetTokens_config_def SetTokens_memory_def BumpAuthGeneration_def)
  qed simp
qed

section \<open>The invariant\<close>

text \<open>
  The sign-in is consistent; a poll under way has a positive interval; the mark of a refresh in flight is exact;
  without a thread there is no work; a cached access token belongs to saved credentials, and with saved
  credentials no old API key is kept.
\<close>

definition account_ok :: "Account \<Rightarrow> bool" where
  "account_ok a \<longleftrightarrow>
     flow_ok (ac_flow a) \<and>
     (case ac_worker a of Polling final run \<Rightarrow> 1 \<le> pr_pollInterval run | _ \<Rightarrow> True) \<and>
     tk_refreshInFlight (ac_tokens a) = (ac_refresh a \<noteq> None) \<and>
     (\<not> ac_workerStarted a \<longrightarrow> ac_worker a = Idle) \<and>
     (tk_accessToken (ac_tokens a) \<noteq> [] \<longrightarrow> account_refresh_token (ac_conf a) \<noteq> []) \<and>
     (account_refresh_token (ac_conf a) \<noteq> [] \<longrightarrow> custom_api_key (ac_conf a) = [])"

lemma account_ok_flow: "account_ok a \<Longrightarrow> flow_ok (f (ac_flow a)) \<Longrightarrow> account_ok (on_flow f a)"
  by (simp add: account_ok_def on_flow_def)

lemma account_ok_state: "account_ok a \<Longrightarrow> state \<noteq> AwaitingApproval \<Longrightarrow> account_ok (on_flow (SetState state m) a)"
  by (rule account_ok_flow) (simp_all add: flow_ok_SetState account_ok_def)

lemma account_ok_clear: "account_ok a \<Longrightarrow> account_ok (ac_clear a)"
  by (simp add: account_ok_def ac_clear_def Clear_config_def Clear_memory_def BumpAuthGeneration_def)

lemma account_ok_bump: "account_ok a \<Longrightarrow> account_ok (a\<lparr>ac_tokens := BumpAuthGeneration (ac_tokens a)\<rparr>)"
  by (simp add: account_ok_def BumpAuthGeneration_def)

lemma account_ok_worker: "account_ok a \<Longrightarrow> account_ok (EnsureWorkerRunning a)"
  by (simp add: account_ok_def EnsureWorkerRunning_def)

lemma account_ok_free:
  "account_ok (a\<lparr>ac_jobs := js\<rparr>) = account_ok a" "account_ok (push_job job a) = account_ok a"
  "account_ok (a\<lparr>ac_keyExchangeAttempted := b\<rparr>) = account_ok a" "account_ok (a\<lparr>ac_stopWorker := b\<rparr>) = account_ok a"
  by (simp_all add: account_ok_def push_job_def)

lemma account_ok_conf:
  "account_ok a \<Longrightarrow> account_refresh_token conf = account_refresh_token (ac_conf a) \<Longrightarrow>
   custom_api_key conf = custom_api_key (ac_conf a) \<Longrightarrow> account_ok (a\<lparr>ac_conf := conf\<rparr>)"
  by (simp add: account_ok_def)

lemma account_ok_cancel: "account_ok a \<Longrightarrow> account_ok (CancelAuthorization a)"
  unfolding CancelAuthorization_def by (rule account_ok_flow) (simp_all add: flow_ok_ops account_ok_def)

lemma account_ok_signed_out: "account_ok a \<Longrightarrow> account_ok (MarkSignedOut reason a)"
  unfolding MarkSignedOut_def
  by (rule account_ok_flow[OF account_ok_clear]) (simp_all add: flow_ok_ops account_ok_def ac_clear_def)

lemma account_ok_begin: "account_ok a \<Longrightarrow> account_ok (BeginSignInAsync browser a)"
  by (simp add: BeginSignInAsync_def Let_def account_ok_free account_ok_worker account_ok_bump account_ok_cancel)

lemma account_ok_logout: "account_ok a \<Longrightarrow> account_ok (LogoutAsync a)"
  by (simp add: LogoutAsync_def Let_def signed_out_def account_ok_free account_ok_worker account_ok_state
      account_ok_clear account_ok_cancel)

lemma sync_tokens:
  "tk_authGeneration (TokenStore_SyncFromConfig conf tk) = tk_authGeneration tk"
  "tk_refreshInFlight (TokenStore_SyncFromConfig conf tk) = tk_refreshInFlight tk"
  "tk_accessToken (TokenStore_SyncFromConfig conf tk) = (if account_refresh_token conf = [] then [] else tk_accessToken tk)"
  by (simp_all add: TokenStore_SyncFromConfig_def Let_def)

lemma sync_credentials_ok:
  "account_ok a \<Longrightarrow> account_ok (sync_credentials a)" "account_ok (sync_credentials (Account0 conf))"
  by (auto simp: account_ok_def sync_credentials_def Let_def sync_tokens Account0_def flow_ok_init TokenStore_new_def Tokens0_def)

lemma sync_decision_ok: "account_ok a \<Longrightarrow> account_ok (sync_decision conf a)"
  by (simp add: sync_decision_def Let_def account_ok_free account_ok_worker account_ok_state account_ok_clear)

lemma account_ok_sync: "account_ok a \<Longrightarrow> account_ok (SyncFromConfig a)"
  by (simp add: SyncFromConfig_def sync_decision_ok sync_credentials_ok(1))

lemma account_ok_init: "account_ok (AccountClient_new conf)"
  by (simp add: AccountClient_new_def SyncFromConfig_def sync_decision_ok sync_credentials_ok(2))

lemma account_ok_retry: "account_ok a \<Longrightarrow> account_ok (RetryKeyMigrationAsync a)"
  by (simp add: RetryKeyMigrationAsync_def account_ok_sync account_ok_free)

lemma account_ok_queue_logout: "account_ok a \<Longrightarrow> account_ok (QueueLogoutForRotatedToken p r a)"
  by (simp add: QueueLogoutForRotatedToken_def Let_def account_ok_free account_ok_worker)

lemma account_ok_refresh_begin: "account_ok a \<Longrightarrow> account_ok (fst (Refresh_begin sd e a))"
proof -
  assume a: "account_ok a"
  obtain x conf tk where b: "refresh_begin sd (ev_seed e) (ev_random e) (ev_now e) (ac_conf a, ac_tokens a) = (x, conf, tk)"
    by (metis prod_cases3)
  show ?thesis
    using a refresh_begin_frame[OF b]
    by (cases x) (auto simp: Refresh_begin_def b account_ok_def split: prod.split)
qed

lemma account_ok_callback:
  "account_ok a \<Longrightarrow> account_ok (refresh_callback action a)"
  by (cases action) (simp_all add: account_ok_signed_out account_ok_queue_logout account_ok_state)

lemma refresh_callback_frame:
  "ac_refresh (refresh_callback action a) = ac_refresh a"
  by (cases action) (simp_all add: MarkSignedOut_def on_flow_def ac_clear_def QueueLogoutForRotatedToken_def Let_def
      EnsureWorkerRunning_def push_job_def)

lemma account_ok_refresh_answer: "account_ok a \<Longrightarrow> account_ok (Refresh_answer parse answer e a)"
proof (cases "ac_refresh a")
  case (Some run)
  assume a: "account_ok a"
  obtain action conf tk where r: "refresh_answer parse answer (ev_now e) run (ac_conf a, ac_tokens a) = (action, conf, tk)"
    by (metis prod_cases3)
  have "account_ok (a\<lparr>ac_conf := conf, ac_tokens := tk\<rparr>)"
    using a refresh_answer_cases[OF r] by (auto simp: account_ok_def)
  from account_ok_callback[OF this, of action] show ?thesis
    by (simp add: Refresh_answer_def Some r Let_def account_ok_def refresh_finish_def)
qed (simp add: Refresh_answer_def)

lemma account_ok_idle: "account_ok a \<Longrightarrow> account_ok (a\<lparr>ac_worker := Idle\<rparr>)"
  by (simp add: account_ok_def)

lemma account_ok_started:
  "account_ok a \<Longrightarrow> ac_workerStarted a \<Longrightarrow> (\<And>final run. w = Polling final run \<Longrightarrow> 1 \<le> pr_pollInterval run) \<Longrightarrow>
   account_ok (a\<lparr>ac_worker := w\<rparr>)"
  by (cases w) (simp_all add: account_ok_def)

lemma SendLogoutRequest_conf:
  "\<exists>conf. fst (SendLogoutRequest sd e token a) = a\<lparr>ac_conf := conf\<rparr> \<and>
     account_refresh_token conf = account_refresh_token (ac_conf a) \<and> custom_api_key conf = custom_api_key (ac_conf a)"
  using EnsureDeviceKey_frame[of sd "ev_seed e" "ac_conf a"]
  by (auto simp: SendLogoutRequest_def split: option.split prod.split intro: exI[of _ "ac_conf a"])

lemma account_ok_send_logout: "account_ok a \<Longrightarrow> account_ok (fst (SendLogoutRequest sd e token a))"
  using SendLogoutRequest_conf[of sd e token a] by (auto simp: account_ok_conf)

lemma send_logout_started: "ac_workerStarted (fst (SendLogoutRequest sd e token a)) = ac_workerStarted a"
  using SendLogoutRequest_conf[of sd e token a] by auto

lemma account_ok_exchange_failed: "account_ok a \<Longrightarrow> account_ok (exchange_failed g m a)"
  by (simp add: exchange_failed_def account_ok_state)

lemma account_ok_exchange_begin:
  assumes "account_ok a" and "ac_workerStarted a"
  shows "account_ok (fst (ExchangeAPIKey_begin sd name version e g a))"
proof -
  obtain key conf where k: "EnsureDeviceKey sd (ev_seed e) (ac_conf a) = (key, conf)" by fastforce
  have c: "account_ok (a\<lparr>ac_conf := conf\<rparr>)" using assms(1) EnsureDeviceKey_frame'[OF k] by (simp add: account_ok_conf)
  have "account_ok ((a\<lparr>ac_conf := conf\<rparr>)\<lparr>ac_worker := Exchanging run\<rparr>)" for run
    by (rule account_ok_started[OF c]) (use assms(2) in simp_all)
  then show ?thesis
    using assms c by (cases key) (simp_all add: ExchangeAPIKey_begin_def Let_def k account_ok_exchange_failed)
qed

lemma account_ok_run_job:
  assumes "account_ok a" and "ac_workerStarted a"
  shows "account_ok (fst (run_job sd name version e job a))"
proof (cases "wj_command job")
  case StartSignIn
  obtain x conf f where b: "start_begin sd (ev_seed e) name version (ac_conf a, ac_flow a) = (x, conf, f)" by (metis prod_cases3)
  have "flow_ok f" using flow_ok_start_begin[of "ac_flow a" sd "ev_seed e" name version "ac_conf a"] assms(1) b
    by (simp add: account_ok_def)
  then have c: "account_ok (a\<lparr>ac_conf := conf, ac_flow := f\<rparr>)"
    using assms(1) start_begin_frame[OF b] by (simp add: account_ok_def)
  have "account_ok ((a\<lparr>ac_conf := conf, ac_flow := f\<rparr>)\<lparr>ac_worker := Starting browser\<rparr>)" for browser
    by (rule account_ok_started[OF c]) (use assms(2) in simp_all)
  then show ?thesis using c by (cases x) (simp_all add: run_job_def StartSignIn b)
next
  case ExchangeAPIKey
  then show ?thesis using account_ok_exchange_begin[OF assms] by (simp add: run_job_def)
next
  case LogoutJob
  have c: "account_ok (fst (SendLogoutRequest sd e (wj_refreshToken job) a))" by (rule account_ok_send_logout[OF assms(1)])
  have "account_ok ((fst (SendLogoutRequest sd e (wj_refreshToken job) a))\<lparr>ac_worker := LoggingOut\<rparr>)"
    by (rule account_ok_started[OF c]) (use assms(2) in \<open>simp_all add: send_logout_started\<close>)
  then show ?thesis using c by (simp add: run_job_def LogoutJob case_prod_unfold)
qed

lemma account_ok_take: "account_ok a \<Longrightarrow> account_ok (fst (worker_take sd name version e a))"
  using account_ok_run_job[of "a\<lparr>ac_jobs := js\<rparr>" for js]
  by (auto simp: worker_take_def account_ok_free split: list.split)

lemma account_ok_wake: "account_ok a \<Longrightarrow> account_ok (fst (worker_wake sd e a))"
proof (cases "ac_worker a = Sleeping")
  case True
  assume a: "account_ok a"
  then have started: "ac_workerStarted a" using True by (auto simp: account_ok_def)
  obtain x conf f where b: "poll_begin sd (ev_seed e) (ev_random e) (ev_later e) (ac_conf a, ac_flow a) = (x, conf, f)"
    by (metis prod_cases3)
  have "flow_ok f" using flow_ok_poll_begin[of "ac_flow a" sd "ev_seed e" "ev_random e" "ev_later e" "ac_conf a"] a b
    by (simp add: account_ok_def)
  then have c: "account_ok (a\<lparr>ac_conf := conf, ac_flow := f\<rparr>)"
    using a poll_begin_frame[OF b] by (simp add: account_ok_def)
  have "account_ok ((a\<lparr>ac_conf := conf, ac_flow := f\<rparr>)\<lparr>ac_worker := Polling final run\<rparr>)"
    if "x = Inr (run, request)" for final run request
    by (rule account_ok_started[OF c]) (use started poll_begin_run[of "ac_flow a"] b a that in \<open>auto simp: account_ok_def\<close>)
  then show ?thesis
    using account_ok_idle[OF a] account_ok_idle[OF c] True
    by (cases x) (auto simp: worker_wake_def Let_def b split: prod.split)
qed (simp add: worker_wake_def Let_def)

lemma account_ok_answer: "account_ok a \<Longrightarrow> account_ok (fst (worker_answer sd parse answer e a))"
proof -
  assume a: "account_ok a"
  show ?thesis
  proof (cases "ac_worker a")
    case (Starting browser)
    obtain result f where r: "start_answer parse answer (ev_now e) (ac_flow a) = (result, f)" by fastforce
    have "flow_ok f" using flow_ok_start_answer[of "ac_flow a" parse answer "ev_now e"] a r by (simp add: account_ok_def)
    then show ?thesis using a Starting by (auto simp: worker_answer_def r account_ok_def)
  next
    case (Polling final run)
    obtain result conf tk f where r:
      "poll_answer parse answer run (ac_conf a, ac_tokens a, ac_flow a) = (result, conf, tk, f)" by (metis prod_cases4)
    have "flow_ok f" using flow_ok_poll_answer[of "ac_flow a" run parse answer "ac_conf a" "ac_tokens a"] a r Polling
      by (simp add: account_ok_def)
    then show ?thesis
      using a Polling poll_answer_cases(1)[OF r] by (auto simp: worker_answer_def r account_ok_def)
  next
    case (Exchanging run)
    obtain token b where x: "exchange_answer parse answer run (a\<lparr>ac_worker := Idle\<rparr>) = (token, b)" by fastforce
    note c = exchange_answer_cases[OF x]
    have "flow_ok (ac_flow b)" using c a flow_ok_SetState[of "ac_flow a"] by (auto simp: account_ok_def)
    then have b: "account_ok b" using c a by (auto simp: account_ok_def)
    have started: "ac_workerStarted b" using c a Exchanging by (auto simp: account_ok_def)
    show ?thesis
    proof (cases token)
      case None
      then show ?thesis using b by (simp add: worker_answer_def Exchanging x)
    next
      case (Some t)
      have l: "account_ok (fst (SendLogoutRequest sd e t b))" by (rule account_ok_send_logout[OF b])
      have "account_ok ((fst (SendLogoutRequest sd e t b))\<lparr>ac_worker := LoggingOut\<rparr>)"
        by (rule account_ok_started[OF l]) (use started in \<open>simp_all add: send_logout_started\<close>)
      then show ?thesis using l Some by (simp add: worker_answer_def Exchanging x case_prod_unfold)
    qed
  qed (use a account_ok_idle in \<open>simp_all add: worker_answer_def\<close>)
qed

lemma account_step_ok: "account_ok a \<Longrightarrow> account_ok (fst (account_step p event a))"
proof (cases event)
  case UiShutdown
  then show "account_ok a \<Longrightarrow> ?thesis" by (simp add: Shutdown_begin_def account_ok_def)
next
  case UiShutdownEnd
  then show "account_ok a \<Longrightarrow> ?thesis" by (simp add: Shutdown_end_def account_ok_def)
next
  case UiConsumeNotification
  then show "account_ok a \<Longrightarrow> ?thesis" using account_ok_flow[of a "\<lambda>f. snd (ConsumeSignedOutNotification f)"] flow_ok_ops(5)
    by (simp add: account_ok_def)
qed (simp_all add: account_ok_begin account_ok_cancel account_ok_logout account_ok_signed_out account_ok_sync
  account_ok_retry account_ok_refresh_begin account_ok_refresh_answer account_ok_take account_ok_wake account_ok_answer)

text \<open>The account is a machine that keeps its invariant.\<close>

interpretation accounts: invariant_machine "\<lambda>event a. fst (account_step p event a)" account_ok for p
  by unfold_locales (rule account_step_ok)

section \<open>Pages opened\<close>

definition page_ok :: "AccountEffect \<Rightarrow> bool" where
  "page_ok x = (case x of Opened u \<Rightarrow> our_site u | Sent op j \<Rightarrow> True)"

lemma opened_ok: "flow_ok f \<Longrightarrow> list_all page_ok (opened f)"
  using our_site_opened[OF device_page_ours]
  by (auto simp: opened_def OpenVerificationBrowser_def page_ok_def flow_ok_def our_site_opened device_page_ours)

lemma logout_pages: "list_all page_ok (snd (SendLogoutRequest sd e token a))"
  by (simp add: SendLogoutRequest_def page_ok_def split: option.split prod.split)

lemma job_pages: "list_all page_ok (snd (run_job sd name version e job a))"
  using logout_pages[of sd e "wj_refreshToken job" a]
  by (cases "wj_command job")
    (simp_all add: run_job_def ExchangeAPIKey_begin_def Let_def page_ok_def case_prod_unfold split: sum.split option.split)

lemma answer_pages: "account_ok a \<Longrightarrow> list_all page_ok (snd (worker_answer sd parse answer e a))"
proof (cases "ac_worker a")
  case (Starting browser)
  assume "account_ok a"
  then have "flow_ok (snd (start_answer parse answer (ev_now e) (ac_flow a)))"
    by (simp add: flow_ok_start_answer account_ok_def)
  then show ?thesis using opened_ok by (simp add: worker_answer_def Starting case_prod_unfold)
next
  case (Exchanging run)
  then show ?thesis using logout_pages by (simp add: worker_answer_def case_prod_unfold split: option.split)
qed (simp_all add: worker_answer_def case_prod_unfold)

lemma step_pages: "account_ok a \<Longrightarrow> list_all page_ok (snd (account_step p event a))"
  by (cases event)
    (simp_all add: opened_ok answer_pages job_pages account_ok_def Refresh_begin_def worker_take_def worker_wake_def
      page_ok_def case_prod_unfold Let_def split: sum.split list.split)

lemma run_pages:
  "account_ok a \<Longrightarrow> list_all page_ok (concat (snd (run_out (account_step p) events a)))"
  by (induction events arbitrary: a) (simp_all add: step_pages account_step_ok)

section \<open>Generations\<close>

text \<open>\<open>c\<close> is at least \<open>lo\<close> and at most \<open>n\<close> steps ahead of the generation \<open>g\<close>.\<close>

definition ahead :: "nat \<Rightarrow> nat \<Rightarrow> 64 word \<Rightarrow> 64 word \<Rightarrow> bool" where
  "ahead lo n c g \<longleftrightarrow> (\<exists>k. lo \<le> k \<and> k \<le> n \<and> c = g + of_nat k)"

lemma ahead_refl: "ahead 0 n c c"
  by (auto simp: ahead_def intro: exI[of _ 0])

lemma ahead_more: "ahead lo n c g \<Longrightarrow> ahead lo (Suc n) c g"
  by (auto simp: ahead_def intro: le_SucI)

lemma ahead_next: "ahead lo n c g \<Longrightarrow> ahead (Suc lo) (Suc n) (c + 1) g"
proof -
  assume "ahead lo n c g"
  then obtain k where "lo \<le> k" "k \<le> n" "c = g + of_nat k" by (auto simp: ahead_def)
  then show ?thesis unfolding ahead_def by (intro exI[of _ "Suc k"]) (simp add: ac_simps)
qed

lemma ahead_weaken: "ahead (Suc lo) n c g \<Longrightarrow> ahead lo n c g"
  by (auto simp: ahead_def intro: Suc_leD)

lemma ahead_differs: "ahead (Suc 0) n c g \<Longrightarrow> n < 2 ^ 64 \<Longrightarrow> c \<noteq> g"
proof
  assume a: "ahead (Suc 0) n c g" and n: "n < 2 ^ 64" and "c = g"
  then obtain k where k: "0 < k" "k < 2 ^ 64" "(of_nat k :: 64 word) = 0" by (auto simp: ahead_def Suc_le_eq)
  then have "2 ^ 64 dvd k" by (simp add: word_of_nat_eq_0_iff)
  then show False using k(1,2) nat_dvd_not_less by blast
qed

definition generation :: "Account \<Rightarrow> 64 word" where
  "generation a = tk_authGeneration (ac_tokens a)"

definition runs_of :: "Account \<Rightarrow> 64 word set" where
  "runs_of a = {rf_generation run | run. ac_refresh a = Some run} \<union> {xr_generation run | run. ac_worker a = Exchanging run}"

definition has_secret :: "Account \<Rightarrow> bool" where
  "has_secret a = (account_refresh_token (ac_conf a) \<noteq> [] \<or> custom_api_key (ac_conf a) \<noteq> [])"

text \<open>What a step may do to them.\<close>

definition steps_on :: "Account \<Rightarrow> Account \<Rightarrow> bool" where
  "steps_on a b \<longleftrightarrow>
     (generation b = generation a \<or> generation b = generation a + 1) \<and>
     (\<forall>g \<in> runs_of b. g \<in> runs_of a \<or> g = generation a \<and> generation b = generation a \<and> has_secret a)"

lemma steps_on_same: "generation b = generation a \<Longrightarrow> runs_of b \<subseteq> runs_of a \<Longrightarrow> steps_on a b"
  by (auto simp: steps_on_def)

lemma steps_on_next: "generation b = generation a + 1 \<Longrightarrow> runs_of b \<subseteq> runs_of a \<Longrightarrow> steps_on a b"
  by (auto simp: steps_on_def)

lemma op_runs:
  "generation (on_flow f a) = generation a" "runs_of (on_flow f a) = runs_of a"
  "generation (ac_clear a) = generation a + 1" "runs_of (ac_clear a) = runs_of a"
  "generation (EnsureWorkerRunning a) = generation a" "runs_of (EnsureWorkerRunning a) \<subseteq> runs_of a"
  "generation (push_job job a) = generation a" "runs_of (push_job job a) = runs_of a"
  "generation (a\<lparr>ac_conf := conf\<rparr>) = generation a" "runs_of (a\<lparr>ac_conf := conf\<rparr>) = runs_of a"
  "generation (a\<lparr>ac_jobs := js\<rparr>) = generation a" "runs_of (a\<lparr>ac_jobs := js\<rparr>) = runs_of a"
  "generation (a\<lparr>ac_keyExchangeAttempted := v\<rparr>) = generation a" "runs_of (a\<lparr>ac_keyExchangeAttempted := v\<rparr>) = runs_of a"
  "generation (sync_credentials a) = generation a" "runs_of (sync_credentials a) = runs_of a"
  by (auto simp: generation_def runs_of_def on_flow_def ac_clear_def Clear_memory_def BumpAuthGeneration_def
      EnsureWorkerRunning_def push_job_def sync_credentials_def Let_def sync_tokens)

lemma worker_running_runs: "g \<in> runs_of (EnsureWorkerRunning a) \<Longrightarrow> g \<in> runs_of a"
  using op_runs(6) by blast

lemma sync_decision_steps: "steps_on a (sync_decision conf a)"
proof (cases "generation (sync_decision conf a) = generation a")
  case True
  moreover have "runs_of (sync_decision conf a) \<subseteq> runs_of a"
    using op_runs(6)[of "on_flow (SetState Migrating []) (a\<lparr>ac_keyExchangeAttempted := True\<rparr>)"]
    by (simp add: sync_decision_def Let_def op_runs)
  ultimately show ?thesis by (rule steps_on_same)
next
  case False
  then show ?thesis by (intro steps_on_next) (auto simp: sync_decision_def Let_def op_runs split: if_splits)
qed

lemma sync_steps: "steps_on a (SyncFromConfig a)"
proof -
  have "has_secret (sync_credentials a) \<Longrightarrow> has_secret a"
    by (simp add: has_secret_def sync_credentials_def Let_def split: if_splits)
  then show ?thesis
    using sync_decision_steps[of "sync_credentials a" "ac_conf a"]
    unfolding SyncFromConfig_def steps_on_def op_runs by blast
qed

lemma retry_steps: "steps_on a (RetryKeyMigrationAsync a)"
  using sync_steps[of "a\<lparr>ac_keyExchangeAttempted := False\<rparr>"]
  by (simp add: RetryKeyMigrationAsync_def steps_on_def op_runs has_secret_def)

lemma begin_steps: "steps_on a (BeginSignInAsync browser a)"
proof -
  define b where "b = CancelAuthorization a"
  define c where "c = b\<lparr>ac_tokens := BumpAuthGeneration (ac_tokens b)\<rparr>"
  have "generation c = generation a + 1" "runs_of c = runs_of a"
    by (simp_all add: c_def b_def CancelAuthorization_def generation_def runs_of_def on_flow_def BumpAuthGeneration_def)
  then show ?thesis
    using op_runs(6)[of c] unfolding BeginSignInAsync_def Let_def b_def[symmetric] c_def[symmetric]
    by (intro steps_on_next) (simp_all add: op_runs)
qed

lemma signed_out_steps: "generation (signed_out a) = generation a + 1" "runs_of (signed_out a) = runs_of a"
  by (simp_all add: signed_out_def CancelAuthorization_def op_runs)

lemma logout_steps: "generation (LogoutAsync a) = generation a + 1" "runs_of (LogoutAsync a) \<subseteq> runs_of a"
  using signed_out_steps[of a] op_runs(6)[of "signed_out a"] by (simp_all add: LogoutAsync_def Let_def op_runs)

lemma marked_steps: "steps_on a (MarkSignedOut reason a)"
  by (rule steps_on_next) (simp_all add: MarkSignedOut_def op_runs)

lemma queue_logout_steps:
  "generation (QueueLogoutForRotatedToken p r a) = generation a" "runs_of (QueueLogoutForRotatedToken p r a) \<subseteq> runs_of a"
  using op_runs(6)[of a] by (simp_all add: QueueLogoutForRotatedToken_def Let_def op_runs)

lemma refresh_begin_steps: "steps_on a (fst (Refresh_begin sd e a))"
proof -
  obtain x conf tk where b: "refresh_begin sd (ev_seed e) (ev_random e) (ev_now e) (ac_conf a, ac_tokens a) = (x, conf, tk)"
    by (metis prod_cases3)
  show ?thesis
    using refresh_begin_frame[OF b]
    by (cases x) (auto simp: Refresh_begin_def b steps_on_def generation_def runs_of_def has_secret_def split: prod.split)
qed

lemma callback_steps:
  "generation (refresh_callback action a) = (if action = OnRejected then generation a + 1 else generation a)"
  "runs_of (refresh_callback action a) \<subseteq> runs_of a"
  using queue_logout_steps by (cases action; simp add: MarkSignedOut_def op_runs)+

lemma refresh_answer_steps: "steps_on a (Refresh_answer parse answer e a)"
proof (cases "ac_refresh a")
  case (Some run)
  obtain action conf tk where r: "refresh_answer parse answer (ev_now e) run (ac_conf a, ac_tokens a) = (action, conf, tk)"
    by (metis prod_cases3)
  define b where "b = refresh_callback action (a\<lparr>ac_conf := conf, ac_tokens := tk\<rparr>)"
  have "generation (a\<lparr>ac_conf := conf, ac_tokens := tk\<rparr>) = generation a" "runs_of (a\<lparr>ac_conf := conf, ac_tokens := tk\<rparr>) = runs_of a"
    using refresh_answer_cases[OF r] by (auto simp: generation_def runs_of_def)
  then have "generation b \<in> {generation a, generation a + 1}" "runs_of b \<subseteq> runs_of a"
    using callback_steps[of action "a\<lparr>ac_conf := conf, ac_tokens := tk\<rparr>"] by (simp_all add: b_def)
  moreover have "Refresh_answer parse answer e a =
      b\<lparr>ac_tokens := refresh_finish (action = OnSuccess) (ac_tokens b), ac_refresh := None\<rparr>"
    by (simp add: Refresh_answer_def Some r b_def Let_def)
  ultimately show ?thesis by (auto simp: steps_on_def generation_def runs_of_def refresh_finish_def)
qed (simp add: Refresh_answer_def steps_on_same)

lemma send_logout_runs:
  "generation (fst (SendLogoutRequest sd e token a)) = generation a" "runs_of (fst (SendLogoutRequest sd e token a)) = runs_of a"
  using SendLogoutRequest_conf[of sd e token a] by (auto simp: op_runs)

lemma worker_runs:
  "(\<And>run. w \<noteq> Exchanging run) \<Longrightarrow>
   generation (a\<lparr>ac_worker := w\<rparr>) = generation a \<and> runs_of (a\<lparr>ac_worker := w\<rparr>) \<subseteq> runs_of a"
  by (auto simp: generation_def runs_of_def)

lemma exchange_failed_runs: "generation (exchange_failed g m a) = generation a" "runs_of (exchange_failed g m a) = runs_of a"
  by (simp_all add: exchange_failed_def op_runs)

lemma exchange_begin_steps: "steps_on a (fst (ExchangeAPIKey_begin sd name version e g a))"
proof -
  obtain key conf where k: "EnsureDeviceKey sd (ev_seed e) (ac_conf a) = (key, conf)" by fastforce
  show ?thesis
    by (cases key)
      (auto simp: ExchangeAPIKey_begin_def Let_def k steps_on_def exchange_failed_runs op_runs,
        auto simp: generation_def runs_of_def has_secret_def)
qed

lemma run_job_steps: "steps_on a (fst (run_job sd name version e job a))"
proof (cases "wj_command job")
  case StartSignIn
  then show ?thesis
    by (auto simp: run_job_def steps_on_def generation_def runs_of_def case_prod_unfold split: sum.split)
next
  case ExchangeAPIKey
  then show ?thesis using exchange_begin_steps by (simp add: run_job_def)
next
  case LogoutJob
  then show ?thesis
    using send_logout_runs[of sd e "wj_refreshToken job" a]
      worker_runs[of LoggingOut "fst (SendLogoutRequest sd e (wj_refreshToken job) a)"]
    by (intro steps_on_same) (auto simp: run_job_def case_prod_unfold)
qed

lemma take_steps: "steps_on a (fst (worker_take sd name version e a))"
proof (cases "ac_jobs a")
  case (Cons job jobs)
  have "has_secret (a\<lparr>ac_jobs := jobs\<rparr>) = has_secret a" by (simp add: has_secret_def)
  then show ?thesis
    using run_job_steps[of "a\<lparr>ac_jobs := jobs\<rparr>" sd name version e job]
    by (simp add: worker_take_def Cons steps_on_def op_runs)
qed (simp add: worker_take_def steps_on_same)

lemma wake_steps: "steps_on a (fst (worker_wake sd e a))"
  by (rule steps_on_same)
    (auto simp: worker_wake_def Let_def generation_def runs_of_def case_prod_unfold split: sum.splits if_splits)

lemma answer_steps: "steps_on a (fst (worker_answer sd parse answer e a))"
proof (cases "ac_worker a")
  case (Starting browser)
  then show ?thesis
    by (intro steps_on_same) (auto simp: worker_answer_def generation_def runs_of_def case_prod_unfold)
next
  case (Polling final run)
  obtain result conf tk f where r:
    "poll_answer parse answer run (ac_conf a, ac_tokens a, ac_flow a) = (result, conf, tk, f)" by (metis prod_cases4)
  show ?thesis
    using poll_answer_cases(1)[OF r] Polling
    by (auto simp: worker_answer_def r steps_on_def generation_def runs_of_def)
next
  case (Exchanging run)
  obtain token b where x: "exchange_answer parse answer run (a\<lparr>ac_worker := Idle\<rparr>) = (token, b)" by fastforce
  have b: "generation b \<in> {generation a, generation a + 1}" "runs_of b \<subseteq> runs_of a"
    using exchange_answer_cases[OF x] by (auto simp: generation_def runs_of_def)
  show ?thesis
  proof (cases token)
    case None
    then show ?thesis using b by (auto simp: worker_answer_def Exchanging x steps_on_def)
  next
    case (Some t)
    then show ?thesis
      using b send_logout_runs[of sd e t b] worker_runs[of LoggingOut "fst (SendLogoutRequest sd e t b)"]
      by (auto simp: worker_answer_def Exchanging x steps_on_def case_prod_unfold)
  qed
qed (use worker_runs[of Idle a] in \<open>simp_all add: worker_answer_def steps_on_same\<close>)

lemma step_steps: "steps_on a (fst (account_step p event a))"
proof (cases event)
  case UiLogout
  then show ?thesis using logout_steps[of a] by (simp add: steps_on_next)
next
  case UiShutdownEnd
  then show ?thesis by (intro steps_on_same) (auto simp: Shutdown_end_def generation_def runs_of_def)
next
  case UiShutdown
  then show ?thesis by (intro steps_on_same) (auto simp: Shutdown_begin_def generation_def runs_of_def)
qed (simp_all add: begin_steps marked_steps sync_steps retry_steps refresh_begin_steps refresh_answer_steps
  take_steps wake_steps answer_steps steps_on_same CancelAuthorization_def op_runs)

text \<open>Every run under way is at most as old as the steps so far.\<close>

definition fresh :: "nat \<Rightarrow> nat \<Rightarrow> Account \<Rightarrow> bool" where
  "fresh lo n a \<longleftrightarrow> (\<forall>g \<in> runs_of a. ahead lo n (generation a) g)"

lemma fresh_step: "fresh 0 n a \<Longrightarrow> fresh 0 (Suc n) (fst (account_step p event a))"
  using step_steps[of a p event] ahead_more ahead_next ahead_refl ahead_weaken
  unfolding fresh_def steps_on_def by metis

lemma fresh_step_stale: "fresh (Suc 0) n a \<Longrightarrow> \<not> has_secret a \<Longrightarrow> fresh (Suc 0) (Suc n) (fst (account_step p event a))"
  using step_steps[of a p event] ahead_more ahead_next ahead_weaken
  unfolding fresh_def steps_on_def by metis

lemma fresh_init: "fresh 0 0 (AccountClient_new conf)"
proof -
  have "runs_of (AccountClient_new conf) \<subseteq> {}"
    using sync_steps[of "Account0 conf"] unfolding AccountClient_new_def
    by (auto simp: runs_of_def Account0_def SyncFromConfig_def sync_decision_def sync_credentials_def Let_def on_flow_def
        EnsureWorkerRunning_def push_job_def ac_clear_def split: if_splits)
  then show ?thesis by (simp add: fresh_def)
qed

lemma fresh_run: "fresh 0 n a \<Longrightarrow> fresh 0 (n + length es) (fst (run_out (account_step p) es a))"
  by (induction es arbitrary: n a) (use fresh_step in \<open>fastforce simp del: account_step.simps\<close>)+

section \<open>After a logout\<close>

definition starts_sign_in :: "Account \<Rightarrow> bool" where
  "starts_sign_in a = ((\<exists>browser. ac_worker a = Starting browser) \<or> StartSignIn \<in> wj_command ` set (ac_jobs a))"

definition locked :: "Account \<Rightarrow> bool" where
  "locked a \<longleftrightarrow> \<not> has_secret a \<and> af_cancelRequested (ac_flow a) \<and> \<not> starts_sign_in a"

lemma locked_ops:
  assumes "locked a"
  shows "locked (on_flow (SetState state m) a)" "locked (ac_clear a)" "locked (EnsureWorkerRunning a)"
    "locked (CancelAuthorization a)" "locked (MarkSignedOut m a)" "locked (a\<lparr>ac_keyExchangeAttempted := v\<rparr>)"
    "wj_command job \<noteq> StartSignIn \<Longrightarrow> locked (push_job job a)" "locked (sync_credentials a)"
    "locked (a\<lparr>ac_tokens := tk\<rparr>)" "locked (a\<lparr>ac_refresh := r\<rparr>)" "locked (a\<lparr>ac_worker := Idle\<rparr>)"
    "locked (a\<lparr>ac_worker := LoggingOut\<rparr>)" "locked (exchange_failed g m a)"
  using assms
  by (auto simp: locked_def has_secret_def starts_sign_in_def on_flow_def SetState_def ac_clear_def Clear_config_def
      EnsureWorkerRunning_def CancelAuthorization_def Flow_CancelAuthorization_def clear_codes_def MarkSignedOut_def
      Flow_MarkSignedOut_def push_job_def sync_credentials_def exchange_failed_def Let_def)

lemma locked_sync: "locked a \<Longrightarrow> locked (SyncFromConfig a)"
proof -
  assume a: "locked a"
  then have "account_refresh_token (ac_conf a) = []" "custom_api_key (ac_conf a) = []"
    by (simp_all add: locked_def has_secret_def)
  then show ?thesis using locked_ops(8)[OF a] by (simp add: SyncFromConfig_def sync_decision_def locked_ops)
qed

lemma locked_retry: "locked a \<Longrightarrow> locked (RetryKeyMigrationAsync a)"
  by (simp add: RetryKeyMigrationAsync_def locked_sync locked_ops)

lemma locked_signed_out: "\<not> starts_sign_in a \<Longrightarrow> locked (signed_out a)"
  by (auto simp: locked_def has_secret_def starts_sign_in_def signed_out_def on_flow_def SetState_def ac_clear_def
      Clear_config_def CancelAuthorization_def Flow_CancelAuthorization_def clear_codes_def)

lemma locked_logout: "\<not> starts_sign_in a \<Longrightarrow> locked (LogoutAsync a)"
  using locked_signed_out[of a] by (simp add: LogoutAsync_def Let_def locked_ops logout_job_def)

lemma update_first: "x \<notin> f ` set ys \<Longrightarrow> (\<And>j. f (g j) = f j) \<Longrightarrow> x \<notin> f ` set (case ys of [] \<Rightarrow> [] | j # js \<Rightarrow> g j # js)"
  by (cases ys) auto

lemma locked_jobs: "locked a \<Longrightarrow> StartSignIn \<notin> wj_command ` set js \<Longrightarrow> locked (a\<lparr>ac_jobs := js\<rparr>)"
  by (simp add: locked_def has_secret_def starts_sign_in_def)

lemma locked_queue_logout: "locked a \<Longrightarrow> locked (QueueLogoutForRotatedToken p r a)"
proof -
  let ?P = "\<lambda>job. \<not> (wj_command job = LogoutJob \<and> wj_refreshToken job = p)"
  let ?rest = "case dropWhile ?P (ac_jobs a) of [] \<Rightarrow> [] | job # jobs \<Rightarrow> job\<lparr>wj_refreshToken := r\<rparr> # jobs"
  assume a: "locked a"
  have "StartSignIn \<notin> wj_command ` set (takeWhile ?P (ac_jobs a))"
    using a set_takeWhileD[of _ ?P "ac_jobs a"] unfolding locked_def starts_sign_in_def by blast
  moreover have "StartSignIn \<notin> wj_command ` set (dropWhile ?P (ac_jobs a))"
    using a set_dropWhileD[of _ ?P "ac_jobs a"] unfolding locked_def starts_sign_in_def by blast
  then have "StartSignIn \<notin> wj_command ` set ?rest" by (rule update_first) simp
  ultimately have "StartSignIn \<notin> wj_command ` set (takeWhile ?P (ac_jobs a) @ ?rest)"
    unfolding set_append image_Un by blast
  from locked_jobs[OF a this] show ?thesis
    using a by (simp add: QueueLogoutForRotatedToken_def Let_def locked_ops logout_job_def)
qed

lemma locked_refresh_begin: "locked a \<Longrightarrow> locked (fst (Refresh_begin sd e a))"
proof -
  assume a: "locked a"
  obtain x conf tk where b: "refresh_begin sd (ev_seed e) (ev_random e) (ev_now e) (ac_conf a, ac_tokens a) = (x, conf, tk)"
    by (metis prod_cases3)
  show ?thesis
    using a refresh_begin_frame[OF b]
    by (cases x) (auto simp: Refresh_begin_def b locked_def has_secret_def starts_sign_in_def split: prod.split)
qed

lemma locked_callback: "locked a \<Longrightarrow> locked (refresh_callback action a)"
  by (cases action) (simp_all add: locked_ops locked_queue_logout)

lemma locked_refresh_answer:
  assumes "locked a" and "\<forall>g \<in> runs_of a. g \<noteq> generation a"
  shows "locked (Refresh_answer parse answer e a)"
proof (cases "ac_refresh a")
  case (Some run)
  obtain action conf tk where r: "refresh_answer parse answer (ev_now e) run (ac_conf a, ac_tokens a) = (action, conf, tk)"
    by (metis prod_cases3)
  have "rf_generation run \<noteq> tk_authGeneration (ac_tokens a)"
    using assms(2) Some by (auto simp: runs_of_def generation_def)
  then have "conf = ac_conf a" "tk = ac_tokens a" using refresh_answer_cases[OF r] by auto
  then have "locked (refresh_callback action (a\<lparr>ac_conf := conf, ac_tokens := tk\<rparr>))"
    using assms(1) by (intro locked_callback) simp
  then show ?thesis by (simp add: Refresh_answer_def Some r Let_def locked_ops)
qed (simp add: Refresh_answer_def assms)

lemma locked_send_logout: "locked a \<Longrightarrow> locked (fst (SendLogoutRequest sd e token a))"
  using SendLogoutRequest_conf[of sd e token a] by (auto simp: locked_def has_secret_def starts_sign_in_def)

lemma locked_take: "locked a \<Longrightarrow> locked (fst (worker_take sd name version e a))"
proof (cases "ac_jobs a")
  case (Cons job jobs)
  assume a: "locked a"
  then have j: "locked (a\<lparr>ac_jobs := jobs\<rparr>)" "wj_command job \<noteq> StartSignIn"
    by (auto simp: locked_def has_secret_def starts_sign_in_def Cons)
  have "locked (fst (run_job sd name version e job (a\<lparr>ac_jobs := jobs\<rparr>)))"
  proof (cases "wj_command job")
    case ExchangeAPIKey
    then show ?thesis
      using j a by (simp add: run_job_def ExchangeAPIKey_begin_def Let_def locked_def has_secret_def)
  next
    case LogoutJob
    then show ?thesis
      using locked_send_logout[OF j(1)] by (simp add: run_job_def case_prod_unfold locked_ops)
  qed (use j in simp)
  then show ?thesis using a by (simp add: worker_take_def Cons)
qed (simp add: worker_take_def)

lemma locked_wake: "locked a \<Longrightarrow> locked (fst (worker_wake sd e a))"
  using locked_ops(11)[of a]
  by (auto simp: worker_wake_def poll_begin_def Let_def locked_def has_secret_def starts_sign_in_def)

lemma locked_answer:
  assumes "locked a" and "\<forall>g \<in> runs_of a. g \<noteq> generation a"
  shows "locked (fst (worker_answer sd parse answer e a))"
proof (cases "ac_worker a")
  case (Starting browser)
  then show ?thesis using assms(1) by (simp add: locked_def starts_sign_in_def)
next
  case (Polling final run)
  obtain result conf tk f where r:
    "poll_answer parse answer run (ac_conf a, ac_tokens a, ac_flow a) = (result, conf, tk, f)" by (metis prod_cases4)
  have "conf = ac_conf a" "af_cancelRequested f"
    using poll_answer_cases[OF r] assms(1) by (auto simp: locked_def)
  then show ?thesis
    using assms(1) Polling by (auto simp: worker_answer_def r locked_def has_secret_def starts_sign_in_def)
next
  case (Exchanging run)
  obtain token b where x: "exchange_answer parse answer run (a\<lparr>ac_worker := Idle\<rparr>) = (token, b)" by fastforce
  have "xr_generation run \<noteq> tk_authGeneration (ac_tokens a)"
    using assms(2) Exchanging by (auto simp: runs_of_def generation_def)
  then have "locked b"
    using exchange_answer_cases[OF x] assms(1)
    by (auto simp: locked_def has_secret_def starts_sign_in_def SetState_def)
  then show ?thesis
    using locked_send_logout[of b]
    by (simp add: worker_answer_def Exchanging x case_prod_unfold locked_ops split: option.split)
qed (use assms locked_ops(11)[of a] in \<open>simp_all add: worker_answer_def\<close>)

lemma locked_step:
  assumes "locked a" and "\<forall>g \<in> runs_of a. g \<noteq> generation a" and "\<And>browser. event \<noteq> UiBeginSignIn browser"
  shows "locked (fst (account_step p event a))"
proof (cases event)
  case UiConsumeNotification
  then show ?thesis
    using assms(1) by (auto simp: locked_def has_secret_def starts_sign_in_def on_flow_def ConsumeSignedOutNotification_def)
next
  case UiShutdown
  then show ?thesis using assms(1) by (auto simp: locked_def has_secret_def starts_sign_in_def Shutdown_begin_def)
next
  case UiShutdownEnd
  then show ?thesis using assms(1) by (auto simp: locked_def has_secret_def starts_sign_in_def Shutdown_end_def)
next
  case UiLogout
  then show ?thesis using locked_logout[of a] assms(1) by (simp add: locked_def)
qed (use assms in \<open>simp_all add: locked_ops locked_sync locked_retry locked_refresh_begin locked_refresh_answer locked_take
  locked_wake locked_answer\<close>)

definition begins_sign_in :: "AccountEvent \<Rightarrow> bool" where
  "begins_sign_in event = (\<exists>browser. event = UiBeginSignIn browser)"

lemma locked_run:
  "locked a \<Longrightarrow> fresh (Suc 0) n a \<Longrightarrow> n + length es < 2 ^ 64 \<Longrightarrow> list_all (\<lambda>x. \<not> begins_sign_in x) es \<Longrightarrow>
   locked (fst (run_out (account_step p) es a))"
proof (induction es arbitrary: n a)
  case (Cons event es)
  have "\<forall>g \<in> runs_of a. g \<noteq> generation a"
    using Cons.prems(2,3) ahead_differs by (fastforce simp: fresh_def)
  then have "locked (fst (account_step p event a))"
    using Cons.prems(1,4) by (intro locked_step) (auto simp: begins_sign_in_def)
  moreover have "fresh (Suc 0) (Suc n) (fst (account_step p event a))"
    using Cons.prems(1,2) by (intro fresh_step_stale) (simp_all add: locked_def)
  ultimately show ?case using Cons.IH[of "fst (account_step p event a)" "Suc n"] Cons.prems(3,4) by simp
qed simp

section \<open>Properties\<close>



definition sample_env :: Env where
  "sample_env = \<lparr>ev_seed = replicate 32 (CHR ''s''), ev_random = ''r'', ev_now = 1000, ev_later = 1000, ev_slept = True\<rparr>"

definition sample_grant :: Response where
  "sample_grant = \<lparr>rs_transportError = 0, rs_status = 200, rs_body = ''grant'', rs_retryAfterSeconds = 0, rs_updateRequired = False\<rparr>"

definition sample_parse :: "string \<Rightarrow> json option" where
  "sample_parse t =
     (if t = ''grant'' then Some (JObject [(''access_token'', JString ''a''), (''refresh_token'', JString ''new'')])
      else if t = ''code'' then Some (JObject [(''device_code'', JString ''d''), (''user_code'', JString ''u'')])
      else None)"

definition sample_account_params :: AccountParams where
  "sample_account_params =
     \<lparr>ap_sodium = sample_sodium\<lparr>sd_sha256 := (\<lambda>t. ''h'')\<rparr>, ap_parse = sample_parse, ap_deviceName = ''pc'',
      ap_appVersion = ''1''\<rparr>"

definition sample_saved :: AccountConfig where
  "sample_saved = AccountConfig0\<lparr>account_refresh_token := ''old''\<rparr>"

definition sample_refreshing :: Account where
  "sample_refreshing =
     fst (run_out (account_step sample_account_params) [RefreshStarts sample_env] (AccountClient_new sample_saved))"

lemma sample_refreshing_idle: "ac_worker sample_refreshing = Idle \<and> ac_jobs sample_refreshing = [] \<and>
    map_option rf_generation (ac_refresh sample_refreshing) = Some 0"
  by code_simp


text \<open>
  C27: The answer to a refresh that began before the last sign-in still counts: when the old token is rejected, the
  credentials of the new sign-in are discarded and the user is told that the session expired.
\<close>

theorem stale_rejection_signs_out:
  assumes "ac_refresh a = Some run" and "rf_generation run \<noteq> tk_authGeneration (ac_tokens a)"
    and "rs_status answer = 401 \<or> rs_status answer = 403" and "rs_transportError answer = 0"
    and "\<not> rs_updateRequired answer"
  shows "let b = Refresh_answer parse answer e a
     in account_refresh_token (ac_conf b) = [] \<and> tk_accessToken (ac_tokens b) = [] \<and>
        af_state (ac_flow b) = AuthError \<and> af_pendingSignedOutToast (ac_flow b) = session_expired"
proof -
  have "refresh_answer parse answer (ev_now e) run (ac_conf a, ac_tokens a) = (OnRejected, ac_conf a, ac_tokens a)"
    using assms(3-5) by (auto simp: refresh_answer_def Send_def Let_def)
  then show ?thesis
    using assms(1)
    by (simp add: Refresh_answer_def Let_def MarkSignedOut_def on_flow_def ac_clear_def Clear_config_def Clear_memory_def
        BumpAuthGeneration_def refresh_finish_def Flow_MarkSignedOut_def SetState_def clear_codes_def session_expired_def)
qed

definition sample_signed_in_anew :: Account where
  "sample_signed_in_anew =
     fst (run_out (account_step sample_account_params)
       [UiBeginSignIn True, WorkerTakes sample_env, WorkerAnswered (sample_grant\<lparr>rs_body := ''code''\<rparr>) sample_env,
        WorkerWakes sample_env, WorkerAnswered sample_grant sample_env] sample_refreshing)"

lemma sample_signed_in_anew_state:
  "account_refresh_token (ac_conf sample_signed_in_anew) = ''new'' \<and>
   map_option rf_generation (ac_refresh sample_signed_in_anew) = Some 0 \<and>
   tk_authGeneration (ac_tokens sample_signed_in_anew) = 2"
  by code_simp

theorem stale_rejection_signs_out_witness:
  "account_refresh_token (ac_conf sample_signed_in_anew) = ''new'' \<and>
   account_refresh_token (ac_conf (Refresh_answer sample_parse (sample_grant\<lparr>rs_status := 401\<rparr>) sample_env
     sample_signed_in_anew)) = []"
proof -
  obtain run where "ac_refresh sample_signed_in_anew = Some run" "rf_generation run = 0"
    using sample_signed_in_anew_state by auto
  then show ?thesis
    using stale_rejection_signs_out[of sample_signed_in_anew run "sample_grant\<lparr>rs_status := 401\<rparr>" sample_parse sample_env]
      sample_signed_in_anew_state
    by (simp add: sample_grant_def Let_def)
qed

text \<open>
  Cancelling a sign-in while its first request is under way is lost: when the answer comes, the approval is
  awaited as if nobody had cancelled.
\<close>

theorem cancel_during_start_is_lost:
  assumes "ac_worker a = Starting browser"
    and "sa_ok (fst (start_answer (ap_parse p) answer (ev_now e) (ac_flow (CancelAuthorization a))))"
  shows "let b = fst (run_out (account_step p) [UiCancel, WorkerAnswered answer e] a)
     in af_state (ac_flow b) = AwaitingApproval \<and> \<not> af_cancelRequested (ac_flow b) \<and> ac_worker b = Sleeping"
proof -
  have w: "ac_worker (CancelAuthorization a) = Starting browser"
    using assms(1) by (simp add: CancelAuthorization_def on_flow_def)
  show ?thesis
  proof (cases rule: start_answer_cases[of "ap_parse p" answer "ev_now e" "ac_flow (CancelAuthorization a)"])
    case (failed result message)
    then show ?thesis using assms(2) by simp
  next
    case (awaiting j r)
    then show ?thesis by (simp add: worker_answer_def w begin_awaiting_def SetState_def Let_def)
  qed
qed

definition sample_starting :: Account where
  "sample_starting =
     fst (run_out (account_step sample_account_params) [UiBeginSignIn True, WorkerTakes sample_env]
       (AccountClient_new AccountConfig0))"

lemma sample_starting_state:
  "ac_worker sample_starting = Starting True \<and>
   sa_ok (fst (start_answer sample_parse (sample_grant\<lparr>rs_body := ''code''\<rparr>) 1000 (ac_flow (CancelAuthorization sample_starting))))"
  by code_simp

theorem cancel_during_start_is_lost_witness:
  "af_state (ac_flow (fst (run_out (account_step sample_account_params)
     [UiCancel, WorkerAnswered (sample_grant\<lparr>rs_body := ''code''\<rparr>) sample_env] sample_starting))) = AwaitingApproval"
  using cancel_during_start_is_lost[of sample_starting True sample_account_params "sample_grant\<lparr>rs_body := ''code''\<rparr>" sample_env]
    sample_starting_state
  by (simp add: sample_account_params_def sample_env_def Let_def)

section \<open>Shutting down during a sign-in\<close>

text \<open>The rounds of the poll loop: it wakes up, asks, and gets an answer.\<close>

definition poll_rounds :: "(Env \<times> Response \<times> Env) list \<Rightarrow> AccountEvent list" where
  "poll_rounds rounds = concat (map (\<lambda>(e, answer, e'). [WorkerWakes e, WorkerAnswered answer e']) rounds)"

text \<open>A round before the code expires whose request is aborted or does not reach the service.\<close>

definition silent :: "int \<Rightarrow> Env \<times> Response \<times> Env \<Rightarrow> bool" where
  "silent expires = (\<lambda>(e, answer, e').
     ev_slept e \<and> ev_now e < expires \<and> ev_later e < expires \<and> length (ev_seed e) = 32 \<and>
     rs_transportError answer \<noteq> 0 \<and> \<not> rs_updateRequired answer \<and> rs_status answer \<noteq> 426)"

definition waiting :: "AuthFlow \<Rightarrow> Account \<Rightarrow> bool" where
  "waiting f a \<longleftrightarrow>
     ac_worker a = Sleeping \<and> ac_flow a = f \<and> \<not> af_cancelRequested f \<and> af_deviceCode f \<noteq> []"

lemma device_key_found: "sodium_ok sd \<Longrightarrow> length seed = 32 \<Longrightarrow> \<exists>pair conf'. EnsureDeviceKey sd seed conf = (Some pair, conf')"
  using seed_pair_id[of sd seed] by (auto simp: EnsureDeviceKey_def Let_def split: option.split)

lemma waiting_round:
  assumes "waiting f a" and "sodium_ok (ap_sodium p)" and "silent (af_expiresAtUnix f) (e, answer, e')"
  shows "waiting f (fst (run_out (account_step p) [WorkerWakes e, WorkerAnswered answer e'] a))"
proof -
  have live: "\<not> af_expiresAtUnix f \<le> ev_now e" "\<not> af_expiresAtUnix f \<le> ev_later e" "ev_slept e" "length (ev_seed e) = 32"
    "rs_transportError answer \<noteq> 0" "\<not> rs_updateRequired answer" "rs_status answer \<noteq> 426"
    using assms(3) by (simp_all add: silent_def)
  obtain pair conf where k: "EnsureDeviceKey (ap_sodium p) (ev_seed e) (ac_conf a) = (Some pair, conf)"
    using device_key_found[OF assms(2) live(4), of "ac_conf a"] by blast
  define run where "run = \<lparr>pr_deviceCode = af_deviceCode f, pr_pollInterval = af_pollIntervalSeconds f,
      pr_now = ev_later e, pr_publicId = kp_id pair\<rparr>"
  have w: "fst (account_step p (WorkerWakes e) a) = a\<lparr>ac_conf := conf, ac_worker := Polling False run\<rparr>"
    using assms(1) live(1-3) by (simp add: worker_wake_def poll_begin_def k waiting_def Let_def run_def)
  have "poll_answer (ap_parse p) answer run (conf, ac_tokens a, f) =
      (poll_result PollPending (pr_pollInterval run) [] [], conf, ac_tokens a, f)"
    using assms(1) live(5-7) by (simp add: poll_answer_def Send_def waiting_def Let_def)
  then have "fst (account_step p (WorkerAnswered answer e') (a\<lparr>ac_conf := conf, ac_worker := Polling False run\<rparr>)) =
      a\<lparr>ac_conf := conf, ac_worker := Sleeping\<rparr>"
    using assms(1) by (simp add: worker_answer_def waiting_def goes_on_def poll_result_def PollResult0_def)
  then show ?thesis using assms(1) unfolding run_out_Cons w by (simp add: waiting_def)
qed

lemma waiting_rounds:
  "waiting f a \<Longrightarrow> sodium_ok (ap_sodium p) \<Longrightarrow> list_all (silent (af_expiresAtUnix f)) rounds \<Longrightarrow>
   waiting f (fst (run_out (account_step p) (poll_rounds rounds) a))"
proof (induction rounds arbitrary: a)
  case (Cons r rounds)
  obtain e answer e' where r: "r = (e, answer, e')" by (metis prod_cases3)
  have "waiting f (fst (run_out (account_step p) [WorkerWakes e, WorkerAnswered answer e'] a))"
    using Cons.prems r by (intro waiting_round) simp_all
  from Cons.IH[OF this] Cons.prems show ?case
    unfolding poll_rounds_def r by (simp del: account_step.simps)
qed (simp add: poll_rounds_def)

text \<open>
  C28: Shutting the account down does not end a sign-in that waits for approval: until the code expires the worker
  keeps polling, although its requests are aborted, so the wait for it does not return.
\<close>

theorem shutdown_waits_for_sign_in:
  assumes "ac_worker a = Sleeping" and "\<not> af_cancelRequested (ac_flow a)" and "af_deviceCode (ac_flow a) \<noteq> []"
    and "sodium_ok (ap_sodium p)" and "list_all (silent (af_expiresAtUnix (ac_flow a))) rounds"
  shows "let b = fst (run_out (account_step p) (UiShutdown # poll_rounds rounds) a)
     in ac_worker b = Sleeping \<and> ac_workerStarted (Shutdown_end b) = ac_workerStarted b"
proof -
  have "waiting (ac_flow a) (Shutdown_begin a)" using assms(1-3) by (simp add: waiting_def Shutdown_begin_def)
  from waiting_rounds[OF this assms(4,5)] show ?thesis by (simp add: waiting_def Shutdown_end_def Let_def)
qed

definition sample_polled :: Account where
  "sample_polled =
     fst (run_out (account_step sample_account_params)
       [WorkerAnswered (sample_grant\<lparr>rs_body := ''code''\<rparr>) sample_env] sample_starting)"

lemma sample_waiting_state:
  "ac_worker sample_polled = Sleeping \<and> \<not> af_cancelRequested (ac_flow sample_polled) \<and>
   af_deviceCode (ac_flow sample_polled) = ''d'' \<and> af_expiresAtUnix (ac_flow sample_polled) = 1900"
  by code_simp

theorem shutdown_waits_for_sign_in_witness:
  "ac_worker (fst (run_out (account_step sample_account_params)
     (UiShutdown # poll_rounds (replicate 100 (sample_env, sample_grant\<lparr>rs_transportError := 42\<rparr>, sample_env)))
     sample_polled)) = Sleeping"
proof -
  have "sodium_ok (ap_sodium sample_account_params)"
    using sample_sodium_ok by (simp add: sample_account_params_def)
  moreover have "list_all (silent 1900) (replicate 100 (sample_env, sample_grant\<lparr>rs_transportError := 42\<rparr>, sample_env))"
    by (simp add: list_all_iff silent_def sample_env_def sample_grant_def)
  ultimately show ?thesis
    using shutdown_waits_for_sign_in[of sample_polled sample_account_params] sample_waiting_state unfolding Let_def by simp
qed

end
