(* ===== verification/Release_Manifest.thy ===== *)
theory Release_Manifest
  imports Config_Service Analytics_Json Text_Format
begin

text \<open>
  The signed description of a release: \<open>updater/ReleaseManifest.cpp\<close>, with the comparison of versions
  of \<open>updater/UpdaterCommon.cpp\<close>, \<open>DownloadString\<close> of \<open>updater/UpdaterDownload.cpp\<close> and the keys of
  \<open>network/http/SigningConfig.hpp\<close>. The JSON library's parser, libsodium (the record \<open>release_crypto\<close>)
  and what curl brings for a URL are arguments.
\<close>

section \<open>Versions\<close>

definition upd_blank :: "char \<Rightarrow> bool" where
  "upd_blank c = (c = CHR '' '' \<or> c = CHR 0x09 \<or> c = CHR 0x0D \<or> c = CHR 0x0A)"

definition Upd_Trim :: "string \<Rightarrow> string" where
  "Upd_Trim s = rev (dropWhile upd_blank (rev (dropWhile upd_blank s)))"

text \<open>
  The local function \<open>component\<close>: the digits before the next dot without leading zeros, or nothing if
  there is another character, and what follows the dot. A position in the text is the rest behind it.
\<close>

definition version_component :: "string \<Rightarrow> string \<times> string" where
  "version_component version =
     (let part = takeWhile (\<lambda>c. c \<noteq> CHR ''.'') version;
          digits = dropWhile (\<lambda>c. c = CHR ''0'') part
      in (if list_all is_digit digits then digits else [], tl (dropWhile (\<lambda>c. c \<noteq> CHR ''.'') version)))"

text \<open>The comparison of two \<open>string_view\<close>s.\<close>

fun text_less :: "string \<Rightarrow> string \<Rightarrow> bool" where
  "text_less _ [] = False"
| "text_less [] (d # ds) = True"
| "text_less (c # cs) (d # ds) = (c < d \<or> c = d \<and> text_less cs ds)"

lemma version_component_shorter: "length (snd (version_component v)) \<le> length v - 1"
  by (simp add: version_component_def Let_def diff_le_mono length_dropWhile_le)

function IsNewerVersion :: "string \<Rightarrow> string \<Rightarrow> bool" where
  "IsNewerVersion current latest =
     (if current = [] \<and> latest = [] then False
      else
        let (a, current') = version_component current; (b, latest') = version_component latest
        in if length a \<noteq> length b then length a < length b
           else if a \<noteq> b then text_less a b
           else IsNewerVersion current' latest')"
  by auto
termination
proof (relation "measure (\<lambda>(current, latest). length current + length latest)", simp, goal_cases)
  case (1 current latest x a current' y b latest')
  have "current' = snd (version_component current)" "latest' = snd (version_component latest)"
    using 1(2-5) by (metis snd_conv)+
  then have "length current' \<le> length current - 1" "length latest' \<le> length latest - 1"
    using version_component_shorter by simp_all
  moreover have "0 < length current + length latest" using 1(1) by auto
  ultimately show ?case by (cases current; cases latest) auto
qed

declare IsNewerVersion.simps [simp del]

section \<open>Manifests\<close>

record ReleaseManifest =
  rm_version :: string
  rm_msi_sha256 :: string
  rm_msi_url :: string
  rm_min_version :: string
  rm_published_at :: string

definition ReleaseManifest0 :: ReleaseManifest where
  "ReleaseManifest0 =
     \<lparr>rm_version = [], rm_msi_sha256 = [], rm_msi_url = [], rm_min_version = [], rm_published_at = []\<rparr>"

datatype ManifestVerifyResult =
  ManifestOk | ManifestParseError | ManifestSignatureInvalid | DowngradeRefused | ManifestMissing

text \<open>
  \<open>published_at\<close> as a text; an integer is cast to 64 bits, a fraction loses its decimals, any other value leaves the
  field as it was.
\<close>

definition published_text :: "json \<Rightarrow> string \<Rightarrow> string" where
  "published_text j old =
     (case Child j ''published_at'' of
        None \<Rightarrow> []
      | Some (JString s) \<Rightarrow> Upd_Trim s
      | Some (JInt i) \<Rightarrow> to_string (to_int64 i)
      | Some (JFloat (Fin q)) \<Rightarrow> to_string (to_int64 (trunc q))
      | Some _ \<Rightarrow> old)"

definition ParseManifest :: "(string \<Rightarrow> json option) \<Rightarrow> string \<Rightarrow> ReleaseManifest \<Rightarrow> bool \<times> ReleaseManifest" where
  "ParseManifest parse jsonStr out =
     (if jsonStr = [] then (False, out)
      else case parse jsonStr of
        None \<Rightarrow> (False, out)
      | Some j \<Rightarrow>
          if \<not> is_object j then (False, out)
          else (case (string_field j ''version'', string_field j ''msi_sha256'', string_field j ''msi_url'') of
            (Some version, Some sha, Some url) \<Rightarrow>
              let out = out\<lparr>rm_version := Upd_Trim version, rm_msi_sha256 := map to_lower (Upd_Trim sha),
                            rm_msi_url := Upd_Trim url\<rparr>
              in if rm_version out = [] \<or> length (rm_msi_sha256 out) \<noteq> 64 \<or> rm_msi_url out = [] then (False, out)
                 else (True, out\<lparr>rm_min_version := (case string_field j ''min_version'' of Some m \<Rightarrow> Upd_Trim m | None \<Rightarrow> []),
                                 rm_published_at := published_text j (rm_published_at out)\<rparr>)
          | _ \<Rightarrow> (False, out)))"

definition SerializeManifest :: "ReleaseManifest \<Rightarrow> json" where
  "SerializeManifest m =
     JObject [(''version'', JString (rm_version m)), (''msi_sha256'', JString (rm_msi_sha256 m)),
              (''msi_url'', JString (rm_msi_url m)), (''min_version'', JString (rm_min_version m)),
              (''published_at'', JString (rm_published_at m))]"

section \<open>Signatures\<close>

text \<open>
  What the code uses of libsodium: whether it could be initialised, \<open>sodium_hex2bin\<close> into a buffer of some size
  (\<open>None\<close> when it fails) and \<open>crypto_sign_verify_detached\<close> of a signature, a message and a public key.
\<close>

record release_crypto =
  rc_ready :: bool
  rc_hex2bin :: "nat \<Rightarrow> string \<Rightarrow> string option"
  rc_verify :: "string \<Rightarrow> string \<Rightarrow> string \<Rightarrow> bool"

definition key_of_hex :: "release_crypto \<Rightarrow> string \<Rightarrow> string option" where
  "key_of_hex cr publicKeyHex =
     (let clean = Upd_Trim publicKeyHex
      in if length clean \<noteq> 32 * 2 then None
         else case rc_hex2bin cr 32 clean of
           None \<Rightarrow> None
         | Some pk \<Rightarrow> if length pk \<noteq> 32 then None else Some pk)"

definition signature_of_text :: "release_crypto \<Rightarrow> string \<Rightarrow> string option" where
  "signature_of_text cr signatureBytes =
     (if length signatureBytes \<noteq> 64 then
        let clean = Upd_Trim signatureBytes
        in if length clean = 64 * 2
           then (case rc_hex2bin cr 64 clean of
                   None \<Rightarrow> None
                 | Some sig \<Rightarrow> if length sig \<noteq> 64 then None else Some sig)
           else None
      else Some signatureBytes)"

definition VerifySignature :: "release_crypto \<Rightarrow> string \<Rightarrow> string \<Rightarrow> string \<Rightarrow> bool" where
  "VerifySignature cr manifestData signatureBytes publicKeyHex =
     (if manifestData = [] \<or> signatureBytes = [] \<or> publicKeyHex = [] then False
      else if \<not> rc_ready cr then False
      else case key_of_hex cr publicKeyHex of
        None \<Rightarrow> False
      | Some pk \<Rightarrow>
          (case signature_of_text cr signatureBytes of
             None \<Rightarrow> False
           | Some sig \<Rightarrow> rc_verify cr sig manifestData pk))"

definition VerifySignatureWithRotation :: "release_crypto \<Rightarrow> string \<Rightarrow> string \<Rightarrow> string \<Rightarrow> string \<Rightarrow> bool" where
  "VerifySignatureWithRotation cr manifestData signatureBytes currentKeyHex nextKeyHex =
     (if currentKeyHex \<noteq> [] \<and> VerifySignature cr manifestData signatureBytes currentKeyHex then True
      else if nextKeyHex \<noteq> [] \<and> VerifySignature cr manifestData signatureBytes nextKeyHex then True
      else False)"

definition VerifyManifest ::
  "release_crypto \<Rightarrow> (string \<Rightarrow> json option) \<Rightarrow> string \<Rightarrow> string \<Rightarrow> string \<Rightarrow> string \<Rightarrow> string \<Rightarrow>
   ReleaseManifest \<Rightarrow> ManifestVerifyResult \<times> ReleaseManifest" where
  "VerifyManifest cr parse manifestJson signatureBytes installedVersion currentKeyHex nextKeyHex out =
     (if manifestJson = [] then (ManifestMissing, out)
      else if \<not> VerifySignatureWithRotation cr manifestJson signatureBytes currentKeyHex nextKeyHex
      then (ManifestSignatureInvalid, out)
      else
        let (ok, manifest) = ParseManifest parse manifestJson ReleaseManifest0
        in if \<not> ok then (ManifestParseError, out)
           else if installedVersion \<noteq> [] \<and> IsNewerVersion (rm_version manifest) installedVersion
           then (DowngradeRefused, out)
           else (ManifestOk, manifest))"

definition IsUpdateForced :: "string \<Rightarrow> string \<Rightarrow> bool" where
  "IsUpdateForced installedVersion minVersion =
     (if installedVersion = [] \<or> minVersion = [] then False else IsNewerVersion installedVersion minVersion)"

definition ResolveMsiUrl :: "string \<Rightarrow> string \<Rightarrow> string" where
  "ResolveMsiUrl serverUrl msiUrl =
     (if starts_with msiUrl ''http://'' \<or> starts_with msiUrl ''https://'' then msiUrl
      else
        let slash = (\<lambda>c. c = CHR ''/'' \<or> c = CHR 0x5C); cleanServer = rev (dropWhile slash (rev serverUrl))
        in if msiUrl \<noteq> [] \<and> slash (hd msiUrl) then cleanServer @ msiUrl else cleanServer @ ''/'' @ msiUrl)"

section \<open>Fetching\<close>

text \<open>What a transfer brings: curl's code (0 is success), the HTTP status and the bytes; \<open>None\<close> if curl does not start.\<close>

record Transfer =
  tr_curl :: int
  tr_http :: int
  tr_body :: string

type_synonym network = "string \<Rightarrow> Transfer option"

definition DownloadString :: "network \<Rightarrow> string \<Rightarrow> string \<times> int \<times> int" where
  "DownloadString net url =
     (case net url of
        None \<Rightarrow> ([], 0, 0)
      | Some t \<Rightarrow> (if tr_curl t \<noteq> 0 \<or> tr_http t \<noteq> 200 then [] else tr_body t, tr_http t, tr_curl t))"

definition CURRENT_CERT_SHA256 :: string where
  "CURRENT_CERT_SHA256 = ''bad9e3ec198128629f1a767cc3fa17beb29d471478eab13312869c7dc5a219d4''"

definition NEXT_CERT_SHA256 :: string where
  "NEXT_CERT_SHA256 = []"

definition CURRENT_RELEASE_PUBLIC_KEY_HEX :: string where
  "CURRENT_RELEASE_PUBLIC_KEY_HEX = ''6ded9d4f21be1cc5773b294267174cbc7b1788413d1f865488723a6588ff41d4''"

definition NEXT_RELEASE_PUBLIC_KEY_HEX :: string where
  "NEXT_RELEASE_PUBLIC_KEY_HEX = []"

text \<open>The result also holds \<open>outManifest\<close>; \<open>t\<close> and \<open>t'\<close> are the two readings of the clock.\<close>

definition FetchAndVerify ::
  "release_crypto \<Rightarrow> (string \<Rightarrow> json option) \<Rightarrow> network \<Rightarrow> int \<Rightarrow> int \<Rightarrow> string \<Rightarrow> string \<Rightarrow> string \<Rightarrow> string \<Rightarrow>
   ReleaseManifest \<Rightarrow> bool \<times> ManifestVerifyResult \<times> ReleaseManifest" where
  "FetchAndVerify cr parse net t t' serverUrl installedVersion currentKeyHex nextKeyHex out =
     (let curKey = (if currentKeyHex = [] then CURRENT_RELEASE_PUBLIC_KEY_HEX else currentKeyHex);
          nxtKey = (if nextKeyHex = [] then NEXT_RELEASE_PUBLIC_KEY_HEX else nextKeyHex);
          manifestUrl = serverUrl @ ''/release-manifest.json?t='' @ to_string t;
          sigUrl = serverUrl @ ''/release-manifest.json.sig?t='' @ to_string t';
          (manifestJson, httpCode, curlCode) = DownloadString net manifestUrl
      in if manifestJson = [] \<or> httpCode \<noteq> 200 \<or> curlCode \<noteq> 0 then (False, ManifestMissing, out)
         else
           let (sigData, httpCode, curlCode) = DownloadString net sigUrl
           in if sigData = [] \<or> httpCode \<noteq> 200 \<or> curlCode \<noteq> 0 then (False, ManifestSignatureInvalid, out)
              else
                let (result, out) = VerifyManifest cr parse manifestJson sigData installedVersion curKey nxtKey out
                in (result = ManifestOk, result, out))"

section \<open>The order of versions\<close>

text \<open>
  The meaning of a version: the numbers between its dots, where a part with another character counts as
  zero, and missing numbers are zero. A version is older than another if its number at the first
  difference is less.
\<close>

definition number_of :: "string \<Rightarrow> int" where
  "number_of part = (if list_all is_digit part then digits_value part else 0)"

function release_numbers :: "string \<Rightarrow> int list" where
  "release_numbers v =
     (if v = [] then []
      else number_of (takeWhile (\<lambda>c. c \<noteq> CHR ''.'') v) # release_numbers (tl (dropWhile (\<lambda>c. c \<noteq> CHR ''.'') v)))"
  by auto
termination
proof (relation "measure length", simp, goal_cases)
  case (1 v)
  then show ?case using version_component_shorter[of v] by (cases v) (simp_all add: version_component_def Let_def)
qed

declare release_numbers.simps [simp del]

definition number_at :: "int list \<Rightarrow> nat \<Rightarrow> int" where
  "number_at xs i = (if i < length xs then xs ! i else 0)"

definition older :: "int list \<Rightarrow> int list \<Rightarrow> bool" where
  "older xs ys \<longleftrightarrow> (\<exists>k. (\<forall>i<k. number_at xs i = number_at ys i) \<and> number_at xs k < number_at ys k)"

lemma number_at_Suc: "number_at xs (Suc i) = number_at (tl xs) i"
  by (cases xs) (simp_all add: number_at_def)

lemma ex_nat_split: "(\<exists>k. P k) \<longleftrightarrow> P 0 \<or> (\<exists>k. P (Suc k))"
  by (metis not0_implies_Suc)

lemma older_step:
  "older xs ys \<longleftrightarrow> number_at xs 0 < number_at ys 0 \<or> number_at xs 0 = number_at ys 0 \<and> older (tl xs) (tl ys)"
proof -
  have "older xs ys \<longleftrightarrow> (\<exists>k. (\<forall>i<k. number_at xs i = number_at ys i) \<and> number_at xs k < number_at ys k)"
    by (simp add: older_def)
  also have "\<dots> \<longleftrightarrow> number_at xs 0 < number_at ys 0 \<or>
      (\<exists>k. (\<forall>i<Suc k. number_at xs i = number_at ys i) \<and> number_at xs (Suc k) < number_at ys (Suc k))"
    using ex_nat_split[of "\<lambda>k. (\<forall>i<k. number_at xs i = number_at ys i) \<and> number_at xs k < number_at ys k"] by simp
  finally show ?thesis by (auto simp: older_def number_at_Suc All_less_Suc2)
qed

text \<open>Digits without leading zeros are compared by their length first.\<close>

lemma digits_from:
  "foldl (\<lambda>n c. 10 * n + digit_value c) n cs = n * 10 ^ length cs + foldl (\<lambda>n c. 10 * n + digit_value c) 0 cs"
proof (induction cs arbitrary: n)
  case (Cons d ds)
  show ?case using Cons.IH[of "10 * n + digit_value d"] Cons.IH[of "digit_value d"] by (simp add: algebra_simps)
qed simp

lemma digits_value_Cons: "digits_value (c # cs) = digit_value c * 10 ^ length cs + digits_value cs"
  using digits_from[of "digit_value c" cs] by (simp add: digits_value_def)

lemma digit_value_nat: "digit_value c = int (of_char c :: nat) - 48"
  by (metis digit_value_def of_nat_of_char)

lemma digit_value_less: "c < d \<longleftrightarrow> digit_value c < digit_value d"
  unfolding digit_value_nat less_char_def by linarith

lemma digit_value_inj: "digit_value c = digit_value d \<Longrightarrow> c = d"
  by (simp add: digit_value_def)

lemma digits_value_bound: "list_all is_digit a \<Longrightarrow> 0 \<le> digits_value a \<and> digits_value a < 10 ^ length a"
proof (induction a)
  case (Cons c cs)
  have "digit_value c * 10 ^ length cs \<le> 9 * 10 ^ length cs" "0 \<le> digit_value c * 10 ^ length cs"
    using digit_value_range[of c] Cons.prems by (auto intro: mult_right_mono)
  moreover have "0 \<le> digits_value cs" "digits_value cs < 10 ^ length cs" using Cons by simp_all
  ultimately have "0 \<le> digit_value c * 10 ^ length cs + digits_value cs"
      "digit_value c * 10 ^ length cs + digits_value cs < 10 * 10 ^ length cs" by linarith+
  then show ?case by (simp add: digits_value_Cons)
qed (simp add: digits_value_def)

lemma text_less_digits:
  "length a = length b \<Longrightarrow> list_all is_digit a \<Longrightarrow> list_all is_digit b \<Longrightarrow>
   (text_less a b \<longleftrightarrow> digits_value a < digits_value b) \<and> (a = b \<longleftrightarrow> digits_value a = digits_value b)"
proof (induction a b rule: list_induct2)
  case Nil then show ?case by simp
next
  case (Cons c cs d ds)
  note IH = Cons.IH[OF conjunct2[OF Cons.prems(1)[unfolded list.pred_inject]] conjunct2[OF Cons.prems(2)[unfolded list.pred_inject]]]
  let ?B = "10 ^ length ds :: int"
  have b: "0 \<le> digits_value cs" "digits_value cs < ?B" "0 \<le> digits_value ds" "digits_value ds < ?B"
    using digits_value_bound[of cs] digits_value_bound[of ds] Cons by auto
  consider "digit_value c < digit_value d" | "digit_value d < digit_value c" | "c = d"
    using digit_value_inj by fastforce
  then show ?case
  proof cases
    case 1
    then have "(digit_value c + 1) * ?B \<le> digit_value d * ?B" by (intro mult_right_mono) auto
    then show ?thesis using 1 b Cons digit_value_less[of c d] digit_value_less[of d c]
      by (auto simp: digits_value_Cons algebra_simps)
  next
    case 2
    then have "(digit_value d + 1) * ?B \<le> digit_value c * ?B" by (intro mult_right_mono) auto
    then show ?thesis using 2 b Cons digit_value_less[of c d] digit_value_less[of d c]
      by (auto simp: digits_value_Cons algebra_simps)
  next
    case 3
    then show ?thesis using IH Cons.hyps by (simp add: digits_value_Cons)
  qed
qed

text \<open>The parts that are compared are the digits of the numbers.\<close>

lemma digits_value_zeros: "digits_value (dropWhile (\<lambda>c. c = CHR ''0'') s) = digits_value s"
  by (induction s) (simp_all add: digits_value_Cons digit_value_def)

lemma component_number:
  "list_all is_digit (fst (version_component v)) \<and> number_at (release_numbers v) 0 = digits_value (fst (version_component v)) \<and>
   (fst (version_component v) \<noteq> [] \<longrightarrow> hd (fst (version_component v)) \<noteq> CHR ''0'') \<and>
   tl (release_numbers v) = release_numbers (snd (version_component v))"
proof -
  let ?part = "takeWhile (\<lambda>c. c \<noteq> CHR ''.'') v" and ?z = "\<lambda>c. c = CHR ''0''"
  have "list_all is_digit (takeWhile ?z ?part)"
    by (auto simp: list_all_iff is_digit_def dest: set_takeWhileD)
  then have all: "list_all is_digit (dropWhile ?z ?part) \<longleftrightarrow> list_all is_digit ?part"
    by (metis list_all_append takeWhile_dropWhile_id)
  have hd: "dropWhile ?z ?part \<noteq> [] \<longrightarrow> hd (dropWhile ?z ?part) \<noteq> CHR ''0''"
    using hd_dropWhile[of ?z ?part] by auto
  show ?thesis
  proof (cases "v = []")
    case True
    then show ?thesis
      by (simp add: version_component_def release_numbers.simps[of "[]"] number_at_def digits_value_def)
  next
    case False
    then show ?thesis
      using all hd by (simp add: version_component_def release_numbers.simps[of v] number_at_def number_of_def digits_value_zeros
          Let_def digits_value_def[of "[]"])
  qed
qed

lemma leading_digit:
  assumes "list_all is_digit b" "b \<noteq> []" "hd b \<noteq> CHR ''0''"
  shows "10 ^ (length b - 1) \<le> digits_value b"
proof (cases b)
  case (Cons c cs)
  have "is_digit c" "digit_value c \<noteq> 0" using assms Cons digit_value_inj[of c "CHR ''0''"] by (auto simp: digit_value_def)
  then have "1 * 10 ^ length cs \<le> digit_value c * 10 ^ length cs"
    using digit_value_range[of c] by (intro mult_right_mono) auto
  moreover have "0 \<le> digits_value cs" using digits_value_bound[of cs] assms(1) Cons by simp
  ultimately have "10 ^ length cs \<le> digit_value c * 10 ^ length cs + digits_value cs" by linarith
  then show ?thesis using Cons by (simp add: digits_value_Cons)
qed (use assms in simp)

lemma shorter_less:
  assumes "list_all is_digit a" "list_all is_digit b" "b \<noteq> [] \<longrightarrow> hd b \<noteq> CHR ''0''" "length a < length b"
  shows "digits_value a < digits_value b"
proof -
  have "(10 :: int) ^ length a \<le> 10 ^ (length b - 1)" using assms(4) by (intro power_increasing) auto
  moreover have "b \<noteq> []" using assms(4) by auto
  then have "10 ^ (length b - 1) \<le> digits_value b" using leading_digit[OF assms(2)] assms(3) by blast
  ultimately show ?thesis using digits_value_bound[OF assms(1)] by linarith
qed

lemma newer_versions_order:
  "IsNewerVersion current latest \<longleftrightarrow> older (release_numbers current) (release_numbers latest)"
proof (induction current latest rule: IsNewerVersion.induct)
  case (1 current latest)
  let ?a = "fst (version_component current)" and ?b = "fst (version_component latest)"
  note c = component_number[of current] and l = component_number[of latest]
  show ?case
  proof (cases "current = [] \<and> latest = []")
    case True
    then show ?thesis by (simp add: IsNewerVersion.simps[of "[]" "[]"] older_def)
  next
    case False
    have step: "IsNewerVersion current latest =
        (if length ?a \<noteq> length ?b then length ?a < length ?b else if ?a \<noteq> ?b then text_less ?a ?b
         else IsNewerVersion (snd (version_component current)) (snd (version_component latest)))"
      by (simp only: IsNewerVersion.simps[of current latest] if_not_P[OF False] case_prod_unfold Let_def)
    consider "length ?a < length ?b" | "length ?b < length ?a" | "length ?a = length ?b" "?a \<noteq> ?b" | "?a = ?b" by linarith
    then show ?thesis
    proof cases
      case 1
      then show ?thesis using shorter_less[of ?a ?b] c l False
        by (simp add: step older_step[of "release_numbers current"])
    next
      case 2
      then show ?thesis using shorter_less[of ?b ?a] c l False
        by (simp add: step older_step[of "release_numbers current"])
    next
      case 3
      then show ?thesis using text_less_digits[of ?a ?b] c l False
        by (simp add: step older_step[of "release_numbers current"])
    next
      case 4
      then have "IsNewerVersion (snd (version_component current)) (snd (version_component latest)) \<longleftrightarrow>
          older (release_numbers (snd (version_component current))) (release_numbers (snd (version_component latest)))"
        using "1.IH"[OF False refl prod.collapse refl prod.collapse] by simp
      then show ?thesis using 4 c l by (simp add: step older_step[of "release_numbers current"])
    qed
  qed
qed

text \<open>
  C36: A version counts as newer exactly when its number at the first difference is greater; texts of any
  length are compared, no number overflows, and missing numbers are zero.
\<close>

theorem newer_versions_have_greater_numbers:
  "IsNewerVersion current latest \<longleftrightarrow> older (release_numbers current) (release_numbers latest)"
  by (rule newer_versions_order)

lemma newer_irrefl: "\<not> IsNewerVersion v v"
  by (simp add: newer_versions_order older_def)

section \<open>Manifests that are accepted\<close>

text \<open>The manifests the writer is given: trimmed texts, a lower-case checksum of 64 characters, a version and an address.\<close>

definition manifest_ok :: "ReleaseManifest \<Rightarrow> bool" where
  "manifest_ok m \<longleftrightarrow>
     rm_version m \<noteq> [] \<and> length (rm_msi_sha256 m) = 64 \<and> rm_msi_url m \<noteq> [] \<and> map to_lower (rm_msi_sha256 m) = rm_msi_sha256 m \<and>
     list_all (\<lambda>s. Upd_Trim s = s) [rm_version m, rm_msi_sha256 m, rm_msi_url m, rm_min_version m, rm_published_at m]"

text \<open>
  C37: A written manifest is read back as it was, by any JSON library that parses what it prints, whatever the
  reader's output held before.
\<close>

theorem manifest_roundtrip:
  assumes "parse (dump (SerializeManifest m)) = Some (SerializeManifest m)" "dump (SerializeManifest m) \<noteq> []"
    and "manifest_ok m"
  shows "ParseManifest parse (dump (SerializeManifest m)) out = (True, m)"
  using assms by (simp add: ParseManifest_def SerializeManifest_def manifest_ok_def string_field_def published_text_def Let_def)

definition sample_manifest :: ReleaseManifest where
  "sample_manifest =
     \<lparr>rm_version = ''2.1.0'', rm_msi_sha256 = replicate 64 (CHR ''a''), rm_msi_url = ''/OmniStats.msi'',
      rm_min_version = [], rm_published_at = ''1700000000''\<rparr>"

theorem manifest_roundtrip_witness:
  "snd (ParseManifest (\<lambda>t. Some (SerializeManifest sample_manifest)) ''{}'' ReleaseManifest0) = sample_manifest"
proof -
  have "manifest_ok sample_manifest" by code_simp
  then show ?thesis
    using manifest_roundtrip[of "\<lambda>t. Some (SerializeManifest sample_manifest)" "\<lambda>j. ''{}''" sample_manifest ReleaseManifest0]
    by simp
qed

text \<open>Who vouches for a manifest: the text verifies under the key of one of the two hexadecimal texts.\<close>

definition signed_by :: "release_crypto \<Rightarrow> string \<Rightarrow> string \<Rightarrow> string \<Rightarrow> bool" where
  "signed_by cr body signature keyHex \<longleftrightarrow>
     (\<exists>pk sig. key_of_hex cr keyHex = Some pk \<and> signature_of_text cr signature = Some sig \<and> rc_verify cr sig body pk)"

lemma VerifySignature_signed: "VerifySignature cr body signature keyHex \<Longrightarrow> signed_by cr body signature keyHex"
  by (auto simp: VerifySignature_def signed_by_def split: if_splits option.splits)

lemma VerifyManifest_ok:
  assumes "VerifyManifest cr parse body signature installed cur nxt out = (ManifestOk, m)"
  shows "(signed_by cr body signature cur \<or> signed_by cr body signature nxt) \<and> ParseManifest parse body ReleaseManifest0 = (True, m) \<and>
     (installed = [] \<or> \<not> IsNewerVersion (rm_version m) installed)"
  using assms VerifySignature_signed[of cr body signature]
  by (auto simp: VerifyManifest_def VerifySignatureWithRotation_def split: if_splits prod.splits)

lemma DownloadString_nonempty:
  assumes "DownloadString net url = (body, http, curl)" "body \<noteq> []"
  shows "net url = Some \<lparr>tr_curl = 0, tr_http = 200, tr_body = body\<rparr>"
  using assms by (cases "the (net url)") (auto simp: DownloadString_def split: option.splits if_splits)

lemma FetchAndVerify_ok:
  assumes "FetchAndVerify cr parse net t t' server installed cur nxt out = (True, result, m)"
  obtains body signature where
    "net (server @ ''/release-manifest.json?t='' @ to_string t) = Some \<lparr>tr_curl = 0, tr_http = 200, tr_body = body\<rparr>"
    "net (server @ ''/release-manifest.json.sig?t='' @ to_string t') = Some \<lparr>tr_curl = 0, tr_http = 200, tr_body = signature\<rparr>"
    "VerifyManifest cr parse body signature installed (if cur = [] then CURRENT_RELEASE_PUBLIC_KEY_HEX else cur)
       (if nxt = [] then NEXT_RELEASE_PUBLIC_KEY_HEX else nxt) out = (ManifestOk, m)"
proof -
  obtain body http curl where d: "DownloadString net (server @ ''/release-manifest.json?t='' @ to_string t) = (body, http, curl)"
    by (metis prod_cases3)
  obtain signature http' curl' where
    d': "DownloadString net (server @ ''/release-manifest.json.sig?t='' @ to_string t') = (signature, http', curl')"
    by (metis prod_cases3)
  from assms d d' have "body \<noteq> []" "signature \<noteq> []"
    "VerifyManifest cr parse body signature installed (if cur = [] then CURRENT_RELEASE_PUBLIC_KEY_HEX else cur)
       (if nxt = [] then NEXT_RELEASE_PUBLIC_KEY_HEX else nxt) out = (ManifestOk, m)"
    by (auto simp: FetchAndVerify_def Let_def split: if_splits prod.splits)
  then show ?thesis using that DownloadString_nonempty[OF d] DownloadString_nonempty[OF d'] by blast
qed

end
