(* ===== verification/Updater.thy ===== *)
theory Updater
  imports Release_Manifest Stats_Api
begin

text \<open>
  The updater program: \<open>updater/main.cpp\<close>, the verification of installers of \<open>updater/UpdaterCommon.cpp\<close>
  and \<open>updater/AuthenticodeStatus.hpp\<close>, \<open>updater/UpdaterEventLog.hpp\<close> and \<open>DownloadFile\<close> of
  \<open>updater/UpdaterDownload.cpp\<close>. Windows, zlib and the hash functions are fields of \<open>UpdaterWorld\<close>: what
  trust verification answers for a file, the hash of some bytes, the answers of \<open>inflate\<close>, which files can be
  written and what reaches the disk of the bytes written. The files are part of the state.
\<close>

section \<open>Trust\<close>

datatype AuthenticodeStatus = AuthValid | AuthUntrustedRoot | AuthRevoked | AuthRevocationUnknown | AuthInvalid

text \<open>The codes of Windows: \<open>CERT_E_*\<close>, \<open>CRYPT_E_*\<close> and \<open>TRUST_E_*\<close> as 32-bit patterns, flags of a chain's trust status.\<close>

definition CERT_E_REVOKED :: "32 word" where "CERT_E_REVOKED = 0x800B010C"
definition CRYPT_E_REVOKED :: "32 word" where "CRYPT_E_REVOKED = 0x80092010"
definition CERT_E_UNTRUSTEDROOT :: "32 word" where "CERT_E_UNTRUSTEDROOT = 0x800B0109"
definition CERT_E_REVOCATION_FAILURE :: "32 word" where "CERT_E_REVOCATION_FAILURE = 0x800B010E"
definition CRYPT_E_NO_REVOCATION_CHECK :: "32 word" where "CRYPT_E_NO_REVOCATION_CHECK = 0x80092012"
definition CRYPT_E_REVOCATION_OFFLINE :: "32 word" where "CRYPT_E_REVOCATION_OFFLINE = 0x80092013"
definition TRUST_E_NOSIGNATURE :: "32 word" where "TRUST_E_NOSIGNATURE = 0x800B0100"
definition TRUST_E_BAD_DIGEST :: "32 word" where "TRUST_E_BAD_DIGEST = 0x80096010"
definition CERT_TRUST_IS_REVOKED :: "32 word" where "CERT_TRUST_IS_REVOKED = 0x4"
definition CERT_TRUST_REVOCATION_STATUS_UNKNOWN :: "32 word" where "CERT_TRUST_REVOCATION_STATUS_UNKNOWN = 0x40"
definition CERT_TRUST_IS_OFFLINE_REVOCATION :: "32 word" where "CERT_TRUST_IS_OFFLINE_REVOCATION = 0x1000000"

definition ClassifyAuthenticodeStatus :: "32 word \<Rightarrow> 32 word \<Rightarrow> bool \<Rightarrow> AuthenticodeStatus" where
  "ClassifyAuthenticodeStatus status chainErrors revocationChecked =
     (if status = CERT_E_REVOKED \<or> status = CRYPT_E_REVOKED \<or> and chainErrors CERT_TRUST_IS_REVOKED \<noteq> 0
      then AuthRevoked
      else
        let acceptableStatus = (status = 0 \<or> status = CERT_E_UNTRUSTEDROOT);
            unknownStatus = (status = CERT_E_REVOCATION_FAILURE \<or> status = CRYPT_E_REVOCATION_OFFLINE \<or>
                             status = CRYPT_E_NO_REVOCATION_CHECK)
        in if \<not> acceptableStatus \<and> \<not> unknownStatus then AuthInvalid
           else if unknownStatus \<or>
             (revocationChecked \<and>
              and chainErrors (or CERT_TRUST_REVOCATION_STATUS_UNKNOWN CERT_TRUST_IS_OFFLINE_REVOCATION) \<noteq> 0)
           then AuthRevocationUnknown
           else if status = 0 then AuthValid
           else if status = CERT_E_UNTRUSTEDROOT then AuthUntrustedRoot
           else AuthInvalid)"

text \<open>The three calls of \<open>WinVerifyTrust\<close>: online, from the cache, without a check of revocation.\<close>

datatype TrustMode = WholeChain | CachedChain | NoRevocationCheck

datatype SignerAnswer = NoProvider | NoSigner | Signer string string

text \<open>
  An answer: the status, the certificate chains (of each certificate its errors and whether it issued itself;
  \<open>None\<close> without a provider, signer or context), and the signer with its name and encoded certificate.
\<close>

record TrustAnswer =
  ta_status :: "32 word"
  ta_chains :: "(32 word \<times> bool) list list option"
  ta_signer :: SignerAnswer

definition chain_errors :: "(32 word \<times> bool) list \<Rightarrow> 32 word" where
  "chain_errors chain =
     fold (\<lambda>(e, _). or e) (if chain \<noteq> [] \<and> snd (last chain) then butlast chain else chain) 0"

definition NonRootRevocationErrors :: "TrustAnswer \<Rightarrow> 32 word" where
  "NonRootRevocationErrors a =
     (case ta_chains a of None \<Rightarrow> 0 | Some cs \<Rightarrow> fold (\<lambda>chain. or (chain_errors chain)) cs 0)"

record SignatureVerificationResult =
  sg_digestValid :: bool
  sg_trustedRoot :: bool
  sg_revocationUnknown :: bool
  sg_signer :: string
  sg_certSha256 :: string
  sg_statusMessage :: string

definition SignatureVerificationResult0 :: SignatureVerificationResult where
  "SignatureVerificationResult0 =
     \<lparr>sg_digestValid = False, sg_trustedRoot = False, sg_revocationUnknown = False, sg_signer = [],
      sg_certSha256 = [], sg_statusMessage = []\<rparr>"

fun hex_text :: "nat \<Rightarrow> string" where
  "hex_text n = (if n < 16 then [''0123456789abcdef'' ! n] else hex_text (n div 16) @ [''0123456789abcdef'' ! (n mod 16)])"

declare hex_text.simps [simp del]

definition trust_failure :: "32 word \<Rightarrow> AuthenticodeStatus \<Rightarrow> string" where
  "trust_failure status classification =
     ''WinVerifyTrust status 0x'' @ hex_text (unat status) @
     (if status = TRUST_E_NOSIGNATURE then '' (TRUST_E_NOSIGNATURE: file is unsigned)''
      else if status = TRUST_E_BAD_DIGEST then '' (TRUST_E_BAD_DIGEST: signature digest mismatch - file modified/tampered)''
      else if classification = AuthRevoked then '' (certificate chain is revoked)''
      else if classification = AuthRevocationUnknown then '' (certificate revocation status is unknown)''
      else [])"

text \<open>\<open>sha\<close> is the hexadecimal SHA-256 of some bytes (empty when hashing fails), \<open>trust\<close> what Windows answers for a file.\<close>

definition VerifyAuthenticodeSignature ::
  "(string \<Rightarrow> string) \<Rightarrow> (TrustMode \<Rightarrow> string option \<Rightarrow> TrustAnswer) \<Rightarrow> string option \<Rightarrow> SignatureVerificationResult" where
  "VerifyAuthenticodeSignature sha trust file =
     (let a = trust WholeChain file;
          kind = ClassifyAuthenticodeStatus (ta_status a) (NonRootRevocationErrors a) True;
          (a, kind) = (if kind = AuthRevocationUnknown
                        then let a = trust CachedChain file
                             in (a, ClassifyAuthenticodeStatus (ta_status a) (NonRootRevocationErrors a) True)
                        else (a, kind));
          (a, kind, unknown) = (if kind = AuthRevocationUnknown
                        then let a = trust NoRevocationCheck file
                             in (a, ClassifyAuthenticodeStatus (ta_status a) (NonRootRevocationErrors a) False, True)
                        else (a, kind, False));
          result = SignatureVerificationResult0\<lparr>sg_revocationUnknown := unknown\<rparr>
      in if kind = AuthValid \<or> kind = AuthUntrustedRoot
         then (case ta_signer a of
             NoProvider \<Rightarrow> result\<lparr>sg_statusMessage := ''Cryptographic provider state data unavailable.''\<rparr>
           | NoSigner \<Rightarrow> result\<lparr>sg_statusMessage := ''Signer certificate not found in signature chain.''\<rparr>
           | Signer name cert \<Rightarrow>
               result\<lparr>sg_digestValid := True, sg_trustedRoot := (ta_status a = 0), sg_signer := name,
                 sg_certSha256 := (if cert = [] then [] else sha cert),
                 sg_statusMessage := (if ta_status a = 0 then ''Authenticode signature valid (trusted root)''
                   else ''Authenticode signature valid (untrusted root / self-signed)'')\<rparr>)
         else result\<lparr>sg_statusMessage := trust_failure (ta_status a) kind\<rparr>)"

definition VerifyFileSHA256 :: "(string \<Rightarrow> string) \<Rightarrow> string option \<Rightarrow> string \<Rightarrow> bool" where
  "VerifyFileSHA256 sha file expectedHash =
     (let localHash = (case file of None \<Rightarrow> [] | Some bytes \<Rightarrow> sha bytes)
      in if localHash = [] then False
         else
           let cleanExpected = Upd_Trim expectedHash;
               cleanExpected = (if 64 \<le> length cleanExpected then take 64 cleanExpected else cleanExpected)
           in map to_lower localHash = map to_lower cleanExpected)"

datatype MsiVerifyResult = MsiOk | ChecksumMismatch | SignatureInvalid

definition VerifyMsiPackage ::
  "(string \<Rightarrow> string) \<Rightarrow> (TrustMode \<Rightarrow> string option \<Rightarrow> TrustAnswer) \<Rightarrow> string option \<Rightarrow> string \<Rightarrow> string \<Rightarrow> string \<Rightarrow>
   MsiVerifyResult" where
  "VerifyMsiPackage sha trust file expectedFileSha currentPinnedCertSha nextPinnedCertSha =
     (if \<not> VerifyFileSHA256 sha file expectedFileSha then ChecksumMismatch
      else
        let currentPin = Upd_Trim (if currentPinnedCertSha = [] then CURRENT_CERT_SHA256 else currentPinnedCertSha);
            nextPin = Upd_Trim (if nextPinnedCertSha = [] then NEXT_CERT_SHA256 else nextPinnedCertSha)
        in if currentPin = [] \<and> nextPin = [] then SignatureInvalid
           else
             let signature = VerifyAuthenticodeSignature sha trust file
             in if \<not> sg_digestValid signature then SignatureInvalid
                else
                  let actual = map to_lower (sg_certSha256 signature);
                      certMatches = (currentPin \<noteq> [] \<and> actual = map to_lower currentPin);
                      certMatches = (certMatches \<or> nextPin \<noteq> [] \<and> actual = map to_lower nextPin)
                  in if \<not> certMatches then SignatureInvalid else MsiOk)"

section \<open>The world and the files\<close>

type_synonym files = "string \<Rightarrow> string option"

record UpdaterWorld =
  uw_crypto :: release_crypto
  uw_parse :: "string \<Rightarrow> json option"
  uw_net :: network
  uw_time :: "nat \<Rightarrow> int"
  uw_sha :: "string \<Rightarrow> string"
  uw_trust :: "TrustMode \<Rightarrow> string option \<Rightarrow> TrustAnswer"
  uw_inflateReady :: bool
  uw_inflate :: "string \<Rightarrow> nat list \<Rightarrow> int \<times> string"
  uw_canWrite :: "string \<Rightarrow> bool"
  uw_stored :: "string \<Rightarrow> string \<Rightarrow> string"
  uw_makesDir :: "string \<Rightarrow> bool"
  uw_appData :: string
  uw_installed :: string
  uw_systemDir :: "string option"
  uw_starts :: "string \<Rightarrow> bool"
  uw_exits :: "32 word \<Rightarrow> bool"

record UpdaterState =
  us_files :: files
  us_started :: "string list"

definition on_files :: "(files \<Rightarrow> files) \<Rightarrow> UpdaterState \<Rightarrow> UpdaterState" where
  "on_files f s = s\<lparr>us_files := f (us_files s)\<rparr>"

text \<open>\<open>DownloadFile\<close>: the file is created first; what the disk did not take is not noticed here.\<close>

definition DownloadFile :: "UpdaterWorld \<Rightarrow> string \<Rightarrow> string \<Rightarrow> UpdaterState \<Rightarrow> (bool \<times> int \<times> int) \<times> UpdaterState" where
  "DownloadFile w url outputPath s =
     (if \<not> uw_canWrite w outputPath then ((False, 0, 0), s)
      else case uw_net w url of
        None \<Rightarrow> ((False, 0, 0), on_files (\<lambda>fs. fs(outputPath \<mapsto> [])) s)
      | Some t \<Rightarrow>
          (if tr_curl t \<noteq> 0 \<or> tr_http t \<noteq> 200
           then ((False, tr_http t, tr_curl t), on_files (\<lambda>fs. fs(outputPath := None)) s)
           else ((True, tr_http t, tr_curl t), on_files (\<lambda>fs. fs(outputPath \<mapsto> uw_stored w outputPath (tr_body t))) s)))"

section \<open>The event log\<close>

definition kMaxLines :: nat where "kMaxLines = 20"

definition escape_text :: "string \<Rightarrow> string" where
  "escape_text s =
     concat (map (\<lambda>c. (if c = CHR 0x22 \<or> c = CHR 0x5C then [CHR 0x5C] else []) @ (if c < CHR 0x20 then [] else [c])) s)"

definition log_line :: "string \<Rightarrow> string \<Rightarrow> string \<Rightarrow> string \<Rightarrow> string" where
  "log_line event targetVersion errorCategory version =
     ''{'' @ [CHR 0x22] @ ''event'' @ [CHR 0x22] @ '':'' @ [CHR 0x22] @ escape_text event @
     [CHR 0x22] @ '','' @ [CHR 0x22] @ ''target_version'' @ [CHR 0x22] @ '':'' @ [CHR 0x22] @ escape_text targetVersion @
     [CHR 0x22] @ '','' @ [CHR 0x22] @ ''error_category'' @ [CHR 0x22] @ '':'' @ [CHR 0x22] @ escape_text errorCategory @
     [CHR 0x22] @ '','' @ [CHR 0x22] @ ''version'' @ [CHR 0x22] @ '':'' @ [CHR 0x22] @ escape_text version @ [CHR 0x22] @ ''}''"

definition drop_trailing_blanks :: "string \<Rightarrow> string" where
  "drop_trailing_blanks line = rev (dropWhile (\<lambda>c. c \<in> {CHR 0x0D, CHR '' '', CHR 0x09}) (rev line))"

definition ReadLines :: "string option \<Rightarrow> string list" where
  "ReadLines file =
     (case file of None \<Rightarrow> [] | Some content \<Rightarrow> filter (\<lambda>l. l \<noteq> []) (map drop_trailing_blanks (text_lines content)))"

definition lines_text :: "string list \<Rightarrow> string" where
  "lines_text ls = concat (map (\<lambda>l. l @ [CHR 0x0A]) ls)"

definition log_path :: "UpdaterWorld \<Rightarrow> string" where
  "log_path w = uw_appData w @ ''updater_events.jsonl''"

definition Append :: "UpdaterWorld \<Rightarrow> string \<Rightarrow> string \<Rightarrow> string \<Rightarrow> string \<Rightarrow> files \<Rightarrow> files" where
  "Append w event targetVersion errorCategory version fs =
     (let ls = ReadLines (fs (log_path w)) @ [log_line event targetVersion errorCategory version]
      in if uw_canWrite w (log_path w) then fs(log_path w \<mapsto> lines_text (drop (length ls - kMaxLines) ls)) else fs)"

definition RecordUpdaterEvent :: "UpdaterWorld \<Rightarrow> string \<Rightarrow> string \<Rightarrow> string \<Rightarrow> UpdaterState \<Rightarrow> UpdaterState" where
  "RecordUpdaterEvent w event targetVersion errorCategory =
     on_files (Append w event targetVersion errorCategory (uw_installed w))"

section \<open>Archives\<close>

text \<open>\<open>parseTarOctal\<close> of the bytes of a field: the octal number at its start.\<close>

definition is_octal :: "char \<Rightarrow> bool" where
  "is_octal c = (CHR ''0'' \<le> c \<and> c \<le> CHR ''7'')"

definition parseTarOctal :: "string \<Rightarrow> int" where
  "parseTarOctal s = foldl (\<lambda>val c. val * 8 + digit_value c) 0 (takeWhile is_octal s)"

text \<open>
  The loop of \<open>extractFromTar\<close> over the rest of the archive from \<open>pos\<close> on: the bytes of the first regular file
  of that name. In the 512 bytes of a header the name has 100, the size 12 from 124 on, the type is at 156.
\<close>

definition tar_name :: "string \<Rightarrow> string" where
  "tar_name header =
     (let name = takeWhile (\<lambda>c. c \<noteq> CHR 0x00) (take 100 header)
      in if take 2 name = ''./'' then drop 2 name else name)"

definition tar_size :: "string \<Rightarrow> int" where
  "tar_size header = parseTarOctal (take 12 (drop 124 header))"

function tar_member :: "string \<Rightarrow> string \<Rightarrow> string option" where
  "tar_member targetName rest =
     (if length rest < 512 \<or> hd rest = CHR 0x00 then None
      else
        let fileSize = tar_size rest; body = drop 512 rest
        in if fileSize < 0 \<or> int (length body) < fileSize then None
           else if tar_name rest = targetName \<and> rest ! 156 = CHR ''0'' then Some (take (nat fileSize) body)
           else tar_member targetName (drop (nat ((fileSize + 511) div 512 * 512)) body))"
  by auto
termination by (relation "measure (\<lambda>(targetName, rest). length rest)") auto

declare tar_member.simps [simp del]

text \<open>Writing a file: the stream is good if the disk took every byte.\<close>

definition write_file :: "UpdaterWorld \<Rightarrow> string \<Rightarrow> string \<Rightarrow> files \<Rightarrow> bool \<times> files" where
  "write_file w path bytes fs =
     (if \<not> uw_canWrite w path then (False, fs)
      else (uw_stored w path bytes = bytes, fs(path \<mapsto> uw_stored w path bytes)))"

definition extractFromTar :: "UpdaterWorld \<Rightarrow> string \<Rightarrow> string \<Rightarrow> string \<Rightarrow> files \<Rightarrow> bool \<times> files" where
  "extractFromTar w tarData targetName outputPath fs =
     (case tar_member targetName tarData of
        None \<Rightarrow> (False, fs)
      | Some bytes \<Rightarrow> write_file w outputPath bytes fs)"

text \<open>
  The loop of \<open>gzipDecompress\<close>: the size of the buffer, the bytes written so far and the room offered in each call of
  \<open>inflate\<close> before. The answer of a call is its code and the bytes it adds; \<open>Some None\<close> is a failure.
\<close>

partial_function (option) inflate_loop :: "(nat list \<Rightarrow> int \<times> string) \<Rightarrow> nat \<Rightarrow> string \<Rightarrow> nat list \<Rightarrow> string option option" where
  "inflate_loop inflate room out calls =
     (let room = (if room \<le> length out then room * 2 else room);
          calls = calls @ [room - length out]; (ret, bytes) = inflate calls
      in if ret = -4 \<or> ret = -3 \<or> ret = -2 then Some None
         else if ret = 1 then Some (Some (out @ bytes))
         else inflate_loop inflate room (out @ bytes) calls)"

definition gzipDecompress :: "UpdaterWorld \<Rightarrow> string \<Rightarrow> string option option" where
  "gzipDecompress w compressed =
     (if \<not> uw_inflateReady w then Some None
      else inflate_loop (uw_inflate w compressed) (length compressed * 4) [] [])"

definition kLibcurlDllName :: string where "kLibcurlDllName = ''libcurl-impersonate.dll''"
definition kZlibDllName :: string where "kZlibDllName = ''zlib.dll''"
definition kArchiveUrl :: string where
  "kArchiveUrl = ''https://github.com/lexiforest/curl-impersonate/releases/download/v1.5.6/libcurl-impersonate-v1.5.6.x86_64-win32.tar.gz''"
definition kArchiveSha256 :: string where
  "kArchiveSha256 = ''fe8ce2488d5467fda6061b8b130b5834bc30cdfff40712692e8c5685dbbda6c7''"
definition kLibcurlDllSha256 :: string where
  "kLibcurlDllSha256 = ''97f1e2988e2edd296d902a4bdc4f12d61b3b565ff2a320fff72d65075afb9d33''"
definition kZlibDllSha256 :: string where
  "kZlibDllSha256 = ''be040a8719af7ecc809df37b2a7f1b8997dba038f8ca774ee58e7384b37b58da''"

definition dependenciesValid :: "UpdaterWorld \<Rightarrow> files \<Rightarrow> bool" where
  "dependenciesValid w fs \<longleftrightarrow>
     VerifyFileSHA256 (uw_sha w) (fs (uw_appData w @ kLibcurlDllName)) kLibcurlDllSha256 \<and>
     VerifyFileSHA256 (uw_sha w) (fs (uw_appData w @ kZlibDllName)) kZlibDllSha256"

text \<open>After the archive's hash was found right its bytes are read back, which succeeds.\<close>

definition RepairDependencies :: "UpdaterWorld \<Rightarrow> UpdaterState \<Rightarrow> (bool \<times> UpdaterState) option" where
  "RepairDependencies w s =
     (if dependenciesValid w (us_files s) then Some (True, s)
      else
        let tempArchive = uw_appData w @ ''updates'' @ [CHR 0x5C] @ ''libcurl-impersonate.tar.gz'';
            (downloaded, s) = DownloadFile w kArchiveUrl tempArchive s
        in if \<not> fst downloaded then Some (False, s)
           else if \<not> VerifyFileSHA256 (uw_sha w) (us_files s tempArchive) kArchiveSha256
           then Some (False, on_files (\<lambda>fs. fs(tempArchive := None)) s)
           else Option.bind (gzipDecompress w (the (us_files s tempArchive))) (\<lambda>tarData. Some (
             case tarData of
               None \<Rightarrow> (False, on_files (\<lambda>fs. fs(tempArchive := None)) s)
             | Some tarData \<Rightarrow>
                 let (ok1, fs) = extractFromTar w tarData ''bin/libcurl-impersonate.dll'' (uw_appData w @ kLibcurlDllName) (us_files s);
                     (ok2, fs) = extractFromTar w tarData ''bin/zlib.dll'' (uw_appData w @ kZlibDllName) fs;
                     fs = fs(tempArchive := None)
                 in (ok1 \<and> ok2 \<and> dependenciesValid w fs, s\<lparr>us_files := fs\<rparr>))))"

section \<open>Updates\<close>

text \<open>Whether an update is available, and \<open>latestVersion\<close>.\<close>

definition PerformUpdateCheck :: "UpdaterWorld \<Rightarrow> string \<Rightarrow> string \<Rightarrow> UpdaterState \<Rightarrow> (bool \<times> string) \<times> UpdaterState" where
  "PerformUpdateCheck w serverUrl latestVersion s =
     (let localVersion = uw_installed w;
          (ok, result, manifest) = FetchAndVerify (uw_crypto w) (uw_parse w) (uw_net w) (uw_time w 0) (uw_time w 1) serverUrl
            localVersion CURRENT_RELEASE_PUBLIC_KEY_HEX NEXT_RELEASE_PUBLIC_KEY_HEX ReleaseManifest0
      in if \<not> ok then
           let category = (if result = ManifestSignatureInvalid then ''signature_invalid''
                           else if result = DowngradeRefused then ''downgrade_refused''
                           else if result = ManifestParseError then ''parse_error'' else ''manifest_missing'')
           in ((False, if result = DowngradeRefused then [] else latestVersion),
               RecordUpdaterEvent w ''update_check_failed'' [] category s)
         else ((IsNewerVersion localVersion (rm_version manifest), rm_version manifest), s))"

definition QuoteCommandLineArg :: "string \<Rightarrow> string" where
  "QuoteCommandLineArg v =
     [CHR 0x22] @ concat (map (\<lambda>c. if c = CHR 0x22 then [CHR 0x5C, CHR 0x22] else [c]) v) @ [CHR 0x22]"

definition msi_command :: "UpdaterWorld \<Rightarrow> string \<Rightarrow> string \<Rightarrow> string" where
  "msi_command w installerPath msiPath =
     QuoteCommandLineArg installerPath @ '' /i '' @ QuoteCommandLineArg msiPath @
     '' /qn /norestart REBOOT=ReallySuppress OMNISTATS_AUTOSTART=1 /L*v '' @
     QuoteCommandLineArg (uw_appData w @ ''omnistats_msi_update.log'')"

definition LaunchSilentMsiUpgrade :: "UpdaterWorld \<Rightarrow> string \<Rightarrow> string \<Rightarrow> UpdaterState \<Rightarrow> bool \<times> UpdaterState" where
  "LaunchSilentMsiUpgrade w msiPath targetVersion s =
     (case uw_systemDir w of
        None \<Rightarrow> (False, RecordUpdaterEvent w ''msi_launch_failed'' targetVersion ''system_directory_failed'' s)
      | Some systemDir \<Rightarrow>
          let command = msi_command w (systemDir @ [CHR 0x5C] @ ''msiexec.exe'') msiPath
          in if \<not> uw_starts w command
             then (False, RecordUpdaterEvent w ''msi_launch_failed'' targetVersion ''create_process_failed'' s)
             else (True, RecordUpdaterEvent w ''msi_launched'' targetVersion [] (s\<lparr>us_started := us_started s @ [command]\<rparr>)))"

definition msi_path :: "UpdaterWorld \<Rightarrow> string" where
  "msi_path w = uw_appData w @ ''updates'' @ [CHR 0x5C] @ ''OmniStats.msi''"

definition DownloadAndLaunchMsiUpgrade :: "UpdaterWorld \<Rightarrow> string \<Rightarrow> string \<Rightarrow> UpdaterState \<Rightarrow> bool \<times> UpdaterState" where
  "DownloadAndLaunchMsiUpgrade w serverUrl targetVersionParam s =
     (let localVersion = uw_installed w;
          (manifestOk, manifestRes, manifest) = FetchAndVerify (uw_crypto w) (uw_parse w) (uw_net w) (uw_time w 0) (uw_time w 1)
            serverUrl localVersion CURRENT_RELEASE_PUBLIC_KEY_HEX NEXT_RELEASE_PUBLIC_KEY_HEX ReleaseManifest0
      in if \<not> manifestOk then
           let cat = (if manifestRes = ManifestSignatureInvalid then ''signature_invalid''
                      else if manifestRes = DowngradeRefused then ''downgrade_refused'' else ''manifest_missing'')
           in (False, RecordUpdaterEvent w ''download_failed'' targetVersionParam cat s)
         else
           let targetVersion = rm_version manifest;
               s = RecordUpdaterEvent w ''update_started'' targetVersion [] s
           in if \<not> uw_makesDir w (uw_appData w @ ''updates'' @ [CHR 0x5C])
              then (False, RecordUpdaterEvent w ''download_failed'' targetVersion ''io_error'' s)
              else
                let msiUrl = ResolveMsiUrl serverUrl (rm_msi_url manifest);
                    msiUrl = (if CHR ''?'' \<notin> set msiUrl then msiUrl @ ''?t='' @ to_string (uw_time w 2) else msiUrl);
                    s = on_files (\<lambda>fs. fs(msi_path w := None)) s;
                    ((downloaded, httpCode, curlCode), s) = DownloadFile w msiUrl (msi_path w) s
                in if \<not> downloaded
                   then (False, RecordUpdaterEvent w ''download_failed'' targetVersion
                           (if httpCode \<noteq> 200 \<and> httpCode \<noteq> 0 then ''http_'' @ to_string httpCode else ''network'') s)
                   else
                     let verifyRes = VerifyMsiPackage (uw_sha w) (uw_trust w) (us_files s (msi_path w)) (rm_msi_sha256 manifest) [] []
                     in if verifyRes \<noteq> MsiOk then
                          let s = on_files (\<lambda>fs. fs(msi_path w := None)) s
                          in (False, if verifyRes = ChecksumMismatch
                                     then RecordUpdaterEvent w ''checksum_failed'' targetVersion ''checksum_mismatch'' s
                                     else RecordUpdaterEvent w ''signature_failed'' targetVersion ''signature_invalid'' s)
                        else LaunchSilentMsiUpgrade w (msi_path w) targetVersion s)"

section \<open>The repair of the game's configuration\<close>

definition ShouldRetryStatsRepairElevated :: "int \<Rightarrow> bool" where
  "ShouldRetryStatsRepairElevated result \<longleftrightarrow> result = 3 \<or> result = 4 \<or> result = 5"

text \<open>
  The elevated run is the same program with \<open>--elevated\<close>, on the disk as it is then; \<open>None\<close> if it is not started
  or its exit code cannot be read.
\<close>

definition RunStatsApiRepair :: "Faults \<Rightarrow> Faults option \<Rightarrow> file_path \<Rightarrow> int \<Rightarrow> bool \<Rightarrow> disk \<Rightarrow> int \<times> disk" where
  "RunStatsApiRepair faults elevatedFaults path expectedPort alreadyElevated disk =
     (let (result, disk) = FixConfigStrictHeadless faults path expectedPort disk
      in if result = 0 \<or> alreadyElevated \<or> \<not> ShouldRetryStatsRepairElevated result then (result, disk)
         else case elevatedFaults of
           None \<Rightarrow> (5, disk)
         | Some faults' \<Rightarrow> FixConfigStrictHeadless faults' path expectedPort disk)"

section \<open>The program\<close>

text \<open>\<open>std::stoul\<close> for a 32-bit \<open>unsigned long\<close>: a sign is read and the number negated; \<open>None\<close> where it throws.\<close>

definition stoul :: "string \<Rightarrow> 32 word option" where
  "stoul s =
     (let s1 = dropWhile is_space s;
          neg = (s1 \<noteq> [] \<and> hd s1 = CHR ''-'');
          s2 = (if s1 \<noteq> [] \<and> (hd s1 = CHR ''-'' \<or> hd s1 = CHR ''+'') then tl s1 else s1);
          ds = takeWhile is_digit s2; v = digits_value ds
      in if ds = [] \<or> 2 ^ 32 \<le> v then None else Some (if neg then - word_of_int v else word_of_int v))"

record Options =
  op_server :: string
  op_check :: bool
  op_installUpdate :: bool
  op_repairDependencies :: bool
  op_repairStatsApi :: bool
  op_elevatedRepair :: bool
  op_parentPid :: "32 word"
  op_resultFile :: string
  op_statsApiPath :: string
  op_statsApiPort :: int
  op_targetVersion :: string

definition Options0 :: Options where
  "Options0 =
     \<lparr>op_server = [], op_check = False, op_installUpdate = False, op_repairDependencies = False,
      op_repairStatsApi = False, op_elevatedRepair = False, op_parentPid = 0, op_resultFile = [],
      op_statsApiPath = [], op_statsApiPort = 49123, op_targetVersion = []\<rparr>"

definition pid_of :: "string \<Rightarrow> 32 word" where
  "pid_of arg = (case stoul arg of Some pid \<Rightarrow> pid | None \<Rightarrow> 0)"

text \<open>One turn of the loop over the arguments: how many of the arguments after this one it takes.\<close>

definition read_option :: "string \<Rightarrow> string list \<Rightarrow> Options \<Rightarrow> nat \<times> Options" where
  "read_option arg rest opts =
     (if arg = ''--server'' \<and> 1 \<le> length rest then (1, opts\<lparr>op_server := rest ! 0\<rparr>)
      else if arg = ''--check'' then (0, opts\<lparr>op_check := True\<rparr>)
      else if arg = ''--install-update'' \<and> 1 \<le> length rest
      then (1, opts\<lparr>op_installUpdate := True, op_parentPid := pid_of (rest ! 0)\<rparr>)
      else if arg = ''--update-app'' \<and> 2 \<le> length rest
      then (2, opts\<lparr>op_installUpdate := True, op_parentPid := pid_of (rest ! 1)\<rparr>)
      else if arg = ''--apply'' then (0, opts\<lparr>op_installUpdate := True\<rparr>)
      else if arg = ''--repair'' then (0, opts\<lparr>op_repairDependencies := True\<rparr>)
      else if arg = ''--repair-stats-api'' \<and> 2 \<le> length rest
      then (2, opts\<lparr>op_repairStatsApi := True, op_statsApiPath := rest ! 0,
                 op_statsApiPort := (case stoi (rest ! 1) of Some port \<Rightarrow> port | None \<Rightarrow> 49123)\<rparr>)
      else if arg = ''--elevated'' then (0, opts\<lparr>op_elevatedRepair := True\<rparr>)
      else if arg = ''--result-file'' \<and> 1 \<le> length rest then (1, opts\<lparr>op_resultFile := rest ! 0\<rparr>)
      else if arg = ''--target-version'' \<and> 1 \<le> length rest then (1, opts\<lparr>op_targetVersion := rest ! 0\<rparr>)
      else (0, opts))"

function read_options :: "string list \<Rightarrow> Options \<Rightarrow> Options" where
  "read_options [] opts = opts"
| "read_options (arg # rest) opts = read_options (drop (fst (read_option arg rest opts)) rest) (snd (read_option arg rest opts))"
  by pat_completeness auto
termination by (relation "measure (\<lambda>(args, opts). length args)") auto

definition GetActiveServerUrl :: "Options \<Rightarrow> string" where
  "GetActiveServerUrl opts = (if op_server opts \<noteq> [] then op_server opts else ''https://omnistats.org'')"

text \<open>\<open>main\<close> after the arguments, unless it repairs the game's configuration: the exit code.\<close>

definition updater_main :: "UpdaterWorld \<Rightarrow> Options \<Rightarrow> UpdaterState \<Rightarrow> (int \<times> UpdaterState) option" where
  "updater_main w opts s =
     (if op_repairDependencies opts
      then map_option (\<lambda>(success, s). (if success then 0 else 1, s)) (RepairDependencies w s)
      else if op_check opts then
        let ((updateAvailable, latestVersion), s) = PerformUpdateCheck w (GetActiveServerUrl opts) [] s;
            s = (if op_resultFile opts \<noteq> [] \<and> latestVersion \<noteq> [] \<and> uw_canWrite w (op_resultFile opts)
                 then on_files (\<lambda>fs. fs(op_resultFile opts \<mapsto> latestVersion @ [CHR 0x0A])) s else s)
        in Some (if updateAvailable then 0 else if latestVersion = [] then 2 else 1, s)
      else if op_installUpdate opts then
        if op_parentPid opts \<noteq> 0 \<and> \<not> uw_exits w (op_parentPid opts) then Some (1, s)
        else
          let (success, s) = DownloadAndLaunchMsiUpgrade w (GetActiveServerUrl opts) (op_targetVersion opts) s
          in Some (if success then 0 else 1, s)
      else Some (1, s))"

end
