(* ===== verification/Update_Facts.thy ===== *)
theory Update_Facts
  imports Updater Http_Security
begin

text \<open>
  What the updater promises: an installer is started only after every check, archives give back the files they
  were made of, and the event log keeps the last events.
\<close>

section \<open>The chain of trust\<close>

lemma no_key_no_signature: "\<not> signed_by cr body signature []"
  by (simp add: signed_by_def key_of_hex_def Upd_Trim_def)

lemma fetched_manifest:
  assumes "FetchAndVerify cr parse net t t' server installed CURRENT_RELEASE_PUBLIC_KEY_HEX NEXT_RELEASE_PUBLIC_KEY_HEX out = (True, result, m)"
  obtains body signature where
    "net (server @ ''/release-manifest.json?t='' @ to_string t) = Some \<lparr>tr_curl = 0, tr_http = 200, tr_body = body\<rparr>"
    "net (server @ ''/release-manifest.json.sig?t='' @ to_string t') = Some \<lparr>tr_curl = 0, tr_http = 200, tr_body = signature\<rparr>"
    "signed_by cr body signature CURRENT_RELEASE_PUBLIC_KEY_HEX" "ParseManifest parse body ReleaseManifest0 = (True, m)"
    "installed = [] \<or> \<not> IsNewerVersion (rm_version m) installed"
proof -
  obtain body signature where
    net: "net (server @ ''/release-manifest.json?t='' @ to_string t) = Some \<lparr>tr_curl = 0, tr_http = 200, tr_body = body\<rparr>"
      "net (server @ ''/release-manifest.json.sig?t='' @ to_string t') = Some \<lparr>tr_curl = 0, tr_http = 200, tr_body = signature\<rparr>"
    and v: "VerifyManifest cr parse body signature installed (if CURRENT_RELEASE_PUBLIC_KEY_HEX = [] then CURRENT_RELEASE_PUBLIC_KEY_HEX
         else CURRENT_RELEASE_PUBLIC_KEY_HEX) (if NEXT_RELEASE_PUBLIC_KEY_HEX = [] then NEXT_RELEASE_PUBLIC_KEY_HEX
         else NEXT_RELEASE_PUBLIC_KEY_HEX) out = (ManifestOk, m)"
    using FetchAndVerify_ok[OF assms] by metis
  show ?thesis
    using that[OF net] VerifyManifest_ok[OF v] no_key_no_signature[of cr body signature] by (simp add: NEXT_RELEASE_PUBLIC_KEY_HEX_def)
qed

text \<open>Trimming a trimmed text in lower case changes nothing.\<close>

lemma Upd_Trim_id: "s \<noteq> [] \<longrightarrow> \<not> upd_blank (hd s) \<and> \<not> upd_blank (last s) \<Longrightarrow> Upd_Trim s = s"
proof (cases "s = []")
  case False
  moreover assume "s \<noteq> [] \<longrightarrow> \<not> upd_blank (hd s) \<and> \<not> upd_blank (last s)"
  ultimately have "dropWhile upd_blank s = s" "dropWhile upd_blank (rev s) = rev s"
    by (simp_all add: dropWhile_eq_self_iff hd_rev)
  then show ?thesis by (simp add: Upd_Trim_def)
qed (simp add: Upd_Trim_def)

lemma Upd_Trim_ends:
  assumes n: "Upd_Trim s \<noteq> []"
  shows "\<not> upd_blank (hd (Upd_Trim s)) \<and> \<not> upd_blank (last (Upd_Trim s))"
proof -
  let ?l = "dropWhile upd_blank s"
  have "rev (takeWhile upd_blank (rev ?l) @ dropWhile upd_blank (rev ?l)) = ?l" by (metis rev_rev_ident takeWhile_dropWhile_id)
  then have l: "?l = Upd_Trim s @ rev (takeWhile upd_blank (rev ?l))" unfolding Upd_Trim_def by (simp only: rev_append)
  then have "?l \<noteq> []" using n by (metis Nil_is_append_conv)
  then have "\<not> upd_blank (hd ?l)" by (rule hd_dropWhile)
  moreover have "hd ?l = hd (Upd_Trim s)" using l n by (metis hd_append2)
  moreover have "last (Upd_Trim s) = hd (dropWhile upd_blank (rev ?l))"
    using n by (simp add: Upd_Trim_def last_rev)
  moreover have "\<not> upd_blank (hd (dropWhile upd_blank (rev ?l)))"
    using n hd_dropWhile[of upd_blank "rev ?l"] unfolding Upd_Trim_def by blast
  ultimately show ?thesis by simp
qed

lemma to_lower_blank [simp]: "upd_blank (to_lower c) = upd_blank c"
  by (simp add: upd_blank_def char_code lower_code del: of_char_eq_iff)

lemma trim_lower [simp]: "Upd_Trim (map to_lower (Upd_Trim s)) = map to_lower (Upd_Trim s)"
  by (rule Upd_Trim_id) (use Upd_Trim_ends[of s] in \<open>auto simp: hd_map last_map\<close>)

text \<open>An accepted package has the expected hash, a signature, a pinned certificate, and was not found revoked.\<close>

lemma accepted_package:
  assumes "VerifyMsiPackage sha trust file expected [] [] = MsiOk"
  shows "VerifyFileSHA256 sha file expected \<and> sg_digestValid (VerifyAuthenticodeSignature sha trust file) \<and>
    map to_lower (sg_certSha256 (VerifyAuthenticodeSignature sha trust file)) = CURRENT_CERT_SHA256"
proof -
  have "Upd_Trim CURRENT_CERT_SHA256 = CURRENT_CERT_SHA256" "map to_lower CURRENT_CERT_SHA256 = CURRENT_CERT_SHA256"
      "CURRENT_CERT_SHA256 \<noteq> []" "Upd_Trim NEXT_CERT_SHA256 = []"
    by code_simp+
  then show ?thesis using assms by (auto simp: VerifyMsiPackage_def Let_def split: if_splits)
qed

lemma signature_not_revoked:
  assumes "sg_digestValid (VerifyAuthenticodeSignature sha trust file)"
  shows "ClassifyAuthenticodeStatus (ta_status (trust WholeChain file)) (NonRootRevocationErrors (trust WholeChain file)) True \<noteq> AuthRevoked"
  using assms by (auto simp: VerifyAuthenticodeSignature_def SignatureVerificationResult0_def Let_def)

lemma file_hash_ok:
  assumes "VerifyFileSHA256 sha file expected" "Upd_Trim expected = expected" "length expected = 64" "map to_lower expected = expected"
  obtains bytes where "file = Some bytes" "map to_lower (sha bytes) = expected"
  using assms by (auto simp: VerifyFileSHA256_def Let_def split: option.splits if_splits)

lemma parsed_checksum:
  assumes "ParseManifest parse body out = (True, m)"
  shows "length (rm_msi_sha256 m) = 64" "Upd_Trim (rm_msi_sha256 m) = rm_msi_sha256 m"
    "map to_lower (rm_msi_sha256 m) = rm_msi_sha256 m"
  using assms by (auto simp: ParseManifest_def Let_def comp_def split: if_splits option.splits)

section \<open>Starting the installer\<close>

lemma log_path_differs: "log_path w \<noteq> msi_path w"
  by (simp add: log_path_def msi_path_def)

lemma record_event_frame [simp]:
  "us_started (RecordUpdaterEvent w event target category s) = us_started s"
  "us_files (RecordUpdaterEvent w event target category s) (msi_path w) = us_files s (msi_path w)"
  using log_path_differs[of w] by (simp_all add: RecordUpdaterEvent_def on_files_def Append_def Let_def)

lemma on_files_started [simp]: "us_started (on_files f s) = us_started s"
  by (simp add: on_files_def)

lemma DownloadFile_started [simp]: "us_started (snd (DownloadFile w url path s)) = us_started s"
  by (simp add: DownloadFile_def split: option.split)

lemma LaunchSilentMsiUpgrade_started:
  "LaunchSilentMsiUpgrade w path target s = (ok, s') \<Longrightarrow>
   us_files s' (msi_path w) = us_files s (msi_path w) \<and> us_started s' \<in>
     {us_started s, us_started s @ [msi_command w (the (uw_systemDir w) @ [CHR 0x5C] @ ''msiexec.exe'') path]}"
  by (auto simp: LaunchSilentMsiUpgrade_def Let_def split: option.splits if_splits)

text \<open>
  C33: Windows Installer is started for one file only, and only if the server's manifest was signed with the pinned
  key, names a release that is not older than the installed one, and gives the hash of exactly the bytes that
  are installed, which in turn carry a valid signature of the pinned certificate that is not known to be revoked.
\<close>

theorem installer_started_only_if_verified:
  assumes "DownloadAndLaunchMsiUpgrade w server target s = (ok, s')" and "us_started s' \<noteq> us_started s"
  shows "\<exists>body signature m msi.
    uw_net w (server @ ''/release-manifest.json?t='' @ to_string (uw_time w 0)) = Some \<lparr>tr_curl = 0, tr_http = 200, tr_body = body\<rparr> \<and>
    uw_net w (server @ ''/release-manifest.json.sig?t='' @ to_string (uw_time w 1)) = Some \<lparr>tr_curl = 0, tr_http = 200, tr_body = signature\<rparr> \<and>
    signed_by (uw_crypto w) body signature CURRENT_RELEASE_PUBLIC_KEY_HEX \<and>
    ParseManifest (uw_parse w) body ReleaseManifest0 = (True, m) \<and>
    (uw_installed w = [] \<or> \<not> older (release_numbers (rm_version m)) (release_numbers (uw_installed w))) \<and>
    us_files s' (msi_path w) = Some msi \<and> map to_lower (uw_sha w msi) = rm_msi_sha256 m \<and>
    sg_digestValid (VerifyAuthenticodeSignature (uw_sha w) (uw_trust w) (Some msi)) \<and>
    map to_lower (sg_certSha256 (VerifyAuthenticodeSignature (uw_sha w) (uw_trust w) (Some msi))) = CURRENT_CERT_SHA256 \<and>
    ClassifyAuthenticodeStatus (ta_status (uw_trust w WholeChain (Some msi)))
      (NonRootRevocationErrors (uw_trust w WholeChain (Some msi))) True \<noteq> AuthRevoked \<and>
    us_started s' = us_started s @ [msi_command w (the (uw_systemDir w) @ [CHR 0x5C] @ ''msiexec.exe'') (msi_path w)]"
proof -
  let ?fetch = "FetchAndVerify (uw_crypto w) (uw_parse w) (uw_net w) (uw_time w 0) (uw_time w 1)
      server (uw_installed w) CURRENT_RELEASE_PUBLIC_KEY_HEX NEXT_RELEASE_PUBLIC_KEY_HEX ReleaseManifest0"
  obtain result m where fetch: "?fetch = (True, result, m)"
    using assms by (cases ?fetch) (auto simp: DownloadAndLaunchMsiUpgrade_def Let_def split: if_splits)
  let ?s2 = "on_files (\<lambda>fs. fs(msi_path w := None)) (RecordUpdaterEvent w ''update_started'' (rm_version m) [] s)"
  let ?url = "ResolveMsiUrl server (rm_msi_url m)"
  let ?url = "if CHR ''?'' \<notin> set ?url then ?url @ ''?t='' @ to_string (uw_time w 2) else ?url"
  obtain d h c s1 where dl: "DownloadFile w ?url (msi_path w) ?s2 = ((d, h, c), s1)" by (metis prod_cases3 surj_pair)
  have started: "us_started s1 = us_started s" using DownloadFile_started[of w ?url "msi_path w" ?s2] dl by simp
  note unfolded = assms(1)[unfolded DownloadAndLaunchMsiUpgrade_def Let_def fetch prod.case dl]
  have dir: "uw_makesDir w (uw_appData w @ ''updates'' @ [CHR 0x5C])" by (rule ccontr) (use unfolded assms(2) in auto)
  have d by (rule ccontr) (use unfolded dir started assms(2) in auto)
  have ok: "VerifyMsiPackage (uw_sha w) (uw_trust w) (us_files s1 (msi_path w)) (rm_msi_sha256 m) [] [] = MsiOk"
    by (rule ccontr) (use unfolded dir \<open>d\<close> started assms(2) in \<open>auto split: if_splits\<close>)
  then have launch: "LaunchSilentMsiUpgrade w (msi_path w) (rm_version m) s1 = (ok, s')" using unfolded dir \<open>d\<close> by simp
  obtain body signature where f:
    "uw_net w (server @ ''/release-manifest.json?t='' @ to_string (uw_time w 0)) = Some \<lparr>tr_curl = 0, tr_http = 200, tr_body = body\<rparr>"
    "uw_net w (server @ ''/release-manifest.json.sig?t='' @ to_string (uw_time w 1)) = Some \<lparr>tr_curl = 0, tr_http = 200, tr_body = signature\<rparr>"
    "signed_by (uw_crypto w) body signature CURRENT_RELEASE_PUBLIC_KEY_HEX" "ParseManifest (uw_parse w) body ReleaseManifest0 = (True, m)"
    "uw_installed w = [] \<or> \<not> IsNewerVersion (rm_version m) (uw_installed w)"
    using fetched_manifest[OF fetch] by metis
  note a = accepted_package[OF ok]
  obtain msi where msi: "us_files s1 (msi_path w) = Some msi" "map to_lower (uw_sha w msi) = rm_msi_sha256 m"
    using file_hash_ok[of "uw_sha w" "us_files s1 (msi_path w)" "rm_msi_sha256 m"] a parsed_checksum[OF f(4)] by blast
  show ?thesis
    using f a msi LaunchSilentMsiUpgrade_started[OF launch] started assms(2) signature_not_revoked[of "uw_sha w" "uw_trust w" "Some msi"]
    by (intro exI[of _ body] exI[of _ signature] exI[of _ m] exI[of _ msi]) (auto simp: newer_versions_order)
qed

definition sample_updater :: UpdaterWorld where
  "sample_updater =
     \<lparr>uw_crypto = \<lparr>rc_ready = True, rc_hex2bin = (\<lambda>n hex. Some (replicate n (CHR ''k''))), rc_verify = (\<lambda>sig msg pk. True)\<rparr>,
      uw_parse = (\<lambda>body. if body = ''m'' then Some (SerializeManifest sample_manifest) else None),
      uw_net = (\<lambda>url. Some \<lparr>tr_curl = 0, tr_http = 200,
        tr_body = (if url = ''https://omnistats.org/release-manifest.json?t=7'' then ''m'' else replicate 64 (CHR ''s''))\<rparr>),
      uw_time = (\<lambda>n. 7), uw_sha = (\<lambda>bytes. if bytes = ''cert'' then CURRENT_CERT_SHA256 else replicate 64 (CHR ''A'')),
      uw_trust = (\<lambda>mode file. \<lparr>ta_status = 0, ta_chains = None, ta_signer = Signer ''OmniStats'' ''cert''\<rparr>),
      uw_inflateReady = True, uw_inflate = (\<lambda>bytes calls. (-3, [])), uw_canWrite = (\<lambda>path. path \<noteq> ''data/updater_events.jsonl''), uw_stored = (\<lambda>path bytes. bytes),
      uw_makesDir = (\<lambda>path. True), uw_appData = ''data/'', uw_installed = ''2.0.9'', uw_systemDir = Some ''C:'',
      uw_starts = (\<lambda>command. True), uw_exits = (\<lambda>pid. True)\<rparr>"

definition sample_update :: "bool \<times> UpdaterState" where
  "sample_update =
     DownloadAndLaunchMsiUpgrade sample_updater ''https://omnistats.org'' [] \<lparr>us_files = Map.empty, us_started = []\<rparr>"

theorem installer_started_only_if_verified_witness:
  "\<exists>msi. us_files (snd sample_update) (msi_path sample_updater) = Some msi \<and> us_started (snd sample_update) \<noteq> [] \<and>
     map to_lower (uw_sha sample_updater msi) = replicate 64 (CHR ''a'')"
proof -
  have started: "us_started (snd sample_update) \<noteq> us_started \<lparr>us_files = Map.empty, us_started = []\<rparr>" by code_simp
  have run: "DownloadAndLaunchMsiUpgrade sample_updater ''https://omnistats.org'' [] \<lparr>us_files = Map.empty, us_started = []\<rparr> =
      (fst sample_update, snd sample_update)" by (simp add: sample_update_def)
  obtain body m msi where m: "uw_net sample_updater (''https://omnistats.org'' @ ''/release-manifest.json?t='' @ to_string (uw_time sample_updater 0)) =
      Some \<lparr>tr_curl = 0, tr_http = 200, tr_body = body\<rparr>" "ParseManifest (uw_parse sample_updater) body ReleaseManifest0 = (True, m)"
      "us_files (snd sample_update) (msi_path sample_updater) = Some msi" "map to_lower (uw_sha sample_updater msi) = rm_msi_sha256 m"
    using installer_started_only_if_verified[OF run started] by metis
  have "uw_net sample_updater (''https://omnistats.org'' @ ''/release-manifest.json?t='' @ to_string (uw_time sample_updater 0)) =
      Some \<lparr>tr_curl = 0, tr_http = 200, tr_body = ''m''\<rparr>" by code_simp
  moreover have "ParseManifest (uw_parse sample_updater) ''m'' ReleaseManifest0 = (True, sample_manifest)" by code_simp
  ultimately have "rm_msi_sha256 m = replicate 64 (CHR ''a'')" using m by (simp add: sample_manifest_def)
  then show ?thesis using m started by auto
qed

section \<open>Archives\<close>

text \<open>
  A file of an archive as tar writes it: its header (name, other fields, the size in eleven octal digits, other fields, the
  type, other fields), the content and zeros up to the next multiple of 512.
\<close>

record tar_file =
  tf_name :: string
  tf_mode :: string
  tf_times :: string
  tf_type :: char
  tf_more :: string
  tf_content :: string

fun octal_digits :: "nat \<Rightarrow> nat \<Rightarrow> string" where
  "octal_digits 0 n = []"
| "octal_digits (Suc k) n = octal_digits k (n div 8) @ [char_of (48 + n mod 8)]"

definition tar_entry :: "tar_file \<Rightarrow> string" where
  "tar_entry f =
     tf_name f @ replicate (100 - length (tf_name f)) (CHR 0x00) @ tf_mode f @ octal_digits 11 (length (tf_content f)) @
     [CHR 0x00] @ tf_times f @ [tf_type f] @ tf_more f @
     tf_content f @ replicate (nat ((int (length (tf_content f)) + 511) div 512 * 512) - length (tf_content f)) (CHR 0x00)"

definition tar_file_ok :: "tar_file \<Rightarrow> bool" where
  "tar_file_ok f \<longleftrightarrow>
     tf_name f \<noteq> [] \<and> length (tf_name f) \<le> 100 \<and> CHR 0x00 \<notin> set (tf_name f) \<and> length (tf_mode f) = 24 \<and>
     length (tf_times f) = 20 \<and> length (tf_more f) = 355 \<and> length (tf_content f) < 8 ^ 11"

definition shown_name :: "tar_file \<Rightarrow> string" where
  "shown_name f = (if take 2 (tf_name f) = ''./'' then drop 2 (tf_name f) else tf_name f)"

lemma octal_char: "n < 8 \<Longrightarrow> is_octal (char_of (48 + n :: nat)) \<and> digit_value (char_of (48 + n :: nat)) = int n"
  using digit_of_char[of n] by (auto simp: is_octal_def less_eq_char_def)

lemma octal_digits_ok:
  "length (octal_digits k n) = k \<and> list_all is_octal (octal_digits k n) \<and>
   (n < 8 ^ k \<longrightarrow> foldl (\<lambda>v c. v * 8 + digit_value c) 0 (octal_digits k n) = int n)"
proof (induction k arbitrary: n)
  case (Suc k)
  have "n < 8 ^ Suc k \<longrightarrow> n div 8 < 8 ^ k" by (simp add: less_mult_imp_div_less)
  moreover have "int (n div 8) * 8 + int (n mod 8) = int n" by presburger
  ultimately show ?case using Suc.IH[of "n div 8"] octal_char[of "n mod 8"] by auto
qed simp

lemma parse_octal: "n < 8 ^ k \<Longrightarrow> parseTarOctal (octal_digits k n @ [CHR 0x00]) = int n"
proof -
  assume n: "n < 8 ^ k"
  have "takeWhile is_octal (octal_digits k n @ [CHR 0x00]) = octal_digits k n"
    using octal_digits_ok[of k n] by (simp add: takeWhile_append2 list_all_iff is_octal_def)
  then show ?thesis using n octal_digits_ok[of k n] by (simp add: parseTarOctal_def)
qed

lemma padded_ge: "int n \<le> (int n + 511) div 512 * 512"
proof -
  have "(int n + 511) div 512 * 512 + (int n + 511) mod 512 = int n + 511" by (rule div_mult_mod_eq)
  moreover have "(int n + 511) mod 512 < 512" by simp
  ultimately show ?thesis by linarith
qed

lemma padded_size:
  "nat ((int n + 511) div 512 * 512) = n + (nat ((int n + 511) div 512 * 512) - n)"
  using padded_ge[of n] by linarith

lemma tar_name_padded:
  assumes "CHR 0x00 \<notin> set name" "length name \<le> 100"
  shows "tar_name (name @ replicate (100 - length name) (CHR 0x00) @ zs) = (if take 2 name = ''./'' then drop 2 name else name)"
proof -
  have "take 100 (name @ replicate (100 - length name) (CHR 0x00) @ zs) = name @ replicate (100 - length name) (CHR 0x00)"
    using assms(2) by simp
  moreover have "takeWhile (\<lambda>c. c \<noteq> CHR 0x00) (name @ replicate (100 - length name) (CHR 0x00)) = name"
    using assms(1) by (subst takeWhile_append2) (auto simp: takeWhile_replicate)
  ultimately show ?thesis by (simp add: tar_name_def Let_def)
qed

lemma drop_first: "length xs = n \<Longrightarrow> drop n (xs @ ys) = ys"
  by simp

lemma take_first: "length xs = n \<Longrightarrow> take n (xs @ ys) = xs"
  by simp

lemma tar_member_step:
  assumes "512 \<le> length A" "hd A \<noteq> CHR 0x00" "tar_size A = int n" "tar_name A = name" "A ! 156 = kind"
    and "drop 512 A = content @ replicate (nat ((int n + 511) div 512 * 512) - n) (CHR 0x00) @ rest" "length content = n"
  shows "tar_member target A = (if name = target \<and> kind = CHR ''0'' then Some content else tar_member target rest)"
proof -
  have "drop (nat ((int n + 511) div 512 * 512)) (drop 512 A) = rest"
    using drop_first[of "content @ replicate (nat ((int n + 511) div 512 * 512) - n) (CHR 0x00)" _ rest] padded_size[of n] assms(6,7)
    by simp
  moreover have "\<not> (int n + 511) div 512 * 512 + int (length rest) < int n" using padded_ge[of n] by linarith
  ultimately show ?thesis using assms by (subst tar_member.simps) (simp add: Let_def)
qed

lemma tar_member_entry:
  assumes "tar_file_ok f"
  shows "tar_member target (tar_entry f @ rest) =
    (if shown_name f = target \<and> tf_type f = CHR ''0'' then Some (tf_content f) else tar_member target rest)"
proof -
  let ?n = "length (tf_content f)"
  let ?oct = "octal_digits 11 ?n"
  let ?zeros = "replicate (100 - length (tf_name f)) (CHR 0x00)"
  let ?pad = "replicate (nat ((int ?n + 511) div 512 * 512) - ?n) (CHR 0x00)"
  let ?tail = "tf_content f @ ?pad @ rest"
  let ?name = "tf_name f @ ?zeros"
  let ?upto = "?name @ tf_mode f @ ?oct @ [CHR 0x00] @ tf_times f"
  let ?all = "?upto @ [tf_type f] @ tf_more f @ ?tail"
  have e: "tar_entry f @ rest = ?all" by (simp add: tar_entry_def)
  have ok: "tf_name f \<noteq> []" "length (tf_name f) \<le> 100" "CHR 0x00 \<notin> set (tf_name f)" "length (tf_mode f) = 24"
      "length (tf_times f) = 20" "length (tf_more f) = 355" "?n < 8 ^ 11"
    using assms by (simp_all add: tar_file_ok_def)
  have lens: "length ?name = 100" "length (?oct @ [CHR 0x00]) = 12" "length ?upto = 156"
    using ok octal_digits_ok[of 11 ?n] by simp_all
  have "drop 124 ((?name @ tf_mode f) @ ?oct @ [CHR 0x00] @ tf_times f @ [tf_type f] @ tf_more f @ ?tail) =
      ?oct @ [CHR 0x00] @ tf_times f @ [tf_type f] @ tf_more f @ ?tail"
    by (rule drop_first) (insert ok(2,4), simp)
  then have "drop 124 ?all = ?oct @ [CHR 0x00] @ tf_times f @ [tf_type f] @ tf_more f @ ?tail"
    by (simp only: append_assoc)
  moreover have "take 12 ((?oct @ [CHR 0x00]) @ tf_times f @ [tf_type f] @ tf_more f @ ?tail) = ?oct @ [CHR 0x00]"
    by (rule take_first) (rule lens(2))
  ultimately have "take 12 (drop 124 ?all) = ?oct @ [CHR 0x00]" by (simp only: append_assoc)
  then have size: "tar_size ?all = int ?n" by (simp only: tar_size_def parse_octal[OF ok(7)])
  have name: "tar_name ?all = shown_name f"
    using tar_name_padded[OF ok(3,2)] by (simp add: shown_name_def)
  have type: "?all ! 156 = tf_type f" using nth_append_length[of ?upto "tf_type f"] lens by simp
  have body: "drop 512 ?all = ?tail" using drop_first[of "?upto @ [tf_type f] @ tf_more f" 512] lens ok by simp
  have "hd ?all \<noteq> CHR 0x00" using ok by (cases "tf_name f") auto
  moreover have "512 \<le> length ?all" using lens ok by simp
  ultimately show ?thesis unfolding e using tar_member_step[OF _ _ size name type body refl] by blast
qed

text \<open>
  C1: An archive gives back what was put into it: the content of the first regular file of the name that is
  asked for (a leading \<open>./\<close> does not count), and nothing for another name.
\<close>

theorem archive_gives_files_back:
  assumes "list_all tar_file_ok fs" and "trailer = [] \<or> hd trailer = CHR 0x00"
  shows "tar_member target (concat (map tar_entry fs) @ trailer) =
    map_option tf_content (find (\<lambda>f. shown_name f = target \<and> tf_type f = CHR ''0'') fs)"
  using assms(1)
proof (induction fs)
  case Nil
  then show ?case using assms(2) by (auto simp: tar_member.simps)
qed (simp add: tar_member_entry)

definition sample_tar_file :: "string \<Rightarrow> string \<Rightarrow> tar_file" where
  "sample_tar_file name content =
     \<lparr>tf_name = name, tf_mode = replicate 24 (CHR ''7''), tf_times = replicate 20 (CHR ''1''), tf_type = CHR ''0'',
      tf_more = replicate 355 (CHR 0x00), tf_content = content\<rparr>"

theorem archive_gives_files_back_witness:
  "tar_member ''bin/zlib.dll'' (tar_entry (sample_tar_file ''./README'' ''text'') @ tar_entry (sample_tar_file ''./bin/zlib.dll'' ''MZ'')) = Some ''MZ''"
proof -
  have "list_all tar_file_ok [sample_tar_file ''./README'' ''text'', sample_tar_file ''./bin/zlib.dll'' ''MZ'']"
    by (simp add: tar_file_ok_def sample_tar_file_def)
  from archive_gives_files_back[OF this, of "[]" "''bin/zlib.dll''"] show ?thesis
    by (simp add: shown_name_def sample_tar_file_def)
qed

text \<open>
  Decompressing returns once \<open>inflate\<close> reports the end of the stream or an error, and only then: the code for
  missing input (-5), which an archive that was cut off gives, is asked again forever.
\<close>

lemma inflate_loop_ends:
  "\<forall>calls. n \<le> length calls \<longrightarrow> fst (inflate calls) \<in> {-4, -3, -2, 1} \<Longrightarrow> \<exists>r. inflate_loop inflate room out calls = Some r"
proof (induction "n - length calls" arbitrary: room out calls)
  case 0
  let ?calls = "calls @ [(if room \<le> length out then room * 2 else room) - length out]"
  have "fst (inflate ?calls) \<in> {-4, -3, -2, 1}" using 0 by simp
  then show ?case by (subst inflate_loop.simps) (simp only: Let_def case_prod_unfold, auto)
next
  case (Suc k)
  have "k = n - length (calls @ [x])" for x using Suc.hyps(2) by simp
  from Suc.hyps(1)[OF this Suc.prems] show ?case
    by (subst inflate_loop.simps) (simp add: Let_def split: prod.split)
qed

lemma inflate_loop_result:
  assumes "inflate_loop inflate room out calls = Some r"
  shows "\<exists>calls. fst (inflate calls) \<in> {-4, -3, -2, 1}"
proof (rule inflate_loop.raw_induct[OF _ assms, where P = "\<lambda>inflate _ _ _ _. \<exists>calls. fst (inflate calls) \<in> {-4, -3, -2, 1}"], goal_cases)
  case (1 loop inflate room out calls r)
  let ?calls = "calls @ [(if room \<le> length out then room * 2 else room) - length out]"
  show ?case
  proof (cases "fst (inflate ?calls) \<in> {-4, -3, -2, 1}")
    case False
    then have "\<exists>room out calls. loop inflate room out calls = Some r"
      using 1(2) by (simp only: Let_def case_prod_unfold) (auto split: if_splits)
    then show ?thesis using 1(1) by blast
  qed blast
qed

lemma inflate_loop_stuck:
  "\<forall>calls. fst (inflate calls) \<notin> {-4, -3, -2, 1} \<Longrightarrow> inflate_loop inflate room out calls = None"
  using inflate_loop_result[of inflate room out calls] by (cases "inflate_loop inflate room out calls") blast+

section \<open>The event log\<close>

definition clean_line :: "string \<Rightarrow> bool" where
  "clean_line l \<longleftrightarrow> l \<noteq> [] \<and> CHR 0x0A \<notin> set l \<and> last l \<notin> {CHR 0x0D, CHR '' '', CHR 0x09}"

lemma drop_trailing_blanks_clean: "drop_trailing_blanks l \<noteq> [] \<Longrightarrow> CHR 0x0A \<notin> set l \<Longrightarrow> clean_line (drop_trailing_blanks l)"
  using hd_dropWhile[of "\<lambda>c. c \<in> {CHR 0x0D, CHR '' '', CHR 0x09}" "rev l"]
  by (auto simp: clean_line_def drop_trailing_blanks_def last_rev dest: set_dropWhileD)

lemma ReadLines_clean: "list_all clean_line (ReadLines file)"
  by (auto simp: ReadLines_def list_all_iff drop_trailing_blanks_clean text_lines_no_lf split: option.split)

lemma drop_trailing_blanks_id: "clean_line l \<Longrightarrow> drop_trailing_blanks l = l"
proof -
  assume "clean_line l"
  then have "dropWhile (\<lambda>c. c \<in> {CHR 0x0D, CHR '' '', CHR 0x09}) (rev l) = rev l"
    by (auto simp: clean_line_def dropWhile_eq_self_iff hd_rev)
  then show ?thesis by (simp only: drop_trailing_blanks_def rev_rev_ident)
qed

lemma read_written_lines: "list_all clean_line ls \<Longrightarrow> ReadLines (Some (lines_text ls)) = ls"
proof (induction ls)
  case (Cons l ls)
  then show ?case
    using text_lines_cons[of l "lines_text ls"] drop_trailing_blanks_id[of l]
    by (simp add: ReadLines_def lines_text_def clean_line_def)
qed (simp add: ReadLines_def lines_text_def)

lemma log_line_clean: "clean_line (log_line event target category version)"
proof -
  have "CHR 0x0A \<notin> set (escape_text s)" for s by (auto simp: escape_text_def split: if_splits)
  then show ?thesis by (simp add: clean_line_def log_line_def)
qed

text \<open>The last \<open>n\<close> of a list.\<close>

definition last_of :: "nat \<Rightarrow> 'a list \<Rightarrow> 'a list" where
  "last_of n xs = drop (length xs - n) xs"

lemma last_of_append: "last_of n (last_of n xs @ ys) = last_of n (xs @ ys)"
  by (cases "n \<le> length xs") (simp_all add: last_of_def add.commute)

lemma list_all_last_of: "list_all P xs \<Longrightarrow> list_all P (last_of n xs)"
  by (auto simp: last_of_def list_all_iff dest: in_set_dropD)

lemma logged_event:
  assumes "uw_canWrite w (log_path w)"
  shows "ReadLines (us_files (RecordUpdaterEvent w event target category s) (log_path w)) =
    last_of kMaxLines (ReadLines (us_files s (log_path w)) @ [log_line event target category (uw_installed w)])"
proof -
  have "list_all clean_line (ReadLines (us_files s (log_path w)) @ [log_line event target category (uw_installed w)])"
    using ReadLines_clean log_line_clean by simp
  from read_written_lines[OF list_all_last_of[OF this]] show ?thesis
    using assms by (simp add: RecordUpdaterEvent_def on_files_def Append_def last_of_def Let_def)
qed

text \<open>
  C39: However many events the updater records, in one run or in several, the log can be read back line by line:
  it holds the last twenty of the lines that were in it and the recorded events, in their order, one line
  to an event whatever characters its texts have.
\<close>

theorem log_keeps_last_events:
  assumes "uw_canWrite w (log_path w)" and "events \<noteq> []"
  shows "ReadLines (us_files (fold (\<lambda>(event, target, category). RecordUpdaterEvent w event target category) events s) (log_path w)) =
    last_of kMaxLines (ReadLines (us_files s (log_path w)) @
      map (\<lambda>(event, target, category). log_line event target category (uw_installed w)) events)"
  using assms(2)
proof (induction events arbitrary: s rule: list_nonempty_induct)
  case (single x)
  then show ?case using logged_event[OF assms(1)] by (simp add: case_prod_unfold)
next
  case (cons x xs)
  then show ?case by (simp add: case_prod_unfold logged_event[OF assms(1)] last_of_append)
qed

theorem log_keeps_last_events_witness:
  "ReadLines (us_files (RecordUpdaterEvent (sample_updater\<lparr>uw_canWrite := (\<lambda>path. True)\<rparr>) [CHR 0x0A, CHR 0x22] [] []
     \<lparr>us_files = Map.empty, us_started = []\<rparr>) ''data/updater_events.jsonl'') =
   [log_line [CHR 0x22] [] [] ''2.0.9'']"
proof -
  let ?w = "sample_updater\<lparr>uw_canWrite := (\<lambda>path. True)\<rparr>"
  have "log_path ?w = ''data/updater_events.jsonl''" by (simp add: log_path_def sample_updater_def)
  moreover have "log_line [CHR 0x0A, CHR 0x22] [] [] ''2.0.9'' = log_line [CHR 0x22] [] [] ''2.0.9''"
    by (simp add: log_line_def escape_text_def)
  ultimately show ?thesis
    using log_keeps_last_events[of ?w "[([CHR 0x0A, CHR 0x22], [], [])]" "\<lparr>us_files = Map.empty, us_started = []\<rparr>"]
    by (simp add: last_of_def ReadLines_def kMaxLines_def) (simp add: sample_updater_def)
qed

section \<open>Checks for updates\<close>

lemma accepted_version: "ParseManifest parse body out = (True, m) \<Longrightarrow> rm_version m \<noteq> []"
  by (auto simp: ParseManifest_def Let_def split: if_splits option.splits)

lemma check_exit_code:
  assumes "op_check opts" "\<not> op_repairDependencies opts"
    and "FetchAndVerify (uw_crypto w) (uw_parse w) (uw_net w) (uw_time w 0) (uw_time w 1) (GetActiveServerUrl opts) (uw_installed w)
      CURRENT_RELEASE_PUBLIC_KEY_HEX NEXT_RELEASE_PUBLIC_KEY_HEX ReleaseManifest0 = (ok, result, m)"
  shows "\<exists>s'. updater_main w opts s =
    Some (if \<not> ok then 2 else if IsNewerVersion (uw_installed w) (rm_version m) then 0 else 1, s')"
proof (cases ok)
  case False
  then show ?thesis using assms by (simp add: updater_main_def PerformUpdateCheck_def Let_def)
next
  case True
  then have "rm_version m \<noteq> []"
    using fetched_manifest[of "uw_crypto w"] assms(3) accepted_version by metis
  then show ?thesis using assms True by (simp add: updater_main_def PerformUpdateCheck_def Let_def)
qed

end
