(* ===== verification/Update_Launcher.thy ===== *)
theory Update_Launcher
  imports Update_Facts
begin

text \<open>
  \<open>network/ExternalUpdaterLauncher.cpp\<close>: how the application runs the updater program to look for updates and to
  install them. The updater that is started is the program of \<open>Updater\<close>; its exit code and the file it
  writes are all the application learns. Callers, the thread of a check and the clock interleave as the steps of
  \<open>check_step\<close>. The telemetry of failed checks and the message boxes are not modelled.
\<close>

section \<open>Running the updater\<close>

datatype UpdateCheckResult = UpdateAvailable | UpToDate | CheckFailed

text \<open>How the process of a check went: not started, still running after the timeout, without a readable exit code, or ended.\<close>

datatype ProcessOutcome = NotLaunched | TimedOut files | NoExitCode files | Exited int files

definition ReadFirstLine :: "string option \<Rightarrow> string" where
  "ReadFirstLine file =
     (case file of None \<Rightarrow> []
      | Some content \<Rightarrow>
          rev (dropWhile (\<lambda>c. c \<in> {CHR 0x0D, CHR 0x0A, CHR '' '', CHR 0x09}) (rev (takeWhile (\<lambda>c. c \<noteq> CHR 0x0A) content))))"

definition check_arguments :: "string \<Rightarrow> string list" where
  "check_arguments resultPath = [''--check'', ''--result-file'', resultPath]"

text \<open>
  \<open>run\<close> starts the updater with its arguments, as the runtime splits them, on the files; \<open>resultPath\<close> is \<open>None\<close> where
  there is no directory for temporary files. The result comes with \<open>latestVersion\<close>.
\<close>

definition RunInstalledUpdaterCheck ::
  "bool \<Rightarrow> string option \<Rightarrow> (string list \<Rightarrow> files \<Rightarrow> ProcessOutcome) \<Rightarrow> files \<Rightarrow> UpdateCheckResult \<times> string \<times> files" where
  "RunInstalledUpdaterCheck found resultPath run fs =
     (if \<not> found then (CheckFailed, [], fs)
      else case resultPath of None \<Rightarrow> (CheckFailed, [], fs)
      | Some path \<Rightarrow>
          let fs = fs(path := None)
          in case run (check_arguments path) fs of
               NotLaunched \<Rightarrow> (CheckFailed, [], fs)
             | TimedOut fs \<Rightarrow> (CheckFailed, [], fs(path := None))
             | NoExitCode fs \<Rightarrow> (CheckFailed, [], fs(path := None))
             | Exited exitCode fs \<Rightarrow>
                 let latestVersion = ReadFirstLine (fs path)
                 in (if exitCode = 0 then UpdateAvailable
                     else if exitCode = 1 \<and> latestVersion \<noteq> [] then UpToDate else CheckFailed,
                     latestVersion, fs(path := None)))"

section \<open>When a check is allowed\<close>

datatype BackgroundUpdateCheckReason = Initial | SettingsOpened | Periodic

definition MinimumIntervalFor :: "BackgroundUpdateCheckReason \<Rightarrow> 64 word" where
  "MinimumIntervalFor reason =
     (case reason of Initial \<Rightarrow> 0 | SettingsOpened \<Rightarrow> 5 * 60 * 1000 | Periodic \<Rightarrow> 60 * 60 * 1000)"

definition kFailedUpdateCheckRetryMs :: "64 word" where "kFailedUpdateCheckRetryMs = 5 * 60 * 1000"

definition UpdateCheckAllowed :: "64 word \<Rightarrow> 64 word \<Rightarrow> BackgroundUpdateCheckReason \<Rightarrow> 64 word \<Rightarrow> bool" where
  "UpdateCheckAllowed lastAttempt lastSuccess reason now =
     (if lastSuccess < lastAttempt \<and> lastAttempt \<noteq> 0 \<and> now - lastAttempt < kFailedUpdateCheckRetryMs then False
      else
        let minimumInterval = MinimumIntervalFor reason
        in minimumInterval = 0 \<or> lastSuccess = 0 \<or> minimumInterval \<le> now - lastSuccess)"

section \<open>Checks in the background\<close>

text \<open>What the checks write of the interface's state.\<close>

record UpdateUi =
  ux_updateAvailableVersion :: string
  ux_updateServerUrl :: string
  ux_updateAvailable :: bool
  ux_updateChecked :: bool
  ux_updatePromptShown :: bool
  ux_updateDownloadFailed :: bool
  ux_updateDownloading :: bool
  ux_appExitRequested :: bool

definition show_check_result :: "UpdateCheckResult \<Rightarrow> string \<Rightarrow> UpdateUi \<Rightarrow> UpdateUi" where
  "show_check_result result latestVersion ui =
     (if result = CheckFailed then ui
      else
        let updateAvailable = (result = UpdateAvailable);
            ui = ui\<lparr>ux_updateAvailableVersion := (if updateAvailable then latestVersion else []), ux_updateServerUrl := [],
                    ux_updateAvailable := updateAvailable, ux_updateChecked := True\<rparr>
        in if updateAvailable then ui else ui\<lparr>ux_updatePromptShown := False, ux_updateDownloadFailed := False\<rparr>)"

text \<open>
  A caller of \<open>StartBackgroundUpdateCheck\<close> that has passed the first test, or has also taken the slot
  (\<open>g_updateCheckInProgress\<close>). \<open>ck_starts\<close> is a history: when checks started, the latest first, and why.
\<close>

datatype Caller = Gated BackgroundUpdateCheckReason | Claimed BackgroundUpdateCheckReason

record Checker =
  ck_inProgress :: bool
  ck_lastAttempt :: "64 word"
  ck_lastSuccess :: "64 word"
  ck_running :: bool
  ck_callers :: "Caller list"
  ck_ui :: UpdateUi
  ck_clock :: "64 word"
  ck_starts :: "(64 word \<times> BackgroundUpdateCheckReason) list"

inductive check_step :: "Checker \<Rightarrow> Checker \<Rightarrow> bool" where
  tick: "ck_clock c \<le> t \<Longrightarrow> check_step c (c\<lparr>ck_clock := t\<rparr>)"
| pass_gate: "now \<le> ck_clock c \<Longrightarrow> UpdateCheckAllowed (ck_lastAttempt c) (ck_lastSuccess c) reason now \<Longrightarrow>
    check_step c (c\<lparr>ck_callers := Gated reason # ck_callers c\<rparr>)"
| refuse: "Gated reason \<in> set (ck_callers c) \<Longrightarrow> ck_inProgress c \<Longrightarrow>
    check_step c (c\<lparr>ck_callers := remove1 (Gated reason) (ck_callers c)\<rparr>)"
| claim: "Gated reason \<in> set (ck_callers c) \<Longrightarrow> \<not> ck_inProgress c \<Longrightarrow>
    check_step c (c\<lparr>ck_inProgress := True, ck_callers := Claimed reason # remove1 (Gated reason) (ck_callers c)\<rparr>)"
| back_off: "Claimed reason \<in> set (ck_callers c) \<Longrightarrow>
    \<not> UpdateCheckAllowed (ck_lastAttempt c) (ck_lastSuccess c) reason (ck_clock c) \<Longrightarrow>
    check_step c (c\<lparr>ck_inProgress := False, ck_callers := remove1 (Claimed reason) (ck_callers c)\<rparr>)"
| start: "Claimed reason \<in> set (ck_callers c) \<Longrightarrow>
    UpdateCheckAllowed (ck_lastAttempt c) (ck_lastSuccess c) reason (ck_clock c) \<Longrightarrow>
    check_step c (c\<lparr>ck_lastAttempt := ck_clock c, ck_running := True, ck_callers := remove1 (Claimed reason) (ck_callers c),
                    ck_starts := (ck_clock c, reason) # ck_starts c\<rparr>)"
| no_thread: "Claimed reason \<in> set (ck_callers c) \<Longrightarrow>
    UpdateCheckAllowed (ck_lastAttempt c) (ck_lastSuccess c) reason (ck_clock c) \<Longrightarrow>
    check_step c (c\<lparr>ck_lastAttempt := ck_clock c, ck_inProgress := False,
                    ck_callers := remove1 (Claimed reason) (ck_callers c)\<rparr>)"
| finish: "ck_running c \<Longrightarrow>
    check_step c (c\<lparr>ck_lastSuccess := (if result = CheckFailed then ck_lastSuccess c else ck_clock c), ck_running := False,
                    ck_inProgress := False, ck_ui := show_check_result result latestVersion (ck_ui c)\<rparr>)"

inductive_cases check_stepE: "check_step c c'"

section \<open>Installing\<close>

text \<open>The command line after the updater's own path, if the path of the application is known.\<close>

definition update_arguments :: "string \<Rightarrow> string \<Rightarrow> string \<Rightarrow> string" where
  "update_arguments exePath pid targetVersion =
     ''--update-app '' @ [CHR 0x22] @ exePath @ [CHR 0x22] @ '' '' @ pid @
     (if targetVersion \<noteq> [] then '' --target-version '' @ targetVersion else [])"

text \<open>\<open>StartInteractiveUpdate\<close>; \<open>launches\<close> says whether the updater could be started with a command line.\<close>

definition StartInteractiveUpdate :: "(string \<Rightarrow> bool) \<Rightarrow> string option \<Rightarrow> string \<Rightarrow> UpdateUi \<Rightarrow> UpdateUi" where
  "StartInteractiveUpdate launches exePath pid ui =
     (if ux_updateDownloading ui then ui
      else
        let ui = ui\<lparr>ux_updateDownloading := True, ux_updateDownloadFailed := False\<rparr>;
            launched = (case exePath of None \<Rightarrow> False
                        | Some path \<Rightarrow> launches (update_arguments path pid (ux_updateAvailableVersion ui)))
        in if \<not> launched then ui\<lparr>ux_updateDownloading := False, ux_updateDownloadFailed := True\<rparr>
           else ui\<lparr>ux_appExitRequested := True\<rparr>)"

text \<open>\<open>RunStartupUpdateCheck\<close>: the attempts noted, and whether the updater took over.\<close>

definition RunStartupUpdateCheck ::
  "64 word \<Rightarrow> 64 word \<Rightarrow> UpdateCheckResult \<times> string \<times> files \<Rightarrow> (string \<Rightarrow> bool) \<Rightarrow> string option \<Rightarrow> string \<Rightarrow> Checker \<Rightarrow> bool \<times> Checker" where
  "RunStartupUpdateCheck now later check launches exePath pid c =
     (let c = c\<lparr>ck_lastAttempt := now\<rparr>; (result, latestVersion, _) = check;
          c = (if result \<noteq> CheckFailed then c\<lparr>ck_lastSuccess := later\<rparr> else c)
      in if result \<noteq> UpdateAvailable then (False, c)
         else (case exePath of None \<Rightarrow> False | Some path \<Rightarrow> launches (update_arguments path pid latestVersion), c))"

section \<open>Checks are spaced\<close>

definition is_claimed :: "Caller \<Rightarrow> bool" where
  "is_claimed k = (case k of Gated _ \<Rightarrow> False | Claimed _ \<Rightarrow> True)"

lemma is_claimed_simps [simp]: "is_claimed (Claimed r)" "\<not> is_claimed (Gated r)"
  by (simp_all add: is_claimed_def)

text \<open>How many hold the slot: callers that took it and the running check.\<close>

definition holders :: "Checker \<Rightarrow> nat" where
  "holders c = length (filter is_claimed (ck_callers c)) + (if ck_running c then 1 else 0)"

text \<open>Five minutes lie before every check but the first and those of the start of the application.\<close>

fun spaced :: "(64 word \<times> BackgroundUpdateCheckReason) list \<Rightarrow> bool" where
  "spaced ((t, reason) # (t', reason') # starts) =
     ((reason = Initial \<or> unat t' + 300000 \<le> unat t) \<and> spaced ((t', reason') # starts))"
| "spaced _ = True"

definition check_inv :: "Checker \<Rightarrow> bool" where
  "check_inv c \<longleftrightarrow>
     holders c = (if ck_inProgress c then 1 else 0) \<and> 0 < ck_clock c \<and>
     ck_lastAttempt c \<le> ck_clock c \<and> ck_lastSuccess c \<le> ck_clock c \<and> spaced (ck_starts c) \<and>
     (ck_starts c = [] \<or> fst (hd (ck_starts c)) \<le> ck_lastAttempt c \<and> 0 < ck_lastAttempt c)"

lemma filter_remove1: "x \<in> set xs \<Longrightarrow> P x \<Longrightarrow> Suc (length (filter P (remove1 x xs))) = length (filter P xs)"
  by (induction xs) auto

lemma filter_remove1_other: "\<not> P x \<Longrightarrow> filter P (remove1 x xs) = filter P xs"
  by (induction xs) auto

lemma word_since: "b \<le> (a :: 64 word) \<Longrightarrow> n \<le> a - b \<Longrightarrow> unat b + unat n \<le> unat a"
  by (simp add: word_le_nat_alt unat_sub)

lemma allowed_after:
  assumes "UpdateCheckAllowed lastAttempt lastSuccess reason now" "reason \<noteq> Initial" "0 < lastAttempt"
    and "lastAttempt \<le> now" "lastSuccess \<le> now"
  shows "unat lastAttempt + 300000 \<le> unat now"
proof (cases "lastSuccess < lastAttempt")
  case True
  then have "kFailedUpdateCheckRetryMs \<le> now - lastAttempt"
    using assms(1,3) by (auto simp: UpdateCheckAllowed_def split: if_splits)
  from word_since[OF assms(4) this] show ?thesis by (simp add: kFailedUpdateCheckRetryMs_def)
next
  case False
  then have "lastSuccess \<noteq> 0" using assms(3) by auto
  moreover have "300000 \<le> MinimumIntervalFor reason" "MinimumIntervalFor reason \<noteq> 0"
    using assms(2) by (cases reason; simp add: MinimumIntervalFor_def)+
  ultimately have "300000 \<le> now - lastSuccess"
    using assms(1) False by (auto simp: UpdateCheckAllowed_def Let_def split: if_splits)
  from word_since[OF assms(5) this] show ?thesis using False by (simp add: word_le_nat_alt not_less)
qed

lemma check_inv_step: "check_step c c' \<Longrightarrow> check_inv c \<Longrightarrow> check_inv c'"
proof (induction rule: check_step.induct)
  case (tick c t)
  then show ?case by (auto simp: check_inv_def holders_def)
next
  case (pass_gate now c reason)
  then show ?case by (auto simp: check_inv_def holders_def)
next
  case (refuse reason c)
  then show ?case by (auto simp: check_inv_def holders_def filter_remove1_other)
next
  case (claim reason c)
  then show ?case by (auto simp: check_inv_def holders_def filter_remove1_other)
next
  case (back_off reason c)
  then show ?case using filter_remove1[of "Claimed reason" "ck_callers c" is_claimed]
    by (auto simp: check_inv_def holders_def split: if_splits)
next
  case (start reason c)
  have one: "holders c = 1" using start filter_remove1[of "Claimed reason" "ck_callers c" is_claimed]
    by (auto simp: check_inv_def holders_def split: if_splits)
  have "spaced ((ck_clock c, reason) # ck_starts c)"
  proof (cases "ck_starts c")
    case (Cons s ss)
    then show ?thesis using start allowed_after[OF start(2)]
      by (cases s) (force simp: check_inv_def word_le_nat_alt)
  qed simp
  then show ?case using start one filter_remove1[of "Claimed reason" "ck_callers c" is_claimed]
    by (auto simp: check_inv_def holders_def split: if_splits)
next
  case (no_thread reason c)
  then show ?case using filter_remove1[of "Claimed reason" "ck_callers c" is_claimed]
    by (auto simp: check_inv_def holders_def split: if_splits)
next
  case (finish c result latestVersion)
  then show ?case by (auto simp: check_inv_def holders_def split: if_splits)
qed

lemma check_inv_run: "rtranclp check_step c c' \<Longrightarrow> check_inv c \<Longrightarrow> check_inv c'"
  by (induction rule: rtranclp_induct) (auto intro: check_inv_step)

definition Checker0 :: "UpdateUi \<Rightarrow> 64 word \<Rightarrow> Checker" where
  "Checker0 ui clock =
     \<lparr>ck_inProgress = False, ck_lastAttempt = 0, ck_lastSuccess = 0, ck_running = False, ck_callers = [], ck_ui = ui,
      ck_clock = clock, ck_starts = []\<rparr>"

text \<open>
  C35: However many callers ask for checks at the same time and however they interleave, one check runs at a time, and
  a check that was not asked for by the start of the application begins at least five minutes after the one before it, whether
  that succeeded or failed.
\<close>

theorem checks_are_spaced:
  assumes "rtranclp check_step (Checker0 ui clock) c" and "0 < clock"
  shows "spaced (ck_starts c) \<and> length (filter is_claimed (ck_callers c)) + (if ck_running c then 1 else 0) \<le> 1"
proof -
  have "check_inv (Checker0 ui clock)" using assms(2) by (simp add: check_inv_def holders_def Checker0_def)
  from check_inv_run[OF assms(1) this] show ?thesis by (simp add: check_inv_def holders_def)
qed

definition sample_ui :: UpdateUi where
  "sample_ui =
     \<lparr>ux_updateAvailableVersion = [], ux_updateServerUrl = [], ux_updateAvailable = False, ux_updateChecked = False,
      ux_updatePromptShown = False, ux_updateDownloadFailed = False, ux_updateDownloading = False, ux_appExitRequested = False\<rparr>"

text \<open>Two callers pass the first test, one takes the slot and its check begins; the other is refused.\<close>

definition sample_checker :: Checker where
  "sample_checker =
     (Checker0 sample_ui 1000)\<lparr>ck_inProgress := True, ck_lastAttempt := 1000, ck_running := True, ck_starts := [(1000, Periodic)]\<rparr>"

lemma sample_checker_run: "rtranclp check_step (Checker0 sample_ui 1000) sample_checker"
proof -
  let ?c = "\<lambda>callers. (Checker0 sample_ui 1000)\<lparr>ck_callers := callers\<rparr>"
  have "check_step (Checker0 sample_ui 1000) (?c [Gated Periodic])"
    using check_step.pass_gate[of 1000 "Checker0 sample_ui 1000" Periodic] by (simp add: Checker0_def UpdateCheckAllowed_def)
  moreover have "check_step (?c [Gated Periodic]) (?c [Gated Initial, Gated Periodic])"
    using check_step.pass_gate[of 1000 "?c [Gated Periodic]" Initial]
    by (simp add: Checker0_def UpdateCheckAllowed_def MinimumIntervalFor_def)
  moreover have "check_step (?c [Gated Initial, Gated Periodic])
      ((?c [Claimed Periodic, Gated Initial])\<lparr>ck_inProgress := True\<rparr>)"
    using check_step.claim[of Periodic "?c [Gated Initial, Gated Periodic]"] by (simp add: Checker0_def)
  moreover have "check_step ((?c [Claimed Periodic, Gated Initial])\<lparr>ck_inProgress := True\<rparr>)
      ((?c [Claimed Periodic])\<lparr>ck_inProgress := True\<rparr>)"
    using check_step.refuse[of Initial "(?c [Claimed Periodic, Gated Initial])\<lparr>ck_inProgress := True\<rparr>"] by (simp add: Checker0_def)
  moreover have "check_step ((?c [Claimed Periodic])\<lparr>ck_inProgress := True\<rparr>) sample_checker"
    using check_step.start[of Periodic "(?c [Claimed Periodic])\<lparr>ck_inProgress := True\<rparr>"]
    by (simp add: Checker0_def UpdateCheckAllowed_def sample_checker_def)
  ultimately show ?thesis by (meson converse_rtranclp_into_rtranclp rtranclp.rtrancl_refl)
qed

theorem checks_are_spaced_witness:
  "spaced (ck_starts sample_checker) \<and> ck_starts sample_checker = [(1000, Periodic)]"
  using checks_are_spaced[OF sample_checker_run] by (simp add: sample_checker_def)

section \<open>A check from end to end\<close>

text \<open>The updater as a process: it ends with an exit code, or runs until it is stopped.\<close>

definition run_updater :: "UpdaterWorld \<Rightarrow> string list \<Rightarrow> files \<Rightarrow> ProcessOutcome" where
  "run_updater w args fs =
     (case updater_main w (read_options args Options0) \<lparr>us_files = fs, us_started = []\<rparr> of
        None \<Rightarrow> TimedOut fs
      | Some (code, s) \<Rightarrow> Exited code (us_files s))"

lemma check_options:
  "read_options (check_arguments path) Options0 = Options0\<lparr>op_check := True, op_resultFile := path\<rparr>"
  by (simp add: check_arguments_def read_option_def)

lemma Options0_fields [simp]: "\<not> op_repairDependencies Options0" "op_server Options0 = []"
  by (simp_all add: Options0_def)

lemma ReadFirstLine_line: "ReadFirstLine (Some (line @ [CHR 0x0A])) = ReadFirstLine (Some line)"
  by (simp add: ReadFirstLine_def takeWhile_tail)

lemma check_process:
  assumes "path \<noteq> []"
    and "FetchAndVerify (uw_crypto w) (uw_parse w) (uw_net w) (uw_time w 0) (uw_time w 1) ''https://omnistats.org'' (uw_installed w)
      CURRENT_RELEASE_PUBLIC_KEY_HEX NEXT_RELEASE_PUBLIC_KEY_HEX ReleaseManifest0 = (ok, result, m)"
  obtains fs' where "run_updater w (check_arguments path) fs =
      Exited (if \<not> ok then 2 else if IsNewerVersion (uw_installed w) (rm_version m) then 0 else 1) fs'"
    "ok \<Longrightarrow> fs' path = (if uw_canWrite w path then Some (rm_version m @ [CHR 0x0A]) else fs path)"
proof (cases ok)
  case True
  then have "rm_version m \<noteq> []" using fetched_manifest[of "uw_crypto w"] assms(2) accepted_version by metis
  then have "run_updater w (check_arguments path) fs =
      Exited (if \<not> ok then 2 else if IsNewerVersion (uw_installed w) (rm_version m) then 0 else 1)
        (if uw_canWrite w path then fs(path \<mapsto> rm_version m @ [CHR 0x0A]) else fs)"
    using assms True
    by (simp add: run_updater_def check_options updater_main_def PerformUpdateCheck_def Let_def GetActiveServerUrl_def
        on_files_def)
  then show ?thesis by (rule that) simp
next
  case False
  then have "\<exists>fs'. run_updater w (check_arguments path) fs = Exited 2 fs'" using assms
    by (simp add: run_updater_def check_options updater_main_def PerformUpdateCheck_def Let_def GetActiveServerUrl_def)
  then show ?thesis using that False by auto
qed

text \<open>
  C34: When the application says that an update is available, or that there is none, the updater had fetched a
  manifest signed with the pinned key from the release server, one that does not go back behind the installed
  release; the update is announced exactly if that manifest names a later release, and under the version it names.
\<close>

theorem announced_update_is_verified:
  assumes "RunInstalledUpdaterCheck found (Some path) (run_updater w) fs = (result, latestVersion, fs')"
    and "result \<noteq> CheckFailed" and "path \<noteq> []"
  shows "\<exists>body signature m.
    uw_net w (''https://omnistats.org/release-manifest.json?t='' @ to_string (uw_time w 0)) = Some \<lparr>tr_curl = 0, tr_http = 200, tr_body = body\<rparr> \<and>
    uw_net w (''https://omnistats.org/release-manifest.json.sig?t='' @ to_string (uw_time w 1)) =
      Some \<lparr>tr_curl = 0, tr_http = 200, tr_body = signature\<rparr> \<and>
    signed_by (uw_crypto w) body signature CURRENT_RELEASE_PUBLIC_KEY_HEX \<and>
    ParseManifest (uw_parse w) body ReleaseManifest0 = (True, m) \<and>
    (uw_installed w = [] \<or> \<not> older (release_numbers (rm_version m)) (release_numbers (uw_installed w))) \<and>
    (result = UpdateAvailable \<longleftrightarrow> older (release_numbers (uw_installed w)) (release_numbers (rm_version m))) \<and>
    latestVersion = ReadFirstLine (if uw_canWrite w path then Some (rm_version m) else None)"
proof -
  obtain ok r m where fetch: "FetchAndVerify (uw_crypto w) (uw_parse w) (uw_net w) (uw_time w 0) (uw_time w 1) ''https://omnistats.org''
      (uw_installed w) CURRENT_RELEASE_PUBLIC_KEY_HEX NEXT_RELEASE_PUBLIC_KEY_HEX ReleaseManifest0 = (ok, r, m)"
    by (metis prod_cases3)
  obtain fs1 where run: "run_updater w (check_arguments path) (fs(path := None)) =
      Exited (if \<not> ok then 2 else if IsNewerVersion (uw_installed w) (rm_version m) then 0 else 1) fs1"
    "ok \<Longrightarrow> fs1 path = (if uw_canWrite w path then Some (rm_version m @ [CHR 0x0A]) else (fs(path := None)) path)"
    using check_process[OF assms(3) fetch] by blast
  note unfolded = assms(1)[unfolded RunInstalledUpdaterCheck_def option.case Let_def run(1) ProcessOutcome.case]
  have ok by (rule ccontr) (use unfolded assms(2) in \<open>auto split: if_splits\<close>)
  have result: "result = UpdateAvailable \<longleftrightarrow> IsNewerVersion (uw_installed w) (rm_version m)"
    "latestVersion = ReadFirstLine (if uw_canWrite w path then Some (rm_version m) else None)"
    using unfolded assms(2) \<open>ok\<close> run(2) ReadFirstLine_line[of "rm_version m"] by (auto split: if_splits)
  from fetched_manifest[OF fetch[unfolded eqTrueI[OF \<open>ok\<close>]]] obtain body signature where
    "uw_net w (''https://omnistats.org'' @ ''/release-manifest.json?t='' @ to_string (uw_time w 0)) =
      Some \<lparr>tr_curl = 0, tr_http = 200, tr_body = body\<rparr>"
    "uw_net w (''https://omnistats.org'' @ ''/release-manifest.json.sig?t='' @ to_string (uw_time w 1)) =
      Some \<lparr>tr_curl = 0, tr_http = 200, tr_body = signature\<rparr>"
    "signed_by (uw_crypto w) body signature CURRENT_RELEASE_PUBLIC_KEY_HEX" "ParseManifest (uw_parse w) body ReleaseManifest0 = (True, m)"
    "uw_installed w = [] \<or> \<not> IsNewerVersion (rm_version m) (uw_installed w)" by metis
  then show ?thesis using result
    by (intro exI[of _ body] exI[of _ signature] exI[of _ m]) (simp add: newer_versions_order)
qed

definition sample_check :: "UpdateCheckResult \<times> string \<times> files" where
  "sample_check = RunInstalledUpdaterCheck True (Some ''r'') (run_updater sample_updater) Map.empty"

theorem announced_update_is_verified_witness:
  "fst sample_check = UpdateAvailable \<and> fst (snd sample_check) = ''2.1.0'' \<and>
   (\<exists>body m. ParseManifest (uw_parse sample_updater) body ReleaseManifest0 = (True, m) \<and> older [2, 0, 9] (release_numbers (rm_version m)))"
proof -
  have r: "fst sample_check = UpdateAvailable" "fst (snd sample_check) = ''2.1.0''" by code_simp+
  have "RunInstalledUpdaterCheck True (Some ''r'') (run_updater sample_updater) Map.empty =
      (fst sample_check, fst (snd sample_check), snd (snd sample_check))" by (simp add: sample_check_def)
  from announced_update_is_verified[OF this] r obtain body m where
    "ParseManifest (uw_parse sample_updater) body ReleaseManifest0 = (True, m)"
    "older (release_numbers (uw_installed sample_updater)) (release_numbers (rm_version m))" by auto
  moreover have "release_numbers (uw_installed sample_updater) = [2, 0, 9]" by code_simp
  ultimately show ?thesis using r by auto
qed

end
