(* ===== verification/Spec2Isabelle.thy ===== *)
theory Spec2Isabelle
  imports Prelude Game_Modes Telemetry_Events Analytics_Tracker Match_Types Match_State
    Reducer_Detail Reducer_Stats Reducer_Finalize Reducer_Update Reducer Live_Store
    Match_Invariant Match_Ledger Client_Invariant Ui_Mirror Match_Facts Session_Facts Samples
    Frame_Scanner Json_Events Wire_Client Float_Rounding Analytics_Json Scoreline Config_Service
    Season_Calendar Rank_Progress Match_Card Rating_Publisher Stats_Api
    Match_Story Http_Security Account_Facts Update_Launcher
begin

text \<open>
  OmniStats is a companion for Rocket League: it reads the game's telemetry, follows the running
  match, keeps the statistics of a session, saves every finished match and shows all of it in an
  overlay. This library models the pipeline that carries the program's own logic, from the bytes of
  the game's socket to the calls the services receive, and the logic of the services around it (ratings,
  remote configuration, seasons, insights, shared match cards, the account of the user, the updater):

    bytes \<open>\<longrightarrow>\<close> messages \<open>\<longrightarrow>\<close> event \<open>\<longrightarrow>\<close> reducer \<open>\<longrightarrow>\<close> new match state and side effects \<open>\<longrightarrow>\<close> stores and router \<open>\<longrightarrow>\<close> service calls

  All paths below are under \<open>src/src\<close>.

  What models what.

  \<^item> \<open>Prelude\<close>: IEEE floating point with its roundings, the standard containers as association
    lists, byte strings, integer casts, and five interfaces as locales: \<open>invariant_machine\<close> (steps
    that keep an invariant), \<open>once_ledger\<close> (a key is settled at most once), \<open>batch_ledger\<close> (a step may
    settle several keys, each at most once), \<open>mirror_machine\<close> (a client that copies a view of a server
    from its replies) and \<open>chunk_reader\<close> (a reader that is fed a stream piece by piece).
    \<open>Float_Rounding\<close>: what is rounded already stays as it is.
  \<^item> \<open>Frame_Scanner\<close>: \<open>network/telemetry/TelemetryParser.cpp\<close>, the connection and the loop that cuts
    the byte stream into messages; what the socket calls return is an input.
  \<^item> \<open>Json_Events\<close>: \<open>network/telemetry/TelemetryEvents.cpp\<close>, the decoder from JSON values to typed
    events. The JSON library is a parameter: its parser and its printer.
  \<^item> \<open>Wire_Client\<close>: \<open>HandleLine\<close> and a round of \<open>RunLoop\<close> of \<open>network/api/StatsClient.cpp\<close> over the
    scanner, the decoder and the client.
  \<^item> \<open>Game_Modes\<close>: \<open>core/game/PlaylistMetadata.cpp\<close>, \<open>GamemodeUtils.cpp\<close>, \<open>ArenaNames.cpp\<close> and the rating
    categories, with their tables.
  \<^item> \<open>Telemetry_Events\<close>: the event types of \<open>network/telemetry/TelemetryEvents.hpp\<close> and the forfeit signal.
  \<^item> \<open>Analytics_Tracker\<close>: \<open>core/game/MatchAnalyticsTracker.cpp\<close>, every handler and the snapshot.
    \<open>Analytics_Json\<close>, \<open>Scoreline\<close>: \<open>core/game/MatchAnalytics.cpp\<close>, the figures derived from it, its JSON
    document in both directions, and the shape of the scoreline.
  \<^item> \<open>Match_Types\<close>, \<open>Match_State\<close>: the records of \<open>core/state\<close>, the resets, the session's recap, the
    rating histories of the accounts, the time paused inside a window.
  \<^item> \<open>Reducer_Detail\<close>, \<open>Reducer_Stats\<close>, \<open>Reducer_Update\<close>, \<open>Reducer_Finalize\<close>, \<open>Reducer\<close>: the files of
    \<open>core/reducer\<close>. \<open>dispatch\<close> has one equation per event, \<open>ReduceInPlace\<close> is the whole step, and
    \<open>reduce\<close> adds the confirmation of a match that was left and the lost connection.
  \<^item> \<open>Live_Store\<close>: \<open>LiveMatchStore.cpp\<close>, \<open>HistoryStore.cpp\<close>, \<open>SessionState.cpp\<close>, \<open>EffectRouter.cpp\<close> and the
    event loop of \<open>StatsClient.cpp\<close>. \<open>client_step\<close> is one step of the client: an event, a confirmed
    result or a lost connection; its output is the list of calls to the services, in their order.
  \<^item> \<open>Civil_Time\<close>, \<open>Text_Format\<close>: the reader of timestamps of \<open>network/api/RemoteConfig.cpp\<close> over the
    calendar, and the standard functions for text. \<open>Remote_Config\<close>: the rest of that file's functions:
    reading, checking and writing a configuration, versions, announcements. \<open>Config_Service\<close>: the class
    of the same file as a machine over fetches, starts and dismissals, with the files it keeps.
  \<^item> \<open>Season_Calendar\<close>, \<open>Rank_Progress\<close>, \<open>Insights\<close>: the files of these names in \<open>core/game\<close>: seasons and
    their merge with the remote ones, progress inside a division and the rating graph, the trends.
    \<open>Match_Card\<close>: \<open>core/state/MatchCardUrl.cpp\<close>, the links a match is shared by. \<open>Match_Story\<close>:
    \<open>core/game/MatchStory.cpp\<close>, the sentences told about a match.
  \<^item> \<open>Rating_Types\<close>, \<open>Rating_Queue\<close>, \<open>Rating_Detail\<close>, \<open>Rank_Tables\<close>, \<open>Rating_Reconciler\<close>,
    \<open>Rating_Publisher\<close>: the files of \<open>network/mmr\<close>: requests and their queue, the batches sent to the rating API and its answers, the
    tables of ranks with their lookups, the reconciler that shares a reported rating out over the
    matches that wait for one, and the publisher that writes it into the match and the history.
  \<^item> \<open>Stats_Api\<close>: \<open>core/config/StatsApiIni.hpp\<close>, the check of \<open>core/config/StatsApiConfig.cpp\<close> and
    \<open>updater/StatsApiRepair.cpp\<close>: the game's configuration file, read, checked and repaired.
  \<^item> \<open>Http_Security\<close>: \<open>network/http/HttpSecurity.cpp\<close>, URLs, origins and the check of redirects.
    \<open>Device_Identity\<close>, \<open>Token_Store\<close>, \<open>Device_Auth\<close>, \<open>Account_Client\<close>: the files of these names in
    \<open>network/api\<close> (\<open>Device_Auth\<close> is \<open>DeviceAuthFlow.cpp\<close>) with the answers of \<open>network/omninet\<close>: the key of
    the device and its proofs, the tokens, the sign-in by a code, and the client with its worker thread.
    \<open>account_step\<close> interleaves the operations of the interface with the sections of the worker and of a
    refresh between two waits; what a thread remembers across a wait is part of the state. libsodium
    is an argument (the record \<open>sodium\<close>), as are answers, clock and random bytes. \<open>Account_Facts\<close>: the
    properties of that machine.
  \<^item> \<open>Release_Manifest\<close>, \<open>Updater\<close>: the files of \<open>updater\<close>: versions, the signed manifest of a release, the
    program that checks for updates, downloads and verifies an installer and starts it, its event log, and
    the repair of libraries from an archive. libsodium, transfers, trust verification, hashes, \<open>inflate\<close> and
    the faults of the disk are the fields of \<open>UpdaterWorld\<close>, the files a map in its state.
    \<open>Update_Facts\<close>: the properties of the updater. \<open>Update_Launcher\<close>:
    \<open>network/ExternalUpdaterLauncher.cpp\<close>, how the application runs that program; \<open>check_step\<close> interleaves the
    callers, the thread of a check and the clock.

  State and effects. A C++ object is a record with the fields of the source; a function that writes
  it returns it updated, together with the side effects it adds to. Locks make each store operation
  one step, so a run is a list of inputs. Clocks and the configuration are read once per step and are
  arguments (\<open>ReducerContext\<close>, \<open>Reading\<close>). Counters and timestamps are unbounded integers, the
  generations, versions and revisions 64-bit words. Long functions are cut into stages in the order
  of the source; the map of the development names the lines of each.

  What the lemmas show.

  \<^item> \<open>Match_Invariant\<close>: every function of the reducer keeps \<open>match_inv\<close>, leaves the session alone and
    reopens no closed match (the collections \<open>keeps\<close> and \<open>fx_keeps\<close> carry these proofs).
  \<^item> \<open>Match_Ledger\<close>: a whole step of the reducer keeps the invariant, settles at most one match and
    books at most one game; the reducer is a \<open>once_ledger\<close> of saved matches.
  \<^item> \<open>Client_Invariant\<close>: the same for the store's operations, the router and the client, which is an
    \<open>invariant_machine\<close> and a \<open>once_ledger\<close> over its service calls; no event ends a session.
  \<^item> \<open>Ui_Mirror\<close>: the reducer and the interface are a \<open>mirror_machine\<close> for the match's timestamps.
  \<^item> \<open>Match_Facts\<close>, \<open>Session_Facts\<close>: the decision on a finished match, what is saved and booked, the
    life of a match that was left, identity, rosters, journal, pending history (an
    \<open>invariant_machine\<close> too) and the end of a session.
  \<^item> \<open>Config_Service\<close>: the service is an \<open>invariant_machine\<close>: whatever is fetched, read from the disk or
    dismissed, the configuration in use is one the reader accepts.
  \<^item> \<open>Rating_Queue\<close>, \<open>Rating_Reconciler\<close>: the queue with the requests in flight is an \<open>invariant_machine\<close>
    (nothing is requested twice), the reconciler a \<open>batch_ledger\<close> of confirmed matches.
    \<open>Rating_Publisher\<close>: publications are an \<open>invariant_machine\<close> (the graphs show their points).
  \<^item> \<open>Http_Security\<close>: a redirect inside a site stays on it. \<open>Device_Auth\<close>: the pages that are opened, the
    end of the poll loop. \<open>Account_Facts\<close>: the account is an \<open>invariant_machine\<close>; after a logout no
    answer under way brings credentials back.
  \<^item> \<open>Update_Facts\<close>: an installer is started only after the whole chain of trust; files in an archive and
    events in the log are found again. \<open>Update_Launcher\<close>: checks are spaced by an invariant of \<open>check_step\<close>, and
    a check is followed from the application through the updater to the signed manifest.
  \<^item> \<open>Samples\<close>: concrete states at which the properties are applied.

  The properties below and at the end of the component theories rest on these. Several of them
  state behaviour that a reader of the code may not expect: the inactivity check of a new match
  always refuses (\<open>events_never_end_session\<close>, \<open>inactivity_check_refused\<close>), a destroyed match is saved
  without a duration (\<open>destroyed_match_has_no_duration\<close>), a late confirmation stops the clocks of the
  running match (\<open>confirmation_resets_live_clocks\<close>), cleared timestamps return
  (\<open>lost_connection_clocks_return\<close>), the reset of a lost identity is unreachable
  (\<open>identity_never_dropped\<close>), a round start of a closed match marks the current one
  (\<open>closed_round_start_marks_match\<close>), a missing supersonic flag never falls back to the speed
  (\<open>no_flag_no_supersonic\<close>), one malformed entry loses a whole batch of ratings
  (\<open>Rating_Detail.bad_entry_loses_batch\<close>), the rejection of an old token ends a new session
  (\<open>Account_Facts.stale_rejection_signs_out\<close>), a cancellation during the first request of a sign-in is
  lost (\<open>Account_Facts.cancel_during_start_is_lost\<close>) and a shutdown waits for a sign-in
  (\<open>Account_Facts.shutdown_waits_for_sign_in\<close>).

  Bounds. No definition needs fuel: every loop of the modelled code runs over a finite container or
  string; the recursions terminate structurally or, for the scanner, because every turn moves on in
  the buffer. There are two exceptions, loops that may run forever and are partial functions: the poll
  loop of a sign-in (\<open>PollToken\<close>; \<open>Device_Auth.sign_in_ends\<close> proves that it returns once the clock passes the
  time at which the code expires) and the decompression of an archive (\<open>inflate_loop\<close>; it returns once
  \<open>inflate\<close> reports the end or an error, \<open>Update_Facts.inflate_loop_ends\<close>, and never on input that ends early,
  \<open>Update_Facts.inflate_loop_stuck\<close>). The journal holds at most 512
  events, the pending history at most 50 summaries.

  Not modelled: logging; the text syntax of JSON and the socket calls; the interface beyond the
  fields the reducer and the router write; the database and Discord (the calls made to them are the
  output of a step); threads below the granularity of the stores' locks. An unordered container is
  visited in the order of its association list, one of the orders the standard allows; NaN payloads
  and the sign of zero are not distinguished. Of the rating service the worker threads and the HTTP
  providers are not modelled; of the remote configuration the worker's timer. Of the account the
  configuration and the tokens, which the code keeps under two locks, change in one step (\<open>Clear\<close>,
  \<open>SetTokens\<close>); the user's own edits of the configuration, the file it is saved to, the name of the
  computer and the telemetry of a linked account are left out. Of the updater, finding directories and
  the versions of executables, the start of the elevated process and the log of the console are not
  modelled; of its launcher, message boxes, telemetry and the wait for a repair.
\<close>

section \<open>The client, over any run\<close>

text \<open>
  Whatever the client receives (events, confirmed results, lost connections) and in whatever
  order, no match identifier is handed to the database twice with a final result.
\<close>

theorem client_saves_once: "distinct (concat (map final_saves (snd (run_out (client_step svc) is c))))"
  by (simp add: final_saves_run cliled.run_settles_once)

text \<open>
  C7: from its construction on, after any run, the client's live match satisfies its invariant:
  the journal is bounded and free of duplicates, the local player's boost is part of all boost,
  every player of the roster is in the match's roster, the analytics tracker is consistent, every
  match waiting for confirmation is filed under its own identifier, goal participations do not
  exceed team goals, and the live generation is the last one handed out.
\<close>

theorem client_invariant:
  "match_inv (client_live (fst (run_out (client_step svc) is (fst (StatsClient_new svc' r Session0)))))"
proof (rule client_run_inv)
  show "match_inv (client_live (fst (StatsClient_new svc' r Session0)))"
    by (simp add: StatsClient_new_def ConfigureFromSavedIdentity_def Session0_def Let_def match_inv_init
        live_keeps)
qed

text \<open>
  C8: an interface that applies the effects of every event shows exactly the match's own
  timestamps after any non-empty run of events, whatever it showed before.
\<close>

theorem interface_mirrors_match:
  assumes "is \<noteq> []"
  shows "ui_clocks (fold show_effects (snd (run_out reduce_event is st)) ui) =
         match_clocks (fst (run_out reduce_event is st))"
  using assms by (rule mir.run_mirror)

theorem interface_mirrors_match_witness:
  "ui_clocks (fold show_effects (snd (run_out reduce_event [(EvReplayCreated, sample_context)] sample_live)) UIState0) =
   match_clocks (fst (run_out reduce_event [(EvReplayCreated, sample_context)] sample_live))"
  by (rule interface_mirrors_match) simp

text \<open>
  C9: a step of the reducer ends no session; it changes the session's totals, game modes, matches
  and the last recap only when it saves a match, and counts at most one game.
\<close>

theorem only_saves_count:
  "sessionGeneration (fst (reduce i st)) = sessionGeneration st \<and>
   (fx_saveMatch (snd (reduce i st)) \<or> session_part (fst (reduce i st)) = session_part st) \<and>
   played (sessionTotals (fst (reduce i st))) - played (sessionTotals st) \<in> {0, 1}"
  using reduce_ok[of st i] by (auto simp: step_ok_def booked_def session_part_def fst_frame)

section \<open>The end of a match\<close>

text \<open>
  C10: a finished match is counted and saved exactly when it is countable and the winner is a team,
  it is won exactly when the winner is the local team, and only an uncounted match has a reason.
\<close>

theorem match_end_decision:
  "(ed_shouldPersist (ClassifyMatchEnd m w) \<longleftrightarrow> countable m \<and> is_team w) \<and>
   (ed_shouldCount (ClassifyMatchEnd m w) \<longleftrightarrow> countable m \<and> is_team w) \<and>
   (ed_iWon (ClassifyMatchEnd m w) \<longleftrightarrow> countable m \<and> is_team w \<and> w = cm_myTeam m) \<and>
   (ed_voidReason (ClassifyMatchEnd m w) = [] \<longleftrightarrow> countable m \<and> is_team w)"
  using ClassifyMatchEnd_counts[of m w] ClassifyMatchEnd_void[of m w] persist_iff[of m w] iWon_iff[of m w]
  by (cases "countable m \<and> is_team w")
    (auto simp: is_void_def dest: arg_cong[where f = ed_shouldCount])

text \<open>
  Finalizing a captured match counts one win or one loss, according to the winner, exactly when
  the match is saved and belongs to the running session.
\<close>

theorem finalize_books_result:
  "st_wins (sessionTotals (fst (FinalizeCapturedMatch m w s e ctx st fx))) = st_wins (sessionTotals st) +
     (if saves_now m w st \<and> cm_sessionGeneration m = sessionGeneration st \<and> w = cm_myTeam m then 1 else 0) \<and>
   st_losses (sessionTotals (fst (FinalizeCapturedMatch m w s e ctx st fx))) = st_losses (sessionTotals st) +
     (if saves_now m w st \<and> cm_sessionGeneration m = sessionGeneration st \<and> w \<noteq> cm_myTeam m then 1 else 0)"
  by (simp only: FinalizeCapturedMatch_results simp_thms)



text \<open>
  Confirming the result of a waiting match saves it under its identifier with the confirmed
  team as the winner, closes the identifier and removes the match from the waiting ones.
\<close>

theorem confirmation_saves_result:
  assumes "map_of (pendingDestroyedMatches st) g = Some m" "cm_matchGuid m = g" "g \<noteq> []"
    and "g \<notin> finalizedMatchGuids st" "countable m"
  shows "let (st', fx) = ConfirmPendingDestroyedMatch g victory ctx st in
     saved_guid fx = Some g \<and> sv_winnerTeam (fx_saveSnapshot fx) = confirmed_winner m victory \<and>
     g \<in> finalizedMatchGuids st' \<and> map_of (pendingDestroyedMatches st') g = None"
  using Confirm_saves[OF assms, of victory ctx] by (simp add: case_prod_unfold)

theorem confirmation_saves_result_witness:
  "let (st', fx) = ConfirmPendingDestroyedMatch ''m1'' False sample_context sample_waiting in
     saved_guid fx = Some ''m1'' \<and> sv_winnerTeam (fx_saveSnapshot fx) = confirmed_winner sample_left False \<and>
     ''m1'' \<in> finalizedMatchGuids st' \<and> map_of (pendingDestroyedMatches st') ''m1'' = None"
proof (rule confirmation_saves_result)
  show "countable sample_left"
    using sample_playlist by (simp add: countable_def sample_left_def CapturedMatch0_def is_team_def Let_def)
qed (simp_all add: sample_waiting_def sample_left_def MatchState0_def CapturedMatch0_def)

text \<open>A second confirmation of the same match changes nothing and has no effect, whatever it says.\<close>

theorem second_confirmation_ignored:
  "ConfirmPendingDestroyedMatch g w2 ctx2 (fst (ConfirmPendingDestroyedMatch g w1 ctx1 st)) =
   (fst (ConfirmPendingDestroyedMatch g w1 ctx1 st), SideEffects0)"
  by (rule Confirm_again)

text \<open>
  The two validators agree: a match that may be left early as a competitive match counts when
  it is captured, whichever team is then confirmed as the winner.
\<close>

theorem early_exit_counts:
  assumes "IsValidEarlyCompetitiveExit st = Inr mode" "is_team w"
  shows "ed_shouldPersist (ClassifyMatchEnd (CaptureMatch ctx st) w) \<and> IsTrackedRankedEarlyExitMode mode"
  using early_exit_countable[OF assms(1)] early_exit_mode[OF assms(1)] assms(2) by (auto simp: persist_iff)

theorem early_exit_counts_witness:
  "ed_shouldPersist (ClassifyMatchEnd (CaptureMatch sample_context sample_live) 1) \<and>
   IsTrackedRankedEarlyExitMode ''2v2''"
  by (rule early_exit_counts) (code_simp, simp add: is_team_def)

text \<open>
  Leaving a valid competitive match after the local forfeit was announced is saved at once and
  counted as a loss.
\<close>

theorem early_forfeit_is_loss:
  assumes "IsValidEarlyCompetitiveExit st = Inr mode" "explicitLocalForfeit st"
    and "matchGuid st \<notin> finalizedMatchGuids st"
  shows "fx_saveMatch (snd (early_exit ctx st fx)) \<and>
     st_losses (sessionTotals (fst (early_exit ctx st fx))) = st_losses (sessionTotals st) + 1 \<and>
     st_wins (sessionTotals (fst (early_exit ctx st fx))) = st_wins (sessionTotals st)"
  using early_forfeit_books[OF assms] by simp

theorem early_forfeit_is_loss_witness:
  "st_losses (sessionTotals (fst (early_exit sample_context (sample_live\<lparr>explicitLocalForfeit := True\<rparr>) SideEffects0))) =
     st_losses (sessionTotals (sample_live\<lparr>explicitLocalForfeit := True\<rparr>)) + 1"
proof -
  have "IsValidEarlyCompetitiveExit (sample_live\<lparr>explicitLocalForfeit := True\<rparr>) = Inr ''2v2''" by code_simp
  from early_forfeit_is_loss[OF this, of sample_context SideEffects0] show ?thesis
    by (simp add: sample_live_def MatchState0_def)
qed

section \<open>The end of a session\<close>

text \<open>
  A session closes for inactivity exactly when no match runs, games were played, the last one
  has an end time and more than two hours passed since; then the recap is that of the session, with
  its generation, and the totals start again in the next generation. Otherwise only the version moves.
\<close>

theorem inactive_session_closes:
  "let (st', h', closed) = CloseSessionIfInactive nowUnix h st in
     closed = session_over nowUnix st \<and>
     (if closed then rcp_totals (lastSessionRecap st') = sessionTotals st \<and>
        rcp_sessionGeneration (lastSessionRecap st') = sessionGeneration st \<and>
        sessionTotals st' = SessionTotals0 \<and> sessionGeneration st' = sessionGeneration st + 1
      else st' = publish st \<and> h' = h)"
  using StartNewSession_result[of st "lastMatchEndedAtUnix st" h]
  by (auto simp: CloseSessionIfInactive_cases session_over_def case_prod_unfold)


text \<open>
  When an event asks for the inactivity check, the check on the state it leaves does nothing,
  at whatever time.
\<close>

theorem inactivity_check_refused:
  assumes "fx_closeSessionIfInactiveAtUnix (snd (ApplyEvent ev ctx st)) = Some t"
  shows "CloseSessionIfInactive u h (fst (ApplyEvent ev ctx st)) = (publish (fst (ApplyEvent ev ctx st)), h, False)"
  using assms by (rule event_close_noop)

theorem inactivity_check_refused_witness:
  "snd (snd (CloseSessionIfInactive 9000000000 HistoryData0
     (fst (ApplyEvent (EvMatchCreated ''m3'') sample_context MatchState0)))) = False"
proof -
  have "fx_closeSessionIfInactiveAtUnix (snd (ApplyEvent (EvMatchCreated ''m3'') sample_context MatchState0)) =
      Some 1700000000" by code_simp
  from inactivity_check_refused[OF this, of 9000000000 HistoryData0] show ?thesis by simp
qed

text \<open>
  The recap of a session lists the matches noted live and those of the rating history, each
  once and none without an identifier of its own.
\<close>

theorem recap_lists_matches:
  assumes "distinct gs"
  shows "distinct (recap_guids gs (Some h)) \<and>
     set (recap_guids gs (Some h)) =
       set gs \<union> ((\<Union>e \<in> set (hd_playlistMatchPoints h). mp_matchGuid ` set (snd e)) - {[]})"
  using recap_guids_distinct[OF assms] recap_guids_set by blast

theorem recap_lists_matches_witness:
  "distinct (recap_guids [''a'', ''b''] (Some HistoryData0))"
  using recap_lists_matches[of "[''a'', ''b'']" HistoryData0] by simp

text \<open>
  Showing another account keeps every account's rating history, the shown one's included, and
  makes the account the shown one.
\<close>

theorem account_histories_kept:
  assumes "hd_mmrOwnerPrimaryId h \<noteq> []"
  shows "hd_mmrOwnerPrimaryId (HistoryData_SelectMmrOwner a h) = a \<and>
     history_of (HistoryData_SelectMmrOwner a h) b = history_of h b"
  using SelectMmrOwner_owner SelectMmrOwner_history[OF assms] by simp

theorem account_histories_kept_witness:
  "history_of (HistoryData_SelectMmrOwner ''b'' (HistoryData0\<lparr>hd_mmrOwnerPrimaryId := ''a'', hd_initialMmr := 900\<rparr>)) ''a'' =
   history_of (HistoryData0\<lparr>hd_mmrOwnerPrimaryId := ''a'', hd_initialMmr := 900\<rparr>) ''a''"
  using account_histories_kept[of "HistoryData0\<lparr>hd_mmrOwnerPrimaryId := ''a'', hd_initialMmr := 900\<rparr>" "''b''" "''a''"]
  by simp

text \<open>
  C13: whatever sequence of queueing, loading, resolving and account changes, the pending history has
  at most fifty summaries and never two of the same match.
\<close>

theorem pending_history_bounded:
  "length (hd_pendingRecentMatches (fold history_op ops HistoryData0)) \<le> 50 \<and>
   distinct (map sms_matchGuid (hd_pendingRecentMatches (fold history_op ops HistoryData0)))"
  using hist.run_inv[of HistoryData0 ops]
  by (simp add: pending_history_ok_def kPreviousGamesMaxLimit_def HistoryData0_def)

section \<open>The live match\<close>

text \<open>
  The event that starts a match leaves no trace of the match before: journal, statistics,
  rosters, analytics, score and clocks are fresh, under a generation of its own.
\<close>

theorem new_match_is_fresh:
  assumes "created_starts g st"
  shows "let st' = fst (OnMatchCreated g ctx st fx) in
     inMatch st' \<and> matchGuid st' = g \<and> matchEvents st' = [] \<and> currentMatch st' = MatchStats0 \<and>
     roster st' = [] \<and> analytics st' = Tracker0 \<and> score st' = (0, 0) \<and>
     regulationClockStart st' = None \<and> pauseIntervals st' = [] \<and>
     activeMatchGeneration st' = nextMatchGeneration st + 1"
  using assms
  by (simp add: OnMatchCreated_def Let_def case_prod_unfold created_lifecycle_def created_ui_fields
      created_new_fields)

theorem new_match_is_fresh_witness:
  "roster (fst (OnMatchCreated ''m2'' sample_context sample_live SideEffects0)) = []"
  using new_match_is_fresh[of "''m2''" sample_live sample_context SideEffects0]
  by (simp add: created_starts_def sample_live_def MatchState0_def Let_def)

text \<open>
  A player leaves the roster exactly when the last update that named the player is five seconds
  old and the player is not the local one, and is then kept in the match's roster with its last data.
\<close>

theorem roster_pruned:
  assumes "um_inv (roster st)"
  shows "map_of (roster (stage_prune nowMs st)) pid =
       (if out_of_sight nowMs st pid then None else map_of (roster st) pid) \<and>
     (map_of (roster st) pid = Some p \<and> out_of_sight nowMs st pid \<longrightarrow>
        map_of (matchRoster (stage_prune nowMs st)) pid = Some p)"
  using stage_prune_lookup[OF assms] by blast

theorem roster_pruned_witness:
  "map_of (roster (stage_prune 9000 (sample_live\<lparr>myPrimaryId := [], lastPlayerSeenMs := [(''Steam|1'', 1000)]\<rparr>))) ''Steam|1'' = None"
  using roster_pruned[of "sample_live\<lparr>myPrimaryId := [], lastPlayerSeenMs := [(''Steam|1'', 1000)]\<rparr>" 9000 "''Steam|1''"]
  by (simp add: sample_live_def out_of_sight_def um_inv_def)

text \<open>
  A saved identity is never dropped by an update: it is kept or replaced by another player,
  so the reset after two updates without the saved player is unreachable.
\<close>

theorem identity_never_dropped:
  assumes "myPrimaryId st \<noteq> []"
  shows "myPrimaryId (fst (stage_identity ev ctx st fx)) \<noteq> []"
  using assms by (rule stage_identity_kept)

theorem identity_never_dropped_witness:
  "myPrimaryId (fst (stage_identity UpdateStateEvent0 sample_context (sample_live\<lparr>missedMyIdCount := 7\<rparr>) SideEffects0)) \<noteq> []"
  by (rule identity_never_dropped) (simp add: sample_live_def)

text \<open>
  A reference with a name only is resolved to the one roster player it fits, and to nobody when
  it fits none or several.
\<close>

theorem reference_resolved_uniquely:
  assumes "[] \<notin> set (map fst (roster st))" "pr_primaryId target = []" "pr_name target \<noteq> []"
  shows "ResolveRosterPlayerId st target =
     (case filter (fits_ref target) (roster st) of [e] \<Rightarrow> fst e | _ \<Rightarrow> [])"
  using assms by (rule ResolveRosterPlayerId_unique)

theorem reference_resolved_uniquely_witness:
  "ResolveRosterPlayerId sample_live (PlayerRef0\<lparr>pr_name := ''me'', pr_team := 0\<rparr>) =
   (case filter (fits_ref (PlayerRef0\<lparr>pr_name := ''me'', pr_team := 0\<rparr>)) (roster sample_live) of [e] \<Rightarrow> fst e | _ \<Rightarrow> [])"
  by (rule reference_resolved_uniquely) (simp_all add: sample_live_def PlayerRef0_def)

text \<open>
  An event that carries an identifier is recorded once: recorded again, whatever the context,
  the guid and the players, it leaves the state unchanged.
\<close>

theorem journal_records_once:
  assumes "\<not> journal_blocked st g" "eventId \<noteq> []"
  shows "RecordJournalEvent ctx' ty g' a' an' b' bn' src n' s' v' w' eventId
       (RecordJournalEvent ctx ty g a an b bn src n s v w eventId st) =
     RecordJournalEvent ctx ty g a an b bn src n s v w eventId st"
  by (rule RecordJournalEvent_known[OF assms(2) RecordJournalEvent_records[OF assms]])

theorem journal_records_once_witness:
  "let st = RecordJournalEvent sample_context ''save'' ''m1'' ''Steam|1'' ''me'' [] [] ''statfeed'' 1 None None None ''e1'' sample_live
   in RecordJournalEvent sample_context ''save'' ''m1'' ''Steam|1'' ''me'' [] [] ''statfeed'' 2 None None None ''e1'' st = st"
  unfolding Let_def by (rule journal_records_once) (code_simp, simp)

text \<open>
  A player who waits for the respawn after a demolition picks up nothing by the refill: the
  statistics of the match stay as they are.
\<close>

theorem refill_is_no_pickup:
  assumes "up_primaryId p \<in> boostRespawnPending st"
  shows "currentMatch (stage_boost p st) = currentMatch st"
  using assms by (rule stage_boost_respawn)

theorem refill_is_no_pickup_witness:
  "currentMatch (stage_boost (UpdatePlayerState0\<lparr>up_primaryId := ''Steam|1'', up_boost := Some 33\<rparr>)
     (sample_live\<lparr>boostRespawnPending := {''Steam|1''}, lastPlayerBoost := [(''Steam|1'', 0)]\<rparr>)) =
   currentMatch (sample_live\<lparr>boostRespawnPending := {''Steam|1''}, lastPlayerBoost := [(''Steam|1'', 0)]\<rparr>)"
  by (rule refill_is_no_pickup) (simp add: UpdatePlayerState0_def)

text \<open>
  The rating before a match is captured once: neither the roster nor a later answer of the
  rating service replaces it.
\<close>

theorem rating_before_match_kept:
  assumes "map_of (preMatchMmrByGuid st) g = Some s"
  shows "map_of (preMatchMmrByGuid (CapturePreMatchMmr st)) g = Some s \<and>
     map_of (preMatchMmrByGuid (UpdateRosterMmr pid pl ms st)) g = Some s"
  using CapturePreMatchMmr_once[OF assms] UpdateRosterMmr_once[OF assms] by simp

theorem rating_before_match_kept_witness:
  "map_of (preMatchMmrByGuid (UpdateRosterMmr ''Steam|1'' [(''2v2'', 1200)] []
     (sample_live\<lparr>preMatchMmrByGuid := [(''m1'', LocalPreMatchMmrSnapshot0)]\<rparr>))) ''m1'' = Some LocalPreMatchMmrSnapshot0"
  using rating_before_match_kept[of "sample_live\<lparr>preMatchMmrByGuid := [(''m1'', LocalPreMatchMmrSnapshot0)]\<rparr>"]
  by simp

text \<open>
  Pauses that were noted one after another take between nothing and the whole of any window.
\<close>

theorem paused_time_bounded:
  assumes "a \<le> b" "pauses_ordered t (pauseIntervals st)"
    and "\<And>s. currentPauseStartMs st = Some s \<Longrightarrow> pauses_end t (pauseIntervals st) \<le> s"
  shows "0 \<le> paused_ms a b st \<and> paused_ms a b st \<le> b - a"
  using paused_ms_nonneg paused_ms_bound[OF assms] by simp

theorem paused_time_bounded_witness:
  "paused_ms 0 1000 (MatchState0\<lparr>pauseIntervals := [\<lparr>pi_startMs = 100, pi_endMs = 400\<rparr>], currentPauseStartMs := Some 600\<rparr>) \<le> 1000"
  using paused_time_bounded[of 0 1000 0
      "MatchState0\<lparr>pauseIntervals := [\<lparr>pi_startMs = 100, pi_endMs = 400\<rparr>], currentPauseStartMs := Some 600\<rparr>"]
  by simp

text \<open>
  The duration and the overtime captured with a match are never negative and never not a number.
\<close>

theorem captured_times_nonneg:
  "fp_nonneg (cm_overtimeSeconds (CaptureMatch ctx st)) \<and> fp_nonneg (cm_durationSeconds (CaptureMatch ctx st))"
  using captured_clocks_nonneg by simp

text \<open>
  A match saved because it was destroyed, finally or provisionally, has duration 0 and overtime
  0: its clocks are reset before it is captured.
\<close>

theorem destroyed_match_has_no_duration:
  "let fx = snd (reduce (Event (EvMatchDestroyed ev) ctx) st) in
   (\<not> fx_saveMatch fx \<or> sv_durationSeconds (fx_saveSnapshot fx) = Fin 0 \<and> sv_overtimeSeconds (fx_saveSnapshot fx) = Fin 0) \<and>
   (case fx_provisionalSaveSnapshot fx of
      Some sv \<Rightarrow> sv_durationSeconds sv = Fin 0 \<and> sv_overtimeSeconds sv = Fin 0 | None \<Rightarrow> True)"
  using reduce_destroyed_clocks_zero[of ev ctx st] by (auto simp: clocks_zero_def Let_def split: option.split)

theorem destroyed_match_has_no_duration_witness:
  "let fx = snd (reduce (Event (EvMatchDestroyed sample_leaving) sample_context) sample_live) in
   \<not> fx_saveMatch fx \<or> sv_durationSeconds (fx_saveSnapshot fx) = Fin 0"
  using destroyed_match_has_no_duration[of sample_leaving sample_context sample_live] by (simp add: Let_def)

text \<open>
  Confirming a match that was left stops the clocks of the match that is running: regulation
  clock, overtime start and pauses are gone, though the running match is another one and goes on.
\<close>

theorem confirmation_resets_live_clocks:
  assumes "map_of (pendingDestroyedMatches st) g = Some m" "cm_matchGuid m = g" "g \<notin> finalizedMatchGuids st"
    and "cm_matchGeneration m \<noteq> activeMatchGeneration st"
  shows "let st' = fst (ConfirmPendingDestroyedMatch g victory ctx st) in
     matchGuid st' = matchGuid st \<and> inMatch st' = inMatch st \<and> matchFinalized st' = matchFinalized st \<and>
     regulationClockStart st' = None \<and> overtimeStartedAtMs st' = None \<and> pauseIntervals st' = []"
  using assms
  by (auto simp: ConfirmPendingDestroyedMatch_def FinalizeCapturedMatch_def is_current_def
      RecordTerminalMatchGuid_def book_match_def book_session_def ResetTiming_def PublishUiTimestamps_def
      Let_def case_prod_unfold)

theorem confirmation_resets_live_clocks_witness:
  "regulationClockStart sample_waiting = Some (Fin 300) \<and>
   regulationClockStart (fst (ConfirmPendingDestroyedMatch ''m1'' True sample_context sample_waiting)) = None"
  using confirmation_resets_live_clocks[of sample_waiting "''m1''" sample_left True sample_context]
  by (simp add: sample_waiting_def sample_left_def MatchState0_def CapturedMatch0_def Let_def)

text \<open>
  After a lost connection the interface has no match start and no goal, but the match keeps
  both, and the next event, even one that changes nothing, shows them again.
\<close>

theorem lost_connection_clocks_return:
  "let lost = fst (client_step svc (ConnectionLost showRecap r) c);
       next = fst (client_step svc (TelemetryArrives EvGoalReplayWillEnd r') lost) in
   ui_lastMatchStartMs (se_ui (cl_session lost)) = 0 \<and> ui_lastGoalMs (se_ui (cl_session lost)) = 0 \<and>
   ui_lastMatchStartMs (se_ui (cl_session next)) = lastMatchStartMs (client_live c) \<and>
   ui_lastGoalMs (se_ui (cl_session next)) = lastGoalMs (client_live c)"
  by (simp add: Let_def OnConnectionError_ui no_event_ui lost_clocks)

text \<open>
  An event of a match that is closed or waiting for its result moves none of the interface's
  timestamps, and a goal of such a match changes nothing at all.
\<close>

theorem closed_match_events_ignored:
  assumes "g \<noteq> []" "g \<in> finalizedMatchGuids st \<or> um_has (pendingDestroyedMatches st) g" "gs_matchGuid goal = g"
  shows "match_clocks (fst (OnMatchInitialized g ctx st fx)) = match_clocks st \<and>
     match_clocks (fst (OnCountdownBegin g ctx st fx)) = match_clocks st \<and>
     match_clocks (fst (OnRoundStarted g ctx st fx)) = match_clocks st \<and>
     HandleGoalScored goal ctx st fx = (st, fx)"
  using closed_events_clocks(1-3)[OF assms(1,2)] closed_goal[of goal st] assms by simp

theorem closed_match_events_ignored_witness:
  "match_clocks (fst (OnCountdownBegin ''m1'' sample_context sample_waiting SideEffects0)) = match_clocks sample_waiting"
proof -
  have "um_has (pendingDestroyedMatches sample_waiting) ''m1''" "gs_matchGuid sample_goal = ''m1''"
    by (simp_all add: sample_waiting_def um_has_def sample_goal_def)
  then show ?thesis
    using closed_match_events_ignored[of "''m1''" sample_waiting sample_goal sample_context SideEffects0] by simp
qed

text \<open>
  A round start of a match that is closed or waiting still marks the current match as started.
\<close>

theorem closed_round_start_marks_match:
  assumes "g \<noteq> []" "g \<in> finalizedMatchGuids st \<or> um_has (pendingDestroyedMatches st) g"
  shows "roundEverStarted (fst (OnRoundStarted g ctx st fx))"
  using closed_events_clocks(4)[OF assms] .

theorem closed_round_start_marks_match_witness:
  "roundEverStarted (fst (OnRoundStarted ''m1'' sample_context sample_waiting SideEffects0)) \<and>
   \<not> roundEverStarted sample_waiting \<and> matchGuid sample_waiting = ''m2''"
  using closed_round_start_marks_match[of "''m1''" sample_waiting sample_context SideEffects0]
  by (simp add: sample_waiting_def MatchState0_def um_has_def)

text \<open>
  Whatever the rating and encounter services write into the live match keeps its invariant.
\<close>

theorem service_updates_keep_invariant:
  assumes "match_inv st"
  shows "match_inv (UpdateRosterMmr pid playlists matches st) \<and> match_inv (SetRosterFetchFailed pid st) \<and>
     match_inv (UpdatePlayerLifetimeData account pid ww lw wa la st) \<and>
     match_inv (SyncSessionMmrChange changes total_change st) \<and>
     match_inv (UpdateLastSessionRecapMmr changes total_change st) \<and> match_inv (SetLocalPrimaryId pid st)"
  using service_updates_keep[OF assms] by blast

theorem service_updates_keep_invariant_witness:
  "match_inv (UpdateRosterMmr ''Steam|1'' [(''2v2'', 1200)] [] MatchState0)"
  using service_updates_keep_invariant[OF match_inv_init] by blast

section \<open>Playlists, categories, arenas, forfeits\<close>

text \<open>Every rating category is read back from the text it is written as.\<close>

theorem category_text_roundtrip: "StringToMmrCategory (MmrCategoryToString c) = c"
  by (cases c) (simp_all add: MmrCategoryToString_def StringToMmrCategory_def)

text \<open>
  A playlist whose mode is one of those that may be left early is a known, ranked, recordable
  one, and its category is that of the mode.
\<close>

theorem early_exit_modes_are_ranked:
  assumes "IsTrackedRankedEarlyExitMode (CanonicalMode p)"
  shows "IsKnown p \<and> IsRanked p \<and> \<not> IsNonRecordable p \<and> \<not> IsCasual p \<and>
     Category p = CategoryFromMode (CanonicalMode p) \<and> MmrKey p = MmrCategoryToString (Category p)"
  using assms tracked_mode_playlist[OF assms]
  by (cases "Find p") (auto simp: CanonicalMode_def Category_def MmrKey_def class_defs coherent_row_def
      dest!: Find_coherent)

theorem early_exit_modes_are_ranked_witness: "IsRanked 11 \<and> MmrKey 11 = MmrCategoryToString (Category 11)"
proof -
  have "IsTrackedRankedEarlyExitMode (CanonicalMode 11)" by code_simp
  from early_exit_modes_are_ranked[OF this] show ?thesis by simp
qed

text \<open>
  The local player forfeited exactly when one of the scopes of the event says so of the local
  player or the local team.
\<close>

theorem forfeit_is_signalled:
  "HasExplicitLocalForfeitSignal scopes localTeam \<longleftrightarrow> (\<exists>s \<in> set scopes. scope_signals localTeam s)"
  by (rule forfeit_signal_exists)

section \<open>The analytics tracker\<close>

text \<open>
  Outside live play (no match, a finished match, a replay) no event of the ball, the boost, the
  stat feed, the players or the pauses reaches the analytics of the match.
\<close>

theorem only_live_play_analysed:
  assumes "live_play_event ev" "\<not> inMatch st \<or> matchFinalized st \<or> inReplay st \<or> nonLiveReplayActive st"
  shows "analytics (fst (dispatch ev ctx st fx)) = analytics st"
  using assms by (rule not_live_not_analysed)

theorem only_live_play_analysed_witness:
  "analytics (fst (dispatch (EvMatchPaused ''m1'') sample_context (sample_live\<lparr>inReplay := True\<rparr>) SideEffects0)) =
   analytics (sample_live\<lparr>inReplay := True\<rparr>)"
  by (rule only_live_play_analysed) (simp_all add: live_play_event_def)

text \<open>
  C14: whatever calls a tracker receives after construction, its player index is exact, so that no
  handler reads outside the player vector, and its counters are consistent.
\<close>

theorem tracker_reachable: "tracker_inv (fold tracker_call calls Tracker0)"
  by (rule tracker_reachable_inv)

text \<open>
  After any calls, looking a player up in the analytics by scanning finds exactly the player
  the tracker's index points at.
\<close>

theorem tracker_finds_players:
  "FindPlayer (m_data (fold tracker_call calls Tracker0)) i =
     map_option (\<lambda>n. player_at n (fold tracker_call calls Tracker0)) (map_of (m_playerIndex (fold tracker_call calls Tracker0)) i)"
  by (rule FindPlayer_reachable[OF tracker_reachable_inv])

text \<open>
  A car whose samples carry no supersonic flag spends no supersonic time, however fast it is:
  the classification by speed that a missing flag announces is never reached.
\<close>

theorem no_flag_no_supersonic:
  assumes "\<forall>s \<in> set samples. ss_supersonic s = 0"
  shows "ct_supersonicSeconds (settle_car samples car) = ct_supersonicSeconds car"
  using assms by (rule settle_car_no_flag)

theorem no_flag_no_supersonic_witness: "ct_supersonicSeconds (settle_car [] CarTelemetry0) = ct_supersonicSeconds CarTelemetry0"
  by (rule no_flag_no_supersonic) simp

text \<open>
  After every event the client's own interface shows the timestamps of its live match, also
  when the event switched the account or asked to close the session.
\<close>

theorem client_interface_mirrors:
  "ui_clocks (se_ui (cl_session (fst (client_step svc (TelemetryArrives ev r) c)))) =
   match_clocks (client_live (fst (client_step svc (TelemetryArrives ev r) c)))"
  by (simp add: OnEvent_clocks)

end
